(* ===== verification/Sea_Prelude.thy ===== *)
theory Sea_Prelude
  imports Main "HOL-Library.AList" "HOL-Library.Word"
begin

text \<open>
  Prelude of the development: the C++ library vocabulary the components share.

  \<^item> \<open>('k, 'v) table\<close> stands for \<open>std::unordered_map\<close> and \<open>std::map\<close>: an association
    list with one entry per key. The order of the list is the order in which the container
    iterates, so a theorem about all tables is a theorem about every iteration order.
  \<^item> \<open>string\<close> is a list of bytes, as \<open>std::string\<close> is; the classification functions are
    those of \<open><cctype>\<close> in the C locale.
  \<^item> \<open>size\<close> is \<open>std::size_t\<close>, a 64-bit word.
  \<^item> A throwing function returns \<open>string + 'a\<close>: \<open>Inl\<close> carries the message of the exception.
\<close>

named_theorems table_simps \<open>lookup laws of tables\<close>

type_synonym size = "64 word"
type_synonym ('k, 'v) table = "('k \<times> 'v) list"

section \<open>Tables\<close>

abbreviation tbl_get :: "('k, 'v) table \<Rightarrow> 'k \<Rightarrow> 'v option" where
  "tbl_get \<equiv> map_of"

abbreviation tbl_put :: "'k \<Rightarrow> 'v \<Rightarrow> ('k, 'v) table \<Rightarrow> ('k, 'v) table" where
  "tbl_put \<equiv> AList.update"

abbreviation tbl_erase :: "'k \<Rightarrow> ('k, 'v) table \<Rightarrow> ('k, 'v) table" where
  "tbl_erase \<equiv> AList.delete"

definition tbl_ok :: "('k, 'v) table \<Rightarrow> bool" where
  "tbl_ok t \<longleftrightarrow> distinct (map fst t)"

definition tbl_has :: "('k, 'v) table \<Rightarrow> 'k \<Rightarrow> bool" where
  "tbl_has t k \<longleftrightarrow> map_of t k \<noteq> None"

text \<open>
  The interface of a keyed store and what its clients need: a lookup law for every operation
  and a well-formedness invariant that every operation keeps.
\<close>

locale keyed_store =
  fixes get :: "'m \<Rightarrow> 'k \<Rightarrow> 'v option"
    and put :: "'k \<Rightarrow> 'v \<Rightarrow> 'm \<Rightarrow> 'm"
    and erase :: "'k \<Rightarrow> 'm \<Rightarrow> 'm"
    and empty :: "'m"
    and entries :: "'m \<Rightarrow> ('k \<times> 'v) list"
    and ok :: "'m \<Rightarrow> bool"
  assumes get_empty: "get empty k = None"
    and get_put: "get (put k v m) k' = (if k' = k then Some v else get m k')"
    and get_erase: "get (erase k m) k' = (if k' = k then None else get m k')"
    and entries_get: "ok m \<Longrightarrow> (k, v) \<in> set (entries m) \<longleftrightarrow> get m k = Some v"
    and ok_empty: "ok empty"
    and ok_put: "ok m \<Longrightarrow> ok (put k v m)"
    and ok_erase: "ok m \<Longrightarrow> ok (erase k m)"
begin

lemma get_put_same: "get (put k v m) k = Some v"
  by (simp add: get_put)

lemma get_put_other: "k' \<noteq> k \<Longrightarrow> get (put k v m) k' = get m k'"
  by (simp add: get_put)

lemma get_erase_same: "get (erase k m) k = None"
  by (simp add: get_erase)

lemma put_overwrites: "get (put k v (put k w m)) k' = get (put k v m) k'"
  by (simp add: get_put)

lemma erase_put: "get (erase k (put k v m)) k' = get (erase k m) k'"
  by (simp add: get_put get_erase)

lemma get_entry: "ok m \<Longrightarrow> get m k = Some v \<Longrightarrow> (k, v) \<in> set (entries m)"
  by (simp add: entries_get)

lemma entries_put:
  "ok m \<Longrightarrow> (k', w) \<in> set (entries (put k v m)) \<Longrightarrow>
   (k' = k \<and> w = v) \<or> (k' \<noteq> k \<and> (k', w) \<in> set (entries m))"
  using entries_get [of "put k v m" k' w] entries_get [of m k' w] ok_put [of m k v]
  by (auto simp: get_put split: if_splits)

lemma entries_erase:
  "ok m \<Longrightarrow> (k', w) \<in> set (entries (erase k m)) \<Longrightarrow> k' \<noteq> k \<and> (k', w) \<in> set (entries m)"
  using entries_get [of "erase k m" k' w] entries_get [of m k' w] ok_erase [of m k]
  by (auto simp: get_erase split: if_splits)

end

lemma tbl_get_put [table_simps, simp]:
  "map_of (AList.update k v t) k' = (if k' = k then Some v else map_of t k')"
  by (simp add: update_conv)

lemma tbl_get_erase [table_simps, simp]:
  "map_of (AList.delete k t) k' = (if k' = k then None else map_of t k')"
  by (simp add: delete_conv)

lemma tbl_ok_Nil [simp]: "tbl_ok []"
  by (simp add: tbl_ok_def)

lemma tbl_ok_put [simp]: "tbl_ok t \<Longrightarrow> tbl_ok (AList.update k v t)"
  by (simp add: tbl_ok_def distinct_update)

lemma tbl_ok_erase [simp]: "tbl_ok t \<Longrightarrow> tbl_ok (AList.delete k t)"
  by (simp add: tbl_ok_def distinct_delete)

lemma tbl_ok_Cons [simp]:
  "tbl_ok ((k, v) # t) \<longleftrightarrow> k \<notin> fst ` set t \<and> tbl_ok t"
  by (simp add: tbl_ok_def)

lemma tbl_ok_filter: "tbl_ok t \<Longrightarrow> tbl_ok (filter P t)"
  by (simp add: tbl_ok_def distinct_map_filter)

interpretation tbl: keyed_store map_of AList.update AList.delete "[]" "\<lambda>t. t" tbl_ok
proof
  fix m :: "('a \<times> 'b) list" and k v
  show "tbl_ok m \<Longrightarrow> ((k, v) \<in> set m) = (map_of m k = Some v)"
    unfolding tbl_ok_def by (metis map_of_eq_Some_iff)
qed simp_all

lemma tbl_length_put:
  "length (AList.update k v t) = (if map_of t k = None then Suc (length t) else length t)"
  by (induction t) auto

lemma tbl_length_erase_le: "length (AList.delete k t) \<le> length t"
  by (simp add: AList.delete_eq)

lemma tbl_get_filter:
  "tbl_ok t \<Longrightarrow> map_of (filter P t) k =
     (case map_of t k of None \<Rightarrow> None | Some v \<Rightarrow> if P (k, v) then Some v else None)"
  by (induction t) (auto simp: tbl_ok_def map_of_eq_None_iff split: option.splits)

lemma tbl_has_iff [simp]: "tbl_has t k \<longleftrightarrow> (\<exists>v. map_of t k = Some v)"
  by (simp add: tbl_has_def)

section \<open>Characters and strings\<close>

definition char_code :: "char \<Rightarrow> nat" where
  "char_code c = of_char c"

definition is_upper :: "char \<Rightarrow> bool" where
  "is_upper c \<longleftrightarrow> 65 \<le> char_code c \<and> char_code c \<le> 90"

definition is_lower :: "char \<Rightarrow> bool" where
  "is_lower c \<longleftrightarrow> 97 \<le> char_code c \<and> char_code c \<le> 122"

definition is_alpha :: "char \<Rightarrow> bool" where
  "is_alpha c \<longleftrightarrow> is_upper c \<or> is_lower c"

definition is_digit :: "char \<Rightarrow> bool" where
  "is_digit c \<longleftrightarrow> 48 \<le> char_code c \<and> char_code c \<le> 57"

definition is_alnum :: "char \<Rightarrow> bool" where
  "is_alnum c \<longleftrightarrow> is_alpha c \<or> is_digit c"

definition is_space :: "char \<Rightarrow> bool" where
  "is_space c \<longleftrightarrow> char_code c = 32 \<or> (9 \<le> char_code c \<and> char_code c \<le> 13)"

definition is_cntrl :: "char \<Rightarrow> bool" where
  "is_cntrl c \<longleftrightarrow> char_code c < 32 \<or> char_code c = 127"

definition char_lower :: "char \<Rightarrow> char" where
  "char_lower c = (if is_upper c then char_of (char_code c + 32) else c)"

definition char_upper :: "char \<Rightarrow> char" where
  "char_upper c = (if is_lower c then char_of (char_code c - 32) else c)"

definition str_lower :: "string \<Rightarrow> string" where
  "str_lower s = map char_lower s"

definition trim_by :: "(char \<Rightarrow> bool) \<Rightarrow> string \<Rightarrow> string" where
  "trim_by p s = rev (dropWhile p (rev (dropWhile p s)))"

definition starts_with :: "string \<Rightarrow> string \<Rightarrow> bool" where
  "starts_with s p \<longleftrightarrow> take (length p) s = p"

definition ends_with :: "string \<Rightarrow> string \<Rightarrow> bool" where
  "ends_with s p \<longleftrightarrow> take (length p) (rev s) = rev p"

text \<open>\<open>find(c)\<close> followed by \<open>substr\<close>: the part before the first \<open>c\<close>, and the part after it if there is one.\<close>

definition before_char :: "char \<Rightarrow> string \<Rightarrow> string" where
  "before_char c s = takeWhile (\<lambda>x. x \<noteq> c) s"

definition after_char :: "char \<Rightarrow> string \<Rightarrow> string option" where
  "after_char c s = (case dropWhile (\<lambda>x. x \<noteq> c) s of [] \<Rightarrow> None | _ # r \<Rightarrow> Some r)"

text \<open>\<open>std::string::find(needle)\<close>: the position of the first occurrence.\<close>

fun find_sub :: "string \<Rightarrow> string \<Rightarrow> nat option" where
  "find_sub needle [] = (if needle = [] then Some 0 else None)"
| "find_sub needle (c # s) =
     (if starts_with (c # s) needle then Some 0 else map_option Suc (find_sub needle s))"

text \<open>\<open>operator<\<close> on \<open>std::string\<close>: lexicographic on unsigned bytes.\<close>

fun str_less :: "string \<Rightarrow> string \<Rightarrow> bool" where
  "str_less _ [] = False"
| "str_less [] (_ # _) = True"
| "str_less (a # s) (b # t) =
     (char_code a < char_code b \<or> (char_code a = char_code b \<and> str_less s t))"

text \<open>Pieces with a separator between them.\<close>

fun join_with :: "string \<Rightarrow> string list \<Rightarrow> string" where
  "join_with sep [] = []"
| "join_with sep [s] = s"
| "join_with sep (s # t # rest) = s @ sep @ join_with sep (t # rest)"

text \<open>A message part in single quotes.\<close>

text \<open>\<open>rfind(c)\<close>: the position of the last occurrence.\<close>

fun rfind_char :: "char \<Rightarrow> string \<Rightarrow> nat option" where
  "rfind_char c [] = None"
| "rfind_char c (x # xs) =
     (case rfind_char c xs of Some i \<Rightarrow> Some (Suc i) | None \<Rightarrow> if x = c then Some 0 else None)"

definition quoted :: "string \<Rightarrow> string" where
  "quoted s = CHR 0x27 # s @ [CHR 0x27]"

text \<open>\<open>std::to_string\<close> on integers.\<close>

fun nat_str :: "nat \<Rightarrow> string" where
  "nat_str n = (if n < 10 then [char_of (48 + n)] else nat_str (n div 10) @ [char_of (48 + n mod 10)])"

declare nat_str.simps [simp del]

definition int_str :: "int \<Rightarrow> string" where
  "int_str i = (if i < 0 then ''-'' @ nat_str (nat (- i)) else nat_str (nat i))"

lemmas char_class_defs =
  is_upper_def is_lower_def is_alpha_def is_digit_def is_alnum_def is_space_def is_cntrl_def
  char_code_def char_lower_def char_upper_def

lemma char_code_less [simp]: "char_code c < 256"
  by (simp add: char_code_def)

lemma char_code_inj: "char_code a = char_code b \<longleftrightarrow> a = b"
  by (simp add: char_code_def)

lemma str_lower_Nil [simp]: "str_lower [] = []"
  by (simp add: str_lower_def)

lemma str_lower_Cons [simp]: "str_lower (c # s) = char_lower c # str_lower s"
  by (simp add: str_lower_def)

lemma length_str_lower [simp]: "length (str_lower s) = length s"
  by (simp add: str_lower_def)

lemma str_lower_upper [simp]: "str_lower (map char_upper s) = str_lower s"
proof -
  have "char_lower (char_upper c) = char_lower c" for c
    by (auto simp: char_class_defs)
  then show ?thesis by (simp add: str_lower_def)
qed

lemma str_less_irrefl [simp]: "\<not> str_less s s"
  by (induction s) auto

lemma str_less_trans: "str_less a b \<Longrightarrow> str_less b c \<Longrightarrow> str_less a c"
proof (induction a b arbitrary: c rule: str_less.induct)
  case (3 a s b t)
  then show ?case by (cases c) auto
next
  case (2 b t)
  then show ?case by (cases c) auto
qed simp

lemma str_less_linear: "str_less a b \<or> a = b \<or> str_less b a"
proof (induction a b rule: str_less.induct)
  case (1 s)
  then show ?case by (cases s) auto
qed (auto simp: char_code_inj)

lemma set_dropWhile_subset: "set (dropWhile p s) \<subseteq> set s"
  by (induction s) auto

lemma set_trim_by_subset: "set (trim_by p s) \<subseteq> set s"
proof -
  have "set (dropWhile p (rev (dropWhile p s))) \<subseteq> set (rev (dropWhile p s))"
    by (rule set_dropWhile_subset)
  also have "\<dots> \<subseteq> set s"
    using set_dropWhile_subset by simp
  finally show ?thesis by (simp add: trim_by_def)
qed

lemma split_at_char:
  "after_char c s = Some r \<Longrightarrow> s = before_char c s @ c # r"
  unfolding after_char_def before_char_def
  by (induction s) (auto split: if_splits)

lemma after_char_shorter: "after_char c s = Some r \<Longrightarrow> length r < length s"
  using split_at_char [of c s r] by (metis length_append length_Cons less_add_Suc2 add_Suc_right)

lemma not_in_before_char [simp]: "c \<notin> set (before_char c s)"
  by (auto simp: before_char_def dest: set_takeWhileD)

lemma after_char_append [simp]:
  "c \<notin> set u \<Longrightarrow> after_char c (u @ c # r) = Some r"
  unfolding after_char_def by (induction u) auto

lemma before_char_append [simp]:
  "c \<notin> set u \<Longrightarrow> before_char c (u @ c # r) = u"
  unfolding before_char_def by (induction u) auto

lemma before_char_none [simp]: "c \<notin> set u \<Longrightarrow> before_char c u = u"
  unfolding before_char_def by (induction u) auto

lemma after_char_None_iff: "after_char c s = None \<longleftrightarrow> c \<notin> set s"
  unfolding after_char_def by (induction s) auto

lemma starts_with_append [simp]: "starts_with (p @ s) p"
  by (simp add: starts_with_def)

lemma starts_withD: "starts_with s p \<Longrightarrow> s = p @ drop (length p) s"
  unfolding starts_with_def by (metis append_take_drop_id)

lemma starts_with_iff: "starts_with s p \<longleftrightarrow> (\<exists>r. s = p @ r)"
  using starts_withD by (auto simp: starts_with_def)

lemma find_sub_Some_iff: "find_sub n s \<noteq> None \<longleftrightarrow> (\<exists>u v. s = u @ n @ v)"
proof (induction s)
  case Nil
  then show ?case by simp
next
  case (Cons c s)
  have "(\<exists>u v. c # s = u @ n @ v) \<longleftrightarrow> (\<exists>r. c # s = n @ r) \<or> (\<exists>u v. s = u @ n @ v)"
    by (metis append_Cons append_Nil list.exhaust list.inject)
  with Cons show ?case by (auto simp: starts_with_iff)
qed

section \<open>Throwing computations and loops\<close>

lemma find_Some_in: "find P xs = Some x \<Longrightarrow> x \<in> set xs \<and> P x"
  by (induction xs) (auto split: if_splits)

lemma set_map_filter_iff: "y \<in> set (List.map_filter f xs) \<longleftrightarrow> (\<exists>x \<in> set xs. f x = Some y)"
  by (force simp: List.map_filter_def)

lemma rfind_char_last: "c \<notin> set k \<Longrightarrow> rfind_char c (s @ c # k) = Some (length s)"
proof (induction s)
  case Nil
  have "c \<notin> set k \<Longrightarrow> rfind_char c k = None" by (induction k) auto
  with Nil show ?case by simp
qed simp

text \<open>Run a throwing function over a list, stopping at the first exception.\<close>

fun each_throws :: "('a \<Rightarrow> string option) \<Rightarrow> 'a list \<Rightarrow> string option" where
  "each_throws f [] = None"
| "each_throws f (x # xs) = (case f x of Some e \<Rightarrow> Some e | None \<Rightarrow> each_throws f xs)"

lemma each_throws_None_iff: "each_throws f xs = None \<longleftrightarrow> (\<forall>x \<in> set xs. f x = None)"
  by (induction xs) (auto split: option.splits)

lemma each_throws_cong [fundef_cong]:
  "xs = ys \<Longrightarrow> (\<And>x. x \<in> set ys \<Longrightarrow> f x = g x) \<Longrightarrow> each_throws f xs = each_throws g ys"
  by (induction xs arbitrary: ys) (auto split: option.splits)

end
