(* ===== verification/Policy_Model.thy ===== *)
theory Policy_Model
  imports Sea_Prelude
begin

text \<open>
  The data model of the access control library (\<open>libs/domain/access_control\<close>): the enums with
  their YAML spellings, value references, predicates, the condition tree with its builders and
  structural validation, the subject / resource / context of a request, the rule of one
  operation, the rules of one entity and the configuration of a service.
  The proofs relate \<open>PolicyCondition::validate\<close> to the shape of the tree and show the enum
  spellings round trip.
\<close>

section \<open>Enums\<close>

datatype crud_operation = List | GetById | Create | Update | Delete

datatype policy_condition_type = TPredicate | TAll | TAny | TNot

datatype policy_value_source = SLiteral | SSubject | SResource | SContext

datatype policy_operator =
    Equals | NotEquals | In | NotIn | Contains | StartsWith | EndsWith
  | GreaterThan | GreaterThanOrEqual | LessThan | LessThanOrEqual
  | Exists | NotExists | RegexMatch | Intersects

datatype default_policy = DenyAll | AllowAll

datatype abac_mode = AbacPermissive | AbacStrict

fun crud_operation_to_string :: "crud_operation \<Rightarrow> string" where
  "crud_operation_to_string List = ''list''"
| "crud_operation_to_string GetById = ''get_by_id''"
| "crud_operation_to_string Create = ''create''"
| "crud_operation_to_string Update = ''update''"
| "crud_operation_to_string Delete = ''delete''"

definition crud_operation_from_string :: "string \<Rightarrow> crud_operation option" where
  "crud_operation_from_string s =
     (let lower = str_lower s in
      if lower = ''list'' then Some List
      else if lower = ''get_by_id'' \<or> lower = ''get'' then Some GetById
      else if lower = ''create'' then Some Create
      else if lower = ''update'' then Some Update
      else if lower = ''delete'' then Some Delete
      else None)"

fun policy_condition_type_to_string :: "policy_condition_type \<Rightarrow> string" where
  "policy_condition_type_to_string TPredicate = ''predicate''"
| "policy_condition_type_to_string TAll = ''all''"
| "policy_condition_type_to_string TAny = ''any''"
| "policy_condition_type_to_string TNot = ''not''"

definition policy_condition_type_from_string :: "string \<Rightarrow> policy_condition_type option" where
  "policy_condition_type_from_string s =
     (let lower = str_lower s in
      if lower = ''predicate'' then Some TPredicate
      else if lower = ''all'' \<or> lower = ''and'' then Some TAll
      else if lower = ''any'' \<or> lower = ''or'' then Some TAny
      else if lower = ''not'' then Some TNot
      else None)"

fun policy_value_source_to_string :: "policy_value_source \<Rightarrow> string" where
  "policy_value_source_to_string SLiteral = ''literal''"
| "policy_value_source_to_string SSubject = ''subject''"
| "policy_value_source_to_string SResource = ''resource''"
| "policy_value_source_to_string SContext = ''context''"

definition policy_value_source_from_string :: "string \<Rightarrow> policy_value_source option" where
  "policy_value_source_from_string s =
     (let lower = str_lower s in
      if lower = ''literal'' then Some SLiteral
      else if lower = ''subject'' then Some SSubject
      else if lower = ''resource'' then Some SResource
      else if lower = ''context'' then Some SContext
      else None)"

fun policy_operator_to_string :: "policy_operator \<Rightarrow> string" where
  "policy_operator_to_string Equals = ''equals''"
| "policy_operator_to_string NotEquals = ''not_equals''"
| "policy_operator_to_string In = ''in''"
| "policy_operator_to_string NotIn = ''not_in''"
| "policy_operator_to_string Contains = ''contains''"
| "policy_operator_to_string StartsWith = ''starts_with''"
| "policy_operator_to_string EndsWith = ''ends_with''"
| "policy_operator_to_string GreaterThan = ''greater_than''"
| "policy_operator_to_string GreaterThanOrEqual = ''greater_than_or_equal''"
| "policy_operator_to_string LessThan = ''less_than''"
| "policy_operator_to_string LessThanOrEqual = ''less_than_or_equal''"
| "policy_operator_to_string Exists = ''exists''"
| "policy_operator_to_string NotExists = ''not_exists''"
| "policy_operator_to_string RegexMatch = ''regex_match''"
| "policy_operator_to_string Intersects = ''intersects''"

definition policy_operator_from_string :: "string \<Rightarrow> policy_operator option" where
  "policy_operator_from_string s =
     (let lower = str_lower s in
      if lower = ''equals'' \<or> lower = ''eq'' \<or> lower = ''=='' then Some Equals
      else if lower = ''not_equals'' \<or> lower = ''ne'' \<or> lower = ''!='' then Some NotEquals
      else if lower = ''in'' then Some In
      else if lower = ''not_in'' \<or> lower = ''notin'' then Some NotIn
      else if lower = ''contains'' then Some Contains
      else if lower = ''starts_with'' \<or> lower = ''startswith'' then Some StartsWith
      else if lower = ''ends_with'' \<or> lower = ''endswith'' then Some EndsWith
      else if lower = ''greater_than'' \<or> lower = ''gt'' \<or> lower = ''>'' then Some GreaterThan
      else if lower = ''greater_than_or_equal'' \<or> lower = ''gte'' \<or> lower = ''>='' then Some GreaterThanOrEqual
      else if lower = ''less_than'' \<or> lower = ''lt'' \<or> lower = ''<'' then Some LessThan
      else if lower = ''less_than_or_equal'' \<or> lower = ''lte'' \<or> lower = ''<='' then Some LessThanOrEqual
      else if lower = ''exists'' then Some Exists
      else if lower = ''not_exists'' \<or> lower = ''notexists'' then Some NotExists
      else if lower = ''regex_match'' \<or> lower = ''regex'' \<or> lower = ''matches'' then Some RegexMatch
      else if lower = ''intersects'' then Some Intersects
      else None)"

fun default_policy_to_string :: "default_policy \<Rightarrow> string" where
  "default_policy_to_string DenyAll = ''deny''"
| "default_policy_to_string AllowAll = ''allow''"

definition default_policy_from_string :: "string \<Rightarrow> default_policy option" where
  "default_policy_from_string s =
     (let lower = str_lower s in
      if lower = ''deny'' then Some DenyAll
      else if lower = ''allow'' then Some AllowAll
      else None)"

section \<open>Value references and predicates\<close>

record policy_value_ref =
  source :: policy_value_source
  path :: string
  literal :: string
  literal_list :: "string list"

definition default_value_ref :: policy_value_ref where
  "default_value_ref = \<lparr>source = SLiteral, path = [], literal = [], literal_list = []\<rparr>"

definition from_subject :: "string \<Rightarrow> policy_value_ref" where
  "from_subject p = default_value_ref\<lparr>source := SSubject, path := p\<rparr>"

definition from_resource :: "string \<Rightarrow> policy_value_ref" where
  "from_resource p = default_value_ref\<lparr>source := SResource, path := p\<rparr>"

definition from_context :: "string \<Rightarrow> policy_value_ref" where
  "from_context p = default_value_ref\<lparr>source := SContext, path := p\<rparr>"

definition from_literal :: "string \<Rightarrow> policy_value_ref" where
  "from_literal v = default_value_ref\<lparr>source := SLiteral, literal := v\<rparr>"

definition from_literal_list :: "string list \<Rightarrow> policy_value_ref" where
  "from_literal_list vs = default_value_ref\<lparr>source := SLiteral, literal_list := vs\<rparr>"

record policy_predicate =
  p_left :: policy_value_ref
  p_op :: policy_operator
  p_right :: policy_value_ref

definition make_predicate ::
  "policy_value_ref \<Rightarrow> policy_operator \<Rightarrow> policy_value_ref \<Rightarrow> policy_predicate" where
  "make_predicate l oper r = \<lparr>p_left = l, p_op = oper, p_right = r\<rparr>"

section \<open>The condition tree\<close>

datatype policy_condition =
  PolicyCondition
    (cond_type: policy_condition_type)
    (cond_predicate: "policy_predicate option")
    (cond_children: "policy_condition list")

definition empty_condition :: policy_condition where
  "empty_condition = PolicyCondition TPredicate None []"

definition of_predicate :: "policy_predicate \<Rightarrow> policy_condition" where
  "of_predicate p = PolicyCondition TPredicate (Some p) []"

definition all_of :: "policy_condition list \<Rightarrow> policy_condition" where
  "all_of cs = PolicyCondition TAll None cs"

definition any_of :: "policy_condition list \<Rightarrow> policy_condition" where
  "any_of cs = PolicyCondition TAny None cs"

definition not_of :: "policy_condition \<Rightarrow> policy_condition" where
  "not_of c = PolicyCondition TNot None [c]"

fun condition_is_empty :: "policy_condition \<Rightarrow> bool" where
  "condition_is_empty (PolicyCondition TPredicate p cs) = (p = None)"
| "condition_is_empty (PolicyCondition _ p cs) = (cs = [])"

definition add_child :: "policy_condition \<Rightarrow> policy_condition \<Rightarrow> string + policy_condition" where
  "add_child c child =
     (case c of PolicyCondition t p cs \<Rightarrow>
        if t = TPredicate then
          Inl ''Cannot add child to a Predicate condition. Use type All/Any/Not for composite conditions.''
        else if t = TNot \<and> cs \<noteq> [] then
          Inl ''Not condition can have only one child.''
        else Inr (PolicyCondition t p (cs @ [child])))"

text \<open>\<open>validate\<close> returns the message it throws, or \<open>None\<close>. Children are visited left to right.\<close>

fun condition_validate :: "policy_condition \<Rightarrow> string option" where
  "condition_validate (PolicyCondition TPredicate p cs) =
     (if p = None then Some ''Predicate condition must have a predicate value.''
      else if cs \<noteq> [] then Some ''Predicate condition must not have children.''
      else None)"
| "condition_validate (PolicyCondition TAll p cs) =
     (if p \<noteq> None then Some ''Composite condition (All/Any) must not have a predicate.''
      else each_throws condition_validate cs)"
| "condition_validate (PolicyCondition TAny p cs) =
     (if p \<noteq> None then Some ''Composite condition (All/Any) must not have a predicate.''
      else each_throws condition_validate cs)"
| "condition_validate (PolicyCondition TNot p cs) =
     (if p \<noteq> None then Some ''Not condition must not have a predicate.''
      else case cs of [c] \<Rightarrow> condition_validate c
           | _ \<Rightarrow> Some ''Not condition must have exactly one child.'')"

text \<open>The shape the validation promises: the trees the builders \<open>of_predicate\<close>, \<open>all_of\<close>, \<open>any_of\<close> and \<open>not_of\<close> generate.\<close>

inductive well_formed :: "policy_condition \<Rightarrow> bool" where
  wf_predicate: "well_formed (of_predicate p)"
| wf_all: "(\<And>c. c \<in> set cs \<Longrightarrow> well_formed c) \<Longrightarrow> well_formed (all_of cs)"
| wf_any: "(\<And>c. c \<in> set cs \<Longrightarrow> well_formed c) \<Longrightarrow> well_formed (any_of cs)"
| wf_not: "well_formed c \<Longrightarrow> well_formed (not_of c)"

section \<open>Subject, resource, context\<close>

record policy_subject =
  subj_id :: string
  subj_email :: string
  subj_roles :: "string list"
  subj_attributes :: "(string, string) table"

definition empty_subject :: policy_subject where
  "empty_subject = \<lparr>subj_id = [], subj_email = [], subj_roles = [], subj_attributes = []\<rparr>"

fun role_loop :: "string list \<Rightarrow> string \<Rightarrow> bool" where
  "role_loop [] role = False"
| "role_loop (r # rs) role = (if r = role then True else role_loop rs role)"

definition has_role :: "policy_subject \<Rightarrow> string \<Rightarrow> bool" where
  "has_role s role = role_loop (subj_roles s) role"

record policy_resource =
  res_entity_name :: string
  res_id :: string
  res_attributes :: "(string, string) table"

definition empty_resource :: policy_resource where
  "empty_resource = \<lparr>res_entity_name = [], res_id = [], res_attributes = []\<rparr>"

definition resource_is_empty :: "policy_resource \<Rightarrow> bool" where
  "resource_is_empty r \<longleftrightarrow> res_entity_name r = [] \<and> res_id r = [] \<and> res_attributes r = []"

record policy_context =
  ctx_method :: string
  ctx_path :: string
  ctx_ip :: string
  ctx_now :: int
  ctx_attributes :: "(string, string) table"

definition get_attribute :: "(string, string) table \<Rightarrow> string \<Rightarrow> string option" where
  "get_attribute attrs key = tbl_get attrs key"

section \<open>Rules and configuration\<close>

record access_control_spec =
  spec_condition :: policy_condition

definition predicate_uses_resource :: "policy_predicate \<Rightarrow> bool" where
  "predicate_uses_resource p \<longleftrightarrow> source (p_left p) = SResource \<or> source (p_right p) = SResource"

fun condition_uses_resource :: "policy_condition \<Rightarrow> bool" where
  "condition_uses_resource (PolicyCondition TPredicate p cs) =
     (case p of None \<Rightarrow> False
      | Some pred \<Rightarrow> source (p_left pred) = SResource \<or> source (p_right pred) = SResource)"
| "condition_uses_resource (PolicyCondition _ p cs) = list_ex condition_uses_resource cs"

definition requires_resource :: "access_control_spec \<Rightarrow> bool" where
  "requires_resource sp = condition_uses_resource (spec_condition sp)"

record entity_access_control =
  specs :: "(crud_operation, access_control_spec) table"
  scope_field :: string
  owner_field :: string
  abac_mode_override :: "abac_mode option"

definition empty_access_control :: entity_access_control where
  "empty_access_control = \<lparr>specs = [], scope_field = [], owner_field = [], abac_mode_override = None\<rparr>"

definition set_spec ::
  "crud_operation \<Rightarrow> access_control_spec \<Rightarrow> entity_access_control \<Rightarrow> entity_access_control" where
  "set_spec oper sp ac = ac\<lparr>specs := tbl_put oper sp (specs ac)\<rparr>"

definition find_spec :: "entity_access_control \<Rightarrow> crud_operation \<Rightarrow> access_control_spec option" where
  "find_spec ac oper = tbl_get (specs ac) oper"

definition has_spec :: "entity_access_control \<Rightarrow> crud_operation \<Rightarrow> bool" where
  "has_spec ac oper = tbl_has (specs ac) oper"

definition entity_access_validate :: "entity_access_control \<Rightarrow> string option" where
  "entity_access_validate ac = each_throws (\<lambda>(oper, sp). condition_validate (spec_condition sp)) (specs ac)"

record access_control_config =
  enabled :: bool
  default_policy :: default_policy
  roles_claim_name :: string
  admin_role :: string
  default_allow_admin :: bool
  default_scope_field :: string
  declared_roles :: "string list"
  abac_mode :: abac_mode

definition default_access_config :: access_control_config where
  "default_access_config =
     \<lparr>enabled = False, default_policy = DenyAll, roles_claim_name = ''role'', admin_role = ''admin'',
      default_allow_admin = True, default_scope_field = [], declared_roles = [],
      abac_mode = AbacPermissive\<rparr>"

definition access_config_safe_defaults :: access_control_config where
  "access_config_safe_defaults =
     default_access_config\<lparr>enabled := True, default_policy := DenyAll, roles_claim_name := ''role'',
       admin_role := ''admin'', default_allow_admin := True\<rparr>"

definition is_role_declared :: "access_control_config \<Rightarrow> string \<Rightarrow> bool" where
  "is_role_declared cfg role = (if declared_roles cfg = [] then True else role \<in> set (declared_roles cfg))"

text \<open>\<open>ValidationResponse\<close>: the message and \<open>is_valid\<close>.\<close>

definition access_config_validate :: "access_control_config \<Rightarrow> string \<times> bool option" where
  "access_config_validate cfg =
     (if \<not> enabled cfg then (''rien a valider'', None)
      else if roles_claim_name cfg = [] then
        (''AccessControlConfig: roles_claim_name cannot be empty when enabled'', Some False)
      else if admin_role cfg = [] then
        (''AccessControlConfig: admin_role cannot be empty when enabled'', Some False)
      else if declared_roles cfg \<noteq> [] \<and> \<not> is_role_declared cfg (admin_role cfg) then
        (''AccessControlConfig: admin_role '' @ quoted (admin_role cfg) @ '' is not in declared_roles list'', Some False)
      else (''success'', Some True))"

section \<open>Lemmas\<close>

lemmas builder_defs = of_predicate_def all_of_def any_of_def not_of_def empty_condition_def

lemmas ref_defs = default_value_ref_def from_subject_def from_resource_def from_context_def
  from_literal_def from_literal_list_def

inductive_cases well_formed_cases: "well_formed (PolicyCondition t p cs)"

inductive_simps well_formed_predicate_iff: "well_formed (PolicyCondition TPredicate p cs)"
inductive_simps well_formed_all_iff: "well_formed (PolicyCondition TAll p cs)"
inductive_simps well_formed_any_iff: "well_formed (PolicyCondition TAny p cs)"
inductive_simps well_formed_not_iff: "well_formed (PolicyCondition TNot p cs)"

lemmas well_formed_iffs =
  well_formed_predicate_iff well_formed_all_iff well_formed_any_iff well_formed_not_iff

lemma predicate_uses_resource_condition:
  "condition_uses_resource (of_predicate p) = predicate_uses_resource p"
  by (simp add: of_predicate_def predicate_uses_resource_def)

lemma role_loop_iff: "role_loop rs r \<longleftrightarrow> r \<in> set rs"
  by (induction rs) auto

lemma condition_validate_iff: "condition_validate c = None \<longleftrightarrow> well_formed c"
proof (induction c rule: condition_validate.induct)
  case (4 p cs)
  then show ?case
    by (auto simp: builder_defs well_formed_iffs split: list.splits)
qed (auto simp: builder_defs well_formed_iffs each_throws_None_iff)

lemma find_spec_set_spec:
  "find_spec (set_spec oper sp ac) o' = (if o' = oper then Some sp else find_spec ac o')"
  by (simp add: find_spec_def set_spec_def)

end
