(* ===== verification/Cpp_Double.thy ===== *)
theory Cpp_Double
  imports Sea_Prelude
begin

text \<open>
  The C++ \<open>double\<close> as its IEEE-754 bit pattern, with what the program uses of it: the
  comparisons, \<open>std::to_string\<close> (\<open>printf ("%f")\<close>) and \<open>std::stod\<close> applied to a whole string.
  The magnitude bits of two finite doubles compare like integers, so \<open>dbl_key\<close> maps a double
  to an integer that carries the order; \<open>NaN\<close> compares false with everything.
  \<open>std::stod\<close> throws on a range error; glibc reports one on overflow and on an inexact
  subnormal result.
\<close>

type_synonym double = "64 word"

section \<open>Decoding and comparison\<close>

definition dbl_mag :: "double \<Rightarrow> nat" where
  "dbl_mag d = unat d mod 2 ^ 63"

definition dbl_neg :: "double \<Rightarrow> bool" where
  "dbl_neg d \<longleftrightarrow> 2 ^ 63 \<le> unat d"

definition dbl_inf_mag :: nat where
  "dbl_inf_mag = 2047 * 2 ^ 52"

definition dbl_nan :: "double \<Rightarrow> bool" where
  "dbl_nan d \<longleftrightarrow> dbl_inf_mag < dbl_mag d"

definition dbl_key :: "double \<Rightarrow> int" where
  "dbl_key d = (if dbl_neg d then - int (dbl_mag d) else int (dbl_mag d))"

definition dbl_lt :: "double \<Rightarrow> double \<Rightarrow> bool" where
  "dbl_lt a b \<longleftrightarrow> \<not> dbl_nan a \<and> \<not> dbl_nan b \<and> dbl_key a < dbl_key b"

definition dbl_le :: "double \<Rightarrow> double \<Rightarrow> bool" where
  "dbl_le a b \<longleftrightarrow> \<not> dbl_nan a \<and> \<not> dbl_nan b \<and> dbl_key a \<le> dbl_key b"

definition dbl_eq :: "double \<Rightarrow> double \<Rightarrow> bool" where
  "dbl_eq a b \<longleftrightarrow> \<not> dbl_nan a \<and> \<not> dbl_nan b \<and> dbl_key a = dbl_key b"

section \<open>Correctly rounded conversion\<close>

text \<open>Division to the nearest natural number, ties to even.\<close>

definition div_half_even :: "nat \<Rightarrow> nat \<Rightarrow> nat" where
  "div_half_even n d =
     (let q = n div d; r = n mod d
      in if 2 * r < d then q else if d < 2 * r then Suc q else if even q then q else Suc q)"

fun bit_len :: "nat \<Rightarrow> nat" where
  "bit_len n = (if n = 0 then 0 else Suc (bit_len (n div 2)))"

declare bit_len.simps [simp del]

text \<open>
  \<open>dbl_mag_of_ratio n d\<close> is the magnitude pattern of \<open>n / d\<close> rounded to nearest (53 bits, or
  fewer below \<open>2 ^ -1022\<close>), and whether the conversion was exact. \<open>2 ^ k \<le> n / d < 2 ^ (k + 1)\<close>
  picks the exponent \<open>e\<close> of the last place; a carry out of the significand moves into the
  exponent field by itself.
\<close>

definition dbl_mag_of_ratio :: "nat \<Rightarrow> nat \<Rightarrow> nat \<times> bool" where
  "dbl_mag_of_ratio n d =
     (if n = 0 then (0, True)
      else let k0 = int (bit_len n) - int (bit_len d);
               at_least = (if 0 \<le> k0 then d * 2 ^ nat k0 \<le> n else d \<le> n * 2 ^ nat (- k0));
               k = (if at_least then k0 else k0 - 1);
               e = max (k - 52) (- 1074);
               num = (if e < 0 then n * 2 ^ nat (- e) else n);
               den = (if e < 0 then d else d * 2 ^ nat e);
               q = div_half_even num den
           in (nat (e + 1074) * 2 ^ 52 + q, num mod den = 0))"

definition dbl_of_ratio :: "bool \<Rightarrow> nat \<Rightarrow> nat \<Rightarrow> double option" where
  "dbl_of_ratio neg n d =
     (case dbl_mag_of_ratio n d of (mag, exact) \<Rightarrow>
        if dbl_inf_mag \<le> mag then None
        else if mag < 2 ^ 52 \<and> \<not> exact then None
        else Some (of_nat (mag + (if neg then 2 ^ 63 else 0))))"

section \<open>Parsing: \<open>std::stod\<close> consuming the whole string\<close>

definition digit_val :: "char \<Rightarrow> nat" where
  "digit_val c = char_code c - 48"

definition is_xdigit :: "char \<Rightarrow> bool" where
  "is_xdigit c \<longleftrightarrow> is_digit c \<or> (97 \<le> char_code (char_lower c) \<and> char_code (char_lower c) \<le> 102)"

definition xdigit_val :: "char \<Rightarrow> nat" where
  "xdigit_val c = (if is_digit c then char_code c - 48 else char_code (char_lower c) - 87)"

definition base_val :: "nat \<Rightarrow> (char \<Rightarrow> nat) \<Rightarrow> string \<Rightarrow> nat" where
  "base_val b val s = foldl (\<lambda>acc c. acc * b + val c) 0 s"

definition split_sign :: "string \<Rightarrow> bool \<times> string" where
  "split_sign s =
     (case s of [] \<Rightarrow> (False, [])
      | c # r \<Rightarrow> if c = CHR ''-'' then (True, r) else if c = CHR ''+'' then (False, r) else (False, c # r))"

text \<open>An optional exponent part introduced by \<open>mark\<close>; the whole rest must be consumed.\<close>

definition parse_exponent :: "char \<Rightarrow> string \<Rightarrow> int option" where
  "parse_exponent mark s =
     (case s of [] \<Rightarrow> Some 0
      | c # r \<Rightarrow>
          if char_lower c = mark then
            (case split_sign r of (neg, ds) \<Rightarrow>
               if ds \<noteq> [] \<and> list_all is_digit ds
               then Some ((if neg then -1 else 1) * int (base_val 10 digit_val ds)) else None)
          else None)"

definition split_number :: "(char \<Rightarrow> bool) \<Rightarrow> string \<Rightarrow> string \<times> string \<times> string" where
  "split_number p s =
     (let ip = takeWhile p s; r = dropWhile p s
      in case r of [] \<Rightarrow> (ip, [], [])
         | c # r' \<Rightarrow> if c = CHR ''.'' then (ip, takeWhile p r', dropWhile p r') else (ip, [], r))"

definition parse_decimal :: "bool \<Rightarrow> string \<Rightarrow> double option" where
  "parse_decimal neg s =
     (case split_number is_digit s of (ip, fp, r) \<Rightarrow>
        if ip = [] \<and> fp = [] then None
        else case parse_exponent (CHR ''e'') r of None \<Rightarrow> None
          | Some x \<Rightarrow>
              let n = base_val 10 digit_val (ip @ fp); y = x - int (length fp)
              in if 0 \<le> y then dbl_of_ratio neg (n * 10 ^ nat y) 1
                 else dbl_of_ratio neg n (10 ^ nat (- y)))"

definition parse_hexadecimal :: "bool \<Rightarrow> string \<Rightarrow> double option" where
  "parse_hexadecimal neg s =
     (case split_number is_xdigit s of (ip, fp, r) \<Rightarrow>
        if ip = [] \<and> fp = [] then None
        else case parse_exponent (CHR ''p'') r of None \<Rightarrow> None
          | Some x \<Rightarrow>
              let n = base_val 16 xdigit_val (ip @ fp); y = x - 4 * int (length fp)
              in if 0 \<le> y then dbl_of_ratio neg (n * 2 ^ nat y) 1
                 else dbl_of_ratio neg n (2 ^ nat (- y)))"

definition is_nan_literal :: "string \<Rightarrow> bool" where
  "is_nan_literal low \<longleftrightarrow>
     low = ''nan'' \<or>
     (starts_with low ''nan('' \<and> ends_with low '')'' \<and>
      list_all (\<lambda>c. is_alnum c \<or> c = CHR ''_'') (butlast (drop 4 low)))"

definition stod_whole :: "string \<Rightarrow> double option" where
  "stod_whole s =
     (case split_sign (dropWhile is_space s) of (neg, t) \<Rightarrow>
        let low = str_lower t; sgn = (if neg then 2 ^ 63 else 0) :: nat
        in if low = ''inf'' \<or> low = ''infinity'' then Some (of_nat (dbl_inf_mag + sgn))
           else if is_nan_literal low then Some (of_nat (dbl_inf_mag + 2 ^ 51 + sgn))
           else if starts_with low ''0x'' then parse_hexadecimal neg (drop 2 t)
           else parse_decimal neg t)"

section \<open>Printing: \<open>std::to_string(double)\<close>\<close>

definition dbl_significand :: "double \<Rightarrow> nat \<times> int" where
  "dbl_significand d =
     (let x = dbl_mag d div 2 ^ 52; f = dbl_mag d mod 2 ^ 52
      in if x = 0 then (f, - 1074) else (f + 2 ^ 52, int x - 1075))"

definition pad_zeros :: "nat \<Rightarrow> string \<Rightarrow> string" where
  "pad_zeros n s = replicate (n - length s) (CHR ''0'') @ s"

definition dbl_str :: "double \<Rightarrow> string" where
  "dbl_str d =
     (if dbl_neg d then ''-'' else '''') @
     (if dbl_nan d then ''nan''
      else if dbl_mag d = dbl_inf_mag then ''inf''
      else case dbl_significand d of (m, e) \<Rightarrow>
        let scaled = (if 0 \<le> e then m * 10 ^ 6 * 2 ^ nat e
                      else div_half_even (m * 10 ^ 6) (2 ^ nat (- e)))
        in nat_str (scaled div 10 ^ 6) @ ''.'' @ pad_zeros 6 (nat_str (scaled mod 10 ^ 6)))"

section \<open>Order laws\<close>

lemmas dbl_cmp_defs = dbl_lt_def dbl_le_def dbl_eq_def

lemma dbl_lt_irrefl [simp]: "\<not> dbl_lt a a"
  by (simp add: dbl_lt_def)

lemma dbl_lt_asym: "dbl_lt a b \<Longrightarrow> \<not> dbl_lt b a"
  by (simp add: dbl_lt_def)

lemma dbl_lt_trans: "dbl_lt a b \<Longrightarrow> dbl_lt b c \<Longrightarrow> dbl_lt a c"
  by (simp add: dbl_lt_def)

lemma dbl_le_iff: "dbl_le a b \<longleftrightarrow> dbl_lt a b \<or> dbl_eq a b"
  by (auto simp: dbl_cmp_defs)

lemma dbl_not_nan_total: "\<not> dbl_nan a \<Longrightarrow> \<not> dbl_nan b \<Longrightarrow> dbl_lt a b \<or> dbl_eq a b \<or> dbl_lt b a"
  by (auto simp: dbl_cmp_defs)

section \<open>Natural number literals\<close>

lemma bit_len_0 [simp]: "bit_len 0 = 0"
  by (simp add: bit_len.simps)

lemma bit_len_pos: "0 < n \<Longrightarrow> bit_len n = Suc (bit_len (n div 2))"
  by (subst bit_len.simps) simp

lemma bit_len_bounds: "0 < n \<Longrightarrow> 2 ^ (bit_len n - 1) \<le> n \<and> n < 2 ^ bit_len n \<and> 0 < bit_len n"
proof (induction n rule: bit_len.induct)
  case (1 n)
  show ?case
  proof (cases "n div 2 = 0")
    case True
    with 1 have "n = 1" by linarith
    then show ?thesis by (simp add: bit_len_pos)
  next
    case False
    then have pos: "0 < n div 2" by simp
    with 1 have IH: "2 ^ (bit_len (n div 2) - 1) \<le> n div 2 \<and> n div 2 < 2 ^ bit_len (n div 2)
        \<and> 0 < bit_len (n div 2)"
      by simp
    then obtain l where l: "bit_len (n div 2) = Suc l" by (metis Suc_pred)
    with 1 have "bit_len n = Suc (Suc l)" by (simp add: bit_len_pos)
    with IH l show ?thesis by (auto simp: power_Suc)
  qed
qed

lemma bit_len_1 [simp]: "bit_len (Suc 0) = 1"
  by (simp add: bit_len_pos)

lemma bit_len_le: "n < 2 ^ m \<Longrightarrow> bit_len n \<le> m"
proof (cases "n = 0")
  case False
  assume "n < 2 ^ m"
  with False bit_len_bounds [of n] have "(2::nat) ^ (bit_len n - 1) < 2 ^ m" by linarith
  then have "bit_len n - 1 < m" by simp
  then show ?thesis by linarith
qed simp

text \<open>A natural number below \<open>2 ^ 53\<close> converts exactly; its pattern has a closed form.\<close>

lemma dbl_mag_of_nat:
  assumes "0 < n" "n < 2 ^ 53"
  shows "dbl_mag_of_ratio n 1 = ((bit_len n + 1021) * 2 ^ 52 + n * 2 ^ (53 - bit_len n), True)"
proof -
  let ?l = "bit_len n"
  have b: "2 ^ (?l - 1) \<le> n" "n < 2 ^ ?l" "0 < ?l" "?l \<le> 53"
    using bit_len_bounds [of n] bit_len_le [of n 53] assms by auto
  have dhe: "div_half_even m (Suc 0) = m" for m by (simp add: div_half_even_def Let_def)
  have n1: "nat (1021 + int ?l) = ?l + 1021" by linarith
  have n2: "nat (int ?l - 1) = ?l - Suc 0" by simp
  have n3: "nat (53 - int ?l) = 53 - ?l" by simp
  consider "?l < 53" | "?l = 53" using b by linarith
  then show ?thesis
    using assms b by cases (simp_all add: dbl_mag_of_ratio_def Let_def dhe n1 n2 n3)
qed

section \<open>Literals of natural numbers\<close>

text \<open>Decimal literals of natural numbers.\<close>

lemma char_code_digit: "(d::nat) < 10 \<Longrightarrow> char_code (char_of (48 + d)) = 48 + d"
  by (simp add: char_code_def)

lemma is_digit_digit: "(d::nat) < 10 \<Longrightarrow> is_digit (char_of (48 + d))"
  by (simp add: is_digit_def char_code_digit)

lemma nat_str_props:
  "nat_str n \<noteq> [] \<and> list_all is_digit (nat_str n) \<and> base_val 10 digit_val (nat_str n) = n"
proof (induction n rule: nat_str.induct)
  case (1 n)
  show ?case
  proof (cases "n < 10")
    case True
    then show ?thesis
      by (subst (1 2 3) nat_str.simps)
        (simp add: is_digit_digit base_val_def digit_val_def char_code_digit)
  next
    case False
    with 1 have IH: "list_all is_digit (nat_str (n div 10))"
      "foldl (\<lambda>acc c. acc * 10 + digit_val c) 0 (nat_str (n div 10)) = n div 10"
      by (simp_all add: base_val_def)
    show ?thesis using False IH
      by (subst (1 2 3) nat_str.simps)
        (simp add: is_digit_digit base_val_def digit_val_def char_code_digit)
  qed
qed

lemma nat_str_nonempty [simp]: "nat_str n \<noteq> []"
  and nat_str_digits: "list_all is_digit (nat_str n)"
  and base_val_nat_str: "base_val 10 digit_val (nat_str n) = n"
  using nat_str_props by blast+

lemma nat_str_inj: "nat_str m = nat_str n \<longleftrightarrow> m = n"
  by (metis base_val_nat_str)

lemma digit_facts:
  assumes "is_digit c"
  shows "\<not> is_space c" "c \<noteq> CHR ''-''" "c \<noteq> CHR ''+''" "c \<noteq> CHR ''.''" "char_lower c = c"
    "c \<noteq> CHR ''i''" "c \<noteq> CHR ''n''" "c \<noteq> CHR ''x''" "\<not> is_alpha c"
  using assms by (auto simp: char_class_defs)

lemma str_lower_digits: "list_all is_digit s \<Longrightarrow> str_lower s = s"
  by (induction s) (auto simp: digit_facts)

lemma takeWhile_digits: "list_all is_digit s \<Longrightarrow> takeWhile is_digit s = s \<and> dropWhile is_digit s = []"
  by (induction s) auto

lemma stod_whole_nat_str: "stod_whole (nat_str n) = dbl_of_ratio False n 1"
proof -
  obtain c s where cs: "nat_str n = c # s" by (cases "nat_str n") auto
  have dig: "list_all is_digit (c # s)" using nat_str_digits [of n] cs by simp
  then have d: "is_digit c" "list_all is_digit s" by auto
  have low: "str_lower (c # s) = c # s" using dig by (rule str_lower_digits)
  have hex: "\<not> starts_with (c # s) ''0x''"
    using d digit_facts(8) by (cases s) (auto simp: starts_with_def)
  have nan: "\<not> is_nan_literal (c # s)"
    using digit_facts(7) [OF d(1)] by (auto simp: is_nan_literal_def starts_with_def)
  have "parse_decimal False (c # s) = dbl_of_ratio False n 1"
  proof -
    have "split_number is_digit (c # s) = (c # s, [], [])"
      using takeWhile_digits [OF dig] by (simp add: split_number_def)
    then show ?thesis
      using base_val_nat_str [of n] cs by (simp add: parse_decimal_def parse_exponent_def)
  qed
  then show ?thesis
    using digit_facts [OF d(1)] low hex nan
    by (simp add: stod_whole_def cs split_sign_def Let_def)
qed

lemma dbl_mag_of_nat_bound:
  assumes "0 < n" "n < 2 ^ 53"
  shows "fst (dbl_mag_of_ratio n 1) < (bit_len n + 1023) * 2 ^ 52"
    and "(bit_len n + 1022) * 2 ^ 52 \<le> fst (dbl_mag_of_ratio n 1)"
proof -
  let ?l = "bit_len n"
  have b: "2 ^ (?l - 1) \<le> n" "n < 2 ^ ?l" "0 < ?l" "?l \<le> 53"
    using bit_len_bounds [of n] bit_len_le [of n 53] assms by auto
  have "n * 2 ^ (53 - ?l) < 2 ^ ?l * 2 ^ (53 - ?l)" using b by simp
  also have "\<dots> = 2 * 2 ^ 52" using b by (simp flip: power_add)
  finally have 1: "n * 2 ^ (53 - ?l) < 2 * 2 ^ 52" .
  have "(2::nat) ^ 52 = 2 ^ (?l - 1) * 2 ^ (53 - ?l)" using b by (simp flip: power_add)
  also have "\<dots> \<le> n * 2 ^ (53 - ?l)" using b by simp
  finally have 2: "2 ^ 52 \<le> n * 2 ^ (53 - ?l)" .
  show "fst (dbl_mag_of_ratio n 1) < (bit_len n + 1023) * 2 ^ 52"
    and "(bit_len n + 1022) * 2 ^ 52 \<le> fst (dbl_mag_of_ratio n 1)"
    using 1 2 by (simp_all add: dbl_mag_of_nat [OF assms] algebra_simps del: One_nat_def)
qed

lemma bit_len_mono: "0 < m \<Longrightarrow> m \<le> n \<Longrightarrow> bit_len m \<le> bit_len n"
  using bit_len_bounds [of n] by (intro bit_len_le) linarith

lemma dbl_mag_of_nat_mono:
  assumes "m < n" "n < 2 ^ 53"
  shows "fst (dbl_mag_of_ratio m 1) < fst (dbl_mag_of_ratio n 1)"
proof (cases "m = 0")
  case True
  then have m: "fst (dbl_mag_of_ratio m 1) = 0" by (simp add: dbl_mag_of_ratio_def)
  have "0 < n" using assms(1) by simp
  moreover have "(0::nat) < (bit_len n + 1022) * 2 ^ 52" by simp
  ultimately show ?thesis
    unfolding m using dbl_mag_of_nat_bound(2) [OF _ assms(2)] by (blast intro: less_le_trans)
next
  case False
  show ?thesis
  proof (cases "bit_len m = bit_len n")
    case True
    with False assms dbl_mag_of_nat [of m] dbl_mag_of_nat [of n] show ?thesis by simp
  next
    case ne: False
    with bit_len_mono [of m n] False assms have "bit_len m + 1023 \<le> bit_len n + 1022" by simp
    then have "(bit_len m + 1023) * 2 ^ 52 \<le> (bit_len n + 1022) * 2 ^ 52" by (rule mult_le_mono1)
    with dbl_mag_of_nat_bound(1) [of m] dbl_mag_of_nat_bound(2) [of n] False assms
    show ?thesis by (simp del: mult_Suc)
  qed
qed

definition dbl_of_nat :: "nat \<Rightarrow> double" where
  "dbl_of_nat n = of_nat (fst (dbl_mag_of_ratio n 1))"

lemma dbl_mag_of_nat_small: "n < 2 ^ 53 \<Longrightarrow> fst (dbl_mag_of_ratio n 1) < 1076 * 2 ^ 52"
proof (cases "n = 0")
  case False
  assume n: "n < 2 ^ 53"
  have "bit_len n + 1023 \<le> 1076" using bit_len_le [OF n] by simp
  then have "(bit_len n + 1023) * 2 ^ 52 \<le> 1076 * 2 ^ 52" by (rule mult_le_mono1)
  moreover have "0 < n" using False by simp
  ultimately show ?thesis using dbl_mag_of_nat_bound(1) [OF _ n] by (blast intro: less_le_trans)
qed (simp add: dbl_mag_of_ratio_def)

lemma stod_nat:
  assumes "n < 2 ^ 53"
  shows "stod_whole (nat_str n) = Some (dbl_of_nat n)"
    and "dbl_key (dbl_of_nat n) = int (fst (dbl_mag_of_ratio n 1))"
    and "\<not> dbl_nan (dbl_of_nat n)"
proof -
  let ?m = "fst (dbl_mag_of_ratio n 1)"
  have small: "?m < 1076 * 2 ^ 52" using dbl_mag_of_nat_small [OF assms] .
  have ex: "snd (dbl_mag_of_ratio n 1)"
  proof (cases "n = 0")
    case True
    then show ?thesis by (simp add: dbl_mag_of_ratio_def)
  next
    case False
    with dbl_mag_of_nat [of n] assms show ?thesis by simp
  qed
  show "stod_whole (nat_str n) = Some (dbl_of_nat n)"
    using small ex
    by (cases "dbl_mag_of_ratio n 1")
      (simp add: stod_whole_nat_str dbl_of_ratio_def dbl_of_nat_def dbl_inf_mag_def)
  have u: "unat (dbl_of_nat n) = ?m"
    using small by (simp add: dbl_of_nat_def unat_of_nat take_bit_nat_def)
  show "dbl_key (dbl_of_nat n) = int ?m" "\<not> dbl_nan (dbl_of_nat n)"
    using small by (simp_all add: dbl_key_def dbl_neg_def dbl_nan_def dbl_mag_def u dbl_inf_mag_def)
qed

lemma dbl_of_nat_order:
  assumes "m < 2 ^ 53" "n < 2 ^ 53"
  shows "dbl_lt (dbl_of_nat m) (dbl_of_nat n) \<longleftrightarrow> m < n"
    and "dbl_le (dbl_of_nat m) (dbl_of_nat n) \<longleftrightarrow> m \<le> n"
proof -
  have key: "dbl_key (dbl_of_nat m) < dbl_key (dbl_of_nat n)" if "m < n" "n < 2 ^ 53" for m n
    using dbl_mag_of_nat_mono [of m n] that stod_nat(2) [of m] stod_nat(2) [of n] by simp
  from key [of m n] key [of n m] assms
  show "dbl_lt (dbl_of_nat m) (dbl_of_nat n) \<longleftrightarrow> m < n"
    and "dbl_le (dbl_of_nat m) (dbl_of_nat n) \<longleftrightarrow> m \<le> n"
    by (cases m n rule: linorder_cases; simp add: dbl_lt_def dbl_le_def stod_nat(3))+
qed

end
