(* ===== verification/Policy_Operators.thy ===== *)
theory Policy_Operators
  imports Policy_Model Cpp_Double
begin

text \<open>
  The operator strategies (\<open>libs/domain/access_control/operators\<close>), their registry and
  \<open>OperatorEvaluator\<close>. A strategy is a record of the virtual methods of \<open>OperatorStrategy\<close>; the
  registry is the table \<open>strategies_\<close>, filled by \<open>create_default\<close>.
  A compiled \<open>std::regex\<close> is the function \<open>std::regex_search\<close> computes with it: \<open>None\<close> is an
  exception of the search, which the strategy swallows. The compiler of patterns is a parameter
  of \<open>Policy_Compiler\<close>.
\<close>

section \<open>Resolved values\<close>

record resolved_value =
  scalar :: "string option"
  vlist :: "string list option"

definition no_value :: resolved_value where
  "no_value = \<lparr>scalar = None, vlist = None\<rparr>"

definition make_scalar :: "string \<Rightarrow> resolved_value" where
  "make_scalar v = no_value\<lparr>scalar := Some v\<rparr>"

definition make_list :: "string list \<Rightarrow> resolved_value" where
  "make_list vs = no_value\<lparr>vlist := Some vs\<rparr>"

definition is_scalar :: "resolved_value \<Rightarrow> bool" where
  "is_scalar v \<longleftrightarrow> scalar v \<noteq> None"

definition is_list :: "resolved_value \<Rightarrow> bool" where
  "is_list v \<longleftrightarrow> vlist v \<noteq> None"

definition is_empty_value :: "resolved_value \<Rightarrow> bool" where
  "is_empty_value v \<longleftrightarrow> scalar v = None \<and> vlist v = None"

section \<open>Strategies\<close>

definition equals_strategy :: "resolved_value \<Rightarrow> resolved_value \<Rightarrow> bool" where
  "equals_strategy l r =
     (if is_scalar l \<and> is_scalar r then the (scalar l) = the (scalar r)
      else if is_empty_value l \<and> is_empty_value r then True
      else if is_list l \<and> is_list r then the (vlist l) = the (vlist r)
      else False)"

definition not_equals_strategy :: "resolved_value \<Rightarrow> resolved_value \<Rightarrow> bool" where
  "not_equals_strategy l r =
     (if is_scalar l \<and> is_scalar r then the (scalar l) \<noteq> the (scalar r)
      else if is_empty_value l \<and> is_empty_value r then False
      else if is_list l \<and> is_list r then the (vlist l) \<noteq> the (vlist r)
      else True)"

definition in_strategy :: "resolved_value \<Rightarrow> resolved_value \<Rightarrow> bool" where
  "in_strategy l r =
     (if is_scalar l \<and> is_list r then the (scalar l) \<in> set (the (vlist r)) else False)"

definition not_in_strategy :: "resolved_value \<Rightarrow> resolved_value \<Rightarrow> bool" where
  "not_in_strategy l r =
     (if is_scalar l \<and> is_list r then the (scalar l) \<notin> set (the (vlist r)) else True)"

definition contains_strategy :: "resolved_value \<Rightarrow> resolved_value \<Rightarrow> bool" where
  "contains_strategy l r =
     (if is_list l \<and> is_scalar r then the (scalar r) \<in> set (the (vlist l))
      else if is_scalar l \<and> is_scalar r then find_sub (the (scalar r)) (the (scalar l)) \<noteq> None
      else False)"

fun intersects_loop :: "string list \<Rightarrow> string list \<Rightarrow> bool" where
  "intersects_loop [] ys = False"
| "intersects_loop (item # xs) ys = (if item \<in> set ys then True else intersects_loop xs ys)"

definition intersects_strategy :: "resolved_value \<Rightarrow> resolved_value \<Rightarrow> bool" where
  "intersects_strategy l r =
     (if is_list l \<and> is_list r then intersects_loop (the (vlist l)) (the (vlist r))
      else if is_scalar l \<and> is_list r then the (scalar l) \<in> set (the (vlist r))
      else False)"

definition starts_with_strategy :: "resolved_value \<Rightarrow> resolved_value \<Rightarrow> bool" where
  "starts_with_strategy l r =
     (if \<not> is_scalar l \<or> \<not> is_scalar r then False
      else if length (the (scalar l)) < length (the (scalar r)) then False
      else starts_with (the (scalar l)) (the (scalar r)))"

definition ends_with_strategy :: "resolved_value \<Rightarrow> resolved_value \<Rightarrow> bool" where
  "ends_with_strategy l r =
     (if \<not> is_scalar l \<or> \<not> is_scalar r then False
      else if length (the (scalar l)) < length (the (scalar r)) then False
      else ends_with (the (scalar l)) (the (scalar r)))"

definition numeric_parse :: "string \<Rightarrow> double option" where
  "numeric_parse s = stod_whole s"

definition parse_both :: "resolved_value \<Rightarrow> resolved_value \<Rightarrow> (double \<times> double) option" where
  "parse_both l r =
     (if \<not> is_scalar l \<or> \<not> is_scalar r then None
      else case (numeric_parse (the (scalar l)), numeric_parse (the (scalar r))) of
        (Some x, Some y) \<Rightarrow> Some (x, y)
      | _ \<Rightarrow> None)"

definition greater_than_strategy :: "resolved_value \<Rightarrow> resolved_value \<Rightarrow> bool" where
  "greater_than_strategy l r = (case parse_both l r of None \<Rightarrow> False | Some (x, y) \<Rightarrow> dbl_lt y x)"

definition greater_than_or_equal_strategy :: "resolved_value \<Rightarrow> resolved_value \<Rightarrow> bool" where
  "greater_than_or_equal_strategy l r =
     (case parse_both l r of None \<Rightarrow> False | Some (x, y) \<Rightarrow> dbl_le y x)"

definition less_than_strategy :: "resolved_value \<Rightarrow> resolved_value \<Rightarrow> bool" where
  "less_than_strategy l r = (case parse_both l r of None \<Rightarrow> False | Some (x, y) \<Rightarrow> dbl_lt x y)"

definition less_than_or_equal_strategy :: "resolved_value \<Rightarrow> resolved_value \<Rightarrow> bool" where
  "less_than_or_equal_strategy l r =
     (case parse_both l r of None \<Rightarrow> False | Some (x, y) \<Rightarrow> dbl_le x y)"

definition exists_strategy :: "resolved_value \<Rightarrow> resolved_value \<Rightarrow> bool" where
  "exists_strategy l r = (\<not> is_empty_value l)"

definition not_exists_strategy :: "resolved_value \<Rightarrow> resolved_value \<Rightarrow> bool" where
  "not_exists_strategy l r = is_empty_value l"

type_synonym regex = "string \<Rightarrow> bool option"
type_synonym regex_cache = "(string, regex) table"

definition regex_match_strategy :: "regex_cache \<Rightarrow> resolved_value \<Rightarrow> resolved_value \<Rightarrow> bool" where
  "regex_match_strategy cache l r =
     (if \<not> is_scalar l \<or> \<not> is_scalar r then False
      else case tbl_get cache (the (scalar r)) of
        None \<Rightarrow> False
      | Some rx \<Rightarrow> (case rx (the (scalar l)) of None \<Rightarrow> False | Some b \<Rightarrow> b))"

section \<open>Registry and evaluator\<close>

record operator_strategy =
  strategy_evaluate :: "resolved_value \<Rightarrow> resolved_value \<Rightarrow> bool"
  strategy_name :: string
  ignores_right_operand :: bool

type_synonym operator_registry = "(policy_operator, operator_strategy) table"

definition strategy :: "(resolved_value \<Rightarrow> resolved_value \<Rightarrow> bool) \<Rightarrow> string \<Rightarrow> operator_strategy" where
  "strategy f n = \<lparr>strategy_evaluate = f, strategy_name = n, ignores_right_operand = False\<rparr>"

definition register_strategy ::
  "policy_operator \<Rightarrow> operator_strategy \<Rightarrow> operator_registry \<Rightarrow> operator_registry" where
  "register_strategy oper st reg = tbl_put oper st reg"

definition registry_find :: "operator_registry \<Rightarrow> policy_operator \<Rightarrow> operator_strategy option" where
  "registry_find reg oper = tbl_get reg oper"

definition registry_has :: "operator_registry \<Rightarrow> policy_operator \<Rightarrow> bool" where
  "registry_has reg oper = tbl_has reg oper"

definition create_default :: "regex_cache \<Rightarrow> operator_registry" where
  "create_default cache =
    (let reg = [];
       reg = register_strategy Equals (strategy equals_strategy ''equals'') reg;
       reg = register_strategy NotEquals (strategy not_equals_strategy ''not_equals'') reg;
       reg = register_strategy In (strategy in_strategy ''in'') reg;
       reg = register_strategy NotIn (strategy not_in_strategy ''not_in'') reg;
       reg = register_strategy Contains (strategy contains_strategy ''contains'') reg;
       reg = register_strategy Intersects (strategy intersects_strategy ''intersects'') reg;
       reg = register_strategy StartsWith (strategy starts_with_strategy ''starts_with'') reg;
       reg = register_strategy EndsWith (strategy ends_with_strategy ''ends_with'') reg;
       reg = register_strategy GreaterThan (strategy greater_than_strategy ''greater_than'') reg;
       reg = register_strategy GreaterThanOrEqual
               (strategy greater_than_or_equal_strategy ''greater_than_or_equal'') reg;
       reg = register_strategy LessThan (strategy less_than_strategy ''less_than'') reg;
       reg = register_strategy LessThanOrEqual
               (strategy less_than_or_equal_strategy ''less_than_or_equal'') reg;
       reg = register_strategy Exists
               ((strategy exists_strategy ''exists'')\<lparr>ignores_right_operand := True\<rparr>) reg;
       reg = register_strategy NotExists
               ((strategy not_exists_strategy ''not_exists'')\<lparr>ignores_right_operand := True\<rparr>) reg;
       reg = register_strategy RegexMatch (strategy (regex_match_strategy cache) ''regex_match'') reg
     in reg)"

definition operator_evaluate ::
  "operator_registry \<Rightarrow> policy_operator \<Rightarrow> resolved_value \<Rightarrow> resolved_value \<Rightarrow> bool" where
  "operator_evaluate reg oper l r =
     (case registry_find reg oper of
        None \<Rightarrow> False
      | Some st \<Rightarrow>
          if is_empty_value l \<and> \<not> ignores_right_operand st \<and> oper \<noteq> NotExists \<and> oper \<noteq> NotEquals
          then False
          else strategy_evaluate st l r)"

section \<open>Lemmas\<close>

lemmas value_defs = no_value_def make_scalar_def make_list_def is_scalar_def is_list_def is_empty_value_def

lemmas strategy_defs =
  equals_strategy_def not_equals_strategy_def in_strategy_def not_in_strategy_def
  contains_strategy_def intersects_strategy_def starts_with_strategy_def ends_with_strategy_def
  greater_than_strategy_def greater_than_or_equal_strategy_def less_than_strategy_def
  less_than_or_equal_strategy_def exists_strategy_def not_exists_strategy_def regex_match_strategy_def

lemma scalar_make_scalar [simp]: "scalar (make_scalar v) = Some v"
  by (simp add: value_defs)

lemma vlist_make_list [simp]: "vlist (make_list v) = Some v"
  by (simp add: value_defs)

lemma value_kinds [simp]:
  "is_scalar (make_scalar v)" "\<not> is_list (make_scalar v)" "\<not> is_empty_value (make_scalar v)"
  "is_list (make_list vs)" "\<not> is_scalar (make_list vs)" "\<not> is_empty_value (make_list vs)"
  "is_empty_value no_value" "\<not> is_scalar no_value" "\<not> is_list no_value"
  by (simp_all add: value_defs)

lemma intersects_loop_iff: "intersects_loop xs ys \<longleftrightarrow> set xs \<inter> set ys \<noteq> {}"
  by (induction xs) auto

text \<open>The strategy \<open>create_default\<close> leaves registered for an operator.\<close>

fun default_strategy :: "regex_cache \<Rightarrow> policy_operator \<Rightarrow> operator_strategy" where
  "default_strategy c Equals = strategy equals_strategy ''equals''"
| "default_strategy c NotEquals = strategy not_equals_strategy ''not_equals''"
| "default_strategy c In = strategy in_strategy ''in''"
| "default_strategy c NotIn = strategy not_in_strategy ''not_in''"
| "default_strategy c Contains = strategy contains_strategy ''contains''"
| "default_strategy c StartsWith = strategy starts_with_strategy ''starts_with''"
| "default_strategy c EndsWith = strategy ends_with_strategy ''ends_with''"
| "default_strategy c GreaterThan = strategy greater_than_strategy ''greater_than''"
| "default_strategy c GreaterThanOrEqual = strategy greater_than_or_equal_strategy ''greater_than_or_equal''"
| "default_strategy c LessThan = strategy less_than_strategy ''less_than''"
| "default_strategy c LessThanOrEqual = strategy less_than_or_equal_strategy ''less_than_or_equal''"
| "default_strategy c Exists = (strategy exists_strategy ''exists'')\<lparr>ignores_right_operand := True\<rparr>"
| "default_strategy c NotExists = (strategy not_exists_strategy ''not_exists'')\<lparr>ignores_right_operand := True\<rparr>"
| "default_strategy c RegexMatch = strategy (regex_match_strategy c) ''regex_match''"
| "default_strategy c Intersects = strategy intersects_strategy ''intersects''"

lemma registry_find_register:
  "registry_find (register_strategy o1 st reg) o2 = (if o2 = o1 then Some st else registry_find reg o2)"
  by (simp add: registry_find_def register_strategy_def)

lemma registry_find_default: "registry_find (create_default c) oper = Some (default_strategy c oper)"
  unfolding create_default_def Let_def registry_find_register by (cases oper) simp_all

lemma registry_total: "registry_has (create_default c) oper"
  using registry_find_default [of c oper] by (auto simp: registry_has_def registry_find_def)

lemma strategy_name_default: "strategy_name (default_strategy c oper) = policy_operator_to_string oper"
  by (cases oper) (simp_all add: strategy_def)

text \<open>The evaluator over the default registry, operator by operator.\<close>

lemma operator_evaluate_default:
  "operator_evaluate (create_default c) oper l r =
     (if is_empty_value l \<and> oper \<notin> {Exists, NotExists, NotEquals} then False
      else strategy_evaluate (default_strategy c oper) l r)"
  unfolding operator_evaluate_def registry_find_default
  by (cases oper) (simp_all add: strategy_def)

lemma missing_left_operand:
  "is_empty_value l \<Longrightarrow>
   operator_evaluate (create_default c) oper l r \<longleftrightarrow>
     oper = NotExists \<or> (oper = NotEquals \<and> \<not> is_empty_value r)"
  by (cases oper)
    (simp_all add: operator_evaluate_default strategy_def strategy_defs value_defs)

lemma not_equals_complement:
  "operator_evaluate (create_default c) NotEquals l r \<longleftrightarrow> \<not> equals_strategy l r"
  by (simp add: operator_evaluate_default strategy_def not_equals_strategy_def equals_strategy_def)

text \<open>Ordering operators on two values that parse to numbers.\<close>

lemma ordering_trichotomy:
  assumes "parse_both l r = Some (x, y)" "\<not> dbl_nan x" "\<not> dbl_nan y"
  shows "operator_evaluate (create_default c) GreaterThan l r \<longleftrightarrow>
         \<not> operator_evaluate (create_default c) LessThanOrEqual l r"
    and "operator_evaluate (create_default c) LessThan l r \<longleftrightarrow>
         \<not> operator_evaluate (create_default c) GreaterThanOrEqual l r"
proof -
  have ne: "\<not> is_empty_value l"
    using assms(1) by (auto simp: parse_both_def value_defs split: if_splits)
  show "operator_evaluate (create_default c) GreaterThan l r \<longleftrightarrow>
         \<not> operator_evaluate (create_default c) LessThanOrEqual l r"
    and "operator_evaluate (create_default c) LessThan l r \<longleftrightarrow>
         \<not> operator_evaluate (create_default c) GreaterThanOrEqual l r"
    using assms ne
    by (auto simp: operator_evaluate_default strategy_def strategy_defs dbl_cmp_defs)
qed

end
