(* ===== verification/Policy_Engine.thy ===== *)
theory Policy_Engine
  imports Policy_Operators
begin

text \<open>
  \<open>ValueResolver\<close>, \<open>PolicyEngine\<close> and \<open>PolicyCompiler\<close>
  (\<open>libs/domain/access_control/{value_resolver,policy_engine,policy_compiler}.cpp\<close>).
  The engine threads the \<open>EvaluationResult\<close> it mutates. The reference definition \<open>holds\<close> gives a
  condition tree its truth value from the truth values of its predicates, with no options, no
  short circuit and no result; the evaluator is proved to compute it. On top of it stands the
  relation between the check before the handler (subject only) and the check on the resource.
\<close>

section \<open>Options and results\<close>

datatype strict_mode = Strict | Permissive
datatype detail_level = BoolOnly | WithReason | Verbose

record evaluation_options =
  strict_mode :: strict_mode
  detail_level :: detail_level
  short_circuit :: bool
  ignore_resource_refs :: bool

definition default_options :: evaluation_options where
  "default_options = \<lparr>strict_mode = Permissive, detail_level = BoolOnly, short_circuit = True,
     ignore_resource_refs = False\<rparr>"

definition production_options :: evaluation_options where
  "production_options =
     default_options\<lparr>strict_mode := Permissive, detail_level := BoolOnly, short_circuit := True\<rparr>"

definition staging_options :: evaluation_options where
  "staging_options =
     default_options\<lparr>strict_mode := Permissive, detail_level := WithReason, short_circuit := True\<rparr>"

definition development_options :: evaluation_options where
  "development_options =
     default_options\<lparr>strict_mode := Strict, detail_level := Verbose, short_circuit := False\<rparr>"

definition pre_handler_options :: evaluation_options where
  "pre_handler_options =
     default_options\<lparr>strict_mode := Permissive, detail_level := WithReason, short_circuit := True,
       ignore_resource_refs := True\<rparr>"

text \<open>\<open>detail_level >= WithReason\<close>\<close>

definition wants_reason :: "evaluation_options \<Rightarrow> bool" where
  "wants_reason o1 \<longleftrightarrow> detail_level o1 \<noteq> BoolOnly"

record predicate_trace =
  tr_description :: string
  tr_left :: string
  tr_right :: string
  tr_result :: bool

record evaluation_result =
  allowed :: bool
  reason :: "string option"
  traces :: "predicate_trace list"
  predicates_evaluated :: nat

definition empty_result :: evaluation_result where
  "empty_result = \<lparr>allowed = False, reason = None, traces = [], predicates_evaluated = 0\<rparr>"

section \<open>Value resolution\<close>

fun split_path_loop :: "string \<Rightarrow> string \<Rightarrow> string list \<Rightarrow> string list" where
  "split_path_loop [] current segments = (if current \<noteq> [] then segments @ [current] else segments)"
| "split_path_loop (c # rest) current segments =
     (if c = CHR ''.'' then
        (if current \<noteq> [] then split_path_loop rest [] (segments @ [current])
         else split_path_loop rest current segments)
      else split_path_loop rest (current @ [c]) segments)"

definition split_path :: "string \<Rightarrow> string list" where
  "split_path p = split_path_loop p [] []"

definition handle_not_found :: "evaluation_options \<Rightarrow> string \<Rightarrow> string + resolved_value" where
  "handle_not_found opts full_path =
     (if strict_mode opts = Strict then Inl (''ValueResolver: path not found: '' @ full_path)
      else Inr no_value)"

definition resolve_literal :: "policy_value_ref \<Rightarrow> resolved_value" where
  "resolve_literal ref =
     (if literal_list ref \<noteq> [] then make_list (literal_list ref) else make_scalar (literal ref))"

definition resolve_subject ::
  "evaluation_options \<Rightarrow> string \<Rightarrow> policy_subject \<Rightarrow> string + resolved_value" where
  "resolve_subject opts p subject =
     (case split_path p of
        [] \<Rightarrow> handle_not_found opts (''subject.'' @ p)
      | [field] \<Rightarrow>
          if field = ''id'' then Inr (make_scalar (subj_id subject))
          else if field = ''email'' then Inr (make_scalar (subj_email subject))
          else if field = ''roles'' then Inr (make_list (subj_roles subject))
          else handle_not_found opts (''subject.'' @ p)
      | [seg, key] \<Rightarrow>
          if seg = ''attributes'' then
            (case get_attribute (subj_attributes subject) key of
               None \<Rightarrow> handle_not_found opts (''subject.'' @ p)
             | Some v \<Rightarrow> Inr (make_scalar v))
          else handle_not_found opts (''subject.'' @ p)
      | _ \<Rightarrow> handle_not_found opts (''subject.'' @ p))"

definition resolve_resource ::
  "evaluation_options \<Rightarrow> string \<Rightarrow> policy_resource \<Rightarrow> string + resolved_value" where
  "resolve_resource opts p resource =
     (case split_path p of
        [] \<Rightarrow> handle_not_found opts (''resource.'' @ p)
      | [field] \<Rightarrow>
          if field = ''id'' then Inr (make_scalar (res_id resource))
          else if field = ''entity_name'' then Inr (make_scalar (res_entity_name resource))
          else handle_not_found opts (''resource.'' @ p)
      | [seg, key] \<Rightarrow>
          if seg = ''attributes'' then
            (case get_attribute (res_attributes resource) key of
               None \<Rightarrow> handle_not_found opts (''resource.'' @ p)
             | Some v \<Rightarrow> Inr (make_scalar v))
          else handle_not_found opts (''resource.'' @ p)
      | _ \<Rightarrow> handle_not_found opts (''resource.'' @ p))"

definition resolve_context ::
  "evaluation_options \<Rightarrow> string \<Rightarrow> policy_context \<Rightarrow> string + resolved_value" where
  "resolve_context opts p context =
     (case split_path p of
        [] \<Rightarrow> handle_not_found opts (''context.'' @ p)
      | [field] \<Rightarrow>
          if field = ''method'' then Inr (make_scalar (ctx_method context))
          else if field = ''path'' then Inr (make_scalar (ctx_path context))
          else if field = ''ip'' then Inr (make_scalar (ctx_ip context))
          else handle_not_found opts (''context.'' @ p)
      | _ \<Rightarrow>
          (case get_attribute (ctx_attributes context) p of
             Some v \<Rightarrow> Inr (make_scalar v)
           | None \<Rightarrow> handle_not_found opts (''context.'' @ p)))"

definition resolve ::
  "evaluation_options \<Rightarrow> policy_value_ref \<Rightarrow> policy_subject \<Rightarrow> policy_resource \<Rightarrow> policy_context
   \<Rightarrow> string + resolved_value" where
  "resolve opts ref subject resource context =
     (case source ref of
        SLiteral \<Rightarrow> Inr (resolve_literal ref)
      | SSubject \<Rightarrow> resolve_subject opts (path ref) subject
      | SResource \<Rightarrow> resolve_resource opts (path ref) resource
      | SContext \<Rightarrow> resolve_context opts (path ref) context)"

section \<open>Formatting\<close>

definition format_ref :: "policy_value_ref \<Rightarrow> string" where
  "format_ref ref =
     (case source ref of
        SLiteral \<Rightarrow> if literal_list ref \<noteq> [] then ''['' @ join_with '', '' (literal_list ref) @ '']''
                    else quoted (literal ref)
      | SSubject \<Rightarrow> ''subject.'' @ path ref
      | SResource \<Rightarrow> ''resource.'' @ path ref
      | SContext \<Rightarrow> ''context.'' @ path ref)"

definition format_predicate :: "policy_predicate \<Rightarrow> string" where
  "format_predicate p =
     format_ref (p_left p) @ '' '' @ policy_operator_to_string (p_op p) @ '' '' @ format_ref (p_right p)"

definition format_value :: "resolved_value \<Rightarrow> string" where
  "format_value v =
     (if is_empty_value v then ''<empty>''
      else if is_scalar v then quoted (the (scalar v))
      else if is_list v then ''['' @ join_with '', '' (map quoted (the (vlist v))) @ '']''
      else ''?'')"

section \<open>Evaluation\<close>

definition evaluate_predicate ::
  "operator_registry \<Rightarrow> evaluation_options \<Rightarrow> policy_subject \<Rightarrow> policy_resource \<Rightarrow> policy_context
   \<Rightarrow> policy_predicate \<Rightarrow> evaluation_result \<Rightarrow> bool \<times> evaluation_result" where
  "evaluate_predicate reg opts subject resource context p result =
    (let operands =
       (case resolve opts (p_left p) subject resource context of
          Inl e \<Rightarrow> Inl e
        | Inr l \<Rightarrow> (case resolve opts (p_right p) subject resource context of
                     Inl e \<Rightarrow> Inl e | Inr r \<Rightarrow> Inr (l, r)))
     in case operands of
          Inl e \<Rightarrow>
            (False, if wants_reason opts then result\<lparr>reason := Some (''Resolution error: '' @ e)\<rparr> else result)
        | Inr (l, r) \<Rightarrow>
            let predicate_result = operator_evaluate reg (p_op p) l r;
                result1 = result\<lparr>predicates_evaluated := Suc (predicates_evaluated result)\<rparr>;
                result2 = (if detail_level opts = Verbose
                   then result1\<lparr>traces := traces result1 @
                     [\<lparr>tr_description = format_predicate p, tr_left = format_value l,
                       tr_right = format_value r, tr_result = predicate_result\<rparr>]\<rparr>
                   else result1);
                result3 = (if \<not> predicate_result \<and> wants_reason opts \<and> reason result2 = None
                   then result2\<lparr>reason := Some (''Failed: '' @ format_predicate p)\<rparr> else result2)
            in (predicate_result, result3))"

fun evaluate_condition ::
  "operator_registry \<Rightarrow> evaluation_options \<Rightarrow> policy_subject \<Rightarrow> policy_resource \<Rightarrow> policy_context
   \<Rightarrow> policy_condition \<Rightarrow> evaluation_result \<Rightarrow> bool \<times> evaluation_result"
and evaluate_all_loop ::
  "operator_registry \<Rightarrow> evaluation_options \<Rightarrow> policy_subject \<Rightarrow> policy_resource \<Rightarrow> policy_context
   \<Rightarrow> policy_condition list \<Rightarrow> bool \<Rightarrow> evaluation_result \<Rightarrow> bool \<times> evaluation_result"
and evaluate_any_loop ::
  "operator_registry \<Rightarrow> evaluation_options \<Rightarrow> policy_subject \<Rightarrow> policy_resource \<Rightarrow> policy_context
   \<Rightarrow> policy_condition list \<Rightarrow> bool \<Rightarrow> evaluation_result \<Rightarrow> bool \<times> evaluation_result" where
  "evaluate_condition reg opts s r x (PolicyCondition TPredicate p cs) result =
     (case p of
        None \<Rightarrow> (False, result)
      | Some pred \<Rightarrow>
          if ignore_resource_refs opts \<and> predicate_uses_resource pred then (True, result)
          else evaluate_predicate reg opts s r x pred result)"
| "evaluate_condition reg opts s r x (PolicyCondition TAll p cs) result =
     evaluate_all_loop reg opts s r x cs True result"
| "evaluate_condition reg opts s r x (PolicyCondition TAny p cs) result =
     evaluate_any_loop reg opts s r x cs False result"
| "evaluate_condition reg opts s r x (PolicyCondition TNot p cs) result =
     (case cs of
        [] \<Rightarrow> (False, result)
      | c # _ \<Rightarrow> (case evaluate_condition reg opts s r x c result of (b, result') \<Rightarrow> (\<not> b, result')))"
| "evaluate_all_loop reg opts s r x [] all_true result = (all_true, result)"
| "evaluate_all_loop reg opts s r x (c # cs) all_true result =
     (case evaluate_condition reg opts s r x c result of (child_result, result') \<Rightarrow>
        if \<not> child_result then
          (if short_circuit opts then (False, result')
           else evaluate_all_loop reg opts s r x cs False result')
        else evaluate_all_loop reg opts s r x cs all_true result')"
| "evaluate_any_loop reg opts s r x [] any_true result = (any_true, result)"
| "evaluate_any_loop reg opts s r x (c # cs) any_true result =
     (case evaluate_condition reg opts s r x c result of (child_result, result') \<Rightarrow>
        if child_result then
          (if short_circuit opts then (True, result')
           else evaluate_any_loop reg opts s r x cs True result')
        else evaluate_any_loop reg opts s r x cs any_true result')"

definition evaluate ::
  "operator_registry \<Rightarrow> policy_condition \<Rightarrow> policy_subject \<Rightarrow> policy_resource \<Rightarrow> policy_context
   \<Rightarrow> evaluation_options \<Rightarrow> evaluation_result" where
  "evaluate reg c subject resource context opts =
     (case evaluate_condition reg opts subject resource context c empty_result of (b, result) \<Rightarrow>
        let result1 = result\<lparr>allowed := b\<rparr>
        in if \<not> allowed result1 \<and> wants_reason opts \<and> reason result1 = None
           then result1\<lparr>reason := Some ''Access denied by policy condition''\<rparr> else result1)"

definition evaluate_subject_only ::
  "operator_registry \<Rightarrow> policy_condition \<Rightarrow> policy_subject \<Rightarrow> policy_context
   \<Rightarrow> evaluation_options \<Rightarrow> evaluation_result" where
  "evaluate_subject_only reg c subject context opts =
     evaluate reg c subject empty_resource context (opts\<lparr>ignore_resource_refs := True\<rparr>)"

section \<open>Compiling the regular expressions of a configuration\<close>

fun collect_regex_patterns :: "policy_condition \<Rightarrow> string list \<Rightarrow> string list" where
  "collect_regex_patterns (PolicyCondition TPredicate p cs) patterns =
     (case p of
        None \<Rightarrow> patterns
      | Some pred \<Rightarrow>
          if p_op pred = RegexMatch then
            (if source (p_right pred) = SLiteral \<and> literal (p_right pred) \<noteq> []
             then patterns @ [literal (p_right pred)] else patterns)
          else patterns)"
| "collect_regex_patterns (PolicyCondition _ p cs) patterns = fold collect_regex_patterns cs patterns"

fun compile_patterns :: "(string \<Rightarrow> string + regex) \<Rightarrow> string list \<Rightarrow> regex_cache \<Rightarrow> string + regex_cache" where
  "compile_patterns mk [] cache = Inr cache"
| "compile_patterns mk (pattern # rest) cache =
     (if tbl_has cache pattern then compile_patterns mk rest cache
      else case mk pattern of
        Inl e \<Rightarrow> Inl (''PolicyCompiler: invalid regex pattern '' @ quoted pattern @ '': '' @ e)
      | Inr rx \<Rightarrow> compile_patterns mk rest (tbl_put pattern rx cache))"

definition compile_all :: "(string \<Rightarrow> string + regex) \<Rightarrow> policy_condition list \<Rightarrow> string + regex_cache" where
  "compile_all mk conditions =
     (case each_throws condition_validate conditions of
        Some e \<Rightarrow> Inl e
      | None \<Rightarrow> compile_patterns mk (fold collect_regex_patterns conditions []) [])"

definition compile_one :: "(string \<Rightarrow> string + regex) \<Rightarrow> policy_condition \<Rightarrow> string + regex_cache" where
  "compile_one mk c = compile_all mk [c]"

section \<open>Reference semantics\<close>

text \<open>The truth value of one predicate, and of a tree over the truth values of its predicates.\<close>

definition predicate_holds ::
  "operator_registry \<Rightarrow> strict_mode \<Rightarrow> policy_subject \<Rightarrow> policy_resource \<Rightarrow> policy_context
   \<Rightarrow> policy_predicate \<Rightarrow> bool" where
  "predicate_holds reg m s r x p =
     (let opts = default_options\<lparr>strict_mode := m\<rparr>
      in case (resolve opts (p_left p) s r x, resolve opts (p_right p) s r x) of
           (Inr l, Inr v) \<Rightarrow> operator_evaluate reg (p_op p) l v
         | _ \<Rightarrow> False)"

fun holds :: "(policy_predicate \<Rightarrow> bool) \<Rightarrow> policy_condition \<Rightarrow> bool" where
  "holds P (PolicyCondition TPredicate p cs) = (case p of None \<Rightarrow> False | Some q \<Rightarrow> P q)"
| "holds P (PolicyCondition TAll p cs) = list_all (holds P) cs"
| "holds P (PolicyCondition TAny p cs) = list_ex (holds P) cs"
| "holds P (PolicyCondition TNot p cs) = (case cs of [] \<Rightarrow> False | c # _ \<Rightarrow> \<not> holds P c)"

definition relaxed :: "(policy_predicate \<Rightarrow> bool) \<Rightarrow> policy_predicate \<Rightarrow> bool" where
  "relaxed P p \<longleftrightarrow> predicate_uses_resource p \<or> P p"

text \<open>Every predicate on the resource stands under an even number of negations.\<close>

fun resource_positive :: "bool \<Rightarrow> policy_condition \<Rightarrow> bool" where
  "resource_positive pos (PolicyCondition TPredicate p cs) =
     (case p of None \<Rightarrow> True | Some q \<Rightarrow> pos \<or> \<not> predicate_uses_resource q)"
| "resource_positive pos (PolicyCondition TAll p cs) = list_all (resource_positive pos) cs"
| "resource_positive pos (PolicyCondition TAny p cs) = list_all (resource_positive pos) cs"
| "resource_positive pos (PolicyCondition TNot p cs) = list_all (resource_positive (\<not> pos)) cs"

end
