(* ===== verification/Policy_Semantics.thy ===== *)
theory Policy_Semantics
  imports Policy_Engine
begin

text \<open>
  Correctness of the policy engine: the evaluator computes the reference semantics \<open>holds\<close>
  whatever its options, the check before the handler accepts whatever the full check accepts as
  long as no predicate on the resource is negated, and a rule without predicates on the resource
  is decided before the handler once and for all. The interface \<open>two_phase_check\<close> states what a
  caller of the two checks may rely on; the engine provides it.
\<close>

section \<open>Resolution\<close>

lemma resolve_strict_mode:
  "strict_mode o1 = strict_mode o2 \<Longrightarrow> resolve o1 ref s r x = resolve o2 ref s r x"
proof -
  assume "strict_mode o1 = strict_mode o2"
  then have eq: "handle_not_found o1 = handle_not_found o2"
    by (simp add: handle_not_found_def fun_eq_iff)
  have "resolve_subject o1 = resolve_subject o2" "resolve_resource o1 = resolve_resource o2"
    "resolve_context o1 = resolve_context o2"
    unfolding resolve_subject_def resolve_resource_def resolve_context_def fun_eq_iff eq by simp_all
  then show ?thesis by (cases "source ref") (simp_all add: resolve_def)
qed

lemma resolve_other_resource:
  "source ref \<noteq> SResource \<Longrightarrow> resolve opts ref s r x = resolve opts ref s r' x"
  by (auto simp: resolve_def split: policy_value_source.splits)

lemma predicate_holds_other_resource:
  "\<not> predicate_uses_resource p \<Longrightarrow>
   predicate_holds reg m s r x p = predicate_holds reg m s r' x p"
  unfolding predicate_holds_def Let_def predicate_uses_resource_def
  using resolve_other_resource by (metis (no_types, lifting))

lemma handle_not_found_Inr: "handle_not_found opts p = Inr v \<Longrightarrow> v = no_value \<and> strict_mode opts = Permissive"
  by (cases "strict_mode opts") (auto simp: handle_not_found_def)

section \<open>The evaluator computes the reference semantics\<close>

lemma evaluate_predicate_holds:
  "fst (evaluate_predicate reg opts s r x p result) = predicate_holds reg (strict_mode opts) s r x p"
proof -
  have "resolve opts ref s r x = resolve (default_options\<lparr>strict_mode := strict_mode opts\<rparr>) ref s r x" for ref
    by (rule resolve_strict_mode) simp
  then show ?thesis
    by (auto simp: evaluate_predicate_def predicate_holds_def Let_def split: sum.splits)
qed

definition atom_value ::
  "operator_registry \<Rightarrow> evaluation_options \<Rightarrow> policy_subject \<Rightarrow> policy_resource \<Rightarrow> policy_context
   \<Rightarrow> policy_predicate \<Rightarrow> bool" where
  "atom_value reg opts s r x =
     (if ignore_resource_refs opts then relaxed (predicate_holds reg (strict_mode opts) s r x)
      else predicate_holds reg (strict_mode opts) s r x)"

lemma evaluator_holds:
  "fst (evaluate_condition reg opts s r x c result) = holds (atom_value reg opts s r x) c"
  "fst (evaluate_all_loop reg opts s r x cs b result) = (b \<and> list_all (holds (atom_value reg opts s r x)) cs)"
  "fst (evaluate_any_loop reg opts s r x cs b result) = (b \<or> list_ex (holds (atom_value reg opts s r x)) cs)"
proof (induction reg opts s r x c result and reg opts s r x cs b result and reg opts s r x cs b result
    rule: evaluate_condition_evaluate_all_loop_evaluate_any_loop.induct)
  case (1 reg opts s r x p cs result)
  then show ?case
    by (auto simp: atom_value_def relaxed_def evaluate_predicate_holds split: option.splits)
next
  case (4 reg opts s r x p cs result)
  then show ?case by (auto split: list.splits prod.splits)
next
  case (6 reg opts s r x c cs b result)
  then show ?case by (auto split: prod.splits)
next
  case (8 reg opts s r x c cs b result)
  then show ?case by (auto split: prod.splits)
qed simp_all

lemma evaluate_allowed:
  "allowed (evaluate reg c s r x opts) = holds (atom_value reg opts s r x) c"
  using evaluator_holds(1) [of reg opts s r x c empty_result]
  by (auto simp: evaluate_def Let_def split: prod.splits)

lemma evaluate_subject_only_allowed:
  "allowed (evaluate_subject_only reg c s x opts) =
   holds (relaxed (predicate_holds reg (strict_mode opts) s empty_resource x)) c"
  by (simp add: evaluate_subject_only_def evaluate_allowed atom_value_def)

lemma option_simps [simp]:
  "strict_mode production_options = Permissive" "ignore_resource_refs production_options = False"
  "strict_mode pre_handler_options = Permissive" "ignore_resource_refs pre_handler_options = True"
  by (simp_all add: production_options_def pre_handler_options_def default_options_def)

section \<open>Monotonicity and locality of the reference semantics\<close>

text \<open>Induction on condition trees, with one case per type of condition.\<close>

lemma condition_tree_induct [case_names leaf conj disj neg]:
  assumes "\<And>p cs. P (PolicyCondition TPredicate p cs)"
    and "\<And>p cs. (\<And>c. c \<in> set cs \<Longrightarrow> P c) \<Longrightarrow> P (PolicyCondition TAll p cs)"
    and "\<And>p cs. (\<And>c. c \<in> set cs \<Longrightarrow> P c) \<Longrightarrow> P (PolicyCondition TAny p cs)"
    and "\<And>p cs. (\<And>c. c \<in> set cs \<Longrightarrow> P c) \<Longrightarrow> P (PolicyCondition TNot p cs)"
  shows "P c"
  using assms by (induction c rule: condition_uses_resource.induct) blast+

lemma holds_cong_list:
  "(\<And>c. c \<in> set cs \<Longrightarrow> P c = Q c) \<Longrightarrow> list_all P cs = list_all Q cs"
  "(\<And>c. c \<in> set cs \<Longrightarrow> P c = Q c) \<Longrightarrow> list_ex P cs = list_ex Q cs"
  by (auto simp: list_all_iff list_ex_iff)

text \<open>
  Weakening the predicates on the resource to true can only turn a positive tree from false to
  true, and a tree in negative position from true to false.
\<close>

lemma holds_relaxed:
  assumes "\<And>p. \<not> predicate_uses_resource p \<Longrightarrow> P p = Q p"
  shows "(resource_positive True c \<longrightarrow> holds P c \<longrightarrow> holds (relaxed Q) c)
       \<and> (resource_positive False c \<longrightarrow> holds (relaxed Q) c \<longrightarrow> holds P c)"
proof (induction c rule: condition_tree_induct)
  case (leaf p cs)
  show ?case using assms by (auto simp: relaxed_def split: option.splits)
next
  case (conj p cs)
  then show ?case by (auto simp: list_all_iff)
next
  case (disj p cs)
  then show ?case by (auto simp: list_all_iff list_ex_iff)
next
  case (neg p cs)
  then show ?case by (cases cs) auto
qed

lemma condition_uses_resource_iff:
  "\<not> condition_uses_resource c \<Longrightarrow> resource_positive b c"
  by (induction c arbitrary: b rule: condition_uses_resource.induct)
    (auto simp: predicate_uses_resource_def list_all_iff list_ex_iff split: option.splits)

lemma holds_without_resource:
  assumes "\<not> condition_uses_resource c"
    and "\<And>p. \<not> predicate_uses_resource p \<Longrightarrow> P p = Q p"
  shows "holds P c = holds Q c"
  using assms(1)
proof (induction c rule: condition_tree_induct)
  case (leaf p cs)
  then show ?case using assms(2) by (auto simp: predicate_uses_resource_def split: option.splits)
next
  case (conj p cs)
  then show ?case by (auto simp: list_all_iff list_ex_iff)
next
  case (disj p cs)
  then show ?case by (auto simp: list_ex_iff)
next
  case (neg p cs)
  then show ?case by (auto simp: list_ex_iff split: list.splits)
qed

section \<open>The two-phase check as an interface\<close>

text \<open>
  A caller decides a request in two phases: \<open>pre\<close> before it has the resource and \<open>full\<close> when it has
  it. \<open>positive\<close> conditions and \<open>local\<close> ones (without the resource) come with a law each.
\<close>

locale two_phase_check =
  fixes pre :: "'c \<Rightarrow> bool" and full :: "'r \<Rightarrow> 'c \<Rightarrow> bool"
    and positive :: "'c \<Rightarrow> bool" and on_subject :: "'c \<Rightarrow> bool"
  assumes pre_complete: "positive c \<Longrightarrow> full r c \<Longrightarrow> pre c"
    and on_subject_decided: "on_subject c \<Longrightarrow> full r c = pre c"
    and on_subject_positive: "on_subject c \<Longrightarrow> positive c"
begin

lemma pre_denial_final: "positive c \<Longrightarrow> \<not> pre c \<Longrightarrow> \<not> full r c"
  using pre_complete by blast

lemma resource_irrelevant: "on_subject c \<Longrightarrow> full r c = full r' c"
  by (simp add: on_subject_decided)

lemma both_phases: "positive c \<Longrightarrow> (pre c \<and> full r c) = full r c"
  using pre_complete by blast

end

definition pre_check :: "operator_registry \<Rightarrow> policy_subject \<Rightarrow> policy_context \<Rightarrow> policy_condition \<Rightarrow> bool" where
  "pre_check reg s x c = allowed (evaluate_subject_only reg c s x pre_handler_options)"

definition full_check ::
  "operator_registry \<Rightarrow> policy_subject \<Rightarrow> policy_context \<Rightarrow> policy_resource \<Rightarrow> policy_condition \<Rightarrow> bool" where
  "full_check reg s x r c = allowed (evaluate reg c s r x production_options)"

lemma pre_check_holds:
  "pre_check reg s x c = holds (relaxed (predicate_holds reg Permissive s empty_resource x)) c"
  by (simp add: pre_check_def evaluate_subject_only_allowed)

lemma full_check_holds:
  "full_check reg s x r c = holds (predicate_holds reg Permissive s r x) c"
  by (simp add: full_check_def evaluate_allowed atom_value_def)

interpretation engine_check:
  two_phase_check "pre_check reg s x" "full_check reg s x" "resource_positive True"
    "\<lambda>c. \<not> condition_uses_resource c"
  for reg s x
proof
  fix c r
  show "resource_positive True c \<Longrightarrow> full_check reg s x r c \<Longrightarrow> pre_check reg s x c"
    unfolding pre_check_holds full_check_holds
    using holds_relaxed [of "predicate_holds reg Permissive s r x"
        "predicate_holds reg Permissive s empty_resource x" c] predicate_holds_other_resource by blast
  show "\<not> condition_uses_resource c \<Longrightarrow> full_check reg s x r c = pre_check reg s x c"
    unfolding pre_check_holds full_check_holds
    by (rule holds_without_resource)
      (auto simp: relaxed_def dest: predicate_holds_other_resource)
  show "\<not> condition_uses_resource c \<Longrightarrow> resource_positive True c"
    by (rule condition_uses_resource_iff)
qed

section \<open>Compiled patterns\<close>

text \<open>The patterns of a tree, left to right.\<close>

fun regex_literals :: "policy_condition \<Rightarrow> string list" where
  "regex_literals (PolicyCondition TPredicate p cs) =
     (case p of None \<Rightarrow> []
      | Some q \<Rightarrow> if p_op q = RegexMatch \<and> source (p_right q) = SLiteral \<and> literal (p_right q) \<noteq> []
                  then [literal (p_right q)] else [])"
| "regex_literals (PolicyCondition _ p cs) = concat (map regex_literals cs)"

lemma fold_appends:
  "(\<And>c acc. c \<in> set cs \<Longrightarrow> f c acc = acc @ g c) \<Longrightarrow> fold f cs acc = acc @ concat (map g cs)"
  by (induction cs arbitrary: acc) auto

lemma collect_regex_patterns_eq: "collect_regex_patterns c ps = ps @ regex_literals c"
  by (induction c arbitrary: ps rule: condition_uses_resource.induct)
    (auto split: option.splits intro: fold_appends)

lemma fold_collect: "fold collect_regex_patterns cs ps = ps @ concat (map regex_literals cs)"
  by (rule fold_appends) (rule collect_regex_patterns_eq)

lemma compile_patterns_Inr:
  "compile_patterns mk ps cache = Inr cache' \<Longrightarrow>
   (\<forall>k \<in> set ps. map_of cache' k \<noteq> None) \<and>
   (\<forall>k rx. map_of cache k = Some rx \<longrightarrow> map_of cache' k = Some rx) \<and>
   (\<forall>k rx. map_of cache' k = Some rx \<longrightarrow> map_of cache k = Some rx \<or> (k \<in> set ps \<and> mk k = Inr rx))"
proof (induction mk ps cache arbitrary: cache' rule: compile_patterns.induct)
  case (2 mk p ps cache)
  show ?case
  proof (cases "tbl_has cache p")
    case True
    then have c: "compile_patterns mk ps cache = Inr cache'" using 2(3) by simp
    show ?thesis using 2(1)[OF True c] True by auto
  next
    case False
    then obtain rx where rx: "mk p = Inr rx" "compile_patterns mk ps (tbl_put p rx cache) = Inr cache'"
      using 2(3) by (auto split: sum.splits)
    have old: "map_of cache p = None" using False by (cases "map_of cache p") auto
    have IH: "(\<forall>k\<in>set ps. map_of cache' k \<noteq> None)"
      "\<And>k v. (if k = p then Some rx else map_of cache k) = Some v \<Longrightarrow> map_of cache' k = Some v"
      "\<And>k v. map_of cache' k = Some v \<Longrightarrow>
        (if k = p then Some rx else map_of cache k) = Some v \<or> (k \<in> set ps \<and> mk k = Inr v)"
      using 2(2)[OF False rx] by (metis tbl_get_put)+
    have "map_of cache' p = Some rx" using IH(2)[of p rx] by simp
    moreover have "map_of cache' k = Some v" if "map_of cache k = Some v" for k v
      using IH(2)[of k v] that old by (cases "k = p") auto
    moreover have "map_of cache k = Some v \<or> (k \<in> set (p # ps) \<and> mk k = Inr v)"
      if "map_of cache' k = Some v" for k v
      using IH(3)[OF that] rx(1) by (auto split: if_splits)
    ultimately show ?thesis using IH(1) by auto
  qed
qed simp

lemma compile_patterns_succeeds:
  "(\<exists>cache'. compile_patterns mk ps cache = Inr cache') \<longleftrightarrow>
   (\<forall>k \<in> set ps. tbl_has cache k \<or> (\<exists>rx. mk k = Inr rx))"
proof (induction mk ps cache rule: compile_patterns.induct)
  case (2 mk p ps cache)
  then show ?case
    by (cases "tbl_has cache p"; cases "mk p") auto
qed simp

section \<open>What a result reports\<close>

text \<open>
  The reports accumulated in a result: one trace per evaluated predicate at the verbose level and
  none below it, and no reason at the lowest level.
\<close>

definition report_ok :: "evaluation_options \<Rightarrow> evaluation_result \<Rightarrow> bool" where
  "report_ok opts res \<longleftrightarrow>
     length (traces res) = (if detail_level opts = Verbose then predicates_evaluated res else 0)
     \<and> (detail_level opts = BoolOnly \<longrightarrow> reason res = None)"

lemma evaluate_predicate_report:
  "report_ok opts res \<Longrightarrow> report_ok opts (snd (evaluate_predicate reg opts s r x p res))"
  by (auto simp: evaluate_predicate_def Let_def report_ok_def wants_reason_def split: sum.splits)

lemma evaluator_report:
  "report_ok opts res \<Longrightarrow> report_ok opts (snd (evaluate_condition reg opts s r x c res))"
  "report_ok opts res \<Longrightarrow> report_ok opts (snd (evaluate_all_loop reg opts s r x cs b res))"
  "report_ok opts res \<Longrightarrow> report_ok opts (snd (evaluate_any_loop reg opts s r x cs b res))"
proof (induction reg opts s r x c res and reg opts s r x cs b res and reg opts s r x cs b res
    rule: evaluate_condition_evaluate_all_loop_evaluate_any_loop.induct)
  case (1 reg opts s r x p cs result)
  then show ?case by (auto simp: evaluate_predicate_report split: option.splits)
next
  case (4 reg opts s r x p cs result)
  then show ?case by (auto split: list.splits prod.splits)
next
  case (6 reg opts s r x c cs b result)
  then show ?case by (auto split: prod.splits)
next
  case (8 reg opts s r x c cs b result)
  then show ?case by (auto split: prod.splits)
qed simp_all

end
