(* ===== verification/Policy_Properties.thy ===== *)
theory Policy_Properties
  imports Policy_Semantics
begin

text \<open>
  The properties of the access control engine: soundness of the check before the handler, the
  evaluator against its reference semantics, what a missing attribute does, what a compiled
  configuration guarantees, what an evaluation reports, and the operators on numbers.
\<close>

section \<open>Example rules\<close>

text \<open>\<open>subject.roles contains "editor"\<close> and \<open>resource.attributes.owner equals subject.id\<close>.\<close>

definition editor_rule :: policy_condition where
  "editor_rule = of_predicate
     (make_predicate (from_subject ''roles'') Contains (from_literal ''editor''))"

definition owner_predicate :: policy_predicate where
  "owner_predicate =
     make_predicate (from_resource ''attributes.owner'') Equals (from_subject ''id'')"

definition owner_rule :: policy_condition where
  "owner_rule = all_of [editor_rule, of_predicate owner_predicate]"

definition editor_subject :: policy_subject where
  "editor_subject = empty_subject\<lparr>subj_id := ''u1'', subj_roles := [''editor'']\<rparr>"

definition plain_context :: policy_context where
  "plain_context = \<lparr>ctx_method = ''GET'', ctx_path = ''/notes/n1'', ctx_ip = [], ctx_now = 0, ctx_attributes = []\<rparr>"

definition owned_note :: policy_resource where
  "owned_note = \<lparr>res_entity_name = ''Note'', res_id = ''n1'', res_attributes = [(''owner'', ''u1'')]\<rparr>"

definition foreign_note :: policy_resource where
  "foreign_note = owned_note\<lparr>res_attributes := [(''owner'', ''u2'')]\<rparr>"

definition name_pattern :: policy_predicate where
  "name_pattern = make_predicate (from_subject ''id'') RegexMatch (from_literal ''^a'')"

lemmas example_defs = editor_rule_def owner_predicate_def owner_rule_def editor_subject_def
  plain_context_def owned_note_def foreign_note_def empty_subject_def make_predicate_def
  builder_defs ref_defs

lemmas resolution_defs = resolve_def resolve_subject_def resolve_resource_def resolve_context_def
  resolve_literal_def handle_not_found_def split_path_def get_attribute_def

lemma split_example_paths [simp]:
  "split_path ''roles'' = [''roles'']" "split_path ''id'' = [''id'']"
  "split_path ''attributes.owner'' = [''attributes'', ''owner'']"
  by code_simp+

lemma owner_predicate_holds:
  "predicate_holds (create_default []) Permissive editor_subject r x owner_predicate
   \<longleftrightarrow> get_attribute (res_attributes r) ''owner'' = Some ''u1''"
  by (auto simp: predicate_holds_def example_defs resolve_def resolve_subject_def resolve_resource_def
      handle_not_found_def default_options_def operator_evaluate_default strategy_def strategy_defs
      split: option.splits)

lemma editor_rule_holds:
  "holds (predicate_holds (create_default []) Permissive editor_subject r x) editor_rule"
  by (simp add: predicate_holds_def example_defs resolve_def resolve_subject_def resolve_literal_def
      default_options_def operator_evaluate_default strategy_def strategy_defs)

lemma spelling_lower:
  "str_lower (crud_operation_to_string o1) = crud_operation_to_string o1"
  "str_lower (policy_condition_type_to_string t) = policy_condition_type_to_string t"
  "str_lower (policy_value_source_to_string src) = policy_value_source_to_string src"
  "str_lower (policy_operator_to_string o2) = policy_operator_to_string o2"
  "str_lower (default_policy_to_string d) = default_policy_to_string d"
proof -
  show "str_lower (crud_operation_to_string o1) = crud_operation_to_string o1"
    by (cases o1; simp add: char_class_defs)
  show "str_lower (policy_condition_type_to_string t) = policy_condition_type_to_string t"
    by (cases t; simp add: char_class_defs)
  show "str_lower (policy_value_source_to_string src) = policy_value_source_to_string src"
    by (cases src; simp add: char_class_defs)
  show "str_lower (policy_operator_to_string o2) = policy_operator_to_string o2"
    by (cases o2; simp add: char_class_defs)
  show "str_lower (default_policy_to_string d) = default_policy_to_string d"
    by (cases d; simp add: char_class_defs)
qed

section \<open>Properties\<close>

text \<open>C1: The check before the handler never refuses what the check on the loaded resource would
  grant, as long as every predicate on the resource stands under an even number of \<open>Not\<close>s. So for
  such a rule a 403 before the handler is final, whatever the resource turns out to be.\<close>

theorem pre_handler_check_complete:
  assumes "resource_positive True c"
    and "allowed (evaluate reg c s r x production_options)"
  shows "allowed (evaluate_subject_only reg c s x pre_handler_options)"
  using engine_check.pre_complete [OF assms(1)] assms(2) by (simp add: pre_check_def full_check_def)

theorem pre_handler_check_complete_witness:
  "allowed (evaluate_subject_only (create_default []) owner_rule editor_subject plain_context pre_handler_options)"
proof (rule pre_handler_check_complete [where r = owned_note])
  show "resource_positive True owner_rule"
    by (simp add: example_defs predicate_uses_resource_def)
  have "get_attribute (res_attributes owned_note) ''owner'' = Some ''u1''"
    by (simp add: owned_note_def get_attribute_def)
  then show "allowed (evaluate (create_default []) owner_rule editor_subject owned_note plain_context production_options)"
    using owner_predicate_holds [of owned_note plain_context] editor_rule_holds [of owned_note plain_context]
    by (simp add: evaluate_allowed atom_value_def owner_rule_def all_of_def of_predicate_def)
qed

text \<open>C2: The evaluator computes the reference semantics: its verdict is the truth value of the
  tree over its predicates (with the predicates on the resource taken as true when
  \<open>ignore_resource_refs\<close> is set), whatever the detail level, with or without short circuit, and
  whatever the registry.\<close>

theorem evaluate_is_semantics:
  "allowed (evaluate reg c s r x opts) =
   holds (\<lambda>p. (ignore_resource_refs opts \<and> predicate_uses_resource p)
              \<or> predicate_holds reg (strict_mode opts) s r x p) c"
proof -
  have "(\<lambda>p. (ignore_resource_refs opts \<and> predicate_uses_resource p)
              \<or> predicate_holds reg (strict_mode opts) s r x p) = atom_value reg opts s r x"
    by (auto simp: atom_value_def relaxed_def)
  then show ?thesis by (simp add: evaluate_allowed)
qed

text \<open>A rule that does not require the resource is decided before the handler: the check without
  a resource and the check on any resource give the same verdict.\<close>

theorem subject_rule_decided_before_handler:
  assumes "\<not> requires_resource sp"
  shows "allowed (evaluate reg (spec_condition sp) s r x production_options) =
         allowed (evaluate_subject_only reg (spec_condition sp) s x pre_handler_options)"
  using engine_check.on_subject_decided [of "spec_condition sp" reg s x r] assms
  by (simp add: requires_resource_def pre_check_def full_check_def)

theorem subject_rule_decided_before_handler_witness:
  "allowed (evaluate (create_default []) editor_rule editor_subject owned_note plain_context production_options) =
   allowed (evaluate_subject_only (create_default []) editor_rule editor_subject plain_context pre_handler_options)"
  using subject_rule_decided_before_handler [of "\<lparr>spec_condition = editor_rule\<rparr>" "create_default []"
      editor_subject owned_note plain_context]
  by (simp add: requires_resource_def example_defs)

text \<open>The check before the handler denies every conjunction that negates a predicate on the
  resource, also where the check on the resource would grant it: in the witness the rule
  "everything that I do not own" is granted on a foreign note, and refused before the note is read.\<close>

theorem negated_resource_rule_refused_early:
  assumes "predicate_uses_resource p" and "not_of (of_predicate p) \<in> set cs"
  shows "\<not> allowed (evaluate_subject_only reg (all_of cs) s x pre_handler_options)"
proof -
  have "\<not> holds (relaxed (predicate_holds reg Permissive s empty_resource x)) (not_of (of_predicate p))"
    using assms(1) by (simp add: not_of_def of_predicate_def relaxed_def)
  then show ?thesis
    using assms(2) by (auto simp: evaluate_subject_only_allowed all_of_def list_all_iff)
qed

theorem negated_resource_rule_refused_early_witness:
  "\<not> allowed (evaluate_subject_only (create_default []) (all_of [not_of (of_predicate owner_predicate)])
       editor_subject plain_context pre_handler_options)
   \<and> allowed (evaluate (create_default []) (all_of [not_of (of_predicate owner_predicate)])
       editor_subject foreign_note plain_context production_options)"
proof
  show "\<not> allowed (evaluate_subject_only (create_default []) (all_of [not_of (of_predicate owner_predicate)])
       editor_subject plain_context pre_handler_options)"
    by (rule negated_resource_rule_refused_early [where p = owner_predicate])
      (simp_all add: example_defs predicate_uses_resource_def)
  show "allowed (evaluate (create_default []) (all_of [not_of (of_predicate owner_predicate)])
      editor_subject foreign_note plain_context production_options)"
    using owner_predicate_holds [of foreign_note plain_context]
    by (simp add: evaluate_allowed atom_value_def all_of_def not_of_def of_predicate_def
        foreign_note_def owned_note_def get_attribute_def)
qed

text \<open>Compiling a configuration succeeds exactly when every condition has the shape the
  builders produce and every literal pattern compiles; the cache then holds, for exactly those
  patterns, the compiled expression.\<close>

theorem compile_all_correct:
  "case compile_all mk cs of
     Inr cache \<Rightarrow> (\<forall>c \<in> set cs. well_formed c) \<and>
       (\<forall>k rx. map_of cache k = Some rx \<longleftrightarrow> (\<exists>c \<in> set cs. k \<in> set (regex_literals c)) \<and> mk k = Inr rx)
   | Inl _ \<Rightarrow> (\<exists>c \<in> set cs. \<not> well_formed c) \<or>
       (\<exists>c \<in> set cs. \<exists>k \<in> set (regex_literals c). \<forall>rx. mk k \<noteq> Inr rx)"
proof (cases "\<forall>c \<in> set cs. well_formed c")
  case False
  then have "each_throws condition_validate cs \<noteq> None"
    by (simp add: each_throws_None_iff condition_validate_iff)
  with False show ?thesis by (auto simp: compile_all_def)
next
  case True
  let ?ps = "concat (map regex_literals cs)"
  have eq: "compile_all mk cs = compile_patterns mk ?ps []"
  proof -
    have "each_throws condition_validate cs = None"
      using True by (simp add: each_throws_None_iff condition_validate_iff)
    then show ?thesis by (simp add: compile_all_def fold_collect)
  qed
  show ?thesis
  proof (cases "compile_patterns mk ?ps []")
    case (Inl e)
    then have "\<not> (\<forall>k \<in> set ?ps. tbl_has [] k \<or> (\<exists>rx. mk k = Inr rx))"
      using compile_patterns_succeeds [of mk ?ps "[]"] by auto
    with Inl show ?thesis by (auto simp: eq)
  next
    case (Inr cache)
    have known: "\<forall>k \<in> set ?ps. map_of cache k \<noteq> None"
      and sound: "\<And>k rx. map_of cache k = Some rx \<Longrightarrow> k \<in> set ?ps \<and> mk k = Inr rx"
      using compile_patterns_Inr [OF Inr] by auto
    have "map_of cache k = Some rx \<longleftrightarrow> k \<in> set ?ps \<and> mk k = Inr rx" for k rx
      using known sound by (metis Inr_inject not_None_eq)
    with Inr True show ?thesis by (simp add: eq)
  qed
qed

theorem compile_all_correct_witness:
  "\<exists>cache. compile_all (\<lambda>p. Inr (\<lambda>s. Some True)) [of_predicate name_pattern] = Inr cache
     \<and> map_of cache ''^a'' = Some (\<lambda>s. Some True) \<and> well_formed (of_predicate name_pattern)"
proof -
  let ?mk = "\<lambda>p. Inr (\<lambda>s. Some True)" and ?cs = "[of_predicate name_pattern]"
  obtain cache where c: "compile_all ?mk ?cs = Inr cache"
    by (simp add: compile_all_def name_pattern_def example_defs)
  with compile_all_correct [where mk = ?mk and cs = ?cs]
  show ?thesis by (simp add: name_pattern_def example_defs)
qed

text \<open>A left operand that does not resolve. In permissive mode the predicate holds for
  \<open>not_exists\<close>, and for \<open>not_equals\<close> against a value that does resolve, and for no other operator;
  in strict mode it is false for every operator.\<close>

theorem unresolved_left_operand:
  assumes "resolve (default_options\<lparr>strict_mode := Permissive\<rparr>) (p_left p) s r x = Inr no_value"
    and "resolve (default_options\<lparr>strict_mode := Permissive\<rparr>) (p_right p) s r x = Inr v"
  shows "predicate_holds (create_default c) Permissive s r x p \<longleftrightarrow>
         p_op p = NotExists \<or> (p_op p = NotEquals \<and> \<not> is_empty_value v)"
  using assms missing_left_operand [of no_value c "p_op p" v] by (simp add: predicate_holds_def)

theorem unresolved_left_operand_witness:
  "predicate_holds (create_default []) Permissive editor_subject empty_resource plain_context
     (make_predicate (from_subject ''attributes.org'') NotEquals (from_literal ''acme''))
   \<and> \<not> predicate_holds (create_default []) Permissive editor_subject empty_resource plain_context
     (make_predicate (from_subject ''attributes.org'') Equals (from_literal ''acme''))"
proof -
  have sp: "split_path ''attributes.org'' = [''attributes'', ''org'']" by code_simp
  have l: "resolve (default_options\<lparr>strict_mode := Permissive\<rparr>) (from_subject ''attributes.org'')
      editor_subject empty_resource plain_context = Inr no_value"
    by (simp add: resolve_def resolve_subject_def handle_not_found_def get_attribute_def example_defs
        default_options_def sp)
  have r: "resolve (default_options\<lparr>strict_mode := Permissive\<rparr>) (from_literal ''acme'')
      editor_subject empty_resource plain_context = Inr (make_scalar ''acme'')"
    by (simp add: resolve_def resolve_literal_def example_defs)
  show ?thesis
    using unresolved_left_operand [of
        "make_predicate (from_subject ''attributes.org'') NotEquals (from_literal ''acme'')"
        editor_subject empty_resource plain_context "make_scalar ''acme''" "[]"]
      unresolved_left_operand [of
        "make_predicate (from_subject ''attributes.org'') Equals (from_literal ''acme'')"
        editor_subject empty_resource plain_context "make_scalar ''acme''" "[]"] l r
    by (simp add: make_predicate_def)
qed

text \<open>On the decimal literals of natural numbers below \<open>2 ^ 53\<close> the ordering operators, which
  parse both sides to doubles, agree with the order of the numbers.\<close>

theorem ordering_operators_on_naturals:
  assumes "m < 2 ^ 53" and "n < 2 ^ 53"
  shows "(operator_evaluate (create_default c) GreaterThan (make_scalar (nat_str m)) (make_scalar (nat_str n)) \<longleftrightarrow> n < m)
    \<and> (operator_evaluate (create_default c) GreaterThanOrEqual (make_scalar (nat_str m)) (make_scalar (nat_str n)) \<longleftrightarrow> n \<le> m)
    \<and> (operator_evaluate (create_default c) LessThan (make_scalar (nat_str m)) (make_scalar (nat_str n)) \<longleftrightarrow> m < n)
    \<and> (operator_evaluate (create_default c) LessThanOrEqual (make_scalar (nat_str m)) (make_scalar (nat_str n)) \<longleftrightarrow> m \<le> n)"
proof -
  have "parse_both (make_scalar (nat_str m)) (make_scalar (nat_str n)) = Some (dbl_of_nat m, dbl_of_nat n)"
    using assms by (simp add: parse_both_def numeric_parse_def stod_nat)
  then show ?thesis
    using dbl_of_nat_order [OF assms] dbl_of_nat_order [OF assms(2,1)]
    by (simp add: operator_evaluate_default strategy_def strategy_defs)
qed

theorem ordering_operators_on_naturals_witness:
  "operator_evaluate (create_default []) GreaterThan (make_scalar (nat_str 10)) (make_scalar (nat_str 9))"
  using ordering_operators_on_naturals [of 10 9 "[]"] by simp

text \<open>What an evaluation reports: at the verbose level one trace for every predicate it
  evaluated and no trace below it; no reason at the lowest level, and at the others a reason
  whenever access is denied.\<close>

theorem evaluation_report:
  "length (traces (evaluate reg c s r x opts)) =
     (if detail_level opts = Verbose then predicates_evaluated (evaluate reg c s r x opts) else 0)
   \<and> (detail_level opts = BoolOnly \<longrightarrow> reason (evaluate reg c s r x opts) = None)
   \<and> (detail_level opts \<noteq> BoolOnly \<longrightarrow> \<not> allowed (evaluate reg c s r x opts) \<longrightarrow>
        reason (evaluate reg c s r x opts) \<noteq> None)"
proof -
  have "report_ok opts empty_result" by (simp add: report_ok_def empty_result_def)
  then have ok: "report_ok opts (snd (evaluate_condition reg opts s r x c empty_result))"
    by (rule evaluator_report(1))
  obtain b res where res: "evaluate_condition reg opts s r x c empty_result = (b, res)"
    by (cases "evaluate_condition reg opts s r x c empty_result")
  show ?thesis
    using ok by (auto simp: res evaluate_def Let_def report_ok_def wants_reason_def)
qed

theorem evaluation_report_witness:
  "reason (evaluate (create_default []) empty_condition editor_subject owned_note plain_context staging_options) \<noteq> None"
proof -
  have d: "detail_level staging_options \<noteq> BoolOnly"
    by (simp add: staging_options_def default_options_def)
  have "\<not> allowed (evaluate (create_default []) empty_condition editor_subject owned_note plain_context staging_options)"
    by (simp add: evaluate_allowed empty_condition_def)
  with d evaluation_report [of "create_default []" empty_condition editor_subject owned_note plain_context staging_options]
  show ?thesis by blast
qed

text \<open>The spelling of every enum of the access control configuration is read back as the value
  it was written from, in lower or upper case.\<close>

theorem enum_spellings_round_trip:
  "crud_operation_from_string (crud_operation_to_string o1) = Some o1
   \<and> policy_condition_type_from_string (map char_upper (policy_condition_type_to_string t)) = Some t
   \<and> policy_value_source_from_string (map char_upper (policy_value_source_to_string src)) = Some src
   \<and> policy_operator_from_string (policy_operator_to_string o2) = Some o2
   \<and> policy_operator_from_string (map char_upper (policy_operator_to_string o2)) = Some o2
   \<and> default_policy_from_string (map char_upper (default_policy_to_string d)) = Some d"
proof -
  have 1: "crud_operation_from_string (crud_operation_to_string o1) = Some o1"
    unfolding crud_operation_from_string_def spelling_lower by (cases o1) simp_all
  have 2: "policy_condition_type_from_string (map char_upper (policy_condition_type_to_string t)) = Some t"
    unfolding policy_condition_type_from_string_def str_lower_upper spelling_lower by (cases t) simp_all
  have 3: "policy_value_source_from_string (map char_upper (policy_value_source_to_string src)) = Some src"
    unfolding policy_value_source_from_string_def str_lower_upper spelling_lower by (cases src) simp_all
  have 4: "policy_operator_from_string (policy_operator_to_string o2) = Some o2"
    unfolding policy_operator_from_string_def spelling_lower by (cases o2) simp_all
  have 5: "policy_operator_from_string (map char_upper (policy_operator_to_string o2)) = Some o2"
    unfolding policy_operator_from_string_def str_lower_upper spelling_lower by (cases o2) simp_all
  have 6: "default_policy_from_string (map char_upper (default_policy_to_string d)) = Some d"
    unfolding default_policy_from_string_def str_lower_upper spelling_lower by (cases d) simp_all
  show ?thesis using 1 2 3 4 5 6 by simp
qed

end
