(* ===== verification/Domain_Model.thy ===== *)
theory Domain_Model
  imports Policy_Model Cpp_Double
begin

text \<open>
  The schema a service is described by (\<open>libs/domain\<close>): field types, the configuration of file
  fields, fields, relations, pagination, entities and schemas, with the helper members of those
  structs, among them the route name of an entity. The variants \<open>DefaultValue\<close> and
  \<open>NumericConstraint\<close> keep the widths of their alternatives.
\<close>

section \<open>Field types\<close>

datatype field_type =
    FString | FInt | FFloat | FBool | FTimestamp | FUUID
  | FBigInt | FSmallInt | FDecimal | FJson | FBinary
  | FPassword | FEmail | FText | FFile | FNative

fun field_type_to_string :: "field_type \<Rightarrow> string" where
  "field_type_to_string FString = ''string''"
| "field_type_to_string FInt = ''int''"
| "field_type_to_string FFloat = ''float''"
| "field_type_to_string FBool = ''bool''"
| "field_type_to_string FTimestamp = ''timestamp''"
| "field_type_to_string FUUID = ''uuid''"
| "field_type_to_string FPassword = ''password''"
| "field_type_to_string FEmail = ''email''"
| "field_type_to_string FText = ''text''"
| "field_type_to_string FBigInt = ''bigint''"
| "field_type_to_string FSmallInt = ''smallint''"
| "field_type_to_string FDecimal = ''decimal''"
| "field_type_to_string FJson = ''json''"
| "field_type_to_string FBinary = ''binary''"
| "field_type_to_string FFile = ''file''"
| "field_type_to_string FNative = ''native''"

definition field_type_from_string :: "string \<Rightarrow> field_type option" where
  "field_type_from_string s =
     (let lower = str_lower s in
      if lower = ''string'' then Some FString
      else if lower = ''int'' then Some FInt
      else if lower = ''float'' then Some FFloat
      else if lower = ''bool'' then Some FBool
      else if lower = ''timestamp'' then Some FTimestamp
      else if lower = ''uuid'' then Some FUUID
      else if lower = ''password'' then Some FPassword
      else if lower = ''email'' then Some FEmail
      else if lower = ''text'' then Some FText
      else if lower = ''bigint'' then Some FBigInt
      else if lower = ''smallint'' then Some FSmallInt
      else if lower = ''decimal'' then Some FDecimal
      else if lower = ''json'' then Some FJson
      else if lower = ''binary'' then Some FBinary
      else if lower = ''file'' then Some FFile
      else None)"

definition is_logical_type :: "field_type \<Rightarrow> bool" where
  "is_logical_type t \<longleftrightarrow> t = FPassword \<or> t = FEmail \<or> t = FNative \<or> t = FFile"

fun is_numeric_type :: "field_type \<Rightarrow> bool" where
  "is_numeric_type FSmallInt = True"
| "is_numeric_type FInt = True"
| "is_numeric_type FBigInt = True"
| "is_numeric_type FFloat = True"
| "is_numeric_type FDecimal = True"
| "is_numeric_type _ = False"

section \<open>File fields\<close>

datatype on_delete_file = FileCascade | FileSetNull | FileRestrict

fun on_delete_file_to_string :: "on_delete_file \<Rightarrow> string" where
  "on_delete_file_to_string FileCascade = ''cascade''"
| "on_delete_file_to_string FileSetNull = ''set_null''"
| "on_delete_file_to_string FileRestrict = ''restrict''"

definition on_delete_file_from_string :: "string \<Rightarrow> on_delete_file option" where
  "on_delete_file_from_string s =
     (let lower = str_lower s in
      if lower = ''cascade'' then Some FileCascade
      else if lower = ''set_null'' then Some FileSetNull
      else if lower = ''restrict'' then Some FileRestrict
      else None)"

record file_field_config =
  max_size_bytes :: "size option"
  allowed_mime_types :: "string list"
  allowed_extensions :: "string list"
  storage_path :: string
  fc_on_delete :: on_delete_file

definition default_file_config :: file_field_config where
  "default_file_config = \<lparr>max_size_bytes = None, allowed_mime_types = [], allowed_extensions = [],
     storage_path = [], fc_on_delete = FileCascade\<rparr>"

definition accepts_mime :: "file_field_config \<Rightarrow> string \<Rightarrow> bool" where
  "accepts_mime cfg mime =
     (if allowed_mime_types cfg = [] then True else mime \<in> set (allowed_mime_types cfg))"

definition normalize_extension :: "string \<Rightarrow> string" where
  "normalize_extension ext =
     (if ext \<noteq> [] \<and> hd ext \<noteq> CHR ''.'' then ''.'' else []) @ str_lower ext"

definition accepts_extension :: "file_field_config \<Rightarrow> string \<Rightarrow> bool" where
  "accepts_extension cfg ext =
     (if allowed_extensions cfg = [] then True
      else normalize_extension ext \<in> set (allowed_extensions cfg))"

definition accepts_size :: "file_field_config \<Rightarrow> size \<Rightarrow> bool" where
  "accepts_size cfg n = (case max_size_bytes cfg of None \<Rightarrow> True | Some m \<Rightarrow> n \<le> m)"

section \<open>Fields\<close>

datatype default_value =
    DvNone | DvString string | DvInt64 "64 word" | DvUint64 "64 word" | DvInt32 "32 word"
  | DvUint32 "32 word" | DvInt16 "16 word" | DvUint16 "16 word" | DvDouble double | DvBool bool

datatype numeric_constraint =
    NcInt64 "64 word" | NcInt32 "32 word" | NcUint32 "32 word" | NcUint64 "64 word" | NcDouble double

datatype database_dialect = MySQL | PostgreSQL | SQLite | SQLServer

record native_db_type =
  nt_dialect :: database_dialect
  nt_type_name :: string

record field =
  f_name :: string
  f_type :: field_type
  f_unsigned :: bool
  f_required :: bool
  f_unique :: bool
  f_indexed :: bool
  f_default_val :: default_value
  f_max_length :: "size option"
  f_min_value :: "numeric_constraint option"
  f_max_value :: "numeric_constraint option"
  f_serializable :: bool
  f_native_type :: "native_db_type option"
  f_previous_name :: "string option"
  f_file_config :: "file_field_config option"

definition make_field :: "string \<Rightarrow> field_type \<Rightarrow> field" where
  "make_field n t =
     \<lparr>f_name = n, f_type = t, f_unsigned = False, f_required = True, f_unique = False,
      f_indexed = False, f_default_val = DvNone, f_max_length = None, f_min_value = None,
      f_max_value = None, f_serializable = True, f_native_type = None, f_previous_name = None,
      f_file_config = None\<rparr>"

definition field_has_default :: "field \<Rightarrow> bool" where
  "field_has_default f \<longleftrightarrow> f_default_val f \<noteq> DvNone"

definition has_previous_name :: "field \<Rightarrow> bool" where
  "has_previous_name f = (case f_previous_name f of None \<Rightarrow> False | Some n \<Rightarrow> n \<noteq> [])"

definition is_file_field :: "field \<Rightarrow> bool" where
  "is_file_field f \<longleftrightarrow> f_type f = FFile \<and> f_file_config f \<noteq> None"

definition as_file :: "field \<Rightarrow> file_field_config \<Rightarrow> field" where
  "as_file f cfg = f\<lparr>f_type := FFile, f_file_config := Some cfg\<rparr>"

section \<open>Relations\<close>

datatype relation_kind = BelongsTo | HasMany | HasOne | ManyToMany

datatype on_delete = Cascade | SetNull | Restrict

fun relation_kind_to_string :: "relation_kind \<Rightarrow> string" where
  "relation_kind_to_string BelongsTo = ''belongs_to''"
| "relation_kind_to_string HasMany = ''has_many''"
| "relation_kind_to_string HasOne = ''has_one''"
| "relation_kind_to_string ManyToMany = ''many_to_many''"

fun on_delete_to_string :: "on_delete \<Rightarrow> string" where
  "on_delete_to_string Cascade = ''cascade''"
| "on_delete_to_string SetNull = ''set_null''"
| "on_delete_to_string Restrict = ''restrict''"

record relation =
  r_name :: string
  r_target :: string
  r_kind :: relation_kind
  r_on_delete :: on_delete
  r_fk_column :: string
  r_pivot_table :: string
  r_source_fk :: string
  r_target_fk :: string

definition make_relation :: "string \<Rightarrow> string \<Rightarrow> relation_kind \<Rightarrow> relation" where
  "make_relation n target k =
     \<lparr>r_name = n, r_target = target, r_kind = k, r_on_delete = Restrict, r_fk_column = [],
      r_pivot_table = [], r_source_fk = [], r_target_fk = []\<rparr>"

section \<open>Pagination\<close>

record page_pagination =
  pg_default_page_size :: size
  pg_max_page_size :: size
  pg_default_sort :: "string option"
  pg_sortable_fields :: "string list"

record offset_pagination =
  of_default_limit :: size
  of_max_limit :: size
  of_default_sort :: "string option"
  of_sortable_fields :: "string list"

record cursor_pagination =
  cu_default_limit :: size
  cu_max_limit :: size
  cu_cursor_field :: string
  cu_sort :: string

record pagination_config =
  pc_page :: "page_pagination option"
  pc_offset :: "offset_pagination option"
  pc_cursor :: "cursor_pagination option"

definition pagination_any :: "pagination_config \<Rightarrow> bool" where
  "pagination_any cfg \<longleftrightarrow> pc_page cfg \<noteq> None \<or> pc_offset cfg \<noteq> None \<or> pc_cursor cfg \<noteq> None"

section \<open>Entities and schemas\<close>

record entity_options =
  enable_crud :: bool
  is_auth_source :: bool
  enable_websocket :: bool
  soft_delete :: bool
  timestamps :: bool
  public_routes :: bool

definition default_entity_options :: entity_options where
  "default_entity_options = \<lparr>enable_crud = True, is_auth_source = False, enable_websocket = False,
     soft_delete = False, timestamps = True, public_routes = False\<rparr>"

record entity =
  e_name :: string
  e_table_name :: string
  e_fields :: "field list"
  e_relations :: "relation list"
  e_options :: entity_options
  e_access_control :: entity_access_control
  e_pagination :: "pagination_config option"

definition make_entity :: "string \<Rightarrow> field list \<Rightarrow> relation list \<Rightarrow> entity" where
  "make_entity n fs rs =
     \<lparr>e_name = n, e_table_name = [], e_fields = fs, e_relations = rs,
      e_options = default_entity_options, e_access_control = empty_access_control,
      e_pagination = None\<rparr>"

definition is_vowel :: "char \<Rightarrow> bool" where
  "is_vowel c \<longleftrightarrow> c = CHR ''a'' \<or> c = CHR ''e'' \<or> c = CHR ''i'' \<or> c = CHR ''o'' \<or> c = CHR ''u''"

definition to_route_plural :: "string \<Rightarrow> bool \<Rightarrow> string" where
  "to_route_plural name must_be_plural =
     (if name = [] then []
      else let m = str_lower name in
        if \<not> must_be_plural then m
        else if 3 \<le> length m \<and> ends_with m ''ies'' then m
        else if ends_with m ''s'' \<and> \<not> ends_with m ''ss'' \<and> \<not> ends_with m ''us'' then m
        else if 2 \<le> length m \<and> last m = CHR ''y'' \<and> \<not> is_vowel (m ! (length m - 2))
             then butlast m @ ''ies''
        else if ends_with m ''s'' \<or> ends_with m ''ss'' \<or> ends_with m ''x'' \<or> ends_with m ''z''
                \<or> ends_with m ''ch'' \<or> ends_with m ''sh''
             then m @ ''es''
        else m @ ''s'')"

definition route_prefix :: "entity \<Rightarrow> string" where
  "route_prefix e = (if e_name e = [] then ''/'' else ''/'' @ to_route_plural (e_name e) True)"

definition find_field :: "entity \<Rightarrow> string \<Rightarrow> field option" where
  "find_field e n = find (\<lambda>f. f_name f = n) (e_fields e)"

definition has_field :: "entity \<Rightarrow> string \<Rightarrow> bool" where
  "has_field e n \<longleftrightarrow> find_field e n \<noteq> None"

definition serializable_fields :: "entity \<Rightarrow> field list" where
  "serializable_fields e = filter f_serializable (e_fields e)"

definition find_relation :: "entity \<Rightarrow> string \<Rightarrow> relation option" where
  "find_relation e n = find (\<lambda>r. r_name r = n) (e_relations e)"

definition has_pagination :: "entity \<Rightarrow> bool" where
  "has_pagination e = (case e_pagination e of None \<Rightarrow> False | Some cfg \<Rightarrow> pagination_any cfg)"

definition entity_has_file_fields :: "entity \<Rightarrow> bool" where
  "entity_has_file_fields e = list_ex is_file_field (e_fields e)"

record schema =
  entities :: "entity list"

definition find_entity :: "schema \<Rightarrow> string \<Rightarrow> entity option" where
  "find_entity s n = find (\<lambda>e. e_name e = n) (entities s)"

definition has_entity :: "schema \<Rightarrow> string \<Rightarrow> bool" where
  "has_entity s n \<longleftrightarrow> find_entity s n \<noteq> None"

definition crud_entities :: "schema \<Rightarrow> entity list" where
  "crud_entities s = filter (\<lambda>e. enable_crud (e_options e)) (entities s)"

definition auth_entities :: "schema \<Rightarrow> entity list" where
  "auth_entities s = filter (\<lambda>e. is_auth_source (e_options e)) (entities s)"

definition schema_has_file_fields :: "schema \<Rightarrow> bool" where
  "schema_has_file_fields s = list_ex entity_has_file_fields (entities s)"

section \<open>Lemmas\<close>

lemma find_field_name: "find_field e n = Some f \<Longrightarrow> f_name f = n \<and> f \<in> set (e_fields e)"
  by (auto simp: find_field_def find_Some_iff)

lemma has_field_iff: "has_field e n \<longleftrightarrow> n \<in> f_name ` set (e_fields e)"
  by (auto simp: has_field_def find_field_def find_None_iff)

lemma has_entity_iff: "has_entity s n \<longleftrightarrow> n \<in> e_name ` set (entities s)"
  by (auto simp: has_entity_def find_entity_def find_None_iff)

lemma find_entity_name: "find_entity s n = Some e \<Longrightarrow> e_name e = n \<and> e \<in> set (entities s)"
  by (auto simp: find_entity_def find_Some_iff)

lemma ends_with_iff: "ends_with s p \<longleftrightarrow> (\<exists>r. s = r @ p)"
proof
  assume "ends_with s p"
  then have "rev s = rev p @ drop (length p) (rev s)"
    unfolding ends_with_def by (metis append_take_drop_id)
  then have "s = rev (drop (length p) (rev s)) @ p" by (metis rev_append rev_rev_ident)
  then show "\<exists>r. s = r @ p" ..
qed (auto simp: ends_with_def)

lemma set_str_lower_upper: "c \<in> set (str_lower s) \<Longrightarrow> \<not> is_upper c"
  by (auto simp: str_lower_def char_class_defs)

lemma char_lower_idem [simp]: "char_lower (char_lower c) = char_lower c"
  by (auto simp: char_class_defs)

lemma str_lower_idem [simp]: "str_lower (str_lower s) = str_lower s"
  by (simp add: str_lower_def)

lemma str_lower_append [simp]: "str_lower (s @ t) = str_lower s @ str_lower t"
  by (simp add: str_lower_def)

end
