(* ===== verification/Runtime_Value.thy ===== *)
theory Runtime_Value
  imports Domain_Model
begin

text \<open>
  The runtime data of the generic backend (\<open>libs/infrastructure/runtime\<close>): \<open>DynamicValue\<close>, a
  variant whose integer alternatives keep their width, \<open>DynamicRecord\<close>, an unordered map from field
  names to values, the JSON values the parser reads, base64 (\<open>persistence/utilities.h\<close>) and
  \<open>JsonRecordParser\<close>, which turns a JSON object into a record of an entity. The text-to-JSON parser
  and the equality of JSON values belong to the nlohmann library and are parameters.
\<close>

section \<open>Values and records\<close>

datatype json =
    JNull | JBool bool | JInt "64 word" | JUint "64 word" | JFloat double | JString string
  | JArray "json list" | JObject "(string \<times> json) list"

datatype dynamic_value =
    VNone | VString string | VInt64 "64 word" | VUint64 "64 word" | VInt16 "16 word"
  | VUint16 "16 word" | VInt32 "32 word" | VUint32 "32 word" | VDouble double | VBool bool
  | VStrings "string list" | VInt64s "64 word list" | VJson json | VBytes "8 word list"
  | VNative string string json

type_synonym dynamic_record = "(string, dynamic_value) table"

text \<open>\<open>operator==\<close> on the variant: the same alternative, and equal in it.\<close>

definition value_eq :: "(json \<Rightarrow> json \<Rightarrow> bool) \<Rightarrow> dynamic_value \<Rightarrow> dynamic_value \<Rightarrow> bool" where
  "value_eq json_eq a b =
     (case (a, b) of
        (VDouble x, VDouble y) \<Rightarrow> dbl_eq x y
      | (VJson x, VJson y) \<Rightarrow> json_eq x y
      | (VNative d1 t1 x, VNative d2 t2 y) \<Rightarrow> d1 = d2 \<and> t1 = t2 \<and> json_eq x y
      | _ \<Rightarrow> a = b)"

text \<open>\<open>dynamic_value_to_string\<close> of the memory repository.\<close>

definition dynamic_value_to_string :: "dynamic_value \<Rightarrow> string option" where
  "dynamic_value_to_string v =
     (case v of
        VString s \<Rightarrow> Some s
      | VInt16 w \<Rightarrow> Some (int_str (sint w))
      | VUint16 w \<Rightarrow> Some (int_str (uint w))
      | VInt32 w \<Rightarrow> Some (int_str (sint w))
      | VUint32 w \<Rightarrow> Some (int_str (uint w))
      | VInt64 w \<Rightarrow> Some (int_str (sint w))
      | VUint64 w \<Rightarrow> Some (int_str (uint w))
      | VDouble d \<Rightarrow> Some (dbl_str d)
      | VBool b \<Rightarrow> Some (if b then ''true'' else ''false'')
      | _ \<Rightarrow> None)"

text \<open>\<open>extract_id\<close> of the memory repository and \<open>dynamic_value_to_id_string\<close> of the engine.\<close>

definition dynamic_value_to_id_string :: "dynamic_value \<Rightarrow> string option" where
  "dynamic_value_to_id_string v =
     (case v of VString s \<Rightarrow> Some s | VInt64 w \<Rightarrow> Some (int_str (sint w)) | _ \<Rightarrow> None)"

section \<open>Base64\<close>

definition base64_chars :: string where
  "base64_chars = ''ABCDEFGHIJKLMNOPQRSTUVWXYZabcdefghijklmnopqrstuvwxyz0123456789+/''"

text \<open>The accumulator is a C++ \<open>int\<close>: 32 bits, whose high bits are shifted out.\<close>

function base64_emit :: "32 word \<Rightarrow> int \<Rightarrow> string \<Rightarrow> int \<times> string" where
  "base64_emit val valb result =
     (if 0 \<le> valb then
        base64_emit val (valb - 6)
          (result @ [base64_chars ! (unat (signed_drop_bit (nat valb) val) mod 64)])
      else (valb, result))"
  by pat_completeness auto
termination by (relation "measure (\<lambda>(val, valb, result). nat (valb + 1))") auto

declare base64_emit.simps [simp del]

fun base64_encode_loop :: "8 word list \<Rightarrow> 32 word \<Rightarrow> int \<Rightarrow> string \<Rightarrow> 32 word \<times> int \<times> string" where
  "base64_encode_loop [] val valb result = (val, valb, result)"
| "base64_encode_loop (c # cs) val valb result =
     (let val' = push_bit 8 val + ucast c in
      case base64_emit val' (valb + 8) result of (valb', result') \<Rightarrow>
        base64_encode_loop cs val' valb' result')"

definition base64_encode :: "8 word list \<Rightarrow> string" where
  "base64_encode bytes =
     (case base64_encode_loop bytes 0 (- 6) [] of (val, valb, result) \<Rightarrow>
        let result' = (if - 6 < valb
            then result @ [base64_chars ! (unat (signed_drop_bit (nat (valb + 8)) (push_bit 8 val)) mod 64)]
            else result)
        in result' @ replicate ((4 - length result' mod 4) mod 4) (CHR ''=''))"

definition base64_index :: "char \<Rightarrow> nat option" where
  "base64_index c = (case find (\<lambda>i. base64_chars ! i = c) [0..<64] of None \<Rightarrow> None | Some i \<Rightarrow> Some i)"

fun base64_decode_loop :: "string \<Rightarrow> 32 word \<Rightarrow> int \<Rightarrow> 8 word list \<Rightarrow> 8 word list" where
  "base64_decode_loop [] val valb result = result"
| "base64_decode_loop (c # cs) val valb result =
     (case base64_index c of
        None \<Rightarrow> result
      | Some i \<Rightarrow>
          let val' = push_bit 6 val + of_nat i; valb' = valb + 6
          in if 0 \<le> valb' then
               base64_decode_loop cs val' (valb' - 8)
                 (result @ [ucast (signed_drop_bit (nat valb') val')])
             else base64_decode_loop cs val' valb' result)"

definition base64_decode :: "string \<Rightarrow> 8 word list" where
  "base64_decode input = base64_decode_loop input 0 (- 8) []"

section \<open>Reading a record from JSON\<close>

fun json_is_integer :: "json \<Rightarrow> bool" where
  "json_is_integer (JInt w) = True"
| "json_is_integer (JUint w) = True"
| "json_is_integer _ = False"

text \<open>\<open>get<std::int64_t>()\<close> on a JSON integer: a \<open>static_cast\<close>, which wraps from \<open>2 ^ 63\<close> on.\<close>

fun json_get_int64 :: "json \<Rightarrow> 64 word" where
  "json_get_int64 (JInt w) = w"
| "json_get_int64 (JUint w) = w"
| "json_get_int64 _ = 0"

definition dbl_of_int :: "int \<Rightarrow> double" where
  "dbl_of_int i = (case dbl_of_ratio (i < 0) (nat \<bar>i\<bar>) 1 of None \<Rightarrow> 0 | Some d \<Rightarrow> d)"

fun json_get_double :: "json \<Rightarrow> double option" where
  "json_get_double (JFloat d) = Some d"
| "json_get_double (JInt w) = Some (dbl_of_int (sint w))"
| "json_get_double (JUint w) = Some (dbl_of_int (uint w))"
| "json_get_double _ = None"

definition field_error :: "string \<Rightarrow> string \<Rightarrow> string + 'a" where
  "field_error n msg = Inl (''[RUNTIME EXECUTION] Field '' @ quoted n @ msg)"

text \<open>\<open>raw\<close> is the signed reading of the JSON integer; \<open>Inr\<close> carries the value stored in the record.\<close>

definition parse_field_value :: "field \<Rightarrow> json \<Rightarrow> string + dynamic_value" where
  "parse_field_value f value =
     (if value = JNull then Inr VNone
      else let n = f_name f; raw = sint (json_get_int64 value); w = json_get_int64 value in
        if f_type f \<in> {FString, FText, FUUID, FPassword, FEmail, FTimestamp, FDecimal, FFile} then
          (case value of JString s \<Rightarrow> Inr (VString s) | _ \<Rightarrow> field_error n '' must be a string.'')
        else if f_type f = FJson then Inr (VJson value)
        else if f_type f = FBigInt then
          (if \<not> json_is_integer value then field_error n '' must be an integer.''
           else if f_unsigned f then
             (case value of JUint u \<Rightarrow> Inr (VUint64 u)
              | _ \<Rightarrow> field_error n '' must be a positive integer (unsigned BIGINT).'')
           else Inr (VInt64 w))
        else if f_type f = FSmallInt then
          (if \<not> json_is_integer value then field_error n '' must be an integer.''
           else if f_unsigned f then
             (if raw < 0 \<or> 65535 < raw then field_error n '' is outside the range of an unsigned SMALLINT.''
              else Inr (VUint16 (of_int raw)))
           else
             (if raw < - 32768 \<or> 32767 < raw then field_error n '' is outside the range of a SMALLINT.''
              else Inr (VInt16 (of_int raw))))
        else if f_type f = FInt then
          (if \<not> json_is_integer value then field_error n '' must be an integer.''
           else if f_unsigned f then
             (if raw < 0 \<or> 4294967295 < raw then field_error n '' is outside the range of an unsigned INT.''
              else Inr (VUint32 (of_int raw)))
           else
             (if raw < - 2147483648 \<or> 2147483647 < raw then field_error n '' is outside the range of an INT.''
              else Inr (VInt32 (of_int raw))))
        else if f_type f = FFloat then
          (case json_get_double value of None \<Rightarrow> field_error n '' must be a number.'' | Some d \<Rightarrow> Inr (VDouble d))
        else if f_type f = FBool then
          (case value of JBool b \<Rightarrow> Inr (VBool b) | _ \<Rightarrow> field_error n '' must be a boolean.'')
        else if f_type f = FBinary then
          (case value of JString s \<Rightarrow> Inr (VBytes (base64_decode s))
           | _ \<Rightarrow> field_error n '' must be a base64 string.'')
        else
          (case value of JString s \<Rightarrow> Inr (VNative s [] JNull)
           | _ \<Rightarrow> Inl ''[json.exception.type_error.302] type must be string''))"

fun parse_fields :: "field list \<Rightarrow> (string \<times> json) list \<Rightarrow> dynamic_record \<Rightarrow> string + dynamic_record" where
  "parse_fields [] j rec = Inr rec"
| "parse_fields (f # fs) j rec =
     (case map_of j (f_name f) of
        None \<Rightarrow> parse_fields fs j rec
      | Some value \<Rightarrow>
          (case parse_field_value f value of
             Inl e \<Rightarrow> Inl e
           | Inr v \<Rightarrow> parse_fields fs j (tbl_put (f_name f) v rec)))"

definition parse_record :: "(string \<Rightarrow> string + json) \<Rightarrow> entity \<Rightarrow> string \<Rightarrow> string + dynamic_record" where
  "parse_record json_parse e body =
     (case json_parse body of
        Inl what \<Rightarrow> Inl (''[RUNTIME EXECUTION] Invalid JSON: '' @ what)
      | Inr j \<Rightarrow>
          (case j of JObject members \<Rightarrow> parse_fields (e_fields e) members []
           | _ \<Rightarrow> Inl ''The JSON body must be an object.''))"

section \<open>The registry of entities\<close>

type_synonym entity_registry = "(string, entity) table"

definition register_schema :: "schema \<Rightarrow> entity_registry \<Rightarrow> entity_registry" where
  "register_schema s reg = fold (\<lambda>e r. tbl_put (e_name e) e r) (entities s) []"

definition registry_find_entity :: "entity_registry \<Rightarrow> string \<Rightarrow> entity option" where
  "registry_find_entity reg n = tbl_get reg n"

definition registry_has_entity :: "entity_registry \<Rightarrow> string \<Rightarrow> bool" where
  "registry_has_entity reg n \<longleftrightarrow> registry_find_entity reg n \<noteq> None"

definition registry_find_field :: "entity_registry \<Rightarrow> string \<Rightarrow> string \<Rightarrow> field option" where
  "registry_find_field reg en fn =
     (case tbl_get reg en of None \<Rightarrow> None | Some e \<Rightarrow> find_field e fn)"

definition register_entity :: "entity \<Rightarrow> entity_registry \<Rightarrow> entity_registry" where
  "register_entity e reg = tbl_put (e_name e) e reg"

section \<open>Lemmas\<close>

lemma register_schema_ok [simp]: "tbl_ok (register_schema s reg)"
proof -
  have "tbl_ok r \<Longrightarrow> tbl_ok (fold (\<lambda>e r. tbl_put (e_name e) e r) es r)" for es r
    by (induction es arbitrary: r) auto
  from this [OF tbl_ok_Nil] show ?thesis by (simp add: register_schema_def)
qed

text \<open>Of several entities with one name the last one is registered.\<close>

lemma fold_register_get:
  "map_of (fold (\<lambda>e r. tbl_put (e_name e) e r) es reg) n =
     (case find (\<lambda>e. e_name e = n) (rev es) of None \<Rightarrow> map_of reg n | Some e \<Rightarrow> Some e)"
  by (induction es arbitrary: reg rule: rev_induct) auto

lemma find_rev_distinct:
  "distinct (map e_name es) \<Longrightarrow> find (\<lambda>e. e_name e = n) (rev es) = find (\<lambda>e. e_name e = n) es"
proof (induction es)
  case (Cons e es)
  have app: "find P (xs @ ys) = (case find P xs of None \<Rightarrow> find P ys | Some x \<Rightarrow> Some x)"
    for P :: "'x \<Rightarrow> bool" and xs ys
    by (induction xs) auto
  show ?case
  proof (cases "e_name e = n")
    case True
    with Cons.prems have "find (\<lambda>e. e_name e = n) es = None"
      by (auto simp: find_None_iff) (metis image_eqI)
    with Cons True show ?thesis by (simp add: app)
  next
    case False
    with Cons show ?thesis by (simp add: app split: option.splits)
  qed
qed simp

lemma registry_of_schema:
  assumes "distinct (map e_name (entities s))"
  shows "registry_find_entity (register_schema s reg) n = find_entity s n"
  by (simp add: registry_find_entity_def register_schema_def fold_register_get find_entity_def
      find_rev_distinct [OF assms] split: option.splits)

end
