(* ===== verification/Generic_Validator.thy ===== *)
theory Generic_Validator
  imports Runtime_Value
begin

text \<open>
  \<open>GenericValidator\<close> (\<open>libs/infrastructure/runtime/generic_validator.cpp\<close>): the type, email, length
  and bound checks of a record against the fields of its entity, for a full record and for a
  partial one. The email pattern is the regular expression of the source, read as a scanner; its
  language is given by \<open>email_language\<close>. The lemmas say what a record without messages satisfies
  and that the JSON parser produces records whose types the validator accepts.
\<close>

section \<open>Types and emails\<close>

definition matches_type :: "field_type \<Rightarrow> dynamic_value \<Rightarrow> bool" where
  "matches_type t v =
     (case t of
        FString \<Rightarrow> (case v of VString _ \<Rightarrow> True | _ \<Rightarrow> False)
      | FText \<Rightarrow> (case v of VString _ \<Rightarrow> True | _ \<Rightarrow> False)
      | FUUID \<Rightarrow> (case v of VString _ \<Rightarrow> True | _ \<Rightarrow> False)
      | FPassword \<Rightarrow> (case v of VString _ \<Rightarrow> True | _ \<Rightarrow> False)
      | FEmail \<Rightarrow> (case v of VString _ \<Rightarrow> True | _ \<Rightarrow> False)
      | FTimestamp \<Rightarrow> (case v of VString _ \<Rightarrow> True | _ \<Rightarrow> False)
      | FDecimal \<Rightarrow> (case v of VString _ \<Rightarrow> True | _ \<Rightarrow> False)
      | FFile \<Rightarrow> (case v of VString _ \<Rightarrow> True | _ \<Rightarrow> False)
      | FSmallInt \<Rightarrow> (case v of VInt16 _ \<Rightarrow> True | VUint16 _ \<Rightarrow> True | _ \<Rightarrow> False)
      | FInt \<Rightarrow> (case v of VInt32 _ \<Rightarrow> True | VUint32 _ \<Rightarrow> True | _ \<Rightarrow> False)
      | FBigInt \<Rightarrow> (case v of VInt64 _ \<Rightarrow> True | VUint64 _ \<Rightarrow> True | _ \<Rightarrow> False)
      | FFloat \<Rightarrow> (case v of VDouble _ \<Rightarrow> True | _ \<Rightarrow> False)
      | FBool \<Rightarrow> (case v of VBool _ \<Rightarrow> True | _ \<Rightarrow> False)
      | FBinary \<Rightarrow> (case v of VBytes _ \<Rightarrow> True | _ \<Rightarrow> False)
      | FJson \<Rightarrow> (case v of VJson _ \<Rightarrow> True | _ \<Rightarrow> False)
      | FNative \<Rightarrow> (case v of VNative _ _ _ \<Rightarrow> True | _ \<Rightarrow> False))"

definition email_local_char :: "char \<Rightarrow> bool" where
  "email_local_char c \<longleftrightarrow> is_alnum c \<or> c \<in> set ''._%+-''"

definition email_domain_char :: "char \<Rightarrow> bool" where
  "email_domain_char c \<longleftrightarrow> is_alnum c \<or> c = CHR ''.'' \<or> c = CHR ''-''"

text \<open>
  \<open>^[A-Za-z0-9._%+\-]+@[A-Za-z0-9.\-]+\.[A-Za-z]{2,}$\<close>, matched against the whole string: no class
  holds \<open>@\<close>, so it splits the string, and the last part is the longest suffix of letters.
\<close>

definition is_valid_email :: "string \<Rightarrow> bool" where
  "is_valid_email s =
     (case after_char (CHR ''@'') s of
        None \<Rightarrow> False
      | Some host \<Rightarrow>
          let user = before_char (CHR ''@'') s; tld = takeWhile is_alpha (rev host)
          in user \<noteq> [] \<and> list_all email_local_char user \<and> 2 \<le> length tld \<and>
             (case dropWhile is_alpha (rev host) of
                [] \<Rightarrow> False
              | d # domain \<Rightarrow> d = CHR ''.'' \<and> domain \<noteq> [] \<and> list_all email_domain_char domain))"

section \<open>Messages for one value\<close>

definition below_minimum :: "dynamic_value \<Rightarrow> numeric_constraint \<Rightarrow> bool" where
  "below_minimum v m =
     (case (v, m) of
        (VInt64 x, NcInt64 y) \<Rightarrow> sint x < sint y
      | (VDouble x, NcDouble y) \<Rightarrow> dbl_lt x y
      | (VUint32 x, NcUint32 y) \<Rightarrow> x < y
      | (VInt32 x, NcInt32 y) \<Rightarrow> sint x < sint y
      | _ \<Rightarrow> False)"

definition above_maximum :: "dynamic_value \<Rightarrow> numeric_constraint \<Rightarrow> bool" where
  "above_maximum v m =
     (case (v, m) of
        (VInt64 x, NcInt64 y) \<Rightarrow> sint y < sint x
      | (VDouble x, NcDouble y) \<Rightarrow> dbl_lt y x
      | (VUint32 x, NcUint32 y) \<Rightarrow> y < x
      | (VInt32 x, NcInt32 y) \<Rightarrow> sint y < sint x
      | _ \<Rightarrow> False)"

definition too_long :: "dynamic_value \<Rightarrow> size \<Rightarrow> bool" where
  "too_long v n = (case v of VString s \<Rightarrow> unat n < length s | _ \<Rightarrow> False)"

definition bad_email :: "dynamic_value \<Rightarrow> bool" where
  "bad_email v = (case v of VString s \<Rightarrow> \<not> is_valid_email s | _ \<Rightarrow> False)"

text \<open>The checks of a value that is present.\<close>

definition validate_value :: "field \<Rightarrow> dynamic_value \<Rightarrow> string list" where
  "validate_value f v =
     (if v = VNone then
        (if f_required f then [''Required field is null: '' @ f_name f] else [])
      else if \<not> matches_type (f_type f) v then [''Invalid type for field: '' @ f_name f]
      else
        (if f_type f = FEmail \<and> bad_email v then [''Invalid email format for field: '' @ f_name f] else []) @
        (case f_max_length f of None \<Rightarrow> []
         | Some n \<Rightarrow> if too_long v n then [''Field too long: '' @ f_name f] else []) @
        (case f_min_value f of None \<Rightarrow> []
         | Some m \<Rightarrow> if below_minimum v m then [''Field below minimum: '' @ f_name f] else []) @
        (case f_max_value f of None \<Rightarrow> []
         | Some m \<Rightarrow> if above_maximum v m then [''Field above maximum: '' @ f_name f] else []))"

section \<open>Records\<close>

fun validate_loop :: "field list \<Rightarrow> dynamic_record \<Rightarrow> string list" where
  "validate_loop [] rec = []"
| "validate_loop (f # fs) rec =
     (if f_name f = ''id'' then validate_loop fs rec
      else case tbl_get rec (f_name f) of
        None \<Rightarrow> (if f_required f \<and> \<not> field_has_default f
                  then [''Missing required field: '' @ f_name f] else []) @ validate_loop fs rec
      | Some v \<Rightarrow> validate_value f v @ validate_loop fs rec)"

definition validate :: "entity \<Rightarrow> dynamic_record \<Rightarrow> string list" where
  "validate e rec = validate_loop (e_fields e) rec"

fun validate_partial_loop :: "field list \<Rightarrow> dynamic_record \<Rightarrow> string list" where
  "validate_partial_loop [] rec = []"
| "validate_partial_loop (f # fs) rec =
     (if f_name f = ''id'' then validate_partial_loop fs rec
      else case tbl_get rec (f_name f) of
        None \<Rightarrow> validate_partial_loop fs rec
      | Some v \<Rightarrow> validate_value f v @ validate_partial_loop fs rec)"

definition validate_partial :: "entity \<Rightarrow> dynamic_record \<Rightarrow> string list" where
  "validate_partial e rec = validate_partial_loop (e_fields e) rec"

section \<open>What a validated record satisfies\<close>

text \<open>The language of the email pattern.\<close>

definition email_language :: "string \<Rightarrow> bool" where
  "email_language s \<longleftrightarrow>
     (\<exists>user domain tld. s = user @ ''@'' @ domain @ ''.'' @ tld
        \<and> user \<noteq> [] \<and> (\<forall>c \<in> set user. email_local_char c)
        \<and> domain \<noteq> [] \<and> (\<forall>c \<in> set domain. email_domain_char c)
        \<and> 2 \<le> length tld \<and> (\<forall>c \<in> set tld. is_alpha c))"

definition value_ok :: "field \<Rightarrow> dynamic_value \<Rightarrow> bool" where
  "value_ok f v \<longleftrightarrow>
     (v = VNone \<and> \<not> f_required f) \<or>
     (v \<noteq> VNone \<and> matches_type (f_type f) v
      \<and> (f_type f = FEmail \<longrightarrow> (\<exists>s. v = VString s \<and> email_language s))
      \<and> (\<forall>n. f_max_length f = Some n \<longrightarrow> \<not> too_long v n)
      \<and> (\<forall>m. f_min_value f = Some m \<longrightarrow> \<not> below_minimum v m)
      \<and> (\<forall>m. f_max_value f = Some m \<longrightarrow> \<not> above_maximum v m))"

lemma at_not_in_classes: "\<not> email_local_char (CHR ''@'')" "\<not> email_domain_char (CHR ''@'')" "\<not> is_alpha (CHR ''@'')"
  by (simp_all add: email_local_char_def email_domain_char_def char_class_defs)

lemma dot_not_alpha: "\<not> is_alpha (CHR ''.'')"
  by (simp add: char_class_defs)

lemma is_valid_email_iff: "is_valid_email s \<longleftrightarrow> email_language s"
proof
  assume v: "is_valid_email s"
  then obtain host where host: "after_char (CHR ''@'') s = Some host"
    by (auto simp: is_valid_email_def split: option.splits)
  let ?user = "before_char (CHR ''@'') s" and ?tld = "takeWhile is_alpha (rev host)"
  from v host obtain d dom where d: "dropWhile is_alpha (rev host) = d # dom" "d = CHR ''.''"
    "dom \<noteq> []" "list_all email_domain_char dom" "?user \<noteq> []" "list_all email_local_char ?user" "2 \<le> length ?tld"
    by (auto simp: is_valid_email_def Let_def split: list.splits)
  have "rev host = ?tld @ d # dom" using d(1) by (metis takeWhile_dropWhile_id)
  then have h: "host = rev dom @ ''.'' @ rev ?tld"
    using d(2) by (metis append_assoc append_Cons append_Nil rev.simps(2) rev_append rev_rev_ident)
  have "s = ?user @ ''@'' @ rev dom @ ''.'' @ rev ?tld"
    using split_at_char [OF host] h by simp
  moreover have "\<forall>c \<in> set (rev ?tld). is_alpha c" by (auto dest: set_takeWhileD)
  ultimately show "email_language s"
    unfolding email_language_def using d(3-7)
    by (intro exI [of _ ?user] exI [of _ "rev dom"] exI [of _ "rev ?tld"]) (simp add: list_all_iff)
next
  assume "email_language s"
  then obtain user domain tld where s: "s = user @ ''@'' @ domain @ ''.'' @ tld"
    and c: "user \<noteq> []" "\<forall>c \<in> set user. email_local_char c" "domain \<noteq> []"
      "\<forall>c \<in> set domain. email_domain_char c" "2 \<le> length tld" "\<forall>c \<in> set tld. is_alpha c"
    unfolding email_language_def by blast
  have at: "CHR ''@'' \<notin> set user" using c(2) at_not_in_classes by blast
  have tw: "takeWhile is_alpha (rev tld @ CHR ''.'' # rev domain) = rev tld"
    using c(6) dot_not_alpha by (subst takeWhile_append2) auto
  have dw: "dropWhile is_alpha (rev tld @ CHR ''.'' # rev domain) = CHR ''.'' # rev domain"
    using c(6) dot_not_alpha by (subst dropWhile_append2) auto
  show "is_valid_email s"
    using c at by (simp add: is_valid_email_def s tw dw Let_def list_all_iff)
qed

lemma validate_value_iff: "validate_value f v = [] \<longleftrightarrow> value_ok f v"
proof (cases "v = VNone \<or> \<not> matches_type (f_type f) v")
  case True
  then show ?thesis by (auto simp: validate_value_def value_ok_def)
next
  case False
  then have email: "f_type f = FEmail \<Longrightarrow> bad_email v \<longleftrightarrow> \<not> (\<exists>s. v = VString s \<and> email_language s)"
    by (cases v) (auto simp: matches_type_def bad_email_def is_valid_email_iff)
  show ?thesis
    using False email unfolding validate_value_def value_ok_def
    by (cases "f_max_length f"; cases "f_min_value f"; cases "f_max_value f"; cases "f_type f = FEmail") simp_all
qed

lemma validate_loop_iff:
  "validate_loop fs rec = [] \<longleftrightarrow>
     (\<forall>f \<in> set fs. f_name f \<noteq> ''id'' \<longrightarrow>
        (case tbl_get rec (f_name f) of None \<Rightarrow> \<not> f_required f \<or> field_has_default f | Some v \<Rightarrow> value_ok f v))"
  by (induction fs) (auto simp: validate_value_iff split: option.splits)

lemma validate_partial_loop_iff:
  "validate_partial_loop fs rec = [] \<longleftrightarrow>
     (\<forall>f \<in> set fs. f_name f \<noteq> ''id'' \<longrightarrow>
        (case tbl_get rec (f_name f) of None \<Rightarrow> True | Some v \<Rightarrow> value_ok f v))"
  by (induction fs) (auto simp: validate_value_iff split: option.splits)

lemma validate_partial_put_id:
  "validate_partial e (tbl_put ''id'' v rec) = validate_partial e rec"
proof -
  have "validate_partial_loop fs (tbl_put ''id'' v rec) = validate_partial_loop fs rec" for fs
    by (induction fs) (auto split: option.splits)
  then show ?thesis by (simp add: validate_partial_def)
qed

section \<open>Parsed records are typed\<close>

lemma parse_field_value_typed:
  "parse_field_value f j = Inr v \<Longrightarrow> v = VNone \<or> matches_type (f_type f) v"
  unfolding parse_field_value_def field_error_def Let_def
  by (cases "f_type f"; cases j) (auto simp: matches_type_def split: if_splits)

lemma parse_fields_typed:
  "parse_fields fs j rec = Inr rec' \<Longrightarrow> map_of rec' n = Some v \<Longrightarrow>
   map_of rec n = Some v \<or>
   (\<exists>f \<in> set fs. \<exists>x. f_name f = n \<and> map_of j n = Some x \<and> parse_field_value f x = Inr v)"
proof (induction fs j rec rule: parse_fields.induct)
  case (2 f fs j rec)
  show ?case
  proof (cases "map_of j (f_name f)")
    case None
    with 2 show ?thesis by (auto split: option.splits)
  next
    case (Some x)
    with 2(3) obtain w where w: "parse_field_value f x = Inr w"
      "parse_fields fs j (tbl_put (f_name f) w rec) = Inr rec'"
      by (auto split: sum.splits)
    from 2(2) [OF Some w(1) w(2) 2(4)] Some w(1) show ?thesis by (auto split: if_splits)
  qed
qed simp

end
