(* ===== verification/Json_Writer.thy ===== *)
theory Json_Writer
  imports Runtime_Value
begin

text \<open>
  The text of the replies (\<open>apps/Backend_Seastar/src/http/utils/http_utils.cpp\<close>): the escaping of
  strings, the JSON of values, records and lists of records, the string forms of a value, the
  search of a record by a field, and the path helpers. How an output stream prints a double is the
  argument \<open>dbl_text\<close>. The fields of a record come in the order in which its map iterates.
\<close>

definition escape_char :: "char \<Rightarrow> string" where
  "escape_char c =
     (if c = CHR 0x22 then [CHR 0x5C, CHR 0x22]
      else if c = CHR 0x5C then [CHR 0x5C, CHR 0x5C]
      else if c = CHR 0x08 then [CHR 0x5C, CHR ''b'']
      else if c = CHR 0x0C then [CHR 0x5C, CHR ''f'']
      else if c = CHR 0x0A then [CHR 0x5C, CHR ''n'']
      else if c = CHR 0x0D then [CHR 0x5C, CHR ''r'']
      else if c = CHR 0x09 then [CHR 0x5C, CHR ''t'']
      else [c])"

definition json_escape :: "string \<Rightarrow> string" where
  "json_escape input = concat (map escape_char input)"

definition json_quote :: "string \<Rightarrow> string" where
  "json_quote s = [CHR 0x22] @ json_escape s @ [CHR 0x22]"

fun comma_separated :: "string list \<Rightarrow> string" where
  "comma_separated [] = []"
| "comma_separated [s] = s"
| "comma_separated (s # t # rest) = s @ '','' @ comma_separated (t # rest)"

fun dynamic_value_to_json :: "(double \<Rightarrow> string) \<Rightarrow> dynamic_value \<Rightarrow> string" where
  "dynamic_value_to_json dbl_text VNone = ''null''"
| "dynamic_value_to_json dbl_text (VString s) = json_quote s"
| "dynamic_value_to_json dbl_text (VInt64 w) = int_str (sint w)"
| "dynamic_value_to_json dbl_text (VDouble d) = dbl_text d"
| "dynamic_value_to_json dbl_text (VBool b) = (if b then ''true'' else ''false'')"
| "dynamic_value_to_json dbl_text (VStrings vs) = ''['' @ comma_separated (map json_quote vs) @ '']''"
| "dynamic_value_to_json dbl_text _ = ''null''"

definition record_to_json :: "(double \<Rightarrow> string) \<Rightarrow> dynamic_record \<Rightarrow> string" where
  "record_to_json dbl_text rec =
     [CHR 0x7B] @ comma_separated
       (map (\<lambda>(k, v). json_quote k @ '':'' @ dynamic_value_to_json dbl_text v) rec) @ [CHR 0x7D]"

definition records_to_json :: "(double \<Rightarrow> string) \<Rightarrow> dynamic_record list \<Rightarrow> string" where
  "records_to_json dbl_text records = ''['' @ comma_separated (map (record_to_json dbl_text) records) @ '']''"

fun http_value_to_string :: "(double \<Rightarrow> string) \<Rightarrow> dynamic_value \<Rightarrow> string option" where
  "http_value_to_string dbl_text (VString s) = Some s"
| "http_value_to_string dbl_text (VInt64 w) = Some (int_str (sint w))"
| "http_value_to_string dbl_text (VDouble d) = Some (dbl_text d)"
| "http_value_to_string dbl_text (VBool b) = Some (if b then ''true'' else ''false'')"
| "http_value_to_string dbl_text _ = None"

fun http_value_to_string_id :: "dynamic_value \<Rightarrow> string option" where
  "http_value_to_string_id (VString s) = Some s"
| "http_value_to_string_id (VInt64 w) = Some (int_str (sint w))"
| "http_value_to_string_id _ = None"

fun dynamic_value_matches_string :: "(double \<Rightarrow> string) \<Rightarrow> dynamic_value \<Rightarrow> string \<Rightarrow> bool" where
  "dynamic_value_matches_string dbl_text (VString s) expected = (s = expected)"
| "dynamic_value_matches_string dbl_text (VInt64 w) expected = (int_str (sint w) = expected)"
| "dynamic_value_matches_string dbl_text (VDouble d) expected = (dbl_text d = expected)"
| "dynamic_value_matches_string dbl_text (VBool b) expected =
     (if expected = ''true'' then b else if expected = ''false'' then \<not> b else False)"
| "dynamic_value_matches_string dbl_text _ expected = False"

fun find_record_by_field ::
  "(double \<Rightarrow> string) \<Rightarrow> dynamic_record list \<Rightarrow> string \<Rightarrow> string \<Rightarrow> dynamic_record option" where
  "find_record_by_field dbl_text [] field_name expected = None"
| "find_record_by_field dbl_text (rec # records) field_name expected =
     (case tbl_get rec field_name of
        None \<Rightarrow> find_record_by_field dbl_text records field_name expected
      | Some v \<Rightarrow>
          if dynamic_value_matches_string dbl_text v expected then Some rec
          else find_record_by_field dbl_text records field_name expected)"

text \<open>\<open>generate_int_id\<close>: one more than the greatest 64-bit identifier.\<close>

definition generate_int_id :: "dynamic_record list \<Rightarrow> 64 word" where
  "generate_int_id records =
     fold (\<lambda>rec m. case tbl_get rec ''id'' of
         Some (VInt64 w) \<Rightarrow> if sint m < sint w then w else m
       | _ \<Rightarrow> m) records 0 + 1"

definition lower_first :: "string \<Rightarrow> string" where
  "lower_first s = (case s of [] \<Rightarrow> [] | c # cs \<Rightarrow> char_lower c # cs)"

definition strip_leading_slash :: "string \<Rightarrow> string" where
  "strip_leading_slash s = (case s of [] \<Rightarrow> [] | c # cs \<Rightarrow> if c = CHR ''/'' then cs else s)"

section \<open>Lemmas\<close>

lemma json_escape_Nil [simp]: "json_escape [] = []"
  by (simp add: json_escape_def)

lemma json_escape_Cons [simp]: "json_escape (c # s) = escape_char c @ json_escape s"
  by (simp add: json_escape_def)

text \<open>Reading an escaped string back: the inverse of the seven escapes.\<close>

fun json_unescape :: "string \<Rightarrow> string option" where
  "json_unescape [] = Some []"
| "json_unescape [c] = (if c = CHR 0x5C \<or> c = CHR 0x22 then None else Some [c])"
| "json_unescape (c # d # s) =
     (if c = CHR 0x22 then None
      else if c \<noteq> CHR 0x5C then map_option ((#) c) (json_unescape (d # s))
      else if d = CHR 0x22 then map_option ((#) (CHR 0x22)) (json_unescape s)
      else if d = CHR 0x5C then map_option ((#) (CHR 0x5C)) (json_unescape s)
      else if d = CHR ''b'' then map_option ((#) (CHR 0x08)) (json_unescape s)
      else if d = CHR ''f'' then map_option ((#) (CHR 0x0C)) (json_unescape s)
      else if d = CHR ''n'' then map_option ((#) (CHR 0x0A)) (json_unescape s)
      else if d = CHR ''r'' then map_option ((#) (CHR 0x0D)) (json_unescape s)
      else if d = CHR ''t'' then map_option ((#) (CHR 0x09)) (json_unescape s)
      else None)"

lemma json_unescape_plain:
  "c \<noteq> CHR 0x22 \<Longrightarrow> c \<noteq> CHR 0x5C \<Longrightarrow> json_unescape (c # s) = map_option ((#) c) (json_unescape s)"
  by (cases s) auto

lemma json_unescape_escape: "json_unescape (escape_char c @ s) = map_option ((#) c) (json_unescape s)"
proof (cases "length (escape_char c) = 1")
  case True
  then have "escape_char c = [c]" and "c \<noteq> CHR 0x22" and "c \<noteq> CHR 0x5C"
    by (auto simp: escape_char_def split: if_splits)
  then show ?thesis by (simp add: json_unescape_plain)
next
  case False
  then consider "c = CHR 0x22" | "c = CHR 0x5C" | "c = CHR 0x08" | "c = CHR 0x0C" | "c = CHR 0x0A"
    | "c = CHR 0x0D" | "c = CHR 0x09"
    by (auto simp: escape_char_def split: if_splits)
  then show ?thesis by cases (simp_all add: escape_char_def)
qed

lemma json_unescape_json_escape: "json_unescape (json_escape s) = Some s"
  by (induction s) (simp_all add: json_unescape_escape)

lemma find_record_by_field_iff:
  "find_record_by_field dbl_text records f x =
   find (\<lambda>r. case map_of r f of None \<Rightarrow> False | Some v \<Rightarrow> dynamic_value_matches_string dbl_text v x) records"
  by (induction records) (auto split: option.splits)

end
