(* ===== verification/Cookie_Helper.thy ===== *)
theory Cookie_Helper
  imports Sea_Prelude
begin

text \<open>
  Cookies (\<open>apps/Backend_Seastar/src/http/utils/cookie_helper.cpp\<close> and
  \<open>libs/domain/security_scheme/cookie_config.{h,cpp}\<close>): the configuration, the builder of
  \<open>Set-Cookie\<close> values, and the two readers of a \<open>Cookie\<close> header, which walk the text between
  semicolons. The lemmas relate both readers to the list of name/value pairs of the header.
\<close>

section \<open>Configuration\<close>

datatype same_site_policy = SameSiteLax | SameSiteStrict | SameSiteNone

datatype token_delivery = DeliverBody | DeliverCookie | DeliverBoth

definition token_delivery_from_string :: "string \<Rightarrow> string + token_delivery" where
  "token_delivery_from_string s =
     (if s = ''body'' then Inr DeliverBody
      else if s = ''cookie'' then Inr DeliverCookie
      else if s = ''both'' then Inr DeliverBoth
      else Inl (''CookieConfig: unknown token_delivery '' @ quoted s @ '' (expected: body | cookie | both)''))"

fun token_delivery_to_string :: "token_delivery \<Rightarrow> string" where
  "token_delivery_to_string DeliverBody = ''body''"
| "token_delivery_to_string DeliverCookie = ''cookie''"
| "token_delivery_to_string DeliverBoth = ''both''"

definition same_site_from_string :: "string \<Rightarrow> string + same_site_policy" where
  "same_site_from_string s =
     (if s = ''lax'' \<or> s = ''Lax'' then Inr SameSiteLax
      else if s = ''strict'' \<or> s = ''Strict'' then Inr SameSiteStrict
      else if s = ''none'' \<or> s = ''None'' then Inr SameSiteNone
      else Inl (''CookieConfig: unknown same_site '' @ quoted s @ '' (expected: lax | strict | none)''))"

fun same_site_to_string :: "same_site_policy \<Rightarrow> string" where
  "same_site_to_string SameSiteLax = ''Lax''"
| "same_site_to_string SameSiteStrict = ''Strict''"
| "same_site_to_string SameSiteNone = ''None''"

record cookie_config =
  ck_domain :: string
  ck_path :: string
  ck_secure :: bool
  ck_same_site :: same_site_policy
  access_token_name :: string
  refresh_token_name :: string

definition cookie_safe_defaults :: cookie_config where
  "cookie_safe_defaults = \<lparr>ck_domain = [], ck_path = ''/'', ck_secure = True, ck_same_site = SameSiteLax,
     access_token_name = ''sea_access'', refresh_token_name = ''sea_refresh''\<rparr>"

definition cookie_config_validate :: "cookie_config \<Rightarrow> string option" where
  "cookie_config_validate cfg =
     (if ck_path cfg = [] then Some ''CookieConfig: path cannot be empty''
      else if hd (ck_path cfg) \<noteq> CHR ''/'' then
        Some (''CookieConfig: path must start with '' @ quoted ''/'' @ '' (got '' @ quoted (ck_path cfg) @ '')'')
      else if access_token_name cfg = [] then Some ''CookieConfig: access_token_name cannot be empty''
      else if refresh_token_name cfg = [] then Some ''CookieConfig: refresh_token_name cannot be empty''
      else if access_token_name cfg = refresh_token_name cfg then
        Some (''CookieConfig: access_token_name and refresh_token_name must differ (got both = ''
          @ quoted (access_token_name cfg) @ '')'')
      else if ck_same_site cfg = SameSiteNone \<and> \<not> ck_secure cfg then
        Some (''CookieConfig: same_site=None requires secure=true ''
          @ ''(modern browsers reject SameSite=None cookies without Secure)'')
      else None)"

section \<open>Building a cookie\<close>

definition cookie_name_char :: "char \<Rightarrow> bool" where
  "cookie_name_char c \<longleftrightarrow> \<not> (char_code c \<le> 32 \<or> char_code c = 127) \<and> c \<notin> set ''()<>@,;:[]?={}/'' \<and>
     c \<noteq> CHR 0x5C \<and> c \<noteq> CHR 0x22"

definition is_valid_cookie_name :: "string \<Rightarrow> bool" where
  "is_valid_cookie_name name = (if name = [] then False else list_all cookie_name_char name)"

definition is_safe_cookie_value :: "string \<Rightarrow> bool" where
  "is_safe_cookie_value v = list_all (\<lambda>c. \<not> (c = CHR '';'' \<or> c = CHR 0x0A \<or> c = CHR 0x0D)) v"

definition trim_view :: "string \<Rightarrow> string" where
  "trim_view s = trim_by is_space s"

fun same_site_token :: "same_site_policy \<Rightarrow> string" where
  "same_site_token SameSiteLax = ''Lax''"
| "same_site_token SameSiteStrict = ''Strict''"
| "same_site_token SameSiteNone = ''None''"

record cookie_builder =
  cb_name :: string
  cb_value :: string
  cb_domain :: string
  cb_path :: string
  cb_max_age :: "64 word option"
  cb_secure :: bool
  cb_http_only :: bool
  cb_same_site :: same_site_policy

definition make_cookie :: "string \<Rightarrow> string \<Rightarrow> cookie_builder" where
  "make_cookie name v = \<lparr>cb_name = name, cb_value = v, cb_domain = [], cb_path = ''/'', cb_max_age = None,
     cb_secure = True, cb_http_only = True, cb_same_site = SameSiteLax\<rparr>"

definition as_expired :: "cookie_builder \<Rightarrow> cookie_builder" where
  "as_expired b = b\<lparr>cb_value := [], cb_max_age := Some 0\<rparr>"

definition cookie_text :: "cookie_builder \<Rightarrow> string" where
  "cookie_text b =
     cb_name b @ ''='' @ cb_value b
     @ (case cb_max_age b of None \<Rightarrow> [] | Some w \<Rightarrow> ''; Max-Age='' @ int_str (sint w))
     @ (if cb_domain b = [] then [] else ''; Domain='' @ cb_domain b)
     @ (if cb_path b = [] then [] else ''; Path='' @ cb_path b)
     @ (if cb_secure b then ''; Secure'' else [])
     @ (if cb_http_only b then ''; HttpOnly'' else [])
     @ ''; SameSite='' @ same_site_token (cb_same_site b)"

definition cookie_build :: "cookie_builder \<Rightarrow> string + string" where
  "cookie_build b =
     (if \<not> is_valid_cookie_name (cb_name b) then
        Inl (''CookieBuilder: invalid cookie name '' @ quoted (cb_name b)
          @ '' (RFC 6265 token: no controls, spaces, or HTTP separators)'')
      else if \<not> is_safe_cookie_value (cb_value b) then
        Inl (''CookieBuilder: cookie value contains forbidden characters ('' @ quoted '';'' @ '', ''
          @ quoted [CHR 0x5C, CHR ''n''] @ '' or '' @ quoted [CHR 0x5C, CHR ''r''] @ '') ''
          @ [CHR 0xE2, CHR 0x80, CHR 0x94] @ '' possible header injection attempt'')
      else Inr (cookie_text b))"

text \<open>The attributes every cookie of a service takes from its configuration.\<close>

definition configured :: "cookie_config \<Rightarrow> cookie_builder \<Rightarrow> cookie_builder" where
  "configured cfg b =
     b\<lparr>cb_path := ck_path cfg, cb_secure := ck_secure cfg, cb_http_only := True,
       cb_same_site := ck_same_site cfg,
       cb_domain := (if ck_domain cfg \<noteq> [] then ck_domain cfg else cb_domain b)\<rparr>"

definition build_access_cookie :: "cookie_config \<Rightarrow> string \<Rightarrow> 64 word \<Rightarrow> string + string" where
  "build_access_cookie cfg token ttl =
     cookie_build ((configured cfg (make_cookie (access_token_name cfg) token))\<lparr>cb_max_age := Some ttl\<rparr>)"

definition build_refresh_cookie :: "cookie_config \<Rightarrow> string \<Rightarrow> 64 word \<Rightarrow> string + string" where
  "build_refresh_cookie cfg token ttl =
     cookie_build ((configured cfg (make_cookie (refresh_token_name cfg) token))\<lparr>cb_max_age := Some ttl\<rparr>)"

definition clear_access_cookie :: "cookie_config \<Rightarrow> string + string" where
  "clear_access_cookie cfg = cookie_build (as_expired (configured cfg (make_cookie (access_token_name cfg) [])))"

definition clear_refresh_cookie :: "cookie_config \<Rightarrow> string + string" where
  "clear_refresh_cookie cfg = cookie_build (as_expired (configured cfg (make_cookie (refresh_token_name cfg) [])))"

section \<open>Reading a Cookie header\<close>

function parse_cookie_loop :: "string \<Rightarrow> (string, string) table \<Rightarrow> (string, string) table" where
  "parse_cookie_loop header result =
     (if header = [] then result
      else let pair = trim_view (before_char (CHR '';'') header);
               result' =
                 (if pair \<noteq> [] then
                    (case after_char (CHR ''='') pair of
                       None \<Rightarrow> result
                     | Some r \<Rightarrow>
                         let name = trim_view (before_char (CHR ''='') pair); v = trim_view r
                         in if name \<noteq> [] then tbl_put name v result else result)
                  else result)
           in case after_char (CHR '';'') header of
                None \<Rightarrow> result'
              | Some rest \<Rightarrow> parse_cookie_loop rest result')"
  by pat_completeness auto
termination by (relation "measure (\<lambda>(h, _). length h)") (auto dest: after_char_shorter)

definition parse_cookie_header :: "string \<Rightarrow> (string, string) table" where
  "parse_cookie_header header = parse_cookie_loop header []"

function cookie_value_loop :: "string \<Rightarrow> string \<Rightarrow> string option \<Rightarrow> string option" where
  "cookie_value_loop cookie_name header last_match =
     (if header = [] then last_match
      else let pair = trim_view (before_char (CHR '';'') header);
               last_match' =
                 (if pair \<noteq> [] then
                    (case after_char (CHR ''='') pair of
                       None \<Rightarrow> last_match
                     | Some r \<Rightarrow>
                         if trim_view (before_char (CHR ''='') pair) = cookie_name
                         then Some (trim_view r) else last_match)
                  else last_match)
           in case after_char (CHR '';'') header of
                None \<Rightarrow> last_match'
              | Some rest \<Rightarrow> cookie_value_loop cookie_name rest last_match')"
  by pat_completeness auto
termination by (relation "measure (\<lambda>(_, h, _). length h)") (auto dest: after_char_shorter)

definition get_cookie_value :: "string \<Rightarrow> string \<Rightarrow> string option" where
  "get_cookie_value header cookie_name = cookie_value_loop cookie_name header None"

declare parse_cookie_loop.simps [simp del] cookie_value_loop.simps [simp del]

section \<open>Lemmas\<close>

text \<open>The two readers agree on every name a cookie can have.\<close>

lemma cookie_readers_loop:
  "n \<noteq> [] \<Longrightarrow> cookie_value_loop n header (map_of result n) = map_of (parse_cookie_loop header result) n"
proof (induction header result rule: parse_cookie_loop.induct)
  case (1 header result)
  show ?case
  proof (cases "header = []")
    case True
    then show ?thesis by (simp add: parse_cookie_loop.simps cookie_value_loop.simps)
  next
    case False
    define pair where "pair = trim_view (before_char (CHR '';'') header)"
    define res' where "res' = (if pair \<noteq> [] then
        (case after_char (CHR ''='') pair of
           None \<Rightarrow> result
         | Some r \<Rightarrow>
             let name = trim_view (before_char (CHR ''='') pair); v = trim_view r
             in if name \<noteq> [] then tbl_put name v result else result)
        else result)"
    have m: "map_of res' n = (if pair \<noteq> [] then
        (case after_char (CHR ''='') pair of
           None \<Rightarrow> map_of result n
         | Some r \<Rightarrow> if trim_view (before_char (CHR ''='') pair) = n
             then Some (trim_view r) else map_of result n) else map_of result n)"
      using 1(2) by (auto simp: res'_def Let_def split: option.splits)
    show ?thesis
    proof (cases "after_char (CHR '';'') header")
      case None
      then show ?thesis
        using False m
        by (simp add: parse_cookie_loop.simps [of header] cookie_value_loop.simps [of n header]
            pair_def [symmetric] res'_def [symmetric])
    next
      case (Some rest)
      have "cookie_value_loop n rest (map_of res' n) = map_of (parse_cookie_loop rest res') n"
        using 1(1) [OF False pair_def res'_def Some 1(2)] .
      then show ?thesis
        using False Some m
        by (simp add: parse_cookie_loop.simps [of header] cookie_value_loop.simps [of n header]
            pair_def [symmetric] res'_def [symmetric])
    qed
  qed
qed

lemma trim_by_id:
  assumes "s = [] \<or> (\<not> p (hd s) \<and> \<not> p (last s))"
  shows "trim_by p s = s"
proof (cases s rule: rev_cases)
  case Nil
  then show ?thesis by (simp add: trim_by_def)
next
  case (snoc t c)
  then have "dropWhile p s = s" using assms by (cases t) auto
  then show ?thesis using assms snoc by (simp add: trim_by_def)
qed

lemma space_is_space [simp]: "is_space (CHR '' '')"
  by (simp add: is_space_def char_code_def)

lemma trim_view_space: "trim_view (CHR '' '' # s) = trim_view s"
  by (simp add: trim_view_def trim_by_def)

lemma name_char_not: "cookie_name_char c \<Longrightarrow> \<not> is_space c \<and> c \<noteq> CHR '';'' \<and> c \<noteq> CHR ''=''"
  by (auto simp: cookie_name_char_def is_space_def)

text \<open>The text of a list of cookies as a browser sends it.\<close>

fun cookie_header :: "(string \<times> string) list \<Rightarrow> string" where
  "cookie_header [] = []"
| "cookie_header [(n, v)] = n @ ''='' @ v"
| "cookie_header ((n, v) # c # cs) = n @ ''='' @ v @ ''; '' @ cookie_header (c # cs)"

definition cookie_ok :: "string \<times> string \<Rightarrow> bool" where
  "cookie_ok c = (case c of (n, v) \<Rightarrow> is_valid_cookie_name n \<and> is_safe_cookie_value v \<and>
     (v = [] \<or> \<not> is_space (hd v) \<and> \<not> is_space (last v)))"

lemma cookie_okD:
  assumes "cookie_ok (n, v)"
  shows "n \<noteq> []" and "CHR '';'' \<notin> set (n @ ''='' @ v)" and "CHR ''='' \<notin> set n"
    and "trim_view (n @ ''='' @ v) = n @ ''='' @ v" and "trim_view n = n" and "trim_view v = v"
proof -
  have n: "n \<noteq> []" "\<forall>c \<in> set n. cookie_name_char c"
    using assms by (auto simp: cookie_ok_def is_valid_cookie_name_def list_all_iff split: if_splits)
  show "n \<noteq> []" by (rule n(1))
  show "CHR '';'' \<notin> set (n @ ''='' @ v)" "CHR ''='' \<notin> set n"
    using assms n(2) name_char_not by (auto simp: cookie_ok_def is_safe_cookie_value_def list_all_iff)
  have ends: "\<not> is_space (hd n)" "\<not> is_space (last n)" using n name_char_not by auto
  have "\<not> is_space (last (n @ ''='' @ v))"
    using assms by (auto simp: cookie_ok_def is_space_def char_code_def)
  then show "trim_view (n @ ''='' @ v) = n @ ''='' @ v"
    unfolding trim_view_def using ends n by (intro trim_by_id) auto
  show "trim_view n = n" unfolding trim_view_def using ends by (intro trim_by_id) auto
  show "trim_view v = v"
    unfolding trim_view_def using assms by (intro trim_by_id) (auto simp: cookie_ok_def)
qed

lemma cookie_value_space:
  "h \<noteq> [] \<Longrightarrow> cookie_value_loop n (CHR '' '' # h) d = cookie_value_loop n h d"
  by (simp add: cookie_value_loop.simps [of n "CHR '' '' # h"] cookie_value_loop.simps [of n h]
      before_char_def after_char_def trim_view_space [unfolded before_char_def])

lemma cookie_value_step:
  assumes "cookie_ok (m, v)"
  shows "cookie_value_loop n (m @ ''='' @ v @ CHR '';'' # rest) d =
      cookie_value_loop n rest (if m = n then Some v else d)"
    and "cookie_value_loop n (m @ ''='' @ v) d = (if m = n then Some v else d)"
proof -
  note ok = cookie_okD [OF assms]
  have b: "before_char (CHR '';'') (m @ ''='' @ v @ CHR '';'' # rest) = m @ ''='' @ v"
    "after_char (CHR '';'') (m @ ''='' @ v @ CHR '';'' # rest) = Some rest"
    using before_char_append [OF ok(2), of rest] after_char_append [OF ok(2), of rest] by simp_all
  have e: "before_char (CHR '';'') (m @ ''='' @ v) = m @ ''='' @ v"
    "after_char (CHR '';'') (m @ ''='' @ v) = None"
    using ok(2) by (simp_all only: before_char_none after_char_None_iff not_False_eq_True)
  have q: "before_char (CHR ''='') (m @ ''='' @ v) = m" "after_char (CHR ''='') (m @ ''='' @ v) = Some v"
    using before_char_append [OF ok(3), of v] after_char_append [OF ok(3), of v] by simp_all
  show "cookie_value_loop n (m @ ''='' @ v @ CHR '';'' # rest) d =
      cookie_value_loop n rest (if m = n then Some v else d)"
    unfolding cookie_value_loop.simps [of n "m @ ''='' @ v @ CHR '';'' # rest"] b ok(4) q Let_def
    using ok by simp
  show "cookie_value_loop n (m @ ''='' @ v) d = (if m = n then Some v else d)"
    unfolding cookie_value_loop.simps [of n "m @ ''='' @ v"] e ok(4) q Let_def
    using ok by simp
qed

lemma cookie_header_nonempty: "cookie_header (c # cs) \<noteq> []"
  by (cases c; cases cs) auto

lemma cookie_value_header:
  assumes "list_all cookie_ok cs"
  shows "cookie_value_loop n (cookie_header cs) d =
    (case map_of (rev cs) n of Some v \<Rightarrow> Some v | None \<Rightarrow> d)"
  using assms
proof (induction cs arbitrary: d rule: cookie_header.induct)
  case 1
  show ?case by (simp add: cookie_value_loop.simps)
next
  case (2 m v)
  then show ?case using cookie_value_step(2) [of m v n d] by simp
next
  case (3 m v c cs)
  have "cookie_value_loop n (cookie_header ((m, v) # c # cs)) d =
      cookie_value_loop n (cookie_header (c # cs)) (if m = n then Some v else d)"
    using cookie_value_step(1) [of m v n "CHR '' '' # cookie_header (c # cs)" d] 3(2)
      cookie_value_space [OF cookie_header_nonempty [of c cs]]
    by simp
  with 3 show ?case by (auto simp: map_add_def split: option.splits)
qed

lemma cookie_build_pair:
  assumes "cookie_build b = Inr text"
  shows "before_char (CHR '';'') text = cb_name b @ ''='' @ cb_value b"
    and "is_valid_cookie_name (cb_name b)" and "is_safe_cookie_value (cb_value b)"
proof -
  show ok: "is_valid_cookie_name (cb_name b)" "is_safe_cookie_value (cb_value b)"
    using assms by (auto simp: cookie_build_def split: if_splits)
  have "CHR '';'' \<notin> set (cb_name b @ ''='' @ cb_value b)"
    using ok name_char_not
    by (auto simp: is_valid_cookie_name_def is_safe_cookie_value_def list_all_iff split: if_splits)
  moreover have "\<exists>r. text = (cb_name b @ ''='' @ cb_value b) @ CHR '';'' # r"
    using assms ok by (cases "cb_max_age b") (auto simp: cookie_build_def cookie_text_def)
  ultimately show "before_char (CHR '';'') text = cb_name b @ ''='' @ cb_value b"
    using before_char_append by metis
qed

end
