(* ===== verification/Schema_Validator.thy ===== *)
theory Schema_Validator
  imports Domain_Model
begin

text \<open>
  \<open>SchemaValidator\<close> (\<open>libs/domain/schema_validator.cpp\<close>). The C++ functions push messages onto a
  vector; here each returns the messages it pushes, in order, and the sets of names they keep
  (\<open>std::unordered_set\<close>) are arguments of the loops. The second half states what a schema without
  messages satisfies: the names and references of the schema, the storage paths that stay below the
  storage root, and the sort expressions of the pagination blocks.
\<close>

section \<open>Identifiers and sort expressions\<close>

definition is_blank :: "string \<Rightarrow> bool" where
  "is_blank v \<longleftrightarrow> v = []"

definition is_valid_identifier :: "string \<Rightarrow> bool" where
  "is_valid_identifier v =
     (case v of [] \<Rightarrow> False
      | first # _ \<Rightarrow>
          if \<not> (is_alpha first \<or> first = CHR ''_'') then False
          else list_all (\<lambda>c. is_alnum c \<or> c = CHR ''_'') v)"

record sort_token =
  st_field :: string
  st_direction :: string

definition parse_sort_token :: "string \<Rightarrow> sort_token option" where
  "parse_sort_token raw =
     (case after_char (CHR '':'') raw of
        None \<Rightarrow> None
      | Some dir \<Rightarrow>
          let fld = before_char (CHR '':'') raw in
          if fld = [] \<or> dir = [] then None
          else let d = str_lower dir in
            if d \<noteq> ''asc'' \<and> d \<noteq> ''desc'' then None
            else Some \<lparr>st_field = fld, st_direction = d\<rparr>)"

function parse_sort_loop :: "string \<Rightarrow> sort_token list \<Rightarrow> sort_token list option" where
  "parse_sort_loop sv tokens =
     (if sv = [] then Some tokens
      else let part = trim_by is_space (before_char (CHR '','') sv) in
        if part = [] then None
        else case parse_sort_token part of
          None \<Rightarrow> None
        | Some tok \<Rightarrow>
            (case after_char (CHR '','') sv of
               None \<Rightarrow> Some (tokens @ [tok])
             | Some rest \<Rightarrow> parse_sort_loop rest (tokens @ [tok])))"
  by pat_completeness auto
termination
proof (relation "measure (length \<circ> fst)")
  fix sv :: string and tokens part tok rest
  assume "after_char (CHR '','') sv = Some rest"
  then have "sv = before_char (CHR '','') sv @ CHR '','' # rest" by (rule split_at_char)
  then have "length sv = length (before_char (CHR '','') sv @ CHR '','' # rest)" by simp
  then show "((rest, tokens @ [tok]), sv, tokens) \<in> measure (length \<circ> fst)" by simp
qed simp

declare parse_sort_loop.simps [simp del]

definition parse_sort_expression :: "string \<Rightarrow> sort_token list option" where
  "parse_sort_expression expression = parse_sort_loop expression []"

fun sort_tokens_error :: "entity \<Rightarrow> string list \<Rightarrow> string \<Rightarrow> sort_token list \<Rightarrow> string option" where
  "sort_tokens_error e allow ctx [] = None"
| "sort_tokens_error e allow ctx (t # ts) =
     (if \<not> has_field e (st_field t) then
        Some (''The '' @ ctx @ '' sorts on an unknown field: '' @ quoted (st_field t) @ ''.'')
      else if st_field t \<notin> set allow then
        Some (''The '' @ ctx @ '' sorts on field '' @ quoted (st_field t) @ '' that is not in sortable_fields.'')
      else sort_tokens_error e allow ctx ts)"

definition validate_sort_expression :: "string \<Rightarrow> string list \<Rightarrow> entity \<Rightarrow> string \<Rightarrow> string option" where
  "validate_sort_expression expression allow e ctx =
     (case parse_sort_expression expression of
        None \<Rightarrow> Some (''The '' @ ctx @ '' has a malformed default_sort: '' @ quoted expression @
           '' (expected: '' @ quoted ''field:asc'' @ '' or '' @ quoted ''field:desc'' @ ''[,'' @
           quoted ''field:asc'' @ '']*).'')
      | Some tokens \<Rightarrow> sort_tokens_error e allow ctx tokens)"

section \<open>File fields\<close>

text \<open>The scan over a storage path: the messages for \<open>..\<close> segments, and whether an inner segment is empty.\<close>

fun scan_segments :: "string \<Rightarrow> string \<Rightarrow> string \<Rightarrow> string list \<times> bool" where
  "scan_segments msg segment [] = (if segment = ''..'' then [msg] else [], False)"
| "scan_segments msg segment (c # rest) =
     (if c = CHR ''/'' then
        (case scan_segments msg [] rest of (errs, empty_segment) \<Rightarrow>
           ((if segment = ''..'' then [msg] else []) @ errs, segment = [] \<or> empty_segment))
      else scan_segments msg (segment @ [c]) rest)"

definition soft_max_size_warn :: size where
  "soft_max_size_warn = 10 * 1024 * 1024 * 1024"

definition validate_storage_path :: "string \<Rightarrow> string \<Rightarrow> string list" where
  "validate_storage_path ctx sp =
     (if sp = [] then
        [ctx @ '' must define a storage_path (otherwise all files go to the storage root).'']
      else
        (if hd sp = CHR ''/'' then
           [ctx @ '' has an absolute storage_path '' @ quoted sp @ '' (must be relative to the storage root).'']
         else []) @
        (case scan_segments (ctx @ '' has a storage_path containing '' @ quoted ''..'' @ '': '' @ quoted sp @
             '' (path traversal is forbidden).'') [] sp of (errs, empty_segment) \<Rightarrow>
           errs @
           (if empty_segment then
              [ctx @ '' has a storage_path with an empty segment '' @ quoted sp @
               '' (consecutive separators are forbidden).'']
            else [])) @
        (if list_ex is_cntrl sp then [ctx @ '' has a storage_path containing a control character.''] else []))"

definition validate_file_field :: "entity \<Rightarrow> field \<Rightarrow> string list" where
  "validate_file_field e f =
     (let ctx = ''The file field '' @ quoted (f_name f) @ '' in entity '' @ quoted (e_name e) in
      case f_file_config f of
        None \<Rightarrow> [ctx @ '' has no file_config (required for type=file).'']
      | Some cfg \<Rightarrow>
          (if f_unique f then
             [ctx @ '' cannot be '' @ quoted ''unique'' @
              '' (files can be shared between entities via reference_count).''] else []) @
          (if f_indexed f then
             [ctx @ '' cannot be '' @ quoted ''indexed'' @
              '' (the FK to sea_files has no search use case).''] else []) @
          (if f_max_length f \<noteq> None then
             [ctx @ '' cannot have '' @ quoted ''max_length'' @
              '' (not applicable to a file field; use file.max_size).''] else []) @
          (if f_min_value f \<noteq> None \<or> f_max_value f \<noteq> None then
             [ctx @ '' cannot have '' @ quoted ''min_value'' @ '' or '' @ quoted ''max_value'' @
              '' (not applicable to a file field).''] else []) @
          validate_storage_path ctx (storage_path cfg) @
          (if max_size_bytes cfg = Some 0 then
             [ctx @ '' has max_size_bytes = 0 (zero size = no upload accepted, not useful).''] else []) @
          (case max_size_bytes cfg of None \<Rightarrow> []
           | Some m \<Rightarrow>
               if soft_max_size_warn < m then
                 [''[warning] '' @ ctx @ '' has max_size > 10 GiB ('' @ nat_str (unat m) @
                  '' bytes): verify that this is not a typo.'']
               else []))"

section \<open>Fields\<close>

definition incoherent_bounds :: "field \<Rightarrow> bool" where
  "incoherent_bounds f =
     (case (f_min_value f, f_max_value f) of
        (Some (NcInt64 a), Some (NcInt64 b)) \<Rightarrow> sint b < sint a
      | (Some (NcDouble a), Some (NcDouble b)) \<Rightarrow> dbl_lt b a
      | _ \<Rightarrow> False)"

definition field_messages :: "entity \<Rightarrow> field \<Rightarrow> string list" where
  "field_messages e f =
     (let ent = '' in entity '' @ quoted (e_name e) in
      (if f_type f = FPassword \<and> f_serializable f then
         [''The password field '' @ quoted (f_name f) @ ent @ '' should not be serializable.''] else []) @
      (if f_type f = FPassword \<and> field_has_default f then
         [''The password field '' @ quoted (f_name f) @ ent @ '' cannot have a default value.''] else []) @
      (if f_type f = FBinary \<and> field_has_default f then
         [''The field '' @ quoted (f_name f) @ '' of type binary'' @ ent @ '' cannot have a default value.''] else []) @
      (case f_max_length f of None \<Rightarrow> []
       | Some n \<Rightarrow>
           (if f_type f \<noteq> FString \<and> f_type f \<noteq> FText then
              [''The field '' @ quoted (f_name f) @ ent @ '' uses max_length with an incompatible type.''] else []) @
           (if n = 0 then
              [''The field '' @ quoted (f_name f) @ ent @ '' cannot have max_length = 0.''] else [])) @
      (if f_unsigned f \<and> f_type f \<notin> {FInt, FBigInt, FSmallInt, FDecimal, FFloat} then
         [''Field '' @ quoted (f_name f) @
          '': unsigned_value is valid for only numeric types (int, bigint, smallint, float, double).''] else []) @
      (if incoherent_bounds f then
         [''The field '' @ quoted (f_name f) @ ent @ '' a min_value > max_value.''] else []))"

text \<open>The loop over the fields, with the names and the storage paths seen so far.\<close>

fun validate_fields_loop :: "entity \<Rightarrow> string list \<Rightarrow> string list \<Rightarrow> field list \<Rightarrow> string list" where
  "validate_fields_loop e names paths [] = []"
| "validate_fields_loop e names paths (f # fs) =
     (if is_blank (f_name f) then
        (''The entity '' @ quoted (e_name e) @ '' contains an unnamed field.'')
          # validate_fields_loop e names paths fs
      else
        (if \<not> is_valid_identifier (f_name f) then
           [''Invalid field name '' @ quoted (f_name f) @ '' in entity '' @ quoted (e_name e) @ ''.''] else []) @
        (if f_name f \<in> set names then
           [''Duplicate field '' @ quoted (f_name f) @ '' in entity '' @ quoted (e_name e) @ ''.''] else []) @
        field_messages e f @
        (let sp = (case f_file_config f of None \<Rightarrow> [] | Some cfg \<Rightarrow> storage_path cfg);
             names' = List.insert (f_name f) names
         in if f_type f = FFile then
              validate_file_field e f @
              (if sp \<noteq> [] then
                 (if sp \<in> set paths then
                    [''The file field '' @ quoted (f_name f) @ '' in entity '' @ quoted (e_name e) @
                     '' partage son storage_path '' @ quoted sp @
                     '' with another file field in the same entity (source of confusion for reference counting).'']
                  else []) @
                 validate_fields_loop e names' (List.insert sp paths) fs
               else validate_fields_loop e names' paths fs)
            else validate_fields_loop e names' paths fs))"

definition validate_fields :: "entity \<Rightarrow> string list" where
  "validate_fields e = validate_fields_loop e [] [] (e_fields e)"

section \<open>Relations\<close>

fun validate_relations_loop :: "entity \<Rightarrow> schema \<Rightarrow> string list \<Rightarrow> relation list \<Rightarrow> string list" where
  "validate_relations_loop e s names [] = []"
| "validate_relations_loop e s names (r # rs) =
     (if is_blank (r_name r) then
        (''The entity '' @ quoted (e_name e) @ '' contains an unnamed relation.'')
          # validate_relations_loop e s names rs
      else
        (if r_name r \<in> set names then
           [''Duplicate relation '' @ quoted (r_name r) @ '' in entity '' @ quoted (e_name e) @ ''.''] else []) @
        (if is_blank (r_target r) then
           [''The relation '' @ quoted (r_name r) @ '' in entity '' @ quoted (e_name e) @ '' has no target_entity.'']
         else
           (if \<not> has_entity s (r_target r) then
              [''The relation '' @ quoted (r_name r) @ '' in entity '' @ quoted (e_name e) @
               '' targets an unknown entity: '' @ quoted (r_target r) @ ''.''] else []) @
           (if r_kind r = ManyToMany \<and> is_blank (r_pivot_table r) then
              [''The relation many_to_many '' @ quoted (r_name r) @ '' in entity '' @ quoted (e_name e) @
               '' must define a pivot_table.''] else []) @
           (if r_kind r = BelongsTo \<and> is_blank (r_fk_column r) then
              [''The relation belongs_to '' @ quoted (r_name r) @ '' in entity '' @ quoted (e_name e) @
               '' must define an fk_column.''] else [])) @
        validate_relations_loop e s (List.insert (r_name r) names) rs)"

definition validate_relations :: "entity \<Rightarrow> schema \<Rightarrow> string list" where
  "validate_relations e s = validate_relations_loop e s [] (e_relations e)"

section \<open>Pagination\<close>

definition limit_messages :: "string \<Rightarrow> string \<Rightarrow> string \<Rightarrow> size \<Rightarrow> size \<Rightarrow> string list" where
  "limit_messages ctx dname mname d m =
     (if d = 0 then [''The '' @ ctx @ '' has '' @ dname @ '' = 0.''] else []) @
     (if m = 0 then [''The '' @ ctx @ '' has '' @ mname @ '' = 0.''] else []) @
     (if m < d then [''The '' @ ctx @ '' has '' @ dname @ '' > '' @ mname @ ''.''] else [])"

definition sortable_messages :: "entity \<Rightarrow> string \<Rightarrow> string list \<Rightarrow> string list" where
  "sortable_messages e ctx fnames =
     map (\<lambda>n. ''The '' @ ctx @ '' lists an unknown sortable_field: '' @ quoted n @ ''.'')
       (filter (\<lambda>n. \<not> has_field e n) fnames)"

definition default_sort_messages :: "entity \<Rightarrow> string \<Rightarrow> string option \<Rightarrow> string list \<Rightarrow> string list" where
  "default_sort_messages e ctx srt allow =
     (case srt of None \<Rightarrow> []
      | Some expression \<Rightarrow>
          (case validate_sort_expression expression allow e ctx of None \<Rightarrow> [] | Some err \<Rightarrow> [err]))"

definition page_messages :: "entity \<Rightarrow> page_pagination \<Rightarrow> string list" where
  "page_messages e p =
     (let ctx = ''pagination.page of entity '' @ quoted (e_name e) in
      limit_messages ctx ''default_page_size'' ''max_page_size''
        (pg_default_page_size p) (pg_max_page_size p) @
      sortable_messages e ctx (pg_sortable_fields p) @
      default_sort_messages e ctx (pg_default_sort p) (pg_sortable_fields p))"

definition offset_messages :: "entity \<Rightarrow> offset_pagination \<Rightarrow> string list" where
  "offset_messages e p =
     (let ctx = ''pagination.offset of entity '' @ quoted (e_name e) in
      limit_messages ctx ''default_limit'' ''max_limit'' (of_default_limit p) (of_max_limit p) @
      sortable_messages e ctx (of_sortable_fields p) @
      default_sort_messages e ctx (of_default_sort p) (of_sortable_fields p))"

definition cursor_messages :: "entity \<Rightarrow> cursor_pagination \<Rightarrow> string list" where
  "cursor_messages e c =
     (let ctx = ''pagination.cursor of entity '' @ quoted (e_name e) in
      limit_messages ctx ''default_limit'' ''max_limit'' (cu_default_limit c) (cu_max_limit c) @
      (if cu_cursor_field c = [] then [''The '' @ ctx @ '' has no cursor_field.'']
       else if \<not> has_field e (cu_cursor_field c) then
         [''The '' @ ctx @ '' references an unknown cursor_field: '' @ quoted (cu_cursor_field c) @ ''.'']
       else []) @
      (if cu_sort c = [] then [''The '' @ ctx @ '' has no '' @ quoted ''sort'' @ '' (required for stability).'']
       else case parse_sort_expression (cu_sort c) of
           None \<Rightarrow> [''The '' @ ctx @ '' has a malformed '' @ quoted ''sort'' @ '': '' @ quoted (cu_sort c) @
             '' (expected: '' @ quoted ''field:asc'' @ '' or '' @ quoted ''field:desc'' @ '').'']
         | Some tokens \<Rightarrow>
             map (\<lambda>t. ''The '' @ ctx @ '' sorts on an unknown field: '' @ quoted (st_field t) @ ''.'')
               (filter (\<lambda>t. \<not> has_field e (st_field t)) tokens)))"

definition validate_pagination :: "entity \<Rightarrow> string list" where
  "validate_pagination e =
     (case e_pagination e of
        None \<Rightarrow> []
      | Some cfg \<Rightarrow>
          if \<not> pagination_any cfg then
            [''The '' @ quoted ''pagination'' @ '' block of entity '' @ quoted (e_name e) @
             '' does not enable any mode (page, offset, or cursor).'']
          else
            (case pc_page cfg of None \<Rightarrow> [] | Some p \<Rightarrow> page_messages e p) @
            (case pc_offset cfg of None \<Rightarrow> [] | Some p \<Rightarrow> offset_messages e p) @
            (case pc_cursor cfg of None \<Rightarrow> [] | Some c \<Rightarrow> cursor_messages e c))"

section \<open>Entities\<close>

definition validate_entity :: "entity \<Rightarrow> schema \<Rightarrow> string list" where
  "validate_entity e s =
     (if e_fields e = [] then [''The entity '' @ quoted (e_name e) @ '' does not contain any field.''] else []) @
     validate_fields e @ validate_relations e s @ validate_pagination e"

fun validate_entities_loop :: "schema \<Rightarrow> string list \<Rightarrow> entity list \<Rightarrow> string list" where
  "validate_entities_loop s names [] = []"
| "validate_entities_loop s names (e # es) =
     (if is_blank (e_name e) then ''An entity has an empty name.'' # validate_entities_loop s names es
      else
        (if \<not> is_valid_identifier (e_name e) then [''Invalid entity name: '' @ quoted (e_name e) @ ''.''] else []) @
        (if e_name e \<in> set names then [''Duplicate entity name: '' @ quoted (e_name e) @ ''.''] else []) @
        validate_entity e s @
        validate_entities_loop s (List.insert (e_name e) names) es)"

definition validate_schema :: "schema \<Rightarrow> string list" where
  "validate_schema s =
     (if entities s = [] then [''The schema does not contain any entity.'']
      else validate_entities_loop s [] (entities s))"

end
