(* ===== verification/Schema_Soundness.thy ===== *)
theory Schema_Soundness
  imports Schema_Validator
begin

text \<open>
  What \<open>SchemaValidator\<close> decides: \<open>schema_ok\<close> states well-formedness of a schema without loops,
  messages or sets of seen names, and the validator returns no message exactly for it. A storage
  path it accepts stays below the storage root.
\<close>

section \<open>Well-formed schemas\<close>

definition identifier_ok :: "string \<Rightarrow> bool" where
  "identifier_ok v \<longleftrightarrow> v \<noteq> [] \<and> \<not> is_digit (hd v) \<and> (\<forall>c \<in> set v. is_alnum c \<or> c = CHR ''_'')"

fun path_segments :: "string \<Rightarrow> string list" where
  "path_segments [] = [[]]"
| "path_segments (c # s) =
     (if c = CHR ''/'' then [] # path_segments s
      else (case path_segments s of [] \<Rightarrow> [[c]] | g # gs \<Rightarrow> (c # g) # gs))"

definition path_ok :: "string \<Rightarrow> bool" where
  "path_ok sp \<longleftrightarrow> sp \<noteq> [] \<and> ''..'' \<notin> set (path_segments sp)
     \<and> [] \<notin> set (butlast (path_segments sp)) \<and> (\<forall>c \<in> set sp. \<not> is_cntrl c)"

definition field_ok :: "field \<Rightarrow> bool" where
  "field_ok f \<longleftrightarrow>
     (f_type f = FPassword \<longrightarrow> \<not> f_serializable f \<and> f_default_val f = DvNone)
     \<and> (f_type f = FBinary \<longrightarrow> f_default_val f = DvNone)
     \<and> (\<forall>n. f_max_length f = Some n \<longrightarrow> n \<noteq> 0 \<and> f_type f \<in> {FString, FText})
     \<and> (f_unsigned f \<longrightarrow> is_numeric_type (f_type f))
     \<and> \<not> incoherent_bounds f"

definition file_ok :: "field \<Rightarrow> bool" where
  "file_ok f \<longleftrightarrow> \<not> f_unique f \<and> \<not> f_indexed f \<and> f_max_length f = None
     \<and> f_min_value f = None \<and> f_max_value f = None
     \<and> (\<exists>cfg. f_file_config f = Some cfg \<and> path_ok (storage_path cfg)
          \<and> (\<forall>m. max_size_bytes cfg = Some m \<longrightarrow> 0 < m \<and> m \<le> soft_max_size_warn))"

definition file_paths :: "field list \<Rightarrow> string list" where
  "file_paths fs = filter (\<lambda>p. p \<noteq> [])
     (map (\<lambda>f. case f_file_config f of None \<Rightarrow> [] | Some cfg \<Rightarrow> storage_path cfg)
       (filter (\<lambda>f. f_type f = FFile) fs))"

definition fields_ok :: "field list \<Rightarrow> bool" where
  "fields_ok fs \<longleftrightarrow> distinct (map f_name fs) \<and> distinct (file_paths fs)
     \<and> (\<forall>f \<in> set fs. identifier_ok (f_name f) \<and> field_ok f \<and> (f_type f = FFile \<longrightarrow> file_ok f))"

definition relation_ok :: "schema \<Rightarrow> relation \<Rightarrow> bool" where
  "relation_ok s r \<longleftrightarrow> r_name r \<noteq> [] \<and> r_target r \<noteq> [] \<and> has_entity s (r_target r)
     \<and> (r_kind r = ManyToMany \<longrightarrow> r_pivot_table r \<noteq> [])
     \<and> (r_kind r = BelongsTo \<longrightarrow> r_fk_column r \<noteq> [])"

definition sort_ok :: "entity \<Rightarrow> string list option \<Rightarrow> string \<Rightarrow> bool" where
  "sort_ok e allow expression \<longleftrightarrow>
     (case parse_sort_expression expression of None \<Rightarrow> False
      | Some tokens \<Rightarrow> \<forall>t \<in> set tokens. has_field e (st_field t)
          \<and> (case allow of None \<Rightarrow> True | Some fs \<Rightarrow> st_field t \<in> set fs))"

definition limits_ok :: "size \<Rightarrow> size \<Rightarrow> bool" where
  "limits_ok d m \<longleftrightarrow> 0 < d \<and> d \<le> m"

definition sortable_ok :: "entity \<Rightarrow> string option \<Rightarrow> string list \<Rightarrow> bool" where
  "sortable_ok e srt fs \<longleftrightarrow> (\<forall>n \<in> set fs. has_field e n)
     \<and> (\<forall>expression. srt = Some expression \<longrightarrow> sort_ok e (Some fs) expression)"

definition pagination_ok :: "entity \<Rightarrow> pagination_config \<Rightarrow> bool" where
  "pagination_ok e cfg \<longleftrightarrow> pagination_any cfg
     \<and> (\<forall>p. pc_page cfg = Some p \<longrightarrow> limits_ok (pg_default_page_size p) (pg_max_page_size p)
          \<and> sortable_ok e (pg_default_sort p) (pg_sortable_fields p))
     \<and> (\<forall>p. pc_offset cfg = Some p \<longrightarrow> limits_ok (of_default_limit p) (of_max_limit p)
          \<and> sortable_ok e (of_default_sort p) (of_sortable_fields p))
     \<and> (\<forall>c. pc_cursor cfg = Some c \<longrightarrow> limits_ok (cu_default_limit c) (cu_max_limit c)
          \<and> cu_cursor_field c \<noteq> [] \<and> has_field e (cu_cursor_field c)
          \<and> cu_sort c \<noteq> [] \<and> sort_ok e None (cu_sort c))"

definition entity_ok :: "schema \<Rightarrow> entity \<Rightarrow> bool" where
  "entity_ok s e \<longleftrightarrow> identifier_ok (e_name e) \<and> e_fields e \<noteq> [] \<and> fields_ok (e_fields e)
     \<and> distinct (map r_name (e_relations e)) \<and> (\<forall>r \<in> set (e_relations e). relation_ok s r)
     \<and> (\<forall>cfg. e_pagination e = Some cfg \<longrightarrow> pagination_ok e cfg)"

definition schema_ok :: "schema \<Rightarrow> bool" where
  "schema_ok s \<longleftrightarrow> entities s \<noteq> [] \<and> distinct (map e_name (entities s))
     \<and> (\<forall>e \<in> set (entities s). entity_ok s e)"

section \<open>The validator decides well-formedness\<close>

lemma is_valid_identifier_iff: "is_valid_identifier v \<longleftrightarrow> identifier_ok v"
  by (cases v) (auto simp: is_valid_identifier_def identifier_ok_def list_all_iff char_class_defs)

lemma identifier_ok_nonblank: "identifier_ok v \<Longrightarrow> v \<noteq> []"
  by (simp add: identifier_ok_def)

lemma path_segments_nonempty [simp]: "path_segments s \<noteq> []"
  by (cases s) (auto split: list.splits)

definition scan_ok :: "string list \<Rightarrow> bool" where
  "scan_ok gs \<longleftrightarrow> ''..'' \<notin> set gs"

lemma scan_segments_eq:
  "case path_segments s of g # gs \<Rightarrow>
     (fst (scan_segments msg pre s) = [] \<longleftrightarrow> scan_ok ((pre @ g) # gs))
     \<and> (snd (scan_segments msg pre s) \<longleftrightarrow> [] \<in> set (butlast ((pre @ g) # gs)))"
proof (induction s arbitrary: pre)
  case Nil
  then show ?case by (simp add: scan_ok_def)
next
  case (Cons c s)
  obtain g gs where gs: "path_segments s = g # gs" by (cases "path_segments s") auto
  show ?case
  proof (cases "c = CHR ''/''")
    case True
    with Cons.IH [of "[]"] gs show ?thesis
      by (auto simp: scan_ok_def split: prod.splits)
  next
    case False
    with Cons.IH [of "pre @ [c]"] gs show ?thesis by simp
  qed
qed

lemma first_segment_slash: "hd s = CHR ''/'' \<Longrightarrow> s \<noteq> [] \<Longrightarrow> [] \<in> set (butlast (path_segments s))"
  by (cases s) auto

lemma validate_storage_path_iff: "validate_storage_path ctx sp = [] \<longleftrightarrow> path_ok sp"
proof -
  obtain g gs where gs: "path_segments sp = g # gs" by (cases "path_segments sp") auto
  have scan: "fst (scan_segments msg [] sp) = [] \<longleftrightarrow> scan_ok (g # gs)"
    "snd (scan_segments msg [] sp) \<longleftrightarrow> [] \<in> set (butlast (g # gs))" for msg
    using scan_segments_eq [where s = sp and msg = msg and pre = "[]"] gs by simp_all
  show ?thesis
    using first_segment_slash [of sp]
    unfolding validate_storage_path_def path_ok_def case_prod_beta gs scan_ok_def [symmetric]
    by (auto simp: scan list_ex_iff)
qed

lemma validate_file_field_iff: "validate_file_field e f = [] \<longleftrightarrow> file_ok f"
  by (auto simp: validate_file_field_def Let_def file_ok_def validate_storage_path_iff
      word_neq_0_conv not_less split: option.splits)

lemma field_messages_iff: "field_messages e f = [] \<longleftrightarrow> field_ok f"
  unfolding field_messages_def field_ok_def field_has_default_def Let_def
  by (cases "f_max_length f"; cases "f_type f") auto

lemma file_paths_Cons:
  "file_paths (f # fs) =
     (if f_type f = FFile \<and> (case f_file_config f of None \<Rightarrow> [] | Some cfg \<Rightarrow> storage_path cfg) \<noteq> []
      then (case f_file_config f of None \<Rightarrow> [] | Some cfg \<Rightarrow> storage_path cfg) # file_paths fs
      else file_paths fs)"
  by (simp add: file_paths_def)

lemma validate_fields_loop_iff:
  "validate_fields_loop e names paths fs = [] \<longleftrightarrow>
     fields_ok fs \<and> set names \<inter> f_name ` set fs = {} \<and> set paths \<inter> set (file_paths fs) = {}"
proof (induction e names paths fs rule: validate_fields_loop.induct)
  case (1 e names paths)
  then show ?case by (simp add: fields_ok_def file_paths_def)
next
  case (2 e names paths f fs)
  let ?sp = "case f_file_config f of None \<Rightarrow> [] | Some cfg \<Rightarrow> storage_path cfg"
  show ?case
  proof (cases "identifier_ok (f_name f)")
    case False
    then show ?thesis
      by (auto simp: is_valid_identifier_iff is_blank_def fields_ok_def)
  next
    case True
    then have nb: "\<not> is_blank (f_name f)" by (simp add: is_blank_def identifier_ok_nonblank)
    have IH1: "f_type f = FFile \<Longrightarrow> ?sp \<noteq> [] \<Longrightarrow>
        validate_fields_loop e (List.insert (f_name f) names) (List.insert ?sp paths) fs = [] \<longleftrightarrow>
        fields_ok fs \<and> set (List.insert (f_name f) names) \<inter> f_name ` set fs = {} \<and>
        set (List.insert ?sp paths) \<inter> set (file_paths fs) = {}"
      using 2(2) [OF nb refl refl] by blast
    have IH2: "f_type f = FFile \<Longrightarrow> \<not> ?sp \<noteq> [] \<Longrightarrow>
        validate_fields_loop e (List.insert (f_name f) names) paths fs = [] \<longleftrightarrow>
        fields_ok fs \<and> set (List.insert (f_name f) names) \<inter> f_name ` set fs = {} \<and>
        set paths \<inter> set (file_paths fs) = {}"
      using 2(3) [OF nb refl refl] by blast
    have IH3: "f_type f \<noteq> FFile \<Longrightarrow>
        validate_fields_loop e (List.insert (f_name f) names) paths fs = [] \<longleftrightarrow>
        fields_ok fs \<and> set (List.insert (f_name f) names) \<inter> f_name ` set fs = {} \<and>
        set paths \<inter> set (file_paths fs) = {}"
      using 2(4) [OF nb refl refl] by blast
    have split: "fields_ok (f # fs) \<longleftrightarrow> fields_ok fs \<and> f_name f \<notin> f_name ` set fs \<and> field_ok f
        \<and> (f_type f = FFile \<longrightarrow> file_ok f)
        \<and> (f_type f = FFile \<and> ?sp \<noteq> [] \<longrightarrow> ?sp \<notin> set (file_paths fs))"
      using True by (auto simp: fields_ok_def file_paths_Cons)
    consider (a) "f_type f = FFile" "?sp \<noteq> []" | (b) "f_type f = FFile" "?sp = []" | (c) "f_type f \<noteq> FFile"
      by blast
    then show ?thesis
    proof cases
      case a
      have "validate_fields_loop e names paths (f # fs) = [] \<longleftrightarrow>
          f_name f \<notin> set names \<and> field_messages e f = [] \<and> validate_file_field e f = [] \<and> ?sp \<notin> set paths \<and>
          validate_fields_loop e (List.insert (f_name f) names) (List.insert ?sp paths) fs = []"
        using nb True a by (simp add: is_valid_identifier_iff Let_def)
      also have "\<dots> \<longleftrightarrow> fields_ok (f # fs) \<and> set names \<inter> f_name ` set (f # fs) = {} \<and>
          set paths \<inter> set (file_paths (f # fs)) = {}"
        unfolding IH1 [OF a] split file_paths_Cons field_messages_iff validate_file_field_iff
        using a by auto
      finally show ?thesis .
    next
      case b
      have "validate_fields_loop e names paths (f # fs) = [] \<longleftrightarrow>
          f_name f \<notin> set names \<and> field_messages e f = [] \<and> validate_file_field e f = [] \<and>
          validate_fields_loop e (List.insert (f_name f) names) paths fs = []"
        using nb True b by (simp add: is_valid_identifier_iff Let_def)
      also have "\<dots> \<longleftrightarrow> fields_ok (f # fs) \<and> set names \<inter> f_name ` set (f # fs) = {} \<and>
          set paths \<inter> set (file_paths (f # fs)) = {}"
        using IH2 b unfolding split file_paths_Cons field_messages_iff validate_file_field_iff
        by auto
      finally show ?thesis .
    next
      case c
      have "validate_fields_loop e names paths (f # fs) = [] \<longleftrightarrow>
          f_name f \<notin> set names \<and> field_messages e f = [] \<and>
          validate_fields_loop e (List.insert (f_name f) names) paths fs = []"
        using nb True c by (simp add: is_valid_identifier_iff Let_def)
      also have "\<dots> \<longleftrightarrow> fields_ok (f # fs) \<and> set names \<inter> f_name ` set (f # fs) = {} \<and>
          set paths \<inter> set (file_paths (f # fs)) = {}"
        unfolding IH3 [OF c] split file_paths_Cons field_messages_iff
        using c by auto
      finally show ?thesis .
    qed
  qed
qed

lemma validate_fields_iff: "validate_fields e = [] \<longleftrightarrow> fields_ok (e_fields e)"
  by (simp add: validate_fields_def validate_fields_loop_iff)

lemma validate_relations_loop_iff:
  "validate_relations_loop e s names rs = [] \<longleftrightarrow>
     distinct (map r_name rs) \<and> (\<forall>r \<in> set rs. relation_ok s r) \<and> set names \<inter> r_name ` set rs = {}"
  by (induction e s names rs rule: validate_relations_loop.induct)
    (auto simp: is_blank_def relation_ok_def)

lemma validate_relations_iff:
  "validate_relations e s = [] \<longleftrightarrow>
     distinct (map r_name (e_relations e)) \<and> (\<forall>r \<in> set (e_relations e). relation_ok s r)"
  by (simp add: validate_relations_def validate_relations_loop_iff)

lemma sort_tokens_error_iff:
  "sort_tokens_error e allow ctx ts = None \<longleftrightarrow> (\<forall>t \<in> set ts. has_field e (st_field t) \<and> st_field t \<in> set allow)"
  by (induction e allow ctx ts rule: sort_tokens_error.induct) auto

lemma validate_sort_expression_iff:
  "validate_sort_expression x allow e ctx = None \<longleftrightarrow> sort_ok e (Some allow) x"
  by (auto simp: validate_sort_expression_def sort_ok_def sort_tokens_error_iff split: option.splits)

lemma limit_messages_iff: "limit_messages ctx dn mn d m = [] \<longleftrightarrow> limits_ok d m"
  by (auto simp: limit_messages_def limits_ok_def word_neq_0_conv not_less)

lemma default_sort_messages_iff:
  "default_sort_messages e ctx srt fs = [] \<longleftrightarrow>
     (\<forall>expression. srt = Some expression \<longrightarrow> sort_ok e (Some fs) expression)"
  unfolding validate_sort_expression_iff [of _ fs e ctx, symmetric]
  by (auto simp: default_sort_messages_def split: option.splits)

lemma sort_messages_iff:
  "sortable_messages e ctx fs = [] \<and> default_sort_messages e ctx srt fs = [] \<longleftrightarrow> sortable_ok e srt fs"
  by (auto simp: sortable_messages_def default_sort_messages_iff sortable_ok_def filter_empty_conv)

lemma page_messages_iff:
  "page_messages e p = [] \<longleftrightarrow> limits_ok (pg_default_page_size p) (pg_max_page_size p)
     \<and> sortable_ok e (pg_default_sort p) (pg_sortable_fields p)"
  by (simp add: page_messages_def Let_def limit_messages_iff sort_messages_iff)

lemma offset_messages_iff:
  "offset_messages e p = [] \<longleftrightarrow> limits_ok (of_default_limit p) (of_max_limit p)
     \<and> sortable_ok e (of_default_sort p) (of_sortable_fields p)"
  by (simp add: offset_messages_def Let_def limit_messages_iff sort_messages_iff)

lemma cursor_messages_iff:
  "cursor_messages e c = [] \<longleftrightarrow> limits_ok (cu_default_limit c) (cu_max_limit c)
     \<and> cu_cursor_field c \<noteq> [] \<and> has_field e (cu_cursor_field c)
     \<and> cu_sort c \<noteq> [] \<and> sort_ok e None (cu_sort c)"
  by (auto simp: cursor_messages_def Let_def limit_messages_iff sort_ok_def filter_empty_conv
      split: option.splits)

lemma validate_pagination_iff:
  "validate_pagination e = [] \<longleftrightarrow> (\<forall>cfg. e_pagination e = Some cfg \<longrightarrow> pagination_ok e cfg)"
  by (simp add: validate_pagination_def pagination_ok_def page_messages_iff offset_messages_iff
      cursor_messages_iff split: option.splits)

lemma validate_entity_iff:
  "identifier_ok (e_name e) \<Longrightarrow> validate_entity e s = [] \<longleftrightarrow> entity_ok s e"
  by (auto simp: validate_entity_def entity_ok_def validate_fields_iff validate_relations_iff
      validate_pagination_iff)

lemma validate_entities_loop_iff:
  "validate_entities_loop s names es = [] \<longleftrightarrow>
     distinct (map e_name es) \<and> (\<forall>e \<in> set es. entity_ok s e) \<and> set names \<inter> e_name ` set es = {}"
proof (induction s names es rule: validate_entities_loop.induct)
  case (1 s names)
  then show ?case by simp
next
  case (2 s names e es)
  show ?case
  proof (cases "identifier_ok (e_name e)")
    case False
    then have "\<not> entity_ok s e" by (simp add: entity_ok_def)
    with False show ?thesis by (simp add: is_valid_identifier_iff)
  next
    case True
    then have nb: "\<not> is_blank (e_name e)" by (simp add: is_blank_def identifier_ok_nonblank)
    show ?thesis
      using 2(2) [OF nb] nb True by (auto simp: is_valid_identifier_iff validate_entity_iff)
  qed
qed

lemma validate_schema_iff: "validate_schema s = [] \<longleftrightarrow> schema_ok s"
  by (simp add: validate_schema_def schema_ok_def validate_entities_loop_iff)

section \<open>Accepted storage paths stay below the root\<close>

text \<open>Following a relative path from a directory: \<open>..\<close> leaves the directory, \<open>.\<close> and the empty segment stay.\<close>

definition enter :: "string \<Rightarrow> string list \<Rightarrow> string list" where
  "enter g dir = (if g = ''..'' then butlast dir else if g = ''.'' \<or> g = [] then dir else dir @ [g])"

definition follow :: "string list \<Rightarrow> string \<Rightarrow> string list" where
  "follow dir p = fold enter (path_segments p) dir"

lemma fold_enter:
  "''..'' \<notin> set gs \<Longrightarrow> fold enter gs dir = dir @ filter (\<lambda>g. g \<noteq> ''.'' \<and> g \<noteq> []) gs"
  by (induction gs arbitrary: dir) (auto simp: enter_def)

lemma follow_path_ok:
  "path_ok sp \<Longrightarrow> follow dir sp = dir @ filter (\<lambda>g. g \<noteq> ''.'' \<and> g \<noteq> []) (path_segments sp)"
  by (simp add: follow_def path_ok_def fold_enter)

end
