(* ===== verification/Runtime_Properties.thy ===== *)
theory Runtime_Properties
  imports Generic_Validator Json_Writer Cookie_Helper Schema_Soundness
begin

text \<open>
  The properties of schemas, records and what goes over the wire: the validator decides well-formedness, the
  storage paths of file fields and the route names of entities; what a record without messages satisfies, the language
  of the email pattern, the types of parsed records and the reading of JSON integers; the tokens in cookies and
  the JSON of records.
\<close>

section \<open>Example schemas\<close>

definition id_field :: field where
  "id_field = make_field ''id'' FUUID"

definition avatar_field :: field where
  "avatar_field = as_file (make_field ''avatar'' FFile)
     (default_file_config\<lparr>storage_path := ''users/avatars''\<rparr>)"

definition user_entity :: entity where
  "user_entity = make_entity ''User'' [id_field, avatar_field] []"

definition twin_schema :: schema where
  "twin_schema = \<lparr>entities = [user_entity, make_entity ''Users'' [id_field] []]\<rparr>"

lemmas schema_example_defs = id_field_def avatar_field_def user_entity_def twin_schema_def
  make_field_def as_file_def make_entity_def default_file_config_def

lemma path_ok_avatars: "path_ok ''users/avatars''"
  by code_simp

lemma twin_schema_valid: "validate_schema twin_schema = []"
  unfolding validate_schema_iff schema_ok_def
  by (simp add: schema_example_defs entity_ok_def fields_ok_def field_ok_def file_ok_def file_paths_def
      incoherent_bounds_def path_ok_avatars identifier_ok_def char_class_defs)

section \<open>Route names\<close>

lemma ends_with_snoc:
  "ends_with (s @ [c]) [d] \<longleftrightarrow> c = d"
  "ends_with (s @ [c]) [e, d] \<longleftrightarrow> c = d \<and> ends_with s [e]"
  "ends_with (s @ [c]) [f, e, d] \<longleftrightarrow> c = d \<and> ends_with s [f, e]"
  by (auto simp: ends_with_def)

lemma ends_with_snoc2:
  "ends_with (s @ [b, c]) [d] \<longleftrightarrow> c = d"
  "ends_with (s @ [b, c]) [e, d] \<longleftrightarrow> c = d \<and> b = e"
  "ends_with (s @ [a, b, c]) [d] \<longleftrightarrow> c = d"
  "ends_with (s @ [a, b, c]) [e, d] \<longleftrightarrow> c = d \<and> b = e"
  "ends_with (s @ [a, b, c]) [f, e, d] \<longleftrightarrow> c = d \<and> b = e \<and> a = f"
  by (auto simp: ends_with_def)

definition plural_form :: "string \<Rightarrow> bool" where
  "plural_form m \<longleftrightarrow> ends_with m ''s'' \<and> \<not> ends_with m ''ss'' \<and> \<not> ends_with m ''us''"

lemma plural_form_fixed:
  "plural_form m \<Longrightarrow> str_lower m = m \<Longrightarrow> to_route_plural m True = m"
  by (auto simp: plural_form_def to_route_plural_def Let_def ends_with_def)

lemma to_route_plural_form:
  assumes "name \<noteq> []" "\<not> ends_with (str_lower name) ''u''"
  shows "plural_form (to_route_plural name True) \<or> ends_with (to_route_plural name True) ''ies''"
  using assms
  by (auto simp: to_route_plural_def plural_form_def Let_def ends_with_snoc ends_with_snoc2)

lemma to_route_plural_lower [simp]: "str_lower (to_route_plural name b) = to_route_plural name b"
proof -
  have "str_lower (butlast (str_lower name)) = butlast (str_lower name)"
    by (simp add: str_lower_def map_butlast [symmetric] comp_def)
  then show ?thesis
    by (auto simp: to_route_plural_def Let_def char_class_defs)
qed

lemma ends_with_length: "ends_with s p \<Longrightarrow> length p \<le> length s"
  by (auto simp: ends_with_iff)

lemma spelling_lower_schema:
  "str_lower (field_type_to_string t) = field_type_to_string t"
  "str_lower (on_delete_file_to_string d) = on_delete_file_to_string d"
  by (cases t; simp add: char_class_defs) (cases d; simp add: char_class_defs)

section \<open>Properties\<close>

text \<open>C3: The schema validator decides well-formedness: it returns no message exactly for the
  schemas with at least one entity, distinct and legal names of entities and fields, coherent field
  and file configurations, relations to existing entities with their keys, and pagination blocks
  whose limits, fields and sort expressions are coherent.\<close>

theorem schema_validator_decides: "validate_schema s = [] \<longleftrightarrow> schema_ok s"
  by (rule validate_schema_iff)

text \<open>A file field that passes validation cannot make the storage leave its root: following the
  configured path from any directory yields that directory extended by segments without \<open>..\<close>.\<close>

theorem accepted_storage_path_below_root:
  assumes "validate_file_field e f = []" and "f_file_config f = Some cfg"
  shows "\<exists>rest. follow root (storage_path cfg) = root @ rest \<and> ''..'' \<notin> set rest"
proof -
  have ok: "path_ok (storage_path cfg)"
    using assms by (auto simp: validate_file_field_iff file_ok_def)
  then have "''..'' \<notin> set (filter (\<lambda>g. g \<noteq> ''.'' \<and> g \<noteq> []) (path_segments (storage_path cfg)))"
    by (auto simp: path_ok_def)
  with follow_path_ok [OF ok] show ?thesis by blast
qed

theorem accepted_storage_path_below_root_witness:
  "\<exists>rest. follow [''srv'', ''storage''] ''users/avatars'' = [''srv'', ''storage''] @ rest \<and> ''..'' \<notin> set rest"
proof -
  have "validate_file_field user_entity avatar_field = []"
    by (simp add: validate_file_field_iff file_ok_def schema_example_defs path_ok_avatars)
  from accepted_storage_path_below_root [OF this, of "default_file_config\<lparr>storage_path := ''users/avatars''\<rparr>"
      "[''srv'', ''storage'']"]
  show ?thesis by (simp add: schema_example_defs)
qed

text \<open>The route name of an entity is a fixed point of the pluralisation, in lower case, unless
  the name ends in \<open>u\<close> (\<open>menu\<close> gives \<open>menus\<close>, which is pluralised again to \<open>menuses\<close>).\<close>

theorem to_route_plural_idempotent:
  assumes "\<not> ends_with (str_lower name) ''u''"
  shows "to_route_plural (to_route_plural name True) True = to_route_plural name True
    \<and> str_lower (to_route_plural name True) = to_route_plural name True"
proof (cases "name = []")
  case True
  then show ?thesis by (simp add: to_route_plural_def)
next
  case False
  let ?p = "to_route_plural name True"
  from to_route_plural_form [OF False assms] show ?thesis
  proof
    assume "plural_form ?p"
    then show ?thesis by (simp add: plural_form_fixed)
  next
    assume ies: "ends_with ?p ''ies''"
    then have "?p \<noteq> []" by (auto simp: ends_with_iff)
    moreover have "3 \<le> length ?p" using ends_with_length [OF ies] by simp
    ultimately have "to_route_plural ?p True = ?p"
      using ies by (subst to_route_plural_def) (simp add: Let_def)
    then show ?thesis by simp
  qed
qed

theorem to_route_plural_idempotent_witness:
  "to_route_plural (to_route_plural ''Category'' True) True = ''categories''
   \<and> to_route_plural (to_route_plural ''Menu'' True) True = ''menuses''"
proof
  have n: "\<not> ends_with (str_lower ''Category'') ''u''" by code_simp
  have "to_route_plural ''Category'' True = ''categories''" by code_simp
  with to_route_plural_idempotent [OF n]
  show "to_route_plural (to_route_plural ''Category'' True) True = ''categories''" by simp
  show "to_route_plural (to_route_plural ''Menu'' True) True = ''menuses''" by code_simp
qed

text \<open>Validation accepts schemas in which two entities are served under the same route: names
  are compared as written, while the route name folds case and plural (\<open>User\<close> and \<open>Users\<close>).\<close>

theorem validated_schema_with_route_collision:
  "validate_schema twin_schema = [] \<and>
   (\<exists>e1 \<in> set (entities twin_schema). \<exists>e2 \<in> set (entities twin_schema).
      e_name e1 \<noteq> e_name e2 \<and> route_prefix e1 = route_prefix e2)"
proof
  show "validate_schema twin_schema = []" by (rule twin_schema_valid)
  have "to_route_plural ''User'' True = ''users''" "to_route_plural ''Users'' True = ''users''" by code_simp+
  then show "\<exists>e1 \<in> set (entities twin_schema). \<exists>e2 \<in> set (entities twin_schema).
      e_name e1 \<noteq> e_name e2 \<and> route_prefix e1 = route_prefix e2"
    by (simp add: schema_example_defs route_prefix_def)
qed

text \<open>The spelling of a field type is read back as the type, in any case, with the exception of
  \<open>native\<close>, which is written but not read; the policies of file fields are read back too.\<close>

theorem field_type_spellings_round_trip:
  "field_type_from_string (map char_upper (field_type_to_string t)) = (if t = FNative then None else Some t)
   \<and> on_delete_file_from_string (map char_upper (on_delete_file_to_string d)) = Some d"
proof
  show "field_type_from_string (map char_upper (field_type_to_string t)) = (if t = FNative then None else Some t)"
    unfolding field_type_from_string_def str_lower_upper spelling_lower_schema by (cases t) simp_all
  show "on_delete_file_from_string (map char_upper (on_delete_file_to_string d)) = Some d"
    unfolding on_delete_file_from_string_def str_lower_upper spelling_lower_schema by (cases d) simp_all
qed

section \<open>Records\<close>

subsection \<open>Specifications\<close>

text \<open>A full record, and a partial one whose absent fields are left alone.\<close>

definition record_ok :: "entity \<Rightarrow> dynamic_record \<Rightarrow> bool" where
  "record_ok e rec \<longleftrightarrow>
     (\<forall>f \<in> set (e_fields e). f_name f \<noteq> ''id'' \<longrightarrow>
        (case map_of rec (f_name f) of
           None \<Rightarrow> \<not> f_required f \<or> field_has_default f
         | Some v \<Rightarrow> value_ok f v))"

definition partial_ok :: "entity \<Rightarrow> dynamic_record \<Rightarrow> bool" where
  "partial_ok e rec \<longleftrightarrow>
     (\<forall>f \<in> set (e_fields e). \<forall>v. f_name f \<noteq> ''id'' \<longrightarrow> map_of rec (f_name f) = Some v \<longrightarrow> value_ok f v)"

definition required_present :: "entity \<Rightarrow> dynamic_record \<Rightarrow> bool" where
  "required_present e rec \<longleftrightarrow>
     (\<forall>f \<in> set (e_fields e). f_name f \<noteq> ''id'' \<longrightarrow> f_required f \<longrightarrow> \<not> field_has_default f \<longrightarrow>
        map_of rec (f_name f) \<noteq> None)"

text \<open>The number a JSON integer stands for.\<close>

fun json_int :: "json \<Rightarrow> int option" where
  "json_int (JInt w) = Some (sint w)"
| "json_int (JUint w) = Some (uint w)"
| "json_int _ = None"

lemma validate_iff: "validate e rec = [] \<longleftrightarrow> record_ok e rec"
  by (simp add: validate_def record_ok_def validate_loop_iff)

lemma validate_partial_iff: "validate_partial e rec = [] \<longleftrightarrow> partial_ok e rec"
  by (auto simp: validate_partial_def partial_ok_def validate_partial_loop_iff split: option.splits)

lemma record_ok_split: "record_ok e rec \<longleftrightarrow> partial_ok e rec \<and> required_present e rec"
  unfolding record_ok_def partial_ok_def required_present_def by (fastforce split: option.splits)

lemma json_get_int64_small:
  assumes "json_int j = Some i" "i < 2 ^ 63"
  shows "sint (json_get_int64 j) = i"
proof (cases j)
  case (JUint w)
  with assms have "uint w < 2 ^ 63" by simp
  moreover have "- (2 ^ 63) \<le> uint w" by (rule order_trans [OF _ uint_ge_0]) simp
  ultimately have "signed_take_bit 63 (uint w) = uint w" by (rule signed_take_bit_int_eq_self [rotated])
  then have "sint w = uint w" by (simp add: sint_uint)
  with JUint assms show ?thesis by simp
qed (use assms in auto)

lemma json_int_is_integer: "json_int j = Some i \<Longrightarrow> json_is_integer j \<and> j \<noteq> JNull"
  by (cases j) auto

lemma sint_of_int32: "- 2147483648 \<le> i \<Longrightarrow> i \<le> 2147483647 \<Longrightarrow> sint (of_int i :: 32 word) = i"
  by (simp add: signed_of_int signed_take_bit_int_eq_self)

subsection \<open>Properties\<close>

text \<open>C4: A full record is validated without message exactly when it would be validated as a partial
  one and no required field without a default is absent; a partial one exactly when each field it
  gives is null and optional, or of the type of the field and within its email, length and bound
  constraints.\<close>

theorem validation_decides_record_ok:
  "(validate e rec = [] \<longleftrightarrow> validate_partial e rec = [] \<and> required_present e rec)
   \<and> (validate_partial e rec = [] \<longleftrightarrow> partial_ok e rec)"
  by (simp add: validate_iff validate_partial_iff record_ok_split)

text \<open>The email check accepts exactly the language of the pattern: a nonempty local part and a
  nonempty domain in their character classes around one \<open>@\<close>, then a dot and at least two letters.\<close>

theorem email_pattern_language: "is_valid_email s \<longleftrightarrow> email_language s"
  by (rule is_valid_email_iff)

text \<open>C5: Every value of a parsed record belongs to a field of the entity, was read from the member
  of that name, and is null or of the alternative the validator expects for the type of the field,
  so validation never reports a wrong type for a parsed record.\<close>

theorem parsed_record_is_typed:
  assumes "parse_record json_parse e body = Inr rec" and "map_of rec n = Some v"
  shows "\<exists>members x f. json_parse body = Inr (JObject members) \<and> map_of members n = Some x
    \<and> f \<in> set (e_fields e) \<and> f_name f = n \<and> parse_field_value f x = Inr v
    \<and> (v = VNone \<or> matches_type (f_type f) v)"
proof -
  obtain members where m: "json_parse body = Inr (JObject members)"
    "parse_fields (e_fields e) members [] = Inr rec"
    using assms(1) by (auto simp: parse_record_def split: sum.splits json.splits)
  from parse_fields_typed [OF m(2) assms(2)] obtain f x where
    "f \<in> set (e_fields e)" "f_name f = n" "map_of members n = Some x" "parse_field_value f x = Inr v"
    by auto
  with m(1) parse_field_value_typed [of f x v] show ?thesis by blast
qed

definition age_field :: field where
  "age_field = make_field ''age'' FInt"

theorem parsed_record_is_typed_witness:
  "\<exists>members x f. Inr (JObject [(''age'', JUint 7)]) = (Inr (JObject members) :: string + json)
    \<and> map_of members ''age'' = Some x
    \<and> f \<in> set (e_fields (make_entity ''Person'' [age_field] [])) \<and> f_name f = ''age''
    \<and> parse_field_value f x = Inr (VInt32 7) \<and> (VInt32 7 = VNone \<or> matches_type (f_type f) (VInt32 7))"
  by (rule parsed_record_is_typed [where body = "[]"
        and json_parse = "\<lambda>_. Inr (JObject [(''age'', JUint 7)])" and rec = "[(''age'', VInt32 7)]"])
    (simp_all add: parse_record_def make_entity_def age_field_def make_field_def
      parse_field_value_def json_get_int64_small)

text \<open>A JSON integer below \<open>2 ^ 63\<close> is stored in a signed INT field as the number it stands for,
  or refused when it is out of the range of the field.\<close>

theorem int_field_stores_the_number:
  assumes "f_type f = FInt" and "\<not> f_unsigned f" and "json_int j = Some i" and "i < 2 ^ 63"
  shows "if - (2 ^ 31) \<le> i \<and> i < 2 ^ 31
    then \<exists>w. parse_field_value f j = Inr (VInt32 w) \<and> sint w = i
    else \<exists>msg. parse_field_value f j = Inl msg"
  using assms json_get_int64_small [OF assms(3,4)] json_int_is_integer [OF assms(3)] sint_of_int32 [of i]
  by (auto simp: parse_field_value_def field_error_def)

theorem int_field_stores_the_number_witness:
  "\<exists>w. parse_field_value age_field (JUint 42) = Inr (VInt32 w) \<and> sint w = 42"
  using int_field_stores_the_number [of age_field "JUint 42" 42]
  by (simp add: age_field_def make_field_def)

text \<open>A JSON integer from \<open>2 ^ 63\<close> on is read as the negative number with the same 64 bits, so the
  range check of an INT, a SMALLINT or a signed BIGINT field does not see its size:
  18446744073709551615 is stored as \<open>-1\<close>.\<close>

theorem large_json_integer_wraps:
  assumes "f_type f = FInt \<or> f_type f = FSmallInt \<or> (f_type f = FBigInt \<and> \<not> f_unsigned f)"
  shows "parse_field_value f (JUint u) = parse_field_value f (JInt u)"
  using assms by (auto simp: parse_field_value_def Let_def)

theorem large_json_integer_wraps_witness:
  "parse_field_value age_field (JUint 18446744073709551615) = Inr (VInt32 (- 1))"
  using large_json_integer_wraps [of age_field 18446744073709551615]
  by (simp add: age_field_def make_field_def parse_field_value_def)

section \<open>Cookies and replies\<close>

text \<open>A token delivered as a cookie comes back: if the builder accepts the access cookie of a token
  without surrounding white space, a request that carries the pair of that cookie next to any other
  well-formed cookies of other names yields exactly the token.\<close>

theorem access_cookie_round_trip:
  assumes "build_access_cookie cfg token ttl = Inr text"
    and "token = [] \<or> \<not> is_space (hd token) \<and> \<not> is_space (last token)"
    and "list_all cookie_ok others" and "map_of others (access_token_name cfg) = None"
  shows "get_cookie_value (before_char (CHR '';'') text @ (if others = [] then [] else ''; '' @ cookie_header others))
    (access_token_name cfg) = Some token"
proof -
  let ?n = "access_token_name cfg"
  note pair = cookie_build_pair [OF assms(1) [unfolded build_access_cookie_def]]
  have sent: "before_char (CHR '';'') text = ?n @ ''='' @ token"
    using pair(1) by (simp add: configured_def make_cookie_def)
  have "cookie_ok (?n, token)"
    using pair(2,3) assms(2) by (simp add: cookie_ok_def configured_def make_cookie_def)
  with assms(3) have ok: "list_all cookie_ok ((?n, token) # others)" by simp
  have "before_char (CHR '';'') text @ (if others = [] then [] else ''; '' @ cookie_header others) =
      cookie_header ((?n, token) # others)"
    unfolding sent by (cases others) simp_all
  moreover have "map_of (rev others) ?n = None"
    using assms(4) by (simp add: map_of_eq_None_iff)
  ultimately show ?thesis
    using cookie_value_header [OF ok, of ?n None] by (simp add: get_cookie_value_def map_add_def)
qed

theorem access_cookie_round_trip_witness:
  "get_cookie_value ''sea_access=abc.def; theme=dark'' ''sea_access'' = Some ''abc.def''"
proof -
  have b: "build_access_cookie cookie_safe_defaults ''abc.def'' 900 =
      Inr ''sea_access=abc.def; Max-Age=900; Path=/; Secure; HttpOnly; SameSite=Lax''"
    by code_simp
  have ok: "list_all cookie_ok [(''theme'', ''dark'')]" by code_simp
  have n: "access_token_name cookie_safe_defaults = ''sea_access''" by code_simp
  have t: "before_char (CHR '';'') ''sea_access=abc.def; Max-Age=900; Path=/; Secure; HttpOnly; SameSite=Lax'' =
      ''sea_access=abc.def''" by code_simp
  have s: "\<not> is_space (hd ''abc.def'') \<and> \<not> is_space (last ''abc.def'')" by code_simp
  show ?thesis
    using access_cookie_round_trip [OF b _ ok] s by (simp add: n t)
qed

text \<open>The value of an INT or SMALLINT field that a request stored is served as \<open>null\<close>: the parser
  stores it at the width of the column, and the writer of replies knows the 64-bit integer only.\<close>

theorem int_fields_served_as_null:
  assumes "parse_record parse e body = Inr rec" and "map_of rec n = Some v"
    and "list_all (\<lambda>f. f_name f = n \<longrightarrow> f_type f = FInt \<or> f_type f = FSmallInt) (e_fields e)"
  shows "dynamic_value_to_json dbl_text v = ''null''"
proof -
  obtain members where "parse_fields (e_fields e) members [] = Inr rec"
    using assms(1) by (auto simp: parse_record_def split: sum.splits json.splits)
  from parse_fields_typed [OF this assms(2)] obtain f x where
    f: "f \<in> set (e_fields e)" "f_name f = n" "parse_field_value f x = Inr v" by auto
  with assms(3) have "f_type f = FInt \<or> f_type f = FSmallInt" by (auto simp: list_all_iff)
  with f(3) show ?thesis
    by (auto simp: parse_field_value_def Let_def field_error_def split: if_splits)
qed

theorem int_fields_served_as_null_witness:
  "record_to_json (\<lambda>_. []) [(''age'', VInt32 30)] = [CHR 0x7B, CHR 0x22] @ ''age'' @ [CHR 0x22] @ '':null'' @ [CHR 0x7D]"
proof -
  let ?e = "make_entity ''Person'' [make_field ''age'' FInt] []"
  have "parse_record (\<lambda>_. Inr (JObject [(''age'', JUint 30)])) ?e [] = Inr [(''age'', VInt32 30)]"
    by code_simp
  from int_fields_served_as_null [OF this, of "''age''" "VInt32 30" "\<lambda>_. []"]
  have "dynamic_value_to_json (\<lambda>_. []) (VInt32 30) = ''null''"
    by (simp add: make_entity_def make_field_def)
  then show ?thesis by (simp add: record_to_json_def json_quote_def escape_char_def)
qed

end
