(* ===== verification/Repository_Interface.thy ===== *)
theory Repository_Interface
  imports Generic_Validator
begin

text \<open>
  \<open>IGenericRepository\<close> (\<open>libs/infrastructure/persistence/i_generic_repository.h\<close>): the requests and
  results, the virtual operations as a record of functions over the state \<open>'r\<close> of a backend, and
  the contract \<open>generic_repository\<close> its clients rely on. A future is the value it resolves to: every
  operation runs to completion before the next one starts.
\<close>

section \<open>Requests and results\<close>

record update_response =
  upd_status :: bool
  upd_record :: dynamic_record

record transaction_result =
  committed :: bool
  error_message :: string

record page_request =
  pr_page :: size
  pr_page_size :: size
  pr_sort_field :: "string option"
  pr_sort_desc :: bool

record page_result =
  pres_items :: "dynamic_record list"
  pres_total :: size

record offset_request =
  or_offset :: size
  or_limit :: size
  or_sort_field :: "string option"
  or_sort_desc :: bool

record offset_result =
  ores_items :: "dynamic_record list"
  ores_total :: size

record cursor_request =
  cr_after :: "string option"
  cr_limit :: size
  cr_cursor_field :: string
  cr_sort_desc :: bool

record cursor_result =
  cres_items :: "dynamic_record list"
  cres_next_cursor :: "string option"

section \<open>The virtual operations\<close>

record 'r repository =
  repo_create :: "'r \<Rightarrow> string \<Rightarrow> dynamic_record \<Rightarrow> dynamic_record option \<times> 'r"
  repo_find_all :: "'r \<Rightarrow> string \<Rightarrow> dynamic_record list"
  repo_find_by_id :: "'r \<Rightarrow> string \<Rightarrow> string \<Rightarrow> dynamic_record option"
  repo_find_one_by_field :: "'r \<Rightarrow> string \<Rightarrow> string \<Rightarrow> string \<Rightarrow> dynamic_record option"
  repo_remove :: "'r \<Rightarrow> string \<Rightarrow> string \<Rightarrow> bool \<times> 'r"
  repo_update :: "'r \<Rightarrow> string \<Rightarrow> string \<Rightarrow> dynamic_record \<Rightarrow> update_response \<times> 'r"
  repo_insert_pivot :: "'r \<Rightarrow> string \<Rightarrow> dynamic_record \<Rightarrow> bool \<times> 'r"

text \<open>
  What a client may rely on: lookups after every operation that changes the state, the listing of
  an entity against lookups by id, and the operations that answer \<open>false\<close> leaving records alone.
  \<open>stored_form\<close> is the part of a record the backend keeps; inserting a pivot row touches no other
  table than the pivot table and removes nothing.
\<close>

locale generic_repository =
  fixes repo :: "'r repository"
    and ok :: "'r \<Rightarrow> bool"
    and key_of :: "dynamic_record \<Rightarrow> string option"
    and stored_form :: "dynamic_record \<Rightarrow> dynamic_record"
  assumes create_some: "ok st \<Longrightarrow> repo_create repo st en rec = (Some created, st') \<Longrightarrow>
      \<exists>k. key_of rec = Some k \<and> repo_find_by_id repo st en k = None \<and> created = stored_form rec \<and>
          (\<forall>en' k'. repo_find_by_id repo st' en' k' =
             (if en' = en \<and> k' = k then Some created else repo_find_by_id repo st en' k'))"
    and create_none: "ok st \<Longrightarrow> repo_create repo st en rec = (None, st') \<Longrightarrow>
      repo_find_by_id repo st' = repo_find_by_id repo st"
    and create_ok: "ok st \<Longrightarrow> ok (snd (repo_create repo st en rec))"
    and find_all_iff: "ok st \<Longrightarrow>
      r \<in> set (repo_find_all repo st en) \<longleftrightarrow> (\<exists>k. repo_find_by_id repo st en k = Some r)"
    and find_one_some: "ok st \<Longrightarrow> repo_find_one_by_field repo st en fn v = Some r \<Longrightarrow>
      r \<in> set (repo_find_all repo st en) \<and>
      (\<exists>x. map_of r fn = Some x \<and> dynamic_value_to_string x = Some v)"
    and find_one_none: "ok st \<Longrightarrow> repo_find_one_by_field repo st en fn v = None \<Longrightarrow>
      r \<in> set (repo_find_all repo st en) \<Longrightarrow> map_of r fn = Some x \<Longrightarrow>
      dynamic_value_to_string x \<noteq> Some v"
    and remove_find: "ok st \<Longrightarrow> repo_remove repo st en k = (b, st') \<Longrightarrow>
      repo_find_by_id repo st' en' k' =
        (if en' = en \<and> k' = k then None else repo_find_by_id repo st en' k')"
    and remove_answer: "ok st \<Longrightarrow>
      fst (repo_remove repo st en k) \<longleftrightarrow> repo_find_by_id repo st en k \<noteq> None"
    and remove_ok: "ok st \<Longrightarrow> ok (snd (repo_remove repo st en k))"
    and update_some: "ok st \<Longrightarrow> repo_update repo st en k rec = (resp, st') \<Longrightarrow> upd_status resp \<Longrightarrow>
      \<exists>old. repo_find_by_id repo st en k = Some old \<and>
        (\<forall>en' k'. repo_find_by_id repo st' en' k' =
           (if en' = en \<and> k' = k then Some (upd_record resp) else repo_find_by_id repo st en' k')) \<and>
        map_of (upd_record resp) ''id'' = map_of old ''id''"
    and update_values: "ok st \<Longrightarrow> repo_update repo st en k rec = (resp, st') \<Longrightarrow> upd_status resp \<Longrightarrow>
      tbl_ok rec \<Longrightarrow> repo_find_by_id repo st en k = Some old \<Longrightarrow> map_of (upd_record resp) n = Some w \<Longrightarrow>
      map_of old n = Some w \<or> map_of rec n = Some w"
    and stored_values: "tbl_ok rec \<Longrightarrow> map_of (stored_form rec) n = Some w \<Longrightarrow> map_of rec n = Some w"
    and pivot_other: "ok st \<Longrightarrow> repo_insert_pivot repo st p vals = (b, st') \<Longrightarrow> en \<noteq> p \<Longrightarrow>
      repo_find_by_id repo st' en k = repo_find_by_id repo st en k"
    and pivot_keeps: "ok st \<Longrightarrow> repo_insert_pivot repo st p vals = (b, st') \<Longrightarrow>
      repo_find_by_id repo st en k \<noteq> None \<Longrightarrow> repo_find_by_id repo st' en k \<noteq> None"
    and pivot_ok: "ok st \<Longrightarrow> ok (snd (repo_insert_pivot repo st p vals))"
    and update_none: "ok st \<Longrightarrow> repo_update repo st en k rec = (resp, st') \<Longrightarrow> \<not> upd_status resp \<Longrightarrow>
      repo_find_by_id repo st en k = None \<and> repo_find_by_id repo st' = repo_find_by_id repo st"
    and update_ok: "ok st \<Longrightarrow> ok (snd (repo_update repo st en k rec))"
begin

lemma created_is_found:
  "ok st \<Longrightarrow> repo_create repo st en rec = (Some created, st') \<Longrightarrow> key_of rec = Some k \<Longrightarrow>
   repo_find_by_id repo st' en k = Some created"
  using create_some [of st en rec created st'] by auto

lemma created_is_listed:
  assumes "ok st" "repo_create repo st en rec = (Some created, st')"
  shows "created \<in> set (repo_find_all repo st' en)"
proof -
  have "ok st'" using create_ok [OF assms(1), of en rec] assms(2) by simp
  with create_some [OF assms] show ?thesis by (auto simp: find_all_iff)
qed

lemma create_keeps_others:
  assumes "ok st" "repo_create repo st en rec = (res, st')" "repo_find_by_id repo st en' k = Some r"
  shows "repo_find_by_id repo st' en' k = Some r"
proof (cases res)
  case None
  with create_none [OF assms(1), of en rec st'] assms show ?thesis by simp
next
  case (Some c)
  with create_some [OF assms(1), of en rec c st'] assms show ?thesis by auto
qed

lemma removed_is_gone:
  assumes "ok st" "repo_remove repo st en k = (b, st')"
  shows "repo_find_by_id repo st' en k = None"
  using remove_find [OF assms, of en k] by simp

lemma find_one_iff:
  "ok st \<Longrightarrow> repo_find_one_by_field repo st en fn v \<noteq> None \<longleftrightarrow>
   (\<exists>r k x. repo_find_by_id repo st en k = Some r \<and> map_of r fn = Some x
      \<and> dynamic_value_to_string x = Some v)"
  using find_one_some [of st en fn v] find_one_none [of st en fn v] find_all_iff [of st _ en]
  by (metis not_None_eq)

end

end
