(* ===== verification/Memory_Repo.thy ===== *)
theory Memory_Repo
  imports Repository_Interface "HOL-Library.Multiset"
begin

text \<open>
  \<open>InMemoryGenericRepository\<close>
  (\<open>libs/infrastructure/persistence/memory/in_memory_generic_repository.cpp\<close>). The storage maps
  entity names to maps from ids to records. \<open>std::sort\<close> is an insertion sort on the comparison of
  the source. Sums and products of \<open>std::size_t\<close> wrap; a \<open>reserve\<close> of a wrapped difference throws.
  Additions on signed counters wrap too.
\<close>

type_synonym storage = "(string, (string, dynamic_record) table) table"

section \<open>Records\<close>

definition extract_id :: "dynamic_record \<Rightarrow> string option" where
  "extract_id rec =
     (case tbl_get rec ''id'' of None \<Rightarrow> None | Some v \<Rightarrow> dynamic_value_to_id_string v)"

definition is_strings :: "dynamic_value \<Rightarrow> bool" where
  "is_strings v = (case v of VStrings _ \<Rightarrow> True | _ \<Rightarrow> False)"

definition entity_storage :: "storage \<Rightarrow> string \<Rightarrow> (string, dynamic_record) table" where
  "entity_storage st en = (case tbl_get st en of None \<Rightarrow> [] | Some t \<Rightarrow> t)"

definition filter_record :: "dynamic_record \<Rightarrow> dynamic_record" where
  "filter_record rec = filter (\<lambda>(k, v). \<not> is_strings v) rec"

definition mem_create :: "storage \<Rightarrow> string \<Rightarrow> dynamic_record \<Rightarrow> dynamic_record option \<times> storage" where
  "mem_create st en rec =
     (case extract_id rec of
        None \<Rightarrow> (None, st)
      | Some k \<Rightarrow>
          let t = entity_storage st en in
          if tbl_has t k then (None, tbl_put en t st)
          else (Some (filter_record rec), tbl_put en (tbl_put k (filter_record rec) t) st))"

definition mem_find_all :: "storage \<Rightarrow> string \<Rightarrow> dynamic_record list" where
  "mem_find_all st en = (case tbl_get st en of None \<Rightarrow> [] | Some t \<Rightarrow> map snd t)"

definition mem_find_by_id :: "storage \<Rightarrow> string \<Rightarrow> string \<Rightarrow> dynamic_record option" where
  "mem_find_by_id st en k = (case tbl_get st en of None \<Rightarrow> None | Some t \<Rightarrow> tbl_get t k)"

definition field_is :: "string \<Rightarrow> string \<Rightarrow> dynamic_record \<Rightarrow> bool" where
  "field_is fn v rec =
     (case tbl_get rec fn of None \<Rightarrow> False | Some x \<Rightarrow> dynamic_value_to_string x = Some v)"

definition mem_find_one_by_field :: "storage \<Rightarrow> string \<Rightarrow> string \<Rightarrow> string \<Rightarrow> dynamic_record option" where
  "mem_find_one_by_field st en fn v =
     (case tbl_get st en of None \<Rightarrow> None | Some t \<Rightarrow> find (field_is fn v) (map snd t))"

definition mem_remove :: "storage \<Rightarrow> string \<Rightarrow> string \<Rightarrow> bool \<times> storage" where
  "mem_remove st en k =
     (case tbl_get st en of
        None \<Rightarrow> (False, st)
      | Some t \<Rightarrow> (tbl_has t k, tbl_put en (tbl_erase k t) st))"

fun merge_record :: "dynamic_record \<Rightarrow> dynamic_record \<Rightarrow> dynamic_record" where
  "merge_record existing [] = existing"
| "merge_record existing ((k, v) # rest) =
     (if k = ''id'' then merge_record existing rest
      else if is_strings v then merge_record existing rest
      else merge_record (tbl_put k v existing) rest)"

definition mem_update :: "storage \<Rightarrow> string \<Rightarrow> string \<Rightarrow> dynamic_record \<Rightarrow> update_response \<times> storage" where
  "mem_update st en k rec =
     (case tbl_get st en of
        None \<Rightarrow> (\<lparr>upd_status = False, upd_record = []\<rparr>, st)
      | Some t \<Rightarrow>
          (case tbl_get t k of
             None \<Rightarrow> (\<lparr>upd_status = False, upd_record = []\<rparr>, st)
           | Some existing \<Rightarrow>
               let new = merge_record existing rec
               in (\<lparr>upd_status = True, upd_record = new\<rparr>, tbl_put en (tbl_put k new t) st)))"

section \<open>Pivot tables and transactions\<close>

fun insort_by :: "('a \<Rightarrow> 'a \<Rightarrow> bool) \<Rightarrow> 'a \<Rightarrow> 'a list \<Rightarrow> 'a list" where
  "insort_by lt x [] = [x]"
| "insort_by lt x (y # ys) = (if lt x y then x # y # ys else y # insort_by lt x ys)"

text \<open>A stable sort: later elements go behind equal earlier ones.\<close>

definition std_sort :: "('a \<Rightarrow> 'a \<Rightarrow> bool) \<Rightarrow> 'a list \<Rightarrow> 'a list" where
  "std_sort lt xs = fold (insort_by lt) xs []"

definition make_record_key :: "dynamic_record \<Rightarrow> string" where
  "make_record_key values =
     concat (map (\<lambda>key. case tbl_get values key of
          None \<Rightarrow> []
        | Some v \<Rightarrow> (case dynamic_value_to_string v of None \<Rightarrow> [] | Some s \<Rightarrow> key @ ''='' @ s @ '';''))
       (std_sort str_less (map fst values)))"

definition mem_insert_pivot :: "storage \<Rightarrow> string \<Rightarrow> dynamic_record \<Rightarrow> bool \<times> storage" where
  "mem_insert_pivot st pivot values =
     (True, tbl_put pivot (tbl_put (make_record_key values) values (entity_storage st pivot)) st)"

text \<open>The outcomes of the work of a transaction: a ready future, one that is not ready, exceptions.\<close>

datatype work_outcome = WReady bool | WPending | WThrows string | WThrowsOther

definition mem_in_transaction ::
  "storage \<Rightarrow> (storage \<Rightarrow> work_outcome \<times> storage) \<Rightarrow> transaction_result \<times> storage" where
  "mem_in_transaction st work =
     (case work st of (outcome, st') \<Rightarrow>
       ((case outcome of
           WReady True \<Rightarrow> \<lparr>committed = True, error_message = []\<rparr>
         | WReady False \<Rightarrow> \<lparr>committed = False,
             error_message = ''Transaction returned false (no real rollback in Memory backend)''\<rparr>
         | WPending \<Rightarrow> \<lparr>committed = False,
             error_message = ''Memory transaction work returned a non-ready future''\<rparr>
         | WThrows what \<Rightarrow> \<lparr>committed = False,
             error_message = ''Exception in Memory transaction: '' @ what\<rparr>
         | WThrowsOther \<Rightarrow> \<lparr>committed = False,
             error_message = ''Unknown exception in Memory transaction''\<rparr>), st'))"

definition mem_delete_pivot :: "storage \<Rightarrow> string \<Rightarrow> dynamic_record \<Rightarrow> bool" where
  "mem_delete_pivot st pivot values = False"

definition mem_pivot_exists :: "storage \<Rightarrow> string \<Rightarrow> dynamic_record \<Rightarrow> bool" where
  "mem_pivot_exists st pivot values = False"

section \<open>Sorting\<close>

definition compare_dynamic_values :: "dynamic_value \<Rightarrow> dynamic_value \<Rightarrow> int" where
  "compare_dynamic_values a b =
     (case (a, b) of
        (VInt64 x, VInt64 y) \<Rightarrow> if sint x < sint y then -1 else if sint y < sint x then 1 else 0
      | (VDouble x, VDouble y) \<Rightarrow> if dbl_lt x y then -1 else if dbl_lt y x then 1 else 0
      | (VBool x, VBool y) \<Rightarrow> if x = y then 0 else if x then 1 else -1
      | _ \<Rightarrow>
          (case (dynamic_value_to_string a, dynamic_value_to_string b) of
             (None, None) \<Rightarrow> 0
           | (None, Some _) \<Rightarrow> -1
           | (Some _, None) \<Rightarrow> 1
           | (Some s, Some t) \<Rightarrow> if str_less s t then -1 else if str_less t s then 1 else 0))"

definition row_less :: "string \<Rightarrow> bool \<Rightarrow> dynamic_record \<Rightarrow> dynamic_record \<Rightarrow> bool" where
  "row_less fn desc a b =
     (case (tbl_get a fn, tbl_get b fn) of
        (None, None) \<Rightarrow> False
      | (None, Some _) \<Rightarrow> False
      | (Some _, None) \<Rightarrow> True
      | (Some x, Some y) \<Rightarrow>
          let cmp = compare_dynamic_values x y in if desc then 0 < cmp else cmp < 0)"

definition collect_all_sorted :: "storage \<Rightarrow> string \<Rightarrow> string option \<Rightarrow> bool \<Rightarrow> dynamic_record list" where
  "collect_all_sorted st en srt desc =
     (case tbl_get st en of
        None \<Rightarrow> []
      | Some t \<Rightarrow>
          (case srt of None \<Rightarrow> map snd t | Some fn \<Rightarrow> std_sort (row_less fn desc) (map snd t)))"

section \<open>Pagination\<close>

definition mem_count :: "storage \<Rightarrow> string \<Rightarrow> size" where
  "mem_count st en = (case tbl_get st en of None \<Rightarrow> 0 | Some t \<Rightarrow> of_nat (length t))"

text \<open>The rows from \<open>start\<close> up to \<open>stop\<close>, exclusive; \<open>reserve (stop - start)\<close> throws when it wraps.\<close>

definition take_rows :: "size \<Rightarrow> size \<Rightarrow> 'a list \<Rightarrow> string + 'a list" where
  "take_rows start stop rows =
     (if stop < start then Inl ''vector::reserve''
      else Inr (take (unat stop - unat start) (drop (unat start) rows)))"

definition mem_list_page :: "storage \<Rightarrow> string \<Rightarrow> page_request \<Rightarrow> string + page_result" where
  "mem_list_page st en request =
     (let rows = collect_all_sorted st en (pr_sort_field request) (pr_sort_desc request);
          total = (of_nat (length rows) :: size);
          page = (if 0 < pr_page request then pr_page request else 1);
          off = (page - 1) * pr_page_size request
      in if total \<le> off \<or> pr_page_size request = 0 then Inr \<lparr>pres_items = [], pres_total = total\<rparr>
         else case take_rows off (min (off + pr_page_size request) total) rows of
             Inl e \<Rightarrow> Inl e
           | Inr items \<Rightarrow> Inr \<lparr>pres_items = items, pres_total = total\<rparr>)"

definition mem_list_offset :: "storage \<Rightarrow> string \<Rightarrow> offset_request \<Rightarrow> string + offset_result" where
  "mem_list_offset st en request =
     (let rows = collect_all_sorted st en (or_sort_field request) (or_sort_desc request);
          total = (of_nat (length rows) :: size)
      in if total \<le> or_offset request \<or> or_limit request = 0
         then Inr \<lparr>ores_items = [], ores_total = total\<rparr>
         else case take_rows (or_offset request) (min (or_offset request + or_limit request) total) rows of
             Inl e \<Rightarrow> Inl e
           | Inr items \<Rightarrow> Inr \<lparr>ores_items = items, ores_total = total\<rparr>)"

definition row_string :: "string \<Rightarrow> dynamic_record \<Rightarrow> string option" where
  "row_string fn row =
     (case tbl_get row fn of None \<Rightarrow> None | Some v \<Rightarrow> dynamic_value_to_string v)"

text \<open>
  The scan for the first row past the cursor, at index \<open>i\<close>: rows without a printable cursor value are
  skipped, and only a last row that has one moves the start to the end.
\<close>

fun cursor_start :: "string \<Rightarrow> bool \<Rightarrow> string \<Rightarrow> dynamic_record list \<Rightarrow> nat \<Rightarrow> nat" where
  "cursor_start fn desc after [] i = 0"
| "cursor_start fn desc after (row # rows) i =
     (case row_string fn row of
        None \<Rightarrow> cursor_start fn desc after rows (Suc i)
      | Some s \<Rightarrow>
          if (if desc then str_less s after else str_less after s) then i
          else if rows = [] then Suc i
          else cursor_start fn desc after rows (Suc i))"

definition mem_list_cursor :: "storage \<Rightarrow> string \<Rightarrow> cursor_request \<Rightarrow> string + cursor_result" where
  "mem_list_cursor st en request =
     (let rows = collect_all_sorted st en (Some (cr_cursor_field request)) (cr_sort_desc request);
          total = (of_nat (length rows) :: size);
          nothing = \<lparr>cres_items = [], cres_next_cursor = None\<rparr>
      in if rows = [] \<or> cr_limit request = 0 then Inr nothing
         else let start = (case cr_after request of None \<Rightarrow> 0
                | Some after \<Rightarrow> of_nat (cursor_start (cr_cursor_field request) (cr_sort_desc request) after rows 0))
           in if total \<le> start then Inr nothing
              else let stop = min (start + cr_limit request) total in
                case take_rows start stop rows of
                  Inl e \<Rightarrow> Inl e
                | Inr items \<Rightarrow>
                    Inr \<lparr>cres_items = items,
                         cres_next_cursor = (if stop < total then row_string (cr_cursor_field request) (last items)
                                             else None)\<rparr>)"

section \<open>Counters\<close>

definition increment_value :: "64 word \<Rightarrow> dynamic_value \<Rightarrow> dynamic_value option" where
  "increment_value delta v =
     (case v of
        VInt64 w \<Rightarrow> Some (VInt64 (w + delta))
      | VInt32 w \<Rightarrow> Some (VInt32 (ucast (scast w + delta :: 64 word)))
      | VInt16 w \<Rightarrow> Some (VInt16 (ucast (scast w + delta :: 64 word)))
      | VUint64 w \<Rightarrow> if sint delta < 0 \<and> w < - delta then None else Some (VUint64 (w + delta))
      | VUint32 w \<Rightarrow> if sint delta < 0 \<and> ucast w < - delta then None
                     else Some (VUint32 (ucast (ucast w + delta :: 64 word)))
      | VUint16 w \<Rightarrow> if sint delta < 0 \<and> ucast w < - delta then None
                     else Some (VUint16 (ucast (ucast w + delta :: 64 word)))
      | _ \<Rightarrow> None)"

definition decrement_value :: "dynamic_value \<Rightarrow> dynamic_value option" where
  "decrement_value v =
     (case v of
        VInt64 w \<Rightarrow> if 0 < sint w then Some (VInt64 (w - 1)) else None
      | VInt32 w \<Rightarrow> if 0 < sint w then Some (VInt32 (w - 1)) else None
      | VInt16 w \<Rightarrow> if 0 < sint w then Some (VInt16 (w - 1)) else None
      | VUint64 w \<Rightarrow> if 0 < w then Some (VUint64 (w - 1)) else None
      | VUint32 w \<Rightarrow> if 0 < w then Some (VUint32 (w - 1)) else None
      | VUint16 w \<Rightarrow> if 0 < w then Some (VUint16 (w - 1)) else None
      | _ \<Rightarrow> None)"

text \<open>The visit of one field of one record in place.\<close>

definition visit_field ::
  "(dynamic_value \<Rightarrow> dynamic_value option) \<Rightarrow> storage \<Rightarrow> string \<Rightarrow> string \<Rightarrow> string \<Rightarrow> bool \<times> storage" where
  "visit_field f st en k fn =
     (case tbl_get st en of
        None \<Rightarrow> (False, st)
      | Some t \<Rightarrow>
          (case tbl_get t k of
             None \<Rightarrow> (False, st)
           | Some rec \<Rightarrow>
               (case tbl_get rec fn of
                  None \<Rightarrow> (False, st)
                | Some v \<Rightarrow>
                    (case f v of
                       None \<Rightarrow> (False, st)
                     | Some v' \<Rightarrow> (True, tbl_put en (tbl_put k (tbl_put fn v' rec) t) st)))))"

definition mem_increment_field ::
  "storage \<Rightarrow> string \<Rightarrow> string \<Rightarrow> string \<Rightarrow> 64 word \<Rightarrow> bool \<times> storage" where
  "mem_increment_field st en k fn delta = visit_field (increment_value delta) st en k fn"

definition mem_decrement_field_if_positive ::
  "storage \<Rightarrow> string \<Rightarrow> string \<Rightarrow> string \<Rightarrow> bool \<times> storage" where
  "mem_decrement_field_if_positive st en k fn = visit_field decrement_value st en k fn"

definition memory_repository :: "storage repository" where
  "memory_repository =
     \<lparr>repo_create = mem_create, repo_find_all = mem_find_all, repo_find_by_id = mem_find_by_id,
      repo_find_one_by_field = mem_find_one_by_field, repo_remove = mem_remove,
      repo_update = mem_update, repo_insert_pivot = mem_insert_pivot\<rparr>"

end
