(* ===== verification/Memory_Laws.thy ===== *)
theory Memory_Laws
  imports Memory_Repo
begin

text \<open>
  Laws of the memory repository: the invariant of its storage, the contract \<open>generic_repository\<close>
  discharged for it, sorting, and the pages and cursors of its listings.
\<close>

section \<open>Invariant and lookups\<close>

text \<open>One entry per entity and per id; every record is stored under the id it carries.\<close>

definition storage_ok :: "storage \<Rightarrow> bool" where
  "storage_ok st \<longleftrightarrow> tbl_ok st \<and> (\<forall>en t. map_of st en = Some t \<longrightarrow> tbl_ok t)"

lemma entity_storage_ok [simp]: "storage_ok st \<Longrightarrow> tbl_ok (entity_storage st en)"
  by (auto simp: entity_storage_def storage_ok_def split: option.splits)

lemma find_by_id_entity_storage: "mem_find_by_id st en k = map_of (entity_storage st en) k"
  by (simp add: mem_find_by_id_def entity_storage_def split: option.splits)

lemma find_all_entity_storage: "mem_find_all st en = map snd (entity_storage st en)"
  by (simp add: mem_find_all_def entity_storage_def split: option.splits)

lemma entity_storage_put [simp]:
  "entity_storage (tbl_put en t st) en' = (if en' = en then t else entity_storage st en')"
  by (simp add: entity_storage_def)

lemma storage_ok_put [simp]: "storage_ok st \<Longrightarrow> tbl_ok t \<Longrightarrow> storage_ok (tbl_put en t st)"
  by (auto simp: storage_ok_def)

lemma storage_ok_get: "storage_ok st \<Longrightarrow> map_of st en = Some t \<Longrightarrow> tbl_ok t"
  by (auto simp: storage_ok_def)

lemma mem_create_ok: "storage_ok st \<Longrightarrow> storage_ok (snd (mem_create st en rec))"
  by (auto simp: mem_create_def Let_def split: option.splits)

lemma mem_remove_ok: "storage_ok st \<Longrightarrow> storage_ok (snd (mem_remove st en k))"
  by (auto simp: mem_remove_def storage_ok_get split: option.splits)

lemma mem_update_ok: "storage_ok st \<Longrightarrow> storage_ok (snd (mem_update st en k rec))"
  by (auto simp: mem_update_def Let_def storage_ok_get split: option.splits)

lemma mem_insert_pivot_ok: "storage_ok st \<Longrightarrow> storage_ok (snd (mem_insert_pivot st pivot values))"
  by (simp add: mem_insert_pivot_def)

lemma visit_field_ok: "storage_ok st \<Longrightarrow> storage_ok (snd (visit_field f st en k fn))"
  by (auto simp: visit_field_def storage_ok_get split: option.splits)

lemma visit_field_none:
  "mem_find_by_id st en k = None \<Longrightarrow> visit_field f st en k fn = (False, st)"
  by (auto simp: visit_field_def mem_find_by_id_def split: option.splits)

lemma visit_field_some:
  assumes "mem_find_by_id st en k = Some rec"
  shows "visit_field f st en k fn =
    (case map_of rec fn of None \<Rightarrow> (False, st)
     | Some v \<Rightarrow> (case f v of None \<Rightarrow> (False, st)
       | Some v' \<Rightarrow> (True, tbl_put en (tbl_put k (tbl_put fn v' rec) (entity_storage st en)) st)))"
  using assms by (auto simp: visit_field_def mem_find_by_id_def entity_storage_def split: option.splits)

lemma sint_minus_one: "0 < sint (w :: 'a::len word) \<Longrightarrow> sint (w - 1) = sint w - 1"
proof -
  assume pos: "0 < sint w"
  have lt: "sint w < 2 ^ (LENGTH('a) - 1)" by (rule sint_lt)
  have "1 < LENGTH('a)"
  proof (rule ccontr)
    assume "\<not> 1 < LENGTH('a)"
    then have "LENGTH('a) = 1" using len_gt_0 [where 'a = 'a] by linarith
    with lt pos show False by simp
  qed
  then have "sint (w - 1) = signed_take_bit (LENGTH('a) - 1) (sint w - sint (1 :: 'a word))"
    by (simp add: sint_word_ariths)
  also have "sint (1 :: 'a word) = 1" using \<open>1 < LENGTH('a)\<close> by simp
  also have "signed_take_bit (LENGTH('a) - 1) (sint w - 1) = sint w - 1"
    using pos lt by (intro signed_take_bit_int_eq_self) auto
  finally show ?thesis .
qed

lemma merge_record_id [simp]: "map_of (merge_record existing rec) ''id'' = map_of existing ''id''"
  by (induction existing rec rule: merge_record.induct) auto

lemma merge_record_get:
  "tbl_ok rec \<Longrightarrow> n \<noteq> ''id'' \<Longrightarrow> map_of (merge_record existing rec) n =
     (case map_of rec n of None \<Rightarrow> map_of existing n
      | Some v \<Rightarrow> if is_strings v then map_of existing n else Some v)"
proof (induction existing rec rule: merge_record.induct)
  case (2 existing k v rest)
  have rest: "tbl_ok rest" and none: "map_of rest k = None"
    using 2(4) by (auto simp: map_of_eq_None_iff)
  show ?case
  proof (cases "k = ''id'' \<or> is_strings v")
    case True
    then have "merge_record existing ((k, v) # rest) = merge_record existing rest" by auto
    moreover have "map_of (merge_record existing rest) n =
        (case map_of rest n of None \<Rightarrow> map_of existing n
         | Some v \<Rightarrow> if is_strings v then map_of existing n else Some v)"
      using True 2(1) [OF _ rest 2(5)] 2(2) [OF _ _ rest 2(5)] by blast
    ultimately show ?thesis using True 2(5) none by (cases "n = k") simp_all
  next
    case False
    then have "merge_record existing ((k, v) # rest) = merge_record (tbl_put k v existing) rest" by simp
    moreover have "map_of (merge_record (tbl_put k v existing) rest) n =
        (case map_of rest n of None \<Rightarrow> map_of (tbl_put k v existing) n
         | Some v' \<Rightarrow> if is_strings v' then map_of (tbl_put k v existing) n else Some v')"
      using False 2(3) [OF _ _ rest 2(5)] by blast
    ultimately show ?thesis using False none by (cases "n = k") (simp_all split: option.splits)
  qed
qed simp

lemma tbl_ok_map_of: "tbl_ok t \<Longrightarrow> (k, v) \<in> set t \<longleftrightarrow> map_of t k = Some v"
  using tbl.entries_get .

lemma field_is_iff:
  "field_is fn v rec \<longleftrightarrow> (\<exists>x. map_of rec fn = Some x \<and> dynamic_value_to_string x = Some v)"
  by (simp add: field_is_def split: option.splits)

interpretation memory: generic_repository memory_repository storage_ok extract_id filter_record
proof
  fix st :: storage and en rec created st'
  assume "storage_ok st" "repo_create memory_repository st en rec = (Some created, st')"
  then show "\<exists>k. extract_id rec = Some k \<and> repo_find_by_id memory_repository st en k = None \<and>
      created = filter_record rec \<and>
      (\<forall>en' k'. repo_find_by_id memory_repository st' en' k' =
        (if en' = en \<and> k' = k then Some created else repo_find_by_id memory_repository st en' k'))"
    by (auto simp: memory_repository_def mem_create_def Let_def find_by_id_entity_storage
        split: option.splits if_splits)
next
  fix st :: storage and en rec st'
  assume "storage_ok st" "repo_create memory_repository st en rec = (None, st')"
  then show "repo_find_by_id memory_repository st' = repo_find_by_id memory_repository st"
    by (auto simp: memory_repository_def mem_create_def Let_def find_by_id_entity_storage fun_eq_iff
        split: option.splits if_splits)
next
  fix st :: storage and en r
  assume "storage_ok st"
  then show "r \<in> set (repo_find_all memory_repository st en) \<longleftrightarrow>
      (\<exists>k. repo_find_by_id memory_repository st en k = Some r)"
    using tbl_ok_map_of [OF entity_storage_ok, of st _ r en]
    by (simp add: memory_repository_def find_all_entity_storage find_by_id_entity_storage)
      (metis (no_types, lifting) imageE image_eqI prod.collapse snd_conv)
next
  fix st :: storage and en fn v r
  assume "storage_ok st" "repo_find_one_by_field memory_repository st en fn v = Some r"
  then obtain t where "map_of st en = Some t" "find (field_is fn v) (map snd t) = Some r"
    by (auto simp: memory_repository_def mem_find_one_by_field_def split: option.splits)
  then show "r \<in> set (repo_find_all memory_repository st en) \<and>
      (\<exists>x. map_of r fn = Some x \<and> dynamic_value_to_string x = Some v)"
    using find_Some_in [of "field_is fn v" "map snd t" r]
    by (simp add: memory_repository_def mem_find_all_def field_is_iff)
next
  fix st :: storage and en fn v r x
  assume "storage_ok st" "repo_find_one_by_field memory_repository st en fn v = None"
    "r \<in> set (repo_find_all memory_repository st en)" "map_of r fn = Some x"
  then show "dynamic_value_to_string x \<noteq> Some v"
    by (auto simp: memory_repository_def mem_find_one_by_field_def mem_find_all_def field_is_iff
        find_None_iff split: option.splits)
next
  fix st :: storage and en k b st' en' k'
  assume "storage_ok st" "repo_remove memory_repository st en k = (b, st')"
  then show "repo_find_by_id memory_repository st' en' k' =
      (if en' = en \<and> k' = k then None else repo_find_by_id memory_repository st en' k')"
    by (cases "map_of st en")
      (auto simp: memory_repository_def mem_remove_def find_by_id_entity_storage entity_storage_def)
next
  fix st :: storage and en k
  assume "storage_ok st"
  then show "fst (repo_remove memory_repository st en k) \<longleftrightarrow>
      repo_find_by_id memory_repository st en k \<noteq> None"
    by (auto simp: memory_repository_def mem_remove_def mem_find_by_id_def split: option.splits)
next
  fix st :: storage and en k rec resp st'
  assume "storage_ok st" "repo_update memory_repository st en k rec = (resp, st')" "upd_status resp"
  then obtain t old where t: "map_of st en = Some t" "map_of t k = Some old"
      "upd_record resp = merge_record old rec" "st' = tbl_put en (tbl_put k (merge_record old rec) t) st"
    by (auto simp: memory_repository_def mem_update_def Let_def split: option.splits)
  have es: "entity_storage st en = t" using t(1) by (simp add: entity_storage_def)
  show "\<exists>old. repo_find_by_id memory_repository st en k = Some old \<and>
      (\<forall>en' k'. repo_find_by_id memory_repository st' en' k' =
         (if en' = en \<and> k' = k then Some (upd_record resp) else repo_find_by_id memory_repository st en' k')) \<and>
      map_of (upd_record resp) ''id'' = map_of old ''id''"
    using t by (intro exI [of _ old]) (auto simp: memory_repository_def find_by_id_entity_storage es)
next
  fix st :: storage and en k rec resp st'
  assume "storage_ok st" "repo_update memory_repository st en k rec = (resp, st')" "\<not> upd_status resp"
  then show "repo_find_by_id memory_repository st en k = None \<and>
      repo_find_by_id memory_repository st' = repo_find_by_id memory_repository st"
    by (auto simp: memory_repository_def mem_update_def mem_find_by_id_def Let_def split: option.splits)
next
  fix st :: storage and en k rec resp st' old n v
  assume "storage_ok st" "repo_update memory_repository st en k rec = (resp, st')" "upd_status resp"
    "tbl_ok rec" "repo_find_by_id memory_repository st en k = Some old" "map_of (upd_record resp) n = Some v"
  then have "map_of (merge_record old rec) n = Some v" "tbl_ok rec"
    by (auto simp: memory_repository_def mem_update_def mem_find_by_id_def Let_def split: option.splits)
  then show "map_of old n = Some v \<or> map_of rec n = Some v"
    using merge_record_get [of rec n old]
    by (cases "n = ''id''"; cases "map_of rec n") (auto split: if_splits)
next
  fix rec :: dynamic_record and n v
  assume "tbl_ok rec" "map_of (filter_record rec) n = Some v"
  then show "map_of rec n = Some v"
    by (auto simp: filter_record_def tbl_get_filter split: option.splits if_splits)
next
  fix st :: storage and p vals b st' en k
  assume "storage_ok st" "repo_insert_pivot memory_repository st p vals = (b, st')" "en \<noteq> p"
  then show "repo_find_by_id memory_repository st' en k = repo_find_by_id memory_repository st en k"
    by (auto simp: memory_repository_def mem_insert_pivot_def find_by_id_entity_storage)
next
  fix st :: storage and p vals b st' en k
  assume "storage_ok st" "repo_insert_pivot memory_repository st p vals = (b, st')"
    "repo_find_by_id memory_repository st en k \<noteq> None"
  then show "repo_find_by_id memory_repository st' en k \<noteq> None"
    by (auto simp: memory_repository_def mem_insert_pivot_def find_by_id_entity_storage)
qed (simp_all add: memory_repository_def mem_create_ok mem_remove_ok mem_update_ok mem_insert_pivot_ok)

section \<open>Sorting\<close>

lemma mset_insort_by [simp]: "mset (insort_by lt x xs) = add_mset x (mset xs)"
  by (induction xs) auto

lemma mset_fold_insort: "mset (fold (insort_by lt) xs acc) = mset xs + mset acc"
  by (induction xs arbitrary: acc) auto

lemma mset_std_sort [simp]: "mset (std_sort lt xs) = mset xs"
  by (simp add: std_sort_def mset_fold_insort)

lemma set_std_sort [simp]: "set (std_sort lt xs) = set xs"
  by (rule mset_eq_setD) simp

lemma length_std_sort [simp]: "length (std_sort lt xs) = length xs"
  by (rule mset_eq_length) simp

text \<open>No later element is less than an earlier one, if \<open>lt\<close> is a strict weak order on the elements.\<close>

definition weak_order_on :: "'a set \<Rightarrow> ('a \<Rightarrow> 'a \<Rightarrow> bool) \<Rightarrow> bool" where
  "weak_order_on A lt \<longleftrightarrow>
     (\<forall>x \<in> A. \<forall>y \<in> A. lt x y \<longrightarrow> \<not> lt y x) \<and>
     (\<forall>x \<in> A. \<forall>y \<in> A. \<forall>z \<in> A. \<not> lt y x \<longrightarrow> \<not> lt z y \<longrightarrow> \<not> lt z x)"

abbreviation ordered_by :: "('a \<Rightarrow> 'a \<Rightarrow> bool) \<Rightarrow> 'a list \<Rightarrow> bool" where
  "ordered_by lt \<equiv> sorted_wrt (\<lambda>x y. \<not> lt y x)"

lemma set_insort_by [simp]: "set (insort_by lt x xs) = insert x (set xs)"
  by (induction xs) auto

lemma ordered_insort_by:
  "weak_order_on A lt \<Longrightarrow> insert x (set xs) \<subseteq> A \<Longrightarrow> ordered_by lt xs \<Longrightarrow> ordered_by lt (insort_by lt x xs)"
proof (induction xs)
  case (Cons y ys)
  have wo: "\<And>a b. a \<in> A \<Longrightarrow> b \<in> A \<Longrightarrow> lt a b \<Longrightarrow> \<not> lt b a"
    "\<And>a b c. a \<in> A \<Longrightarrow> b \<in> A \<Longrightarrow> c \<in> A \<Longrightarrow> \<not> lt b a \<Longrightarrow> \<not> lt c b \<Longrightarrow> \<not> lt c a"
    using Cons.prems(1) unfolding weak_order_on_def by blast+
  have A: "x \<in> A" "y \<in> A" "\<And>z. z \<in> set ys \<Longrightarrow> z \<in> A" using Cons.prems(2) by auto
  have ys: "\<And>z. z \<in> set ys \<Longrightarrow> \<not> lt z y" "ordered_by lt ys" using Cons.prems(3) by auto
  show ?case
  proof (cases "lt x y")
    case True
    have "\<not> lt z x" if "z \<in> set ys" for z
      using wo(2) [OF A(1) A(2) A(3) [OF that]] wo(1) [OF A(1) A(2) True] ys(1) [OF that] by blast
    with True wo(1) A ys show ?thesis by auto
  next
    case False
    have "ordered_by lt (insort_by lt x ys)"
      using Cons.IH Cons.prems(1) A ys(2) by auto
    with False ys(1) show ?thesis by auto
  qed
qed simp

lemma ordered_fold_insort:
  "weak_order_on A lt \<Longrightarrow> set xs \<union> set acc \<subseteq> A \<Longrightarrow> ordered_by lt acc \<Longrightarrow>
   ordered_by lt (fold (insort_by lt) xs acc)"
proof (induction xs arbitrary: acc)
  case (Cons x xs)
  have "ordered_by lt (insort_by lt x acc)"
    using Cons.prems by (intro ordered_insort_by [of A]) auto
  then have "ordered_by lt (fold (insort_by lt) xs (insort_by lt x acc))"
    using Cons.prems by (intro Cons.IH) auto
  then show ?case by simp
qed simp

lemma ordered_std_sort: "weak_order_on (set xs) lt \<Longrightarrow> ordered_by lt (std_sort lt xs)"
  by (simp add: std_sort_def ordered_fold_insort)

end
