(* ===== verification/Memory_Listing.thy ===== *)
theory Memory_Listing
  imports Memory_Laws
begin

text \<open>
  Listings of the memory repository: sorting by a homogeneous column, the pages of a listing and
  the traversal of an entity by cursors.
\<close>

section \<open>Sorting by a column\<close>

definition strings_column :: "string \<Rightarrow> dynamic_record list \<Rightarrow> bool" where
  "strings_column fn rows \<longleftrightarrow> (\<forall>r \<in> set rows. \<exists>s. map_of r fn = Some (VString s))"

definition ints_column :: "string \<Rightarrow> dynamic_record list \<Rightarrow> bool" where
  "ints_column fn rows \<longleftrightarrow> (\<forall>r \<in> set rows. \<exists>w. map_of r fn = Some (VInt64 w))"

definition int_of_row :: "string \<Rightarrow> dynamic_record \<Rightarrow> int" where
  "int_of_row fn r = (case map_of r fn of Some (VInt64 w) \<Rightarrow> sint w | _ \<Rightarrow> 0)"

definition string_of_row :: "string \<Rightarrow> dynamic_record \<Rightarrow> string" where
  "string_of_row fn r = (case map_of r fn of Some (VString s) \<Rightarrow> s | _ \<Rightarrow> [])"

text \<open>\<open>past desc a b\<close>: \<open>b\<close> comes after \<open>a\<close> in the order of the listing.\<close>

definition past :: "bool \<Rightarrow> string \<Rightarrow> string \<Rightarrow> bool" where
  "past desc a b = (if desc then str_less b a else str_less a b)"

lemma past_trans: "past desc a b \<Longrightarrow> past desc b c \<Longrightarrow> past desc a c"
  using str_less_trans by (auto simp: past_def split: if_splits)

lemma past_irrefl [simp]: "\<not> past desc a a"
  by (simp add: past_def)

lemma past_linear: "past desc a b \<or> a = b \<or> past desc b a"
  using str_less_linear by (auto simp: past_def)

lemma past_asym: "past desc a b \<Longrightarrow> \<not> past desc b a"
  using past_trans past_irrefl by blast

lemma str_less_asym: "str_less a b \<Longrightarrow> \<not> str_less b a"
  using str_less_trans str_less_irrefl by blast

lemma row_less_strings:
  assumes "map_of a fn = Some (VString s)" "map_of b fn = Some (VString t)"
  shows "row_less fn desc a b \<longleftrightarrow> past desc s t"
  using assms str_less_asym [of s t] str_less_asym [of t s]
  by (auto simp: row_less_def compare_dynamic_values_def dynamic_value_to_string_def past_def Let_def)

lemma row_less_ints:
  assumes "map_of a fn = Some (VInt64 v)" "map_of b fn = Some (VInt64 w)"
  shows "row_less fn desc a b \<longleftrightarrow> (if desc then sint w < sint v else sint v < sint w)"
  using assms by (auto simp: row_less_def compare_dynamic_values_def Let_def)

lemma weak_order_strings: "strings_column fn rows \<Longrightarrow> weak_order_on (set rows) (row_less fn desc)"
proof -
  assume col: "strings_column fn rows"
  have less: "row_less fn desc a b \<longleftrightarrow> past desc (string_of_row fn a) (string_of_row fn b)"
    if "a \<in> set rows" "b \<in> set rows" for a b
  proof -
    from col that obtain s t where "map_of a fn = Some (VString s)" "map_of b fn = Some (VString t)"
      unfolding strings_column_def by blast
    then show ?thesis by (simp add: row_less_strings string_of_row_def)
  qed
  show ?thesis
    unfolding weak_order_on_def
  proof (intro conjI ballI impI)
    fix x y
    assume "x \<in> set rows" "y \<in> set rows" "row_less fn desc x y"
    then show "\<not> row_less fn desc y x" by (simp add: less past_asym)
  next
    fix x y z
    assume "x \<in> set rows" "y \<in> set rows" "z \<in> set rows" "\<not> row_less fn desc y x" "\<not> row_less fn desc z y"
    then show "\<not> row_less fn desc z x"
      using past_trans past_linear by (simp add: less) metis
  qed
qed

lemma weak_order_ints: "ints_column fn rows \<Longrightarrow> weak_order_on (set rows) (row_less fn desc)"
proof -
  assume col: "ints_column fn rows"
  have less: "row_less fn desc a b \<longleftrightarrow>
      (if desc then int_of_row fn b < int_of_row fn a else int_of_row fn a < int_of_row fn b)"
    if "a \<in> set rows" "b \<in> set rows" for a b
  proof -
    from col that obtain v w where "map_of a fn = Some (VInt64 v)" "map_of b fn = Some (VInt64 w)"
      unfolding ints_column_def by blast
    then show ?thesis by (simp add: row_less_ints int_of_row_def)
  qed
  show ?thesis
    unfolding weak_order_on_def
  proof (intro conjI ballI impI)
    fix x y
    assume "x \<in> set rows" "y \<in> set rows" "row_less fn desc x y"
    then show "\<not> row_less fn desc y x" by (simp add: less split: if_splits)
  next
    fix x y z
    assume "x \<in> set rows" "y \<in> set rows" "z \<in> set rows" "\<not> row_less fn desc y x" "\<not> row_less fn desc z y"
    then show "\<not> row_less fn desc z x" by (simp add: less split: if_splits)
  qed
qed

lemma collect_all_sorted_mset: "mset (collect_all_sorted st en srt desc) = mset (mem_find_all st en)"
  by (simp add: collect_all_sorted_def mem_find_all_def split: option.splits)

lemma collect_all_sorted_set: "set (collect_all_sorted st en srt desc) = set (mem_find_all st en)"
  using collect_all_sorted_mset by (rule mset_eq_setD)

lemma collect_all_sorted_length: "length (collect_all_sorted st en srt desc) = length (mem_find_all st en)"
  using collect_all_sorted_mset by (rule mset_eq_length)

lemma collect_all_sorted_std:
  "collect_all_sorted st en (Some fn) desc = std_sort (row_less fn desc) (mem_find_all st en)"
  by (simp add: collect_all_sorted_def mem_find_all_def std_sort_def split: option.splits)

section \<open>Pages\<close>

lemma concat_pages: "concat (map (\<lambda>i. take n (drop ((i - 1) * n) xs)) [1..<Suc k]) = take (k * n) xs"
proof (induction k)
  case (Suc k)
  have "concat (map (\<lambda>i. take n (drop ((i - 1) * n) xs)) [1..<Suc (Suc k)]) =
      concat (map (\<lambda>i. take n (drop ((i - 1) * n) xs)) [1..<Suc k]) @ take n (drop (k * n) xs)"
    by simp
  also have "\<dots> = take (k * n) xs @ take n (drop (k * n) xs)"
    by (simp only: Suc.IH)
  also have "\<dots> = take (Suc k * n) xs"
    by (metis add.commute mult_Suc take_add)
  finally show ?case .
qed simp

lemma unat_mult_small: "unat a * unat b < 2 ^ 64 \<Longrightarrow> unat (a * b) = unat a * unat (b :: size)"
  using unat_mult_lem [of a b] by simp

lemma unat_add_small: "unat a + unat b < 2 ^ 64 \<Longrightarrow> unat (a + b) = unat a + unat (b :: size)"
  using unat_add_lem [of a b] by simp

lemma take_rows_window:
  assumes len: "length rows < 2 ^ 64" and sum: "unat off + unat n < 2 ^ 64"
    and lt: "unat off < length rows"
  shows "take_rows off (min (off + n) (of_nat (length rows))) rows =
     Inr (take (unat n) (drop (unat off) rows))"
proof -
  have tot: "unat (of_nat (length rows) :: size) = length rows"
    using len by (simp add: unat_of_nat take_bit_nat_def)
  have add: "unat (off + n) = unat off + unat n" using sum by (rule unat_add_small)
  have m: "unat (min (off + n) (of_nat (length rows))) = min (unat off + unat n) (length rows)"
    using add tot by (simp add: min_def word_le_nat_alt)
  have "\<not> min (off + n) (of_nat (length rows)) < off"
    using m lt by (simp add: word_less_nat_alt)
  moreover have "take (min (unat off + unat n) (length rows) - unat off) (drop (unat off) rows) =
      take (unat n) (drop (unat off) rows)"
    by (cases "unat off + unat n \<le> length rows") (simp_all add: min_def)
  ultimately show ?thesis by (simp add: take_rows_def m)
qed

lemma mem_list_page_window:
  fixes st :: storage and en :: string and rq :: page_request
  defines "rows \<equiv> collect_all_sorted st en (pr_sort_field rq) (pr_sort_desc rq)"
  assumes len: "length rows < 2 ^ 64" and p: "0 < unat (pr_page rq)"
    and nowrap: "unat (pr_page rq) * unat (pr_page_size rq) < 2 ^ 64"
  shows "mem_list_page st en rq =
    Inr \<lparr>pres_items = take (unat (pr_page_size rq))
           (drop ((unat (pr_page rq) - 1) * unat (pr_page_size rq)) rows),
         pres_total = of_nat (length rows)\<rparr>"
proof (cases "pr_page_size rq = 0")
  case True
  then show ?thesis by (simp add: mem_list_page_def Let_def flip: rows_def)
next
  case False
  let ?p = "pr_page rq" and ?n = "pr_page_size rq"
  have p0: "0 < ?p" using p by (simp add: word_less_nat_alt)
  have p1: "unat (?p - 1) = unat ?p - 1" using p by (intro unat_minus_one) auto
  have prod: "(unat ?p - 1) * unat ?n + unat ?n = unat ?p * unat ?n"
    using p by (metis Suc_diff_1 add.commute mult_Suc)
  have off: "unat ((?p - 1) * ?n) = (unat ?p - 1) * unat ?n"
    using p1 prod nowrap by (subst unat_mult_small) auto
  have tot: "unat (of_nat (length rows) :: size) = length rows"
    using len by (simp add: unat_of_nat take_bit_nat_def)
  show ?thesis
  proof (cases "length rows \<le> (unat ?p - 1) * unat ?n")
    case True
    then have "of_nat (length rows) \<le> (?p - 1) * ?n"
      by (simp add: word_le_nat_alt off tot)
    with True p0 show ?thesis by (simp add: mem_list_page_def Let_def flip: rows_def)
  next
    case inside: False
    then have "\<not> of_nat (length rows) \<le> (?p - 1) * ?n"
      by (simp add: word_le_nat_alt off tot)
    moreover have "take_rows ((?p - 1) * ?n) (min ((?p - 1) * ?n + ?n) (of_nat (length rows))) rows =
        Inr (take (unat ?n) (drop ((unat ?p - 1) * unat ?n) rows))"
      using take_rows_window [OF len, of "(?p - 1) * ?n" ?n] off prod nowrap inside by simp
    ultimately show ?thesis
      using p0 False by (simp add: mem_list_page_def Let_def flip: rows_def)
  qed
qed

text \<open>The rows of a page, none for an exception.\<close>

definition page_items :: "string + page_result \<Rightarrow> dynamic_record list" where
  "page_items r = (case r of Inl _ \<Rightarrow> [] | Inr p \<Rightarrow> pres_items p)"

text \<open>The pages one to \<open>k\<close> of a listing, one after the other.\<close>

lemma concat_listing_pages:
  assumes "0 < unat (pr_page_size rq)" and "k * unat (pr_page_size rq) < 2 ^ 64"
    and "length (mem_find_all st en) \<le> k * unat (pr_page_size rq)"
  shows "concat (map (\<lambda>p. page_items (mem_list_page st en (rq\<lparr>pr_page := of_nat p\<rparr>))) [1..<Suc k])
    = collect_all_sorted st en (pr_sort_field rq) (pr_sort_desc rq)"
proof -
  let ?n = "unat (pr_page_size rq)"
  let ?rows = "collect_all_sorted st en (pr_sort_field rq) (pr_sort_desc rq)"
  have len: "length ?rows \<le> k * ?n" using assms(3) by (simp add: collect_all_sorted_length)
  have "page_items (mem_list_page st en (rq\<lparr>pr_page := of_nat p\<rparr>)) = take ?n (drop ((p - 1) * ?n) ?rows)"
    if p: "p \<in> set [1..<Suc k]" for p
  proof -
    have "p * ?n \<le> k * ?n" using p by (intro mult_le_mono1) auto
    with assms(2) have small: "p * ?n < 2 ^ 64" by (rule le_less_trans [rotated])
    have "p \<le> p * ?n" using assms(1) by simp
    with small have "p < 2 ^ 64" by linarith
    then have up: "unat (of_nat p :: size) = p" by (simp add: unat_of_nat take_bit_nat_def)
    have "0 < p" "length ?rows < 2 ^ 64" using p len assms(2) by auto
    then show ?thesis
      using mem_list_page_window [of st en "rq\<lparr>pr_page := of_nat p\<rparr>"] small
      by (simp add: up page_items_def)
  qed
  then have "concat (map (\<lambda>p. page_items (mem_list_page st en (rq\<lparr>pr_page := of_nat p\<rparr>))) [1..<Suc k])
      = concat (map (\<lambda>p. take ?n (drop ((p - 1) * ?n) ?rows)) [1..<Suc k])"
    by (intro arg_cong [where f = concat] map_cong) auto
  also have "\<dots> = ?rows" using concat_pages [of ?n ?rows k] len by simp
  finally show ?thesis .
qed

section \<open>Cursors\<close>

text \<open>A client that follows the cursors from the first page on, with fuel for the number of requests.\<close>

fun cursor_walk :: "storage \<Rightarrow> string \<Rightarrow> cursor_request \<Rightarrow> nat \<Rightarrow> dynamic_record list option" where
  "cursor_walk st en rq 0 = None"
| "cursor_walk st en rq (Suc fuel) =
     (case mem_list_cursor st en rq of
        Inl _ \<Rightarrow> None
      | Inr page \<Rightarrow>
          (case cres_next_cursor page of
             None \<Rightarrow> Some (cres_items page)
           | Some c \<Rightarrow> map_option (\<lambda>rest. cres_items page @ rest)
                        (cursor_walk st en (rq\<lparr>cr_after := Some c\<rparr>) fuel)))"

lemma strings_column_row:
  "strings_column fn rows \<Longrightarrow> r \<in> set rows \<Longrightarrow> map_of r fn = Some (VString (string_of_row fn r))"
  by (auto simp: strings_column_def string_of_row_def)

lemma row_string_column:
  "strings_column fn rows \<Longrightarrow> r \<in> set rows \<Longrightarrow> row_string fn r = Some (string_of_row fn r)"
  by (simp add: row_string_def strings_column_row dynamic_value_to_string_def)

lemma cursor_start_skips:
  "pre \<noteq> [] \<Longrightarrow> (\<And>r. r \<in> set pre \<Longrightarrow> row_string fn r = Some (string_of_row fn r)
      \<and> \<not> past desc after (string_of_row fn r)) \<Longrightarrow>
   (post \<noteq> [] \<Longrightarrow> row_string fn (hd post) = Some (string_of_row fn (hd post))
      \<and> past desc after (string_of_row fn (hd post))) \<Longrightarrow>
   cursor_start fn desc after (pre @ post) i = i + length pre"
proof (induction pre arbitrary: i)
  case (Cons r pre)
  have r: "row_string fn r = Some (string_of_row fn r)" "\<not> past desc after (string_of_row fn r)"
    using Cons.prems(2) by auto
  have step: "cursor_start fn desc after ((r # pre) @ post) i =
      (if pre @ post = [] then Suc i else cursor_start fn desc after (pre @ post) (Suc i))"
    using r by (simp add: past_def)
  show ?case
  proof (cases "pre = []")
    case False
    then have "cursor_start fn desc after (pre @ post) (Suc i) = Suc i + length pre"
      using Cons.prems by (intro Cons.IH) auto
    with step False show ?thesis by simp
  next
    case True
    show ?thesis
    proof (cases post)
      case Nil
      with step True show ?thesis by simp
    next
      case (Cons q qs)
      with Cons.prems(3) have "cursor_start fn desc after post (Suc i) = Suc i"
        by (simp add: past_def)
      with step True Cons show ?thesis by simp
    qed
  qed
qed simp

lemma distinct_ordered_past:
  assumes "\<And>x y. x \<in> set xs \<Longrightarrow> y \<in> set xs \<Longrightarrow> lt x y \<longleftrightarrow> past desc (f x) (f y)"
    and "distinct (map f xs)" and "ordered_by lt xs"
  shows "sorted_wrt (\<lambda>x y. past desc (f x) (f y)) xs"
  using assms
proof (induction xs)
  case (Cons x xs)
  have "past desc (f x) (f y)" if "y \<in> set xs" for y
  proof -
    have "\<not> past desc (f y) (f x)" using Cons.prems(1) [of y x] Cons.prems(3) that by auto
    moreover have "f x \<noteq> f y" using Cons.prems(2) that by auto
    ultimately show ?thesis using past_linear by blast
  qed
  moreover have "sorted_wrt (\<lambda>x y. past desc (f x) (f y)) xs"
    using Cons.prems by (intro Cons.IH) auto
  ultimately show ?case by simp
qed simp

lemma sorted_rows_past:
  assumes col: "strings_column fn (mem_find_all st en)"
    and dist: "distinct (map (string_of_row fn) (mem_find_all st en))"
  shows "sorted_wrt (\<lambda>a b. past desc (string_of_row fn a) (string_of_row fn b))
    (collect_all_sorted st en (Some fn) desc)"
proof (rule distinct_ordered_past [where lt = "row_less fn desc"])
  let ?rows = "collect_all_sorted st en (Some fn) desc"
  have col': "strings_column fn ?rows"
    using col by (simp add: strings_column_def collect_all_sorted_set)
  show "row_less fn desc x y \<longleftrightarrow> past desc (string_of_row fn x) (string_of_row fn y)"
    if "x \<in> set ?rows" "y \<in> set ?rows" for x y
    using that by (intro row_less_strings strings_column_row [OF col'])
  have "mset (map (string_of_row fn) ?rows) = mset (map (string_of_row fn) (mem_find_all st en))"
    by (simp add: collect_all_sorted_mset)
  with dist show "distinct (map (string_of_row fn) ?rows)"
    using mset_eq_imp_distinct_iff by blast
  show "ordered_by (row_less fn desc) ?rows"
    unfolding collect_all_sorted_std by (rule ordered_std_sort [OF weak_order_strings [OF col]])
qed

text \<open>What the cursor stands for when \<open>j\<close> rows have been delivered.\<close>

definition cursor_at :: "string \<Rightarrow> dynamic_record list \<Rightarrow> nat \<Rightarrow> string option" where
  "cursor_at fn rows j = (if j = 0 then None else Some (string_of_row fn (rows ! (j - 1))))"

lemma cursor_start_at:
  assumes col: "strings_column fn rows"
    and srt: "sorted_wrt (\<lambda>a b. past desc (string_of_row fn a) (string_of_row fn b)) rows"
    and j: "0 < j" "j < length rows"
  shows "cursor_start fn desc (string_of_row fn (rows ! (j - 1))) rows 0 = j"
proof -
  let ?key = "\<lambda>i. string_of_row fn (rows ! i)"
  have nth: "past desc (?key a) (?key b)" if "a < b" "b < length rows" for a b
    using sorted_wrt_nth_less [OF srt that] .
  have "cursor_start fn desc (?key (j - 1)) (take j rows @ drop j rows) 0 = 0 + length (take j rows)"
  proof (rule cursor_start_skips)
    show "take j rows \<noteq> []" using j by auto
    show "row_string fn r = Some (string_of_row fn r) \<and> \<not> past desc (?key (j - 1)) (string_of_row fn r)"
      if "r \<in> set (take j rows)" for r
    proof -
      obtain i where i: "i < j" "r = rows ! i" using \<open>r \<in> set (take j rows)\<close> j by (auto simp: in_set_conv_nth)
      have "\<not> past desc (?key (j - 1)) (?key i)"
      proof (cases "i = j - 1")
        case False
        with i j have "past desc (?key i) (?key (j - 1))" by (intro nth) auto
        then show ?thesis by (rule past_asym)
      qed simp
      with i j row_string_column [OF col, of r] show ?thesis by simp
    qed
    show "row_string fn (hd (drop j rows)) = Some (string_of_row fn (hd (drop j rows))) \<and>
        past desc (?key (j - 1)) (string_of_row fn (hd (drop j rows)))"
      using j nth [of "j - 1" j] row_string_column [OF col, of "rows ! j"] by (simp add: hd_drop_conv_nth)
  qed
  with j show ?thesis by simp
qed

lemma cursor_page:
  fixes st :: storage and en :: string and rq :: cursor_request
  defines "fn \<equiv> cr_cursor_field rq" and "n \<equiv> unat (cr_limit rq)"
  defines "rows \<equiv> collect_all_sorted st en (Some (cr_cursor_field rq)) (cr_sort_desc rq)"
  assumes col: "strings_column fn rows"
    and srt: "sorted_wrt (\<lambda>a b. past (cr_sort_desc rq) (string_of_row fn a) (string_of_row fn b)) rows"
    and n: "0 < n" "length rows + n < 2 ^ 64"
    and j: "j < length rows" "cr_after rq = cursor_at fn rows j"
  shows "mem_list_cursor st en rq = Inr
    \<lparr>cres_items = take n (drop j rows),
     cres_next_cursor = (if j + n < length rows then cursor_at fn rows (j + n) else None)\<rparr>"
proof -
  let ?lim = "cr_limit rq" and ?start = "of_nat j :: size" and ?tot = "of_nat (length rows) :: size"
  have lens: "length rows < 2 ^ 64" using n by simp
  have tot: "unat ?tot = length rows" using lens by (simp add: unat_of_nat take_bit_nat_def)
  have ust: "unat ?start = j" using lens j(1) by (simp add: unat_of_nat take_bit_nat_def)
  have start: "(case cr_after rq of None \<Rightarrow> 0
      | Some after \<Rightarrow> of_nat (cursor_start (cr_cursor_field rq) (cr_sort_desc rq) after rows 0)) = ?start"
    using cursor_start_at [OF col srt, of j] j by (cases j) (simp_all add: cursor_at_def fn_def)
  have rows0: "rows \<noteq> []" "?lim \<noteq> 0" using j n by (auto simp: n_def)
  have inside: "\<not> ?tot \<le> ?start" using j(1) by (simp add: word_le_nat_alt tot ust)
  have sum: "unat ?start + unat ?lim < 2 ^ 64" using j(1) n by (simp add: ust n_def)
  have window: "take_rows ?start (min (?start + ?lim) ?tot) rows = Inr (take n (drop j rows))"
    using take_rows_window [OF lens sum] j(1) by (simp add: ust n_def)
  have more: "min (?start + ?lim) ?tot < ?tot \<longleftrightarrow> j + n < length rows"
    using unat_add_small [OF sum] by (simp add: min_def word_le_nat_alt word_less_nat_alt tot ust n_def)
  have last: "row_string fn (last (take n (drop j rows))) = cursor_at fn rows (j + n)"
    if "j + n < length rows"
  proof -
    have "last (take n (drop j rows)) = rows ! (j + n - 1)"
      using that n(1) by (subst last_conv_nth) (auto simp: min_def)
    with that n(1) row_string_column [OF col, of "rows ! (j + n - 1)"] show ?thesis
      by (simp add: cursor_at_def)
  qed
  have "mem_list_cursor st en rq = Inr \<lparr>cres_items = take n (drop j rows),
      cres_next_cursor = (if min (?start + ?lim) ?tot < ?tot
        then row_string fn (last (take n (drop j rows))) else None)\<rparr>"
    using rows0 inside window unfolding mem_list_cursor_def rows_def [symmetric] Let_def start
    by (simp add: fn_def)
  with more last show ?thesis by simp
qed

lemma cursor_walk_from:
  fixes st :: storage and en :: string and rq :: cursor_request
  defines "fn \<equiv> cr_cursor_field rq" and "n \<equiv> unat (cr_limit rq)"
  defines "rows \<equiv> collect_all_sorted st en (Some (cr_cursor_field rq)) (cr_sort_desc rq)"
  assumes col: "strings_column fn rows"
    and srt: "sorted_wrt (\<lambda>a b. past (cr_sort_desc rq) (string_of_row fn a) (string_of_row fn b)) rows"
    and n: "0 < n" "length rows + n < 2 ^ 64"
  shows "j < length rows \<Longrightarrow> length rows - j \<le> fuel \<Longrightarrow>
    cursor_walk st en (rq\<lparr>cr_after := cursor_at fn rows j\<rparr>) fuel = Some (drop j rows)"
proof (induction fuel arbitrary: j)
  case (Suc fuel)
  let ?rq = "rq\<lparr>cr_after := cursor_at fn rows j\<rparr>"
  have page: "mem_list_cursor st en ?rq = Inr \<lparr>cres_items = take n (drop j rows),
      cres_next_cursor = (if j + n < length rows then cursor_at fn rows (j + n) else None)\<rparr>"
    using cursor_page [of ?rq st en j] col srt n Suc.prems(1) by (simp add: fn_def n_def rows_def)
  show ?case
  proof (cases "j + n < length rows")
    case True
    then have c: "cursor_at fn rows (j + n) = Some (string_of_row fn (rows ! (j + n - 1)))"
      using n(1) by (simp add: cursor_at_def)
    have "cursor_walk st en (rq\<lparr>cr_after := cursor_at fn rows (j + n)\<rparr>) fuel = Some (drop (j + n) rows)"
      using True n(1) Suc.prems by (intro Suc.IH) auto
    moreover have "take n (drop j rows) @ drop (j + n) rows = drop j rows"
      by (metis add.commute append_take_drop_id drop_drop)
    ultimately show ?thesis using page True c by simp
  next
    case False
    then have "take n (drop j rows) = drop j rows" by simp
    with page False show ?thesis by simp
  qed
qed simp

end
