(* ===== verification/Crud_Engine.thy ===== *)
theory Crud_Engine
  imports Repository_Interface
begin

text \<open>
  \<open>GenericCrudEngine\<close> (\<open>libs/infrastructure/runtime/generic_crud_engine.cpp\<close>) over any repository:
  the operations take the virtual operations \<open>repo\<close>, the registry and the state of the backend, and
  return their result with the new state. The futures of the C++ code resolve before the next step,
  so the errors its lambdas push are collected in program order.
\<close>

record operation_result =
  op_success :: bool
  op_record :: "dynamic_record option"
  op_errors :: "string list"
  op_restrict_violation :: bool

definition empty_operation :: operation_result where
  "empty_operation = \<lparr>op_success = False, op_record = None, op_errors = [], op_restrict_violation = False\<rparr>"

definition failed :: "string list \<Rightarrow> operation_result" where
  "failed errs = empty_operation\<lparr>op_errors := errs\<rparr>"

section \<open>Create\<close>

text \<open>The first unique field whose incoming value some existing record holds.\<close>

fun duplicate_field ::
  "(json \<Rightarrow> json \<Rightarrow> bool) \<Rightarrow> field list \<Rightarrow> dynamic_record \<Rightarrow> dynamic_record list \<Rightarrow> string option" where
  "duplicate_field json_eq [] rec existing = None"
| "duplicate_field json_eq (f # fs) rec existing =
     (if \<not> f_unique f then duplicate_field json_eq fs rec existing
      else case tbl_get rec (f_name f) of
        None \<Rightarrow> duplicate_field json_eq fs rec existing
      | Some incoming \<Rightarrow>
          if list_ex (\<lambda>r. case tbl_get r (f_name f) of None \<Rightarrow> False
               | Some v \<Rightarrow> value_eq json_eq v incoming) existing
          then Some (f_name f)
          else duplicate_field json_eq fs rec existing)"

definition target_errors :: "'r repository \<Rightarrow> 'r \<Rightarrow> relation \<Rightarrow> dynamic_value \<Rightarrow> string list" where
  "target_errors repo st r v =
     (case dynamic_value_to_id_string v of
        None \<Rightarrow> [''Invalid FK: '' @ r_fk_column r]
      | Some k \<Rightarrow>
          (case repo_find_by_id repo st (r_target r) k of
             None \<Rightarrow> [''Target entity not found: '' @ r_target r @ '' with id='' @ k]
           | Some _ \<Rightarrow> []))"

definition create_fk_errors :: "'r repository \<Rightarrow> 'r \<Rightarrow> dynamic_record \<Rightarrow> relation \<Rightarrow> string list" where
  "create_fk_errors repo st rec r =
     (if r_kind r \<noteq> BelongsTo then []
      else case tbl_get rec (r_fk_column r) of
        None \<Rightarrow> if r_on_delete r = Restrict then [''Missing FK field: '' @ r_fk_column r] else []
      | Some v \<Rightarrow> target_errors repo st r v)"

definition extract_many_to_many_ids :: "dynamic_value \<Rightarrow> string list option" where
  "extract_many_to_many_ids v = (case v of VStrings ids \<Rightarrow> Some ids | _ \<Rightarrow> None)"

text \<open>The links of one relation: the errors so far and the state are threaded through the targets.\<close>

fun link_targets ::
  "'r repository \<Rightarrow> relation \<Rightarrow> string \<Rightarrow> string list \<Rightarrow> string list \<Rightarrow> 'r \<Rightarrow> string list \<times> 'r" where
  "link_targets repo r source_id [] errs st = (errs, st)"
| "link_targets repo r source_id (target_id # ids) errs st =
     (case repo_find_by_id repo st (r_target r) target_id of
        None \<Rightarrow> link_targets repo r source_id ids
                  (errs @ [''Target entity not found: '' @ r_target r @ '' with id='' @ target_id]) st
      | Some _ \<Rightarrow>
          (case repo_insert_pivot repo st (r_pivot_table r)
                  (tbl_put (r_target_fk r) (VString target_id) (tbl_put (r_source_fk r) (VString source_id) [])) of
             (done, st') \<Rightarrow>
               link_targets repo r source_id ids
                 (if done then errs
                  else errs @ [''Unable to create many-to-many link '' @ quoted (r_name r) @ '' avec id='' @ target_id])
                 st'))"

fun link_relations ::
  "'r repository \<Rightarrow> dynamic_record \<Rightarrow> string \<Rightarrow> relation list \<Rightarrow> string list \<Rightarrow> 'r \<Rightarrow> string list \<times> 'r" where
  "link_relations repo rec source_id [] errs st = (errs, st)"
| "link_relations repo rec source_id (r # rs) errs st =
     (if r_kind r \<noteq> ManyToMany then link_relations repo rec source_id rs errs st
      else case tbl_get rec (r_name r) of
        None \<Rightarrow> link_relations repo rec source_id rs errs st
      | Some v \<Rightarrow>
          (case extract_many_to_many_ids v of
             None \<Rightarrow> link_relations repo rec source_id rs
                 (errs @ [''The many-to-many relation '' @ quoted (r_name r) @ '' must be a list of strings'']) st
           | Some ids \<Rightarrow>
               (case link_targets repo r source_id ids errs st of
                  (errs', st') \<Rightarrow> link_relations repo rec source_id rs errs' st')))"

definition create_many_to_many_links ::
  "'r repository \<Rightarrow> entity \<Rightarrow> dynamic_record \<Rightarrow> dynamic_record \<Rightarrow> 'r \<Rightarrow> string list \<times> 'r" where
  "create_many_to_many_links repo e input created st =
     (case tbl_get created ''id'' of
        None \<Rightarrow> ([''Missing ID on created entity''], st)
      | Some v \<Rightarrow>
          (case dynamic_value_to_id_string v of
             None \<Rightarrow> ([''Invalid ID type on created entity''], st)
           | Some source_id \<Rightarrow> link_relations repo input source_id (e_relations e) [] st))"

definition crud_create ::
  "(json \<Rightarrow> json \<Rightarrow> bool) \<Rightarrow> 'r repository \<Rightarrow> entity_registry \<Rightarrow> 'r \<Rightarrow> string \<Rightarrow> dynamic_record
   \<Rightarrow> operation_result \<times> 'r" where
  "crud_create json_eq repo reg st en rec =
     (case registry_find_entity reg en of
        None \<Rightarrow> (failed [''Unknown entity: '' @ en], st)
      | Some e \<Rightarrow>
          let errs = validate e rec in
          if errs \<noteq> [] then (failed errs, st)
          else case duplicate_field json_eq (e_fields e) rec (repo_find_all repo st en) of
            Some n \<Rightarrow> (failed [''Duplicate value for unique field: '' @ n], st)
          | None \<Rightarrow>
              let fk_errs = concat (map (create_fk_errors repo st rec) (e_relations e)) in
              if fk_errs \<noteq> [] then (failed fk_errs, st)
              else case repo_create repo st en rec of
                (None, st') \<Rightarrow> (failed [''Failed to create entity''], st')
              | (Some created, st') \<Rightarrow>
                  (case create_many_to_many_links repo e rec created st' of
                     (m2m_errs, st'') \<Rightarrow>
                       ((failed m2m_errs)\<lparr>op_record := Some created, op_success := (m2m_errs = [])\<rparr>, st'')))"

section \<open>Read\<close>

definition crud_list :: "'r repository \<Rightarrow> entity_registry \<Rightarrow> 'r \<Rightarrow> string \<Rightarrow> dynamic_record list" where
  "crud_list repo reg st en = (if registry_has_entity reg en then repo_find_all repo st en else [])"

definition crud_get_by_id ::
  "'r repository \<Rightarrow> entity_registry \<Rightarrow> 'r \<Rightarrow> string \<Rightarrow> string \<Rightarrow> dynamic_record option" where
  "crud_get_by_id repo reg st en k =
     (if registry_has_entity reg en then repo_find_by_id repo st en k else None)"

definition crud_find_one_by_field ::
  "'r repository \<Rightarrow> entity_registry \<Rightarrow> 'r \<Rightarrow> string \<Rightarrow> string \<Rightarrow> string \<Rightarrow> dynamic_record option" where
  "crud_find_one_by_field repo reg st en fn v =
     (if registry_has_entity reg en then repo_find_one_by_field repo st en fn v else None)"

section \<open>Update\<close>

definition update_fk_errors :: "'r repository \<Rightarrow> 'r \<Rightarrow> dynamic_record \<Rightarrow> relation \<Rightarrow> string list" where
  "update_fk_errors repo st rec r =
     (if r_kind r \<noteq> BelongsTo then []
      else case tbl_get rec (r_fk_column r) of
        None \<Rightarrow> []
      | Some v \<Rightarrow> target_errors repo st r v)"

definition crud_update ::
  "'r repository \<Rightarrow> entity_registry \<Rightarrow> 'r \<Rightarrow> string \<Rightarrow> string \<Rightarrow> dynamic_record
   \<Rightarrow> operation_result \<times> 'r" where
  "crud_update repo reg st en k rec0 =
     (case registry_find_entity reg en of
        None \<Rightarrow> (failed [''Unknown entity: '' @ en], st)
      | Some e \<Rightarrow>
          let rec = tbl_put ''id'' (VString k) rec0; errs = validate_partial e rec in
          if errs \<noteq> [] then (failed errs, st)
          else let fk_errs = concat (map (update_fk_errors repo st rec) (e_relations e)) in
            if fk_errs \<noteq> [] then (failed fk_errs, st)
            else case repo_update repo st en k rec of
              (resp, st') \<Rightarrow>
                ((failed (if upd_status resp then [] else [''Unable to update record.'']))
                   \<lparr>op_success := upd_status resp, op_record := Some (upd_record resp)\<rparr>, st'))"

section \<open>Remove\<close>

definition incoming_checks :: "entity_registry \<Rightarrow> string \<Rightarrow> (string \<times> string) list" where
  "incoming_checks reg en =
     concat (map (\<lambda>(name, e).
         map (\<lambda>r. (name, r_fk_column r))
           (filter (\<lambda>r. r_kind r = BelongsTo \<and> r_target r = en \<and> r_on_delete r = Restrict) (e_relations e)))
       reg)"

definition reference_errors :: "'r repository \<Rightarrow> 'r \<Rightarrow> string \<Rightarrow> string \<times> string \<Rightarrow> string list" where
  "reference_errors repo st k check =
     (case repo_find_one_by_field repo st (fst check) (snd check) k of
        None \<Rightarrow> []
      | Some _ \<Rightarrow> [''Cannot delete: referenced by '' @ fst check @ '' via '' @ snd check @ '' (on_delete=restrict)''])"

definition crud_remove ::
  "'r repository \<Rightarrow> entity_registry \<Rightarrow> 'r \<Rightarrow> string \<Rightarrow> string \<Rightarrow> operation_result \<times> 'r" where
  "crud_remove repo reg st en k =
     (if \<not> registry_has_entity reg en then (failed [''Unknown entity: '' @ en], st)
      else let errs = concat (map (reference_errors repo st k) (incoming_checks reg en)) in
        if errs \<noteq> [] then ((failed errs)\<lparr>op_restrict_violation := True\<rparr>, st)
        else case repo_remove repo st en k of
          (deleted, st') \<Rightarrow>
            ((failed (if deleted then [] else [''Record not found.'']))\<lparr>op_success := deleted\<rparr>, st'))"

section \<open>Lemmas\<close>

lemmas result_defs = failed_def empty_operation_def

lemma target_errors_Nil:
  "target_errors repo st r v = [] \<longleftrightarrow>
     (\<exists>k. dynamic_value_to_id_string v = Some k \<and> repo_find_by_id repo st (r_target r) k \<noteq> None)"
  by (auto simp: target_errors_def split: option.splits)

lemma duplicate_field_None:
  "duplicate_field json_eq fs rec existing = None \<longleftrightarrow>
     (\<forall>f \<in> set fs. f_unique f \<longrightarrow> (\<forall>v. map_of rec (f_name f) = Some v \<longrightarrow>
        (\<forall>r \<in> set existing. \<forall>w. map_of r (f_name f) = Some w \<longrightarrow> \<not> value_eq json_eq w v)))"
  by (induction fs) (auto simp: list_ex_iff split: option.splits)

lemma id_string_is_string:
  "dynamic_value_to_id_string v = Some k \<Longrightarrow> dynamic_value_to_string v = Some k"
  by (cases v) (auto simp: dynamic_value_to_id_string_def dynamic_value_to_string_def)

lemma incoming_checks_iff:
  "(name, col) \<in> set (incoming_checks reg en) \<longleftrightarrow>
     (\<exists>e. (name, e) \<in> set reg \<and> (\<exists>r \<in> set (e_relations e).
        r_kind r = BelongsTo \<and> r_target r = en \<and> r_on_delete r = Restrict \<and> r_fk_column r = col))"
  by (fastforce simp: incoming_checks_def)

end
