(* ===== verification/Crud_Laws.thy ===== *)
theory Crud_Laws
  imports Crud_Engine Memory_Laws
begin

text \<open>
  The CRUD engine against the contract \<open>generic_repository\<close>: what its operations establish whatever
  the backend, the referential integrity of restricted relations they keep, and the states they
  reach on the memory backend.
\<close>

section \<open>The operations over the contract\<close>

text \<open>The tables that linking may write to.\<close>

abbreviation pivots :: "relation list \<Rightarrow> string set" where
  "pivots rs \<equiv> r_pivot_table ` {r \<in> set rs. r_kind r = ManyToMany}"

context generic_repository
begin

text \<open>Linking never touches a table other than the pivot tables of the relations, and removes nothing.\<close>

lemma link_targets_frame:
  "ok st \<Longrightarrow> link_targets repo r source_id ids errs st = (errs', st') \<Longrightarrow>
   ok st' \<and> (\<forall>en k. en \<noteq> r_pivot_table r \<longrightarrow> repo_find_by_id repo st' en k = repo_find_by_id repo st en k)
   \<and> (\<forall>en k. repo_find_by_id repo st en k \<noteq> None \<longrightarrow> repo_find_by_id repo st' en k \<noteq> None)"
proof (induction ids arbitrary: errs st)
  case (Cons target_id ids)
  let ?vals = "tbl_put (r_target_fk r) (VString target_id) (tbl_put (r_source_fk r) (VString source_id) [])"
  show ?case
  proof (cases "repo_find_by_id repo st (r_target r) target_id")
    case None
    with Cons show ?thesis by simp
  next
    case (Some x)
    obtain b st1 where st1: "repo_insert_pivot repo st (r_pivot_table r) ?vals = (b, st1)"
      by (cases "repo_insert_pivot repo st (r_pivot_table r) ?vals")
    have ok1: "ok st1" using pivot_ok [OF Cons.prems(1), of "r_pivot_table r" ?vals] st1 by simp
    obtain errs1 where "link_targets repo r source_id ids errs1 st1 = (errs', st')"
      using Cons.prems(2) Some st1 by auto
    from Cons.IH [OF ok1 this] show ?thesis
      using pivot_other [OF Cons.prems(1) st1] pivot_keeps [OF Cons.prems(1) st1] by metis
  qed
qed simp

lemma link_relations_frame:
  "ok st \<Longrightarrow> link_relations repo rec source_id rs errs st = (errs', st') \<Longrightarrow>
   ok st' \<and> (\<forall>en k. en \<notin> pivots rs \<longrightarrow> repo_find_by_id repo st' en k = repo_find_by_id repo st en k)
   \<and> (\<forall>en k. repo_find_by_id repo st en k \<noteq> None \<longrightarrow> repo_find_by_id repo st' en k \<noteq> None)"
proof (induction rs arbitrary: errs st)
  case (Cons r rs)
  let ?ids = "case map_of rec (r_name r) of None \<Rightarrow> None | Some v \<Rightarrow> extract_many_to_many_ids v"
  show ?case
  proof (cases "r_kind r = ManyToMany \<and> ?ids \<noteq> None")
    case False
    then obtain errs1 where "link_relations repo rec source_id rs errs1 st = (errs', st')"
      using Cons.prems(2) by (auto split: option.splits if_splits)
    from Cons.IH [OF Cons.prems(1) this] show ?thesis by auto
  next
    case True
    then obtain v ids where v: "map_of rec (r_name r) = Some v" "extract_many_to_many_ids v = Some ids"
      by (auto split: option.splits)
    obtain errs1 st1 where st1: "link_targets repo r source_id ids errs st = (errs1, st1)"
      by (cases "link_targets repo r source_id ids errs st")
    have rest: "link_relations repo rec source_id rs errs1 st1 = (errs', st')"
      using Cons.prems(2) True v st1 by simp
    have f1: "ok st1" "\<And>en k. en \<noteq> r_pivot_table r \<Longrightarrow> repo_find_by_id repo st1 en k = repo_find_by_id repo st en k"
      "\<And>en k. repo_find_by_id repo st en k \<noteq> None \<Longrightarrow> repo_find_by_id repo st1 en k \<noteq> None"
      using link_targets_frame [OF Cons.prems(1) st1] by blast+
    have pv: "pivots (r # rs) = insert (r_pivot_table r) (pivots rs)" using True by auto
    show ?thesis unfolding pv using Cons.IH [OF f1(1) rest] f1 by simp
  qed
qed simp

lemma links_frame:
  "ok st \<Longrightarrow> create_many_to_many_links repo e input created st = (errs, st') \<Longrightarrow>
   ok st' \<and> (\<forall>en k. en \<notin> pivots (e_relations e) \<longrightarrow> repo_find_by_id repo st' en k = repo_find_by_id repo st en k)
   \<and> (\<forall>en k. repo_find_by_id repo st en k \<noteq> None \<longrightarrow> repo_find_by_id repo st' en k \<noteq> None)"
  using link_relations_frame
  by (auto simp: create_many_to_many_links_def split: option.splits)

text \<open>A create that reached the repository.\<close>

lemma crud_create_record:
  assumes "ok st" and "crud_create json_eq repo reg st en rec = (res, st')" and "op_record res = Some created"
  obtains e k st1 where "registry_find_entity reg en = Some e" "validate e rec = []"
    "duplicate_field json_eq (e_fields e) rec (repo_find_all repo st en) = None"
    "\<And>r. r \<in> set (e_relations e) \<Longrightarrow> create_fk_errors repo st rec r = []"
    "key_of rec = Some k" "repo_find_by_id repo st en k = None" "created = stored_form rec"
    "repo_create repo st en rec = (Some created, st1)"
    "create_many_to_many_links repo e rec created st1 = (op_errors res, st')"
    "op_success res \<longleftrightarrow> op_errors res = []"
proof -
  from assms(2,3) obtain e where e: "registry_find_entity reg en = Some e" "validate e rec = []"
    "duplicate_field json_eq (e_fields e) rec (repo_find_all repo st en) = None"
    "concat (map (create_fk_errors repo st rec) (e_relations e)) = []"
    by (auto simp: crud_create_def Let_def result_defs split: option.splits if_splits)
  obtain c st1 where c: "repo_create repo st en rec = (c, st1)" by (cases "repo_create repo st en rec")
  with assms(2,3) e have c': "c = Some created"
    "create_many_to_many_links repo e rec created st1 = (op_errors res, st')"
    "op_success res \<longleftrightarrow> op_errors res = []"
    by (auto simp: crud_create_def Let_def result_defs split: option.splits prod.splits)
  from create_some [OF assms(1) c [unfolded c'(1)]] obtain k where
    "key_of rec = Some k" "repo_find_by_id repo st en k = None" "created = stored_form rec" by blast
  moreover have "create_fk_errors repo st rec r = []" if "r \<in> set (e_relations e)" for r
    using e(4) that by simp
  ultimately show thesis using that e c c' by blast
qed

lemma crud_create_no_record:
  assumes "ok st" and "crud_create json_eq repo reg st en rec = (res, st')" and "op_record res = None"
  shows "repo_find_by_id repo st' = repo_find_by_id repo st \<and> \<not> op_success res \<and> ok st'"
proof -
  have *: "st' = st \<or> repo_create repo st en rec = (None, st')" "\<not> op_success res"
    using assms(2,3)
    by (auto simp: crud_create_def Let_def result_defs split: option.splits if_splits prod.splits)
  from *(1) show ?thesis
  proof
    assume c: "repo_create repo st en rec = (None, st')"
    with create_none [OF assms(1) c] create_ok [OF assms(1), of en rec] * show ?thesis by simp
  qed (use assms(1) * in simp)
qed

lemma crud_update_cases:
  assumes "crud_update repo reg st en k rec0 = (res, st')"
  obtains "st' = st" "\<not> op_success res"
  | e resp where "registry_find_entity reg en = Some e"
      "validate_partial e (tbl_put ''id'' (VString k) rec0) = []"
      "\<And>r. r \<in> set (e_relations e) \<Longrightarrow> update_fk_errors repo st (tbl_put ''id'' (VString k) rec0) r = []"
      "repo_update repo st en k (tbl_put ''id'' (VString k) rec0) = (resp, st')"
      "op_success res \<longleftrightarrow> upd_status resp" "op_record res = Some (upd_record resp)"
proof -
  let ?rec = "tbl_put ''id'' (VString k) rec0"
  consider (refused) "st' = st" "\<not> op_success res"
    | (run) e where "registry_find_entity reg en = Some e" "validate_partial e ?rec = []"
        "concat (map (update_fk_errors repo st ?rec) (e_relations e)) = []"
    using assms
    by (auto simp: crud_update_def Let_def result_defs split: option.splits if_splits prod.splits)
  then show thesis
  proof cases
    case refused
    then show thesis using that(1) by blast
  next
    case (run e)
    obtain resp where r: "repo_update repo st en k ?rec = (resp, st')"
      "op_success res \<longleftrightarrow> upd_status resp" "op_record res = Some (upd_record resp)"
      using assms run by (auto simp: crud_update_def Let_def result_defs split: prod.splits)
    show thesis using run(3) by (intro that(2) [OF run(1,2) _ r]) simp
  qed
qed

lemma crud_remove_cases:
  assumes "crud_remove repo reg st en k = (res, st')"
  obtains "st' = st" "\<not> op_success res"
  | "registry_has_entity reg en" "\<And>c. c \<in> set (incoming_checks reg en) \<Longrightarrow> reference_errors repo st k c = []"
    "repo_remove repo st en k = (op_success res, st')" "\<not> op_restrict_violation res"
proof (cases "registry_has_entity reg en \<and>
    concat (map (reference_errors repo st k) (incoming_checks reg en)) = []")
  case False
  then show thesis using assms that(1)
    by (auto simp: crud_remove_def Let_def result_defs split: if_splits)
next
  case True
  then have r: "repo_remove repo st en k = (op_success res, st')" "\<not> op_restrict_violation res"
    using assms by (auto simp: crud_remove_def Let_def result_defs split: prod.splits)
  show thesis using True by (intro that(2) [OF _ _ r]) simp_all
qed

end

section \<open>Referential integrity\<close>

text \<open>Every stored foreign key of a restricted relation designates a stored record.\<close>

definition restrict_integrity ::
  "('r \<Rightarrow> string \<Rightarrow> string \<Rightarrow> dynamic_record option) \<Rightarrow> entity_registry \<Rightarrow> 'r \<Rightarrow> bool" where
  "restrict_integrity look reg st \<longleftrightarrow>
     (\<forall>en e r k rec v t. registry_find_entity reg en = Some e \<longrightarrow> r \<in> set (e_relations e) \<longrightarrow>
        r_kind r = BelongsTo \<longrightarrow> r_on_delete r = Restrict \<longrightarrow> look st en k = Some rec \<longrightarrow>
        map_of rec (r_fk_column r) = Some v \<longrightarrow> dynamic_value_to_id_string v = Some t \<longrightarrow>
        look st (r_target r) t \<noteq> None)"

text \<open>No pivot table carries the name of an entity with relations of its own: the server registers its
  pivot tables as entities without relations.\<close>

definition pivots_apart :: "entity_registry \<Rightarrow> bool" where
  "pivots_apart reg \<longleftrightarrow>
     (\<forall>en e r p. registry_find_entity reg en = Some e \<longrightarrow> r \<in> set (e_relations e) \<longrightarrow>
        r_kind r = ManyToMany \<longrightarrow> registry_find_entity reg (r_pivot_table r) = Some p \<longrightarrow> e_relations p = [])"

lemma restrict_integrityD:
  "restrict_integrity look reg st \<Longrightarrow> registry_find_entity reg en = Some e \<Longrightarrow> r \<in> set (e_relations e) \<Longrightarrow>
   r_kind r = BelongsTo \<Longrightarrow> r_on_delete r = Restrict \<Longrightarrow> look st en k = Some rec \<Longrightarrow>
   map_of rec (r_fk_column r) = Some v \<Longrightarrow> dynamic_value_to_id_string v = Some t \<Longrightarrow>
   look st (r_target r) t \<noteq> None"
  unfolding restrict_integrity_def by blast

lemma restrict_integrityI:
  "(\<And>en e r k rec v t. registry_find_entity reg en = Some e \<Longrightarrow> r \<in> set (e_relations e) \<Longrightarrow>
      r_kind r = BelongsTo \<Longrightarrow> r_on_delete r = Restrict \<Longrightarrow> look st en k = Some rec \<Longrightarrow>
      map_of rec (r_fk_column r) = Some v \<Longrightarrow> dynamic_value_to_id_string v = Some t \<Longrightarrow>
      look st (r_target r) t \<noteq> None) \<Longrightarrow> restrict_integrity look reg st"
  unfolding restrict_integrity_def by blast

lemma create_fk_target:
  "create_fk_errors repo st rec r = [] \<Longrightarrow> r_kind r = BelongsTo \<Longrightarrow> map_of rec (r_fk_column r) = Some v \<Longrightarrow>
   dynamic_value_to_id_string v = Some t \<Longrightarrow> repo_find_by_id repo st (r_target r) t \<noteq> None"
  by (auto simp: create_fk_errors_def target_errors_Nil)

lemma update_fk_target:
  "update_fk_errors repo st rec r = [] \<Longrightarrow> r_kind r = BelongsTo \<Longrightarrow> map_of rec (r_fk_column r) = Some v \<Longrightarrow>
   dynamic_value_to_id_string v = Some t \<Longrightarrow> repo_find_by_id repo st (r_target r) t \<noteq> None"
  by (auto simp: update_fk_errors_def target_errors_Nil)

context generic_repository
begin

lemma create_integrity:
  assumes st: "ok st" "restrict_integrity (repo_find_by_id repo) reg st"
    and "pivots_apart reg" and "tbl_ok rec"
    and run: "crud_create json_eq repo reg st en rec = (res, st')"
  shows "ok st' \<and> restrict_integrity (repo_find_by_id repo) reg st'"
proof (cases "op_record res")
  case None
  with crud_create_no_record [OF st(1) run] st(2) show ?thesis by (simp add: restrict_integrity_def)
next
  case (Some created)
  from st(1) run Some obtain e k st1 where e: "registry_find_entity reg en = Some e"
    and fk: "\<And>r. r \<in> set (e_relations e) \<Longrightarrow> create_fk_errors repo st rec r = []"
    and k: "key_of rec = Some k" "created = stored_form rec"
    and c: "repo_create repo st en rec = (Some created, st1)"
    and l: "create_many_to_many_links repo e rec created st1 = (op_errors res, st')"
    by (rule crud_create_record) blast
  have ok1: "ok st1" using create_ok [OF st(1), of en rec] c by simp
  have look1: "repo_find_by_id repo st1 en' k' =
      (if en' = en \<and> k' = k then Some created else repo_find_by_id repo st en' k')" for en' k'
    using create_some [OF st(1) c] k(1) by auto
  have keep: "repo_find_by_id repo st en' k' \<noteq> None \<Longrightarrow> repo_find_by_id repo st' en' k' \<noteq> None" for en' k'
    using links_frame [OF ok1 l] look1 [of en' k'] by (metis option.distinct(1))
  have same: "repo_find_by_id repo st' en' k' = repo_find_by_id repo st1 en' k'"
    if "registry_find_entity reg en' = Some e'" "r \<in> set (e_relations e')" for en' e' r k'
  proof -
    have "en' \<notin> pivots (e_relations e)"
    proof
      assume "en' \<in> pivots (e_relations e)"
      then obtain q where "q \<in> set (e_relations e)" "r_kind q = ManyToMany" "r_pivot_table q = en'"
        by auto
      then have "e_relations e' = []" using assms(3) e that(1) unfolding pivots_apart_def by blast
      then show False using that(2) by simp
    qed
    with links_frame [OF ok1 l] show ?thesis by blast
  qed
  have "restrict_integrity (repo_find_by_id repo) reg st'"
  proof (rule restrict_integrityI)
    fix en' e' r k' rec' v t
    assume r: "registry_find_entity reg en' = Some e'" "r \<in> set (e_relations e')" "r_kind r = BelongsTo"
      "r_on_delete r = Restrict" "repo_find_by_id repo st' en' k' = Some rec'"
      "map_of rec' (r_fk_column r) = Some v" "dynamic_value_to_id_string v = Some t"
    have "repo_find_by_id repo st (r_target r) t \<noteq> None"
    proof (cases "en' = en \<and> k' = k")
      case True
      then have "rec' = stored_form rec" "e' = e" using r(1,5) same [OF r(1,2)] look1 k e by auto
      with r(6) stored_values [OF assms(4)] have "map_of rec (r_fk_column r) = Some v" by blast
      with r \<open>e' = e\<close> show ?thesis by (intro create_fk_target [OF fk]) auto
    next
      case False
      then have "repo_find_by_id repo st en' k' = Some rec'" using r(5) same [OF r(1,2)] look1 by auto
      with r show ?thesis using restrict_integrityD [OF st(2)] by blast
    qed
    then show "repo_find_by_id repo st' (r_target r) t \<noteq> None" by (rule keep)
  qed
  with links_frame [OF ok1 l] show ?thesis by blast
qed

lemma update_integrity:
  assumes st: "ok st" "restrict_integrity (repo_find_by_id repo) reg st" and rec: "tbl_ok rec"
    and run: "crud_update repo reg st en k rec = (res, st')"
  shows "ok st' \<and> restrict_integrity (repo_find_by_id repo) reg st'"
  using run
proof (cases rule: crud_update_cases)
  case 1
  with st show ?thesis by simp
next
  case (2 e resp)
  let ?rec = "tbl_put ''id'' (VString k) rec"
  have ok': "ok st'" using update_ok [OF st(1), of en k ?rec] 2(4) by simp
  show ?thesis
  proof (cases "upd_status resp")
    case False
    with update_none [OF st(1) 2(4)] st(2) ok' show ?thesis by (simp add: restrict_integrity_def)
  next
    case True
    from update_some [OF st(1) 2(4) True] obtain old where
      old: "repo_find_by_id repo st en k = Some old" and
      look: "\<And>en' k'. repo_find_by_id repo st' en' k' =
         (if en' = en \<and> k' = k then Some (upd_record resp) else repo_find_by_id repo st en' k')" by blast
    have "restrict_integrity (repo_find_by_id repo) reg st'"
    proof (rule restrict_integrityI)
      fix en' e' r k' rec' v t
      assume r: "registry_find_entity reg en' = Some e'" "r \<in> set (e_relations e')" "r_kind r = BelongsTo"
        "r_on_delete r = Restrict" "repo_find_by_id repo st' en' k' = Some rec'"
        "map_of rec' (r_fk_column r) = Some v" "dynamic_value_to_id_string v = Some t"
      have "repo_find_by_id repo st (r_target r) t \<noteq> None"
      proof (cases "en' = en \<and> k' = k")
        case same: True
        then have "map_of (upd_record resp) (r_fk_column r) = Some v" using r(5,6) look by simp
        from update_values [OF st(1) 2(4) True _ old this] rec
        consider "map_of old (r_fk_column r) = Some v" | "map_of ?rec (r_fk_column r) = Some v" by auto
        then show ?thesis
        proof cases
          case 1
          with r same old show ?thesis using restrict_integrityD [OF st(2)] by blast
        next
          case new: 2
          have "e' = e" using r(1) same 2(1) by simp
          with r new show ?thesis by (intro update_fk_target [OF 2(3)]) auto
        qed
      next
        case False
        then have "repo_find_by_id repo st en' k' = Some rec'" using r(5) look by auto
        with r show ?thesis using restrict_integrityD [OF st(2)] by blast
      qed
      then show "repo_find_by_id repo st' (r_target r) t \<noteq> None" by (simp add: look)
    qed
    with ok' show ?thesis by blast
  qed
qed

lemma no_reference:
  assumes "ok st" "reference_errors repo st k (name, col) = []"
    "repo_find_by_id repo st name k' = Some rec'" "map_of rec' col = Some v"
  shows "dynamic_value_to_string v \<noteq> Some k"
proof -
  have "repo_find_one_by_field repo st name col k = None"
    using assms(2) by (auto simp: reference_errors_def split: option.splits)
  with find_one_iff [OF assms(1), of name col k] assms(3,4) show ?thesis by blast
qed

lemma remove_integrity:
  assumes st: "ok st" "restrict_integrity (repo_find_by_id repo) reg st"
    and run: "crud_remove repo reg st en k = (res, st')"
  shows "ok st' \<and> restrict_integrity (repo_find_by_id repo) reg st'"
  using run
proof (cases rule: crud_remove_cases)
  case 1
  with st show ?thesis by simp
next
  case 2
  have ok': "ok st'" using remove_ok [OF st(1), of en k] 2(3) by simp
  have look: "repo_find_by_id repo st' en' k' =
      (if en' = en \<and> k' = k then None else repo_find_by_id repo st en' k')" for en' k'
    using remove_find [OF st(1) 2(3)] .
  have "restrict_integrity (repo_find_by_id repo) reg st'"
  proof (rule restrict_integrityI)
    fix en' e' r k' rec' v t
    assume r: "registry_find_entity reg en' = Some e'" "r \<in> set (e_relations e')" "r_kind r = BelongsTo"
      "r_on_delete r = Restrict" "repo_find_by_id repo st' en' k' = Some rec'"
      "map_of rec' (r_fk_column r) = Some v" "dynamic_value_to_id_string v = Some t"
    have old: "repo_find_by_id repo st en' k' = Some rec'"
      using r(5) look by (auto split: if_splits)
    then have target: "repo_find_by_id repo st (r_target r) t \<noteq> None"
      using restrict_integrityD [OF st(2) r(1-4) _ r(6,7)] by blast
    have "\<not> (r_target r = en \<and> t = k)"
    proof
      assume tk: "r_target r = en \<and> t = k"
      have "(en', r_fk_column r) \<in> set (incoming_checks reg en)"
        using r(1-4) tk by (auto simp: incoming_checks_iff registry_find_entity_def dest: map_of_SomeD)
      from no_reference [OF st(1) 2(2) [OF this] old r(6)] id_string_is_string [OF r(7)] tk
      show False by simp
    qed
    with target show "repo_find_by_id repo st' (r_target r) t \<noteq> None" by (auto simp: look)
  qed
  with ok' show ?thesis by blast
qed

end

section \<open>Sequences of engine operations\<close>

inductive crud_reachable :: "(json \<Rightarrow> json \<Rightarrow> bool) \<Rightarrow> entity_registry \<Rightarrow> storage \<Rightarrow> bool"
  for json_eq reg where
  reach_empty: "crud_reachable json_eq reg []"
| reach_create: "crud_reachable json_eq reg st \<Longrightarrow> tbl_ok rec \<Longrightarrow>
    crud_create json_eq memory_repository reg st en rec = (res, st') \<Longrightarrow> crud_reachable json_eq reg st'"
| reach_update: "crud_reachable json_eq reg st \<Longrightarrow> tbl_ok rec \<Longrightarrow>
    crud_update memory_repository reg st en k rec = (res, st') \<Longrightarrow> crud_reachable json_eq reg st'"
| reach_remove: "crud_reachable json_eq reg st \<Longrightarrow>
    crud_remove memory_repository reg st en k = (res, st') \<Longrightarrow> crud_reachable json_eq reg st'"

lemma reachable_integrity:
  assumes "crud_reachable json_eq reg st" "pivots_apart reg"
  shows "storage_ok st \<and> restrict_integrity (repo_find_by_id memory_repository) reg st"
  using assms(1)
proof (induction rule: crud_reachable.induct)
  case reach_empty
  show ?case
    by (simp add: restrict_integrity_def storage_ok_def memory_repository_def mem_find_by_id_def)
next
  case (reach_create st rec en res st')
  then show ?case by (intro memory.create_integrity) (use assms(2) in auto)
next
  case (reach_update st rec en k res st')
  then show ?case by (intro memory.update_integrity) auto
next
  case (reach_remove st en k res st')
  then show ?case by (intro memory.remove_integrity) auto
qed

end
