(* ===== verification/Memory_Properties.thy ===== *)
theory Memory_Properties
  imports Memory_Listing Crud_Laws
begin

text \<open>
  The properties of the memory repository and of the CRUD engine on it: sorted listings, pages, cursors, updates
  and counters; referential integrity over every sequence of operations, what a successful create establishes,
  removals, and the two gaps of updates and nullable foreign keys.
\<close>

section \<open>Examples\<close>

definition note_row :: "string \<Rightarrow> dynamic_record" where
  "note_row k = [(''id'', VString k)]"

definition note_store :: storage where
  "note_store = [(''Note'', [(''b'', note_row ''b''), (''a'', note_row ''a'')])]"

definition numbered :: storage where
  "numbered = [(''Item'', [(''2'', [(''id'', VInt64 2)]), (''10'', [(''id'', VInt64 10)])])]"

definition first_page :: page_request where
  "first_page = \<lparr>pr_page = 1, pr_page_size = 1, pr_sort_field = Some ''id'', pr_sort_desc = False\<rparr>"

definition first_cursor :: cursor_request where
  "first_cursor = \<lparr>cr_after = None, cr_limit = 1, cr_cursor_field = ''id'', cr_sort_desc = False\<rparr>"

lemmas memory_examples = note_row_def note_store_def numbered_def first_page_def first_cursor_def

lemma note_store_all: "mem_find_all note_store ''Note'' = [note_row ''b'', note_row ''a'']"
  by (simp add: note_store_def mem_find_all_def)

lemma note_store_column: "strings_column ''id'' (mem_find_all note_store ''Note'')"
  by (simp add: strings_column_def note_store_all note_row_def)

lemma note_store_sorted: "collect_all_sorted note_store ''Note'' (Some ''id'') False = [note_row ''a'', note_row ''b'']"
  by code_simp

section \<open>Counters\<close>

text \<open>The number an integer alternative holds.\<close>

definition value_int :: "dynamic_value \<Rightarrow> int option" where
  "value_int v =
     (case v of VInt64 w \<Rightarrow> Some (sint w) | VInt32 w \<Rightarrow> Some (sint w) | VInt16 w \<Rightarrow> Some (sint w)
      | VUint64 w \<Rightarrow> Some (uint w) | VUint32 w \<Rightarrow> Some (uint w) | VUint16 w \<Rightarrow> Some (uint w)
      | _ \<Rightarrow> None)"

lemma uint_minus_one: "0 < (w :: 'a::len word) \<Longrightarrow> uint (w - 1) = uint w - 1"
  by (simp add: uint_minus_simple_iff [THEN iffD1] word_le_def uint_sub_lem [THEN iffD1] word_less_def)

lemma decrement_value_int:
  "decrement_value v = Some v' \<Longrightarrow> \<exists>i. value_int v = Some i \<and> 0 < i \<and> value_int v' = Some (i - 1)"
  by (cases v) (auto simp: decrement_value_def value_int_def sint_minus_one uint_minus_one word_less_def
      split: if_splits)

lemma decrement_value_none:
  "decrement_value v = None \<Longrightarrow> value_int v = None \<or> (\<exists>i. value_int v = Some i \<and> i \<le> 0)"
  by (cases v) (auto simp: decrement_value_def value_int_def word_gt_0 split: if_splits)

section \<open>Properties\<close>

text \<open>A listing sorted by a column of strings or of BIGINTs is a permutation of the stored
  records in which no record is smaller than an earlier one, in the chosen direction.\<close>

theorem sorted_listing:
  assumes "strings_column fn (mem_find_all st en) \<or> ints_column fn (mem_find_all st en)"
  shows "mset (collect_all_sorted st en (Some fn) desc) = mset (mem_find_all st en)
    \<and> ordered_by (row_less fn desc) (collect_all_sorted st en (Some fn) desc)"
  using assms weak_order_strings [of fn "mem_find_all st en" desc]
    weak_order_ints [of fn "mem_find_all st en" desc]
  by (auto simp: collect_all_sorted_std intro: ordered_std_sort)

theorem sorted_listing_witness:
  "ordered_by (row_less ''id'' False) (collect_all_sorted note_store ''Note'' (Some ''id'') False)"
  using sorted_listing [of "''id''" note_store "''Note''" False] note_store_column by blast

text \<open>The pages of a listing partition it: reading the pages one to \<open>k\<close> of a size that together
  cover the entity yields every row once, in order, as long as \<open>k\<close> times the size fits
  \<open>std::size_t\<close>.\<close>

theorem pages_partition:
  assumes "0 < unat (pr_page_size rq)" and "k * unat (pr_page_size rq) < 2 ^ 64"
    and "length (mem_find_all st en) \<le> k * unat (pr_page_size rq)"
  shows "concat (map (\<lambda>p. page_items (mem_list_page st en (rq\<lparr>pr_page := of_nat p\<rparr>))) [1..<Suc k])
    = collect_all_sorted st en (pr_sort_field rq) (pr_sort_desc rq)"
  by (rule concat_listing_pages [OF assms])

theorem pages_partition_witness:
  "concat (map (\<lambda>p. page_items (mem_list_page note_store ''Note'' (first_page\<lparr>pr_page := of_nat p\<rparr>))) [1..<Suc 2])
   = [note_row ''a'', note_row ''b'']"
  using pages_partition [of first_page 2 note_store "''Note''"]
  by (simp add: note_store_all note_store_sorted first_page_def del: upt_Suc)

text \<open>The offset of a page wraps: page \<open>2 ^ 63 + 1\<close> of size two is answered with the rows of page
  one instead of an empty page, whatever the repository holds.\<close>

theorem page_offset_wraps:
  assumes "pr_page_size rq = 2"
  shows "mem_list_page st en (rq\<lparr>pr_page := 2 ^ 63 + 1\<rparr>) = mem_list_page st en (rq\<lparr>pr_page := 1\<rparr>)"
proof -
  have off: "((2 ^ 63 + 1 :: size) - 1) * 2 = (1 - 1) * 2" by simp
  have pos: "0 < (2 ^ 63 + 1 :: size)" "0 < (1 :: size)" by simp_all
  obtain a b c d where rq: "rq = \<lparr>pr_page = a, pr_page_size = b, pr_sort_field = c, pr_sort_desc = d\<rparr>"
    by (cases rq)
  with assms have b: "b = 2" by simp
  show ?thesis
    unfolding mem_list_page_def Let_def rq b
    by (simp only: page_request.select_convs page_request.update_convs pos if_True off)
qed

theorem page_offset_wraps_witness:
  "mem_list_page note_store ''Note'' (first_page\<lparr>pr_page_size := 2, pr_page := 2 ^ 63 + 1\<rparr>)
   = Inr \<lparr>pres_items = [note_row ''a'', note_row ''b''], pres_total = 2\<rparr>"
proof -
  have "mem_list_page note_store ''Note'' (first_page\<lparr>pr_page_size := 2, pr_page := 1\<rparr>)
      = Inr \<lparr>pres_items = [note_row ''a'', note_row ''b''], pres_total = 2\<rparr>"
    by code_simp
  with page_offset_wraps [of "first_page\<lparr>pr_page_size := 2\<rparr>" note_store "''Note''"] show ?thesis by simp
qed

text \<open>C6: Following the cursors of a listing on a string column with distinct values, in either
  direction and with any limit that does not overflow, delivers every stored record exactly once,
  in order, and stops within one request per record.\<close>

theorem cursor_traversal_complete:
  assumes "strings_column fn (mem_find_all st en)"
    and "distinct (map (string_of_row fn) (mem_find_all st en))" and "mem_find_all st en \<noteq> []"
    and "0 < unat lim" and "length (mem_find_all st en) + unat lim < 2 ^ 64"
  shows "\<exists>rows. cursor_walk st en \<lparr>cr_after = None, cr_limit = lim, cr_cursor_field = fn, cr_sort_desc = desc\<rparr>
       (length (mem_find_all st en)) = Some rows
    \<and> mset rows = mset (mem_find_all st en)
    \<and> sorted_wrt (\<lambda>a b. past desc (string_of_row fn a) (string_of_row fn b)) rows"
proof -
  let ?rq = "\<lparr>cr_after = None, cr_limit = lim, cr_cursor_field = fn, cr_sort_desc = desc\<rparr>"
  let ?rows = "collect_all_sorted st en (Some fn) desc"
  have col: "strings_column fn ?rows"
    using assms(1) by (simp add: strings_column_def collect_all_sorted_set)
  have srt: "sorted_wrt (\<lambda>a b. past desc (string_of_row fn a) (string_of_row fn b)) ?rows"
    by (rule sorted_rows_past [OF assms(1,2)])
  have len: "length ?rows = length (mem_find_all st en)" by (rule collect_all_sorted_length)
  have "cursor_walk st en (?rq\<lparr>cr_after := cursor_at fn ?rows 0\<rparr>) (length (mem_find_all st en)) = Some (drop 0 ?rows)"
    using cursor_walk_from [of ?rq st en 0 "length (mem_find_all st en)"] col srt assms(3-5) len
    by simp
  then show ?thesis using srt collect_all_sorted_mset [of st en "Some fn" desc] by (simp add: cursor_at_def)
qed

theorem cursor_traversal_complete_witness:
  "\<exists>rows. cursor_walk note_store ''Note''
     \<lparr>cr_after = None, cr_limit = 1, cr_cursor_field = ''id'', cr_sort_desc = False\<rparr> 2 = Some rows
   \<and> mset rows = mset [note_row ''b'', note_row ''a'']
   \<and> sorted_wrt (\<lambda>a b. past False (string_of_row ''id'' a) (string_of_row ''id'' b)) rows"
proof -
  have "distinct (map (string_of_row ''id'') (mem_find_all note_store ''Note''))"
    by (simp add: note_store_all note_row_def string_of_row_def)
  moreover have len: "length (mem_find_all note_store ''Note'') = 2" by (simp add: note_store_all)
  moreover have "mem_find_all note_store ''Note'' \<noteq> []" by (simp add: note_store_all)
  ultimately show ?thesis
    using cursor_traversal_complete [OF note_store_column, of 1 False]
    unfolding note_store_all [symmetric] len by simp
qed

text \<open>On a column of BIGINTs the traversal loses records: rows are sorted as numbers but compared
  with the cursor as strings, so after the page holding 2 the record 10 is skipped.\<close>

theorem cursor_traversal_loses_numbers:
  "mem_find_all numbered ''Item'' = [[(''id'', VInt64 2)], [(''id'', VInt64 10)]]
   \<and> cursor_walk numbered ''Item'' first_cursor 2 = Some [[(''id'', VInt64 2)]]"
  by code_simp

text \<open>An update answers true exactly when the record exists; the record then holds every given
  value except the id and lists of strings, keeps its other values and its id, and no other record
  of any entity changes.\<close>

theorem update_merges:
  assumes "tbl_ok rec" and "mem_find_by_id st en k = Some old" and "mem_update st en k rec = (resp, st')"
  shows "upd_status resp \<and> mem_find_by_id st' en k = Some (upd_record resp)
    \<and> (\<forall>en' k'. (en', k') \<noteq> (en, k) \<longrightarrow> mem_find_by_id st' en' k' = mem_find_by_id st en' k')
    \<and> (\<forall>n. map_of (upd_record resp) n =
         (case map_of rec n of
            None \<Rightarrow> map_of old n
          | Some v \<Rightarrow> if n = ''id'' \<or> is_strings v then map_of old n else Some v))"
proof -
  from assms(2) obtain t where t: "map_of st en = Some t" "map_of t k = Some old"
    by (auto simp: mem_find_by_id_def split: option.splits)
  then have r: "resp = \<lparr>upd_status = True, upd_record = merge_record old rec\<rparr>"
    "st' = tbl_put en (tbl_put k (merge_record old rec) t) st" "entity_storage st en = t"
    using assms(3) by (auto simp: mem_update_def Let_def entity_storage_def)
  have "map_of (merge_record old rec) n = (case map_of rec n of None \<Rightarrow> map_of old n
      | Some v \<Rightarrow> if n = ''id'' \<or> is_strings v then map_of old n else Some v)" for n
    using merge_record_get [OF assms(1), of n old] by (cases "n = ''id''") (auto split: option.splits)
  then show ?thesis using r by (auto simp: find_by_id_entity_storage)
qed

theorem update_merges_witness:
  "mem_find_by_id (snd (mem_update note_store ''Note'' ''a'' [(''id'', VString ''z''), (''title'', VString ''t'')])) ''Note'' ''a''
   = Some (upd_record (fst (mem_update note_store ''Note'' ''a'' [(''id'', VString ''z''), (''title'', VString ''t'')])))"
proof -
  have "mem_find_by_id note_store ''Note'' ''a'' = Some (note_row ''a'')" by code_simp
  from update_merges [OF _ this prod.collapse [symmetric], of "[(''id'', VString ''z''), (''title'', VString ''t'')]"]
  show ?thesis by simp
qed

text \<open>\<open>decrement_field_if_positive\<close> answers true exactly when the field exists and holds a positive
  integer; the field then holds the predecessor, so it never becomes negative, and otherwise
  nothing changes.\<close>

theorem decrement_never_negative:
  assumes "mem_decrement_field_if_positive st en k fn = (changed, st')"
  shows "if changed
    then \<exists>rec v i v'. mem_find_by_id st en k = Some rec \<and> map_of rec fn = Some v \<and> value_int v = Some i
      \<and> 0 < i \<and> mem_find_by_id st' en k = Some (tbl_put fn v' rec) \<and> value_int v' = Some (i - 1)
      \<and> (\<forall>en' k'. (en', k') \<noteq> (en, k) \<longrightarrow> mem_find_by_id st' en' k' = mem_find_by_id st en' k')
    else st' = st \<and> (\<forall>rec v i. mem_find_by_id st en k = Some rec \<longrightarrow> map_of rec fn = Some v \<longrightarrow>
      value_int v = Some i \<longrightarrow> i \<le> 0)"
proof (cases "mem_find_by_id st en k")
  case None
  with assms visit_field_none [OF None] show ?thesis by (simp add: mem_decrement_field_if_positive_def)
next
  case (Some rec)
  note eq = assms [unfolded mem_decrement_field_if_positive_def visit_field_some [OF Some]]
  show ?thesis
  proof (cases "map_of rec fn")
    case None
    with eq Some show ?thesis by auto
  next
    case v: (Some v)
    show ?thesis
    proof (cases "decrement_value v")
      case None
      with eq Some v decrement_value_none [OF None] show ?thesis by auto
    next
      case (Some v')
      then have r: "changed" "st' = tbl_put en (tbl_put k (tbl_put fn v' rec) (entity_storage st en)) st"
        using eq v by auto
      from decrement_value_int [OF Some] obtain i where
        i: "value_int v = Some i" "0 < i" "value_int v' = Some (i - 1)" by blast
      have "mem_find_by_id st' en k = Some (tbl_put fn v' rec)"
        "\<forall>en' k'. (en', k') \<noteq> (en, k) \<longrightarrow> mem_find_by_id st' en' k' = mem_find_by_id st en' k'"
        by (auto simp: r find_by_id_entity_storage)
      with \<open>mem_find_by_id st en k = Some rec\<close> v i r(1) show ?thesis by auto
    qed
  qed
qed

theorem decrement_never_negative_witness:
  "fst (mem_decrement_field_if_positive
     (snd (mem_decrement_field_if_positive [(''F'', [(''k'', [(''n'', VInt32 1)])])] ''F'' ''k'' ''n''))
     ''F'' ''k'' ''n'') = False"
proof -
  let ?st = "snd (mem_decrement_field_if_positive [(''F'', [(''k'', [(''n'', VInt32 1)])])] ''F'' ''k'' ''n'')"
  have st: "mem_find_by_id ?st ''F'' ''k'' = Some [(''n'', VInt32 0)]"
    by (simp add: mem_decrement_field_if_positive_def visit_field_def mem_find_by_id_def decrement_value_def)
  obtain b st' where b: "mem_decrement_field_if_positive ?st ''F'' ''k'' ''n'' = (b, st')"
    by (cases "mem_decrement_field_if_positive ?st ''F'' ''k'' ''n''")
  from decrement_never_negative [OF b] st b show ?thesis by (cases b) (simp_all add: value_int_def)
qed

section \<open>The CRUD engine\<close>

subsection \<open>Example\<close>

definition team_relation :: relation where
  "team_relation = (make_relation ''team'' ''Team'' BelongsTo)\<lparr>r_fk_column := ''team_id''\<rparr>"

definition demo_registry :: entity_registry where
  "demo_registry =
     [(''Team'', make_entity ''Team'' [make_field ''id'' FUUID] []),
      (''Project'', make_entity ''Project''
         [make_field ''id'' FUUID, (make_field ''team_id'' FUUID)\<lparr>f_required := False\<rparr>,
          (make_field ''code'' FString)\<lparr>f_required := False, f_unique := True\<rparr>] [team_relation])]"

abbreviation demo_create :: "storage \<Rightarrow> string \<Rightarrow> dynamic_record \<Rightarrow> operation_result \<times> storage" where
  "demo_create \<equiv> crud_create (\<lambda>a b. False) memory_repository demo_registry"

definition demo_team :: storage where
  "demo_team = snd (demo_create [] ''Team'' [(''id'', VString ''t1'')])"

definition project_record :: dynamic_record where
  "project_record = [(''id'', VString ''p1''), (''team_id'', VString ''t1''), (''code'', VString ''x'')]"

definition demo_state :: storage where
  "demo_state = snd (demo_create demo_team ''Project'' project_record)"

lemma demo_reachable: "crud_reachable (\<lambda>a b. False) demo_registry demo_state"
  unfolding demo_state_def demo_team_def project_record_def
  by (intro reach_create [OF reach_create [OF reach_empty _ prod.collapse [symmetric]] _ prod.collapse [symmetric]])
    simp_all

lemma demo_pivots: "pivots_apart demo_registry"
  by (auto simp: pivots_apart_def registry_find_entity_def demo_registry_def make_entity_def
      team_relation_def make_relation_def split: if_splits)

lemma demo_success: "op_success (fst (demo_create demo_team ''Project'' project_record))"
  unfolding demo_team_def project_record_def by code_simp

subsection \<open>Properties\<close>

text \<open>C7: Over every sequence of engine operations on the memory backend that starts from an empty
  repository, every stored foreign key of an \<open>on_delete: restrict\<close> relation designates a stored
  record, provided no pivot table carries the name of an entity that has relations.\<close>

theorem restricted_references_exist:
  assumes "crud_reachable json_eq reg st" and "pivots_apart reg"
    and "registry_find_entity reg en = Some e" and "r \<in> set (e_relations e)"
    and "r_kind r = BelongsTo" and "r_on_delete r = Restrict"
    and "mem_find_by_id st en k = Some rec" and "map_of rec (r_fk_column r) = Some v"
    and "dynamic_value_to_id_string v = Some t"
  shows "mem_find_by_id st (r_target r) t \<noteq> None"
  using restrict_integrityD [of "repo_find_by_id memory_repository" reg st en e r k rec v t]
    reachable_integrity [OF assms(1,2)] assms(3-9)
  by (simp add: memory_repository_def)

theorem restricted_references_exist_witness: "mem_find_by_id demo_state ''Team'' ''t1'' \<noteq> None"
proof -
  have "mem_find_by_id demo_state ''Project'' ''p1'' = Some project_record"
    unfolding demo_state_def demo_team_def project_record_def by code_simp
  from restricted_references_exist [OF demo_reachable demo_pivots _ _ _ _ this,
      of "snd (demo_registry ! 1)" team_relation "VString ''t1''" "''t1''"]
  show ?thesis
    by (simp add: demo_registry_def registry_find_entity_def make_entity_def team_relation_def
        make_relation_def project_record_def dynamic_value_to_id_string_def)
qed

text \<open>C8: A successful create on the memory backend stored a record that did not exist: the entity is
  registered, the record validates, no existing record holds the value of a unique field, every
  foreign key present designates a stored record, the ones of restricted relations are present,
  and the record is found under its id, without its lists of strings.\<close>

theorem create_success:
  assumes "storage_ok st" and "crud_create json_eq memory_repository reg st en rec = (res, st')"
    and "op_success res"
  shows "\<exists>e k. registry_find_entity reg en = Some e \<and> validate e rec = [] \<and> extract_id rec = Some k
    \<and> mem_find_by_id st en k = None \<and> op_record res = Some (filter_record rec)
    \<and> (en \<notin> pivots (e_relations e) \<longrightarrow> mem_find_by_id st' en k = Some (filter_record rec))
    \<and> (\<forall>f \<in> set (e_fields e). f_unique f \<longrightarrow> (\<forall>v. map_of rec (f_name f) = Some v \<longrightarrow>
         (\<forall>r \<in> set (mem_find_all st en). \<forall>w. map_of r (f_name f) = Some w \<longrightarrow> \<not> value_eq json_eq w v)))
    \<and> (\<forall>r \<in> set (e_relations e). r_kind r = BelongsTo \<longrightarrow>
         (case map_of rec (r_fk_column r) of
            None \<Rightarrow> r_on_delete r \<noteq> Restrict
          | Some v \<Rightarrow> \<exists>t. dynamic_value_to_id_string v = Some t \<and> mem_find_by_id st (r_target r) t \<noteq> None))"
proof -
  obtain created where "op_record res = Some created"
    using assms memory.crud_create_no_record [OF assms(1,2)] by (cases "op_record res") auto
  from assms(1,2) this obtain e k st1 where e: "registry_find_entity reg en = Some e" "validate e rec = []"
    "duplicate_field json_eq (e_fields e) rec (repo_find_all memory_repository st en) = None"
    "\<And>r. r \<in> set (e_relations e) \<Longrightarrow> create_fk_errors memory_repository st rec r = []"
    "extract_id rec = Some k" "repo_find_by_id memory_repository st en k = None" "created = filter_record rec"
    "repo_create memory_repository st en rec = (Some created, st1)"
    "create_many_to_many_links memory_repository e rec created st1 = (op_errors res, st')"
    by (rule memory.crud_create_record) blast
  have ok1: "storage_ok st1" using memory.create_ok [OF assms(1), of en rec] e(8) by simp
  have "en \<notin> pivots (e_relations e) \<longrightarrow> mem_find_by_id st' en k = Some (filter_record rec)"
  proof
    assume "en \<notin> pivots (e_relations e)"
    then have "repo_find_by_id memory_repository st' en k = repo_find_by_id memory_repository st1 en k"
      using memory.links_frame [OF ok1 e(9)] by blast
    with memory.created_is_found [OF assms(1) e(8) e(5)] e(7)
    show "mem_find_by_id st' en k = Some (filter_record rec)" by (simp add: memory_repository_def)
  qed
  moreover have "case map_of rec (r_fk_column r) of None \<Rightarrow> r_on_delete r \<noteq> Restrict
      | Some v \<Rightarrow> \<exists>t. dynamic_value_to_id_string v = Some t \<and> mem_find_by_id st (r_target r) t \<noteq> None"
    if "r \<in> set (e_relations e)" "r_kind r = BelongsTo" for r
    using e(4) [OF that(1)] that(2)
    by (auto simp: create_fk_errors_def target_errors_Nil memory_repository_def split: option.splits if_splits)
  ultimately show ?thesis
    using e(1-3,5-7) \<open>op_record res = Some created\<close>
    by (simp add: duplicate_field_None memory_repository_def)
qed

theorem create_success_witness:
  "op_record (fst (demo_create demo_team ''Project'' project_record)) = Some (filter_record project_record)"
proof -
  have "crud_reachable (\<lambda>a b. False) demo_registry demo_team"
    unfolding demo_team_def by (intro reach_create [OF reach_empty _ prod.collapse [symmetric]]) simp
  then have ok: "storage_ok demo_team" using reachable_integrity demo_pivots by blast
  from create_success [OF ok prod.collapse [symmetric] demo_success] show ?thesis by blast
qed

text \<open>C9: On the memory backend a removal is refused as a restrict violation, leaving the repository as it was, exactly when
  a stored record of some registered entity refers to the id through the foreign key of a relation of
  that entity that belongs to the entity of the record and is declared to restrict deletions.\<close>

theorem remove_refused_iff_referenced:
  assumes "storage_ok st" and "registry_has_entity reg en"
  shows "(op_restrict_violation (fst (crud_remove memory_repository reg st en k)) \<longleftrightarrow>
      (\<exists>name e rel row k' v. (name, e) \<in> set reg \<and> rel \<in> set (e_relations e)
         \<and> r_kind rel = BelongsTo \<and> r_target rel = en \<and> r_on_delete rel = Restrict
         \<and> mem_find_by_id st name k' = Some row \<and> map_of row (r_fk_column rel) = Some v
         \<and> dynamic_value_to_string v = Some k))
    \<and> (op_restrict_violation (fst (crud_remove memory_repository reg st en k)) \<longrightarrow>
         snd (crud_remove memory_repository reg st en k) = st)"
proof -
  have "reference_errors memory_repository st k c \<noteq> [] \<longleftrightarrow>
      (\<exists>row k' v. mem_find_by_id st (fst c) k' = Some row \<and> map_of row (snd c) = Some v
         \<and> dynamic_value_to_string v = Some k)" for c
    using memory.find_one_iff [OF assms(1), of "fst c" "snd c" k]
    by (auto simp: memory_repository_def reference_errors_def split: option.splits)
  then have "concat (map (reference_errors memory_repository st k) (incoming_checks reg en)) \<noteq> [] \<longleftrightarrow>
      (\<exists>name col row k' v. (name, col) \<in> set (incoming_checks reg en) \<and> mem_find_by_id st name k' = Some row
         \<and> map_of row col = Some v \<and> dynamic_value_to_string v = Some k)"
    by (fastforce simp: concat_eq_Nil_conv)
  then show ?thesis
    unfolding incoming_checks_iff using assms(2)
    by (auto simp: crud_remove_def Let_def result_defs split: prod.splits) blast+
qed

theorem remove_refused_iff_referenced_witness:
  "op_restrict_violation (fst (crud_remove memory_repository demo_registry demo_state ''Team'' ''t1''))"
proof -
  have ok: "storage_ok demo_state" using reachable_integrity [OF demo_reachable demo_pivots] by blast
  have reg: "registry_has_entity demo_registry ''Team''" by code_simp
  obtain e rel where ref: "(''Project'', e) \<in> set demo_registry" "rel \<in> set (e_relations e)" "r_kind rel = BelongsTo"
    "r_target rel = ''Team''" "r_on_delete rel = Restrict" "r_fk_column rel = ''team_id''"
  proof -
    have "(''Project'', ''team_id'') \<in> set (incoming_checks demo_registry ''Team'')" by code_simp
    then show ?thesis using that unfolding incoming_checks_iff by blast
  qed
  have p: "mem_find_by_id demo_state ''Project'' ''p1'' = Some project_record"
    unfolding demo_state_def demo_team_def project_record_def by code_simp
  have v: "map_of project_record ''team_id'' = Some (VString ''t1'')"
    "dynamic_value_to_string (VString ''t1'') = Some ''t1''"
    by (simp_all add: project_record_def dynamic_value_to_string_def)
  have "map_of project_record (r_fk_column rel) = Some (VString ''t1'')" using v(1) ref(6) by simp
  with remove_refused_iff_referenced [OF ok reg, of "''t1''"] ref(1-5) p v(2) show ?thesis by blast
qed

text \<open>Unique fields are checked by create only: an update of a record to the value of a unique
  field that another record holds succeeds, and leaves two records with that value.\<close>

theorem update_breaks_uniqueness:
  "let st = snd (demo_create demo_state ''Project'' [(''id'', VString ''p2''), (''team_id'', VString ''t1''), (''code'', VString ''y'')]);
       res = crud_update memory_repository demo_registry st ''Project'' ''p2'' [(''code'', VString ''x'')]
   in op_success (fst (demo_create st ''Project'' [(''id'', VString ''p3''), (''team_id'', VString ''t1''), (''code'', VString ''x'')])) = False
    \<and> op_success (fst res)
    \<and> map_option (\<lambda>r. map_of r ''code'') (mem_find_by_id (snd res) ''Project'' ''p1'') = Some (Some (VString ''x''))
    \<and> map_option (\<lambda>r. map_of r ''code'') (mem_find_by_id (snd res) ''Project'' ''p2'') = Some (Some (VString ''x''))"
  unfolding demo_state_def demo_team_def project_record_def by code_simp

text \<open>A foreign key given as \<open>null\<close> is refused by create and by update, whatever the repository
  and whatever the relation does on deletion, so an optional reference can be omitted at creation
  but neither written as null nor cleared later.\<close>

theorem null_foreign_key_refused:
  assumes "registry_find_entity reg en = Some e" and "r \<in> set (e_relations e)" and "r_kind r = BelongsTo"
    and "map_of rec (r_fk_column r) = Some VNone" and "r_fk_column r \<noteq> ''id''"
  shows "\<not> op_success (fst (crud_create json_eq repo reg st en rec))
    \<and> \<not> op_success (fst (crud_update repo reg st en k rec))
    \<and> snd (crud_create json_eq repo reg st en rec) = st \<and> snd (crud_update repo reg st en k rec) = st"
proof -
  have "dynamic_value_to_id_string VNone = None" by (simp add: dynamic_value_to_id_string_def)
  then have c: "create_fk_errors repo st rec r \<noteq> []"
    and u: "update_fk_errors repo st (tbl_put ''id'' (VString k) rec) r \<noteq> []"
    using assms(3-5) by (simp_all add: create_fk_errors_def update_fk_errors_def target_errors_def)
  have "concat (map (create_fk_errors repo st rec) (e_relations e)) \<noteq> []"
    "concat (map (update_fk_errors repo st (tbl_put ''id'' (VString k) rec)) (e_relations e)) \<noteq> []"
    using c u assms(2) by auto
  then show ?thesis
    using assms(1)
    by (auto simp: crud_create_def crud_update_def Let_def result_defs split: option.splits)
qed

theorem null_foreign_key_refused_witness:
  "\<not> op_success (fst (crud_update memory_repository demo_registry demo_state ''Project'' ''p1'' [(''team_id'', VNone)]))"
  using null_foreign_key_refused [of demo_registry "''Project''" "snd (demo_registry ! 1)" team_relation
      "[(''team_id'', VNone)]" "\<lambda>a b. False" memory_repository demo_state "''p1''"]
  by (simp add: demo_registry_def registry_find_entity_def make_entity_def team_relation_def make_relation_def)

end
