(* ===== verification/Route_Resolver.thy ===== *)
theory Route_Resolver
  imports Domain_Model
begin

text \<open>
  \<open>RouteAuthorizationResolver\<close>
  (\<open>apps/Backend_Seastar/src/http/middlewares/route_authorization_resolver.{h,cpp}\<close>): from the
  method and the path of a request to the authorization checks it has to pass. Each
  \<open>try_match\<close> member is a loop over the entities of the schema whose body either \<open>continue\<close>s
  (\<open>None\<close>) or returns a plan. The lemmas give the plans of the standard routes and the shape of
  every plan.
\<close>

section \<open>String helpers\<close>

definition iequals :: "string \<Rightarrow> string \<Rightarrow> bool" where
  "iequals a b \<longleftrightarrow> str_lower a = str_lower b"

definition count_slashes :: "string \<Rightarrow> nat" where
  "count_slashes s = length (filter (\<lambda>c. c = CHR ''/'') s)"

definition entity_to_lower :: "string \<Rightarrow> string" where
  "entity_to_lower name = (case name of [] \<Rightarrow> [] | c # cs \<Rightarrow> char_lower c # cs)"

definition entity_collection_path :: "string \<Rightarrow> string" where
  "entity_collection_path name = ''/'' @ entity_to_lower name @ ''s''"

definition capitalize_first :: "string \<Rightarrow> string" where
  "capitalize_first s = (case s of [] \<Rightarrow> [] | c # cs \<Rightarrow> char_upper c # cs)"

definition find_entity_by_fk_name :: "schema \<Rightarrow> string \<Rightarrow> entity option" where
  "find_entity_by_fk_name s basename = find_entity s (capitalize_first basename)"

text \<open>\<open>pop_back\<close> when the last character is an \<open>s\<close>.\<close>

definition strip_final_s :: "string \<Rightarrow> string" where
  "strip_final_s s = (if s \<noteq> [] \<and> last s = CHR ''s'' then butlast s else s)"

section \<open>Plans\<close>

record authorization_check =
  ck_entity :: string
  ck_operation :: crud_operation
  ck_description :: string

record route_plan =
  plan_checks :: "authorization_check list"
  unknown_route :: bool

definition make_check :: "string \<Rightarrow> crud_operation \<Rightarrow> string \<Rightarrow> authorization_check" where
  "make_check en oper descr = \<lparr>ck_entity = en, ck_operation = oper, ck_description = descr\<rparr>"

definition known_plan :: "authorization_check list \<Rightarrow> route_plan" where
  "known_plan cs = \<lparr>plan_checks = cs, unknown_route = False\<rparr>"

definition unknown_plan :: route_plan where
  "unknown_plan = \<lparr>plan_checks = [], unknown_route = True\<rparr>"

text \<open>A loop whose body returns (\<open>Some\<close>) or continues (\<open>None\<close>).\<close>

fun first_match :: "('a \<Rightarrow> 'b option) \<Rightarrow> 'a list \<Rightarrow> 'b option" where
  "first_match f [] = None"
| "first_match f (x # xs) = (case f x of Some y \<Rightarrow> Some y | None \<Rightarrow> first_match f xs)"

section \<open>The patterns\<close>

text \<open>\<open>/<entity>s\<close> and \<open>/<entity>s/{id}\<close>.\<close>

definition match_crud_entity :: "string \<Rightarrow> string \<Rightarrow> entity \<Rightarrow> route_plan option" where
  "match_crud_entity method p e =
     (let base = entity_collection_path (e_name e) in
      if p = base then
        (if iequals method ''GET'' then
           Some (known_plan [make_check (e_name e) List (''list '' @ e_name e)])
         else if iequals method ''POST'' then
           Some (known_plan [make_check (e_name e) Create (''create '' @ e_name e)])
         else None)
      else if starts_with p (base @ ''/'') then
        (let remainder = drop (length (base @ ''/'')) p in
         if CHR ''/'' \<in> set remainder then None
         else if remainder = [] \<or> remainder = ''filter'' then None
         else if iequals method ''GET'' then
           Some (known_plan [make_check (e_name e) GetById (''get_by_id '' @ e_name e)])
         else if iequals method ''PUT'' \<or> iequals method ''PATCH'' then
           Some (known_plan [make_check (e_name e) Update (''update '' @ e_name e)])
         else if iequals method ''DELETE'' then
           Some (known_plan [make_check (e_name e) Delete (''delete '' @ e_name e)])
         else None)
      else None)"

definition try_match_crud :: "schema \<Rightarrow> string \<Rightarrow> string \<Rightarrow> route_plan option" where
  "try_match_crud s method p = first_match (match_crud_entity method p) (entities s)"

text \<open>\<open>GET /<entity>s/filter/with_<parent>/{id}\<close>.\<close>

definition match_filter_entity :: "schema \<Rightarrow> string \<Rightarrow> entity \<Rightarrow> route_plan option" where
  "match_filter_entity s p e =
     (let filter_prefix = entity_collection_path (e_name e) @ ''/filter/with_'' in
      if \<not> starts_with p filter_prefix then None
      else let after_with = drop (length filter_prefix) p in
        if CHR ''/'' \<notin> set after_with then None
        else let parent_part = before_char (CHR ''/'') after_with in
          if CHR ''_'' \<in> set parent_part then None
          else case find_entity_by_fk_name s parent_part of
            None \<Rightarrow> None
          | Some parent \<Rightarrow> Some (known_plan
              [make_check (e_name parent) GetById (''parent '' @ e_name parent @ '' (filter)''),
               make_check (e_name e) List (''child '' @ e_name e @ '' (list)'')]))"

definition try_match_filter_by_parent :: "schema \<Rightarrow> string \<Rightarrow> string \<Rightarrow> route_plan option" where
  "try_match_filter_by_parent s method p =
     (if \<not> iequals method ''GET'' then None
      else if count_slashes p \<noteq> 4 then None
      else first_match (match_filter_entity s p) (entities s))"

text \<open>\<open>GET /<entity>s/filter/with_<parent>_<field>/{value}\<close>.\<close>

definition match_filter_field_entity :: "schema \<Rightarrow> string \<Rightarrow> entity \<Rightarrow> route_plan option" where
  "match_filter_field_entity s p e =
     (let filter_prefix = entity_collection_path (e_name e) @ ''/filter/with_'' in
      if \<not> starts_with p filter_prefix then None
      else let after_with = drop (length filter_prefix) p in
        if CHR ''/'' \<notin> set after_with then None
        else let parent_and_field = before_char (CHR ''/'') after_with in
          if CHR ''_'' \<notin> set parent_and_field then None
          else case find_entity_by_fk_name s (before_char (CHR ''_'') parent_and_field) of
            None \<Rightarrow> None
          | Some parent \<Rightarrow> Some (known_plan
              [make_check (e_name parent) List (''parent '' @ e_name parent @ '' (filter by field)''),
               make_check (e_name e) List (''child '' @ e_name e @ '' (list)'')]))"

definition try_match_filter_by_parent_field :: "schema \<Rightarrow> string \<Rightarrow> string \<Rightarrow> route_plan option" where
  "try_match_filter_by_parent_field s method p =
     (if \<not> iequals method ''GET'' then None
      else if count_slashes p \<noteq> 4 then None
      else first_match (match_filter_field_entity s p) (entities s))"

text \<open>\<open>GET /<entity>s/{id}/<relation>\<close>.\<close>

definition match_item_relation_entity :: "schema \<Rightarrow> string \<Rightarrow> entity \<Rightarrow> route_plan option" where
  "match_item_relation_entity s p e =
     (let prefix = entity_collection_path (e_name e) @ ''/'' in
      if \<not> starts_with p prefix then None
      else let remainder = drop (length prefix) p in
        case after_char (CHR ''/'') remainder of
          None \<Rightarrow> None
        | Some relation_part \<Rightarrow>
            let id_part = before_char (CHR ''/'') remainder in
            if id_part = [] \<or> relation_part = [] then None
            else if id_part = ''filter'' \<or> relation_part = ''filter'' then None
            else case find_relation e relation_part of
              None \<Rightarrow> None
            | Some rel \<Rightarrow>
                (case find_entity s (r_target rel) of
                   None \<Rightarrow> None
                 | Some target \<Rightarrow> Some (known_plan
                     [make_check (e_name e) GetById (''parent '' @ e_name e @ '' (item)''),
                      make_check (e_name target) List
                        (''related '' @ e_name target @ '' ('' @ relation_part @ '')'')])))"

definition try_match_item_relation :: "schema \<Rightarrow> string \<Rightarrow> string \<Rightarrow> route_plan option" where
  "try_match_item_relation s method p =
     (if \<not> iequals method ''GET'' then None
      else if count_slashes p \<noteq> 3 then None
      else first_match (match_item_relation_entity s p) (entities s))"

text \<open>\<open>GET /<parent>s_with_<children>/{id}\<close>.\<close>

definition try_match_parent_with_children :: "schema \<Rightarrow> string \<Rightarrow> string \<Rightarrow> route_plan option" where
  "try_match_parent_with_children s method p =
     (if \<not> iequals method ''GET'' then None
      else if count_slashes p \<noteq> 2 then None
      else case find_sub ''_with_'' p of
        None \<Rightarrow> None
      | Some with_pos \<Rightarrow>
          if p = [] \<or> p ! 0 \<noteq> CHR ''/'' then None
          else case rfind_char (CHR ''/'') p of
            None \<Rightarrow> None
          | Some last_slash \<Rightarrow>
              if last_slash = 0 then None
              else if with_pos \<le> 1 \<or> last_slash \<le> with_pos then None
              else let first_segment = take (last_slash - 1) (drop 1 p) in
                case find_sub ''_with_'' first_segment of
                  None \<Rightarrow> None
                | Some local_with \<Rightarrow>
                    let parents_part = strip_final_s (take local_with first_segment);
                        children_part = strip_final_s (drop (local_with + 6) first_segment) in
                    case (find_entity_by_fk_name s parents_part, find_entity_by_fk_name s children_part) of
                      (Some parent, Some children) \<Rightarrow> Some (known_plan
                        [make_check (e_name parent) GetById (''parent '' @ e_name parent @ '' (with children)''),
                         make_check (e_name children) List (''children '' @ e_name children @ '' (with parent)'')])
                    | _ \<Rightarrow> None)"

definition resolve_route :: "schema \<Rightarrow> string \<Rightarrow> string \<Rightarrow> route_plan" where
  "resolve_route s method p =
     (case try_match_filter_by_parent s method p of
        Some plan \<Rightarrow> plan
      | None \<Rightarrow>
          (case try_match_filter_by_parent_field s method p of
             Some plan \<Rightarrow> plan
           | None \<Rightarrow>
               (case try_match_parent_with_children s method p of
                  Some plan \<Rightarrow> plan
                | None \<Rightarrow>
                    (case try_match_item_relation s method p of
                       Some plan \<Rightarrow> plan
                     | None \<Rightarrow>
                         (case try_match_crud s method p of
                            Some plan \<Rightarrow> plan
                          | None \<Rightarrow> unknown_plan)))))"

section \<open>Lemmas\<close>

lemmas plan_defs = make_check_def known_plan_def unknown_plan_def

lemma first_match_Some:
  "first_match f xs = Some y \<Longrightarrow> \<exists>x \<in> set xs. f x = Some y"
  by (induction xs) (auto split: option.splits)

lemma first_match_None_iff: "first_match f xs = None \<longleftrightarrow> (\<forall>x \<in> set xs. f x = None)"
  by (induction xs) (auto split: option.splits)

lemma count_slashes_append [simp]: "count_slashes (s @ t) = count_slashes s + count_slashes t"
  by (simp add: count_slashes_def)

lemma count_slashes_Nil [simp]: "count_slashes [] = 0"
  by (simp add: count_slashes_def)

lemma count_slashes_Cons [simp]:
  "count_slashes (c # s) = (if c = CHR ''/'' then 1 else 0) + count_slashes s"
  by (simp add: count_slashes_def)

lemma count_slashes_0_iff: "count_slashes s = 0 \<longleftrightarrow> CHR ''/'' \<notin> set s"
  by (auto simp: count_slashes_def filter_empty_conv)

lemma char_lower_slash [simp]: "char_lower c = CHR ''/'' \<longleftrightarrow> c = CHR ''/''"
proof
  assume a: "char_lower c = CHR ''/''"
  show "c = CHR ''/''"
  proof (cases "is_upper c")
    case True
    then have "of_char (char_lower c) = of_char c + (32::nat)"
      by (auto simp: char_class_defs)
    moreover have "65 \<le> (of_char c :: nat)" using True by (simp add: is_upper_def char_code_def)
    ultimately show ?thesis using a by simp
  qed (use a in \<open>simp add: char_lower_def\<close>)
qed (simp add: char_class_defs)

lemma count_slashes_entity [simp]: "count_slashes (entity_to_lower name) = count_slashes name"
  by (cases name) (auto simp: entity_to_lower_def)

lemma count_slashes_path: "count_slashes (entity_collection_path name) = Suc (count_slashes name)"
  by (simp add: entity_collection_path_def)

lemma starts_with_drop: "starts_with p q \<Longrightarrow> \<exists>r. p = q @ r \<and> drop (length q) p = r"
  by (auto simp: starts_with_iff)

end
