(* ===== verification/Route_Generator.thy ===== *)
theory Route_Generator
  imports Route_Resolver Json_Writer
begin

text \<open>
  \<open>RouteGenerator\<close> (\<open>libs/application/route_generator.{h,cpp}\<close>): the routes of a service, and the
  routes the registration of relational and file handlers adds
  (\<open>apps/Backend_Seastar/src/http/routing/route_registration.cpp\<close>). The lemmas confront both with
  the route resolver of the authorization middleware, which derives its paths in its own way.
\<close>

section \<open>Route definitions\<close>

datatype http_method = MGet | MPost | MPut | MDelete

record route_definition =
  rt_method :: http_method
  rt_path :: string
  rt_entity_name :: string
  rt_operation_name :: string
  rt_requires_auth :: bool

definition make_route :: "http_method \<Rightarrow> string \<Rightarrow> string \<Rightarrow> string \<Rightarrow> bool \<Rightarrow> route_definition" where
  "make_route meth p en oper auth =
     \<lparr>rt_method = meth, rt_path = p, rt_entity_name = en, rt_operation_name = oper, rt_requires_auth = auth\<rparr>"

fun method_name :: "http_method \<Rightarrow> string" where
  "method_name MGet = ''GET''"
| "method_name MPost = ''POST''"
| "method_name MPut = ''PUT''"
| "method_name MDelete = ''DELETE''"

definition schema_has_auth_source :: "schema \<Rightarrow> bool" where
  "schema_has_auth_source s = list_ex (\<lambda>e. is_auth_source (e_options e)) (entities s)"

definition pagination_variants :: "entity \<Rightarrow> string \<Rightarrow> string \<Rightarrow> string \<Rightarrow> bool \<Rightarrow> route_definition list" where
  "pagination_variants e base target op_prefix auth =
     (case e_pagination e of
        None \<Rightarrow> []
      | Some cfg \<Rightarrow>
          if \<not> pagination_any cfg then []
          else (if pc_page cfg \<noteq> None then [make_route MGet (base @ ''/page'') target (op_prefix @ ''_page'') auth] else [])
             @ (if pc_offset cfg \<noteq> None then [make_route MGet (base @ ''/offset'') target (op_prefix @ ''_offset'') auth] else [])
             @ (if pc_cursor cfg \<noteq> None then [make_route MGet (base @ ''/cursor'') target (op_prefix @ ''_cursor'') auth] else []))"

definition id_param :: string where
  "id_param = CHR 0x7B # ''id'' @ [CHR 0x7D]"

definition value_param :: string where
  "value_param = CHR 0x7B # ''value'' @ [CHR 0x7D]"

definition target_id_param :: string where
  "target_id_param = CHR 0x7B # ''target_id'' @ [CHR 0x7D]"

section \<open>The routes of an entity\<close>

definition generate_for_entity :: "entity \<Rightarrow> bool \<Rightarrow> route_definition list" where
  "generate_for_entity e auth =
     (if \<not> enable_crud (e_options e) then []
      else let base = route_prefix e; item = base @ ''/'' @ id_param in
        [make_route MGet base (e_name e) ''list'' auth,
         make_route MGet item (e_name e) ''get_by_id'' auth,
         make_route MPost base (e_name e) ''create'' auth,
         make_route MPut item (e_name e) ''update'' auth,
         make_route MDelete item (e_name e) ''delete'' auth]
        @ pagination_variants e base (e_name e) ''list'' auth)"

definition auth_routes :: "route_definition list" where
  "auth_routes =
     [make_route MPost ''/auth/register'' ''Auth'' ''register'' False,
      make_route MPost ''/auth/login'' ''Auth'' ''login'' False,
      make_route MGet ''/auth/me'' ''Auth'' ''me'' True,
      make_route MPost ''/auth/refresh'' ''Auth'' ''refresh'' False,
      make_route MPost ''/auth/logout'' ''Auth'' ''logout'' True]"

definition target_variants :: "schema \<Rightarrow> string \<Rightarrow> string \<Rightarrow> string \<Rightarrow> string \<Rightarrow> bool \<Rightarrow> route_definition list" where
  "target_variants s target base en op_prefix auth =
     (case find_entity s target of
        None \<Rightarrow> []
      | Some t \<Rightarrow> pagination_variants t base en op_prefix auth)"

definition has_many_field_routes :: "schema \<Rightarrow> bool \<Rightarrow> string \<Rightarrow> string \<Rightarrow> string \<Rightarrow> field \<Rightarrow> route_definition list" where
  "has_many_field_routes s auth child_path parent_name target f =
     (if \<not> f_unique f \<or> f_name f = ''id'' then []
      else let p = child_path @ ''/filter/with_'' @ parent_name @ ''_'' @ f_name f @ ''/'' @ value_param in
        make_route MGet p target ''list_by_fk_field'' auth # target_variants s target p target ''list_by_fk_field'' auth)"

definition relation_routes :: "schema \<Rightarrow> bool \<Rightarrow> entity \<Rightarrow> relation \<Rightarrow> route_definition list" where
  "relation_routes s auth e r =
     (let parent_path = ''/'' @ to_route_plural (e_name e) True;
          parent_name = to_route_plural (e_name e) False;
          target_path = ''/'' @ to_route_plural (r_target r) True;
          filter_path = target_path @ ''/filter/with_'' @ parent_name @ ''/'' @ id_param
      in case r_kind r of
           HasMany \<Rightarrow>
             make_route MGet filter_path (r_target r) ''list_by_fk'' auth
             # target_variants s (r_target r) filter_path (r_target r) ''list_by_fk'' auth
             @ concat (map (has_many_field_routes s auth target_path parent_name (r_target r)) (e_fields e))
             @ (let p = parent_path @ ''_with_'' @ r_name r @ ''/'' @ id_param in
                make_route MGet p (e_name e) ''get_with_children'' auth
                # target_variants s (r_target r) p (e_name e) ''get_with_children'' auth)
         | HasOne \<Rightarrow>
             [make_route MGet (parent_path @ ''/'' @ r_name r @ ''/'' @ id_param) (r_target r) ''get_one_by_fk'' auth]
         | ManyToMany \<Rightarrow>
             make_route MGet filter_path (r_target r) ''list_many_to_many'' auth
             # target_variants s (r_target r) filter_path (r_target r) ''list_many_to_many'' auth
             @ (let p = parent_path @ ''/'' @ id_param @ ''/'' @ r_name r @ ''/'' @ target_id_param in
                [make_route MPost p (e_name e) ''attach_many_to_many'' auth,
                 make_route MDelete p (e_name e) ''detach_many_to_many'' auth])
         | BelongsTo \<Rightarrow> [])"

text \<open>\<open>needs_auth\<close>: whether the service configures an authentication.\<close>

definition generate_routes :: "schema \<Rightarrow> bool \<Rightarrow> route_definition list" where
  "generate_routes s needs_auth =
     concat (map (\<lambda>e. generate_for_entity e needs_auth) (entities s))
     @ (if schema_has_auth_source s then auth_routes else [])
     @ concat (map (\<lambda>e. concat (map (relation_routes s needs_auth e) (e_relations e))) (entities s))"

section \<open>The routes registered for relations and files\<close>

definition registered_base :: "entity \<Rightarrow> string" where
  "registered_base e = ''/'' @ lower_first (e_name e) @ ''s''"

definition register_has_many_routes :: "schema \<Rightarrow> (http_method \<times> string) list" where
  "register_has_many_routes s =
     concat (map (\<lambda>e. concat (map (\<lambda>r.
       if r_kind r \<noteq> HasMany then []
       else [(MGet, registered_base e @ ''/'' @ id_param @ ''/'' @ r_name r),
             (MGet, registered_base e @ ''_with_'' @ r_name r @ ''/'' @ id_param)]
         @ (if find (\<lambda>f. f_name f = ''name'') (e_fields e) = None then []
            else [(MGet, ''/'' @ lower_first (r_target r) @ ''s'' @ ''/filter/with_'' @ lower_first (e_name e)
                     @ ''_name'' @ ''/'' @ value_param)])) (e_relations e))) (entities s))"

definition register_has_one_routes :: "schema \<Rightarrow> (http_method \<times> string) list" where
  "register_has_one_routes s =
     concat (map (\<lambda>e. concat (map (\<lambda>r.
       if r_kind r \<noteq> HasOne then []
       else [(MGet, registered_base e @ ''/'' @ id_param @ ''/'' @ r_name r)]) (e_relations e))) (entities s))"

definition register_many_to_many_routes :: "schema \<Rightarrow> (http_method \<times> string) list" where
  "register_many_to_many_routes s =
     concat (map (\<lambda>e. concat (map (\<lambda>r.
       if r_kind r \<noteq> ManyToMany then []
       else let list_path = registered_base e @ ''/'' @ id_param @ ''/'' @ r_name r;
                attach_path = list_path @ ''/'' @ target_id_param
            in [(MGet, list_path), (MPost, attach_path), (MDelete, attach_path)]) (e_relations e))) (entities s))"

definition register_file_download_routes :: "bool \<Rightarrow> schema \<Rightarrow> (http_method \<times> string) list" where
  "register_file_download_routes has_file_service s =
     (if \<not> has_file_service then []
      else concat (map (\<lambda>e. concat (map (\<lambda>f.
        if \<not> is_file_field f then []
        else [(MGet, registered_base e @ ''/'' @ id_param @ ''/'' @ f_name f)]) (e_fields e))) (entities s)))"

section \<open>Requests of a route\<close>

text \<open>A path of a template: the text between braces replaced by a value.\<close>

fun fill_loop :: "bool \<Rightarrow> string \<Rightarrow> string \<Rightarrow> string" where
  "fill_loop in_param v [] = []"
| "fill_loop in_param v (c # s) =
     (if in_param then (if c = CHR 0x7D then fill_loop False v s else fill_loop True v s)
      else if c = CHR 0x7B then v @ fill_loop True v s
      else c # fill_loop False v s)"

definition fill :: "string \<Rightarrow> string \<Rightarrow> string" where
  "fill v template = fill_loop False v template"

text \<open>
  The names for which the resolver and the generator derive the same collection path, and the
  conditions under which the paths of a schema are unambiguous.
\<close>

definition regular_entity :: "schema \<Rightarrow> entity \<Rightarrow> bool" where
  "regular_entity s e \<longleftrightarrow>
     e \<in> set (entities s) \<and> route_prefix e = entity_collection_path (e_name e)
     \<and> list_all (\<lambda>c. c \<noteq> CHR ''_'' \<and> c \<noteq> CHR 0x7B) (e_name e)
     \<and> list_all (\<lambda>e'. CHR ''/'' \<notin> set (e_name e')
          \<and> (entity_collection_path (e_name e') = entity_collection_path (e_name e) \<longrightarrow> e' = e)) (entities s)"

definition id_segment :: "string \<Rightarrow> bool" where
  "id_segment k \<longleftrightarrow> k \<noteq> [] \<and> k \<noteq> ''filter'' \<and> CHR ''/'' \<notin> set k"

section \<open>Lemmas\<close>

lemma fill_loop_append:
  "CHR 0x7B \<notin> set s \<Longrightarrow> fill_loop False v (s @ t) = s @ fill_loop False v t"
  by (induction s) auto

lemma fill_plain: "CHR 0x7B \<notin> set s \<Longrightarrow> fill v s = s"
  using fill_loop_append [of s v "[]"] by (simp add: fill_def)

lemma fill_item: "CHR 0x7B \<notin> set s \<Longrightarrow> fill v (s @ ''/'' @ id_param) = s @ ''/'' @ v"
  by (simp add: fill_def fill_loop_append id_param_def)

lemma first_match_unique:
  assumes "x \<in> set xs" and "f x = Some y" and "\<And>x'. x' \<in> set xs \<Longrightarrow> x' \<noteq> x \<Longrightarrow> f x' = None"
  shows "first_match f xs = Some y"
  using assms
proof (induction xs)
  case (Cons a xs)
  show ?case
  proof (cases "a = x")
    case False
    with Cons show ?thesis by simp
  qed (use Cons(3) in simp)
qed simp

lemma collection_path_item:
  assumes "entity_collection_path n @ ''/'' @ k = entity_collection_path m @ ''/'' @ r"
    and "CHR ''/'' \<notin> set n" and "CHR ''/'' \<notin> set m"
  shows "entity_collection_path n = entity_collection_path m \<and> k = r"
proof -
  have slash: "CHR ''/'' \<notin> set (entity_to_lower n @ ''s'')" "CHR ''/'' \<notin> set (entity_to_lower m @ ''s'')"
    using assms(2,3) count_slashes_entity [of n] count_slashes_entity [of m]
    by (simp_all add: count_slashes_0_iff [symmetric])
  have eq: "(entity_to_lower n @ ''s'') @ CHR ''/'' # k = (entity_to_lower m @ ''s'') @ CHR ''/'' # r"
    using assms(1) by (simp add: entity_collection_path_def)
  show ?thesis
    using arg_cong [OF eq, of "before_char (CHR ''/'')"] arg_cong [OF eq, of "after_char (CHR ''/'')"]
    by (simp add: before_char_append [OF slash(1)] before_char_append [OF slash(2)]
        after_char_append [OF slash(1)] after_char_append [OF slash(2)] entity_collection_path_def
        del: append_assoc)
qed

lemma slash_count_item:
  "CHR ''/'' \<notin> set n \<Longrightarrow> CHR ''/'' \<notin> set k \<Longrightarrow> count_slashes (entity_collection_path n @ ''/'' @ k) = 2"
  by (simp add: count_slashes_path count_slashes_0_iff)

text \<open>A path whose only \<open>_with_\<close> stands after its last slash is no path of a parent with its children.\<close>

lemma find_sub_position: "find_sub needle s = Some i \<Longrightarrow> starts_with (drop i s) needle \<and> i \<le> length s"
proof (induction needle s arbitrary: i rule: find_sub.induct)
  case (1 needle)
  then show ?case by (auto simp: starts_with_def split: if_splits)
next
  case (2 needle c s)
  show ?case
  proof (cases "starts_with (c # s) needle")
    case False
    with 2(2) obtain j where "find_sub needle s = Some j" "i = Suc j" by auto
    with 2(1) [OF False this(1)] show ?thesis by simp
  qed (use 2(2) in auto)
qed

lemma no_children_route:
  assumes "CHR ''_'' \<notin> set base" and "CHR ''/'' \<notin> set k"
  shows "try_match_parent_with_children s method (base @ ''/'' @ k) = None"
proof -
  have "length base \<le> i" if f: "find_sub ''_with_'' (base @ ''/'' @ k) = Some i" for i
  proof (rule ccontr)
    assume "\<not> length base \<le> i"
    then have i: "i < length base" by simp
    have "starts_with (drop i (base @ ''/'' @ k)) ''_with_''" using find_sub_position [OF f] by simp
    then have "base ! i = CHR ''_''"
      using i by (auto simp: starts_with_iff Cons_nth_drop_Suc [symmetric] nth_append)
    then have "CHR ''_'' \<in> set base" using i by (metis nth_mem)
    with assms(1) show False by simp
  qed
  moreover have "rfind_char (CHR ''/'') (base @ ''/'' @ k) = Some (length base)"
    using rfind_char_last [OF assms(2), of base] by simp
  ultimately show ?thesis
    by (auto simp: try_match_parent_with_children_def split: option.splits)
qed

end
