(* ===== verification/Route_Laws.thy ===== *)
theory Route_Laws
  imports Route_Generator
begin

text \<open>
  Laws of the route resolver: the shape of every plan, the plan of a path with one segment and of
  an item path, and the agreement of the resolver with the routes of a regular entity.
\<close>

section \<open>The shape of a plan\<close>

text \<open>
  A plan is unknown and empty, or it has one check on an entity of the schema, or a check on a
  parent (loaded or listed) followed by a check of the listing of the entity returned.
\<close>

definition plan_ok :: "schema \<Rightarrow> route_plan \<Rightarrow> bool" where
  "plan_ok s plan =
     (if unknown_route plan then plan_checks plan = []
      else case plan_checks plan of
        [chk] \<Rightarrow> has_entity s (ck_entity chk)
      | [parent, child] \<Rightarrow>
          has_entity s (ck_entity parent) \<and> has_entity s (ck_entity child)
          \<and> ck_operation parent \<in> {GetById, List} \<and> ck_operation child = List
      | _ \<Rightarrow> False)"

lemma has_entity_name: "find_entity s n = Some e \<Longrightarrow> has_entity s (e_name e)"
  using find_entity_name by (auto simp: has_entity_iff)

lemma has_entity_member: "e \<in> set (entities s) \<Longrightarrow> has_entity s (e_name e)"
  by (simp add: has_entity_iff)

lemmas plan_ok_simps = plan_ok_def plan_defs

lemma plan_ok_filter: "try_match_filter_by_parent s m p = Some plan \<Longrightarrow> plan_ok s plan"
  unfolding try_match_filter_by_parent_def find_entity_by_fk_name_def
  by (auto dest!: first_match_Some
      simp: match_filter_entity_def find_entity_by_fk_name_def Let_def plan_ok_simps has_entity_name
        has_entity_member split: if_splits option.splits)

lemma plan_ok_filter_field: "try_match_filter_by_parent_field s m p = Some plan \<Longrightarrow> plan_ok s plan"
  unfolding try_match_filter_by_parent_field_def
  by (auto dest!: first_match_Some
      simp: match_filter_field_entity_def find_entity_by_fk_name_def Let_def plan_ok_simps has_entity_name
        has_entity_member split: if_splits option.splits)

lemma plan_ok_item_relation: "try_match_item_relation s m p = Some plan \<Longrightarrow> plan_ok s plan"
  unfolding try_match_item_relation_def
  by (auto dest!: first_match_Some
      simp: match_item_relation_entity_def Let_def plan_ok_simps has_entity_name
        has_entity_member split: if_splits option.splits)

lemma plan_ok_with_children: "try_match_parent_with_children s m p = Some plan \<Longrightarrow> plan_ok s plan"
  unfolding try_match_parent_with_children_def
  by (auto simp: find_entity_by_fk_name_def Let_def plan_ok_simps has_entity_name
      split: if_splits option.splits)

lemma plan_ok_crud: "try_match_crud s m p = Some plan \<Longrightarrow> plan_ok s plan"
  unfolding try_match_crud_def
  by (auto dest!: first_match_Some simp: match_crud_entity_def Let_def plan_ok_simps has_entity_member
      split: if_splits)

lemma plan_ok_resolve: "plan_ok s (resolve_route s m p)"
  by (auto simp: resolve_route_def plan_ok_filter plan_ok_filter_field plan_ok_with_children
      plan_ok_item_relation plan_ok_crud split: option.splits)
    (simp add: plan_ok_simps)

section \<open>Paths with one segment\<close>

lemma resolve_one_slash:
  "count_slashes p = 1 \<Longrightarrow> resolve_route s m p =
     (case try_match_crud s m p of Some plan \<Rightarrow> plan | None \<Rightarrow> unknown_plan)"
  by (simp add: resolve_route_def try_match_filter_by_parent_def try_match_filter_by_parent_field_def
      try_match_parent_with_children_def try_match_item_relation_def)

lemma crud_one_slash:
  assumes "count_slashes p = 1"
  shows "match_crud_entity m p e \<noteq> None \<longleftrightarrow>
    p = entity_collection_path (e_name e) \<and> (iequals m ''GET'' \<or> iequals m ''POST'')"
proof -
  have "\<not> starts_with p (entity_collection_path (e_name e) @ ''/'')"
    using assms by (auto simp: starts_with_iff count_slashes_path)
  then show ?thesis by (simp add: match_crud_entity_def Let_def)
qed

lemma unknown_one_slash:
  assumes "count_slashes p = 1"
  shows "unknown_route (resolve_route s m p) \<longleftrightarrow>
    \<not> (iequals m ''GET'' \<or> iequals m ''POST'')
    \<or> p \<notin> (\<lambda>e. entity_collection_path (e_name e)) ` set (entities s)"
proof -
  have "unknown_route (resolve_route s m p) \<longleftrightarrow> try_match_crud s m p = None"
    using plan_ok_crud [of s m p] unfolding resolve_one_slash [OF assms]
    by (auto simp: unknown_plan_def try_match_crud_def match_crud_entity_def Let_def known_plan_def
        dest!: first_match_Some split: option.splits if_splits)
  then show ?thesis
    unfolding try_match_crud_def first_match_None_iff using crud_one_slash [OF assms, of m] by blast
qed

section \<open>Regular entities\<close>

lemma collection_path_chars:
  "set (entity_collection_path n) \<subseteq> {CHR ''/'', CHR ''s''} \<union> set n \<union> char_lower ` set n"
  by (cases n) (auto simp: entity_collection_path_def entity_to_lower_def)

lemma regular_entityD:
  assumes "regular_entity s e"
  shows "e \<in> set (entities s)" and "route_prefix e = entity_collection_path (e_name e)"
    and "CHR ''/'' \<notin> set (e_name e)" and "CHR ''_'' \<notin> set (entity_collection_path (e_name e))"
    and "CHR 0x7B \<notin> set (entity_collection_path (e_name e))"
proof -
  show *: "e \<in> set (entities s)" "route_prefix e = entity_collection_path (e_name e)"
    "CHR ''/'' \<notin> set (e_name e)"
    using assms by (auto simp: regular_entity_def list_all_iff)
  have low: "char_lower c \<noteq> CHR ''_'' \<and> char_lower c \<noteq> CHR 0x7B"
    if "c \<noteq> CHR ''_''" "c \<noteq> CHR 0x7B" for c
  proof (cases "is_upper c")
    case True
    then have "97 \<le> (of_char (char_lower c) :: nat)" "(of_char (char_lower c) :: nat) \<le> 122"
      by (auto simp: char_class_defs)
    then show ?thesis by (intro conjI notI) simp_all
  qed (use that in \<open>simp add: char_lower_def\<close>)
  have names: "c \<noteq> CHR ''_'' \<and> c \<noteq> CHR 0x7B" if "c \<in> set (e_name e)" for c
    using assms that by (simp add: regular_entity_def list_all_iff)
  have "c \<noteq> CHR ''_'' \<and> c \<noteq> CHR 0x7B" if c: "c \<in> set (entity_collection_path (e_name e))" for c
  proof -
    consider "c = CHR ''/''" | "c = CHR ''s''" | "c \<in> set (e_name e)"
      | d where "d \<in> set (e_name e)" "c = char_lower d"
      using c collection_path_chars [of "e_name e"] by blast
    then show ?thesis
    proof cases
      case 3
      then show ?thesis by (rule names)
    next
      case 4
      show ?thesis unfolding 4(2) by (rule low) (use names [OF 4(1)] in simp_all)
    qed simp_all
  qed
  then show "CHR ''_'' \<notin> set (entity_collection_path (e_name e))"
    "CHR 0x7B \<notin> set (entity_collection_path (e_name e))" by blast+
qed

text \<open>The plan of \<open>/<entity>s/{id}\<close>.\<close>

definition item_plan :: "string \<Rightarrow> string \<Rightarrow> route_plan" where
  "item_plan method en =
     (if iequals method ''GET'' then known_plan [make_check en GetById (''get_by_id '' @ en)]
      else if iequals method ''PUT'' \<or> iequals method ''PATCH'' then
        known_plan [make_check en Update (''update '' @ en)]
      else if iequals method ''DELETE'' then known_plan [make_check en Delete (''delete '' @ en)]
      else unknown_plan)"

lemma match_crud_item:
  assumes "id_segment k"
  shows "match_crud_entity m (entity_collection_path (e_name e) @ ''/'' @ k) e =
    (if unknown_route (item_plan m (e_name e)) then None else Some (item_plan m (e_name e)))"
proof -
  have "entity_collection_path (e_name e) @ ''/'' @ k \<noteq> entity_collection_path (e_name e)" by simp
  moreover have "starts_with (entity_collection_path (e_name e) @ ''/'' @ k) (entity_collection_path (e_name e) @ ''/'')"
    using starts_with_append [of "entity_collection_path (e_name e) @ ''/''" k] by simp
  moreover have "drop (length (entity_collection_path (e_name e) @ ''/''))
      (entity_collection_path (e_name e) @ ''/'' @ k) = k" by simp
  ultimately show ?thesis
    using assms unfolding match_crud_entity_def Let_def id_segment_def
    by (simp add: item_plan_def plan_defs)
qed

lemma match_crud_other:
  assumes "CHR ''/'' \<notin> set n" and "CHR ''/'' \<notin> set (e_name e')" and "CHR ''/'' \<notin> set k"
    and "entity_collection_path (e_name e') \<noteq> entity_collection_path n"
  shows "match_crud_entity m (entity_collection_path n @ ''/'' @ k) e' = None"
proof -
  have "entity_collection_path n @ ''/'' @ k \<noteq> entity_collection_path (e_name e')"
    using slash_count_item [OF assms(1,3)] assms(2) count_slashes_path [of "e_name e'"]
    by (metis count_slashes_0_iff One_nat_def n_not_Suc_n numeral_2_eq_2)
  moreover have "\<not> starts_with (entity_collection_path n @ ''/'' @ k) (entity_collection_path (e_name e') @ ''/'')"
    using collection_path_item [OF _ assms(1,2)] assms(4) by (auto simp: starts_with_iff)
  ultimately show ?thesis by (simp add: match_crud_entity_def Let_def)
qed

lemma resolve_item:
  assumes "regular_entity s e" and "id_segment k"
  shows "resolve_route s m (entity_collection_path (e_name e) @ ''/'' @ k) = item_plan m (e_name e)"
proof -
  let ?p = "entity_collection_path (e_name e) @ ''/'' @ k"
  note reg = regular_entityD [OF assms(1)]
  have k: "CHR ''/'' \<notin> set k" using assms(2) by (simp add: id_segment_def)
  have "count_slashes ?p = 2" by (rule slash_count_item [OF reg(3) k])
  then have "resolve_route s m ?p = (case try_match_crud s m ?p of Some plan \<Rightarrow> plan | None \<Rightarrow> unknown_plan)"
    using no_children_route [OF reg(4) k, of s m]
    by (simp add: resolve_route_def try_match_filter_by_parent_def try_match_filter_by_parent_field_def
        try_match_item_relation_def)
  moreover have other: "match_crud_entity m ?p e' = None" if "e' \<in> set (entities s)" "e' \<noteq> e" for e'
    using assms(1) that by (intro match_crud_other [OF reg(3) _ k]) (auto simp: regular_entity_def list_all_iff)
  moreover have "try_match_crud s m ?p =
      (if unknown_route (item_plan m (e_name e)) then None else Some (item_plan m (e_name e)))"
  proof (cases "unknown_route (item_plan m (e_name e))")
    case True
    then show ?thesis
      unfolding try_match_crud_def using match_crud_item [OF assms(2), of m e] other
      by (auto simp: first_match_None_iff)
  next
    case False
    then show ?thesis
      unfolding try_match_crud_def using match_crud_item [OF assms(2), of m e] other
      by (auto intro!: first_match_unique [OF reg(1)])
  qed
  ultimately show ?thesis by (auto simp: item_plan_def plan_defs)
qed

lemma resolve_collection:
  assumes "regular_entity s e"
  shows "resolve_route s m (entity_collection_path (e_name e)) =
    (if iequals m ''GET'' then known_plan [make_check (e_name e) List (''list '' @ e_name e)]
     else if iequals m ''POST'' then known_plan [make_check (e_name e) Create (''create '' @ e_name e)]
     else unknown_plan)"
proof -
  let ?p = "entity_collection_path (e_name e)"
  note reg = regular_entityD [OF assms]
  have c: "count_slashes ?p = 1" using reg(3) by (simp add: count_slashes_path count_slashes_0_iff)
  have other: "match_crud_entity m ?p e' = None" if "e' \<in> set (entities s)" "e' \<noteq> e" for e'
  proof -
    have "?p \<noteq> entity_collection_path (e_name e')"
      using assms that unfolding regular_entity_def list_all_iff by metis
    then show ?thesis using crud_one_slash [OF c, of m e'] by blast
  qed
  have here: "match_crud_entity m ?p e =
    (if iequals m ''GET'' then Some (known_plan [make_check (e_name e) List (''list '' @ e_name e)])
     else if iequals m ''POST'' then Some (known_plan [make_check (e_name e) Create (''create '' @ e_name e)])
     else None)"
    unfolding match_crud_entity_def Let_def by (rule if_P) (rule refl)
  have "try_match_crud s m ?p = match_crud_entity m ?p e"
  proof (cases "match_crud_entity m ?p e")
    case None
    have "match_crud_entity m ?p x = None" if "x \<in> set (entities s)" for x
      using other [OF that] None by (cases "x = e") simp_all
    then show ?thesis using None unfolding try_match_crud_def by (simp add: first_match_None_iff)
  next
    case (Some plan)
    then show ?thesis
      unfolding try_match_crud_def using first_match_unique [where f = "match_crud_entity m ?p", OF reg(1) Some other]
      by simp
  qed
  then show ?thesis unfolding resolve_one_slash [OF c] here by simp
qed

section \<open>The checks of a route\<close>

definition route_checks :: "schema \<Rightarrow> string \<Rightarrow> string \<Rightarrow> (string \<times> crud_operation) list" where
  "route_checks s m p = map (\<lambda>c. (ck_entity c, ck_operation c)) (plan_checks (resolve_route s m p))"

text \<open>A CRUD route is checked as the operation it is named after.\<close>

definition crud_route_checked :: "schema \<Rightarrow> string \<Rightarrow> route_definition \<Rightarrow> bool" where
  "crud_route_checked s k r =
     (case crud_operation_from_string (rt_operation_name r) of
        None \<Rightarrow> True
      | Some oper \<Rightarrow>
          route_checks s (method_name (rt_method r)) (fill k (rt_path r)) = [(rt_entity_name r, oper)])"

lemma route_checks_collection:
  assumes "regular_entity s e"
  shows "route_checks s ''GET'' (route_prefix e) = [(e_name e, List)]"
    and "route_checks s ''POST'' (route_prefix e) = [(e_name e, Create)]"
proof -
  have "iequals ''GET'' ''GET''" "\<not> iequals ''POST'' ''GET''" "iequals ''POST'' ''POST''" by code_simp+
  then show "route_checks s ''GET'' (route_prefix e) = [(e_name e, List)]"
    "route_checks s ''POST'' (route_prefix e) = [(e_name e, Create)]"
    by (simp_all add: route_checks_def regular_entityD(2) [OF assms] resolve_collection [OF assms] plan_defs)
qed

lemma route_checks_item:
  assumes "regular_entity s e" and "id_segment k"
  shows "route_checks s ''GET'' (route_prefix e @ ''/'' @ k) = [(e_name e, GetById)]"
    and "route_checks s ''PUT'' (route_prefix e @ ''/'' @ k) = [(e_name e, Update)]"
    and "route_checks s ''DELETE'' (route_prefix e @ ''/'' @ k) = [(e_name e, Delete)]"
proof -
  have "iequals ''GET'' ''GET''" "\<not> iequals ''PUT'' ''GET''" "iequals ''PUT'' ''PUT''"
    "\<not> iequals ''DELETE'' ''GET''" "\<not> iequals ''DELETE'' ''PUT''" "\<not> iequals ''DELETE'' ''PATCH''"
    "iequals ''DELETE'' ''DELETE''" by code_simp+
  then show "route_checks s ''GET'' (route_prefix e @ ''/'' @ k) = [(e_name e, GetById)]"
    "route_checks s ''PUT'' (route_prefix e @ ''/'' @ k) = [(e_name e, Update)]"
    "route_checks s ''DELETE'' (route_prefix e @ ''/'' @ k) = [(e_name e, Delete)]"
    unfolding route_checks_def regular_entityD(2) [OF assms(1)] resolve_item [OF assms]
    by (simp_all add: item_plan_def plan_defs)
qed

lemma fill_routes:
  assumes "regular_entity s e"
  shows "fill k (route_prefix e) = route_prefix e"
    and "fill k (route_prefix e @ ''/'' @ id_param) = route_prefix e @ ''/'' @ k"
  using fill_plain fill_item regular_entityD(5) [OF assms] regular_entityD(2) [OF assms] by simp_all

lemma operation_names:
  "crud_operation_from_string ''list'' = Some List" "crud_operation_from_string ''get_by_id'' = Some GetById"
  "crud_operation_from_string ''create'' = Some Create" "crud_operation_from_string ''update'' = Some Update"
  "crud_operation_from_string ''delete'' = Some Delete" "crud_operation_from_string ''list_page'' = None"
  "crud_operation_from_string ''list_offset'' = None" "crud_operation_from_string ''list_cursor'' = None"
  by code_simp+

lemma crud_route_checked_variants:
  "list_all (crud_route_checked s k) (pagination_variants e base en ''list'' auth)"
  by (simp add: pagination_variants_def make_route_def crud_route_checked_def operation_names
      split: option.splits)

lemma crud_routes_checked_base:
  assumes "regular_entity s e" and "id_segment k"
  shows "list_all (crud_route_checked s k) (generate_for_entity e auth)"
proof -
  note eval = crud_route_checked_def make_route_def operation_names fill_routes [OF assms(1), simplified]
    route_checks_collection [OF assms(1)] route_checks_item [OF assms, simplified]
  show ?thesis
    by (simp add: generate_for_entity_def Let_def crud_route_checked_variants) (simp add: eval)
qed

lemma regular_find_entity:
  assumes "regular_entity s e"
  shows "find_entity s (e_name e) = Some e"
proof (cases "find_entity s (e_name e)")
  case None
  then have "e_name e \<notin> e_name ` set (entities s)"
    by (auto simp: find_entity_def find_None_iff)
  then show ?thesis using regular_entityD(1) [OF assms] by blast
next
  case (Some e')
  then have "e_name e' = e_name e" "e' \<in> set (entities s)" using find_entity_name by simp_all
  then have "e' = e" using assms unfolding regular_entity_def list_all_iff by metis
  with Some show ?thesis by simp
qed

end
