(* ===== verification/Authz_Middleware.thy ===== *)
theory Authz_Middleware
  imports Route_Resolver Policy_Semantics Runtime_Value
begin

text \<open>
  \<open>AuthorizationMiddleware\<close>
  (\<open>apps/Backend_Seastar/src/http/middlewares/authorization_middleware.cpp\<close>): the subject of a
  request from its \<open>X-User-*\<close> headers, the context, the outcome of one check, and the handler,
  which answers 403 or delegates to the handler it wraps (the argument \<open>inner\<close>).

  A header map is an unordered map whose key equality \<open>same\<close> is the one of the HTTP library, an
  argument of the definitions. The text of a JSON value (\<open>dump\<close>) and the clock are arguments too.
\<close>

section \<open>Requests, replies and header maps\<close>

type_synonym headers = "(string \<times> string) list"

record request =
  req_method :: string
  req_url :: string
  req_headers :: headers

record reply =
  rep_status :: nat
  rep_headers :: headers
  rep_content :: string

text \<open>What a handler leaves behind: the reply it completes with, or the message of the exception with which
  its future fails. No middleware of the chain catches one.\<close>

type_synonym http_result = "string + reply"
type_synonym handler = "string \<Rightarrow> request \<Rightarrow> reply \<Rightarrow> http_result"

definition ok_reply :: "string \<Rightarrow> reply" where
  "ok_reply body = \<lparr>rep_status = 200, rep_headers = [(''Content-Type'', ''application/json'')], rep_content = body\<rparr>"

fun hdr_get :: "(string \<Rightarrow> string \<Rightarrow> bool) \<Rightarrow> headers \<Rightarrow> string \<Rightarrow> string option" where
  "hdr_get same [] k = None"
| "hdr_get same ((k', v) # hs) k = (if same k' k then Some v else hdr_get same hs k)"

text \<open>\<open>headers[k] = v\<close>: an existing entry keeps its spelling.\<close>

fun hdr_put :: "(string \<Rightarrow> string \<Rightarrow> bool) \<Rightarrow> string \<Rightarrow> string \<Rightarrow> headers \<Rightarrow> headers" where
  "hdr_put same k v [] = [(k, v)]"
| "hdr_put same k v ((k', w) # hs) =
     (if same k' k then (k', v) # hs else (k', w) # hdr_put same k v hs)"

definition hdr_erase :: "(string \<Rightarrow> string \<Rightarrow> bool) \<Rightarrow> string \<Rightarrow> headers \<Rightarrow> headers" where
  "hdr_erase same k hs = filter (\<lambda>(k', v). \<not> same k' k) hs"

text \<open>What the code relies on: a name equals itself, and equal names differ in case at most.\<close>

definition header_names :: "(string \<Rightarrow> string \<Rightarrow> bool) \<Rightarrow> bool" where
  "header_names same \<longleftrightarrow> (\<forall>a. same a a) \<and> (\<forall>a b. same a b \<longrightarrow> iequals a b)"

lemma header_names_iequals: "header_names iequals"
  by (simp add: header_names_def iequals_def)

section \<open>The subject and the context\<close>

definition from_header_case :: "string \<Rightarrow> string" where
  "from_header_case part = map (\<lambda>c. if c = CHR ''-'' then CHR ''_'' else char_lower c) part"

definition starts_with_ci :: "string \<Rightarrow> string \<Rightarrow> bool" where
  "starts_with_ci s prefix =
     (if length s < length prefix then False
      else str_lower (take (length prefix) s) = str_lower prefix)"

definition crud_op_to_string :: "crud_operation \<Rightarrow> string" where
  "crud_op_to_string oper =
     (case oper of List \<Rightarrow> ''list'' | GetById \<Rightarrow> ''get_by_id'' | Create \<Rightarrow> ''create''
      | Update \<Rightarrow> ''update'' | Delete \<Rightarrow> ''delete'')"

definition is_user_header :: "string \<Rightarrow> bool" where
  "is_user_header k = starts_with_ci k ''x-user-''"

text \<open>One iteration of the loop over the headers.\<close>

definition subject_header :: "string \<times> string \<Rightarrow> policy_subject \<Rightarrow> policy_subject" where
  "subject_header h subject =
     (case h of (k, v) \<Rightarrow>
        if \<not> is_user_header k then subject
        else let attr_name = from_header_case (drop 7 k) in
          if attr_name = ''id'' then subject\<lparr>subj_id := v\<rparr>
          else if attr_name = ''email'' then subject\<lparr>subj_email := v\<rparr>
          else if attr_name = ''role'' then subject\<lparr>subj_roles := subj_roles subject @ [v]\<rparr>
          else subject\<lparr>subj_attributes := tbl_put attr_name v (subj_attributes subject)\<rparr>)"

definition build_subject_from_headers :: "headers \<Rightarrow> policy_subject" where
  "build_subject_from_headers hs = fold subject_header hs empty_subject"

definition build_context ::
  "(string \<Rightarrow> string \<Rightarrow> bool) \<Rightarrow> int \<Rightarrow> request \<Rightarrow> string \<Rightarrow> policy_context" where
  "build_context same now req p =
     \<lparr>ctx_method = req_method req, ctx_path = p,
      ctx_ip = (case hdr_get same (req_headers req) ''X-Forwarded-For'' of None \<Rightarrow> [] | Some v \<Rightarrow> v),
      ctx_now = now, ctx_attributes = []\<rparr>"

section \<open>One check\<close>

definition resolve_abac_mode :: "access_control_config \<Rightarrow> entity_access_control \<Rightarrow> abac_mode" where
  "resolve_abac_mode cfg ac = (case abac_mode_override ac of Some m \<Rightarrow> m | None \<Rightarrow> abac_mode cfg)"

definition make_forbidden_response ::
  "(string \<Rightarrow> string \<Rightarrow> bool) \<Rightarrow> (json \<Rightarrow> string) \<Rightarrow> reply \<Rightarrow> string \<Rightarrow> reply" where
  "make_forbidden_response same dump rep why =
     \<lparr>rep_status = 403, rep_headers = hdr_put same ''Content-Type'' ''application/json'' (rep_headers rep),
      rep_content = dump (JObject [(''error'', JString ''Forbidden''), (''message'', JString why)])\<rparr>"

definition is_admin_bypass :: "access_control_config \<Rightarrow> policy_subject \<Rightarrow> bool" where
  "is_admin_bypass cfg subject =
     (if \<not> default_allow_admin cfg then False
      else if admin_role cfg = [] then False
      else list_ex (\<lambda>r. r = admin_role cfg) (subj_roles subject))"

datatype check_outcome = CheckAllow | CheckDeny | CheckPass

definition evaluate_single_check ::
  "operator_registry \<Rightarrow> schema \<Rightarrow> access_control_config \<Rightarrow> policy_subject \<Rightarrow> policy_context
   \<Rightarrow> authorization_check \<Rightarrow> check_outcome \<times> string" where
  "evaluate_single_check reg s cfg subject context chk =
     (case find_entity s (ck_entity chk) of
        None \<Rightarrow> (CheckDeny, ''Entity '' @ quoted (ck_entity chk) @ '' not found'')
      | Some e \<Rightarrow>
          (case find_spec (e_access_control e) (ck_operation chk) of
             None \<Rightarrow>
               if default_policy cfg = DenyAll then
                 (CheckDeny, ''No access control rule defined for '' @ ck_description chk
                    @ '' (default_policy=deny)'')
               else (CheckAllow, [])
           | Some sp \<Rightarrow>
               let result = evaluate_subject_only reg (spec_condition sp) subject context pre_handler_options in
               if \<not> allowed result then
                 (CheckDeny, ck_description chk @ '' : '' @
                    (case reason result of Some w \<Rightarrow> w | None \<Rightarrow> ''subject does not satisfy the policy''))
               else if requires_resource sp then
                 (if resolve_abac_mode cfg (e_access_control e) = AbacStrict then
                    (CheckDeny, ck_description chk @ '' : strict ABAC mode blocks resource-aware rules'')
                  else (CheckPass, []))
               else (CheckAllow, [])))"

text \<open>All the checks are evaluated; the first refusal is kept.\<close>

fun checks_loop ::
  "(authorization_check \<Rightarrow> check_outcome \<times> string) \<Rightarrow> authorization_check list \<Rightarrow> string option \<Rightarrow> string option" where
  "checks_loop eval [] first_deny_reason = first_deny_reason"
| "checks_loop eval (chk # rest) first_deny_reason =
     (case eval chk of
        (CheckAllow, _) \<Rightarrow> checks_loop eval rest first_deny_reason
      | (CheckPass, _) \<Rightarrow> checks_loop eval rest first_deny_reason
      | (CheckDeny, why) \<Rightarrow>
          checks_loop eval rest
            (case first_deny_reason of None \<Rightarrow> Some why | Some w \<Rightarrow> Some w))"

section \<open>The handler\<close>

definition authz_handle ::
  "(string \<Rightarrow> string \<Rightarrow> bool) \<Rightarrow> (json \<Rightarrow> string) \<Rightarrow> int \<Rightarrow> operator_registry \<Rightarrow> schema
   \<Rightarrow> access_control_config \<Rightarrow> handler \<Rightarrow> handler" where
  "authz_handle same dump now reg s cfg inner p req rep =
     (let real_path = (if req_url req \<noteq> [] then req_url req else p);
          plan = resolve_route s (req_method req) real_path
      in if unknown_route plan then inner p req rep
         else if plan_checks plan = [] then inner p req rep
         else let subject = build_subject_from_headers (req_headers req);
                  context = build_context same now req real_path
           in if is_admin_bypass cfg subject then inner p req rep
              else case checks_loop (evaluate_single_check reg s cfg subject context) (plan_checks plan) None of
                Some why \<Rightarrow> Inr (make_forbidden_response same dump rep why)
              | None \<Rightarrow> inner p req rep)"

definition apply_authorization ::
  "(string \<Rightarrow> string \<Rightarrow> bool) \<Rightarrow> (json \<Rightarrow> string) \<Rightarrow> int \<Rightarrow> operator_registry \<Rightarrow> schema
   \<Rightarrow> access_control_config \<Rightarrow> handler \<Rightarrow> handler" where
  "apply_authorization same dump now reg s cfg handler =
     (if \<not> enabled cfg then handler else authz_handle same dump now reg s cfg handler)"

section \<open>Reference definition of a granted check\<close>

text \<open>
  What a check promises: the entity exists, its rule holds of the subject with the predicates on
  the resource taken as true, and such predicates occur in permissive mode only; without a rule
  the default policy decides.
\<close>

definition check_granted ::
  "operator_registry \<Rightarrow> schema \<Rightarrow> access_control_config \<Rightarrow> policy_subject \<Rightarrow> policy_context
   \<Rightarrow> authorization_check \<Rightarrow> bool" where
  "check_granted reg s cfg subject context chk =
     (case find_entity s (ck_entity chk) of
        None \<Rightarrow> False
      | Some e \<Rightarrow>
          (case find_spec (e_access_control e) (ck_operation chk) of
             None \<Rightarrow> default_policy cfg = AllowAll
           | Some sp \<Rightarrow>
               holds (relaxed (predicate_holds reg Permissive subject empty_resource context)) (spec_condition sp)
               \<and> (condition_uses_resource (spec_condition sp) \<longrightarrow>
                    resolve_abac_mode cfg (e_access_control e) = AbacPermissive)))"

section \<open>Lemmas\<close>

lemma abac_mode_not_strict: "m \<noteq> AbacStrict \<longleftrightarrow> m = AbacPermissive"
  by (cases m) simp_all

lemma default_policy_not_deny: "d \<noteq> DenyAll \<longleftrightarrow> d = AllowAll"
  by (cases d) simp_all

lemma evaluate_single_check_granted:
  "fst (evaluate_single_check reg s cfg subject context chk) \<noteq> CheckDeny
   \<longleftrightarrow> check_granted reg s cfg subject context chk"
  by (auto simp: evaluate_single_check_def check_granted_def Let_def evaluate_subject_only_allowed
      requires_resource_def abac_mode_not_strict default_policy_not_deny split: option.splits)

lemma checks_loop_None:
  "checks_loop eval cs d = None \<longleftrightarrow> d = None \<and> (\<forall>c \<in> set cs. fst (eval c) \<noteq> CheckDeny)"
  by (induction cs arbitrary: d) (auto split: prod.splits check_outcome.splits option.splits)

lemma checks_loop_reason:
  "checks_loop eval cs None = map_option (\<lambda>c. snd (eval c)) (find (\<lambda>c. fst (eval c) = CheckDeny) cs)"
proof -
  have keep: "checks_loop eval cs (Some w) = Some w" for cs w
    by (induction cs) (auto split: prod.splits check_outcome.splits)
  show ?thesis
    by (induction cs) (auto simp: keep split: prod.splits check_outcome.splits)
qed

lemma is_admin_bypass_iff:
  "is_admin_bypass cfg subject \<longleftrightarrow>
     default_allow_admin cfg \<and> admin_role cfg \<noteq> [] \<and> has_role subject (admin_role cfg)"
  by (auto simp: is_admin_bypass_def has_role_def role_loop_iff list_ex_iff)

lemma authz_handle_decision:
  assumes "req_url req \<noteq> []"
  shows "authz_handle same dump now reg s cfg inner p req rep =
    (let plan = resolve_route s (req_method req) (req_url req);
         subject = build_subject_from_headers (req_headers req);
         ctx = build_context same now req (req_url req)
     in if unknown_route plan \<or> is_admin_bypass cfg subject
            \<or> list_all (check_granted reg s cfg subject ctx) (plan_checks plan)
        then inner p req rep
        else Inr (make_forbidden_response same dump rep
          (snd (evaluate_single_check reg s cfg subject ctx
             (the (find (\<lambda>c. \<not> check_granted reg s cfg subject ctx c) (plan_checks plan)))))))"
proof -
  let ?plan = "resolve_route s (req_method req) (req_url req)"
  let ?subject = "build_subject_from_headers (req_headers req)"
  let ?ctx = "build_context same now req (req_url req)"
  let ?eval = "evaluate_single_check reg s cfg ?subject ?ctx"
  have find: "find (\<lambda>c. fst (?eval c) = CheckDeny) cs =
      find (\<lambda>c. \<not> check_granted reg s cfg ?subject ?ctx c) cs" for cs
    using evaluate_single_check_granted by metis
  have granted: "list_all (check_granted reg s cfg ?subject ?ctx) cs \<longleftrightarrow>
      find (\<lambda>c. \<not> check_granted reg s cfg ?subject ?ctx c) cs = None" for cs
    by (auto simp: list_all_iff find_None_iff)
  show ?thesis
    using assms
    by (auto simp: authz_handle_def Let_def checks_loop_reason find granted split: option.splits)
qed

end
