(* ===== verification/Protected_Handler.thy ===== *)
theory Protected_Handler
  imports Authz_Middleware Cookie_Helper
begin

text \<open>
  \<open>ProtectedHandler\<close>
  (\<open>apps/Backend_Seastar/src/http/handlers/auth_handlers/protected_handler.cpp\<close>), the layer that
  authenticates a request and replaces its \<open>X-User-*\<close> headers with the claims of the token,
  with \<open>extract_bearer_token\<close> (\<open>utils/http_utils.cpp\<close>) and \<open>AuthService::verify_token\<close>
  (\<open>libs/application/authservice.cpp\<close>).

  Arguments: \<open>jwt_verify\<close>, the verification of a signed access token by the JWT library;
  \<open>is_revoked\<close>, the answer of the token tracking service for the identifier of a token, and
  whether that service is enabled; \<open>dump\<close>, the text of a JSON value; \<open>inner\<close>, the handler behind.
\<close>

section \<open>Tokens and claims\<close>

record auth_user_claims =
  cl_user_id :: string
  cl_email :: string
  cl_role :: string
  cl_additional :: "(string, string) table"

record jwt_claims =
  jwt_user_id :: string
  jwt_email :: string
  jwt_role :: string
  jwt_jti :: string
  jwt_additional :: "(string, string) table"

definition verify_token :: "(string \<Rightarrow> jwt_claims option) \<Rightarrow> string \<Rightarrow> auth_user_claims option" where
  "verify_token jwt_verify token =
     (case jwt_verify token of
        None \<Rightarrow> None
      | Some c \<Rightarrow> Some \<lparr>cl_user_id = jwt_user_id c, cl_email = jwt_email c, cl_role = jwt_role c,
                        cl_additional = jwt_additional c\<rparr>)"

definition extract_bearer_token :: "(string \<Rightarrow> string \<Rightarrow> bool) \<Rightarrow> request \<Rightarrow> string option" where
  "extract_bearer_token same req =
     (let auth_header = (case hdr_get same (req_headers req) ''Authorization'' of None \<Rightarrow> [] | Some v \<Rightarrow> v) in
      if auth_header = [] then None
      else if \<not> starts_with auth_header ''Bearer '' then None
      else Some (drop 7 auth_header))"

definition extract_access_token :: "(string \<Rightarrow> string \<Rightarrow> bool) \<Rightarrow> request \<Rightarrow> string \<Rightarrow> string option" where
  "extract_access_token same req cookie_name =
     (case extract_bearer_token same req of
        Some tok \<Rightarrow> Some tok
      | None \<Rightarrow>
          (case hdr_get same (req_headers req) ''Cookie'' of
             None \<Rightarrow> None
           | Some header \<Rightarrow>
               (case get_cookie_value header cookie_name of
                  None \<Rightarrow> None
                | Some v \<Rightarrow> if v \<noteq> [] then Some v else None)))"

section \<open>The user headers\<close>

text \<open>The keys that start with \<open>x-user-\<close> in any case are collected, then erased one by one.\<close>

definition strip_user_headers :: "(string \<Rightarrow> string \<Rightarrow> bool) \<Rightarrow> headers \<Rightarrow> headers" where
  "strip_user_headers same hs =
     fold (hdr_erase same) (filter is_user_header (map fst hs)) hs"

fun header_case_loop :: "string \<Rightarrow> bool \<Rightarrow> string" where
  "header_case_loop [] capitalize_next = []"
| "header_case_loop (c # cs) capitalize_next =
     (if c = CHR ''_'' \<or> c = CHR ''-'' then CHR ''-'' # header_case_loop cs True
      else if capitalize_next then char_upper c # header_case_loop cs False
      else c # header_case_loop cs capitalize_next)"

definition to_header_case :: "string \<Rightarrow> string" where
  "to_header_case claim_name = header_case_loop claim_name True"

definition put_if_nonempty ::
  "(string \<Rightarrow> string \<Rightarrow> bool) \<Rightarrow> string \<Rightarrow> string \<Rightarrow> headers \<Rightarrow> headers" where
  "put_if_nonempty same k v hs = (if v \<noteq> [] then hdr_put same k v hs else hs)"

definition inject_claims_as_headers ::
  "(string \<Rightarrow> string \<Rightarrow> bool) \<Rightarrow> auth_user_claims \<Rightarrow> headers \<Rightarrow> headers" where
  "inject_claims_as_headers same claims hs =
     (let hs1 = put_if_nonempty same ''X-User-Id'' (cl_user_id claims) hs;
          hs2 = put_if_nonempty same ''X-User-Email'' (cl_email claims) hs1;
          hs3 = put_if_nonempty same ''X-User-Role'' (cl_role claims) hs2
      in fold (\<lambda>(key, v) h. if key = [] \<or> v = [] then h
                             else hdr_put same (''X-User-'' @ to_header_case key) v h)
           (cl_additional claims) hs3)"

section \<open>The handler\<close>

text \<open>\<open>make_error_reply\<close>: a fresh reply with the error in a JSON body.\<close>

definition make_error_reply :: "(json \<Rightarrow> string) \<Rightarrow> nat \<Rightarrow> string \<Rightarrow> string \<Rightarrow> reply" where
  "make_error_reply dump status code message =
     \<lparr>rep_status = status, rep_headers = [(''Content-Type'', ''application/json'')],
      rep_content = dump (JObject [(''error'', JObject [(''code'', JString code), (''message'', JString message)]),
        (''success'', JBool False)])\<rparr>"

definition unauthorized :: "(json \<Rightarrow> string) \<Rightarrow> string \<Rightarrow> reply" where
  "unauthorized dump message = make_error_reply dump 401 ''AUTHENTICATION_ERROR'' message"

definition protected_handle ::
  "(string \<Rightarrow> string \<Rightarrow> bool) \<Rightarrow> (json \<Rightarrow> string) \<Rightarrow> (string \<Rightarrow> jwt_claims option) \<Rightarrow> bool
   \<Rightarrow> (string \<Rightarrow> bool) \<Rightarrow> cookie_config \<Rightarrow> handler \<Rightarrow> handler" where
  "protected_handle same dump jwt_verify tracking is_revoked cookies inner p req rep =
     (case extract_access_token same req (access_token_name cookies) of
        None \<Rightarrow> Inr (unauthorized dump ''Token manquant.'')
      | Some token \<Rightarrow>
          if token = [] then Inr (unauthorized dump ''Token manquant.'')
          else case verify_token jwt_verify token of
            None \<Rightarrow> Inr (unauthorized dump ''Token invalide.'')
          | Some claims \<Rightarrow>
              if tracking \<and> (case jwt_verify token of None \<Rightarrow> False
                             | Some raw \<Rightarrow> jwt_jti raw \<noteq> [] \<and> is_revoked (jwt_jti raw))
              then Inr (unauthorized dump ''Token revoque.'')
              else inner p
                (req\<lparr>req_headers :=
                   inject_claims_as_headers same claims (strip_user_headers same (req_headers req))\<rparr>) rep)"

definition maybe_protect ::
  "(string \<Rightarrow> string \<Rightarrow> bool) \<Rightarrow> (json \<Rightarrow> string) \<Rightarrow> (string \<Rightarrow> jwt_claims option) \<Rightarrow> bool
   \<Rightarrow> (string \<Rightarrow> bool) \<Rightarrow> cookie_config \<Rightarrow> bool \<Rightarrow> handler \<Rightarrow> handler" where
  "maybe_protect same dump jwt_verify tracking is_revoked cookies requires_auth handler =
     (if \<not> requires_auth then handler
      else protected_handle same dump jwt_verify tracking is_revoked cookies handler)"

section \<open>Lemmas\<close>

lemma starts_with_ci_iff:
  "starts_with_ci s p \<longleftrightarrow> (\<exists>u r. s = u @ r \<and> str_lower u = str_lower p)"
proof
  assume "starts_with_ci s p"
  then show "\<exists>u r. s = u @ r \<and> str_lower u = str_lower p"
    unfolding starts_with_ci_def by (metis append_take_drop_id)
next
  assume "\<exists>u r. s = u @ r \<and> str_lower u = str_lower p"
  then obtain u r where "s = u @ r" "str_lower u = str_lower p" by blast
  moreover from this(2) have "length u = length p" by (metis length_str_lower)
  ultimately show "starts_with_ci s p" by (simp add: starts_with_ci_def)
qed

lemma is_user_header_prefix: "is_user_header (''X-User-'' @ s)"
proof -
  have "str_lower ''X-User-'' = str_lower ''x-user-''" by code_simp
  then show ?thesis unfolding is_user_header_def starts_with_ci_iff by blast
qed

lemma is_user_header_iequals: "iequals a b \<Longrightarrow> is_user_header a = is_user_header b"
proof -
  assume "iequals a b"
  then have "str_lower (take n a) = str_lower (take n b)" for n
    by (metis iequals_def str_lower_def take_map)
  moreover have "length a = length b" using \<open>iequals a b\<close> by (metis iequals_def length_str_lower)
  ultimately show ?thesis by (simp add: is_user_header_def starts_with_ci_def)
qed

lemma header_namesD:
  "header_names same \<Longrightarrow> same a a"
  "header_names same \<Longrightarrow> same a b \<Longrightarrow> is_user_header a = is_user_header b"
  using is_user_header_iequals by (auto simp: header_names_def)

lemma fold_erase_filter:
  "fold (hdr_erase same) ks hs = filter (\<lambda>(k', v). \<not> (\<exists>k \<in> set ks. same k' k)) hs"
  by (induction ks arbitrary: hs) (auto simp: hdr_erase_def intro!: filter_cong)

lemma strip_user_headers_filter:
  assumes "header_names same"
  shows "strip_user_headers same hs = filter (\<lambda>(k, v). \<not> is_user_header k) hs"
proof -
  have "(\<exists>k' \<in> set (filter is_user_header (map fst hs)). same k k') \<longleftrightarrow> is_user_header k"
    if "(k, v) \<in> set hs" for k v
  proof
    assume "\<exists>k' \<in> set (filter is_user_header (map fst hs)). same k k'"
    then show "is_user_header k" using header_namesD(2) [OF assms] by auto
  next
    assume "is_user_header k"
    moreover have "k \<in> fst ` set hs" using that by force
    ultimately show "\<exists>k' \<in> set (filter is_user_header (map fst hs)). same k k'"
      using header_namesD(1) [OF assms, of k] by auto
  qed
  then show ?thesis
    unfolding strip_user_headers_def fold_erase_filter by (intro filter_cong refl) (clarsimp, blast)
qed

lemma hdr_put_user:
  assumes "header_names same" and "is_user_header k" and "list_all (\<lambda>(k', v). \<not> is_user_header k') hs"
  shows "hdr_put same k v (hs @ us) = hs @ hdr_put same k v us"
  using assms(3) header_namesD(2) [OF assms(1), of _ k] assms(2) by (induction hs) auto

lemma inject_after_others:
  assumes "header_names same" and "list_all (\<lambda>(k', v). \<not> is_user_header k') hs"
  shows "inject_claims_as_headers same claims hs = hs @ inject_claims_as_headers same claims []"
proof -
  note put = hdr_put_user [OF assms(1) is_user_header_prefix assms(2)]
  have named: "hdr_put same ''X-User-Id'' v (hs @ us) = hs @ hdr_put same ''X-User-Id'' v us"
    "hdr_put same ''X-User-Email'' v (hs @ us) = hs @ hdr_put same ''X-User-Email'' v us"
    "hdr_put same ''X-User-Role'' v (hs @ us) = hs @ hdr_put same ''X-User-Role'' v us" for v us
    using put [of "''Id''"] put [of "''Email''"] put [of "''Role''"] by simp_all
  have step: "put_if_nonempty same ''X-User-Id'' v (hs @ us) = hs @ put_if_nonempty same ''X-User-Id'' v us"
    "put_if_nonempty same ''X-User-Email'' v (hs @ us) = hs @ put_if_nonempty same ''X-User-Email'' v us"
    "put_if_nonempty same ''X-User-Role'' v (hs @ us) = hs @ put_if_nonempty same ''X-User-Role'' v us" for v us
    by (simp_all add: put_if_nonempty_def named)
  define add where "add = (\<lambda>(key, v) h. if key = [] \<or> v = [] then h
      else hdr_put same (''X-User-'' @ to_header_case key) v h)"
  have rest: "fold add extra (hs @ us) = hs @ fold add extra us" for extra us
  proof (induction extra arbitrary: us)
    case (Cons c extra)
    have "add c (hs @ us) = hs @ add c us" by (cases c) (simp only: add_def put prod.case split: if_split; simp)
    with Cons show ?case by simp
  qed simp
  show ?thesis
    using step(1) [of "cl_user_id claims" "[]"]
    by (simp only: inject_claims_as_headers_def Let_def append_Nil2 step rest add_def [symmetric])
qed

lemma subject_header_other: "\<not> is_user_header (fst h) \<Longrightarrow> subject_header h s = s"
  by (cases h) (simp add: subject_header_def)

lemma build_subject_filter:
  "fold subject_header hs s = fold subject_header (filter (\<lambda>(k, v). is_user_header k) hs) s"
  using subject_header_other by (induction hs arbitrary: s) auto

lemma hdr_put_all_user:
  "is_user_header k \<Longrightarrow> list_all (\<lambda>(k', v). is_user_header k') us \<Longrightarrow>
   list_all (\<lambda>(k', v). is_user_header k') (hdr_put same k v us)"
  by (induction us) auto

lemma inject_all_user: "list_all (\<lambda>(k', v). is_user_header k') (inject_claims_as_headers same claims [])"
proof -
  have names: "is_user_header ''X-User-Id''" "is_user_header ''X-User-Email''" "is_user_header ''X-User-Role''"
    using is_user_header_prefix [of "''Id''"] is_user_header_prefix [of "''Email''"]
      is_user_header_prefix [of "''Role''"] by simp_all
  define ok where "ok us = list_all (\<lambda>(k', v). is_user_header k') (us :: headers)" for us
  have put: "ok us \<Longrightarrow> is_user_header k \<Longrightarrow> ok (put_if_nonempty same k v us)"
    "ok us \<Longrightarrow> is_user_header k \<Longrightarrow> ok (hdr_put same k v us)" for us k v
    unfolding ok_def put_if_nonempty_def using hdr_put_all_user by auto
  have rest: "ok us \<Longrightarrow> ok (fold (\<lambda>(key, v) h. if key = [] \<or> v = [] then h
      else hdr_put same (''X-User-'' @ to_header_case key) v h) extra us)" for extra us
  proof (induction extra arbitrary: us)
    case (Cons c extra)
    have "ok (case c of (key, v) \<Rightarrow> if key = [] \<or> v = [] then us
      else hdr_put same (''X-User-'' @ to_header_case key) v us)"
      using put(2) [OF Cons(2) is_user_header_prefix] Cons(2) by (cases c) simp
    with Cons(1) show ?case by (cases c) simp
  qed simp
  have "ok []" by (simp add: ok_def)
  then show ?thesis
    unfolding inject_claims_as_headers_def Let_def ok_def [symmetric]
    by (intro rest put(1) names)
qed

text \<open>The request a client would have sent without any \<open>X-User-*\<close> header.\<close>

definition without_user_headers :: "request \<Rightarrow> request" where
  "without_user_headers req = req\<lparr>req_headers := filter (\<lambda>(k, v). \<not> is_user_header k) (req_headers req)\<rparr>"

lemma hdr_get_without_user:
  assumes "header_names same" and "\<not> is_user_header k"
  shows "hdr_get same (filter (\<lambda>(k, v). \<not> is_user_header k) hs) k = hdr_get same hs k"
  using header_namesD(2) [OF assms(1), of _ k] assms(2) by (induction hs) (auto split: if_splits)

lemma not_user_names:
  "\<not> is_user_header ''Authorization''" "\<not> is_user_header ''Cookie''" "\<not> is_user_header ''X-Forwarded-For''"
  by code_simp+

lemma extract_access_token_without_user:
  "header_names same \<Longrightarrow> extract_access_token same (without_user_headers req) n = extract_access_token same req n"
proof -
  assume "header_names same"
  then have eqs: "hdr_get same (req_headers (without_user_headers req)) ''Authorization'' = hdr_get same (req_headers req) ''Authorization''"
    "hdr_get same (req_headers (without_user_headers req)) ''Cookie'' = hdr_get same (req_headers req) ''Cookie''"
    by (simp_all add: without_user_headers_def hdr_get_without_user not_user_names)
  show ?thesis unfolding extract_access_token_def extract_bearer_token_def eqs by (rule refl)
qed

lemma strip_without_user:
  "header_names same \<Longrightarrow>
   strip_user_headers same (req_headers (without_user_headers req)) = strip_user_headers same (req_headers req)"
  by (simp add: strip_user_headers_filter without_user_headers_def split_def)

lemma without_user_update: "(without_user_headers req)\<lparr>req_headers := hs\<rparr> = req\<lparr>req_headers := hs\<rparr>"
  by (simp add: without_user_headers_def)

lemma protected_handle_without_user:
  "header_names same \<Longrightarrow>
   protected_handle same dump jwt_verify tracking is_revoked cookies inner p (without_user_headers req) rep =
   protected_handle same dump jwt_verify tracking is_revoked cookies inner p req rep"
  unfolding protected_handle_def extract_access_token_without_user strip_without_user without_user_update
  by (rule refl)

lemma subject_from_claims:
  assumes "header_names same"
  shows "build_subject_from_headers (inject_claims_as_headers same claims (strip_user_headers same hs)) =
    build_subject_from_headers (inject_claims_as_headers same claims [])"
proof -
  let ?others = "strip_user_headers same hs"
  have others: "list_all (\<lambda>(k, v). \<not> is_user_header k) ?others"
    unfolding strip_user_headers_filter [OF assms] by (auto simp: list_all_iff)
  have none: "filter (\<lambda>(k, v). is_user_header k) ?others = []"
    using others by (auto simp: list_all_iff filter_empty_conv)
  show ?thesis
    unfolding build_subject_from_headers_def inject_after_others [OF assms others]
    using build_subject_filter [of "?others @ inject_claims_as_headers same claims []"]
      build_subject_filter [of "inject_claims_as_headers same claims []"]
    by (simp add: none)
qed

end
