(* ===== verification/Resource_Authz.thy ===== *)
theory Resource_Authz
  imports Protected_Handler Json_Writer
begin

text \<open>
  \<open>ResourceAuthorizationHelper\<close>
  (\<open>apps/Backend_Seastar/src/http/handlers/access_control/resource_authorization_helper.cpp\<close>),
  which the handlers call once the record is loaded, and the handlers of \<open>GET /<entity>s\<close> and
  \<open>GET /<entity>s/{id}\<close> that use it. The helper repeats the text of the functions that build the
  subject and the context; they are those of \<open>Authz_Middleware\<close>. The JSON parser (\<open>parse\<close>) and
  printer (\<open>dump\<close>) are arguments.
\<close>

section \<open>The resource of a rule\<close>

definition json_value_to_string :: "(json \<Rightarrow> string) \<Rightarrow> json \<Rightarrow> string" where
  "json_value_to_string dump v =
     (case v of
        JNull \<Rightarrow> []
      | JString s \<Rightarrow> s
      | JInt w \<Rightarrow> int_str (sint w)
      | JUint w \<Rightarrow> int_str (sint w)
      | JFloat d \<Rightarrow> dbl_str d
      | JBool b \<Rightarrow> (if b then ''true'' else ''false'')
      | _ \<Rightarrow> dump v)"

definition resource_member ::
  "(json \<Rightarrow> string) \<Rightarrow> string \<times> json \<Rightarrow> policy_resource \<Rightarrow> policy_resource" where
  "resource_member dump m resource =
     (case m of (key, v) \<Rightarrow>
        if key = ''id'' then resource
        else if key = ''password'' then resource
        else resource\<lparr>res_attributes := tbl_put key (json_value_to_string dump v) (res_attributes resource)\<rparr>)"

definition build_resource_from_json :: "(json \<Rightarrow> string) \<Rightarrow> string \<Rightarrow> json \<Rightarrow> policy_resource" where
  "build_resource_from_json dump entity_name rec =
     (let resource = empty_resource\<lparr>res_entity_name := entity_name\<rparr> in
      case rec of
        JObject members \<Rightarrow>
          let resource1 =
            (case map_of members ''id'' of
               None \<Rightarrow> resource
             | Some v \<Rightarrow> if v = JNull then resource
                         else resource\<lparr>res_id := json_value_to_string dump v\<rparr>)
          in fold (resource_member dump) members resource1
      | _ \<Rightarrow> resource)"

section \<open>The checks\<close>

text \<open>The helper holds the engine, the schema and the configuration, whose pointer may be null in \<open>is_admin_bypass\<close> only.\<close>

definition check_single ::
  "(string \<Rightarrow> string + json) \<Rightarrow> (json \<Rightarrow> string) \<Rightarrow> operator_registry \<Rightarrow> schema \<Rightarrow> access_control_config
   \<Rightarrow> string \<Rightarrow> crud_operation \<Rightarrow> policy_subject \<Rightarrow> string \<Rightarrow> policy_context \<Rightarrow> bool \<times> string" where
  "check_single parse dump reg s cfg entity_name oper subject record_json context =
     (if is_admin_bypass cfg subject then (True, [])
      else case find_entity s entity_name of
        None \<Rightarrow> (False, ''Entity '' @ quoted entity_name @ '' not found'')
      | Some e \<Rightarrow>
          (case find_spec (e_access_control e) oper of
             None \<Rightarrow>
               if default_policy cfg = DenyAll then
                 (False, ''No access control rule defined for '' @ entity_name @ ''.''
                    @ crud_op_to_string oper @ '' (default_policy=deny)'')
               else (True, [])
           | Some sp \<Rightarrow>
               if \<not> requires_resource sp then
                 (let result = evaluate_subject_only reg (spec_condition sp) subject context pre_handler_options in
                  if \<not> allowed result then
                    (False, entity_name @ ''.'' @ crud_op_to_string oper @ '' : ''
                       @ (case reason result of Some w \<Rightarrow> w | None \<Rightarrow> ''subject does not satisfy the policy''))
                  else (True, []))
               else case parse record_json of
                 Inl what \<Rightarrow> (False, ''Failed to parse resource JSON: '' @ what)
               | Inr rec \<Rightarrow>
                   (let resource = build_resource_from_json dump entity_name rec;
                        result = evaluate reg (spec_condition sp) subject resource context production_options in
                    if \<not> allowed result then
                      (False, entity_name @ ''.'' @ crud_op_to_string oper @ '' : ''
                         @ (case reason result of Some w \<Rightarrow> w | None \<Rightarrow> ''subject does not satisfy the policy''))
                    else (True, []))))"

definition record_allowed ::
  "(json \<Rightarrow> string) \<Rightarrow> operator_registry \<Rightarrow> access_control_spec \<Rightarrow> string \<Rightarrow> policy_subject \<Rightarrow> policy_context
   \<Rightarrow> json \<Rightarrow> bool" where
  "record_allowed dump reg sp entity_name subject context rec =
     allowed (evaluate reg (spec_condition sp) subject (build_resource_from_json dump entity_name rec)
       context production_options)"

definition filter_collection ::
  "(string \<Rightarrow> string + json) \<Rightarrow> (json \<Rightarrow> string) \<Rightarrow> operator_registry \<Rightarrow> schema \<Rightarrow> access_control_config
   \<Rightarrow> string \<Rightarrow> crud_operation \<Rightarrow> policy_subject \<Rightarrow> string \<Rightarrow> policy_context \<Rightarrow> string" where
  "filter_collection parse dump reg s cfg entity_name oper subject records_json context =
     (if is_admin_bypass cfg subject then records_json
      else case find_entity s entity_name of
        None \<Rightarrow> records_json
      | Some e \<Rightarrow>
          (case find_spec (e_access_control e) oper of
             None \<Rightarrow> records_json
           | Some sp \<Rightarrow>
               if \<not> requires_resource sp then records_json
               else case parse records_json of
                 Inl what \<Rightarrow> records_json
               | Inr (JArray records) \<Rightarrow>
                   dump (JArray (filter (record_allowed dump reg sp entity_name subject context) records))
               | Inr _ \<Rightarrow> records_json))"

section \<open>The handlers of reads\<close>

text \<open>
  The handler of \<open>GET /<entity>s\<close> on the records the engine listed, and the handler of
  \<open>GET /<entity>s/{id}\<close> on the record the engine found.
\<close>

definition list_handle ::
  "(string \<Rightarrow> string \<Rightarrow> bool) \<Rightarrow> (string \<Rightarrow> string + json) \<Rightarrow> (json \<Rightarrow> string) \<Rightarrow> (double \<Rightarrow> string) \<Rightarrow> int
   \<Rightarrow> operator_registry \<Rightarrow> schema \<Rightarrow> access_control_config \<Rightarrow> bool \<Rightarrow> string \<Rightarrow> dynamic_record list
   \<Rightarrow> string \<Rightarrow> request \<Rightarrow> reply \<Rightarrow> reply" where
  "list_handle same parse dump dbl_text now reg s cfg has_helper entity_name records p req rep =
     (let text = records_to_json dbl_text records;
          final =
            (if has_helper then
               filter_collection parse dump reg s cfg entity_name List
                 (build_subject_from_headers (req_headers req)) text (build_context same now req (req_url req))
             else text)
      in rep\<lparr>rep_status := 200,
             rep_headers := hdr_put same ''Content-Type'' ''application/json'' (rep_headers rep),
             rep_content := final\<rparr>)"

definition get_by_id_handle ::
  "(string \<Rightarrow> string \<Rightarrow> bool) \<Rightarrow> (string \<Rightarrow> string + json) \<Rightarrow> (json \<Rightarrow> string) \<Rightarrow> (double \<Rightarrow> string) \<Rightarrow> int
   \<Rightarrow> operator_registry \<Rightarrow> schema \<Rightarrow> access_control_config \<Rightarrow> bool \<Rightarrow> string
   \<Rightarrow> (string \<Rightarrow> dynamic_record option) \<Rightarrow> string \<Rightarrow> string \<Rightarrow> request \<Rightarrow> reply \<Rightarrow> reply" where
  "get_by_id_handle same parse dump dbl_text now reg s cfg has_helper entity_name lookup id_param p req rep =
     (let rid = strip_leading_slash id_param in
      if rid = [] then make_error_reply dump 400 ''BAD_REQUEST'' (''Parametre '' @ quoted ''id'' @ '' manquant.'')
      else case lookup rid of
        None \<Rightarrow> make_error_reply dump 404 ''NOT_FOUND'' ''Enregistrement introuvable.''
      | Some rec \<Rightarrow>
          (let text = record_to_json dbl_text rec;
               chk = (if has_helper then
                        check_single parse dump reg s cfg entity_name GetById
                          (build_subject_from_headers (req_headers req)) text
                          (build_context same now req (req_url req))
                      else (True, []))
           in if \<not> fst chk then
                make_error_reply dump 403 ''AUTHORIZATION_ERROR'' (if snd chk = [] then ''Acces refuse.'' else snd chk)
              else rep\<lparr>rep_status := 200,
                rep_headers := hdr_put same ''Content-Type'' ''application/json'' (rep_headers rep),
                rep_content := text\<rparr>))"

section \<open>Reference definition of an authorized access\<close>

text \<open>
  A rule authorizes an access when it holds of subject, resource and context; without a rule the
  default policy decides.
\<close>

definition access_authorized ::
  "operator_registry \<Rightarrow> access_control_config \<Rightarrow> entity \<Rightarrow> crud_operation \<Rightarrow> policy_subject
   \<Rightarrow> policy_resource \<Rightarrow> policy_context \<Rightarrow> bool" where
  "access_authorized reg cfg e oper subject resource context =
     (case find_spec (e_access_control e) oper of
        None \<Rightarrow> default_policy cfg = AllowAll
      | Some sp \<Rightarrow> holds (predicate_holds reg Permissive subject resource context) (spec_condition sp))"

section \<open>Lemmas\<close>

lemma evaluate_production:
  "allowed (evaluate reg c subject resource ctx production_options) =
   holds (predicate_holds reg Permissive subject resource ctx) c"
  by (simp add: evaluate_allowed atom_value_def)

lemma subject_only_decides:
  assumes "\<not> condition_uses_resource c"
  shows "allowed (evaluate_subject_only reg c subject ctx pre_handler_options) =
    holds (predicate_holds reg Permissive subject resource ctx) c"
proof -
  have "relaxed (predicate_holds reg Permissive subject empty_resource ctx) p =
      predicate_holds reg Permissive subject resource ctx p" if "\<not> predicate_uses_resource p" for p
    using that predicate_holds_other_resource [OF that] by (simp add: relaxed_def)
  from holds_without_resource [OF assms this] show ?thesis
    by (simp only: evaluate_subject_only_allowed option_simps)
qed

lemma check_single_authorized:
  assumes "find_entity s entity_name = Some e" and "parse record_json = Inr rec"
  shows "fst (check_single parse dump reg s cfg entity_name oper subject record_json ctx) \<longleftrightarrow>
    is_admin_bypass cfg subject
    \<or> access_authorized reg cfg e oper subject (build_resource_from_json dump entity_name rec) ctx"
proof (cases "find_spec (e_access_control e) oper")
  case None
  then show ?thesis
    using assms by (simp add: check_single_def access_authorized_def default_policy_not_deny)
next
  case (Some sp)
  let ?resource = "build_resource_from_json dump entity_name rec"
  show ?thesis
  proof (cases "requires_resource sp")
    case True
    then show ?thesis
      using assms Some by (simp add: check_single_def access_authorized_def Let_def evaluate_production)
  next
    case False
    then have "allowed (evaluate_subject_only reg (spec_condition sp) subject ctx pre_handler_options) =
        holds (predicate_holds reg Permissive subject ?resource ctx) (spec_condition sp)"
      unfolding requires_resource_def by (rule subject_only_decides)
    then show ?thesis
      using assms Some False by (simp add: check_single_def access_authorized_def Let_def)
  qed
qed

lemma check_single_unparsed:
  assumes "find_entity s entity_name = Some e" and "find_spec (e_access_control e) oper = Some sp"
    and "requires_resource sp" and "parse record_json = Inl what" and "\<not> is_admin_bypass cfg subject"
  shows "\<not> fst (check_single parse dump reg s cfg entity_name oper subject record_json ctx)"
  using assms by (simp add: check_single_def)

lemma record_allowed_holds:
  "record_allowed dump reg sp entity_name subject ctx rec =
   holds (predicate_holds reg Permissive subject (build_resource_from_json dump entity_name rec) ctx)
     (spec_condition sp)"
  by (simp add: record_allowed_def evaluate_production)

text \<open>What the listing handler lets through when the check before it granted the listing.\<close>

lemma filter_collection_authorized:
  assumes "find_entity s en = Some e" and "\<not> is_admin_bypass cfg subject"
    and "check_granted reg s cfg subject ctx (make_check en List descr)"
    and "parse text = Inr (JArray js)"
  shows "filter_collection parse dump reg s cfg en List subject text ctx =
      dump (JArray (filter (\<lambda>j. access_authorized reg cfg e List subject (build_resource_from_json dump en j) ctx) js))
    \<or> list_all (\<lambda>j. access_authorized reg cfg e List subject (build_resource_from_json dump en j) ctx) js
      \<and> filter_collection parse dump reg s cfg en List subject text ctx = text"
proof (cases "find_spec (e_access_control e) List")
  case None
  then have "access_authorized reg cfg e List subject r ctx" for r
    using assms(1,3) by (simp add: check_granted_def make_check_def access_authorized_def)
  then show ?thesis using assms(1,2) None by (simp add: filter_collection_def list_all_iff)
next
  case (Some sp)
  let ?auth = "\<lambda>j. access_authorized reg cfg e List subject (build_resource_from_json dump en j) ctx"
  have auth: "record_allowed dump reg sp en subject ctx = ?auth"
    using Some by (simp add: fun_eq_iff record_allowed_holds access_authorized_def)
  show ?thesis
  proof (cases "requires_resource sp")
    case True
    then show ?thesis
      using assms(1,2,4) Some by (simp add: filter_collection_def auth list_all_iff)
  next
    case False
    then have "holds (relaxed (predicate_holds reg Permissive subject empty_resource ctx)) (spec_condition sp)"
      using assms(1,3) Some by (simp add: check_granted_def make_check_def)
    then have "?auth j" for j
      using subject_only_decides [of "spec_condition sp" reg subject ctx "build_resource_from_json dump en j"]
        False Some
      by (simp add: access_authorized_def requires_resource_def evaluate_subject_only_allowed)
    then show ?thesis using assms(1,2) Some False by (simp add: filter_collection_def list_all_iff)
  qed
qed

end
