(* ===== verification/Authz_Properties.thy ===== *)
theory Authz_Properties
  imports Route_Laws Resource_Authz
begin

text \<open>
  The properties of the authorization of requests: which routes are checked and how, what the
  middleware decides, that a client cannot forge its identity, and what the handlers of reads
  let through.
\<close>

section \<open>An example service\<close>

definition category_entity :: entity where
  "category_entity = (make_entity ''Category'' [] [])\<lparr>e_access_control := set_spec List
     \<lparr>spec_condition = of_predicate (make_predicate (from_subject ''roles'') Contains (from_literal ''editor''))\<rparr>
     empty_access_control\<rparr>"

definition note_entity :: entity where
  "note_entity = (make_entity ''Note'' [] [])\<lparr>
     e_access_control := set_spec List
       \<lparr>spec_condition = of_predicate
          (make_predicate (from_resource ''attributes.owner'') Equals (from_subject ''id''))\<rparr> empty_access_control,
     e_pagination := Some \<lparr>pc_page = Some \<lparr>pg_default_page_size = 20, pg_max_page_size = 100,
       pg_default_sort = None, pg_sortable_fields = []\<rparr>, pc_offset = None, pc_cursor = None\<rparr>\<rparr>"

definition demo_schema :: schema where
  "demo_schema = \<lparr>entities = [note_entity, category_entity]\<rparr>"

lemma demo_note_regular: "regular_entity demo_schema note_entity"
  by code_simp

lemma demo_category_routes:
  "make_route MGet ''/categories'' ''Category'' ''list'' True \<in> set (generate_for_entity category_entity True)"
  by code_simp

section \<open>Routes\<close>

text \<open>Every plan of the resolver is well formed: either the route is unknown and has no check, or
  every check names an entity of the schema and the plan is a single check or, for a relational
  route, a check on the parent followed by the check of listing the entity returned.\<close>

theorem resolve_plan_shape: "plan_ok s (resolve_route s method p)"
  by (rule plan_ok_resolve)

text \<open>C13: For an entity whose name gives the resolver and the generator one collection path, every CRUD
  route the generator makes for it, at any identifier, resolves to exactly one check: the
  operation of the route on that entity.\<close>

theorem crud_routes_checked:
  assumes "regular_entity s e" and "id_segment k"
  shows "list_all (crud_route_checked s k) (generate_for_entity e auth)"
  by (rule crud_routes_checked_base [OF assms])

theorem crud_routes_checked_witness:
  "list_all (crud_route_checked demo_schema ''n1'') (generate_for_entity note_entity True)"
proof (rule crud_routes_checked [OF demo_note_regular])
  show "id_segment ''n1''" by code_simp
qed

text \<open>A listing route the generator makes is known to the resolver exactly when its path is the
  lower-first name of some entity followed by an \<open>s\<close>, whatever plural the generator chose. So
  \<open>/categories\<close> is an unknown route, which the middleware does not check.\<close>

theorem listing_route_unknown_iff:
  assumes "r \<in> set (generate_for_entity e auth)" and "rt_operation_name r = ''list''"
    and "count_slashes (rt_path r) = 1"
  shows "unknown_route (resolve_route s (method_name (rt_method r)) (rt_path r)) \<longleftrightarrow>
    rt_path r \<notin> (\<lambda>e. entity_collection_path (e_name e)) ` set (entities s)"
proof -
  have "rt_method r = MGet"
    using assms(1,2) by (auto simp: generate_for_entity_def Let_def make_route_def pagination_variants_def
        split: if_splits option.splits)
  then show ?thesis using unknown_one_slash [OF assms(3), of s] by (simp add: iequals_def)
qed

theorem listing_route_unknown_iff_witness: "unknown_route (resolve_route demo_schema ''GET'' ''/categories'')"
proof -
  have "count_slashes ''/categories'' = 1"
    "''/categories'' \<notin> (\<lambda>e. entity_collection_path (e_name e)) ` set (entities demo_schema)"
    by code_simp+
  with listing_route_unknown_iff [OF demo_category_routes, of demo_schema] show ?thesis
    by (simp add: make_route_def)
qed

text \<open>The paginated listings of an entity are checked as reads of one record: the resolver takes
  \<open>page\<close>, \<open>offset\<close> or \<open>cursor\<close> for an identifier, so the rule of the listing is not consulted
  before the handler.\<close>

theorem paginated_listing_checked_as_read:
  assumes "regular_entity s e"
    and "r \<in> set (pagination_variants e (route_prefix e) (e_name e) ''list'' auth)"
  shows "route_checks s (method_name (rt_method r)) (rt_path r) = [(e_name e, GetById)]"
proof -
  have ids: "id_segment ''page''" "id_segment ''offset''" "id_segment ''cursor''" by code_simp+
  have "rt_method r = MGet \<and> (\<exists>k. id_segment k \<and> rt_path r = route_prefix e @ ''/'' @ k)"
    using assms(2) ids
    by (auto simp: pagination_variants_def make_route_def split: option.splits if_splits)
  then show ?thesis using route_checks_item(1) [OF assms(1)] by auto
qed

theorem paginated_listing_checked_as_read_witness:
  "route_checks demo_schema ''GET'' ''/notes/page'' = [(''Note'', GetById)]"
proof -
  have "make_route MGet ''/notes/page'' ''Note'' ''list_page'' True
      \<in> set (pagination_variants note_entity (route_prefix note_entity) (e_name note_entity) ''list'' True)"
    by code_simp
  from paginated_listing_checked_as_read [OF demo_note_regular this]
  show ?thesis by (simp add: make_route_def note_entity_def make_entity_def)
qed

section \<open>The middleware\<close>

definition anonymous_request :: "string \<Rightarrow> string \<Rightarrow> request" where
  "anonymous_request m p = \<lparr>req_method = m, req_url = p, req_headers = []\<rparr>"

definition empty_reply :: reply where
  "empty_reply = \<lparr>rep_status = 0, rep_headers = [], rep_content = []\<rparr>"

text \<open>C11: The middleware hands a request on exactly when its route is unknown, its subject holds the
  administrator role with the bypass enabled, or every check of the plan is granted: the entity
  exists and its rule holds of the subject, with the predicates on the resource left for later in
  permissive mode only. Otherwise it answers 403 with the reason of the first check refused.\<close>

theorem middleware_decision:
  assumes "req_url req \<noteq> []"
  shows "authz_handle same dump now reg s cfg inner p req rep =
    (let plan = resolve_route s (req_method req) (req_url req);
         subject = build_subject_from_headers (req_headers req);
         context = build_context same now req (req_url req)
     in if unknown_route plan \<or> is_admin_bypass cfg subject
            \<or> list_all (check_granted reg s cfg subject context) (plan_checks plan)
        then inner p req rep
        else Inr (make_forbidden_response same dump rep
          (snd (evaluate_single_check reg s cfg subject context
             (the (find (\<lambda>c. \<not> check_granted reg s cfg subject context c) (plan_checks plan)))))))"
  by (rule authz_handle_decision [OF assms])

theorem middleware_decision_witness:
  "\<exists>why. authz_handle iequals (\<lambda>_. []) 0 (create_default []) demo_schema access_config_safe_defaults
     (\<lambda>p req rep. Inr (ok_reply [])) [] (anonymous_request ''POST'' ''/notes'') empty_reply
   = Inr (make_forbidden_response iequals (\<lambda>_. []) empty_reply why)"
proof -
  let ?plan = "resolve_route demo_schema ''POST'' ''/notes''"
  have plan: "unknown_route ?plan = False" "plan_checks ?plan = [make_check ''Note'' Create ''create Note'']"
    by code_simp+
  have admin: "\<not> is_admin_bypass access_config_safe_defaults (build_subject_from_headers [])" by code_simp
  have refused: "\<not> check_granted (create_default []) demo_schema access_config_safe_defaults subject x
      (make_check ''Note'' Create ''create Note'')" for subject x
  proof -
    have "find_entity demo_schema ''Note'' = Some note_entity"
      "find_spec (e_access_control note_entity) Create = None"
      "default_policy access_config_safe_defaults = DenyAll" by code_simp+
    then show ?thesis by (simp add: check_granted_def make_check_def)
  qed
  show ?thesis
    using middleware_decision [of "anonymous_request ''POST'' ''/notes''" iequals "\<lambda>_. []" 0 "create_default []"
        demo_schema access_config_safe_defaults "\<lambda>p req rep. Inr (ok_reply [])" "[]" empty_reply] plan admin refused
    by (simp add: anonymous_request_def) blast
qed

section \<open>The identity of the subject\<close>

text \<open>C10: A client cannot forge its identity: whatever handler stands behind it, the authentication
  layer answers a request as if the client had sent no \<open>X-User-*\<close> header in any case, and the
  subject the authorization layers read from the headers it passes on depends on the claims of
  the token only.\<close>

theorem user_headers_cannot_be_forged:
  assumes "header_names same"
  shows "protected_handle same dump jwt_verify tracking is_revoked cookies inner p (without_user_headers req) rep =
      protected_handle same dump jwt_verify tracking is_revoked cookies inner p req rep
    \<and> build_subject_from_headers (inject_claims_as_headers same claims (strip_user_headers same (req_headers req))) =
      build_subject_from_headers (inject_claims_as_headers same claims [])"
  using protected_handle_without_user [OF assms] subject_from_claims [OF assms] by blast

theorem user_headers_cannot_be_forged_witness:
  "build_subject_from_headers (inject_claims_as_headers iequals
     \<lparr>cl_user_id = ''u1'', cl_email = [], cl_role = ''reader'', cl_additional = [(''team_id'', ''t1'')]\<rparr>
     (strip_user_headers iequals [(''x-user-ROLE'', ''admin''), (''Host'', ''h'')])) =
   \<lparr>subj_id = ''u1'', subj_email = [], subj_roles = [''reader''], subj_attributes = [(''team_id'', ''t1'')]\<rparr>"
proof -
  let ?claims = "\<lparr>cl_user_id = ''u1'', cl_email = [], cl_role = ''reader'', cl_additional = [(''team_id'', ''t1'')]\<rparr>"
  have "build_subject_from_headers (inject_claims_as_headers iequals ?claims []) =
      \<lparr>subj_id = ''u1'', subj_email = [], subj_roles = [''reader''], subj_attributes = [(''team_id'', ''t1'')]\<rparr>"
    by code_simp
  with user_headers_cannot_be_forged [OF header_names_iequals, where claims = ?claims
      and req = "\<lparr>req_method = [], req_url = [], req_headers = [(''x-user-ROLE'', ''admin''), (''Host'', ''h'')]\<rparr>"]
  show ?thesis by simp
qed

section \<open>The handlers of reads\<close>

text \<open>The handler of one record gives it to a subject exactly when the subject is an administrator
  with the bypass or the full rule holds of subject, record and context (the default policy, when
  there is no rule), whatever the middleware did; otherwise it answers 403.\<close>

theorem record_read_authorized:
  assumes "find_entity s en = Some e" and "strip_leading_slash k = rid" and "rid \<noteq> []" and "lookup rid = Some rec"
    and "parse (record_to_json dbl_text rec) = Inr j"
  shows "let reply = get_by_id_handle same parse dump dbl_text now reg s cfg True en lookup k p req rep;
      subject = build_subject_from_headers (req_headers req)
    in if is_admin_bypass cfg subject
          \<or> access_authorized reg cfg e GetById subject (build_resource_from_json dump en j)
              (build_context same now req (req_url req))
       then rep_status reply = 200 \<and> rep_content reply = record_to_json dbl_text rec
       else reply = make_error_reply dump 403 ''AUTHORIZATION_ERROR''
         (let why = snd (check_single parse dump reg s cfg en GetById subject (record_to_json dbl_text rec)
                (build_context same now req (req_url req)))
          in if why = [] then ''Acces refuse.'' else why)"
proof -
  let ?subject = "build_subject_from_headers (req_headers req)"
  let ?x = "build_context same now req (req_url req)"
  have "fst (check_single parse dump reg s cfg en GetById ?subject (record_to_json dbl_text rec) ?x) \<longleftrightarrow>
      is_admin_bypass cfg ?subject
      \<or> access_authorized reg cfg e GetById ?subject (build_resource_from_json dump en j) ?x"
    using check_single_authorized [where parse = parse, OF assms(1,5)] .
  then show ?thesis
    using assms(2-4) unfolding get_by_id_handle_def Let_def by simp
qed

theorem record_read_authorized_witness:
  "rep_status (get_by_id_handle iequals (\<lambda>_. Inr JNull) (\<lambda>_. []) (\<lambda>_. []) 0 (create_default []) demo_schema
     access_config_safe_defaults True ''Note'' (\<lambda>_. Some []) ''/n1'' [] (anonymous_request ''GET'' ''/notes/n1'')
     empty_reply) = 403"
proof -
  have e: "find_entity demo_schema ''Note'' = Some note_entity"
    "find_spec (e_access_control note_entity) GetById = None"
    "default_policy access_config_safe_defaults = DenyAll"
    "\<not> is_admin_bypass access_config_safe_defaults (build_subject_from_headers [])" by code_simp+
  have k: "strip_leading_slash ''/n1'' = ''n1''" by code_simp
  show ?thesis
    using record_read_authorized [OF e(1) k, where lookup = "\<lambda>_. Some []" and parse = "\<lambda>_. Inr JNull"
        and req = "anonymous_request ''GET'' ''/notes/n1''" and same = iequals and dump = "\<lambda>_. []"
        and dbl_text = "\<lambda>_. []" and now = 0 and reg = "create_default []" and cfg = access_config_safe_defaults
        and p = "[]" and rep = empty_reply and rec = "[]" and j = JNull] e
    by (simp add: Let_def anonymous_request_def access_authorized_def make_error_reply_def)
qed

definition listing_sound ::
  "(json \<Rightarrow> string) \<Rightarrow> (json \<Rightarrow> bool) \<Rightarrow> json list \<Rightarrow> string \<Rightarrow> reply \<Rightarrow> bool" where
  "listing_sound dump auth js text reply \<longleftrightarrow>
     rep_status reply = 403
     \<or> rep_content reply = dump (JArray (filter auth js))
     \<or> list_all auth js \<and> rep_content reply = text"

text \<open>C12: A \<open>GET\<close> of exactly the collection URL of an entity with a regular name (resolver and generator give
  it the same path), by a subject that does not bypass the policies, when the JSON reader accepts the text of
  the listing as an array: through the middleware and the handler the subject gets 403, or the JSON of
  exactly the records its rule authorizes, or the unchanged text when all are. Nothing is claimed of other
  listings: those of a name that is not regular, with a query in the URL or in pages are not checked by the
  rule of the listing (\<open>listing_route_unknown_iff\<close>, \<open>paginated_listing_checked_as_read\<close>), and a text the
  reader rejects is served whole (\<open>unreadable_listing_served_whole\<close>).\<close>

theorem listing_shows_authorized_records:
  assumes "regular_entity s e" and "req_method req = ''GET''" and "req_url req = route_prefix e"
    and "\<not> is_admin_bypass cfg (build_subject_from_headers (req_headers req))"
    and "parse (records_to_json dbl_text records) = Inr (JArray js)"
  shows "\<exists>reply. authz_handle same dump now reg s cfg
      (\<lambda>p req rep. Inr (list_handle same parse dump dbl_text now reg s cfg True (e_name e) records p req rep))
      p req rep = Inr reply
    \<and> listing_sound dump
      (\<lambda>j. access_authorized reg cfg e List (build_subject_from_headers (req_headers req))
         (build_resource_from_json dump (e_name e) j) (build_context same now req (req_url req)))
      js (records_to_json dbl_text records) reply"
proof -
  let ?subject = "build_subject_from_headers (req_headers req)"
  let ?x = "build_context same now req (req_url req)"
  note reg = regular_entityD [OF assms(1)]
  have url: "req_url req \<noteq> []" using assms(3) by (simp add: route_prefix_def)
  have plan: "resolve_route s (req_method req) (req_url req) =
      known_plan [make_check (e_name e) List (''list '' @ e_name e)]"
    using resolve_collection [OF assms(1), of "''GET''"] assms(2,3) reg(2) by (simp add: iequals_def)
  show ?thesis
  proof (cases "check_granted reg s cfg ?subject ?x (make_check (e_name e) List (''list '' @ e_name e))")
    case True
    let ?reply = "list_handle same parse dump dbl_text now reg s cfg True (e_name e) records p req rep"
    have handed: "authz_handle same dump now reg s cfg
        (\<lambda>p req rep. Inr (list_handle same parse dump dbl_text now reg s cfg True (e_name e) records p req rep))
        p req rep = Inr ?reply"
      using True unfolding authz_handle_decision [OF url] plan by (simp add: known_plan_def Let_def)
    have content: "rep_content ?reply =
      filter_collection parse dump reg s cfg (e_name e) List ?subject (records_to_json dbl_text records) ?x"
      by (simp add: list_handle_def Let_def)
    show ?thesis
      using filter_collection_authorized [where parse = parse and dump = dump,
          OF regular_find_entity [OF assms(1)] assms(4) True assms(5)] handed
      unfolding listing_sound_def content [symmetric] by blast
  next
    case False
    then show ?thesis
      using assms(4) unfolding listing_sound_def authz_handle_decision [OF url] plan
      by (simp add: known_plan_def Let_def make_forbidden_response_def)
  qed
qed

theorem listing_shows_authorized_records_witness:
  "\<exists>auth reply. authz_handle iequals (\<lambda>_. ''[]'') 0 (create_default []) demo_schema access_config_safe_defaults
      (\<lambda>p req rep. Inr (list_handle iequals (\<lambda>_. Inr (JArray [JObject [(''owner'', JString ''u2'')]])) (\<lambda>_. ''[]'') (\<lambda>_. []) 0
          (create_default []) demo_schema access_config_safe_defaults True ''Note'' [[(''owner'', VString ''u2'')]] p req rep))
      [] (anonymous_request ''GET'' ''/notes'') empty_reply = Inr reply
    \<and> listing_sound (\<lambda>_. ''[]'') auth [JObject [(''owner'', JString ''u2'')]]
      (records_to_json (\<lambda>_. []) [[(''owner'', VString ''u2'')]]) reply"
proof -
  have "route_prefix note_entity = ''/notes''" "e_name note_entity = ''Note''"
    "\<not> is_admin_bypass access_config_safe_defaults (build_subject_from_headers [])" by code_simp+
  then show ?thesis
    using listing_shows_authorized_records [OF demo_note_regular, where req = "anonymous_request ''GET'' ''/notes''"
        and cfg = access_config_safe_defaults and parse = "\<lambda>_. Inr (JArray [JObject [(''owner'', JString ''u2'')]])"
        and dump = "\<lambda>_. ''[]''" and dbl_text = "\<lambda>_. []" and records = "[[(''owner'', VString ''u2'')]]"
        and js = "[JObject [(''owner'', JString ''u2'')]]" and reg = "create_default []" and same = iequals
        and now = 0 and p = "[]" and rep = empty_reply]
    by (auto simp: anonymous_request_def)
qed

text \<open>A collection whose text the JSON parser rejects is served whole: when the rule of the listing
  needs the records and one of them makes the text unreadable (the writer escapes only seven
  characters, so any other control character in a string does), the filter gives up and returns
  every record, while the check of a single record refuses in the same situation.\<close>

theorem unreadable_listing_served_whole:
  assumes "find_entity s en = Some e" and "find_spec (e_access_control e) List = Some sp"
    and "requires_resource sp" and "parse (records_to_json dbl_text records) = Inl what"
    and "\<not> is_admin_bypass cfg (build_subject_from_headers (req_headers req))"
  shows "rep_content (list_handle same parse dump dbl_text now reg s cfg True en records p req rep) =
      records_to_json dbl_text records
    \<and> \<not> fst (check_single parse dump reg s cfg en List (build_subject_from_headers (req_headers req))
        (records_to_json dbl_text records) (build_context same now req (req_url req)))"
  using assms by (simp add: list_handle_def filter_collection_def check_single_def Let_def)

definition control_record :: dynamic_record where
  "control_record = [(''owner'', VString ''u2''), (''body'', VString [CHR 0x01])]"

text \<open>A reader that, as JSON asks, accepts no control character.\<close>

definition strict_parse :: "string \<Rightarrow> string + json" where
  "strict_parse text =
     (if list_ex is_cntrl text then Inl ''control character in a string'' else Inr (JArray []))"

theorem unreadable_listing_served_whole_witness:
  "rep_content (list_handle iequals strict_parse (\<lambda>_. []) (\<lambda>_. []) 0 (create_default []) demo_schema
     access_config_safe_defaults True ''Note'' [control_record] [] (anonymous_request ''GET'' ''/notes'') empty_reply) =
   records_to_json (\<lambda>_. []) [control_record]"
proof -
  have e: "find_entity demo_schema ''Note'' = Some note_entity" by code_simp
  obtain sp where sp: "find_spec (e_access_control note_entity) List = Some sp" "requires_resource sp"
  proof
    show "find_spec (e_access_control note_entity) List = Some \<lparr>spec_condition = of_predicate
        (make_predicate (from_resource ''attributes.owner'') Equals (from_subject ''id''))\<rparr>"
      by (simp add: note_entity_def find_spec_set_spec)
    show "requires_resource \<lparr>spec_condition = of_predicate
        (make_predicate (from_resource ''attributes.owner'') Equals (from_subject ''id''))\<rparr>"
      by code_simp
  qed
  have p: "strict_parse (records_to_json (\<lambda>_. []) [control_record]) = Inl ''control character in a string''"
    by code_simp
  have a: "\<not> is_admin_bypass access_config_safe_defaults
      (build_subject_from_headers (req_headers (anonymous_request ''GET'' ''/notes'')))" by code_simp
  from unreadable_listing_served_whole [where parse = strict_parse, OF e sp p a] show ?thesis by blast
qed

end
