(* ===== verification/Date_Time.thy ===== *)
theory Date_Time
  imports Cpp_Double
begin

text \<open>
  Points in time and their text. A time point of \<open>std::chrono\<close> is a count of nanoseconds (an
  integer); \<open>gmtime\<close>, \<open>strftime\<close> and \<open>get_time\<close> of the C library are written out for the one format
  the program uses, \<open>%Y-%m-%d %H:%M:%S\<close>, from 1970 on. \<open>mktime\<close> reads a broken-down time as local
  time: \<open>tz\<close> is the number of seconds the zone of the server is ahead of UTC.
  The 64-bit counter of the implementation reaches into the year 2262; the integers do not end there.
  The lemmas compute what is read back from a text that was written.
\<close>

type_synonym time_point = int

definition nanos :: int where
  "nanos = 1000000000"

section \<open>The calendar\<close>

definition leap_year :: "nat \<Rightarrow> bool" where
  "leap_year y \<longleftrightarrow> y mod 4 = 0 \<and> (y mod 100 \<noteq> 0 \<or> y mod 400 = 0)"

definition year_days :: "nat \<Rightarrow> nat" where
  "year_days y = (if leap_year y then 366 else 365)"

definition month_days :: "nat \<Rightarrow> nat \<Rightarrow> nat" where
  "month_days y m =
     (if m = 2 then (if leap_year y then 29 else 28)
      else if m = 4 \<or> m = 6 \<or> m = 9 \<or> m = 11 then 30 else 31)"

lemma year_days_pos: "0 < year_days y"
  by (simp add: year_days_def)

function year_loop :: "nat \<Rightarrow> nat \<Rightarrow> nat \<times> nat" where
  "year_loop y d = (if d < year_days y then (y, d) else year_loop (Suc y) (d - year_days y))"
  by pat_completeness auto
termination
proof (relation "measure snd")
  fix y d :: nat
  assume "\<not> d < year_days y"
  then show "((Suc y, d - year_days y), (y, d)) \<in> measure snd"
    using year_days_pos [of y] by simp
qed simp

declare year_loop.simps [simp del]

function month_loop :: "nat \<Rightarrow> nat \<Rightarrow> nat \<Rightarrow> nat \<times> nat" where
  "month_loop y m d =
     (if 12 \<le> m \<or> d < month_days y m then (m, d) else month_loop y (Suc m) (d - month_days y m))"
  by pat_completeness auto
termination by (relation "measure (\<lambda>(y, m, d). 12 - m)") auto

declare month_loop.simps [simp del]

record tm =
  tm_year :: nat
  tm_mon :: nat
  tm_mday :: nat
  tm_hour :: nat
  tm_min :: nat
  tm_sec :: nat

definition gmtime :: "nat \<Rightarrow> tm" where
  "gmtime t =
     (case year_loop 1970 (t div 86400) of (y, d) \<Rightarrow>
      case month_loop y 1 d of (m, k) \<Rightarrow>
        \<lparr>tm_year = y, tm_mon = m, tm_mday = Suc k, tm_hour = t mod 86400 div 3600,
         tm_min = t mod 3600 div 60, tm_sec = t mod 60\<rparr>)"

definition days_to_year :: "nat \<Rightarrow> int" where
  "days_to_year y =
     (if 1970 \<le> y then int (\<Sum>i \<leftarrow> [1970..<y]. year_days i) else - int (\<Sum>i \<leftarrow> [y..<1970]. year_days i))"

definition timegm :: "tm \<Rightarrow> int" where
  "timegm tm =
     (days_to_year (tm_year tm) + int (\<Sum>i \<leftarrow> [1..<tm_mon tm]. month_days (tm_year tm) i) + int (tm_mday tm) - 1) * 86400
     + int (tm_hour tm) * 3600 + int (tm_min tm) * 60 + int (tm_sec tm)"

section \<open>The text\<close>

definition put_time :: "tm \<Rightarrow> string" where
  "put_time t =
     nat_str (tm_year t) @ ''-'' @ pad_zeros 2 (nat_str (tm_mon t)) @ ''-'' @ pad_zeros 2 (nat_str (tm_mday t))
     @ '' '' @ pad_zeros 2 (nat_str (tm_hour t)) @ '':'' @ pad_zeros 2 (nat_str (tm_min t))
     @ '':'' @ pad_zeros 2 (nat_str (tm_sec t))"

definition time_point_to_string :: "time_point \<Rightarrow> string" where
  "time_point_to_string tp = put_time (gmtime (nat (tp div nanos)))"

definition digits_value :: "string \<Rightarrow> nat" where
  "digits_value s = fold (\<lambda>c v. v * 10 + (char_code c - 48)) s 0"

text \<open>A number of exactly \<open>n\<close> digits between \<open>lo\<close> and \<open>hi\<close>, and a literal character.\<close>

definition read_number :: "nat \<Rightarrow> nat \<Rightarrow> nat \<Rightarrow> string \<Rightarrow> (nat \<times> string) option" where
  "read_number n lo hi s =
     (let d = take n s; v = digits_value d in
      if length d = n \<and> list_all is_digit d \<and> lo \<le> v \<and> v \<le> hi then Some (v, drop n s) else None)"

definition read_char :: "char \<Rightarrow> string \<Rightarrow> string option" where
  "read_char c s = (case s of [] \<Rightarrow> None | x # r \<Rightarrow> if x = c then Some r else None)"

definition get_time :: "string \<Rightarrow> tm option" where
  "get_time s =
     Option.bind (read_number 4 0 9999 (dropWhile is_space s)) (\<lambda>(y, s).
     Option.bind (read_char (CHR ''-'') s) (\<lambda>s.
     Option.bind (read_number 2 1 12 s) (\<lambda>(m, s).
     Option.bind (read_char (CHR ''-'') s) (\<lambda>s.
     Option.bind (read_number 2 1 31 s) (\<lambda>(d, s).
     Option.bind (read_number 2 0 23 (dropWhile is_space s)) (\<lambda>(h, s).
     Option.bind (read_char (CHR '':'') s) (\<lambda>s.
     Option.bind (read_number 2 0 59 s) (\<lambda>(mi, s).
     Option.bind (read_char (CHR '':'') s) (\<lambda>s.
     Option.bind (read_number 2 0 60 s) (\<lambda>(sec, s).
       Some \<lparr>tm_year = y, tm_mon = m, tm_mday = d, tm_hour = h, tm_min = mi, tm_sec = sec\<rparr>))))))))))"

definition mktime :: "int \<Rightarrow> tm \<Rightarrow> int" where
  "mktime tz tm = timegm tm - tz"

definition parse_datetime_string :: "int \<Rightarrow> string \<Rightarrow> time_point option" where
  "parse_datetime_string tz s =
     (if s = [] then None
      else case get_time s of
        None \<Rightarrow> None
      | Some tm \<Rightarrow> let tt = mktime tz tm in if tt = -1 then None else Some (tt * nanos))"

section \<open>The calendar loops\<close>

lemma sum_upt_Cons: "m < n \<Longrightarrow> (\<Sum>i \<leftarrow> [m..<n]. f i) = f m + (\<Sum>i \<leftarrow> [Suc m..<n]. (f i :: nat))"
  by (simp add: upt_conv_Cons)

lemma year_loop_days:
  "year_loop y d = (y', k) \<Longrightarrow>
   y \<le> y' \<and> d = (\<Sum>i \<leftarrow> [y..<y']. year_days i) + k \<and> k < year_days y'"
proof (induction y d arbitrary: y' k rule: year_loop.induct)
  case (1 y d)
  show ?case
  proof (cases "d < year_days y")
    case True
    with 1(2) show ?thesis by (simp add: year_loop.simps [of y d])
  next
    case False
    with 1 have "Suc y \<le> y' \<and> d - year_days y = (\<Sum>i \<leftarrow> [Suc y..<y']. year_days i) + k \<and> k < year_days y'"
      by (simp add: year_loop.simps [of y d])
    with False sum_upt_Cons [of y y' year_days] show ?thesis by linarith
  qed
qed

lemma month_loop_days:
  "month_loop y m d = (m', k) \<Longrightarrow> m \<le> 12 \<Longrightarrow>
   m \<le> m' \<and> m' \<le> 12 \<and> d = (\<Sum>i \<leftarrow> [m..<m']. month_days y i) + k \<and> (m' < 12 \<longrightarrow> k < month_days y m')"
proof (induction y m d arbitrary: m' k rule: month_loop.induct)
  case (1 y m d)
  show ?case
  proof (cases "12 \<le> m \<or> d < month_days y m")
    case True
    with 1(2,3) show ?thesis by (auto simp: month_loop.simps [of y m d])
  next
    case False
    then have "Suc m \<le> m' \<and> m' \<le> 12 \<and> d - month_days y m = (\<Sum>i \<leftarrow> [Suc m..<m']. month_days y i) + k
        \<and> (m' < 12 \<longrightarrow> k < month_days y m')"
      using 1 by (simp add: month_loop.simps [of y m d])
    moreover from this have "(\<Sum>i \<leftarrow> [m..<m']. month_days y i) = month_days y m + (\<Sum>i \<leftarrow> [Suc m..<m']. month_days y i)"
      by (simp add: sum_upt_Cons)
    ultimately show ?thesis using False by linarith
  qed
qed

lemma months_of_year: "(\<Sum>i \<leftarrow> [1..<12]. month_days y i) + 31 = year_days y"
  by (simp add: upt_rec month_days_def year_days_def)

lemma gmtime_date:
  assumes "gmtime t = tm"
  shows "timegm tm = int t" and "1970 \<le> tm_year tm" and "1 \<le> tm_mon tm" and "tm_mon tm \<le> 12"
    and "1 \<le> tm_mday tm" and "tm_mday tm \<le> 31"
    and "(\<Sum>i \<leftarrow> [1970..<tm_year tm]. year_days i) \<le> t div 86400"
proof -
  obtain y d where y: "year_loop 1970 (t div 86400) = (y, d)" by force
  obtain m k where m: "month_loop y 1 d = (m, k)" by force
  have tm: "tm = \<lparr>tm_year = y, tm_mon = m, tm_mday = Suc k, tm_hour = t mod 86400 div 3600,
      tm_min = t mod 3600 div 60, tm_sec = t mod 60\<rparr>"
    using assms y m by (simp add: gmtime_def)
  note yd = year_loop_days [OF y]
  have md: "1 \<le> m \<and> m \<le> 12 \<and> d = (\<Sum>i \<leftarrow> [1..<m]. month_days y i) + k \<and> (m < 12 \<longrightarrow> k < month_days y m)"
    using month_loop_days [OF m] by simp
  show "1970 \<le> tm_year tm" "1 \<le> tm_mon tm" "tm_mon tm \<le> 12" "1 \<le> tm_mday tm"
    "(\<Sum>i \<leftarrow> [1970..<tm_year tm]. year_days i) \<le> t div 86400"
    using yd md by (simp_all add: tm)
  have "k < 31"
  proof (cases "m < 12")
    case True
    then have "k < month_days y m" using md by simp
    then show ?thesis by (simp add: month_days_def split: if_splits)
  next
    case False
    then have "m = 12" using md by simp
    then have "d = (\<Sum>i \<leftarrow> [1..<12]. month_days y i) + k" using md by simp
    with yd months_of_year [of y] show ?thesis by linarith
  qed
  then show "tm_mday tm \<le> 31" by (simp add: tm)
  have "t mod 86400 mod 3600 = t mod 3600"
    by (rule mod_mod_cancel) simp
  then have hm: "t mod 86400 = t mod 86400 div 3600 * 3600 + t mod 3600"
    by (metis div_mult_mod_eq)
  have "t mod 3600 mod 60 = t mod 60"
    by (rule mod_mod_cancel) simp
  then have ms: "t mod 3600 = t mod 3600 div 60 * 60 + t mod 60"
    by (metis div_mult_mod_eq)
  have "t = t div 86400 * 86400 + (t mod 86400 div 3600 * 3600 + t mod 3600 div 60 * 60 + t mod 60)"
    using hm ms by (metis add.assoc div_mult_mod_eq)
  moreover have "timegm tm = int ((t div 86400) * 86400 + (t mod 86400 div 3600 * 3600 + t mod 3600 div 60 * 60 + t mod 60))"
    using yd md by (simp add: timegm_def tm days_to_year_def)
  ultimately show "timegm tm = int t" by simp
qed

section \<open>Reading back a text\<close>

definition digit_char :: "nat \<Rightarrow> char" where
  "digit_char d = char_of (48 + d)"

lemma digit_char_code [simp]: "d < 10 \<Longrightarrow> char_code (digit_char d) = 48 + d"
  by (simp add: digit_char_def char_code_def)

lemma digit_char_digit [simp]: "d < 10 \<Longrightarrow> is_digit (digit_char d)"
  by (simp add: is_digit_def)

lemma digit_char_not_space [simp]: "d < 10 \<Longrightarrow> \<not> is_space (digit_char d)"
  by (simp add: is_space_def)

lemma zero_char: "CHR ''0'' = digit_char 0"
  by code_simp

lemma blank_is_space: "is_space (CHR '' '')"
  by code_simp

lemma nat_str_two: "v < 100 \<Longrightarrow> pad_zeros 2 (nat_str v) = [digit_char (v div 10), digit_char (v mod 10)]"
  by (cases "v < 10")
    (simp_all add: nat_str.simps [of v] nat_str.simps [of "v div 10"] pad_zeros_def digit_char_def [symmetric] zero_char)

lemma nat_str_four:
  assumes "1000 \<le> v" and "v < 10000"
  shows "nat_str v = [digit_char (v div 1000), digit_char (v div 100 mod 10), digit_char (v div 10 mod 10), digit_char (v mod 10)]"
proof -
  have "v div 10 div 10 div 10 = v div 1000" "v div 10 div 10 = v div 100" by (simp_all add: div_mult2_eq [symmetric])
  moreover have "\<not> v < 10" "\<not> v div 10 < 10" "\<not> v div 10 div 10 < 10" "v div 1000 < 10"
    using assms by simp_all
  ultimately show ?thesis
    by (simp add: nat_str.simps [of v] nat_str.simps [of "v div 10"] nat_str.simps [of "v div 100"]
        nat_str.simps [of "v div 1000"] digit_char_def)
qed

lemma read_number_two:
  assumes "v < 100" and "lo \<le> v" and "v \<le> hi"
  shows "read_number 2 lo hi (pad_zeros 2 (nat_str v) @ s) = Some (v, s)"
  using assms by (simp add: read_number_def nat_str_two digits_value_def)

lemma read_number_four:
  assumes "1000 \<le> v" and "v < 10000"
  shows "read_number 4 0 9999 (nat_str v @ s) = Some (v, s)"
proof -
  have "v div 1000 < 10" using assms by simp
  have "((v div 1000 * 10 + v div 100 mod 10) * 10 + v div 10 mod 10) * 10 + v mod 10 = v"
  proof -
    have "v div 1000 = v div 100 div 10" "v div 100 = v div 10 div 10" by (simp_all add: div_mult2_eq [symmetric])
    then show ?thesis by (metis div_mult_mod_eq)
  qed
  then show ?thesis
    using assms by (simp add: read_number_def nat_str_four digits_value_def algebra_simps)
qed

lemma skip_digits [simp]:
  "d < 10 \<Longrightarrow> dropWhile is_space (digit_char d # s) = digit_char d # s"
  by simp

lemma get_time_put_time:
  assumes "1000 \<le> tm_year tm" "tm_year tm < 10000" "1 \<le> tm_mon tm" "tm_mon tm \<le> 12" "1 \<le> tm_mday tm"
    "tm_mday tm \<le> 31" "tm_hour tm < 24" "tm_min tm < 60" "tm_sec tm < 60"
  shows "get_time (put_time tm) = Some tm"
proof -
  have y: "dropWhile is_space (nat_str (tm_year tm) @ s) = nat_str (tm_year tm) @ s" for s
    using assms by (simp add: nat_str_four)
  have h: "dropWhile is_space (pad_zeros 2 (nat_str (tm_hour tm)) @ s) = pad_zeros 2 (nat_str (tm_hour tm)) @ s" for s
    using assms by (simp add: nat_str_two)
  show ?thesis
    unfolding get_time_def put_time_def append_assoc y read_number_four [OF assms(1,2)]
    using read_number_two [of "tm_sec tm" 0 60 "[]"] assms
    by (simp add: h blank_is_space read_number_two read_char_def)
qed

lemma year_days_min: "365 \<le> year_days y"
  by (simp add: year_days_def)

lemma years_days_bound: "n * 365 \<le> (\<Sum>i \<leftarrow> [1970..<1970 + n]. year_days i)"
proof (induction n)
  case (Suc n)
  have "(\<Sum>i \<leftarrow> [1970..<1970 + Suc n]. year_days i) = (\<Sum>i \<leftarrow> [1970..<1970 + n]. year_days i) + year_days (1970 + n)"
    using upt_Suc_append [of 1970 "1970 + n"] by (simp only: add_Suc_right le_add1 map_append sum_list_append) simp
  moreover have "Suc n * 365 \<le> (\<Sum>i \<leftarrow> [1970..<1970 + n]. year_days i) + year_days (1970 + n)"
    unfolding mult_Suc using add_mono [OF Suc year_days_min [of "1970 + n"]] by (simp only: add.commute)
  ultimately show ?case by (simp only:)
qed simp

lemma gmtime_year_bound:
  assumes "t div 86400 < 2930950"
  shows "tm_year (gmtime t) < 10000"
proof (rule ccontr)
  let ?n = "tm_year (gmtime t) - 1970"
  assume "\<not> tm_year (gmtime t) < 10000"
  then have "8030 \<le> ?n" "1970 + ?n = tm_year (gmtime t)" by simp_all
  moreover have "?n * 365 \<le> t div 86400"
    using years_days_bound [of ?n] gmtime_date(7) [OF refl, of t] calculation(2) by simp
  ultimately show False using assms by linarith
qed

text \<open>Up to this second (in the year 9994) the year of a text surely has four digits.\<close>

definition last_second :: int where
  "last_second = 253234079999"

lemma parse_time_text:
  assumes "0 \<le> tp" and "tp div nanos \<le> last_second" and "tp div nanos \<noteq> tz - 1"
  shows "parse_datetime_string tz (time_point_to_string tp) = Some ((tp div nanos - tz) * nanos)"
proof -
  let ?t = "nat (tp div nanos)"
  have t: "int ?t = tp div nanos" using assms(1) by (simp add: nanos_def pos_imp_zdiv_nonneg_iff)
  have "?t \<le> 253234079999" using assms(2) t by (simp add: last_second_def)
  then have "?t div 86400 < 2930950" by simp
  then have year: "tm_year (gmtime ?t) < 10000" by (rule gmtime_year_bound)
  note date = gmtime_date [OF refl, of ?t]
  have clock: "tm_hour (gmtime ?t) < 24" "tm_min (gmtime ?t) < 60" "tm_sec (gmtime ?t) < 60"
    by (simp_all add: gmtime_def less_mult_imp_div_less split: prod.split)
  have "get_time (put_time (gmtime ?t)) = Some (gmtime ?t)"
    using year date(2-6) clock by (intro get_time_put_time) simp_all
  moreover have "put_time (gmtime ?t) \<noteq> []" by (simp add: put_time_def)
  ultimately show ?thesis
    using date(1) t assms(3)
    by (simp add: parse_datetime_string_def time_point_to_string_def mktime_def Let_def)
qed

end
