(* ===== verification/Denylist_Cache.thy ===== *)
theory Denylist_Cache
  imports Date_Time
begin

text \<open>
  \<open>DenylistCache\<close> (\<open>libs/application/denylist_cache.{h,cpp}\<close>): the decisions on access tokens a
  shard keeps for a while, with a hard cap on their number. The steady clock is an argument.
  The lemmas state the invariant of the cache over every sequence of operations: its size never
  exceeds the cap and every decision it gives was put less than the time to live ago.
\<close>

section \<open>State and operations\<close>

record cache_entry =
  ce_revoked :: bool
  ce_inserted_at :: time_point

record cache_stats =
  st_hits :: size
  st_misses :: size
  st_evictions :: size
  st_expired_purges :: size

record denylist_cache =
  dc_ttl :: int
  dc_max_size :: size
  dc_entries :: "(string, cache_entry) table"
  dc_stats :: cache_stats

definition make_cache :: "int \<Rightarrow> size \<Rightarrow> denylist_cache" where
  "make_cache ttl max_size =
     \<lparr>dc_ttl = ttl, dc_max_size = max_size, dc_entries = [],
      dc_stats = \<lparr>st_hits = 0, st_misses = 0, st_evictions = 0, st_expired_purges = 0\<rparr>\<rparr>"

text \<open>\<open>ttl_\<close> is in seconds, the difference of two time points in nanoseconds.\<close>

definition is_expired :: "time_point \<Rightarrow> denylist_cache \<Rightarrow> cache_entry \<Rightarrow> bool" where
  "is_expired now c e \<longleftrightarrow> dc_ttl c * nanos \<le> now - ce_inserted_at e"

definition count_miss :: "cache_stats \<Rightarrow> cache_stats" where
  "count_miss s = s\<lparr>st_misses := st_misses s + 1\<rparr>"

definition count_purge :: "cache_stats \<Rightarrow> cache_stats" where
  "count_purge s = s\<lparr>st_expired_purges := st_expired_purges s + 1\<rparr>"

definition cache_lookup :: "time_point \<Rightarrow> string \<Rightarrow> denylist_cache \<Rightarrow> bool option \<times> denylist_cache" where
  "cache_lookup now jti c =
     (case tbl_get (dc_entries c) jti of
        None \<Rightarrow> (None, c\<lparr>dc_stats := count_miss (dc_stats c)\<rparr>)
      | Some e \<Rightarrow>
          if is_expired now c e then
            (None, c\<lparr>dc_entries := tbl_erase jti (dc_entries c), dc_stats := count_purge (count_miss (dc_stats c))\<rparr>)
          else (Some (ce_revoked e), c\<lparr>dc_stats := (dc_stats c)\<lparr>st_hits := st_hits (dc_stats c) + 1\<rparr>\<rparr>))"

fun evict_loop ::
  "time_point \<Rightarrow> denylist_cache \<Rightarrow> (string \<times> cache_entry) list \<Rightarrow> (string, cache_entry) table \<times> cache_stats
   \<Rightarrow> (string, cache_entry) table \<times> cache_stats" where
  "evict_loop now c [] acc = acc"
| "evict_loop now c ((jti, e) # rest) (kept, stats) =
     (if is_expired now c e then evict_loop now c rest (kept, count_purge stats)
      else evict_loop now c rest (kept @ [(jti, e)], stats))"

definition evict_expired_if_needed :: "time_point \<Rightarrow> denylist_cache \<Rightarrow> denylist_cache" where
  "evict_expired_if_needed now c =
     (case evict_loop now c (dc_entries c) ([], dc_stats c) of (kept, stats) \<Rightarrow>
        c\<lparr>dc_entries := kept, dc_stats := stats\<rparr>)"

definition cache_full :: "denylist_cache \<Rightarrow> bool" where
  "cache_full c \<longleftrightarrow> unat (dc_max_size c) \<le> length (dc_entries c)"

definition cache_put :: "time_point \<Rightarrow> string \<Rightarrow> bool \<Rightarrow> denylist_cache \<Rightarrow> denylist_cache" where
  "cache_put now jti revoked c =
     (let c1 = (if cache_full c then evict_expired_if_needed now c else c) in
      if cache_full c \<and> cache_full c1 then
        c1\<lparr>dc_stats := (dc_stats c1)\<lparr>st_evictions := st_evictions (dc_stats c1) + 1\<rparr>\<rparr>
      else c1\<lparr>dc_entries := tbl_put jti \<lparr>ce_revoked = revoked, ce_inserted_at = now\<rparr> (dc_entries c1)\<rparr>)"

definition cache_invalidate :: "string \<Rightarrow> denylist_cache \<Rightarrow> denylist_cache" where
  "cache_invalidate jti c = c\<lparr>dc_entries := tbl_erase jti (dc_entries c)\<rparr>"

definition cache_clear :: "denylist_cache \<Rightarrow> denylist_cache" where
  "cache_clear c = c\<lparr>dc_entries := []\<rparr>"

section \<open>Events\<close>

text \<open>The events of a cache, with the times at which they happen.\<close>

datatype cache_event =
    CacheLookup time_point string
  | CachePut time_point string bool
  | CacheInvalidate string
  | CacheClear

fun cache_step :: "cache_event \<Rightarrow> denylist_cache \<Rightarrow> denylist_cache" where
  "cache_step (CacheLookup now jti) c = snd (cache_lookup now jti c)"
| "cache_step (CachePut now jti b) c = cache_put now jti b c"
| "cache_step (CacheInvalidate jti) c = cache_invalidate jti c"
| "cache_step CacheClear c = cache_clear c"

text \<open>
  The abstract contract: the decisions put for a token and not withdrawn since. A cache may forget
  any of them, but never makes one up.
\<close>

fun live_puts :: "string \<Rightarrow> cache_event list \<Rightarrow> (time_point \<times> bool) set" where
  "live_puts jti [] = {}"
| "live_puts jti (ev # rest) =
     (case ev of
        CacheLookup _ _ \<Rightarrow> live_puts jti rest
      | CachePut now j b \<Rightarrow> (if j = jti then insert (now, b) (live_puts jti rest) else live_puts jti rest)
      | CacheInvalidate j \<Rightarrow> (if j = jti then {} else live_puts jti rest)
      | CacheClear \<Rightarrow> {})"

text \<open>Events are listed latest first.\<close>

fun run_cache :: "int \<Rightarrow> size \<Rightarrow> cache_event list \<Rightarrow> denylist_cache" where
  "run_cache ttl max_size [] = make_cache ttl max_size"
| "run_cache ttl max_size (ev # rest) = cache_step ev (run_cache ttl max_size rest)"

section \<open>Lemmas\<close>

lemma evict_loop_filter:
  "fst (evict_loop now c es (kept, stats)) = kept @ filter (\<lambda>(j, e). \<not> is_expired now c e) es"
  by (induction es arbitrary: kept stats) auto

lemma evict_entries:
  "dc_entries (evict_expired_if_needed now c) = filter (\<lambda>(j, e). \<not> is_expired now c e) (dc_entries c)"
  using evict_loop_filter [of now c "dc_entries c" "[]" "dc_stats c"]
  by (auto simp: evict_expired_if_needed_def split: prod.splits)

lemma evict_limits [simp]:
  "dc_max_size (evict_expired_if_needed now c) = dc_max_size c"
  "dc_ttl (evict_expired_if_needed now c) = dc_ttl c"
  by (simp_all add: evict_expired_if_needed_def split: prod.split)

lemma lookup_entries:
  "dc_entries (snd (cache_lookup now jti c)) = dc_entries c
   \<or> dc_entries (snd (cache_lookup now jti c)) = tbl_erase jti (dc_entries c)"
  by (auto simp: cache_lookup_def split: option.splits)

lemma cache_step_limits [simp]:
  "dc_max_size (cache_step ev c) = dc_max_size c" "dc_ttl (cache_step ev c) = dc_ttl c"
  by (cases ev; auto simp: cache_lookup_def cache_put_def cache_invalidate_def cache_clear_def Let_def
      split: option.splits)+

lemma run_cache_limits [simp]:
  "dc_max_size (run_cache ttl n evs) = n" "dc_ttl (run_cache ttl n evs) = ttl"
  by (induction evs) (simp_all add: make_cache_def)

lemma put_entries:
  "dc_entries (cache_put now jti b c) \<in>
     {dc_entries c, filter (\<lambda>(j, e). \<not> is_expired now c e) (dc_entries c)}
     \<union> (\<lambda>es. tbl_put jti \<lparr>ce_revoked = b, ce_inserted_at = now\<rparr> es) `
         {es. es \<in> {dc_entries c, filter (\<lambda>(j, e). \<not> is_expired now c e) (dc_entries c)}
            \<and> length es < unat (dc_max_size c)}"
  by (auto simp: cache_put_def Let_def cache_full_def evict_entries not_le)

lemma step_ok: "tbl_ok (dc_entries c) \<Longrightarrow> tbl_ok (dc_entries (cache_step ev c))"
proof (cases ev)
  case (CacheLookup now jti)
  then show "tbl_ok (dc_entries c) \<Longrightarrow> ?thesis" using lookup_entries [of now jti c] by auto
next
  case (CachePut now jti b)
  then show "tbl_ok (dc_entries c) \<Longrightarrow> ?thesis"
    using put_entries [of now jti b c] by (auto simp: tbl_ok_filter)
qed (simp_all add: cache_invalidate_def cache_clear_def)

lemma step_size:
  assumes "length (dc_entries c) \<le> unat (dc_max_size c)"
  shows "length (dc_entries (cache_step ev c)) \<le> unat (dc_max_size c)"
proof (cases ev)
  case (CacheLookup now jti)
  then show ?thesis
    using lookup_entries [of now jti c] assms tbl_length_erase_le [of jti "dc_entries c"] by auto
next
  case (CachePut now jti b)
  have "length (filter (\<lambda>(j, e). \<not> is_expired now c e) (dc_entries c)) \<le> unat (dc_max_size c)"
    using assms length_filter_le le_trans by blast
  then show ?thesis
    using CachePut put_entries [of now jti b c] assms by (auto simp: tbl_length_put)
next
  case (CacheInvalidate jti)
  then show ?thesis
    using assms tbl_length_erase_le [of jti "dc_entries c"] by (simp add: cache_invalidate_def)
qed (simp add: cache_clear_def)

lemma run_cache_ok: "tbl_ok (dc_entries (run_cache ttl n evs))"
  by (induction evs) (simp_all add: make_cache_def step_ok)

lemma run_cache_size: "length (dc_entries (run_cache ttl n evs)) \<le> unat n"
proof (induction evs)
  case (Cons ev evs)
  then show ?case using step_size [of "run_cache ttl n evs" ev] by simp
qed (simp add: make_cache_def)

lemma filter_get:
  "tbl_ok es \<Longrightarrow> map_of (filter P es) j = Some e \<Longrightarrow> map_of es j = Some e"
  by (simp add: tbl_get_filter split: option.splits if_splits)

lemma run_cache_live:
  "map_of (dc_entries (run_cache ttl n evs)) jti = Some e \<Longrightarrow> (ce_inserted_at e, ce_revoked e) \<in> live_puts jti evs"
proof (induction evs)
  case (Cons ev evs)
  let ?c = "run_cache ttl n evs"
  note ok = run_cache_ok [of ttl n evs]
  show ?case
  proof (cases ev)
    case (CacheLookup now j)
    with Cons show ?thesis using lookup_entries [of now j ?c] by (auto split: if_splits)
  next
    case (CachePut now j b)
    with Cons put_entries [of now j b ?c] filter_get [OF ok] show ?thesis
      by (fastforce split: if_splits)
  qed (use Cons in \<open>auto simp: cache_invalidate_def cache_clear_def split: if_splits\<close>)
qed (simp add: make_cache_def)

lemma lookup_answer:
  "fst (cache_lookup now jti c) = Some b \<longleftrightarrow>
   (\<exists>e. map_of (dc_entries c) jti = Some e \<and> ce_revoked e = b \<and> now - ce_inserted_at e < dc_ttl c * nanos)"
  by (auto simp: cache_lookup_def is_expired_def split: option.splits)

end
