(* ===== verification/Token_Tracking.thy ===== *)
theory Token_Tracking
  imports Memory_Laws Denylist_Cache
begin

text \<open>
  \<open>TokenTrackingService\<close> (\<open>libs/application/token_tracking_service.{h,cpp}\<close>) and its configuration
  (\<open>libs/domain/security_scheme/token_tracking_config.{h,cpp}\<close>): the denylist of access tokens
  with the cache of the shard, and the allowlist of refresh tokens, over any repository.

  Arguments: the system clock \<open>now\<close> and the steady clock \<open>steady\<close>, each read once per operation;
  the offset \<open>tz\<close> of the local time zone; for the rotation, how the backend runs a transaction.
  Logging is left out.
\<close>

section \<open>Configuration\<close>

record cache_config =
  cc_enabled :: bool
  cc_ttl :: int
  cc_max_size :: size

record auto_cleanup_config =
  ac_enabled :: bool
  ac_interval :: int
  ac_keep_revoked_for :: int

record token_tracking_config =
  tt_enabled :: bool
  tt_refresh_table :: string
  tt_revoked_table :: string
  tt_cache :: cache_config
  tt_rotation :: bool
  tt_auto_cleanup :: auto_cleanup_config

definition default_tracking_config :: token_tracking_config where
  "default_tracking_config =
     \<lparr>tt_enabled = False, tt_refresh_table = ''RefreshToken'', tt_revoked_table = ''RevokedToken'',
      tt_cache = \<lparr>cc_enabled = True, cc_ttl = 300, cc_max_size = 10000\<rparr>, tt_rotation = True,
      tt_auto_cleanup = \<lparr>ac_enabled = True, ac_interval = 3600, ac_keep_revoked_for = 2592000\<rparr>\<rparr>"

definition tracking_config_validate :: "token_tracking_config \<Rightarrow> string option" where
  "tracking_config_validate cfg =
     (if \<not> tt_enabled cfg then None
      else if tt_refresh_table cfg = [] then
        Some ''TokenTrackingConfig: refresh_table cannot be empty when enabled''
      else if tt_revoked_table cfg = [] then
        Some ''TokenTrackingConfig: revoked_table cannot be empty when enabled''
      else if tt_refresh_table cfg = tt_revoked_table cfg then
        Some (''TokenTrackingConfig: refresh_table and revoked_table must be different (got both = ''
          @ quoted (tt_refresh_table cfg) @ '')'')
      else if cc_enabled (tt_cache cfg) \<and> cc_max_size (tt_cache cfg) = 0 then
        Some ''TokenTrackingConfig: cache.max_size must be > 0 when cache is enabled''
      else if cc_enabled (tt_cache cfg) \<and> cc_ttl (tt_cache cfg) \<le> 0 then
        Some ''TokenTrackingConfig: cache.ttl must be > 0 when cache is enabled''
      else if ac_enabled (tt_auto_cleanup cfg) \<and> ac_interval (tt_auto_cleanup cfg) \<le> 0 then
        Some ''TokenTrackingConfig: auto_cleanup.interval must be > 0 when enabled''
      else if ac_enabled (tt_auto_cleanup cfg) \<and> ac_keep_revoked_for (tt_auto_cleanup cfg) < 0 then
        Some ''TokenTrackingConfig: auto_cleanup.keep_revoked_for cannot be negative''
      else None)"

section \<open>Reading the fields of a record\<close>

definition get_string_field :: "dynamic_record \<Rightarrow> string \<Rightarrow> string option" where
  "get_string_field rec fn =
     (case tbl_get rec fn of Some (VString s) \<Rightarrow> Some s | _ \<Rightarrow> None)"

definition is_marked_revoked :: "dynamic_record \<Rightarrow> bool" where
  "is_marked_revoked rec =
     (case get_string_field rec ''revoked_at'' of None \<Rightarrow> False | Some s \<Rightarrow> s \<noteq> [])"

section \<open>Access tokens\<close>

record 'r tracking =
  tk_repo :: 'r
  tk_cache :: denylist_cache

text \<open>The decision on the record of the denylist.\<close>

definition denied_by_record :: "int \<Rightarrow> time_point \<Rightarrow> dynamic_record option \<Rightarrow> bool" where
  "denied_by_record tz now found =
     (case found of
        None \<Rightarrow> False
      | Some rec \<Rightarrow>
          (case get_string_field rec ''expires_at'' of
             None \<Rightarrow> True
           | Some s \<Rightarrow>
               (case parse_datetime_string tz s of None \<Rightarrow> False | Some expires_at \<Rightarrow> now \<le> expires_at)))"

definition is_access_revoked ::
  "'r repository \<Rightarrow> token_tracking_config \<Rightarrow> int \<Rightarrow> time_point \<Rightarrow> time_point \<Rightarrow> string \<Rightarrow> 'r tracking
   \<Rightarrow> bool \<times> 'r tracking" where
  "is_access_revoked repo cfg tz now steady jti st =
     (if \<not> tt_enabled cfg then (False, st)
      else if jti = [] then (False, st)
      else let (cached, cache1) =
             (if cc_enabled (tt_cache cfg) then cache_lookup steady jti (tk_cache st) else (None, tk_cache st))
        in case cached of
             Some b \<Rightarrow> (b, st\<lparr>tk_cache := cache1\<rparr>)
           | None \<Rightarrow>
               let revoked = denied_by_record tz now
                     (repo_find_one_by_field repo (tk_repo st) (tt_revoked_table cfg) ''jti'' jti)
               in (revoked, st\<lparr>tk_cache :=
                    (if cc_enabled (tt_cache cfg) then cache_put steady jti revoked cache1 else cache1)\<rparr>))"

definition revoked_record :: "time_point \<Rightarrow> string \<Rightarrow> string \<Rightarrow> time_point \<Rightarrow> string \<Rightarrow> dynamic_record" where
  "revoked_record now jti user_id expires_at reason =
     [(''jti'', VString jti), (''user_id'', VString user_id),
      (''revoked_at'', VString (time_point_to_string now)),
      (''expires_at'', VString (time_point_to_string expires_at))]
     @ (if reason \<noteq> [] then [(''reason'', VString reason)] else [])"

definition revoke_access ::
  "'r repository \<Rightarrow> token_tracking_config \<Rightarrow> time_point \<Rightarrow> string \<Rightarrow> string \<Rightarrow> time_point \<Rightarrow> string
   \<Rightarrow> 'r tracking \<Rightarrow> 'r tracking" where
  "revoke_access repo cfg now jti user_id expires_at reason st =
     (if \<not> tt_enabled cfg then st
      else if jti = [] then st
      else st\<lparr>tk_repo := snd (repo_create repo (tk_repo st) (tt_revoked_table cfg)
                (revoked_record now jti user_id expires_at reason)),
              tk_cache := (if cc_enabled (tt_cache cfg) then cache_invalidate jti (tk_cache st) else tk_cache st)\<rparr>)"

section \<open>Refresh tokens\<close>

definition refresh_record_valid :: "int \<Rightarrow> time_point \<Rightarrow> dynamic_record \<Rightarrow> bool" where
  "refresh_record_valid tz now rec =
     (if is_marked_revoked rec then False
      else case get_string_field rec ''expires_at'' of
        None \<Rightarrow> True
      | Some s \<Rightarrow>
          (case parse_datetime_string tz s of None \<Rightarrow> True | Some expires_at \<Rightarrow> \<not> expires_at < now))"

definition is_refresh_valid ::
  "'r repository \<Rightarrow> token_tracking_config \<Rightarrow> int \<Rightarrow> time_point \<Rightarrow> string \<Rightarrow> 'r \<Rightarrow> bool" where
  "is_refresh_valid repo cfg tz now jti st =
     (if \<not> tt_enabled cfg then True
      else if jti = [] then False
      else case repo_find_one_by_field repo st (tt_refresh_table cfg) ''jti'' jti of
        None \<Rightarrow> False
      | Some rec \<Rightarrow> refresh_record_valid tz now rec)"

definition refresh_record ::
  "string \<Rightarrow> string \<Rightarrow> time_point \<Rightarrow> time_point \<Rightarrow> string \<Rightarrow> string \<Rightarrow> dynamic_record" where
  "refresh_record jti user_id issued_at expires_at device_info ip_address =
     [(''jti'', VString jti), (''user_id'', VString user_id),
      (''issued_at'', VString (time_point_to_string issued_at)),
      (''expires_at'', VString (time_point_to_string expires_at))]
     @ (if device_info \<noteq> [] then [(''device_info'', VString device_info)] else [])
     @ (if ip_address \<noteq> [] then [(''ip_address'', VString ip_address)] else [])"

definition register_refresh ::
  "'r repository \<Rightarrow> token_tracking_config \<Rightarrow> string \<Rightarrow> string \<Rightarrow> time_point \<Rightarrow> time_point \<Rightarrow> string \<Rightarrow> string
   \<Rightarrow> 'r \<Rightarrow> 'r" where
  "register_refresh repo cfg jti user_id issued_at expires_at device_info ip_address st =
     (if \<not> tt_enabled cfg then st
      else if jti = [] \<or> user_id = [] then st
      else snd (repo_create repo st (tt_refresh_table cfg)
        (refresh_record jti user_id issued_at expires_at device_info ip_address)))"

text \<open>
  The work of a rotation: mark the old token (when rotation is enabled), then insert the new one.
  \<open>False\<close> asks the backend to roll back.
\<close>

definition mark_replaced ::
  "'r repository \<Rightarrow> token_tracking_config \<Rightarrow> time_point \<Rightarrow> string \<Rightarrow> string \<Rightarrow> 'r \<Rightarrow> bool \<times> 'r" where
  "mark_replaced repo cfg now old_jti new_jti st =
     (case repo_find_one_by_field repo st (tt_refresh_table cfg) ''jti'' old_jti of
        None \<Rightarrow> (False, st)
      | Some old_record \<Rightarrow>
          if is_marked_revoked old_record then (False, st)
          else case get_string_field old_record ''id'' of
            None \<Rightarrow> (False, st)
          | Some rid \<Rightarrow>
              (case repo_update repo st (tt_refresh_table cfg) rid
                   [(''revoked_at'', VString (time_point_to_string now)), (''replaced_by_jti'', VString new_jti)] of
                 (response, st') \<Rightarrow> (upd_status response, st')))"

definition rotation_work ::
  "'r repository \<Rightarrow> token_tracking_config \<Rightarrow> time_point \<Rightarrow> string \<Rightarrow> string \<Rightarrow> dynamic_record \<Rightarrow> 'r \<Rightarrow> bool \<times> 'r" where
  "rotation_work repo cfg now old_jti new_jti new_record st =
     (case (if tt_rotation cfg then mark_replaced repo cfg now old_jti new_jti st else (True, st)) of
        (False, st1) \<Rightarrow> (False, st1)
      | (True, st1) \<Rightarrow>
          (case repo_create repo st1 (tt_refresh_table cfg) new_record of
             (None, st2) \<Rightarrow> (False, st2)
           | (Some _, st2) \<Rightarrow> (True, st2)))"

definition rotate_refresh ::
  "('r \<Rightarrow> ('r \<Rightarrow> bool \<times> 'r) \<Rightarrow> transaction_result \<times> 'r) \<Rightarrow> 'r repository \<Rightarrow> token_tracking_config \<Rightarrow> time_point
   \<Rightarrow> string \<Rightarrow> string \<Rightarrow> string \<Rightarrow> time_point \<Rightarrow> time_point \<Rightarrow> string \<Rightarrow> string \<Rightarrow> 'r \<Rightarrow> bool \<times> 'r" where
  "rotate_refresh in_tx repo cfg now old_jti new_jti user_id issued_at expires_at device_info ip_address st =
     (if \<not> tt_enabled cfg then (False, st)
      else let work = rotation_work repo cfg now old_jti new_jti
             (refresh_record new_jti user_id issued_at expires_at device_info ip_address)
        in case in_tx st work of (result, st') \<Rightarrow> (committed result \<and> fst (work st), st'))"

definition revoke_refresh ::
  "'r repository \<Rightarrow> token_tracking_config \<Rightarrow> time_point \<Rightarrow> string \<Rightarrow> 'r \<Rightarrow> bool \<times> 'r" where
  "revoke_refresh repo cfg now jti st =
     (if \<not> tt_enabled cfg then (False, st)
      else case repo_find_one_by_field repo st (tt_refresh_table cfg) ''jti'' jti of
        None \<Rightarrow> (False, st)
      | Some rec \<Rightarrow>
          (case get_string_field rec ''id'' of
             None \<Rightarrow> (False, st)
           | Some rid \<Rightarrow>
               (case repo_update repo st (tt_refresh_table cfg) rid
                    [(''revoked_at'', VString (time_point_to_string now))] of
                  (response, st') \<Rightarrow> (upd_status response, st'))))"

text \<open>One iteration of the loop over all refresh tokens, and the loop.\<close>

definition revoke_if_of_user ::
  "'r repository \<Rightarrow> token_tracking_config \<Rightarrow> time_point \<Rightarrow> string \<Rightarrow> dynamic_record \<Rightarrow> 'r \<Rightarrow> 'r" where
  "revoke_if_of_user repo cfg now user_id rec st =
     (if get_string_field rec ''user_id'' \<noteq> Some user_id then st
      else if is_marked_revoked rec then st
      else case get_string_field rec ''id'' of
        None \<Rightarrow> st
      | Some rid \<Rightarrow>
          snd (repo_update repo st (tt_refresh_table cfg) rid
            [(''revoked_at'', VString (time_point_to_string now))]))"

definition revoke_all_user_tokens ::
  "'r repository \<Rightarrow> token_tracking_config \<Rightarrow> time_point \<Rightarrow> string \<Rightarrow> 'r tracking \<Rightarrow> 'r tracking" where
  "revoke_all_user_tokens repo cfg now user_id st =
     (if \<not> tt_enabled cfg then st
      else st\<lparr>tk_repo := fold (revoke_if_of_user repo cfg now user_id)
                (repo_find_all repo (tk_repo st) (tt_refresh_table cfg)) (tk_repo st),
              tk_cache := (if cc_enabled (tt_cache cfg) then cache_clear (tk_cache st) else tk_cache st)\<rparr>)"

section \<open>Sessions and cleanup\<close>

record active_session =
  as_jti :: string
  as_user_id :: string
  as_issued_at :: time_point
  as_expires_at :: time_point
  as_device_info :: string
  as_ip_address :: string

definition string_or_empty :: "string option \<Rightarrow> string" where
  "string_or_empty s = (case s of None \<Rightarrow> [] | Some t \<Rightarrow> t)"

definition active_session_of :: "int \<Rightarrow> time_point \<Rightarrow> string \<Rightarrow> dynamic_record \<Rightarrow> active_session option" where
  "active_session_of tz now user_id rec =
     (if get_string_field rec ''user_id'' \<noteq> Some user_id then None
      else if is_marked_revoked rec then None
      else case get_string_field rec ''expires_at'' of
        None \<Rightarrow> None
      | Some s \<Rightarrow>
          (case parse_datetime_string tz s of
             None \<Rightarrow> None
           | Some expires_at \<Rightarrow>
               if expires_at < now then None
               else Some \<lparr>as_jti = string_or_empty (get_string_field rec ''jti''), as_user_id = user_id,
                 as_issued_at =
                   (case get_string_field rec ''issued_at'' of
                      None \<Rightarrow> 0
                    | Some t \<Rightarrow> (case parse_datetime_string tz t of None \<Rightarrow> 0 | Some i \<Rightarrow> i)),
                 as_expires_at = expires_at,
                 as_device_info = string_or_empty (get_string_field rec ''device_info''),
                 as_ip_address = string_or_empty (get_string_field rec ''ip_address'')\<rparr>))"

definition list_active_sessions ::
  "'r repository \<Rightarrow> token_tracking_config \<Rightarrow> int \<Rightarrow> time_point \<Rightarrow> string \<Rightarrow> 'r \<Rightarrow> active_session list" where
  "list_active_sessions repo cfg tz now user_id st =
     (if \<not> tt_enabled cfg then []
      else List.map_filter (active_session_of tz now user_id) (repo_find_all repo st (tt_refresh_table cfg)))"

text \<open>One iteration of a cleanup loop: remove the record when its expiration lies before \<open>cutoff\<close>.\<close>

definition remove_if_before ::
  "'r repository \<Rightarrow> string \<Rightarrow> int \<Rightarrow> time_point \<Rightarrow> dynamic_record \<Rightarrow> 'r \<times> size \<Rightarrow> 'r \<times> size" where
  "remove_if_before repo table tz cutoff rec acc =
     (case get_string_field rec ''expires_at'' of
        None \<Rightarrow> acc
      | Some s \<Rightarrow>
          (case parse_datetime_string tz s of
             None \<Rightarrow> acc
           | Some expires_at \<Rightarrow>
               if cutoff \<le> expires_at then acc
               else case get_string_field rec ''id'' of
                 None \<Rightarrow> acc
               | Some rid \<Rightarrow>
                   (case repo_remove repo (fst acc) table rid of
                      (deleted, st') \<Rightarrow> (st', if deleted then snd acc + 1 else snd acc))))"

record cleanup_report =
  refresh_deleted :: size
  revoked_deleted :: size

definition cleanup_expired ::
  "'r repository \<Rightarrow> token_tracking_config \<Rightarrow> int \<Rightarrow> time_point \<Rightarrow> 'r \<Rightarrow> cleanup_report \<times> 'r" where
  "cleanup_expired repo cfg tz now st =
     (if \<not> tt_enabled cfg then (\<lparr>refresh_deleted = 0, revoked_deleted = 0\<rparr>, st)
      else let (st1, n1) = fold (remove_if_before repo (tt_refresh_table cfg) tz now)
                 (repo_find_all repo st (tt_refresh_table cfg)) (st, 0);
               cutoff = now - ac_keep_revoked_for (tt_auto_cleanup cfg) * nanos;
               (st2, n2) = fold (remove_if_before repo (tt_revoked_table cfg) tz cutoff)
                 (repo_find_all repo st1 (tt_revoked_table cfg)) (st1, 0)
        in (\<lparr>refresh_deleted = n1, revoked_deleted = n2\<rparr>, st2))"

text \<open>How the memory backend runs the work of a rotation, which is ready at once: no rollback.\<close>

definition memory_rotation_tx ::
  "storage \<Rightarrow> (storage \<Rightarrow> bool \<times> storage) \<Rightarrow> transaction_result \<times> storage" where
  "memory_rotation_tx st work = mem_in_transaction st (\<lambda>s. case work s of (b, s') \<Rightarrow> (WReady b, s'))"

end
