(* ===== verification/Token_Laws.thy ===== *)
theory Token_Laws
  imports Token_Tracking
begin

text \<open>
  Laws of the token tracking service over any repository: \<open>token_repository\<close> adds to the contract of
  a repository what the service needs of an update (named string fields are written, others stay),
  and the lemmas on the loop that revokes the refresh tokens of a user are proved once in it. It is
  interpreted on the memory backend.
\<close>

section \<open>Records\<close>

lemma get_string_field_iff: "get_string_field rec n = Some s \<longleftrightarrow> map_of rec n = Some (VString s)"
  by (auto simp: get_string_field_def split: option.splits dynamic_value.splits)

lemma get_string_field_cong: "map_of r n = map_of r' n \<Longrightarrow> get_string_field r n = get_string_field r' n"
  by (simp add: get_string_field_def)

lemma time_text_nonempty [simp]: "time_point_to_string tp \<noteq> []"
  by (simp add: time_point_to_string_def put_time_def)

section \<open>Revoking the refresh tokens of a user\<close>

locale token_repository = generic_repository repo ok key_of stored_form
  for repo :: "'r repository" and ok key_of stored_form +
  assumes update_sets: "ok st \<Longrightarrow> repo_update repo st en k rec = (resp, st') \<Longrightarrow> upd_status resp \<Longrightarrow>
      tbl_ok rec \<Longrightarrow> map_of rec n = Some (VString s) \<Longrightarrow> n \<noteq> ''id'' \<Longrightarrow>
      map_of (upd_record resp) n = Some (VString s)"
    and update_keeps: "ok st \<Longrightarrow> repo_update repo st en k rec = (resp, st') \<Longrightarrow> upd_status resp \<Longrightarrow>
      tbl_ok rec \<Longrightarrow> repo_find_by_id repo st en k = Some old \<Longrightarrow> map_of rec n = None \<Longrightarrow>
      map_of (upd_record resp) n = map_of old n"
begin

text \<open>Every record of a table is stored under its identifier, a string.\<close>

definition keyed :: "'r \<Rightarrow> string \<Rightarrow> bool" where
  "keyed st en \<longleftrightarrow> (\<forall>k r. repo_find_by_id repo st en k = Some r \<longrightarrow> get_string_field r ''id'' = Some k)"

definition user_at :: "'r \<Rightarrow> string \<Rightarrow> string \<Rightarrow> string option option" where
  "user_at st en k = map_option (\<lambda>r. get_string_field r ''user_id'') (repo_find_by_id repo st en k)"

definition marked_at :: "'r \<Rightarrow> string \<Rightarrow> string \<Rightarrow> bool" where
  "marked_at st en k \<longleftrightarrow> (\<exists>r. repo_find_by_id repo st en k = Some r \<and> is_marked_revoked r)"

lemma mark_update:
  assumes "ok st" and "keyed st en" and "repo_find_by_id repo st en k = Some old"
    and "repo_update repo st en k [(''revoked_at'', VString (time_point_to_string now))] = (resp, st')"
  shows "ok st' \<and> keyed st' en \<and> user_at st' en = user_at st en \<and> marked_at st' en k \<and>
    (\<forall>k'. k' \<noteq> k \<longrightarrow> repo_find_by_id repo st' en k' = repo_find_by_id repo st en k')"
proof -
  let ?rec = "[(''revoked_at'', VString (time_point_to_string now))] :: dynamic_record"
  have "upd_status resp" using update_none [OF assms(1,4)] assms(3) by auto
  note some = update_some [OF assms(1,4) this] and sets = update_sets [OF assms(1,4) this]
    and keeps = update_keeps [OF assms(1,4) this _ assms(3)]
  have find: "repo_find_by_id repo st' en k' =
      (if k' = k then Some (upd_record resp) else repo_find_by_id repo st en k')" for k'
    using some by auto
  have marked: "is_marked_revoked (upd_record resp)"
    using sets [of "''revoked_at''" "time_point_to_string now"]
    by (simp add: is_marked_revoked_def get_string_field_def)
  have "map_of (upd_record resp) ''id'' = map_of old ''id''" using some assms(3) by auto
  then have key: "get_string_field (upd_record resp) ''id'' = Some k"
    using assms(2,3) get_string_field_cong [of "upd_record resp" "''id''" old] by (simp add: keyed_def)
  have user: "get_string_field (upd_record resp) ''user_id'' = get_string_field old ''user_id''"
    by (rule get_string_field_cong, rule keeps) simp_all
  have "ok st'" using update_ok [OF assms(1), of en k ?rec] assms(4) by simp
  moreover have "keyed st' en" using assms(2) key by (auto simp: keyed_def find)
  moreover have "user_at st' en = user_at st en" using user assms(3) by (auto simp: user_at_def find)
  ultimately show ?thesis using marked by (simp add: find marked_at_def)
qed

text \<open>One iteration of the loop on a record listed before the loop, and the loop.\<close>

lemma revoke_step:
  assumes "ok st" and "keyed st (tt_refresh_table cfg)"
    and "get_string_field rec ''id'' = Some i" and "user_at st (tt_refresh_table cfg) i = Some (get_string_field rec ''user_id'')"
    and "is_marked_revoked rec \<Longrightarrow> marked_at st (tt_refresh_table cfg) i"
    and "st' = revoke_if_of_user repo cfg now u rec st"
  shows "ok st' \<and> keyed st' (tt_refresh_table cfg) \<and> user_at st' (tt_refresh_table cfg) = user_at st (tt_refresh_table cfg)
    \<and> (\<forall>k. marked_at st (tt_refresh_table cfg) k \<longrightarrow> marked_at st' (tt_refresh_table cfg) k)
    \<and> (\<forall>k. user_at st (tt_refresh_table cfg) k \<noteq> Some (Some u) \<longrightarrow>
         repo_find_by_id repo st' (tt_refresh_table cfg) k = repo_find_by_id repo st (tt_refresh_table cfg) k)
    \<and> (get_string_field rec ''user_id'' = Some u \<longrightarrow> marked_at st' (tt_refresh_table cfg) i)"
proof (cases "get_string_field rec ''user_id'' = Some u \<and> \<not> is_marked_revoked rec")
  case False
  then have "st' = st" by (auto simp: assms(6) revoke_if_of_user_def)
  with assms(1-5) False show ?thesis by auto
next
  case True
  obtain old where old: "repo_find_by_id repo st (tt_refresh_table cfg) i = Some old"
    using assms(4) by (auto simp: user_at_def)
  obtain resp where "repo_update repo st (tt_refresh_table cfg) i
      [(''revoked_at'', VString (time_point_to_string now))] = (resp, st')"
    using True assms(3,6) by (cases "repo_update repo st (tt_refresh_table cfg) i
      [(''revoked_at'', VString (time_point_to_string now))]") (simp add: revoke_if_of_user_def)
  note upd = mark_update [OF assms(1,2) old this]
  have "marked_at st' (tt_refresh_table cfg) k" if "marked_at st (tt_refresh_table cfg) k" for k
    using that upd by (cases "k = i") (auto simp: marked_at_def)
  moreover have "k \<noteq> i" if "user_at st (tt_refresh_table cfg) k \<noteq> Some (Some u)" for k
    using that assms(4) True by auto
  ultimately show ?thesis using upd by blast
qed

lemma revoke_loop:
  assumes "ok st" and "keyed st (tt_refresh_table cfg)"
    and "\<And>rec. rec \<in> set rs \<Longrightarrow> \<exists>i. get_string_field rec ''id'' = Some i
      \<and> user_at st (tt_refresh_table cfg) i = Some (get_string_field rec ''user_id'')
      \<and> (is_marked_revoked rec \<longrightarrow> marked_at st (tt_refresh_table cfg) i)"
    and "st' = fold (revoke_if_of_user repo cfg now u) rs st"
  shows "ok st' \<and> user_at st' (tt_refresh_table cfg) = user_at st (tt_refresh_table cfg)
    \<and> (\<forall>k. user_at st (tt_refresh_table cfg) k \<noteq> Some (Some u) \<longrightarrow>
         repo_find_by_id repo st' (tt_refresh_table cfg) k = repo_find_by_id repo st (tt_refresh_table cfg) k)
    \<and> (\<forall>k. marked_at st (tt_refresh_table cfg) k \<longrightarrow> marked_at st' (tt_refresh_table cfg) k)
    \<and> (\<forall>rec i. rec \<in> set rs \<longrightarrow> get_string_field rec ''user_id'' = Some u \<longrightarrow>
         get_string_field rec ''id'' = Some i \<longrightarrow> marked_at st' (tt_refresh_table cfg) i)"
  using assms
proof (induction rs arbitrary: st)
  case (Cons rec rs)
  let ?T = "tt_refresh_table cfg" and ?s1 = "revoke_if_of_user repo cfg now u rec st"
  obtain i where i: "get_string_field rec ''id'' = Some i"
      "user_at st ?T i = Some (get_string_field rec ''user_id'')" "is_marked_revoked rec \<longrightarrow> marked_at st ?T i"
    using Cons.prems(3) [of rec] by auto
  note step = revoke_step [OF Cons.prems(1,2) i(1,2) mp [OF i(3)] refl, of now u]
  have "\<exists>i. get_string_field rec' ''id'' = Some i \<and> user_at ?s1 ?T i = Some (get_string_field rec' ''user_id'')
      \<and> (is_marked_revoked rec' \<longrightarrow> marked_at ?s1 ?T i)" if "rec' \<in> set rs" for rec'
    using Cons.prems(3) [of rec'] that step by auto
  moreover have "st' = fold (revoke_if_of_user repo cfg now u) rs ?s1" using Cons.prems(4) by simp
  ultimately have loop: "ok st' \<and> user_at st' ?T = user_at ?s1 ?T
    \<and> (\<forall>k. user_at ?s1 ?T k \<noteq> Some (Some u) \<longrightarrow> repo_find_by_id repo st' ?T k = repo_find_by_id repo ?s1 ?T k)
    \<and> (\<forall>k. marked_at ?s1 ?T k \<longrightarrow> marked_at st' ?T k)
    \<and> (\<forall>rec i. rec \<in> set rs \<longrightarrow> get_string_field rec ''user_id'' = Some u \<longrightarrow>
         get_string_field rec ''id'' = Some i \<longrightarrow> marked_at st' ?T i)"
    using Cons.IH [of ?s1] step by blast
  have "marked_at st' ?T i" if "get_string_field rec ''user_id'' = Some u"
    using that step loop by blast
  then have "\<forall>rec' i'. rec' \<in> set (rec # rs) \<longrightarrow> get_string_field rec' ''user_id'' = Some u \<longrightarrow>
      get_string_field rec' ''id'' = Some i' \<longrightarrow> marked_at st' ?T i'"
    using loop i(1) by auto
  then show ?case using step loop by metis
qed simp

text \<open>After the loop over the whole table every token of the user is marked, and no other changed.\<close>

lemma revoke_all_records:
  assumes "ok st" and "keyed st (tt_refresh_table cfg)"
    and "st' = fold (revoke_if_of_user repo cfg now u) (repo_find_all repo st (tt_refresh_table cfg)) st"
  shows "(r \<in> set (repo_find_all repo st' (tt_refresh_table cfg)) \<longrightarrow> get_string_field r ''user_id'' = Some u \<longrightarrow>
      is_marked_revoked r) \<and>
    (get_string_field r ''user_id'' \<noteq> Some u \<longrightarrow>
      (r \<in> set (repo_find_all repo st' (tt_refresh_table cfg)) \<longleftrightarrow> r \<in> set (repo_find_all repo st (tt_refresh_table cfg))))"
proof -
  let ?T = "tt_refresh_table cfg" and ?rs = "repo_find_all repo st (tt_refresh_table cfg)"
  have listed: "\<exists>i. get_string_field rec ''id'' = Some i \<and> user_at st ?T i = Some (get_string_field rec ''user_id'')
      \<and> (is_marked_revoked rec \<longrightarrow> marked_at st ?T i)" if "rec \<in> set ?rs" for rec
    using that assms(2) by (auto simp: find_all_iff [OF assms(1)] keyed_def user_at_def marked_at_def)
  note loop = revoke_loop [where rs = ?rs, OF assms(1,2) listed assms(3)]
  then have ok': "ok st'" by blast
  have mine: "is_marked_revoked r" if r: "repo_find_by_id repo st' ?T k = Some r" "get_string_field r ''user_id'' = Some u" for k
  proof -
    have "user_at st ?T k = Some (Some u)" using loop r by (metis option.simps(9) user_at_def)
    then obtain r0 where r0: "repo_find_by_id repo st ?T k = Some r0" "get_string_field r0 ''user_id'' = Some u"
      by (auto simp: user_at_def)
    then have "r0 \<in> set ?rs" "get_string_field r0 ''id'' = Some k"
      using assms(2) by (auto simp: find_all_iff [OF assms(1)] keyed_def)
    then have "marked_at st' ?T k" using loop r0 by blast
    then show ?thesis using r by (simp add: marked_at_def)
  qed
  have other: "repo_find_by_id repo st' ?T k = Some r \<longleftrightarrow> repo_find_by_id repo st ?T k = Some r"
    if "get_string_field r ''user_id'' \<noteq> Some u" for k
  proof (cases "user_at st ?T k = Some (Some u)")
    case True
    then have "user_at st' ?T k = Some (Some u)" using loop by simp
    with True that show ?thesis by (auto simp: user_at_def)
  qed (use loop in auto)
  show ?thesis using mine other by (auto simp: find_all_iff [OF assms(1)] find_all_iff [OF ok'])
qed

end

section \<open>The memory backend\<close>

interpretation memory_tokens: token_repository memory_repository storage_ok extract_id filter_record
proof
  fix st :: storage and en k rec resp st' n s
  assume "repo_update memory_repository st en k rec = (resp, st')" "upd_status resp" "tbl_ok rec"
    "map_of rec n = Some (VString s)" "n \<noteq> ''id''"
  then show "map_of (upd_record resp) n = Some (VString s)"
    by (auto simp: memory_repository_def mem_update_def Let_def merge_record_get is_strings_def split: option.splits)
next
  fix st :: storage and en k rec resp st' old n
  assume "repo_update memory_repository st en k rec = (resp, st')" "upd_status resp" "tbl_ok rec"
    "repo_find_by_id memory_repository st en k = Some old" "map_of rec n = None"
  then show "map_of (upd_record resp) n = map_of old n"
    by (cases "n = ''id''")
      (auto simp: memory_repository_def mem_update_def mem_find_by_id_def Let_def merge_record_get split: option.splits)
qed

lemma memory_create_without_id:
  "map_of rec ''id'' = None \<Longrightarrow> repo_create memory_repository st en rec = (None, st)"
  by (simp add: memory_repository_def mem_create_def extract_id_def)

lemma token_records_without_id [simp]:
  "map_of (revoked_record now jti u e reason) ''id'' = None"
  "map_of (refresh_record jti u i e device ip) ''id'' = None"
  by (simp_all add: revoked_record_def refresh_record_def)

end
