(* ===== verification/Token_Properties.thy ===== *)
theory Token_Properties
  imports Token_Laws
begin

text \<open>
  The properties of token tracking: where the answer about an access token comes from and how old
  it may be, how long a revocation lasts, what revoking all tokens of a user does to the sessions,
  and the memory backend, on which no token is ever recorded.
\<close>

section \<open>Helpers\<close>

abbreviation sessions_of where
  "sessions_of cfg tz now u st \<equiv> list_active_sessions memory_repository cfg tz now u st"

lemma session_of_user: "active_session_of tz now u r = Some s \<Longrightarrow>
    get_string_field r ''user_id'' = Some u \<and> \<not> is_marked_revoked r"
  by (auto simp: active_session_of_def split: if_splits)

lemma marked_refused: "is_marked_revoked r \<Longrightarrow> \<not> refresh_record_valid tz now r"
  by (simp add: refresh_record_valid_def)

lemma denied_window:
  assumes "get_string_field rec ''expires_at'' = Some (time_point_to_string expires)"
    and "0 \<le> expires" and "expires div nanos \<le> last_second" and "expires div nanos \<noteq> tz - 1"
  shows "denied_by_record tz now (Some rec) \<longleftrightarrow> now \<le> (expires div nanos - tz) * nanos"
  using parse_time_text [OF assms(2-4)] by (simp add: denied_by_record_def assms(1))

section \<open>Lemmas behind the properties\<close>

lemma answer_sources:
  assumes "tk_cache st = run_cache ttl n evs" and "tt_enabled cfg" and "jti \<noteq> []"
    and "fst (is_access_revoked repo cfg tz now steady jti st) = b"
  shows "b = denied_by_record tz now (repo_find_one_by_field repo (tk_repo st) (tt_revoked_table cfg) ''jti'' jti)
      \<or> (\<exists>t. (t, b) \<in> live_puts jti evs \<and> steady - t < ttl * nanos)"
    and "length (dc_entries (tk_cache (snd (is_access_revoked repo cfg tz now steady jti st)))) \<le> unat n"
proof -
  let ?c = "run_cache ttl n evs"
  show "b = denied_by_record tz now (repo_find_one_by_field repo (tk_repo st) (tt_revoked_table cfg) ''jti'' jti)
      \<or> (\<exists>t. (t, b) \<in> live_puts jti evs \<and> steady - t < ttl * nanos)"
  proof (cases "cc_enabled (tt_cache cfg) \<and> fst (cache_lookup steady jti ?c) \<noteq> None")
    case True
    then have "fst (cache_lookup steady jti ?c) = Some b"
      using assms by (auto simp: is_access_revoked_def Let_def split: prod.splits)
    then show ?thesis by (auto simp: lookup_answer dest: run_cache_live)
  next
    case False
    then show ?thesis
      using assms by (auto simp: is_access_revoked_def Let_def split: prod.splits if_splits option.splits)
  qed
  have "\<exists>evs'. tk_cache (snd (is_access_revoked repo cfg tz now steady jti st)) = run_cache ttl n evs'"
  proof -
    let ?ev = "CacheLookup steady jti"
      and ?b = "denied_by_record tz now (repo_find_one_by_field repo (tk_repo st) (tt_revoked_table cfg) ''jti'' jti)"
    have "tk_cache (snd (is_access_revoked repo cfg tz now steady jti st)) \<in>
      {?c, run_cache ttl n (?ev # evs), run_cache ttl n (CachePut steady jti ?b # ?ev # evs)}"
      using assms(1-3) by (auto simp: is_access_revoked_def Let_def split: option.splits prod.splits)
    then show ?thesis by blast
  qed
  then show "length (dc_entries (tk_cache (snd (is_access_revoked repo cfg tz now steady jti st)))) \<le> unat n"
    using run_cache_size by force
qed

lemma sessions_after_revoke_all:
  assumes "tt_enabled cfg" and "storage_ok (tk_repo st)"
    and "\<forall>k r. mem_find_by_id (tk_repo st) (tt_refresh_table cfg) k = Some r \<longrightarrow> get_string_field r ''id'' = Some k"
    and "st' = revoke_all_user_tokens memory_repository cfg now u st"
  shows "sessions_of cfg tz t u (tk_repo st') = []"
    and "r \<in> set (mem_find_all (tk_repo st') (tt_refresh_table cfg)) \<Longrightarrow> get_string_field r ''user_id'' = Some u \<Longrightarrow>
      \<not> refresh_record_valid tz t r"
    and "v \<noteq> u \<Longrightarrow> set (sessions_of cfg tz t v (tk_repo st')) = set (sessions_of cfg tz t v (tk_repo st))"
proof -
  have st': "tk_repo st' = fold (revoke_if_of_user memory_repository cfg now u)
      (repo_find_all memory_repository (tk_repo st) (tt_refresh_table cfg)) (tk_repo st)"
    using assms(1,4) by (simp add: revoke_all_user_tokens_def)
  have keyed: "memory_tokens.keyed (tk_repo st) (tt_refresh_table cfg)"
    unfolding memory_tokens.keyed_def using assms(3) by (simp add: memory_repository_def)
  note all = memory_tokens.revoke_all_records [OF assms(2) keyed st']
  show "sessions_of cfg tz t u (tk_repo st') = []"
  proof (rule ccontr)
    assume "\<not> ?thesis"
    then obtain s where "s \<in> set (sessions_of cfg tz t u (tk_repo st'))" by (meson last_in_set)
    then show False
      using all session_of_user by (fastforce simp: list_active_sessions_def set_map_filter_iff assms(1))
  qed
  show "\<not> refresh_record_valid tz t r"
    if "r \<in> set (mem_find_all (tk_repo st') (tt_refresh_table cfg))" "get_string_field r ''user_id'' = Some u" for r
    using all [of r] that marked_refused by (simp add: memory_repository_def)
  show "set (sessions_of cfg tz t v (tk_repo st')) = set (sessions_of cfg tz t v (tk_repo st))" if "v \<noteq> u"
  proof -
    have "x \<in> set (repo_find_all memory_repository (tk_repo st') (tt_refresh_table cfg)) \<longleftrightarrow>
        x \<in> set (repo_find_all memory_repository (tk_repo st) (tt_refresh_table cfg))"
      if "active_session_of tz t v x = Some s" for x s
      using all [of x] session_of_user [OF that] \<open>v \<noteq> u\<close> by simp
    then have "x \<in> set (sessions_of cfg tz t v (tk_repo st')) \<longleftrightarrow> x \<in> set (sessions_of cfg tz t v (tk_repo st))" for x
      unfolding list_active_sessions_def using assms(1) by (simp add: set_map_filter_iff) blast
    then show ?thesis by blast
  qed
qed

lemma memory_token_operations:
  shows "register_refresh memory_repository cfg jti u issued expires device ip s = s"
    and "tk_repo (revoke_access memory_repository cfg now jti u expires reason st) = tk_repo st"
    and "tt_enabled cfg \<Longrightarrow> tt_rotation cfg \<Longrightarrow> storage_ok s \<Longrightarrow>
      repo_find_one_by_field memory_repository s (tt_refresh_table cfg) ''jti'' old = Some rec \<Longrightarrow>
      mem_find_by_id s (tt_refresh_table cfg) k = Some rec \<Longrightarrow> get_string_field rec ''id'' = Some k \<Longrightarrow>
      rotate_refresh memory_rotation_tx memory_repository cfg now old new u issued expires device ip s = (b, s') \<Longrightarrow>
      \<not> b \<and> (\<exists>r. mem_find_by_id s' (tt_refresh_table cfg) k = Some r \<and> \<not> refresh_record_valid tz t r)"
proof -
  show "register_refresh memory_repository cfg jti u issued expires device ip s = s"
    by (simp add: register_refresh_def memory_create_without_id)
  show "tk_repo (revoke_access memory_repository cfg now jti u expires reason st) = tk_repo st"
    by (simp add: revoke_access_def memory_create_without_id)
  assume a: "tt_enabled cfg" "tt_rotation cfg" "storage_ok s"
    "repo_find_one_by_field memory_repository s (tt_refresh_table cfg) ''jti'' old = Some rec"
    "mem_find_by_id s (tt_refresh_table cfg) k = Some rec" "get_string_field rec ''id'' = Some k"
    "rotate_refresh memory_rotation_tx memory_repository cfg now old new u issued expires device ip s = (b, s')"
  let ?T = "tt_refresh_table cfg" and ?mark = "mark_replaced memory_repository cfg now old new s"
  have work: "rotation_work memory_repository cfg now old new (refresh_record new u issued expires device ip) s
      = (False, snd ?mark)"
    using a(2) by (simp add: rotation_work_def memory_create_without_id split: prod.split bool.split)
  then have b: "\<not> b" "s' = snd ?mark"
    using a(1,7) by (auto simp: rotate_refresh_def Let_def memory_rotation_tx_def mem_in_transaction_def)
  have "\<exists>r. mem_find_by_id s' ?T k = Some r \<and> is_marked_revoked r"
  proof (cases "is_marked_revoked rec")
    case True
    then show ?thesis using a(4,5) b(2) by (simp add: mark_replaced_def)
  next
    case False
    let ?new = "[(''revoked_at'', VString (time_point_to_string now)), (''replaced_by_jti'', VString new)] :: dynamic_record"
    obtain resp where upd: "repo_update memory_repository s ?T k ?new = (resp, s')"
      using False a(4,6) b(2) by (cases "repo_update memory_repository s ?T k ?new") (simp add: mark_replaced_def)
    have found: "repo_find_by_id memory_repository s ?T k = Some rec"
      using a(5) by (simp add: memory_repository_def)
    then have ok: "upd_status resp" using memory.update_none [OF a(3) upd] by auto
    have "repo_find_by_id memory_repository s' ?T k = Some (upd_record resp)"
      using memory.update_some [OF a(3) upd ok] by auto
    moreover have "map_of (upd_record resp) ''revoked_at'' = Some (VString (time_point_to_string now))"
      by (rule memory_tokens.update_sets [OF a(3) upd ok]) simp_all
    ultimately show ?thesis
      by (auto simp: memory_repository_def is_marked_revoked_def get_string_field_def)
  qed
  with b(1) marked_refused show "\<not> b \<and> (\<exists>r. mem_find_by_id s' ?T k = Some r \<and> \<not> refresh_record_valid tz t r)"
    by blast
qed

section \<open>Example\<close>

definition demo_tracking_config :: token_tracking_config where
  "demo_tracking_config = default_tracking_config\<lparr>tt_enabled := True\<rparr>"

definition session_record :: "string \<Rightarrow> string \<Rightarrow> dynamic_record" where
  "session_record k u = [(''id'', VString k), (''jti'', VString (''j'' @ k)), (''user_id'', VString u),
     (''expires_at'', VString (time_point_to_string (7200 * nanos)))]"

definition demo_sessions :: storage where
  "demo_sessions = [(''RefreshToken'',
     [(''1'', session_record ''1'' ''ann''), (''2'', session_record ''2'' ''bob''), (''3'', session_record ''3'' ''ann'')])]"

definition demo_revoked :: storage where
  "demo_revoked = [(''RevokedToken'', [(''9'', session_record ''9'' ''ann'')])]"

lemma demo_sessions_ok: "storage_ok demo_sessions"
  by (simp add: demo_sessions_def storage_ok_def)

lemma demo_session_found: "mem_find_by_id demo_sessions ''RefreshToken'' k = Some r \<Longrightarrow>
    get_string_field r ''id'' = Some k"
  unfolding mem_find_by_id_def demo_sessions_def
  by (auto simp: get_string_field_def session_record_def split: if_splits)

lemma session_record_fields:
  "get_string_field (session_record k u) ''id'' = Some k"
  "get_string_field (session_record k u) ''user_id'' = Some u"
  "get_string_field (session_record k u) ''expires_at'' = Some (time_point_to_string (7200 * nanos))"
  "\<not> is_marked_revoked (session_record k u)"
  by (simp_all add: get_string_field_def session_record_def is_marked_revoked_def)

lemma session_expires: "parse_datetime_string 0 (time_point_to_string (7200 * nanos)) = Some (7200 * nanos)"
  by (subst parse_time_text) (simp_all add: nanos_def last_second_def)

lemma session_ends_later: "\<not> 7200 * nanos < 0"
  by (simp add: nanos_def)

lemmas demo_token_defs = demo_sessions_def session_record_def demo_tracking_config_def default_tracking_config_def

section \<open>Properties\<close>

text \<open>C15: The answer about an access token is either the decision on the record of the denylist,
  taken now, or a decision that was put into the cache of the shard for that very token less than the
  time to live before and was not withdrawn since; over every sequence of cache operations. The cache
  never holds more entries than its cap.\<close>

theorem revocation_answer_sources:
  assumes "tk_cache st = run_cache ttl n evs" and "tt_enabled cfg" and "jti \<noteq> []"
    and "is_access_revoked repo cfg tz now steady jti st = (b, st')"
  shows "(b = denied_by_record tz now (repo_find_one_by_field repo (tk_repo st) (tt_revoked_table cfg) ''jti'' jti)
      \<or> (\<exists>t. (t, b) \<in> live_puts jti evs \<and> steady - t < ttl * nanos))
    \<and> length (dc_entries (tk_cache st')) \<le> unat n"
  using answer_sources [OF assms(1-3), of repo tz now steady b] assms(4) by simp

theorem revocation_answer_sources_witness:
  "\<exists>st'. is_access_revoked memory_repository demo_tracking_config 0 0 8 ''j9''
     \<lparr>tk_repo = [], tk_cache = run_cache 300 5 [CachePut 3 ''j9'' True]\<rparr> = (True, st')
   \<and> length (dc_entries (tk_cache st')) \<le> unat (5 :: size)"
proof -
  let ?st = "\<lparr>tk_repo = [], tk_cache = run_cache 300 5 [CachePut 3 ''j9'' True]\<rparr> :: storage tracking"
  have "fst (is_access_revoked memory_repository demo_tracking_config 0 0 8 ''j9'' ?st) = True"
    by code_simp
  then obtain st' where "is_access_revoked memory_repository demo_tracking_config 0 0 8 ''j9'' ?st = (True, st')"
    by (metis prod.collapse)
  then show ?thesis
    using revocation_answer_sources [of ?st 300 5 "[CachePut 3 ''j9'' True]" demo_tracking_config "''j9''"]
    by (fastforce simp: demo_tracking_config_def)
qed

text \<open>How long a revocation lasts: with the text of the expiration written by
  \<open>time_point_to_string\<close>, the record of the denylist refuses the token until the expiration read as
  local time. In a zone ahead of UTC a revoked token is accepted again before it expires.\<close>

theorem revocation_window:
  assumes "repo_find_one_by_field repo (tk_repo st) (tt_revoked_table cfg) ''jti'' jti = Some rec"
    and "get_string_field rec ''expires_at'' = Some (time_point_to_string expires)"
    and "0 \<le> expires" and "expires div nanos \<le> last_second" and "expires div nanos \<noteq> tz - 1"
    and "tt_enabled cfg" and "jti \<noteq> []" and "fst (cache_lookup steady jti (tk_cache st)) = None"
  shows "fst (is_access_revoked repo cfg tz now steady jti st) \<longleftrightarrow> now \<le> (expires div nanos - tz) * nanos"
  using denied_window [OF assms(2-5), of now] assms(1,6-8)
  by (auto simp: is_access_revoked_def Let_def split: prod.splits)

theorem revocation_window_witness:
  "\<not> fst (is_access_revoked memory_repository demo_tracking_config 3600 (3601 * nanos) 0 ''j9''
      \<lparr>tk_repo = demo_revoked, tk_cache = make_cache 300 5\<rparr>)
   \<and> fst (is_access_revoked memory_repository demo_tracking_config 0 (3601 * nanos) 0 ''j9''
      \<lparr>tk_repo = demo_revoked, tk_cache = make_cache 300 5\<rparr>)"
proof -
  let ?st = "\<lparr>tk_repo = demo_revoked, tk_cache = make_cache 300 5\<rparr> :: storage tracking"
  have found: "repo_find_one_by_field memory_repository (tk_repo ?st) (tt_revoked_table demo_tracking_config) ''jti'' ''j9''
      = Some (session_record ''9'' ''ann'')"
    by (simp add: memory_repository_def mem_find_one_by_field_def demo_revoked_def demo_token_defs field_is_def
        dynamic_value_to_string_def)
  have written: "get_string_field (session_record ''9'' ''ann'') ''expires_at'' = Some (time_point_to_string (7200 * nanos))"
    by (simp add: get_string_field_def session_record_def)
  have miss: "fst (cache_lookup 0 ''j9'' (tk_cache ?st)) = None"
    by (simp add: cache_lookup_def make_cache_def)
  show ?thesis
    using revocation_window [OF found written, of 3600 0 "3601 * nanos"]
      revocation_window [OF found written, of 0 0 "3601 * nanos"] miss
    by (simp add: nanos_def last_second_def demo_tracking_config_def)
qed

text \<open>C14: After revoking all tokens of a user on the memory backend no session of the user is
  active and each of their refresh tokens is refused, whatever the time; the sessions of every other
  user are the same as before.\<close>

theorem revoke_all_ends_sessions:
  assumes "tt_enabled cfg" and "storage_ok (tk_repo st)"
    and "\<forall>k r. mem_find_by_id (tk_repo st) (tt_refresh_table cfg) k = Some r \<longrightarrow> get_string_field r ''id'' = Some k"
    and "st' = revoke_all_user_tokens memory_repository cfg now u st"
  shows "sessions_of cfg tz t u (tk_repo st') = []
    \<and> (\<forall>r \<in> set (mem_find_all (tk_repo st') (tt_refresh_table cfg)).
         get_string_field r ''user_id'' = Some u \<longrightarrow> \<not> refresh_record_valid tz t r)
    \<and> (\<forall>v. v \<noteq> u \<longrightarrow> set (sessions_of cfg tz t v (tk_repo st')) = set (sessions_of cfg tz t v (tk_repo st)))"
  using sessions_after_revoke_all [OF assms] by blast

theorem revoke_all_ends_sessions_witness:
  "sessions_of demo_tracking_config 0 0 ''ann''
     (tk_repo (revoke_all_user_tokens memory_repository demo_tracking_config 0 ''ann''
        \<lparr>tk_repo = demo_sessions, tk_cache = make_cache 300 5\<rparr>)) = []
   \<and> length (sessions_of demo_tracking_config 0 0 ''ann'' demo_sessions) = 2"
proof
  let ?st = "\<lparr>tk_repo = demo_sessions, tk_cache = make_cache 300 5\<rparr> :: storage tracking"
  show "sessions_of demo_tracking_config 0 0 ''ann''
      (tk_repo (revoke_all_user_tokens memory_repository demo_tracking_config 0 ''ann'' ?st)) = []"
    using revoke_all_ends_sessions [OF _ _ _ refl, where cfg = demo_tracking_config and st = ?st and u = "''ann''" and now = 0 and tz = 0 and t = 0] demo_session_found
    by (simp add: demo_sessions_ok demo_tracking_config_def default_tracking_config_def)
  show "length (sessions_of demo_tracking_config 0 0 ''ann'' demo_sessions) = 2"
    by (simp add: list_active_sessions_def active_session_of_def session_record_fields session_expires session_ends_later
        demo_sessions_def demo_tracking_config_def default_tracking_config_def memory_repository_def mem_find_all_def
        List.map_filter_def)
qed

text \<open>On the memory backend, which files a record under the identifier it carries, the records of
  the service have none: registering a refresh token and revoking an access token change no record,
  and a rotation never succeeds, though it has marked the old token, which stays refused.\<close>

theorem memory_backend_tracks_no_token:
  assumes "tt_enabled cfg" and "tt_rotation cfg" and "storage_ok s"
    and "repo_find_one_by_field memory_repository s (tt_refresh_table cfg) ''jti'' old = Some rec"
    and "mem_find_by_id s (tt_refresh_table cfg) k = Some rec" and "get_string_field rec ''id'' = Some k"
    and "rotate_refresh memory_rotation_tx memory_repository cfg now old new u issued expires device ip s = (b, s')"
  shows "register_refresh memory_repository cfg jti v issued expires device ip s = s
    \<and> tk_repo (revoke_access memory_repository cfg now jti v expires reason st) = tk_repo st
    \<and> \<not> b \<and> (\<exists>r. mem_find_by_id s' (tt_refresh_table cfg) k = Some r \<and> \<not> refresh_record_valid tz t r)"
  using memory_token_operations(1,2) memory_token_operations(3) [OF assms] by blast

theorem memory_backend_tracks_no_token_witness:
  "\<not> fst (rotate_refresh memory_rotation_tx memory_repository demo_tracking_config 0 ''j1'' ''n'' ''ann'' 0 0 [] [] demo_sessions)
   \<and> is_refresh_valid memory_repository demo_tracking_config 0 0 ''j1'' demo_sessions"
proof
  have "repo_find_one_by_field memory_repository demo_sessions ''RefreshToken'' ''jti'' ''j1'' = Some (session_record ''1'' ''ann'')"
    "mem_find_by_id demo_sessions ''RefreshToken'' ''1'' = Some (session_record ''1'' ''ann'')"
    by (simp_all add: demo_sessions_def memory_repository_def mem_find_one_by_field_def mem_find_by_id_def field_is_def
        session_record_def dynamic_value_to_string_def)
  note found = this
  from this show "\<not> fst (rotate_refresh memory_rotation_tx memory_repository demo_tracking_config 0 ''j1'' ''n'' ''ann'' 0 0 [] [] demo_sessions)"
    using memory_backend_tracks_no_token [OF _ _ _ _ _ _ prod.collapse [symmetric],
        of demo_tracking_config demo_sessions "''j1''" "session_record ''1'' ''ann''" "''1''"] demo_sessions_ok session_record_fields(1)
    by (simp add: demo_tracking_config_def default_tracking_config_def)
  show "is_refresh_valid memory_repository demo_tracking_config 0 0 ''j1'' demo_sessions"
    using found(1) by (simp add: is_refresh_valid_def refresh_record_valid_def session_record_fields session_expires
        session_ends_later demo_tracking_config_def default_tracking_config_def)
qed

end
