(* ===== verification/Schema_Differ.thy ===== *)
theory Schema_Differ
  imports Domain_Model
begin

text \<open>
  \<open>SchemaDiffer\<close> (\<open>libs/infrastructure/persistence/mysql/schema_differ.{h,cpp}\<close>): what has to change in
  an existing MySQL table to fit an entity. The tables are those the introspector read
  (\<open>mysql_introspector.h\<close>); \<open>mysql_type_mapping.h\<close> gives the column types. A pointer to a field is the
  field. Logging is left out.
\<close>

section \<open>What the introspector reads\<close>

record column_info =
  ci_name :: string
  ci_data_type :: string
  ci_column_type :: string
  ci_nullable :: bool
  ci_primary_key :: bool
  ci_unique :: bool
  ci_auto_increment :: bool
  ci_default :: "string option"

record index_info =
  ix_name :: string
  ix_columns :: "string list"
  ix_unique :: bool
  ix_primary :: bool

record foreign_key_info =
  fk_constraint_name :: string
  fk_column_name :: string
  fk_referenced_table :: string
  fk_referenced_column :: string
  fk_on_delete_action :: string

record table_info =
  ti_name :: string
  ti_columns :: "column_info list"
  ti_indexes :: "index_info list"
  ti_foreign_keys :: "foreign_key_info list"

definition find_column :: "table_info \<Rightarrow> string \<Rightarrow> column_info option" where
  "find_column t n = find (\<lambda>c. ci_name c = n) (ti_columns t)"

definition has_column :: "table_info \<Rightarrow> string \<Rightarrow> bool" where
  "has_column t n \<longleftrightarrow> find_column t n \<noteq> None"

record schema_snapshot =
  sn_database_name :: string
  sn_tables :: "(string, table_info) table"

definition find_table :: "schema_snapshot \<Rightarrow> string \<Rightarrow> table_info option" where
  "find_table sn n = tbl_get (sn_tables sn) n"

definition has_table :: "schema_snapshot \<Rightarrow> string \<Rightarrow> bool" where
  "has_table sn n \<longleftrightarrow> tbl_has (sn_tables sn) n"

section \<open>Types\<close>

fun to_mysql_type :: "field_type \<Rightarrow> string" where
  "to_mysql_type FString = ''VARCHAR(255)''"
| "to_mysql_type FText = ''TEXT''"
| "to_mysql_type FInt = ''BIGINT''"
| "to_mysql_type FFloat = ''DOUBLE''"
| "to_mysql_type FBool = ''BOOLEAN''"
| "to_mysql_type FTimestamp = ''TIMESTAMP''"
| "to_mysql_type FUUID = ''BINARY(16)''"
| "to_mysql_type FPassword = ''VARCHAR(255)''"
| "to_mysql_type FEmail = ''VARCHAR(255)''"
| "to_mysql_type FFile = ''BINARY(16)''"
| "to_mysql_type _ = ''VARCHAR(255)''"

definition mysql_supports_auto_increment :: "field_type \<Rightarrow> bool" where
  "mysql_supports_auto_increment t \<longleftrightarrow> t = FInt"

definition mysql_uses_binary_storage :: "field_type \<Rightarrow> bool" where
  "mysql_uses_binary_storage t \<longleftrightarrow> t = FUUID \<or> t = FFile"

text \<open>\<open>std::string::find(c)\<close> and \<open>std::stoul\<close>: blanks, a sign, digits; what follows is ignored.\<close>

definition find_char :: "char \<Rightarrow> string \<Rightarrow> nat option" where
  "find_char c s = (if c \<in> set s then Some (length (before_char c s)) else None)"

definition std_stoul :: "string \<Rightarrow> size option" where
  "std_stoul s =
     (let t = dropWhile is_space s;
          neg = (t \<noteq> [] \<and> hd t = CHR ''-'');
          u = (if t \<noteq> [] \<and> (hd t = CHR ''-'' \<or> hd t = CHR ''+'') then tl t else t);
          digits = takeWhile is_digit u;
          v = base_val 10 digit_val digits
      in if digits = [] then None
         else if 2 ^ 64 \<le> v then None
         else Some (if neg then - of_nat v else of_nat v))"

definition extract_varchar_size :: "string \<Rightarrow> size" where
  "extract_varchar_size mysql_type =
     (if \<not> starts_with (str_lower mysql_type) ''varchar'' then 0
      else case (find_char (CHR ''('') mysql_type, find_char (CHR '')'') mysql_type) of
        (Some p, Some q) \<Rightarrow>
          if q \<le> p + 1 then 0
          else (case std_stoul (take (q - p - 1) (drop (p + 1) mysql_type)) of None \<Rightarrow> 0 | Some n \<Rightarrow> n)
      | _ \<Rightarrow> 0)"

definition extract_type_base :: "string \<Rightarrow> string" where
  "extract_type_base mysql_type =
     (let lower = str_lower mysql_type;
          signless = (case find_sub '' unsigned'' lower of None \<Rightarrow> lower | Some k \<Rightarrow> take k lower)
      in before_char (CHR ''('') signless)"

definition yaml_default_to_string :: "default_value \<Rightarrow> string" where
  "yaml_default_to_string dv =
     (case dv of
        DvString s \<Rightarrow> s
      | DvInt64 w \<Rightarrow> int_str (sint w)
      | DvDouble d \<Rightarrow> dbl_str d
      | DvBool b \<Rightarrow> if b then ''1'' else ''0''
      | _ \<Rightarrow> [])"

definition field_to_target_type :: "field \<Rightarrow> string" where
  "field_to_target_type f =
     (if f_type f = FString then
        (case f_max_length f of
           None \<Rightarrow> ''varchar(255)''
         | Some m \<Rightarrow>
             if 65535 < m then ''longtext''
             else if 255 < m then ''text''
             else ''varchar('' @ nat_str (unat m) @ '')'')
      else if f_type f \<in> {FInt, FBigInt, FSmallInt, FDecimal, FFloat} then
        str_lower (to_mysql_type (f_type f)) @ (if f_unsigned f then '' unsigned'' else [])
      else str_lower (to_mysql_type (f_type f)))"

definition normalize_type :: "string \<Rightarrow> string" where
  "normalize_type s = filter (\<lambda>c. c \<noteq> CHR '' '') (str_lower s)"

definition types_are_compatible :: "string \<Rightarrow> string \<Rightarrow> bool" where
  "types_are_compatible current target \<longleftrightarrow> normalize_type current = normalize_type target"

definition is_type_change_safe :: "string \<Rightarrow> field \<Rightarrow> bool" where
  "is_type_change_safe current f =
     (let current_base = extract_type_base current;
          target_type = field_to_target_type f;
          target_base = extract_type_base target_type
      in if current_base = ''varchar'' \<and> target_base = ''varchar'' then
           extract_varchar_size current \<le> extract_varchar_size target_type
         else if (current_base = ''varchar'' \<or> current_base = ''char'')
                 \<and> (target_base = ''text'' \<or> target_base = ''longtext'') then True
         else if current_base = ''text'' \<and> target_base = ''longtext'' then True
         else if (current_base = ''int'' \<or> current_base = ''tinyint'' \<or> current_base = ''smallint'')
                 \<and> target_base = ''bigint'' then True
         else current_base = target_base)"

section \<open>Differences\<close>

datatype column_diff_kind =
    Added | TypeChanged | NullabilityChanged | DefaultChanged
  | IndexAdded | IndexRemoved | UniqueAdded | UniqueRemoved | Renamed

fun column_diff_kind_to_string :: "column_diff_kind \<Rightarrow> string" where
  "column_diff_kind_to_string Added = ''added''"
| "column_diff_kind_to_string TypeChanged = ''type_changed''"
| "column_diff_kind_to_string NullabilityChanged = ''nullability_changed''"
| "column_diff_kind_to_string DefaultChanged = ''default_changed''"
| "column_diff_kind_to_string IndexAdded = ''index_added''"
| "column_diff_kind_to_string IndexRemoved = ''index_removed''"
| "column_diff_kind_to_string UniqueAdded = ''unique_added''"
| "column_diff_kind_to_string UniqueRemoved = ''unique_removed''"
| "column_diff_kind_to_string Renamed = ''renamed''"

record column_diff =
  cd_kind :: column_diff_kind
  cd_table_name :: string
  cd_column_name :: string
  cd_current_type :: string
  cd_target_type :: string
  cd_target_field :: field
  cd_index_name_to_drop :: string
  cd_previous_name :: string
  cd_score :: int
  cd_is_safe :: bool
  cd_description :: string

definition make_diff :: "column_diff_kind \<Rightarrow> string \<Rightarrow> field \<Rightarrow> bool \<Rightarrow> string \<Rightarrow> column_diff" where
  "make_diff k table f safe description =
     \<lparr>cd_kind = k, cd_table_name = table, cd_column_name = f_name f, cd_current_type = [], cd_target_type = [],
      cd_target_field = f, cd_index_name_to_drop = [], cd_previous_name = [], cd_score = 0, cd_is_safe = safe,
      cd_description = description\<rparr>"

text \<open>The right arrow of the messages, in UTF-8.\<close>

definition arrow :: string where
  "arrow = '' '' @ [CHR 0xE2, CHR 0x86, CHR 0x92] @ '' ''"

definition diff_table_name :: "entity \<Rightarrow> string" where
  "diff_table_name e = (if e_table_name e \<noteq> [] then e_table_name e else e_name e)"

definition yaml_nullable :: "field \<Rightarrow> bool" where
  "yaml_nullable f \<longleftrightarrow> \<not> (f_required f \<or> f_name f = ''id'')"

definition current_default :: "column_info \<Rightarrow> string" where
  "current_default c = (case ci_default c of None \<Rightarrow> [] | Some d \<Rightarrow> d)"

definition nullability_diffs :: "string \<Rightarrow> field \<Rightarrow> column_info \<Rightarrow> column_diff list" where
  "nullability_diffs table f c =
     (if yaml_nullable f \<noteq> ci_nullable c then
        let safe = (yaml_nullable f \<and> \<not> ci_nullable c) in
        [make_diff NullabilityChanged table f safe
           (''NULLABILITY: '' @ f_name f
            @ (if ci_nullable c then '' NULL -> NOT NULL'' else '' NOT NULL'' @ arrow @ ''NULL'')
            @ (if safe then '' (safe)'' else '' (UNSAFE)''))]
      else [])"

definition default_diffs :: "string \<Rightarrow> field \<Rightarrow> column_info \<Rightarrow> column_diff list" where
  "default_diffs table f c =
     (if yaml_default_to_string (f_default_val f) \<noteq> current_default c then
        [make_diff DefaultChanged table f True
           (''DEFAULT: '' @ f_name f @ '' '' @ quoted (current_default c) @ arrow
            @ quoted (yaml_default_to_string (f_default_val f)) @ '' (safe)'')]
      else [])"

definition type_diff :: "string \<Rightarrow> field \<Rightarrow> column_info \<Rightarrow> column_diff" where
  "type_diff table f c =
     (let safe = is_type_change_safe (ci_column_type c) f in
      (make_diff TypeChanged table f safe
        (''MODIFY COLUMN '' @ f_name f @ '': '' @ ci_column_type c @ '' -> '' @ field_to_target_type f
         @ (if safe then '' (safe)'' else '' (UNSAFE)'')))
      \<lparr>cd_current_type := ci_column_type c, cd_target_type := field_to_target_type f\<rparr>)"

definition field_column_diffs :: "string \<Rightarrow> table_info \<Rightarrow> field \<Rightarrow> column_diff list" where
  "field_column_diffs table t f =
     (case find_column t (f_name f) of
        None \<Rightarrow> [make_diff Added table f True (''ADD COLUMN '' @ f_name f)]
      | Some c \<Rightarrow>
          if \<not> types_are_compatible (ci_column_type c) (field_to_target_type f) then [type_diff table f c]
          else nullability_diffs table f c @ default_diffs table f c)"

definition compute_column_diffs :: "entity \<Rightarrow> table_info \<Rightarrow> column_diff list" where
  "compute_column_diffs e t = concat (map (field_column_diffs (diff_table_name e) t) (e_fields e))"

section \<open>Indexes\<close>

definition column_is_fk :: "entity \<Rightarrow> string \<Rightarrow> bool" where
  "column_is_fk e n = list_ex (\<lambda>r. r_kind r = BelongsTo \<and> r_fk_column r = n) (e_relations e)"

definition indexes_column :: "bool \<Rightarrow> string \<Rightarrow> index_info \<Rightarrow> bool" where
  "indexes_column uniq n idx \<longleftrightarrow> \<not> ix_primary idx \<and> ix_unique idx = uniq \<and> ix_columns idx = [n]"

definition column_has_simple_index :: "table_info \<Rightarrow> string \<Rightarrow> bool" where
  "column_has_simple_index t n = list_ex (indexes_column False n) (ti_indexes t)"

definition column_has_unique_index :: "table_info \<Rightarrow> string \<Rightarrow> bool" where
  "column_has_unique_index t n = list_ex (indexes_column True n) (ti_indexes t)"

definition find_index_name_for_column :: "table_info \<Rightarrow> string \<Rightarrow> bool \<Rightarrow> string" where
  "find_index_name_for_column t n uniq =
     (case find (indexes_column uniq n) (ti_indexes t) of None \<Rightarrow> [] | Some idx \<Rightarrow> ix_name idx)"

definition unique_diffs :: "string \<Rightarrow> table_info \<Rightarrow> field \<Rightarrow> column_diff list" where
  "unique_diffs table t f =
     (if f_unique f \<and> \<not> column_has_unique_index t (f_name f) then
        [make_diff UniqueAdded table f False
           (''ADD UNIQUE: '' @ f_name f @ '' (UNSAFE if duplicates exist)'')]
      else if \<not> f_unique f \<and> column_has_unique_index t (f_name f) then
        let drop = find_index_name_for_column t (f_name f) True in
        [(make_diff UniqueRemoved table f True
            (''DROP UNIQUE: '' @ f_name f @ '' (index `'' @ drop @ ''`)''))\<lparr>cd_index_name_to_drop := drop\<rparr>]
      else [])"

definition index_diffs :: "string \<Rightarrow> table_info \<Rightarrow> field \<Rightarrow> column_diff list" where
  "index_diffs table t f =
     (if f_indexed f \<and> \<not> column_has_simple_index t (f_name f) then
        [make_diff IndexAdded table f True (''ADD INDEX: '' @ f_name f @ '' (safe)'')]
      else if \<not> f_indexed f \<and> column_has_simple_index t (f_name f) then
        let drop = find_index_name_for_column t (f_name f) False in
        [(make_diff IndexRemoved table f True
            (''DROP INDEX: '' @ f_name f @ '' (index `'' @ drop @ ''`, safe)''))\<lparr>cd_index_name_to_drop := drop\<rparr>]
      else [])"

definition field_index_diffs :: "entity \<Rightarrow> table_info \<Rightarrow> field \<Rightarrow> column_diff list" where
  "field_index_diffs e t f =
     (if f_name f = ''id'' then []
      else if \<not> has_column t (f_name f) then []
      else if column_is_fk e (f_name f) then []
      else unique_diffs (diff_table_name e) t f
        @ (if f_unique f \<or> column_has_unique_index t (f_name f) then []
           else index_diffs (diff_table_name e) t f))"

definition compute_index_diffs :: "entity \<Rightarrow> table_info \<Rightarrow> column_diff list" where
  "compute_index_diffs e t = concat (map (field_index_diffs e t) (e_fields e))"

end
