(* ===== verification/Rename_Detector.thy ===== *)
theory Rename_Detector
  imports Schema_Differ "HOL-Library.Sublist"
begin

text \<open>
  \<open>SchemaDiffer::compute_renames\<close> (\<open>schema_differ.cpp\<close>): columns renamed by annotation, then columns
  the heuristic believes renamed, with the score of a candidate. The lemmas give the invariant of
  both phases: which names a rename joins, how sure it is, and that the heuristic joins a column and
  a field at most once.
\<close>

section \<open>The score of a candidate\<close>

definition score_rename_candidate :: "field \<Rightarrow> nat \<Rightarrow> column_info \<Rightarrow> nat \<Rightarrow> int" where
  "score_rename_candidate f yaml_position c mysql_position =
     (let pos_diff = (if mysql_position < yaml_position then yaml_position - mysql_position
                      else mysql_position - yaml_position)
      in (if types_are_compatible (ci_column_type c) (field_to_target_type f) then 50
          else if is_type_change_safe (ci_column_type c) f then 30 else 0)
       + (if pos_diff = 0 then 35 else if pos_diff = 1 then 25 else if pos_diff = 2 then 15 else 0)
       + (if yaml_nullable f = ci_nullable c then 10 else 0)
       + (if yaml_default_to_string (f_default_val f) = current_default c then 5 else 0))"

definition rename_threshold :: int where
  "rename_threshold = 90"

section \<open>The two phases\<close>

definition explicit_rename :: "string \<Rightarrow> table_info \<Rightarrow> field \<Rightarrow> column_diff option" where
  "explicit_rename table t f =
     (case f_previous_name f of
        None \<Rightarrow> None
      | Some old \<Rightarrow>
          if old = [] then None
          else if \<not> has_column t old then None
          else if has_column t (f_name f) then None
          else Some ((make_diff Renamed table f True
              (''RENAME COLUMN '' @ old @ '' -> '' @ f_name f @ '' (explicit, safe)''))
              \<lparr>cd_previous_name := old, cd_score := 100\<rparr>))"

definition explicit_renames :: "entity \<Rightarrow> table_info \<Rightarrow> column_diff list" where
  "explicit_renames e t = List.map_filter (explicit_rename (diff_table_name e) t) (e_fields e)"

definition orphan_columns :: "entity \<Rightarrow> table_info \<Rightarrow> column_diff list \<Rightarrow> (nat \<times> column_info) list" where
  "orphan_columns e t renames =
     filter (\<lambda>(i, c). ci_name c \<notin> cd_previous_name ` set renames \<and> \<not> has_field e (ci_name c))
       (enumerate 0 (ti_columns t))"

definition unmatched_fields :: "entity \<Rightarrow> table_info \<Rightarrow> column_diff list \<Rightarrow> (nat \<times> field) list" where
  "unmatched_fields e t renames =
     filter (\<lambda>(i, f). f_name f \<notin> cd_column_name ` set renames \<and> \<not> has_column t (f_name f))
       (enumerate 0 (e_fields e))"

text \<open>The best candidate for a column: the first field with the highest positive score.\<close>

fun best_candidate ::
  "string list \<Rightarrow> nat \<Rightarrow> column_info \<Rightarrow> (nat \<times> field) list \<Rightarrow> int \<times> field option \<Rightarrow> int \<times> field option" where
  "best_candidate matched mysql_pos c [] best = best"
| "best_candidate matched mysql_pos c ((yaml_pos, f) # rest) best =
     (if f_name f \<in> set matched then best_candidate matched mysql_pos c rest best
      else let score = score_rename_candidate f yaml_pos c mysql_pos in
        if fst best < score then best_candidate matched mysql_pos c rest (score, Some f)
        else best_candidate matched mysql_pos c rest best)"

definition heuristic_rename :: "string \<Rightarrow> column_info \<Rightarrow> field \<Rightarrow> int \<Rightarrow> column_diff" where
  "heuristic_rename table c f score =
     (make_diff Renamed table f False
       (''RENAME COLUMN '' @ ci_name c @ arrow @ f_name f @ '' (heuristic, score='' @ int_str score @ ''/100, UNSAFE)''))
     \<lparr>cd_previous_name := ci_name c, cd_score := score\<rparr>"

text \<open>The loop over the orphan columns; \<open>renames\<close> are those found so far.\<close>

fun heuristic_loop ::
  "string \<Rightarrow> (nat \<times> field) list \<Rightarrow> (nat \<times> column_info) list \<Rightarrow> column_diff list \<Rightarrow> column_diff list" where
  "heuristic_loop table unmatched [] renames = renames"
| "heuristic_loop table unmatched ((mysql_pos, c) # orphans) renames =
     (case best_candidate (map cd_column_name renames) mysql_pos c unmatched (0, None) of
        (score, Some f) \<Rightarrow>
          if rename_threshold \<le> score
          then heuristic_loop table unmatched orphans (renames @ [heuristic_rename table c f score])
          else heuristic_loop table unmatched orphans renames
      | (score, None) \<Rightarrow> heuristic_loop table unmatched orphans renames)"

definition compute_renames :: "entity \<Rightarrow> table_info \<Rightarrow> column_diff list" where
  "compute_renames e t =
     (let explicit = explicit_renames e t
      in heuristic_loop (diff_table_name e) (unmatched_fields e t explicit) (orphan_columns e t explicit) explicit)"

definition field_was_renamed :: "string \<Rightarrow> column_diff list \<Rightarrow> bool" where
  "field_was_renamed n renames = list_ex (\<lambda>r. cd_kind r = Renamed \<and> cd_column_name r = n) renames"

definition column_was_renamed_from :: "string \<Rightarrow> column_diff list \<Rightarrow> bool" where
  "column_was_renamed_from n renames = list_ex (\<lambda>r. cd_kind r = Renamed \<and> cd_previous_name r = n) renames"

section \<open>Bounds of the score\<close>

lemma score_bounds: "0 \<le> score_rename_candidate f p c q" "score_rename_candidate f p c q \<le> 100"
  by (simp_all add: score_rename_candidate_def Let_def)

lemma score_100_iff:
  "score_rename_candidate f p c q = 100 \<longleftrightarrow>
     types_are_compatible (ci_column_type c) (field_to_target_type f) \<and> p = q
     \<and> yaml_nullable f = ci_nullable c \<and> yaml_default_to_string (f_default_val f) = current_default c"
  by (auto simp: score_rename_candidate_def Let_def)

lemma best_candidate_from:
  "best_candidate matched q c cands best = (score, Some f) \<Longrightarrow>
   (score, Some f) = best \<or>
   (\<exists>p. (p, f) \<in> set cands \<and> f_name f \<notin> set matched \<and> score = score_rename_candidate f p c q)"
proof (induction cands arbitrary: best)
  case (Cons pf rest)
  obtain p g where pf: "pf = (p, g)" by force
  show ?case
  proof (cases "f_name g \<notin> set matched \<and> fst best < score_rename_candidate g p c q")
    case True
    then have "best_candidate matched q c rest (score_rename_candidate g p c q, Some g) = (score, Some f)"
      using Cons.prems by (simp add: pf Let_def)
    from Cons.IH [OF this] True show ?thesis by (auto simp: pf)
  next
    case False
    then have "best_candidate matched q c rest best = (score, Some f)"
      using Cons.prems by (auto simp: pf Let_def split: if_splits)
    from Cons.IH [OF this] show ?thesis by (auto simp: pf)
  qed
qed simp

section \<open>What a rename joins\<close>

text \<open>
  A sound rename leads from a column of the table to a field without one; it is annotated, with score
  100, or heuristic, unsafe, from a column that is no field.
\<close>

definition rename_ok :: "entity \<Rightarrow> table_info \<Rightarrow> column_diff \<Rightarrow> bool" where
  "rename_ok e t d \<longleftrightarrow>
     cd_kind d = Renamed \<and> cd_target_field d \<in> set (e_fields e) \<and> cd_column_name d = f_name (cd_target_field d)
     \<and> \<not> has_column t (cd_column_name d) \<and> has_column t (cd_previous_name d) \<and> cd_score d \<le> 100
     \<and> (if cd_is_safe d then f_previous_name (cd_target_field d) = Some (cd_previous_name d) \<and> cd_score d = 100
        else \<not> has_field e (cd_previous_name d) \<and> rename_threshold \<le> cd_score d)"

lemma has_column_iff: "has_column t n \<longleftrightarrow> n \<in> ci_name ` set (ti_columns t)"
  by (auto simp: has_column_def find_column_def find_None_iff)

lemma explicit_rename_ok:
  "explicit_rename (diff_table_name e) t f = Some d \<Longrightarrow> f \<in> set (e_fields e) \<Longrightarrow>
   rename_ok e t d \<and> cd_is_safe d \<and> cd_column_name d = f_name f"
  by (auto simp: explicit_rename_def make_diff_def rename_ok_def split: option.splits if_splits)

lemma explicit_renames_ok: "d \<in> set (explicit_renames e t) \<Longrightarrow> rename_ok e t d \<and> cd_is_safe d"
  unfolding explicit_renames_def using explicit_rename_ok by (auto simp: set_map_filter_iff)

lemma explicit_targets_distinct:
  "distinct (map f_name fs) \<Longrightarrow> set fs \<subseteq> set (e_fields e) \<Longrightarrow>
   distinct (map cd_column_name (List.map_filter (explicit_rename (diff_table_name e) t) fs)) \<and>
   cd_column_name ` set (List.map_filter (explicit_rename (diff_table_name e) t) fs) \<subseteq> f_name ` set fs"
proof (induction fs)
  case Nil
  then show ?case by (simp add: List.map_filter_def)
next
  case (Cons f fs)
  show ?case
  proof (cases "explicit_rename (diff_table_name e) t f")
    case None
    with Cons show ?thesis by (auto simp: map_filter_simps)
  next
    case (Some d)
    then have "cd_column_name d = f_name f" using explicit_rename_ok Cons.prems(2) by simp
    with Some Cons show ?thesis by (auto simp: map_filter_simps)
  qed
qed

lemma orphan_column:
  assumes "(q, c) \<in> set (orphan_columns e t rs)"
  shows "c \<in> set (ti_columns t)" "\<not> has_field e (ci_name c)" "ci_name c \<notin> cd_previous_name ` set rs"
  using assms by (auto simp: orphan_columns_def in_set_enumerate_eq)

lemma unmatched_field:
  assumes "(p, f) \<in> set (unmatched_fields e t rs)"
  shows "f \<in> set (e_fields e)" "\<not> has_column t (f_name f)" "f_name f \<notin> cd_column_name ` set rs"
  using assms by (auto simp: unmatched_fields_def in_set_enumerate_eq)

lemma heuristic_rename_ok:
  assumes "best_candidate matched q c (unmatched_fields e t rs) (0, None) = (score, Some f)"
    and "rename_threshold \<le> score" and "c \<in> set (ti_columns t)" and "\<not> has_field e (ci_name c)"
  shows "rename_ok e t (heuristic_rename (diff_table_name e) c f score) \<and> f_name f \<notin> set matched"
proof -
  obtain p where p: "(p, f) \<in> set (unmatched_fields e t rs)" "f_name f \<notin> set matched"
      "score = score_rename_candidate f p c q"
    using best_candidate_from [OF assms(1)] by auto
  with assms unmatched_field [OF p(1)] score_bounds(2) show ?thesis
    by (auto simp: rename_ok_def heuristic_rename_def make_diff_def has_column_iff)
qed

text \<open>The loop keeps renames sound and targets distinct, and takes every orphan column once.\<close>

lemma heuristic_loop_inv:
  assumes "\<And>q c. (q, c) \<in> set orphans \<Longrightarrow> c \<in> set (ti_columns t) \<and> \<not> has_field e (ci_name c)"
    and "\<forall>d \<in> set rs. rename_ok e t d" and "distinct (map cd_column_name rs)"
  shows "\<exists>added. heuristic_loop (diff_table_name e) (unmatched_fields e t found) orphans rs = rs @ added
    \<and> (\<forall>d \<in> set (rs @ added). rename_ok e t d) \<and> distinct (map cd_column_name (rs @ added))
    \<and> (\<forall>d \<in> set added. \<not> cd_is_safe d)
    \<and> (\<exists>cs. map cd_previous_name added = map (ci_name \<circ> snd) cs \<and> subseq cs orphans)"
  using assms
proof (induction orphans arbitrary: rs)
  case Nil
  then show ?case by (intro exI [of _ "[]"]) simp
next
  case (Cons qc orphans)
  let ?un = "unmatched_fields e t found"
  obtain q c where qc: "qc = (q, c)" by force
  have c: "c \<in> set (ti_columns t)" "\<not> has_field e (ci_name c)" using Cons.prems(1) qc by auto
  have rest: "c' \<in> set (ti_columns t) \<and> \<not> has_field e (ci_name c')" if "(q', c') \<in> set orphans" for q' c'
    using Cons.prems(1) that by auto
  obtain score fo where best: "best_candidate (map cd_column_name rs) q c ?un (0, None) = (score, fo)" by force
  show ?case
  proof (cases "\<exists>f. fo = Some f \<and> rename_threshold \<le> score")
    case False
    then have "heuristic_loop (diff_table_name e) ?un (qc # orphans) rs = heuristic_loop (diff_table_name e) ?un orphans rs"
      using best by (auto simp: qc split: option.splits)
    moreover obtain added cs where "heuristic_loop (diff_table_name e) ?un orphans rs = rs @ added"
        "\<forall>d \<in> set (rs @ added). rename_ok e t d" "distinct (map cd_column_name (rs @ added))"
        "\<forall>d \<in> set added. \<not> cd_is_safe d" "map cd_previous_name added = map (ci_name \<circ> snd) cs" "subseq cs orphans"
      using Cons.IH [of rs] rest Cons.prems(2,3) by force
    ultimately show ?thesis
      by (intro exI [of _ added] conjI exI [of _ cs]) auto
  next
    case True
    then obtain f where f: "fo = Some f" "rename_threshold \<le> score" by blast
    let ?d = "heuristic_rename (diff_table_name e) c f score"
    have d: "rename_ok e t ?d" "f_name f \<notin> set (map cd_column_name rs)"
      using heuristic_rename_ok [of "map cd_column_name rs" q c e t found score f] best f c by auto
    have name: "cd_column_name ?d = f_name f" "cd_previous_name ?d = ci_name c" "\<not> cd_is_safe ?d"
      by (simp_all add: heuristic_rename_def make_diff_def)
    obtain added cs where IH: "heuristic_loop (diff_table_name e) ?un orphans (rs @ [?d]) = (rs @ [?d]) @ added"
        "\<forall>d \<in> set ((rs @ [?d]) @ added). rename_ok e t d" "distinct (map cd_column_name ((rs @ [?d]) @ added))"
        "\<forall>d \<in> set added. \<not> cd_is_safe d" "map cd_previous_name added = map (ci_name \<circ> snd) cs" "subseq cs orphans"
      using Cons.IH [of "rs @ [?d]"] rest Cons.prems(2,3) d name(1) by force
    have "heuristic_loop (diff_table_name e) ?un (qc # orphans) rs = rs @ (?d # added)"
      using IH(1) best f by (simp add: qc)
    moreover have "map cd_previous_name (?d # added) = map (ci_name \<circ> snd) (qc # cs)" "subseq (qc # cs) (qc # orphans)"
      using IH(5,6) name(2) by (simp_all add: qc)
    ultimately show ?thesis
      using IH(2-4) name(3) by (intro exI [of _ "?d # added"] conjI exI [of _ "qc # cs"]) auto
  qed
qed

lemma compute_renames_spec:
  assumes "distinct (map f_name (e_fields e))"
  shows "(\<forall>d \<in> set (compute_renames e t). rename_ok e t d)
    \<and> distinct (map cd_column_name (compute_renames e t))
    \<and> (distinct (map ci_name (ti_columns t)) \<longrightarrow> distinct (map cd_previous_name (filter (\<lambda>d. \<not> cd_is_safe d) (compute_renames e t))))"
proof -
  let ?ex = "explicit_renames e t" and ?orphans = "orphan_columns e t (explicit_renames e t)"
  have "\<forall>d \<in> set ?ex. rename_ok e t d" "distinct (map cd_column_name ?ex)"
    using explicit_renames_ok explicit_targets_distinct [OF assms, of e t] by (auto simp: explicit_renames_def)
  then obtain added cs where added: "compute_renames e t = ?ex @ added" "\<forall>d \<in> set (?ex @ added). rename_ok e t d"
      "distinct (map cd_column_name (?ex @ added))" "\<forall>d \<in> set added. \<not> cd_is_safe d"
      "map cd_previous_name added = map (ci_name \<circ> snd) cs" "subseq cs ?orphans"
    unfolding compute_renames_def Let_def
    using heuristic_loop_inv [where orphans = ?orphans and e = e and t = t and rs = ?ex and found = ?ex] orphan_column
    by blast
  have "subseq ?orphans (enumerate 0 (ti_columns t))"
    unfolding orphan_columns_def by (rule subseq_filter_left)
  then have "subseq (map (ci_name \<circ> snd) cs) (map (ci_name \<circ> snd) (enumerate 0 (ti_columns t)))"
    using added(6) by (intro subseq_map) (rule subseq_order.order_trans)
  moreover have "map (ci_name \<circ> snd) (enumerate 0 (ti_columns t)) = map ci_name (ti_columns t)"
    by (simp add: map_map [symmetric] del: map_map)
  ultimately have "distinct (map ci_name (ti_columns t)) \<longrightarrow> distinct (map cd_previous_name added)"
    using added(5) by (auto simp: subseq_conv_nths)
  moreover have "filter (\<lambda>d. \<not> cd_is_safe d) (compute_renames e t) = added"
    using added(1,4) explicit_renames_ok by (auto simp: filter_empty_conv)
  ultimately show ?thesis using added(1-3) by simp
qed

text \<open>A field that has a column is not renamed; a column that is a field only by annotation.\<close>

lemma field_with_column_not_renamed:
  assumes "distinct (map f_name (e_fields e))" and "has_column t n"
  shows "\<not> field_was_renamed n (compute_renames e t)"
  using compute_renames_spec [OF assms(1), of t] assms(2)
  by (auto simp: field_was_renamed_def list_ex_iff rename_ok_def)

lemma field_column_not_renamed_from:
  assumes "distinct (map f_name (e_fields e))" and "has_field e n"
    and "\<forall>g \<in> set (e_fields e). f_previous_name g \<noteq> Some n"
  shows "\<not> column_was_renamed_from n (compute_renames e t)"
proof
  assume "column_was_renamed_from n (compute_renames e t)"
  then obtain d where d: "d \<in> set (compute_renames e t)" "cd_previous_name d = n"
    by (auto simp: column_was_renamed_from_def list_ex_iff)
  then have "rename_ok e t d" using compute_renames_spec [OF assms(1)] by blast
  with assms(2,3) d(2) show False by (auto simp: rename_ok_def split: if_splits)
qed

end
