(* ===== verification/Schema_Generator.thy ===== *)
theory Schema_Generator
  imports Schema_Differ
begin

text \<open>
  \<open>MysqlSchemaGenerator\<close> (\<open>libs/infrastructure/persistence/mysql/mysql_schema_generator.{h,cpp}\<close>) and
  \<open>SeaFilesTable\<close>: the SQL text of every statement of a migration, and the order in which the tables
  are created. The order in which the hash maps of the sort iterate is an argument.
\<close>

section \<open>Pieces of SQL\<close>

definition bq :: "string \<Rightarrow> string" where
  "bq s = ''`'' @ s @ ''`''"

definition nl :: string where
  "nl = [CHR 0x0A]"

fun on_delete_to_sql :: "on_delete \<Rightarrow> string" where
  "on_delete_to_sql Cascade = ''CASCADE''"
| "on_delete_to_sql SetNull = ''SET NULL''"
| "on_delete_to_sql Restrict = ''RESTRICT''"

fun on_delete_file_to_sql :: "on_delete_file \<Rightarrow> string" where
  "on_delete_file_to_sql FileCascade = ''RESTRICT''"
| "on_delete_file_to_sql FileSetNull = ''SET NULL''"
| "on_delete_file_to_sql FileRestrict = ''RESTRICT''"

text \<open>A string literal: every single quote is doubled.\<close>

definition sql_quote :: "string \<Rightarrow> string" where
  "sql_quote s =
     [CHR 0x27] @ concat (map (\<lambda>c. if c = CHR 0x27 then [CHR 0x27, CHR 0x27] else [c]) s) @ [CHR 0x27]"

definition default_value_to_sql :: "default_value \<Rightarrow> string" where
  "default_value_to_sql dv =
     (case dv of
        DvString s \<Rightarrow> sql_quote s
      | DvInt64 w \<Rightarrow> int_str (sint w)
      | DvDouble d \<Rightarrow> dbl_str d
      | DvBool b \<Rightarrow> if b then ''TRUE'' else ''FALSE''
      | _ \<Rightarrow> ''NULL'')"

definition mysql_column_type_for_field :: "field \<Rightarrow> string" where
  "mysql_column_type_for_field f =
     (if f_type f = FString then
        (case f_max_length f of
           None \<Rightarrow> ''VARCHAR(255)''
         | Some m \<Rightarrow>
             if 65535 < m then ''LONGTEXT''
             else if 255 < m then ''TEXT''
             else ''VARCHAR('' @ nat_str (unat m) @ '')'')
      else if f_type f \<in> {FInt, FBigInt, FSmallInt} then
        to_mysql_type (f_type f) @ (if f_unsigned f then '' UNSIGNED'' else [])
      else if f_type f \<in> {FDecimal, FFloat} then
        to_mysql_type (f_type f) @ (if f_unsigned f then '' UNSIGNED'' else [])
      else to_mysql_type (f_type f))"

definition generate_create_database_sql :: "string \<Rightarrow> string" where
  "generate_create_database_sql n =
     ''CREATE DATABASE IF NOT EXISTS '' @ bq n @ '' DEFAULT CHARACTER SET utf8mb4 DEFAULT COLLATE utf8mb4_unicode_ci''"

definition resolve_table_name :: "entity \<Rightarrow> string" where
  "resolve_table_name e = (if e_table_name e \<noteq> [] then e_table_name e else to_route_plural (e_name e) True)"

definition column_definition :: "field \<Rightarrow> bool \<Rightarrow> string" where
  "column_definition f is_id =
     bq (f_name f) @ '' '' @ mysql_column_type_for_field f
     @ (if f_required f \<or> is_id then '' NOT NULL'' else [])
     @ (if is_id \<and> mysql_supports_auto_increment (f_type f) then '' AUTO_INCREMENT'' else [])
     @ (if field_has_default f then '' DEFAULT '' @ default_value_to_sql (f_default_val f) else [])"

definition column_sql :: "field \<Rightarrow> string" where
  "column_sql f = column_definition f (f_name f = ''id'')"

section \<open>CREATE TABLE\<close>

definition unique_key_clause :: "field \<Rightarrow> string" where
  "unique_key_clause f =
     (if f_unique f \<and> f_name f \<noteq> ''id''
      then '','' @ nl @ ''  UNIQUE KEY `uk_'' @ f_name f @ ''` ('' @ bq (f_name f) @ '')'' else [])"

definition index_clause :: "field \<Rightarrow> string" where
  "index_clause f =
     (if f_indexed f \<and> \<not> f_unique f \<and> f_name f \<noteq> ''id''
      then '','' @ nl @ ''  INDEX `idx_'' @ f_name f @ ''` ('' @ bq (f_name f) @ '')'' else [])"

definition foreign_key_clause :: "string \<Rightarrow> relation \<Rightarrow> string" where
  "foreign_key_clause table_name r =
     (if r_kind r \<noteq> BelongsTo then []
      else if r_fk_column r = [] then []
      else '','' @ nl @ ''  INDEX `idx_'' @ r_fk_column r @ ''` ('' @ bq (r_fk_column r) @ '')''
        @ '','' @ nl @ ''  CONSTRAINT `fk_'' @ table_name @ ''_'' @ r_fk_column r @ ''`''
        @ nl @ ''    FOREIGN KEY ('' @ bq (r_fk_column r) @ '')''
        @ nl @ ''    REFERENCES '' @ bq (to_route_plural (r_target r) True) @ '' (`id`)''
        @ nl @ ''    ON DELETE '' @ on_delete_to_sql (r_on_delete r))"

definition file_key_clause :: "string \<Rightarrow> field \<Rightarrow> string" where
  "file_key_clause table_name f =
     (if \<not> is_file_field f then []
      else case f_file_config f of
        None \<Rightarrow> []
      | Some cfg \<Rightarrow>
          '','' @ nl @ ''  CONSTRAINT `fk_'' @ table_name @ ''_'' @ f_name f @ ''_file`''
          @ nl @ ''    FOREIGN KEY ('' @ bq (f_name f) @ '')''
          @ nl @ ''    REFERENCES `sea_files` (`id`)''
          @ nl @ ''    ON DELETE '' @ on_delete_file_to_sql (fc_on_delete cfg))"

definition generate_create_table_sql :: "entity \<Rightarrow> string" where
  "generate_create_table_sql e =
     (let table_name = resolve_table_name e
      in ''CREATE TABLE IF NOT EXISTS '' @ bq table_name @ '' ('' @ nl
        @ join_with ('','' @ nl) (map (\<lambda>f. ''  '' @ column_sql f) (e_fields e))
        @ (if has_field e ''id'' then '','' @ nl @ ''  PRIMARY KEY (`id`)'' else [])
        @ concat (map unique_key_clause (e_fields e))
        @ concat (map index_clause (e_fields e))
        @ concat (map (foreign_key_clause table_name) (e_relations e))
        @ concat (map (file_key_clause table_name) (e_fields e))
        @ nl @ '') ENGINE=InnoDB DEFAULT CHARSET=utf8mb4 COLLATE=utf8mb4_unicode_ci'')"

definition generate_sea_files_table_sql :: string where
  "generate_sea_files_table_sql =
     ''CREATE TABLE IF NOT EXISTS `sea_files` ('' @ nl
     @ ''  `id` BINARY(16) NOT NULL,'' @ nl
     @ ''  `original_name` VARCHAR(255) NOT NULL,'' @ nl
     @ ''  `mime_type` VARCHAR(100) NOT NULL,'' @ nl
     @ ''  `size_bytes` BIGINT NOT NULL,'' @ nl
     @ ''  `storage_path` VARCHAR(500) NOT NULL,'' @ nl
     @ ''  `reference_count` INT NOT NULL DEFAULT 0,'' @ nl
     @ ''  `created_at` TIMESTAMP NOT NULL DEFAULT CURRENT_TIMESTAMP,'' @ nl
     @ ''  PRIMARY KEY (`id`)'' @ nl
     @ '') ENGINE=InnoDB DEFAULT CHARSET=utf8mb4 COLLATE=utf8mb4_unicode_ci''"

section \<open>ALTER TABLE\<close>

definition generate_add_column_sql :: "entity \<Rightarrow> field \<Rightarrow> string" where
  "generate_add_column_sql e f =
     ''ALTER TABLE '' @ bq (resolve_table_name e) @ '' ADD COLUMN '' @ column_sql f"

definition generate_modify_column_sql :: "entity \<Rightarrow> field \<Rightarrow> string" where
  "generate_modify_column_sql e f =
     ''ALTER TABLE '' @ bq (resolve_table_name e) @ '' MODIFY COLUMN '' @ column_sql f"

definition generate_add_index_sql :: "string \<Rightarrow> string \<Rightarrow> string" where
  "generate_add_index_sql table column =
     ''ALTER TABLE '' @ bq table @ '' ADD INDEX `idx_'' @ column @ ''` ('' @ bq column @ '')''"

definition generate_drop_index_sql :: "string \<Rightarrow> string \<Rightarrow> string" where
  "generate_drop_index_sql table index = ''ALTER TABLE '' @ bq table @ '' DROP INDEX '' @ bq index"

definition generate_add_unique_sql :: "string \<Rightarrow> string \<Rightarrow> string" where
  "generate_add_unique_sql table column =
     ''ALTER TABLE '' @ bq table @ '' ADD UNIQUE KEY `uk_'' @ column @ ''` ('' @ bq column @ '')''"

definition generate_drop_unique_sql :: "string \<Rightarrow> string \<Rightarrow> string" where
  "generate_drop_unique_sql table constraint_name =
     ''ALTER TABLE '' @ bq table @ '' DROP INDEX '' @ bq constraint_name"

definition generate_rename_column_sql :: "entity \<Rightarrow> string \<Rightarrow> field \<Rightarrow> string" where
  "generate_rename_column_sql e old_column f =
     ''ALTER TABLE '' @ bq (resolve_table_name e) @ '' CHANGE COLUMN '' @ bq old_column @ '' '' @ column_sql f"

definition pivot_foreign_key :: "string \<Rightarrow> string \<Rightarrow> string \<Rightarrow> on_delete \<Rightarrow> string" where
  "pivot_foreign_key pivot fk referenced rule =
     ''  CONSTRAINT `fk_'' @ pivot @ ''_'' @ fk @ ''`'' @ nl
     @ ''    FOREIGN KEY ('' @ bq fk @ '')'' @ nl
     @ ''    REFERENCES '' @ bq referenced @ '' (`id`)'' @ nl
     @ ''    ON DELETE '' @ on_delete_to_sql rule"

definition generate_pivot_table_sql ::
  "string \<Rightarrow> string \<Rightarrow> string \<Rightarrow> string \<Rightarrow> string \<Rightarrow> on_delete \<Rightarrow> string" where
  "generate_pivot_table_sql pivot source_fk target_fk source_table target_table rule =
     ''CREATE TABLE IF NOT EXISTS '' @ bq pivot @ '' ('' @ nl
     @ ''  '' @ bq source_fk @ '' BINARY(16) NOT NULL,'' @ nl
     @ ''  '' @ bq target_fk @ '' BINARY(16) NOT NULL,'' @ nl
     @ ''  PRIMARY KEY ('' @ bq source_fk @ '', '' @ bq target_fk @ ''),'' @ nl
     @ ''  INDEX `idx_'' @ source_fk @ ''` ('' @ bq source_fk @ ''),'' @ nl
     @ ''  INDEX `idx_'' @ target_fk @ ''` ('' @ bq target_fk @ ''),'' @ nl
     @ pivot_foreign_key pivot source_fk source_table rule @ '','' @ nl
     @ pivot_foreign_key pivot target_fk target_table rule @ nl
     @ '') ENGINE=InnoDB DEFAULT CHARSET=utf8mb4 COLLATE=utf8mb4_unicode_ci''"

section \<open>The order of creation\<close>

text \<open>
  \<open>topological_sort\<close>: the dependencies of a name are the targets of the \<open>belongs_to\<close> relations of the
  entities of that name, without repetitions; a later entity of the same name hides an earlier one.
\<close>

definition entity_by_name :: "entity list \<Rightarrow> string \<Rightarrow> entity option" where
  "entity_by_name es n = find (\<lambda>e. e_name e = n) (rev es)"

definition belongs_to_targets :: "entity \<Rightarrow> string list" where
  "belongs_to_targets e = map r_target (filter (\<lambda>r. r_kind r = BelongsTo) (e_relations e))"

definition dependencies_of :: "entity list \<Rightarrow> string \<Rightarrow> string list" where
  "dependencies_of es n = remdups (concat (map belongs_to_targets (filter (\<lambda>e. e_name e = n) es)))"

text \<open>The inner loop: \<open>current\<close> is no longer waited for; names with nothing left to wait for are pushed.\<close>

fun release_loop ::
  "string \<Rightarrow> string list \<Rightarrow> (string \<times> string list) list \<Rightarrow> (string \<times> string list) list \<times> string list" where
  "release_loop current processed [] = ([], [])"
| "release_loop current processed ((name, deps) # rest) =
     (let (rest', pushed) = release_loop current processed rest
      in if current \<in> set deps then
           let deps' = filter (\<lambda>d. d \<noteq> current) deps
           in ((name, deps') # rest', (if deps' = [] \<and> name \<notin> set processed then [name] else []) @ pushed)
         else ((name, deps) # rest', pushed))"

definition waits :: "(string \<times> string list) list \<Rightarrow> nat" where
  "waits deps = sum_list (map (length \<circ> snd) deps)"

lemma release_loop_measure:
  "release_loop current processed deps = (deps', pushed) \<Longrightarrow> waits deps' + length pushed \<le> waits deps"
proof (induction deps arbitrary: deps' pushed)
  case (Cons nd rest)
  obtain name ds where nd: "nd = (name, ds)" by force
  obtain rest' pushed' where r: "release_loop current processed rest = (rest', pushed')" by force
  note IH = Cons.IH [OF r]
  show ?case
  proof (cases "current \<in> set ds")
    case True
    then have "length (filter (\<lambda>d. d \<noteq> current) ds) < length ds"
      by (induction ds) (auto simp: less_Suc_eq_le)
    moreover from True obtain m where "length ds = Suc m" by (cases ds) simp_all
    ultimately show ?thesis
      using True Cons.prems IH r by (auto simp: nd waits_def Let_def split: if_splits)
  next
    case False
    with Cons.prems IH r show ?thesis by (auto simp: nd waits_def Let_def)
  qed
qed (simp add: waits_def)

text \<open>The outer loop over the queue; it returns the names processed, latest first.\<close>

function ready_loop :: "string list \<Rightarrow> (string \<times> string list) list \<Rightarrow> string list \<Rightarrow> string list" where
  "ready_loop [] deps processed = processed"
| "ready_loop (current # queue) deps processed =
     (if current \<in> set processed then ready_loop queue deps processed
      else ready_loop (queue @ snd (release_loop current (current # processed) deps))
             (fst (release_loop current (current # processed) deps)) (current # processed))"
  by pat_completeness auto
termination
proof (relation "measure (\<lambda>(queue, deps, processed). length queue + waits deps)")
  fix current :: string and queue deps processed
  show "((queue @ snd (release_loop current (current # processed) deps),
          fst (release_loop current (current # processed) deps), current # processed),
         (current # queue, deps, processed)) \<in> measure (\<lambda>(queue, deps, processed). length queue + waits deps)"
    using release_loop_measure [of current "current # processed" deps, OF prod.collapse [symmetric]] by simp
qed auto

text \<open>\<open>names\<close> lists the names of the entities in the order of the hash map.\<close>

definition sorted_names :: "string list \<Rightarrow> entity list \<Rightarrow> string list" where
  "sorted_names names es =
     (let deps = map (\<lambda>n. (n, dependencies_of es n)) names
      in rev (ready_loop (map fst (filter (\<lambda>(n, ds). ds = []) deps)) deps []))"

definition topological_sort :: "string list \<Rightarrow> entity list \<Rightarrow> entity list" where
  "topological_sort names es =
     (let done_names = sorted_names names es
      in List.map_filter (entity_by_name es) done_names @ filter (\<lambda>e. e_name e \<notin> set done_names) es)"

end
