(* ===== verification/Schema_Bootstrap.thy ===== *)
theory Schema_Bootstrap
  imports Rename_Detector Schema_Generator "HOL-Library.Multiset"
begin

text \<open>
  \<open>MysqlBootstrapper\<close> (\<open>libs/infrastructure/persistence/mysql/mysql_bootstrapper.{h,cpp}\<close>): which statements
  a start of the server sends to the database, by the migration mode, and what it reports. The
  database is an argument: its state \<open>'db\<close>, how it executes a statement (the answer is false for an
  \<open>SQLException\<close>; other exceptions of the driver, which leave the bootstrapper, are not modelled), whether
  the database of the configuration exists (\<open>probe\<close>, nothing for an error of the connection) and how its
  schema is read back. Logging is left out.
\<close>

section \<open>Configuration and result\<close>

datatype migration_mode = Conservative | Modified | Aggressive

fun migration_mode_to_string :: "migration_mode \<Rightarrow> string" where
  "migration_mode_to_string Conservative = ''conservative''"
| "migration_mode_to_string Modified = ''modified''"
| "migration_mode_to_string Aggressive = ''aggressive''"

record migrations_config =
  mc_enabled :: bool
  mc_mode :: migration_mode
  mc_create_database_if_missing :: bool
  mc_dry_run :: bool

record bootstrap_result =
  br_success :: bool
  br_database_was_created :: bool
  br_tables_created :: "string list"
  br_columns_added :: "string list"
  br_columns_modified :: "string list"
  br_columns_renamed :: "string list"
  br_indexes_changed :: "string list"
  br_pivots_created :: "string list"
  br_errors :: "string list"
  br_warnings :: "string list"

definition empty_bootstrap_result :: bootstrap_result where
  "empty_bootstrap_result =
     \<lparr>br_success = False, br_database_was_created = False, br_tables_created = [], br_columns_added = [], br_columns_modified = [],
      br_columns_renamed = [], br_indexes_changed = [], br_pivots_created = [], br_errors = [], br_warnings = []\<rparr>"

definition push_error :: "string \<Rightarrow> bootstrap_result \<Rightarrow> bootstrap_result" where
  "push_error e r = r\<lparr>br_errors := br_errors r @ [e]\<rparr>"

definition push_warning :: "string \<Rightarrow> bootstrap_result \<Rightarrow> bootstrap_result" where
  "push_warning w r = r\<lparr>br_warnings := br_warnings r @ [w]\<rparr>"

section \<open>Statements\<close>

text \<open>The calls of the generator; \<open>statement_sql\<close> is the text that is sent.\<close>

datatype statement =
    CreateTable entity
  | AddColumn entity field
  | ModifyColumn entity field
  | RenameColumn entity string field
  | AddIndex string string
  | DropIndex string string
  | AddUnique string string
  | DropUnique string string
  | CreatePivot string string string string string on_delete

fun statement_sql :: "statement \<Rightarrow> string" where
  "statement_sql (CreateTable e) = generate_create_table_sql e"
| "statement_sql (AddColumn e f) = generate_add_column_sql e f"
| "statement_sql (ModifyColumn e f) = generate_modify_column_sql e f"
| "statement_sql (RenameColumn e old f) = generate_rename_column_sql e old f"
| "statement_sql (AddIndex t c) = generate_add_index_sql t c"
| "statement_sql (DropIndex t i) = generate_drop_index_sql t i"
| "statement_sql (AddUnique t c) = generate_add_unique_sql t c"
| "statement_sql (DropUnique t c) = generate_drop_unique_sql t c"
| "statement_sql (CreatePivot p s t st tt rule) = generate_pivot_table_sql p s t st tt rule"

record 'db migration =
  mg_db :: 'db
  mg_result :: bootstrap_result

definition execute_sql :: "('db \<Rightarrow> string \<Rightarrow> bool \<times> 'db) \<Rightarrow> bool \<Rightarrow> string \<Rightarrow> 'db \<Rightarrow> bool \<times> 'db" where
  "execute_sql exec dry_run sql db = (if dry_run then (True, db) else exec db sql)"

text \<open>Execute a statement; a success is noted by \<open>note_ok\<close>, a failure as the error \<open>err\<close>.\<close>

definition run_statement ::
  "('db \<Rightarrow> string \<Rightarrow> bool \<times> 'db) \<Rightarrow> bool \<Rightarrow> statement \<Rightarrow> (bootstrap_result \<Rightarrow> bootstrap_result) \<Rightarrow> string
   \<Rightarrow> 'db migration \<Rightarrow> 'db migration" where
  "run_statement exec dry_run stmt note_ok err st =
     (case execute_sql exec dry_run (statement_sql stmt) (mg_db st) of
        (ok, db') \<Rightarrow> \<lparr>mg_db = db', mg_result = (if ok then note_ok else push_error err) (mg_result st)\<rparr>)"

definition warn_skipped :: "column_diff \<Rightarrow> string \<Rightarrow> 'db migration \<Rightarrow> 'db migration" where
  "warn_skipped d reason st =
     st\<lparr>mg_result := push_warning (cd_description d @ '' skipped: '' @ reason) (mg_result st)\<rparr>"

section \<open>The decisions\<close>

text \<open>\<open>None\<close> applies the difference, \<open>Some reason\<close> skips it.\<close>

definition conservative_reason :: string where
  "conservative_reason =
     ''conservative mode (use '' @ quoted ''modified'' @ '' or '' @ quoted ''aggressive'' @ '' to apply)''"

definition rename_skipped :: "migration_mode \<Rightarrow> column_diff \<Rightarrow> string option" where
  "rename_skipped mode d =
     (case mode of
        Conservative \<Rightarrow> Some conservative_reason
      | Modified \<Rightarrow>
          if cd_score d = 100 then None
          else Some (''heuristic rename in modified mode (use '' @ quoted ''aggressive'' @ '')'')
      | Aggressive \<Rightarrow> None)"

definition change_skipped :: "migration_mode \<Rightarrow> column_diff \<Rightarrow> string option" where
  "change_skipped mode d =
     (case mode of
        Conservative \<Rightarrow> Some conservative_reason
      | Modified \<Rightarrow>
          if cd_is_safe d then None
          else Some (''unsafe change in modified mode (use '' @ quoted ''aggressive'' @ '')'')
      | Aggressive \<Rightarrow> None)"

section \<open>Applying the differences of a table\<close>

definition apply_rename ::
  "('db \<Rightarrow> string \<Rightarrow> bool \<times> 'db) \<Rightarrow> migrations_config \<Rightarrow> entity \<Rightarrow> column_diff \<Rightarrow> 'db migration \<Rightarrow> 'db migration" where
  "apply_rename exec cfg e d st =
     (let table = diff_table_name e in
      case rename_skipped (mc_mode cfg) d of
        Some reason \<Rightarrow> warn_skipped d reason st
      | None \<Rightarrow>
          run_statement exec (mc_dry_run cfg) (RenameColumn e (cd_previous_name d) (cd_target_field d))
            (\<lambda>r. r\<lparr>br_columns_renamed := br_columns_renamed r
                @ [table @ ''.'' @ cd_previous_name d @ arrow @ table @ ''.'' @ cd_column_name d @ '' (''
                   @ (if cd_score d = 100 then ''explicit'' else ''heuristic'')
                   @ '' score='' @ int_str (cd_score d) @ '')'']\<rparr>)
            (''Failed to rename column '' @ cd_previous_name d @ arrow @ cd_column_name d @ '' in '' @ table) st)"

definition apply_column_diff ::
  "('db \<Rightarrow> string \<Rightarrow> bool \<times> 'db) \<Rightarrow> migrations_config \<Rightarrow> entity \<Rightarrow> column_diff list \<Rightarrow> column_diff
   \<Rightarrow> 'db migration \<Rightarrow> 'db migration" where
  "apply_column_diff exec cfg e renames d st =
     (let table = diff_table_name e in
      if field_was_renamed (cd_column_name d) renames then st
      else if cd_kind d = Added then
        run_statement exec (mc_dry_run cfg) (AddColumn e (cd_target_field d))
          (\<lambda>r. r\<lparr>br_columns_added := br_columns_added r @ [table @ ''.'' @ cd_column_name d]\<rparr>)
          (''Failed to add column '' @ table @ ''.'' @ cd_column_name d) st
      else if cd_kind d \<in> {TypeChanged, NullabilityChanged, DefaultChanged} then
        (case change_skipped (mc_mode cfg) d of
           Some reason \<Rightarrow> warn_skipped d reason st
         | None \<Rightarrow>
             run_statement exec (mc_dry_run cfg) (ModifyColumn e (cd_target_field d))
               (\<lambda>r. r\<lparr>br_columns_modified := br_columns_modified r
                   @ [table @ ''.'' @ cd_column_name d @ '' ('' @ column_diff_kind_to_string (cd_kind d) @ '')'']\<rparr>)
               (''Failed to modify column '' @ table @ ''.'' @ cd_column_name d) st)
      else st)"

definition index_statement :: "string \<Rightarrow> column_diff \<Rightarrow> statement option" where
  "index_statement table d =
     (case cd_kind d of
        IndexAdded \<Rightarrow> Some (AddIndex table (cd_column_name d))
      | IndexRemoved \<Rightarrow> Some (DropIndex table (cd_index_name_to_drop d))
      | UniqueAdded \<Rightarrow> Some (AddUnique table (cd_column_name d))
      | UniqueRemoved \<Rightarrow> Some (DropUnique table (cd_index_name_to_drop d))
      | _ \<Rightarrow> None)"

definition apply_index_diff ::
  "('db \<Rightarrow> string \<Rightarrow> bool \<times> 'db) \<Rightarrow> migrations_config \<Rightarrow> entity \<Rightarrow> column_diff list \<Rightarrow> column_diff
   \<Rightarrow> 'db migration \<Rightarrow> 'db migration" where
  "apply_index_diff exec cfg e renames d st =
     (let table = diff_table_name e in
      if field_was_renamed (cd_column_name d) renames then st
      else if column_was_renamed_from (cd_column_name d) renames then st
      else case change_skipped (mc_mode cfg) d of
        Some reason \<Rightarrow> warn_skipped d reason st
      | None \<Rightarrow>
          (case index_statement table d of
             None \<Rightarrow> st
           | Some stmt \<Rightarrow>
               run_statement exec (mc_dry_run cfg) stmt
                 (\<lambda>r. r\<lparr>br_indexes_changed := br_indexes_changed r
                     @ [table @ ''.'' @ cd_column_name d @ '' ('' @ column_diff_kind_to_string (cd_kind d) @ '')'']\<rparr>)
                 (''Failed to apply index change on '' @ table @ ''.'' @ cd_column_name d) st))"

definition migrate_entity ::
  "('db \<Rightarrow> string \<Rightarrow> bool \<times> 'db) \<Rightarrow> migrations_config \<Rightarrow> schema_snapshot \<Rightarrow> entity \<Rightarrow> 'db migration \<Rightarrow> 'db migration" where
  "migrate_entity exec cfg snapshot e st =
     (let table = diff_table_name e in
      case find_table snapshot table of
        None \<Rightarrow>
          run_statement exec (mc_dry_run cfg) (CreateTable e)
            (\<lambda>r. r\<lparr>br_tables_created := br_tables_created r @ [table]\<rparr>) (''Failed to create table '' @ table) st
      | Some t \<Rightarrow>
          let renames = compute_renames e t;
              st1 = fold (apply_rename exec cfg e) renames st;
              st2 = fold (apply_column_diff exec cfg e renames) (compute_column_diffs e t) st1
          in fold (apply_index_diff exec cfg e renames) (compute_index_diffs e t) st2)"

section \<open>Pivot tables and the whole migration\<close>

text \<open>The relations of all entities that need a pivot table, each pivot table once.\<close>

fun pivot_loop :: "(entity \<times> relation) list \<Rightarrow> string list \<Rightarrow> (entity \<times> relation) list" where
  "pivot_loop [] created = []"
| "pivot_loop ((e, r) # rest) created =
     (if r_kind r \<noteq> ManyToMany then pivot_loop rest created
      else if r_pivot_table r = [] then pivot_loop rest created
      else if r_pivot_table r \<in> set created then pivot_loop rest created
      else (e, r) # pivot_loop rest (r_pivot_table r # created))"

definition create_pivot ::
  "('db \<Rightarrow> string \<Rightarrow> bool \<times> 'db) \<Rightarrow> migrations_config \<Rightarrow> schema_snapshot \<Rightarrow> entity \<times> relation
   \<Rightarrow> 'db migration \<Rightarrow> 'db migration" where
  "create_pivot exec cfg snapshot er st =
     (case er of (e, r) \<Rightarrow>
       if has_table snapshot (r_pivot_table r) then st
       else run_statement exec (mc_dry_run cfg)
         (CreatePivot (r_pivot_table r) (r_source_fk r) (r_target_fk r) (to_route_plural (e_name e) True)
            (to_route_plural (r_target r) True) (r_on_delete r))
         (\<lambda>res. res\<lparr>br_pivots_created := br_pivots_created res @ [r_pivot_table r]\<rparr>)
         (''Failed to create pivot table '' @ r_pivot_table r) st)"

definition entity_relations :: "schema \<Rightarrow> (entity \<times> relation) list" where
  "entity_relations s = concat (map (\<lambda>e. map (\<lambda>r. (e, r)) (e_relations e)) (entities s))"

definition compute_and_apply_diff ::
  "('db \<Rightarrow> string \<Rightarrow> bool \<times> 'db) \<Rightarrow> migrations_config \<Rightarrow> string list \<Rightarrow> schema \<Rightarrow> schema_snapshot
   \<Rightarrow> 'db migration \<Rightarrow> 'db migration" where
  "compute_and_apply_diff exec cfg names s snapshot st =
     fold (create_pivot exec cfg snapshot) (pivot_loop (entity_relations s) [])
       (fold (migrate_entity exec cfg snapshot) (topological_sort names (entities s)) st)"

definition ensure_database_exists ::
  "('db \<Rightarrow> string \<Rightarrow> bool \<times> 'db) \<Rightarrow> ('db \<Rightarrow> bool option) \<Rightarrow> migrations_config \<Rightarrow> string \<Rightarrow> 'db \<Rightarrow> bool \<times> 'db" where
  "ensure_database_exists exec probe cfg dbname db =
     (if \<not> mc_create_database_if_missing cfg then (True, db)
      else case probe db of
        None \<Rightarrow> (False, db)
      | Some exists \<Rightarrow>
          if exists then (True, db)
          else if mc_dry_run cfg then (True, db)
          else exec db (generate_create_database_sql dbname))"

definition ensure_sea_files_table ::
  "('db \<Rightarrow> string \<Rightarrow> bool \<times> 'db) \<Rightarrow> bool \<Rightarrow> 'db \<Rightarrow> bool \<times> 'db" where
  "ensure_sea_files_table exec dry_run db = (if dry_run then (True, db) else execute_sql exec dry_run generate_sea_files_table_sql db)"

definition bootstrap ::
  "('db \<Rightarrow> string \<Rightarrow> bool \<times> 'db) \<Rightarrow> ('db \<Rightarrow> bool option) \<Rightarrow> ('db \<Rightarrow> schema_snapshot) \<Rightarrow> migrations_config \<Rightarrow> string
   \<Rightarrow> string list \<Rightarrow> schema \<Rightarrow> 'db \<Rightarrow> bootstrap_result \<times> 'db" where
  "bootstrap exec probe introspect cfg dbname names s db =
     (if \<not> mc_enabled cfg then (empty_bootstrap_result\<lparr>br_success := True\<rparr>, db)
      else case ensure_database_exists exec probe cfg dbname db of
        (False, db1) \<Rightarrow> (push_error ''Failed to ensure database exists'' empty_bootstrap_result, db1)
      | (True, db1) \<Rightarrow>
          (case (if schema_has_file_fields s then ensure_sea_files_table exec (mc_dry_run cfg) db1 else (True, db1)) of
             (False, db2) \<Rightarrow>
               (push_error ''Failed to ensure system table sea_files exists'' empty_bootstrap_result, db2)
           | (True, db2) \<Rightarrow>
               let st = compute_and_apply_diff exec cfg names s (introspect db2)
                          \<lparr>mg_db = db2, mg_result = empty_bootstrap_result\<rparr>
               in ((mg_result st)\<lparr>br_success := (br_errors (mg_result st) = [])\<rparr>, mg_db st)))"

end
