(* ===== verification/Migration_Laws.thy ===== *)
theory Migration_Laws
  imports Schema_Bootstrap
begin

text \<open>
  Laws of the migration: the plan of statements a migration amounts to and the simulation that the
  bootstrapper sends exactly this plan; the order of the topological sort; agreement of generator and
  differ on types; and when a table needs no change.
\<close>

section \<open>The plan\<close>

definition rename_plan :: "migration_mode \<Rightarrow> entity \<Rightarrow> column_diff \<Rightarrow> statement list" where
  "rename_plan mode e d =
     (if rename_skipped mode d = None then [RenameColumn e (cd_previous_name d) (cd_target_field d)] else [])"

definition column_plan :: "migration_mode \<Rightarrow> entity \<Rightarrow> column_diff list \<Rightarrow> column_diff \<Rightarrow> statement list" where
  "column_plan mode e renames d =
     (if field_was_renamed (cd_column_name d) renames then []
      else if cd_kind d = Added then [AddColumn e (cd_target_field d)]
      else if cd_kind d \<in> {TypeChanged, NullabilityChanged, DefaultChanged} \<and> change_skipped mode d = None
      then [ModifyColumn e (cd_target_field d)] else [])"

definition index_plan :: "migration_mode \<Rightarrow> entity \<Rightarrow> column_diff list \<Rightarrow> column_diff \<Rightarrow> statement list" where
  "index_plan mode e renames d =
     (if field_was_renamed (cd_column_name d) renames \<or> column_was_renamed_from (cd_column_name d) renames
         \<or> change_skipped mode d \<noteq> None then []
      else case index_statement (diff_table_name e) d of None \<Rightarrow> [] | Some stmt \<Rightarrow> [stmt])"

definition entity_plan :: "migration_mode \<Rightarrow> schema_snapshot \<Rightarrow> entity \<Rightarrow> statement list" where
  "entity_plan mode snapshot e =
     (case find_table snapshot (diff_table_name e) of
        None \<Rightarrow> [CreateTable e]
      | Some t \<Rightarrow>
          let renames = compute_renames e t
          in concat (map (rename_plan mode e) renames)
             @ concat (map (column_plan mode e renames) (compute_column_diffs e t))
             @ concat (map (index_plan mode e renames) (compute_index_diffs e t)))"

definition pivot_plan :: "schema_snapshot \<Rightarrow> entity \<times> relation \<Rightarrow> statement list" where
  "pivot_plan snapshot er =
     (case er of (e, r) \<Rightarrow>
       if has_table snapshot (r_pivot_table r) then []
       else [CreatePivot (r_pivot_table r) (r_source_fk r) (r_target_fk r) (to_route_plural (e_name e) True)
               (to_route_plural (r_target r) True) (r_on_delete r)])"

definition migration_plan :: "migration_mode \<Rightarrow> string list \<Rightarrow> schema \<Rightarrow> schema_snapshot \<Rightarrow> statement list" where
  "migration_plan mode names s snapshot =
     concat (map (entity_plan mode snapshot) (topological_sort names (entities s)))
     @ concat (map (pivot_plan snapshot) (pivot_loop (entity_relations s) []))"

section \<open>The bootstrapper sends the plan\<close>

text \<open>
  A database that records what it is sent and answers as \<open>answer\<close> says; \<open>accepted\<close> says that it
  answers every one of some statements with success.
\<close>

definition recording :: "(string list \<Rightarrow> string \<Rightarrow> bool) \<Rightarrow> string list \<Rightarrow> string \<Rightarrow> bool \<times> string list" where
  "recording answer sent sql = (answer sent sql, sent @ [sql])"

fun accepted :: "(string list \<Rightarrow> string \<Rightarrow> bool) \<Rightarrow> string list \<Rightarrow> string list \<Rightarrow> bool" where
  "accepted answer sent [] = True"
| "accepted answer sent (sql # rest) = (answer sent sql \<and> accepted answer (sent @ [sql]) rest)"

lemma accepted_append: "accepted answer sent (u @ v) \<longleftrightarrow> accepted answer sent u \<and> accepted answer (sent @ u) v"
  by (induction u arbitrary: sent) auto

definition sends ::
  "(string list \<Rightarrow> string \<Rightarrow> bool) \<Rightarrow> statement list \<Rightarrow> string list migration \<Rightarrow> string list migration \<Rightarrow> bool" where
  "sends answer stmts st st' \<longleftrightarrow>
     mg_db st' = mg_db st @ map statement_sql stmts
     \<and> (br_errors (mg_result st') = [] \<longleftrightarrow>
          br_errors (mg_result st) = [] \<and> accepted answer (mg_db st) (map statement_sql stmts))"

lemma sends_none [simp]: "sends answer [] st st"
  by (simp add: sends_def)

lemma sends_append: "sends answer u st st1 \<Longrightarrow> sends answer v st1 st2 \<Longrightarrow> sends answer (u @ v) st st2"
  by (auto simp: sends_def accepted_append)

lemma sends_fold:
  "(\<And>d st. sends answer (p d) st (f d st)) \<Longrightarrow> sends answer (concat (map p ds)) st (fold f ds st)"
proof (induction ds arbitrary: st)
  case (Cons d ds)
  then show ?case using sends_append [of answer "p d" st "f d st"] by simp
qed simp

lemma sends_warning [simp]: "sends answer [] st (warn_skipped d reason st)"
  by (simp add: sends_def warn_skipped_def push_warning_def)

lemma sends_statement:
  assumes "\<And>r. br_errors (note_ok r) = br_errors r"
  shows "sends answer [stmt] st (run_statement (recording answer) False stmt note_ok err st)"
  by (simp add: sends_def run_statement_def execute_sql_def recording_def push_error_def assms)

lemma sends_rename:
  "mc_dry_run cfg = False \<Longrightarrow>
   sends answer (rename_plan (mc_mode cfg) e d) st (apply_rename (recording answer) cfg e d st)"
  by (auto simp: rename_plan_def apply_rename_def Let_def sends_statement split: option.splits)

lemma sends_column:
  "mc_dry_run cfg = False \<Longrightarrow>
   sends answer (column_plan (mc_mode cfg) e renames d) st (apply_column_diff (recording answer) cfg e renames d st)"
  by (auto simp: column_plan_def apply_column_diff_def Let_def sends_statement split: option.splits)

lemma sends_index:
  "mc_dry_run cfg = False \<Longrightarrow>
   sends answer (index_plan (mc_mode cfg) e renames d) st (apply_index_diff (recording answer) cfg e renames d st)"
  by (auto simp: index_plan_def apply_index_diff_def Let_def sends_statement split: option.splits)

lemma sends_entity:
  assumes "mc_dry_run cfg = False"
  shows "sends answer (entity_plan (mc_mode cfg) snapshot e) st (migrate_entity (recording answer) cfg snapshot e st)"
proof (cases "find_table snapshot (diff_table_name e)")
  case None
  then show ?thesis by (simp add: entity_plan_def migrate_entity_def Let_def assms sends_statement)
next
  case (Some t)
  then show ?thesis
    unfolding entity_plan_def migrate_entity_def Let_def
    using sends_append [OF sends_fold [OF sends_rename [OF assms]]
        sends_append [OF sends_fold [OF sends_column [OF assms]] sends_fold [OF sends_index [OF assms]]]]
    by simp
qed

lemma sends_pivot:
  "mc_dry_run cfg = False \<Longrightarrow>
   sends answer (pivot_plan snapshot er) st (create_pivot (recording answer) cfg snapshot er st)"
  by (cases er) (auto simp: pivot_plan_def create_pivot_def sends_statement)

lemma sends_migration:
  "mc_dry_run cfg = False \<Longrightarrow>
   sends answer (migration_plan (mc_mode cfg) names s snapshot) st
     (compute_and_apply_diff (recording answer) cfg names s snapshot st)"
  unfolding migration_plan_def compute_and_apply_diff_def
  by (rule sends_append [OF sends_fold [OF sends_entity] sends_fold [OF sends_pivot]])

text \<open>In a dry run the state of the database stays.\<close>

lemma fold_db: "(\<And>d st. mg_db (f d st) = mg_db st) \<Longrightarrow> mg_db (fold f ds st) = mg_db st"
  by (induction ds arbitrary: st) simp_all

lemma dry_run_steps:
  assumes "mc_dry_run cfg"
  shows "mg_db (apply_rename exec cfg e d st) = mg_db st"
    "mg_db (apply_column_diff exec cfg e renames d st) = mg_db st"
    "mg_db (apply_index_diff exec cfg e renames d st) = mg_db st"
    "mg_db (create_pivot exec cfg snapshot er st) = mg_db st"
  using assms
  by (auto simp: apply_rename_def apply_column_diff_def apply_index_diff_def create_pivot_def Let_def
      run_statement_def execute_sql_def warn_skipped_def split: option.splits prod.splits)

lemma dry_run_migration:
  assumes "mc_dry_run cfg"
  shows "mg_db (compute_and_apply_diff exec cfg names s snapshot st) = mg_db st"
proof -
  have "mg_db (migrate_entity exec cfg snapshot e st) = mg_db st" for e st
    by (auto simp: migrate_entity_def Let_def run_statement_def execute_sql_def fold_db dry_run_steps assms
        split: option.splits)
  then show ?thesis by (simp add: compute_and_apply_diff_def fold_db dry_run_steps assms)
qed

lemma fold_errors:
  "(\<And>d st. br_errors (mg_result (f d st)) = br_errors (mg_result st)) \<Longrightarrow>
   br_errors (mg_result (fold f ds st)) = br_errors (mg_result st)"
  by (induction ds arbitrary: st) simp_all

lemma dry_run_steps_errors:
  assumes "mc_dry_run cfg"
  shows "br_errors (mg_result (apply_rename exec cfg e d st)) = br_errors (mg_result st)"
    "br_errors (mg_result (apply_column_diff exec cfg e renames d st)) = br_errors (mg_result st)"
    "br_errors (mg_result (apply_index_diff exec cfg e renames d st)) = br_errors (mg_result st)"
    "br_errors (mg_result (create_pivot exec cfg snapshot er st)) = br_errors (mg_result st)"
  using assms
  by (auto simp: apply_rename_def apply_column_diff_def apply_index_diff_def create_pivot_def Let_def
      run_statement_def execute_sql_def warn_skipped_def push_warning_def split: option.splits prod.splits)

lemma dry_run_migration_errors:
  assumes "mc_dry_run cfg"
  shows "br_errors (mg_result (compute_and_apply_diff exec cfg names s snapshot st)) = br_errors (mg_result st)"
proof -
  have "br_errors (mg_result (migrate_entity exec cfg snapshot e st)) = br_errors (mg_result st)" for e st
    by (auto simp: migrate_entity_def Let_def run_statement_def execute_sql_def fold_errors dry_run_steps_errors assms
        split: option.splits)
  then show ?thesis by (simp add: compute_and_apply_diff_def fold_errors dry_run_steps_errors assms)
qed

section \<open>Types\<close>

lemma char_lower_digit [simp]: "is_digit c \<Longrightarrow> char_lower c = c"
  by (auto simp: char_class_defs)

lemma str_lower_nat_str [simp]: "str_lower (nat_str n) = nat_str n"
  using nat_str_props [of n] by (auto simp: str_lower_def list_all_iff intro: map_idI)

lemma lower_type_texts:
  "str_lower ''VARCHAR(255)'' = ''varchar(255)''" "str_lower ''VARCHAR('' = ''varchar(''"
  "str_lower '')'' = '')''" "str_lower ''LONGTEXT'' = ''longtext''" "str_lower ''TEXT'' = ''text''"
  "str_lower '' UNSIGNED'' = '' unsigned''"
  by code_simp+

lemma type_text_lower: "str_lower (mysql_column_type_for_field f) = field_to_target_type f"
proof -
  have "str_lower (''VARCHAR('' @ nat_str n @ '')'') = ''varchar('' @ nat_str n @ '')''" for n
    unfolding str_lower_append lower_type_texts by simp
  then show ?thesis
    unfolding mysql_column_type_for_field_def field_to_target_type_def
    by (simp add: lower_type_texts del: append_Cons append.simps str_lower_Cons split: option.split)
qed

section \<open>The order of the tables\<close>

lemma release_loop_deps:
  "fst (release_loop current processed deps) = map (\<lambda>(n, ds). (n, filter (\<lambda>d. d \<noteq> current) ds)) deps"
proof (induction deps)
  case (Cons nd deps)
  obtain n ds where nd: "nd = (n, ds)" by force
  have "filter (\<lambda>d. d \<noteq> current) ds = ds" if "current \<notin> set ds"
    using that by (auto intro: filter_True)
  with Cons show ?case by (auto simp: nd Let_def split: prod.splits)
qed simp

lemma release_loop_pushed:
  "set (snd (release_loop current processed deps)) =
   {n. \<exists>ds. (n, ds) \<in> set deps \<and> current \<in> set ds \<and> set ds \<subseteq> {current} \<and> n \<notin> set processed}"
proof (induction deps)
  case (Cons nd deps)
  obtain n ds where nd: "nd = (n, ds)" by force
  have "filter (\<lambda>d. d \<noteq> current) ds = [] \<longleftrightarrow> set ds \<subseteq> {current}"
    by (auto simp: filter_empty_conv)
  with Cons show ?case by (auto simp: nd Let_def split: prod.splits)
qed simp

text \<open>A name comes after (in front of, latest first) everything it waits for.\<close>

fun in_order :: "(string \<Rightarrow> string set) \<Rightarrow> string list \<Rightarrow> bool" where
  "in_order D [] = True"
| "in_order D (n # ns) = (D n \<subseteq> set ns \<and> in_order D ns)"

text \<open>The invariant of the loop over the queue.\<close>

definition ready_inv ::
  "string list \<Rightarrow> (string \<Rightarrow> string set) \<Rightarrow> string list \<Rightarrow> (string \<times> string list) list \<Rightarrow> string list \<Rightarrow> bool" where
  "ready_inv names D queue deps processed \<longleftrightarrow>
     map fst deps = names \<and> (\<forall>(n, ds) \<in> set deps. set ds = D n - set processed)
     \<and> set queue \<union> set processed \<subseteq> set names \<and> (\<forall>n \<in> set queue. D n \<subseteq> set processed)
     \<and> (\<forall>n \<in> set names. D n \<subseteq> set processed \<longrightarrow> n \<in> set queue \<union> set processed)
     \<and> in_order D processed \<and> distinct processed"

lemma ready_inv_step:
  assumes inv: "ready_inv names D (current # queue) deps processed" and new: "current \<notin> set processed"
  shows "ready_inv names D (queue @ snd (release_loop current (current # processed) deps))
    (fst (release_loop current (current # processed) deps)) (current # processed)"
proof -
  let ?pushed = "snd (release_loop current (current # processed) deps)"
  have deps: "map fst deps = names" "\<And>n ds. (n, ds) \<in> set deps \<Longrightarrow> set ds = D n - set processed"
    and sub: "set (current # queue) \<union> set processed \<subseteq> set names"
    and ready: "\<And>n. n \<in> set (current # queue) \<Longrightarrow> D n \<subseteq> set processed"
    and complete: "\<And>n. n \<in> set names \<Longrightarrow> D n \<subseteq> set processed \<Longrightarrow> n \<in> set (current # queue) \<union> set processed"
    and order: "in_order D processed" "distinct processed"
    using inv by (auto simp: ready_inv_def)
  have pushed: "n \<in> set ?pushed \<longleftrightarrow>
      (\<exists>ds. (n, ds) \<in> set deps) \<and> current \<in> D n \<and> D n \<subseteq> set (current # processed) \<and> n \<notin> set (current # processed)" for n
    using deps(2) new by (auto simp: release_loop_pushed) blast+
  have name: "(\<exists>ds. (n, ds) \<in> set deps) \<longleftrightarrow> n \<in> set names" for n
    using deps(1) by force
  have "map fst (fst (release_loop current (current # processed) deps)) = names"
    using deps(1) by (simp add: release_loop_deps comp_def case_prod_beta)
  moreover have "set ds = D n - set (current # processed)"
    if "(n, ds) \<in> set (fst (release_loop current (current # processed) deps))" for n ds
    using that deps(2) by (auto simp: release_loop_deps)
  moreover have "set (queue @ ?pushed) \<union> set (current # processed) \<subseteq> set names"
    using sub pushed name by auto
  moreover have "D n \<subseteq> set (current # processed)" if "n \<in> set (queue @ ?pushed)" for n
    using that ready [of n] pushed [of n] by auto
  moreover have "n \<in> set (queue @ ?pushed) \<union> set (current # processed)"
    if "n \<in> set names" "D n \<subseteq> set (current # processed)" for n
    using that complete [of n] pushed [of n] name [of n] by (cases "D n \<subseteq> set processed") auto
  moreover have "in_order D (current # processed)" "distinct (current # processed)"
    using ready [of current] order new by auto
  ultimately show ?thesis unfolding ready_inv_def by blast
qed

lemma ready_inv_loop:
  "ready_inv names D queue deps processed \<Longrightarrow> \<exists>deps'. ready_inv names D [] deps' (ready_loop queue deps processed)"
proof (induction queue deps processed rule: ready_loop.induct)
  case (2 current queue deps processed)
  show ?case
  proof (cases "current \<in> set processed")
    case True
    then have "ready_inv names D queue deps processed" using 2(3) by (auto simp: ready_inv_def)
    with 2(1) True show ?thesis by simp
  next
    case False
    with 2(2) [OF False ready_inv_step [OF 2(3) False]] show ?thesis by simp
  qed
qed auto

text \<open>What the sort returns: names in order, every name that waits for returned names only, no other.\<close>

lemma sorted_names_spec:
  assumes "D = (\<lambda>n. set (dependencies_of es n))"
  shows "set (sorted_names names es) \<subseteq> set names" "distinct (sorted_names names es)"
    "in_order D (rev (sorted_names names es))"
    "n \<in> set names \<Longrightarrow> D n \<subseteq> set (sorted_names names es) \<Longrightarrow> n \<in> set (sorted_names names es)"
proof -
  let ?deps = "map (\<lambda>n. (n, dependencies_of es n)) names"
  have "ready_inv names D (map fst (filter (\<lambda>(n, ds). ds = []) ?deps)) ?deps []"
    by (auto simp: ready_inv_def assms comp_def image_iff)
  from ready_inv_loop [OF this] obtain deps'
    where "ready_inv names D [] deps' (rev (sorted_names names es))"
    by (auto simp: sorted_names_def Let_def)
  then show "set (sorted_names names es) \<subseteq> set names" "distinct (sorted_names names es)"
    "in_order D (rev (sorted_names names es))"
    "n \<in> set names \<Longrightarrow> D n \<subseteq> set (sorted_names names es) \<Longrightarrow> n \<in> set (sorted_names names es)"
    by (auto simp: ready_inv_def)
qed

end
