(* ===== verification/Migration_Properties.thy ===== *)
theory Migration_Properties
  imports Migration_Laws
begin

text \<open>
  The properties of the schema migration: what is sent to the database and in which order, what each
  mode may do, when a table needs no change, and the cases in which the safe mode is not safe or the
  migration never settles.
\<close>

section \<open>Helpers\<close>

lemma change_skipped_conservative: "change_skipped Conservative d \<noteq> None" "rename_skipped Conservative d \<noteq> None"
  by (simp_all add: change_skipped_def rename_skipped_def)

lemma column_diff_kinds:
  assumes "d \<in> set (compute_column_diffs e t)"
  shows "cd_column_name d = f_name (cd_target_field d) \<and> cd_target_field d \<in> set (e_fields e)
    \<and> (cd_kind d = Added \<longrightarrow> \<not> has_column t (cd_column_name d))
    \<and> cd_kind d \<in> {Added, TypeChanged, NullabilityChanged, DefaultChanged}"
proof -
  obtain f where "f \<in> set (e_fields e)" "d \<in> set (field_column_diffs (diff_table_name e) t f)"
    using assms by (auto simp: compute_column_diffs_def)
  then show ?thesis
    by (auto simp: field_column_diffs_def type_diff_def nullability_diffs_def default_diffs_def make_diff_def Let_def
        has_column_def split: option.splits if_splits)
qed

lemma pivot_loop_kind: "(e, r) \<in> set (pivot_loop ers created) \<Longrightarrow> r_kind r = ManyToMany \<and> (e, r) \<in> set ers"
  by (induction ers created rule: pivot_loop.induct) (auto split: if_splits)

lemma topological_sort_subset: "set (topological_sort names es) \<subseteq> set es"
  by (auto simp: topological_sort_def Let_def set_map_filter_iff entity_by_name_def dest!: find_Some_in)

lemma entity_by_name_distinct:
  assumes "distinct (map e_name es)" and "e \<in> set es"
  shows "entity_by_name es (e_name e) = Some e"
proof -
  have "\<exists>e'. find (\<lambda>x. e_name x = e_name e) (rev es) = Some e'"
    using assms(2) by (cases "find (\<lambda>x. e_name x = e_name e) (rev es)") (auto simp: find_None_iff)
  then obtain e' where e': "find (\<lambda>x. e_name x = e_name e) (rev es) = Some e'" ..
  then have "e' \<in> set es" "e_name e' = e_name e" by (auto dest!: find_Some_in)
  with assms have "e' = e" by (metis distinct_map inj_onD)
  with e' show ?thesis by (simp add: entity_by_name_def)
qed

lemma dependencies_distinct:
  assumes "distinct (map e_name es)" and "e \<in> set es"
  shows "set (dependencies_of es (e_name e)) = set (belongs_to_targets e)"
proof -
  have "x = e" if "x \<in> set es" "e_name x = e_name e" for x
    using that assms by (metis distinct_map inj_onD)
  with assms(2) show ?thesis by (auto simp: dependencies_of_def)
qed

lemma in_order_split: "in_order D (us @ n # vs) \<Longrightarrow> D n \<subseteq> set vs"
  by (induction us) auto

lemma all_names_sorted:
  assumes "set names = e_name ` set es" and "distinct (map e_name es)"
    and "\<And>e t. e \<in> set es \<Longrightarrow> t \<in> set (belongs_to_targets e) \<Longrightarrow> t \<in> e_name ` set es \<and> rank t < (rank (e_name e) :: nat)"
    and "n \<in> set names"
  shows "n \<in> set (sorted_names names es)"
  using assms(4)
proof (induction "rank n" arbitrary: n rule: less_induct)
  case less
  obtain e where e: "e \<in> set es" "n = e_name e" using less.prems assms(1) by auto
  have "t \<in> set (sorted_names names es)" if "t \<in> set (dependencies_of es n)" for t
  proof -
    have "t \<in> set (belongs_to_targets e)" using that dependencies_distinct [OF assms(2) e(1)] e(2) by simp
    with assms(3) [OF e(1)] e(2) have "rank t < rank n" "t \<in> set names" using assms(1) by auto
    then show ?thesis by (rule less.hyps)
  qed
  then show ?case using sorted_names_spec(4) [OF refl less.prems, of es] by blast
qed

section \<open>Example\<close>

definition demo_snapshot :: "entity \<Rightarrow> column_info list \<Rightarrow> index_info list \<Rightarrow> schema_snapshot" where
  "demo_snapshot e cols idx =
     \<lparr>sn_database_name = ''db'',
      sn_tables = [(diff_table_name e,
        \<lparr>ti_name = diff_table_name e, ti_columns = cols, ti_indexes = idx, ti_foreign_keys = []\<rparr>)]\<rparr>"

definition demo_column :: "string \<Rightarrow> string \<Rightarrow> bool \<Rightarrow> column_info" where
  "demo_column n typ nullable =
     \<lparr>ci_name = n, ci_data_type = typ, ci_column_type = typ, ci_nullable = nullable, ci_primary_key = False,
      ci_unique = False, ci_auto_increment = False, ci_default = None\<rparr>"

definition phone_entity :: entity where
  "phone_entity = make_entity ''Contact'' [make_field ''fax'' FString] []"

definition demo_table :: "column_info list \<Rightarrow> table_info" where
  "demo_table cols = \<lparr>ti_name = ''Contact'', ti_columns = cols, ti_indexes = [], ti_foreign_keys = []\<rparr>"


definition blog_entities :: "entity list" where
  "blog_entities =
     [make_entity ''Comment'' [] [make_relation ''post'' ''Post'' BelongsTo, make_relation ''author'' ''User'' BelongsTo],
      make_entity ''Post'' [] [make_relation ''author'' ''User'' BelongsTo], make_entity ''User'' [] []]"

section \<open>Properties\<close>



text \<open>C17: When the \<open>belongs_to\<close> references between the entities have no cycle, the tables are created
  in an order in which every table comes after those it references, each entity once, whatever the
  order in which the hash maps iterate.\<close>

theorem tables_created_after_references:
  assumes "set names = e_name ` set es" and "distinct (map e_name es)"
    and "\<forall>e \<in> set es. \<forall>t \<in> set (belongs_to_targets e). t \<in> e_name ` set es \<and> rank t < (rank (e_name e) :: nat)"
  shows "mset (topological_sort names es) = mset es
    \<and> (\<forall>us e vs. topological_sort names es = us @ e # vs \<longrightarrow> set (belongs_to_targets e) \<subseteq> e_name ` set us)"
proof -
  let ?ns = "sorted_names names es"
  have all: "set ?ns = e_name ` set es"
    using all_names_sorted [OF assms(1,2), of rank] assms(3) sorted_names_spec(1) [OF refl] assms(1) by blast
  have sort: "topological_sort names es = List.map_filter (entity_by_name es) ?ns"
    using all by (simp add: topological_sort_def Let_def)
  have some: "\<exists>e. entity_by_name es n = Some e \<and> e_name e = n \<and> e \<in> set es" if "n \<in> set ?ns" for n
    using that all entity_by_name_distinct [OF assms(2)] by auto
  have map: "List.map_filter (entity_by_name es) ns = map (the \<circ> entity_by_name es) ns
      \<and> map e_name (map (the \<circ> entity_by_name es) ns) = ns" if "set ns \<subseteq> set ?ns" for ns
    using that by (induction ns) (use some in \<open>force simp: map_filter_simps List.map_filter_def\<close>)+
  have names: "map e_name (topological_sort names es) = ?ns"
    using map [of ?ns] sort by simp
  then have "distinct (topological_sort names es)"
    using sorted_names_spec(2) [OF refl, where names = names and es = es] by (metis distinct_map)
  moreover have "set (topological_sort names es) = set es"
  proof
    show "set es \<subseteq> set (topological_sort names es)"
    proof
      fix e assume "e \<in> set es"
      then have "entity_by_name es (e_name e) = Some e" "e_name e \<in> set ?ns"
        using entity_by_name_distinct [OF assms(2)] all by auto
      then show "e \<in> set (topological_sort names es)" by (auto simp: sort set_map_filter_iff)
    qed
  qed (rule topological_sort_subset)
  ultimately have "mset (topological_sort names es) = mset es"
    using assms(2) by (metis distinct_map set_eq_iff_mset_eq_distinct)
  moreover have "set (belongs_to_targets e) \<subseteq> e_name ` set us" if split: "topological_sort names es = us @ e # vs" for us e vs
  proof -
    have "e \<in> set es" using split topological_sort_subset [of names es] by auto
    have "rev ?ns = rev (map e_name vs) @ e_name e # rev (map e_name us)"
      using names split by (metis list.simps(9) map_append rev.simps(2) rev_append append.assoc append_Cons append_Nil)
    then have "set (dependencies_of es (e_name e)) \<subseteq> set (map e_name us)"
      using sorted_names_spec(3) [OF refl, where names = names and es = es] in_order_split by fastforce
    then show ?thesis using dependencies_distinct [OF assms(2) \<open>e \<in> set es\<close>] by simp
  qed
  ultimately show ?thesis by blast
qed

theorem tables_created_after_references_witness:
  "map e_name (topological_sort [''Comment'', ''Post'', ''User''] blog_entities) = [''User'', ''Post'', ''Comment'']
   \<and> mset (topological_sort [''Comment'', ''Post'', ''User''] blog_entities) = mset blog_entities"
proof
  show "map e_name (topological_sort [''Comment'', ''Post'', ''User''] blog_entities) = [''User'', ''Post'', ''Comment'']"
    unfolding blog_entities_def by code_simp
  show "mset (topological_sort [''Comment'', ''Post'', ''User''] blog_entities) = mset blog_entities"
  proof (rule conjunct1 [OF tables_created_after_references])
    show "\<forall>e \<in> set blog_entities. \<forall>t \<in> set (belongs_to_targets e). t \<in> e_name ` set blog_entities \<and>
        (if t = ''User'' then 0 else if t = ''Post'' then 1 else 2)
        < (if e_name e = ''User'' then 0 else if e_name e = ''Post'' then 1 else 2 :: nat)"
      by (auto simp: blog_entities_def make_entity_def make_relation_def belongs_to_targets_def)
  qed (simp_all add: blog_entities_def make_entity_def)
qed

text \<open>In conservative mode a migration only creates: tables the snapshot does not have, columns their
  table does not have, and pivot tables the snapshot does not have.\<close>

theorem conservative_mode_only_creates:
  assumes "stmt \<in> set (migration_plan Conservative names s snapshot)"
  shows "(\<exists>e \<in> set (entities s). stmt = CreateTable e \<and> \<not> has_table snapshot (diff_table_name e))
    \<or> (\<exists>e \<in> set (entities s). \<exists>f \<in> set (e_fields e). \<exists>t. stmt = AddColumn e f
        \<and> find_table snapshot (diff_table_name e) = Some t \<and> \<not> has_column t (f_name f))
    \<or> (\<exists>pivot sfk tfk st tt rule. stmt = CreatePivot pivot sfk tfk st tt rule \<and> \<not> has_table snapshot pivot)"
proof -
  consider (entity) e where "e \<in> set (entities s)" "stmt \<in> set (entity_plan Conservative snapshot e)"
    | (pivot) er where "stmt \<in> set (pivot_plan snapshot er)"
    using assms topological_sort_subset [of names "entities s"] by (auto simp: migration_plan_def)
  then show ?thesis
  proof cases
    case entity
    show ?thesis
    proof (cases "find_table snapshot (diff_table_name e)")
      case None
      with entity show ?thesis by (auto simp: entity_plan_def has_table_def find_table_def)
    next
      case (Some t)
      then obtain d where d: "d \<in> set (compute_column_diffs e t)" "cd_kind d = Added" "stmt = AddColumn e (cd_target_field d)"
        using entity(2) change_skipped_conservative
        by (auto simp: entity_plan_def Let_def rename_plan_def column_plan_def index_plan_def split: if_splits)
      with column_diff_kinds [OF d(1)] Some entity(1) show ?thesis by force
    qed
  next
    case pivot
    then show ?thesis by (cases er) (auto simp: pivot_plan_def split: if_splits)
  qed
qed

theorem conservative_mode_only_creates_witness:
  "CreateTable phone_entity \<in> set (migration_plan Conservative [''Contact''] \<lparr>entities = [phone_entity]\<rparr>
     \<lparr>sn_database_name = [], sn_tables = []\<rparr>)
   \<and> \<not> has_table \<lparr>sn_database_name = [], sn_tables = []\<rparr> (diff_table_name phone_entity)"
proof -
  have "CreateTable phone_entity \<in> set (migration_plan Conservative [''Contact''] \<lparr>entities = [phone_entity]\<rparr>
      \<lparr>sn_database_name = [], sn_tables = []\<rparr>)"
    unfolding phone_entity_def by code_simp
  with conservative_mode_only_creates [OF this] show ?thesis by auto
qed

text \<open>C18: Renames are sound: each leads from a column of the table to a field the table has no column
  for, and no two to the same field; a guessed one is marked unsafe, leaves from a column that is no
  field, reaches the threshold, and no two guesses leave from the same column.\<close>

theorem renames_sound:
  assumes "distinct (map f_name (e_fields e))" and "distinct (map ci_name (ti_columns t))"
  shows "(\<forall>d \<in> set (compute_renames e t). rename_ok e t d)
    \<and> distinct (map cd_column_name (compute_renames e t))
    \<and> distinct (map cd_previous_name (filter (\<lambda>d. \<not> cd_is_safe d) (compute_renames e t)))"
  using compute_renames_spec [OF assms(1)] assms(2) by blast

theorem renames_sound_witness:
  "compute_renames phone_entity
     \<lparr>ti_name = ''Contact'', ti_columns = [demo_column ''phone'' ''varchar(255)'' False], ti_indexes = [], ti_foreign_keys = []\<rparr> \<noteq> []
   \<and> distinct (map cd_column_name (compute_renames phone_entity
     \<lparr>ti_name = ''Contact'', ti_columns = [demo_column ''phone'' ''varchar(255)'' False], ti_indexes = [], ti_foreign_keys = []\<rparr>))"
proof
  let ?t = "\<lparr>ti_name = ''Contact'', ti_columns = [demo_column ''phone'' ''varchar(255)'' False], ti_indexes = [], ti_foreign_keys = []\<rparr>"
  show "compute_renames phone_entity ?t \<noteq> []"
    unfolding phone_entity_def demo_column_def by code_simp
  show "distinct (map cd_column_name (compute_renames phone_entity ?t))"
    using renames_sound [of phone_entity ?t] by (simp add: phone_entity_def make_entity_def)
qed

text \<open>A guess can reach the score of an annotation: a column that is no field, at the position of a
  new field with its type, nullability and default, is renamed into it in modified mode, although the
  difference is marked unsafe.\<close>

theorem modified_mode_applies_a_guess:
  "\<exists>e t d. d \<in> set (compute_renames e t) \<and> \<not> cd_is_safe d \<and> list_all (\<lambda>f. f_previous_name f = None) (e_fields e)
     \<and> RenameColumn e (cd_previous_name d) (cd_target_field d)
         \<in> set (entity_plan Modified (demo_snapshot e (ti_columns t) (ti_indexes t)) e)"
proof -
  let ?c = "demo_column ''phone'' ''varchar(255)'' False"
  let ?t = "\<lparr>ti_name = ''Contact'', ti_columns = [?c], ti_indexes = [], ti_foreign_keys = []\<rparr>"
  let ?d = "heuristic_rename ''Contact'' ?c (make_field ''fax'' FString) 100"
  have "compute_renames phone_entity ?t = [?d]"
    unfolding phone_entity_def demo_column_def by code_simp
  moreover have "find_table (demo_snapshot phone_entity [?c] []) (diff_table_name phone_entity) = Some ?t"
    by (simp add: demo_snapshot_def find_table_def phone_entity_def make_entity_def diff_table_name_def)
  moreover have "cd_score ?d = 100" "\<not> cd_is_safe ?d" by (simp_all add: heuristic_rename_def make_diff_def)
  moreover have "list_all (\<lambda>f. f_previous_name f = None) (e_fields phone_entity)"
    by (simp add: phone_entity_def make_entity_def make_field_def)
  ultimately show ?thesis
    by (intro exI [of _ phone_entity] exI [of _ ?t] exI [of _ ?d])
      (simp add: entity_plan_def Let_def rename_plan_def rename_skipped_def)
qed

text \<open>A table needs no change of columns or indexes exactly when every field has the column the
  generator would define (type up to case and blanks, nullability, default) and the indexes it asks
  for; the columns of foreign keys and the identifier keep the indexes they have.\<close>

theorem up_to_date_iff:
  "compute_column_diffs e t = [] \<and> compute_index_diffs e t = [] \<longleftrightarrow>
     (\<forall>f \<in> set (e_fields e).
        (\<exists>c. find_column t (f_name f) = Some c
           \<and> normalize_type (ci_column_type c) = normalize_type (mysql_column_type_for_field f)
           \<and> ci_nullable c = (\<not> (f_required f \<or> f_name f = ''id''))
           \<and> current_default c = yaml_default_to_string (f_default_val f))
        \<and> (f_name f = ''id'' \<or> column_is_fk e (f_name f)
           \<or> (f_unique f = column_has_unique_index t (f_name f)
              \<and> (f_unique f \<or> f_indexed f = column_has_simple_index t (f_name f)))))"
proof -
  have same_type: "types_are_compatible ty (field_to_target_type f) \<longleftrightarrow>
      normalize_type ty = normalize_type (mysql_column_type_for_field f)" for ty f
    by (simp add: types_are_compatible_def normalize_type_def flip: type_text_lower)
  have col: "field_column_diffs table t f = [] \<longleftrightarrow>
      (\<exists>c. find_column t (f_name f) = Some c
         \<and> normalize_type (ci_column_type c) = normalize_type (mysql_column_type_for_field f)
         \<and> ci_nullable c = (\<not> (f_required f \<or> f_name f = ''id''))
         \<and> current_default c = yaml_default_to_string (f_default_val f))" for table f
    by (auto simp: field_column_diffs_def same_type nullability_diffs_def default_diffs_def Let_def yaml_nullable_def
        split: option.splits)
  have idx: "field_index_diffs e t f = [] \<longleftrightarrow> f_name f = ''id'' \<or> column_is_fk e (f_name f)
      \<or> (f_unique f = column_has_unique_index t (f_name f)
         \<and> (f_unique f \<or> f_indexed f = column_has_simple_index t (f_name f)))"
    if "find_column t (f_name f) \<noteq> None" for f
    using that by (auto simp: field_index_diffs_def has_column_def unique_diffs_def index_diffs_def Let_def)
  show ?thesis
    unfolding compute_column_diffs_def compute_index_diffs_def using col idx by (simp add: ball_conj_distrib) blast
qed

theorem up_to_date_iff_witness:
  "compute_column_diffs phone_entity (demo_table [demo_column ''fax'' ''VARCHAR(255)'' False]) = []
   \<and> \<not> (compute_column_diffs phone_entity (demo_table [demo_column ''fax'' ''varchar(255)'' True]) = []
          \<and> compute_index_diffs phone_entity (demo_table [demo_column ''fax'' ''varchar(255)'' True]) = [])"
proof -
  have "normalize_type ''VARCHAR(255)'' = normalize_type (mysql_column_type_for_field (make_field ''fax'' FString))"
    by code_simp
  then have "compute_column_diffs phone_entity (demo_table [demo_column ''fax'' ''VARCHAR(255)'' False]) = []
      \<and> compute_index_diffs phone_entity (demo_table [demo_column ''fax'' ''VARCHAR(255)'' False]) = []"
    unfolding up_to_date_iff
    by (simp add: phone_entity_def make_entity_def demo_table_def demo_column_def find_column_def make_field_def
        current_default_def yaml_default_to_string_def column_has_unique_index_def column_has_simple_index_def)
  moreover have "\<not> (compute_column_diffs phone_entity (demo_table [demo_column ''fax'' ''varchar(255)'' True]) = []
      \<and> compute_index_diffs phone_entity (demo_table [demo_column ''fax'' ''varchar(255)'' True]) = [])"
    unfolding up_to_date_iff
    by (simp add: phone_entity_def make_entity_def demo_table_def demo_column_def find_column_def make_field_def)
  ultimately show ?thesis by blast
qed

text \<open>The safe mode is not safe for a field that becomes required: the unsafe change of nullability is
  skipped with a warning, but a change of the default, which is always safe, rewrites the whole column
  with \<open>NOT NULL\<close>.\<close>

theorem default_change_carries_nullability:
  assumes "find_table snapshot (diff_table_name e) = Some t" and "distinct (map f_name (e_fields e))"
    and "f \<in> set (e_fields e)" and "find_column t (f_name f) = Some c"
    and "types_are_compatible (ci_column_type c) (field_to_target_type f)"
    and "f_required f" and "ci_nullable c" and "yaml_default_to_string (f_default_val f) \<noteq> current_default c"
  shows "(\<exists>d \<in> set (compute_column_diffs e t). cd_kind d = NullabilityChanged \<and> cd_target_field d = f
        \<and> \<not> cd_is_safe d \<and> change_skipped Modified d \<noteq> None)
    \<and> ModifyColumn e f \<in> set (entity_plan Modified snapshot e)
    \<and> (\<exists>u v. statement_sql (ModifyColumn e f) = u @ '' NOT NULL'' @ v)"
proof -
  let ?table = "diff_table_name e"
  have diffs: "field_column_diffs ?table t f = nullability_diffs ?table f c @ default_diffs ?table f c"
    using assms(4,5) by (simp add: field_column_diffs_def)
  have in_diffs: "d \<in> set (compute_column_diffs e t)" if "d \<in> set (field_column_diffs ?table t f)" for d
    using that assms(3) by (auto simp: compute_column_diffs_def)
  obtain d where d: "d \<in> set (nullability_diffs ?table f c)" "cd_kind d = NullabilityChanged" "cd_target_field d = f"
      "\<not> cd_is_safe d"
    using assms(6,7) by (simp add: nullability_diffs_def yaml_nullable_def make_diff_def)
  obtain g where g: "g \<in> set (default_diffs ?table f c)" "cd_kind g = DefaultChanged" "cd_target_field g = f"
      "cd_is_safe g" "cd_column_name g = f_name f"
    using assms(8) by (simp add: default_diffs_def make_diff_def)
  have "\<not> field_was_renamed (f_name f) (compute_renames e t)"
    using assms(2,4) by (intro field_with_column_not_renamed) (simp_all add: has_column_def)
  then have "ModifyColumn e f \<in> set (column_plan Modified e (compute_renames e t) g)"
    using g by (simp add: column_plan_def change_skipped_def)
  then have "ModifyColumn e f \<in> set (entity_plan Modified snapshot e)"
    using g(1) in_diffs diffs assms(1) by (auto simp: entity_plan_def Let_def)
  moreover have "\<exists>u v. statement_sql (ModifyColumn e f) = u @ '' NOT NULL'' @ v"
  proof -
    have "\<exists>v. column_sql f = (bq (f_name f) @ '' '' @ mysql_column_type_for_field f) @ '' NOT NULL'' @ v"
      unfolding column_sql_def column_definition_def using assms(6) by simp
    then obtain v where "column_sql f = (bq (f_name f) @ '' '' @ mysql_column_type_for_field f) @ '' NOT NULL'' @ v" ..
    then have "statement_sql (ModifyColumn e f) =
        (''ALTER TABLE '' @ bq (resolve_table_name e) @ '' MODIFY COLUMN '' @ bq (f_name f) @ '' ''
          @ mysql_column_type_for_field f) @ '' NOT NULL'' @ v"
      by (simp add: generate_modify_column_sql_def)
    then show ?thesis by blast
  qed
  ultimately show ?thesis
    using d in_diffs diffs by (auto simp: change_skipped_def)
qed

theorem default_change_carries_nullability_witness:
  "\<exists>u v. statement_sql (ModifyColumn
      (make_entity ''Contact'' [(make_field ''fax'' FString)\<lparr>f_default_val := DvString ''x''\<rparr>] [])
      ((make_field ''fax'' FString)\<lparr>f_default_val := DvString ''x''\<rparr>)) = u @ '' NOT NULL'' @ v"
proof -
  let ?f = "(make_field ''fax'' FString)\<lparr>f_default_val := DvString ''x''\<rparr>"
  let ?e = "make_entity ''Contact'' [?f] []" and ?c = "demo_column ''fax'' ''varchar(255)'' True"
  have "types_are_compatible (ci_column_type ?c) (field_to_target_type ?f)"
    unfolding demo_column_def by code_simp
  moreover have "find_table (demo_snapshot ?e [?c] []) (diff_table_name ?e) =
      Some \<lparr>ti_name = diff_table_name ?e, ti_columns = [?c], ti_indexes = [], ti_foreign_keys = []\<rparr>"
    by (simp add: find_table_def demo_snapshot_def)
  ultimately show ?thesis
    using default_change_carries_nullability [where e = ?e and f = ?f and c = ?c and snapshot = "demo_snapshot ?e [?c] []"]
    by (simp add: make_entity_def make_field_def demo_column_def find_column_def yaml_default_to_string_def current_default_def)
qed

text \<open>A boolean field never settles: MySQL reports a column created as \<open>BOOLEAN\<close> as \<open>tinyint(1)\<close>,
  which the differ takes for a change of type that is not safe; in aggressive mode every start
  rewrites the column, in modified mode every start skips it with a warning.\<close>

theorem boolean_column_never_settles:
  assumes "find_table snapshot (diff_table_name e) = Some t" and "distinct (map f_name (e_fields e))"
    and "f \<in> set (e_fields e)" and "f_type f = FBool"
    and "find_column t (f_name f) = Some c" and "ci_column_type c = ''tinyint(1)''"
  shows "type_diff (diff_table_name e) f c \<in> set (compute_column_diffs e t)
    \<and> change_skipped Modified (type_diff (diff_table_name e) f c) \<noteq> None
    \<and> ModifyColumn e f \<in> set (entity_plan Aggressive snapshot e)"
proof -
  let ?d = "type_diff (diff_table_name e) f c"
  have target: "field_to_target_type f = ''boolean''"
    unfolding field_to_target_type_def assms(4) by code_simp
  have "normalize_type ''tinyint(1)'' \<noteq> normalize_type ''boolean''" by code_simp
  then have "field_column_diffs (diff_table_name e) t f = [?d]"
    using assms(5,6) target by (simp add: field_column_diffs_def types_are_compatible_def)
  then have d: "?d \<in> set (compute_column_diffs e t)"
    using assms(3) by (force simp: compute_column_diffs_def)
  have "extract_type_base ''tinyint(1)'' = ''tinyint''" "extract_type_base ''boolean'' = ''boolean''" by code_simp+
  then have "\<not> is_type_change_safe ''tinyint(1)'' f"
    by (simp add: is_type_change_safe_def Let_def target)
  then have fields: "cd_kind ?d = TypeChanged" "cd_target_field ?d = f" "cd_column_name ?d = f_name f" "\<not> cd_is_safe ?d"
    by (simp_all add: type_diff_def make_diff_def Let_def assms(6))
  have "\<not> field_was_renamed (f_name f) (compute_renames e t)"
    using assms(2,5) by (intro field_with_column_not_renamed) (simp_all add: has_column_def)
  then have "ModifyColumn e f \<in> set (column_plan Aggressive e (compute_renames e t) ?d)"
    using fields by (simp add: column_plan_def change_skipped_def)
  then have "ModifyColumn e f \<in> set (entity_plan Aggressive snapshot e)"
    using d assms(1) by (auto simp: entity_plan_def Let_def)
  then show ?thesis using d fields by (simp add: change_skipped_def)
qed

theorem boolean_column_never_settles_witness:
  "ModifyColumn (make_entity ''Contact'' [make_field ''vip'' FBool] []) (make_field ''vip'' FBool) \<in>
     set (entity_plan Aggressive (demo_snapshot (make_entity ''Contact'' [make_field ''vip'' FBool] [])
       [demo_column ''vip'' ''tinyint(1)'' False] []) (make_entity ''Contact'' [make_field ''vip'' FBool] []))"
proof -
  let ?e = "make_entity ''Contact'' [make_field ''vip'' FBool] []" and ?c = "demo_column ''vip'' ''tinyint(1)'' False"
  have "find_table (demo_snapshot ?e [?c] []) (diff_table_name ?e) =
      Some \<lparr>ti_name = diff_table_name ?e, ti_columns = [?c], ti_indexes = [], ti_foreign_keys = []\<rparr>"
    by (simp add: find_table_def demo_snapshot_def)
  from boolean_column_never_settles [OF this, of "make_field ''vip'' FBool" ?c] show ?thesis
    by (simp add: make_entity_def make_field_def demo_column_def find_column_def)
qed

text \<open>The differ knows the foreign keys of relations only. The index MySQL keeps for the foreign key
  of a file field is taken for one the schema no longer asks for, and dropping it is part of the plan
  of every start in modified mode.\<close>

theorem file_key_index_dropped:
  assumes "find_table snapshot (diff_table_name e) = Some t" and "distinct (map f_name (e_fields e))"
    and "f \<in> set (e_fields e)" and "is_file_field f" and "f_name f \<noteq> ''id''"
    and "\<not> f_unique f" and "\<not> f_indexed f" and "\<not> column_is_fk e (f_name f)"
    and "\<forall>g \<in> set (e_fields e). f_previous_name g \<noteq> Some (f_name f)"
    and "has_column t (f_name f)" and "\<not> column_has_unique_index t (f_name f)"
    and "find (indexes_column False (f_name f)) (ti_indexes t) = Some idx"
  shows "file_key_clause (resolve_table_name e) f \<noteq> []
    \<and> DropIndex (diff_table_name e) (ix_name idx) \<in> set (entity_plan Modified snapshot e)"
proof -
  have "column_has_simple_index t (f_name f)"
    using find_Some_in [OF assms(12)] by (auto simp: column_has_simple_index_def list_ex_iff)
  then obtain d where d: "d \<in> set (index_diffs (diff_table_name e) t f)" "cd_kind d = IndexRemoved" "cd_is_safe d"
      "cd_column_name d = f_name f" "cd_index_name_to_drop d = ix_name idx"
    using assms(7,12) by (simp add: index_diffs_def make_diff_def Let_def find_index_name_for_column_def)
  then have in_diffs: "d \<in> set (compute_index_diffs e t)"
    using assms(3,5,6,8,10,11) by (force simp: compute_index_diffs_def field_index_diffs_def)
  have "\<not> field_was_renamed (f_name f) (compute_renames e t)"
    by (rule field_with_column_not_renamed [OF assms(2,10)])
  moreover have "\<not> column_was_renamed_from (f_name f) (compute_renames e t)"
    using assms(3) by (intro field_column_not_renamed_from [OF assms(2) _ assms(9)]) (simp add: has_field_iff)
  ultimately have "DropIndex (diff_table_name e) (ix_name idx) \<in> set (index_plan Modified e (compute_renames e t) d)"
    using d by (simp add: index_plan_def change_skipped_def index_statement_def)
  then have "DropIndex (diff_table_name e) (ix_name idx) \<in> set (entity_plan Modified snapshot e)"
    using in_diffs assms(1) by (auto simp: entity_plan_def Let_def)
  then show ?thesis using assms(4) by (auto simp: file_key_clause_def is_file_field_def)
qed

theorem file_key_index_dropped_witness:
  "DropIndex ''Contact'' ''fk_photo'' \<in> set (entity_plan Modified
     (demo_snapshot (make_entity ''Contact'' [as_file ((make_field ''photo'' FFile)) default_file_config] [])
       [demo_column ''photo'' ''binary(16)'' False]
       [\<lparr>ix_name = ''fk_photo'', ix_columns = [''photo''], ix_unique = False, ix_primary = False\<rparr>])
     (make_entity ''Contact'' [as_file ((make_field ''photo'' FFile)) default_file_config] []))"
proof -
  let ?f = "as_file (make_field ''photo'' FFile) default_file_config"
  let ?e = "make_entity ''Contact'' [?f] []" and ?c = "demo_column ''photo'' ''binary(16)'' False"
    and ?i = "\<lparr>ix_name = ''fk_photo'', ix_columns = [''photo''], ix_unique = False, ix_primary = False\<rparr>"
  have "find_table (demo_snapshot ?e [?c] [?i]) (diff_table_name ?e) =
      Some \<lparr>ti_name = diff_table_name ?e, ti_columns = [?c], ti_indexes = [?i], ti_foreign_keys = []\<rparr>"
    by (simp add: find_table_def demo_snapshot_def)
  from file_key_index_dropped [OF this, of ?f ?i] show ?thesis
    by (simp add: make_entity_def as_file_def make_field_def demo_column_def is_file_field_def column_is_fk_def
        has_column_def find_column_def column_has_unique_index_def indexes_column_def diff_table_name_def)
qed

end
