(* ===== verification/File_System.thy ===== *)
theory File_System
  imports Schema_Soundness
begin

text \<open>
  The part of \<open>std::filesystem\<close> (POSIX) the storage of files uses. A path is its text; its names are
  the pieces between slashes (\<open>path_segments\<close>). \<open>lexically_normal\<close> is given for absolute paths. A file
  system maps the names of an absolute path, without \<open>.\<close> and \<open>..\<close>, to a directory, a file with its
  content, or a symbolic link with its target; the root directory always exists. Resolving a path
  follows at most 40 links, as Linux does. Permissions, devices, hard links and I/O failures are not
  modelled.
\<close>

section \<open>Paths as text\<close>

definition is_absolute :: "string \<Rightarrow> bool" where
  "is_absolute p \<longleftrightarrow> p \<noteq> [] \<and> hd p = CHR ''/''"

text \<open>\<open>operator/\<close> with a relative right operand.\<close>

definition path_append :: "string \<Rightarrow> string \<Rightarrow> string" where
  "path_append p q = (if p = [] \<or> last p = CHR ''/'' then p @ q else p @ ''/'' @ q)"

definition names_path :: "string list \<Rightarrow> string" where
  "names_path ns = (if ns = [] then ''/'' else concat (map ((#) (CHR ''/'')) ns))"

text \<open>
  A trailing slash stays, and one remains where a final \<open>.\<close> or a final \<open>..\<close> with its name went.
\<close>

definition lexically_normal :: "string \<Rightarrow> string" where
  "lexically_normal p =
     (let ns = follow [] p in
      if ns \<noteq> [] \<and> last (path_segments p) \<in> {[], ''.'', ''..''} then names_path ns @ ''/'' else names_path ns)"

text \<open>The names of \<open>parent_path\<close> of an absolute path.\<close>

definition parent_names :: "string \<Rightarrow> string list" where
  "parent_names p = butlast (tl (path_segments p))"

section \<open>The file system\<close>

datatype fs_node = Directory | RegularFile string | SymLink string

type_synonym fsys = "(string list, fs_node) table"

definition node_at :: "fsys \<Rightarrow> string list \<Rightarrow> fs_node option" where
  "node_at fs ns = (if ns = [] then Some Directory else tbl_get fs ns)"

text \<open>
  Path resolution from the directory \<open>dir\<close>; with \<open>create\<close> a missing last name is accepted, as \<open>open\<close>
  does when it may create the file.
\<close>

function resolve :: "fsys \<Rightarrow> bool \<Rightarrow> nat \<Rightarrow> string list \<Rightarrow> string list \<Rightarrow> string list option" where
  "resolve fs create links dir [] = Some dir"
| "resolve fs create links dir (s # rest) =
     (if s = [] \<or> s = ''.'' then resolve fs create links dir rest
      else if s = ''..'' then resolve fs create links (butlast dir) rest
      else case node_at fs (dir @ [s]) of
        None \<Rightarrow> if create \<and> rest = [] then Some (dir @ [s]) else None
      | Some Directory \<Rightarrow> resolve fs create links (dir @ [s]) rest
      | Some (RegularFile _) \<Rightarrow> if rest = [] then Some (dir @ [s]) else None
      | Some (SymLink target) \<Rightarrow>
          (case links of
             0 \<Rightarrow> None
           | Suc k \<Rightarrow> resolve fs create k (if is_absolute target then [] else dir) (path_segments target @ rest)))"
  by pat_completeness auto
termination
  by (relation "measures [\<lambda>(fs, create, links, dir, todo). links, \<lambda>(fs, create, links, dir, todo). length todo]") auto

definition max_links :: nat where
  "max_links = 40"

definition fs_canonical :: "fsys \<Rightarrow> string \<Rightarrow> string list option" where
  "fs_canonical fs p = resolve fs False max_links [] (path_segments p)"

definition fs_exists :: "fsys \<Rightarrow> string \<Rightarrow> bool" where
  "fs_exists fs p \<longleftrightarrow> fs_canonical fs p \<noteq> None"

definition fs_node_of :: "fsys \<Rightarrow> string \<Rightarrow> fs_node option" where
  "fs_node_of fs p = (case fs_canonical fs p of None \<Rightarrow> None | Some ns \<Rightarrow> node_at fs ns)"

text \<open>
  \<open>create_directories\<close>, name by name below the resolved directory \<open>dir\<close>; \<open>passed\<close> are the names behind.
  It answers whether it succeeded; directories made before a failure stay.
\<close>

fun create_directories :: "fsys \<Rightarrow> string list \<Rightarrow> string list \<Rightarrow> string list \<Rightarrow> bool \<times> fsys" where
  "create_directories fs dir passed [] = (True, fs)"
| "create_directories fs dir passed (s # rest) =
     (case resolve fs False max_links [] (passed @ [s]) of
        Some ns \<Rightarrow>
          if node_at fs ns = Some Directory then create_directories fs ns (passed @ [s]) rest else (False, fs)
      | None \<Rightarrow>
          if node_at fs (dir @ [s]) = None
          then create_directories (tbl_put (dir @ [s]) Directory fs) (dir @ [s]) (passed @ [s]) rest
          else (False, fs))"

text \<open>Opening for writing with truncation, and writing the content.\<close>

definition write_file :: "fsys \<Rightarrow> string \<Rightarrow> string \<Rightarrow> bool \<times> fsys" where
  "write_file fs p content =
     (case resolve fs True max_links [] (path_segments p) of
        None \<Rightarrow> (False, fs)
      | Some ns \<Rightarrow>
          if node_at fs ns = Some Directory then (False, fs) else (True, tbl_put ns (RegularFile content) fs))"

definition has_children :: "fsys \<Rightarrow> string list \<Rightarrow> bool" where
  "has_children fs ns = list_ex (\<lambda>(k, _). k \<noteq> [] \<and> butlast k = ns) fs"

section \<open>Lemmas on paths\<close>

lemma follow_Nil [simp]: "follow dir [] = dir"
  by (simp add: follow_def enter_def)

lemma path_segments_append: "path_segments (p @ CHR ''/'' # q) = path_segments p @ path_segments q"
proof (induction p)
  case (Cons c p)
  then show ?case by (cases "path_segments p") (auto split: list.splits)
qed simp

lemma path_segments_plain: "CHR ''/'' \<notin> set n \<Longrightarrow> path_segments n = [n]"
  by (induction n) (auto split: list.splits)

text \<open>Names a path can be made of.\<close>

definition plain_name :: "string \<Rightarrow> bool" where
  "plain_name n \<longleftrightarrow> n \<noteq> [] \<and> n \<noteq> ''.'' \<and> n \<noteq> ''..'' \<and> CHR ''/'' \<notin> set n"

lemma path_segments_names:
  "list_all plain_name ns \<Longrightarrow> ns \<noteq> [] \<Longrightarrow> path_segments (names_path ns) = [] # ns"
proof (induction ns)
  case (Cons n ns)
  show ?case
  proof (cases "ns = []")
    case True
    with Cons.prems show ?thesis by (simp add: names_path_def plain_name_def path_segments_plain)
  next
    case False
    then obtain s where s: "names_path ns = CHR ''/'' # s" by (cases ns) (auto simp: names_path_def)
    have "names_path (n # ns) = CHR ''/'' # n @ CHR ''/'' # s"
      using s False by (cases ns) (auto simp: names_path_def)
    moreover have "path_segments s = ns" using Cons False s by simp
    ultimately show ?thesis
      using Cons.prems by (simp add: path_segments_append path_segments_plain plain_name_def)
  qed
qed simp

lemma fold_enter_plain: "list_all plain_name ns \<Longrightarrow> fold enter ns dir = dir @ ns"
  by (induction ns arbitrary: dir) (auto simp: enter_def plain_name_def)

lemma segments_no_slash: "s \<in> set (path_segments p) \<Longrightarrow> CHR ''/'' \<notin> set s"
proof (induction p arbitrary: s)
  case (Cons c p)
  then show ?case by (cases "path_segments p") (auto split: if_splits)
qed simp

lemma fold_enter_names:
  "list_all plain_name dir \<Longrightarrow> (\<forall>g \<in> set gs. CHR ''/'' \<notin> set g) \<Longrightarrow> list_all plain_name (fold enter gs dir)"
proof (induction gs arbitrary: dir)
  case (Cons g gs)
  have "list_all plain_name (enter g dir)"
    using Cons.prems by (auto simp: enter_def plain_name_def list_all_iff dest: in_set_butlastD)
  with Cons show ?case by simp
qed simp

lemma follow_names: "list_all plain_name dir \<Longrightarrow> list_all plain_name (follow dir p)"
  unfolding follow_def using segments_no_slash by (intro fold_enter_names) auto

lemma names_path_append:
  "rs \<noteq> [] \<Longrightarrow> names_path (rs @ ns) = names_path rs @ concat (map ((#) (CHR ''/'')) ns)"
  unfolding names_path_def by simp

lemma names_path_last: "list_all plain_name rs \<Longrightarrow> rs \<noteq> [] \<Longrightarrow> names_path rs \<noteq> [] \<and> last (names_path rs) \<noteq> CHR ''/''"
proof (induction rs)
  case (Cons n rs)
  then show ?case
    by (cases "rs = []") (auto simp: names_path_def plain_name_def dest!: last_in_set split: if_splits)
qed simp

end
