(* ===== verification/Filesystem_Storage.thy ===== *)
theory Filesystem_Storage
  imports File_System
begin

text \<open>
  \<open>FilesystemStorage\<close> (\<open>libs/infrastructure/storage/filesystem_storage.{h,cpp}\<close>): files below a root
  directory. The root, canonicalised by the constructor, is an argument of every operation; modes are
  not modelled, and the text the system gives for an error is left out of the messages.
  The lemmas decide the lexical sandbox check by the names of the paths.
\<close>

section \<open>Messages and construction\<close>

definition io_error :: "string \<Rightarrow> string \<Rightarrow> string" where
  "io_error operation p = ''[FilesystemStorage] '' @ operation @ '' failed on '' @ quoted p"

definition sandbox_violation :: "string \<Rightarrow> string \<Rightarrow> string" where
  "sandbox_violation relative reason =
     ''[FilesystemStorage] Access denied for '' @ quoted relative @ '': '' @ reason @ ''.''"

definition storage_error :: "string \<Rightarrow> string \<Rightarrow> string" where
  "storage_error p what = ''[FilesystemStorage] '' @ quoted p @ '' '' @ what"

text \<open>The constructor, for an absolute \<open>root_path\<close>; it yields the canonical root.\<close>

definition make_filesystem_storage :: "fsys \<Rightarrow> bool \<Rightarrow> string \<Rightarrow> (string + string) \<times> fsys" where
  "make_filesystem_storage fs is_filesystem root_path =
     (if \<not> is_filesystem then (Inl ''[FilesystemStorage] StorageConfig::backend != Filesystem.'', fs)
      else if root_path = [] then (Inl ''[FilesystemStorage] StorageConfig::root_path is empty.'', fs)
      else case create_directories fs [] [] (filter (\<lambda>n. n \<noteq> []) (path_segments root_path)) of
        (False, fs') \<Rightarrow> (Inl (io_error ''root directory creation'' root_path), fs')
      | (True, fs') \<Rightarrow>
          if fs_node_of fs' root_path \<noteq> Some Directory
          then (Inl (''[FilesystemStorage] root_path '' @ quoted root_path @ '' is not a directory.''), fs')
          else (case fs_canonical fs' root_path of
                  None \<Rightarrow> (Inl (io_error ''root canonicalization'' root_path), fs')
                | Some ns \<Rightarrow> (Inr (names_path ns), fs')))"

section \<open>The sandbox\<close>

definition resolve_safe_path :: "string \<Rightarrow> fsys \<Rightarrow> string \<Rightarrow> bool \<Rightarrow> string + string" where
  "resolve_safe_path root fs relative must_exist =
     (if relative = [] then Inl (sandbox_violation relative ''empty path'')
      else if is_absolute relative then Inl (sandbox_violation relative ''absolute paths are not allowed'')
      else let cand = lexically_normal (path_append root relative) in
        if length cand < length root \<or> take (length root) cand \<noteq> root
        then Inl (sandbox_violation relative ''resolved path escapes the sandbox'')
        else if length root < length cand \<and> cand ! length root \<noteq> CHR ''/''
        then Inl (sandbox_violation relative ''resolved path is not a direct subpath of the sandbox'')
        else if must_exist then
          (case fs_canonical fs cand of
             None \<Rightarrow> Inr cand
           | Some ns \<Rightarrow>
               let resolved = names_path ns in
               if length resolved < length root \<or> take (length root) resolved \<noteq> root
               then Inl (sandbox_violation relative ''symlink points outside the sandbox'')
               else Inr resolved)
        else Inr cand)"

section \<open>Operations\<close>

definition storage_store :: "string \<Rightarrow> string \<Rightarrow> string \<Rightarrow> fsys \<Rightarrow> (string + unit) \<times> fsys" where
  "storage_store root relative content fs =
     (case resolve_safe_path root fs relative False of
        Inl e \<Rightarrow> (Inl e, fs)
      | Inr target \<Rightarrow>
          (case create_directories fs [] [] (parent_names target) of
             (False, fs1) \<Rightarrow> (Inl (io_error ''parent directory creation'' relative), fs1)
           | (True, fs1) \<Rightarrow>
               (case write_file fs1 target content of
                  (False, fs2) \<Rightarrow>
                    (Inl (''[FilesystemStorage] Cannot open '' @ quoted relative @ '' for writing.''), fs2)
                | (True, fs2) \<Rightarrow> (Inr (), fs2))))"

definition storage_retrieve :: "string \<Rightarrow> string \<Rightarrow> fsys \<Rightarrow> string + string" where
  "storage_retrieve root relative fs =
     (case resolve_safe_path root fs relative True of
        Inl e \<Rightarrow> Inl e
      | Inr target \<Rightarrow>
          (case fs_node_of fs target of
             None \<Rightarrow> Inl (''[FilesystemStorage] File not found: '' @ quoted relative @ ''.'')
           | Some (RegularFile content) \<Rightarrow> Inr content
           | Some _ \<Rightarrow> Inl (storage_error relative ''is not a regular file.'')))"

text \<open>\<open>fs::remove\<close> deletes a file or an empty directory.\<close>

definition storage_remove :: "string \<Rightarrow> string \<Rightarrow> fsys \<Rightarrow> (string + bool) \<times> fsys" where
  "storage_remove root relative fs =
     (case resolve_safe_path root fs relative True of
        Inl e \<Rightarrow> (Inl e, fs)
      | Inr target \<Rightarrow>
          (case fs_canonical fs target of
             None \<Rightarrow> (Inr False, fs)
           | Some ns \<Rightarrow>
               if ns = [] \<or> (node_at fs ns = Some Directory \<and> has_children fs ns)
               then (Inl (io_error ''remove'' relative), fs)
               else (Inr True, tbl_erase ns fs)))"

definition storage_exists :: "string \<Rightarrow> string \<Rightarrow> fsys \<Rightarrow> string + bool" where
  "storage_exists root relative fs =
     (case resolve_safe_path root fs relative True of
        Inl e \<Rightarrow> Inl e
      | Inr target \<Rightarrow>
          Inr (case fs_node_of fs target of Some (RegularFile _) \<Rightarrow> True | _ \<Rightarrow> False))"

text \<open>The size of a directory is that of the system; only files are given one here.\<close>

definition storage_size :: "string \<Rightarrow> string \<Rightarrow> fsys \<Rightarrow> string + size" where
  "storage_size root relative fs =
     (case resolve_safe_path root fs relative True of
        Inl e \<Rightarrow> Inl e
      | Inr target \<Rightarrow>
          (case fs_node_of fs target of
             None \<Rightarrow> Inl (''[FilesystemStorage] File not found: '' @ quoted relative @ ''.'')
           | Some (RegularFile content) \<Rightarrow> Inr (of_nat (length content))
           | Some _ \<Rightarrow> Inl (io_error ''file_size'' relative)))"

section \<open>The lexical check\<close>

text \<open>A canonical root other than the root directory.\<close>

definition root_ok :: "string list \<Rightarrow> bool" where
  "root_ok rs \<longleftrightarrow> rs \<noteq> [] \<and> list_all plain_name rs"

lemma candidate_names:
  assumes "root_ok rs"
  shows "follow [] (path_append (names_path rs) relative) = follow rs relative"
    and "path_segments (path_append (names_path rs) relative) = [] # rs @ path_segments relative"
proof -
  have append: "path_append (names_path rs) relative = names_path rs @ CHR ''/'' # relative"
    using names_path_last [of rs] assms by (simp add: path_append_def root_ok_def)
  show "path_segments (path_append (names_path rs) relative) = [] # rs @ path_segments relative"
    unfolding append using path_segments_names [of rs] assms by (simp add: path_segments_append root_ok_def)
  then show "follow [] (path_append (names_path rs) relative) = follow rs relative"
    using assms by (simp add: follow_def fold_enter_plain root_ok_def enter_def)
qed

text \<open>The candidate is the text of its names, perhaps with a slash behind.\<close>

lemma candidate_text:
  assumes "root_ok rs"
  obtains "lexically_normal (path_append (names_path rs) relative) = names_path (follow rs relative)"
  | "follow rs relative \<noteq> []"
    "lexically_normal (path_append (names_path rs) relative) = names_path (follow rs relative) @ ''/''"
    "last (path_segments relative) \<in> {[], ''.'', ''..''}"
  unfolding lexically_normal_def Let_def candidate_names [OF assms]
  by (cases "follow rs relative \<noteq> [] \<and> last ([] # rs @ path_segments relative) \<in> {[], ''.'', ''..''}") auto

lemma names_path_prefix:
  assumes "root_ok rs" and "list_all plain_name ns" and "e = [] \<or> e = ''/''" and "ns \<noteq> [] \<or> e = []"
  shows "take (length (names_path rs)) (names_path ns @ e) = names_path rs
      \<and> (length (names_path rs) < length (names_path ns @ e) \<longrightarrow> (names_path ns @ e) ! length (names_path rs) = CHR ''/'')
    \<longleftrightarrow> (\<exists>rest. ns = rs @ rest)" (is "?text \<longleftrightarrow> ?names")
proof
  assume ?names
  then obtain rest where ns: "ns = rs @ rest" by blast
  then have text_ns: "names_path ns @ e = names_path rs @ concat (map ((#) (CHR ''/'')) rest) @ e"
    using assms(1) by (simp add: names_path_append root_ok_def)
  show ?text
    using assms(3) unfolding text_ns by (cases rest) (auto simp: nth_append)
next
  assume t: ?text
  let ?cand = "names_path ns @ e" and ?root = "names_path rs"
  have cand: "?cand = ?root @ drop (length ?root) ?cand" using t by (metis append_take_drop_id)
  have root: "path_segments ?root = [] # rs" "rs \<noteq> []" "[] \<notin> set rs"
    using assms(1) path_segments_names by (auto simp: root_ok_def plain_name_def list_all_iff)
  have len: "2 \<le> length ?root"
    using assms(1) by (cases rs) (auto simp: names_path_def root_ok_def plain_name_def Suc_le_eq)
  have ns: "ns \<noteq> []"
  proof
    assume "ns = []"
    then have "length ?cand = 1" using assms(4) by (simp add: names_path_def)
    then show False using cand len by (metis One_nat_def Suc_1 le_add1 length_append not_less_eq_eq order_trans)
  qed
  have segs: "path_segments ?cand = [] # ns @ (if e = [] then [] else [[]])"
    using path_segments_names [OF assms(2) ns] path_segments_append [of "names_path ns" "[]"] assms(3) by auto
  show ?names
  proof (cases "drop (length ?root) ?cand")
    case Nil
    then have "ns @ (if e = [] then [] else [[]]) = rs" using cand root(1) segs by simp
    then have "ns = rs" using root(3) by (auto split: if_splits)
    then show ?thesis by simp
  next
    case (Cons c s)
    then have "?cand ! length ?root = c" using cand by (metis nth_append_length)
    moreover have "length ?root < length ?cand" using Cons by (metis drop_all list.distinct(1) not_less)
    ultimately have "c = CHR ''/''" using t by simp
    then have "path_segments ?cand = ([] # rs) @ path_segments s"
      using Cons cand root(1) path_segments_append [of ?root s] by simp
    then have eq: "ns @ (if e = [] then [] else [[]]) = rs @ path_segments s" using segs by simp
    obtain k where "length (path_segments s) = Suc k" by (cases "path_segments s") simp_all
    then have "length rs \<le> length ns" using arg_cong [OF eq, of length] by (auto split: if_splits)
    then have "take (length rs) ns = rs" using arg_cong [OF eq, of "take (length rs)"] by simp
    then show ?thesis by (metis append_take_drop_id)
  qed
qed

lemma resolve_accepts:
  assumes "root_ok rs"
  shows "(\<exists>cand. resolve_safe_path (names_path rs) fs relative False = Inr cand) \<longleftrightarrow>
      relative \<noteq> [] \<and> \<not> is_absolute relative \<and> (\<exists>rest. follow rs relative = rs @ rest)"
    and "resolve_safe_path (names_path rs) fs relative False = Inr cand \<Longrightarrow>
      cand = names_path (follow rs relative)
      \<or> (cand = names_path (follow rs relative) @ ''/'' \<and> last (path_segments relative) \<in> {[], ''.'', ''..''})"
proof -
  let ?cand = "lexically_normal (path_append (names_path rs) relative)"
  have names: "list_all plain_name (follow rs relative)"
    using assms follow_names by (simp add: root_ok_def)
  obtain e where e: "?cand = names_path (follow rs relative) @ e" "e = [] \<or> e = ''/''" "follow rs relative \<noteq> [] \<or> e = []"
      "e = [] \<or> last (path_segments relative) \<in> {[], ''.'', ''..''}"
    using candidate_text [OF assms, of relative] by (metis append_Nil2)
  have take_whole: "take (length r) c = r \<Longrightarrow> \<not> length c < length r" for r c :: string
    by (drule arg_cong [where f = length]) simp
  have check: "\<not> (length ?cand < length (names_path rs) \<or> take (length (names_path rs)) ?cand \<noteq> names_path rs)
      \<and> \<not> (length (names_path rs) < length ?cand \<and> ?cand ! length (names_path rs) \<noteq> CHR ''/'')
      \<longleftrightarrow> (\<exists>rest. follow rs relative = rs @ rest)"
    using names_path_prefix [OF assms names e(2,3)] take_whole unfolding e(1) by blast
  then show "(\<exists>cand. resolve_safe_path (names_path rs) fs relative False = Inr cand) \<longleftrightarrow>
      relative \<noteq> [] \<and> \<not> is_absolute relative \<and> (\<exists>rest. follow rs relative = rs @ rest)"
    by (auto simp: resolve_safe_path_def Let_def)
  show "cand = names_path (follow rs relative)
      \<or> (cand = names_path (follow rs relative) @ ''/'' \<and> last (path_segments relative) \<in> {[], ''.'', ''..''})"
    if "resolve_safe_path (names_path rs) fs relative False = Inr cand"
    using that e by (auto simp: resolve_safe_path_def Let_def split: if_splits)
qed

end
