(* ===== verification/Storage_Laws.thy ===== *)
theory Storage_Laws
  imports Filesystem_Storage
begin

text \<open>
  Laws of the storage on file systems without symbolic links: resolving a path, making directories,
  and the contract \<open>file_storage\<close> of \<open>IFileStorage\<close> (\<open>libs/infrastructure/storage/i_file_storage.h\<close>),
  which the file service relies on.
\<close>

section \<open>File systems without links\<close>

definition fs_ok :: "fsys \<Rightarrow> bool" where
  "fs_ok fs \<longleftrightarrow> (\<forall>ns x. node_at fs ns = Some x \<longrightarrow> (\<forall>t. x \<noteq> SymLink t) \<and> node_at fs (butlast ns) = Some Directory)"

lemma fs_ok_parent:
  assumes "fs_ok fs"
  shows "node_at fs (p @ q) \<noteq> None \<Longrightarrow> q \<noteq> [] \<Longrightarrow> node_at fs p = Some Directory"
proof (induction q rule: rev_induct)
  case (snoc a q)
  then have "node_at fs (p @ q) = Some Directory"
    using assms unfolding fs_ok_def by (metis append_assoc butlast_snoc not_None_eq)
  with snoc.IH show ?case by (cases "q = []") auto
qed simp

lemma node_at_put: "node_at (tbl_put ns x fs) m = (if m = [] then Some Directory else if m = ns then Some x else node_at fs m)"
  by (simp add: node_at_def)

lemma fs_ok_put:
  assumes "fs_ok fs" and "ns \<noteq> []" and "node_at fs (butlast ns) = Some Directory"
    and "\<And>t. x \<noteq> SymLink t" and "x = Directory \<or> (\<forall>y. node_at fs ns \<noteq> Some Directory)"
  shows "fs_ok (tbl_put ns x fs)"
proof -
  have ns: "butlast ns \<noteq> ns" using assms(2) by (metis append_butlast_last_id append_self_conv list.distinct(1))
  have "(\<forall>t. y \<noteq> SymLink t) \<and> node_at (tbl_put ns x fs) (butlast m) = Some Directory"
    if y: "node_at (tbl_put ns x fs) m = Some y" for m y
  proof (cases "m = [] \<or> m = ns")
    case True
    then show ?thesis using y assms(2-4) ns by (auto simp: node_at_put)
  next
    case False
    then have old: "node_at fs m = Some y" using y by (simp add: node_at_put)
    then have parent: "node_at fs (butlast m) = Some Directory" using assms(1) by (simp add: fs_ok_def)
    then have "node_at (tbl_put ns x fs) (butlast m) = Some Directory"
      using assms(5) by (auto simp: node_at_put)
    then show ?thesis using old assms(1) by (simp add: fs_ok_def)
  qed
  then show ?thesis unfolding fs_ok_def by blast
qed

lemma resolve_plain:
  assumes "fs_ok fs"
  shows "node_at fs dir = Some Directory \<Longrightarrow> list_all plain_name todo \<Longrightarrow>
    resolve fs create links dir todo =
      (if node_at fs (dir @ todo) \<noteq> None then Some (dir @ todo)
       else if create \<and> node_at fs (butlast (dir @ todo)) = Some Directory then Some (dir @ todo) else None)"
proof (induction todo arbitrary: dir)
  case (Cons s todo)
  have s: "s \<noteq> []" "s \<noteq> ''.''" "s \<noteq> ''..''" using Cons.prems(2) by (auto simp: plain_name_def)
  have below: "node_at fs (dir @ s # todo) = None" if "node_at fs (dir @ [s]) \<noteq> Some Directory" "todo \<noteq> []"
    using fs_ok_parent [OF assms, of "dir @ [s]" todo] that by (cases "node_at fs (dir @ s # todo)") auto
  have below': "node_at fs (butlast (dir @ s # todo)) \<noteq> Some Directory"
    if "node_at fs (dir @ [s]) \<noteq> Some Directory" "todo \<noteq> []"
    using fs_ok_parent [OF assms, of "dir @ [s]" "butlast todo"] that
    by (cases "butlast todo = []") (auto simp: butlast_append)
  show ?case
  proof (cases "node_at fs (dir @ [s])")
    case None
    with s below below' Cons.prems(1) show ?thesis by (cases "todo = []") (auto simp: butlast_append)
  next
    case (Some x)
    show ?thesis
    proof (cases x)
      case Directory
      with Some s Cons.IH [of "dir @ [s]"] Cons.prems(2) show ?thesis by simp
    next
      case (RegularFile c)
      with Some s below below' show ?thesis by (cases "todo = []") (auto simp: butlast_append)
    next
      case (SymLink t)
      with Some assms show ?thesis by (auto simp: fs_ok_def)
    qed
  qed
qed simp

lemma node_at_root [simp]: "node_at fs [] = Some Directory"
  by (simp add: node_at_def)

lemma canonical_names:
  assumes "fs_ok fs" and "list_all plain_name ns"
  shows "fs_canonical fs (names_path ns) = (if node_at fs ns = None then None else Some ns)"
proof (cases "ns = []")
  case True
  then show ?thesis by (simp add: fs_canonical_def names_path_def)
next
  case False
  then show ?thesis
    using resolve_plain [OF assms(1) node_at_root assms(2), of False max_links] path_segments_names [OF assms(2)]
    by (simp add: fs_canonical_def)
qed

text \<open>What making directories does: it makes the path a directory and changes nothing that was there.\<close>

lemma create_directories_spec:
  assumes "create_directories fs dir dir rest = (b, fs')"
    and "fs_ok fs" and "node_at fs dir = Some Directory" and "list_all plain_name (dir @ rest)"
  shows "fs_ok fs' \<and> (b \<longrightarrow> node_at fs' (dir @ rest) = Some Directory)
    \<and> (\<forall>ns. node_at fs ns \<noteq> None \<longrightarrow> node_at fs' ns = node_at fs ns)
    \<and> (\<forall>ns. node_at fs' ns \<noteq> node_at fs ns \<longrightarrow> (\<exists>p q. ns = dir @ p \<and> rest = p @ q))"
  using assms
proof (induction rest arbitrary: fs dir)
  case (Cons s rest)
  have plain: "list_all plain_name (dir @ [s])" "list_all plain_name ((dir @ [s]) @ rest)" using Cons.prems(4) by auto
  have res: "resolve fs False max_links [] (dir @ [s]) = (if node_at fs (dir @ [s]) = None then None else Some (dir @ [s]))"
    using resolve_plain [OF Cons.prems(2) node_at_root plain(1), of False max_links] by auto
  show ?case
  proof (cases "node_at fs (dir @ [s])")
    case (Some x)
    show ?thesis
    proof (cases "x = Directory")
      case True
      with Some res Cons.prems(1) have "create_directories fs (dir @ [s]) (dir @ [s]) rest = (b, fs')" by simp
      from Cons.IH [OF this Cons.prems(2) _ plain(2)] Some True show ?thesis by fastforce
    qed (use Some res Cons.prems in auto)
  next
    case None
    let ?fs1 = "tbl_put (dir @ [s]) Directory fs"
    have "create_directories ?fs1 (dir @ [s]) (dir @ [s]) rest = (b, fs')" using None res Cons.prems(1) by simp
    moreover have "fs_ok ?fs1" using Cons.prems(2,3) by (intro fs_ok_put) auto
    moreover have "node_at ?fs1 (dir @ [s]) = Some Directory" by (simp add: node_at_put)
    ultimately have IH: "fs_ok fs' \<and> (b \<longrightarrow> node_at fs' ((dir @ [s]) @ rest) = Some Directory)
        \<and> (\<forall>ns. node_at ?fs1 ns \<noteq> None \<longrightarrow> node_at fs' ns = node_at ?fs1 ns)
        \<and> (\<forall>ns. node_at fs' ns \<noteq> node_at ?fs1 ns \<longrightarrow> (\<exists>p q. ns = (dir @ [s]) @ p \<and> rest = p @ q))"
      using Cons.IH plain(2) by blast
    have "node_at fs' ns = node_at fs ns" if "node_at fs ns \<noteq> None" for ns
      using IH that None by (auto simp: node_at_put split: if_splits)
    moreover have "\<exists>p q. ns = dir @ p \<and> s # rest = p @ q" if "node_at fs' ns \<noteq> node_at fs ns" for ns
    proof (cases "ns = dir @ [s]")
      case False
      then have "node_at fs' ns \<noteq> node_at ?fs1 ns" using that by (auto simp: node_at_put)
      then obtain p q where "ns = (dir @ [s]) @ p" "rest = p @ q" using IH by blast
      then have "ns = dir @ (s # p) \<and> s # rest = (s # p) @ q" by simp
      then show ?thesis by blast
    qed simp
    ultimately show ?thesis using IH by simp
  qed
qed auto

lemma plain_no_dots: "list_all plain_name ns \<Longrightarrow> [] \<notin> set ns"
  by (auto simp: list_all_iff plain_name_def)

lemma names_path_slash_segments:
  "list_all plain_name ns \<Longrightarrow> ns \<noteq> [] \<Longrightarrow> path_segments (names_path ns @ ''/'') = [] # ns @ [[]]"
  using path_segments_append [of "names_path ns" "[]"] path_segments_names [of ns] by simp

lemma resolve_into_directory:
  assumes "fs_ok fs" and "node_at fs (dir @ todo) = Some Directory"
  shows "list_all plain_name todo \<Longrightarrow>
    resolve fs create links dir (todo @ behind) = resolve fs create links (dir @ todo) behind"
  using assms(2)
proof (induction todo arbitrary: dir)
  case (Cons s todo)
  have "node_at fs (dir @ [s]) = Some Directory"
    using fs_ok_parent [OF assms(1), of "dir @ [s]" todo] Cons.prems(2) by (cases "todo = []") auto
  with Cons show ?case by (simp add: plain_name_def)
qed simp

section \<open>Storing, reading and removing\<close>

text \<open>Where a relative path leads; the root is a directory.\<close>

definition root_here :: "string list \<Rightarrow> fsys \<Rightarrow> bool" where
  "root_here rs fs \<longleftrightarrow> root_ok rs \<and> fs_ok fs \<and> node_at fs rs = Some Directory"

lemma root_hereD:
  "root_here rs fs \<Longrightarrow> root_ok rs" "root_here rs fs \<Longrightarrow> fs_ok fs" "root_here rs fs \<Longrightarrow> node_at fs rs = Some Directory"
  by (simp_all add: root_here_def)

lemma prefix_of_append: "u @ v = rs @ r \<Longrightarrow> (\<exists>q. rs = u @ q) \<or> (\<exists>q. u = rs @ q)"
  by (auto simp: append_eq_append_conv2)

text \<open>Making the directories of a path below the root touches nothing else.\<close>

lemma create_below_root:
  assumes "root_here rs fs" and "create_directories fs [] [] names = (b, fs')" and "list_all plain_name names"
    and "names @ v = rs @ r"
  shows "fs_ok fs' \<and> (b \<longrightarrow> node_at fs' names = Some Directory)
    \<and> (\<forall>ns. node_at fs ns \<noteq> None \<longrightarrow> node_at fs' ns = node_at fs ns)
    \<and> (\<forall>ns. node_at fs' ns \<noteq> node_at fs ns \<longrightarrow> (\<exists>q. ns = rs @ q))"
proof -
  note spec = create_directories_spec [OF assms(2) root_hereD(2) [OF assms(1)] node_at_root]
  have made: "\<forall>ns. node_at fs' ns \<noteq> node_at fs ns \<longrightarrow> (\<exists>p q. ns = [] @ p \<and> names = p @ q)"
    using spec assms(3) by simp
  have "\<exists>q. ns = rs @ q" if changed: "node_at fs' ns \<noteq> node_at fs ns" for ns
  proof -
    obtain q where q: "names = ns @ q" using made changed by fastforce
    consider u where "rs = ns @ u" | u where "ns = rs @ u"
      using prefix_of_append [of ns "q @ v" rs r] assms(4) q by auto
    then show ?thesis
    proof cases
      case 1
      then have "node_at fs ns \<noteq> None"
        using fs_ok_parent [OF root_hereD(2) [OF assms(1)], of ns u] root_hereD(3) [OF assms(1)] by (cases "u = []") auto
      with spec assms(3) that show ?thesis by auto
    qed blast
  qed
  with spec assms(3) show ?thesis by simp
qed

lemma store_spec:
  assumes "root_here rs fs" and "storage_store (names_path rs) relative content fs = (result, fs')"
  shows "root_here rs fs' \<and> (\<forall>ns. node_at fs' ns \<noteq> node_at fs ns \<longrightarrow> (\<exists>q. ns = rs @ q))
    \<and> (\<forall>ns. ns \<noteq> follow rs relative \<longrightarrow> node_at fs ns \<noteq> None \<longrightarrow> node_at fs' ns = node_at fs ns)
    \<and> (result = Inr () \<longrightarrow> node_at fs' (follow rs relative) = Some (RegularFile content)
        \<and> resolve_safe_path (names_path rs) fs relative False = Inr (names_path (follow rs relative)))"
proof (cases "resolve_safe_path (names_path rs) fs relative False")
  case (Inl e)
  with assms show ?thesis by (auto simp: storage_store_def)
next
  case (Inr cand)
  note rok = root_hereD(1) [OF assms(1)]
  let ?ns = "follow rs relative"
  obtain r where r: "?ns = rs @ r" using resolve_accepts(1) [OF rok] Inr by blast
  have plain: "list_all plain_name ?ns" using rok follow_names by (simp add: root_ok_def)
  have ne: "?ns \<noteq> []" using r rok by (simp add: root_ok_def)
  obtain b fs1 where dirs: "create_directories fs [] [] (parent_names cand) = (b, fs1)" by force
  show ?thesis
  proof (cases "cand = names_path ?ns")
    case True
    then have parent: "parent_names cand = butlast ?ns"
      by (simp add: parent_names_def path_segments_names [OF plain ne])
    have pb: "list_all plain_name (butlast ?ns)" using plain by (auto simp: list_all_iff dest: in_set_butlastD)
    have "butlast ?ns @ [last ?ns] = rs @ r" using ne r by simp
    note made = create_below_root [OF assms(1) dirs [unfolded parent] pb this]
    show ?thesis
    proof (cases b)
      case False
      then have "fs' = fs1" "result \<noteq> Inr ()" using assms(2) Inr dirs by (auto simp: storage_store_def)
      then show ?thesis using made assms(1) rok by (auto simp: root_here_def)
    next
      case True
      obtain w fs2 where w: "write_file fs1 cand content = (w, fs2)" by force
      have res: "resolve fs1 True max_links [] (path_segments cand) = Some ?ns"
        using resolve_plain [OF _ node_at_root plain, of fs1 True max_links] made True \<open>cand = names_path ?ns\<close>
        by (simp add: path_segments_names [OF plain ne])
      have fs': "fs' = fs2" "result = Inr () \<longleftrightarrow> w"
        using assms(2) Inr dirs True w by (auto simp: storage_store_def split: if_splits bool.splits)
      show ?thesis
      proof (cases "node_at fs1 ?ns = Some Directory")
        case True
        then have "fs2 = fs1" "\<not> w" using w res by (simp_all add: write_file_def)
        then show ?thesis using made assms(1) rok fs' by (auto simp: root_here_def)
      next
        case False
        then have fs2: "fs2 = tbl_put ?ns (RegularFile content) fs1" "w" using w res by (simp_all add: write_file_def)
        have "fs_ok fs2"
          unfolding fs2(1) using made \<open>b\<close> False ne by (intro fs_ok_put) auto
        moreover have "rs \<noteq> ?ns" using False made root_hereD(3) [OF assms(1)] by force
        ultimately show ?thesis
          using made fs' fs2 assms(1) rok r Inr \<open>cand = names_path ?ns\<close> ne
          by (auto simp: root_here_def node_at_put)
      qed
    qed
  next
    case False
    then have cand: "cand = names_path ?ns @ ''/''" using resolve_accepts(2) [OF rok Inr] by blast
    then have parent: "parent_names cand = ?ns" "path_segments cand = [] # ?ns @ [[]]"
      by (simp_all add: parent_names_def names_path_slash_segments [OF plain ne])
    have "?ns @ [] = rs @ r" using r by simp
    note made = create_below_root [OF assms(1) dirs [unfolded parent(1)] plain this]
    have "fs' = fs1 \<and> result \<noteq> Inr ()"
    proof (cases b)
      case True
      then have "write_file fs1 cand content = (False, fs1)"
        using resolve_into_directory [of fs1 "[]" ?ns True max_links "[[]]"] made plain parent(2)
        by (simp add: write_file_def)
      then show ?thesis using assms(2) Inr dirs True by (auto simp: storage_store_def)
    qed (use assms(2) Inr dirs in \<open>auto simp: storage_store_def\<close>)
    then show ?thesis using made assms(1) rok by (auto simp: root_here_def)
  qed
qed

lemma resolve_safe_fs: "resolve_safe_path root fs relative False = resolve_safe_path root fs' relative False"
  by (simp add: resolve_safe_path_def Let_def)

lemma resolve_existing:
  "resolve_safe_path root fs relative True =
     (case resolve_safe_path root fs relative False of
        Inl e \<Rightarrow> Inl e
      | Inr cand \<Rightarrow>
          (case fs_canonical fs cand of
             None \<Rightarrow> Inr cand
           | Some ns \<Rightarrow>
               if length (names_path ns) < length root \<or> take (length root) (names_path ns) \<noteq> root
               then Inl (sandbox_violation relative ''symlink points outside the sandbox'')
               else Inr (names_path ns)))"
  by (auto simp: resolve_safe_path_def Let_def split: option.splits)

text \<open>A path that leads to a file is resolved to the text of its names.\<close>

lemma resolve_file:
  assumes "root_here rs fs" and "resolve_safe_path (names_path rs) fs relative False = Inr (names_path (follow rs relative))"
    and "node_at fs (follow rs relative) = Some x"
  shows "resolve_safe_path (names_path rs) fs relative True = Inr (names_path (follow rs relative))"
    and "fs_canonical fs (names_path (follow rs relative)) = Some (follow rs relative)"
proof -
  have rok: "root_ok rs" using assms(1) by (simp add: root_here_def)
  have plain: "list_all plain_name (follow rs relative)" using rok follow_names by (simp add: root_ok_def)
  show can: "fs_canonical fs (names_path (follow rs relative)) = Some (follow rs relative)"
    using canonical_names [OF root_hereD(2) [OF assms(1)] plain] assms(3) by simp
  obtain r where "follow rs relative = rs @ r" using resolve_accepts(1) [OF rok] assms(2) by blast
  then have "names_path (follow rs relative) = names_path rs @ concat (map ((#) (CHR ''/'')) r)"
    using rok by (simp add: names_path_append root_ok_def)
  then have "take (length (names_path rs)) (names_path (follow rs relative)) = names_path rs"
    "\<not> length (names_path (follow rs relative)) < length (names_path rs)" by simp_all
  then show "resolve_safe_path (names_path rs) fs relative True = Inr (names_path (follow rs relative))"
    unfolding resolve_existing assms(2) by (simp add: can)
qed

lemma slash_target_no_file:
  assumes "root_here rs fs" and "node_at fs (follow rs relative) \<noteq> Some Directory"
  shows "fs_canonical fs (names_path (follow rs relative) @ ''/'') = None"
proof -
  have rok: "root_ok rs" using assms(1) by (simp add: root_here_def)
  have plain: "list_all plain_name (follow rs relative)" using rok follow_names by (simp add: root_ok_def)
  have dead: "resolve fs False links dir (ns @ [[]]) = None"
    if "node_at fs dir = Some Directory" "list_all plain_name ns" "node_at fs (dir @ ns) \<noteq> Some Directory" for links dir ns
    using that
  proof (induction ns arbitrary: dir)
    case (Cons n ns)
    show ?case
    proof (cases "node_at fs (dir @ [n])")
      case (Some x)
      show ?thesis
      proof (cases x)
        case Directory
        with Some Cons show ?thesis by (simp add: plain_name_def)
      next
        case (RegularFile c)
        with Some Cons.prems show ?thesis by (simp add: plain_name_def)
      next
        case (SymLink t)
        with Some root_hereD(2) [OF assms(1)] show ?thesis by (auto simp: fs_ok_def)
      qed
    qed (use Cons.prems in \<open>simp add: plain_name_def\<close>)
  qed simp
  have "follow rs relative \<noteq> []" using assms(2) by auto
  then show ?thesis
    using dead [OF node_at_root plain] assms(2) by (simp add: fs_canonical_def names_path_slash_segments [OF plain])
qed

lemma retrieve_iff:
  assumes "root_here rs fs"
  shows "storage_retrieve (names_path rs) relative fs = Inr c \<longleftrightarrow>
    resolve_safe_path (names_path rs) fs relative False = Inr (names_path (follow rs relative))
    \<and> node_at fs (follow rs relative) = Some (RegularFile c)" (is "?get \<longleftrightarrow> ?path \<and> ?file")
proof
  assume "?path \<and> ?file"
  with resolve_file [OF assms] show ?get by (auto simp: storage_retrieve_def fs_node_of_def)
next
  assume get: ?get
  have rok: "root_ok rs" using assms by (simp add: root_here_def)
  have plain: "list_all plain_name (follow rs relative)" using rok follow_names by (simp add: root_ok_def)
  obtain cand where cand: "resolve_safe_path (names_path rs) fs relative False = Inr cand"
    using get by (cases "resolve_safe_path (names_path rs) fs relative False")
      (auto simp: storage_retrieve_def resolve_existing)
  show "?path \<and> ?file"
  proof (cases "cand = names_path (follow rs relative)")
    case True
    have "node_at fs (follow rs relative) \<noteq> None"
    proof
      assume "node_at fs (follow rs relative) = None"
      then have "fs_canonical fs cand = None"
        using canonical_names [OF root_hereD(2) [OF assms] plain] True by simp
      then show False using get by (simp add: storage_retrieve_def resolve_existing cand fs_node_of_def)
    qed
    then obtain x where "node_at fs (follow rs relative) = Some x" by blast
    with resolve_file [OF assms cand [unfolded True] this] get show ?thesis
      using cand True by (auto simp: storage_retrieve_def fs_node_of_def split: fs_node.splits)
  next
    case False
    then have cand': "cand = names_path (follow rs relative) @ ''/''"
      using resolve_accepts(2) [OF rok cand] by blast
    show ?thesis
    proof (cases "node_at fs (follow rs relative) = Some Directory")
      case True
      have "follow rs relative \<noteq> []" using resolve_accepts(1) [OF rok, of fs relative] cand rok by (auto simp: root_ok_def)
      then have can: "fs_canonical fs cand = Some (follow rs relative)"
        using resolve_into_directory [OF root_hereD(2) [OF assms], of "[]" "follow rs relative" False max_links "[[]]"] True plain
        by (simp add: fs_canonical_def cand' names_path_slash_segments [OF plain])
      have "fs_canonical fs (names_path (follow rs relative)) = Some (follow rs relative)"
        using canonical_names [OF root_hereD(2) [OF assms] plain] True by simp
      then show ?thesis
        using get True by (auto simp: storage_retrieve_def resolve_existing cand can fs_node_of_def split: if_splits)
    next
      case False
      with get show ?thesis
        by (simp add: storage_retrieve_def resolve_existing cand fs_node_of_def
            slash_target_no_file [OF assms, of relative] cand')
    qed
  qed
qed

lemma remove_file:
  assumes "root_here rs fs" and "storage_retrieve (names_path rs) relative fs = Inr c"
  shows "storage_remove (names_path rs) relative fs = (Inr True, tbl_erase (follow rs relative) fs)"
    and "root_here rs (tbl_erase (follow rs relative) fs)"
proof -
  let ?ns = "follow rs relative"
  have path: "resolve_safe_path (names_path rs) fs relative False = Inr (names_path ?ns)"
    and here: "node_at fs ?ns = Some (RegularFile c)"
    using retrieve_iff [OF assms(1)] assms(2) by auto
  have ne: "?ns \<noteq> []" using here by auto
  show "storage_remove (names_path rs) relative fs = (Inr True, tbl_erase ?ns fs)"
    using resolve_file [OF assms(1) path here] here ne by (simp add: storage_remove_def)
  have erased: "node_at (tbl_erase ?ns fs) m = (if m = ?ns then None else node_at fs m)" for m
    using ne by (simp add: node_at_def)
  have "butlast m \<noteq> ?ns" if "node_at fs m = Some x" "m \<noteq> ?ns" for m x
    using that root_hereD(2) [OF assms(1)] here unfolding fs_ok_def by (metis fs_node.distinct(1) option.inject)
  then have "fs_ok (tbl_erase ?ns fs)"
    using root_hereD(2) [OF assms(1)] unfolding fs_ok_def erased by auto
  moreover have "rs \<noteq> ?ns" using here root_hereD(3) [OF assms(1)] by auto
  ultimately show "root_here rs (tbl_erase ?ns fs)"
    using assms(1) by (simp add: root_here_def erased)
qed

end
