(* ===== verification/File_Service.thy ===== *)
theory File_Service
  imports Storage_Laws Memory_Laws
begin

text \<open>
  \<open>FileService\<close> (\<open>libs/application/fileservice.{h,cpp}\<close>) and \<open>FileRepository\<close>
  (\<open>libs/infrastructure/file_repository\<close>): uploaded files, their rows in \<open>sea_files\<close> and the number of
  references to each. The service works over any repository with counters and any storage; their
  contracts are the locales \<open>counting_repository\<close> and \<open>file_storage\<close>, interpreted on the memory backend
  and on \<open>FilesystemStorage\<close>. The UUID of an upload is an argument, the creation time of a row, which
  the service never reads, and logging are left out.
\<close>

section \<open>Interfaces\<close>

record 'f file_storage_ops =
  fso_store :: "'f \<Rightarrow> string \<Rightarrow> string \<Rightarrow> (string + unit) \<times> 'f"
  fso_retrieve :: "'f \<Rightarrow> string \<Rightarrow> string + string"
  fso_remove :: "'f \<Rightarrow> string \<Rightarrow> (string + bool) \<times> 'f"

text \<open>
  \<open>apart\<close>: two relative paths lead to different places; \<open>present\<close> in the laws is a successful read.
\<close>

locale file_storage =
  fixes ops :: "'f file_storage_ops"
    and ok :: "'f \<Rightarrow> bool"
    and apart :: "'f \<Rightarrow> string \<Rightarrow> string \<Rightarrow> bool"
  assumes store_ok: "ok st \<Longrightarrow> ok (snd (fso_store ops st p c))"
    and store_retrieve: "ok st \<Longrightarrow> fso_store ops st p c = (Inr (), st') \<Longrightarrow> fso_retrieve ops st' p = Inr c"
    and store_other: "ok st \<Longrightarrow> fso_store ops st p c = (result, st') \<Longrightarrow> apart st p q \<Longrightarrow>
      fso_retrieve ops st q = Inr d \<Longrightarrow> fso_retrieve ops st' q = Inr d"
    and delete_done: "ok st \<Longrightarrow> fso_retrieve ops st p = Inr c \<Longrightarrow> fst (fso_remove ops st p) = Inr True"
    and delete_ok: "ok st \<Longrightarrow> fso_retrieve ops st p = Inr c \<Longrightarrow> ok (snd (fso_remove ops st p))"
    and delete_gone: "ok st \<Longrightarrow> fso_retrieve ops st p = Inr c \<Longrightarrow> fso_retrieve ops (snd (fso_remove ops st p)) p \<noteq> Inr d"
    and delete_other: "ok st \<Longrightarrow> fso_retrieve ops st p = Inr c \<Longrightarrow> apart st p q \<Longrightarrow>
      fso_retrieve ops st q = Inr d \<Longrightarrow> fso_retrieve ops (snd (fso_remove ops st p)) q = Inr d"
    and apart_store: "apart (snd (fso_store ops st p c)) = apart st"
    and apart_remove: "apart (snd (fso_remove ops st p)) = apart st"
    and apart_sym: "apart st p q \<Longrightarrow> apart st q p"

record 'r counters =
  ct_increment :: "'r \<Rightarrow> string \<Rightarrow> string \<Rightarrow> string \<Rightarrow> 64 word \<Rightarrow> bool \<times> 'r"
  ct_decrement_if_positive :: "'r \<Rightarrow> string \<Rightarrow> string \<Rightarrow> string \<Rightarrow> bool \<times> 'r"

locale counting_repository = generic_repository repo ok key_of stored_form
  for repo :: "'r repository" and ok key_of stored_form +
  fixes counters :: "'r counters"
  assumes increment_spec: "ok st \<Longrightarrow> repo_find_by_id repo st en k = Some r \<Longrightarrow> map_of r fn = Some (VInt64 w) \<Longrightarrow>
      ct_increment counters st en k fn delta = (b, st') \<Longrightarrow>
      b \<and> ok st' \<and> (\<forall>en' k'. repo_find_by_id repo st' en' k' =
        (if en' = en \<and> k' = k then Some (tbl_put fn (VInt64 (w + delta)) r) else repo_find_by_id repo st en' k'))"
    and decrement_spec: "ok st \<Longrightarrow> repo_find_by_id repo st en k = Some r \<Longrightarrow> map_of r fn = Some (VInt64 w) \<Longrightarrow>
      ct_decrement_if_positive counters st en k fn = (b, st') \<Longrightarrow>
      (b \<longleftrightarrow> 0 < sint w) \<and> ok st' \<and> (\<forall>en' k'. repo_find_by_id repo st' en' k' =
        (if b \<and> en' = en \<and> k' = k then Some (tbl_put fn (VInt64 (w - 1)) r) else repo_find_by_id repo st en' k'))"
    and increment_missing: "ok st \<Longrightarrow> repo_find_by_id repo st en k = None \<Longrightarrow> ct_increment counters st en k fn delta = (False, st)"
    and decrement_missing: "ok st \<Longrightarrow> repo_find_by_id repo st en k = None \<Longrightarrow> ct_decrement_if_positive counters st en k fn = (False, st)"

section \<open>The repository of files\<close>

record file_metadata =
  fm_id :: string
  fm_original_name :: string
  fm_mime_type :: string
  fm_size_bytes :: size
  fm_storage_path :: string
  fm_reference_count :: "32 word"

definition files_table :: string where
  "files_table = ''sea_files''"

definition count_column :: string where
  "count_column = ''reference_count''"

definition is_orphan :: "file_metadata \<Rightarrow> bool" where
  "is_orphan m \<longleftrightarrow> sint (fm_reference_count m) \<le> 0"

definition file_string :: "dynamic_record \<Rightarrow> string \<Rightarrow> string" where
  "file_string rec column = (case tbl_get rec column of Some (VString s) \<Rightarrow> s | _ \<Rightarrow> [])"

definition get_int64 :: "dynamic_value \<Rightarrow> 64 word" where
  "get_int64 v =
     (case v of
        VInt64 w \<Rightarrow> w | VUint64 w \<Rightarrow> w
      | VInt32 w \<Rightarrow> scast w | VUint32 w \<Rightarrow> ucast w
      | VInt16 w \<Rightarrow> scast w | VUint16 w \<Rightarrow> ucast w
      | _ \<Rightarrow> 0)"

definition file_int :: "dynamic_record \<Rightarrow> string \<Rightarrow> 64 word" where
  "file_int rec column = (case tbl_get rec column of None \<Rightarrow> 0 | Some v \<Rightarrow> get_int64 v)"

definition to_record :: "file_metadata \<Rightarrow> dynamic_record" where
  "to_record m =
     [(''id'', VString (fm_id m)), (''original_name'', VString (fm_original_name m)),
      (''mime_type'', VString (fm_mime_type m)), (''size_bytes'', VInt64 (fm_size_bytes m)),
      (''storage_path'', VString (fm_storage_path m)), (count_column, VInt64 (scast (fm_reference_count m)))]"

definition from_record :: "dynamic_record \<Rightarrow> file_metadata option" where
  "from_record rec =
     (case tbl_get rec ''id'' of
        None \<Rightarrow> None
      | Some _ \<Rightarrow>
          Some \<lparr>fm_id = file_string rec ''id'', fm_original_name = file_string rec ''original_name'',
            fm_mime_type = file_string rec ''mime_type'', fm_size_bytes = file_int rec ''size_bytes'',
            fm_storage_path = file_string rec ''storage_path'',
            fm_reference_count = ucast (file_int rec count_column)\<rparr>)"

definition file_insert :: "'r repository \<Rightarrow> file_metadata \<Rightarrow> 'r \<Rightarrow> bool \<times> 'r" where
  "file_insert repo m st =
     (case repo_create repo st files_table (to_record m) of
        (None, st') \<Rightarrow> (False, st')
      | (Some _, st') \<Rightarrow> (True, st'))"

definition file_find_by_id :: "'r repository \<Rightarrow> string \<Rightarrow> 'r \<Rightarrow> file_metadata option" where
  "file_find_by_id repo uuid st = Option.bind (repo_find_by_id repo st files_table uuid) from_record"

definition add_reference :: "'r counters \<Rightarrow> string \<Rightarrow> 'r \<Rightarrow> bool \<times> 'r" where
  "add_reference counters uuid st = ct_increment counters st files_table uuid count_column 1"

definition release_reference :: "'r counters \<Rightarrow> string \<Rightarrow> 'r \<Rightarrow> bool \<times> 'r" where
  "release_reference counters uuid st = ct_increment counters st files_table uuid count_column (-1)"

definition release_reference_if_positive :: "'r counters \<Rightarrow> string \<Rightarrow> 'r \<Rightarrow> bool \<times> 'r" where
  "release_reference_if_positive counters uuid st = ct_decrement_if_positive counters st files_table uuid count_column"

definition delete_row :: "'r repository \<Rightarrow> string \<Rightarrow> 'r \<Rightarrow> bool \<times> 'r" where
  "delete_row repo uuid st = repo_remove repo st files_table uuid"

section \<open>The service\<close>

definition extract_extension :: "string \<Rightarrow> string" where
  "extract_extension name =
     (case rfind_char (CHR ''.'') name of
        None \<Rightarrow> []
      | Some p \<Rightarrow> if Suc p = length name then [] else str_lower (drop p name))"

text \<open>The message of a refusal, if any.\<close>

definition validate_upload :: "file_field_config \<Rightarrow> string \<Rightarrow> string \<Rightarrow> size \<Rightarrow> string option" where
  "validate_upload cfg original_name mime content_size =
     (if \<not> accepts_size cfg content_size
      then Some (''Fichier trop volumineux ('' @ nat_str (unat content_size) @ '' bytes ; max ''
        @ nat_str (unat (case max_size_bytes cfg of None \<Rightarrow> 0 | Some m \<Rightarrow> m)) @ '').'')
      else if \<not> accepts_mime cfg mime then Some (''Type MIME refuse: '' @ quoted mime @ ''.'')
      else let ext = extract_extension original_name in
        if \<not> accepts_extension cfg ext
        then Some (''Extension refusee: '' @ quoted (if ext = [] then ''(aucune)'' else ext) @ ''.'')
        else None)"

definition build_target_path :: "string \<Rightarrow> string \<Rightarrow> string \<Rightarrow> string" where
  "build_target_path directory uuid original_name =
     (if directory \<noteq> [] \<and> last directory \<noteq> CHR ''/'' then directory @ ''/'' else directory)
       @ uuid @ extract_extension original_name"

record upload_result =
  ur_uuid :: string
  ur_storage_path :: string
  ur_size_bytes :: size
  ur_mime_type :: string

type_synonym ('r, 'f) service_state = "'r \<times> 'f"

definition upload ::
  "'r repository \<Rightarrow> 'f file_storage_ops \<Rightarrow> file_field_config \<Rightarrow> string \<Rightarrow> string \<Rightarrow> string \<Rightarrow> string
    \<Rightarrow> ('r, 'f) service_state \<Rightarrow> (string + upload_result) \<times> ('r, 'f) service_state" where
  "upload repo ops cfg uuid original_name mime content state =
     (case validate_upload cfg original_name mime (of_nat (length content)) of
        Some e \<Rightarrow> (Inl (''[FileService] '' @ e), state)
      | None \<Rightarrow>
          let target = build_target_path (storage_path cfg) uuid original_name in
          (case fso_store ops (snd state) target content of
             (Inl e, files) \<Rightarrow> (Inl e, (fst state, files))
           | (Inr _, files) \<Rightarrow>
               let meta = \<lparr>fm_id = uuid, fm_original_name = original_name, fm_mime_type = mime,
                     fm_size_bytes = of_nat (length content), fm_storage_path = target, fm_reference_count = 0\<rparr> in
               (case file_insert repo meta (fst state) of
                  (False, rows) \<Rightarrow>
                    (Inl (''[FileService] echec INSERT sea_files pour uuid='' @ uuid),
                     (rows, snd (fso_remove ops files target)))
                | (True, rows) \<Rightarrow>
                    (Inr \<lparr>ur_uuid = uuid, ur_storage_path = target, ur_size_bytes = fm_size_bytes meta,
                       ur_mime_type = mime\<rparr>, (rows, files)))))"

definition download ::
  "'r repository \<Rightarrow> 'f file_storage_ops \<Rightarrow> string \<Rightarrow> ('r, 'f) service_state
    \<Rightarrow> string + (file_metadata \<times> string) option" where
  "download repo ops uuid state =
     (case file_find_by_id repo uuid (fst state) of
        None \<Rightarrow> Inr None
      | Some meta \<Rightarrow>
          (case fso_retrieve ops (snd state) (fm_storage_path meta) of
             Inl e \<Rightarrow> Inl e
           | Inr content \<Rightarrow> Inr (Some (meta, content))))"

definition retain :: "'r counters \<Rightarrow> string \<Rightarrow> ('r, 'f) service_state \<Rightarrow> bool \<times> ('r, 'f) service_state" where
  "retain counters uuid state =
     (case add_reference counters uuid (fst state) of (b, rows) \<Rightarrow> (b, (rows, snd state)))"

text \<open>An exception of the storage is caught, so only the state it leaves matters.\<close>

definition release ::
  "'r repository \<Rightarrow> 'r counters \<Rightarrow> 'f file_storage_ops \<Rightarrow> string \<Rightarrow> on_delete_file
    \<Rightarrow> ('r, 'f) service_state \<Rightarrow> bool \<times> ('r, 'f) service_state" where
  "release repo counters ops uuid requested state =
     (let rule = if requested = FileRestrict then FileSetNull else requested in
      case release_reference_if_positive counters uuid (fst state) of
        (False, rows) \<Rightarrow> (False, (rows, snd state))
      | (True, rows) \<Rightarrow>
          if rule = FileSetNull then (True, (rows, snd state))
          else (case file_find_by_id repo uuid rows of
                  None \<Rightarrow> (True, (rows, snd state))
                | Some meta \<Rightarrow>
                    if 0 < sint (fm_reference_count meta) then (True, (rows, snd state))
                    else (case delete_row repo uuid rows of
                            (False, rows') \<Rightarrow> (True, (rows', snd state))
                          | (True, rows') \<Rightarrow>
                              (True, (rows', snd (fso_remove ops (snd state) (fm_storage_path meta)))))))"

section \<open>The backends\<close>

definition memory_counters :: "storage counters" where
  "memory_counters = \<lparr>ct_increment = mem_increment_field, ct_decrement_if_positive = mem_decrement_field_if_positive\<rparr>"

record filesystem_state =
  root_canonical :: string
  disk :: fsys

definition on_disk :: "(fsys \<Rightarrow> 'a \<times> fsys) \<Rightarrow> filesystem_state \<Rightarrow> 'a \<times> filesystem_state" where
  "on_disk f st = (case f (disk st) of (x, fs) \<Rightarrow> (x, st\<lparr>disk := fs\<rparr>))"

definition filesystem_ops :: "filesystem_state file_storage_ops" where
  "filesystem_ops =
     \<lparr>fso_store = (\<lambda>st p content. on_disk (storage_store (root_canonical st) p content) st),
      fso_retrieve = (\<lambda>st p. storage_retrieve (root_canonical st) p (disk st)),
      fso_remove = (\<lambda>st p. on_disk (storage_remove (root_canonical st) p) st)\<rparr>"

definition filesystem_ok :: "filesystem_state \<Rightarrow> bool" where
  "filesystem_ok st \<longleftrightarrow> (\<exists>rs. root_canonical st = names_path rs \<and> root_here rs (disk st))"

text \<open>Paths whose names differ below the root.\<close>

definition paths_apart :: "filesystem_state \<Rightarrow> string \<Rightarrow> string \<Rightarrow> bool" where
  "paths_apart st p q \<longleftrightarrow>
     follow (tl (path_segments (root_canonical st))) p \<noteq> follow (tl (path_segments (root_canonical st))) q"

interpretation memory_counting: counting_repository memory_repository storage_ok extract_id filter_record memory_counters
proof
  fix st st' :: storage and en k r fn w delta b
  assume "storage_ok st" and found: "repo_find_by_id memory_repository st en k = Some r"
    and v: "map_of r fn = Some (VInt64 w)" and step: "ct_increment memory_counters st en k fn delta = (b, st')"
  have "mem_find_by_id st en k = Some r" using found by (simp add: memory_repository_def)
  from visit_field_some [OF this] v have
    "visit_field (increment_value delta) st en k fn =
      (True, tbl_put en (tbl_put k (tbl_put fn (VInt64 (w + delta)) r) (entity_storage st en)) st)"
    by (simp add: increment_value_def)
  then show "b \<and> storage_ok st' \<and> (\<forall>en' k'. repo_find_by_id memory_repository st' en' k' =
      (if en' = en \<and> k' = k then Some (tbl_put fn (VInt64 (w + delta)) r)
       else repo_find_by_id memory_repository st en' k'))"
    using step \<open>storage_ok st\<close>
    by (auto simp: memory_counters_def mem_increment_field_def memory_repository_def find_by_id_entity_storage)
next
  fix st st' :: storage and en k r fn w b
  assume ok: "storage_ok st" and found: "repo_find_by_id memory_repository st en k = Some r"
    and v: "map_of r fn = Some (VInt64 w)" and step: "ct_decrement_if_positive memory_counters st en k fn = (b, st')"
  have "mem_find_by_id st en k = Some r" using found by (simp add: memory_repository_def)
  from visit_field_some [OF this] v have
    "visit_field decrement_value st en k fn = (if 0 < sint w
      then (True, tbl_put en (tbl_put k (tbl_put fn (VInt64 (w - 1)) r) (entity_storage st en)) st) else (False, st))"
    by (simp add: decrement_value_def)
  then show "(b \<longleftrightarrow> 0 < sint w) \<and> storage_ok st' \<and> (\<forall>en' k'. repo_find_by_id memory_repository st' en' k' =
      (if b \<and> en' = en \<and> k' = k then Some (tbl_put fn (VInt64 (w - 1)) r)
       else repo_find_by_id memory_repository st en' k'))"
    using step ok
    by (auto simp: memory_counters_def mem_decrement_field_if_positive_def memory_repository_def
        find_by_id_entity_storage split: if_splits)
qed (simp_all add: memory_repository_def memory_counters_def mem_increment_field_def
    mem_decrement_field_if_positive_def visit_field_none)

end
