(* ===== verification/File_Laws.thy ===== *)
theory File_Laws
  imports File_Service
begin

text \<open>
  Laws of the file service over any counting repository and any file storage (locale \<open>file_service\<close>):
  what an upload stores, what a download reads, and how the number of references moves. The locale
  is interpreted on the memory backend with \<open>FilesystemStorage\<close>.
\<close>

section \<open>FilesystemStorage as a file storage\<close>

lemma filesystem_okE:
  assumes "filesystem_ok st"
  obtains rs where "root_canonical st = names_path rs" "root_here rs (disk st)"
    "tl (path_segments (root_canonical st)) = rs"
  using assms path_segments_names by (auto simp: filesystem_ok_def root_here_def root_ok_def)

lemma on_disk_eq: "on_disk f st = (x, st') \<longleftrightarrow> f (disk st) = (x, disk st') \<and> root_canonical st' = root_canonical st"
  by (cases "f (disk st)"; cases st; cases st') (auto simp: on_disk_def)

lemma on_disk_fst: "fst (on_disk f st) = fst (f (disk st))"
  by (simp add: on_disk_def split: prod.split)

lemma on_disk_snd: "disk (snd (on_disk f st)) = snd (f (disk st))" "root_canonical (snd (on_disk f st)) = root_canonical st"
  by (simp_all add: on_disk_def split: prod.splits)

interpretation filesystem: file_storage filesystem_ops filesystem_ok paths_apart
proof
  fix st :: filesystem_state and p c
  assume "filesystem_ok st"
  then show "filesystem_ok (snd (fso_store filesystem_ops st p c))"
  proof (rule filesystem_okE)
    fix rs assume rs: "root_canonical st = names_path rs" "root_here rs (disk st)"
    with store_spec [OF rs(2), of p c] show ?thesis
      by (auto simp: filesystem_ok_def filesystem_ops_def on_disk_snd intro!: exI [of _ rs])
        (metis prod.collapse)
  qed
next
  fix st st' :: filesystem_state and p c
  assume "filesystem_ok st" and stored: "fso_store filesystem_ops st p c = (Inr (), st')"
  then show "fso_retrieve filesystem_ops st' p = Inr c"
  proof (rule_tac filesystem_okE)
    fix rs assume rs: "root_canonical st = names_path rs" "root_here rs (disk st)"
    from stored have *: "storage_store (names_path rs) p c (disk st) = (Inr (), disk st')" "root_canonical st' = names_path rs"
      by (simp_all add: filesystem_ops_def on_disk_eq rs(1))
    from store_spec [OF rs(2) *(1)] have "storage_retrieve (names_path rs) p (disk st') = Inr c"
      using retrieve_iff [of rs "disk st'" p c] resolve_safe_fs by metis
    with * show ?thesis by (simp add: filesystem_ops_def)
  qed
next
  fix st st' :: filesystem_state and p q c d result
  assume "filesystem_ok st" and stored: "fso_store filesystem_ops st p c = (result, st')"
    and apart: "paths_apart st p q" and read: "fso_retrieve filesystem_ops st q = Inr d"
  then show "fso_retrieve filesystem_ops st' q = Inr d"
  proof (rule_tac filesystem_okE)
    fix rs assume rs: "root_canonical st = names_path rs" "root_here rs (disk st)" "tl (path_segments (root_canonical st)) = rs"
    from stored have *: "storage_store (names_path rs) p c (disk st) = (result, disk st')" "root_canonical st' = names_path rs"
      by (simp_all add: filesystem_ops_def on_disk_eq rs(1))
    note spec = store_spec [OF rs(2) *(1)]
    have "storage_retrieve (names_path rs) q (disk st) = Inr d" using read rs(1) by (simp add: filesystem_ops_def)
    then have "storage_retrieve (names_path rs) q (disk st') = Inr d"
      using spec apart rs(3) retrieve_iff [OF rs(2), of q d] retrieve_iff [of rs "disk st'" q d]
        resolve_safe_fs [of "names_path rs" "disk st" q "disk st'"] by (auto simp: paths_apart_def)
    with * show ?thesis by (simp add: filesystem_ops_def)
  qed
next
  fix st :: filesystem_state and p c
  assume "filesystem_ok st" and read: "fso_retrieve filesystem_ops st p = Inr c"
  then show "fst (fso_remove filesystem_ops st p) = Inr True" and "filesystem_ok (snd (fso_remove filesystem_ops st p))"
    by (rule_tac [!] filesystem_okE)
      (use read remove_file in \<open>auto simp: filesystem_ops_def on_disk_fst on_disk_snd filesystem_ok_def\<close>)
next
  fix st :: filesystem_state and p q c d
  assume "filesystem_ok st" and read: "fso_retrieve filesystem_ops st p = Inr c"
  then obtain rs where rs: "root_canonical st = names_path rs" "root_here rs (disk st)" "tl (path_segments (root_canonical st)) = rs"
    by (rule_tac filesystem_okE)
  have "storage_retrieve (names_path rs) p (disk st) = Inr c" using read rs by (simp add: filesystem_ops_def)
  note gone = remove_file [OF rs(2) this]
  have after: "fso_retrieve filesystem_ops (snd (fso_remove filesystem_ops st p)) r
      = storage_retrieve (names_path rs) r (tbl_erase (follow rs p) (disk st))" for r
    using gone rs(1) by (simp add: filesystem_ops_def on_disk_snd)
  have erased: "node_at (tbl_erase n (disk st)) m = (if m = n \<and> m \<noteq> [] then None else node_at (disk st) m)" for m n
    by (simp add: node_at_def)
  show "fso_retrieve filesystem_ops (snd (fso_remove filesystem_ops st p)) p \<noteq> Inr d"
    unfolding after retrieve_iff [OF gone(2)] erased by simp
  assume "paths_apart st p q" "fso_retrieve filesystem_ops st q = Inr d"
  then show "fso_retrieve filesystem_ops (snd (fso_remove filesystem_ops st p)) q = Inr d"
    using rs(1,3) retrieve_iff [OF rs(2), of q d]
      resolve_safe_fs [of "names_path rs" "disk st" q "tbl_erase (follow rs p) (disk st)"]
    unfolding after retrieve_iff [OF gone(2)] erased by (auto simp: paths_apart_def filesystem_ops_def)
qed (auto simp: paths_apart_def filesystem_ops_def on_disk_snd fun_eq_iff)

section \<open>Rows of files\<close>

lemmas row_defs = to_record_def from_record_def file_string_def file_int_def get_int64_def count_column_def

lemma scast_ucast_back: "ucast (scast c :: 64 word) = (c :: 32 word)"
  by (rule bit_word_eqI) (auto simp: bit_simps)

lemma from_to_record: "from_record (to_record m) = Some m"
proof -
  have "ucast (scast c :: 64 word) = (c :: 32 word)" for c by (rule scast_ucast_back)
  then show ?thesis by (simp add: row_defs)
qed

lemma from_record_count:
  "from_record (tbl_put count_column (VInt64 w) r) = map_option (\<lambda>m. m\<lparr>fm_reference_count := ucast w\<rparr>) (from_record r)"
  by (simp add: row_defs split: option.split)

text \<open>The row of \<open>uuid\<close> holds \<open>meta\<close> and \<open>refs\<close>, and its path reads \<open>content\<close>.\<close>

definition stored_file ::
  "'r repository \<Rightarrow> 'f file_storage_ops \<Rightarrow> string \<Rightarrow> file_metadata \<Rightarrow> string \<Rightarrow> 64 word \<Rightarrow> ('r, 'f) service_state \<Rightarrow> bool" where
  "stored_file repo ops uuid meta content refs state \<longleftrightarrow>
     (\<exists>r. repo_find_by_id repo (fst state) files_table uuid = Some r
        \<and> from_record r = Some (meta\<lparr>fm_reference_count := ucast refs\<rparr>)
        \<and> map_of r count_column = Some (VInt64 refs))
     \<and> fso_retrieve ops (snd state) (fm_storage_path meta) = Inr content"

lemma stored_fileE:
  assumes "stored_file repo ops uuid meta content refs (rows, files)"
  obtains r where "repo_find_by_id repo rows files_table uuid = Some r"
    "from_record r = Some (meta\<lparr>fm_reference_count := ucast refs\<rparr>)"
    "map_of r count_column = Some (VInt64 refs)" "fso_retrieve ops files (fm_storage_path meta) = Inr content"
  using assms by (auto simp: stored_file_def)

text \<open>A change of the row of \<open>uuid\<close> that sets its number of references.\<close>

lemma stored_file_count:
  assumes "stored_file repo ops uuid m c n (rows, files)"
    and "repo_find_by_id repo rows files_table uuid = Some r"
    and "repo_find_by_id repo rows' files_table uuid = Some (tbl_put count_column (VInt64 w) r)"
  shows "stored_file repo ops uuid m c w (rows', files)"
  using assms by (auto simp: stored_file_def from_record_count)

text \<open>The number read after a release is that of the row while it fits 32 bits.\<close>

lemma count_after_release:
  assumes "1 < sint (refs :: 64 word)" and "sint refs \<le> 2 ^ 31"
  shows "0 < sint (ucast (refs - 1) :: 32 word)"
proof -
  have "sint (refs - 1) = sint refs - 1" using assms by (intro sint_minus_one) simp
  moreover have "sint (ucast (refs - 1) :: 32 word) = signed_take_bit 31 (sint (refs - 1))"
    using uint_sint [of "refs - 1"] by (simp add: signed_ucast_eq signed_take_bit_take_bit)
  moreover have "signed_take_bit 31 (sint refs - 1) = sint refs - 1"
    using assms by (intro signed_take_bit_int_eq_self) auto
  ultimately show ?thesis using assms by simp
qed

section \<open>Sequences of references\<close>

datatype reference_op = Retain | Release on_delete_file

definition reference_step ::
  "'r repository \<Rightarrow> 'r counters \<Rightarrow> 'f file_storage_ops \<Rightarrow> string \<times> reference_op
    \<Rightarrow> ('r, 'f) service_state \<Rightarrow> bool \<times> ('r, 'f) service_state" where
  "reference_step repo counters ops step state =
     (case step of
        (uuid, Retain) \<Rightarrow> retain counters uuid state
      | (uuid, Release rule) \<Rightarrow> release repo counters ops uuid rule state)"

fun run_references ::
  "'r repository \<Rightarrow> 'r counters \<Rightarrow> 'f file_storage_ops \<Rightarrow> (string \<times> reference_op) list
    \<Rightarrow> ('r, 'f) service_state \<Rightarrow> bool list \<times> ('r, 'f) service_state" where
  "run_references repo counters ops [] state = ([], state)"
| "run_references repo counters ops (step # steps) state =
     (case reference_step repo counters ops step state of
        (b, state') \<Rightarrow> (case run_references repo counters ops steps state' of (bs, final) \<Rightarrow> (b # bs, final)))"

text \<open>The abstract store: every id with its file and an unbounded number of references.\<close>

type_synonym file_view = "string \<Rightarrow> (file_metadata \<times> string \<times> int) option"

fun view_step :: "string \<times> reference_op \<Rightarrow> file_view \<Rightarrow> bool \<times> file_view" where
  "view_step (uuid, Retain) view =
     (case view uuid of
        None \<Rightarrow> (False, view)
      | Some (m, c, n) \<Rightarrow> (True, view(uuid \<mapsto> (m, c, n + 1))))"
| "view_step (uuid, Release rule) view =
     (case view uuid of
        None \<Rightarrow> (False, view)
      | Some (m, c, n) \<Rightarrow>
          if n \<le> 0 then (False, view)
          else if rule = FileCascade \<and> n = 1 then (True, view(uuid := None))
          else (True, view(uuid \<mapsto> (m, c, n - 1))))"

fun run_view :: "(string \<times> reference_op) list \<Rightarrow> file_view \<Rightarrow> bool list \<times> file_view" where
  "run_view [] view = ([], view)"
| "run_view (step # steps) view =
     (case view_step step view of (b, view') \<Rightarrow> (case run_view steps view' of (bs, final) \<Rightarrow> (b # bs, final)))"

text \<open>A view shows the files of a state; \<open>room\<close> is how many more references each may get.\<close>

definition shows_files ::
  "'r repository \<Rightarrow> 'f file_storage_ops \<Rightarrow> ('f \<Rightarrow> string \<Rightarrow> string \<Rightarrow> bool) \<Rightarrow> nat \<Rightarrow> file_view
    \<Rightarrow> ('r, 'f) service_state \<Rightarrow> bool" where
  "shows_files repo ops apart room view state \<longleftrightarrow>
     (\<forall>u. view u = None \<longrightarrow> repo_find_by_id repo (fst state) files_table u = None)
     \<and> (\<forall>u m c n. view u = Some (m, c, n) \<longrightarrow>
          0 \<le> n \<and> n + int room \<le> 2 ^ 31 \<and> stored_file repo ops u m c (word_of_int n) state)
     \<and> (\<forall>u v m c n m' c' n'. u \<noteq> v \<longrightarrow> view u = Some (m, c, n) \<longrightarrow> view v = Some (m', c', n') \<longrightarrow>
          apart (snd state) (fm_storage_path m) (fm_storage_path m'))"

lemma sint_small: "0 \<le> n \<Longrightarrow> n \<le> 2 ^ 31 \<Longrightarrow> sint (word_of_int n :: 64 word) = n"
  by (simp add: sint_sbintrunc' signed_take_bit_int_eq_self)

lemma ucast_word_of_int: "ucast (word_of_int n :: 64 word) = (word_of_int n :: 32 word)"
  by (rule bit_word_eqI) (simp add: bit_simps)

lemma shows_files_less:
  assumes "shows_files repo ops apart (Suc room) view (rows, files)"
  shows "shows_files repo ops apart room view (rows, files)"
proof -
  have "n + int room \<le> 2 ^ 31" if "view u = Some (m, c, n)" for u m c n
  proof -
    have "n + int (Suc room) \<le> 2 ^ 31" using assms that unfolding shows_files_def by blast
    then show ?thesis by simp
  qed
  with assms show ?thesis unfolding shows_files_def by blast
qed

lemma shows_files_count:
  assumes "shows_files repo ops apart (Suc room) view (rows, files)" and "view uuid = Some (m, c, n)"
    and "0 \<le> k" "k \<le> n + 1" and "stored_file repo ops uuid m c (word_of_int k) (rows', files)"
    and "\<forall>u. u \<noteq> uuid \<longrightarrow> repo_find_by_id repo rows' files_table u = repo_find_by_id repo rows files_table u"
  shows "shows_files repo ops apart room (view(uuid \<mapsto> (m, c, k))) (rows', files)"
proof -
  have files: "0 \<le> n' \<and> n' + int (Suc room) \<le> 2 ^ 31 \<and> stored_file repo ops u m' c' (word_of_int n') (rows, files)"
    if "view u = Some (m', c', n')" for u m' c' n'
    using assms(1) that unfolding shows_files_def by blast
  have "0 \<le> n' \<and> n' + int room \<le> 2 ^ 31 \<and> stored_file repo ops u m' c' (word_of_int n') (rows', files)"
    if "(view(uuid \<mapsto> (m, c, k))) u = Some (m', c', n')" for u m' c' n'
    using that files [of u m' c' n'] files [OF assms(2)] assms(3-6)
    by (cases "u = uuid") (auto simp: stored_file_def)
  moreover have "\<forall>u. (view(uuid \<mapsto> (m, c, k))) u = None \<longrightarrow> repo_find_by_id repo rows' files_table u = None"
    using assms(1,6) by (auto simp: shows_files_def)
  moreover have "apart files (fm_storage_path m1) (fm_storage_path m2)"
    if "u \<noteq> v" "(view(uuid \<mapsto> (m, c, k))) u = Some (m1, c1, n1)" "(view(uuid \<mapsto> (m, c, k))) v = Some (m2, c2, n2)"
    for u v m1 c1 n1 m2 c2 n2
    using assms(1,2) that unfolding shows_files_def by (fastforce split: if_splits)
  ultimately show ?thesis unfolding shows_files_def by auto
qed

section \<open>The service over its interfaces\<close>

locale file_service =
  counting_repository repo ok key_of stored_form counters + file_storage ops ready apart
  for repo :: "'r repository" and ok key_of stored_form counters
    and ops :: "'f file_storage_ops" and ready apart +
  assumes row_key: "key_of (to_record m) = Some (fm_id m)"
    and row_kept: "stored_form (to_record m) = to_record m"
begin

lemma download_stored:
  "stored_file repo ops uuid meta content refs state \<Longrightarrow>
   download repo ops uuid state = Inr (Some (meta\<lparr>fm_reference_count := ucast refs\<rparr>, content))"
  by (cases state) (auto simp: download_def file_find_by_id_def elim!: stored_fileE)

lemma upload_stores:
  assumes "ok rows" "ready files" and "upload repo ops cfg uuid original mime content (rows, files) = (Inr res, (rows', files'))"
  shows "ok rows' \<and> ready files'
    \<and> res = \<lparr>ur_uuid = uuid, ur_storage_path = build_target_path (storage_path cfg) uuid original,
        ur_size_bytes = of_nat (length content), ur_mime_type = mime\<rparr>
    \<and> stored_file repo ops uuid \<lparr>fm_id = uuid, fm_original_name = original, fm_mime_type = mime,
        fm_size_bytes = of_nat (length content), fm_storage_path = ur_storage_path res, fm_reference_count = 0\<rparr>
        content 0 (rows', files')
    \<and> (\<forall>u m c n. stored_file repo ops u m c n (rows, files) \<longrightarrow> apart files (ur_storage_path res) (fm_storage_path m) \<longrightarrow>
        stored_file repo ops u m c n (rows', files'))"
proof -
  let ?target = "build_target_path (storage_path cfg) uuid original"
  let ?meta = "\<lparr>fm_id = uuid, fm_original_name = original, fm_mime_type = mime,
        fm_size_bytes = of_nat (length content), fm_storage_path = ?target, fm_reference_count = 0\<rparr>"
  have kept: "fso_store ops files ?target content = (Inr (), files')"
    and row: "file_insert repo ?meta rows = (True, rows')"
    and res: "res = \<lparr>ur_uuid = uuid, ur_storage_path = ?target, ur_size_bytes = of_nat (length content), ur_mime_type = mime\<rparr>"
    using assms(3) by (auto simp: upload_def Let_def split: option.splits sum.splits prod.splits bool.splits)
  obtain created where created: "repo_create repo rows files_table (to_record ?meta) = (Some created, rows')"
    using row by (auto simp: file_insert_def split: option.splits prod.splits)
  note created_row = create_some [OF assms(1) created, unfolded row_key row_kept]
  have "ok rows'" using create_ok [OF assms(1)] created by (metis snd_conv)
  moreover have "ready files'" using store_ok [OF assms(2)] kept by (metis snd_conv)
  moreover have "stored_file repo ops uuid ?meta content 0 (rows', files')"
    using created_row from_to_record [of ?meta] store_retrieve [OF assms(2) kept]
    by (auto simp: stored_file_def) (simp add: to_record_def count_column_def)
  moreover have "stored_file repo ops u m c n (rows', files')"
    if "stored_file repo ops u m c n (rows, files)" "apart files ?target (fm_storage_path m)" for u m c n
    using that created_row store_other [OF assms(2) kept that(2)] by (auto simp: stored_file_def)
  ultimately show ?thesis using res by simp
qed

lemma retain_stored:
  assumes "ok rows" and "stored_file repo ops uuid meta content refs (rows, files)"
    and "retain counters uuid (rows, files) = (b, (rows', files'))"
  shows "b \<and> ok rows' \<and> files' = files
    \<and> stored_file repo ops uuid meta content (refs + 1) (rows', files)
    \<and> (\<forall>u. u \<noteq> uuid \<longrightarrow> repo_find_by_id repo rows' files_table u = repo_find_by_id repo rows files_table u)"
proof -
  from assms(2) obtain r where r: "repo_find_by_id repo rows files_table uuid = Some r"
    "map_of r count_column = Some (VInt64 refs)" by (rule stored_fileE)
  have step: "ct_increment counters rows files_table uuid count_column 1 = (b, rows')" "files' = files"
    using assms(3) by (simp_all add: retain_def add_reference_def split: prod.splits)
  note spec = increment_spec [OF assms(1) r step(1)]
  then have "stored_file repo ops uuid meta content (refs + 1) (rows', files)"
    by (intro stored_file_count [OF assms(2) r(1)]) simp
  with spec step(2) show ?thesis by simp
qed

lemma release_counts:
  assumes "ok rows" and "stored_file repo ops uuid meta content refs (rows, files)" and "0 < sint refs"
    and "rule = FileCascade \<longrightarrow> 1 < sint refs \<and> sint refs \<le> 2 ^ 31"
    and "release repo counters ops uuid rule (rows, files) = (b, (rows', files'))"
  shows "b \<and> ok rows' \<and> files' = files
    \<and> stored_file repo ops uuid meta content (refs - 1) (rows', files)
    \<and> (\<forall>u. u \<noteq> uuid \<longrightarrow> repo_find_by_id repo rows' files_table u = repo_find_by_id repo rows files_table u)"
proof -
  from assms(2) obtain r where r: "repo_find_by_id repo rows files_table uuid = Some r"
    "map_of r count_column = Some (VInt64 refs)" by (rule stored_fileE)
  obtain d rows1 where d: "ct_decrement_if_positive counters rows files_table uuid count_column = (d, rows1)" by force
  note spec = decrement_spec [OF assms(1) r d]
  have moved: "stored_file repo ops uuid meta content (refs - 1) (rows1, files)"
    using spec assms(3) by (intro stored_file_count [OF assms(2) r(1)]) simp
  then obtain r1 where r1: "repo_find_by_id repo rows1 files_table uuid = Some r1"
    "from_record r1 = Some (meta\<lparr>fm_reference_count := ucast (refs - 1)\<rparr>)"
    by (auto elim!: stored_fileE)
  have "b \<and> rows' = rows1 \<and> files' = files"
  proof (cases "rule = FileCascade")
    case True
    then have "0 < sint (ucast (refs - 1) :: 32 word)" using count_after_release assms(4) by simp
    then show ?thesis
      using assms(5) True d spec assms(3) r1
      by (simp add: release_def release_reference_if_positive_def file_find_by_id_def)
  next
    case False
    then show ?thesis
      using assms(5) d spec assms(3)
      by (cases rule) (simp_all add: release_def release_reference_if_positive_def)
  qed
  with spec assms(3) moved show ?thesis by simp
qed

lemma release_last:
  assumes "ok rows" "ready files" and "stored_file repo ops uuid meta content 1 (rows, files)"
    and "release repo counters ops uuid FileCascade (rows, files) = (b, (rows', files'))"
  shows "b \<and> ok rows' \<and> ready files' \<and> repo_find_by_id repo rows' files_table uuid = None
    \<and> fso_retrieve ops files' (fm_storage_path meta) \<noteq> Inr d
    \<and> snd (fso_remove ops files (fm_storage_path meta)) = files'
    \<and> (\<forall>u. u \<noteq> uuid \<longrightarrow> repo_find_by_id repo rows' files_table u = repo_find_by_id repo rows files_table u)"
proof -
  from assms(3) obtain r where r: "repo_find_by_id repo rows files_table uuid = Some r"
    "map_of r count_column = Some (VInt64 1)" and read: "fso_retrieve ops files (fm_storage_path meta) = Inr content"
    by (rule stored_fileE)
  obtain x rows1 where x: "ct_decrement_if_positive counters rows files_table uuid count_column = (x, rows1)" by force
  note spec = decrement_spec [OF assms(1) r x]
  have "stored_file repo ops uuid meta content 0 (rows1, files)"
    using spec by (intro stored_file_count [OF assms(3) r(1)]) simp
  then obtain r1 where r1: "repo_find_by_id repo rows1 files_table uuid = Some r1"
    "from_record r1 = Some (meta\<lparr>fm_reference_count := 0\<rparr>)" by (auto elim!: stored_fileE)
  obtain y rows2 where y: "repo_remove repo rows1 files_table uuid = (y, rows2)" by force
  have ok1: "ok rows1" using spec by simp
  have "y" using remove_answer [OF ok1, of files_table uuid] y r1 by simp
  then have "b \<and> rows' = rows2 \<and> files' = snd (fso_remove ops files (fm_storage_path meta))"
    using assms(4) x spec r1 y
    by (simp add: release_def release_reference_if_positive_def file_find_by_id_def delete_row_def)
  moreover have "ok rows2" using remove_ok [OF ok1] y by (metis snd_conv)
  moreover have "\<forall>u. u \<noteq> uuid \<longrightarrow> repo_find_by_id repo rows1 files_table u = repo_find_by_id repo rows files_table u"
    using spec by simp
  ultimately show ?thesis
    using remove_ok [OF ok1] remove_find [OF ok1 y] delete_ok [OF assms(2) read]
      delete_gone [OF assms(2) read] by simp
qed

lemma release_refused:
  assumes "ok rows" and "stored_file repo ops uuid meta content refs (rows, files)" and "sint refs \<le> 0"
    and "release repo counters ops uuid rule (rows, files) = (b, (rows', files'))"
  shows "\<not> b \<and> ok rows' \<and> files' = files \<and> repo_find_by_id repo rows' = repo_find_by_id repo rows"
proof -
  from assms(2) obtain r where r: "repo_find_by_id repo rows files_table uuid = Some r"
    "map_of r count_column = Some (VInt64 refs)" by (rule stored_fileE)
  obtain d rows1 where d: "ct_decrement_if_positive counters rows files_table uuid count_column = (d, rows1)" by force
  note spec = decrement_spec [OF assms(1) r d]
  have "\<not> b \<and> rows' = rows1 \<and> files' = files"
    using spec assms(3,4) d by (simp add: release_def release_reference_if_positive_def)
  with spec assms(3) show ?thesis by (auto simp: fun_eq_iff)
qed

lemma release_missing:
  assumes "ok rows" and "repo_find_by_id repo rows files_table uuid = None"
  shows "release repo counters ops uuid rule (rows, files) = (False, (rows, files))"
    and "retain counters uuid (rows, files) = (False, (rows, files))"
  using decrement_missing [OF assms] increment_missing [OF assms]
  by (simp_all add: release_def release_reference_if_positive_def retain_def add_reference_def)


lemma shows_files_delete:
  assumes "ready files" and "shows_files repo ops apart (Suc room) view (rows, files)" and "view uuid = Some (m, c, n)"
    and "fso_retrieve ops files (fm_storage_path m) = Inr c"
    and "repo_find_by_id repo rows' files_table uuid = None"
    and "\<forall>u. u \<noteq> uuid \<longrightarrow> repo_find_by_id repo rows' files_table u = repo_find_by_id repo rows files_table u"
  shows "shows_files repo ops apart room (view(uuid := None)) (rows', snd (fso_remove ops files (fm_storage_path m)))"
proof -
  have files: "0 \<le> n' \<and> n' + int (Suc room) \<le> 2 ^ 31 \<and> stored_file repo ops u m' c' (word_of_int n') (rows, files)"
    if "view u = Some (m', c', n')" for u m' c' n'
    using assms(2) that unfolding shows_files_def by blast
  have apart: "apart files (fm_storage_path m1) (fm_storage_path m2)"
    if "u \<noteq> v" "view u = Some (m1, c1, n1)" "view v = Some (m2, c2, n2)" for u v m1 c1 n1 m2 c2 n2
    using assms(2) that unfolding shows_files_def by (metis snd_conv)
  have "0 \<le> n' \<and> n' + int room \<le> 2 ^ 31
      \<and> stored_file repo ops u m' c' (word_of_int n') (rows', snd (fso_remove ops files (fm_storage_path m)))"
    if "(view(uuid := None)) u = Some (m', c', n')" for u m' c' n'
  proof -
    have u: "u \<noteq> uuid" "view u = Some (m', c', n')" using that by (auto split: if_splits)
    note delete_other [OF assms(1,4) apart [OF u(1) [symmetric] assms(3) u(2)]]
    with files [OF u(2)] u(1) assms(6) show ?thesis by (auto simp: stored_file_def)
  qed
  moreover have "\<forall>u. (view(uuid := None)) u = None \<longrightarrow> repo_find_by_id repo rows' files_table u = None"
    using assms(2,5,6) by (auto simp: shows_files_def)
  moreover have "apart (snd (fso_remove ops files (fm_storage_path m))) (fm_storage_path m1) (fm_storage_path m2)"
    if "u \<noteq> v" "(view(uuid := None)) u = Some (m1, c1, n1)" "(view(uuid := None)) v = Some (m2, c2, n2)"
    for u v m1 c1 n1 m2 c2 n2
    unfolding apart_remove using apart [OF that(1)] that(2,3) by (auto split: if_splits)
  ultimately show ?thesis unfolding shows_files_def by auto
qed

lemma reference_step_refines:
  assumes "ok rows" "ready files" and "shows_files repo ops apart (Suc room) view (rows, files)"
    and "reference_step repo counters ops step (rows, files) = (b, (rows', files'))"
    and "view_step step view = (b', view')"
  shows "b = b' \<and> ok rows' \<and> ready files' \<and> shows_files repo ops apart room view' (rows', files')"
proof (cases step)
  case (Pair uuid op)
  have none: "repo_find_by_id repo rows files_table u = None" if "view u = None" for u
    using assms(3) that by (simp add: shows_files_def)
  have some: "0 \<le> n" "n + int (Suc room) \<le> 2 ^ 31" "stored_file repo ops u m c (word_of_int n) (rows, files)"
    if "view u = Some (m, c, n)" for u m c n
    using assms(3) that unfolding shows_files_def by blast+
  show ?thesis
  proof (cases "view uuid")
    case None
    have "b = b' \<and> rows' = rows \<and> files' = files \<and> view' = view"
      using release_missing [OF assms(1) none [OF None]] assms(4,5) Pair None
      by (cases op) (simp_all add: reference_step_def)
    with shows_files_less [OF assms(3)] assms(1,2) show ?thesis by simp
  next
    case (Some entry)
    then obtain m c n where found: "view uuid = Some (m, c, n)" by (cases entry) auto
    note here = some [OF found]
    have num: "sint (word_of_int n :: 64 word) = n" using here by (intro sint_small) auto
    show ?thesis
    proof (cases op)
      case Retain
      have step: "retain counters uuid (rows, files) = (b, (rows', files'))" and view': "b'" "view' = view(uuid \<mapsto> (m, c, n + 1))"
        using assms(4,5) Pair Retain found by (simp_all add: reference_step_def)
      note after = retain_stored [OF assms(1) here(3) step]
      have "shows_files repo ops apart room view' (rows', files)"
        unfolding view' using after here by (intro shows_files_count [OF assms(3) found]) simp_all
      with after view' assms(2) show ?thesis by simp
    next
      case (Release rule)
      have step: "release repo counters ops uuid rule (rows, files) = (b, (rows', files'))"
        using assms(4) Pair Release by (simp add: reference_step_def)
      consider "n \<le> 0" | "rule = FileCascade" "n = 1" | "0 < n" "\<not> (rule = FileCascade \<and> n = 1)" by linarith
      then show ?thesis
      proof cases
        case 1
        have view': "\<not> b'" "view' = view" using assms(5) Pair Release found 1 by auto
        have "sint (word_of_int n :: 64 word) \<le> 0" using num 1 by simp
        note refused = release_refused [OF assms(1) here(3) this step]
        then have same: "fst (rows', files') = rows'" "files' = files"
          "\<And>u m c n. stored_file repo ops u m c n (rows', files') = stored_file repo ops u m c n (rows, files)"
          by (simp_all add: stored_file_def)
        have "shows_files repo ops apart room view (rows', files')"
          using shows_files_less [OF assms(3)] refused same unfolding shows_files_def by simp
        with shows_files_less [OF assms(3)] refused view' assms(2) show ?thesis by simp
      next
        case 2
        have view': "b'" "view' = view(uuid := None)" using assms(5) Pair Release found 2 by auto
        have final: "b \<and> ok rows' \<and> ready files' \<and> repo_find_by_id repo rows' files_table uuid = None
            \<and> snd (fso_remove ops files (fm_storage_path m)) = files'
            \<and> (\<forall>u. u \<noteq> uuid \<longrightarrow> repo_find_by_id repo rows' files_table u = repo_find_by_id repo rows files_table u)"
          using release_last [OF assms(1,2), of uuid m c b rows' files'] here(3) step 2 by simp
        have "shows_files repo ops apart room view' (rows', files')"
          using shows_files_delete [OF assms(2,3) found, of rows'] final here(3) view' by (auto simp: stored_file_def)
        with final view' show ?thesis by simp
      next
        case 3
        have view': "b'" "view' = view(uuid \<mapsto> (m, c, n - 1))" using assms(5) Pair Release found 3 by auto
        have "0 < sint (word_of_int n :: 64 word)"
          "rule = FileCascade \<longrightarrow> 1 < sint (word_of_int n :: 64 word) \<and> sint (word_of_int n :: 64 word) \<le> 2 ^ 31"
          using num 3 here(2) by auto
        note counted = release_counts [OF assms(1) here(3) this step]
        have "shows_files repo ops apart room view' (rows', files)"
          unfolding view' using counted here 3 by (intro shows_files_count [OF assms(3) found]) simp_all
        with counted view' assms(2) show ?thesis by simp
      qed
    qed
  qed
qed

lemma run_references_refines:
  "ok rows \<Longrightarrow> ready files \<Longrightarrow> shows_files repo ops apart (length steps) view (rows, files) \<Longrightarrow>
   run_references repo counters ops steps (rows, files) = (answers, (rows', files')) \<Longrightarrow>
   run_view steps view = (answers', view') \<Longrightarrow>
   answers = answers' \<and> ok rows' \<and> ready files' \<and> shows_files repo ops apart 0 view' (rows', files')"
proof (induction steps arbitrary: rows files view answers answers')
  case (Cons step steps)
  obtain b rows1 files1 where s: "reference_step repo counters ops step (rows, files) = (b, (rows1, files1))"
    by (metis prod.collapse)
  obtain b' view1 where v: "view_step step view = (b', view1)" by force
  have "b = b' \<and> ok rows1 \<and> ready files1 \<and> shows_files repo ops apart (length steps) view1 (rows1, files1)"
    using reference_step_refines [OF Cons.prems(1,2) _ s v] Cons.prems(3) by simp
  with Cons.IH [of rows1 files1 view1] Cons.prems(4,5) s v show ?case
    by (auto split: prod.splits)
qed simp

lemma shown_download:
  "shows_files repo ops apart room view state \<Longrightarrow>
   download repo ops uuid state =
     (case view uuid of
        None \<Rightarrow> Inr None
      | Some (m, c, n) \<Rightarrow> Inr (Some (m\<lparr>fm_reference_count := word_of_int n\<rparr>, c)))"
proof (cases "view uuid")
  case (Some entry)
  assume "shows_files repo ops apart room view state"
  moreover obtain m c n where "entry = (m, c, n)" by (cases entry)
  ultimately have "stored_file repo ops uuid m c (word_of_int n) state" using Some unfolding shows_files_def by blast
  from download_stored [OF this] Some \<open>entry = (m, c, n)\<close> show ?thesis by (simp add: ucast_word_of_int)
qed (simp add: shows_files_def download_def file_find_by_id_def)

end

interpretation stored_files: file_service memory_repository storage_ok extract_id filter_record memory_counters
  filesystem_ops filesystem_ok paths_apart
proof
  fix m
  show "extract_id (to_record m) = Some (fm_id m)"
    by (simp add: extract_id_def to_record_def dynamic_value_to_id_string_def)
  show "filter_record (to_record m) = to_record m"
    by (simp add: filter_record_def to_record_def is_strings_def)
qed

end
