(* ===== verification/File_Properties.thy ===== *)
theory File_Properties
  imports File_Laws
begin

text \<open>
  Properties of uploaded files and their storage: the sandbox of \<open>FilesystemStorage\<close> and where its
  check does not see a link, what a store does to the disk, where an upload goes, what a download
  returns after it, and how the references to a file decide its life.
\<close>

section \<open>Paths of uploads\<close>

lemma segment_chars: "s \<in> set (path_segments p) \<Longrightarrow> set s \<subseteq> set p"
proof (induction p arbitrary: s)
  case (Cons c p)
  obtain g gs where g: "path_segments p = g # gs" by (cases "path_segments p") auto
  with Cons.prems have "s = [] \<or> s \<in> set (path_segments p) \<or> s = c # g" by (auto split: if_splits)
  then consider "s = []" | "s \<in> set (path_segments p)" | "s = c # g" by blast
  then show ?case
  proof cases
    case 2
    with Cons.IH [of s] show ?thesis by auto
  next
    case 3
    with Cons.IH [of g] g show ?thesis by auto
  qed simp
qed simp

lemma path_segments_prefix:
  "CHR ''/'' \<notin> set u \<Longrightarrow> path_segments p = g # gs \<Longrightarrow> path_segments (u @ p) = (u @ g) # gs"
  by (induction u) auto

lemma rfind_char_Some: "rfind_char c s = Some i \<Longrightarrow> \<exists>u v. s = u @ c # v \<and> length u = i \<and> c \<notin> set v"
proof (induction s arbitrary: i)
  case (Cons x s)
  show ?case
  proof (cases "rfind_char c s")
    case None
    then have "c \<notin> set s" by (induction s) (auto split: option.splits if_splits)
    with Cons.prems None show ?thesis by (intro exI [of _ "[]"] exI [of _ s]) (auto split: if_splits)
  next
    case (Some j)
    from Cons.IH [OF Some] obtain u v where "s = u @ c # v" "length u = j" "c \<notin> set v" by blast
    with Cons.prems Some show ?thesis by (intro exI [of _ "x # u"] exI [of _ v]) auto
  qed
qed simp

lemma char_lower_dot: "char_lower c = CHR ''.'' \<longleftrightarrow> c = CHR ''.''"
proof (cases "is_upper c")
  case True
  then have "char_code (char_lower c) = char_code c + 32" "65 \<le> char_code c"
    by (auto simp: char_class_defs)
  moreover have "char_code (CHR ''.'') = 46" by (simp add: char_code_def)
  ultimately have "char_code (char_lower c) \<noteq> char_code (CHR ''.'')" "char_code c \<noteq> char_code (CHR ''.'')"
    by linarith+
  then show ?thesis by auto
qed (simp add: char_lower_def)

lemma extension_form: "extract_extension name = [] \<or> (\<exists>v. extract_extension name = CHR ''.'' # v \<and> CHR ''.'' \<notin> set v)"
proof (cases "rfind_char (CHR ''.'') name")
  case (Some p)
  from rfind_char_Some [OF Some] obtain u v where "name = u @ CHR ''.'' # v" "length u = p" "CHR ''.'' \<notin> set v" by blast
  then have "drop p name = CHR ''.'' # v" by auto
  moreover have "CHR ''.'' \<notin> set (str_lower v)"
    unfolding str_lower_def using \<open>CHR ''.'' \<notin> set v\<close> char_lower_dot by (metis (no_types) imageE set_map)
  ultimately have u: "drop p name = CHR ''.'' # v" "CHR ''.'' \<notin> set (str_lower v)" by blast+
  have "char_lower (CHR ''.'') = CHR ''.''" using char_lower_dot by blast
  then have "extract_extension name = [] \<or> extract_extension name = CHR ''.'' # str_lower v"
    unfolding extract_extension_def Some option.case u(1) str_lower_Cons by argo
  with u(2) show ?thesis by blast
qed (simp add: extract_extension_def)

lemma upload_name_segments:
  assumes "CHR ''/'' \<notin> set uuid" and "2 < length uuid"
  obtains g gs where "path_segments (uuid @ extract_extension name) = (uuid @ g) # gs" "''..'' \<notin> set ((uuid @ g) # gs)"
    "CHR ''/'' \<notin> set (extract_extension name) \<longrightarrow> g = extract_extension name \<and> gs = []"
proof -
  obtain g gs where g: "path_segments (extract_extension name) = g # gs"
    by (cases "path_segments (extract_extension name)") auto
  have "''..'' \<notin> set gs"
  proof (cases "extract_extension name")
    case (Cons d v)
    then have v: "d = CHR ''.''" "CHR ''.'' \<notin> set v" using extension_form [of name] by auto
    obtain g' gs' where "path_segments v = g' # gs'" by (cases "path_segments v") auto
    then have "gs = gs'" using g Cons v(1) by auto
    then show ?thesis using segment_chars [of "''..''" v] v(2) \<open>path_segments v = g' # gs'\<close> by auto
  qed (use g in simp)
  moreover have "uuid @ g \<noteq> ''..''" using assms(2) by (auto dest: arg_cong [of _ _ length])
  moreover have "CHR ''/'' \<notin> set (extract_extension name) \<longrightarrow> g = extract_extension name \<and> gs = []"
    using path_segments_plain g by auto
  ultimately show ?thesis using that path_segments_prefix [OF assms(1) g] by auto
qed

lemma follow_target:
  assumes "directory \<noteq> []"
  shows "follow rs (build_target_path directory uuid name) =
    fold enter (path_segments (uuid @ extract_extension name)) (follow rs directory)"
proof (cases "last directory = CHR ''/''")
  case True
  then obtain d where d: "directory = d @ ''/''" using assms by (metis append_butlast_last_id)
  then have "build_target_path directory uuid name = d @ CHR ''/'' # (uuid @ extract_extension name)"
    by (simp add: build_target_path_def)
  then show ?thesis using path_segments_append [of d "[]"] by (simp add: follow_def path_segments_append d enter_def)
next
  case False
  then have "build_target_path directory uuid name = directory @ CHR ''/'' # (uuid @ extract_extension name)"
    using assms by (simp add: build_target_path_def)
  then show ?thesis by (simp add: follow_def path_segments_append)
qed

section \<open>Properties\<close>

text \<open>The lexical check of the sandbox accepts exactly the nonempty relative paths whose names,
  with \<open>.\<close> and \<open>..\<close> followed, stay at or below the root, and yields the path of these names.\<close>

theorem sandbox_check_decides:
  assumes "root_ok rs"
  shows "((\<exists>cand. resolve_safe_path (names_path rs) fs relative False = Inr cand) \<longleftrightarrow>
      relative \<noteq> [] \<and> \<not> is_absolute relative \<and> (\<exists>rest. follow rs relative = rs @ rest))
    \<and> (\<forall>cand. resolve_safe_path (names_path rs) fs relative False = Inr cand \<longrightarrow>
        cand = names_path (follow rs relative) \<or> cand = names_path (follow rs relative) @ ''/'')"
  using resolve_accepts [OF assms] by blast

theorem sandbox_check_decides_witness:
  "(\<exists>cand. resolve_safe_path ''/srv'' [] ''a/../b'' False = Inr cand)
   \<and> \<not> (\<exists>cand. resolve_safe_path ''/srv'' [] ''a/../../srv2/b'' False = Inr cand)"
proof -
  have ok: "root_ok [''srv'']" by (simp add: root_ok_def plain_name_def)
  have root: "names_path [''srv''] = ''/srv''" by (simp add: names_path_def)
  have f: "follow [''srv''] ''a/../b'' = [''srv'', ''b'']" "follow [''srv''] ''a/../../srv2/b'' = [''srv2'', ''b'']"
    by code_simp+
  show ?thesis
    using sandbox_check_decides [OF ok, of "[]" "''a/../b''"] sandbox_check_decides [OF ok, of "[]" "''a/../../srv2/b''"]
    by (simp add: root f is_absolute_def)
qed

text \<open>C20: An upload to a field that passes validation never leaves its directory, whatever name the
  client gives the file: the target is accepted by the sandbox and leads to the root, the configured
  directory, and then a name that starts with the UUID. It is the file \<open>UUID.ext\<close> of that directory
  unless the extension holds a slash.\<close>

theorem upload_target_below_directory:
  assumes "validate_file_field e f = []" and "f_file_config f = Some cfg" and "root_ok rs"
    and "CHR ''/'' \<notin> set uuid" and "2 < length uuid"
  shows "(\<exists>cand. resolve_safe_path (names_path rs) fs (build_target_path (storage_path cfg) uuid name) False = Inr cand)
    \<and> (\<exists>tail rest. follow rs (build_target_path (storage_path cfg) uuid name) = follow rs (storage_path cfg) @ (uuid @ tail) # rest
        \<and> (CHR ''/'' \<notin> set (extract_extension name) \<longrightarrow> tail = extract_extension name \<and> rest = []))
    \<and> (\<exists>below. follow rs (storage_path cfg) = rs @ below \<and> ''..'' \<notin> set below)"
proof -
  have ok: "path_ok (storage_path cfg)" using assms(1,2) by (auto simp: validate_file_field_iff file_ok_def)
  then have dir: "storage_path cfg \<noteq> []" "hd (storage_path cfg) \<noteq> CHR ''/''"
    using first_segment_slash by (auto simp: path_ok_def)
  obtain g gs where g: "path_segments (uuid @ extract_extension name) = (uuid @ g) # gs" "''..'' \<notin> set ((uuid @ g) # gs)"
    "CHR ''/'' \<notin> set (extract_extension name) \<longrightarrow> g = extract_extension name \<and> gs = []"
    by (rule upload_name_segments [OF assms(4,5)])
  have below: "follow rs (storage_path cfg) = rs @ filter (\<lambda>g. g \<noteq> ''.'' \<and> g \<noteq> []) (path_segments (storage_path cfg))"
    by (rule follow_path_ok [OF ok])
  have "uuid @ g \<noteq> ''.''" "uuid @ g \<noteq> []" using assms(5) by (auto dest: arg_cong [of _ _ length])
  then have target: "follow rs (build_target_path (storage_path cfg) uuid name) =
      follow rs (storage_path cfg) @ (uuid @ g) # filter (\<lambda>g. g \<noteq> ''.'' \<and> g \<noteq> []) gs"
    unfolding follow_target [OF dir(1)] g(1) fold_enter [OF g(2)] by simp
  have "build_target_path (storage_path cfg) uuid name \<noteq> []" "\<not> is_absolute (build_target_path (storage_path cfg) uuid name)"
    using dir by (auto simp: build_target_path_def is_absolute_def)
  then have "\<exists>cand. resolve_safe_path (names_path rs) fs (build_target_path (storage_path cfg) uuid name) False = Inr cand"
    unfolding resolve_accepts(1) [OF assms(3)] target below by simp
  moreover have "''..'' \<notin> set (path_segments (storage_path cfg))" using ok by (simp add: path_ok_def)
  ultimately show ?thesis using target below g(3) by auto
qed

definition photo_field :: field where
  "photo_field = as_file (make_field ''photo'' FFile) (default_file_config\<lparr>storage_path := ''users/photos''\<rparr>)"

theorem upload_target_below_directory_witness:
  "\<exists>tail rest. follow [''srv''] (build_target_path ''users/photos'' ''0123'' ''a.b/../evil'') =
     [''srv'', ''users'', ''photos''] @ (''0123'' @ tail) # rest"
proof -
  have "path_ok ''users/photos''" by code_simp
  then have v: "validate_file_field (make_entity ''User'' [photo_field] []) photo_field = []"
    by (simp add: validate_file_field_iff file_ok_def photo_field_def make_field_def as_file_def default_file_config_def)
  have c: "f_file_config photo_field = Some (default_file_config\<lparr>storage_path := ''users/photos''\<rparr>)"
    by (simp add: photo_field_def as_file_def)
  have r: "root_ok [''srv'']" by (simp add: root_ok_def plain_name_def)
  have "follow [''srv''] ''users/photos'' = [''srv'', ''users'', ''photos'']" by code_simp
  with upload_target_below_directory [OF v c r, of "''0123''" "[]" "''a.b/../evil''"] show ?thesis by auto
qed

text \<open>A store that succeeds is read back, on a disk whose root is a directory and that holds no
  links. It changes nothing outside the root and no other file or directory, whether it succeeds or
  fails, and keeps the disk well formed.\<close>

theorem store_then_retrieve:
  assumes "root_here rs fs" and "storage_store (names_path rs) relative content fs = (result, fs')"
  shows "root_here rs fs'
    \<and> (result = Inr () \<longrightarrow> storage_retrieve (names_path rs) relative fs' = Inr content)
    \<and> (\<forall>ns. node_at fs' ns \<noteq> node_at fs ns \<longrightarrow> (\<exists>below. ns = rs @ below))
    \<and> (\<forall>ns. ns \<noteq> follow rs relative \<longrightarrow> node_at fs ns \<noteq> None \<longrightarrow> node_at fs' ns = node_at fs ns)"
  using store_spec [OF assms] retrieve_iff [of rs fs' relative content] resolve_safe_fs by metis

definition empty_disk :: fsys where
  "empty_disk = [([''s''], Directory)]"

lemma empty_disk_root: "root_here [''s''] empty_disk"
  by (auto simp: root_here_def root_ok_def plain_name_def fs_ok_def node_at_def empty_disk_def split: if_splits)

theorem store_then_retrieve_witness:
  "storage_retrieve ''/s'' ''d/f'' (snd (storage_store ''/s'' ''d/f'' ''hello'' empty_disk)) = Inr ''hello''"
proof -
  have s: "storage_store ''/s'' ''d/f'' ''hello'' empty_disk =
      (Inr (), snd (storage_store ''/s'' ''d/f'' ''hello'' empty_disk))"
    by code_simp
  have r: "names_path [''s''] = ''/s''" by (simp add: names_path_def)
  from store_then_retrieve [OF empty_disk_root, unfolded r, OF s] show ?thesis by simp
qed

text \<open>Links are checked too weakly. Reading a link below the root \<open>/s\<close> that leads to the directory
  \<open>/s2\<close> passes the second check, which compares the canonical path with the text of the root but not
  the slash behind it; and a store, which makes no second check, writes through any link.\<close>

theorem links_leave_the_sandbox:
  "\<exists>fs. node_at fs [''s''] = Some Directory
    \<and> storage_retrieve ''/s'' ''link/f'' fs = Inr ''secret'' \<and> node_at fs [''s2'', ''f''] = Some (RegularFile ''secret'')
    \<and> fst (storage_store ''/s'' ''out/f'' ''new'' fs) = Inr ()
    \<and> node_at (snd (storage_store ''/s'' ''out/f'' ''new'' fs)) [''etc'', ''f''] = Some (RegularFile ''new'')
    \<and> storage_retrieve ''/s'' ''out/f'' (snd (storage_store ''/s'' ''out/f'' ''new'' fs)) \<noteq> Inr ''new''"
proof -
  let ?fs = "[([''s''], Directory), ([''s2''], Directory), ([''etc''], Directory), ([''s2'', ''f''], RegularFile ''secret''),
    ([''s'', ''link''], SymLink ''/s2''), ([''s'', ''out''], SymLink ''/etc'')]"
  have "storage_retrieve ''/s'' ''link/f'' ?fs = Inr ''secret''" by code_simp
  moreover have "fst (storage_store ''/s'' ''out/f'' ''new'' ?fs) = Inr ()" by code_simp
  moreover have "node_at (snd (storage_store ''/s'' ''out/f'' ''new'' ?fs)) [''etc'', ''f''] = Some (RegularFile ''new'')"
    by code_simp
  moreover have "storage_retrieve ''/s'' ''out/f'' (snd (storage_store ''/s'' ''out/f'' ''new'' ?fs)) \<noteq> Inr ''new''"
    by code_simp
  moreover have "node_at ?fs [''s''] = Some Directory" "node_at ?fs [''s2'', ''f''] = Some (RegularFile ''secret'')"
    by (simp_all add: node_at_def)
  ultimately show ?thesis by (intro exI [of _ ?fs]) simp
qed

text \<open>After an upload that answers its UUID, a download of that UUID returns the content and the
  metadata of the upload, with no reference counted; every file stored before at another path is
  still returned as it was.\<close>

theorem upload_then_download:
  assumes "storage_ok rows" and "filesystem_ok files"
    and "upload memory_repository filesystem_ops cfg uuid original mime content (rows, files) = (Inr res, state')"
  shows "download memory_repository filesystem_ops uuid state' =
      Inr (Some (\<lparr>fm_id = uuid, fm_original_name = original, fm_mime_type = mime, fm_size_bytes = of_nat (length content),
        fm_storage_path = build_target_path (storage_path cfg) uuid original, fm_reference_count = 0\<rparr>, content))
    \<and> ur_uuid res = uuid
    \<and> (\<forall>u m c n. stored_file memory_repository filesystem_ops u m c n (rows, files) \<longrightarrow>
        paths_apart files (build_target_path (storage_path cfg) uuid original) (fm_storage_path m) \<longrightarrow>
        download memory_repository filesystem_ops u state' = Inr (Some (m\<lparr>fm_reference_count := ucast n\<rparr>, c)))"
proof -
  obtain rows' files' where s': "state' = (rows', files')" by (cases state')
  note up = stored_files.upload_stores [OF assms(1,2) assms(3) [unfolded s']]
  then have res: "res = \<lparr>ur_uuid = uuid, ur_storage_path = build_target_path (storage_path cfg) uuid original,
      ur_size_bytes = of_nat (length content), ur_mime_type = mime\<rparr>" by simp
  from up have here: "stored_file memory_repository filesystem_ops uuid \<lparr>fm_id = uuid, fm_original_name = original,
      fm_mime_type = mime, fm_size_bytes = of_nat (length content),
      fm_storage_path = build_target_path (storage_path cfg) uuid original, fm_reference_count = 0\<rparr> content 0 (rows', files')"
    by (simp add: res)
  show ?thesis
    using up stored_files.download_stored [OF here] stored_files.download_stored unfolding s' res by simp
qed

definition first_files :: filesystem_state where
  "first_files = \<lparr>root_canonical = ''/s'', disk = empty_disk\<rparr>"

definition first_config :: file_field_config where
  "first_config = default_file_config\<lparr>storage_path := ''d''\<rparr>"

definition first_upload :: "(string + upload_result) \<times> (storage, filesystem_state) service_state" where
  "first_upload = upload memory_repository filesystem_ops first_config ''u1'' ''a.txt'' ''text/plain'' ''hello'' ([], first_files)"

lemma first_upload_result:
  "first_upload = (Inr \<lparr>ur_uuid = ''u1'', ur_storage_path = ''d/u1.txt'', ur_size_bytes = 5, ur_mime_type = ''text/plain''\<rparr>,
     snd first_upload)"
  by code_simp

lemma first_files_ok: "filesystem_ok first_files"
proof -
  have "root_canonical first_files = names_path [''s'']" "root_here [''s''] (disk first_files)"
    using empty_disk_root by (simp_all add: first_files_def names_path_def)
  then show ?thesis unfolding filesystem_ok_def by blast
qed

lemma no_rows_ok: "storage_ok []"
  by (simp add: storage_ok_def)

lemma first_target: "build_target_path (storage_path first_config) ''u1'' ''a.txt'' = ''d/u1.txt''"
  by code_simp

theorem upload_then_download_witness:
  "download memory_repository filesystem_ops ''u1'' (snd first_upload) =
     Inr (Some (\<lparr>fm_id = ''u1'', fm_original_name = ''a.txt'', fm_mime_type = ''text/plain'', fm_size_bytes = 5,
       fm_storage_path = ''d/u1.txt'', fm_reference_count = 0\<rparr>, ''hello''))"
  using upload_then_download [OF no_rows_ok first_files_ok first_upload_result [unfolded first_upload_def]]
  unfolding first_upload_def [symmetric] first_target by simp

text \<open>C19: The references to files. Over any sequence of \<open>retain\<close> and \<open>release\<close> on any of the stored
  files, with the paths of different files apart and no count beyond \<open>2 ^ 31\<close>, the service answers as an
  unbounded counter per file does that is never negative: the file and its row stay, with the content
  of the upload, as long as the counter exists, and are gone after the release with \<open>Cascade\<close> that
  takes it from one to zero; releases without a reference are refused, and \<open>Restrict\<close> and
  \<open>SetNull\<close> keep the file.\<close>

theorem file_references_refine_counters:
  assumes "storage_ok rows" and "filesystem_ok files"
    and "shows_files memory_repository filesystem_ops paths_apart (length steps) view (rows, files)"
    and "run_references memory_repository memory_counters filesystem_ops steps (rows, files) = (answers, state')"
    and "run_view steps view = (answers', view')"
  shows "answers = answers' \<and> (\<forall>uuid. download memory_repository filesystem_ops uuid state' =
      (case view' uuid of
         None \<Rightarrow> Inr None
       | Some (m, c, n) \<Rightarrow> Inr (Some (m\<lparr>fm_reference_count := word_of_int n\<rparr>, c))))"
proof -
  obtain rows' files' where "state' = (rows', files')" by (cases state')
  with stored_files.run_references_refines [OF assms(1-3) _ assms(5)] assms(4)
    stored_files.shown_download show ?thesis by blast
qed

lemma first_upload_shown:
  assumes "room \<le> 2 ^ 31"
  shows "storage_ok (fst (snd first_upload)) \<and> filesystem_ok (snd (snd first_upload))
    \<and> shows_files memory_repository filesystem_ops paths_apart room
        [''u1'' \<mapsto> (\<lparr>fm_id = ''u1'', fm_original_name = ''a.txt'', fm_mime_type = ''text/plain'', fm_size_bytes = 5,
           fm_storage_path = ''d/u1.txt'', fm_reference_count = 0\<rparr>, ''hello'', 0)] (snd first_upload)"
proof -
  obtain rows files where s: "snd first_upload = (rows, files)" by (cases "snd first_upload")
  have up: "upload memory_repository filesystem_ops first_config ''u1'' ''a.txt'' ''text/plain'' ''hello'' ([], first_files) =
      (Inr \<lparr>ur_uuid = ''u1'', ur_storage_path = ''d/u1.txt'', ur_size_bytes = 5, ur_mime_type = ''text/plain''\<rparr>, (rows, files))"
    using first_upload_result s by (simp add: first_upload_def)
  note stored = stored_files.upload_stores [OF no_rows_ok first_files_ok up]
  have "map fst (entity_storage (fst (snd first_upload)) files_table) = [''u1'']" by code_simp
  then have rows: "u \<noteq> ''u1'' \<Longrightarrow> repo_find_by_id memory_repository rows files_table u = None" for u
    by (auto simp: s memory_repository_def find_by_id_entity_storage map_of_eq_None_iff list.set_map [symmetric])
  show ?thesis
    using stored rows assms unfolding s shows_files_def by (auto split: if_splits)
qed

theorem file_references_refine_counters_witness:
  "let ops = [(''u1'', Retain), (''u1'', Retain), (''u1'', Release FileCascade), (''u1'', Release FileRestrict),
      (''u1'', Release FileCascade), (''u1'', Retain), (''u1'', Release FileCascade), (''u1'', Retain)];
     final = run_references memory_repository memory_counters filesystem_ops ops (snd first_upload)
   in fst final = [True, True, True, True, False, True, True, False]
     \<and> download memory_repository filesystem_ops ''u1'' (snd final) = Inr None"
proof -
  let ?ops = "[(''u1'', Retain), (''u1'', Retain), (''u1'', Release FileCascade), (''u1'', Release FileRestrict),
      (''u1'', Release FileCascade), (''u1'', Retain), (''u1'', Release FileCascade), (''u1'', Retain)]"
  let ?view = "[''u1'' \<mapsto> (\<lparr>fm_id = ''u1'', fm_original_name = ''a.txt'', fm_mime_type = ''text/plain'', fm_size_bytes = 5,
           fm_storage_path = ''d/u1.txt'', fm_reference_count = 0\<rparr>, ''hello'', 0)] :: file_view"
  obtain rows files where s: "snd first_upload = (rows, files)" by (cases "snd first_upload")
  have v: "run_view ?ops ?view = ([True, True, True, True, False, True, True, False], Map.empty)" by simp
  note shown = first_upload_shown [of "length ?ops", unfolded s]
  have shown': "storage_ok rows" "filesystem_ok files"
    "shows_files memory_repository filesystem_ops paths_apart (length ?ops) ?view (rows, files)"
    using shown by simp_all
  from file_references_refine_counters [OF shown' prod.collapse [symmetric] v]
  show ?thesis by (simp add: s Let_def)
qed

end
