(* ===== verification/Float_Round.thy ===== *)
theory Float_Round
  imports Cpp_Double Complex_Main
begin

text \<open>
  Arithmetic on \<open>double\<close> values as rational numbers: every operation of the source is the exact
  operation followed by \<open>fl\<close>, rounding to 53 significant bits, to nearest and ties to even. The
  exponent is not bounded: the values of the rate limiter stay far from overflow and from subnormal
  numbers. The lemmas bound the error of one rounding by \<open>2 ^ -53\<close> of the value.
\<close>

definition log2_floor :: "rat \<Rightarrow> int" where
  "log2_floor x =
     (let (n, d) = quotient_of x; k = int (bit_len (nat n)) - int (bit_len (nat d))
      in if 2 powi k \<le> x then k else k - 1)"

definition round_even :: "rat \<Rightarrow> int" where
  "round_even x =
     (let q = \<lfloor>x\<rfloor>; r = x - of_int q
      in if r < 1 / 2 then q else if 1 / 2 < r then q + 1 else if even q then q else q + 1)"

definition fl :: "rat \<Rightarrow> rat" where
  "fl x =
     (if x = 0 then 0
      else let e = log2_floor \<bar>x\<bar> - 52 in of_int (round_even (x / 2 powi e)) * 2 powi e)"

lemma log2_floor_bounds:
  assumes "0 < x"
  shows "2 powi log2_floor x \<le> x" and "x < 2 powi (log2_floor x + 1)"
proof -
  obtain n d where q: "quotient_of x = (n, d)" by force
  have d: "0 < d" using quotient_of_denom_pos [OF q] .
  have x: "x = of_int n / of_int d" using quotient_of_div [OF q] .
  have n: "0 < n" using assms d unfolding x by (simp add: zero_less_divide_iff)
  let ?a = "bit_len (nat n)" and ?b = "bit_len (nat d)"
  have bn: "2 ^ (?a - 1) \<le> nat n" "nat n < 2 ^ ?a" and bd: "2 ^ (?b - 1) \<le> nat d" "nat d < 2 ^ ?b"
    using bit_len_bounds [of "nat n"] bit_len_bounds [of "nat d"] n d by (simp_all only: zero_less_nat_eq)
  have pos: "0 < ?a" "0 < ?b" using n d by (simp_all add: bit_len.simps)
  have "of_nat (nat n) < (of_nat (2 ^ ?a) :: rat)" "of_nat (2 ^ (?a - 1)) \<le> (of_nat (nat n) :: rat)"
    "of_nat (nat d) < (of_nat (2 ^ ?b) :: rat)" "of_nat (2 ^ (?b - 1)) \<le> (of_nat (nat d) :: rat)"
    using bn bd by (simp_all only: of_nat_less_iff of_nat_le_iff)
  then have r: "of_int n < (2 :: rat) ^ ?a" "2 ^ (?a - 1) \<le> (of_int n :: rat)"
    "of_int d < (2 :: rat) ^ ?b" "2 ^ (?b - 1) \<le> (of_int d :: rat)"
    using n d by simp_all
  have upper: "x < 2 powi (int ?a - int ?b + 1)"
  proof -
    have "x < 2 ^ ?a / of_int d" unfolding x using r(1) d by (simp add: divide_strict_right_mono)
    also have "\<dots> \<le> 2 ^ ?a / 2 ^ (?b - 1)" using r(4) by (simp add: frac_le)
    also have "\<dots> = 2 powi (int ?a - int (?b - 1))" by (simp add: power_int_diff)
    also have "int ?a - int (?b - 1) = int ?a - int ?b + 1" using pos by simp
    finally show ?thesis .
  qed
  have lower: "2 powi (int ?a - int ?b - 1) < x"
  proof -
    have "int ?a - int ?b - 1 = int (?a - 1) - int ?b" using pos by simp
    then have "2 powi (int ?a - int ?b - 1) = (2 :: rat) powi (int (?a - 1) - int ?b)" by (simp only:)
    also have "\<dots> = 2 ^ (?a - 1) / 2 ^ ?b" by (simp add: power_int_diff)
    also have "\<dots> < 2 ^ (?a - 1) / of_int d" using r(3) d by (intro divide_strict_left_mono) auto
    also have "\<dots> \<le> x" unfolding x using r(2) d by (simp add: divide_right_mono)
    finally show ?thesis .
  qed
  show "2 powi log2_floor x \<le> x" "x < 2 powi (log2_floor x + 1)"
    using upper lower by (auto simp: log2_floor_def q Let_def)
qed

text \<open>Concrete values: the exponent is known from its bounds.\<close>

lemma log2_floor_eq:
  assumes "2 powi k \<le> x" and "x < 2 powi (k + 1)"
  shows "log2_floor x = k"
proof -
  have x: "0 < x" using assms(1) by (rule order_less_le_trans [rotated]) simp
  note b = log2_floor_bounds [OF x]
  have "(2 :: rat) powi log2_floor x < 2 powi (k + 1)" "(2 :: rat) powi k < 2 powi (log2_floor x + 1)"
    using b assms by linarith+
  then have "log2_floor x < k + 1" "k < log2_floor x + 1"
    using power_int_increasing [of _ _ "2 :: rat"] by (meson not_less one_le_numeral)+
  then show ?thesis by simp
qed

lemma round_even_eq:
  assumes "of_int q - 1 / 2 < x" and "x < of_int q + 1 / 2"
  shows "round_even x = q"
proof (cases "of_int q \<le> x")
  case True
  then have "\<lfloor>x\<rfloor> = q" using assms(2) by (simp add: floor_eq_iff)
  then show ?thesis using assms(2) by (simp add: round_even_def Let_def)
next
  case False
  then have "\<lfloor>x\<rfloor> = q - 1" using assms(1) by (simp add: floor_eq_iff)
  then show ?thesis using assms(1) by (simp add: round_even_def Let_def)
qed

lemma fl_eq:
  assumes "2 powi k \<le> x" and "x < 2 powi (k + 1)"
    and "of_int q - 1 / 2 < x / 2 powi (k - 52)" and "x / 2 powi (k - 52) < of_int q + 1 / 2"
  shows "fl x = of_int q * 2 powi (k - 52)"
proof -
  have "0 < x" using assms(1) by (rule order_less_le_trans [rotated]) simp
  then show ?thesis using log2_floor_eq [OF assms(1,2)] round_even_eq [OF assms(3,4)] by (simp add: fl_def Let_def)
qed

lemma round_even_near: "\<bar>of_int (round_even x) - x\<bar> \<le> 1 / 2"
proof -
  have "of_int \<lfloor>x\<rfloor> \<le> x" "x < of_int \<lfloor>x\<rfloor> + 1" by linarith+
  then show ?thesis unfolding round_even_def Let_def by (simp add: abs_le_iff)
qed

lemma fl_near: "\<bar>fl x - x\<bar> \<le> \<bar>x\<bar> / 2 ^ 53"
proof (cases "x = 0")
  case False
  let ?e = "log2_floor \<bar>x\<bar> - 52"
  have p: "(0 :: rat) < 2 powi ?e" by simp
  have "fl x - x = (of_int (round_even (x / 2 powi ?e)) - x / 2 powi ?e) * 2 powi ?e"
    using False p by (simp add: fl_def Let_def left_diff_distrib)
  then have "\<bar>fl x - x\<bar> = \<bar>of_int (round_even (x / 2 powi ?e)) - x / 2 powi ?e\<bar> * 2 powi ?e"
    using p by (simp add: abs_mult)
  also have "\<dots> \<le> 1 / 2 * 2 powi ?e" using p round_even_near by (intro mult_right_mono) auto
  also have "\<dots> = 2 powi log2_floor \<bar>x\<bar> / 2 ^ 53" by (simp add: power_int_diff)
  also have "\<dots> \<le> \<bar>x\<bar> / 2 ^ 53" using log2_floor_bounds(1) [of "\<bar>x\<bar>"] False by (simp add: divide_right_mono)
  finally show ?thesis .
qed (simp add: fl_def)

text \<open>The forms the bounds use, for values that are not negative.\<close>

lemma fl_upper: "0 \<le> x \<Longrightarrow> fl x \<le> x + x / 2 ^ 53"
proof -
  assume "0 \<le> x"
  then have "fl x - x \<le> x / 2 ^ 53" using fl_near [of x] unfolding abs_le_iff by (simp only: abs_of_nonneg)
  then show ?thesis by linarith
qed

lemma fl_lower: "0 \<le> x \<Longrightarrow> x - x / 2 ^ 53 \<le> fl x"
proof -
  assume "0 \<le> x"
  then have "- (fl x - x) \<le> x / 2 ^ 53" using fl_near [of x] unfolding abs_le_iff by (simp only: abs_of_nonneg)
  then show ?thesis by linarith
qed

lemma fl_nonneg: "0 \<le> x \<Longrightarrow> 0 \<le> fl x"
  using fl_lower [of x] by simp

text \<open>Whole numbers of 53 bits are exact.\<close>

lemma fl_of_nat: "n < 2 ^ 53 \<Longrightarrow> fl (of_nat n) = of_nat n"
proof (cases "n = 0")
  case False
  assume n: "n < 2 ^ 53"
  let ?k = "log2_floor (of_nat n)"
  have "(2 :: rat) powi ?k \<le> of_nat n" using False by (intro log2_floor_bounds) simp
  also have "\<dots> < of_nat (2 ^ 53)" using n by (simp only: of_nat_less_iff)
  also have "\<dots> = (2 :: rat) powi 53" by simp
  finally have less_53: "(2 :: rat) powi ?k < 2 powi 53" .
  have "?k < 53"
  proof (rule ccontr)
    assume "\<not> ?k < 53"
    then have "(2 :: rat) powi 53 \<le> 2 powi ?k" by (intro power_int_increasing) auto
    with less_53 show False by linarith
  qed
  then have "?k - 52 \<le> 0" by simp
  then obtain j where j: "?k - 52 = - int j" by (metis nonpos_int_cases)
  have "of_nat n / (2 :: rat) powi (?k - 52) = of_int (int n * 2 ^ j)"
    unfolding j by (simp add: power_int_minus divide_inverse)
  then have "round_even (of_nat n / 2 powi (?k - 52)) = int n * 2 ^ j"
    by (simp only: round_even_def Let_def floor_of_int diff_self) simp
  then show ?thesis
    using False unfolding fl_def Let_def by (simp add: j power_int_minus)
qed (simp add: fl_def)

end
