(* ===== verification/Rate_Limiter.thy ===== *)
theory Rate_Limiter
  imports Float_Round Authz_Middleware
begin

text \<open>
  Rate limiting: \<open>RateLimitRule\<close> (\<open>libs/domain/security_scheme/rate_limit_rule.cpp\<close>), \<open>TokenBucket\<close>,
  \<open>RateLimitStore\<close> and \<open>RateLimitMiddleware\<close> (\<open>apps/Backend_Seastar/src/http/middlewares\<close>). The steady
  clock, in nanoseconds, is an argument of every operation that reads it, as are the hash of the
  shards and the wrapped handler. \<open>double\<close> values are rationals rounded by \<open>fl\<close>. The headers write a
  capacity through \<open>static_cast<int>\<close>, which C++ leaves undefined above \<open>2 ^ 31 - 1\<close>; the model writes the floor
  itself, so it says nothing of the header of a burst that large.
\<close>

section \<open>Rules\<close>

datatype rate_limit_scope = PerIp | PerUser | PerApiKey | Global

fun scope_to_string :: "rate_limit_scope \<Rightarrow> string" where
  "scope_to_string PerIp = ''per_ip''"
| "scope_to_string PerUser = ''per_user''"
| "scope_to_string PerApiKey = ''per_api_key''"
| "scope_to_string Global = ''global''"

definition scope_from_string :: "string \<Rightarrow> string + rate_limit_scope" where
  "scope_from_string s =
     (if s = ''per_ip'' then Inr PerIp
      else if s = ''per_user'' then Inr PerUser
      else if s = ''per_api_key'' then Inr PerApiKey
      else if s = ''global'' then Inr Global
      else Inl (''RateLimitRule: unknown scope '' @ quoted s))"

text \<open>The window is in seconds; below \<open>2 ^ 53\<close> its conversion to \<open>double\<close> is exact.\<close>

record rate_limit_rule =
  rl_scope :: rate_limit_scope
  rl_requests :: "32 word"
  rl_window :: int
  rl_burst :: "32 word"

definition refill_rate_per_second :: "rate_limit_rule \<Rightarrow> rat" where
  "refill_rate_per_second rule =
     (if rl_window rule \<le> 0 then 0 else fl (of_nat (unat (rl_requests rule)) / of_int (rl_window rule)))"

definition rate_limit_rule_validate :: "rate_limit_rule \<Rightarrow> string option" where
  "rate_limit_rule_validate rule =
     (if rl_requests rule = 0 then Some ''RateLimitRule: requests must be > 0''
      else if rl_window rule \<le> 0 then Some ''RateLimitRule: window must be > 0 seconds''
      else if 24 * 3600 < rl_window rule then Some ''RateLimitRule: window exceeds 24h, likely a misconfiguration''
      else if rl_burst rule < rl_requests rule
      then Some ''RateLimitRule: burst must be >= requests (burst is the max accumulation, requests is the steady rate)''
      else if 1000000 < refill_rate_per_second rule
      then Some ''RateLimitRule: rate exceeds 1M requests/sec, likely a misconfiguration''
      else None)"

section \<open>Token buckets\<close>

record token_bucket =
  tb_capacity :: rat
  tb_refill_rate :: rat
  tb_tokens :: rat
  tb_last_refill :: int

definition make_bucket :: "int \<Rightarrow> rat \<Rightarrow> rat \<Rightarrow> token_bucket" where
  "make_bucket now capacity rate =
     \<lparr>tb_capacity = capacity, tb_refill_rate = rate, tb_tokens = capacity, tb_last_refill = now\<rparr>"

text \<open>\<open>std::chrono::duration<double>\<close> of a difference in nanoseconds.\<close>

definition elapsed_seconds :: "int \<Rightarrow> rat" where
  "elapsed_seconds ns = fl (fl (of_int ns) / 1000000000)"

definition refill_now :: "int \<Rightarrow> token_bucket \<Rightarrow> token_bucket" where
  "refill_now now b =
     (let x = fl (tb_tokens b + fl (elapsed_seconds (now - tb_last_refill b) * tb_refill_rate b))
      in b\<lparr>tb_tokens := (if x < tb_capacity b then x else tb_capacity b), tb_last_refill := now\<rparr>)"

definition try_consume :: "int \<Rightarrow> token_bucket \<Rightarrow> bool \<times> token_bucket" where
  "try_consume now b =
     (let b' = refill_now now b
      in if tb_tokens b' < 1 then (False, b') else (True, b'\<lparr>tb_tokens := fl (tb_tokens b' - 1)\<rparr>))"

definition seconds_until_next_token :: "token_bucket \<Rightarrow> int" where
  "seconds_until_next_token b =
     (if 1 \<le> tb_tokens b \<or> tb_refill_rate b \<le> 0 then 0
      else \<lceil>fl (fl (1 - tb_tokens b) / tb_refill_rate b)\<rceil>)"

section \<open>The store\<close>

text \<open>The buckets of one shard; \<open>shards\<close> are those of all, by number.\<close>

type_synonym rate_limit_store = "(string, token_bucket) table"
type_synonym shards = "nat \<Rightarrow> rate_limit_store"

record bucket_state =
  bs_allowed :: bool
  bs_remaining :: rat
  bs_capacity :: rat
  bs_retry_after_seconds :: int

definition shard_of_key :: "(string \<Rightarrow> nat) \<Rightarrow> nat \<Rightarrow> string \<Rightarrow> nat" where
  "shard_of_key hash smp_count key = hash key mod smp_count"

definition get_or_create_bucket :: "int \<Rightarrow> string \<Rightarrow> rat \<Rightarrow> rat \<Rightarrow> rate_limit_store \<Rightarrow> token_bucket" where
  "get_or_create_bucket now key capacity rate st =
     (case tbl_get st key of None \<Rightarrow> make_bucket now capacity rate | Some b \<Rightarrow> b)"

definition bucket_to_state :: "token_bucket \<Rightarrow> bucket_state" where
  "bucket_to_state b =
     (let has_token = (1 \<le> tb_tokens b)
      in \<lparr>bs_allowed = has_token, bs_remaining = tb_tokens b, bs_capacity = tb_capacity b,
          bs_retry_after_seconds = (if has_token then 0 else seconds_until_next_token b)\<rparr>)"

definition store_consume :: "int \<Rightarrow> string \<Rightarrow> rat \<Rightarrow> rat \<Rightarrow> rate_limit_store \<Rightarrow> bucket_state \<times> rate_limit_store" where
  "store_consume now key capacity rate st =
     (case try_consume now (get_or_create_bucket now key capacity rate st) of
        (consumed, b) \<Rightarrow>
          (\<lparr>bs_allowed = consumed, bs_remaining = tb_tokens b, bs_capacity = tb_capacity b,
            bs_retry_after_seconds = (if consumed then 0 else seconds_until_next_token b)\<rparr>, tbl_put key b st))"

definition store_peek :: "int \<Rightarrow> string \<Rightarrow> rat \<Rightarrow> rat \<Rightarrow> rate_limit_store \<Rightarrow> bucket_state \<times> rate_limit_store" where
  "store_peek now key capacity rate st =
     (case tbl_get st key of
        None \<Rightarrow>
          (\<lparr>bs_allowed = (1 \<le> capacity), bs_remaining = capacity, bs_capacity = capacity, bs_retry_after_seconds = 0\<rparr>, st)
      | Some b \<Rightarrow> let b' = refill_now now b in (bucket_to_state b', tbl_put key b' st))"

definition store_clear :: "rate_limit_store \<Rightarrow> rate_limit_store" where
  "store_clear st = []"

text \<open>\<open>invoke_on\<close> the shard \<open>n\<close>.\<close>

definition invoke_on :: "nat \<Rightarrow> (rate_limit_store \<Rightarrow> 'a \<times> rate_limit_store) \<Rightarrow> shards \<Rightarrow> 'a \<times> shards" where
  "invoke_on n f shards = (case f (shards n) of (x, st) \<Rightarrow> (x, shards(n := st)))"

section \<open>The middleware\<close>

definition identify_client :: "(string \<Rightarrow> string \<Rightarrow> bool) \<Rightarrow> request \<Rightarrow> rate_limit_scope \<Rightarrow> string" where
  "identify_client same req scope =
     (case scope of
        PerIp \<Rightarrow>
          (case hdr_get same (req_headers req) ''X-Forwarded-For'' of
             Some (c # cs) \<Rightarrow> before_char (CHR '','') (c # cs)
           | _ \<Rightarrow> (case hdr_get same (req_headers req) ''X-Real-IP'' of Some v \<Rightarrow> v | None \<Rightarrow> ''unknown''))
      | PerUser \<Rightarrow> (case hdr_get same (req_headers req) ''X-User-Id'' of Some v \<Rightarrow> v | None \<Rightarrow> [])
      | PerApiKey \<Rightarrow> (case hdr_get same (req_headers req) ''X-API-Key'' of Some v \<Rightarrow> v | None \<Rightarrow> [])
      | Global \<Rightarrow> ''global'')"

definition make_bucket_key :: "rate_limit_scope \<Rightarrow> string \<Rightarrow> string" where
  "make_bucket_key scope client = scope_to_string scope @ '':'' @ client"

record rule_context =
  rx_bucket_key :: string
  rx_owner_shard :: nat
  rx_capacity :: rat
  rx_refill_rate :: rat
  rx_active :: bool

definition rule_context_of ::
  "(string \<Rightarrow> string \<Rightarrow> bool) \<Rightarrow> (string \<Rightarrow> nat) \<Rightarrow> nat \<Rightarrow> request \<Rightarrow> rate_limit_rule \<Rightarrow> rule_context" where
  "rule_context_of same hash smp_count req rule =
     (let client = identify_client same req (rl_scope rule) in
      if client = []
      then \<lparr>rx_bucket_key = [], rx_owner_shard = 0, rx_capacity = 0, rx_refill_rate = 0, rx_active = False\<rparr>
      else let key = make_bucket_key (rl_scope rule) client in
        \<lparr>rx_bucket_key = key, rx_owner_shard = shard_of_key hash smp_count key,
         rx_capacity = of_nat (unat (rl_burst rule)), rx_refill_rate = refill_rate_per_second rule, rx_active = True\<rparr>)"

text \<open>The loop of the second step: the rule that refused with its state, if one did; \<open>clock i\<close> is the
  time of the \<open>i\<close>-th call of the store.\<close>

fun consume_loop ::
  "(nat \<Rightarrow> int) \<Rightarrow> nat \<Rightarrow> (rate_limit_rule \<times> rule_context) list \<Rightarrow> shards
   \<Rightarrow> (rate_limit_rule \<times> bucket_state) option \<times> shards" where
  "consume_loop clock i [] shards = (None, shards)"
| "consume_loop clock i ((rule, x) # rest) shards =
     (if \<not> rx_active x then consume_loop clock (Suc i) rest shards
      else case invoke_on (rx_owner_shard x)
          (store_consume (clock i) (rx_bucket_key x) (rx_capacity x) (rx_refill_rate x)) shards of
        (result, shards') \<Rightarrow>
          if \<not> bs_allowed result then (Some (rule, result), shards')
          else consume_loop clock (Suc i) rest shards')"

definition too_many_requests ::
  "(string \<Rightarrow> string \<Rightarrow> bool) \<Rightarrow> (json \<Rightarrow> string) \<Rightarrow> rate_limit_rule \<Rightarrow> bucket_state \<Rightarrow> reply \<Rightarrow> reply" where
  "too_many_requests same dump rule result rep =
     (let retry = int_str (bs_retry_after_seconds result);
          hs = fold (\<lambda>(k, v). hdr_put same k v)
            [(''Retry-After'', retry), (''X-RateLimit-Limit'', int_str \<lfloor>bs_capacity result\<rfloor>),
             (''X-RateLimit-Remaining'', ''0''), (''X-RateLimit-Reset'', retry),
             (''Content-Type'', ''application/json'')] (rep_headers rep)
      in \<lparr>rep_status = 429, rep_headers = hs,
          rep_content = dump (JObject [(''error'', JString ''rate_limit_exceeded''),
            (''limit'', JInt (word_of_int \<lfloor>bs_capacity result\<rfloor>)), (''message'', JString ''Trop de requetes, veuillez patienter''),
            (''retry_after_seconds'', JInt (word_of_int (bs_retry_after_seconds result))),
            (''scope'', JString (scope_to_string (rl_scope rule)))])\<rparr>)"

definition rate_limit_handle ::
  "(string \<Rightarrow> string \<Rightarrow> bool) \<Rightarrow> (json \<Rightarrow> string) \<Rightarrow> (string \<Rightarrow> nat) \<Rightarrow> nat \<Rightarrow> (nat \<Rightarrow> int) \<Rightarrow> rate_limit_rule list
   \<Rightarrow> handler \<Rightarrow> string \<Rightarrow> request \<Rightarrow> reply \<Rightarrow> shards \<Rightarrow> http_result \<times> shards" where
  "rate_limit_handle same dump hash smp_count clock rules inner p req rep shards =
     (let contexts = map (rule_context_of same hash smp_count req) rules in
      case consume_loop clock 0 (zip rules contexts) shards of
        (Some (rule, result), shards') \<Rightarrow> (Inr (too_many_requests same dump rule result rep), shards')
      | (None, shards') \<Rightarrow>
          (case inner p req rep of
             Inl ex \<Rightarrow> (Inl ex, shards')
           | Inr rep' \<Rightarrow>
          (case find rx_active contexts of
             None \<Rightarrow> (Inr rep', shards')
           | Some x \<Rightarrow>
               (case invoke_on (rx_owner_shard x)
                   (store_peek (clock (length rules)) (rx_bucket_key x) (rx_capacity x) (rx_refill_rate x)) shards' of
                  (info, shards'') \<Rightarrow>
                    (Inr (rep'\<lparr>rep_headers := hdr_put same ''X-RateLimit-Remaining'' (int_str \<lfloor>bs_remaining info\<rfloor>)
                        (hdr_put same ''X-RateLimit-Limit'' (int_str \<lfloor>bs_capacity info\<rfloor>) (rep_headers rep'))\<rparr>),
                     shards'')))))"

end
