(* ===== verification/Rate_Laws.thy ===== *)
theory Rate_Laws
  imports Rate_Limiter
begin

text \<open>
  Laws of the token buckets: their invariant, what one refill can add with all its roundings, and how
  many calls of a store a bucket admits. \<open>store_call\<close> is a call of a store with the time it reads.
\<close>

section \<open>One bucket\<close>

definition bucket_ok :: "rat \<Rightarrow> rat \<Rightarrow> token_bucket \<Rightarrow> bool" where
  "bucket_ok capacity rate b \<longleftrightarrow>
     tb_capacity b = capacity \<and> tb_refill_rate b = rate \<and> 0 \<le> tb_tokens b \<and> tb_tokens b \<le> capacity
     \<and> capacity \<le> 2 ^ 53"

definition unit_error :: rat where
  "unit_error = 1 / 2 ^ 53"

lemma fl_upper_unit: "0 \<le> x \<Longrightarrow> fl x \<le> x * (1 + unit_error)"
  using fl_upper [of x] by (simp add: unit_error_def distrib_left)

lemma unit_error_pos: "0 < unit_error"
  by (simp add: unit_error_def)

text \<open>Tokens per nanosecond, with the error of four roundings.\<close>

definition fill_rate :: "rat \<Rightarrow> rat" where
  "fill_rate rate = rate * (1 + unit_error) ^ 4 / 1000000000"

lemma fill_rate_nonneg: "0 \<le> rate \<Longrightarrow> 0 \<le> fill_rate rate"
  using unit_error_pos by (simp add: fill_rate_def)

lemma elapsed_seconds_upper:
  assumes "0 \<le> ns"
  shows "0 \<le> elapsed_seconds ns \<and> elapsed_seconds ns \<le> of_int ns / 1000000000 * (1 + unit_error) ^ 2"
proof -
  let ?q = "fl (of_int ns) / 1000000000"
  have ns: "(0 :: rat) \<le> of_int ns" using assms by simp
  have q: "0 \<le> ?q" using fl_nonneg [OF ns] by simp
  have "fl (of_int ns) \<le> of_int ns * (1 + unit_error)" by (rule fl_upper_unit [OF ns])
  then have "?q \<le> of_int ns / 1000000000 * (1 + unit_error)" by (simp add: divide_right_mono)
  then have "?q * (1 + unit_error) \<le> of_int ns / 1000000000 * (1 + unit_error) * (1 + unit_error)"
    using unit_error_pos by (intro mult_right_mono) auto
  then have "fl ?q \<le> of_int ns / 1000000000 * (1 + unit_error) ^ 2"
    using fl_upper_unit [OF q] unfolding power2_eq_square mult.assoc [symmetric] by linarith
  then show ?thesis using fl_nonneg [OF q] by (simp add: elapsed_seconds_def)
qed

lemma refill_bounds:
  assumes "bucket_ok capacity rate b" and "0 \<le> rate" and "tb_last_refill b \<le> now"
  shows "bucket_ok capacity rate (refill_now now b) \<and> tb_last_refill (refill_now now b) = now
    \<and> tb_tokens (refill_now now b) \<le>
        tb_tokens b + capacity * unit_error + of_int (now - tb_last_refill b) * fill_rate rate"
proof -
  let ?ns = "now - tb_last_refill b"
  let ?el = "elapsed_seconds ?ns"
  let ?p = "fl (?el * rate)"
  let ?x = "fl (tb_tokens b + ?p)"
  have el: "0 \<le> ?el" "?el \<le> of_int ?ns / 1000000000 * (1 + unit_error) ^ 2"
    using elapsed_seconds_upper [of ?ns] assms(3) by simp_all
  have prod: "0 \<le> ?el * rate" using el assms(2) by simp
  have "?el * rate * (1 + unit_error) \<le> (of_int ?ns / 1000000000 * (1 + unit_error) ^ 2) * rate * (1 + unit_error)"
    using el assms(2) unit_error_pos by (intro mult_right_mono) auto
  with fl_upper_unit [OF prod]
  have p: "?p \<le> of_int ?ns / 1000000000 * (1 + unit_error) ^ 3 * rate"
    by (simp add: power3_eq_cube power2_eq_square mult_ac)
  have tok: "0 \<le> tb_tokens b" "tb_tokens b \<le> capacity" using assms(1) by (simp_all add: bucket_ok_def)
  have sum: "0 \<le> tb_tokens b + ?p" using tok fl_nonneg [OF prod] by simp
  have "?p * (1 + unit_error) \<le> of_int ?ns / 1000000000 * (1 + unit_error) ^ 3 * rate * (1 + unit_error)"
    using p unit_error_pos by (intro mult_right_mono) auto
  also have "\<dots> = of_int ?ns * fill_rate rate"
    by (simp add: fill_rate_def power3_eq_cube power4_eq_xxxx mult_ac)
  finally have fill: "?p * (1 + unit_error) \<le> of_int ?ns * fill_rate rate" .
  have "?x \<le> (tb_tokens b + ?p) * (1 + unit_error)" by (rule fl_upper_unit [OF sum])
  also have "\<dots> = tb_tokens b + tb_tokens b * unit_error + ?p * (1 + unit_error)" by (simp add: algebra_simps)
  also have "\<dots> \<le> tb_tokens b + capacity * unit_error + of_int ?ns * fill_rate rate"
    using fill tok unit_error_pos by (intro add_mono mult_right_mono) auto
  finally have x: "?x \<le> tb_tokens b + capacity * unit_error + of_int ?ns * fill_rate rate" .
  show ?thesis
    using assms(1) x tok fl_nonneg [OF sum] by (auto simp: refill_now_def Let_def bucket_ok_def)
qed

lemma consume_bounds:
  assumes "bucket_ok capacity rate b" and "0 \<le> rate" and "tb_last_refill b \<le> now"
    and "try_consume now b = (admit, b')"
  shows "bucket_ok capacity rate b' \<and> tb_last_refill b' = now
    \<and> tb_tokens b' + (if admit then 1 else 0) \<le>
        tb_tokens b + 2 * capacity * unit_error + of_int (now - tb_last_refill b) * fill_rate rate"
proof -
  let ?b = "refill_now now b"
  note r = refill_bounds [OF assms(1-3)]
  have cap: "0 \<le> capacity * unit_error"
    using assms(1) unit_error_pos by (auto simp: bucket_ok_def intro: mult_nonneg_nonneg)
  show ?thesis
  proof (cases "tb_tokens ?b < 1")
    case True
    then have "\<not> admit" "b' = ?b" using assms(4) by (simp_all add: try_consume_def Let_def)
    then show ?thesis using r cap by simp
  next
    case False
    then have eq: "admit" "b' = ?b\<lparr>tb_tokens := fl (tb_tokens ?b - 1)\<rparr>"
      using assms(4) by (simp_all add: try_consume_def Let_def)
    have pos: "0 \<le> tb_tokens ?b - 1" using False by simp
    have "tb_tokens ?b \<le> capacity" using r by (simp add: bucket_ok_def)
    then have "(tb_tokens ?b - 1) * unit_error \<le> capacity * unit_error"
      using unit_error_pos by (intro mult_right_mono) auto
    then have up: "fl (tb_tokens ?b - 1) \<le> tb_tokens ?b - 1 + capacity * unit_error"
      using fl_upper_unit [OF pos] by (simp add: distrib_left)
    have "capacity * unit_error \<le> 1" using assms(1) by (simp add: bucket_ok_def unit_error_def)
    then have "fl (tb_tokens ?b - 1) \<le> capacity" using up \<open>tb_tokens ?b \<le> capacity\<close> by linarith
    then have "bucket_ok capacity rate b'" using r eq(2) fl_nonneg [OF pos] by (simp add: bucket_ok_def)
    then show ?thesis using r eq up by simp
  qed
qed

text \<open>A refused consumption tells after how many seconds a token is there; with one second more the
  roundings cannot take it away.\<close>

lemma fl_lower_unit: "0 \<le> x \<Longrightarrow> x * (1 - unit_error) \<le> fl x"
  using fl_lower [of x] by (simp add: unit_error_def right_diff_distrib)

lemma elapsed_seconds_lower:
  assumes "0 \<le> s" and "s * 1000000000 \<le> ns"
  shows "of_int s * (1 - unit_error) ^ 2 \<le> elapsed_seconds ns"
proof -
  let ?a = "1 - unit_error" and ?q = "fl (of_int ns) / 1000000000"
  have a: "0 \<le> ?a" by (simp add: unit_error_def)
  have "(of_int (s * 1000000000) :: rat) \<le> of_int ns" using assms(2) by (rule of_int_le_iff [THEN iffD2])
  then have ns: "0 \<le> (of_int ns :: rat)" "of_int s * 1000000000 \<le> (of_int ns :: rat)" using assms by simp_all
  have "of_int s * 1000000000 * ?a \<le> of_int ns * ?a" using ns a by (intro mult_right_mono) auto
  then have "of_int s * 1000000000 * ?a \<le> fl (of_int ns)" using fl_lower_unit [OF ns(1)] by linarith
  then have q: "of_int s * ?a \<le> ?q" by (simp add: field_simps)
  moreover have "0 \<le> of_int s * ?a" using assms(1) a by simp
  ultimately have "?q * ?a \<le> fl ?q" by (intro fl_lower_unit) linarith
  moreover have "of_int s * ?a * ?a \<le> ?q * ?a" using q a by (rule mult_right_mono)
  ultimately have "of_int s * ?a * ?a \<le> fl ?q" by (rule order_trans [rotated])
  then show ?thesis unfolding elapsed_seconds_def power2_eq_square mult.assoc .
qed

lemma retry_seconds_enough:
  assumes "tb_tokens b < 1" and "0 < tb_refill_rate b"
  shows "(1 - tb_tokens b) * (1 - unit_error) ^ 2 \<le> of_int (seconds_until_next_token b) * tb_refill_rate b
    \<and> 0 \<le> seconds_until_next_token b"
proof -
  let ?a = "1 - unit_error" and ?d = "fl (1 - tb_tokens b)" and ?r = "tb_refill_rate b"
  have a: "0 \<le> ?a" by (simp add: unit_error_def)
  have d: "(1 - tb_tokens b) * ?a \<le> ?d" "0 \<le> ?d" using assms(1) by (simp_all add: fl_lower_unit fl_nonneg)
  then have q: "0 \<le> ?d / ?r" using assms(2) by simp
  have secs: "seconds_until_next_token b = \<lceil>fl (?d / ?r)\<rceil>" using assms by (simp add: seconds_until_next_token_def)
  have "?d / ?r * ?a \<le> of_int \<lceil>fl (?d / ?r)\<rceil>" using fl_lower_unit [OF q] le_of_int_ceiling order_trans by blast
  then have "?d / ?r * ?a * ?r \<le> of_int \<lceil>fl (?d / ?r)\<rceil> * ?r" using assms(2) by (intro mult_right_mono) auto
  moreover have "?d / ?r * ?a * ?r = ?d * ?a" using assms(2) by simp
  moreover have "(1 - tb_tokens b) * ?a * ?a \<le> ?d * ?a" using d(1) a by (rule mult_right_mono)
  moreover have "0 \<le> fl (?d / ?r)" by (rule fl_nonneg [OF q])
  then have "0 \<le> \<lceil>fl (?d / ?r)\<rceil>" by (simp add: less_imp_le le_ceiling_iff order_less_le_trans [of _ 0])
  ultimately show ?thesis unfolding secs by (simp add: power2_eq_square mult.assoc)
qed

lemma waiting_suffices:
  assumes "bucket_ok capacity rate b" and "1 \<le> capacity" and "1 / 100000 \<le> rate" and "tb_tokens b < 1"
    and "tb_last_refill b + (seconds_until_next_token b + 1) * 1000000000 \<le> now"
  shows "fst (try_consume now b)"
proof -
  let ?a = "1 - unit_error" and ?t = "tb_tokens b" and ?s = "seconds_until_next_token b"
  let ?el = "elapsed_seconds (now - tb_last_refill b)"
  have b: "tb_refill_rate b = rate" "tb_capacity b = capacity" "0 \<le> ?t" using assms(1) by (simp_all add: bucket_ok_def)
  have a: "0 \<le> ?a" "?a \<le> 1" by (simp_all add: unit_error_def)
  then have a5: "?a ^ 5 \<le> 1" by (rule power_le_one)
  have r: "0 < rate" using assms(3) by (rule order_less_le_trans [rotated]) simp
  have s: "(1 - ?t) * ?a ^ 2 \<le> of_int ?s * rate" "0 \<le> ?s"
    using retry_seconds_enough [OF assms(4)] r b(1) by simp_all
  have el: "of_int (?s + 1) * ?a ^ 2 \<le> ?el" using s(2) assms(5) by (intro elapsed_seconds_lower) auto
  have "of_int (?s + 1) * ?a ^ 2 * (rate * ?a) \<le> ?el * (rate * ?a)" using el r a(1) by (intro mult_right_mono) auto
  moreover have "0 \<le> of_int (?s + 1) * ?a ^ 2" using s(2) by simp
  then have prod: "0 \<le> ?el * rate" using el r by simp
  moreover note fl_lower_unit [OF prod]
  ultimately have "of_int (?s + 1) * ?a ^ 2 * (rate * ?a) \<le> fl (?el * rate)" by (simp add: mult.assoc)
  then have p: "(of_int ?s * rate + rate) * ?a ^ 3 \<le> fl (?el * rate)"
    by (simp add: power2_eq_square power3_eq_cube algebra_simps)
  have "(1 - ?t) * ?a ^ 2 * ?a ^ 3 \<le> of_int ?s * rate * ?a ^ 3" using s(1) a(1) by (intro mult_right_mono) auto
  moreover have "(1 - ?t) * ?a ^ 2 * ?a ^ 3 = ?a ^ 5 - ?t * ?a ^ 5" by (simp add: power_add [symmetric] left_diff_distrib mult.assoc)
  moreover have "?t * ?a ^ 5 \<le> ?t" using b(3) a5 mult_left_mono [of "?a ^ 5" 1 ?t] by simp
  moreover have "1 / 100000 * ?a ^ 3 \<le> rate * ?a ^ 3" using assms(3) a(1) by (intro mult_right_mono) auto
  ultimately have sum: "?a ^ 5 + 1 / 100000 * ?a ^ 3 \<le> ?t + fl (?el * rate)" using p by (simp add: distrib_right)
  have "(?a ^ 5 + 1 / 100000 * ?a ^ 3) * ?a \<le> (?t + fl (?el * rate)) * ?a" using sum a(1) by (rule mult_right_mono)
  moreover have "1 \<le> (?a ^ 5 + 1 / 100000 * ?a ^ 3) * ?a" by (simp add: unit_error_def power_divide field_simps)
  moreover have "(?t + fl (?el * rate)) * ?a \<le> fl (?t + fl (?el * rate))"
    using b(3) fl_nonneg [OF prod] by (intro fl_lower_unit) auto
  ultimately have "1 \<le> fl (?t + fl (?el * rate))" by linarith
  then show ?thesis using assms(2) by (simp add: try_consume_def refill_now_def Let_def b)
qed

text \<open>The same over the store: the bucket of \<open>key\<close> is one of the rule, not refilled in the future.\<close>

definition store_ok :: "string \<Rightarrow> rat \<Rightarrow> rat \<Rightarrow> int \<Rightarrow> rate_limit_store \<Rightarrow> bool" where
  "store_ok key capacity rate now st =
     (case map_of st key of None \<Rightarrow> True | Some b \<Rightarrow> bucket_ok capacity rate b \<and> tb_last_refill b \<le> now)"

lemma refused_store_waits:
  assumes "store_ok key capacity rate now st" and "1 \<le> capacity" and "capacity < 2 ^ 53" and "1 / 100000 \<le> rate"
    and "capacity = of_nat n" and "store_consume now key capacity rate st = (res, st')" and "\<not> bs_allowed res"
    and "now + (bs_retry_after_seconds res + 1) * 1000000000 \<le> later"
  shows "bs_allowed (fst (store_consume later key capacity rate st'))"
proof -
  let ?b = "get_or_create_bucket now key capacity rate st"
  have r: "0 \<le> rate" using assms(4) by (rule order_trans [rotated]) simp
  have ok: "bucket_ok capacity rate ?b" "tb_last_refill ?b \<le> now"
    using assms(1-3) by (auto simp: store_ok_def get_or_create_bucket_def bucket_ok_def make_bucket_def split: option.splits)
  obtain admit b' where c: "try_consume now ?b = (admit, b')" by force
  then have refused: "\<not> admit" and res: "bs_retry_after_seconds res = seconds_until_next_token b'"
    and st': "map_of st' key = Some b'"
    using assms(6,7) by (auto simp: store_consume_def)
  have "bucket_ok capacity rate b'" "tb_last_refill b' = now" using consume_bounds [OF ok(1) r ok(2) c] by auto
  moreover have "tb_tokens b' < 1" using c refused by (auto simp: try_consume_def Let_def split: if_splits)
  ultimately have "fst (try_consume later b')"
    using waiting_suffices [OF _ assms(2,4), of b' later] assms(8) res by simp
  then show ?thesis
    by (simp add: store_consume_def get_or_create_bucket_def st' case_prod_beta)
qed

section \<open>Calls of a store\<close>

datatype store_call = ConsumeCall (call_time: int) (call_key: string) (call_capacity: rat) (call_rate: rat)
  | PeekCall (call_time: int) (call_key: string) (call_capacity: rat) (call_rate: rat)

fun run_call :: "store_call \<Rightarrow> rate_limit_store \<Rightarrow> bucket_state \<times> rate_limit_store" where
  "run_call (ConsumeCall now key capacity rate) st = store_consume now key capacity rate st"
| "run_call (PeekCall now key capacity rate) st = store_peek now key capacity rate st"

text \<open>How many consumptions of \<open>key\<close> a sequence of calls admits.\<close>

fun admitted :: "string \<Rightarrow> store_call list \<Rightarrow> rate_limit_store \<Rightarrow> nat" where
  "admitted key [] st = 0"
| "admitted key (c # cs) st =
     (case run_call c st of (res, st') \<Rightarrow>
       (if (case c of ConsumeCall _ k _ _ \<Rightarrow> k = key | PeekCall _ _ _ _ \<Rightarrow> False) \<and> bs_allowed res then 1 else 0)
         + admitted key cs st')"

text \<open>Calls in time order, those on \<open>key\<close> with the parameters of one rule.\<close>

definition calls_ok :: "string \<Rightarrow> rat \<Rightarrow> rat \<Rightarrow> int \<Rightarrow> store_call list \<Rightarrow> bool" where
  "calls_ok key capacity rate finish calls \<longleftrightarrow>
     sorted (map call_time calls)
     \<and> (\<forall>c \<in> set calls. call_time c \<le> finish
          \<and> (call_key c = key \<longrightarrow> call_capacity c = capacity \<and> call_rate c = rate))"

lemma calls_ok_Cons:
  "calls_ok key capacity rate finish (c # cs) \<longleftrightarrow>
     call_time c \<le> finish \<and> (call_key c = key \<longrightarrow> call_capacity c = capacity \<and> call_rate c = rate)
     \<and> (\<forall>d \<in> set cs. call_time c \<le> call_time d) \<and> calls_ok key capacity rate finish cs"
  by (auto simp: calls_ok_def)

lemma run_call_other:
  "call_key c \<noteq> key \<Longrightarrow> run_call c st = (res, st') \<Longrightarrow> map_of st' key = map_of st key"
  by (cases c) (auto simp: store_consume_def store_peek_def Let_def split: prod.splits option.splits)

lemma put_twice: "tbl_put k v (tbl_put k w t) = tbl_put k v t"
  by (induction t) auto

text \<open>One call on \<open>key\<close>; without a bucket the full one of a first consumption is taken.\<close>

lemma run_call_bucket:
  assumes "call_key c = key" "call_capacity c = capacity" "call_rate c = rate" and "run_call c st = (res, st')"
    and "map_of st key = Some b" and "bucket_ok capacity rate b" "0 \<le> rate" "tb_last_refill b \<le> call_time c"
  shows "\<exists>b'. map_of st' key = Some b' \<and> bucket_ok capacity rate b' \<and> tb_last_refill b' = call_time c
    \<and> tb_tokens b' + (if (\<exists>t k cap r. c = ConsumeCall t k cap r) \<and> bs_allowed res then 1 else 0) \<le>
        tb_tokens b + 2 * capacity * unit_error + of_int (call_time c - tb_last_refill b) * fill_rate rate"
proof (cases c)
  case (ConsumeCall t k cap r)
  obtain admit b' where c: "try_consume t b = (admit, b')" by force
  have "tb_last_refill b \<le> t" using assms(8) ConsumeCall by simp
  from consume_bounds [OF assms(6,7) this c] show ?thesis
    using assms(1-5) ConsumeCall c by (auto simp: store_consume_def get_or_create_bucket_def)
next
  case (PeekCall t k cap r)
  have "0 \<le> capacity * unit_error"
    using assms(6) unit_error_pos by (auto simp: bucket_ok_def intro: mult_nonneg_nonneg)
  with refill_bounds [OF assms(6,7), of t] show ?thesis
    using assms(1-5,8) PeekCall by (auto simp: store_peek_def Let_def)
qed

lemma admitted_from_bucket:
  assumes "map_of st key = Some b" and "bucket_ok capacity rate b" and "0 \<le> rate"
    and "calls_ok key capacity rate finish calls" and "\<forall>c \<in> set calls. tb_last_refill b \<le> call_time c"
    and "tb_last_refill b \<le> finish"
  shows "of_nat (admitted key calls st) \<le> tb_tokens b + of_nat (2 * length calls) * (capacity * unit_error)
    + of_int (finish - tb_last_refill b) * fill_rate rate"
  using assms
proof (induction calls arbitrary: st b)
  case Nil
  then show ?case using fill_rate_nonneg [OF assms(3)] by (simp add: bucket_ok_def)
next
  case (Cons c cs)
  obtain res st' where run: "run_call c st = (res, st')" by force
  have cap: "0 \<le> capacity * unit_error"
    using Cons.prems(2) unit_error_pos by (auto simp: bucket_ok_def intro: mult_nonneg_nonneg)
  have ok: "calls_ok key capacity rate finish cs" "call_time c \<le> finish" "\<forall>d \<in> set cs. call_time c \<le> call_time d"
    using Cons.prems(4) by (simp_all add: calls_ok_Cons)
  have len: "of_nat (2 * length (c # cs)) * (capacity * unit_error)
      = of_nat (2 * length cs) * (capacity * unit_error) + 2 * (capacity * unit_error)"
    by (simp add: algebra_simps)
  show ?case
  proof (cases "call_key c = key")
    case True
    have params: "call_capacity c = capacity" "call_rate c = rate" using Cons.prems(4) True by (simp_all add: calls_ok_Cons)
    have "tb_last_refill b \<le> call_time c" using Cons.prems(5) by simp
    from run_call_bucket [OF True params run Cons.prems(1,2,3) this] obtain b' where
      b': "map_of st' key = Some b'" "bucket_ok capacity rate b'" "tb_last_refill b' = call_time c"
      and step: "tb_tokens b' + (if (\<exists>t k cap r. c = ConsumeCall t k cap r) \<and> bs_allowed res then 1 else 0) \<le>
        tb_tokens b + 2 * capacity * unit_error + of_int (call_time c - tb_last_refill b) * fill_rate rate" by blast
    have "of_nat (admitted key cs st') \<le> tb_tokens b' + of_nat (2 * length cs) * (capacity * unit_error)
        + of_int (finish - call_time c) * fill_rate rate"
      using Cons.IH [OF b'(1,2) Cons.prems(3) ok(1)] ok(2,3) b'(3) by simp
    moreover have "of_nat (admitted key (c # cs) st) =
        (if (\<exists>t k cap r. c = ConsumeCall t k cap r) \<and> bs_allowed res then 1 else (0 :: rat)) + of_nat (admitted key cs st')"
      using run True by (cases c) auto
    moreover have "of_int (finish - tb_last_refill b) * fill_rate rate =
        of_int (call_time c - tb_last_refill b) * fill_rate rate + of_int (finish - call_time c) * fill_rate rate"
      by (simp add: algebra_simps)
    ultimately show ?thesis using step len by linarith
  next
    case False
    have "of_nat (admitted key cs st') \<le> tb_tokens b + of_nat (2 * length cs) * (capacity * unit_error)
        + of_int (finish - tb_last_refill b) * fill_rate rate"
      using Cons.IH [of st' b] Cons.prems run_call_other [OF False run] ok by simp
    moreover have "admitted key (c # cs) st = admitted key cs st'"
      using run False by (cases c) auto
    ultimately show ?thesis using len cap by simp
  qed
qed

lemma admitted_from_start:
  assumes "map_of st key = None" and "0 \<le> rate" and "0 \<le> capacity" "capacity \<le> 2 ^ 53"
    and "calls_ok key capacity rate finish calls" and "\<forall>c \<in> set calls. start \<le> call_time c" and "start \<le> finish"
  shows "of_nat (admitted key calls st) \<le> capacity + of_nat (2 * length calls) * (capacity * unit_error)
    + of_int (finish - start) * fill_rate rate"
  using assms
proof (induction calls arbitrary: st)
  case Nil
  then show ?case using fill_rate_nonneg [OF assms(2)] by simp
next
  case (Cons c cs)
  obtain res st' where run: "run_call c st = (res, st')" by force
  have cap: "0 \<le> capacity * unit_error" using assms(3) unit_error_pos by simp
  have ok: "calls_ok key capacity rate finish cs" "call_time c \<le> finish"
    using Cons.prems(5) by (simp_all add: calls_ok_Cons)
  show ?case
  proof (cases "call_key c = key \<and> (\<exists>t k cap r. c = ConsumeCall t k cap r)")
    case True
    then have params: "call_key c = key" "call_capacity c = capacity" "call_rate c = rate"
      using Cons.prems(5) by (simp_all add: calls_ok_Cons)
    let ?b = "make_bucket (call_time c) capacity rate"
    let ?st = "tbl_put key ?b st"
    have b: "bucket_ok capacity rate ?b" "tb_last_refill ?b = call_time c" "tb_tokens ?b = capacity"
      using assms(3,4) by (simp_all add: bucket_ok_def make_bucket_def)
    have same: "admitted key (c # cs) st = admitted key (c # cs) ?st"
      using True params Cons.prems(1) put_twice
      by (auto simp: store_consume_def get_or_create_bucket_def split: prod.splits)
    have "of_nat (admitted key (c # cs) ?st) \<le> capacity + of_nat (2 * length (c # cs)) * (capacity * unit_error)
        + of_int (finish - call_time c) * fill_rate rate"
      using admitted_from_bucket [OF _ b(1) assms(2) Cons.prems(5), of ?st] Cons.prems(5) b
      by (simp add: calls_ok_Cons)
    moreover have "of_int (finish - call_time c) * fill_rate rate \<le> of_int (finish - start) * fill_rate rate"
      using Cons.prems(6) fill_rate_nonneg [OF assms(2)] by (intro mult_right_mono) auto
    ultimately show ?thesis unfolding same by linarith
  next
    case False
    have none: "map_of st' key = None"
    proof (cases "call_key c = key")
      case True
      with False run Cons.prems(1) show ?thesis by (cases c) (auto simp: store_peek_def)
    qed (use run_call_other [OF _ run] Cons.prems(1) in simp)
    have "admitted key (c # cs) st = admitted key cs st'" using run False by (cases c) auto
    moreover have "of_nat (admitted key cs st') \<le> capacity + of_nat (2 * length cs) * (capacity * unit_error)
        + of_int (finish - start) * fill_rate rate"
      using Cons.IH [OF none assms(2-4) ok(1)] Cons.prems(6,7) by simp
    moreover have "of_nat (2 * length cs) * (capacity * unit_error) \<le> of_nat (2 * length (c # cs)) * (capacity * unit_error)"
      using cap by (intro mult_right_mono) auto
    ultimately show ?thesis by linarith
  qed
qed

text \<open>The calls that went before: whatever they did, the bucket of the key is one of the rule, and a refill
  leaves at most the capacity in it.\<close>

fun run_calls :: "store_call list \<Rightarrow> rate_limit_store \<Rightarrow> rate_limit_store" where
  "run_calls [] st = st"
| "run_calls (c # cs) st = run_calls cs (snd (run_call c st))"

definition bucket_before :: "string \<Rightarrow> rat \<Rightarrow> rat \<Rightarrow> store_call list \<Rightarrow> rate_limit_store \<Rightarrow> bool" where
  "bucket_before key capacity rate calls st =
     (case map_of st key of None \<Rightarrow> True
      | Some b \<Rightarrow> bucket_ok capacity rate b \<and> (\<forall>c \<in> set calls. tb_last_refill b \<le> call_time c))"

lemma run_call_first:
  assumes "call_key c = key" "call_capacity c = capacity" "call_rate c = rate" and "run_call c st = (res, st')"
    and "map_of st key = None" and "0 \<le> rate" "0 \<le> capacity" "capacity \<le> 2 ^ 53" and "map_of st' key = Some b"
  shows "bucket_ok capacity rate b \<and> tb_last_refill b = call_time c"
proof (cases c)
  case (ConsumeCall t k cap r)
  let ?b = "make_bucket t capacity rate"
  have b: "bucket_ok capacity rate ?b" "tb_last_refill ?b \<le> t"
    using assms(7,8) by (simp_all add: bucket_ok_def make_bucket_def)
  obtain admit b' where c: "try_consume t ?b = (admit, b')" by force
  from consume_bounds [OF b(1) assms(6) b(2) c] show ?thesis
    using assms(1-5,9) ConsumeCall c by (auto simp: store_consume_def get_or_create_bucket_def)
next
  case (PeekCall t k cap r)
  then show ?thesis using assms by (auto simp: store_peek_def)
qed

lemma bucket_before_step:
  assumes "bucket_before key capacity rate (c # cs) st" and "calls_ok key capacity rate finish (c # cs)"
    and "0 \<le> rate" "0 \<le> capacity" "capacity \<le> 2 ^ 53"
  shows "bucket_before key capacity rate cs (snd (run_call c st))"
proof -
  obtain res st' where run: "run_call c st = (res, st')" by force
  have later: "\<forall>d \<in> set cs. call_time c \<le> call_time d" using assms(2) by (simp add: calls_ok_Cons)
  show ?thesis
  proof (cases "call_key c = key")
    case True
    then have params: "call_capacity c = capacity" "call_rate c = rate" using assms(2) by (simp_all add: calls_ok_Cons)
    show ?thesis
    proof (cases "map_of st key")
      case None
      with run_call_first [OF True params run None assms(3-5)] show ?thesis
        using run later by (auto simp: bucket_before_def split: option.split)
    next
      case (Some b)
      then have "bucket_ok capacity rate b" "tb_last_refill b \<le> call_time c"
        using assms(1) by (simp_all add: bucket_before_def)
      from run_call_bucket [OF True params run Some this(1) assms(3) this(2)] show ?thesis
        using run later by (auto simp: bucket_before_def)
    qed
  next
    case False
    from run_call_other [OF False run] show ?thesis
      using run assms(1) by (auto simp: bucket_before_def split: option.splits)
  qed
qed

lemma bucket_before_calls:
  assumes "bucket_before key capacity rate (earlier @ calls) st" and "calls_ok key capacity rate finish (earlier @ calls)"
    and "0 \<le> rate" "0 \<le> capacity" "capacity \<le> 2 ^ 53"
  shows "bucket_before key capacity rate calls (run_calls earlier st)"
  using assms(1,2)
proof (induction earlier arbitrary: st)
  case (Cons c cs)
  from bucket_before_step [OF Cons.prems(1,2) [unfolded append_Cons] assms(3-5)] Cons show ?case
    by (simp add: calls_ok_Cons)
qed simp

lemma consume_capped:
  assumes "bucket_ok capacity rate b" and "0 \<le> rate" and "tb_last_refill b \<le> now"
    and "try_consume now b = (admit, b')"
  shows "tb_tokens b' + (if admit then 1 else 0) \<le> capacity + capacity * unit_error"
proof -
  let ?b = "refill_now now b"
  have cap: "tb_tokens ?b \<le> capacity" using refill_bounds [OF assms(1-3)] by (simp add: bucket_ok_def)
  have nonneg: "0 \<le> capacity * unit_error"
    using assms(1) unit_error_pos by (auto simp: bucket_ok_def intro: mult_nonneg_nonneg)
  show ?thesis
  proof (cases "tb_tokens ?b < 1")
    case True
    then show ?thesis using assms(4) cap nonneg by (auto simp: try_consume_def Let_def)
  next
    case False
    then have "fl (tb_tokens ?b - 1) \<le> (tb_tokens ?b - 1) * (1 + unit_error)" by (intro fl_upper_unit) simp
    moreover have "(tb_tokens ?b - 1) * unit_error \<le> capacity * unit_error"
      using cap unit_error_pos by (intro mult_right_mono) auto
    ultimately have "fl (tb_tokens ?b - 1) + 1 \<le> capacity + capacity * unit_error"
      using cap by (simp add: distrib_left)
    then show ?thesis using False assms(4) by (auto simp: try_consume_def Let_def)
  qed
qed

lemma run_call_capped:
  assumes "call_key c = key" "call_capacity c = capacity" "call_rate c = rate" and "run_call c st = (res, st')"
    and "map_of st key = Some b" and "bucket_ok capacity rate b" "0 \<le> rate" "tb_last_refill b \<le> call_time c"
    and "map_of st' key = Some b'"
  shows "tb_tokens b' + (if (\<exists>t k cap r. c = ConsumeCall t k cap r) \<and> bs_allowed res then 1 else 0)
    \<le> capacity + capacity * unit_error"
proof (cases c)
  case (ConsumeCall t k cap r)
  obtain admit b'' where c: "try_consume t b = (admit, b'')" by force
  have "tb_last_refill b \<le> t" using assms(8) ConsumeCall by simp
  from consume_capped [OF assms(6,7) this c] show ?thesis
    using assms(1-5,9) ConsumeCall c by (auto simp: store_consume_def get_or_create_bucket_def)
next
  case (PeekCall t k cap r)
  have "0 \<le> capacity * unit_error"
    using assms(6) unit_error_pos by (auto simp: bucket_ok_def intro: mult_nonneg_nonneg)
  moreover have "tb_tokens (refill_now t b) \<le> capacity"
    using refill_bounds [OF assms(6,7), of t] assms(8) PeekCall by (simp add: bucket_ok_def)
  ultimately show ?thesis using assms(1-5,9) PeekCall by (auto simp: store_peek_def Let_def)
qed

lemma admitted_from_older:
  assumes "map_of st key = Some b" and "bucket_ok capacity rate b" and "0 \<le> rate"
    and "calls_ok key capacity rate finish calls" and "\<forall>c \<in> set calls. tb_last_refill b \<le> call_time c"
    and "\<forall>c \<in> set calls. start \<le> call_time c" and "start \<le> finish"
  shows "of_nat (admitted key calls st) \<le> capacity + of_nat (2 * length calls) * (capacity * unit_error)
    + of_int (finish - start) * fill_rate rate"
  using assms
proof (induction calls arbitrary: st)
  case Nil
  then show ?case using fill_rate_nonneg [OF assms(3)] by (simp add: bucket_ok_def)
next
  case (Cons c cs)
  obtain res st' where run: "run_call c st = (res, st')" by force
  have cap: "0 \<le> capacity * unit_error"
    using Cons.prems(2) unit_error_pos by (auto simp: bucket_ok_def intro: mult_nonneg_nonneg)
  have ok: "calls_ok key capacity rate finish cs" "call_time c \<le> finish" "\<forall>d \<in> set cs. call_time c \<le> call_time d"
    "start \<le> call_time c"
    using Cons.prems(4,6) by (simp_all add: calls_ok_Cons)
  have len: "of_nat (2 * length (c # cs)) * (capacity * unit_error)
      = of_nat (2 * length cs) * (capacity * unit_error) + 2 * (capacity * unit_error)"
    by (simp add: algebra_simps)
  show ?case
  proof (cases "call_key c = key")
    case True
    have params: "call_capacity c = capacity" "call_rate c = rate" using Cons.prems(4) True by (simp_all add: calls_ok_Cons)
    have last: "tb_last_refill b \<le> call_time c" using Cons.prems(5) by simp
    from run_call_bucket [OF True params run Cons.prems(1,2,3) last] obtain b' where
      b': "map_of st' key = Some b'" "bucket_ok capacity rate b'" "tb_last_refill b' = call_time c" by blast
    note step = run_call_capped [OF True params run Cons.prems(1,2,3) last b'(1)]
    have "of_nat (admitted key cs st') \<le> tb_tokens b' + of_nat (2 * length cs) * (capacity * unit_error)
        + of_int (finish - tb_last_refill b') * fill_rate rate"
      using admitted_from_bucket [OF b'(1,2) Cons.prems(3) ok(1)] ok(2,3) b'(3) by simp
    moreover have "of_int (finish - tb_last_refill b') * fill_rate rate \<le> of_int (finish - start) * fill_rate rate"
      using ok(4) b'(3) fill_rate_nonneg [OF assms(3)] by (intro mult_right_mono) auto
    moreover have "of_nat (admitted key (c # cs) st) =
        (if (\<exists>t k cap r. c = ConsumeCall t k cap r) \<and> bs_allowed res then 1 else (0 :: rat)) + of_nat (admitted key cs st')"
      using run True by (cases c) auto
    ultimately show ?thesis using step len cap by linarith
  next
    case False
    have "of_nat (admitted key cs st') \<le> capacity + of_nat (2 * length cs) * (capacity * unit_error)
        + of_int (finish - start) * fill_rate rate"
      using Cons.IH [of st'] Cons.prems run_call_other [OF False run] ok by simp
    moreover have "admitted key (c # cs) st = admitted key cs st'"
      using run False by (cases c) auto
    ultimately show ?thesis using len cap by simp
  qed
qed

lemma admitted_after_calls:
  assumes "map_of st key = None" and "0 \<le> rate" and "0 \<le> capacity" "capacity \<le> 2 ^ 53"
    and "calls_ok key capacity rate finish (earlier @ calls)" and "\<forall>c \<in> set calls. start \<le> call_time c" and "start \<le> finish"
  shows "of_nat (admitted key calls (run_calls earlier st)) \<le> capacity
    + of_nat (2 * length calls) * (capacity * unit_error) + of_int (finish - start) * fill_rate rate"
proof -
  have ok: "calls_ok key capacity rate finish calls" using assms(5) by (auto simp: calls_ok_def sorted_append)
  have "bucket_before key capacity rate (earlier @ calls) st" using assms(1) by (simp add: bucket_before_def)
  from bucket_before_calls [OF this assms(5,2-4)] have before: "bucket_before key capacity rate calls (run_calls earlier st)" .
  show ?thesis
  proof (cases "map_of (run_calls earlier st) key")
    case None
    then show ?thesis by (rule admitted_from_start [OF _ assms(2-4) ok assms(6,7)])
  next
    case (Some b)
    with before have "bucket_ok capacity rate b" "\<forall>c \<in> set calls. tb_last_refill b \<le> call_time c"
      by (simp_all add: bucket_before_def)
    then show ?thesis by (intro admitted_from_older [OF Some _ assms(2) ok _ assms(6,7)])
  qed
qed

end
