(* ===== verification/Rate_Properties.thy ===== *)
theory Rate_Properties
  imports Rate_Laws
begin

text \<open>
  Properties of the rate limiter: how many requests a rule admits over any period, when a refused
  client is served again, and two ways in which rules do not limit.
\<close>

lemma rule_valid_iff:
  "rate_limit_rule_validate rule = None \<longleftrightarrow>
     0 < unat (rl_requests rule) \<and> 0 < rl_window rule \<and> rl_window rule \<le> 86400
     \<and> rl_requests rule \<le> rl_burst rule \<and> refill_rate_per_second rule \<le> 1000000"
  by (auto simp: rate_limit_rule_validate_def unat_gt_0 not_less not_le)

lemma burst_below: "unat (b :: 32 word) < 2 ^ 32"
proof -
  have "unat b < 2 ^ LENGTH(32)" by (rule unsigned_less)
  then show ?thesis by simp
qed

lemma burst_bounds: "(0 :: rat) \<le> of_nat (unat (b :: 32 word)) \<and> of_nat (unat b) \<le> (2 ^ 32 :: rat)"
proof -
  have "of_nat (unat b) \<le> (of_nat (2 ^ 32) :: rat)" using burst_below [of b] by (intro of_nat_mono) (rule less_imp_le)
  moreover have "(of_nat (2 ^ 32) :: rat) = 2 ^ 32" by simp
  ultimately show ?thesis by (metis of_nat_0_le_iff)
qed

lemma rearrange: "d * (a / w / c * k) = a * (d / c) / w * (k :: rat)"
  by (simp add: mult_ac)

lemma unit_error_power: "(1 + unit_error) ^ 5 \<le> 1 + 1 / 2 ^ 50"
  by (simp add: unit_error_def power_divide field_simps)

text \<open>C21: A rule that passes validation admits over a period at most its burst and the requests of the period
  at its rate, and one more. The period may start at any time after the first request of the client: any
  number of calls, with any pauses between them, may have gone \<open>earlier\<close>, so a client that was idle for long
  gets no more than the burst at once. The calls of the store, at most \<open>2 ^ 20\<close> of them within the period, come
  in time order, interleaved with calls for other clients, and those for the client use the parameters of
  the rule. The one more and the factor \<open>1 + 2 ^ -50\<close> are what the roundings can add.\<close>

theorem admitted_requests_bounded:
  assumes "rate_limit_rule_validate rule = None"
    and "calls_ok key (of_nat (unat (rl_burst rule))) (refill_rate_per_second rule) finish (earlier @ calls)"
    and "map_of st key = None" and "\<forall>c \<in> set calls. start \<le> call_time c" and "start \<le> finish"
    and "length calls \<le> 2 ^ 20"
  shows "of_nat (admitted key calls (run_calls earlier st)) \<le> (of_nat (unat (rl_burst rule)) :: rat)
    + of_nat (unat (rl_requests rule)) * (of_int (finish - start) / 1000000000) / of_int (rl_window rule) * (1 + 1 / 2 ^ 50)
    + 1"
proof -
  let ?cap = "of_nat (unat (rl_burst rule)) :: rat" and ?rate = "refill_rate_per_second rule"
  let ?r = "of_nat (unat (rl_requests rule)) / of_int (rl_window rule) :: rat"
  have valid: "0 < rl_window rule" using assms(1) by (simp add: rule_valid_iff)
  then have r: "0 \<le> ?r" by (intro divide_nonneg_pos of_nat_0_le_iff) simp
  have rate: "?rate = fl ?r" using valid by (simp add: refill_rate_per_second_def)
  have "(2 :: rat) ^ 32 \<le> 2 ^ 53" by simp
  then have cap: "0 \<le> ?cap" "?cap \<le> 2 ^ 53" using burst_bounds [of "rl_burst rule"] by (blast intro: order_trans)+
  have bound: "of_nat (admitted key calls (run_calls earlier st)) \<le> ?cap + of_nat (2 * length calls) * (?cap * unit_error)
      + of_int (finish - start) * fill_rate ?rate"
    by (rule admitted_after_calls [OF assms(3) _ cap assms(2,4,5)]) (unfold rate, rule fl_nonneg [OF r])
  have "of_nat (2 * length calls) * (?cap * unit_error) \<le> of_nat (2 * 2 ^ 20) * (2 ^ 32 * unit_error)"
    using assms(6) burst_bounds [of "rl_burst rule"] unit_error_pos cap
    by (intro mult_mono of_nat_mono mult_right_mono) auto
  also have "\<dots> = 1" by (simp add: unit_error_def)
  finally have calls: "of_nat (2 * length calls) * (?cap * unit_error) \<le> 1" .
  have "fill_rate ?rate \<le> ?r * (1 + unit_error) * (1 + unit_error) ^ 4 / 1000000000"
    unfolding fill_rate_def rate using fl_upper_unit [OF r] unit_error_pos
    by (intro divide_right_mono mult_right_mono) auto
  also have "\<dots> = ?r / 1000000000 * (1 + unit_error) ^ 5" by (simp add: power_Suc [symmetric] mult_ac del: power_Suc)
  also have "\<dots> \<le> ?r / 1000000000 * (1 + 1 / 2 ^ 50)" using r unit_error_power by (intro mult_left_mono) auto
  finally have "of_int (finish - start) * fill_rate ?rate \<le> of_int (finish - start) * (?r / 1000000000 * (1 + 1 / 2 ^ 50))"
    using assms(5) by (intro mult_left_mono) auto
  also have "\<dots> = of_nat (unat (rl_requests rule)) * (of_int (finish - start) / 1000000000) / of_int (rl_window rule)
      * (1 + 1 / 2 ^ 50)" by (rule rearrange)
  finally show ?thesis using bound calls by linarith
qed

text \<open>A client that a rule refused is admitted again after the seconds of \<open>Retry-After\<close> and one more
  when its bucket is not used meanwhile, for every rule that passes validation: the wait the reply
  names is at most a second too short, and no client is locked out by roundings.\<close>

theorem refused_client_is_served_again:
  assumes "rate_limit_rule_validate rule = None" and "capacity = of_nat (unat (rl_burst rule))"
    and "rate = refill_rate_per_second rule" and "store_ok key capacity rate now st"
    and "store_consume now key capacity rate st = (res, st')" and "\<not> bs_allowed res"
    and "now + (bs_retry_after_seconds res + 1) * 1000000000 \<le> later"
  shows "bs_allowed (fst (store_consume later key capacity rate st'))"
proof (rule refused_store_waits [OF assms(4) _ _ _ assms(2,5-7)])
  have v: "0 < unat (rl_requests rule)" "0 < rl_window rule" "rl_window rule \<le> 86400" "rl_requests rule \<le> rl_burst rule"
    using assms(1) by (simp_all add: rule_valid_iff)
  then have one: "1 \<le> unat (rl_requests rule)" "1 \<le> unat (rl_burst rule)" by (simp_all add: word_le_nat_alt)
  have "(of_nat 1 :: rat) \<le> of_nat (unat (rl_burst rule))" using one(2) by (rule of_nat_mono)
  then show "1 \<le> capacity" unfolding assms(2) by simp
  have "(2 :: rat) ^ 32 < 2 ^ 53" by simp
  then show "capacity < 2 ^ 53" unfolding assms(2) using burst_bounds [of "rl_burst rule"] by (blast intro: le_less_trans)
  let ?q = "of_nat (unat (rl_requests rule)) / of_int (rl_window rule) :: rat"
  have "(of_nat 1 :: rat) \<le> of_nat (unat (rl_requests rule))" using one(1) by (rule of_nat_mono)
  moreover have "(of_int (rl_window rule) :: rat) \<le> 86400" "(0 :: rat) < of_int (rl_window rule)"
    using v(2,3) by simp_all
  ultimately have q: "1 / 86400 \<le> ?q" by (intro frac_le) auto
  then have "0 \<le> ?q" by (rule order_trans [rotated]) simp
  then have "?q * (1 - unit_error) \<le> fl ?q" by (rule fl_lower_unit)
  moreover have "1 / 86400 * (1 - unit_error) \<le> ?q * (1 - unit_error)"
    using q by (rule mult_right_mono) (simp add: unit_error_def)
  moreover have "(1 :: rat) / 100000 \<le> 1 / 86400 * (1 - unit_error)" by (simp add: unit_error_def)
  ultimately show "1 / 100000 \<le> rate" using v(2) unfolding assms(3) refill_rate_per_second_def by simp
qed

text \<open>Of two rules of one scope the second one does not limit: both consume from the same bucket,
  which is made with the parameters of the first, so requests, window and burst of the second have
  no influence on any reply or on the stores.\<close>

theorem second_rule_of_scope_ignored:
  "rate_limit_handle same dump hash smp_count clock
     [rule, rule\<lparr>rl_requests := n, rl_window := w, rl_burst := b\<rparr>] inner p req rep shards
   = rate_limit_handle same dump hash smp_count clock [rule, rule] inner p req rep shards"
proof -
  let ?second = "rule\<lparr>rl_requests := n, rl_window := w, rl_burst := b\<rparr>"
  let ?x = "rule_context_of same hash smp_count req"
  have keys: "rx_bucket_key (?x ?second) = rx_bucket_key (?x rule)" "rx_owner_shard (?x ?second) = rx_owner_shard (?x rule)"
    "rx_active (?x ?second) = rx_active (?x rule)"
    by (simp_all add: rule_context_of_def Let_def)
  have held: "map_of (snd (invoke_on i (store_consume now k cap rate) sh) i) k \<noteq> None" for i now k cap rate sh
    by (simp add: invoke_on_def store_consume_def split: prod.split)
  have ignored: "invoke_on i (store_consume now k cap rate) sh = invoke_on i (store_consume now k cap' rate') sh"
    if "map_of (sh i) k \<noteq> None" for i now k cap rate cap' rate' sh
    using that by (auto simp: invoke_on_def store_consume_def get_or_create_bucket_def)
  obtain result sh where first: "invoke_on (rx_owner_shard (?x rule)) (store_consume (clock 0) (rx_bucket_key (?x rule))
      (rx_capacity (?x rule)) (rx_refill_rate (?x rule))) shards = (result, sh)" by force
  have second: "invoke_on (rx_owner_shard (?x rule)) (store_consume (clock 1) (rx_bucket_key (?x rule)) cap rate) sh
      = invoke_on (rx_owner_shard (?x rule)) (store_consume (clock 1) (rx_bucket_key (?x rule)) cap' rate') sh"
    for cap rate cap' rate'
    using held [of "rx_owner_shard (?x rule)" "clock 0" "rx_bucket_key (?x rule)" "rx_capacity (?x rule)"
        "rx_refill_rate (?x rule)" shards] unfolding first by (intro ignored) simp
  have refusal: "too_many_requests same dump ?second st rep = too_many_requests same dump rule st rep" for st
    by (simp add: too_many_requests_def)
  obtain result2 sh2 where two: "invoke_on (rx_owner_shard (?x rule)) (store_consume (clock 1) (rx_bucket_key (?x rule))
      (rx_capacity (?x rule)) (rx_refill_rate (?x rule))) sh = (result2, sh2)" by force
  have two': "invoke_on (rx_owner_shard (?x rule)) (store_consume (clock 1) (rx_bucket_key (?x rule)) cap rate) sh
      = (result2, sh2)" for cap rate
    using second two by metis
  show ?thesis
    by (simp add: rate_limit_handle_def Let_def keys first two' [unfolded One_nat_def] refusal split: sum.split)
qed

lemma single_rule_admitted:
  assumes "rule_context_of same hash smp_count req rule = x"
    and "bs_allowed (fst (invoke_on (rx_owner_shard x)
      (store_consume (clock 0) (rx_bucket_key x) (rx_capacity x) (rx_refill_rate x)) shards))"
  shows "rel_sum (=) (\<lambda>r r'. rep_status r = rep_status r')
    (fst (rate_limit_handle same dump hash smp_count clock [rule] inner p req rep shards)) (inner p req rep)"
  using assms by (cases "inner p req rep") (simp_all add: rate_limit_handle_def Let_def case_prod_beta)

text \<open>Even with a client name that is not empty the limit per address can be avoided: whatever requests
  were made before, there is a value of \<open>X-Forwarded-For\<close> with which the next one is admitted: it ends with
  the status, or the exception, of the handler.\<close>

theorem forged_address_is_admitted:
  assumes "rl_scope rule = PerIp" and "0 < rl_burst rule" and "same ''X-Forwarded-For'' ''X-Forwarded-For''"
    and "0 < smp_count"
  shows "\<exists>v. rel_sum (=) (\<lambda>r r'. rep_status r = rep_status r')
      (fst (rate_limit_handle same dump hash smp_count clock [rule] inner p
        (req\<lparr>req_headers := (''X-Forwarded-For'', v) # req_headers req\<rparr>) rep shards))
      (inner p (req\<lparr>req_headers := (''X-Forwarded-For'', v) # req_headers req\<rparr>) rep)"
proof -
  let ?key = "\<lambda>n. make_bucket_key PerIp (replicate (Suc n) CHR ''a'')"
  have inj: "inj ?key" by (auto intro!: injI simp: make_bucket_key_def)
  have "\<exists>n. map_of (shards (shard_of_key hash smp_count (?key n))) (?key n) = None"
  proof (rule ccontr)
    assume "\<not> ?thesis"
    then have held: "?key n \<in> dom (map_of (shards (shard_of_key hash smp_count (?key n))))" for n by (metis domIff)
    have "shard_of_key hash smp_count k < smp_count" for k using assms(4) by (simp add: shard_of_key_def)
    then have "range ?key \<subseteq> (\<Union>i < smp_count. dom (map_of (shards i)))" using held by blast
    moreover have "finite (\<Union>i < smp_count. dom (map_of (shards i)))" by (simp add: finite_dom_map_of)
    ultimately show False using inj finite_subset finite_imageD [OF _ inj] by (metis infinite_UNIV_nat)
  qed
  then obtain n where n: "map_of (shards (shard_of_key hash smp_count (?key n))) (?key n) = None" ..
  let ?v = "replicate (Suc n) CHR ''a''"
  let ?req = "req\<lparr>req_headers := (''X-Forwarded-For'', ?v) # req_headers req\<rparr>"
  let ?cap = "of_nat (unat (rl_burst rule)) :: rat"
  have "CHR '','' \<notin> set ?v" by simp
  then have client: "identify_client same ?req PerIp = ?v"
    using assms(3) before_char_none [of "CHR '',''" ?v] by (simp add: identify_client_def)
  have x: "rule_context_of same hash smp_count ?req rule =
      \<lparr>rx_bucket_key = ?key n, rx_owner_shard = shard_of_key hash smp_count (?key n),
       rx_capacity = ?cap, rx_refill_rate = refill_rate_per_second rule, rx_active = True\<rparr>"
    unfolding rule_context_of_def assms(1) client by (simp add: Let_def)
  have "unat (rl_burst rule) < 2 ^ 53" using burst_below [of "rl_burst rule"] by (rule less_trans) simp
  then have exact: "fl ?cap = ?cap" by (rule fl_of_nat)
  have one: "1 \<le> ?cap"
  proof -
    have "1 \<le> unat (rl_burst rule)" using assms(2) by (simp add: word_less_nat_alt)
    then show ?thesis using of_nat_mono by fastforce
  qed
  have admit: "fst (try_consume now (make_bucket now ?cap rate))" for now rate
    using one exact by (simp add: try_consume_def refill_now_def make_bucket_def elapsed_seconds_def Let_def fl_def [of 0])
  have "bs_allowed (fst (invoke_on (shard_of_key hash smp_count (?key n))
      (store_consume (clock 0) (?key n) ?cap (refill_rate_per_second rule)) shards))"
    using n admit [of "clock 0" "refill_rate_per_second rule"]
    by (simp add: invoke_on_def store_consume_def get_or_create_bucket_def case_prod_beta)
  then show ?thesis by (intro exI [of _ ?v] single_rule_admitted [OF x]) simp
qed

lemma consume_loop_inactive:
  "list_all (\<lambda>(_, x). \<not> rx_active x) rs \<Longrightarrow> consume_loop clock i rs shards = (None, shards)"
  by (induction rs arbitrary: i) auto

text \<open>The limit per address takes the client from a header the client writes, and skips a rule
  whose client is the empty string. A request whose \<open>X-Forwarded-For\<close> starts with a comma passes rules
  per address without a token and without a trace in the stores.\<close>

theorem comma_address_is_not_limited:
  assumes "list_all (\<lambda>rule. rl_scope rule = PerIp) rules" and "same ''X-Forwarded-For'' ''X-Forwarded-For''"
  shows "rate_limit_handle same dump hash smp_count clock rules inner p
      (req\<lparr>req_headers := (''X-Forwarded-For'', CHR '','' # v) # hs\<rparr>) rep shards
    = (inner p (req\<lparr>req_headers := (''X-Forwarded-For'', CHR '','' # v) # hs\<rparr>) rep, shards)"
proof -
  let ?req = "req\<lparr>req_headers := (''X-Forwarded-For'', CHR '','' # v) # hs\<rparr>"
  let ?xs = "map (rule_context_of same hash smp_count ?req) rules"
  have "\<not> rx_active (rule_context_of same hash smp_count ?req rule)" if "rl_scope rule = PerIp" for rule
    using that assms(2) by (simp add: rule_context_of_def identify_client_def before_char_def)
  then have none: "\<not> rx_active x" if "x \<in> set ?xs" for x using that assms(1) by (auto simp: list_all_iff)
  then have "find rx_active ?xs = None" unfolding find_None_iff by blast
  moreover have "list_all (\<lambda>(_, x). \<not> rx_active x) (zip rules ?xs)"
    unfolding list_all_iff using none by (auto dest: set_zip_rightD)
  ultimately show ?thesis
    by (cases "inner p ?req rep") (simp_all only: rate_limit_handle_def Let_def consume_loop_inactive, simp_all)
qed

section \<open>Concrete inputs\<close>

text \<open>Waiting exactly the seconds of \<open>Retry-After\<close> is not always enough: one request in 161 seconds.\<close>

definition slow_rule :: rate_limit_rule where
  "slow_rule = \<lparr>rl_scope = PerIp, rl_requests = 1, rl_window = 161, rl_burst = 1\<rparr>"

lemma slow_rate: "refill_rate_per_second slow_rule = 3580501567102009 / 576460752303423488"
  using fl_eq [of "-8" "1 / 161" 7161003134204018]
  by (simp add: refill_rate_per_second_def slow_rule_def power_int_def power_one_over)

lemma slow_refill: "fl (576460752303423449 / 576460752303423488) = 9007199254740991 / 9007199254740992"
  using fl_eq [of "-1" "161 * (3580501567102009 / 576460752303423488)" 9007199254740991]
  by (simp add: power_int_def power_one_over)

lemma slow_sum: "fl (9007199254740991 / 9007199254740992) = 9007199254740991 / 9007199254740992"
  using fl_eq [of "-1" "9007199254740991 / 9007199254740992" 9007199254740991]
  by (simp add: power_int_def power_one_over)

lemma slow_wait: "fl (576460752303423488 / 3580501567102009) = 161"
  using fl_eq [of 7 "1 / (3580501567102009 / 576460752303423488)" "161 * 2 ^ 45"]
  by (simp add: power_int_def power_one_over)

lemma fl_numerals: "fl 0 = 0" "fl 1 = 1" "fl 161 = 161" "fl 161000000000 = 161000000000"
  using fl_of_nat [of 1] fl_of_nat [of 161] fl_of_nat [of 161000000000] by (simp_all add: fl_def)

theorem retry_after_is_too_short:
  "let rate = refill_rate_per_second slow_rule;
       (_, st1) = store_consume 0 k 1 rate [];
       (res, st2) = store_consume 0 k 1 rate st1
   in \<not> bs_allowed res \<and> bs_retry_after_seconds res = 161
     \<and> \<not> bs_allowed (fst (store_consume (161 * 1000000000) k 1 rate st2))"
  by (simp add: slow_rate store_consume_def get_or_create_bucket_def try_consume_def refill_now_def make_bucket_def
      elapsed_seconds_def seconds_until_next_token_def fl_numerals slow_refill slow_sum slow_wait Let_def)

definition plain_rule :: rate_limit_rule where
  "plain_rule = \<lparr>rl_scope = PerIp, rl_requests = 1, rl_window = 1, rl_burst = 1\<rparr>"

lemma plain_rate: "refill_rate_per_second plain_rule = 1"
  using fl_numerals by (simp add: refill_rate_per_second_def plain_rule_def)

lemma plain_rule_valid: "rate_limit_rule_validate plain_rule = None"
  unfolding rate_limit_rule_validate_def plain_rate by (simp add: plain_rule_def)

lemma admitted_requests_bounded_witness:
  "of_nat (admitted ''k'' [ConsumeCall 90000000000 ''k'' 1 1, ConsumeCall 90000000005 ''k'' 1 1]
      (run_calls [ConsumeCall 0 ''k'' 1 1] [])) \<le>
    (of_nat (unat (rl_burst plain_rule)) :: rat)
    + of_nat (unat (rl_requests plain_rule)) * (of_int (90000000005 - 90000000000) / 1000000000) / of_int (rl_window plain_rule) * (1 + 1 / 2 ^ 50)
    + 1"
  by (rule admitted_requests_bounded [OF plain_rule_valid])
    ((simp_all add: plain_rate calls_ok_def)?, (simp_all add: plain_rule_def)?)

lemma refused_client_is_served_again_witness:
  "bs_allowed (fst (store_consume 2000000000 ''k'' 1 1
     (snd (store_consume 0 ''k'' 1 1 [(''k'', \<lparr>tb_capacity = 1, tb_refill_rate = 1, tb_tokens = 0, tb_last_refill = 0\<rparr>)]))))"
  by (rule refused_client_is_served_again [OF plain_rule_valid, of 1 1 "''k''" 0
        "[(''k'', \<lparr>tb_capacity = 1, tb_refill_rate = 1, tb_tokens = 0, tb_last_refill = 0\<rparr>)]"
        "fst (store_consume 0 ''k'' 1 1 [(''k'', \<lparr>tb_capacity = 1, tb_refill_rate = 1, tb_tokens = 0, tb_last_refill = 0\<rparr>)])"])
    (simp_all add: plain_rate store_ok_def bucket_ok_def store_consume_def get_or_create_bucket_def try_consume_def
      refill_now_def elapsed_seconds_def seconds_until_next_token_def fl_numerals Let_def, simp add: plain_rule_def)

lemma comma_address_is_not_limited_witness:
  "rate_limit_handle (=) (\<lambda>_. []) length 2 (\<lambda>_. 0) [plain_rule, slow_rule] (\<lambda>_ _ rep. Inr rep) ''/p''
      (\<lparr>req_method = [], req_url = [], req_headers = []\<rparr>\<lparr>req_headers := (''X-Forwarded-For'', '','' @ ''x'') # []\<rparr>)
      \<lparr>rep_status = 200, rep_headers = [], rep_content = []\<rparr> (\<lambda>_. [])
    = (Inr \<lparr>rep_status = 200, rep_headers = [], rep_content = []\<rparr>, \<lambda>_. [])"
  using comma_address_is_not_limited [of "[plain_rule, slow_rule]" "(=)" "\<lambda>_. []" length 2 "\<lambda>_. 0" "\<lambda>_ _ rep. Inr rep"
      "''/p''" "''x''" "[]" "\<lparr>req_method = [], req_url = [], req_headers = []\<rparr>"
      "\<lparr>rep_status = 200, rep_headers = [], rep_content = []\<rparr>" "\<lambda>_. []"]
  by (simp add: plain_rule_def slow_rule_def)

end
