(* ===== verification/Http_Gates.thy ===== *)
theory Http_Gates
  imports Authz_Middleware
begin

text \<open>
  The outer middlewares of every route: the limits on a request (\<open>HttpLimits\<close>, \<open>HttpLimitsMiddleware\<close>),
  the security headers of a reply (\<open>SecurityHeaders\<close>, \<open>SecurityHeadersMiddleware\<close>) and CORS
  (\<open>CorsConfig\<close>, \<open>CorsMiddleware\<close>). What Seastar computes of a request, its content length and the number
  of its query parameters, is given by functions; the headers of a request are visited in the order of
  their list, where the source visits a hash table. A handler that fails leaves an exception (\<open>Inl\<close>), which
  passes every middleware unchanged, as each awaits its inner handler outside of any \<open>try\<close>: nothing that
  would have been done to the reply is done. \<open>dump\<close> is total, where the library throws on text that is not
  UTF-8.
\<close>

section \<open>Limits of a request\<close>

record http_limits =
  max_body_size :: "64 word"
  max_header_size :: "64 word"
  max_headers_count :: "32 word"
  max_url_length :: "64 word"
  max_query_params :: "32 word"
  request_timeout :: int
  keep_alive_timeout :: int
  max_connections_per_ip :: "32 word"

definition http_limits_safe_defaults :: http_limits where
  "http_limits_safe_defaults =
     \<lparr>max_body_size = 1048576, max_header_size = 8192, max_headers_count = 100, max_url_length = 2048,
      max_query_params = 100, request_timeout = 30, keep_alive_timeout = 60, max_connections_per_ip = 100\<rparr>"

definition http_limits_validate :: "http_limits \<Rightarrow> string option" where
  "http_limits_validate l =
     (if max_body_size l = 0 then Some ''HttpLimits: max_body_size must be > 0''
      else if 107374182400 < max_body_size l
      then Some ''HttpLimits: max_body_size exceeds reasonable limit (100GB)''
      else if max_url_length l = 0 \<or> 1048576 < max_url_length l
      then Some ''HttpLimits: max_url_length out of range (1B - 1MB)''
      else if request_timeout l \<le> 0 then Some ''HttpLimits: request_timeout must be positive''
      else if 24 * 3600 < request_timeout l then Some ''HttpLimits: request_timeout exceeds 24h, likely a bug''
      else if max_headers_count l = 0 then Some ''HttpLimits: max_headers_count must be > 0''
      else if max_connections_per_ip l = 0 then Some ''HttpLimits: max_connections_per_ip must be > 0''
      else None)"

definition dquoted :: "string \<Rightarrow> string" where
  "dquoted s = CHR 0x22 # s @ [CHR 0x22]"

text \<open>\<open>write_body\<close> with a JSON text: the body and its content type.\<close>

definition write_json :: "(string \<Rightarrow> string \<Rightarrow> bool) \<Rightarrow> nat \<Rightarrow> string \<Rightarrow> reply \<Rightarrow> reply" where
  "write_json same status body rep =
     \<lparr>rep_status = status, rep_headers = hdr_put same ''Content-Type'' ''application/json'' (rep_headers rep),
      rep_content = body\<rparr>"

definition http_limits_handle ::
  "(string \<Rightarrow> string \<Rightarrow> bool) \<Rightarrow> (json \<Rightarrow> string) \<Rightarrow> (request \<Rightarrow> nat) \<Rightarrow> (request \<Rightarrow> nat) \<Rightarrow> http_limits
   \<Rightarrow> handler \<Rightarrow> handler" where
  "http_limits_handle same dump content_length query_params l inner p req rep =
     (if unat (max_url_length l) < length (req_url req)
      then Inr (write_json same 400 (dump (JObject [(''error'', JString ''uri_too_long''),
        (''max_length'', JUint (max_url_length l)),
        (''message'', JString (''L'' @ [CHR 0x27] @ ''URL depasse la longueur maximale autorisee''))])) rep)
      else if unat (max_body_size l) < content_length req
      then Inr (write_json same 413 (dump (JObject [(''error'', JString ''payload_too_large''),
        (''max_bytes'', JUint (max_body_size l)),
        (''message'', JString ''Le body depasse la taille maximale autorisee'')])) rep)
      else if unat (max_headers_count l) < length (req_headers req)
      then Inr (write_json same 400 (dump (JObject [(''error'', JString ''too_many_headers''),
        (''max_count'', JUint (ucast (max_headers_count l))),
        (''message'', JString ''Trop de headers dans la requete'')])) rep)
      else (case find (\<lambda>(name, v). unat (max_header_size l) < length v) (req_headers req) of
        Some (name, v) \<Rightarrow> Inr (write_json same 400 (dump (JObject [(''error'', JString ''header_too_large''),
          (''header_name'', JString name), (''max_bytes'', JUint (max_header_size l)),
          (''message'', JString ''Un header depasse la taille maximale'')])) rep)
      | None \<Rightarrow>
          if unat (max_query_params l) < query_params req
          then Inr (write_json same 400 (dump (JObject [(''error'', JString ''too_many_query_params''),
            (''max_count'', JUint (ucast (max_query_params l))),
            (''message'', JString (''Trop de parametres dans l'' @ [CHR 0x27] @ ''URL''))])) rep)
          else inner p req rep))"

section \<open>Security headers\<close>

record security_headers =
  sh_hsts :: "string option"
  sh_content_type_options :: "string option"
  sh_frame_options :: "string option"
  sh_referrer_policy :: "string option"
  sh_content_security_policy :: "string option"
  sh_permissions_policy :: "string option"
  sh_cross_origin_opener_policy :: "string option"
  sh_cross_origin_resource_policy :: "string option"

definition security_headers_none :: security_headers where
  "security_headers_none =
     \<lparr>sh_hsts = None, sh_content_type_options = None, sh_frame_options = None, sh_referrer_policy = None,
      sh_content_security_policy = None, sh_permissions_policy = None, sh_cross_origin_opener_policy = None,
      sh_cross_origin_resource_policy = None\<rparr>"

definition security_headers_recommended :: security_headers where
  "security_headers_recommended = security_headers_none
     \<lparr>sh_hsts := Some ''max-age=31536000; includeSubDomains'',
      sh_content_type_options := Some ''nosniff'',
      sh_frame_options := Some ''DENY'',
      sh_referrer_policy := Some ''strict-origin-when-cross-origin'',
      sh_content_security_policy := Some (''default-src '' @ quoted ''self''),
      sh_permissions_policy := Some ''geolocation=(), microphone=(), camera=()''\<rparr>"

definition security_headers_strict :: security_headers where
  "security_headers_strict = security_headers_none
     \<lparr>sh_hsts := Some ''max-age=63072000; includeSubDomains; preload'',
      sh_content_type_options := Some ''nosniff'',
      sh_frame_options := Some ''DENY'',
      sh_referrer_policy := Some ''no-referrer'',
      sh_content_security_policy := Some (''default-src '' @ quoted ''self'' @ ''; script-src '' @ quoted ''self''
        @ ''; style-src '' @ quoted ''self'' @ ''; img-src '' @ quoted ''self'' @ '' data:; font-src '' @ quoted ''self''
        @ ''; object-src '' @ quoted ''none'' @ ''; base-uri '' @ quoted ''self'' @ ''; form-action '' @ quoted ''self''
        @ ''; frame-ancestors '' @ quoted ''none''),
      sh_permissions_policy := Some (''geolocation=(), microphone=(), camera=(), ''
        @ ''payment=(), usb=(), magnetometer=(), gyroscope=()''),
      sh_cross_origin_opener_policy := Some ''same-origin'',
      sh_cross_origin_resource_policy := Some ''same-origin''\<rparr>"

definition put_configured ::
  "(string \<Rightarrow> string \<Rightarrow> bool) \<Rightarrow> string \<Rightarrow> string option \<Rightarrow> headers \<Rightarrow> headers" where
  "put_configured same k v hs = (case v of None \<Rightarrow> hs | Some w \<Rightarrow> hdr_put same k w hs)"

definition security_headers_handle ::
  "(string \<Rightarrow> string \<Rightarrow> bool) \<Rightarrow> security_headers \<Rightarrow> handler \<Rightarrow> handler" where
  "security_headers_handle same config inner p req rep =
     (case inner p req rep of Inl ex \<Rightarrow> Inl ex | Inr reply \<Rightarrow>
      let hs1 = put_configured same ''Strict-Transport-Security'' (sh_hsts config) (rep_headers reply);
          hs2 = put_configured same ''X-Content-Type-Options'' (sh_content_type_options config) hs1;
          hs3 = put_configured same ''X-Frame-Options'' (sh_frame_options config) hs2;
          hs4 = put_configured same ''Referrer-Policy'' (sh_referrer_policy config) hs3;
          hs5 = (if hdr_get same hs4 ''Content-Security-Policy'' \<noteq> None then hs4
                 else put_configured same ''Content-Security-Policy'' (sh_content_security_policy config) hs4);
          hs6 = put_configured same ''Permissions-Policy'' (sh_permissions_policy config) hs5;
          hs7 = put_configured same ''Cross-Origin-Opener-Policy'' (sh_cross_origin_opener_policy config) hs6;
          hs8 = put_configured same ''Cross-Origin-Resource-Policy'' (sh_cross_origin_resource_policy config) hs7
      in Inr (reply\<lparr>rep_headers := hs8\<rparr>))"

section \<open>CORS\<close>

datatype http_verb = VGet | VPost | VPut | VPatch | VDelete | VHead | VOptions

fun verb_name :: "http_verb \<Rightarrow> string" where
  "verb_name VGet = ''GET''"
| "verb_name VPost = ''POST''"
| "verb_name VPut = ''PUT''"
| "verb_name VPatch = ''PATCH''"
| "verb_name VDelete = ''DELETE''"
| "verb_name VHead = ''HEAD''"
| "verb_name VOptions = ''OPTIONS''"

definition verb_from_string :: "string \<Rightarrow> string + http_verb" where
  "verb_from_string s =
     (if s = ''GET'' then Inr VGet
      else if s = ''POST'' then Inr VPost
      else if s = ''PUT'' then Inr VPut
      else if s = ''PATCH'' then Inr VPatch
      else if s = ''DELETE'' then Inr VDelete
      else if s = ''HEAD'' then Inr VHead
      else if s = ''OPTIONS'' then Inr VOptions
      else Inl (''Unknown HTTP method: '' @ s))"

datatype origin_policy = PermissiveOrigin | StrictOrigin

record cors_config =
  co_origins :: "string list"
  co_methods :: "http_verb list"
  co_headers :: "string list"
  co_exposed :: "string list"
  co_credentials :: bool
  co_max_age :: int
  co_policy :: origin_policy

definition cors_deny_all :: cors_config where
  "cors_deny_all =
     \<lparr>co_origins = [], co_methods = [], co_headers = [], co_exposed = [], co_credentials = False, co_max_age = 0,
      co_policy = PermissiveOrigin\<rparr>"

definition cors_allow_all :: cors_config where
  "cors_allow_all = cors_deny_all
     \<lparr>co_origins := [''*''], co_methods := [VGet, VPost, VPut, VPatch, VDelete, VHead, VOptions],
      co_headers := [''*''], co_credentials := False, co_max_age := 86400\<rparr>"

definition cors_permissive :: "string list \<Rightarrow> cors_config" where
  "cors_permissive origins = cors_deny_all
     \<lparr>co_origins := origins, co_methods := [VGet, VPost, VPut, VPatch, VDelete, VOptions],
      co_headers := [''Content-Type'', ''Authorization'', ''X-Requested-With''], co_credentials := True,
      co_max_age := 86400\<rparr>"

definition cors_enabled :: "cors_config \<Rightarrow> bool" where
  "cors_enabled cors \<longleftrightarrow> co_origins cors \<noteq> []"

definition is_wildcard :: "cors_config \<Rightarrow> bool" where
  "is_wildcard cors \<longleftrightarrow> ''*'' \<in> set (co_origins cors)"

definition allows_origin :: "cors_config \<Rightarrow> string \<Rightarrow> bool" where
  "allows_origin cors origin = (if is_wildcard cors then True else origin \<in> set (co_origins cors))"

definition cors_validate :: "cors_config \<Rightarrow> string option" where
  "cors_validate cors =
     (if \<not> cors_enabled cors then None
      else if co_credentials cors \<and> is_wildcard cors
      then Some (''CorsConfig: allow_credentials=true is incompatible with wildcard origin '' @ quoted ''*''
        @ ''. Browsers refuse to send credentials to wildcard origins. List explicit origins instead.'')
      else if co_max_age cors < 0 then Some ''CorsConfig: max_age must be >= 0''
      else if 24 * 3600 < co_max_age cors
      then Some (''CorsConfig: max_age exceeds 24h. Browsers cap this value ''
        @ ''(Chrome: 2h, Firefox: 24h), so higher values have no effect.'')
      else if co_methods cors = []
      then Some (''CorsConfig: allowed_origins is set but allowed_methods is empty. ''
        @ ''Specify at least one HTTP method (e.g. GET).'')
      else None)"

fun join_strings :: "string list \<Rightarrow> string" where
  "join_strings [] = []"
| "join_strings [x] = x"
| "join_strings (x # y # xs) = x @ '', '' @ join_strings (y # xs)"

definition join_methods :: "http_verb list \<Rightarrow> string" where
  "join_methods ms = join_strings (map verb_name ms)"

definition get_origin :: "(string \<Rightarrow> string \<Rightarrow> bool) \<Rightarrow> request \<Rightarrow> string" where
  "get_origin same req = (case hdr_get same (req_headers req) ''Origin'' of None \<Rightarrow> [] | Some v \<Rightarrow> v)"

definition handle_preflight ::
  "(string \<Rightarrow> string \<Rightarrow> bool) \<Rightarrow> cors_config \<Rightarrow> string \<Rightarrow> reply \<Rightarrow> reply" where
  "handle_preflight same cors origin rep =
     (if origin = [] \<or> \<not> allows_origin cors origin then rep\<lparr>rep_status := 403\<rparr>
      else let hs1 = hdr_put same ''Access-Control-Allow-Origin'' origin (rep_headers rep);
               hs2 = (if co_methods cors \<noteq> []
                      then hdr_put same ''Access-Control-Allow-Methods'' (join_methods (co_methods cors)) hs1 else hs1);
               hs3 = (if co_headers cors \<noteq> []
                      then hdr_put same ''Access-Control-Allow-Headers'' (join_strings (co_headers cors)) hs2 else hs2);
               hs4 = (if co_credentials cors then hdr_put same ''Access-Control-Allow-Credentials'' ''true'' hs3 else hs3);
               hs5 = (if 0 < co_max_age cors
                      then hdr_put same ''Access-Control-Max-Age'' (int_str (co_max_age cors)) hs4 else hs4)
           in rep\<lparr>rep_status := 204, rep_headers := hs5\<rparr>)"

definition add_cors_headers :: "(string \<Rightarrow> string \<Rightarrow> bool) \<Rightarrow> cors_config \<Rightarrow> string \<Rightarrow> reply \<Rightarrow> reply" where
  "add_cors_headers same cors origin rep =
     (if origin = [] \<or> \<not> allows_origin cors origin then rep
      else let hs1 = hdr_put same ''Access-Control-Allow-Origin'' origin (rep_headers rep);
               hs2 = (if co_credentials cors then hdr_put same ''Access-Control-Allow-Credentials'' ''true'' hs1 else hs1);
               hs3 = (if co_exposed cors \<noteq> []
                      then hdr_put same ''Access-Control-Expose-Headers'' (join_strings (co_exposed cors)) hs2 else hs2)
           in rep\<lparr>rep_headers := hdr_put same ''Vary'' ''Origin'' hs3\<rparr>)"

definition cors_handle :: "(string \<Rightarrow> string \<Rightarrow> bool) \<Rightarrow> cors_config \<Rightarrow> handler \<Rightarrow> handler" where
  "cors_handle same cors inner p req rep =
     (let origin = get_origin same req in
      if req_method req = ''OPTIONS'' then Inr (handle_preflight same cors origin rep)
      else if origin \<noteq> [] \<and> \<not> allows_origin cors origin \<and> co_policy cors = StrictOrigin
      then Inr (write_json same 403 (CHR ''{'' # dquoted ''error'' @ '':'' @ dquoted ''cors_forbidden'' @ '','' @ dquoted ''message''
        @ '':'' @ dquoted ''Origin not allowed'' @ ''}'') rep)
      else (case inner p req rep of
              Inl ex \<Rightarrow> Inl ex
            | Inr reply \<Rightarrow> Inr (add_cors_headers same cors origin reply)))"

end
