(* ===== verification/Http_Chain.thy ===== *)
theory Http_Chain
  imports Http_Gates Rate_Limiter Protected_Handler
begin

text \<open>
  The composition of the middlewares (\<open>wrap_with_middlewares\<close> of
  \<open>apps/Backend_Seastar/src/http/routing/route_registration.cpp\<close>). The first to run is the last one
  wrapped: limits, security headers, CORS, authentication, rate limit, authorization, handler. The
  rate limiter reads the stores as they are when the request arrives.
\<close>

section \<open>The composition\<close>

text \<open>What the chain uses of Seastar, of the JSON and JWT libraries and of the clocks.\<close>

record framework =
  fw_same :: "string \<Rightarrow> string \<Rightarrow> bool"
  fw_dump :: "json \<Rightarrow> string"
  fw_content_length :: "request \<Rightarrow> nat"
  fw_query_params :: "request \<Rightarrow> nat"
  fw_jwt_verify :: "string \<Rightarrow> jwt_claims option"
  fw_is_revoked :: "string \<Rightarrow> bool"
  fw_hash :: "string \<Rightarrow> nat"
  fw_smp_count :: nat
  fw_clock :: "nat \<Rightarrow> int"
  fw_now :: int

record security_config =
  sc_cors :: cors_config
  sc_http_limits :: http_limits
  sc_security_headers :: security_headers
  sc_rate_limits :: "rate_limit_rule list"

text \<open>The pointers of the context that may be null: the authentication service, the store of the rate
  limiter, the policy engine (with the operators it evaluates), the token tracking.\<close>

record middleware_context =
  mc_security :: security_config
  mc_schema :: schema
  mc_access_control :: access_control_config
  mc_auth_service :: bool
  mc_rate_limit_store :: bool
  mc_policy_engine :: "operator_registry option"
  mc_token_tracking :: bool
  mc_cookie_config :: cookie_config

definition wrap_with_middlewares ::
  "framework \<Rightarrow> middleware_context \<Rightarrow> shards \<Rightarrow> bool \<Rightarrow> handler \<Rightarrow> handler" where
  "wrap_with_middlewares fw ctx shards requires_auth handler =
     (let sec = mc_security ctx; same = fw_same fw; dump = fw_dump fw;
          h1 = (case mc_policy_engine ctx of
                  Some reg \<Rightarrow>
                    if requires_auth \<and> enabled (mc_access_control ctx)
                    then apply_authorization same dump (fw_now fw) reg (mc_schema ctx) (mc_access_control ctx) handler
                    else handler
                | None \<Rightarrow> handler);
          h2 = (if mc_rate_limit_store ctx \<and> sc_rate_limits sec \<noteq> []
                then (\<lambda>p req rep. fst (rate_limit_handle same dump (fw_hash fw) (fw_smp_count fw) (fw_clock fw)
                       (sc_rate_limits sec) h1 p req rep shards))
                else h1);
          h3 = (if requires_auth \<and> mc_auth_service ctx
                then maybe_protect same dump (fw_jwt_verify fw) (mc_token_tracking ctx) (fw_is_revoked fw)
                       (mc_cookie_config ctx) requires_auth h2
                else h2);
          h4 = (if cors_enabled (sc_cors sec) then cors_handle same (sc_cors sec) h3 else h3);
          h5 = security_headers_handle same (sc_security_headers sec) h4
      in http_limits_handle same dump (fw_content_length fw) (fw_query_params fw) (sc_http_limits sec) h5)"

section \<open>Which requests a handler sees\<close>

text \<open>The reference: a request passes the gates one after the other, and the handler gets it with the
  identity headers of its token.\<close>

definition within_limits :: "framework \<Rightarrow> http_limits \<Rightarrow> request \<Rightarrow> bool" where
  "within_limits fw l req \<longleftrightarrow>
     length (req_url req) \<le> unat (max_url_length l) \<and> fw_content_length fw req \<le> unat (max_body_size l)
     \<and> length (req_headers req) \<le> unat (max_headers_count l)
     \<and> list_all (\<lambda>(_, v). length v \<le> unat (max_header_size l)) (req_headers req)
     \<and> fw_query_params fw req \<le> unat (max_query_params l)"

definition cors_passes :: "framework \<Rightarrow> cors_config \<Rightarrow> request \<Rightarrow> bool" where
  "cors_passes fw cors req \<longleftrightarrow>
     (let origin = get_origin (fw_same fw) req
      in req_method req \<noteq> ''OPTIONS'' \<and> (origin = [] \<or> allows_origin cors origin \<or> co_policy cors = PermissiveOrigin))"

definition authenticated_request :: "framework \<Rightarrow> middleware_context \<Rightarrow> request \<Rightarrow> request option" where
  "authenticated_request fw ctx req =
     (case extract_access_token (fw_same fw) req (access_token_name (mc_cookie_config ctx)) of
        None \<Rightarrow> None
      | Some token \<Rightarrow>
          (case verify_token (fw_jwt_verify fw) token of
             None \<Rightarrow> None
           | Some claims \<Rightarrow>
               if token = [] then None
               else if mc_token_tracking ctx \<and> (case fw_jwt_verify fw token of None \<Rightarrow> False
                      | Some raw \<Rightarrow> jwt_jti raw \<noteq> [] \<and> fw_is_revoked fw (jwt_jti raw))
               then None
               else Some (req\<lparr>req_headers := inject_claims_as_headers (fw_same fw) claims
                      (strip_user_headers (fw_same fw) (req_headers req))\<rparr>)))"

definition within_rates :: "framework \<Rightarrow> middleware_context \<Rightarrow> shards \<Rightarrow> request \<Rightarrow> bool" where
  "within_rates fw ctx shards req \<longleftrightarrow>
     (let rules = sc_rate_limits (mc_security ctx)
      in fst (consume_loop (fw_clock fw) 0
           (zip rules (map (rule_context_of (fw_same fw) (fw_hash fw) (fw_smp_count fw) req) rules)) shards) = None)"

definition authorized_request :: "framework \<Rightarrow> middleware_context \<Rightarrow> operator_registry \<Rightarrow> request \<Rightarrow> bool" where
  "authorized_request fw ctx reg req \<longleftrightarrow>
     (let plan = resolve_route (mc_schema ctx) (req_method req) (req_url req);
          subject = build_subject_from_headers (req_headers req)
      in unknown_route plan \<or> is_admin_bypass (mc_access_control ctx) subject
         \<or> list_all (check_granted reg (mc_schema ctx) (mc_access_control ctx) subject
             (build_context (fw_same fw) (fw_now fw) req (req_url req))) (plan_checks plan))"

definition passes_gates ::
  "framework \<Rightarrow> middleware_context \<Rightarrow> shards \<Rightarrow> bool \<Rightarrow> request \<Rightarrow> request option" where
  "passes_gates fw ctx shards requires_auth req =
     (let sec = mc_security ctx in
      if \<not> within_limits fw (sc_http_limits sec) req then None
      else if cors_enabled (sc_cors sec) \<and> \<not> cors_passes fw (sc_cors sec) req then None
      else (case (if requires_auth \<and> mc_auth_service ctx then authenticated_request fw ctx req else Some req) of
        None \<Rightarrow> None
      | Some req' \<Rightarrow>
          if mc_rate_limit_store ctx \<and> sc_rate_limits sec \<noteq> [] \<and> \<not> within_rates fw ctx shards req' then None
          else if requires_auth \<and> enabled (mc_access_control ctx)
            \<and> (case mc_policy_engine ctx of None \<Rightarrow> False | Some reg \<Rightarrow> \<not> authorized_request fw ctx reg req')
          then None else Some req'))"

section \<open>Each gate\<close>

text \<open>\<open>is_gate g t req\<close>: the reply of \<open>g\<close> around a handler is that of the handler on the request \<open>t\<close> gives,
  up to headers, with the same exception when the handler throws one, and does not depend on the handler
  when \<open>t\<close> gives none.\<close>

fun same_answer :: "http_result \<Rightarrow> http_result \<Rightarrow> bool" where
  "same_answer (Inr r) (Inr r') \<longleftrightarrow> rep_status r = rep_status r' \<and> rep_content r = rep_content r'"
| "same_answer (Inl ex) (Inl ex') \<longleftrightarrow> ex = ex'"
| "same_answer _ _ \<longleftrightarrow> False"

definition is_gate :: "(handler \<Rightarrow> handler) \<Rightarrow> (request \<Rightarrow> request option) \<Rightarrow> request \<Rightarrow> bool" where
  "is_gate g t req \<longleftrightarrow> (\<forall>h h' p rep.
     (case t req of Some req' \<Rightarrow> same_answer (g h p req rep) (h p req' rep)
        \<and> (h p req' rep = h' p req' rep \<longrightarrow> g h p req rep = g h' p req rep)
      | None \<Rightarrow> g h p req rep = g h' p req rep))"

lemma same_answer_refl [simp]: "same_answer r r"
  by (cases r) simp_all

lemma same_answer_trans: "same_answer r r' \<Longrightarrow> same_answer r' r'' \<Longrightarrow> same_answer r r''"
  by (cases r; cases r'; cases r'') simp_all

lemma is_gate_id: "is_gate (\<lambda>h. h) Some req"
  by (simp add: is_gate_def)

lemma is_gateD:
  "is_gate g t req \<Longrightarrow> (case t req of Some req' \<Rightarrow> same_answer (g h p req rep) (h p req' rep)
        \<and> (h p req' rep = h' p req' rep \<longrightarrow> g h p req rep = g h' p req rep)
      | None \<Rightarrow> g h p req rep = g h' p req rep)"
  by (simp add: is_gate_def)

lemma is_gate_SomeI:
  assumes "t req = Some req'" and "\<And>h p rep. same_answer (g h p req rep) (h p req' rep)"
    and "\<And>h h' p rep. h p req' rep = h' p req' rep \<Longrightarrow> g h p req rep = g h' p req rep"
  shows "is_gate g t req"
  unfolding is_gate_def assms(1) option.case by (intro allI conjI impI assms(2,3))

lemma is_gate_NoneI:
  assumes "t req = None" and "\<And>h h' p rep. g h p req rep = g h' p req rep"
  shows "is_gate g t req"
  unfolding is_gate_def assms(1) option.case by (intro allI assms(2))

lemma is_gate_comp:
  assumes "is_gate g t req" and "\<And>req'. t req = Some req' \<Longrightarrow> is_gate g' t' req'"
  shows "is_gate (\<lambda>h. g (g' h)) (\<lambda>req. Option.bind (t req) t') req"
proof (cases "t req")
  case None
  then show ?thesis using assms(1) by (simp add: is_gate_def)
next
  case (Some req')
  have one: "same_answer (g h p req rep) (h p req' rep)"
    "h p req' rep = h' p req' rep \<Longrightarrow> g h p req rep = g h' p req rep" for h h' p rep
    using is_gateD [OF assms(1), of h p rep h'] Some by simp_all
  note two = is_gateD [OF assms(2) [OF Some]]
  show ?thesis
  proof (cases "t' req'")
    case None
    then have "g' h p req' rep = g' h' p req' rep" for h h' p rep using two [of h p rep h'] by simp
    then have equal: "g (g' h) p req rep = g (g' h') p req rep" for h h' p rep by (rule one(2))
    show ?thesis using None Some by (intro is_gate_NoneI equal) simp_all
  next
    case (Some req'')
    have inner: "same_answer (g' h p req' rep) (h p req'' rep)"
      "h p req'' rep = h' p req'' rep \<Longrightarrow> g' h p req' rep = g' h' p req' rep" for h h' p rep
      using two [of h p rep h'] Some by simp_all
    have answer: "same_answer (g (g' h) p req rep) (h p req'' rep)" for h p rep
      using one(1) [of "g' h" p rep] inner(1) [of h p rep] by (rule same_answer_trans)
    have equal: "g (g' h) p req rep = g (g' h') p req rep" if "h p req'' rep = h' p req'' rep" for h h' p rep
      using inner(2) [of h p rep h'] that by (intro one(2)) simp
    show ?thesis using Some \<open>t req = Some req'\<close> by (intro is_gate_SomeI [of _ _ req''] answer equal) simp_all
  qed
qed

lemma header_limit:
  "find (\<lambda>(name, v). m < length v) hs = None \<longleftrightarrow> list_all (\<lambda>(_, v). length v \<le> m) hs"
  by (auto simp: find_None_iff list_all_iff not_less)

lemma http_limits_inside:
  "within_limits fw l req \<Longrightarrow>
   http_limits_handle (fw_same fw) dump (fw_content_length fw) (fw_query_params fw) l h p req rep = h p req rep"
  by (simp add: http_limits_handle_def within_limits_def not_less header_limit [symmetric])

lemma http_limits_outside:
  assumes "\<not> within_limits fw l req"
  shows "http_limits_handle (fw_same fw) dump (fw_content_length fw) (fw_query_params fw) l h p req rep
      = http_limits_handle (fw_same fw) dump (fw_content_length fw) (fw_query_params fw) l h' p req rep"
    and "\<exists>reply. http_limits_handle (fw_same fw) dump (fw_content_length fw) (fw_query_params fw) l h p req rep = Inr reply
      \<and> rep_headers reply = hdr_put (fw_same fw) ''Content-Type'' ''application/json'' (rep_headers rep)"
  using assms unfolding http_limits_handle_def within_limits_def header_limit [symmetric]
  by (auto simp: write_json_def not_less split: option.splits prod.splits)

text \<open>An exception that leaves a middleware is one the handler inside it threw.\<close>

definition transparent :: "(handler \<Rightarrow> handler) \<Rightarrow> bool" where
  "transparent g \<longleftrightarrow> (\<forall>h p req rep ex. g h p req rep = Inl ex \<longrightarrow> (\<exists>hs. h p (req\<lparr>req_headers := hs\<rparr>) rep = Inl ex))"

lemma transparentI:
  "(\<And>h p req rep ex. g h p req rep = Inl ex \<Longrightarrow> \<exists>hs. h p (req\<lparr>req_headers := hs\<rparr>) rep = Inl ex) \<Longrightarrow> transparent g"
  by (simp add: transparent_def)

lemma transparent_same:
  assumes "\<And>h p req rep ex. g h p req rep = Inl ex \<Longrightarrow> h p req rep = Inl ex"
  shows "transparent g"
proof (rule transparentI)
  fix h p req rep ex
  assume "g h p req rep = Inl ex"
  then have "h p (req\<lparr>req_headers := req_headers req\<rparr>) rep = Inl ex" using assms by simp
  then show "\<exists>hs. h p (req\<lparr>req_headers := hs\<rparr>) rep = Inl ex" by blast
qed

lemma transparent_id: "transparent (\<lambda>h. h)"
  by (rule transparent_same)

lemma transparent_comp: "transparent g \<Longrightarrow> transparent g' \<Longrightarrow> transparent (\<lambda>h. g (g' h))"
  unfolding transparent_def by (metis request.update_convs(3) request.surjective)

lemma transparent_if: "transparent g \<Longrightarrow> transparent (\<lambda>h. if c then g h else h)"
  by (cases c) (simp_all add: transparent_id)

lemma middlewares_transparent:
  "transparent (http_limits_handle same dump content_length query_params l)"
  "transparent (security_headers_handle same config)"
  "transparent (cors_handle same cors)"
  "transparent (protected_handle same dump jwt_verify tracking is_revoked cookies)"
  "transparent (\<lambda>h p req rep. fst (rate_limit_handle same dump hash smp_count clock rules h p req rep shards))"
  "transparent (apply_authorization same dump now reg s cfg)"
proof -
  show "transparent (protected_handle same dump jwt_verify tracking is_revoked cookies)"
    by (rule transparentI) (auto simp: protected_handle_def split: option.splits if_splits)
qed (rule transparent_same, force simp: http_limits_handle_def security_headers_handle_def cors_handle_def
      rate_limit_handle_def apply_authorization_def authz_handle_def Let_def
      split: if_splits option.splits sum.splits prod.splits)+

lemma http_limits_gate:
  "is_gate (http_limits_handle (fw_same fw) dump (fw_content_length fw) (fw_query_params fw) l)
     (\<lambda>req. if within_limits fw l req then Some req else None) req"
proof (cases "within_limits fw l req")
  case True
  then show ?thesis by (simp add: is_gate_def http_limits_inside)
next
  case False
  then show ?thesis by (intro is_gate_NoneI http_limits_outside(1)) simp_all
qed

lemma security_headers_gate: "is_gate (security_headers_handle same config) Some req"
  by (auto simp: is_gate_def security_headers_handle_def Let_def split: sum.split)

lemma add_cors_headers_answer: "same_answer (Inr (add_cors_headers same cors origin rep)) (Inr rep)"
  by (simp add: add_cors_headers_def Let_def)

lemma cors_gate:
  "is_gate (cors_handle (fw_same fw) cors) (\<lambda>req. if cors_passes fw cors req then Some req else None) req"
  by (cases "co_policy cors")
    (auto simp: is_gate_def cors_handle_def cors_passes_def Let_def add_cors_headers_answer
      simp del: same_answer.simps(1) split: sum.split)

lemma protected_gate:
  "is_gate (protected_handle (fw_same fw) dump (fw_jwt_verify fw) (mc_token_tracking ctx) (fw_is_revoked fw) (mc_cookie_config ctx))
     (authenticated_request fw ctx) req"
  by (auto simp: is_gate_def protected_handle_def authenticated_request_def split: option.splits)

lemma rate_limit_gate:
  "is_gate (\<lambda>h p req rep. fst (rate_limit_handle (fw_same fw) dump (fw_hash fw) (fw_smp_count fw) (fw_clock fw)
      (sc_rate_limits (mc_security ctx)) h p req rep shards))
     (\<lambda>req. if within_rates fw ctx shards req then Some req else None) req"
  by (auto simp: is_gate_def within_rates_def rate_limit_handle_def Let_def split: prod.splits option.splits sum.splits)

lemma authorization_gate:
  assumes "req_url req \<noteq> []"
  shows "is_gate (apply_authorization (fw_same fw) dump (fw_now fw) reg (mc_schema ctx) (mc_access_control ctx))
     (\<lambda>req. if \<not> enabled (mc_access_control ctx) \<or> authorized_request fw ctx reg req then Some req else None) req"
  by (simp add: is_gate_def apply_authorization_def authz_handle_decision [OF assms] authorized_request_def Let_def)

section \<open>The headers of a reply\<close>

lemma hdr_get_put_same: "header_names same \<Longrightarrow> hdr_get same (hdr_put same k v hs) k = Some v"
  by (induction hs) (auto simp: header_names_def)

lemma hdr_get_put_other:
  assumes "header_names same" and "\<not> iequals k k'"
  shows "hdr_get same (hdr_put same k v hs) k' = hdr_get same hs k'"
proof -
  have "\<not> (same a k \<and> same a k')" for a using assms unfolding header_names_def iequals_def by metis
  then show ?thesis using assms by (induction hs) (auto simp: header_names_def)
qed

end
