(* ===== verification/Chain_Properties.thy ===== *)
theory Chain_Properties
  imports Http_Chain
begin

text \<open>
  Properties of the middleware chain: which requests reach a handler, which replies carry the security
  headers, and to which origins a reply is opened.
\<close>

section \<open>The handler behind the gates\<close>

lemma gate_if: "(c \<Longrightarrow> is_gate g t req) \<Longrightarrow>
    is_gate (\<lambda>h. if c then g h else h) (\<lambda>req. if c then t req else Some req) req"
  by (cases c) (simp_all add: is_gate_id)

lemma gate_eq: "is_gate g t req \<Longrightarrow> t req = t' req \<Longrightarrow> is_gate g t' req"
  by (simp add: is_gate_def)

lemma authenticated_request_url: "authenticated_request fw ctx req = Some req' \<Longrightarrow>
    req_url req' = req_url req \<and> req_method req' = req_method req"
  by (auto simp: authenticated_request_def split: option.splits if_splits)

text \<open>The layers of the chain, from the outside to the inside.\<close>

abbreviation limits_layer :: "framework \<Rightarrow> middleware_context \<Rightarrow> handler \<Rightarrow> handler" where
  "limits_layer fw ctx \<equiv> http_limits_handle (fw_same fw) (fw_dump fw) (fw_content_length fw) (fw_query_params fw)
     (sc_http_limits (mc_security ctx))"

abbreviation heads_layer :: "framework \<Rightarrow> middleware_context \<Rightarrow> handler \<Rightarrow> handler" where
  "heads_layer fw ctx \<equiv> security_headers_handle (fw_same fw) (sc_security_headers (mc_security ctx))"

abbreviation cors_layer :: "framework \<Rightarrow> middleware_context \<Rightarrow> handler \<Rightarrow> handler" where
  "cors_layer fw ctx \<equiv> \<lambda>h. if cors_enabled (sc_cors (mc_security ctx))
     then cors_handle (fw_same fw) (sc_cors (mc_security ctx)) h else h"

abbreviation auth_layer :: "framework \<Rightarrow> middleware_context \<Rightarrow> bool \<Rightarrow> handler \<Rightarrow> handler" where
  "auth_layer fw ctx requires_auth \<equiv> \<lambda>h. if requires_auth \<and> mc_auth_service ctx
     then protected_handle (fw_same fw) (fw_dump fw) (fw_jwt_verify fw) (mc_token_tracking ctx) (fw_is_revoked fw)
       (mc_cookie_config ctx) h else h"

abbreviation rate_layer :: "framework \<Rightarrow> middleware_context \<Rightarrow> shards \<Rightarrow> handler \<Rightarrow> handler" where
  "rate_layer fw ctx shards \<equiv> \<lambda>h. if mc_rate_limit_store ctx \<and> sc_rate_limits (mc_security ctx) \<noteq> []
     then (\<lambda>p req rep. fst (rate_limit_handle (fw_same fw) (fw_dump fw) (fw_hash fw) (fw_smp_count fw) (fw_clock fw)
       (sc_rate_limits (mc_security ctx)) h p req rep shards)) else h"

abbreviation authz_layer :: "framework \<Rightarrow> middleware_context \<Rightarrow> bool \<Rightarrow> handler \<Rightarrow> handler" where
  "authz_layer fw ctx requires_auth \<equiv> \<lambda>h. if mc_policy_engine ctx \<noteq> None \<and> requires_auth
     then apply_authorization (fw_same fw) (fw_dump fw) (fw_now fw) (the (mc_policy_engine ctx)) (mc_schema ctx)
       (mc_access_control ctx) h else h"

lemma wrap_layers:
  "wrap_with_middlewares fw ctx shards requires_auth =
    (\<lambda>h. limits_layer fw ctx (heads_layer fw ctx (cors_layer fw ctx (auth_layer fw ctx requires_auth
      (rate_layer fw ctx shards (authz_layer fw ctx requires_auth h))))))"
  by (rule ext) (auto simp: wrap_with_middlewares_def maybe_protect_def apply_authorization_def Let_def split: option.splits)


lemma chain_gate:
  assumes "req_url req \<noteq> []"
  shows "is_gate (wrap_with_middlewares fw ctx shards requires_auth) (passes_gates fw ctx shards requires_auth) req"
proof -
  let ?sec = "mc_security ctx"
  let ?limits = "limits_layer fw ctx" and ?heads = "heads_layer fw ctx" and ?cors = "cors_layer fw ctx"
  let ?auth = "auth_layer fw ctx requires_auth" and ?rate = "rate_layer fw ctx shards"
  let ?authz = "authz_layer fw ctx requires_auth"
  let ?reg = "the (mc_policy_engine ctx)" and ?azc = "mc_policy_engine ctx \<noteq> None \<and> requires_auth"
  let ?tl = "\<lambda>req. if within_limits fw (sc_http_limits ?sec) req then Some req else None"
  let ?tc = "\<lambda>req. if cors_enabled (sc_cors ?sec) then if cors_passes fw (sc_cors ?sec) req then Some req else None else Some req"
  let ?ta = "\<lambda>req. if requires_auth \<and> mc_auth_service ctx then authenticated_request fw ctx req else Some req"
  let ?tr = "\<lambda>req. if mc_rate_limit_store ctx \<and> sc_rate_limits ?sec \<noteq> []
      then if within_rates fw ctx shards req then Some req else None else Some req"
  let ?tz = "\<lambda>req. if ?azc then if \<not> enabled (mc_access_control ctx) \<or> authorized_request fw ctx ?reg req
      then Some req else None else Some req"
  have inner: "is_gate (\<lambda>h. ?auth (?rate (?authz h))) (\<lambda>req. Option.bind (?ta req) (\<lambda>req. Option.bind (?tr req) ?tz)) req"
  proof (rule is_gate_comp [of ?auth])
    show "is_gate ?auth ?ta req" by (intro gate_if protected_gate)
    fix req' assume "?ta req = Some req'"
    then have "req_url req' = req_url req" using authenticated_request_url by (auto split: if_splits)
    then have url: "req_url req' \<noteq> []" using assms by simp
    show "is_gate (\<lambda>h. ?rate (?authz h)) (\<lambda>req. Option.bind (?tr req) ?tz) req'"
    proof (rule is_gate_comp [of ?rate])
      show "is_gate ?rate ?tr req'" by (intro gate_if rate_limit_gate)
      fix req'' assume "?tr req' = Some req''"
      then have "req_url req'' \<noteq> []" using url by (auto split: if_splits)
      then show "is_gate ?authz ?tz req''" by (intro gate_if authorization_gate)
    qed
  qed
  have outer: "is_gate (\<lambda>h. ?heads (?cors (?auth (?rate (?authz h)))))
      (\<lambda>req. Option.bind (Some req) (\<lambda>req. Option.bind (?tc req) (\<lambda>req. Option.bind (?ta req) (\<lambda>req. Option.bind (?tr req) ?tz)))) req"
  proof (rule is_gate_comp [of ?heads, OF security_headers_gate])
    fix req' assume "Some req = Some req'"
    then have req': "req' = req" by simp
    show "is_gate (\<lambda>h. ?cors (?auth (?rate (?authz h))))
        (\<lambda>req. Option.bind (?tc req) (\<lambda>req. Option.bind (?ta req) (\<lambda>req. Option.bind (?tr req) ?tz))) req'"
    proof (rule is_gate_comp [of ?cors])
      show "is_gate ?cors ?tc req'" by (intro gate_if cors_gate)
      fix req'' assume "?tc req' = Some req''"
      then have "req'' = req" using req' by (auto split: if_splits)
      then show "is_gate (\<lambda>h. ?auth (?rate (?authz h))) (\<lambda>req. Option.bind (?ta req) (\<lambda>req. Option.bind (?tr req) ?tz)) req''"
        using inner by simp
    qed
  qed
  have "is_gate (\<lambda>h. ?limits (?heads (?cors (?auth (?rate (?authz h))))))
      (\<lambda>req. Option.bind (?tl req) (\<lambda>req. Option.bind (Some req) (\<lambda>req. Option.bind (?tc req)
        (\<lambda>req. Option.bind (?ta req) (\<lambda>req. Option.bind (?tr req) ?tz))))) req"
  proof (rule is_gate_comp [of ?limits, OF http_limits_gate])
    fix req' assume "?tl req = Some req'"
    then have "req' = req" by (auto split: if_splits)
    then show "is_gate (\<lambda>h. ?heads (?cors (?auth (?rate (?authz h)))))
      (\<lambda>req. Option.bind (Some req) (\<lambda>req. Option.bind (?tc req) (\<lambda>req. Option.bind (?ta req) (\<lambda>req. Option.bind (?tr req) ?tz)))) req'"
      using outer by simp
  qed
  then show ?thesis
    unfolding wrap_layers by (rule gate_eq) (auto simp: passes_gates_def Let_def split: option.splits)
qed

text \<open>C22: A handler is reached through every gate of the chain, in order: its reply decides status and body of
  the answer when the request is within the limits, is no preflight and comes from an origin that
  passes, carries a valid token that is not revoked, finds a token in each bucket and is authorized,
  and then it sees the identity of the token (an exception it throws leaves the chain); the answer to any
  other request is the same for all handlers. This holds for every combination of gates the context switches on.\<close>

theorem handler_behind_all_gates:
  assumes "req_url req \<noteq> []"
  shows "case passes_gates fw ctx shards requires_auth req of
      Some req' \<Rightarrow> same_answer (wrap_with_middlewares fw ctx shards requires_auth h p req rep) (h p req' rep)
    | None \<Rightarrow> wrap_with_middlewares fw ctx shards requires_auth h p req rep
        = wrap_with_middlewares fw ctx shards requires_auth h' p req rep"
  using is_gateD [OF chain_gate [OF assms], of fw ctx shards requires_auth h p rep h'] by (simp split: option.splits)

section \<open>Headers of every reply\<close>











text \<open>An exception of the handler, on a request that passes every gate, leaves the chain as it is.\<close>

theorem exception_leaves_the_chain:
  assumes "req_url req \<noteq> []" and "passes_gates fw ctx shards requires_auth req = Some req'" and "h p req' rep = Inl ex"
  shows "wrap_with_middlewares fw ctx shards requires_auth h p req rep = Inl ex"
proof -
  have "same_answer (wrap_with_middlewares fw ctx shards requires_auth h p req rep) (Inl ex)"
    using is_gateD [OF chain_gate [OF assms(1)], of fw ctx shards requires_auth h p rep h] assms(2,3) by simp
  then show ?thesis by (cases "wrap_with_middlewares fw ctx shards requires_auth h p req rep") simp_all
qed

section \<open>Origins\<close>

abbreviation "acao \<equiv> ''Access-Control-Allow-Origin''"
abbreviation "acac \<equiv> ''Access-Control-Allow-Credentials''"

lemma cors_names_differ:
  "\<not> iequals ''Content-Type'' acao" "\<not> iequals ''Vary'' acao" "\<not> iequals ''Access-Control-Expose-Headers'' acao"
  "\<not> iequals acac acao" "\<not> iequals ''Access-Control-Allow-Methods'' acao" "\<not> iequals ''Access-Control-Allow-Headers'' acao"
  "\<not> iequals ''Access-Control-Max-Age'' acao"
  "\<not> iequals ''Content-Type'' acac" "\<not> iequals ''Vary'' acac" "\<not> iequals ''Access-Control-Expose-Headers'' acac"
  "\<not> iequals acao acac" "\<not> iequals ''Access-Control-Allow-Methods'' acac" "\<not> iequals ''Access-Control-Allow-Headers'' acac"
  "\<not> iequals ''Access-Control-Max-Age'' acac"
  by code_simp+

lemma preflight_headers:
  assumes "header_names same" and "rep_headers rep = []"
  shows "hdr_get same (rep_headers (handle_preflight same cors origin rep)) acao
      = (if origin \<noteq> [] \<and> allows_origin cors origin then Some origin else None)"
    and "hdr_get same (rep_headers (handle_preflight same cors origin rep)) acac
      = (if origin \<noteq> [] \<and> allows_origin cors origin \<and> co_credentials cors then Some ''true'' else None)"
  by (simp_all add: handle_preflight_def Let_def assms(2) hdr_get_put_same [OF assms(1)]
      hdr_get_put_other [OF assms(1)] cors_names_differ del: hdr_put.simps)

lemma cors_reply_headers:
  assumes "header_names same" and "hdr_get same (rep_headers rep) acao = None" "hdr_get same (rep_headers rep) acac = None"
  shows "hdr_get same (rep_headers (add_cors_headers same cors origin rep)) acao
      = (if origin \<noteq> [] \<and> allows_origin cors origin then Some origin else None)"
    and "hdr_get same (rep_headers (add_cors_headers same cors origin rep)) acac
      = (if origin \<noteq> [] \<and> allows_origin cors origin \<and> co_credentials cors then Some ''true'' else None)"
  by (simp_all add: add_cors_headers_def Let_def assms(2,3) hdr_get_put_same [OF assms(1)]
      hdr_get_put_other [OF assms(1)] cors_names_differ)

lemma credentials_listed:
  "cors_validate cors = None \<Longrightarrow> co_credentials cors \<Longrightarrow> allows_origin cors origin \<Longrightarrow> origin \<in> set (co_origins cors)"
  by (auto simp: cors_validate_def cors_enabled_def allows_origin_def is_wildcard_def split: if_splits)

text \<open>A reply, of a preflight or of a request whose handler returned one, is opened to the origin of the request exactly when that
  origin is allowed, whatever the policy and the method; with a configuration that passes validation a
  browser may send credentials from the listed origins only.\<close>

theorem cors_opens_to_allowed_origins:
  assumes "header_names same" and "rep_headers rep = []"
    and "inner p req rep = Inr made" "hdr_get same (rep_headers made) acao = None" "hdr_get same (rep_headers made) acac = None"
    and "origin = get_origin same req" and "cors_handle same cors inner p req rep = Inr reply"
  shows "hdr_get same (rep_headers reply) acao = (if origin \<noteq> [] \<and> allows_origin cors origin then Some origin else None)
    \<and> \<not> (cors_validate cors = None \<and> hdr_get same (rep_headers reply) acac \<noteq> None \<and> origin \<notin> set (co_origins cors))"
proof -
  have refused: "hdr_get same (rep_headers (write_json same 403 body rep)) k = None" if "k = acao \<or> k = acac" for k body
    using that assms(2) by (auto simp: write_json_def hdr_get_put_other [OF assms(1)] cors_names_differ simp del: hdr_put.simps)
  have got: "hdr_get same (rep_headers reply) acao = (if origin \<noteq> [] \<and> allows_origin cors origin then Some origin else None)"
    "hdr_get same (rep_headers reply) acac
      = (if origin \<noteq> [] \<and> allows_origin cors origin \<and> co_credentials cors then Some ''true'' else None)"
    using assms(7) unfolding cors_handle_def Let_def assms(6) [symmetric] assms(3)
    by (auto simp: preflight_headers [OF assms(1,2)] cors_reply_headers [OF assms(1,4,5)] refused split: if_splits)
  show ?thesis unfolding got using credentials_listed [of cors origin] by auto
qed

section \<open>Concrete inputs\<close>

definition demo_framework :: framework where
  "demo_framework =
     \<lparr>fw_same = iequals, fw_dump = (\<lambda>_. ''{}''), fw_content_length = (\<lambda>_. 0), fw_query_params = (\<lambda>_. 0),
      fw_jwt_verify = (\<lambda>_. None), fw_is_revoked = (\<lambda>_. False), fw_hash = length, fw_smp_count = 2,
      fw_clock = (\<lambda>_. 0), fw_now = 0\<rparr>"

definition demo_context :: middleware_context where
  "demo_context =
     \<lparr>mc_security = \<lparr>sc_cors = cors_permissive [''https://app''], sc_http_limits = http_limits_safe_defaults,
        sc_security_headers = security_headers_recommended, sc_rate_limits = []\<rparr>,
      mc_schema = \<lparr>entities = []\<rparr>, mc_access_control = default_access_config, mc_auth_service = True,
      mc_rate_limit_store = False, mc_policy_engine = None, mc_token_tracking = False,
      mc_cookie_config = cookie_safe_defaults\<rparr>"

definition demo_get :: request where
  "demo_get = \<lparr>req_method = ''GET'', req_url = ''/notes'', req_headers = [(''origin'', ''https://app'')]\<rparr>"

definition fresh_reply :: reply where
  "fresh_reply = \<lparr>rep_status = 200, rep_headers = [], rep_content = []\<rparr>"

lemma handler_behind_all_gates_witness:
  "wrap_with_middlewares demo_framework demo_context (\<lambda>_. []) True (\<lambda>_ _ _. Inr (ok_reply ''secret'')) ''/notes'' demo_get fresh_reply
   = wrap_with_middlewares demo_framework demo_context (\<lambda>_. []) True (\<lambda>_ _ _. Inl ''bad_alloc'') ''/notes'' demo_get fresh_reply"
proof -
  have "extract_access_token iequals demo_get ''sea_access'' = None" by code_simp
  then have "authenticated_request demo_framework demo_context demo_get = None"
    by (simp add: authenticated_request_def demo_framework_def demo_context_def cookie_safe_defaults_def)
  then have "passes_gates demo_framework demo_context (\<lambda>_. []) True demo_get = None"
    by (simp add: passes_gates_def Let_def demo_context_def)
  with handler_behind_all_gates [of demo_get demo_framework demo_context "\<lambda>_. []" True "\<lambda>_ _ _. Inr (ok_reply ''secret'')" "''/notes''"
      fresh_reply "\<lambda>_ _ _. Inl ''bad_alloc''"]
  show ?thesis by (simp add: demo_get_def)
qed


lemma cors_opens_to_allowed_origins_witness:
  "\<exists>reply. cors_handle iequals (cors_permissive [''https://app'']) (\<lambda>_ _ rep. Inr rep) ''/notes'' demo_get fresh_reply = Inr reply
     \<and> hdr_get iequals (rep_headers reply) acao = Some ''https://app''"
proof -
  have "get_origin iequals demo_get = ''https://app''" "allows_origin (cors_permissive [''https://app'']) ''https://app''"
    by code_simp+
  moreover have "\<exists>reply. cors_handle iequals (cors_permissive [''https://app'']) (\<lambda>_ _ rep. Inr rep) ''/notes'' demo_get fresh_reply
      = Inr reply"
    by (simp add: cors_handle_def cors_permissive_def cors_deny_all_def demo_get_def Let_def)
  ultimately show ?thesis
    using cors_opens_to_allowed_origins [OF header_names_iequals _ _ _ _ refl, where rep = fresh_reply and inner = "\<lambda>_ _ rep. Inr rep"
      and p = "''/notes''" and req = demo_get and cors = "cors_permissive [''https://app'']" and made = fresh_reply]
    by (fastforce simp: fresh_reply_def)
qed

end
