(* ===== verification/Jwt_Service.thy ===== *)
theory Jwt_Service
  imports Protected_Handler Token_Tracking
begin

unbundle bit_operations_syntax

text \<open>
  \<open>JwtService\<close> (\<open>libs/infrastructure/security/jwt_service.{h,cpp}\<close>): the claims of a token when it is
  made, and what is read from a token that verifies. Signing, and the verification of the signature,
  of the issuer and of the dates, are the JWT library's: \<open>jwt_library\<close> holds these functions, and
  \<open>jwt_library_ok\<close> states what its documentation promises of payloads with string and integer claims. The
  system clock is in nanoseconds, kept in 64 bits by the library.
\<close>

section \<open>Types\<close>

datatype token_type = AccessToken | RefreshToken

fun token_type_to_string :: "token_type \<Rightarrow> string" where
  "token_type_to_string AccessToken = ''access''"
| "token_type_to_string RefreshToken = ''refresh''"

definition token_type_from_string :: "string \<Rightarrow> token_type option" where
  "token_type_from_string s =
     (if s = ''access'' then Some AccessToken else if s = ''refresh'' then Some RefreshToken else None)"

record token_claims = jwt_claims +
  jwt_issuer :: string
  jwt_token_type :: token_type
  jwt_issued_at :: int
  jwt_expires_at :: int

record generate_params =
  gp_user_id :: string
  gp_email :: string
  gp_role :: string
  gp_secret :: string
  gp_issuer :: string
  gp_type :: token_type
  gp_ttl :: int
  gp_additional :: "(string, string) table"
  gp_jti :: string

record verify_params =
  vp_token :: string
  vp_secret :: string
  vp_issuer :: string
  vp_type :: token_type

section \<open>The library\<close>

type_synonym payload = "(string, json) table"

text \<open>\<open>jl_sign secret p\<close>, the token with the payload \<open>p\<close>; \<open>jl_verify secret issuer now token\<close>, its payload when
  the verifier accepts it; \<open>jl_date\<close>, a claim as a date in seconds; \<open>jl_text\<close>, the text of a claim that is
  neither a string nor an integer nor a boolean.\<close>

record jwt_library =
  jl_sign :: "string \<Rightarrow> payload \<Rightarrow> string"
  jl_verify :: "string \<Rightarrow> string \<Rightarrow> time_point \<Rightarrow> string \<Rightarrow> payload option"
  jl_date :: "json \<Rightarrow> int option"
  jl_text :: "json \<Rightarrow> string"

text \<open>The dates and the issuer of a payload, as the verifier checks them.\<close>

definition payload_current :: "string \<Rightarrow> time_point \<Rightarrow> payload \<Rightarrow> bool" where
  "payload_current issuer now p \<longleftrightarrow>
     tbl_get p ''iss'' = Some (JString issuer)
     \<and> (case tbl_get p ''exp'' of Some (JInt e) \<Rightarrow> now \<le> sint e * nanos | _ \<Rightarrow> True)
     \<and> (case tbl_get p ''iat'' of Some (JInt i) \<Rightarrow> sint i * nanos \<le> now | _ \<Rightarrow> True)"

text \<open>Payloads of which something is promised: claims that are strings or integers, under different names, and
  for acceptance both dates, within the range of the clock, and no \<open>nbf\<close>. What is read back has the same
  claims, in any order.\<close>

definition plain_claims :: "payload \<Rightarrow> bool" where
  "plain_claims p \<longleftrightarrow> tbl_ok p
     \<and> (\<forall>k v. tbl_get p k = Some v \<longrightarrow> (case v of JString _ \<Rightarrow> True | JInt _ \<Rightarrow> True | _ \<Rightarrow> False))"

definition clock_seconds :: "json option \<Rightarrow> bool" where
  "clock_seconds v = (case v of Some (JInt w) \<Rightarrow> 0 \<le> sint w \<and> sint w * nanos < 2 ^ 63 | _ \<Rightarrow> False)"

definition payload_dated :: "payload \<Rightarrow> bool" where
  "payload_dated p \<longleftrightarrow>
     clock_seconds (tbl_get p ''exp'') \<and> clock_seconds (tbl_get p ''iat'') \<and> tbl_get p ''nbf'' = None"

definition same_claims :: "payload \<Rightarrow> payload \<Rightarrow> bool" where
  "same_claims q p \<longleftrightarrow> tbl_ok q \<and> map_of q = map_of p"

text \<open>The promises: a token is not empty; a dated payload signed with a secret is accepted with that secret
  exactly while it is current; a token that is accepted has the claims that were signed; an integer is
  read as a date. Nothing is promised of other dates, which the library refuses or rounds.\<close>

definition jwt_library_ok :: "jwt_library \<Rightarrow> bool" where
  "jwt_library_ok lib \<longleftrightarrow>
     (\<forall>secret p. jl_sign lib secret p \<noteq> [])
     \<and> (\<forall>secret issuer now p. secret \<noteq> [] \<longrightarrow> plain_claims p \<longrightarrow> payload_dated p \<longrightarrow>
          (jl_verify lib secret issuer now (jl_sign lib secret p) \<noteq> None \<longleftrightarrow> payload_current issuer now p))
     \<and> (\<forall>secret issuer now p q. plain_claims p \<longrightarrow>
          jl_verify lib secret issuer now (jl_sign lib secret p) = Some q \<longrightarrow> same_claims q p)
     \<and> (\<forall>w. clock_seconds (Some (JInt w)) \<longrightarrow> jl_date lib (JInt w) = Some (sint w))"

lemma jwt_library_okD:
  assumes "jwt_library_ok lib"
  shows "jl_sign lib secret p \<noteq> []"
    and "secret \<noteq> [] \<Longrightarrow> plain_claims p \<Longrightarrow> payload_dated p \<Longrightarrow>
      jl_verify lib secret issuer now (jl_sign lib secret p) \<noteq> None \<longleftrightarrow> payload_current issuer now p"
    and "plain_claims p \<Longrightarrow> jl_verify lib secret issuer now (jl_sign lib secret p) = Some q \<Longrightarrow> same_claims q p"
    and "clock_seconds (Some (JInt w)) \<Longrightarrow> jl_date lib (JInt w) = Some (sint w)"
  using assms unfolding jwt_library_ok_def by blast+

section \<open>Making a token\<close>

definition uuid_bytes :: "64 word \<Rightarrow> 64 word \<Rightarrow> 8 word list" where
  "uuid_bytes a b =
     (let bytes = map (\<lambda>i. ucast (drop_bit (i * 8) a AND 0xFF)) [0..<8]
                @ map (\<lambda>i. ucast (drop_bit (i * 8) b AND 0xFF)) [0..<8];
          bytes = bytes[6 := (bytes ! 6 AND 0x0F) OR 0x40]
      in bytes[8 := (bytes ! 8 AND 0x3F) OR 0x80])"

definition hex_char :: "8 word \<Rightarrow> char" where
  "hex_char n = ''0123456789abcdef'' ! unat (n AND 0x0F)"

text \<open>The text of the bytes, with a dash before those numbered 4, 6, 8 and 10; \<open>a\<close> and \<open>b\<close> are the two
  numbers drawn.\<close>

definition generate_uuid_v4 :: "64 word \<Rightarrow> 64 word \<Rightarrow> string" where
  "generate_uuid_v4 a b =
     concat (map (\<lambda>(i, x). (if i \<in> {4, 6, 8, 10} then ''-'' else []) @ [hex_char (drop_bit 4 x), hex_char x])
       (zip [0..<16] (uuid_bytes a b)))"

definition with_access_claims :: "generate_params \<Rightarrow> payload \<Rightarrow> payload" where
  "with_access_claims gp p =
     (if gp_type gp \<noteq> AccessToken then p
      else let p1 = (if gp_email gp \<noteq> [] then tbl_put ''email'' (JString (gp_email gp)) p else p);
               p2 = (if gp_role gp \<noteq> [] then tbl_put ''role'' (JString (gp_role gp)) p1 else p1)
           in fold (\<lambda>(k, v) q. if k = [] \<or> v = [] then q else tbl_put k (JString v) q) (gp_additional gp) p2)"

definition base_payload :: "string \<Rightarrow> time_point \<Rightarrow> generate_params \<Rightarrow> payload" where
  "base_payload jti now gp =
     [(''iss'', JString (gp_issuer gp)), (''sub'', JString (gp_user_id gp)), (''jti'', JString jti),
      (''iat'', JInt (word_of_int (now div nanos))), (''exp'', JInt (word_of_int ((now + gp_ttl gp * nanos) div nanos))),
      (''token_type'', JString (token_type_to_string (gp_type gp)))]"

definition generate_token :: "jwt_library \<Rightarrow> string \<Rightarrow> time_point \<Rightarrow> generate_params \<Rightarrow> string + string" where
  "generate_token lib uuid now gp =
     (if gp_secret gp = [] then Inl ''JwtService: secret cannot be empty''
      else if gp_user_id gp = [] then Inl ''JwtService: user_id cannot be empty''
      else if gp_issuer gp = [] then Inl ''JwtService: issuer cannot be empty''
      else if gp_ttl gp \<le> 0 then Inl ''JwtService: ttl must be > 0''
      else let jti = (if gp_jti gp = [] then uuid else gp_jti gp)
        in Inr (jl_sign lib (gp_secret gp) (with_access_claims gp (base_payload jti now gp))))"

section \<open>Verifying a token\<close>

definition standard_claims :: "string list" where
  "standard_claims = [''iss'', ''sub'', ''aud'', ''exp'', ''iat'', ''nbf'', ''jti'', ''email'', ''role'', ''token_type'']"

fun claim_text :: "jwt_library \<Rightarrow> json \<Rightarrow> string" where
  "claim_text lib (JString s) = s"
| "claim_text lib (JBool b) = (if b then ''true'' else ''false'')"
| "claim_text lib (JInt w) = int_str (sint w)"
| "claim_text lib v = jl_text lib v"

definition additional_claims_of :: "jwt_library \<Rightarrow> payload \<Rightarrow> (string, string) table" where
  "additional_claims_of lib p =
     fold (\<lambda>(k, v) t. if k \<in> set standard_claims then t
                      else let s = claim_text lib v in if s \<noteq> [] then tbl_put k s t else t) p []"

text \<open>A claim that must be a string when it is there: \<open>None\<close> is the exception of the conversion.\<close>

definition optional_string :: "json option \<Rightarrow> string option" where
  "optional_string v = (case v of None \<Rightarrow> Some [] | Some (JString s) \<Rightarrow> Some s | Some _ \<Rightarrow> None)"

definition required_string :: "json option \<Rightarrow> string option" where
  "required_string v = (case v of Some (JString s) \<Rightarrow> Some s | _ \<Rightarrow> None)"

definition jwt_verify_token :: "jwt_library \<Rightarrow> time_point \<Rightarrow> verify_params \<Rightarrow> token_claims option" where
  "jwt_verify_token lib now vp =
     (if vp_token vp = [] \<or> vp_secret vp = [] then None
      else case jl_verify lib (vp_secret vp) (vp_issuer vp) now (vp_token vp) of
        None \<Rightarrow> None
      | Some p \<Rightarrow>
          (case Option.bind (required_string (tbl_get p ''token_type'')) token_type_from_string of
             None \<Rightarrow> None
           | Some t \<Rightarrow>
               if t \<noteq> vp_type vp then None
               else
                 (case (required_string (tbl_get p ''sub''), required_string (tbl_get p ''iss''),
                        optional_string (tbl_get p ''email''), optional_string (tbl_get p ''role''),
                        Option.bind (tbl_get p ''iat'') (jl_date lib), Option.bind (tbl_get p ''exp'') (jl_date lib)) of
                    (Some sub, Some iss, Some email, Some role, Some iat, Some expires) \<Rightarrow>
                      Some \<lparr>jwt_user_id = sub, jwt_email = email, jwt_role = role,
                        jwt_jti = (case required_string (tbl_get p ''jti'') of None \<Rightarrow> [] | Some j \<Rightarrow> j),
                        jwt_additional = additional_claims_of lib p, jwt_issuer = iss, jwt_token_type = t,
                        jwt_issued_at = iat, jwt_expires_at = expires\<rparr>
                  | _ \<Rightarrow> None)))"

end
