(* ===== verification/Auth_Service.thy ===== *)
theory Auth_Service
  imports Jwt_Service
begin

text \<open>
  \<open>AuthentificationConfig\<close> (\<open>libs/domain/security_scheme/authentification_config.cpp\<close>) and \<open>AuthService\<close>
  (\<open>libs/application/authservice.cpp\<close>). BCrypt is a parameter of the handlers; the asynchronous forms run
  the same operations in a thread pool and are not modelled apart.
\<close>

section \<open>The configuration\<close>

datatype auth_type = NoAuth | JwtAuth | ApiKeyAuth | BasicAuth | OAuth2Auth

datatype jwt_algorithm = HS256 | HS384 | HS512 | RS256 | RS384 | RS512 | ES256 | ES384 | ES512

definition auth_type_from_string :: "string \<Rightarrow> string + auth_type" where
  "auth_type_from_string s =
     (if s = ''none'' then Inr NoAuth
      else if s = ''jwt'' then Inr JwtAuth
      else if s = ''api_key'' then Inr ApiKeyAuth
      else if s = ''basic'' then Inr BasicAuth
      else if s = ''oauth2'' then Inr OAuth2Auth
      else Inl (''AuthentificationConfig: unknown auth type '' @ quoted s))"

fun auth_type_to_string :: "auth_type \<Rightarrow> string" where
  "auth_type_to_string NoAuth = ''none''"
| "auth_type_to_string JwtAuth = ''jwt''"
| "auth_type_to_string ApiKeyAuth = ''api_key''"
| "auth_type_to_string BasicAuth = ''basic''"
| "auth_type_to_string OAuth2Auth = ''oauth2''"

definition jwt_algorithm_from_string :: "string \<Rightarrow> string + jwt_algorithm" where
  "jwt_algorithm_from_string s =
     (if s = ''HS256'' then Inr HS256
      else if s = ''HS384'' then Inr HS384
      else if s = ''HS512'' then Inr HS512
      else if s = ''RS256'' then Inr RS256
      else if s = ''RS384'' then Inr RS384
      else if s = ''RS512'' then Inr RS512
      else if s = ''ES256'' then Inr ES256
      else if s = ''ES384'' then Inr ES384
      else if s = ''ES512'' then Inr ES512
      else Inl (''AuthentificationConfig: unknown JWT algorithm '' @ quoted s))"

record auth_config =
  au_type :: auth_type
  au_jwt_algorithm :: jwt_algorithm
  au_jwt_secret :: string
  au_public_key_path :: string
  au_private_key_path :: string
  au_jwt_issuer :: string
  au_jwt_audience :: string
  au_access_ttl :: int
  au_refresh_ttl :: int
  au_delivery :: token_delivery
  au_cookies :: cookie_config
  au_tracking :: token_tracking_config
  au_api_key_header :: string
  au_oauth2_issuer_url :: string
  au_oauth2_jwks_url :: string

definition auth_config_none :: auth_config where
  "auth_config_none =
     \<lparr>au_type = NoAuth, au_jwt_algorithm = HS256, au_jwt_secret = [], au_public_key_path = [],
      au_private_key_path = [], au_jwt_issuer = [], au_jwt_audience = [], au_access_ttl = 900,
      au_refresh_ttl = 604800, au_delivery = DeliverBody, au_cookies = cookie_safe_defaults,
      au_tracking = default_tracking_config, au_api_key_header = ''X-API-Key'', au_oauth2_issuer_url = [],
      au_oauth2_jwks_url = []\<rparr>"

definition jwt_with_secret :: "string \<Rightarrow> jwt_algorithm \<Rightarrow> auth_config" where
  "jwt_with_secret secret algo =
     auth_config_none\<lparr>au_type := JwtAuth, au_jwt_algorithm := algo, au_jwt_secret := secret\<rparr>"

definition jwt_with_keys :: "string \<Rightarrow> string \<Rightarrow> jwt_algorithm \<Rightarrow> auth_config" where
  "jwt_with_keys public_path private_path algo =
     auth_config_none\<lparr>au_type := JwtAuth, au_jwt_algorithm := algo, au_public_key_path := public_path,
       au_private_key_path := private_path\<rparr>"

definition auth_api_key :: "string \<Rightarrow> auth_config" where
  "auth_api_key header = auth_config_none\<lparr>au_type := ApiKeyAuth, au_api_key_header := header\<rparr>"

definition auth_enabled :: "auth_config \<Rightarrow> bool" where
  "auth_enabled cfg \<longleftrightarrow> au_type cfg \<noteq> NoAuth"

definition uses_symmetric_key :: "auth_config \<Rightarrow> bool" where
  "uses_symmetric_key cfg =
     (if au_type cfg \<noteq> JwtAuth then False
      else au_jwt_algorithm cfg = HS256 \<or> au_jwt_algorithm cfg = HS384 \<or> au_jwt_algorithm cfg = HS512)"

definition uses_asymmetric_key :: "auth_config \<Rightarrow> bool" where
  "uses_asymmetric_key cfg = (if au_type cfg \<noteq> JwtAuth then False else \<not> uses_symmetric_key cfg)"

definition auth_config_validate :: "auth_config \<Rightarrow> string option" where
  "auth_config_validate cfg =
     (case au_type cfg of
        NoAuth \<Rightarrow> None
      | JwtAuth \<Rightarrow>
          (if uses_symmetric_key cfg \<and> au_jwt_secret cfg = []
           then Some (''AuthentificationConfig: JWT with symmetric algorithm ''
             @ ''(HS256/HS384/HS512) requires a secret'')
           else if uses_symmetric_key cfg \<and> length (au_jwt_secret cfg) < 32
           then Some (''AuthentificationConfig: JWT secret must be at least 32 chars ''
             @ ''(use a cryptographically random string)'')
           else if uses_asymmetric_key cfg \<and> au_public_key_path cfg = []
           then Some (''AuthentificationConfig: JWT with asymmetric algorithm ''
             @ ''(RS*/ES*) requires a public_key_path'')
           else if au_access_ttl cfg \<le> 0 then Some ''AuthentificationConfig: access_token_ttl must be > 0''
           else if au_refresh_ttl cfg \<le> 0 then Some ''AuthentificationConfig: refresh_token_ttl must be > 0''
           else if au_refresh_ttl cfg < au_access_ttl cfg
           then Some (''AuthentificationConfig: refresh_token_ttl must be >= access_token_ttl ''
             @ ''(otherwise refresh tokens are useless)'')
           else if 24 * 3600 < au_access_ttl cfg
           then Some (''AuthentificationConfig: access_token_ttl > 24h is a security risk. ''
             @ ''Use a shorter TTL (15min recommended) and rely on refresh tokens'')
           else case (if au_delivery cfg = DeliverCookie \<or> au_delivery cfg = DeliverBoth
                      then cookie_config_validate (au_cookies cfg) else None) of
             Some e \<Rightarrow> Some e
           | None \<Rightarrow> tracking_config_validate (au_tracking cfg))
      | ApiKeyAuth \<Rightarrow>
          (if au_api_key_header cfg = []
           then Some ''AuthentificationConfig: API Key auth requires a header name'' else None)
      | BasicAuth \<Rightarrow> None
      | OAuth2Auth \<Rightarrow>
          (if au_oauth2_issuer_url cfg = [] then Some ''AuthentificationConfig: OAuth2 requires issuer_url''
           else if au_oauth2_jwks_url cfg = [] then Some ''AuthentificationConfig: OAuth2 requires jwks_url''
           else None))"

section \<open>The service\<close>

record auth_service =
  as_config :: auth_config
  as_issuer :: string

definition make_auth_service :: "auth_config \<Rightarrow> string \<Rightarrow> string + auth_service" where
  "make_auth_service cfg service_name =
     (case auth_config_validate cfg of
        Some e \<Rightarrow> Inl e
      | None \<Rightarrow>
          if au_type cfg \<noteq> JwtAuth
          then Inl (''AuthService: seul le type JWT est supporte pour le moment (type recu: ''
            @ auth_type_to_string (au_type cfg) @ '')'')
          else if au_jwt_issuer cfg \<noteq> [] then Inr \<lparr>as_config = cfg, as_issuer = au_jwt_issuer cfg\<rparr>
          else if service_name = [] then Inl ''AuthService: ni jwt_issuer ni service_name fourni''
          else Inr \<lparr>as_config = cfg, as_issuer = service_name\<rparr>)"

definition make_generate_params ::
  "auth_service \<Rightarrow> string \<Rightarrow> string \<Rightarrow> string \<Rightarrow> token_type \<Rightarrow> int \<Rightarrow> (string, string) table \<Rightarrow> generate_params" where
  "make_generate_params svc user_id email role t ttl additional =
     \<lparr>gp_user_id = user_id, gp_email = email, gp_role = role, gp_secret = au_jwt_secret (as_config svc),
      gp_issuer = as_issuer svc, gp_type = t, gp_ttl = ttl, gp_additional = additional, gp_jti = []\<rparr>"

definition make_verify_params :: "auth_service \<Rightarrow> string \<Rightarrow> token_type \<Rightarrow> verify_params" where
  "make_verify_params svc token t =
     \<lparr>vp_token = token, vp_secret = au_jwt_secret (as_config svc), vp_issuer = as_issuer svc, vp_type = t\<rparr>"

definition generate_access_token ::
  "jwt_library \<Rightarrow> auth_service \<Rightarrow> string \<Rightarrow> time_point \<Rightarrow> string \<Rightarrow> string \<Rightarrow> string \<Rightarrow> (string, string) table
   \<Rightarrow> string + string" where
  "generate_access_token lib svc uuid now user_id email role additional =
     generate_token lib uuid now
       (make_generate_params svc user_id email role AccessToken (au_access_ttl (as_config svc)) additional)"

definition generate_refresh_token ::
  "jwt_library \<Rightarrow> auth_service \<Rightarrow> string \<Rightarrow> time_point \<Rightarrow> string \<Rightarrow> string + string" where
  "generate_refresh_token lib svc uuid now user_id =
     generate_token lib uuid now
       (make_generate_params svc user_id [] [] RefreshToken (au_refresh_ttl (as_config svc)) [])"

text \<open>The verification an access or refresh token goes through, with all claims; \<open>verify_token\<close> of
  \<open>Protected_Handler\<close> keeps those of the user.\<close>

definition service_verify :: "jwt_library \<Rightarrow> auth_service \<Rightarrow> time_point \<Rightarrow> token_type \<Rightarrow> string \<Rightarrow> token_claims option" where
  "service_verify lib svc now t token = jwt_verify_token lib now (make_verify_params svc token t)"

definition verify_refresh_token :: "jwt_library \<Rightarrow> auth_service \<Rightarrow> time_point \<Rightarrow> string \<Rightarrow> string option" where
  "verify_refresh_token lib svc now token = map_option jwt_user_id (service_verify lib svc now RefreshToken token)"

text \<open>What the authentication layer is given.\<close>

definition access_verifier :: "jwt_library \<Rightarrow> auth_service \<Rightarrow> time_point \<Rightarrow> string \<Rightarrow> jwt_claims option" where
  "access_verifier lib svc now token = map_option jwt_claims.truncate (service_verify lib svc now AccessToken token)"

end
