(* ===== verification/Auth_Laws.thy ===== *)
theory Auth_Laws
  imports Auth_Service "HOL-Library.Countable"
begin

text \<open>
  Laws of the tokens: what is read from a token the service has made, and when it is accepted.
\<close>

section \<open>The payload\<close>

definition reserved_free :: "(string, string) table \<Rightarrow> bool" where
  "reserved_free t \<longleftrightarrow> list_all (\<lambda>(k, v). k \<notin> set standard_claims) t"

definition nonempty_claims :: "(string, string) table \<Rightarrow> (string, string) table" where
  "nonempty_claims t = filter (\<lambda>(k, v). k \<noteq> [] \<and> v \<noteq> []) t"

abbreviation put_claims :: "(string, string) table \<Rightarrow> payload \<Rightarrow> payload" where
  "put_claims t p \<equiv> fold (\<lambda>(k, v) q. if k = [] \<or> v = [] then q else tbl_put k (JString v) q) t p"

lemma put_claims_other: "k \<notin> fst ` set t \<Longrightarrow> tbl_get (put_claims t p) k = tbl_get p k"
  by (induction t arbitrary: p) auto

lemma put_claims_get:
  "tbl_ok t \<Longrightarrow> tbl_get (put_claims t p) k
     = (case map_of (nonempty_claims t) k of None \<Rightarrow> tbl_get p k | Some v \<Rightarrow> Some (JString v))"
proof (induction t arbitrary: p)
  case (Cons kv t)
  obtain k' v where kv: "kv = (k', v)" by force
  have ok: "k' \<notin> fst ` set t" "tbl_ok t" using Cons.prems kv by auto
  show ?case
  proof (cases "k' = [] \<or> v = []")
    case True
    then show ?thesis using Cons.IH [OF ok(2), of p] by (auto simp: kv nonempty_claims_def)
  next
    case False
    have "map_of (nonempty_claims t) k' = None"
      using ok(1) by (force simp: nonempty_claims_def map_of_eq_None_iff)
    then show ?thesis using Cons.IH [OF ok(2), of "tbl_put k' (JString v) p"] False
      by (auto simp: kv nonempty_claims_def split: option.split)
  qed
qed (simp add: nonempty_claims_def)

lemma put_claims_ok: "tbl_ok p \<Longrightarrow> tbl_ok (put_claims t p)"
  by (induction t arbitrary: p) auto

lemma plain_claims_put: "plain_claims p \<Longrightarrow> plain_claims (tbl_put k (JString v) p)"
  by (auto simp: plain_claims_def)

lemma put_claims_plain: "plain_claims p \<Longrightarrow> plain_claims (put_claims t p)"
  by (induction t arbitrary: p) (auto simp: plain_claims_put)

lemma base_payload_ok: "tbl_ok (base_payload jti now gp)"
  by (simp add: base_payload_def)

lemma with_access_claims_ok: "tbl_ok p \<Longrightarrow> tbl_ok (with_access_claims gp p)"
  by (simp add: with_access_claims_def Let_def put_claims_ok)

lemma with_access_claims_plain: "plain_claims (with_access_claims gp (base_payload jti now gp))"
proof -
  have "plain_claims (base_payload jti now gp)"
    unfolding plain_claims_def base_payload_def by (auto split: if_splits)
  then show ?thesis
    by (auto simp: with_access_claims_def Let_def intro!: put_claims_plain plain_claims_put)
qed

lemma base_payload_get:
  "tbl_get (base_payload jti now gp) ''iss'' = Some (JString (gp_issuer gp))"
  "tbl_get (base_payload jti now gp) ''sub'' = Some (JString (gp_user_id gp))"
  "tbl_get (base_payload jti now gp) ''jti'' = Some (JString jti)"
  "tbl_get (base_payload jti now gp) ''iat'' = Some (JInt (word_of_int (now div nanos)))"
  "tbl_get (base_payload jti now gp) ''exp'' = Some (JInt (word_of_int ((now + gp_ttl gp * nanos) div nanos)))"
  "tbl_get (base_payload jti now gp) ''token_type'' = Some (JString (token_type_to_string (gp_type gp)))"
  "tbl_get (base_payload jti now gp) ''email'' = None" "tbl_get (base_payload jti now gp) ''role'' = None"
  "tbl_get (base_payload jti now gp) ''nbf'' = None"
  by (simp_all add: base_payload_def)

text \<open>Custom claims that use no reserved name leave the standard ones alone.\<close>

lemma reserved_free_notin: "reserved_free t \<Longrightarrow> k \<in> set standard_claims \<Longrightarrow> k \<notin> fst ` set t"
  by (auto simp: reserved_free_def list_all_iff)

lemma standard_claims_get:
  assumes "reserved_free (gp_additional gp)" and "k \<in> set standard_claims"
  shows "tbl_get (with_access_claims gp (base_payload jti now gp)) k =
    (if k = ''email'' then if gp_type gp = AccessToken \<and> gp_email gp \<noteq> [] then Some (JString (gp_email gp)) else None
     else if k = ''role'' then if gp_type gp = AccessToken \<and> gp_role gp \<noteq> [] then Some (JString (gp_role gp)) else None
     else tbl_get (base_payload jti now gp) k)"
proof -
  note other = put_claims_other [OF reserved_free_notin [OF assms(1)]]
  have std: "''email'' \<in> set standard_claims" "''role'' \<in> set standard_claims" by (simp_all add: standard_claims_def)
  show ?thesis
    by (simp add: with_access_claims_def Let_def base_payload_get other [OF assms(2)] other [OF std(1)] other [OF std(2)])
qed

lemma additional_fold:
  "tbl_ok p \<Longrightarrow> tbl_get (fold (\<lambda>(k, v) t. if k \<in> set standard_claims then t
        else let s = claim_text lib v in if s \<noteq> [] then tbl_put k s t else t) p t0) k
     = (case tbl_get p k of None \<Rightarrow> tbl_get t0 k
        | Some v \<Rightarrow> if k \<in> set standard_claims \<or> claim_text lib v = [] then tbl_get t0 k else Some (claim_text lib v))"
proof (induction p arbitrary: t0)
  case (Cons kv p)
  obtain k' v where kv: "kv = (k', v)" by force
  have ok: "k' \<notin> fst ` set p" "tbl_ok p" using Cons.prems kv by auto
  then have "tbl_get p k' = None" by (simp add: map_of_eq_None_iff)
  then show ?case using Cons.IH [OF ok(2)] by (auto simp: kv Let_def split: option.split)
qed simp

lemma additional_claims_get:
  "tbl_ok p \<Longrightarrow> tbl_get (additional_claims_of lib p) k
     = (case tbl_get p k of None \<Rightarrow> None
        | Some v \<Rightarrow> if k \<in> set standard_claims \<or> claim_text lib v = [] then None else Some (claim_text lib v))"
  unfolding additional_claims_of_def by (subst additional_fold) (auto split: option.split)

lemma nonempty_claims_get: "map_of (nonempty_claims t) k = Some v \<Longrightarrow> v \<noteq> [] \<and> k \<in> fst ` set t"
  by (force simp: nonempty_claims_def dest!: map_of_SomeD)

lemma custom_claims_read:
  assumes "reserved_free (gp_additional gp)" and "tbl_ok (gp_additional gp)" and "gp_type gp = AccessToken"
    and "same_claims q (with_access_claims gp (base_payload jti now gp))"
  shows "map_of (additional_claims_of lib q) = map_of (nonempty_claims (gp_additional gp))"
proof (rule ext)
  fix k
  let ?p = "with_access_claims gp (base_payload jti now gp)"
  have same: "map_of q k = map_of ?p k" and ok: "tbl_ok q" using assms(4) by (simp_all add: same_claims_def)
  note get = additional_claims_get [OF ok, where k = k, unfolded same]
  show "map_of (additional_claims_of lib q) k = map_of (nonempty_claims (gp_additional gp)) k"
  proof (cases "k \<in> set standard_claims")
    case True
    then have "map_of (nonempty_claims (gp_additional gp)) k = None"
      using reserved_free_notin [OF assms(1)] nonempty_claims_get by (metis not_None_eq)
    then show ?thesis using get True by (simp split: option.split)
  next
    case False
    then have names: "k \<noteq> ''iss''" "k \<noteq> ''sub''" "k \<noteq> ''jti''" "k \<noteq> ''iat''" "k \<noteq> ''exp''" "k \<noteq> ''token_type''"
      "k \<noteq> ''email''" "k \<noteq> ''role''" by (auto simp: standard_claims_def)
    have "tbl_get ?p k = map_option JString (map_of (nonempty_claims (gp_additional gp)) k)"
      using assms(3) names by (simp add: with_access_claims_def Let_def put_claims_get [OF assms(2)] base_payload_def
          split: option.split)
    then show ?thesis using get False by (auto split: option.splits dest: nonempty_claims_get)
  qed
qed

section \<open>A token that is made and read\<close>

lemma sint_seconds: "0 \<le> s \<Longrightarrow> s < 2 ^ 63 \<Longrightarrow> sint (word_of_int s :: 64 word) = s"
  by (simp add: sint_sbintrunc' signed_take_bit_int_eq_self)

definition expiry :: "time_point \<Rightarrow> generate_params \<Rightarrow> int" where
  "expiry now gp = (now + gp_ttl gp * nanos) div nanos"

definition token_jti :: "string \<Rightarrow> generate_params \<Rightarrow> string" where
  "token_jti uuid gp = (if gp_jti gp = [] then uuid else gp_jti gp)"

lemma payload_current_made:
  assumes "reserved_free (gp_additional gp)" and "0 \<le> now" and "0 < gp_ttl gp" and "expiry now gp * nanos < 2 ^ 63" and "now \<le> later"
  shows "payload_dated (with_access_claims gp (base_payload jti now gp))"
    and "payload_current issuer later (with_access_claims gp (base_payload jti now gp))
    \<longleftrightarrow> issuer = gp_issuer gp \<and> later \<le> expiry now gp * nanos"
proof -
  have n: "0 < nanos" by (simp add: nanos_def)
  have "now div nanos \<le> expiry now gp" unfolding expiry_def using assms(3) n by (intro zdiv_mono1) simp_all
  moreover have "0 \<le> now div nanos" using assms(2) n by (simp add: pos_imp_zdiv_nonneg_iff)
  ultimately have range: "0 \<le> now div nanos" "0 \<le> expiry now gp" "now div nanos * nanos \<le> expiry now gp * nanos"
    "now div nanos \<le> expiry now gp"
    using n by simp_all
  have small: "x < 2 ^ 63" if "x * nanos < 2 ^ 63" for x :: int using that by (simp add: nanos_def)
  have below: "now div nanos * nanos < 2 ^ 63" using range(3) assms(4) by (rule order_le_less_trans)
  have s: "sint (word_of_int (now div nanos) :: 64 word) = now div nanos"
    "sint (word_of_int (expiry now gp) :: 64 word) = expiry now gp"
    by (rule sint_seconds [OF range(1) small [OF below]], rule sint_seconds [OF range(2) small [OF assms(4)]])
  show "payload_dated (with_access_claims gp (base_payload jti now gp))"
    using range(1,2) below assms(4) s
    by (simp add: payload_dated_def clock_seconds_def standard_claims_get [OF assms(1)] standard_claims_def base_payload_get
        expiry_def)
  have "now div nanos * nanos = now - now mod nanos" by (simp add: minus_mod_eq_div_mult)
  then have "now div nanos * nanos \<le> now" using n by simp
  then show "payload_current issuer later (with_access_claims gp (base_payload jti now gp))
      \<longleftrightarrow> issuer = gp_issuer gp \<and> later \<le> expiry now gp * nanos"
    using assms(5) s
    by (auto simp: payload_current_def standard_claims_get [OF assms(1)] standard_claims_def base_payload_get expiry_def)
qed

lemma verify_generated:
  assumes "jwt_library_ok lib" and "reserved_free (gp_additional gp)" and "tbl_ok (gp_additional gp)"
    and "0 \<le> now" and "expiry now gp * nanos < 2 ^ 63" and "now \<le> later"
    and "generate_token lib uuid now gp = Inr token"
    and "vp = \<lparr>vp_token = token, vp_secret = gp_secret gp, vp_issuer = issuer, vp_type = t\<rparr>"
  shows "case jwt_verify_token lib later vp of
      None \<Rightarrow> \<not> (issuer = gp_issuer gp \<and> t = gp_type gp \<and> later \<le> expiry now gp * nanos)
    | Some c \<Rightarrow> issuer = gp_issuer gp \<and> t = gp_type gp \<and> later \<le> expiry now gp * nanos
        \<and> jwt_user_id c = gp_user_id gp \<and> jwt_jti c = token_jti uuid gp \<and> jwt_token_type c = t
        \<and> jwt_expires_at c = expiry now gp
        \<and> (if t = AccessToken
           then jwt_email c = gp_email gp \<and> jwt_role c = gp_role gp
             \<and> map_of (jwt_additional c) = map_of (nonempty_claims (gp_additional gp))
           else jwt_email c = [] \<and> jwt_role c = [])"
proof -
  let ?p = "with_access_claims gp (base_payload (token_jti uuid gp) now gp)"
  have gen: "gp_secret gp \<noteq> []" "0 < gp_ttl gp" "token = jl_sign lib (gp_secret gp) ?p"
    using assms(7) by (auto simp: generate_token_def Let_def token_jti_def split: if_splits)
  note made = payload_current_made [OF assms(2,4) gen(2) assms(5,6)]
  have plain: "plain_claims ?p" by (rule with_access_claims_plain)
  have lib: "token \<noteq> []" "jl_verify lib (gp_secret gp) issuer later token \<noteq> None \<longleftrightarrow> payload_current issuer later ?p"
    "jl_verify lib (gp_secret gp) issuer later token = Some q \<Longrightarrow> same_claims q ?p" for q
    unfolding gen(3)
    by (rule jwt_library_okD(1) [OF assms(1)], rule jwt_library_okD(2) [OF assms(1) gen(1) plain made(1)],
        rule jwt_library_okD(3) [OF assms(1) plain])
  have current: "payload_current issuer later ?p \<longleftrightarrow> issuer = gp_issuer gp \<and> later \<le> expiry now gp * nanos"
    by (rule made(2))
  have n: "0 < nanos" by (simp add: nanos_def)
  have "0 \<le> expiry now gp" unfolding expiry_def using assms(4) gen(2) n by (simp add: pos_imp_zdiv_nonneg_iff)
  moreover have "expiry now gp < 2 ^ 63" using assms(5) by (simp add: nanos_def)
  ultimately have e: "sint (word_of_int (expiry now gp) :: 64 word) = expiry now gp" by (rule sint_seconds)
  have kind: "token_type_from_string (token_type_to_string u) = Some u" for u
    by (cases u) (simp_all add: token_type_from_string_def)
  have get: "tbl_get ?p ''token_type'' = Some (JString (token_type_to_string (gp_type gp)))"
    "tbl_get ?p ''sub'' = Some (JString (gp_user_id gp))" "tbl_get ?p ''iss'' = Some (JString (gp_issuer gp))"
    "tbl_get ?p ''jti'' = Some (JString (token_jti uuid gp))"
    "tbl_get ?p ''iat'' = Some (JInt (word_of_int (now div nanos)))"
    "tbl_get ?p ''exp'' = Some (JInt (word_of_int (expiry now gp)))"
    "tbl_get ?p ''email'' = (if gp_type gp = AccessToken \<and> gp_email gp \<noteq> [] then Some (JString (gp_email gp)) else None)"
    "tbl_get ?p ''role'' = (if gp_type gp = AccessToken \<and> gp_role gp \<noteq> [] then Some (JString (gp_role gp)) else None)"
    by (simp_all add: standard_claims_get [OF assms(2)] standard_claims_def base_payload_get expiry_def)
  have dates: "jl_date lib (JInt (word_of_int (now div nanos))) = Some (sint (word_of_int (now div nanos) :: 64 word))"
    "jl_date lib (JInt (word_of_int (expiry now gp))) = Some (sint (word_of_int (expiry now gp) :: 64 word))"
    using jwt_library_okD(4) [OF assms(1)] made(1) [of "token_jti uuid gp"] unfolding payload_dated_def get by blast+
  show ?thesis
  proof (cases "jl_verify lib (gp_secret gp) issuer later token")
    case None
    then show ?thesis using current lib(1,2) gen(1) by (simp add: jwt_verify_token_def assms(8))
  next
    case (Some q)
    have same: "same_claims q ?p" by (rule lib(3) [OF Some])
    then have q: "map_of q = map_of ?p" by (simp add: same_claims_def)
    have now: "issuer = gp_issuer gp \<and> later \<le> expiry now gp * nanos" using current lib(2) Some by simp
    show ?thesis
    proof (cases "t = gp_type gp")
      case False
      then show ?thesis using Some lib(1) gen(1) kind
        by (simp add: jwt_verify_token_def assms(8) q get required_string_def)
    next
      case True
      then show ?thesis using now Some lib(1) gen(1) kind e dates custom_claims_read [OF assms(2,3) _ same]
        by (simp add: jwt_verify_token_def assms(8) q get required_string_def optional_string_def)
    qed
  qed
qed

lemma required_string_Some: "required_string v = Some s \<longleftrightarrow> v = Some (JString s)"
  by (auto simp: required_string_def split: option.splits json.splits)

lemma verified_subject:
  assumes "jwt_verify_token lib now vp = Some c"
  obtains q where "jl_verify lib (vp_secret vp) (vp_issuer vp) now (vp_token vp) = Some q"
    "tbl_get q ''sub'' = Some (JString (jwt_user_id c))"
  using assms that by (auto simp: jwt_verify_token_def required_string_Some split: option.splits if_splits)

text \<open>A custom claim named like a standard one replaces it.\<close>

lemma reserved_claim_wins:
  assumes "gp_type gp = AccessToken" and "tbl_ok (gp_additional gp)"
    and "map_of (gp_additional gp) k = Some v" and "v \<noteq> []" and "k \<noteq> []"
  shows "tbl_get (with_access_claims gp (base_payload jti now gp)) k = Some (JString v)"
proof -
  have "map_of (nonempty_claims (gp_additional gp)) k = Some v"
    using assms(2-5) by (simp add: nonempty_claims_def tbl_get_filter)
  then show ?thesis using assms(1) by (simp add: with_access_claims_def Let_def put_claims_get [OF assms(2)])
qed

section \<open>A library\<close>

text \<open>The laws of the JWT library can be met: payloads are countable, so a token may spell the secret and
  the payload out.\<close>

instance word :: (len) countable
  by (rule countable_classI [of unat]) (simp add: word_unat_eq_iff)

instance json :: countable
  by countable_datatype

definition demo_jwt_sign :: "string \<Rightarrow> payload \<Rightarrow> string" where
  "demo_jwt_sign secret p = CHR ''t'' # replicate (to_nat (secret, p)) CHR ''x''"

definition demo_jwt_verify :: "string \<Rightarrow> string \<Rightarrow> time_point \<Rightarrow> string \<Rightarrow> payload option" where
  "demo_jwt_verify secret issuer now token =
     (case from_nat (length token - 1) of (s, p) \<Rightarrow>
        if s = secret \<and> token = demo_jwt_sign s p \<and> payload_current issuer now p then Some p else None)"

definition demo_jwt_library :: jwt_library where
  "demo_jwt_library = \<lparr>jl_sign = demo_jwt_sign, jl_verify = demo_jwt_verify,
     jl_date = (\<lambda>v. case v of JInt w \<Rightarrow> Some (sint w) | _ \<Rightarrow> None), jl_text = (\<lambda>_. [])\<rparr>"

lemma demo_jwt_ok: "jwt_library_ok demo_jwt_library"
  by (auto simp: jwt_library_ok_def demo_jwt_library_def demo_jwt_verify_def demo_jwt_sign_def same_claims_def plain_claims_def)

end
