(* ===== verification/Auth_Handlers.thy ===== *)
theory Auth_Handlers
  imports Auth_Service Crud_Engine Json_Writer
begin

text \<open>
  The handlers of \<open>/auth\<close> (\<open>apps/Backend_Seastar/src/http/handlers/auth_handlers\<close>): login, refresh, logout,
  register and me, over any repository. They run on the records of \<open>User\<close> and on the tables of the
  token tracking service, which live in one repository.

  Arguments: \<open>auth_env\<close>, what the handlers use of the libraries (JWT, BCrypt, JSON, the headers of a
  reply); \<open>auth_context\<close>, what a handler is constructed with; \<open>moment\<close>, the clocks, read once per
  request, and the UUIDs drawn. The body of the request is read completely. Logging is left out.
\<close>

section \<open>What the handlers are given\<close>

record auth_env =
  ae_lib :: jwt_library
  ae_parse :: "string \<Rightarrow> string + json"
  ae_dump :: "json \<Rightarrow> string"
  ae_dbl_text :: "double \<Rightarrow> string"
  ae_json_eq :: "json \<Rightarrow> json \<Rightarrow> bool"
  ae_hash :: "string \<Rightarrow> string"
  ae_check :: "string \<Rightarrow> string \<Rightarrow> bool"
  ae_same :: "string \<Rightarrow> string \<Rightarrow> bool"
  ae_add_header :: "string \<Rightarrow> string \<Rightarrow> headers \<Rightarrow> headers"

record 'r auth_context =
  ax_repo :: "'r repository"
  ax_registry :: entity_registry
  ax_in_tx :: "'r \<Rightarrow> ('r \<Rightarrow> bool \<times> 'r) \<Rightarrow> transaction_result \<times> 'r"
  ax_service :: auth_service
  ax_tracking :: "token_tracking_config option"
  ax_cookies :: cookie_config
  ax_delivery :: token_delivery
  ax_access_ttl :: int
  ax_refresh_ttl :: int

record moment =
  mo_now :: time_point
  mo_tz :: int
  mo_uuid :: "nat \<Rightarrow> string"

definition header_or_empty :: "auth_env \<Rightarrow> request \<Rightarrow> string \<Rightarrow> string" where
  "header_or_empty env req n = (case hdr_get (ae_same env) (req_headers req) n of None \<Rightarrow> [] | Some v \<Rightarrow> v)"

definition json_member :: "json \<Rightarrow> string \<Rightarrow> json option" where
  "json_member j k = (case j of JObject ms \<Rightarrow> map_of ms k | _ \<Rightarrow> None)"

definition json_erase :: "string \<Rightarrow> json \<Rightarrow> json" where
  "json_erase k j = (case j of JObject ms \<Rightarrow> JObject (filter (\<lambda>(n, _). n \<noteq> k) ms) | _ \<Rightarrow> j)"

definition invalid_request :: "auth_env \<Rightarrow> reply" where
  "invalid_request env = make_error_reply (ae_dump env) 400 ''BAD_REQUEST'' ''Requete invalide.''"

definition internal_error :: "auth_env \<Rightarrow> reply" where
  "internal_error env = make_error_reply (ae_dump env) 500 ''INTERNAL_SERVER_ERROR'' ''Erreur interne du serveur''"

definition json_reply :: "auth_env \<Rightarrow> nat \<Rightarrow> json \<Rightarrow> reply \<Rightarrow> reply" where
  "json_reply env status j rep =
     \<lparr>rep_status = status,
      rep_headers = ae_add_header env ''Content-Type'' ''application/json'' (rep_headers rep),
      rep_content = ae_dump env j\<rparr>"

definition deliver_body :: "token_delivery \<Rightarrow> bool" where
  "deliver_body d \<longleftrightarrow> d = DeliverBody \<or> d = DeliverBoth"

definition deliver_cookie :: "token_delivery \<Rightarrow> bool" where
  "deliver_cookie d \<longleftrightarrow> d = DeliverCookie \<or> d = DeliverBoth"

text \<open>The reply with the cookies of the tokens, when there are two the second added last.\<close>

definition set_cookies ::
  "auth_env \<Rightarrow> 'r auth_context \<Rightarrow> string \<Rightarrow> string option \<Rightarrow> reply \<Rightarrow> string + reply" where
  "set_cookies env ctx access refresh rep =
     (case build_access_cookie (ax_cookies ctx) access (word_of_int (ax_access_ttl ctx)) of
        Inl e \<Rightarrow> Inl e
      | Inr c1 \<Rightarrow>
          let hs1 = ae_add_header env ''Set-Cookie'' c1 (rep_headers rep) in
          (case refresh of
             None \<Rightarrow> Inr (rep\<lparr>rep_headers := hs1\<rparr>)
           | Some token \<Rightarrow>
               (case build_refresh_cookie (ax_cookies ctx) token (word_of_int (ax_refresh_ttl ctx)) of
                  Inl e \<Rightarrow> Inl e
                | Inr c2 \<Rightarrow> Inr (rep\<lparr>rep_headers := ae_add_header env ''Set-Cookie'' c2 hs1\<rparr>))))"

section \<open>The user of a session\<close>

definition user_role :: "auth_env \<Rightarrow> dynamic_record \<Rightarrow> string" where
  "user_role env u =
     (case tbl_get u ''role'' of
        None \<Rightarrow> ''user''
      | Some v \<Rightarrow>
          (case http_value_to_string (ae_dbl_text env) v of
             None \<Rightarrow> ''user''
           | Some r \<Rightarrow> if r = [] then ''user'' else r))"

definition excluded_fields :: "string list" where
  "excluded_fields = [''id'', ''email'', ''role'', ''password'', ''full_name'', ''created_at'', ''updated_at'', ''deleted_at'']"

text \<open>The custom claims: every other field of the record that has a text.\<close>

definition user_claims :: "auth_env \<Rightarrow> dynamic_record \<Rightarrow> (string, string) table" where
  "user_claims env u =
     fold (\<lambda>(k, v) t. if k \<in> set excluded_fields then t
        else case http_value_to_string (ae_dbl_text env) v of
          None \<Rightarrow> t
        | Some s \<Rightarrow> if s = [] then t else tbl_put k s t) u []"

definition token_jti_of :: "auth_env \<Rightarrow> 'r auth_context \<Rightarrow> time_point \<Rightarrow> string \<Rightarrow> string" where
  "token_jti_of env ctx now token =
     (case service_verify (ae_lib env) (ax_service ctx) now RefreshToken token of None \<Rightarrow> [] | Some c \<Rightarrow> jwt_jti c)"

section \<open>Login\<close>

definition bad_credentials :: "auth_env \<Rightarrow> reply" where
  "bad_credentials env = make_error_reply (ae_dump env) 401 ''AUTHENTICATION_ERROR'' ''Identifiants invalides.''"

definition check_credentials ::
  "auth_env \<Rightarrow> 'r auth_context \<Rightarrow> 'r \<Rightarrow> string \<Rightarrow> string \<Rightarrow> dynamic_record option" where
  "check_credentials env ctx st email password =
     (case crud_find_one_by_field (ax_repo ctx) (ax_registry ctx) st ''User'' ''email'' email of
        None \<Rightarrow> None
      | Some u \<Rightarrow>
          (case tbl_get u ''password'' of
             None \<Rightarrow> None
           | Some v \<Rightarrow>
               (case http_value_to_string (ae_dbl_text env) v of
                  None \<Rightarrow> None
                | Some stored_hash \<Rightarrow>
                    if stored_hash = [] then None
                    else if \<not> ae_check env password stored_hash then None
                    else Some u)))"

text \<open>The access and the refresh token of a user, or the exception of the generation.\<close>

definition issue_tokens ::
  "auth_env \<Rightarrow> 'r auth_context \<Rightarrow> moment \<Rightarrow> dynamic_record \<Rightarrow> string \<Rightarrow> string \<Rightarrow> string + string \<times> string" where
  "issue_tokens env ctx m u user_id email =
     (case generate_access_token (ae_lib env) (ax_service ctx) (mo_uuid m 0) (mo_now m) user_id email
         (user_role env u) (user_claims env u) of
        Inl e \<Rightarrow> Inl e
      | Inr access \<Rightarrow>
          (case generate_refresh_token (ae_lib env) (ax_service ctx) (mo_uuid m 1) (mo_now m) user_id of
             Inl e \<Rightarrow> Inl e
           | Inr refresh \<Rightarrow> Inr (access, refresh)))"

definition login_reply ::
  "auth_env \<Rightarrow> 'r auth_context \<Rightarrow> dynamic_record \<Rightarrow> string \<Rightarrow> string \<Rightarrow> reply \<Rightarrow> string + reply" where
  "login_reply env ctx u access refresh rep =
     (case ae_parse env (record_to_json (ae_dbl_text env) u) of
        Inl e \<Rightarrow> Inl e
      | Inr user_json \<Rightarrow>
          let body = JObject
            ((if deliver_body (ax_delivery ctx)
              then [(''access_token'', JString access), (''refresh_token'', JString refresh)] else [])
             @ [(''token_type'', JString ''Bearer''), (''user'', json_erase ''password'' user_json)])
          in (case (if deliver_cookie (ax_delivery ctx) then set_cookies env ctx access (Some refresh) rep else Inr rep) of
                Inl e \<Rightarrow> Inl e
              | Inr rep' \<Rightarrow> Inr (json_reply env 200 body rep')))"

definition start_session ::
  "auth_env \<Rightarrow> 'r auth_context \<Rightarrow> moment \<Rightarrow> request \<Rightarrow> string \<Rightarrow> dynamic_record \<Rightarrow> reply \<Rightarrow> 'r tracking
   \<Rightarrow> reply \<times> 'r tracking" where
  "start_session env ctx m req email u rep st =
     (case Option.bind (tbl_get u ''id'') http_value_to_string_id of
        None \<Rightarrow> (internal_error env, st)
      | Some user_id \<Rightarrow>
          (case issue_tokens env ctx m u user_id email of
             Inl e \<Rightarrow> (invalid_request env, st)
           | Inr (access, refresh) \<Rightarrow>
               let jti = token_jti_of env ctx (mo_now m) refresh;
                   st' = (case ax_tracking ctx of
                            None \<Rightarrow> st
                          | Some cfg \<Rightarrow>
                              if jti = [] then st
                              else st\<lparr>tk_repo := register_refresh (ax_repo ctx) cfg jti user_id (mo_now m)
                                     (mo_now m + ax_refresh_ttl ctx * nanos) (header_or_empty env req ''User-Agent'')
                                     (header_or_empty env req ''X-Forwarded-For'') (tk_repo st)\<rparr>)
               in (case login_reply env ctx u access refresh rep of
                     Inl e \<Rightarrow> (invalid_request env, st')
                   | Inr rep' \<Rightarrow> (rep', st'))))"

definition login_handle ::
  "auth_env \<Rightarrow> 'r auth_context \<Rightarrow> moment \<Rightarrow> request \<Rightarrow> string \<Rightarrow> reply \<Rightarrow> 'r tracking \<Rightarrow> reply \<times> 'r tracking" where
  "login_handle env ctx m req body rep st =
     (case ae_parse env body of
        Inl e \<Rightarrow> (invalid_request env, st)
      | Inr j \<Rightarrow>
          (case (json_member j ''email'', json_member j ''password'') of
             (Some e, Some p) \<Rightarrow>
               (case (e, p) of
                  (JString email, JString password) \<Rightarrow>
                    (case check_credentials env ctx (tk_repo st) email password of
                       None \<Rightarrow> (bad_credentials env, st)
                     | Some u \<Rightarrow> start_session env ctx m req email u rep st)
                | _ \<Rightarrow> (invalid_request env, st))
           | _ \<Rightarrow> (make_error_reply (ae_dump env) 400 ''BAD_REQUEST'' ''email et password sont requis.'', st)))"

section \<open>Refresh\<close>

definition extract_refresh_token :: "auth_env \<Rightarrow> request \<Rightarrow> string \<Rightarrow> string \<Rightarrow> string option" where
  "extract_refresh_token env req cookie_name body =
     (let from_body =
        (if body = [] then None
         else case ae_parse env body of
           Inl e \<Rightarrow> None
         | Inr j \<Rightarrow>
             (case json_member j ''refresh_token'' of
                Some (JString v) \<Rightarrow> if v \<noteq> [] then Some v else None
              | _ \<Rightarrow> None))
      in case from_body of
           Some v \<Rightarrow> Some v
         | None \<Rightarrow>
             (case hdr_get (ae_same env) (req_headers req) ''Cookie'' of
                None \<Rightarrow> None
              | Some header \<Rightarrow> get_cookie_value header cookie_name))"

definition rotation_on :: "'r auth_context \<Rightarrow> token_tracking_config option" where
  "rotation_on ctx =
     (case ax_tracking ctx of None \<Rightarrow> None | Some cfg \<Rightarrow> if tt_enabled cfg \<and> tt_rotation cfg then Some cfg else None)"

definition refresh_reply ::
  "auth_env \<Rightarrow> 'r auth_context \<Rightarrow> string \<Rightarrow> string option \<Rightarrow> reply \<Rightarrow> string + reply" where
  "refresh_reply env ctx access refresh rep =
     (let body = JObject
        ((if deliver_body (ax_delivery ctx)
          then (''access_token'', JString access)
            # (case refresh of None \<Rightarrow> [] | Some token \<Rightarrow> [(''refresh_token'', JString token)]) else [])
         @ [(''token_type'', JString ''Bearer'')])
      in (case (if deliver_cookie (ax_delivery ctx) then set_cookies env ctx access refresh rep else Inr rep) of
            Inl e \<Rightarrow> Inl e
          | Inr rep' \<Rightarrow> Inr (json_reply env 200 body rep')))"

text \<open>The steps after the checks: the new access token, the rotation, the reply.\<close>

definition renew_session ::
  "auth_env \<Rightarrow> 'r auth_context \<Rightarrow> moment \<Rightarrow> request \<Rightarrow> string \<Rightarrow> string \<Rightarrow> dynamic_record \<Rightarrow> reply
   \<Rightarrow> 'r tracking \<Rightarrow> reply \<times> 'r tracking" where
  "renew_session env ctx m req user_id jti u rep st =
     (let email = (case Option.bind (tbl_get u ''email'') (http_value_to_string (ae_dbl_text env)) of
                     None \<Rightarrow> [] | Some s \<Rightarrow> s)
      in case generate_access_token (ae_lib env) (ax_service ctx) (mo_uuid m 0) (mo_now m) user_id email
           (user_role env u) (user_claims env u) of
        Inl e \<Rightarrow> (invalid_request env, st)
      | Inr access \<Rightarrow>
          (case rotation_on ctx of
             None \<Rightarrow>
               (case refresh_reply env ctx access None rep of
                  Inl e \<Rightarrow> (invalid_request env, st) | Inr rep' \<Rightarrow> (rep', st))
           | Some cfg \<Rightarrow>
               (case generate_refresh_token (ae_lib env) (ax_service ctx) (mo_uuid m 1) (mo_now m) user_id of
                  Inl e \<Rightarrow> (invalid_request env, st)
                | Inr new_token \<Rightarrow>
                    let new_jti = (case service_verify (ae_lib env) (ax_service ctx) (mo_now m) RefreshToken new_token of
                                     None \<Rightarrow> jti | Some c \<Rightarrow> jwt_jti c)
                    in case rotate_refresh (ax_in_tx ctx) (ax_repo ctx) cfg (mo_now m) jti new_jti user_id (mo_now m)
                         (mo_now m + ax_refresh_ttl ctx * nanos) (header_or_empty env req ''User-Agent'')
                         (header_or_empty env req ''X-Forwarded-For'') (tk_repo st) of
                      (rotated, r) \<Rightarrow>
                        let st' = st\<lparr>tk_repo := r\<rparr> in
                        if \<not> rotated
                        then (make_error_reply (ae_dump env) 401 ''AUTHENTICATION_ERROR'' ''Rotation du refresh impossible.'', st')
                        else (case refresh_reply env ctx access (Some new_token) rep of
                                Inl e \<Rightarrow> (invalid_request env, st') | Inr rep' \<Rightarrow> (rep', st')))))"

definition refresh_handle ::
  "auth_env \<Rightarrow> 'r auth_context \<Rightarrow> moment \<Rightarrow> request \<Rightarrow> string \<Rightarrow> reply \<Rightarrow> 'r tracking \<Rightarrow> reply \<times> 'r tracking" where
  "refresh_handle env ctx m req body rep st =
     (let refused = (\<lambda>status code message. (make_error_reply (ae_dump env) status code message, st)) in
      case extract_refresh_token env req (refresh_token_name (ax_cookies ctx)) body of
        None \<Rightarrow> refused 400 ''BAD_REQUEST'' ''refresh_token manquant.''
      | Some token \<Rightarrow>
          if token = [] then refused 400 ''BAD_REQUEST'' ''refresh_token manquant.''
          else case service_verify (ae_lib env) (ax_service ctx) (mo_now m) RefreshToken token of
            None \<Rightarrow> refused 401 ''AUTHENTICATION_ERROR'' ''refresh_token invalide.''
          | Some c \<Rightarrow>
              if jwt_user_id c = [] then refused 401 ''AUTHENTICATION_ERROR'' ''refresh_token incomplet.''
              else if (case ax_tracking ctx of None \<Rightarrow> False
                       | Some cfg \<Rightarrow> jwt_jti c \<noteq> []
                           \<and> \<not> is_refresh_valid (ax_repo ctx) cfg (mo_tz m) (mo_now m) (jwt_jti c) (tk_repo st))
              then refused 401 ''AUTHENTICATION_ERROR'' ''refresh_token revoque ou expire.''
              else case crud_get_by_id (ax_repo ctx) (ax_registry ctx) (tk_repo st) ''User'' (jwt_user_id c) of
                None \<Rightarrow> refused 401 ''AUTHENTICATION_ERROR'' ''Utilisateur introuvable.''
              | Some u \<Rightarrow> renew_session env ctx m req (jwt_user_id c) (jwt_jti c) u rep st)"

section \<open>Logout\<close>

text \<open>The expiration of the access token is read before the handler looks whether there are claims.\<close>

datatype logout_outcome = Replied reply | UndefinedBehaviour | Thrown string

definition logout_revocations ::
  "auth_env \<Rightarrow> 'r auth_context \<Rightarrow> moment \<Rightarrow> string option \<Rightarrow> string option \<Rightarrow> 'r tracking \<Rightarrow> 'r tracking option" where
  "logout_revocations env ctx m access refresh st =
     (case ax_tracking ctx of
        None \<Rightarrow> Some st
      | Some cfg \<Rightarrow>
          (case (case access of
                   None \<Rightarrow> Some st
                 | Some token \<Rightarrow>
                     if token = [] then Some st
                     else case service_verify (ae_lib env) (ax_service ctx) (mo_now m) AccessToken token of
                       None \<Rightarrow> None
                     | Some c \<Rightarrow>
                         if jwt_jti c = [] then Some st
                         else Some (revoke_access (ax_repo ctx) cfg (mo_now m) (jwt_jti c) (jwt_user_id c)
                                (jwt_expires_at c * nanos) ''logout'' st)) of
             None \<Rightarrow> None
           | Some st1 \<Rightarrow>
               (case refresh of
                  None \<Rightarrow> Some st1
                | Some token \<Rightarrow>
                    if token = [] then Some st1
                    else case service_verify (ae_lib env) (ax_service ctx) (mo_now m) RefreshToken token of
                      None \<Rightarrow> Some st1
                    | Some c \<Rightarrow>
                        if jwt_jti c = [] then Some st1
                        else Some (st1\<lparr>tk_repo := snd (revoke_refresh (ax_repo ctx) cfg (mo_now m) (jwt_jti c) (tk_repo st1))\<rparr>))))"

definition presented_access_token :: "auth_env \<Rightarrow> 'r auth_context \<Rightarrow> request \<Rightarrow> string option" where
  "presented_access_token env ctx req =
     (case extract_bearer_token (ae_same env) req of
        Some tok \<Rightarrow> Some tok
      | None \<Rightarrow>
          (case hdr_get (ae_same env) (req_headers req) ''Cookie'' of
             None \<Rightarrow> None
           | Some header \<Rightarrow> get_cookie_value header (access_token_name (ax_cookies ctx))))"

definition logout_handle ::
  "auth_env \<Rightarrow> 'r auth_context \<Rightarrow> moment \<Rightarrow> request \<Rightarrow> string \<Rightarrow> reply \<Rightarrow> 'r tracking \<Rightarrow> logout_outcome \<times> 'r tracking" where
  "logout_handle env ctx m req body rep st =
     (let access = presented_access_token env ctx req;
          refresh = extract_refresh_token env req (refresh_token_name (ax_cookies ctx)) body
      in case logout_revocations env ctx m access refresh st of
           None \<Rightarrow> (UndefinedBehaviour, st)
         | Some st' \<Rightarrow>
             (case clear_access_cookie (ax_cookies ctx) of
                Inl e \<Rightarrow> (Thrown e, st')
              | Inr c1 \<Rightarrow>
                  (case clear_refresh_cookie (ax_cookies ctx) of
                     Inl e \<Rightarrow> (Thrown e, st')
                   | Inr c2 \<Rightarrow>
                       (Replied (json_reply env 200 (JObject [(''message'', JString ''Deconnexion reussie'')])
                          (rep\<lparr>rep_headers := ae_add_header env ''Set-Cookie'' c2
                             (ae_add_header env ''Set-Cookie'' c1 (rep_headers rep))\<rparr>)), st'))))"

section \<open>Register\<close>

text \<open>\<open>do { new_id = generate_uuid() } while (the record exists)\<close>.\<close>

partial_function (option) fresh_uuid :: "(string \<Rightarrow> bool) \<Rightarrow> (nat \<Rightarrow> string) \<Rightarrow> nat \<Rightarrow> string option" where
  "fresh_uuid taken uuids i = (if taken (uuids i) then fresh_uuid taken uuids (Suc i) else Some (uuids i))"

text \<open>The identifier a new record gets from the type of the field \<open>id\<close>; \<open>None\<close> when the loop does not end.\<close>

definition assign_id ::
  "'r repository \<Rightarrow> entity_registry \<Rightarrow> (nat \<Rightarrow> string) \<Rightarrow> 'r \<Rightarrow> entity \<Rightarrow> string \<Rightarrow> dynamic_record \<Rightarrow> dynamic_record option" where
  "assign_id repo reg uuids st e en rec =
     (case find (\<lambda>f. f_name f = ''id'') (e_fields e) of
        None \<Rightarrow> Some rec
      | Some f \<Rightarrow>
          if f_type f = FUUID
          then map_option (\<lambda>s. tbl_put ''id'' (VString s) rec)
                 (fresh_uuid (\<lambda>s. crud_get_by_id repo reg st en s \<noteq> None) uuids 0)
          else if f_type f = FInt then Some (tbl_put ''id'' (VInt64 (generate_int_id (crud_list repo reg st en))) rec)
          else Some rec)"

definition join_errors :: "string list \<Rightarrow> string" where
  "join_errors errs = join_with ''; '' errs"

definition register_create ::
  "auth_env \<Rightarrow> 'r auth_context \<Rightarrow> moment \<Rightarrow> entity \<Rightarrow> dynamic_record \<Rightarrow> reply \<Rightarrow> 'r \<Rightarrow> (reply \<times> 'r) option" where
  "register_create env ctx m e rec rep st =
     (case assign_id (ax_repo ctx) (ax_registry ctx) (mo_uuid m) st e ''User'' rec of
        None \<Rightarrow> None
      | Some rec' \<Rightarrow>
          (case crud_create (ae_json_eq env) (ax_repo ctx) (ax_registry ctx) st ''User'' rec' of
             (result, st') \<Rightarrow>
               (case (op_success result, op_record result) of
                  (True, Some created) \<Rightarrow>
                    (case ae_parse env (record_to_json (ae_dbl_text env) created) of
                       Inl what \<Rightarrow> Some (make_error_reply (ae_dump env) 400 ''BAD_REQUEST'' (''Erreur register: '' @ what), st')
                     | Inr j \<Rightarrow> Some (json_reply env 201 (json_erase ''password'' j) rep, st'))
                | _ \<Rightarrow>
                    if op_errors result \<noteq> []
                    then Some (make_error_reply (ae_dump env) 400 ''VALIDATION_ERROR'' (join_errors (op_errors result)), st')
                    else Some (internal_error env, st'))))"

definition register_handle ::
  "auth_env \<Rightarrow> 'r auth_context \<Rightarrow> moment \<Rightarrow> request \<Rightarrow> string \<Rightarrow> reply \<Rightarrow> 'r \<Rightarrow> (reply \<times> 'r) option" where
  "register_handle env ctx m req body rep st =
     (let refused = (\<lambda>status code message. Some (make_error_reply (ae_dump env) status code message, st)) in
      case registry_find_entity (ax_registry ctx) ''User'' of
        None \<Rightarrow> refused 404 ''NOT_FOUND'' ''Entite User introuvable.''
      | Some e \<Rightarrow>
          (case parse_record (ae_parse env) e body of
             Inl what \<Rightarrow> refused 400 ''BAD_REQUEST'' (''Erreur register: '' @ what)
           | Inr rec \<Rightarrow>
               (case tbl_get rec ''email'' of
                  None \<Rightarrow> refused 400 ''VALIDATION_ERROR'' ''Champ email manquant.''
                | Some v \<Rightarrow>
                    (case http_value_to_string (ae_dbl_text env) v of
                       None \<Rightarrow> refused 400 ''VALIDATION_ERROR'' ''Email invalide.''
                     | Some email \<Rightarrow>
                         if crud_find_one_by_field (ax_repo ctx) (ax_registry ctx) st ''User'' ''email'' email \<noteq> None
                         then refused 409 ''CONFLICT'' ''Cet email existe deja.''
                         else
                           (case tbl_get rec ''password'' of
                              None \<Rightarrow> refused 400 ''VALIDATION_ERROR'' ''Champ password manquant.''
                            | Some w \<Rightarrow>
                                (case http_value_to_string (ae_dbl_text env) w of
                                   None \<Rightarrow> refused 400 ''VALIDATION_ERROR'' ''Password invalide.''
                                 | Some plain \<Rightarrow>
                                     let rec1 = tbl_put ''password'' (VString (ae_hash env plain)) rec;
                                         rec2 = (if tbl_get rec1 ''role'' = None
                                                 then tbl_put ''role'' (VString ''user'') rec1 else rec1)
                                     in register_create env ctx m e rec2 rep st))))))"

section \<open>Me\<close>

definition me_handle ::
  "auth_env \<Rightarrow> 'r auth_context \<Rightarrow> request \<Rightarrow> reply \<Rightarrow> 'r \<Rightarrow> string + reply" where
  "me_handle env ctx req rep st =
     (let user_id = header_or_empty env req ''X-User-Id'' in
      if user_id = []
      then Inr (make_error_reply (ae_dump env) 401 ''AUTHENTICATION_ERROR'' ''Utilisateur non authentifie.'')
      else case crud_get_by_id (ax_repo ctx) (ax_registry ctx) st ''User'' user_id of
        None \<Rightarrow> Inr (make_error_reply (ae_dump env) 404 ''NOT_FOUND'' ''Utilisateur introuvable.'')
      | Some u \<Rightarrow>
          (case ae_parse env (record_to_json (ae_dbl_text env) u) of
             Inl e \<Rightarrow> Inl e
           | Inr j \<Rightarrow> Inr (json_reply env 200 (json_erase ''password'' j) rep)))"

section \<open>Lemmas\<close>

lemma parse_record_ok: "parse_record json_parse e body = Inr rec \<Longrightarrow> tbl_ok rec"
proof -
  have "parse_fields fs j rec0 = Inr rec' \<Longrightarrow> tbl_ok rec0 \<Longrightarrow> tbl_ok rec'" for fs j rec0 rec'
    by (induction fs j rec0 rule: parse_fields.induct) (auto split: option.splits sum.splits)
  then show "parse_record json_parse e body = Inr rec \<Longrightarrow> tbl_ok rec"
    by (auto simp: parse_record_def split: sum.splits json.splits)
qed

lemma assign_id_other: "assign_id repo reg uuids st e en rec = Some rec' \<Longrightarrow> n \<noteq> ''id'' \<Longrightarrow> map_of rec' n = map_of rec n"
  by (auto simp: assign_id_def split: option.splits if_splits)

lemma assign_id_ok: "assign_id repo reg uuids st e en rec = Some rec' \<Longrightarrow> tbl_ok rec \<Longrightarrow> tbl_ok rec'"
  by (auto simp: assign_id_def split: option.splits if_splits)

lemma filter_record_get: "tbl_ok rec \<Longrightarrow> map_of rec n = Some (VString s) \<Longrightarrow> map_of (filter_record rec) n = Some (VString s)"
  by (simp add: filter_record_def tbl_get_filter is_strings_def)

end
