(* ===== verification/Auth_Properties.thy ===== *)
theory Auth_Properties
  imports Auth_Laws Auth_Handlers Token_Laws Crud_Laws
begin

text \<open>
  The properties of authentication: a token of login authenticates its user until it expires, what a
  refresh needs, what logout does with a token that does not verify, which role a client that registers
  gets, and what a user's own fields do to the claims.
\<close>

section \<open>Lemmas behind the properties\<close>

lemma user_claims_ok: "tbl_ok (user_claims env u)"
proof -
  have "tbl_ok t \<Longrightarrow> tbl_ok (fold (\<lambda>(k, v) t. if k \<in> set excluded_fields then t
        else case http_value_to_string (ae_dbl_text env) v of
          None \<Rightarrow> t | Some s \<Rightarrow> if s = [] then t else tbl_put k s t) u t)" for t
    by (induction u arbitrary: t) (auto split: option.split)
  then show ?thesis by (simp add: user_claims_def)
qed

lemma make_error_status [simp]: "rep_status (make_error_reply dump n code message) = n"
  by (simp add: make_error_reply_def)

lemma json_reply_fields [simp]:
  "rep_status (json_reply env n j rep) = n" "rep_content (json_reply env n j rep) = ae_dump env j"
  by (simp_all add: json_reply_def)

lemmas refusal_defs = invalid_request_def internal_error_def bad_credentials_def

text \<open>The steps of a login that is answered 200.\<close>

lemma login_success:
  assumes "login_handle env ctx m req body rep st = (r, st')" and "rep_status r = 200"
  obtains j email password u user_id access refresh user_json where
    "ae_parse env body = Inr j" "json_member j ''email'' = Some (JString email)"
    "json_member j ''password'' = Some (JString password)"
    "check_credentials env ctx (tk_repo st) email password = Some u"
    "Option.bind (tbl_get u ''id'') http_value_to_string_id = Some user_id"
    "issue_tokens env ctx m u user_id email = Inr (access, refresh)"
    "rep_content r = ae_dump env (JObject
       ((if deliver_body (ax_delivery ctx)
         then [(''access_token'', JString access), (''refresh_token'', JString refresh)] else [])
        @ [(''token_type'', JString ''Bearer''), (''user'', json_erase ''password'' user_json)]))"
proof -
  obtain j where j: "ae_parse env body = Inr j"
    using assms by (cases "ae_parse env body") (auto simp: login_handle_def refusal_defs)
  obtain email password where ep: "json_member j ''email'' = Some (JString email)"
    "json_member j ''password'' = Some (JString password)"
    using assms j by (auto simp: login_handle_def refusal_defs split: option.splits json.splits)
  obtain u where u: "check_credentials env ctx (tk_repo st) email password = Some u"
    using assms j ep by (auto simp: login_handle_def refusal_defs split: option.splits)
  have start: "start_session env ctx m req email u rep st = (r, st')"
    using assms(1) j ep u by (simp add: login_handle_def)
  then obtain user_id where i: "Option.bind (tbl_get u ''id'') http_value_to_string_id = Some user_id"
    using assms(2) by (auto simp: start_session_def refusal_defs split: option.splits)
  then obtain access refresh where t: "issue_tokens env ctx m u user_id email = Inr (access, refresh)"
    using start assms(2) by (auto simp: start_session_def refusal_defs split: sum.splits)
  then have reply: "login_reply env ctx u access refresh rep = Inr r"
    using start assms(2) i by (auto simp: start_session_def refusal_defs Let_def split: sum.splits)
  then obtain user_json where uj: "ae_parse env (record_to_json (ae_dbl_text env) u) = Inr user_json"
    by (auto simp: login_reply_def split: sum.splits)
  with reply have "rep_content r = ae_dump env (JObject
       ((if deliver_body (ax_delivery ctx)
         then [(''access_token'', JString access), (''refresh_token'', JString refresh)] else [])
        @ [(''token_type'', JString ''Bearer''), (''user'', json_erase ''password'' user_json)]))"
    by (auto simp: login_reply_def Let_def split: sum.splits)
  with that j ep u i t show thesis by blast
qed

text \<open>What the authentication layer reads from the access token of a user.\<close>

lemma issued_access_token:
  assumes "jwt_library_ok (ae_lib env)" and "issue_tokens env ctx m u user_id email = Inr (access, refresh)"
    and "reserved_free (user_claims env u)" and "0 \<le> mo_now m"
    and expires: "expires = (mo_now m + au_access_ttl (as_config (ax_service ctx)) * nanos) div nanos"
    and "expires * nanos < 2 ^ 63" and "mo_now m \<le> later"
  shows "case access_verifier (ae_lib env) (ax_service ctx) later access of
      None \<Rightarrow> expires * nanos < later
    | Some c \<Rightarrow> later \<le> expires * nanos \<and> jwt_jti c = mo_uuid m 0 \<and> jwt_user_id c = user_id \<and> jwt_email c = email
        \<and> jwt_role c = user_role env u \<and> map_of (jwt_additional c) = map_of (nonempty_claims (user_claims env u))"
proof -
  let ?svc = "ax_service ctx"
  let ?gp = "make_generate_params ?svc user_id email (user_role env u) AccessToken (au_access_ttl (as_config ?svc)) (user_claims env u)"
  have gen: "generate_token (ae_lib env) (mo_uuid m 0) (mo_now m) ?gp = Inr access"
    using assms(2) by (auto simp: issue_tokens_def generate_access_token_def split: sum.splits)
  have e: "expiry (mo_now m) ?gp = expires" by (simp add: expiry_def expires make_generate_params_def)
  have gp: "gp_additional ?gp = user_claims env u" "gp_type ?gp = AccessToken" "gp_user_id ?gp = user_id"
    "gp_email ?gp = email" "gp_role ?gp = user_role env u" "gp_issuer ?gp = as_issuer ?svc"
    "token_jti (mo_uuid m 0) ?gp = mo_uuid m 0"
    by (simp_all add: make_generate_params_def token_jti_def)
  have vp: "make_verify_params ?svc access AccessToken
      = \<lparr>vp_token = access, vp_secret = gp_secret ?gp, vp_issuer = as_issuer ?svc, vp_type = AccessToken\<rparr>"
    by (simp add: make_verify_params_def make_generate_params_def)
  note read = verify_generated [where gp = ?gp and now = "mo_now m" and later = later and issuer = "as_issuer ?svc" and t = AccessToken,
      unfolded gp e, OF assms(1,3) user_claims_ok assms(4,6,7) gen vp]
  show ?thesis
  proof (cases "jwt_verify_token (ae_lib env) later (make_verify_params ?svc access AccessToken)")
    case None
    then show ?thesis using read by (simp add: access_verifier_def service_verify_def)
  next
    case (Some c)
    then show ?thesis using read gp(7) by (simp add: access_verifier_def service_verify_def jwt_claims.truncate_def)
  qed
qed

lemma generated_nonempty: "jwt_library_ok lib \<Longrightarrow> generate_token lib uuid now gp = Inr token \<Longrightarrow> token \<noteq> []"
  by (auto simp: generate_token_def Let_def jwt_library_ok_def split: if_splits)

lemma issued_nonempty: "jwt_library_ok (ae_lib env) \<Longrightarrow> issue_tokens env ctx m u user_id email = Inr (access, refresh) \<Longrightarrow> access \<noteq> []"
  by (auto simp: issue_tokens_def generate_access_token_def dest: generated_nonempty split: sum.splits)

text \<open>The claims the layer hands to the handler behind it.\<close>

definition claims_of_user :: "auth_env \<Rightarrow> dynamic_record \<Rightarrow> string \<Rightarrow> string \<Rightarrow> auth_user_claims \<Rightarrow> bool" where
  "claims_of_user env u user_id email c \<longleftrightarrow> cl_user_id c = user_id \<and> cl_email c = email \<and> cl_role c = user_role env u
     \<and> map_of (cl_additional c) = map_of (nonempty_claims (user_claims env u))"

lemma issued_token_passes:
  assumes "jwt_library_ok (ae_lib env)" and "issue_tokens env ctx m u user_id email = Inr (access, refresh)"
    and "reserved_free (user_claims env u)" and "0 \<le> mo_now m"
    and "expires = (mo_now m + au_access_ttl (as_config (ax_service ctx)) * nanos) div nanos"
    and "expires * nanos < 2 ^ 63" and "mo_now m \<le> later"
    and "extract_access_token (ae_same env) req (access_token_name cookies) = Some access"
  shows "\<exists>c. claims_of_user env u user_id email c \<and>
    protected_handle (ae_same env) (ae_dump env) (access_verifier (ae_lib env) (ax_service ctx) later) tracking
      is_revoked cookies inner p req rep
    = (if expires * nanos < later then Inr (unauthorized (ae_dump env) ''Token invalide.'')
       else if tracking \<and> mo_uuid m 0 \<noteq> [] \<and> is_revoked (mo_uuid m 0)
       then Inr (unauthorized (ae_dump env) ''Token revoque.'')
       else inner p (req\<lparr>req_headers :=
         inject_claims_as_headers (ae_same env) c (strip_user_headers (ae_same env) (req_headers req))\<rparr>) rep)"
proof (cases "access_verifier (ae_lib env) (ax_service ctx) later access")
  case None
  have "claims_of_user env u user_id email \<lparr>cl_user_id = user_id, cl_email = email, cl_role = user_role env u,
      cl_additional = nonempty_claims (user_claims env u)\<rparr>" by (simp add: claims_of_user_def)
  moreover have "expires * nanos < later" using issued_access_token [OF assms(1-7)] None by simp
  ultimately show ?thesis using None assms(8) issued_nonempty [OF assms(1,2)]
    by (auto simp: protected_handle_def verify_token_def)
next
  case (Some c)
  let ?claims = "\<lparr>cl_user_id = jwt_user_id c, cl_email = jwt_email c, cl_role = jwt_role c, cl_additional = jwt_additional c\<rparr>"
  note read = issued_access_token [OF assms(1-7)]
  then have "claims_of_user env u user_id email ?claims" using Some by (simp add: claims_of_user_def)
  moreover have "\<not> expires * nanos < later" "jwt_jti c = mo_uuid m 0" using read Some by simp_all
  ultimately show ?thesis using Some assms(8) issued_nonempty [OF assms(1,2)]
    by (auto simp: protected_handle_def verify_token_def)
qed

text \<open>The steps of a refresh that is answered 200.\<close>

lemma refresh_success:
  assumes "refresh_handle env ctx m req body rep st = (r, st')" and "rep_status r = 200"
  obtains token c u where
    "extract_refresh_token env req (refresh_token_name (ax_cookies ctx)) body = Some token" "token \<noteq> []"
    "service_verify (ae_lib env) (ax_service ctx) (mo_now m) RefreshToken token = Some c" "jwt_user_id c \<noteq> []"
    "\<forall>cfg. ax_tracking ctx = Some cfg \<longrightarrow> jwt_jti c \<noteq> [] \<longrightarrow>
       is_refresh_valid (ax_repo ctx) cfg (mo_tz m) (mo_now m) (jwt_jti c) (tk_repo st)"
    "crud_get_by_id (ax_repo ctx) (ax_registry ctx) (tk_repo st) ''User'' (jwt_user_id c) = Some u"
    "renew_session env ctx m req (jwt_user_id c) (jwt_jti c) u rep st = (r, st')"
proof -
  obtain token where t: "extract_refresh_token env req (refresh_token_name (ax_cookies ctx)) body = Some token" "token \<noteq> []"
    using assms by (auto simp: refresh_handle_def Let_def split: option.splits if_splits)
  then obtain c where c: "service_verify (ae_lib env) (ax_service ctx) (mo_now m) RefreshToken token = Some c"
    using assms by (cases "service_verify (ae_lib env) (ax_service ctx) (mo_now m) RefreshToken token")
      (auto simp: refresh_handle_def Let_def)
  have i: "jwt_user_id c \<noteq> []" using assms t c by (auto simp: refresh_handle_def Let_def)
  have v: "is_refresh_valid (ax_repo ctx) cfg (mo_tz m) (mo_now m) (jwt_jti c) (tk_repo st)"
    if "ax_tracking ctx = Some cfg" "jwt_jti c \<noteq> []" for cfg
    using assms t c i that by (auto simp: refresh_handle_def Let_def split: if_splits)
  have skip: "\<not> (case ax_tracking ctx of None \<Rightarrow> False
       | Some cfg \<Rightarrow> jwt_jti c \<noteq> [] \<and> \<not> is_refresh_valid (ax_repo ctx) cfg (mo_tz m) (mo_now m) (jwt_jti c) (tk_repo st))"
    using v by (auto split: option.split)
  obtain u where u: "crud_get_by_id (ax_repo ctx) (ax_registry ctx) (tk_repo st) ''User'' (jwt_user_id c) = Some u"
    using assms t c i skip by (cases "crud_get_by_id (ax_repo ctx) (ax_registry ctx) (tk_repo st) ''User'' (jwt_user_id c)")
      (auto simp: refresh_handle_def Let_def)
  have "renew_session env ctx m req (jwt_user_id c) (jwt_jti c) u rep st = (r, st')"
    using assms(1) t c i skip u by (simp add: refresh_handle_def Let_def)
  with that t c i v u show thesis by blast
qed

text \<open>What verifies is a token of the kind asked for.\<close>

lemma verified_kind: "service_verify lib svc now t token = Some c \<Longrightarrow> jwt_token_type c = t"
  by (auto simp: service_verify_def jwt_verify_token_def make_verify_params_def split: option.splits if_splits)

text \<open>Logout.\<close>

lemma logout_undefined:
  "fst (logout_handle env ctx m req body rep st) = UndefinedBehaviour
   \<longleftrightarrow> ax_tracking ctx \<noteq> None
     \<and> (\<exists>token. presented_access_token env ctx req = Some token \<and> token \<noteq> []
        \<and> service_verify (ae_lib env) (ax_service ctx) (mo_now m) AccessToken token = None)"
  unfolding logout_handle_def Let_def logout_revocations_def
  by (auto split: option.split sum.split if_split)

text \<open>Registration on the memory backend, and the record a login finds afterwards.\<close>

lemma register_success:
  assumes "register_handle env ctx m req body rep st = Some (r, st')" and "rep_status r = 201"
    and "registry_find_entity (ax_registry ctx) ''User'' = Some e" and "parse_record (ae_parse env) e body = Inr rec"
    and "map_of rec ''email'' = Some (VString email)" and "map_of rec ''password'' = Some (VString pw)"
    and "map_of rec ''role'' = Some w"
  obtains rec' res where "crud_find_one_by_field (ax_repo ctx) (ax_registry ctx) st ''User'' ''email'' email = None"
    "assign_id (ax_repo ctx) (ax_registry ctx) (mo_uuid m) st e ''User'' (tbl_put ''password'' (VString (ae_hash env pw)) rec) = Some rec'"
    "crud_create (ae_json_eq env) (ax_repo ctx) (ax_registry ctx) st ''User'' rec' = (res, st')" "op_success res"
proof -
  let ?rec1 = "tbl_put ''password'' (VString (ae_hash env pw)) rec"
  have free: "crud_find_one_by_field (ax_repo ctx) (ax_registry ctx) st ''User'' ''email'' email = None"
    using assms(1,2,3,4,5) by (auto simp: register_handle_def Let_def split: if_splits)
  have create: "register_create env ctx m e ?rec1 rep st = Some (r, st')"
    using assms(1,3-7) free by (simp add: register_handle_def Let_def)
  then obtain rec' where rec': "assign_id (ax_repo ctx) (ax_registry ctx) (mo_uuid m) st e ''User'' ?rec1 = Some rec'"
    by (auto simp: register_create_def split: option.splits)
  obtain res st1 where res: "crud_create (ae_json_eq env) (ax_repo ctx) (ax_registry ctx) st ''User'' rec' = (res, st1)"
    by (cases "crud_create (ae_json_eq env) (ax_repo ctx) (ax_registry ctx) st ''User'' rec'")
  have "st' = st1 \<and> op_success res"
    using create rec' res assms(2)
    by (auto simp: register_create_def refusal_defs split: bool.splits option.splits sum.splits if_splits)
  with that free rec' res show thesis by blast
qed

lemma created_user_found:
  assumes ok: "storage_ok st" and create: "crud_create json_eq memory_repository reg st en rec = (res, st')" and "op_success res"
    and e: "registry_find_entity reg en = Some e" and own: "en \<notin> pivots (e_relations e)" and tbl: "tbl_ok rec"
    and free: "crud_find_one_by_field memory_repository reg st en fn v = None" and new: "map_of rec fn = Some (VString v)"
  shows "crud_find_one_by_field memory_repository reg st' en fn v = Some (filter_record rec)"
proof -
  obtain created where "op_record res = Some created"
    using assms memory.crud_create_no_record [OF ok create] by (cases "op_record res") auto
  from ok create this obtain e' k st1 where c: "registry_find_entity reg en = Some e'"
    "extract_id rec = Some k" "repo_find_by_id memory_repository st en k = None" "created = filter_record rec"
    "repo_create memory_repository st en rec = (Some created, st1)"
    "create_many_to_many_links memory_repository e' rec created st1 = (op_errors res, st')"
    by (rule memory.crud_create_record) blast
  have "e' = e" using c(1) e by simp
  have ok1: "storage_ok st1" using memory.create_ok [OF ok, of en rec] c(5) by simp
  note frame = memory.links_frame [OF ok1 c(6)]
  then have ok': "storage_ok st'" by blast
  have find: "repo_find_by_id memory_repository st' en k'
      = (if k' = k then Some (filter_record rec) else repo_find_by_id memory_repository st en k')" for k'
    using frame own memory.create_some [OF ok c(5)] c(2,4) \<open>e' = e\<close> by auto
  have reg: "registry_has_entity reg en" using e by (simp add: registry_has_entity_def)
  have none: "repo_find_one_by_field memory_repository st en fn v = None"
    using free reg by (simp add: crud_find_one_by_field_def)
  have mine: "map_of (filter_record rec) fn = Some (VString v)" by (rule filter_record_get [OF tbl new])
  have "repo_find_one_by_field memory_repository st' en fn v \<noteq> None"
    unfolding memory.find_one_iff [OF ok'] using find mine by (force simp: dynamic_value_to_string_def)
  then obtain u where u: "repo_find_one_by_field memory_repository st' en fn v = Some u" by blast
  obtain k' x where k': "repo_find_by_id memory_repository st' en k' = Some u" "map_of u fn = Some x"
    "dynamic_value_to_string x = Some v"
    using memory.find_one_some [OF ok' u] memory.find_all_iff [OF ok', of u en] by blast
  have "k' = k"
  proof (rule ccontr)
    assume "k' \<noteq> k"
    then have "repo_find_one_by_field memory_repository st en fn v \<noteq> None"
      unfolding memory.find_one_iff [OF ok] using k' find by auto
    with none show False by blast
  qed
  then show ?thesis using k' find u reg by (simp add: crud_find_one_by_field_def)
qed

text \<open>The custom claims of a user, and a field named like a reserved claim.\<close>

lemma user_claims_get:
  assumes "tbl_ok u" and "map_of u k = Some v" and "k \<notin> set excluded_fields"
    and "http_value_to_string (ae_dbl_text env) v = Some s" and "s \<noteq> []"
  shows "map_of (user_claims env u) k = Some s"
proof -
  let ?step = "\<lambda>(k, v) t. if k \<in> set excluded_fields then t
        else case http_value_to_string (ae_dbl_text env) v of
          None \<Rightarrow> t | Some s \<Rightarrow> if s = [] then t else tbl_put k s t"
  have other: "k \<notin> fst ` set r \<Longrightarrow> map_of (fold ?step r t) k = map_of t k" for r t
    by (induction r arbitrary: t) (auto split: option.split)
  have "tbl_ok r \<Longrightarrow> map_of r k = Some v \<Longrightarrow> map_of (fold ?step r t) k = Some s" for r t
  proof (induction r arbitrary: t)
    case (Cons kv r)
    then show ?case using other [of r] assms(3-5) by (cases kv) (auto split: if_splits)
  qed simp
  then show ?thesis using assms(1,2) unfolding user_claims_def by blast
qed

lemma subject_field_wins:
  assumes "jwt_library_ok (ae_lib env)" and "issue_tokens env ctx m u user_id email = Inr (access, refresh)"
    and "tbl_ok u" and "map_of u ''sub'' = Some (VString v)" and "v \<noteq> []"
    and "access_verifier (ae_lib env) (ax_service ctx) later access = Some c"
  shows "jwt_user_id c = v"
proof -
  let ?svc = "ax_service ctx"
  let ?gp = "make_generate_params ?svc user_id email (user_role env u) AccessToken (au_access_ttl (as_config ?svc)) (user_claims env u)"
  have "generate_token (ae_lib env) (mo_uuid m 0) (mo_now m) ?gp = Inr access"
    using assms(2) by (auto simp: issue_tokens_def generate_access_token_def split: sum.splits)
  then obtain jti where access: "access = jl_sign (ae_lib env) (au_jwt_secret (as_config ?svc))
      (with_access_claims ?gp (base_payload jti (mo_now m) ?gp))"
    by (auto simp: generate_token_def Let_def make_generate_params_def split: if_splits)
  have gp: "gp_type ?gp = AccessToken" "gp_additional ?gp = user_claims env u"
    by (simp_all add: make_generate_params_def)
  have "map_of (user_claims env u) ''sub'' = Some v"
    by (rule user_claims_get [OF assms(3,4) _ _ assms(5)]) (simp_all add: excluded_fields_def)
  then have sub: "tbl_get (with_access_claims ?gp (base_payload jti (mo_now m) ?gp)) ''sub'' = Some (JString v)"
    by (intro reserved_claim_wins) (simp_all add: gp user_claims_ok assms(5))
  have "same_claims q (with_access_claims ?gp (base_payload jti (mo_now m) ?gp))"
    if "jl_verify (ae_lib env) (au_jwt_secret (as_config ?svc)) iss now access = Some q" for iss now q
    using that unfolding access by (rule jwt_library_okD(3) [OF assms(1) with_access_claims_plain])
  then have "tbl_get q ''sub'' = Some (JString v)"
    if "jl_verify (ae_lib env) (au_jwt_secret (as_config ?svc)) iss now access = Some q" for iss now q
    using that sub by (simp add: same_claims_def)
  moreover obtain c' where c': "jwt_verify_token (ae_lib env) later (make_verify_params ?svc access AccessToken) = Some c'"
    "jwt_user_id c = jwt_user_id c'"
    using assms(6) by (auto simp: access_verifier_def service_verify_def jwt_claims.truncate_def)
  ultimately show ?thesis
    using verified_subject [OF c'(1)] by (auto simp: make_verify_params_def)
qed

text \<open>Without a secret no token is made and none verifies.\<close>

lemma no_secret:
  assumes "au_jwt_secret (as_config svc) = []"
  shows "generate_access_token lib svc uuid now user_id email role additional = Inl ''JwtService: secret cannot be empty''"
    and "service_verify lib svc now t token = None"
  using assms by (simp_all add: generate_access_token_def generate_token_def make_generate_params_def service_verify_def
      jwt_verify_token_def make_verify_params_def)

section \<open>Example\<close>

definition account_entity :: entity where
  "account_entity = make_entity ''User''
     [make_field ''id'' FUUID, make_field ''email'' FString, make_field ''password'' FString, make_field ''role'' FString] []"

definition demo_auth_env :: auth_env where
  "demo_auth_env =
     \<lparr>ae_lib = demo_jwt_library,
      ae_parse = (\<lambda>_. Inr (JObject [(''email'', JString ''e''), (''password'', JString ''p''), (''role'', JString ''admin'')])),
      ae_dump = (\<lambda>_. []), ae_dbl_text = (\<lambda>_. []), ae_json_eq = (\<lambda>_ _. False), ae_hash = (\<lambda>s. CHR ''h'' # s),
      ae_check = (\<lambda>p h. h = CHR ''h'' # p), ae_same = (=), ae_add_header = (\<lambda>k v hs. (k, v) # hs)\<rparr>"

definition demo_auth_service :: auth_service where
  "demo_auth_service = \<lparr>as_config = jwt_with_secret ''s'' HS256, as_issuer = ''sea''\<rparr>"

definition demo_auth_context :: "token_tracking_config option \<Rightarrow> storage auth_context" where
  "demo_auth_context tracking =
     \<lparr>ax_repo = memory_repository, ax_registry = [(''User'', account_entity)], ax_in_tx = memory_rotation_tx,
      ax_service = demo_auth_service, ax_tracking = tracking, ax_cookies = cookie_safe_defaults,
      ax_delivery = DeliverBody, ax_access_ttl = 900, ax_refresh_ttl = 604800\<rparr>"

definition demo_moment :: moment where
  "demo_moment = \<lparr>mo_now = 0, mo_tz = 0, mo_uuid = (\<lambda>_. ''u'')\<rparr>"

definition demo_user :: dynamic_record where
  "demo_user = [(''id'', VString ''7''), (''email'', VString ''e''), (''password'', VString ''hp''), (''role'', VString ''admin'')]"

definition demo_users :: "storage tracking" where
  "demo_users = \<lparr>tk_repo = [(''User'', [(''7'', demo_user)])], tk_cache = make_cache 300 5\<rparr>"

definition borrowed_user :: dynamic_record where
  "borrowed_user = [(''id'', VString ''7''), (''sub'', VString ''9'')]"

definition empty_request :: request where
  "empty_request = \<lparr>req_method = ''POST'', req_url = ''/auth'', req_headers = []\<rparr>"

definition blank_reply :: reply where
  "blank_reply = \<lparr>rep_status = 200, rep_headers = [], rep_content = []\<rparr>"

lemmas demo_auth_defs = demo_auth_env_def demo_auth_context_def demo_moment_def demo_users_def demo_user_def

lemma demo_login:
  "rep_status (fst (login_handle demo_auth_env (demo_auth_context None) demo_moment empty_request [] blank_reply demo_users)) = 200"
  by (simp add: login_handle_def demo_auth_defs json_member_def check_credentials_def crud_find_one_by_field_def
      registry_has_entity_def registry_find_entity_def memory_repository_def mem_find_one_by_field_def field_is_def
      dynamic_value_to_string_def start_session_def issue_tokens_def generate_access_token_def generate_refresh_token_def
      generate_token_def make_generate_params_def demo_auth_service_def jwt_with_secret_def auth_config_none_def
      login_reply_def Let_def deliver_cookie_def)

definition demo_body :: dynamic_record where
  "demo_body = [(''email'', VString ''e''), (''password'', VString ''p''), (''role'', VString ''admin'')]"
definition demo_new :: dynamic_record where
  "demo_new = tbl_put ''id'' (VString ''u'') (tbl_put ''password'' (VString ''hp'') demo_body)"

lemma demo_parse: "parse_record (ae_parse demo_auth_env) account_entity [] = Inr demo_body"
  by (simp add: demo_auth_env_def parse_record_def account_entity_def make_entity_def make_field_def demo_body_def) code_simp

lemma demo_created: "crud_create (\<lambda>_ _. False) memory_repository [(''User'', account_entity)] [] ''User'' demo_new
   = (\<lparr>op_success = True, op_record = Some demo_new, op_errors = [], op_restrict_violation = False\<rparr>, [(''User'', [(''u'', demo_new)])])"
  by code_simp

lemma fresh_first: "\<not> taken (uuids i) \<Longrightarrow> fresh_uuid taken uuids i = Some (uuids i)"
  by (subst fresh_uuid.simps) simp

lemma demo_assign: "assign_id memory_repository [(''User'', account_entity)] (\<lambda>_. ''u'') [] account_entity ''User''
     (tbl_put ''password'' (VString ''hp'') demo_body) = Some demo_new"
  by (simp add: assign_id_def account_entity_def make_entity_def make_field_def fresh_first crud_get_by_id_def
    memory_repository_def mem_find_by_id_def demo_new_def)

lemma demo_register:
  "register_handle demo_auth_env (demo_auth_context None) demo_moment empty_request [] blank_reply []
   = Some (json_reply demo_auth_env 201 (json_erase ''password'' (JObject [(''email'', JString ''e''), (''password'', JString ''p''), (''role'', JString ''admin'')])) blank_reply,
      [(''User'', [(''u'', demo_new)])])"
proof -
  have p: "ae_parse demo_auth_env s = Inr (JObject [(''email'', JString ''e''), (''password'', JString ''p''), (''role'', JString ''admin'')])" for s
    by (simp add: demo_auth_env_def)
  have b: "tbl_get demo_body ''email'' = Some (VString ''e'')" "tbl_get demo_body ''password'' = Some (VString ''p'')"
    "tbl_get (tbl_put ''password'' (VString ''hp'') demo_body) ''role'' = Some (VString ''admin'')" by (simp_all add: demo_body_def)
  have h: "ae_hash demo_auth_env ''p'' = ''hp''" "ae_json_eq demo_auth_env = (\<lambda>_ _. False)" by (simp_all add: demo_auth_env_def)
  have f: "crud_find_one_by_field memory_repository [(''User'', account_entity)] [] ''User'' ''email'' ''e'' = None"
    by (simp add: crud_find_one_by_field_def memory_repository_def mem_find_one_by_field_def)
  let ?ctx = "demo_auth_context None" and ?rec = "tbl_put ''password'' (VString ''hp'') demo_body"
  have ctx: "ax_repo ?ctx = memory_repository" "ax_registry ?ctx = [(''User'', account_entity)]" "mo_uuid demo_moment = (\<lambda>_. ''u'')"
    by (simp_all add: demo_auth_context_def demo_moment_def)
  have create: "register_create demo_auth_env ?ctx demo_moment account_entity ?rec blank_reply []
    = Some (json_reply demo_auth_env 201 (json_erase ''password'' (JObject [(''email'', JString ''e''), (''password'', JString ''p''), (''role'', JString ''admin'')])) blank_reply,
      [(''User'', [(''u'', demo_new)])])"
    unfolding register_create_def ctx demo_assign option.case h demo_created prod.case p by simp
  have e: "registry_find_entity [(''User'', account_entity)] ''User'' = Some account_entity"
    by (simp add: registry_find_entity_def)
  show ?thesis
    unfolding register_handle_def Let_def ctx e option.case demo_parse sum.case b http_value_to_string.simps f h by (simp add: create)
qed

section \<open>Properties\<close>

text \<open>C24: Where tokens are delivered in the body, no user has a field named like a reserved claim (a field
  \<open>sub\<close> would authenticate whoever it names) and the token expires within the range of the clock: a login
  answered 200 checked the password of the user with that email, and its access token authenticates that
  user. Every later request that carries it is refused once the token has expired, or where tokens are
  tracked once its identifier is revoked; any other reaches the handler behind the authentication layer
  with the user's id, email, role and custom claims.\<close>

theorem login_token_authenticates:
  assumes "jwt_library_ok (ae_lib env)" and "deliver_body (ax_delivery ctx)"
    and "login_handle env ctx m req body rep st = (r, st')" and "rep_status r = 200"
    and "\<forall>email password u. check_credentials env ctx (tk_repo st) email password = Some u \<longrightarrow> reserved_free (user_claims env u)"
    and "0 \<le> mo_now m"
    and "expires = (mo_now m + au_access_ttl (as_config (ax_service ctx)) * nanos) div nanos" and "expires * nanos < 2 ^ 63"
  shows "\<exists>j email password u user_id access rest.
    ae_parse env body = Inr j \<and> json_member j ''email'' = Some (JString email)
    \<and> json_member j ''password'' = Some (JString password)
    \<and> check_credentials env ctx (tk_repo st) email password = Some u
    \<and> Option.bind (tbl_get u ''id'') http_value_to_string_id = Some user_id
    \<and> rep_content r = ae_dump env (JObject ((''access_token'', JString access) # rest))
    \<and> (\<forall>later cookies tracking is_revoked inner p req' rep'. mo_now m \<le> later \<longrightarrow>
         extract_access_token (ae_same env) req' (access_token_name cookies) = Some access \<longrightarrow>
         (\<exists>c. claims_of_user env u user_id email c \<and>
           protected_handle (ae_same env) (ae_dump env) (access_verifier (ae_lib env) (ax_service ctx) later) tracking
             is_revoked cookies inner p req' rep'
           = (if expires * nanos < later then Inr (unauthorized (ae_dump env) ''Token invalide.'')
              else if tracking \<and> mo_uuid m 0 \<noteq> [] \<and> is_revoked (mo_uuid m 0)
              then Inr (unauthorized (ae_dump env) ''Token revoque.'')
              else inner p (req'\<lparr>req_headers :=
                inject_claims_as_headers (ae_same env) c (strip_user_headers (ae_same env) (req_headers req'))\<rparr>) rep')))"
proof -
  obtain j email password u user_id access refresh user_json where s:
    "ae_parse env body = Inr j" "json_member j ''email'' = Some (JString email)"
    "json_member j ''password'' = Some (JString password)"
    "check_credentials env ctx (tk_repo st) email password = Some u"
    "Option.bind (tbl_get u ''id'') http_value_to_string_id = Some user_id"
    "issue_tokens env ctx m u user_id email = Inr (access, refresh)"
    "rep_content r = ae_dump env (JObject
       ((if deliver_body (ax_delivery ctx)
         then [(''access_token'', JString access), (''refresh_token'', JString refresh)] else [])
        @ [(''token_type'', JString ''Bearer''), (''user'', json_erase ''password'' user_json)]))"
    by (rule login_success [OF assms(3,4)])
  have free: "reserved_free (user_claims env u)" using assms(5) s(4) by blast
  have "rep_content r = ae_dump env (JObject ((''access_token'', JString access) # [(''refresh_token'', JString refresh),
      (''token_type'', JString ''Bearer''), (''user'', json_erase ''password'' user_json)]))"
    using s(7) assms(2) by simp
  with s(1-5) issued_token_passes [OF assms(1) s(6) free assms(6-8)] show ?thesis by blast
qed

theorem login_token_authenticates_witness:
  "\<exists>access c. claims_of_user demo_auth_env demo_user ''7'' ''e'' c \<and>
     protected_handle (=) (\<lambda>_. []) (access_verifier demo_jwt_library demo_auth_service (900 * nanos)) True (\<lambda>_. False)
       cookie_safe_defaults (\<lambda>p q r. Inr (r\<lparr>rep_headers := req_headers q\<rparr>)) []
       \<lparr>req_method = ''GET'', req_url = ''/'', req_headers = [(''Authorization'', ''Bearer '' @ access)]\<rparr> blank_reply
     = Inr (blank_reply\<lparr>rep_headers := inject_claims_as_headers (=) c [(''Authorization'', ''Bearer '' @ access)]\<rparr>)"
proof -
  let ?ctx = "demo_auth_context None"
  have env: "ae_lib demo_auth_env = demo_jwt_library" "ae_same demo_auth_env = (=)" "ae_dump demo_auth_env = (\<lambda>_. [])"
    "ax_service ?ctx = demo_auth_service" "mo_now demo_moment = 0" "au_access_ttl (as_config demo_auth_service) = 900"
    "ae_parse demo_auth_env [] = Inr (JObject [(''email'', JString ''e''), (''password'', JString ''p''), (''role'', JString ''admin'')])"
    and body: "deliver_body (ax_delivery ?ctx)"
    by (simp_all add: demo_auth_env_def demo_auth_context_def demo_moment_def demo_auth_service_def jwt_with_secret_def
        auth_config_none_def deliver_body_def)
  have found: "check_credentials demo_auth_env ?ctx (tk_repo demo_users) e p = Some u \<Longrightarrow> u = demo_user" for e p u
    by (auto simp: check_credentials_def crud_find_one_by_field_def demo_auth_context_def memory_repository_def
        mem_find_one_by_field_def demo_users_def split: option.splits if_splits)
  have "user_claims demo_auth_env demo_user = []" by (simp add: user_claims_def demo_user_def excluded_fields_def)
  then have free: "\<forall>e p u. check_credentials demo_auth_env ?ctx (tk_repo demo_users) e p = Some u \<longrightarrow>
      reserved_free (user_claims demo_auth_env u)"
    by (auto simp: reserved_free_def dest!: found)
  have ttl: "900 = (0 + 900 * nanos) div nanos" "900 * nanos < 2 ^ 63" by (simp_all add: nanos_def)
  note auth = login_token_authenticates [OF _ body prod.collapse [symmetric] demo_login free,
      where expires = 900, unfolded env sum.inject, OF demo_jwt_ok order_refl ttl]
  obtain email password u user_id access where a:
    "json_member (JObject [(''email'', JString ''e''), (''password'', JString ''p''), (''role'', JString ''admin'')]) ''email''
       = Some (JString email)"
    "check_credentials demo_auth_env ?ctx (tk_repo demo_users) email password = Some u"
    "Option.bind (tbl_get u ''id'') http_value_to_string_id = Some user_id"
    and run: "\<And>later cookies tracking is_revoked inner p req' rep'. 0 \<le> later \<Longrightarrow>
       extract_access_token (=) req' (access_token_name cookies) = Some access \<Longrightarrow>
       (\<exists>c. claims_of_user demo_auth_env u user_id email c \<and>
         protected_handle (=) (\<lambda>_. []) (access_verifier demo_jwt_library demo_auth_service later) tracking
           is_revoked cookies inner p req' rep'
         = (if 900 * nanos < later then Inr (unauthorized (\<lambda>_. []) ''Token invalide.'')
            else if tracking \<and> mo_uuid demo_moment 0 \<noteq> [] \<and> is_revoked (mo_uuid demo_moment 0)
            then Inr (unauthorized (\<lambda>_. []) ''Token revoque.'')
            else inner p (req'\<lparr>req_headers := inject_claims_as_headers (=) c (strip_user_headers (=) (req_headers req'))\<rparr>) rep'))"
    using auth by blast
  have u: "u = demo_user" by (rule found [OF a(2)])
  then have named: "user_id = ''7''" "email = ''e''" using a(1,3) by (simp_all add: demo_user_def json_member_def)
  have "\<not> is_user_header ''Authorization''" by code_simp
  then have strip: "strip_user_headers (=) [(''Authorization'', v)] = [(''Authorization'', v)]" for v
    by (simp add: strip_user_headers_def)
  let ?req = "\<lparr>req_method = ''GET'', req_url = ''/'', req_headers = [(''Authorization'', ''Bearer '' @ access)]\<rparr>"
  have "extract_access_token (=) ?req (access_token_name cookie_safe_defaults) = Some access"
    by (simp add: extract_access_token_def extract_bearer_token_def starts_with_def)
  moreover have "0 \<le> 900 * nanos" by (simp add: nanos_def)
  ultimately obtain c where "claims_of_user demo_auth_env u user_id email c"
    "protected_handle (=) (\<lambda>_. []) (access_verifier demo_jwt_library demo_auth_service (900 * nanos)) True (\<lambda>_. False)
       cookie_safe_defaults (\<lambda>p q r. Inr (r\<lparr>rep_headers := req_headers q\<rparr>)) [] ?req blank_reply
     = Inr (blank_reply\<lparr>rep_headers := inject_claims_as_headers (=) c [(''Authorization'', ''Bearer '' @ access)]\<rparr>)"
    using run [of "900 * nanos" ?req cookie_safe_defaults True "\<lambda>_. False" "\<lambda>p q r. Inr (r\<lparr>rep_headers := req_headers q\<rparr>)" "[]" blank_reply]
    unfolding request.select_convs strip by auto
  then show ?thesis unfolding named u by blast
qed

text \<open>C25: A refresh is answered 200 only for a token that verifies as a refresh token of the service and
  names a stored user. With tracking enabled and a token that has an identifier, the allowlist holds a
  record of the identifier that is not marked revoked and whose expiration, when it has one that can be
  read, has not passed. A token without an identifier skips the allowlist, also with tracking enabled.
  Without rotation the handler changes nothing.\<close>

theorem refresh_needs_live_session:
  assumes "refresh_handle env ctx m req body rep st = (r, st')" and "rep_status r = 200"
  shows "\<exists>token c u. extract_refresh_token env req (refresh_token_name (ax_cookies ctx)) body = Some token
    \<and> service_verify (ae_lib env) (ax_service ctx) (mo_now m) RefreshToken token = Some c
    \<and> jwt_token_type c = RefreshToken \<and> jwt_user_id c \<noteq> []
    \<and> crud_get_by_id (ax_repo ctx) (ax_registry ctx) (tk_repo st) ''User'' (jwt_user_id c) = Some u
    \<and> (\<forall>cfg. ax_tracking ctx = Some cfg \<and> tt_enabled cfg \<and> jwt_jti c \<noteq> [] \<longrightarrow>
         (\<exists>rec. repo_find_one_by_field (ax_repo ctx) (tk_repo st) (tt_refresh_table cfg) ''jti'' (jwt_jti c) = Some rec
            \<and> get_string_field rec ''revoked_at'' \<in> {None, Some []}
            \<and> (\<forall>text expires_at. get_string_field rec ''expires_at'' = Some text
                 \<and> parse_datetime_string (mo_tz m) text = Some expires_at \<longrightarrow> mo_now m \<le> expires_at)))
    \<and> (rotation_on ctx = None \<longrightarrow> st' = st)"
proof -
  obtain token c u where s: "extract_refresh_token env req (refresh_token_name (ax_cookies ctx)) body = Some token" "token \<noteq> []"
    "service_verify (ae_lib env) (ax_service ctx) (mo_now m) RefreshToken token = Some c" "jwt_user_id c \<noteq> []"
    "\<forall>cfg. ax_tracking ctx = Some cfg \<longrightarrow> jwt_jti c \<noteq> [] \<longrightarrow>
       is_refresh_valid (ax_repo ctx) cfg (mo_tz m) (mo_now m) (jwt_jti c) (tk_repo st)"
    "crud_get_by_id (ax_repo ctx) (ax_registry ctx) (tk_repo st) ''User'' (jwt_user_id c) = Some u"
    "renew_session env ctx m req (jwt_user_id c) (jwt_jti c) u rep st = (r, st')"
    by (rule refresh_success [OF assms])
  have "rotation_on ctx = None \<longrightarrow> st' = st"
    using s(7) by (auto simp: renew_session_def split: sum.splits)
  moreover have "\<exists>rec. repo_find_one_by_field (ax_repo ctx) (tk_repo st) (tt_refresh_table cfg) ''jti'' (jwt_jti c) = Some rec
      \<and> get_string_field rec ''revoked_at'' \<in> {None, Some []}
      \<and> (\<forall>text expires_at. get_string_field rec ''expires_at'' = Some text
           \<and> parse_datetime_string (mo_tz m) text = Some expires_at \<longrightarrow> mo_now m \<le> expires_at)"
    if cfg: "ax_tracking ctx = Some cfg \<and> tt_enabled cfg \<and> jwt_jti c \<noteq> []" for cfg
  proof -
    have "is_refresh_valid (ax_repo ctx) cfg (mo_tz m) (mo_now m) (jwt_jti c) (tk_repo st)" using s(5) cfg by blast
    then obtain rec where "repo_find_one_by_field (ax_repo ctx) (tk_repo st) (tt_refresh_table cfg) ''jti'' (jwt_jti c) = Some rec"
      "refresh_record_valid (mo_tz m) (mo_now m) rec"
      using cfg by (auto simp: is_refresh_valid_def split: option.splits)
    then show ?thesis
      by (auto simp: refresh_record_valid_def is_marked_revoked_def split: if_splits option.splits)
  qed
  ultimately show ?thesis
    using s(1,3,4,6) verified_kind [OF s(3)] by (intro exI [of _ token] exI [of _ c] exI [of _ u] conjI allI) blast+
qed

definition tracking_on :: token_tracking_config where
  "tracking_on = default_tracking_config\<lparr>tt_enabled := True, tt_rotation := False\<rparr>"

definition demo_allowlist :: "storage tracking" where
  "demo_allowlist = \<lparr>tk_repo = [(''User'', [(''7'', demo_user)]),
     (''RefreshToken'', [(''1'', refresh_record ''u'' ''7'' 0 (604800 * nanos) [] [])])], tk_cache = make_cache 300 5\<rparr>"

lemma demo_session_live: "is_refresh_valid memory_repository tracking_on 0 0 ''u'' (tk_repo demo_allowlist)"
proof -
  have "parse_datetime_string 0 (time_point_to_string (604800 * nanos)) = Some (604800 * nanos)"
    by (subst parse_time_text) (simp_all add: nanos_def last_second_def)
  moreover have "\<not> 604800 * nanos < 0" by (simp add: nanos_def)
  ultimately show ?thesis
    by (simp add: is_refresh_valid_def tracking_on_def default_tracking_config_def demo_allowlist_def memory_repository_def
        mem_find_one_by_field_def field_is_def refresh_record_def dynamic_value_to_string_def refresh_record_valid_def
        is_marked_revoked_def get_string_field_def)
qed

theorem refresh_needs_live_session_witness:
  "\<exists>token c. generate_refresh_token demo_jwt_library demo_auth_service ''u'' 0 ''7'' = Inr token
     \<and> service_verify demo_jwt_library demo_auth_service 0 RefreshToken token = Some c
     \<and> jwt_token_type c = RefreshToken \<and> jwt_user_id c \<noteq> []
     \<and> (\<exists>rec. repo_find_one_by_field memory_repository (tk_repo demo_allowlist) ''RefreshToken'' ''jti'' ''u'' = Some rec
          \<and> get_string_field rec ''revoked_at'' \<in> {None, Some []})"
proof -
  let ?gp = "make_generate_params demo_auth_service ''7'' [] [] RefreshToken (au_refresh_ttl (as_config demo_auth_service)) []"
  have svc: "au_jwt_secret (as_config demo_auth_service) = ''s''" "as_issuer demo_auth_service = ''sea''"
    "au_refresh_ttl (as_config demo_auth_service) = 604800" "au_access_ttl (as_config demo_auth_service) = 900"
    by (simp_all add: demo_auth_service_def jwt_with_secret_def auth_config_none_def)
  have gp: "gp_additional ?gp = []" "gp_type ?gp = RefreshToken" "gp_user_id ?gp = ''7''" "gp_issuer ?gp = ''sea''"
    "expiry 0 ?gp = 604800" "token_jti ''u'' ?gp = ''u''"
    by (simp_all add: make_generate_params_def svc expiry_def nanos_def token_jti_def)
  obtain token where token: "generate_token demo_jwt_library ''u'' 0 ?gp = Inr token"
    by (simp add: generate_token_def make_generate_params_def svc Let_def)
  have vp: "make_verify_params demo_auth_service token RefreshToken
      = \<lparr>vp_token = token, vp_secret = gp_secret ?gp, vp_issuer = ''sea'', vp_type = RefreshToken\<rparr>"
    by (simp add: make_verify_params_def make_generate_params_def svc)
  have "0 \<le> 604800 * nanos" "604800 * nanos < 2 ^ 63" by (simp_all add: nanos_def)
  then obtain c where c: "service_verify demo_jwt_library demo_auth_service 0 RefreshToken token = Some c" "jwt_user_id c = ''7''"
    "jwt_jti c = ''u''"
    using verify_generated [where gp = ?gp and now = 0 and later = 0 and issuer = "''sea''" and t = RefreshToken,
        unfolded gp, OF demo_jwt_ok _ _ _ _ _ token vp]
    by (auto simp: service_verify_def reserved_free_def token_jti_def make_generate_params_def split: option.splits)
  let ?ctx = "demo_auth_context (Some tracking_on)"
  let ?env = "demo_auth_env\<lparr>ae_parse := (\<lambda>_. Inr (JObject [(''refresh_token'', JString token)]))\<rparr>"
  have "token \<noteq> []" by (rule generated_nonempty [OF demo_jwt_ok token])
  then have shown: "extract_refresh_token ?env empty_request n ''b'' = Some token" for n
    by (simp add: extract_refresh_token_def json_member_def)
  have env: "ae_lib ?env = demo_jwt_library" "ax_service ?ctx = demo_auth_service" "mo_now demo_moment = 0"
    "ax_tracking ?ctx = Some tracking_on" "mo_tz demo_moment = 0" "ax_repo ?ctx = memory_repository" "ax_delivery ?ctx = DeliverBody"
    by (simp_all add: demo_auth_env_def demo_auth_context_def demo_moment_def)
  have norotate: "\<not> tt_rotation tracking_on" by (simp add: tracking_on_def)
  have user: "crud_get_by_id memory_repository (ax_registry ?ctx) (tk_repo demo_allowlist) ''User'' ''7'' = Some demo_user"
    by (simp add: demo_auth_context_def crud_get_by_id_def registry_has_entity_def registry_find_entity_def
        memory_repository_def mem_find_by_id_def demo_allowlist_def)
  have "rep_status (fst (refresh_handle ?env ?ctx demo_moment empty_request ''b'' blank_reply demo_allowlist)) = 200"
    using \<open>token \<noteq> []\<close>
    by (simp add: refresh_handle_def shown c env user demo_session_live renew_session_def rotation_on_def norotate
        refresh_reply_def Let_def deliver_cookie_def generate_access_token_def generate_token_def make_generate_params_def svc)
  from refresh_needs_live_session [OF prod.collapse [symmetric] this] shown
  obtain c' where c': "service_verify demo_jwt_library demo_auth_service 0 RefreshToken token = Some c'"
    "jwt_token_type c' = RefreshToken" "jwt_user_id c' \<noteq> []"
    and listed: "\<forall>cfg. Some tracking_on = Some cfg \<and> tt_enabled cfg \<and> jwt_jti c' \<noteq> [] \<longrightarrow>
      (\<exists>rec. repo_find_one_by_field memory_repository (tk_repo demo_allowlist) (tt_refresh_table cfg) ''jti'' (jwt_jti c') = Some rec
         \<and> get_string_field rec ''revoked_at'' \<in> {None, Some []})"
    unfolding env by fastforce
  then show ?thesis
    using token c by (force simp: generate_refresh_token_def tracking_on_def default_tracking_config_def)
qed

text \<open>Logout reads the expiration of the access token before it looks whether the token verified:
  with tracking on, it runs into undefined behaviour exactly when the presented token does not verify
  (behind the authentication layer, when it expires in between).\<close>

theorem logout_undefined_iff:
  "fst (logout_handle env ctx m req body rep st) = UndefinedBehaviour
   \<longleftrightarrow> ax_tracking ctx \<noteq> None
     \<and> (\<exists>token. presented_access_token env ctx req = Some token \<and> token \<noteq> []
        \<and> service_verify (ae_lib env) (ax_service ctx) (mo_now m) AccessToken token = None)"
  by (rule logout_undefined)

text \<open>A client that registers chooses its role: after a registration answered 201 a login with the
  email and the password of the body succeeds, for a user whose role is the one of the body.\<close>

theorem registered_role_is_the_clients:
  assumes "storage_ok st" and "ax_repo ctx = memory_repository"
    and "registry_find_entity (ax_registry ctx) ''User'' = Some e" and "''User'' \<notin> pivots (e_relations e)"
    and "parse_record (ae_parse env) e body = Inr rec"
    and "map_of rec ''email'' = Some (VString email)" and "map_of rec ''password'' = Some (VString pw)"
    and "map_of rec ''role'' = Some (VString role)" and "role \<noteq> []"
    and "register_handle env ctx m req body rep st = Some (r, st')" and "rep_status r = 201"
    and "ae_check env pw (ae_hash env pw)" and "ae_hash env pw \<noteq> []"
  shows "\<exists>u. check_credentials env ctx st' email pw = Some u \<and> user_role env u = role"
proof -
  let ?rec1 = "tbl_put ''password'' (VString (ae_hash env pw)) rec"
  obtain rec' res where s: "crud_find_one_by_field (ax_repo ctx) (ax_registry ctx) st ''User'' ''email'' email = None"
    "assign_id (ax_repo ctx) (ax_registry ctx) (mo_uuid m) st e ''User'' ?rec1 = Some rec'"
    "crud_create (ae_json_eq env) (ax_repo ctx) (ax_registry ctx) st ''User'' rec' = (res, st')" "op_success res"
    by (rule register_success [OF assms(10,11,3,5-8)])
  have tbl: "tbl_ok rec'" using parse_record_ok [OF assms(5)] assign_id_ok [OF s(2)] by simp
  have get: "map_of rec' ''email'' = Some (VString email)" "map_of rec' ''role'' = Some (VString role)"
    "map_of rec' ''password'' = Some (VString (ae_hash env pw))"
    using assms(6,8) assign_id_other [OF s(2)] by simp_all
  have "crud_find_one_by_field (ax_repo ctx) (ax_registry ctx) st' ''User'' ''email'' email = Some (filter_record rec')"
    using created_user_found [OF assms(1) _ s(4) assms(3,4) tbl _ get(1)] s(1,3) assms(2) by simp
  then show ?thesis
    using filter_record_get [OF tbl get(2)] filter_record_get [OF tbl get(3)] assms(9,12,13)
    by (simp add: check_credentials_def user_role_def)
qed

theorem registered_role_is_the_clients_witness:
  "\<exists>u. check_credentials demo_auth_env (demo_auth_context None) [(''User'', [(''u'', demo_new)])] ''e'' ''p'' = Some u
     \<and> user_role demo_auth_env u = ''admin''"
proof (rule registered_role_is_the_clients)
  show "register_handle demo_auth_env (demo_auth_context None) demo_moment empty_request [] blank_reply []
     = Some (json_reply demo_auth_env 201 (json_erase ''password''
        (JObject [(''email'', JString ''e''), (''password'', JString ''p''), (''role'', JString ''admin'')])) blank_reply,
        [(''User'', [(''u'', demo_new)])])" by (rule demo_register)
  show "parse_record (ae_parse demo_auth_env) account_entity [] = Inr demo_body" by (rule demo_parse)
qed (simp_all add: storage_ok_def demo_auth_context_def registry_find_entity_def account_entity_def make_entity_def demo_body_def
    demo_auth_env_def)

text \<open>A field of the user named like a standard claim replaces that claim: for a user with a field
  \<open>sub\<close> the access token of a login authenticates whoever the field names.\<close>

theorem subject_field_replaces_the_user:
  assumes "jwt_library_ok (ae_lib env)" and "issue_tokens env ctx m u user_id email = Inr (access, refresh)"
    and "tbl_ok u" and "map_of u ''sub'' = Some (VString v)" and "v \<noteq> []"
    and "access_verifier (ae_lib env) (ax_service ctx) later access = Some c"
  shows "jwt_user_id c = v"
  by (rule subject_field_wins [OF assms])

theorem subject_field_replaces_the_user_witness:
  "\<exists>access refresh c. issue_tokens demo_auth_env (demo_auth_context None) demo_moment borrowed_user ''7'' ''e'' = Inr (access, refresh)
     \<and> access_verifier demo_jwt_library demo_auth_service 0 access = Some c \<and> jwt_user_id c = ''9''"
proof -
  have env: "ae_lib demo_auth_env = demo_jwt_library" "ax_service (demo_auth_context None) = demo_auth_service"
    "mo_now demo_moment = 0" by (simp_all add: demo_auth_env_def demo_auth_context_def demo_moment_def)
  have svc: "au_jwt_secret (as_config demo_auth_service) = ''s''" "as_issuer demo_auth_service = ''sea''"
    "au_refresh_ttl (as_config demo_auth_service) = 604800" "au_access_ttl (as_config demo_auth_service) = 900"
    by (simp_all add: demo_auth_service_def jwt_with_secret_def auth_config_none_def)
  have claims: "user_claims demo_auth_env borrowed_user = [(''sub'', ''9'')]"
    by (simp add: user_claims_def borrowed_user_def excluded_fields_def)
  have role: "user_role demo_auth_env borrowed_user = ''user''" by (simp add: user_role_def borrowed_user_def)
  let ?p = "[(''iss'', JString ''sea''), (''sub'', JString ''9''), (''jti'', JString ''u''), (''iat'', JInt 0),
     (''exp'', JInt 900), (''token_type'', JString ''access''), (''email'', JString ''e''), (''role'', JString ''user'')]"
  let ?access = "demo_jwt_sign ''s'' ?p"
  obtain refresh where issue:
    "issue_tokens demo_auth_env (demo_auth_context None) demo_moment borrowed_user ''7'' ''e'' = Inr (?access, refresh)"
    by (simp add: issue_tokens_def env generate_access_token_def generate_refresh_token_def generate_token_def Let_def
        make_generate_params_def svc claims role with_access_claims_def base_payload_def demo_moment_def
        demo_jwt_library_def nanos_def)
  have "jl_verify demo_jwt_library ''s'' ''sea'' 0 ?access = Some ?p"
    by (simp add: demo_jwt_library_def demo_jwt_verify_def demo_jwt_sign_def payload_current_def nanos_def)
  then obtain c where c: "access_verifier demo_jwt_library demo_auth_service 0 ?access = Some c"
    by (simp add: access_verifier_def service_verify_def jwt_verify_token_def make_verify_params_def svc required_string_def
        optional_string_def token_type_from_string_def demo_jwt_library_def demo_jwt_sign_def)
  have "jwt_user_id c = ''9''"
    by (rule subject_field_replaces_the_user [where env = demo_auth_env and ctx = "demo_auth_context None" and later = 0, OF _ issue])
      (simp_all add: env demo_jwt_ok c borrowed_user_def)
  then show ?thesis using issue c by blast
qed

text \<open>An asymmetric configuration without a secret is accepted by the service, but no login and no
  refresh is ever answered 200: tokens are made and verified with the secret alone.\<close>

theorem keys_only_never_logs_in:
  assumes "make_auth_service (jwt_with_keys public_path private_path algo) service_name = Inr svc"
    and "ax_service ctx = svc"
  shows "rep_status (fst (login_handle env ctx m req body rep st)) \<noteq> 200
    \<and> rep_status (fst (refresh_handle env ctx m req body rep st)) \<noteq> 200"
proof -
  have "as_config svc = jwt_with_keys public_path private_path algo"
    using assms(1) by (auto simp: make_auth_service_def split: option.splits if_splits)
  then have none: "au_jwt_secret (as_config (ax_service ctx)) = []"
    by (simp add: assms(2) jwt_with_keys_def auth_config_none_def)
  obtain r1 st1 where login: "login_handle env ctx m req body rep st = (r1, st1)"
    by (cases "login_handle env ctx m req body rep st")
  obtain r2 st2 where refresh: "refresh_handle env ctx m req body rep st = (r2, st2)"
    by (cases "refresh_handle env ctx m req body rep st")
  have "rep_status r1 \<noteq> 200"
  proof
    assume "rep_status r1 = 200"
    then show False
      using no_secret(1) [OF none] by (elim login_success [OF login]) (simp add: issue_tokens_def)
  qed
  moreover have "rep_status r2 \<noteq> 200"
  proof
    assume "rep_status r2 = 200"
    then show False using no_secret(2) [OF none] by (elim refresh_success [OF refresh]) simp
  qed
  ultimately show ?thesis by (simp add: login refresh)
qed

theorem keys_only_never_logs_in_witness:
  "rep_status (fst (login_handle demo_auth_env ((demo_auth_context None)\<lparr>ax_service := \<lparr>as_config = jwt_with_keys ''a'' ''b'' RS256, as_issuer = ''sea''\<rparr>\<rparr>)
     demo_moment empty_request [] blank_reply demo_users)) \<noteq> 200"
proof -
  have "make_auth_service (jwt_with_keys ''a'' ''b'' RS256) ''sea'' = Inr \<lparr>as_config = jwt_with_keys ''a'' ''b'' RS256, as_issuer = ''sea''\<rparr>"
    by code_simp
  from keys_only_never_logs_in [OF this, of "(demo_auth_context None)\<lparr>ax_service := \<lparr>as_config = jwt_with_keys ''a'' ''b'' RS256, as_issuer = ''sea''\<rparr>\<rparr>"]
  show ?thesis by simp
qed

end
