(* ===== verification/Multipart.thy ===== *)
theory Multipart
  imports Authz_Middleware
begin

text \<open>
  The parser of \<open>multipart/form-data\<close> bodies
  (\<open>apps/Backend_Seastar/src/http/utils/multipart_parser.{h,cpp}\<close>). A string is read from the left:
  where the source keeps a position in it, the functions below keep the part that is left, and the
  position itself only where a message shows it.
\<close>

section \<open>Text\<close>

abbreviation crlf :: string where
  "crlf \<equiv> [CHR 0x0D, CHR 0x0A]"

definition part_space :: "char \<Rightarrow> bool" where
  "part_space c \<longleftrightarrow> c = CHR '' '' \<or> c = CHR 0x09 \<or> c = CHR 0x0D \<or> c = CHR 0x0A"

definition part_trim :: "string \<Rightarrow> string" where
  "part_trim s = trim_by part_space s"

definition strip_quotes :: "string \<Rightarrow> string" where
  "strip_quotes v = (if 2 \<le> length v \<and> hd v = CHR 0x22 \<and> last v = CHR 0x22 then butlast (tl v) else v)"

text \<open>The value of one token \<open>key=value\<close>, when its key is the one looked for.\<close>

definition token_param :: "string \<Rightarrow> string \<Rightarrow> string option" where
  "token_param key tok =
     (case after_char (CHR ''='') tok of
        None \<Rightarrow> None
      | Some v \<Rightarrow>
          if iequals (part_trim (before_char (CHR ''='') tok)) key then Some (strip_quotes (part_trim v)) else None)"

function extract_header_param :: "string \<Rightarrow> string \<Rightarrow> string option" where
  "extract_header_param header key =
     (if header = [] then None
      else case token_param key (part_trim (before_char (CHR '';'') header)) of
        Some v \<Rightarrow> Some v
      | None \<Rightarrow>
          (case after_char (CHR '';'') header of
             None \<Rightarrow> None
           | Some rest \<Rightarrow> extract_header_param rest key))"
  by pat_completeness auto
termination by (relation "measure (length \<circ> fst)") (auto dest: after_char_shorter)

declare extract_header_param.simps [simp del]

text \<open>The lines of a block of headers; the last header of a name counts.\<close>

function split_crlf :: "string \<Rightarrow> string list" where
  "split_crlf s =
     (if s = [] then []
      else case find_sub crlf s of
        None \<Rightarrow> [s]
      | Some n \<Rightarrow> take n s # split_crlf (drop (n + 2) s))"
  by pat_completeness auto
termination by (relation "measure length") auto

declare split_crlf.simps [simp del]

definition put_header_line :: "string \<Rightarrow> (string, string) table \<Rightarrow> (string, string) table" where
  "put_header_line line t =
     (case after_char (CHR '':'') line of
        None \<Rightarrow> t
      | Some v \<Rightarrow> tbl_put (str_lower (before_char (CHR '':'') line)) (part_trim v) t)"

definition parse_part_headers :: "string \<Rightarrow> (string, string) table" where
  "parse_part_headers block = fold put_header_line (split_crlf block) []"

definition part_header :: "(string, string) table \<Rightarrow> string \<Rightarrow> string option" where
  "part_header hs name = tbl_get hs (str_lower name)"

section \<open>The parts\<close>

record part_text =
  pt_name :: string
  pt_value :: string

record part_file =
  pf_name :: string
  pf_filename :: string
  pf_content_type :: string
  pf_content :: string

record parsed_multipart =
  pm_texts :: "part_text list"
  pm_files :: "part_file list"

definition find_text :: "parsed_multipart \<Rightarrow> string \<Rightarrow> part_text option" where
  "find_text pm name = find (\<lambda>p. pt_name p = name) (pm_texts pm)"

definition find_file :: "parsed_multipart \<Rightarrow> string \<Rightarrow> part_file option" where
  "find_file pm name = find (\<lambda>p. pf_name p = name) (pm_files pm)"

definition extract_boundary :: "string \<Rightarrow> string option" where
  "extract_boundary content_type =
     (if \<not> iequals (part_trim (before_char (CHR '';'') content_type)) ''multipart/form-data'' then None
      else case extract_header_param content_type ''boundary'' of
        None \<Rightarrow> None
      | Some b \<Rightarrow> if b = [] then None else Some b)"

text \<open>A part from its headers and its content.\<close>

definition add_part :: "(string, string) table \<Rightarrow> string \<Rightarrow> parsed_multipart \<Rightarrow> string + parsed_multipart" where
  "add_part hs content pm =
     (case part_header hs ''Content-Disposition'' of
        None \<Rightarrow> Inl ''multipart: Content-Disposition manquant sur un part''
      | Some disposition \<Rightarrow>
          (case extract_header_param disposition ''name'' of
             None \<Rightarrow> Inl ''multipart: attribut name= manquant dans Content-Disposition''
           | Some name \<Rightarrow>
               if name = [] then Inl ''multipart: attribut name= manquant dans Content-Disposition''
               else case extract_header_param disposition ''filename'' of
                 Some filename \<Rightarrow>
                   Inr (pm\<lparr>pm_files := pm_files pm @
                     [\<lparr>pf_name = name, pf_filename = filename,
                       pf_content_type = (case part_header hs ''Content-Type'' of
                          None \<Rightarrow> ''application/octet-stream'' | Some t \<Rightarrow> t),
                       pf_content = content\<rparr>]\<rparr>)
               | None \<Rightarrow> Inr (pm\<lparr>pm_texts := pm_texts pm @ [\<lparr>pt_name = name, pt_value = content\<rparr>]\<rparr>)))"

text \<open>The loop over the parts: \<open>rest\<close> is what follows a boundary, at the position \<open>cursor\<close> of the body.\<close>

function parts_loop :: "string \<Rightarrow> nat \<Rightarrow> string \<Rightarrow> parsed_multipart \<Rightarrow> string + parsed_multipart" where
  "parts_loop crlf_delim cursor rest pm =
     (if rest = [] then Inr pm
      else if starts_with rest ''--'' then Inr pm
      else if \<not> starts_with rest crlf
      then Inl (''multipart: CRLF attendu apres le boundary (offset '' @ nat_str cursor @ '')'')
      else case find_sub (crlf @ crlf) (drop 2 rest) of
        None \<Rightarrow> Inl ''multipart: fin des headers de part introuvable''
      | Some h \<Rightarrow>
          (case find_sub crlf_delim (drop (h + 6) rest) of
             None \<Rightarrow> Inl ''multipart: contenu non termine (boundary final manquant)''
           | Some c \<Rightarrow>
               (case add_part (parse_part_headers (take h (drop 2 rest))) (take c (drop (h + 6) rest)) pm of
                  Inl e \<Rightarrow> Inl e
                | Inr pm' \<Rightarrow>
                    parts_loop crlf_delim (cursor + h + 6 + c + length crlf_delim)
                      (drop (h + 6 + c + length crlf_delim) rest) pm')))"
  by pat_completeness auto
termination by (relation "measure (\<lambda>(_, _, rest, _). length rest)") auto

declare parts_loop.simps [simp del]

definition multipart_parse :: "string \<Rightarrow> string \<Rightarrow> string + parsed_multipart" where
  "multipart_parse body boundary =
     (if boundary = [] then Inl ''multipart: boundary vide''
      else let delim = ''--'' @ boundary;
               first = (if starts_with body delim then Some 0 else find_sub delim body)
        in case first of
             None \<Rightarrow> Inl ''multipart: boundary introuvable en debut de body''
           | Some n \<Rightarrow>
               parts_loop (crlf @ delim) (n + length delim) (drop (n + length delim) body)
                 \<lparr>pm_texts = [], pm_files = []\<rparr>)"

end
