(* ===== verification/Upload_Extractor.thy ===== *)
theory Upload_Extractor
  imports File_Laws Multipart Auth_Handlers Resource_Authz
begin

text \<open>
  \<open>FileUploadExtractor\<close>
  (\<open>apps/Backend_Seastar/src/http/handlers/file_handlers/file_upload_extractor.cpp\<close>): the uploads a
  request carries, as parts of a form or as JSON objects, their rollback and their commit. The UUIDs the
  file service draws are an argument, numbered by the uploads of the request. \<open>Inl\<close> is the exception. A file field
  has a configuration (\<open>is_file_field\<close>), so the branches without one are never taken.
\<close>

record extraction =
  ex_uploaded :: "string list"
  ex_texts :: "(string \<times> string) list"
  ex_had_files :: bool

definition no_extraction :: extraction where
  "no_extraction = \<lparr>ex_uploaded = [], ex_texts = [], ex_had_files = False\<rparr>"

definition add_upload :: "string \<Rightarrow> extraction \<Rightarrow> extraction" where
  "add_upload uuid ex = ex\<lparr>ex_uploaded := ex_uploaded ex @ [uuid], ex_had_files := True\<rparr>"

record ('r, 'f) file_layer =
  fl_repo :: "'r repository"
  fl_counters :: "'r counters"
  fl_ops :: "'f file_storage_ops"
  fl_uuid :: "nat \<Rightarrow> string"

section \<open>Files in JSON\<close>

record json_file =
  jf_filename :: string
  jf_mime :: string
  jf_content :: string

definition base64_to_string :: "string \<Rightarrow> string" where
  "base64_to_string s = map (\<lambda>b. char_of (unat b)) (base64_decode s)"

definition parse_json_file_object :: "json \<Rightarrow> string + json_file" where
  "parse_json_file_object j =
     (case j of
        JObject ms \<Rightarrow>
          (case map_of ms ''filename'' of
             Some (JString n) \<Rightarrow>
               (case map_of ms ''content_base64'' of
                  Some (JString c) \<Rightarrow>
                    Inr \<lparr>jf_filename = n,
                      jf_mime = (case map_of ms ''mime_type'' of
                         Some (JString t) \<Rightarrow> t | _ \<Rightarrow> ''application/octet-stream''),
                      jf_content = base64_to_string c\<rparr>
                | _ \<Rightarrow> Inl (''Champ file: '' @ quoted ''content_base64'' @ '' string requis.''))
           | _ \<Rightarrow> Inl (''Champ file: '' @ quoted ''filename'' @ '' string requis.''))
      | _ \<Rightarrow> Inl (''Champ file en JSON doit etre un objet '' @ ''{filename, mime_type, content_base64}.''))"

definition upload_one ::
  "('r, 'f) file_layer \<Rightarrow> file_field_config \<Rightarrow> string \<Rightarrow> string \<Rightarrow> string \<Rightarrow> extraction \<Rightarrow> ('r, 'f) service_state
   \<Rightarrow> (string + upload_result) \<times> ('r, 'f) service_state" where
  "upload_one fl cfg name mime content ex st =
     upload (fl_repo fl) (fl_ops fl) cfg (fl_uuid fl (length (ex_uploaded ex))) name mime content st"

text \<open>The loop over the fields; an exception leaves the caller without the uploads made before it.\<close>

fun extract_json_fields ::
  "('r, 'f) file_layer \<Rightarrow> field list \<Rightarrow> dynamic_record \<Rightarrow> extraction \<Rightarrow> ('r, 'f) service_state
   \<Rightarrow> (string + dynamic_record \<times> extraction) \<times> ('r, 'f) service_state" where
  "extract_json_fields fl [] rec ex st = (Inr (rec, ex), st)"
| "extract_json_fields fl (f # fs) rec ex st =
     (if \<not> is_file_field f then extract_json_fields fl fs rec ex st
      else case tbl_get rec (f_name f) of
        None \<Rightarrow> extract_json_fields fl fs rec ex st
      | Some (VString _) \<Rightarrow> extract_json_fields fl fs rec ex st
      | Some (VJson j) \<Rightarrow>
          (case parse_json_file_object j of
             Inl e \<Rightarrow> (Inl (''[FileUploadExtractor] Champ '' @ quoted (f_name f) @ '': '' @ e), st)
           | Inr p \<Rightarrow>
               (case f_file_config f of
                  None \<Rightarrow> extract_json_fields fl fs rec ex st
                | Some cfg \<Rightarrow>
                    (case upload_one fl cfg (jf_filename p) (jf_mime p) (jf_content p) ex st of
                       (Inl e, st') \<Rightarrow> (Inl e, st')
                     | (Inr r, st') \<Rightarrow>
                         extract_json_fields fl fs (tbl_put (f_name f) (VString (ur_uuid r)) rec)
                           (add_upload (ur_uuid r) ex) st')))
      | Some _ \<Rightarrow>
          (Inl (''[FileUploadExtractor] Champ '' @ quoted (f_name f) @ '': type de valeur invalide pour un champ file ''
             @ ''(attendu: UUID string ou objet {filename, mime_type, content_base64}).''), st))"

definition extract_from_json_record ::
  "('r, 'f) file_layer \<Rightarrow> entity \<Rightarrow> dynamic_record \<Rightarrow> ('r, 'f) service_state
   \<Rightarrow> (string + dynamic_record \<times> extraction) \<times> ('r, 'f) service_state" where
  "extract_from_json_record fl e rec st = extract_json_fields fl (e_fields e) rec no_extraction st"

section \<open>Files in a form\<close>

definition is_multipart_request :: "auth_env \<Rightarrow> request \<Rightarrow> bool" where
  "is_multipart_request env req \<longleftrightarrow> extract_boundary (header_or_empty env req ''Content-Type'') \<noteq> None"

definition find_file_field :: "entity \<Rightarrow> string \<Rightarrow> field option" where
  "find_file_field e name = find (\<lambda>f. f_name f = name \<and> is_file_field f) (e_fields e)"

definition upload_single_part ::
  "('r, 'f) file_layer \<Rightarrow> field \<Rightarrow> part_file \<Rightarrow> extraction \<Rightarrow> ('r, 'f) service_state
   \<Rightarrow> (string + upload_result) \<times> ('r, 'f) service_state" where
  "upload_single_part fl f part ex st =
     (if \<not> is_file_field f
      then (Inl (''[FileUploadExtractor] upload_single_part: field '' @ quoted (f_name f)
              @ '' '' @ ''n'' @ [CHR 0x27] @ ''est pas un champ File configure.''), st)
      else case f_file_config f of
        None \<Rightarrow> (Inl [], st)
      | Some cfg \<Rightarrow> upload_one fl cfg (pf_filename part) (pf_content_type part) (pf_content part) ex st)"

text \<open>The loop over the parts of files: what has been uploaded so far is kept when an upload fails.\<close>

fun upload_parts ::
  "('r, 'f) file_layer \<Rightarrow> entity \<Rightarrow> part_file list \<Rightarrow> dynamic_record \<Rightarrow> extraction \<Rightarrow> ('r, 'f) service_state
   \<Rightarrow> (string option \<times> dynamic_record \<times> extraction) \<times> ('r, 'f) service_state" where
  "upload_parts fl e [] rec ex st = ((None, rec, ex), st)"
| "upload_parts fl e (part # parts) rec ex st =
     (case find_file_field e (pf_name part) of
        None \<Rightarrow> upload_parts fl e parts rec ex st
      | Some f \<Rightarrow>
          (case upload_single_part fl f part ex st of
             (Inl what, st') \<Rightarrow> ((Some what, rec, ex), st')
           | (Inr r, st') \<Rightarrow>
               upload_parts fl e parts (tbl_put (f_name f) (VString (ur_uuid r)) rec) (add_upload (ur_uuid r) ex) st'))"

definition put_texts :: "part_text list \<Rightarrow> dynamic_record \<Rightarrow> dynamic_record" where
  "put_texts ts rec = fold (\<lambda>t r. tbl_put (pt_name t) (VString (pt_value t)) r) ts rec"

definition extract_from_multipart ::
  "auth_env \<Rightarrow> ('r, 'f) file_layer \<Rightarrow> request \<Rightarrow> string \<Rightarrow> entity \<Rightarrow> dynamic_record \<Rightarrow> ('r, 'f) service_state
   \<Rightarrow> (string + dynamic_record \<times> extraction) \<times> ('r, 'f) service_state" where
  "extract_from_multipart env fl req body e rec st =
     (case extract_boundary (header_or_empty env req ''Content-Type'') of
        None \<Rightarrow> (Inl (''[FileUploadExtractor] Content-Type '' @ quoted ''multipart/form-data'' @ '' sans boundary valide.''), st)
      | Some boundary \<Rightarrow>
          (case multipart_parse body boundary of
             Inl what \<Rightarrow> (Inl (''[FileUploadExtractor] body multipart invalide : '' @ what), st)
           | Inr pm \<Rightarrow>
               (case upload_parts fl e (pm_files pm) (put_texts (pm_texts pm) rec)
                   (no_extraction\<lparr>ex_texts := map (\<lambda>t. (pt_name t, pt_value t)) (pm_texts pm)\<rparr>) st of
                  ((Some what, _, _), st') \<Rightarrow> (Inl what, st')
                | ((None, rec', ex), st') \<Rightarrow> (Inr (rec', ex), st'))))"

section \<open>Rollback, commit and release\<close>

definition rollback_uploads :: "('r, 'f) file_layer \<Rightarrow> extraction \<Rightarrow> ('r, 'f) service_state \<Rightarrow> ('r, 'f) service_state" where
  "rollback_uploads fl ex st =
     fold (\<lambda>uuid s. snd (release (fl_repo fl) (fl_counters fl) (fl_ops fl) uuid FileCascade s)) (ex_uploaded ex) st"

fun retain_all :: "('r, 'f) file_layer \<Rightarrow> string list \<Rightarrow> ('r, 'f) service_state \<Rightarrow> bool \<times> ('r, 'f) service_state" where
  "retain_all fl [] st = (True, st)"
| "retain_all fl (uuid # uuids) st =
     (case retain (fl_counters fl) uuid st of
        (ok, st') \<Rightarrow> (case retain_all fl uuids st' of (all_ok, st'') \<Rightarrow> (ok \<and> all_ok, st'')))"

definition commit_uploads :: "('r, 'f) file_layer \<Rightarrow> extraction \<Rightarrow> ('r, 'f) service_state \<Rightarrow> bool \<times> ('r, 'f) service_state" where
  "commit_uploads fl ex st = retain_all fl (ex_uploaded ex) st"

definition release_old_uuid ::
  "('r, 'f) file_layer \<Rightarrow> string \<Rightarrow> on_delete_file \<Rightarrow> ('r, 'f) service_state \<Rightarrow> bool \<times> ('r, 'f) service_state" where
  "release_old_uuid fl uuid rule st = release (fl_repo fl) (fl_counters fl) (fl_ops fl) uuid rule st"

end
