(* ===== verification/Write_Handlers.thy ===== *)
theory Write_Handlers
  imports Upload_Extractor
begin

text \<open>
  The handlers of \<open>POST\<close>, \<open>PUT\<close> and \<open>DELETE\<close> on an entity
  (\<open>apps/Backend_Seastar/src/http/handlers/crud_handlers\<close>, \<open>create_handler\<close>, \<open>update_handler\<close> and
  \<open>delete_handler\<close>) over any repository, storage and transaction. The state is the one of the file service:
  the repository and the storage. \<open>wx_in_tx\<close> runs the work of a transaction and says whether it committed;
  what the work writes into the variables of the handler is read off the work itself. Texts are UTF-8, so
  that writing JSON does not throw. Logging is left out.
\<close>

section \<open>What the handlers are given\<close>

record ('r, 'f) write_context =
  wx_files :: "('r, 'f) file_layer"
  wx_registry :: entity_registry
  wx_entity :: string
  wx_extractor :: bool
  wx_helper :: "(operator_registry \<times> schema \<times> access_control_config) option"
  wx_in_tx :: "('r, 'f) service_state \<Rightarrow> (('r, 'f) service_state \<Rightarrow> bool \<times> ('r, 'f) service_state)
    \<Rightarrow> transaction_result \<times> ('r, 'f) service_state"

abbreviation wx_repo :: "('r, 'f) write_context \<Rightarrow> 'r repository" where
  "wx_repo ctx \<equiv> fl_repo (wx_files ctx)"

text \<open>The check of a resource, when the helper is there: the reply of a refusal.\<close>

definition refused_by_policy ::
  "auth_env \<Rightarrow> ('r, 'f) write_context \<Rightarrow> int \<Rightarrow> crud_operation \<Rightarrow> string \<Rightarrow> request \<Rightarrow> reply option" where
  "refused_by_policy env ctx now oper resource_text req =
     (case wx_helper ctx of
        None \<Rightarrow> None
      | Some (reg, s, cfg) \<Rightarrow>
          let chk = check_single (ae_parse env) (ae_dump env) reg s cfg (wx_entity ctx) oper
                (build_subject_from_headers (req_headers req)) resource_text
                (build_context (ae_same env) now req (req_url req))
          in if fst chk then None
             else Some (make_error_reply (ae_dump env) 403 ''AUTHORIZATION_ERROR''
                    (if snd chk = [] then ''Acces refuse.'' else snd chk)))"

definition not_found :: "auth_env \<Rightarrow> string \<Rightarrow> reply" where
  "not_found env message = make_error_reply (ae_dump env) 404 ''NOT_FOUND'' message"

definition text_reply :: "auth_env \<Rightarrow> nat \<Rightarrow> string \<Rightarrow> reply \<Rightarrow> reply" where
  "text_reply env status body rep =
     \<lparr>rep_status = status,
      rep_headers = ae_add_header env ''Content-Type'' ''application/json'' (rep_headers rep), rep_content = body\<rparr>"

section \<open>The body\<close>

text \<open>The record and the parts of files of the body, or the reply that refuses it.\<close>

definition no_parts :: parsed_multipart where
  "no_parts = \<lparr>pm_texts = [], pm_files = []\<rparr>"

definition texts_json :: "part_text list \<Rightarrow> json" where
  "texts_json ts = JObject (fold (\<lambda>t ms. tbl_put (pt_name t) (JString (pt_value t)) ms) ts [])"

definition read_body ::
  "auth_env \<Rightarrow> entity \<Rightarrow> bool \<Rightarrow> request \<Rightarrow> string \<Rightarrow> reply + dynamic_record \<times> parsed_multipart" where
  "read_body env e is_multipart req body =
     (if is_multipart then
        (case extract_boundary (header_or_empty env req ''Content-Type'') of
           None \<Rightarrow> Inl (make_error_reply (ae_dump env) 400 ''BAD_REQUEST'' ''Content-Type multipart sans boundary.'')
         | Some boundary \<Rightarrow>
             (case multipart_parse body boundary of
                Inl what \<Rightarrow> Inl (make_error_reply (ae_dump env) 400 ''BAD_REQUEST'' (''Multipart invalide: '' @ what))
              | Inr pm \<Rightarrow>
                  (case parse_record (ae_parse env) e (ae_dump env (texts_json (pm_texts pm))) of
                     Inl what \<Rightarrow> Inl (make_error_reply (ae_dump env) 400 ''VALIDATION_ERROR'' (''Champs texte invalides: '' @ what))
                   | Inr rec \<Rightarrow> Inr (rec, pm))))
      else (case parse_record (ae_parse env) e body of
              Inl what \<Rightarrow> Inl (make_error_reply (ae_dump env) 400 ''BAD_REQUEST'' (''Erreur: '' @ what))
            | Inr rec \<Rightarrow> Inr (rec, no_parts)))"

text \<open>The password is hashed; a create adds a role to a record with a password.\<close>

definition hash_password_field :: "auth_env \<Rightarrow> bool \<Rightarrow> dynamic_record \<Rightarrow> reply + dynamic_record" where
  "hash_password_field env creating rec =
     (case tbl_get rec ''password'' of
        None \<Rightarrow> Inr rec
      | Some v \<Rightarrow>
          (case http_value_to_string (ae_dbl_text env) v of
             None \<Rightarrow> Inl (make_error_reply (ae_dump env) 400 ''VALIDATION_ERROR'' ''Password invalide.'')
           | Some plain \<Rightarrow>
               let rec1 = tbl_put ''password'' (VString (ae_hash env plain)) rec in
               Inr (if creating \<and> tbl_get rec1 ''role'' = None then tbl_put ''role'' (VString ''user'') rec1 else rec1)))"

text \<open>The resource a create is checked on: the fields that have a text, without the password.\<close>

definition create_payload :: "auth_env \<Rightarrow> dynamic_record \<Rightarrow> json" where
  "create_payload env rec =
     JObject (List.map_filter (\<lambda>(k, v). if k = ''password'' then None
       else map_option (\<lambda>s. (k, JString s)) (http_value_to_string (ae_dbl_text env) v)) rec)"

section \<open>The work of a transaction\<close>

record work_result =
  wr_commit :: bool
  wr_extraction :: extraction
  wr_operation :: operation_result

definition extract_files ::
  "('r, 'f) write_context \<Rightarrow> entity \<Rightarrow> bool \<Rightarrow> parsed_multipart \<Rightarrow> dynamic_record \<Rightarrow> ('r, 'f) service_state
   \<Rightarrow> (bool \<times> dynamic_record \<times> extraction) \<times> ('r, 'f) service_state" where
  "extract_files ctx e is_multipart pm rec st =
     (if \<not> wx_extractor ctx then ((True, rec, no_extraction), st)
      else if is_multipart then
        (case upload_parts (wx_files ctx) e (pm_files pm) rec no_extraction st of
           ((failure, rec', ex), st') \<Rightarrow> ((failure = None, rec', ex), st'))
      else (case extract_from_json_record (wx_files ctx) e rec st of
              (Inl what, st') \<Rightarrow> ((False, rec, no_extraction), st')
            | (Inr (rec', ex), st') \<Rightarrow> ((True, rec', ex), st')))"

definition write_work ::
  "('r, 'f) write_context \<Rightarrow> (dynamic_record \<Rightarrow> 'r \<Rightarrow> operation_result \<times> 'r) \<Rightarrow> entity \<Rightarrow> bool \<Rightarrow> parsed_multipart
   \<Rightarrow> dynamic_record \<Rightarrow> ('r, 'f) service_state \<Rightarrow> work_result \<times> ('r, 'f) service_state" where
  "write_work ctx operation e is_multipart pm rec st =
     (case extract_files ctx e is_multipart pm rec st of
        ((False, _, ex), st1) \<Rightarrow> (\<lparr>wr_commit = False, wr_extraction = ex, wr_operation = empty_operation\<rparr>, st1)
      | ((True, rec', ex), st1) \<Rightarrow>
          (case operation rec' (fst st1) of
             (result, rows) \<Rightarrow>
               let st2 = (rows, snd st1) in
               if \<not> op_success result
               then (\<lparr>wr_commit = False, wr_extraction = ex, wr_operation = result\<rparr>, st2)
               else if ex_had_files ex then
                 (case commit_uploads (wx_files ctx) ex st2 of
                    (retained, st3) \<Rightarrow> (\<lparr>wr_commit = retained, wr_extraction = ex, wr_operation = result\<rparr>, st3))
               else (\<lparr>wr_commit = True, wr_extraction = ex, wr_operation = result\<rparr>, st2)))"

text \<open>The reply of a transaction that did not commit, after the rollback of the uploads.\<close>

definition write_failed ::
  "auth_env \<Rightarrow> ('r, 'f) write_context \<Rightarrow> work_result \<Rightarrow> ('r, 'f) service_state \<Rightarrow> reply \<times> ('r, 'f) service_state" where
  "write_failed env ctx w st =
     (let st' = (if ex_had_files (wr_extraction w) then rollback_uploads (wx_files ctx) (wr_extraction w) st else st);
          errs = op_errors (wr_operation w)
      in ((if \<not> op_success (wr_operation w) \<and> errs \<noteq> []
           then make_error_reply (ae_dump env) 400 ''VALIDATION_ERROR'' (join_errors errs)
           else internal_error env), st'))"

definition written_record :: "auth_env \<Rightarrow> operation_result \<Rightarrow> string" where
  "written_record env result = (case op_record result of None \<Rightarrow> [] | Some r \<Rightarrow> record_to_json (ae_dbl_text env) r)"

definition run_write ::
  "auth_env \<Rightarrow> ('r, 'f) write_context \<Rightarrow> nat \<Rightarrow> (('r, 'f) service_state \<Rightarrow> work_result \<times> ('r, 'f) service_state)
   \<Rightarrow> (('r, 'f) service_state \<Rightarrow> ('r, 'f) service_state) \<Rightarrow> reply \<Rightarrow> ('r, 'f) service_state
   \<Rightarrow> reply \<times> ('r, 'f) service_state" where
  "run_write env ctx status work after rep st =
     (let w = fst (work st) in
      case wx_in_tx ctx st (\<lambda>s. case work s of (x, s') \<Rightarrow> (wr_commit x, s')) of
        (result, st') \<Rightarrow>
          if \<not> committed result then write_failed env ctx w st'
          else (text_reply env status (written_record env (wr_operation w)) rep, after st'))"

text \<open>A transaction of a database: the rows of a work that fails are rolled back, the storage is not.\<close>

definition rollback_tx ::
  "('r, 'f) service_state \<Rightarrow> (('r, 'f) service_state \<Rightarrow> bool \<times> ('r, 'f) service_state)
   \<Rightarrow> transaction_result \<times> ('r, 'f) service_state" where
  "rollback_tx st work =
     (case work st of
        (True, st') \<Rightarrow> (\<lparr>committed = True, error_message = []\<rparr>, st')
      | (False, st') \<Rightarrow> (\<lparr>committed = False, error_message = ''Transaction rolled back''\<rparr>, (fst st, snd st')))"

section \<open>Create\<close>

text \<open>\<open>None\<close>: the loop that draws an identifier does not end.\<close>

definition create_handle ::
  "auth_env \<Rightarrow> ('r, 'f) write_context \<Rightarrow> int \<Rightarrow> (nat \<Rightarrow> string) \<Rightarrow> request \<Rightarrow> string \<Rightarrow> reply \<Rightarrow> ('r, 'f) service_state
   \<Rightarrow> (reply \<times> ('r, 'f) service_state) option" where
  "create_handle env ctx now ids req body rep st =
     (case registry_find_entity (wx_registry ctx) (wx_entity ctx) of
        None \<Rightarrow> Some (not_found env ''Entite inconnue.'', st)
      | Some e \<Rightarrow>
          let is_multipart = (wx_extractor ctx \<and> is_multipart_request env req) in
          (case read_body env e is_multipart req body of
             Inl refusal \<Rightarrow> Some (refusal, st)
           | Inr (rec0, pm) \<Rightarrow>
               (case hash_password_field env True rec0 of
                  Inl refusal \<Rightarrow> Some (refusal, st)
                | Inr rec1 \<Rightarrow>
                    (case refused_by_policy env ctx now Create (ae_dump env (create_payload env rec1)) req of
                       Some refusal \<Rightarrow> Some (refusal, st)
                     | None \<Rightarrow>
                         map_option
                           (\<lambda>rec2. run_write env ctx 201
                              (write_work ctx
                                 (\<lambda>r rows. crud_create (ae_json_eq env) (wx_repo ctx) (wx_registry ctx) rows (wx_entity ctx) r)
                                 e is_multipart pm rec2) id rep st)
                           (assign_id (wx_repo ctx) (wx_registry ctx) ids (fst st) e (wx_entity ctx) rec1)))))"

section \<open>Update\<close>

text \<open>The files of the record before the update, for the fields that the body writes: a string of a file
  field with its deletion rule.\<close>

definition stored_file_of :: "dynamic_record \<Rightarrow> field \<Rightarrow> (string \<times> on_delete_file) option" where
  "stored_file_of rec f =
     (case tbl_get rec (f_name f) of
        Some (VString uuid) \<Rightarrow>
          if uuid = [] then None
          else map_option (\<lambda>cfg. (uuid, fc_on_delete cfg)) (f_file_config f)
      | _ \<Rightarrow> None)"

definition old_file_refs :: "entity \<Rightarrow> dynamic_record \<Rightarrow> dynamic_record \<Rightarrow> (string \<times> on_delete_file) list" where
  "old_file_refs e existing rec =
     List.map_filter (\<lambda>f. if is_file_field f \<and> tbl_get rec (f_name f) \<noteq> None then stored_file_of existing f else None)
       (e_fields e)"

definition release_files ::
  "('r, 'f) file_layer \<Rightarrow> (string \<times> on_delete_file) list \<Rightarrow> ('r, 'f) service_state \<Rightarrow> ('r, 'f) service_state" where
  "release_files fl refs st = fold (\<lambda>(uuid, rule) s. snd (release_old_uuid fl uuid rule s)) refs st"

definition has_file_fields :: "entity \<Rightarrow> bool" where
  "has_file_fields e \<longleftrightarrow> list_ex is_file_field (e_fields e)"

text \<open>The release after the transaction uses the extractor without looking whether there is one: with old
  files to release and no extractor, a null pointer is dereferenced, which has no defined result. A reply
  200 is one of a transaction that committed.\<close>

datatype update_outcome = Updated reply | NullDereference

definition update_with ::
  "auth_env \<Rightarrow> ('r, 'f) write_context \<Rightarrow> entity \<Rightarrow> string \<Rightarrow> dynamic_record option \<Rightarrow> request \<Rightarrow> string \<Rightarrow> reply
   \<Rightarrow> ('r, 'f) service_state \<Rightarrow> update_outcome \<times> ('r, 'f) service_state" where
  "update_with env ctx e rid existing req body rep st =
     (let is_multipart = (wx_extractor ctx \<and> is_multipart_request env req) in
      case read_body env e is_multipart req body of
        Inl refusal \<Rightarrow> (Updated refusal, st)
      | Inr (rec0, pm) \<Rightarrow>
          (case hash_password_field env False rec0 of
             Inl refusal \<Rightarrow> (Updated refusal, st)
           | Inr rec1 \<Rightarrow>
               let refs = (case existing of
                             Some old \<Rightarrow> if has_file_fields e then old_file_refs e old rec1 else []
                           | None \<Rightarrow> [])
               in case run_write env ctx 200
                    (write_work ctx (\<lambda>r rows. crud_update (wx_repo ctx) (wx_registry ctx) rows (wx_entity ctx) rid r)
                       e is_multipart pm rec1)
                    (if wx_extractor ctx then release_files (wx_files ctx) refs else id) rep st of
                    (r, st') \<Rightarrow>
                      (if \<not> wx_extractor ctx \<and> refs \<noteq> [] \<and> rep_status r = 200 then NullDereference else Updated r, st')))"

definition update_handle ::
  "auth_env \<Rightarrow> ('r, 'f) write_context \<Rightarrow> int \<Rightarrow> string \<Rightarrow> request \<Rightarrow> string \<Rightarrow> reply \<Rightarrow> ('r, 'f) service_state
   \<Rightarrow> update_outcome \<times> ('r, 'f) service_state" where
  "update_handle env ctx now id_param req body rep st =
     (let rid = strip_leading_slash id_param in
      if rid = []
      then (Updated (make_error_reply (ae_dump env) 400 ''BAD_REQUEST'' (''Parametre '' @ quoted ''id'' @ '' manquant.'')), st)
      else case registry_find_entity (wx_registry ctx) (wx_entity ctx) of
        None \<Rightarrow> (Updated (not_found env ''Entite inconnue.''), st)
      | Some e \<Rightarrow>
          if wx_helper ctx \<noteq> None \<or> has_file_fields e then
            (case crud_get_by_id (wx_repo ctx) (wx_registry ctx) (fst st) (wx_entity ctx) rid of
               None \<Rightarrow> (Updated (not_found env ''Enregistrement introuvable.''), st)
             | Some old \<Rightarrow>
                 (case refused_by_policy env ctx now Update (record_to_json (ae_dbl_text env) old) req of
                    Some refusal \<Rightarrow> (Updated refusal, st)
                  | None \<Rightarrow> update_with env ctx e rid (Some old) req body rep st))
          else update_with env ctx e rid None req body rep st)"

section \<open>Delete\<close>

record attached_file =
  af_field :: string
  af_uuid :: string
  af_rule :: on_delete_file

definition collect_attached_files :: "entity \<Rightarrow> dynamic_record \<Rightarrow> attached_file list" where
  "collect_attached_files e rec =
     List.map_filter (\<lambda>f. if is_file_field f
         then map_option (\<lambda>(uuid, rule). \<lparr>af_field = f_name f, af_uuid = uuid, af_rule = rule\<rparr>) (stored_file_of rec f)
         else None) (e_fields e)"

definition restricted_reply :: "auth_env \<Rightarrow> string \<Rightarrow> attached_file \<Rightarrow> reply" where
  "restricted_reply env en af =
     make_error_reply (ae_dump env) 409 ''CONFLICT''
       (''L'' @ [CHR 0x27] @ ''entite '' @ quoted en @ '' ne peut pas etre supprimee : le champ file '' @ quoted (af_field af)
        @ '' a une regle on_delete=restrict. Detacher/remplacer le fichier avant suppression.'')"

definition delete_refused :: "auth_env \<Rightarrow> operation_result \<Rightarrow> reply" where
  "delete_refused env result =
     (if op_restrict_violation result
      then make_error_reply (ae_dump env) 409 ''CONFLICT''
        (''Suppression refusee : entite referencee''
         @ (if op_errors result = [] then [] else '' ('' @ join_errors (op_errors result) @ '')''))
      else not_found env ''Enregistrement introuvable.'')"

definition deleted_reply :: "auth_env \<Rightarrow> reply \<Rightarrow> reply" where
  "deleted_reply env rep = json_reply env 200 (JObject [(''message'', JString ''Deleted'')]) rep"

definition delete_with ::
  "auth_env \<Rightarrow> ('r, 'f) write_context \<Rightarrow> bool \<Rightarrow> string \<Rightarrow> attached_file list \<Rightarrow> reply \<Rightarrow> ('r, 'f) service_state
   \<Rightarrow> reply \<times> ('r, 'f) service_state" where
  "delete_with env ctx with_files rid attached rep st =
     (let remove = crud_remove (wx_repo ctx) (wx_registry ctx);
          release_attached = release_files (wx_files ctx) (map (\<lambda>af. (af_uuid af, af_rule af)) attached)
      in if wx_extractor ctx \<and> with_files then
           (let work = (\<lambda>s. case remove (fst s) (wx_entity ctx) rid of (result, rows) \<Rightarrow> (op_success result, (rows, snd s)));
                result = fst (remove (fst st) (wx_entity ctx) rid)
            in case wx_in_tx ctx st work of
                 (tx, st') \<Rightarrow>
                   if \<not> committed tx then (internal_error env, st')
                   else if \<not> op_success result then (delete_refused env result, st')
                   else (deleted_reply env rep, release_attached st'))
         else (case remove (fst st) (wx_entity ctx) rid of
                 (result, rows) \<Rightarrow>
                   let st' = (rows, snd st) in
                   if \<not> op_success result then (delete_refused env result, st')
                   else (deleted_reply env rep, if wx_extractor ctx then release_attached st' else st')))"

text \<open>\<open>has_registry\<close>: the registry of the handler may be left out.\<close>

definition delete_handle ::
  "auth_env \<Rightarrow> ('r, 'f) write_context \<Rightarrow> bool \<Rightarrow> int \<Rightarrow> string \<Rightarrow> request \<Rightarrow> reply \<Rightarrow> ('r, 'f) service_state
   \<Rightarrow> reply \<times> ('r, 'f) service_state" where
  "delete_handle env ctx has_registry now id_param req rep st =
     (let rid = strip_leading_slash id_param;
          entity = (if has_registry then registry_find_entity (wx_registry ctx) (wx_entity ctx) else None);
          with_files = (case entity of None \<Rightarrow> False | Some e \<Rightarrow> has_file_fields e)
      in if rid = []
         then (make_error_reply (ae_dump env) 400 ''BAD_REQUEST'' (''Parametre '' @ quoted ''id'' @ '' manquant.''), st)
         else if wx_helper ctx \<noteq> None \<or> with_files then
           (case crud_get_by_id (wx_repo ctx) (wx_registry ctx) (fst st) (wx_entity ctx) rid of
              None \<Rightarrow> (not_found env ''Enregistrement introuvable.'', st)
            | Some old \<Rightarrow>
                (case refused_by_policy env ctx now Delete (record_to_json (ae_dbl_text env) old) req of
                   Some refusal \<Rightarrow> (refusal, st)
                 | None \<Rightarrow>
                     let attached = (case entity of
                                       Some e \<Rightarrow> if with_files then collect_attached_files e old else []
                                     | None \<Rightarrow> [])
                     in (case find (\<lambda>af. af_rule af = FileRestrict) attached of
                           Some af \<Rightarrow> (restricted_reply env (wx_entity ctx) af, st)
                         | None \<Rightarrow> delete_with env ctx with_files rid attached rep st)))
         else delete_with env ctx with_files rid [] rep st)"

end
