(* ===== verification/Write_Laws.thy ===== *)
theory Write_Laws
  imports Write_Handlers Crud_Laws
begin

text \<open>
  Laws of the write handlers: the steps of a create with one uploaded file, and what the operations of
  the engine leave alone in the table of files, over any repository and storage (locale \<open>file_service\<close>).
\<close>

section \<open>Forms with one file\<close>

lemma find_file_field_config:
  assumes "find_file_field e n = Some f"
  obtains cfg where "f_name f = n" "is_file_field f" "f_file_config f = Some cfg" "f \<in> set (e_fields e)"
  using assms find_Some_in [of _ "e_fields e" f] by (auto simp: find_file_field_def is_file_field_def)

lemma single_upload:
  assumes "find_file_field e (pf_name part) = Some f" and "f_file_config f = Some cfg"
    and "upload (fl_repo fl) (fl_ops fl) cfg (fl_uuid fl 0) (pf_filename part) (pf_content_type part) (pf_content part) st
      = (Inr res, st')"
  shows "upload_parts fl e [part] rec no_extraction st
    = ((None, tbl_put (pf_name part) (VString (ur_uuid res)) rec, add_upload (ur_uuid res) no_extraction), st')"
proof -
  have "f_name f = pf_name part" "is_file_field f"
    using assms(1) by (auto elim: find_file_field_config)
  then show ?thesis
    using assms by (simp add: upload_single_part_def upload_one_def no_extraction_def)
qed

text \<open>A reference to a file, a string, is left as it is.\<close>

lemma references_stay:
  assumes "filter is_file_field fs \<in> {[], [f]}" and "map_of rec (f_name f) = Some (VString uuid)"
  shows "extract_json_fields fl fs rec ex st = (Inr (rec, ex), st)"
  using assms by (induction fs) (auto split: if_splits)

text \<open>The steps of a create before its transaction.\<close>

lemma create_steps:
  assumes "registry_find_entity (wx_registry ctx) (wx_entity ctx) = Some e"
    and "read_body env e (wx_extractor ctx \<and> is_multipart_request env req) req body = Inr (rec0, pm)"
    and "hash_password_field env True rec0 = Inr rec1"
    and "refused_by_policy env ctx now Create (ae_dump env (create_payload env rec1)) req = None"
    and "assign_id (wx_repo ctx) (wx_registry ctx) ids (fst st) e (wx_entity ctx) rec1 = Some rec2"
  shows "create_handle env ctx now ids req body rep st
    = Some (run_write env ctx 201
        (write_work ctx
           (\<lambda>r rows. crud_create (ae_json_eq env) (wx_repo ctx) (wx_registry ctx) rows (wx_entity ctx) r)
           e (wx_extractor ctx \<and> is_multipart_request env req) pm rec2) id rep st)"
  using assms by (simp add: create_handle_def)

lemma refused_status: "refused_by_policy env ctx now oper resource req = Some r \<Longrightarrow> rep_status r = 403"
  by (auto simp: refused_by_policy_def Let_def make_error_reply_def split: option.splits prod.splits if_splits)

lemma create_success_steps:
  assumes "create_handle env ctx now ids req body rep st = Some (r, st')" and "rep_status r = 201"
    and "registry_find_entity (wx_registry ctx) (wx_entity ctx) = Some e"
    and "read_body env e (wx_extractor ctx \<and> is_multipart_request env req) req body = Inr (rec0, pm)"
  obtains rec1 rec2 where "hash_password_field env True rec0 = Inr rec1"
    "assign_id (wx_repo ctx) (wx_registry ctx) ids (fst st) e (wx_entity ctx) rec1 = Some rec2"
    "run_write env ctx 201
        (write_work ctx
           (\<lambda>r rows. crud_create (ae_json_eq env) (wx_repo ctx) (wx_registry ctx) rows (wx_entity ctx) r)
           e (wx_extractor ctx \<and> is_multipart_request env req) pm rec2) id rep st = (r, st')"
proof -
  obtain rec1 where h: "hash_password_field env True rec0 = Inr rec1"
  proof (cases "hash_password_field env True rec0")
    case (Inl refusal)
    then have "rep_status refusal = 400"
      by (auto simp: hash_password_field_def make_error_reply_def Let_def split: option.splits)
    then show ?thesis using assms Inl by (simp add: create_handle_def)
  qed
  have p: "refused_by_policy env ctx now Create (ae_dump env (create_payload env rec1)) req = None"
  proof (cases "refused_by_policy env ctx now Create (ae_dump env (create_payload env rec1)) req")
    case (Some refusal)
    then show ?thesis using assms h refused_status [OF Some] by (simp add: create_handle_def)
  qed simp
  then show thesis
    using assms h that by (auto simp: create_handle_def split: option.splits)
qed

lemma read_body_ok: "read_body env e m req body = Inr (rec, pm) \<Longrightarrow> tbl_ok rec"
  by (auto simp: read_body_def dest: parse_record_ok split: if_splits option.splits sum.splits)

lemma hash_password_ok: "hash_password_field env creating rec = Inr rec' \<Longrightarrow> tbl_ok rec \<Longrightarrow> tbl_ok rec'"
  by (auto simp: hash_password_field_def Let_def split: option.splits if_splits)

text \<open>A write that is answered with its status was committed.\<close>

lemma write_committed:
  assumes "run_write env ctx n work after rep st = (r, st')" and "rep_status r = n" and "n \<noteq> 400" "n \<noteq> 500"
    and "wx_in_tx ctx = rollback_tx"
  shows "wr_commit (fst (work st)) \<and> st' = after (snd (work st))"
  using assms
  by (cases "work st"; cases "wr_commit (fst (work st))")
    (auto simp: run_write_def rollback_tx_def write_failed_def Let_def internal_error_def make_error_reply_def split: if_splits)

lemma committed_work:
  assumes "write_work ctx operation e True \<lparr>pm_texts = ts, pm_files = [part]\<rparr> rec st = (w, st')" and "wr_commit w"
    and "wx_extractor ctx" and "find_file_field e (pf_name part) = Some f" and "f_file_config f = Some cfg"
  obtains res st1 result rows2 where
    "upload (fl_repo (wx_files ctx)) (fl_ops (wx_files ctx)) cfg (fl_uuid (wx_files ctx) 0) (pf_filename part)
       (pf_content_type part) (pf_content part) st = (Inr res, st1)"
    "operation (tbl_put (pf_name part) (VString (ur_uuid res)) rec) (fst st1) = (result, rows2)" "op_success result"
proof -
  let ?up = "upload (fl_repo (wx_files ctx)) (fl_ops (wx_files ctx)) cfg (fl_uuid (wx_files ctx) 0) (pf_filename part)
       (pf_content_type part) (pf_content part) st"
  have f: "f_name f = pf_name part" "is_file_field f"
    using assms(4) by (auto elim: find_file_field_config)
  obtain out st1 where out: "?up = (out, st1)" by (cases ?up)
  show thesis
  proof (cases out)
    case (Inl what)
    then have "upload_parts (wx_files ctx) e [part] rec no_extraction st = ((Some what, rec, no_extraction), st1)"
      using assms(4,5) f out by (simp add: upload_single_part_def upload_one_def no_extraction_def)
    then show thesis using assms(1-3) by (auto simp: write_work_def extract_files_def)
  next
    case (Inr res)
    then have parts: "upload_parts (wx_files ctx) e [part] rec no_extraction st
      = ((None, tbl_put (pf_name part) (VString (ur_uuid res)) rec, add_upload (ur_uuid res) no_extraction), st1)"
      using single_upload [OF assms(4,5)] out by simp
    obtain result rows2 where op: "operation (tbl_put (pf_name part) (VString (ur_uuid res)) rec) (fst st1) = (result, rows2)"
      by (cases "operation (tbl_put (pf_name part) (VString (ur_uuid res)) rec) (fst st1)")
    then have "op_success result"
      using assms(1-3) parts by (auto simp: write_work_def extract_files_def Let_def split: if_splits)
    with that out Inr op show thesis by simp
  qed
qed

lemma added_upload [simp]:
  "ex_uploaded (add_upload u no_extraction) = [u]" "ex_had_files (add_upload u no_extraction)"
  by (simp_all add: add_upload_def no_extraction_def)

section \<open>The table of files\<close>

context file_service
begin

lemma create_frame:
  assumes "ok rows" and "crud_create json_eq repo reg rows en rec = (res, rows')" and "op_success res"
    and "registry_find_entity reg en = Some e" and "t \<noteq> en" and "t \<notin> pivots (e_relations e)"
  shows "ok rows' \<and> repo_find_by_id repo rows' t = repo_find_by_id repo rows t
    \<and> (\<exists>k created. key_of rec = Some k \<and> op_record res = Some created \<and> created = stored_form rec
       \<and> (en \<notin> pivots (e_relations e) \<longrightarrow> repo_find_by_id repo rows' en k = Some created))"
proof -
  obtain created where cr: "op_record res = Some created"
    using assms(3) crud_create_no_record [OF assms(1,2)] by (cases "op_record res") auto
  from assms(1,2) cr obtain e' k st1 where c: "registry_find_entity reg en = Some e'"
    "key_of rec = Some k" "created = stored_form rec" "repo_create repo rows en rec = (Some created, st1)"
    "create_many_to_many_links repo e' rec created st1 = (op_errors res, rows')"
    by (rule crud_create_record) blast
  have "e' = e" using c(1) assms(4) by simp
  have ok1: "ok st1" using create_ok [OF assms(1), of en rec] c(4) by simp
  note frame = links_frame [OF ok1 c(5)]
  have put: "repo_find_by_id repo st1 en' k' = (if en' = en \<and> k' = k then Some created else repo_find_by_id repo rows en' k')" for en' k'
    using create_some [OF assms(1) c(4)] c(2) by auto
  have "repo_find_by_id repo rows' t = repo_find_by_id repo rows t"
    using frame put assms(5,6) \<open>e' = e\<close> by (intro ext) simp
  moreover have "en \<notin> pivots (e_relations e) \<longrightarrow> repo_find_by_id repo rows' en k = Some created"
    using frame put \<open>e' = e\<close> by simp
  ultimately show ?thesis using frame c(2,3) cr by blast
qed

text \<open>A successful create with one file: the file is stored with one reference.\<close>

lemma work_creates:
  assumes "ok rows" "ready files"
    and ctx: "wx_extractor ctx" "fl_repo (wx_files ctx) = repo" "fl_counters (wx_files ctx) = counters" "fl_ops (wx_files ctx) = ops"
    and "find_file_field e (pf_name part) = Some f" and "f_file_config f = Some cfg"
    and "upload repo ops cfg (fl_uuid (wx_files ctx) 0) (pf_filename part) (pf_content_type part) (pf_content part) (rows, files)
      = (Inr res, (rows1, files1))"
    and "registry_find_entity reg en = Some e" and "files_table \<noteq> en" and "files_table \<notin> pivots (e_relations e)"
    and "crud_create json_eq repo reg rows1 en (tbl_put (pf_name part) (VString (ur_uuid res)) rec) = (result, rows2)"
    and "op_success result"
  shows "\<exists>rows3. write_work ctx (\<lambda>r rows. crud_create json_eq repo reg rows en r) e True \<lparr>pm_texts = ts, pm_files = [part]\<rparr> rec (rows, files)
      = (\<lparr>wr_commit = True, wr_extraction = add_upload (ur_uuid res) no_extraction, wr_operation = result\<rparr>, (rows3, files1))
    \<and> ur_uuid res = fl_uuid (wx_files ctx) 0
    \<and> (\<forall>k. repo_find_by_id repo rows3 en k = repo_find_by_id repo rows2 en k)
    \<and> (\<exists>meta. fm_original_name meta = pf_filename part \<and> fm_mime_type meta = pf_content_type part
         \<and> stored_file repo ops (ur_uuid res) meta (pf_content part) 1 (rows3, files1))"
proof -
  let ?meta = "\<lparr>fm_id = fl_uuid (wx_files ctx) 0, fm_original_name = pf_filename part, fm_mime_type = pf_content_type part,
    fm_size_bytes = of_nat (length (pf_content part)), fm_storage_path = ur_storage_path res, fm_reference_count = 0\<rparr>"
  note up = upload_stores [OF assms(1,2) assms(9)]
  then have u: "ur_uuid res = fl_uuid (wx_files ctx) 0" by simp
  have st1: "stored_file repo ops (ur_uuid res) ?meta (pf_content part) 0 (rows1, files1)" and ok1: "ok rows1"
    unfolding u using up by blast+
  note frame = create_frame [OF ok1 assms(13,14,10,11,12)]
  have st2: "stored_file repo ops (ur_uuid res) ?meta (pf_content part) 0 (rows2, files1)"
    using st1 frame by (simp add: stored_file_def)
  obtain b rows3 files3 where r: "retain counters (ur_uuid res) (rows2, files1) = (b, (rows3, files3))"
    by (metis prod.collapse)
  have ok2: "ok rows2" using frame by blast
  note kept = retain_stored [OF ok2 st2 r]
  have inc: "ct_increment counters rows2 files_table (ur_uuid res) count_column 1 = (b, rows3)"
    using r by (simp add: retain_def add_reference_def split: prod.splits)
  obtain row where row: "repo_find_by_id repo rows2 files_table (ur_uuid res) = Some row" "map_of row count_column = Some (VInt64 0)"
    using st2 by (rule stored_fileE)
  have other: "repo_find_by_id repo rows3 en k = repo_find_by_id repo rows2 en k" for k
    using increment_spec [OF ok2 row inc] assms(11) by auto
  have "upload_parts (wx_files ctx) e [part] rec no_extraction (rows, files)
      = ((None, tbl_put (pf_name part) (VString (ur_uuid res)) rec, add_upload (ur_uuid res) no_extraction), (rows1, files1))"
    by (rule single_upload [OF assms(7,8)]) (simp add: ctx assms(9))
  then have "write_work ctx (\<lambda>r rows. crud_create json_eq repo reg rows en r) e True \<lparr>pm_texts = ts, pm_files = [part]\<rparr> rec (rows, files)
      = (\<lparr>wr_commit = True, wr_extraction = add_upload (ur_uuid res) no_extraction, wr_operation = result\<rparr>, (rows3, files1))"
    using assms(13,14) r kept by (simp add: write_work_def extract_files_def ctx commit_uploads_def)
  then show ?thesis
    using u other kept
    by (intro exI [of _ rows3] conjI allI exI [of _ ?meta]) simp_all
qed

lemma upload_fresh:
  assumes "ok rows" and "upload repo ops cfg uuid original mime content (rows, files) = (Inr res, (rows', files'))"
  shows "repo_find_by_id repo rows files_table uuid = None"
proof -
  let ?meta = "\<lparr>fm_id = uuid, fm_original_name = original, fm_mime_type = mime, fm_size_bytes = of_nat (length content),
    fm_storage_path = build_target_path (storage_path cfg) uuid original, fm_reference_count = 0\<rparr>"
  have "file_insert repo ?meta rows = (True, rows')"
    using assms(2) by (auto simp: upload_def Let_def split: option.splits sum.splits prod.splits bool.splits)
  then obtain created where "repo_create repo rows files_table (to_record ?meta) = (Some created, rows')"
    by (auto simp: file_insert_def split: option.splits prod.splits)
  from create_some [OF assms(1) this, unfolded row_key] show ?thesis by simp
qed

text \<open>A create that the engine refuses after the upload: the rows are rolled back, the file is kept.\<close>

lemma failed_work_leaves_file:
  assumes "ok rows" "ready files"
    and ctx: "wx_extractor ctx" "wx_in_tx ctx = rollback_tx" "fl_repo (wx_files ctx) = repo"
      "fl_counters (wx_files ctx) = counters" "fl_ops (wx_files ctx) = ops"
    and "find_file_field e (pf_name part) = Some f" and "f_file_config f = Some cfg"
    and "upload repo ops cfg (fl_uuid (wx_files ctx) 0) (pf_filename part) (pf_content_type part) (pf_content part) (rows, files)
      = (Inr res, (rows1, files1))"
    and "operation (tbl_put (pf_name part) (VString (ur_uuid res)) rec) rows1 = (result, rows2)"
    and "\<not> op_success result" and "op_errors result \<noteq> []"
  shows "run_write env ctx status (write_work ctx operation e True \<lparr>pm_texts = ts, pm_files = [part]\<rparr> rec) after rep (rows, files)
      = (make_error_reply (ae_dump env) 400 ''VALIDATION_ERROR'' (join_errors (op_errors result)), (rows, files1))
    \<and> file_find_by_id repo (ur_uuid res) rows = None
    \<and> fso_retrieve ops files1 (ur_storage_path res) = Inr (pf_content part)"
proof -
  let ?uuid = "fl_uuid (wx_files ctx) 0"
  let ?meta = "\<lparr>fm_id = ?uuid, fm_original_name = pf_filename part, fm_mime_type = pf_content_type part,
    fm_size_bytes = of_nat (length (pf_content part)), fm_storage_path = ur_storage_path res, fm_reference_count = 0\<rparr>"
  note up = upload_stores [OF assms(1,2) assms(10)]
  then have u: "ur_uuid res = ?uuid" by simp
  have "stored_file repo ops ?uuid ?meta (pf_content part) 0 (rows1, files1)" using up by blast
  then have content: "fso_retrieve ops files1 (ur_storage_path res) = Inr (pf_content part)" by (simp add: stored_file_def)
  have fresh: "repo_find_by_id repo rows files_table ?uuid = None" by (rule upload_fresh [OF assms(1,10)])
  have parts: "upload_parts (wx_files ctx) e [part] rec no_extraction (rows, files)
      = ((None, tbl_put (pf_name part) (VString (ur_uuid res)) rec, add_upload (ur_uuid res) no_extraction), (rows1, files1))"
    by (rule single_upload [OF assms(8,9)]) (simp add: ctx assms(10))
  have work: "write_work ctx operation e True \<lparr>pm_texts = ts, pm_files = [part]\<rparr> rec (rows, files)
      = (\<lparr>wr_commit = False, wr_extraction = add_upload (ur_uuid res) no_extraction, wr_operation = result\<rparr>, (rows2, files1))"
    using parts assms(11,12) by (simp add: write_work_def extract_files_def ctx)
  have "rollback_uploads (wx_files ctx) (add_upload (ur_uuid res) no_extraction) (rows, files1) = (rows, files1)"
    using release_missing(1) [OF assms(1) fresh] by (simp add: rollback_uploads_def ctx u)
  then show ?thesis
    using work content fresh assms(12,13)
    by (simp add: run_write_def ctx rollback_tx_def write_failed_def file_find_by_id_def u)
qed

text \<open>A release touches the table of files alone.\<close>

lemma release_tables:
  assumes "ok rows" and "stored_file repo ops uuid meta content refs (rows, files)"
    and "release repo counters ops uuid rule (rows, files) = (b, (rows', files'))" and "t \<noteq> files_table"
  shows "repo_find_by_id repo rows' t = repo_find_by_id repo rows t"
proof -
  from assms(2) obtain r where r: "repo_find_by_id repo rows files_table uuid = Some r"
    "map_of r count_column = Some (VInt64 refs)" by (rule stored_fileE)
  obtain x rows1 where x: "ct_decrement_if_positive counters rows files_table uuid count_column = (x, rows1)" by force
  note spec = decrement_spec [OF assms(1) r x]
  have one: "repo_find_by_id repo rows1 t = repo_find_by_id repo rows t" using spec assms(4) by auto
  obtain y rows2 where y: "repo_remove repo rows1 files_table uuid = (y, rows2)" by force
  have "ok rows1" using spec by simp
  then have two: "repo_find_by_id repo rows2 t = repo_find_by_id repo rows1 t"
    using remove_find [OF _ y] assms(4) by (intro ext) simp
  have "rows' = rows1 \<or> rows' = rows2"
    using assms(3) x y
    by (auto simp: release_def release_reference_if_positive_def delete_row_def Let_def split: if_splits option.splits bool.splits)
  then show ?thesis using one two by auto
qed

text \<open>An update that writes the file a field already has: the file is deleted.\<close>

lemma unchanged_file_released:
  assumes "ok rows" "ready files" and ctx: "wx_in_tx ctx = rollback_tx" "fl_repo (wx_files ctx) = repo"
      "fl_counters (wx_files ctx) = counters" "fl_ops (wx_files ctx) = ops"
    and "filter is_file_field (e_fields e) = [f]" and "f_file_config f = Some cfg" and "fc_on_delete cfg = FileCascade"
    and "map_of old (f_name f) = Some (VString uuid)" and "uuid \<noteq> []" and "map_of rec (f_name f) = Some (VString uuid)"
    and "stored_file repo ops uuid meta content 1 (rows, files)"
    and "crud_update repo reg rows en rid rec = (result, rows1)" and "op_success result" and "en \<noteq> files_table"
  shows "\<exists>rows2 files2. run_write env ctx 200 (write_work ctx (\<lambda>r rows. crud_update repo reg rows en rid r) e False no_parts rec)
        (release_files (wx_files ctx) (old_file_refs e old rec)) rep (rows, files)
      = (text_reply env 200 (written_record env result) rep, (rows2, files2))
    \<and> download repo ops uuid (rows2, files2) = Inr None
    \<and> (\<forall>k. repo_find_by_id repo rows2 en k = repo_find_by_id repo rows1 en k)"
proof -
  have f: "is_file_field f" "f \<in> set (e_fields e)"
    using assms(7) by (auto simp: filter_eq_Cons_iff)
  have untouched: "extract_files ctx e False no_parts rec (rows, files) = ((True, rec, no_extraction), (rows, files))"
    using assms(7) by (simp add: references_stay [where f = f, OF _ assms(12)] extract_files_def extract_from_json_record_def)
  have "\<not> ex_had_files no_extraction" by (simp add: no_extraction_def)
  then have work: "write_work ctx (\<lambda>r rows. crud_update repo reg rows en rid r) e False no_parts rec (rows, files)
      = (\<lparr>wr_commit = True, wr_extraction = no_extraction, wr_operation = result\<rparr>, (rows1, files))"
    using assms(14,15) by (simp add: write_work_def untouched)
  have refs: "List.map_filter (\<lambda>g. if is_file_field g \<and> tbl_get rec (f_name g) \<noteq> None then stored_file_of old g else None) fs
      = List.map_filter (\<lambda>g. if tbl_get rec (f_name g) \<noteq> None then stored_file_of old g else None) (filter is_file_field fs)" for fs
    by (induction fs) (simp_all add: List.map_filter_def)
  have old: "old_file_refs e old rec = [(uuid, FileCascade)]"
    unfolding old_file_refs_def refs assms(7) using assms(8-12) by (simp add: stored_file_of_def List.map_filter_def)
  obtain b rows2 files2 where rel: "release repo counters ops uuid FileCascade (rows1, files) = (b, (rows2, files2))"
    by (metis prod.collapse)
  have upd: "ok rows1 \<and> repo_find_by_id repo rows1 files_table = repo_find_by_id repo rows files_table"
    using assms(14)
  proof (cases rule: crud_update_cases)
    case 1
    then show ?thesis using assms(15) by simp
  next
    case (2 e' resp)
    have "upd_status resp" using 2 assms(15) by simp
    with update_some [OF assms(1) 2(4)] update_ok [OF assms(1), of en rid "tbl_put ''id'' (VString rid) rec"] 2(4) assms(16)
    show ?thesis by auto
  qed
  then have st1: "stored_file repo ops uuid meta content 1 (rows1, files)" using assms(13) by (simp add: stored_file_def)
  note gone = release_last [OF _ assms(2) st1 rel] and other = release_tables [OF _ st1 rel]
  have "run_write env ctx 200 (write_work ctx (\<lambda>r rows. crud_update repo reg rows en rid r) e False no_parts rec)
        (release_files (wx_files ctx) (old_file_refs e old rec)) rep (rows, files)
      = (text_reply env 200 (written_record env result) rep, (rows2, files2))"
    using work rel by (simp add: run_write_def ctx rollback_tx_def old release_files_def release_old_uuid_def)
  moreover have "download repo ops uuid (rows2, files2) = Inr None"
    using gone upd by (simp add: download_def file_find_by_id_def)
  ultimately show ?thesis using other [of en] upd assms(16) by auto
qed

end

end
