(* ===== verification/Multipart_Laws.thy ===== *)
theory Multipart_Laws
  imports Multipart
begin

text \<open>
  The body of a form as a client writes it, and that the parser reads its parts back.
\<close>

section \<open>The form\<close>

datatype form_part = TextField string string | FileField string string string string

definition param_ok :: "string \<Rightarrow> bool" where
  "param_ok n \<longleftrightarrow> CHR '';'' \<notin> set n \<and> CHR 0x0D \<notin> set n"

definition header_value_ok :: "string \<Rightarrow> bool" where
  "header_value_ok t \<longleftrightarrow> t \<noteq> [] \<and> CHR 0x0D \<notin> set t \<and> \<not> part_space (hd t) \<and> \<not> part_space (last t)"

text \<open>A content is admissible when the delimiter does not occur in it.\<close>

definition content_ok :: "string \<Rightarrow> string \<Rightarrow> bool" where
  "content_ok boundary c \<longleftrightarrow> find_sub (crlf @ ''--'' @ boundary) c = None"

fun part_ok :: "string \<Rightarrow> form_part \<Rightarrow> bool" where
  "part_ok b (TextField n v) \<longleftrightarrow> n \<noteq> [] \<and> param_ok n \<and> content_ok b v"
| "part_ok b (FileField n f t c) \<longleftrightarrow> n \<noteq> [] \<and> param_ok n \<and> param_ok f \<and> header_value_ok t \<and> content_ok b c"

definition in_quotes :: "string \<Rightarrow> string" where
  "in_quotes s = [CHR 0x22] @ s @ [CHR 0x22]"

fun disposition_of :: "form_part \<Rightarrow> string" where
  "disposition_of (TextField n v) = ''form-data; name='' @ in_quotes n"
| "disposition_of (FileField n f t c) = ''form-data; name='' @ in_quotes n @ ''; filename='' @ in_quotes f"

fun headers_of :: "form_part \<Rightarrow> string" where
  "headers_of (TextField n v) = ''Content-Disposition: '' @ disposition_of (TextField n v)"
| "headers_of (FileField n f t c) =
     ''Content-Disposition: '' @ disposition_of (FileField n f t c) @ crlf @ ''Content-Type: '' @ t"

fun content_of :: "form_part \<Rightarrow> string" where
  "content_of (TextField n v) = v"
| "content_of (FileField n f t c) = c"

text \<open>What follows a boundary.\<close>

fun form_rest :: "string \<Rightarrow> form_part list \<Rightarrow> string" where
  "form_rest b [] = ''--'' @ crlf"
| "form_rest b (p # ps) = crlf @ headers_of p @ crlf @ crlf @ content_of p @ (crlf @ ''--'' @ b) @ form_rest b ps"

definition form_body :: "string \<Rightarrow> form_part list \<Rightarrow> string" where
  "form_body b ps = ''--'' @ b @ form_rest b ps"

fun collect_part :: "form_part \<Rightarrow> parsed_multipart \<Rightarrow> parsed_multipart" where
  "collect_part (TextField n v) pm = pm\<lparr>pm_texts := pm_texts pm @ [\<lparr>pt_name = n, pt_value = v\<rparr>]\<rparr>"
| "collect_part (FileField n f t c) pm =
     pm\<lparr>pm_files := pm_files pm @ [\<lparr>pf_name = n, pf_filename = f, pf_content_type = t, pf_content = c\<rparr>]\<rparr>"

definition parts_of :: "form_part list \<Rightarrow> parsed_multipart" where
  "parts_of ps = fold collect_part ps \<lparr>pm_texts = [], pm_files = []\<rparr>"

section \<open>Searching\<close>

lemma find_sub_first:
  "(\<And>i. i < length u \<Longrightarrow> \<not> starts_with (drop i u @ n @ v) n) \<Longrightarrow> find_sub n (u @ n @ v) = Some (length u)"
proof (induction u)
  case Nil
  have "starts_with (n @ v) n" by simp
  then show ?case by (cases "n @ v") (auto simp del: starts_with_append)
next
  case (Cons c u)
  have "\<not> starts_with (drop 0 (c # u) @ n @ v) n" using Cons.prems [of 0] by simp
  moreover have "find_sub n (u @ n @ v) = Some (length u)"
    using Cons.prems [of "Suc i" for i] by (intro Cons.IH) auto
  ultimately show ?case by simp
qed

lemma starts_with_nth: "starts_with s n \<Longrightarrow> i < length n \<Longrightarrow> i < length s \<and> s ! i = n ! i"
  unfolding starts_with_def by (metis length_take min_less_iff_conj nth_take)

lemma find_sub_None_drop: "find_sub n s = None \<Longrightarrow> \<not> starts_with (drop i s) n"
proof -
  assume "find_sub n s = None"
  then have "\<not> (\<exists>u v. s = u @ n @ v)" using find_sub_Some_iff [of n s] by simp
  then show ?thesis by (metis append_take_drop_id starts_with_iff)
qed

text \<open>A needle that carries its first character only at the front does not overlap itself.\<close>

lemma find_sub_after:
  assumes "find_sub (c # n) u = None" and "c \<notin> set n"
  shows "find_sub (c # n) (u @ (c # n) @ v) = Some (length u)"
proof (rule find_sub_first)
  fix i
  assume i: "i < length u"
  show "\<not> starts_with (drop i u @ (c # n) @ v) (c # n)"
  proof
    assume sw: "starts_with (drop i u @ (c # n) @ v) (c # n)"
    show False
    proof (cases "length (c # n) \<le> length u - i")
      case True
      then have "starts_with (drop i u) (c # n)" using sw by (simp add: starts_with_def)
      then show False using find_sub_None_drop [OF assms(1)] by blast
    next
      case False
      let ?j = "length u - i"
      have j: "0 < ?j" "?j < length (c # n)" using i False by simp_all
      have "(drop i u @ (c # n) @ v) ! ?j = c" by (simp add: nth_append)
      then have "(c # n) ! ?j = c" using starts_with_nth [OF sw j(2)] by simp
      then have "c \<in> set n" using j by (cases ?j) (auto simp: nth_Cons')
      with assms(2) show False by blast
    qed
  qed
qed

lemma find_sub_no_char: "c \<notin> set s \<Longrightarrow> find_sub (c # n) s = None"
  using find_sub_Some_iff [of "c # n" s] by (cases "find_sub (c # n) s") auto

text \<open>The end of the headers: lines without a carriage return.\<close>

lemma end_of_headers:
  assumes "CHR 0x0D \<notin> set l1"
  shows "find_sub (crlf @ crlf) (l1 @ (crlf @ crlf) @ v) = Some (length l1)"
proof (rule find_sub_first)
  fix i
  assume i: "i < length l1"
  then have "(drop i l1 @ (crlf @ crlf) @ v) ! 0 \<in> set l1" by (simp add: nth_append)
  then show "\<not> starts_with (drop i l1 @ (crlf @ crlf) @ v) (crlf @ crlf)"
    using starts_with_nth [of "drop i l1 @ (crlf @ crlf) @ v" "crlf @ crlf" 0] assms by auto
qed

lemma end_of_two_headers:
  assumes "CHR 0x0D \<notin> set l1" and "CHR 0x0D \<notin> set l2" and "l2 \<noteq> []"
  shows "find_sub (crlf @ crlf) ((l1 @ crlf @ l2) @ (crlf @ crlf) @ v) = Some (length (l1 @ crlf @ l2))"
proof (rule find_sub_first)
  fix i
  assume i: "i < length (l1 @ crlf @ l2)"
  let ?s = "drop i (l1 @ crlf @ l2) @ (crlf @ crlf) @ v"
  have take_from: "(drop i w @ z) ! j = w ! (i + j)" if "i + j < length w" for w z :: string and j
  proof -
    have "j < length w - i" using that by simp
    then show ?thesis by (simp add: nth_append)
  qed
  show "\<not> starts_with ?s (crlf @ crlf)"
  proof
    assume sw: "starts_with ?s (crlf @ crlf)"
    have at: "?s ! j = (l1 @ crlf @ l2) ! (i + j)" if "i + j < length (l1 @ crlf @ l2)" for j
      by (rule take_from [OF that])
    have "?s ! 0 = CHR 0x0D" using starts_with_nth [OF sw, of 0] by simp
    then have 0: "(l1 @ crlf @ l2) ! i = CHR 0x0D" using at [of 0] i by simp
    have "i = length l1"
    proof (rule ccontr)
      assume "i \<noteq> length l1"
      then have "(l1 @ crlf @ l2) ! i \<in> set l1 \<union> {CHR 0x0A} \<union> set l2"
        using i by (auto simp: nth_append nth_Cons')
      with 0 assms(1,2) show False by auto
    qed
    then have "?s ! 2 = l2 ! 0" using at [of 2] assms(3) by (simp add: nth_append)
    moreover have "?s ! 2 = CHR 0x0D" using starts_with_nth [OF sw, of 2] by simp
    ultimately show False using assms(2,3) by (metis length_greater_0_conv nth_mem)
  qed
qed

section \<open>Reading the headers of a part\<close>

lemma part_trim_keep: "s \<noteq> [] \<Longrightarrow> \<not> part_space (hd s) \<Longrightarrow> \<not> part_space (last s) \<Longrightarrow> part_trim s = s"
proof -
  assume a: "s \<noteq> []" "\<not> part_space (hd s)" "\<not> part_space (last s)"
  have "dropWhile part_space s = s" using a(2) by (simp add: dropWhile_eq_self_iff)
  moreover have "dropWhile part_space (rev s) = rev s" using a(1,3) by (simp add: dropWhile_eq_self_iff hd_rev)
  ultimately show ?thesis by (simp add: part_trim_def trim_by_def)
qed

lemma part_trim_blank: "part_trim (CHR '' '' # s) = part_trim s"
  by (simp add: part_trim_def trim_by_def part_space_def)

lemma split_two_lines:
  assumes "CHR 0x0D \<notin> set l1" and "CHR 0x0D \<notin> set l2" and "l2 \<noteq> []"
  shows "split_crlf (l1 @ crlf @ l2) = [l1, l2]"
proof -
  have "find_sub crlf (l1 @ crlf @ l2) = Some (length l1)"
    using find_sub_after [of "CHR 0x0D" "[CHR 0x0A]" l1 l2] find_sub_no_char [OF assms(1)] by simp
  moreover have "split_crlf l2 = [l2]"
    using assms(3) find_sub_no_char [OF assms(2)] by (simp add: split_crlf.simps [of l2])
  ultimately show ?thesis by (subst split_crlf.simps) simp
qed

lemma split_one_line: "CHR 0x0D \<notin> set l \<Longrightarrow> l \<noteq> [] \<Longrightarrow> split_crlf l = [l]"
  using find_sub_no_char [of "CHR 0x0D" l "[CHR 0x0A]"] by (simp add: split_crlf.simps [of l])

lemma strip_in_quotes [simp]: "strip_quotes (in_quotes s) = s"
  by (simp add: strip_quotes_def in_quotes_def)

lemma set_in_quotes [simp]: "set (in_quotes s) = insert (CHR 0x22) (set s)"
  by (auto simp: in_quotes_def)

lemma trim_in_quotes: "part_trim (in_quotes s) = in_quotes s"
  by (rule part_trim_keep) (simp_all add: in_quotes_def part_space_def)

text \<open>A token \<open>name="v"\<close> after a blank, at the end of the header or before another one.\<close>

lemma quoted_param:
  assumes "CHR ''='' \<notin> set k" and "k \<noteq> []" and "\<not> part_space (hd k)" and "\<not> part_space (last k)"
  shows "token_param key (part_trim (CHR '' '' # k @ ''='' @ in_quotes v)) = (if iequals k key then Some v else None)"
proof -
  have "part_trim (CHR '' '' # k @ ''='' @ in_quotes v) = k @ ''='' @ in_quotes v"
    unfolding part_trim_blank using assms by (intro part_trim_keep) (simp_all add: in_quotes_def part_space_def)
  moreover have "after_char (CHR ''='') (k @ ''='' @ in_quotes v) = Some (in_quotes v)"
    "before_char (CHR ''='') (k @ ''='' @ in_quotes v) = k" using assms(1) by simp_all
  ultimately show ?thesis using part_trim_keep [OF assms(2-4)] by (simp add: token_param_def trim_in_quotes)
qed

lemma next_param:
  "CHR '';'' \<notin> set t \<Longrightarrow> extract_header_param (t @ '';'' @ rest) key
     = (case token_param key (part_trim t) of Some v \<Rightarrow> Some v | None \<Rightarrow> extract_header_param rest key)"
  by (subst extract_header_param.simps) (simp split: option.split)

lemma last_param:
  "CHR '';'' \<notin> set t \<Longrightarrow> t \<noteq> [] \<Longrightarrow> extract_header_param t key = token_param key (part_trim t)"
  using after_char_None_iff [of "CHR '';''" t] by (subst extract_header_param.simps) (simp split: option.split)

lemma form_data_token: "token_param key (part_trim ''form-data'') = None"
proof -
  have "part_trim ''form-data'' = ''form-data''" by (rule part_trim_keep) (simp_all add: part_space_def)
  moreover have "after_char (CHR ''='') ''form-data'' = None" by (simp add: after_char_None_iff)
  ultimately show ?thesis by (simp add: token_param_def)
qed

lemma disposition_params:
  assumes "part_ok b p"
  shows "extract_header_param (disposition_of p) ''name'' = Some (case p of TextField n v \<Rightarrow> n | FileField n f t c \<Rightarrow> n)"
    and "extract_header_param (disposition_of p) ''filename'' = (case p of TextField n v \<Rightarrow> None | FileField n f t c \<Rightarrow> Some f)"
proof -
  have names: "iequals ''name'' ''name''" "\<not> iequals ''name'' ''filename''" "iequals ''filename'' ''filename''"
    by (simp_all add: iequals_def)
  have tok: "token_param key (part_trim ('' name='' @ in_quotes v)) = (if iequals ''name'' key then Some v else None)"
    "token_param key (part_trim ('' filename='' @ in_quotes v)) = (if iequals ''filename'' key then Some v else None)" for key v
    using quoted_param [of "''name''" key v] quoted_param [of "''filename''" key v] by (simp_all add: part_space_def)
  have plain: "extract_header_param (''form-data; name='' @ in_quotes n) key = (if iequals ''name'' key then Some n else None)"
    if "param_ok n" for n key
    using next_param [of "''form-data''" "'' name='' @ in_quotes n" key] last_param [of "'' name='' @ in_quotes n" key] that
    by (simp add: form_data_token [simplified] tok [simplified] param_ok_def)
  have upload: "extract_header_param (''form-data; name='' @ in_quotes n @ ''; filename='' @ in_quotes f) key
      = (if iequals ''name'' key then Some n else if iequals ''filename'' key then Some f else None)"
    if "param_ok n" "param_ok f" for n f key
    using next_param [of "''form-data''" "'' name='' @ in_quotes n @ ''; filename='' @ in_quotes f" key]
      next_param [of "'' name='' @ in_quotes n" "'' filename='' @ in_quotes f" key]
      last_param [of "'' filename='' @ in_quotes f" key] that
    by (simp add: form_data_token [simplified] tok [simplified] param_ok_def)
  show "extract_header_param (disposition_of p) ''name'' = Some (case p of TextField n v \<Rightarrow> n | FileField n f t c \<Rightarrow> n)"
    using assms plain upload by (cases p) (simp_all add: names)
  show "extract_header_param (disposition_of p) ''filename'' = (case p of TextField n v \<Rightarrow> None | FileField n f t c \<Rightarrow> Some f)"
    using assms plain upload by (cases p) (simp_all add: names)
qed

lemma disposition_shape:
  "part_ok b p \<Longrightarrow> CHR 0x0D \<notin> set (disposition_of p) \<and> part_trim (CHR '' '' # disposition_of p) = disposition_of p"
proof
  assume ok: "part_ok b p"
  show "CHR 0x0D \<notin> set (disposition_of p)" using ok by (cases p) (simp_all add: param_ok_def)
  have "disposition_of p \<noteq> []" "hd (disposition_of p) = CHR ''f''" "last (disposition_of p) = CHR 0x22"
    by (cases p; simp add: in_quotes_def)+
  then show "part_trim (CHR '' '' # disposition_of p) = disposition_of p"
    unfolding part_trim_blank by (intro part_trim_keep) (simp_all add: part_space_def)
qed

lemma put_named_line:
  "str_lower k = l \<Longrightarrow> CHR '':'' \<notin> set k \<Longrightarrow> put_header_line (k @ '':'' @ v) t = tbl_put l (part_trim v) t"
  by (simp add: put_header_line_def)

lemma header_keys: "str_lower ''Content-Disposition'' = ''content-disposition''" "str_lower ''Content-Type'' = ''content-type''"
  by code_simp+

lemma text_headers:
  assumes "part_ok b (TextField n v)"
  shows "parse_part_headers (headers_of (TextField n v)) = [(''content-disposition'', disposition_of (TextField n v))]"
proof -
  let ?d = "disposition_of (TextField n v)"
  have line: "headers_of (TextField n v) = ''Content-Disposition'' @ '':'' @ (CHR '' '' # ?d)" by simp
  have "CHR 0x0D \<notin> set (headers_of (TextField n v))" using disposition_shape [OF assms] unfolding line by simp
  then have "split_crlf (headers_of (TextField n v)) = [headers_of (TextField n v)]"
    unfolding line by (intro split_one_line) simp_all
  moreover have "put_header_line (headers_of (TextField n v)) [] = [(''content-disposition'', ?d)]"
    unfolding line using disposition_shape [OF assms]
    by (subst put_named_line [OF header_keys(1)]) (simp_all del: disposition_of.simps)
  ultimately show ?thesis by (simp add: parse_part_headers_def del: headers_of.simps disposition_of.simps)
qed

lemma file_headers:
  assumes "part_ok b (FileField n f t c)"
  shows "parse_part_headers (headers_of (FileField n f t c))
    = [(''content-disposition'', disposition_of (FileField n f t c)), (''content-type'', t)]"
proof -
  let ?d = "disposition_of (FileField n f t c)"
  let ?l1 = "''Content-Disposition'' @ '':'' @ (CHR '' '' # ?d)" and ?l2 = "''Content-Type'' @ '':'' @ (CHR '' '' # t)"
  have lines: "headers_of (FileField n f t c) = ?l1 @ crlf @ ?l2" by simp
  have "CHR 0x0D \<notin> set ?l1" "CHR 0x0D \<notin> set ?l2"
    using disposition_shape [OF assms] assms by (simp_all add: header_value_ok_def)
  then have "split_crlf (headers_of (FileField n f t c)) = [?l1, ?l2]"
    unfolding lines by (intro split_two_lines) simp_all
  moreover have "put_header_line ?l1 [] = [(''content-disposition'', ?d)]"
    using disposition_shape [OF assms] by (subst put_named_line [OF header_keys(1)]) (simp_all del: disposition_of.simps)
  moreover have "part_trim (CHR '' '' # t) = t"
    unfolding part_trim_blank using assms by (intro part_trim_keep) (simp_all add: header_value_ok_def)
  then have "put_header_line ?l2 [(''content-disposition'', ?d)] = [(''content-disposition'', ?d), (''content-type'', t)]"
    by (subst put_named_line [OF header_keys(2)]) (simp_all del: disposition_of.simps)
  ultimately show ?thesis unfolding parse_part_headers_def by (simp del: headers_of.simps disposition_of.simps append.simps)
qed

lemma part_read:
  assumes "part_ok b p"
  shows "add_part (parse_part_headers (headers_of p)) (content_of p) pm = Inr (collect_part p pm)"
proof (cases p)
  case (TextField n v)
  have ok: "part_ok b (TextField n v)" using assms TextField by simp
  then have "n \<noteq> []" by simp
  then show ?thesis
    unfolding TextField text_headers [OF ok] using disposition_params [OF ok]
    by (simp add: add_part_def part_header_def header_keys del: disposition_of.simps str_lower_Cons)
next
  case (FileField n f t c)
  have ok: "part_ok b (FileField n f t c)" using assms FileField by simp
  then have "n \<noteq> []" by simp
  then show ?thesis
    unfolding FileField file_headers [OF ok] using disposition_params [OF ok]
    by (simp add: add_part_def part_header_def header_keys del: disposition_of.simps str_lower_Cons)
qed

section \<open>Reading the body\<close>

lemma headers_end:
  assumes "part_ok b p"
  shows "find_sub (crlf @ crlf) (headers_of p @ (crlf @ crlf) @ rest) = Some (length (headers_of p))"
proof (cases p)
  case (TextField n v)
  then have "CHR 0x0D \<notin> set (headers_of p)" using assms by (simp add: param_ok_def)
  then show ?thesis by (rule end_of_headers)
next
  case (FileField n f t c)
  let ?l1 = "''Content-Disposition: '' @ disposition_of p" and ?l2 = "''Content-Type: '' @ t"
  have "CHR 0x0D \<notin> set ?l1" "CHR 0x0D \<notin> set ?l2" "?l2 \<noteq> []"
    using disposition_shape [OF assms] assms FileField by (simp_all add: header_value_ok_def)
  from end_of_two_headers [OF this, of rest] show ?thesis by (simp add: FileField)
qed

lemma drop_exact: "n = length u \<Longrightarrow> drop n (u @ v) = v"
  by simp

lemma part_step:
  assumes "part_ok b p" and "CHR 0x0D \<notin> set b"
  shows "parts_loop (crlf @ ''--'' @ b) cur (crlf @ headers_of p @ crlf @ crlf @ content_of p @ (crlf @ ''--'' @ b) @ rest) pm
    = parts_loop (crlf @ ''--'' @ b) (cur + length (headers_of p) + 6 + length (content_of p) + length (crlf @ ''--'' @ b))
        rest (collect_part p pm)"
proof -
  let ?delim = "crlf @ ''--'' @ b" and ?h = "headers_of p" and ?c = "content_of p"
  let ?rest = "crlf @ ?h @ crlf @ crlf @ ?c @ ?delim @ rest"
  have "find_sub ?delim ?c = None" using assms(1) by (cases p) (simp_all add: content_ok_def)
  then have c: "find_sub ?delim (?c @ ?delim @ rest) = Some (length ?c)"
    using find_sub_after [of "CHR 0x0D" "CHR 0x0A # ''--'' @ b" ?c rest] assms(2) by simp
  have h: "find_sub (crlf @ crlf) (drop 2 ?rest) = Some (length ?h)"
    using headers_end [OF assms(1), of "?c @ ?delim @ rest"] by simp
  have d: "drop (length ?h + 6) ?rest = ?c @ ?delim @ rest" "take (length ?h) (drop 2 ?rest) = ?h"
    "drop (length ?h + 6 + length ?c + length ?delim) ?rest = rest"
    using drop_exact [of "length ?h + 6" "crlf @ ?h @ crlf @ crlf" "?c @ ?delim @ rest"]
      drop_exact [of "length ?h + 6 + length ?c + length ?delim" "crlf @ ?h @ crlf @ crlf @ ?c @ ?delim" rest] by simp_all
  have e: "take (length ?c) (?c @ ?delim @ rest) = ?c" by simp
  have s: "?rest \<noteq> []" "\<not> starts_with ?rest ''--''" "starts_with ?rest crlf" by (simp_all add: starts_with_def)
  show ?thesis
    by (subst parts_loop.simps)
      (simp only: s h c d e part_read [OF assms(1)] if_False if_True option.case sum.case not_True_eq_False)
qed

lemma parts_read:
  assumes "list_all (part_ok b) ps" and "CHR 0x0D \<notin> set b"
  shows "parts_loop (crlf @ ''--'' @ b) cur (form_rest b ps) pm = Inr (fold collect_part ps pm)"
  using assms(1)
proof (induction ps arbitrary: cur pm)
  case Nil
  then show ?case by (subst parts_loop.simps) (simp add: starts_with_def)
next
  case (Cons p ps)
  have "part_ok b p" "list_all (part_ok b) ps" using Cons.prems by simp_all
  then show ?case unfolding form_rest.simps part_step [OF \<open>part_ok b p\<close> assms(2)] by (simp only: Cons.IH fold_simps)
qed

lemma form_read:
  assumes "list_all (part_ok b) ps" and "CHR 0x0D \<notin> set b" and "b \<noteq> []"
  shows "multipart_parse (form_body b ps) b = Inr (parts_of ps)"
proof -
  have "starts_with (form_body b ps) (''--'' @ b)"
    unfolding form_body_def append_assoc [symmetric] by (rule starts_with_append)
  moreover have "drop (0 + length (''--'' @ b)) (form_body b ps) = form_rest b ps" by (simp add: form_body_def)
  ultimately show ?thesis
    using assms(3) parts_read [OF assms(1,2)]
    by (simp only: multipart_parse_def Let_def if_False if_True option.case parts_of_def)
qed

end
