(* ===== verification/Write_Properties.thy ===== *)
theory Write_Properties
  imports Write_Laws Multipart_Laws Token_Laws File_Properties Auth_Properties
begin

text \<open>
  The properties of forms and of the write handlers: a form is read back as it was written, what a create
  with a file stores, and the gaps: files that outlive a refused create, a file that is deleted by an
  update that keeps it, the answer of a refused removal, and numbers in forms.
\<close>

section \<open>Lemmas behind the properties\<close>

text \<open>The file service over the memory repository and the file system.\<close>

abbreviation file_backend :: "(nat \<Rightarrow> string) \<Rightarrow> (storage, filesystem_state) file_layer" where
  "file_backend uuids \<equiv> \<lparr>fl_repo = memory_repository, fl_counters = memory_counters, fl_ops = filesystem_ops, fl_uuid = uuids\<rparr>"

lemma boundary_in_header:
  "is_multipart_request env req \<Longrightarrow> \<exists>b. extract_boundary (header_or_empty env req ''Content-Type'') = Some b"
  by (auto simp: is_multipart_request_def)

text \<open>The type of a number in a form: its text is a string.\<close>

lemma text_member:
  "distinct (map pt_name ts) \<Longrightarrow> t \<in> set ts \<Longrightarrow>
   map_of (fold (\<lambda>t ms. tbl_put (pt_name t) (JString (pt_value t)) ms) ts ms0) (pt_name t) = Some (JString (pt_value t))"
proof (induction ts arbitrary: ms0)
  case (Cons u ts)
  have other: "n \<notin> pt_name ` set ts \<Longrightarrow>
      map_of (fold (\<lambda>t ms. tbl_put (pt_name t) (JString (pt_value t)) ms) ts ms0) n = map_of ms0 n" for n and ms0 :: "(string \<times> json) list"
    by (induction ts arbitrary: ms0) auto
  show ?case using Cons by (auto simp: other)
qed simp

lemma parse_fields_refuses:
  assumes "f \<in> set fs" and "map_of j (f_name f) = Some (JString s)"
    and "f_type f \<in> {FInt, FBigInt, FSmallInt, FFloat, FBool}"
  shows "\<exists>what. parse_fields fs j rec = Inl what"
  using assms(1)
proof (induction fs arbitrary: rec)
  case (Cons g gs)
  show ?case
  proof (cases "g = f")
    case True
    have "\<exists>what. parse_field_value f (JString s) = Inl what"
      using assms(3) by (auto simp: parse_field_value_def field_error_def Let_def)
    then show ?thesis using assms(2) True by auto
  next
    case False
    then show ?thesis using Cons by (auto split: option.split sum.split)
  qed
qed simp

section \<open>Example\<close>

text \<open>Photographs with a file, sent as a form, and the rows once one is stored and counted.\<close>

abbreviation first_metadata :: file_metadata where
  "first_metadata \<equiv> \<lparr>fm_id = ''u1'', fm_original_name = ''a.txt'', fm_mime_type = ''text/plain'', fm_size_bytes = 5,
     fm_storage_path = ''d/u1.txt'', fm_reference_count = 0\<rparr>"

definition photo_entity :: entity where
  "photo_entity = make_entity ''Photo''
     [make_field ''id'' FUUID, make_field ''title'' FString, as_file (make_field ''photo'' FFile) first_config] []"

definition photo_file :: part_file where
  "photo_file = \<lparr>pf_name = ''photo'', pf_filename = ''a.txt'', pf_content_type = ''text/plain'', pf_content = ''hello''\<rparr>"

definition photo_form :: "(string \<times> string) list \<Rightarrow> form_part list" where
  "photo_form ts = map (\<lambda>(n, v). TextField n v) ts @ [FileField ''photo'' ''a.txt'' ''text/plain'' ''hello'']"

definition form_env :: "part_text list \<Rightarrow> auth_env" where
  "form_env ts = demo_auth_env\<lparr>ae_parse := (\<lambda>_. Inr (texts_json ts))\<rparr>"

definition form_request :: request where
  "form_request = \<lparr>req_method = ''POST'', req_url = ''/photos'',
     req_headers = [(''Content-Type'', ''multipart/form-data; boundary=B'')]\<rparr>"

definition photo_context :: "(storage, filesystem_state) write_context" where
  "photo_context = \<lparr>wx_files = file_backend (\<lambda>_. ''u1''), wx_registry = [(''Photo'', photo_entity)], wx_entity = ''Photo'',
     wx_extractor = True, wx_helper = None, wx_in_tx = rollback_tx\<rparr>"

lemma demo_form_ok: "list_all (part_ok ''B'') (photo_form [(''title'', ''t'')])" "list_all (part_ok ''B'') (photo_form [])"
  by code_simp+

lemma form_boundary: "extract_boundary ''multipart/form-data; boundary=B'' = Some ''B''"
  by code_simp

lemma form_header: "header_or_empty (form_env ts) form_request ''Content-Type'' = ''multipart/form-data; boundary=B''"
  by (simp add: header_or_empty_def form_env_def demo_auth_env_def form_request_def)

lemma form_multipart: "is_multipart_request (form_env ts) form_request"
  by (simp add: is_multipart_request_def form_header form_boundary)

lemma form_parts:
  "multipart_parse (form_body ''B'' (photo_form [(''title'', ''t'')])) ''B''
     = Inr \<lparr>pm_texts = [\<lparr>pt_name = ''title'', pt_value = ''t''\<rparr>], pm_files = [photo_file]\<rparr>"
  "multipart_parse (form_body ''B'' (photo_form [])) ''B'' = Inr \<lparr>pm_texts = [], pm_files = [photo_file]\<rparr>"
  using form_read [OF demo_form_ok(1)] form_read [OF demo_form_ok(2)]
  by (simp_all add: photo_form_def parts_of_def photo_file_def)

lemma form_read_body:
  "read_body (form_env [\<lparr>pt_name = ''title'', pt_value = ''t''\<rparr>]) photo_entity True form_request
     (form_body ''B'' (photo_form [(''title'', ''t'')]))
   = Inr ([(''title'', VString ''t'')], \<lparr>pm_texts = [\<lparr>pt_name = ''title'', pt_value = ''t''\<rparr>], pm_files = [photo_file]\<rparr>)"
  "read_body (form_env []) photo_entity True form_request (form_body ''B'' (photo_form []))
   = Inr ([], \<lparr>pm_texts = [], pm_files = [photo_file]\<rparr>)"
proof -
  have p: "parse_record (ae_parse (form_env [\<lparr>pt_name = ''title'', pt_value = ''t''\<rparr>])) photo_entity x = Inr [(''title'', VString ''t'')]"
    "parse_record (ae_parse (form_env [])) photo_entity x = Inr []" for x
    by (simp_all add: form_env_def texts_json_def parse_record_def photo_entity_def make_entity_def make_field_def as_file_def
        parse_field_value_def)
  show "read_body (form_env [\<lparr>pt_name = ''title'', pt_value = ''t''\<rparr>]) photo_entity True form_request
     (form_body ''B'' (photo_form [(''title'', ''t'')]))
   = Inr ([(''title'', VString ''t'')], \<lparr>pm_texts = [\<lparr>pt_name = ''title'', pt_value = ''t''\<rparr>], pm_files = [photo_file]\<rparr>)"
    "read_body (form_env []) photo_entity True form_request (form_body ''B'' (photo_form []))
   = Inr ([], \<lparr>pm_texts = [], pm_files = [photo_file]\<rparr>)"
    by (simp_all add: read_body_def form_header form_boundary form_parts p)
qed

definition picture_field :: field where
  "picture_field = as_file (make_field ''photo'' FFile) first_config"

lemma picture_field_found: "find_file_field photo_entity (pf_name photo_file) = Some picture_field"
  "f_file_config picture_field = Some first_config"
  by (simp_all add: find_file_field_def photo_entity_def make_entity_def make_field_def as_file_def is_file_field_def
      photo_file_def picture_field_def)

lemma photo_backend:
  "wx_extractor photo_context" "wx_in_tx photo_context = rollback_tx" "wx_files photo_context = file_backend (\<lambda>_. ''u1'')"
  "registry_find_entity (wx_registry photo_context) (wx_entity photo_context) = Some photo_entity"
  "wx_entity photo_context = ''Photo''" "wx_registry photo_context = [(''Photo'', photo_entity)]"
  "wx_helper photo_context = None" "wx_entity photo_context \<noteq> files_table" "pivots (e_relations photo_entity) = {}"
  by (simp_all add: photo_context_def registry_find_entity_def files_table_def photo_entity_def make_entity_def)

lemma photo_upload:
  "upload memory_repository filesystem_ops first_config ''u1'' (pf_filename photo_file) (pf_content_type photo_file)
     (pf_content photo_file) ([], first_files)
   = (Inr \<lparr>ur_uuid = ''u1'', ur_storage_path = ''d/u1.txt'', ur_size_bytes = 5, ur_mime_type = ''text/plain''\<rparr>,
      (fst (snd first_upload), snd (snd first_upload)))"
  using first_upload_result by (simp add: first_upload_def photo_file_def)

lemma photo_id: "assign_id memory_repository [(''Photo'', photo_entity)] (\<lambda>_. ''k'') [] photo_entity ''Photo'' rec
    = Some (tbl_put ''id'' (VString ''k'') rec)"
  by (simp add: assign_id_def photo_entity_def make_entity_def make_field_def fresh_first crud_get_by_id_def
      memory_repository_def mem_find_by_id_def)

lemma photo_free:
  "map_of rec ''password'' = None \<Longrightarrow> hash_password_field env True rec = Inr rec"
  "refused_by_policy env photo_context now oper resource req = None"
  by (simp_all add: hash_password_field_def refused_by_policy_def photo_backend)

lemma photo_assign:
  "assign_id (wx_repo photo_context) (wx_registry photo_context) (\<lambda>_. ''k'') [] photo_entity (wx_entity photo_context) rec
    = Some (tbl_put ''id'' (VString ''k'') rec)"
  "assign_id memory_repository (wx_registry photo_context) (\<lambda>_. ''k'') [] photo_entity (wx_entity photo_context) rec
    = Some (tbl_put ''id'' (VString ''k'') rec)"
  by (simp_all add: photo_backend photo_id)

lemma photo_created: "op_success (fst (crud_create (\<lambda>_ _. False) memory_repository [(''Photo'', photo_entity)]
    (fst (snd first_upload)) ''Photo'' (tbl_put ''photo'' (VString ''u1'') (tbl_put ''id'' (VString ''k'') [(''title'', VString ''t'')]))))"
  by code_simp

lemma photo_without_title:
  "validate photo_entity (tbl_put (pf_name photo_file) (VString (ur_uuid \<lparr>ur_uuid = ''u1'', ur_storage_path = ''d/u1.txt'', ur_size_bytes = 5, ur_mime_type = ''text/plain''\<rparr>)) (tbl_put ''id'' (VString ''k'') [])) \<noteq> []"
  by code_simp

definition kept_rows :: storage where
  "kept_rows = snd (ct_increment memory_counters (fst (snd first_upload)) files_table ''u1'' count_column 1)"

definition photo_rows :: storage where
  "photo_rows = snd (repo_create memory_repository kept_rows ''Photo'' [(''id'', VString ''k''), (''photo'', VString ''u1'')])"

abbreviation photo_files :: filesystem_state where
  "photo_files \<equiv> snd (snd first_upload)"

definition keep_env :: auth_env where
  "keep_env = demo_auth_env\<lparr>ae_parse := (\<lambda>_. Inr (JObject [(''photo'', JString ''u1'')]))\<rparr>"

lemma photo_rows_ok:
  "storage_ok photo_rows" "filesystem_ok photo_files"
  "stored_file memory_repository filesystem_ops ''u1'' first_metadata ''hello'' 1
     (photo_rows, photo_files)"
proof -
  obtain rows files where s: "snd first_upload = (rows, files)" by (cases "snd first_upload")
  have up: "upload memory_repository filesystem_ops first_config ''u1'' ''a.txt'' ''text/plain'' ''hello'' ([], first_files) =
      (Inr \<lparr>ur_uuid = ''u1'', ur_storage_path = ''d/u1.txt'', ur_size_bytes = 5, ur_mime_type = ''text/plain''\<rparr>, (rows, files))"
    using first_upload_result s by (simp add: first_upload_def)
  note stored = stored_files.upload_stores [OF no_rows_ok first_files_ok up, simplified first_target, simplified]
  obtain b rows2 where inc: "ct_increment memory_counters rows files_table ''u1'' count_column 1 = (b, rows2)" by force
  then have keep: "retain memory_counters ''u1'' (rows, files) = (b, (rows2, files))"
    by (simp add: retain_def add_reference_def)
  have kept: "kept_rows = rows2" using inc s by (simp add: kept_rows_def)
  have zero: "storage_ok rows" "stored_file memory_repository filesystem_ops ''u1'' first_metadata ''hello'' 0
     (rows, files)" using stored by simp_all
  note st2 = stored_files.retain_stored [OF zero keep]
  obtain x rows3 where cr: "repo_create memory_repository rows2 ''Photo'' [(''id'', VString ''k''), (''photo'', VString ''u1'')] = (x, rows3)"
    by force
  have three: "photo_rows = rows3" using cr kept by (simp add: photo_rows_def)
  have ok2: "storage_ok rows2" using st2 stored by blast
  have two: "stored_file memory_repository filesystem_ops ''u1'' first_metadata ''hello'' 1
     (rows2, files)" using st2 by simp
  then have "stored_file memory_repository filesystem_ops ''u1'' first_metadata ''hello'' 1
     (rows3, files)"
    unfolding stored_file_def fst_conv snd_conv using memory.create_keeps_others [OF ok2 cr, of files_table] by blast
  moreover have "storage_ok rows3"
    using memory.create_ok [OF ok2, of "''Photo''" "[(''id'', VString ''k''), (''photo'', VString ''u1'')]"] cr by simp
  ultimately show "storage_ok photo_rows" "filesystem_ok photo_files"
    "stored_file memory_repository filesystem_ops ''u1'' first_metadata ''hello'' 1
     (photo_rows, photo_files)"
    using stored unfolding three s by simp_all
qed

lemma photo_row: "mem_find_by_id photo_rows ''Photo'' ''k'' = Some [(''id'', VString ''k''), (''photo'', VString ''u1'')]"
  unfolding photo_rows_def kept_rows_def by code_simp

lemma photo_updated:
  "op_success (fst (crud_update memory_repository [(''Photo'', photo_entity)] photo_rows ''Photo'' ''k'' [(''photo'', VString ''u1'')]))"
  unfolding photo_rows_def kept_rows_def by code_simp

lemma photo_fields: "filter is_file_field (e_fields photo_entity) = [picture_field]"
  by (simp add: photo_entity_def make_entity_def make_field_def as_file_def is_file_field_def picture_field_def)

definition album_registry :: entity_registry where
  "album_registry =
     [(''Album'', make_entity ''Album'' [make_field ''id'' FUUID, as_file (make_field ''cover'' FFile) first_config] []),
      (''Photo'', make_entity ''Photo'' [make_field ''id'' FUUID, make_field ''album_id'' FUUID]
         [(make_relation ''album'' ''Album'' BelongsTo)\<lparr>r_fk_column := ''album_id''\<rparr>])]"

definition album_rows :: storage where
  "album_rows = [(''Album'', [(''a'', [(''id'', VString ''a''), (''cover'', VString ''u1'')])]),
     (''Photo'', [(''k'', [(''id'', VString ''k''), (''album_id'', VString ''a'')])])]"

definition album_context :: "(storage, filesystem_state) write_context" where
  "album_context = photo_context\<lparr>wx_registry := album_registry, wx_entity := ''Album''\<rparr>"

definition count_entity :: entity where
  "count_entity = make_entity ''Count'' [make_field ''id'' FUUID, make_field ''n'' FInt] []"

definition count_form :: "form_part list" where
  "count_form = [TextField ''n'' ''3'']"

section \<open>Properties\<close>

text \<open>C27: A form is read back as it was written: whatever the bytes of its contents, when the delimiter
  does not occur in them and the names are free of semicolons and carriage returns, the parser returns
  the text fields and the files in order, with their names, types and contents.\<close>

theorem form_round_trip:
  assumes "list_all (part_ok b) ps" and "CHR 0x0D \<notin> set b" and "b \<noteq> []"
  shows "multipart_parse (form_body b ps) b = Inr (parts_of ps)"
  by (rule form_read [OF assms])

theorem form_round_trip_witness:
  "multipart_parse (form_body ''B'' (photo_form [(''title'', ''t'')])) ''B''
     = Inr \<lparr>pm_texts = [\<lparr>pt_name = ''title'', pt_value = ''t''\<rparr>], pm_files = [photo_file]\<rparr>"
  using form_round_trip [OF demo_form_ok(1)] by (simp add: photo_form_def parts_of_def photo_file_def)

text \<open>C26: A create with one file that is answered 201 stored what was sent: the record is found with the
  UUID of the upload in the field, and a download of that UUID returns the bytes, the name and the
  type of the part, with one reference counted.\<close>

theorem created_file_is_stored:
  assumes "storage_ok rows" and "filesystem_ok files"
    and "wx_extractor ctx" and "wx_in_tx ctx = rollback_tx" and "wx_files ctx = file_backend uuids"
    and "registry_find_entity (wx_registry ctx) (wx_entity ctx) = Some e"
    and "wx_entity ctx \<noteq> files_table" and "pivots (e_relations e) \<inter> {wx_entity ctx, files_table} = {}"
    and "is_multipart_request env req"
    and "read_body env e True req body = Inr (rec0, \<lparr>pm_texts = ts, pm_files = [part]\<rparr>)"
    and "find_file_field e (pf_name part) = Some f"
    and "create_handle env ctx now ids req body rep (rows, files) = Some (r, (rows', files'))" and "rep_status r = 201"
  shows "\<exists>k stored meta. mem_find_by_id rows' (wx_entity ctx) k = Some stored
    \<and> map_of stored (pf_name part) = Some (VString (uuids 0))
    \<and> download memory_repository filesystem_ops (uuids 0) (rows', files') = Inr (Some (meta, pf_content part))
    \<and> fm_original_name meta = pf_filename part \<and> fm_mime_type meta = pf_content_type part
    \<and> fm_reference_count meta = 1"
proof -
  let ?create = "\<lambda>r rows. crud_create (ae_json_eq env) memory_repository (wx_registry ctx) rows (wx_entity ctx) r"
  have body: "read_body env e (wx_extractor ctx \<and> is_multipart_request env req) req body
      = Inr (rec0, \<lparr>pm_texts = ts, pm_files = [part]\<rparr>)" using assms(3,9,10) by simp
  obtain rec1 rec2 where s: "hash_password_field env True rec0 = Inr rec1"
    "assign_id (wx_repo ctx) (wx_registry ctx) ids (fst (rows, files)) e (wx_entity ctx) rec1 = Some rec2"
    "run_write env ctx 201 (write_work ctx ?create e True \<lparr>pm_texts = ts, pm_files = [part]\<rparr> rec2) id rep (rows, files)
       = (r, (rows', files'))"
    using create_success_steps [OF assms(12,13,6) body] assms(3,5,9) by simp blast
  have tbl: "tbl_ok rec2" using read_body_ok [OF assms(10)] hash_password_ok [OF s(1)] assign_id_ok [OF s(2)] by simp
  obtain cfg where cfg: "f_file_config f = Some cfg" using assms(11) by (auto elim: find_file_field_config)
  have fin: "wr_commit (fst (write_work ctx ?create e True \<lparr>pm_texts = ts, pm_files = [part]\<rparr> rec2 (rows, files)))
    \<and> (rows', files') = id (snd (write_work ctx ?create e True \<lparr>pm_texts = ts, pm_files = [part]\<rparr> rec2 (rows, files)))"
    by (rule write_committed [OF s(3) assms(13) _ _ assms(4)]) simp_all
  obtain res st1 result rows2 where w:
    "upload (fl_repo (wx_files ctx)) (fl_ops (wx_files ctx)) cfg (fl_uuid (wx_files ctx) 0) (pf_filename part)
       (pf_content_type part) (pf_content part) (rows, files) = (Inr res, st1)"
    "?create (tbl_put (pf_name part) (VString (ur_uuid res)) rec2) (fst st1) = (result, rows2)" "op_success result"
    by (rule committed_work [OF prod.collapse [symmetric] conjunct1 [OF fin] assms(3,11) cfg])
  obtain rows1 files1 where st1: "st1 = (rows1, files1)" by (cases st1)
  have up: "upload memory_repository filesystem_ops cfg (fl_uuid (wx_files ctx) 0) (pf_filename part) (pf_content_type part)
      (pf_content part) (rows, files) = (Inr res, (rows1, files1))" using w(1) assms(5) st1 by simp
  have op: "crud_create (ae_json_eq env) memory_repository (wx_registry ctx) rows1 (wx_entity ctx)
      (tbl_put (pf_name part) (VString (ur_uuid res)) rec2) = (result, rows2)" using w(2) st1 by simp
  have apart: "files_table \<noteq> wx_entity ctx" "files_table \<notin> pivots (e_relations e)" "wx_entity ctx \<notin> pivots (e_relations e)"
    using assms(7,8) by auto
  have fl: "fl_repo (wx_files ctx) = memory_repository" "fl_counters (wx_files ctx) = memory_counters"
    "fl_ops (wx_files ctx) = filesystem_ops" "fl_uuid (wx_files ctx) = uuids" using assms(5) by simp_all
  obtain rows3 meta where c:
    "write_work ctx ?create e True \<lparr>pm_texts = ts, pm_files = [part]\<rparr> rec2 (rows, files)
      = (\<lparr>wr_commit = True, wr_extraction = add_upload (ur_uuid res) no_extraction, wr_operation = result\<rparr>, (rows3, files1))"
    "ur_uuid res = uuids 0"
    "\<forall>k. repo_find_by_id memory_repository rows3 (wx_entity ctx) k = repo_find_by_id memory_repository rows2 (wx_entity ctx) k"
    "fm_original_name meta = pf_filename part" "fm_mime_type meta = pf_content_type part"
    "stored_file memory_repository filesystem_ops (ur_uuid res) meta (pf_content part) 1 (rows3, files1)"
    using stored_files.work_creates [OF assms(1,2,3) fl(1-3) assms(11) cfg up assms(6) apart(1,2) op w(3), where ts = ts]
    unfolding fl(4) by blast
  have s': "rows' = rows3" "files' = files1" using fin c(1) by simp_all
  have "storage_ok rows1" using stored_files.upload_stores [OF assms(1,2) up] by blast
  from stored_files.create_frame [OF this op w(3) assms(6) apart(1,2)] apart(3)
  obtain k where "repo_find_by_id memory_repository rows2 (wx_entity ctx) k
      = Some (filter_record (tbl_put (pf_name part) (VString (ur_uuid res)) rec2))" by blast
  then have found: "mem_find_by_id rows' (wx_entity ctx) k
      = Some (filter_record (tbl_put (pf_name part) (VString (uuids 0)) rec2))"
    using c(2,3) s' by (simp add: memory_repository_def)
  have field: "map_of (filter_record (tbl_put (pf_name part) (VString (uuids 0)) rec2)) (pf_name part) = Some (VString (uuids 0))"
    using tbl by (intro filter_record_get) simp_all
  note got = stored_files.download_stored [OF c(6)]
  show ?thesis
    using found field got c(2,4,5) s' by (intro exI [of _ k] exI conjI) (assumption | simp)+
qed

theorem created_file_is_stored_witness:
  "\<exists>r rows' files' meta. create_handle (form_env [\<lparr>pt_name = ''title'', pt_value = ''t''\<rparr>]) photo_context 0 (\<lambda>_. ''k'') form_request
       (form_body ''B'' (photo_form [(''title'', ''t'')])) blank_reply ([], first_files) = Some (r, (rows', files'))
     \<and> rep_status r = 201
     \<and> download memory_repository filesystem_ops ''u1'' (rows', files') = Inr (Some (meta, ''hello''))"
proof -
  let ?env = "form_env [\<lparr>pt_name = ''title'', pt_value = ''t''\<rparr>]" and ?body = "form_body ''B'' (photo_form [(''title'', ''t'')])"
  let ?rec = "tbl_put ''id'' (VString ''k'') [(''title'', VString ''t'')]"
  let ?create = "\<lambda>r rows. crud_create (\<lambda>_ _. False) memory_repository [(''Photo'', photo_entity)] rows ''Photo'' r"
  have eq: "ae_json_eq ?env = (\<lambda>_ _. False)" by (simp add: form_env_def demo_auth_env_def)
  have fl: "fl_repo (wx_files photo_context) = memory_repository" "fl_counters (wx_files photo_context) = memory_counters"
    "fl_ops (wx_files photo_context) = filesystem_ops" by (simp_all add: photo_backend)
  obtain result rows2 where op: "?create (tbl_put (pf_name photo_file) (VString (ur_uuid \<lparr>ur_uuid = ''u1'', ur_storage_path = ''d/u1.txt'',
      ur_size_bytes = 5, ur_mime_type = ''text/plain''\<rparr>)) ?rec) (fst (snd first_upload)) = (result, rows2)" "op_success result"
    using photo_created by (cases "?create (tbl_put ''photo'' (VString ''u1'') ?rec) (fst (snd first_upload))") (simp add: photo_file_def)
  have up: "upload memory_repository filesystem_ops first_config (fl_uuid (wx_files photo_context) 0) (pf_filename photo_file)
      (pf_content_type photo_file) (pf_content photo_file) ([], first_files)
    = (Inr \<lparr>ur_uuid = ''u1'', ur_storage_path = ''d/u1.txt'', ur_size_bytes = 5, ur_mime_type = ''text/plain''\<rparr>,
      (fst (snd first_upload), snd (snd first_upload)))" using photo_upload by (simp add: photo_backend)
  have e: "registry_find_entity [(''Photo'', photo_entity)] ''Photo'' = Some photo_entity" using photo_backend(4-6) by simp
  obtain rows3 where work: "write_work photo_context ?create photo_entity True
       \<lparr>pm_texts = [\<lparr>pt_name = ''title'', pt_value = ''t''\<rparr>], pm_files = [photo_file]\<rparr> ?rec ([], first_files)
     = (\<lparr>wr_commit = True, wr_extraction = add_upload ''u1'' no_extraction, wr_operation = result\<rparr>, (rows3, snd (snd first_upload)))"
    using stored_files.work_creates [OF no_rows_ok first_files_ok photo_backend(1) fl picture_field_found up e _ _ op,
        where ts = "[\<lparr>pt_name = ''title'', pt_value = ''t''\<rparr>]"]
    by (auto simp: files_table_def photo_backend(9))
  have body: "read_body ?env photo_entity (wx_extractor photo_context \<and> is_multipart_request ?env form_request) form_request ?body
    = Inr ([(''title'', VString ''t'')], \<lparr>pm_texts = [\<lparr>pt_name = ''title'', pt_value = ''t''\<rparr>], pm_files = [photo_file]\<rparr>)"
    by (simp add: photo_backend form_multipart form_read_body)
  have no_password: "map_of [(''title'', VString ''t'')] ''password'' = None" by simp
  have run: "create_handle ?env photo_context 0 (\<lambda>_. ''k'') form_request ?body blank_reply ([], first_files)
    = Some (text_reply ?env 201 (written_record ?env result) blank_reply, (rows3, snd (snd first_upload)))"
    unfolding create_steps [OF photo_backend(4) body photo_free(1) [OF no_password] photo_free(2), where st = "([], first_files)",
      unfolded fst_conv, OF photo_assign(1)]
    using work by (simp add: photo_backend(1,2,4-6) form_multipart eq run_write_def rollback_tx_def fl)
  have "\<exists>k stored meta. mem_find_by_id rows3 (wx_entity photo_context) k = Some stored
    \<and> map_of stored (pf_name photo_file) = Some (VString ''u1'')
    \<and> download memory_repository filesystem_ops ''u1'' (rows3, snd (snd first_upload)) = Inr (Some (meta, pf_content photo_file))
    \<and> fm_original_name meta = pf_filename photo_file \<and> fm_mime_type meta = pf_content_type photo_file
    \<and> fm_reference_count meta = 1"
    by (rule created_file_is_stored [OF no_rows_ok first_files_ok photo_backend(1-4,8) _ form_multipart form_read_body(1)
        picture_field_found(1) run])
      (simp_all add: photo_backend(9) text_reply_def)
  then show ?thesis using run by (auto simp: photo_file_def text_reply_def)
qed

text \<open>A create with a file that the engine refuses leaves the file behind: the answer is 400 and the
  rows are as before, so no row knows the file, yet its content stays in the storage. The rollback of
  the uploads deletes nothing, as a release without a reference is refused.\<close>

theorem refused_create_leaves_the_file:
  assumes "storage_ok rows" and "filesystem_ok files"
    and "wx_extractor ctx" and "wx_in_tx ctx = rollback_tx" and "wx_files ctx = file_backend uuids"
    and "registry_find_entity (wx_registry ctx) (wx_entity ctx) = Some e" and "is_multipart_request env req"
    and "read_body env e True req body = Inr (rec0, \<lparr>pm_texts = ts, pm_files = [part]\<rparr>)"
    and "find_file_field e (pf_name part) = Some f" and "f_file_config f = Some cfg"
    and "hash_password_field env True rec0 = Inr rec1"
    and "refused_by_policy env ctx now Create (ae_dump env (create_payload env rec1)) req = None"
    and "assign_id memory_repository (wx_registry ctx) ids rows e (wx_entity ctx) rec1 = Some rec2"
    and "upload memory_repository filesystem_ops cfg (uuids 0) (pf_filename part) (pf_content_type part) (pf_content part)
      (rows, files) = (Inr res, (rows1, files1))"
    and "validate e (tbl_put (pf_name part) (VString (ur_uuid res)) rec2) \<noteq> []"
  shows "\<exists>r. create_handle env ctx now ids req body rep (rows, files) = Some (r, (rows, files1)) \<and> rep_status r = 400
    \<and> file_find_by_id memory_repository (ur_uuid res) rows = None
    \<and> fso_retrieve filesystem_ops files1 (ur_storage_path res) = Inr (pf_content part)"
proof -
  let ?create = "\<lambda>r rows. crud_create (ae_json_eq env) memory_repository (wx_registry ctx) rows (wx_entity ctx) r"
  let ?errs = "validate e (tbl_put (pf_name part) (VString (ur_uuid res)) rec2)"
  have fl: "fl_repo (wx_files ctx) = memory_repository" "fl_counters (wx_files ctx) = memory_counters"
    "fl_ops (wx_files ctx) = filesystem_ops" "fl_uuid (wx_files ctx) = uuids" using assms(5) by simp_all
  have op: "?create (tbl_put (pf_name part) (VString (ur_uuid res)) rec2) rows1 = (failed ?errs, rows1)"
    using assms(6,15) by (simp add: crud_create_def Let_def)
  have up: "upload memory_repository filesystem_ops cfg (fl_uuid (wx_files ctx) 0) (pf_filename part) (pf_content_type part)
      (pf_content part) (rows, files) = (Inr res, (rows1, files1))" using assms(14) fl by simp
  have bad: "\<not> op_success (failed ?errs)" "op_errors (failed ?errs) \<noteq> []" using assms(15) by (simp_all add: result_defs)
  note left = stored_files.failed_work_leaves_file [OF assms(1-4) fl(1-3) assms(9,10) up, of ?create, OF op bad]
  have body: "read_body env e (wx_extractor ctx \<and> is_multipart_request env req) req body
      = Inr (rec0, \<lparr>pm_texts = ts, pm_files = [part]\<rparr>)" using assms(3,7,8) by simp
  have ids: "assign_id (wx_repo ctx) (wx_registry ctx) ids (fst (rows, files)) e (wx_entity ctx) rec1 = Some rec2"
    using assms(13) fl by simp
  show ?thesis
    unfolding create_steps [OF assms(6) body assms(11,12) ids]
    using left assms(3,7) fl(1) by (simp add: make_error_reply_def)
qed

theorem refused_create_leaves_the_file_witness:
  "\<exists>r. create_handle (form_env []) photo_context 0 (\<lambda>_. ''k'') form_request (form_body ''B'' (photo_form [])) blank_reply ([], first_files)
      = Some (r, ([], snd (snd first_upload))) \<and> rep_status r = 400
    \<and> fso_retrieve filesystem_ops (snd (snd first_upload)) ''d/u1.txt'' = Inr ''hello''"
proof -
  have "\<exists>r. create_handle (form_env []) photo_context 0 (\<lambda>_. ''k'') form_request (form_body ''B'' (photo_form [])) blank_reply ([], first_files)
      = Some (r, ([], snd (snd first_upload))) \<and> rep_status r = 400
    \<and> file_find_by_id memory_repository (ur_uuid \<lparr>ur_uuid = ''u1'', ur_storage_path = ''d/u1.txt'', ur_size_bytes = 5, ur_mime_type = ''text/plain''\<rparr>) [] = None
    \<and> fso_retrieve filesystem_ops (snd (snd first_upload)) (ur_storage_path \<lparr>ur_uuid = ''u1'', ur_storage_path = ''d/u1.txt'', ur_size_bytes = 5, ur_mime_type = ''text/plain''\<rparr>) = Inr (pf_content photo_file)"
    by (rule refused_create_leaves_the_file [where uuids = "\<lambda>_. ''u1''" and ?rec1.0 = "[]"])
      (rule no_rows_ok first_files_ok photo_backend(1-4) form_multipart form_read_body(2) picture_field_found photo_free(2)
        photo_assign photo_upload photo_without_title | simp add: photo_free(1))+
  then show ?thesis by (auto simp: photo_file_def)
qed

text \<open>C28: On the memory backend, with an extractor, for an entity with one file field whose rule is to delete
  in cascade (the default): a successful update whose JSON body repeats the UUID the field already holds
  deletes that file when it has no other reference, so the record goes on naming a file that no download
  finds any more.\<close>

theorem unchanged_file_is_deleted:
  assumes "storage_ok rows" and "filesystem_ok files"
    and "wx_in_tx ctx = rollback_tx" and "wx_files ctx = file_backend uuids" and "wx_entity ctx \<noteq> files_table"
    and "registry_find_entity (wx_registry ctx) (wx_entity ctx) = Some e"
    and "filter is_file_field (e_fields e) = [f]" and "f_file_config f = Some cfg" and "fc_on_delete cfg = FileCascade"
    and "f_name f \<noteq> ''id''" and "strip_leading_slash id_param = rid" and "rid \<noteq> []"
    and "mem_find_by_id rows (wx_entity ctx) rid = Some old" and "map_of old (f_name f) = Some (VString uuid)" and "uuid \<noteq> []"
    and "refused_by_policy env ctx now Update (record_to_json (ae_dbl_text env) old) req = None"
    and "\<not> is_multipart_request env req" and "parse_record (ae_parse env) e body = Inr rec"
    and "map_of rec ''password'' = None" and "map_of rec (f_name f) = Some (VString uuid)"
    and "op_success (fst (crud_update memory_repository (wx_registry ctx) rows (wx_entity ctx) rid rec))"
    and "stored_file memory_repository filesystem_ops uuid meta content 1 (rows, files)"
    and "update_handle env ctx now id_param req body rep (rows, files) = (outcome, (rows', files'))"
    and "wx_extractor ctx"
  shows "(\<exists>r. outcome = Updated r \<and> rep_status r = 200)
    \<and> (\<exists>stored. mem_find_by_id rows' (wx_entity ctx) rid = Some stored \<and> map_of stored (f_name f) = Some (VString uuid))
    \<and> download memory_repository filesystem_ops uuid (rows', files') = Inr None"
proof -
  let ?update = "\<lambda>r rows. crud_update memory_repository (wx_registry ctx) rows (wx_entity ctx) rid r"
  have fl: "fl_repo (wx_files ctx) = memory_repository" "fl_counters (wx_files ctx) = memory_counters"
    "fl_ops (wx_files ctx) = filesystem_ops" "fl_uuid (wx_files ctx) = uuids" using assms(4) by simp_all
  obtain result rows1 where upd: "?update rec rows = (result, rows1)" by (cases "?update rec rows")
  then have ok: "op_success result" using assms(21) by simp
  have tbl: "tbl_ok rec" by (rule parse_record_ok [OF assms(18)])
  obtain rows2 files2 where run:
    "run_write env ctx 200 (write_work ctx ?update e False no_parts rec) (release_files (wx_files ctx) (old_file_refs e old rec)) rep
       (rows, files) = (text_reply env 200 (written_record env result) rep, (rows2, files2))"
    "download memory_repository filesystem_ops uuid (rows2, files2) = Inr None"
    "\<forall>k. repo_find_by_id memory_repository rows2 (wx_entity ctx) k = repo_find_by_id memory_repository rows1 (wx_entity ctx) k"
    using stored_files.unchanged_file_released [OF assms(1,2,3) fl(1-3) assms(7-9,14,15,20,22) upd ok assms(5)] by blast
  have files: "has_file_fields e" using assms(7) by (auto simp: has_file_fields_def list_ex_iff filter_eq_Cons_iff)
  have "crud_get_by_id memory_repository (wx_registry ctx) rows (wx_entity ctx) rid = Some old"
    using assms(6,13) by (simp add: crud_get_by_id_def registry_has_entity_def memory_repository_def)
  then have "update_handle env ctx now id_param req body rep (rows, files)
      = map_prod Updated id (run_write env ctx 200 (write_work ctx ?update e False no_parts rec)
          (release_files (wx_files ctx) (old_file_refs e old rec)) rep (rows, files))"
    using assms(6,11,12,16-19,24) files fl(1)
    by (simp add: update_handle_def update_with_def read_body_def hash_password_field_def Let_def case_prod_beta map_prod_def)
  then have res: "outcome = Updated (text_reply env 200 (written_record env result) rep)" "rows' = rows2" "files' = files2"
    using assms(23) run(1) by simp_all
  have "\<exists>stored. repo_find_by_id memory_repository rows1 (wx_entity ctx) rid = Some stored \<and> map_of stored (f_name f) = Some (VString uuid)"
    using upd
  proof (cases rule: memory.crud_update_cases)
    case 1
    then show ?thesis using ok by simp
  next
    case (2 e' resp)
    have st: "upd_status resp" using 2 ok by simp
    note some = memory.update_some [OF assms(1) 2(4) st]
    have "map_of (tbl_put ''id'' (VString rid) rec) (f_name f) = Some (VString uuid)" using assms(10,20) by simp
    from memory_tokens.update_sets [OF assms(1) 2(4) st _ this assms(10)] tbl some show ?thesis by auto
  qed
  then show ?thesis
    using run(2,3) res by (simp add: text_reply_def memory_repository_def)
qed

theorem unchanged_file_is_deleted_witness:
  "\<exists>r rows files stored. update_handle keep_env photo_context 0 ''k'' empty_request [] blank_reply (photo_rows, photo_files)
       = (Updated r, (rows, files)) \<and> rep_status r = 200
     \<and> mem_find_by_id rows ''Photo'' ''k'' = Some stored \<and> map_of stored ''photo'' = Some (VString ''u1'')
     \<and> download memory_repository filesystem_ops ''u1'' (rows, files) = Inr None"
proof -
  obtain outcome rows files where run: "update_handle keep_env photo_context 0 ''k'' empty_request [] blank_reply (photo_rows, photo_files)
      = (outcome, (rows, files))" by (metis prod.collapse)
  have p: "parse_record (ae_parse keep_env) photo_entity [] = Inr [(''photo'', VString ''u1'')]"
    by (simp add: keep_env_def parse_record_def photo_entity_def make_entity_def make_field_def as_file_def parse_field_value_def)
  have m: "\<not> is_multipart_request keep_env empty_request"
    by (simp add: is_multipart_request_def header_or_empty_def keep_env_def demo_auth_env_def empty_request_def) code_simp
  have n: "f_name picture_field = ''photo''" by (simp add: picture_field_def as_file_def make_field_def)
  have "(\<exists>r. outcome = Updated r \<and> rep_status r = 200)
    \<and> (\<exists>stored. mem_find_by_id rows (wx_entity photo_context) ''k'' = Some stored
         \<and> map_of stored (f_name picture_field) = Some (VString ''u1''))
    \<and> download memory_repository filesystem_ops ''u1'' (rows, files) = Inr None"
    by (rule unchanged_file_is_deleted [where old = "[(''id'', VString ''k''), (''photo'', VString ''u1'')]", OF photo_rows_ok(1,2) photo_backend(2,3,8,4) photo_fields picture_field_found(2)
      _ _ _ _ _ _ _ photo_free(2) m p _ _ _ photo_rows_ok(3) run photo_backend(1)])
      (simp_all add: photo_row photo_backend photo_updated n first_config_def default_file_config_def strip_leading_slash_def)
  then show ?thesis using run by (auto simp: photo_backend n)
qed

text \<open>Without an extractor an update that commits and writes a file field of a record that holds a file has
  no defined result: the null pointer of the extractor is dereferenced for the release of the old file.\<close>

theorem update_without_extractor_undefined:
  assumes "\<not> wx_extractor ctx" and "wx_in_tx ctx = rollback_tx"
    and "registry_find_entity (wx_registry ctx) (wx_entity ctx) = Some e" and "has_file_fields e"
    and "strip_leading_slash id_param = rid" and "rid \<noteq> []"
    and "crud_get_by_id (wx_repo ctx) (wx_registry ctx) rows (wx_entity ctx) rid = Some old"
    and "refused_by_policy env ctx now Update (record_to_json (ae_dbl_text env) old) req = None"
    and "parse_record (ae_parse env) e body = Inr rec" and "map_of rec ''password'' = None"
    and "old_file_refs e old rec \<noteq> []"
    and "op_success (fst (crud_update (wx_repo ctx) (wx_registry ctx) rows (wx_entity ctx) rid rec))"
  shows "fst (update_handle env ctx now id_param req body rep (rows, files)) = NullDereference"
proof -
  let ?update = "\<lambda>r rows. crud_update (wx_repo ctx) (wx_registry ctx) rows (wx_entity ctx) rid r"
  let ?st = "(rows, files)"
  obtain result rows1 where upd: "?update rec rows = (result, rows1)" by (cases "?update rec rows")
  have "write_work ctx ?update e False no_parts rec ?st
      = (\<lparr>wr_commit = True, wr_extraction = no_extraction, wr_operation = result\<rparr>, (rows1, files))"
    using assms(1,12) upd by (simp add: write_work_def extract_files_def no_extraction_def)
  then have "rep_status (fst (run_write env ctx 200 (write_work ctx ?update e False no_parts rec) id rep ?st)) = 200"
    by (simp add: run_write_def assms(2) rollback_tx_def text_reply_def)
  then show ?thesis
    using assms(1,3-11)
    by (simp add: update_handle_def update_with_def read_body_def hash_password_field_def Let_def case_prod_beta)
qed

text \<open>A removal that a restricted reference forbids changes nothing; the answer is the conflict for
  entities without file fields, and an internal error for entities with them.\<close>

theorem refused_removal_answer:
  assumes "wx_in_tx ctx = rollback_tx" and "strip_leading_slash id_param = rid" and "rid \<noteq> []"
    and "registry_find_entity (wx_registry ctx) (wx_entity ctx) = Some e"
    and "crud_get_by_id (wx_repo ctx) (wx_registry ctx) rows (wx_entity ctx) rid = Some old"
    and "refused_by_policy env ctx now Delete (record_to_json (ae_dbl_text env) old) req = None"
    and "list_all (\<lambda>af. af_rule af \<noteq> FileRestrict) (collect_attached_files e old)"
    and "op_restrict_violation (fst (crud_remove (wx_repo ctx) (wx_registry ctx) rows (wx_entity ctx) rid))"
    and "delete_handle env ctx True now id_param req rep (rows, files) = (r, st')"
  shows "rep_status r = (if wx_extractor ctx \<and> has_file_fields e then 500 else 409) \<and> st' = (rows, files)"
proof -
  obtain result rows1 where rm: "crud_remove (wx_repo ctx) (wx_registry ctx) rows (wx_entity ctx) rid = (result, rows1)"
    by (cases "crud_remove (wx_repo ctx) (wx_registry ctx) rows (wx_entity ctx) rid")
  have res: "\<not> op_success result" "op_restrict_violation result" "rows1 = rows"
    using assms(8) rm by (auto simp: crud_remove_def Let_def result_defs split: if_splits prod.splits)
  have none: "find (\<lambda>af. af_rule af = FileRestrict) (collect_attached_files e old) = None"
    using assms(7) by (simp add: find_None_iff list_all_iff)
  have "delete_with env ctx w rid attached rep (rows, files)
      = (if wx_extractor ctx \<and> w then internal_error env else delete_refused env result, (rows, files))" for w attached
    using rm res by (simp add: delete_with_def Let_def assms(1) rollback_tx_def)
  then show ?thesis
    using assms(2-6,9) none res
    by (auto simp: delete_handle_def Let_def delete_refused_def internal_error_def make_error_reply_def split: if_splits)
qed

theorem refused_removal_answer_witness:
  "rep_status (fst (delete_handle demo_auth_env album_context True 0 ''a'' empty_request blank_reply (album_rows, first_files))) = 500"
proof -
  obtain r st where run: "delete_handle demo_auth_env album_context True 0 ''a'' empty_request blank_reply (album_rows, first_files) = (r, st)"
    by (metis prod.collapse)
  have c: "wx_in_tx album_context = rollback_tx" "wx_registry album_context = album_registry" "wx_entity album_context = ''Album''"
    "wx_repo album_context = memory_repository" "wx_extractor album_context" "wx_helper album_context = None"
    by (simp_all add: album_context_def photo_backend)
  have e: "registry_find_entity album_registry ''Album'' = Some (snd (hd album_registry))" by code_simp
  have old: "crud_get_by_id memory_repository album_registry album_rows ''Album'' ''a'' = Some [(''id'', VString ''a''), (''cover'', VString ''u1'')]"
    by code_simp
  have rest: "list_all (\<lambda>af. af_rule af \<noteq> FileRestrict) (collect_attached_files (snd (hd album_registry)) [(''id'', VString ''a''), (''cover'', VString ''u1'')])"
    by code_simp
  have viol: "op_restrict_violation (fst (crud_remove memory_repository album_registry album_rows ''Album'' ''a''))"
    by code_simp
  have files: "has_file_fields (snd (hd album_registry))" by code_simp
  have "rep_status r = (if wx_extractor album_context \<and> has_file_fields (snd (hd album_registry)) then 500 else 409)
      \<and> st = (album_rows, first_files)"
    by (rule refused_removal_answer [where rid = "''a''", OF c(1) _ _ _ _ _ rest _ run])
      (simp_all add: c e old viol refused_by_policy_def strip_leading_slash_def)
  then show ?thesis using run files c(5) by simp
qed

text \<open>Numbers and booleans cannot be sent in a form: the texts of the parts become JSON strings, which
  the record parser refuses for these fields, so every form with such a field is answered 400.\<close>

theorem form_numbers_are_refused:
  assumes "ae_parse env (ae_dump env (texts_json ts)) = Inr (texts_json ts)"
    and "is_multipart_request env req" and "extract_boundary (header_or_empty env req ''Content-Type'') = Some b"
    and "multipart_parse body b = Inr \<lparr>pm_texts = ts, pm_files = fps\<rparr>"
    and "distinct (map pt_name ts)" and "t \<in> set ts" and "f \<in> set (e_fields e)" and "f_name f = pt_name t"
    and "f_type f \<in> {FInt, FBigInt, FSmallInt, FFloat, FBool}"
  shows "\<exists>r. read_body env e True req body = Inl r \<and> rep_status r = 400"
proof -
  have "map_of (fold (\<lambda>t ms. tbl_put (pt_name t) (JString (pt_value t)) ms) ts []) (f_name f) = Some (JString (pt_value t))"
    using text_member [OF assms(5,6)] assms(8) by simp
  from parse_fields_refuses [OF assms(7) this assms(9)] obtain what
    where "parse_record (ae_parse env) e (ae_dump env (texts_json ts)) = Inl what"
    using assms(1) by (auto simp: parse_record_def texts_json_def)
  then show ?thesis using assms(3,4) by (simp add: read_body_def make_error_reply_def)
qed

theorem form_numbers_are_refused_witness:
  "\<exists>r. read_body (form_env [\<lparr>pt_name = ''n'', pt_value = ''3''\<rparr>]) count_entity True form_request (form_body ''B'' count_form) = Inl r
     \<and> rep_status r = 400"
proof -
  have ok: "list_all (part_ok ''B'') count_form" by code_simp
  have p: "multipart_parse (form_body ''B'' count_form) ''B'' = Inr \<lparr>pm_texts = [\<lparr>pt_name = ''n'', pt_value = ''3''\<rparr>], pm_files = []\<rparr>"
    using form_read [OF ok] by (simp add: count_form_def parts_of_def)
  have b: "extract_boundary (header_or_empty (form_env [\<lparr>pt_name = ''n'', pt_value = ''3''\<rparr>]) form_request ''Content-Type'') = Some ''B''"
    by (simp add: form_header form_boundary)
  show ?thesis
    by (rule form_numbers_are_refused [OF _ form_multipart b p, where t = "\<lparr>pt_name = ''n'', pt_value = ''3''\<rparr>"
        and f = "make_field ''n'' FInt"])
      (simp_all add: form_env_def count_entity_def make_entity_def make_field_def)
qed

end
