(* ===== verification/Read_Context.thy ===== *)
theory Read_Context
  imports Write_Handlers Http_Gates
begin

text \<open>
  What the handlers of reads share: the engine they are given, the checks of the resource helper, the
  children of a parent by its foreign key, the parent with a given value and the targets of a
  many-to-many relation. The same code stands in each handler of \<open>relation_handlers\<close> and
  \<open>pagination_handler\<close>; the path parameters are arguments.
\<close>

section \<open>The context\<close>

text \<open>The pages, windows and cursors of a repository; \<open>Inl\<close> is an exception.\<close>

record 'r lister =
  ls_page :: "'r \<Rightarrow> string \<Rightarrow> page_request \<Rightarrow> string + page_result"
  ls_offset :: "'r \<Rightarrow> string \<Rightarrow> offset_request \<Rightarrow> string + offset_result"
  ls_cursor :: "'r \<Rightarrow> string \<Rightarrow> cursor_request \<Rightarrow> string + cursor_result"

record 'r pivot_ops =
  po_exists :: "'r \<Rightarrow> string \<Rightarrow> dynamic_record \<Rightarrow> bool"
  po_delete :: "'r \<Rightarrow> string \<Rightarrow> dynamic_record \<Rightarrow> bool \<times> 'r"

definition memory_lister :: "storage lister" where
  "memory_lister = \<lparr>ls_page = mem_list_page, ls_offset = mem_list_offset, ls_cursor = mem_list_cursor\<rparr>"

definition memory_pivots :: "storage pivot_ops" where
  "memory_pivots = \<lparr>po_exists = mem_pivot_exists, po_delete = (\<lambda>st t values. (mem_delete_pivot st t values, st))\<rparr>"

record 'r read_context =
  rx_repo :: "'r repository"
  rx_lister :: "'r lister"
  rx_pivots :: "'r pivot_ops"
  rx_registry :: entity_registry
  rx_helper :: "(operator_registry \<times> schema \<times> access_control_config) option"

section \<open>The checks of the helper\<close>

definition single_refusal ::
  "auth_env \<Rightarrow> 'r read_context \<Rightarrow> int \<Rightarrow> string \<Rightarrow> crud_operation \<Rightarrow> string \<Rightarrow> request \<Rightarrow> string \<Rightarrow> reply option" where
  "single_refusal env ctx now en oper resource_text req default_reason =
     (case rx_helper ctx of
        None \<Rightarrow> None
      | Some (reg, s, cfg) \<Rightarrow>
          let chk = check_single (ae_parse env) (ae_dump env) reg s cfg en oper
                (build_subject_from_headers (req_headers req)) resource_text
                (build_context (ae_same env) now req (req_url req))
          in if fst chk then None
             else Some (make_error_reply (ae_dump env) 403 ''AUTHORIZATION_ERROR''
                    (if snd chk = [] then default_reason else snd chk)))"

text \<open>The filter of a listing, in each file of the listings under the name \<open>apply_abac_filter\<close>.\<close>

definition apply_abac_filter ::
  "auth_env \<Rightarrow> 'r read_context \<Rightarrow> int \<Rightarrow> string \<Rightarrow> string \<Rightarrow> request \<Rightarrow> string" where
  "apply_abac_filter env ctx now records_text en req =
     (case rx_helper ctx of
        None \<Rightarrow> records_text
      | Some (reg, s, cfg) \<Rightarrow>
          filter_collection (ae_parse env) (ae_dump env) reg s cfg en List
            (build_subject_from_headers (req_headers req)) records_text
            (build_context (ae_same env) now req (req_url req)))"

definition filtered_listing ::
  "auth_env \<Rightarrow> 'r read_context \<Rightarrow> int \<Rightarrow> string \<Rightarrow> request \<Rightarrow> dynamic_record list \<Rightarrow> string" where
  "filtered_listing env ctx now en req rows = apply_abac_filter env ctx now (records_to_json (ae_dbl_text env) rows) en req"

definition bad_request :: "auth_env \<Rightarrow> string \<Rightarrow> reply" where
  "bad_request env message = make_error_reply (ae_dump env) 400 ''BAD_REQUEST'' message"

definition missing_parameter :: "auth_env \<Rightarrow> string \<Rightarrow> reply" where
  "missing_parameter env name = bad_request env (''Parametre '' @ quoted name @ '' manquant.'')"

section \<open>Children, parents and targets\<close>

text \<open>The rows whose foreign key is the id.\<close>

definition has_fk :: "string \<Rightarrow> string \<Rightarrow> dynamic_record \<Rightarrow> bool" where
  "has_fk fk_column rid row =
     (case tbl_get row fk_column of
        None \<Rightarrow> False
      | Some v \<Rightarrow> http_value_to_string_id v = Some rid)"

definition children_of :: "string \<Rightarrow> string \<Rightarrow> dynamic_record list \<Rightarrow> dynamic_record list" where
  "children_of fk_column rid rows = filter (has_fk fk_column rid) rows"

text \<open>The id of the first parent with the value and an id; the loop stops there even when the id has no text.\<close>

fun find_parent_id :: "(double \<Rightarrow> string) \<Rightarrow> string \<Rightarrow> string \<Rightarrow> dynamic_record list \<Rightarrow> string option" where
  "find_parent_id dbl_text search_field v [] = None"
| "find_parent_id dbl_text search_field v (p # ps) =
     (case tbl_get p search_field of
        None \<Rightarrow> find_parent_id dbl_text search_field v ps
      | Some x \<Rightarrow>
          if \<not> dynamic_value_matches_string dbl_text x v then find_parent_id dbl_text search_field v ps
          else case tbl_get p ''id'' of
            None \<Rightarrow> find_parent_id dbl_text search_field v ps
          | Some k \<Rightarrow> http_value_to_string_id k)"

definition pivot_targets :: "(double \<Rightarrow> string) \<Rightarrow> string \<Rightarrow> string \<Rightarrow> string \<Rightarrow> dynamic_record list \<Rightarrow> string list" where
  "pivot_targets dbl_text source_fk target_fk source_id rows =
     List.map_filter (\<lambda>row.
       case tbl_get row source_fk of
         None \<Rightarrow> None
       | Some x \<Rightarrow>
           if \<not> dynamic_value_matches_string dbl_text x source_id then None
           else case tbl_get row target_fk of None \<Rightarrow> None | Some t \<Rightarrow> http_value_to_string_id t) rows"

definition linked_targets ::
  "auth_env \<Rightarrow> 'r read_context \<Rightarrow> 'r \<Rightarrow> string \<Rightarrow> string \<Rightarrow> string \<Rightarrow> string \<Rightarrow> string \<Rightarrow> dynamic_record list" where
  "linked_targets env ctx st target_entity pivot source_fk target_fk source_id =
     List.map_filter (crud_get_by_id (rx_repo ctx) (rx_registry ctx) st target_entity)
       (pivot_targets (ae_dbl_text env) source_fk target_fk source_id
          (crud_list (rx_repo ctx) (rx_registry ctx) st pivot))"

text \<open>A parent with its children: the closing brace of the parent makes room for one more member.\<close>

definition nested_reply :: "string \<Rightarrow> string \<Rightarrow> string \<Rightarrow> string" where
  "nested_reply parent_json key children_json =
     butlast parent_json @ '', '' @ dquoted key @ '': '' @ children_json @ ''}''"

end
