(* ===== verification/Relation_Handlers.thy ===== *)
theory Relation_Handlers
  imports Read_Context
begin

text \<open>
  The handlers of relations (\<open>apps/Backend_Seastar/src/http/handlers/relation_handlers\<close>) and of the
  download of a file (\<open>file_handlers/file_download_by_field_handler.cpp\<close>) over any repository.
\<close>

section \<open>Reads along a foreign key\<close>

definition list_by_fk_handle ::
  "auth_env \<Rightarrow> 'r read_context \<Rightarrow> int \<Rightarrow> string \<Rightarrow> string \<Rightarrow> string \<Rightarrow> request \<Rightarrow> reply \<Rightarrow> 'r \<Rightarrow> reply" where
  "list_by_fk_handle env ctx now child_entity fk_column id_param req rep st =
     (let parent_id = strip_leading_slash id_param in
      if parent_id = [] then missing_parameter env ''id''
      else text_reply env 200
        (filtered_listing env ctx now child_entity req
           (children_of fk_column parent_id (crud_list (rx_repo ctx) (rx_registry ctx) st child_entity))) rep)"

definition list_by_fk_field_handle ::
  "auth_env \<Rightarrow> 'r read_context \<Rightarrow> int \<Rightarrow> string \<Rightarrow> string \<Rightarrow> string \<Rightarrow> string \<Rightarrow> string \<Rightarrow> request \<Rightarrow> reply \<Rightarrow> 'r \<Rightarrow> reply" where
  "list_by_fk_field_handle env ctx now child_entity parent_entity fk_column search_field value_param req rep st =
     (let v = strip_leading_slash value_param;
          list_of = crud_list (rx_repo ctx) (rx_registry ctx) st
      in if v = [] then missing_parameter env ''value''
         else case find_parent_id (ae_dbl_text env) search_field v (list_of parent_entity) of
           None \<Rightarrow> not_found env ''Parent introuvable.''
         | Some parent_id \<Rightarrow>
             text_reply env 200
               (filtered_listing env ctx now child_entity req (children_of fk_column parent_id (list_of child_entity))) rep)"

text \<open>The first child decides, also when it is refused.\<close>

definition get_one_by_fk_handle ::
  "auth_env \<Rightarrow> 'r read_context \<Rightarrow> int \<Rightarrow> string \<Rightarrow> string \<Rightarrow> string \<Rightarrow> request \<Rightarrow> reply \<Rightarrow> 'r \<Rightarrow> reply" where
  "get_one_by_fk_handle env ctx now child_entity fk_column id_param req rep st =
     (case find (has_fk fk_column (strip_leading_slash id_param)) (crud_list (rx_repo ctx) (rx_registry ctx) st child_entity) of
        None \<Rightarrow> not_found env ''Enregistrement introuvable.''
      | Some row \<Rightarrow>
          let text = record_to_json (ae_dbl_text env) row in
          (case single_refusal env ctx now child_entity GetById text req ''Acces refuse.'' of
             Some refusal \<Rightarrow> refusal
           | None \<Rightarrow> text_reply env 200 text rep))"

definition get_with_children_handle ::
  "auth_env \<Rightarrow> 'r read_context \<Rightarrow> int \<Rightarrow> string \<Rightarrow> string \<Rightarrow> string \<Rightarrow> string \<Rightarrow> string \<Rightarrow> request \<Rightarrow> reply \<Rightarrow> 'r \<Rightarrow> reply" where
  "get_with_children_handle env ctx now parent_entity child_entity fk_column children_key id_param req rep st =
     (let rid = strip_leading_slash id_param in
      case crud_get_by_id (rx_repo ctx) (rx_registry ctx) st parent_entity rid of
        None \<Rightarrow> not_found env ''Parent introuvable.''
      | Some parent \<Rightarrow>
          let parent_json = record_to_json (ae_dbl_text env) parent in
          (case single_refusal env ctx now parent_entity GetById parent_json req ''Acces refuse.'' of
             Some refusal \<Rightarrow> refusal
           | None \<Rightarrow>
               text_reply env 200
                 (nested_reply parent_json children_key
                    (filtered_listing env ctx now child_entity req
                       (children_of fk_column rid (crud_list (rx_repo ctx) (rx_registry ctx) st child_entity)))) rep))"

section \<open>Many to many\<close>

definition list_many_to_many_handle ::
  "auth_env \<Rightarrow> 'r read_context \<Rightarrow> int \<Rightarrow> string \<Rightarrow> string \<Rightarrow> string \<Rightarrow> string \<Rightarrow> string \<Rightarrow> request \<Rightarrow> reply \<Rightarrow> 'r \<Rightarrow> reply" where
  "list_many_to_many_handle env ctx now pivot target_entity source_fk target_fk id_param req rep st =
     (let source_id = strip_leading_slash id_param in
      if source_id = [] then missing_parameter env ''id''
      else text_reply env 200
        (filtered_listing env ctx now target_entity req
           (linked_targets env ctx st target_entity pivot source_fk target_fk source_id)) rep)"

record link_names =
  ln_source :: string
  ln_target :: string
  ln_pivot :: string
  ln_source_fk :: string
  ln_target_fk :: string

text \<open>What attach and detach do first: the two records and the checks on both. \<open>Inl\<close> is the reply of a refusal.\<close>

definition link_ends ::
  "auth_env \<Rightarrow> 'r read_context \<Rightarrow> int \<Rightarrow> link_names \<Rightarrow> string \<Rightarrow> string \<Rightarrow> request \<Rightarrow> 'r \<Rightarrow> reply + string \<times> string" where
  "link_ends env ctx now ln id_param target_param req st =
     (let source_id = strip_leading_slash id_param;
          target_id = strip_leading_slash target_param;
          find_in = crud_get_by_id (rx_repo ctx) (rx_registry ctx) st
      in if source_id = [] \<or> target_id = []
         then Inl (bad_request env (''Parametres '' @ quoted ''id'' @ '' ou '' @ quoted ''target_id'' @ '' manquants.''))
         else case find_in (ln_source ln) source_id of
           None \<Rightarrow> Inl (not_found env ''Ressource source introuvable.'')
         | Some from_rec \<Rightarrow>
             (case find_in (ln_target ln) target_id of
                None \<Rightarrow> Inl (not_found env ''Ressource cible introuvable.'')
              | Some to_rec \<Rightarrow>
                  (case single_refusal env ctx now (ln_source ln) Update (record_to_json (ae_dbl_text env) from_rec) req
                          ''Acces refuse sur la ressource source.'' of
                     Some refusal \<Rightarrow> Inl refusal
                   | None \<Rightarrow>
                       (case single_refusal env ctx now (ln_target ln) Update (record_to_json (ae_dbl_text env) to_rec) req
                               ''Acces refuse sur la ressource cible.'' of
                          Some refusal \<Rightarrow> Inl refusal
                        | None \<Rightarrow> Inr (source_id, target_id)))))"

definition pivot_values :: "link_names \<Rightarrow> string \<Rightarrow> string \<Rightarrow> dynamic_record" where
  "pivot_values ln source_id target_id =
     tbl_put (ln_target_fk ln) (VString target_id) (tbl_put (ln_source_fk ln) (VString source_id) [])"

definition attach_handle ::
  "auth_env \<Rightarrow> 'r read_context \<Rightarrow> int \<Rightarrow> link_names \<Rightarrow> string \<Rightarrow> string \<Rightarrow> request \<Rightarrow> reply \<Rightarrow> 'r \<Rightarrow> reply \<times> 'r" where
  "attach_handle env ctx now ln id_param target_param req rep st =
     (case link_ends env ctx now ln id_param target_param req st of
        Inl refusal \<Rightarrow> (refusal, st)
      | Inr (source_id, target_id) \<Rightarrow>
          if po_exists (rx_pivots ctx) st (ln_pivot ln) (pivot_values ln source_id target_id)
          then (make_error_reply (ae_dump env) 409 ''CONFLICT'' ''Association deja existante.'', st)
          else case repo_insert_pivot (rx_repo ctx) st (ln_pivot ln) (pivot_values ln source_id target_id) of
            (inserted, st') \<Rightarrow>
              if \<not> inserted then (internal_error env, st')
              else (json_reply env 201
                      (JObject [(''status'', JString ''associated''), (''source_id'', JString source_id),
                         (''target_id'', JString target_id)]) rep, st'))"

definition detach_handle ::
  "auth_env \<Rightarrow> 'r read_context \<Rightarrow> int \<Rightarrow> link_names \<Rightarrow> string \<Rightarrow> string \<Rightarrow> request \<Rightarrow> reply \<Rightarrow> 'r \<Rightarrow> reply \<times> 'r" where
  "detach_handle env ctx now ln id_param target_param req rep st =
     (case link_ends env ctx now ln id_param target_param req st of
        Inl refusal \<Rightarrow> (refusal, st)
      | Inr (source_id, target_id) \<Rightarrow>
          (case po_delete (rx_pivots ctx) st (ln_pivot ln) (pivot_values ln source_id target_id) of
             (deleted, st') \<Rightarrow>
               if \<not> deleted then (not_found env ''Association inexistante.'', st')
               else (rep\<lparr>rep_status := 204\<rparr>, st')))"

section \<open>The download of a file\<close>

definition safe_filename_char :: "char \<Rightarrow> char" where
  "safe_filename_char c =
     (if char_code c < 0x20 \<or> c = CHR 0x22 \<or> c = CHR 0x5C then CHR ''_''
      else if 0x7E < char_code c then CHR ''?'' else c)"

definition build_content_disposition :: "string \<Rightarrow> string" where
  "build_content_disposition original_name = ''inline; filename='' @ dquoted (map safe_filename_char original_name)"

definition served_file :: "auth_env \<Rightarrow> file_metadata \<Rightarrow> string \<Rightarrow> reply \<Rightarrow> reply" where
  "served_file env meta content rep =
     \<lparr>rep_status = 200,
      rep_headers = ae_add_header env ''Content-Type''
          (if fm_mime_type meta = [] then ''application/octet-stream'' else fm_mime_type meta)
          (ae_add_header env ''Content-Disposition'' (build_content_disposition (fm_original_name meta)) (rep_headers rep)),
      rep_content = content\<rparr>"

definition file_of_field ::
  "auth_env \<Rightarrow> ('r, 'f) file_layer \<Rightarrow> dynamic_value option \<Rightarrow> reply \<Rightarrow> ('r, 'f) service_state \<Rightarrow> reply" where
  "file_of_field env fl v rep st =
     (case v of
        None \<Rightarrow> not_found env ''Champ vide sur ce record.''
      | Some (VString uuid) \<Rightarrow>
          if uuid = [] then not_found env ''Aucun fichier attache.''
          else (case download (fl_repo fl) (fl_ops fl) uuid st of
                  Inl what \<Rightarrow> not_found env ''Fichier physique introuvable.''
                | Inr None \<Rightarrow> not_found env ''Fichier introuvable.''
                | Inr (Some (meta, content)) \<Rightarrow> served_file env meta content rep)
      | Some VNone \<Rightarrow> not_found env ''Aucun fichier attache.''
      | Some _ \<Rightarrow> internal_error env)"

definition download_handle ::
  "auth_env \<Rightarrow> 'r read_context \<Rightarrow> ('r, 'f) file_layer \<Rightarrow> int \<Rightarrow> string \<Rightarrow> string \<Rightarrow> string \<Rightarrow> request \<Rightarrow> reply
   \<Rightarrow> ('r, 'f) service_state \<Rightarrow> reply" where
  "download_handle env ctx fl now en field_name id_param req rep st =
     (let rid = strip_leading_slash id_param in
      if rid = [] then missing_parameter env ''id''
      else case registry_find_entity (rx_registry ctx) en of
        None \<Rightarrow> not_found env ''Entite inconnue.''
      | Some e \<Rightarrow>
          if find_file_field e field_name = None then not_found env ''Champ inconnu ou non-file.''
          else (case crud_get_by_id (rx_repo ctx) (rx_registry ctx) (fst st) en rid of
                  None \<Rightarrow> not_found env ''Enregistrement introuvable.''
                | Some rec \<Rightarrow>
                    (case single_refusal env ctx now en GetById (record_to_json (ae_dbl_text env) rec) req ''Acces refuse.'' of
                       Some refusal \<Rightarrow> refusal
                     | None \<Rightarrow> file_of_field env fl (tbl_get rec field_name) rep st)))"

end
