(* ===== verification/Pagination_Query.thy ===== *)
theory Pagination_Query
  imports Read_Context Schema_Soundness
begin

text \<open>
  The query parameters of a listing (\<open>apps/Backend_Seastar/src/http/utils/pagination_query.{h,cpp}\<close>).
  \<open>qp\<close> is \<open>get_query_param\<close> of the request: the empty string for a parameter that is not there. \<open>Inl\<close>
  is the message of a refusal.
\<close>

section \<open>Numbers\<close>

text \<open>\<open>std::from_chars\<close> on the whole text: decimal digits that fit 64 bits.\<close>

definition parse_size_t :: "string \<Rightarrow> size option" where
  "parse_size_t s =
     (if s \<noteq> [] \<and> list_all is_digit s \<and> digits_value s < 2 ^ 64 then Some (of_nat (digits_value s)) else None)"

definition get_query_param :: "(string \<Rightarrow> string) \<Rightarrow> string \<Rightarrow> string option" where
  "get_query_param qp name = (if qp name = [] then None else Some (qp name))"

section \<open>Sorts\<close>

text \<open>The first sort of an expression: field and direction.\<close>

definition http_sort_expression :: "string \<Rightarrow> string list \<Rightarrow> string + string \<times> bool" where
  "http_sort_expression expression allow =
     (let first_one = trim_by is_space (before_char (CHR '','') expression) in
      if expression = [] \<or> first_one = [] then Inl (''L'' @ [CHR 0x27] @ ''expression de tri est vide.'')
      else case after_char (CHR '':'') first_one of
        None \<Rightarrow> Inl (''Tri mal forme : '' @ quoted first_one @ '' (attendu '' @ quoted ''field:asc'' @ '' ou ''
                  @ quoted ''field:desc'' @ '').'')
      | Some d \<Rightarrow>
          let fld = trim_by is_space (before_char (CHR '':'') first_one);
              dir = str_lower (trim_by is_space d)
          in if fld = [] then Inl ''Champ de tri vide.''
             else if dir \<noteq> ''asc'' \<and> dir \<noteq> ''desc''
             then Inl (''Direction de tri invalide : '' @ quoted dir @ '' (attendu '' @ quoted ''asc'' @ '' ou ''
                    @ quoted ''desc'' @ '').'')
             else if fld \<notin> set allow
             then Inl (''Le champ de tri '' @ quoted fld @ '' '' @ ''n'' @ [CHR 0x27]
                    @ ''est pas autorise (pas dans sortable_fields).'')
             else Inr (fld, dir = ''desc''))"

definition query_sort :: "(string \<Rightarrow> string) \<Rightarrow> string option \<Rightarrow> string list \<Rightarrow> string + string option \<times> bool" where
  "query_sort qp default_sort allow =
     (let expression = (case get_query_param qp ''sort'' of
            Some x \<Rightarrow> x
          | None \<Rightarrow> (case default_sort of Some x \<Rightarrow> x | None \<Rightarrow> []))
      in if expression = [] then Inr (None, False)
         else case http_sort_expression expression allow of
           Inl what \<Rightarrow> Inl (''Tri invalide : '' @ what)
         | Inr (fld, desc) \<Rightarrow> Inr (Some fld, desc))"

text \<open>A size with a maximum: \<open>page_size\<close> and \<open>limit\<close>.\<close>

definition query_size :: "(string \<Rightarrow> string) \<Rightarrow> string \<Rightarrow> size \<Rightarrow> size \<Rightarrow> string + size" where
  "query_size qp name default_size max_size =
     (case get_query_param qp name of
        None \<Rightarrow> Inr default_size
      | Some text \<Rightarrow>
          (case parse_size_t text of
             None \<Rightarrow> Inl (''Le parametre '' @ quoted name @ '' doit etre un entier positif.'')
           | Some n \<Rightarrow>
               if n = 0 then Inl (''Le parametre '' @ quoted name @ '' doit etre > 0.'')
               else if max_size < n
               then Inl (''Le parametre '' @ quoted name @ '' depasse le maximum autorise ('' @ nat_str (unat max_size) @ '').'')
               else Inr n))"

section \<open>The requests\<close>

definition query_page :: "(string \<Rightarrow> string) \<Rightarrow> string + size" where
  "query_page qp =
     (case get_query_param qp ''page'' of
        None \<Rightarrow> Inr 1
      | Some text \<Rightarrow>
          (case parse_size_t text of
             None \<Rightarrow> Inl (''Le parametre '' @ quoted ''page'' @ '' doit etre un entier positif.'')
           | Some n \<Rightarrow> if n < 1 then Inl (''Le parametre '' @ quoted ''page'' @ '' doit etre >= 1.'') else Inr n))"

definition parse_page_query :: "(string \<Rightarrow> string) \<Rightarrow> page_pagination \<Rightarrow> string + page_request" where
  "parse_page_query qp cfg =
     (case query_page qp of
        Inl what \<Rightarrow> Inl what
      | Inr p \<Rightarrow>
          (case query_size qp ''page_size'' (pg_default_page_size cfg) (pg_max_page_size cfg) of
             Inl what \<Rightarrow> Inl what
           | Inr n \<Rightarrow>
               (case query_sort qp (pg_default_sort cfg) (pg_sortable_fields cfg) of
                  Inl what \<Rightarrow> Inl what
                | Inr (fld, desc) \<Rightarrow>
                    Inr \<lparr>pr_page = p, pr_page_size = n, pr_sort_field = fld, pr_sort_desc = desc\<rparr>)))"

definition parse_offset_query :: "(string \<Rightarrow> string) \<Rightarrow> offset_pagination \<Rightarrow> string + offset_request" where
  "parse_offset_query qp cfg =
     (let offset = (case get_query_param qp ''offset'' of
            None \<Rightarrow> Some 0
          | Some text \<Rightarrow> parse_size_t text)
      in case offset of
        None \<Rightarrow> Inl (''Le parametre '' @ quoted ''offset'' @ '' doit etre un entier >= 0.'')
      | Some off \<Rightarrow>
          (case query_size qp ''limit'' (of_default_limit cfg) (of_max_limit cfg) of
             Inl what \<Rightarrow> Inl what
           | Inr n \<Rightarrow>
               (case query_sort qp (of_default_sort cfg) (of_sortable_fields cfg) of
                  Inl what \<Rightarrow> Inl what
                | Inr (fld, desc) \<Rightarrow>
                    Inr \<lparr>or_offset = off, or_limit = n, or_sort_field = fld, or_sort_desc = desc\<rparr>)))"

text \<open>The direction is the text behind the first colon of the configured sort.\<close>

definition parse_cursor_query :: "(string \<Rightarrow> string) \<Rightarrow> cursor_pagination \<Rightarrow> string + cursor_request" where
  "parse_cursor_query qp cfg =
     (case query_size qp ''limit'' (cu_default_limit cfg) (cu_max_limit cfg) of
        Inl what \<Rightarrow> Inl what
      | Inr n \<Rightarrow>
          Inr \<lparr>cr_after = get_query_param qp ''after'', cr_limit = n, cr_cursor_field = cu_cursor_field cfg,
            cr_sort_desc = (case after_char (CHR '':'') (cu_sort cfg) of
                None \<Rightarrow> False | Some d \<Rightarrow> str_lower d = ''desc'')\<rparr>)"

section \<open>Lemmas\<close>

lemma is_digit_not_sign: "is_digit c \<Longrightarrow> c \<noteq> CHR ''-'' \<and> c \<noteq> CHR ''+''"
  by (auto simp: is_digit_def char_code_def)

text \<open>A parameter that is absent or a decimal number between the bounds.\<close>

definition number_in :: "nat \<Rightarrow> nat \<Rightarrow> string \<Rightarrow> bool" where
  "number_in lo hi s \<longleftrightarrow> s = [] \<or> (list_all is_digit s \<and> lo \<le> digits_value s \<and> digits_value s \<le> hi)"

lemma of_nat_size [simp]: "n < 2 ^ 64 \<Longrightarrow> unat (of_nat n :: size) = n"
  by (simp add: unat_of_nat take_bit_nat_def)

lemma parse_size_t_number:
  "parse_size_t s = Some n \<longleftrightarrow> s \<noteq> [] \<and> list_all is_digit s \<and> digits_value s = unat n"
proof -
  have "unat n < 2 ^ 64" using unsigned_less [of n] by simp
  moreover have "of_nat (unat n) = n" by simp
  ultimately show ?thesis unfolding parse_size_t_def by (auto simp: unsigned_less)
qed

lemma query_size_accepts:
  "(\<exists>n. query_size qp name d m = Inr n) \<longleftrightarrow> number_in 1 (unat m) (qp name)"
proof (cases "qp name = []")
  case False
  have m: "unat m < 2 ^ 64" using unsigned_less [of m] by simp
  show ?thesis
  proof (cases "parse_size_t (qp name)")
    case None
    then have "\<not> number_in 1 (unat m) (qp name)"
      using False m unfolding parse_size_t_def number_in_def by (metis le_less_trans option.distinct(1))
    moreover have "\<nexists>n. query_size qp name d m = Inr n"
      using None False by (simp add: query_size_def get_query_param_def)
    ultimately show ?thesis by blast
  next
    case (Some n)
    then have v: "list_all is_digit (qp name)" "digits_value (qp name) = unat n" by (simp_all add: parse_size_t_number)
    have pos: "n \<noteq> 0 \<Longrightarrow> Suc 0 \<le> unat n" using unat_eq_0 [of n] by linarith
    show ?thesis
      using False Some v by (auto simp: query_size_def get_query_param_def number_in_def word_less_nat_alt intro: pos)
  qed
qed (simp add: query_size_def get_query_param_def number_in_def)

lemma query_page_accepts: "(\<exists>n. query_page qp = Inr n) \<longleftrightarrow> number_in 1 (2 ^ 64 - 1) (qp ''page'')"
proof (cases "qp ''page'' = []")
  case False
  show ?thesis
  proof (cases "parse_size_t (qp ''page'')")
    case None
    then have "\<not> number_in 1 (2 ^ 64 - 1) (qp ''page'')"
      using False unfolding parse_size_t_def number_in_def by (metis Suc_pred' less_Suc_eq_le option.distinct(1) zero_less_numeral zero_less_power)
    then show ?thesis using None False by (simp add: query_page_def get_query_param_def)
  next
    case (Some n)
    then have v: "list_all is_digit (qp ''page'')" "digits_value (qp ''page'') = unat n" by (simp_all add: parse_size_t_number)
    have "unat n < 2 ^ 64" using unsigned_less [of n] by simp
    then have small: "unat n \<le> 2 ^ 64 - 1" by linarith
    have "n < 1 \<longleftrightarrow> unat n = 0" by (simp add: word_less_nat_alt)
    then have "(\<exists>n. query_page qp = Inr n) \<longleftrightarrow> 1 \<le> unat n"
      using Some False by (auto simp: query_page_def get_query_param_def)
    then show ?thesis using v small False by (simp add: number_in_def)
  qed
qed (simp add: query_page_def get_query_param_def number_in_def)

lemma query_page_positive: "query_page qp = Inr n \<Longrightarrow> 0 < n"
  by (auto simp: query_page_def word_less_1 word_gt_0 split: option.splits if_splits)

lemma query_size_value:
  "query_size qp name d m = Inr n \<Longrightarrow> unat n = (if qp name = [] then unat d else digits_value (qp name))
    \<and> (qp name \<noteq> [] \<longrightarrow> 1 \<le> unat n \<and> unat n \<le> unat m)"
proof -
  have pos: "n \<noteq> 0 \<Longrightarrow> Suc 0 \<le> unat n" using unat_eq_0 [of n] by linarith
  show "query_size qp name d m = Inr n \<Longrightarrow> unat n = (if qp name = [] then unat d else digits_value (qp name))
    \<and> (qp name \<noteq> [] \<longrightarrow> 1 \<le> unat n \<and> unat n \<le> unat m)"
    by (auto simp: query_size_def get_query_param_def parse_size_t_number word_less_nat_alt not_less
        split: option.splits if_splits intro: pos)
qed

lemma http_sort_field: "http_sort_expression x allow = Inr (fld, desc) \<Longrightarrow> fld \<in> set allow"
  by (auto simp: http_sort_expression_def Let_def split: if_splits option.splits)

text \<open>A default sort that the validator of the schema accepts is accepted here.\<close>

lemma trim_ends:
  assumes "trim_by p s \<noteq> []"
  shows "\<not> p (hd (trim_by p s)) \<and> \<not> p (last (trim_by p s))"
proof -
  let ?d = "dropWhile p s"
  have "?d = trim_by p s @ rev (takeWhile p (rev ?d))"
    by (metis trim_by_def rev_append rev_rev_ident takeWhile_dropWhile_id)
  then have "hd ?d = hd (trim_by p s)" "?d \<noteq> []" using assms by (metis hd_append2, metis append_is_Nil_conv)
  then have "\<not> p (hd (trim_by p s))" by (metis hd_dropWhile dropWhile_eq_Nil_conv)
  moreover have "dropWhile p (rev ?d) \<noteq> []" "last (trim_by p s) = hd (dropWhile p (rev ?d))"
    using assms by (simp_all add: trim_by_def last_rev)
  ultimately show ?thesis by (metis hd_dropWhile dropWhile_eq_Nil_conv)
qed

lemma trim_fixed: "s = [] \<or> \<not> p (hd s) \<and> \<not> p (last s) \<Longrightarrow> trim_by p s = s"
proof -
  have front: "x = [] \<or> \<not> p (hd x) \<Longrightarrow> dropWhile p x = x" for x by (cases x) auto
  show "s = [] \<or> \<not> p (hd s) \<and> \<not> p (last s) \<Longrightarrow> trim_by p s = s"
    by (auto simp: trim_by_def front hd_rev)
qed

lemma trim_trim [simp]: "trim_by p (trim_by p s) = trim_by p s"
  by (rule trim_fixed) (use trim_ends in blast)

end
