(* ===== verification/Pagination_Handlers.thy ===== *)
theory Pagination_Handlers
  imports Pagination_Query
begin

text \<open>
  The listings by page, by window and by cursor
  (\<open>apps/Backend_Seastar/src/http/handlers/pagination_handler\<close>): \<open>page_handler\<close>, \<open>offset_handlers\<close> and
  \<open>cursor_handlers\<close>, five handlers each: an entity, the children of a parent, the children of the parent with
  a value, the targets of a many-to-many relation, a parent with its children. \<open>Inl\<close> is an exception that
  leaves the handler. \<open>qp\<close> is \<open>get_query_param\<close> of the request; the path parameters are arguments.
\<close>

section \<open>The envelopes\<close>

definition sort_member :: "string option \<Rightarrow> bool \<Rightarrow> string" where
  "sort_member fld desc =
     (case fld of
        None \<Rightarrow> []
      | Some f \<Rightarrow> '','' @ dquoted ''sort'' @ '':'' @ dquoted (json_escape f @ '':'' @ (if desc then ''desc'' else ''asc'')))"

definition number_member :: "string \<Rightarrow> size \<Rightarrow> string" where
  "number_member name n = '','' @ dquoted name @ '':'' @ nat_str (unat n)"

text \<open>The number of pages wraps as \<open>std::size_t\<close> does.\<close>

definition total_pages :: "size \<Rightarrow> size \<Rightarrow> size" where
  "total_pages rows page_size =
     (let n = (if 0 < page_size then (rows + page_size - 1) div page_size else 0) in
      if 0 < rows \<and> n = 0 then 1 else n)"

definition build_page_envelope :: "string \<Rightarrow> page_request \<Rightarrow> size \<Rightarrow> string" where
  "build_page_envelope items rq rows =
     ''{'' @ dquoted ''items'' @ '':'' @ items @ number_member ''page'' (pr_page rq)
     @ number_member ''page_size'' (pr_page_size rq) @ number_member ''total'' rows
     @ number_member ''total_pages'' (total_pages rows (pr_page_size rq))
     @ sort_member (pr_sort_field rq) (pr_sort_desc rq) @ ''}''"

definition build_offset_envelope :: "string \<Rightarrow> offset_request \<Rightarrow> size \<Rightarrow> string" where
  "build_offset_envelope items rq rows =
     ''{'' @ dquoted ''items'' @ '':'' @ items @ number_member ''offset'' (or_offset rq)
     @ number_member ''limit'' (or_limit rq) @ number_member ''total'' rows
     @ sort_member (or_sort_field rq) (or_sort_desc rq) @ ''}''"

definition build_cursor_envelope :: "string \<Rightarrow> cursor_request \<Rightarrow> string option \<Rightarrow> string" where
  "build_cursor_envelope items rq next_cursor =
     ''{'' @ dquoted ''items'' @ '':'' @ items @ number_member ''limit'' (cr_limit rq)
     @ (case next_cursor of
          None \<Rightarrow> []
        | Some c \<Rightarrow> '','' @ dquoted ''next_cursor'' @ '':'' @ dquoted (json_escape c)) @ ''}''"

text \<open>The parent with the envelope of its children: the closing brace goes when it is there.\<close>

definition nested_envelope :: "string \<Rightarrow> string \<Rightarrow> string \<Rightarrow> string" where
  "nested_envelope parent_json key envelope =
     (if parent_json \<noteq> [] \<and> last parent_json = CHR ''}'' then butlast parent_json else parent_json)
     @ '', '' @ dquoted (json_escape key) @ '': '' @ envelope @ ''}''"

section \<open>Pages\<close>

text \<open>The children among the rows of one page of their entity.\<close>

definition children_page ::
  "auth_env \<Rightarrow> 'r read_context \<Rightarrow> int \<Rightarrow> string \<Rightarrow> string \<Rightarrow> string \<Rightarrow> request \<Rightarrow> page_request \<Rightarrow> 'r \<Rightarrow> string + string" where
  "children_page env ctx now child_entity fk_column rid req rq st =
     map_sum id (\<lambda>page. build_page_envelope
         (filtered_listing env ctx now child_entity req (children_of fk_column rid (pres_items page))) rq (pres_total page))
       (ls_page (rx_lister ctx) st child_entity rq)"

definition list_page_handle ::
  "auth_env \<Rightarrow> 'r read_context \<Rightarrow> int \<Rightarrow> string \<Rightarrow> page_pagination \<Rightarrow> (string \<Rightarrow> string) \<Rightarrow> request \<Rightarrow> reply \<Rightarrow> 'r
   \<Rightarrow> string + reply" where
  "list_page_handle env ctx now en cfg qp req rep st =
     (case parse_page_query qp cfg of
        Inl what \<Rightarrow> Inr (bad_request env what)
      | Inr rq \<Rightarrow>
          map_sum id (\<lambda>page. text_reply env 200
              (build_page_envelope (filtered_listing env ctx now en req (pres_items page)) rq (pres_total page)) rep)
            (ls_page (rx_lister ctx) st en rq))"

definition list_by_fk_page_handle ::
  "auth_env \<Rightarrow> 'r read_context \<Rightarrow> int \<Rightarrow> string \<Rightarrow> string \<Rightarrow> page_pagination \<Rightarrow> string \<Rightarrow> (string \<Rightarrow> string) \<Rightarrow> request
   \<Rightarrow> reply \<Rightarrow> 'r \<Rightarrow> string + reply" where
  "list_by_fk_page_handle env ctx now child_entity fk_column cfg id_param qp req rep st =
     (let parent_id = strip_leading_slash id_param in
      if parent_id = [] then Inr (missing_parameter env ''id'')
      else case parse_page_query qp cfg of
        Inl what \<Rightarrow> Inr (bad_request env what)
      | Inr rq \<Rightarrow>
          map_sum id (\<lambda>envelope. text_reply env 200 envelope rep)
            (children_page env ctx now child_entity fk_column parent_id req rq st))"

definition list_by_fk_field_page_handle ::
  "auth_env \<Rightarrow> 'r read_context \<Rightarrow> int \<Rightarrow> string \<Rightarrow> string \<Rightarrow> string \<Rightarrow> string \<Rightarrow> page_pagination \<Rightarrow> string
   \<Rightarrow> (string \<Rightarrow> string) \<Rightarrow> request \<Rightarrow> reply \<Rightarrow> 'r \<Rightarrow> string + reply" where
  "list_by_fk_field_page_handle env ctx now child_entity parent_entity fk_column search_field cfg value_param qp req rep st =
     (let v = strip_leading_slash value_param in
      if v = [] then Inr (missing_parameter env ''value'')
      else case parse_page_query qp cfg of
        Inl what \<Rightarrow> Inr (bad_request env what)
      | Inr rq \<Rightarrow>
          (case find_parent_id (ae_dbl_text env) search_field v (crud_list (rx_repo ctx) (rx_registry ctx) st parent_entity) of
             None \<Rightarrow> Inr (not_found env ''Parent introuvable.'')
           | Some parent_id \<Rightarrow>
               map_sum id (\<lambda>envelope. text_reply env 200 envelope rep)
                 (children_page env ctx now child_entity fk_column parent_id req rq st)))"

text \<open>The targets of a page: the offset of the page wraps.\<close>

definition page_of_targets :: "page_request \<Rightarrow> 'a list \<Rightarrow> string + 'a list" where
  "page_of_targets rq targets =
     (let page = (if 0 < pr_page rq then pr_page rq else 1);
          offset = (page - 1) * pr_page_size rq;
          total = of_nat (length targets)
      in if offset < total \<and> 0 < pr_page_size rq
         then take_rows offset (min (offset + pr_page_size rq) total) targets
         else Inr [])"

definition list_many_to_many_page_handle ::
  "auth_env \<Rightarrow> 'r read_context \<Rightarrow> int \<Rightarrow> string \<Rightarrow> string \<Rightarrow> string \<Rightarrow> string \<Rightarrow> page_pagination \<Rightarrow> string
   \<Rightarrow> (string \<Rightarrow> string) \<Rightarrow> request \<Rightarrow> reply \<Rightarrow> 'r \<Rightarrow> string + reply" where
  "list_many_to_many_page_handle env ctx now target_entity pivot source_fk target_fk cfg id_param qp req rep st =
     (let source_id = strip_leading_slash id_param in
      if source_id = [] then Inr (missing_parameter env ''id'')
      else case parse_page_query qp cfg of
        Inl what \<Rightarrow> Inr (bad_request env what)
      | Inr rq \<Rightarrow>
          let targets = linked_targets env ctx st target_entity pivot source_fk target_fk source_id in
          map_sum id (\<lambda>items. text_reply env 200
              (build_page_envelope (filtered_listing env ctx now target_entity req items) rq (of_nat (length targets))) rep)
            (page_of_targets rq targets))"

definition get_with_children_page_handle ::
  "auth_env \<Rightarrow> 'r read_context \<Rightarrow> int \<Rightarrow> string \<Rightarrow> string \<Rightarrow> string \<Rightarrow> string \<Rightarrow> page_pagination \<Rightarrow> string
   \<Rightarrow> (string \<Rightarrow> string) \<Rightarrow> request \<Rightarrow> reply \<Rightarrow> 'r \<Rightarrow> string + reply" where
  "get_with_children_page_handle env ctx now parent_entity child_entity fk_column children_key cfg id_param qp req rep st =
     (let rid = strip_leading_slash id_param in
      if rid = [] then Inr (missing_parameter env ''id'')
      else case parse_page_query qp cfg of
        Inl what \<Rightarrow> Inr (bad_request env what)
      | Inr rq \<Rightarrow>
          (case crud_get_by_id (rx_repo ctx) (rx_registry ctx) st parent_entity rid of
             None \<Rightarrow> Inr (not_found env ''Parent introuvable.'')
           | Some parent \<Rightarrow>
               let parent_json = record_to_json (ae_dbl_text env) parent in
               (case single_refusal env ctx now parent_entity GetById parent_json req ''Acces refuse.'' of
                  Some refusal \<Rightarrow> Inr refusal
                | None \<Rightarrow>
                    map_sum id (\<lambda>envelope. text_reply env 200 (nested_envelope parent_json children_key envelope) rep)
                      (children_page env ctx now child_entity fk_column rid req rq st))))"

section \<open>Windows\<close>

definition children_window ::
  "auth_env \<Rightarrow> 'r read_context \<Rightarrow> int \<Rightarrow> string \<Rightarrow> string \<Rightarrow> string \<Rightarrow> request \<Rightarrow> offset_request \<Rightarrow> 'r \<Rightarrow> string + string" where
  "children_window env ctx now child_entity fk_column rid req rq st =
     map_sum id (\<lambda>page. build_offset_envelope
         (filtered_listing env ctx now child_entity req (children_of fk_column rid (ores_items page))) rq (ores_total page))
       (ls_offset (rx_lister ctx) st child_entity rq)"

definition list_offset_handle ::
  "auth_env \<Rightarrow> 'r read_context \<Rightarrow> int \<Rightarrow> string \<Rightarrow> offset_pagination \<Rightarrow> (string \<Rightarrow> string) \<Rightarrow> request \<Rightarrow> reply \<Rightarrow> 'r
   \<Rightarrow> string + reply" where
  "list_offset_handle env ctx now en cfg qp req rep st =
     (case parse_offset_query qp cfg of
        Inl what \<Rightarrow> Inr (bad_request env what)
      | Inr rq \<Rightarrow>
          map_sum id (\<lambda>page. text_reply env 200
              (build_offset_envelope (filtered_listing env ctx now en req (ores_items page)) rq (ores_total page)) rep)
            (ls_offset (rx_lister ctx) st en rq))"

definition list_by_fk_offset_handle ::
  "auth_env \<Rightarrow> 'r read_context \<Rightarrow> int \<Rightarrow> string \<Rightarrow> string \<Rightarrow> offset_pagination \<Rightarrow> string \<Rightarrow> (string \<Rightarrow> string) \<Rightarrow> request
   \<Rightarrow> reply \<Rightarrow> 'r \<Rightarrow> string + reply" where
  "list_by_fk_offset_handle env ctx now child_entity fk_column cfg id_param qp req rep st =
     (let parent_id = strip_leading_slash id_param in
      if parent_id = [] then Inr (missing_parameter env ''id'')
      else case parse_offset_query qp cfg of
        Inl what \<Rightarrow> Inr (bad_request env what)
      | Inr rq \<Rightarrow>
          map_sum id (\<lambda>envelope. text_reply env 200 envelope rep)
            (children_window env ctx now child_entity fk_column parent_id req rq st))"

definition list_by_fk_field_offset_handle ::
  "auth_env \<Rightarrow> 'r read_context \<Rightarrow> int \<Rightarrow> string \<Rightarrow> string \<Rightarrow> string \<Rightarrow> string \<Rightarrow> offset_pagination \<Rightarrow> string
   \<Rightarrow> (string \<Rightarrow> string) \<Rightarrow> request \<Rightarrow> reply \<Rightarrow> 'r \<Rightarrow> string + reply" where
  "list_by_fk_field_offset_handle env ctx now child_entity parent_entity fk_column search_field cfg value_param qp req rep st =
     (let v = strip_leading_slash value_param in
      if v = [] then Inr (missing_parameter env ''value'')
      else case parse_offset_query qp cfg of
        Inl what \<Rightarrow> Inr (bad_request env what)
      | Inr rq \<Rightarrow>
          (case find_parent_id (ae_dbl_text env) search_field v (crud_list (rx_repo ctx) (rx_registry ctx) st parent_entity) of
             None \<Rightarrow> Inr (not_found env ''Parent introuvable.'')
           | Some parent_id \<Rightarrow>
               map_sum id (\<lambda>envelope. text_reply env 200 envelope rep)
                 (children_window env ctx now child_entity fk_column parent_id req rq st)))"

definition window_of_targets :: "offset_request \<Rightarrow> 'a list \<Rightarrow> string + 'a list" where
  "window_of_targets rq targets =
     (let total = of_nat (length targets) in
      if or_offset rq < total \<and> 0 < or_limit rq
      then take_rows (or_offset rq) (min (or_offset rq + or_limit rq) total) targets
      else Inr [])"

definition list_many_to_many_offset_handle ::
  "auth_env \<Rightarrow> 'r read_context \<Rightarrow> int \<Rightarrow> string \<Rightarrow> string \<Rightarrow> string \<Rightarrow> string \<Rightarrow> offset_pagination \<Rightarrow> string
   \<Rightarrow> (string \<Rightarrow> string) \<Rightarrow> request \<Rightarrow> reply \<Rightarrow> 'r \<Rightarrow> string + reply" where
  "list_many_to_many_offset_handle env ctx now target_entity pivot source_fk target_fk cfg id_param qp req rep st =
     (let source_id = strip_leading_slash id_param in
      if source_id = [] then Inr (missing_parameter env ''id'')
      else case parse_offset_query qp cfg of
        Inl what \<Rightarrow> Inr (bad_request env what)
      | Inr rq \<Rightarrow>
          let targets = linked_targets env ctx st target_entity pivot source_fk target_fk source_id in
          map_sum id (\<lambda>items. text_reply env 200
              (build_offset_envelope (filtered_listing env ctx now target_entity req items) rq (of_nat (length targets))) rep)
            (window_of_targets rq targets))"

definition get_with_children_offset_handle ::
  "auth_env \<Rightarrow> 'r read_context \<Rightarrow> int \<Rightarrow> string \<Rightarrow> string \<Rightarrow> string \<Rightarrow> string \<Rightarrow> offset_pagination \<Rightarrow> string
   \<Rightarrow> (string \<Rightarrow> string) \<Rightarrow> request \<Rightarrow> reply \<Rightarrow> 'r \<Rightarrow> string + reply" where
  "get_with_children_offset_handle env ctx now parent_entity child_entity fk_column children_key cfg id_param qp req rep st =
     (let rid = strip_leading_slash id_param in
      if rid = [] then Inr (missing_parameter env ''id'')
      else case parse_offset_query qp cfg of
        Inl what \<Rightarrow> Inr (bad_request env what)
      | Inr rq \<Rightarrow>
          (case crud_get_by_id (rx_repo ctx) (rx_registry ctx) st parent_entity rid of
             None \<Rightarrow> Inr (not_found env ''Parent introuvable.'')
           | Some parent \<Rightarrow>
               let parent_json = record_to_json (ae_dbl_text env) parent in
               (case single_refusal env ctx now parent_entity GetById parent_json req ''Acces refuse.'' of
                  Some refusal \<Rightarrow> Inr refusal
                | None \<Rightarrow>
                    map_sum id (\<lambda>envelope. text_reply env 200 (nested_envelope parent_json children_key envelope) rep)
                      (children_window env ctx now child_entity fk_column rid req rq st))))"

section \<open>Cursors\<close>

definition extract_cursor_value :: "dynamic_record \<Rightarrow> string \<Rightarrow> string option" where
  "extract_cursor_value row fld = (case tbl_get row fld of None \<Rightarrow> None | Some v \<Rightarrow> http_value_to_string_id v)"

text \<open>The next cursor of a page whose rows were filtered: the value of the last row that was kept.\<close>

definition refined_cursor :: "string \<Rightarrow> cursor_result \<Rightarrow> dynamic_record list \<Rightarrow> string option" where
  "refined_cursor fld page kept =
     (if cres_next_cursor page \<noteq> None \<and> kept \<noteq> [] then extract_cursor_value (last kept) fld else None)"

definition children_cursor ::
  "auth_env \<Rightarrow> 'r read_context \<Rightarrow> int \<Rightarrow> string \<Rightarrow> string \<Rightarrow> cursor_pagination \<Rightarrow> string \<Rightarrow> request \<Rightarrow> cursor_request \<Rightarrow> 'r
   \<Rightarrow> string + string" where
  "children_cursor env ctx now child_entity fk_column cfg rid req rq st =
     map_sum id (\<lambda>page. let kept = children_of fk_column rid (cres_items page) in
         build_cursor_envelope (filtered_listing env ctx now child_entity req kept) rq
           (refined_cursor (cu_cursor_field cfg) page kept))
       (ls_cursor (rx_lister ctx) st child_entity rq)"

definition list_cursor_handle ::
  "auth_env \<Rightarrow> 'r read_context \<Rightarrow> int \<Rightarrow> string \<Rightarrow> cursor_pagination \<Rightarrow> (string \<Rightarrow> string) \<Rightarrow> request \<Rightarrow> reply \<Rightarrow> 'r
   \<Rightarrow> string + reply" where
  "list_cursor_handle env ctx now en cfg qp req rep st =
     (case parse_cursor_query qp cfg of
        Inl what \<Rightarrow> Inr (bad_request env what)
      | Inr rq \<Rightarrow>
          map_sum id (\<lambda>page. text_reply env 200
              (build_cursor_envelope (filtered_listing env ctx now en req (cres_items page)) rq (cres_next_cursor page)) rep)
            (ls_cursor (rx_lister ctx) st en rq))"

definition list_by_fk_cursor_handle ::
  "auth_env \<Rightarrow> 'r read_context \<Rightarrow> int \<Rightarrow> string \<Rightarrow> string \<Rightarrow> cursor_pagination \<Rightarrow> string \<Rightarrow> (string \<Rightarrow> string) \<Rightarrow> request
   \<Rightarrow> reply \<Rightarrow> 'r \<Rightarrow> string + reply" where
  "list_by_fk_cursor_handle env ctx now child_entity fk_column cfg id_param qp req rep st =
     (let parent_id = strip_leading_slash id_param in
      if parent_id = [] then Inr (missing_parameter env ''id'')
      else case parse_cursor_query qp cfg of
        Inl what \<Rightarrow> Inr (bad_request env what)
      | Inr rq \<Rightarrow>
          map_sum id (\<lambda>envelope. text_reply env 200 envelope rep)
            (children_cursor env ctx now child_entity fk_column cfg parent_id req rq st))"

definition list_by_fk_field_cursor_handle ::
  "auth_env \<Rightarrow> 'r read_context \<Rightarrow> int \<Rightarrow> string \<Rightarrow> string \<Rightarrow> string \<Rightarrow> string \<Rightarrow> cursor_pagination \<Rightarrow> string
   \<Rightarrow> (string \<Rightarrow> string) \<Rightarrow> request \<Rightarrow> reply \<Rightarrow> 'r \<Rightarrow> string + reply" where
  "list_by_fk_field_cursor_handle env ctx now child_entity parent_entity fk_column search_field cfg value_param qp req rep st =
     (let v = strip_leading_slash value_param in
      if v = [] then Inr (missing_parameter env ''value'')
      else case parse_cursor_query qp cfg of
        Inl what \<Rightarrow> Inr (bad_request env what)
      | Inr rq \<Rightarrow>
          (case find_parent_id (ae_dbl_text env) search_field v (crud_list (rx_repo ctx) (rx_registry ctx) st parent_entity) of
             None \<Rightarrow> Inr (not_found env ''Parent introuvable.'')
           | Some parent_id \<Rightarrow>
               map_sum id (\<lambda>envelope. text_reply env 200 envelope rep)
                 (children_cursor env ctx now child_entity fk_column cfg parent_id req rq st)))"

text \<open>The order of the targets, on the texts of their cursor values.\<close>

definition cursor_before :: "string \<Rightarrow> bool \<Rightarrow> dynamic_record \<Rightarrow> dynamic_record \<Rightarrow> bool" where
  "cursor_before fld desc a b =
     (case (extract_cursor_value a fld, extract_cursor_value b fld) of
        (None, None) \<Rightarrow> False
      | (None, Some _) \<Rightarrow> \<not> desc
      | (Some _, None) \<Rightarrow> desc
      | (Some x, Some y) \<Rightarrow> if desc then str_less y x else str_less x y)"

text \<open>The first target behind the cursor; targets without a value are passed over, and only a last target with
  one moves the start to the end.\<close>

fun target_start :: "string \<Rightarrow> bool \<Rightarrow> string \<Rightarrow> dynamic_record list \<Rightarrow> nat \<Rightarrow> nat" where
  "target_start fld desc after [] i = 0"
| "target_start fld desc after (row # rows) i =
     (case extract_cursor_value row fld of
        None \<Rightarrow> target_start fld desc after rows (Suc i)
      | Some v \<Rightarrow>
          if (if desc then str_less v after else str_less after v) then i
          else if rows = [] then Suc i
          else target_start fld desc after rows (Suc i))"

definition cursor_of_targets :: "cursor_request \<Rightarrow> dynamic_record list \<Rightarrow> string + dynamic_record list \<times> string option" where
  "cursor_of_targets rq targets =
     (let sorted_targets = std_sort (cursor_before (cr_cursor_field rq) (cr_sort_desc rq)) targets;
          total = of_nat (length sorted_targets) :: size;
          start = (case cr_after rq of
              None \<Rightarrow> 0
            | Some after \<Rightarrow> of_nat (target_start (cr_cursor_field rq) (cr_sort_desc rq) after sorted_targets 0))
      in map_sum id (\<lambda>items.
             (items, if start + of_nat (length items) < total \<and> items \<noteq> []
                     then extract_cursor_value (last items) (cr_cursor_field rq) else None))
           (if start < total \<and> 0 < cr_limit rq
            then take_rows start (min (start + cr_limit rq) total) sorted_targets
            else Inr []))"

definition list_many_to_many_cursor_handle ::
  "auth_env \<Rightarrow> 'r read_context \<Rightarrow> int \<Rightarrow> string \<Rightarrow> string \<Rightarrow> string \<Rightarrow> string \<Rightarrow> cursor_pagination \<Rightarrow> string
   \<Rightarrow> (string \<Rightarrow> string) \<Rightarrow> request \<Rightarrow> reply \<Rightarrow> 'r \<Rightarrow> string + reply" where
  "list_many_to_many_cursor_handle env ctx now target_entity pivot source_fk target_fk cfg id_param qp req rep st =
     (let source_id = strip_leading_slash id_param in
      if source_id = [] then Inr (missing_parameter env ''id'')
      else case parse_cursor_query qp cfg of
        Inl what \<Rightarrow> Inr (bad_request env what)
      | Inr rq \<Rightarrow>
          map_sum id (\<lambda>(items, next_cursor). text_reply env 200
              (build_cursor_envelope (filtered_listing env ctx now target_entity req items) rq next_cursor) rep)
            (cursor_of_targets rq (linked_targets env ctx st target_entity pivot source_fk target_fk source_id)))"

definition get_with_children_cursor_handle ::
  "auth_env \<Rightarrow> 'r read_context \<Rightarrow> int \<Rightarrow> string \<Rightarrow> string \<Rightarrow> string \<Rightarrow> string \<Rightarrow> cursor_pagination \<Rightarrow> string
   \<Rightarrow> (string \<Rightarrow> string) \<Rightarrow> request \<Rightarrow> reply \<Rightarrow> 'r \<Rightarrow> string + reply" where
  "get_with_children_cursor_handle env ctx now parent_entity child_entity fk_column children_key cfg id_param qp req rep st =
     (let rid = strip_leading_slash id_param in
      if rid = [] then Inr (missing_parameter env ''id'')
      else case parse_cursor_query qp cfg of
        Inl what \<Rightarrow> Inr (bad_request env what)
      | Inr rq \<Rightarrow>
          (case crud_get_by_id (rx_repo ctx) (rx_registry ctx) st parent_entity rid of
             None \<Rightarrow> Inr (not_found env ''Parent introuvable.'')
           | Some parent \<Rightarrow>
               let parent_json = record_to_json (ae_dbl_text env) parent in
               (case single_refusal env ctx now parent_entity GetById parent_json req ''Acces refuse.'' of
                  Some refusal \<Rightarrow> Inr refusal
                | None \<Rightarrow>
                    map_sum id (\<lambda>envelope. text_reply env 200 (nested_envelope parent_json children_key envelope) rep)
                      (children_cursor env ctx now child_entity fk_column cfg rid req rq st))))"

end
