(* ===== verification/Listing_Properties.thy ===== *)
theory Listing_Properties
  imports Relation_Handlers Pagination_Handlers Memory_Properties Write_Properties
begin

text \<open>
  The properties of listings and relations: which page requests are accepted, the children of a parent
  page by page, links of many-to-many relations, the download of a file, and two gaps of cursors.
\<close>

section \<open>Lemmas behind the properties\<close>

text \<open>The first sort of an expression that the validator of schemas accepts is accepted by the listing.\<close>

definition sort_request_ok :: "string list \<Rightarrow> string \<Rightarrow> bool" where
  "sort_request_ok allow expression \<longleftrightarrow>
     (let part = trim_by is_space (before_char (CHR '','') expression) in
      case after_char (CHR '':'') part of
        None \<Rightarrow> False
      | Some d \<Rightarrow>
          trim_by is_space (before_char (CHR '':'') part) \<in> set allow - {[]}
          \<and> str_lower (trim_by is_space d) \<in> {''asc'', ''desc''})"

lemma before_after_nil: "after_char c [] = None"
  by (simp add: after_char_def)

lemma sort_accepts:
  "expression \<noteq> [] \<Longrightarrow> (\<exists>r. http_sort_expression expression allow = Inr r) \<longleftrightarrow> sort_request_ok allow expression"
  by (auto simp: http_sort_expression_def sort_request_ok_def Let_def before_after_nil split: option.splits)

lemma parse_sort_loop_keeps: "parse_sort_loop sv tokens = Some ts \<Longrightarrow> take (length tokens) ts = tokens"
proof (induction sv tokens arbitrary: ts rule: parse_sort_loop.induct)
  case (1 sv tokens)
  let ?part = "trim_by is_space (before_char (CHR '','') sv)"
  consider "ts = tokens" | tok where "ts = tokens @ [tok]"
    | tok rest where "sv \<noteq> []" "?part \<noteq> []" "parse_sort_token ?part = Some tok" "after_char (CHR '','') sv = Some rest"
      "parse_sort_loop rest (tokens @ [tok]) = Some ts"
    using 1(2) parse_sort_loop.simps [of sv tokens] by (auto simp: Let_def split: if_splits option.splits)
  then show ?case
  proof cases
    case 3
    from 1(1) [OF 3(1) refl 3(2-5)] have "take (length tokens) (take (Suc (length tokens)) ts) = tokens" by simp
    then show ?thesis by simp
  qed simp_all
qed

lemma first_sort_token:
  assumes "parse_sort_expression expression = Some tokens" and "expression \<noteq> []"
  obtains tok rest where "parse_sort_token (trim_by is_space (before_char (CHR '','') expression)) = Some tok" "tokens = tok # rest"
proof -
  let ?part = "trim_by is_space (before_char (CHR '','') expression)"
  from assms obtain tok where tok: "parse_sort_token ?part = Some tok"
    unfolding parse_sort_expression_def
    by (subst (asm) parse_sort_loop.simps) (auto simp: Let_def split: if_splits option.splits)
  have "tokens = [tok] \<or> (\<exists>rest. parse_sort_loop rest [tok] = Some tokens)"
    using assms tok unfolding parse_sort_expression_def
    by (subst (asm) parse_sort_loop.simps) (auto simp: Let_def split: if_splits option.splits)
  then have "take 1 tokens = [tok]" using parse_sort_loop_keeps by fastforce
  then show thesis using that tok by (cases tokens) auto
qed

lemma trim_none: "\<forall>c \<in> set v. \<not> p c \<Longrightarrow> trim_by p v = v"
  by (rule trim_fixed) (metis hd_in_set last_in_set)

lemma letters_no_space:
  assumes "str_lower d \<in> {''asc'', ''desc''}" and "c \<in> set d"
  shows "\<not> is_space c"
proof
  assume c: "is_space c"
  have "char_lower c \<in> set (str_lower d)" using assms(2) by (simp add: str_lower_def)
  moreover have "char_lower c = c" using c by (auto simp: char_lower_def is_space_def is_upper_def)
  ultimately have "c \<in> {CHR ''a'', CHR ''s'', CHR ''c'', CHR ''d'', CHR ''e''}" using assms(1) by auto
  then show False using c by (auto simp: is_space_def char_code_def)
qed

lemma identifier_no_space: "identifier_ok v \<Longrightarrow> c \<in> set v \<Longrightarrow> \<not> is_space c"
  by (auto simp: identifier_ok_def is_alnum_def is_alpha_def is_upper_def is_lower_def is_digit_def is_space_def char_code_def)

lemma validated_sort:
  assumes "fields_ok (e_fields e)" and "sort_ok e (Some allow) expression" and "expression \<noteq> []"
  shows "sort_request_ok allow expression"
proof -
  let ?part = "trim_by is_space (before_char (CHR '','') expression)"
  obtain tokens where t: "parse_sort_expression expression = Some tokens"
    "\<forall>t \<in> set tokens. has_field e (st_field t) \<and> st_field t \<in> set allow"
    using assms(2) by (auto simp: sort_ok_def split: option.splits)
  from t(1) assms(3) obtain tok rest where tok: "parse_sort_token ?part = Some tok" "tokens = tok # rest"
    by (rule first_sort_token)
  then obtain d where d: "after_char (CHR '':'') ?part = Some d" "before_char (CHR '':'') ?part = st_field tok"
    "st_field tok \<noteq> []" "str_lower d \<in> {''asc'', ''desc''}"
    by (auto simp: parse_sort_token_def Let_def split: option.splits if_splits)
  have "has_field e (st_field tok)" "st_field tok \<in> set allow" using t(2) tok(2) by simp_all
  then have "identifier_ok (st_field tok)"
    using assms(1) find_field_name unfolding has_field_def fields_ok_def by (metis option.exhaust)
  then have "trim_by is_space (st_field tok) = st_field tok" by (intro trim_none) (auto dest: identifier_no_space)
  moreover have "trim_by is_space d = d" using letters_no_space [OF d(4)] by (intro trim_none) blast
  ultimately show ?thesis
    using d \<open>st_field tok \<in> set allow\<close> by (simp add: sort_request_ok_def Let_def)
qed

lemma query_sort_accepts:
  assumes "fields_ok (e_fields e)" and "sortable_ok e srt allow"
  shows "(\<exists>r. query_sort qp srt allow = Inr r) \<longleftrightarrow> qp ''sort'' = [] \<or> sort_request_ok allow (qp ''sort'')"
proof -
  have default: "srt = Some x \<Longrightarrow> x \<noteq> [] \<Longrightarrow> \<exists>r. http_sort_expression x allow = Inr r" for x
    using assms validated_sort sort_accepts by (auto simp: sortable_ok_def)
  show ?thesis
  proof (cases "qp ''sort'' = []")
    case True
    have "\<exists>r. query_sort qp srt allow = Inr r"
    proof (cases srt)
      case (Some x)
      then show ?thesis using True default [of x] by (cases "x = []") (auto simp: query_sort_def get_query_param_def)
    qed (auto simp: query_sort_def get_query_param_def True)
    then show ?thesis using True by blast
  next
    case False
    then show ?thesis
      unfolding sort_accepts [OF False, symmetric] query_sort_def get_query_param_def Let_def
      by (auto split: sum.splits prod.splits)
  qed
qed

lemma query_sort_field:
  assumes "sortable_ok e srt allow" and "query_sort qp srt allow = Inr (Some fld, desc)"
  shows "fld \<in> set allow \<and> has_field e fld"
  using assms by (auto simp: query_sort_def Let_def sortable_ok_def dest: http_sort_field
      split: option.splits sum.splits prod.splits if_splits)

text \<open>The rows of a memory table after a pivot row was put there.\<close>

lemma update_again: "map_of al k = Some v \<Longrightarrow> tbl_put k v al = al"
  by (induction al) auto

lemma put_listed: "v \<in> snd ` set (tbl_put k v al)"
  by (induction al) auto

lemma pivot_row_listed:
  "snd (mem_insert_pivot st t values) = st' \<Longrightarrow> values \<in> set (mem_find_all st' t)
    \<and> (\<forall>en. en \<noteq> t \<longrightarrow> entity_storage st' en = entity_storage st en)
    \<and> mem_insert_pivot st' t values = (True, st')"
  by (auto simp: mem_insert_pivot_def find_all_entity_storage entity_storage_def update_again put_listed)

lemma link_ends_found:
  assumes "link_ends env ctx now ln id_param target_param req st = Inr (source_id, target_id)"
  shows "source_id = strip_leading_slash id_param \<and> target_id = strip_leading_slash target_param
    \<and> source_id \<noteq> [] \<and> target_id \<noteq> []
    \<and> (\<exists>tgt. crud_get_by_id (rx_repo ctx) (rx_registry ctx) st (ln_target ln) target_id = Some tgt)"
  using assms by (auto simp: link_ends_def Let_def split: if_splits option.splits)

lemma single_refusal_status: "single_refusal env ctx now en oper text req why = Some r \<Longrightarrow> rep_status r = 403"
  by (auto simp: single_refusal_def Let_def make_error_reply_def split: option.splits prod.splits if_splits)

lemma link_ends_refusal:
  "link_ends env ctx now ln id_param target_param req st = Inl r \<Longrightarrow> rep_status r \<in> {400, 403, 404}"
  by (auto simp: link_ends_def Let_def bad_request_def not_found_def make_error_reply_def
      split: if_splits option.splits dest: single_refusal_status)

lemma targetI:
  assumes "row \<in> set rows" and "map_of row source_fk = Some (VString sid)" and "map_of row target_fk = Some (VString tid)"
  shows "tid \<in> set (pivot_targets dbl_text source_fk target_fk sid rows)"
  using assms by (force simp: pivot_targets_def map_filter_def image_iff)

text \<open>A file name never leaves the quotes of the disposition.\<close>

lemma safe_char: "0x20 \<le> char_code (safe_filename_char c) \<and> char_code (safe_filename_char c) \<le> 0x7E
    \<and> safe_filename_char c \<noteq> CHR 0x22"
  by (auto simp: safe_filename_char_def char_code_def)

lemma disposition_safe:
  "list_all (\<lambda>c. 0x20 \<le> char_code c \<and> char_code c \<le> 0x7E) (build_content_disposition n)
    \<and> filter (\<lambda>c. c = CHR 0x22) (build_content_disposition n) = [CHR 0x22, CHR 0x22]"
  using safe_char by (auto simp: build_content_disposition_def dquoted_def list_all_iff char_code_def filter_empty_conv)

text \<open>Two gaps of cursors. A last target without a value makes the cursor stay where it is: the client that
  asks for what follows its cursor gets the same target and the same cursor again.\<close>

lemma cursor_of_targets_stalls:
  "cursor_of_targets \<lparr>cr_after = None, cr_limit = 1, cr_cursor_field = ''at'', cr_sort_desc = True\<rparr>
     [[(''at'', VString ''1'')], [(''at'', VString ''2'')], []]
   = Inr ([[(''at'', VString ''2'')]], Some ''2'')"
  "cursor_of_targets \<lparr>cr_after = Some ''1'', cr_limit = 1, cr_cursor_field = ''at'', cr_sort_desc = True\<rparr>
     [[(''at'', VString ''1'')], [(''at'', VString ''2'')], []]
   = Inr ([[(''at'', VString ''2'')]], Some ''2'')"
  by code_simp+

text \<open>The direction of a cursor is read behind the first colon to the end of the sort, so a second key of the sort,
  which the validator accepts, turns a descending listing into an ascending one.\<close>

lemma cursor_direction_of_two_keys:
  assumes "qp ''limit'' = []" and "cu_sort cfg = ''at:desc,id:desc''"
  shows "\<exists>rq. parse_cursor_query qp cfg = Inr rq \<and> \<not> cr_sort_desc rq
    \<and> parse_sort_expression (cu_sort cfg) = Some [\<lparr>st_field = ''at'', st_direction = ''desc''\<rparr>, \<lparr>st_field = ''id'', st_direction = ''desc''\<rparr>]"
proof -
  have "after_char (CHR '':'') ''at:desc,id:desc'' = Some ''desc,id:desc''" by code_simp
  moreover have "str_lower ''desc,id:desc'' \<noteq> ''desc''" by code_simp
  moreover have "parse_sort_expression ''at:desc,id:desc'' = Some [\<lparr>st_field = ''at'', st_direction = ''desc''\<rparr>, \<lparr>st_field = ''id'', st_direction = ''desc''\<rparr>]"
    by code_simp
  ultimately show ?thesis
    using assms by (simp add: parse_cursor_query_def query_size_def get_query_param_def)
qed






section \<open>Examples\<close>

definition listed_entity :: entity where
  "listed_entity = (make_entity ''Note'' [make_field ''id'' FUUID, make_field ''team_id'' FUUID, make_field ''rank'' FInt] [])
     \<lparr>e_pagination := Some \<lparr>pc_page = Some \<lparr>pg_default_page_size = 2, pg_max_page_size = 100,
        pg_default_sort = None, pg_sortable_fields = [''rank'']\<rparr>, pc_offset = None, pc_cursor = None\<rparr>\<rparr>"

abbreviation note_pages :: page_pagination where
  "note_pages \<equiv> \<lparr>pg_default_page_size = 2, pg_max_page_size = 100, pg_default_sort = None, pg_sortable_fields = [''rank'']\<rparr>"

definition page_params :: "(string \<times> string) list \<Rightarrow> string \<Rightarrow> string" where
  "page_params ps n = (case map_of ps n of None \<Rightarrow> [] | Some v \<Rightarrow> v)"

lemma listed_schema: "schema_ok \<lparr>entities = [listed_entity]\<rparr>"
  unfolding validate_schema_iff [symmetric] by code_simp

definition plain_read_context :: "entity_registry \<Rightarrow> storage read_context" where
  "plain_read_context rg = \<lparr>rx_repo = memory_repository, rx_lister = memory_lister, rx_pivots = memory_pivots,
     rx_registry = rg, rx_helper = None\<rparr>"




definition blog_registry :: entity_registry where
  "blog_registry = [(''Post'', make_entity ''Post'' [make_field ''id'' FUUID] []),
     (''Tag'', make_entity ''Tag'' [make_field ''id'' FUUID] []),
     (''post_tags'', make_entity ''post_tags'' [make_field ''post_id'' FUUID, make_field ''tag_id'' FUUID] [])]"

definition blog_rows :: storage where
  "blog_rows = [(''Post'', [(''p'', [(''id'', VString ''p'')])]), (''Tag'', [(''g'', [(''id'', VString ''g'')])])]"

definition blog_link :: link_names where
  "blog_link = \<lparr>ln_source = ''Post'', ln_target = ''Tag'', ln_pivot = ''post_tags'', ln_source_fk = ''post_id'', ln_target_fk = ''tag_id''\<rparr>"

definition photo_read_context :: "storage read_context" where
  "photo_read_context = (plain_read_context [(''Photo'', photo_entity)])
     \<lparr>rx_helper := Some (create_default [], \<lparr>entities = [photo_entity]\<rparr>, default_access_config\<lparr>default_policy := AllowAll\<rparr>)\<rparr>"

section \<open>Properties\<close>

text \<open>A page request to an entity of a valid schema is accepted exactly when its page and its size are absent
  or decimal numbers, the page from 1, the size from 1 to the configured maximum, and its sort is absent or names a
  sortable field and a direction; what is accepted asks for a page from 1, at most the maximum of rows,
  sorted by a field that is sortable and exists. In particular the defaults of a valid schema are always accepted.\<close>

theorem page_query_accepts:
  assumes "schema_ok s" and "e \<in> set (entities s)" and "e_pagination e = Some cfg" and "pc_page cfg = Some p"
  shows "((\<exists>rq. parse_page_query qp p = Inr rq) \<longleftrightarrow>
      number_in 1 (2 ^ 64 - 1) (qp ''page'') \<and> number_in 1 (unat (pg_max_page_size p)) (qp ''page_size'')
      \<and> (qp ''sort'' = [] \<or> sort_request_ok (pg_sortable_fields p) (qp ''sort'')))
    \<and> (\<forall>rq. parse_page_query qp p = Inr rq \<longrightarrow>
        0 < pr_page rq \<and> 0 < pr_page_size rq \<and> pr_page_size rq \<le> pg_max_page_size p
        \<and> (\<forall>fld. pr_sort_field rq = Some fld \<longrightarrow> fld \<in> set (pg_sortable_fields p) \<and> has_field e fld))"
proof -
  have "entity_ok s e" using assms(1,2) by (simp add: schema_ok_def)
  then have e: "fields_ok (e_fields e)" "limits_ok (pg_default_page_size p) (pg_max_page_size p)"
    "sortable_ok e (pg_default_sort p) (pg_sortable_fields p)"
    using assms(3,4) by (auto simp: entity_ok_def pagination_ok_def)
  have size: "0 < n \<and> n \<le> pg_max_page_size p"
    if "query_size qp ''page_size'' (pg_default_page_size p) (pg_max_page_size p) = Inr n" for n
  proof -
    have "1 \<le> unat n \<and> unat n \<le> unat (pg_max_page_size p)"
      using query_size_value [OF that] e(2) unat_gt_0 [of "pg_default_page_size p"]
      by (cases "qp ''page_size'' = []") (auto simp: limits_ok_def word_le_nat_alt word_less_nat_alt)
    then show ?thesis by (simp add: word_le_nat_alt word_less_nat_alt)
  qed
  have "(\<exists>rq. parse_page_query qp p = Inr rq) \<longleftrightarrow> (\<exists>n. query_page qp = Inr n)
      \<and> (\<exists>n. query_size qp ''page_size'' (pg_default_page_size p) (pg_max_page_size p) = Inr n)
      \<and> (\<exists>r. query_sort qp (pg_default_sort p) (pg_sortable_fields p) = Inr r)"
    unfolding parse_page_query_def by (auto split: sum.splits prod.splits)
  moreover have "0 < pr_page rq \<and> 0 < pr_page_size rq \<and> pr_page_size rq \<le> pg_max_page_size p
        \<and> (\<forall>fld. pr_sort_field rq = Some fld \<longrightarrow> fld \<in> set (pg_sortable_fields p) \<and> has_field e fld)"
    if "parse_page_query qp p = Inr rq" for rq
  proof -
    from that obtain n m fld desc where r: "query_page qp = Inr n"
      "query_size qp ''page_size'' (pg_default_page_size p) (pg_max_page_size p) = Inr m"
      "query_sort qp (pg_default_sort p) (pg_sortable_fields p) = Inr (fld, desc)"
      "rq = \<lparr>pr_page = n, pr_page_size = m, pr_sort_field = fld, pr_sort_desc = desc\<rparr>"
      unfolding parse_page_query_def by (force split: sum.splits prod.splits)
    then show ?thesis using query_page_positive [OF r(1)] size [OF r(2)] query_sort_field [OF e(3)] by auto
  qed
  ultimately show ?thesis
    unfolding query_page_accepts [symmetric] query_size_accepts [of qp _ "pg_default_page_size p", symmetric]
      query_sort_accepts [OF e(1,3), symmetric] by blast
qed

theorem page_query_accepts_witness:
  "(\<exists>rq. parse_page_query (page_params [(''page'', ''2''), (''page_size'', ''100''), (''sort'', ''rank:desc'')]) note_pages = Inr rq)
   \<and> (\<nexists>rq. parse_page_query (page_params [(''page_size'', ''101'')]) note_pages = Inr rq)"
proof -
  have e: "listed_entity \<in> set (entities \<lparr>entities = [listed_entity]\<rparr>)"
    "e_pagination listed_entity = Some \<lparr>pc_page = Some note_pages, pc_offset = None, pc_cursor = None\<rparr>"
    by (simp_all add: listed_entity_def)
  have n: "number_in 1 100 ''100''" "sort_request_ok [''rank''] ''rank:desc''" "\<not> number_in 1 100 ''101''"
    by code_simp+
  have "number_in 1 (2 ^ 64 - 1) ''2''" by (simp add: number_in_def is_digit_def digits_value_def char_code_def)
  with n page_query_accepts [OF listed_schema e, of note_pages "page_params [(''page'', ''2''), (''page_size'', ''100''), (''sort'', ''rank:desc'')]"]
  have "\<exists>rq. parse_page_query (page_params [(''page'', ''2''), (''page_size'', ''100''), (''sort'', ''rank:desc'')]) note_pages = Inr rq"
    by (simp add: page_params_def)
  moreover from n page_query_accepts [OF listed_schema e, of note_pages "page_params [(''page_size'', ''101'')]"]
  have "\<nexists>rq. parse_page_query (page_params [(''page_size'', ''101'')]) note_pages = Inr rq"
    by (simp add: page_params_def)
  ultimately show ?thesis by blast
qed



text \<open>After an attach that is answered 201 on the memory backend the listing of the source has the target; the
  targets of other relations and all records are as before. A second attach of the pair is answered 201
  again and changes nothing: the backend never sees the link it has.\<close>

theorem attach_then_listed:
  assumes "rx_repo ctx = memory_repository" and "rx_pivots ctx = memory_pivots"
    and "registry_has_entity (rx_registry ctx) (ln_pivot ln)" and "ln_pivot ln \<notin> {ln_source ln, ln_target ln}"
    and "ln_source_fk ln \<noteq> ln_target_fk ln"
    and "attach_handle env ctx now ln id_param target_param req rep st = (r, st')" and "rep_status r = 201"
  shows "(\<exists>tgt. mem_find_by_id st (ln_target ln) (strip_leading_slash target_param) = Some tgt
      \<and> tgt \<in> set (linked_targets env ctx st' (ln_target ln) (ln_pivot ln) (ln_source_fk ln) (ln_target_fk ln)
          (strip_leading_slash id_param)))
    \<and> (\<forall>en. en \<noteq> ln_pivot ln \<longrightarrow> (\<forall>k. mem_find_by_id st' en k = mem_find_by_id st en k))
    \<and> attach_handle env ctx now ln id_param target_param req rep st' = (r, st')"
proof -
  let ?sid = "strip_leading_slash id_param" and ?tid = "strip_leading_slash target_param"
  let ?row = "pivot_values ln ?sid ?tid"
  obtain sid tid where "link_ends env ctx now ln id_param target_param req st = Inr (sid, tid)"
    using assms(6,7) link_ends_refusal [of env ctx now ln id_param target_param req st]
    by (cases "link_ends env ctx now ln id_param target_param req st") (auto simp: attach_handle_def)
  moreover note found = link_ends_found [OF this]
  ultimately have ends: "link_ends env ctx now ln id_param target_param req st = Inr (?sid, ?tid)" by simp
  have ins: "r = json_reply env 201 (JObject [(''status'', JString ''associated''), (''source_id'', JString ?sid),
      (''target_id'', JString ?tid)]) rep" "snd (mem_insert_pivot st (ln_pivot ln) ?row) = st'"
    using assms(1,2,6) ends
    by (simp_all add: attach_handle_def memory_pivots_def memory_repository_def mem_pivot_exists_def mem_insert_pivot_def)
  note row = pivot_row_listed [OF ins(2)]
  have same: "mem_find_by_id st' en k = mem_find_by_id st en k" if "en \<noteq> ln_pivot ln" for en k
    using row that by (simp add: find_by_id_entity_storage)
  have get: "crud_get_by_id (rx_repo ctx) (rx_registry ctx) st' en k = crud_get_by_id (rx_repo ctx) (rx_registry ctx) st en k"
    if "en \<in> {ln_source ln, ln_target ln}" for en k
    using same that assms(1,4) by (auto simp: crud_get_by_id_def memory_repository_def)
  have "link_ends env ctx now ln id_param target_param req st' = Inr (?sid, ?tid)"
    using ends get [of "ln_source ln" ?sid] get [of "ln_target ln" ?tid] unfolding link_ends_def Let_def
    by (auto split: if_splits option.splits)
  then have again: "attach_handle env ctx now ln id_param target_param req rep st' = (r, st')"
    using assms(1,2) row ins(1)
    by (simp add: attach_handle_def memory_pivots_def memory_repository_def mem_pivot_exists_def)
  obtain tgt where tgt: "crud_get_by_id (rx_repo ctx) (rx_registry ctx) st (ln_target ln) ?tid = Some tgt"
    using found by auto
  have "map_of ?row (ln_source_fk ln) = Some (VString ?sid)" "map_of ?row (ln_target_fk ln) = Some (VString ?tid)"
    using assms(5) by (simp_all add: pivot_values_def)
  moreover have "?row \<in> set (crud_list (rx_repo ctx) (rx_registry ctx) st' (ln_pivot ln))"
    using row assms(1,3) by (simp add: crud_list_def memory_repository_def)
  ultimately have "?tid \<in> set (pivot_targets (ae_dbl_text env) (ln_source_fk ln) (ln_target_fk ln) ?sid
      (crud_list (rx_repo ctx) (rx_registry ctx) st' (ln_pivot ln)))" by (intro targetI)
  then have "tgt \<in> set (linked_targets env ctx st' (ln_target ln) (ln_pivot ln) (ln_source_fk ln) (ln_target_fk ln) ?sid)"
    using tgt get [of "ln_target ln" ?tid] by (force simp: linked_targets_def map_filter_def image_iff)
  then show ?thesis
    using same again tgt assms(1) by (auto simp: crud_get_by_id_def memory_repository_def split: if_splits)
qed

theorem attach_then_listed_witness:
  "\<exists>r st'. attach_handle demo_auth_env (plain_read_context blog_registry) 0 blog_link ''/p'' ''/g'' empty_request blank_reply blog_rows = (r, st')
     \<and> rep_status r = 201
     \<and> (\<exists>tgt. mem_find_by_id blog_rows ''Tag'' ''g'' = Some tgt
        \<and> tgt \<in> set (linked_targets demo_auth_env (plain_read_context blog_registry) st' ''Tag'' ''post_tags'' ''post_id'' ''tag_id'' ''p''))"
proof -
  let ?r = "attach_handle demo_auth_env (plain_read_context blog_registry) 0 blog_link ''/p'' ''/g'' empty_request blank_reply blog_rows"
  have s: "strip_leading_slash ''/p'' = ''p''" "strip_leading_slash ''/g'' = ''g''" by code_simp+
  have g: "crud_get_by_id memory_repository blog_registry blog_rows ''Post'' ''p'' = Some [(''id'', VString ''p'')]"
    "crud_get_by_id memory_repository blog_registry blog_rows ''Tag'' ''g'' = Some [(''id'', VString ''g'')]" by code_simp+
  have "link_ends demo_auth_env (plain_read_context blog_registry) 0 blog_link ''/p'' ''/g'' empty_request blog_rows = Inr (''p'', ''g'')"
    by (simp add: link_ends_def s g plain_read_context_def blog_link_def single_refusal_def)
  then have "rep_status (fst ?r) = 201"
    by (simp add: attach_handle_def plain_read_context_def memory_pivots_def mem_pivot_exists_def memory_repository_def
        mem_insert_pivot_def json_reply_def)
  moreover have "registry_has_entity blog_registry (ln_pivot blog_link)" by code_simp
  ultimately show ?thesis
    using attach_then_listed [OF _ _ _ _ _ prod.collapse [symmetric], where ctx = "plain_read_context blog_registry" and ln = blog_link
        and id_param = "''/p''" and target_param = "''/g''" and st = blog_rows and env = demo_auth_env and req = empty_request
        and rep = blank_reply and now = 0] s
    by (intro exI [of _ "fst ?r"] exI [of _ "snd ?r"]) (simp add: plain_read_context_def blog_link_def)
qed

text \<open>C30: A file is served only to a subject that may read the record the field belongs to, and what is served is the
  file the field names; the name in the disposition stays between its two quotes, without control characters.\<close>

theorem file_served_needs_read:
  assumes "rx_helper ctx = Some (reg, s, cfg)" and "find_entity s en = Some e"
    and "rep_status (download_handle env ctx fl now en field_name id_param req rep st) = 200"
  shows "\<exists>rec uuid meta content.
      crud_get_by_id (rx_repo ctx) (rx_registry ctx) (fst st) en (strip_leading_slash id_param) = Some rec
    \<and> map_of rec field_name = Some (VString uuid)
    \<and> download (fl_repo fl) (fl_ops fl) uuid st = Inr (Some (meta, content))
    \<and> download_handle env ctx fl now en field_name id_param req rep st = served_file env meta content rep
    \<and> list_all (\<lambda>c. 0x20 \<le> char_code c \<and> char_code c \<le> 0x7E) (build_content_disposition (fm_original_name meta))
    \<and> filter (\<lambda>c. c = CHR 0x22) (build_content_disposition (fm_original_name meta)) = [CHR 0x22, CHR 0x22]
    \<and> (\<forall>j. ae_parse env (record_to_json (ae_dbl_text env) rec) = Inr j \<longrightarrow>
        is_admin_bypass cfg (build_subject_from_headers (req_headers req))
        \<or> access_authorized reg cfg e GetById (build_subject_from_headers (req_headers req))
            (build_resource_from_json (ae_dump env) en j) (build_context (ae_same env) now req (req_url req)))"
proof -
  let ?subject = "build_subject_from_headers (req_headers req)"
  let ?x = "build_context (ae_same env) now req (req_url req)"
  let ?rid = "strip_leading_slash id_param"
  have no: "rep_status (not_found env m) \<noteq> 200" "rep_status (missing_parameter env n) \<noteq> 200"
    "rep_status (internal_error env) \<noteq> 200" for m n
    by (simp_all add: not_found_def missing_parameter_def bad_request_def internal_error_def make_error_reply_def)
  obtain rec where rec: "crud_get_by_id (rx_repo ctx) (rx_registry ctx) (fst st) en ?rid = Some rec"
    "single_refusal env ctx now en GetById (record_to_json (ae_dbl_text env) rec) req ''Acces refuse.'' = None"
    "download_handle env ctx fl now en field_name id_param req rep st = file_of_field env fl (map_of rec field_name) rep st"
    using assms(3) no single_refusal_status [of env ctx now en GetById]
    by (auto simp: download_handle_def Let_def split: if_splits option.splits)
  obtain uuid meta content where f: "map_of rec field_name = Some (VString uuid)"
    "download (fl_repo fl) (fl_ops fl) uuid st = Inr (Some (meta, content))"
    using assms(3) no unfolding rec(3)
    by (auto simp: file_of_field_def split: option.splits dynamic_value.splits if_splits sum.splits prod.splits)
  have served: "download_handle env ctx fl now en field_name id_param req rep st = served_file env meta content rep"
    using assms(3) no f unfolding rec(3) by (auto simp: file_of_field_def split: if_splits)
  have "fst (check_single (ae_parse env) (ae_dump env) reg s cfg en GetById ?subject (record_to_json (ae_dbl_text env) rec) ?x)"
    using rec(2) assms(1) by (auto simp: single_refusal_def Let_def split: if_splits)
  then have "ae_parse env (record_to_json (ae_dbl_text env) rec) = Inr j \<Longrightarrow> is_admin_bypass cfg ?subject
      \<or> access_authorized reg cfg e GetById ?subject (build_resource_from_json (ae_dump env) en j) ?x" for j
    using check_single_authorized [OF assms(2)] by blast
  then show ?thesis using rec(1) f served disposition_safe by blast
qed

theorem file_served_needs_read_witness:
  "\<exists>meta content. download_handle demo_auth_env photo_read_context (file_backend (\<lambda>_. ''u1'')) 0 ''Photo'' ''photo'' ''/k''
      empty_request blank_reply (photo_rows, photo_files) = served_file demo_auth_env meta content blank_reply
    \<and> content = ''hello''"
proof -
  have s: "strip_leading_slash ''/k'' = ''k''" by code_simp
  have e: "find_entity \<lparr>entities = [photo_entity]\<rparr> ''Photo'' = Some photo_entity"
    by (simp add: find_entity_def photo_entity_def make_entity_def)
  have x: "rx_helper photo_read_context = Some (create_default [], \<lparr>entities = [photo_entity]\<rparr>,
      default_access_config\<lparr>default_policy := AllowAll\<rparr>)"
    "rx_repo photo_read_context = memory_repository" "rx_registry photo_read_context = [(''Photo'', photo_entity)]"
    by (simp_all add: photo_read_context_def plain_read_context_def)
  have g: "crud_get_by_id memory_repository [(''Photo'', photo_entity)] photo_rows ''Photo'' ''k''
      = Some [(''id'', VString ''k''), (''photo'', VString ''u1'')]"
    using photo_row by (simp add: crud_get_by_id_def registry_has_entity_def registry_find_entity_def memory_repository_def)
  have "find_spec (e_access_control photo_entity) GetById = None"
    by (simp add: photo_entity_def make_entity_def empty_access_control_def find_spec_def)
  then have a: "single_refusal env photo_read_context now ''Photo'' GetById rec_text req why = None" for env now rec_text req why
    by (simp add: single_refusal_def x check_single_def e)
  note d = stored_files.download_stored [OF photo_rows_ok(3)]
  have dn: "download_handle demo_auth_env photo_read_context (file_backend (\<lambda>_. ''u1'')) 0 ''Photo'' ''photo'' ''/k''
      empty_request blank_reply (photo_rows, photo_files)
      = served_file demo_auth_env (first_metadata\<lparr>fm_reference_count := ucast (1::64 word)\<rparr>) ''hello'' blank_reply"
    using picture_field_found d
    by (simp add: download_handle_def s x g a registry_find_entity_def file_of_field_def photo_file_def)
  then have "rep_status (download_handle demo_auth_env photo_read_context (file_backend (\<lambda>_. ''u1'')) 0 ''Photo'' ''photo'' ''/k''
      empty_request blank_reply (photo_rows, photo_files)) = 200" by (simp add: served_file_def)
  from file_served_needs_read [OF x(1) e this] s g x dn d show ?thesis by auto
qed

end
