(* ===== verification/Yaml_Node.thy ===== *)
theory Yaml_Node
  imports Domain_Model
begin

text \<open>
  What the schema parser (\<open>libs/infrastructure/yaml/yaml_schema_parser.cpp\<close>) uses of a YAML document and the
  helpers at both ends of that file. A document is the tree the loader of yaml-cpp delivers, with anchors and tags
  resolved and scalar keys; the typed conversions \<open>as<T>()\<close> of yaml-cpp are a parameter, \<open>None\<close> where they
  throw. An exception is kept as the class the \<open>catch\<close> clauses distinguish: \<open>YamlParsingException\<close>,
  \<open>YAML::Exception\<close>, or another \<open>std::exception\<close>; its message is left out.
\<close>

section \<open>Documents\<close>

datatype yaml = YNull | YScalar string | YSeq "yaml list" | YMap "(string \<times> yaml) list"

datatype yaml_exn = ParsingError | LibraryError | OtherError

type_synonym 'a parsed = "yaml_exn + 'a"

record yaml_library =
  yl_text :: "yaml \<Rightarrow> string option"
  yl_bool :: "yaml \<Rightarrow> bool option"
  yl_int :: "yaml \<Rightarrow> int option"
  yl_int64 :: "yaml \<Rightarrow> 64 word option"
  yl_uint32 :: "yaml \<Rightarrow> 32 word option"
  yl_size :: "yaml \<Rightarrow> size option"
  yl_double :: "yaml \<Rightarrow> double option"

definition is_map :: "yaml \<Rightarrow> bool" where
  "is_map n = (case n of YMap _ \<Rightarrow> True | _ \<Rightarrow> False)"

definition is_sequence :: "yaml \<Rightarrow> bool" where
  "is_sequence n = (case n of YSeq _ \<Rightarrow> True | _ \<Rightarrow> False)"

text \<open>\<open>node[key]\<close> of a constant node: the first member with the key; a node that is no map has none. On a scalar
  the subscript throws, which \<open>checked_member\<close> keeps for the nodes that were not tested to be maps.\<close>

definition members :: "yaml \<Rightarrow> (string \<times> yaml) list" where
  "members n = (case n of YMap ms \<Rightarrow> ms | _ \<Rightarrow> [])"

definition items :: "yaml \<Rightarrow> yaml list" where
  "items n = (case n of YSeq xs \<Rightarrow> xs | _ \<Rightarrow> [])"

definition member :: "yaml \<Rightarrow> string \<Rightarrow> yaml option" where
  "member n key = map_of (members n) key"

definition checked_member :: "yaml \<Rightarrow> string \<Rightarrow> yaml option parsed" where
  "checked_member n key = (case n of YScalar _ \<Rightarrow> Inl LibraryError | _ \<Rightarrow> Inr (member n key))"

definition has_key :: "yaml \<Rightarrow> string \<Rightarrow> bool" where
  "has_key n key \<longleftrightarrow> member n key \<noteq> None"

section \<open>Errors\<close>

definition and_then :: "'e + 'a \<Rightarrow> ('a \<Rightarrow> 'e + 'b) \<Rightarrow> 'e + 'b" where
  "and_then x f = (case x of Inl e \<Rightarrow> Inl e | Inr a \<Rightarrow> f a)"

definition require :: "bool \<Rightarrow> 'e \<Rightarrow> 'e + 'b \<Rightarrow> 'e + 'b" where
  "require b e x = (if b then x else Inl e)"

text \<open>A loop that collects results and stops at the first exception.\<close>

fun traverse :: "('a \<Rightarrow> 'e + 'b) \<Rightarrow> 'a list \<Rightarrow> 'e + 'b list" where
  "traverse f [] = Inr []"
| "traverse f (x # xs) = and_then (f x) (\<lambda>y. and_then (traverse f xs) (\<lambda>ys. Inr (y # ys)))"

text \<open>\<open>catch (const YAML::Exception&)\<close> and \<open>catch (const std::exception&)\<close> that throw a parsing exception again.\<close>

definition catch_library :: "'a parsed \<Rightarrow> 'a parsed" where
  "catch_library x = (case x of Inl LibraryError \<Rightarrow> Inl ParsingError | _ \<Rightarrow> x)"

definition catch_all :: "'a parsed \<Rightarrow> 'a parsed" where
  "catch_all x = (case x of Inl _ \<Rightarrow> Inl ParsingError | Inr _ \<Rightarrow> x)"

text \<open>The lookups of a domain enumeration, which answer a message or nothing, as exceptions.\<close>

definition thrown :: "'m + 'a \<Rightarrow> 'a parsed" where
  "thrown x = (case x of Inl _ \<Rightarrow> Inl OtherError | Inr a \<Rightarrow> Inr a)"

definition known_value :: "'a option \<Rightarrow> 'a parsed" where
  "known_value x = (case x of None \<Rightarrow> Inl ParsingError | Some a \<Rightarrow> Inr a)"

section \<open>Typed values\<close>

definition as_value :: "(yaml \<Rightarrow> 'a option) \<Rightarrow> yaml \<Rightarrow> 'a parsed" where
  "as_value conv n = (case conv n of None \<Rightarrow> Inl LibraryError | Some v \<Rightarrow> Inr v)"

definition get_or_default :: "(yaml \<Rightarrow> 'a option) \<Rightarrow> yaml \<Rightarrow> string \<Rightarrow> 'a \<Rightarrow> 'a parsed" where
  "get_or_default conv n key default_value =
     (case member n key of
        None \<Rightarrow> Inr default_value
      | Some v \<Rightarrow> catch_library (as_value conv v))"

text \<open>\<open>if (node[key]) target = node[key].as<T>()\<close>, with a further parser of the value.\<close>

definition when_member :: "yaml \<Rightarrow> string \<Rightarrow> (yaml \<Rightarrow> 'a \<Rightarrow> 'a parsed) \<Rightarrow> 'a \<Rightarrow> 'a parsed" where
  "when_member n key f acc = (case member n key of None \<Rightarrow> Inr acc | Some v \<Rightarrow> f v acc)"

definition set_member :: "(yaml \<Rightarrow> 'v parsed) \<Rightarrow> yaml \<Rightarrow> string \<Rightarrow> ('v \<Rightarrow> 'a \<Rightarrow> 'a) \<Rightarrow> 'a \<Rightarrow> 'a parsed" where
  "set_member conv n key upd acc = when_member n key (\<lambda>v acc. and_then (conv v) (\<lambda>x. Inr (upd x acc))) acc"

definition parse_string_list :: "yaml_library \<Rightarrow> yaml \<Rightarrow> string \<Rightarrow> string list parsed" where
  "parse_string_list lib n key =
     (case member n key of
        None \<Rightarrow> Inr []
      | Some (YSeq xs) \<Rightarrow> traverse (\<lambda>x. catch_library (as_value (yl_text lib) x)) xs
      | Some (YScalar s) \<Rightarrow> and_then (catch_library (as_value (yl_text lib) (YScalar s))) (\<lambda>x. Inr [x])
      | Some _ \<Rightarrow> Inl ParsingError)"

definition require_string :: "yaml_library \<Rightarrow> yaml \<Rightarrow> string \<Rightarrow> string parsed" where
  "require_string lib n key =
     (case member n key of
        None \<Rightarrow> Inl ParsingError
      | Some v \<Rightarrow> catch_library (as_value (yl_text lib) v))"

section \<open>Environment variables, durations and sizes\<close>

text \<open>\<open>std::getenv\<close> gets a C string, which ends at the first zero byte.\<close>

definition getenv :: "(string \<Rightarrow> string option) \<Rightarrow> string \<Rightarrow> string option" where
  "getenv environment name = environment (takeWhile (\<lambda>c. c \<noteq> CHR 0x00) name)"

definition resolve_env :: "(string \<Rightarrow> string option) \<Rightarrow> string \<Rightarrow> string parsed" where
  "resolve_env environment v =
     (if length v < 4 \<or> v ! 0 \<noteq> CHR ''$'' \<or> v ! 1 \<noteq> CHR ''{'' \<or> last v \<noteq> CHR ''}'' then Inr v
      else let inner = take (length v - 3) (drop 2 v) in
        case find_sub '':-'' inner of
          None \<Rightarrow> known_value (getenv environment inner)
        | Some pos \<Rightarrow>
            let var_name = take pos inner; default_value = drop (pos + 2) inner in
            if var_name = [] then Inl ParsingError
            else (case getenv environment var_name of
                    None \<Rightarrow> Inr default_value
                  | Some [] \<Rightarrow> Inr default_value
                  | Some x \<Rightarrow> Inr x))"

text \<open>\<open>std::stoull\<close> of a text of digits and points: the digits in front, which must exist and fit 64 bits.\<close>

definition stoull_digits :: "string \<Rightarrow> 64 word parsed" where
  "stoull_digits s =
     (let ds = takeWhile is_digit s; v = base_val 10 digit_val ds in
      if ds = [] \<or> 2 ^ 64 \<le> v then Inl OtherError else Inr (of_nat v))"

text \<open>The seconds are a signed 64-bit count; the products wrap before.\<close>

definition parse_duration :: "string \<Rightarrow> int parsed" where
  "parse_duration s =
     (let number = takeWhile is_digit s; suffix = dropWhile is_digit s in
      if s = [] \<or> number = [] then Inl ParsingError
      else and_then (stoull_digits number) (\<lambda>n.
        if suffix = [] \<or> suffix = ''s'' then Inr (sint n)
        else if suffix = ''m'' then Inr (sint (n * 60))
        else if suffix = ''h'' then Inr (sint (n * 3600))
        else if suffix = ''d'' then Inr (sint (n * 86400))
        else Inl ParsingError))"

definition size_char :: "char \<Rightarrow> bool" where
  "size_char c \<longleftrightarrow> is_digit c \<or> c = CHR ''.''"

definition parse_size :: "string \<Rightarrow> 64 word parsed" where
  "parse_size s =
     (let number = takeWhile size_char s; suffix = dropWhile size_char s in
      if s = [] \<or> number = [] then Inl ParsingError
      else and_then (stoull_digits number) (\<lambda>n.
        if suffix = [] \<or> suffix = ''B'' then Inr n
        else if suffix = ''KB'' \<or> suffix = ''K'' then Inr (n * 1024)
        else if suffix = ''MB'' \<or> suffix = ''M'' then Inr (n * 1024 * 1024)
        else if suffix = ''GB'' \<or> suffix = ''G'' then Inr (n * 1024 * 1024 * 1024)
        else Inl ParsingError))"

text \<open>\<open>std::stoul(s, nullptr, 8)\<close>: blanks, a sign, octal digits; what follows them is ignored.\<close>

definition is_octal :: "char \<Rightarrow> bool" where
  "is_octal c \<longleftrightarrow> is_digit c \<and> char_code c < 56"

definition stoul_octal :: "string \<Rightarrow> 64 word parsed" where
  "stoul_octal s =
     (let t = dropWhile is_space s;
          u = (if t \<noteq> [] \<and> hd t \<in> {CHR ''+'', CHR ''-''} then tl t else t);
          ds = takeWhile is_octal u;
          v = base_val 8 digit_val ds
      in if ds = [] \<or> 2 ^ 64 \<le> v then Inl OtherError
         else Inr (if t \<noteq> [] \<and> hd t = CHR ''-'' then - of_nat v else of_nat v))"

section \<open>Lemmas\<close>

named_theorems yaml_simps \<open>outcomes of the combinators of the parser\<close>

lemma and_then_Inr [yaml_simps]: "and_then x f = Inr b \<longleftrightarrow> (\<exists>a. x = Inr a \<and> f a = Inr b)"
  by (cases x) (auto simp: and_then_def)

lemma and_then_simps [simp]: "and_then (Inr a) f = f a" "and_then (Inl e) f = Inl e"
  by (simp_all add: and_then_def)

lemma require_Inr [yaml_simps]: "require b e x = Inr y \<longleftrightarrow> b \<and> x = Inr y"
  by (simp add: require_def)

lemma require_simps [simp]: "require True e x = x" "require False e x = Inl e"
  by (simp_all add: require_def)

lemma catch_Inr [yaml_simps, simp]: "catch_library x = Inr a \<longleftrightarrow> x = Inr a" "catch_all x = Inr a \<longleftrightarrow> x = Inr a"
  "thrown y = Inr b \<longleftrightarrow> y = Inr b" "known_value z = Inr c \<longleftrightarrow> z = Some c" "as_value conv n = Inr d \<longleftrightarrow> conv n = Some d"
  by (auto simp: catch_library_def catch_all_def thrown_def known_value_def as_value_def
      split: sum.splits option.splits yaml_exn.splits)

lemma catch_simps [simp]: "catch_library (Inr a) = Inr a" "catch_all (Inr a) = Inr a" "catch_library (Inl LibraryError) = Inl ParsingError"
  "catch_all (Inl e) = Inl ParsingError" "thrown (Inr a) = Inr a" "known_value (Some a) = Inr a" "known_value None = Inl ParsingError"
  by (simp_all add: catch_library_def catch_all_def thrown_def known_value_def)

lemma when_member_Inr [yaml_simps]: "when_member n key f acc = Inr r \<longleftrightarrow>
    (case member n key of None \<Rightarrow> r = acc | Some v \<Rightarrow> f v acc = Inr r)"
  by (auto simp: when_member_def split: option.splits)

lemma get_or_default_Inr [yaml_simps]: "get_or_default conv n key d = Inr r \<longleftrightarrow>
    (case member n key of None \<Rightarrow> r = d | Some v \<Rightarrow> conv v = Some r)"
  by (auto simp: get_or_default_def split: option.splits)

lemma require_string_Inr [yaml_simps]: "require_string lib n key = Inr s \<longleftrightarrow>
    (\<exists>v. member n key = Some v \<and> yl_text lib v = Some s)"
  by (auto simp: require_string_def split: option.splits)

lemma traverse_Inr: "traverse f xs = Inr ys \<longleftrightarrow> list_all2 (\<lambda>x y. f x = Inr y) xs ys"
  by (induction xs arbitrary: ys) (auto simp: and_then_Inr list_all2_Cons1)

lemma traverse_all: "traverse f xs = Inr ys \<Longrightarrow> (\<And>x y. f x = Inr y \<Longrightarrow> P y) \<Longrightarrow> \<forall>y \<in> set ys. P y"
  by (induction xs arbitrary: ys) (auto simp: and_then_Inr)

lemma traverse_map: "(\<And>x. x \<in> set xs \<Longrightarrow> f (g x) = Inr x) \<Longrightarrow> traverse f (map g xs) = Inr xs"
  by (induction xs) auto

lemma member_simps [simp]:
  "member (YMap ms) key = map_of ms key" "member YNull key = None" "member (YSeq xs) key = None" "member (YScalar s) key = None"
  "is_map (YMap ms)" "\<not> is_map YNull" "\<not> is_map (YSeq xs)" "\<not> is_map (YScalar s)"
  "is_sequence (YSeq xs)" "\<not> is_sequence (YMap ms)" "\<not> is_sequence YNull" "\<not> is_sequence (YScalar s)"
  "items (YSeq xs) = xs" "members (YMap ms) = ms"
  by (simp_all add: member_def members_def items_def is_map_def is_sequence_def)

end
