(* ===== verification/Yaml_Access.thy ===== *)
theory Yaml_Access
  imports Yaml_Node Policy_Semantics
begin

text \<open>
  The access control of a YAML document (\<open>parse_authorization_node\<close> to \<open>compile_own_resource_shortcut\<close> of
  \<open>libs/infrastructure/yaml/yaml_schema_parser.cpp\<close>): the configuration of a service, the rules of an entity and
  the compilation of the shortcuts of a rule to a condition.
\<close>

section \<open>The configuration of a service\<close>

definition as_enum :: "yaml_library \<Rightarrow> (string \<Rightarrow> 'a option) \<Rightarrow> yaml \<Rightarrow> 'a parsed" where
  "as_enum lib from_string n = and_then (as_value (yl_text lib) n) (\<lambda>s. known_value (from_string s))"

definition abac_mode_from_string :: "string \<Rightarrow> abac_mode option" where
  "abac_mode_from_string s =
     (let lower = str_lower s in
      if lower = ''permissive'' then Some AbacPermissive
      else if lower = ''strict'' then Some AbacStrict
      else None)"

text \<open>The answer of \<open>config.validate()\<close> at the end is not looked at.\<close>

definition parse_authorization_node :: "yaml_library \<Rightarrow> yaml \<Rightarrow> access_control_config parsed" where
  "parse_authorization_node lib n =
     (if \<not> is_map n then Inr default_access_config
      else and_then (set_member (as_value (yl_bool lib)) n ''enabled'' (\<lambda>b. enabled_update (\<lambda>_. b)) default_access_config) (\<lambda>c.
        if \<not> enabled c then Inr default_access_config
        else and_then (set_member (as_enum lib default_policy_from_string) n ''default_policy''
                 (\<lambda>p. default_policy_update (\<lambda>_. p)) (c\<lparr>default_policy := DenyAll\<rparr>)) (\<lambda>c.
        and_then (set_member (as_value (yl_text lib)) n ''roles_claim_name''
                 (\<lambda>s. roles_claim_name_update (\<lambda>_. s)) (c\<lparr>roles_claim_name := ''role''\<rparr>)) (\<lambda>c.
        and_then (set_member (as_value (yl_text lib)) n ''admin_role''
                 (\<lambda>s. admin_role_update (\<lambda>_. s)) (c\<lparr>admin_role := ''admin''\<rparr>)) (\<lambda>c.
        and_then (set_member (as_value (yl_bool lib)) n ''default_allow_admin''
                 (\<lambda>b. default_allow_admin_update (\<lambda>_. b)) (c\<lparr>default_allow_admin := True\<rparr>)) (\<lambda>c.
        and_then (set_member (as_value (yl_text lib)) n ''default_scope_field''
                 (\<lambda>s. default_scope_field_update (\<lambda>_. s)) c) (\<lambda>c.
        and_then (case member n ''roles'' of
                    Some (YSeq xs) \<Rightarrow> and_then (traverse (as_value (yl_text lib)) xs) (\<lambda>rs. Inr (c\<lparr>declared_roles := rs\<rparr>))
                  | _ \<Rightarrow> Inr c) (\<lambda>c.
        set_member (as_enum lib abac_mode_from_string) n ''abac_mode'' (\<lambda>m. abac_mode_update (\<lambda>_. m)) c))))))))"

section \<open>Shortcuts\<close>

definition compile_allow_roles_shortcut :: "string list \<Rightarrow> policy_condition" where
  "compile_allow_roles_shortcut roles =
     of_predicate (make_predicate (from_subject ''roles'') Intersects (from_literal_list roles))"

definition with_admin :: "bool \<Rightarrow> string \<Rightarrow> policy_condition \<Rightarrow> policy_condition" where
  "with_admin allow_admin role c =
     (if \<not> allow_admin then c
      else any_of [of_predicate (make_predicate (from_subject ''roles'') Contains (from_literal role)), c])"

definition compile_same_scope_shortcut :: "string \<Rightarrow> bool \<Rightarrow> string \<Rightarrow> policy_condition parsed" where
  "compile_same_scope_shortcut fld allow_admin role =
     (if fld = [] then Inl ParsingError
      else let p = ''attributes.'' @ fld in
        Inr (with_admin allow_admin role (of_predicate (make_predicate (from_subject p) Equals (from_resource p)))))"

definition compile_own_resource_shortcut :: "string \<Rightarrow> bool \<Rightarrow> string \<Rightarrow> policy_condition parsed" where
  "compile_own_resource_shortcut fld allow_admin role =
     (if fld = [] then Inl ParsingError
      else let p = (if fld = ''id'' then ''id'' else ''attributes.'' @ fld) in
        Inr (with_admin allow_admin role (of_predicate (make_predicate (from_subject ''id'') Equals (from_resource p)))))"

text \<open>\<open>allow_roles\<close>: the roles, each of them declared when roles are declared at all.\<close>

definition allowed_roles :: "yaml_library \<Rightarrow> access_control_config \<Rightarrow> yaml \<Rightarrow> string list parsed" where
  "allowed_roles lib cfg n =
     (case member n ''allow_roles'' of
        None \<Rightarrow> Inr []
      | Some v \<Rightarrow>
          require (is_sequence v) ParsingError
            (traverse (\<lambda>r. and_then (as_value (yl_text lib) r) (\<lambda>role.
               require (declared_roles cfg = [] \<or> is_role_declared cfg role) ParsingError (Inr role))) (items v)))"

text \<open>\<open>same_scope\<close> and \<open>own_resource\<close>: a boolean stands for the effective field, a text for itself. The field that
  is used, or the empty string. Only a text is refused when there is no effective field.\<close>

definition shortcut_field :: "yaml_library \<Rightarrow> string \<Rightarrow> string \<Rightarrow> yaml \<Rightarrow> string parsed" where
  "shortcut_field lib key effective n =
     (case member n key of
        None \<Rightarrow> Inr []
      | Some v \<Rightarrow>
          and_then (case yl_bool lib v of
                      Some b \<Rightarrow> Inr (if b then effective else [])
                    | None \<Rightarrow> as_value (yl_text lib) v)
            (\<lambda>fld. require (fld = [] \<or> effective \<noteq> []) ParsingError (Inr fld)))"

definition combine_conditions :: "policy_condition list \<Rightarrow> access_control_spec" where
  "combine_conditions cs =
     (case cs of
        [] \<Rightarrow> \<lparr>spec_condition = empty_condition\<rparr>
      | [c] \<Rightarrow> \<lparr>spec_condition = c\<rparr>
      | _ \<Rightarrow> \<lparr>spec_condition = all_of cs\<rparr>)"

definition shortcut_condition :: "(string \<Rightarrow> policy_condition parsed) \<Rightarrow> string \<Rightarrow> policy_condition list parsed" where
  "shortcut_condition compile fld =
     (if fld = [] then Inr [] else and_then (compile fld) (\<lambda>c. Inr [c]))"

definition parse_operation_access_control_node ::
  "yaml_library \<Rightarrow> yaml \<Rightarrow> string \<Rightarrow> string \<Rightarrow> access_control_config \<Rightarrow> access_control_spec parsed" where
  "parse_operation_access_control_node lib n effective_scope_field effective_owner_field cfg =
     and_then (allowed_roles lib cfg n) (\<lambda>roles.
     and_then (shortcut_field lib ''same_scope'' effective_scope_field n) (\<lambda>scope_to_use.
     and_then (shortcut_condition (\<lambda>f. compile_same_scope_shortcut f (default_allow_admin cfg) (admin_role cfg)) scope_to_use) (\<lambda>cs1.
     and_then (shortcut_field lib ''own_resource'' effective_owner_field n) (\<lambda>owner_to_use.
     and_then (shortcut_condition (\<lambda>f. compile_own_resource_shortcut f (default_allow_admin cfg) (admin_role cfg)) owner_to_use) (\<lambda>cs2.
     Inr (combine_conditions ((if roles = [] then [] else [compile_allow_roles_shortcut roles]) @ cs1 @ cs2)))))))"

section \<open>The rules of an entity\<close>

fun operations_loop ::
  "yaml_library \<Rightarrow> string \<Rightarrow> string \<Rightarrow> access_control_config \<Rightarrow> (string \<times> yaml) list \<Rightarrow> entity_access_control
   \<Rightarrow> entity_access_control parsed" where
  "operations_loop lib scp own cfg [] ac = Inr ac"
| "operations_loop lib scp own cfg ((op_name, op_node) # ops) ac =
     (if op_name = ''abac_mode'' then operations_loop lib scp own cfg ops ac
      else and_then (known_value (crud_operation_from_string op_name)) (\<lambda>oper.
        require (is_map op_node) ParsingError
          (and_then (parse_operation_access_control_node lib op_node scp own cfg) (\<lambda>sp.
             operations_loop lib scp own cfg ops (set_spec oper sp ac)))))"

definition parse_entity_access_control_node ::
  "yaml_library \<Rightarrow> yaml \<Rightarrow> access_control_config \<Rightarrow> entity_access_control parsed" where
  "parse_entity_access_control_node lib n cfg =
     and_then (set_member (as_value (yl_text lib)) n ''scope_field'' (\<lambda>s. scope_field_update (\<lambda>_. s)) empty_access_control) (\<lambda>ac.
     and_then (set_member (as_value (yl_text lib)) n ''owner_field'' (\<lambda>s. owner_field_update (\<lambda>_. s)) ac) (\<lambda>ac.
     case member n ''access_control'' of
       None \<Rightarrow> Inr ac
     | Some ac_node \<Rightarrow>
         require (is_map ac_node) ParsingError
           (and_then (set_member (as_enum lib abac_mode_from_string) ac_node ''abac_mode''
                (\<lambda>m. abac_mode_override_update (\<lambda>_. Some m)) ac) (\<lambda>ac.
              operations_loop lib (if scope_field ac \<noteq> [] then scope_field ac else default_scope_field cfg) (owner_field ac) cfg
                (members ac_node) ac))))"

section \<open>Lemmas\<close>

text \<open>The paths of the shortcuts.\<close>

lemma split_path_loop_word:
  "CHR ''.'' \<notin> set w \<Longrightarrow> split_path_loop w cur segs = (if cur @ w = [] then segs else segs @ [cur @ w])"
  by (induction w arbitrary: cur) auto

lemma split_path_loop_prefix:
  "CHR ''.'' \<notin> set u \<Longrightarrow> cur @ u \<noteq> [] \<Longrightarrow>
   split_path_loop (u @ CHR ''.'' # w) cur segs = split_path_loop w [] (segs @ [cur @ u])"
  by (induction u arbitrary: cur) auto

lemma attribute_path: "fld \<noteq> [] \<Longrightarrow> CHR ''.'' \<notin> set fld \<Longrightarrow> split_path (''attributes.'' @ fld) = [''attributes'', fld]"
  using split_path_loop_prefix [of "''attributes''" "[]" fld "[]"] by (simp add: split_path_def split_path_loop_word)

lemma simple_paths: "split_path ''roles'' = [''roles'']" "split_path ''id'' = [''id'']"
  by (simp_all add: split_path_def)

text \<open>What the conditions of the shortcuts mean for the standard operators.\<close>

definition is_bypassing :: "access_control_config \<Rightarrow> policy_subject \<Rightarrow> bool" where
  "is_bypassing cfg s \<longleftrightarrow> default_allow_admin cfg \<and> admin_role cfg \<in> set (subj_roles s)"

lemma roles_condition:
  "roles \<noteq> [] \<Longrightarrow> holds (predicate_holds (create_default cache) Permissive s r x) (compile_allow_roles_shortcut roles)
    \<longleftrightarrow> set (subj_roles s) \<inter> set roles \<noteq> {}"
  by (simp add: compile_allow_roles_shortcut_def of_predicate_def predicate_holds_def make_predicate_def ref_defs resolve_def
      resolve_literal_def resolve_subject_def simple_paths operator_evaluate_default strategy_def intersects_strategy_def
      intersects_loop_iff)

lemma admin_condition:
  "holds (predicate_holds (create_default cache) Permissive s r x) (with_admin (default_allow_admin cfg) (admin_role cfg) c)
    \<longleftrightarrow> is_bypassing cfg s \<or> holds (predicate_holds (create_default cache) Permissive s r x) c"
  by (simp add: with_admin_def is_bypassing_def any_of_def of_predicate_def predicate_holds_def make_predicate_def ref_defs
      resolve_def resolve_literal_def resolve_subject_def simple_paths operator_evaluate_default strategy_def contains_strategy_def)

lemma scope_condition:
  assumes "fld \<noteq> []" and "CHR ''.'' \<notin> set fld" and "compile_same_scope_shortcut fld (default_allow_admin cfg) (admin_role cfg) = Inr c"
  shows "holds (predicate_holds (create_default cache) Permissive s r x) c
    \<longleftrightarrow> is_bypassing cfg s
      \<or> (\<exists>v. map_of (subj_attributes s) fld = Some v \<and> map_of (res_attributes r) fld = Some v)"
proof -
  have c: "c = with_admin (default_allow_admin cfg) (admin_role cfg)
      (of_predicate (make_predicate (from_subject (''attributes.'' @ fld)) Equals (from_resource (''attributes.'' @ fld))))"
    using assms(1,3) by (simp add: compile_same_scope_shortcut_def Let_def)
  show ?thesis
    unfolding c admin_condition using attribute_path [OF assms(1,2)]
    by (auto simp: of_predicate_def predicate_holds_def make_predicate_def ref_defs resolve_def resolve_subject_def
        resolve_resource_def get_attribute_def handle_not_found_def operator_evaluate_default strategy_def equals_strategy_def
        default_options_def split: option.splits)
qed

lemma owner_condition:
  assumes "fld \<noteq> []" and "CHR ''.'' \<notin> set fld" and "compile_own_resource_shortcut fld (default_allow_admin cfg) (admin_role cfg) = Inr c"
  shows "holds (predicate_holds (create_default cache) Permissive s r x) c
    \<longleftrightarrow> is_bypassing cfg s
      \<or> (if fld = ''id'' then res_id r = subj_id s else map_of (res_attributes r) fld = Some (subj_id s))"
proof -
  let ?p = "if fld = ''id'' then ''id'' else ''attributes.'' @ fld"
  have c: "c = with_admin (default_allow_admin cfg) (admin_role cfg)
      (of_predicate (make_predicate (from_subject ''id'') Equals (from_resource ?p)))"
    using assms(1,3) by (simp add: compile_own_resource_shortcut_def Let_def)
  show ?thesis
    unfolding c admin_condition using attribute_path [OF assms(1,2)]
    by (auto simp: of_predicate_def predicate_holds_def make_predicate_def ref_defs resolve_def resolve_subject_def
        resolve_resource_def get_attribute_def handle_not_found_def operator_evaluate_default strategy_def equals_strategy_def
        simple_paths default_options_def split: option.splits)
qed

lemma combine_holds:
  "holds P (spec_condition (combine_conditions cs)) \<longleftrightarrow> cs \<noteq> [] \<and> list_all (holds P) cs"
  by (auto simp: combine_conditions_def empty_condition_def all_of_def split: list.splits)

end
