(* ===== verification/Yaml_Schema.thy ===== *)
theory Yaml_Schema
  imports Yaml_Access
begin

text \<open>
  Entities in a YAML document: fields, the configuration of file fields, relations, pagination, seeds and the entity
  itself (\<open>parse_field_node\<close> to \<open>parse_relation_node\<close>, \<open>parse_pagination_node\<close> to
  \<open>parse_seed_record_node\<close> and \<open>parse_entity_node\<close> of \<open>libs/infrastructure/yaml/yaml_schema_parser.cpp\<close>). The seeds of
  an entity stand beside it.
\<close>

section \<open>File fields\<close>

definition parse_max_size :: "yaml_library \<Rightarrow> yaml \<Rightarrow> size parsed" where
  "parse_max_size lib n =
     catch_library (and_then (as_value (yl_text lib) n) (\<lambda>raw.
       and_then (parse_size raw) (\<lambda>m. require (m \<noteq> 0) ParsingError (Inr m))))"

definition parse_extension :: "string \<Rightarrow> string parsed" where
  "parse_extension ext =
     (let normalized = normalize_extension ext in
      require (ext \<noteq> [] \<and> CHR ''/'' \<notin> set normalized \<and> CHR 0x5C \<notin> set normalized) ParsingError (Inr normalized))"

definition parse_file_field_config_node :: "yaml_library \<Rightarrow> yaml \<Rightarrow> file_field_config parsed" where
  "parse_file_field_config_node lib n =
     require (is_map n) ParsingError
       (and_then (set_member (parse_max_size lib) n ''max_size'' (\<lambda>m. max_size_bytes_update (\<lambda>_. Some m)) default_file_config) (\<lambda>cfg.
        and_then (parse_string_list lib n ''allowed_mime_types'') (\<lambda>mimes.
        require (\<forall>m \<in> set mimes. CHR ''/'' \<in> set m) ParsingError
       (and_then (parse_string_list lib n ''allowed_extensions'') (\<lambda>raw_exts.
        and_then (traverse parse_extension raw_exts) (\<lambda>exts.
        and_then (get_or_default (yl_text lib) n ''storage_path'' []) (\<lambda>p.
        set_member (as_enum lib on_delete_file_from_string) n ''on_delete'' (\<lambda>d. fc_on_delete_update (\<lambda>_. d))
          (cfg\<lparr>allowed_mime_types := mimes, allowed_extensions := exts, storage_path := p\<rparr>))))))))"

section \<open>Fields\<close>

definition parse_database_dialect_node :: "string \<Rightarrow> database_dialect option" where
  "parse_database_dialect_node s =
     (if s = ''mysql'' then Some MySQL
      else if s = ''postgresql'' then Some PostgreSQL
      else if s = ''sqlite'' then Some SQLite
      else if s = ''sqlserver'' then Some SQLServer
      else None)"

text \<open>The node was not tested to be a map: a scalar throws at the first subscript.\<close>

definition parse_native_node :: "yaml_library \<Rightarrow> yaml \<Rightarrow> native_db_type parsed" where
  "parse_native_node lib n =
     and_then (checked_member n ''dialect'') (\<lambda>dialect.
     and_then (checked_member n ''type'') (\<lambda>tp.
     case (dialect, tp) of
       (Some d, Some t) \<Rightarrow>
         and_then (as_enum lib parse_database_dialect_node d) (\<lambda>dial.
         and_then (as_value (yl_text lib) t) (\<lambda>name. Inr \<lparr>nt_dialect = dial, nt_type_name = name\<rparr>))
     | _ \<Rightarrow> Inl ParsingError))"

definition parse_native :: "yaml_library \<Rightarrow> field_type \<Rightarrow> yaml \<Rightarrow> native_db_type option parsed" where
  "parse_native lib t n =
     (case member n ''native'' of
        None \<Rightarrow> if t = FNative then Inl ParsingError else Inr None
      | Some v \<Rightarrow> if t \<noteq> FNative then Inl ParsingError else and_then (parse_native_node lib v) (\<lambda>nt. Inr (Some nt)))"

definition parse_bound :: "yaml_library \<Rightarrow> field_type \<Rightarrow> yaml \<Rightarrow> string \<Rightarrow> numeric_constraint option parsed" where
  "parse_bound lib t n key =
     (case member n key of
        None \<Rightarrow> Inr None
      | Some v \<Rightarrow>
          catch_library (if t = FFloat then and_then (as_value (yl_double lib) v) (\<lambda>d. Inr (Some (NcDouble d)))
                         else and_then (as_value (yl_int64 lib) v) (\<lambda>i. Inr (Some (NcInt64 i)))))"

definition parse_default :: "yaml_library \<Rightarrow> field_type \<Rightarrow> yaml \<Rightarrow> default_value parsed" where
  "parse_default lib t n =
     (case member n ''default'' of
        None \<Rightarrow> Inr DvNone
      | Some v \<Rightarrow>
          catch_library
            (if t \<in> {FString, FText, FUUID, FPassword, FEmail, FTimestamp, FDecimal, FJson, FNative}
             then and_then (as_value (yl_text lib) v) (\<lambda>s. Inr (DvString s))
             else if t \<in> {FInt, FSmallInt, FBigInt} then and_then (as_value (yl_int64 lib) v) (\<lambda>i. Inr (DvInt64 i))
             else if t = FFloat then and_then (as_value (yl_double lib) v) (\<lambda>d. Inr (DvDouble d))
             else if t = FBool then and_then (as_value (yl_bool lib) v) (\<lambda>b. Inr (DvBool b))
             else Inl ParsingError))"

definition parse_file_block :: "yaml_library \<Rightarrow> field_type \<Rightarrow> yaml \<Rightarrow> file_field_config option parsed" where
  "parse_file_block lib t n =
     (case member n ''file'' of
        None \<Rightarrow> if t = FFile then Inl ParsingError else Inr None
      | Some v \<Rightarrow> if t \<noteq> FFile then Inl ParsingError else and_then (parse_file_field_config_node lib v) (\<lambda>cfg. Inr (Some cfg)))"

text \<open>A previous name that cannot be read, or is empty, is none.\<close>

definition parse_previous_name :: "yaml_library \<Rightarrow> yaml \<Rightarrow> string option" where
  "parse_previous_name lib n =
     (case member n ''previous_name'' of
        None \<Rightarrow> None
      | Some v \<Rightarrow> (case yl_text lib v of None \<Rightarrow> None | Some s \<Rightarrow> if s = [] then None else Some s))"

definition parse_max_length :: "yaml_library \<Rightarrow> yaml \<Rightarrow> size option parsed" where
  "parse_max_length lib n =
     (case member n ''max_length'' of
        None \<Rightarrow> Inr None
      | Some v \<Rightarrow> and_then (catch_library (as_value (yl_size lib) v)) (\<lambda>m. Inr (Some m)))"

definition parse_field_node :: "yaml_library \<Rightarrow> yaml \<Rightarrow> field parsed" where
  "parse_field_node lib n =
     require (is_map n) ParsingError
       (and_then (require_string lib n ''name'') (\<lambda>name.
        and_then (require_string lib n ''type'') (\<lambda>type_str.
        and_then (known_value (field_type_from_string type_str)) (\<lambda>t.
        and_then (parse_native lib t n) (\<lambda>nt.
        and_then (get_or_default (yl_bool lib) n ''required'' True) (\<lambda>req.
        and_then (get_or_default (yl_bool lib) n ''unique'' False) (\<lambda>unq.
        and_then (get_or_default (yl_bool lib) n ''indexed'' False) (\<lambda>idx.
        and_then (get_or_default (yl_bool lib) n ''serializable'' True) (\<lambda>ser.
        and_then (get_or_default (yl_bool lib) n ''unsigned_value'' False) (\<lambda>uns.
        and_then (parse_max_length lib n) (\<lambda>len.
        and_then (parse_bound lib t n ''min_value'') (\<lambda>lo.
        and_then (parse_bound lib t n ''max_value'') (\<lambda>hi.
        and_then (parse_default lib t n) (\<lambda>dv.
        and_then (parse_file_block lib t n) (\<lambda>cfg.
        Inr \<lparr>f_name = name, f_type = t, f_unsigned = uns, f_required = req, f_unique = unq, f_indexed = idx,
          f_default_val = dv, f_max_length = len, f_min_value = lo, f_max_value = hi,
          f_serializable = (if t = FPassword \<and> \<not> has_key n ''serializable'' then False else ser),
          f_native_type = nt, f_previous_name = parse_previous_name lib n, f_file_config = cfg\<rparr>)))))))))))))))"

section \<open>Relations\<close>

definition parse_relation_kind :: "string \<Rightarrow> relation_kind option" where
  "parse_relation_kind s =
     (let lowered = str_lower s in
      if lowered = ''belongs_to'' \<or> lowered = ''belongsto'' then Some BelongsTo
      else if lowered = ''has_many'' \<or> lowered = ''hasmany'' then Some HasMany
      else if lowered = ''has_one'' \<or> lowered = ''hasone'' then Some HasOne
      else if lowered = ''many_to_many'' \<or> lowered = ''manytomany'' then Some ManyToMany
      else None)"

definition parse_on_delete :: "string \<Rightarrow> on_delete option" where
  "parse_on_delete s =
     (let lowered = str_lower s in
      if lowered = ''cascade'' then Some Cascade
      else if lowered = ''set_null'' \<or> lowered = ''setnull'' then Some SetNull
      else if lowered = ''restrict'' then Some Restrict
      else None)"

definition parse_relation_node :: "yaml_library \<Rightarrow> yaml \<Rightarrow> relation parsed" where
  "parse_relation_node lib n =
     require (is_map n) ParsingError
       (and_then (require_string lib n ''name'') (\<lambda>name.
        and_then (require_string lib n ''target_entity'') (\<lambda>target.
        and_then (require_string lib n ''kind'') (\<lambda>kind_str.
        and_then (known_value (parse_relation_kind kind_str)) (\<lambda>k.
        and_then (set_member (as_enum lib parse_on_delete) n ''on_delete'' (\<lambda>d. r_on_delete_update (\<lambda>_. d)) (make_relation name target k)) (\<lambda>r.
        and_then (get_or_default (yl_text lib) n ''fk_column'' []) (\<lambda>fk.
        and_then (get_or_default (yl_text lib) n ''pivot_table'' []) (\<lambda>pivot.
        and_then (get_or_default (yl_text lib) n ''source_fk_column'' []) (\<lambda>sfk.
        and_then (get_or_default (yl_text lib) n ''target_fk_column'' []) (\<lambda>tfk.
        require (k = ManyToMany \<longrightarrow> pivot \<noteq> [] \<and> sfk \<noteq> [] \<and> tfk \<noteq> []) ParsingError
          (Inr (r\<lparr>r_fk_column := fk, r_pivot_table := pivot, r_source_fk := sfk, r_target_fk := tfk\<rparr>))))))))))))"

section \<open>Pagination\<close>

definition optional_text :: "yaml_library \<Rightarrow> yaml \<Rightarrow> string \<Rightarrow> string option parsed" where
  "optional_text lib n key = set_member (as_value (yl_text lib)) n key (\<lambda>s _. Some s) None"

definition parse_page_pagination_node :: "yaml_library \<Rightarrow> yaml \<Rightarrow> page_pagination parsed" where
  "parse_page_pagination_node lib n =
     and_then (get_or_default (yl_size lib) n ''default_page_size'' 20) (\<lambda>d.
     and_then (get_or_default (yl_size lib) n ''max_page_size'' 100) (\<lambda>m.
     and_then (optional_text lib n ''default_sort'') (\<lambda>srt.
     and_then (parse_string_list lib n ''sortable_fields'') (\<lambda>fs.
     Inr \<lparr>pg_default_page_size = d, pg_max_page_size = m, pg_default_sort = srt, pg_sortable_fields = fs\<rparr>))))"

definition parse_offset_pagination_node :: "yaml_library \<Rightarrow> yaml \<Rightarrow> offset_pagination parsed" where
  "parse_offset_pagination_node lib n =
     and_then (get_or_default (yl_size lib) n ''default_limit'' 20) (\<lambda>d.
     and_then (get_or_default (yl_size lib) n ''max_limit'' 100) (\<lambda>m.
     and_then (optional_text lib n ''default_sort'') (\<lambda>srt.
     and_then (parse_string_list lib n ''sortable_fields'') (\<lambda>fs.
     Inr \<lparr>of_default_limit = d, of_max_limit = m, of_default_sort = srt, of_sortable_fields = fs\<rparr>))))"

definition parse_cursor_pagination_node :: "yaml_library \<Rightarrow> yaml \<Rightarrow> cursor_pagination parsed" where
  "parse_cursor_pagination_node lib n =
     and_then (get_or_default (yl_size lib) n ''default_limit'' 20) (\<lambda>d.
     and_then (get_or_default (yl_size lib) n ''max_limit'' 100) (\<lambda>m.
     and_then (require_string lib n ''cursor_field'') (\<lambda>c.
     and_then (require_string lib n ''sort'') (\<lambda>srt.
     Inr \<lparr>cu_default_limit = d, cu_max_limit = m, cu_cursor_field = c, cu_sort = srt\<rparr>))))"

definition parse_mode :: "(yaml \<Rightarrow> 'a parsed) \<Rightarrow> yaml \<Rightarrow> string \<Rightarrow> 'a option parsed" where
  "parse_mode parse n key =
     (case member n key of
        None \<Rightarrow> Inr None
      | Some v \<Rightarrow> require (is_map v) ParsingError (and_then (parse v) (\<lambda>x. Inr (Some x))))"

definition parse_pagination_node :: "yaml_library \<Rightarrow> yaml \<Rightarrow> pagination_config parsed" where
  "parse_pagination_node lib n =
     and_then (parse_mode (parse_page_pagination_node lib) n ''page'') (\<lambda>p.
     and_then (parse_mode (parse_offset_pagination_node lib) n ''offset'') (\<lambda>off.
     and_then (parse_mode (parse_cursor_pagination_node lib) n ''cursor'') (\<lambda>c.
     let cfg = \<lparr>pc_page = p, pc_offset = off, pc_cursor = c\<rparr> in
     require (pagination_any cfg) ParsingError (Inr cfg))))"

section \<open>Seeds\<close>

datatype seed_value =
    SvNone | SvString string | SvInt64 "64 word" | SvInt32 "32 word" | SvUint64 "64 word" | SvUint32 "32 word"
  | SvDouble double | SvBool bool

record seed_record =
  sd_alias :: string
  sd_values :: "(string, seed_value) table"
  sd_m2m :: "(string, string list) table"

definition yaml_node_to_seed_value :: "yaml_library \<Rightarrow> yaml \<Rightarrow> seed_value" where
  "yaml_node_to_seed_value lib n =
     (case n of
        YScalar _ \<Rightarrow>
          (case yl_text lib n of
             Some s \<Rightarrow>
               if s \<in> {''true'', ''True'', ''TRUE''} then SvBool True
               else if s \<in> {''false'', ''False'', ''FALSE''} then SvBool False
               else (case yl_int64 lib n of
                       Some i \<Rightarrow> SvInt64 i
                     | None \<Rightarrow> (case yl_double lib n of Some d \<Rightarrow> SvDouble d | None \<Rightarrow> SvString s))
           | None \<Rightarrow>
               (case yl_int64 lib n of
                  Some i \<Rightarrow> SvInt64 i
                | None \<Rightarrow> (case yl_double lib n of Some d \<Rightarrow> SvDouble d | None \<Rightarrow> SvNone)))
      | _ \<Rightarrow> SvNone)"

definition text_or_empty :: "yaml_library \<Rightarrow> yaml \<Rightarrow> string" where
  "text_or_empty lib n = (case yl_text lib n of None \<Rightarrow> [] | Some s \<Rightarrow> s)"

fun seed_members_loop :: "yaml_library \<Rightarrow> string set \<Rightarrow> (string \<times> yaml) list \<Rightarrow> seed_record \<Rightarrow> seed_record parsed" where
  "seed_members_loop lib m2m_names [] r = Inr r"
| "seed_members_loop lib m2m_names ((key, v) # ms) r =
     (if key = ''alias'' then seed_members_loop lib m2m_names ms (r\<lparr>sd_alias := text_or_empty lib v\<rparr>)
      else if key \<in> m2m_names then
        require (is_sequence v) ParsingError
          (seed_members_loop lib m2m_names ms (r\<lparr>sd_m2m := tbl_put key (map (text_or_empty lib) (items v)) (sd_m2m r)\<rparr>))
      else seed_members_loop lib m2m_names ms (r\<lparr>sd_values := tbl_put key (yaml_node_to_seed_value lib v) (sd_values r)\<rparr>))"

definition parse_seed_record_node :: "yaml_library \<Rightarrow> relation list \<Rightarrow> yaml \<Rightarrow> seed_record parsed" where
  "parse_seed_record_node lib relations n =
     require (is_map n) ParsingError
       (seed_members_loop lib (r_name ` set (filter (\<lambda>r. r_kind r = ManyToMany) relations)) (members n)
          \<lparr>sd_alias = [], sd_values = [], sd_m2m = []\<rparr>)"

section \<open>Entities\<close>

definition parse_options :: "yaml_library \<Rightarrow> yaml \<Rightarrow> entity_options parsed" where
  "parse_options lib n =
     and_then (get_or_default (yl_bool lib) n ''enable_crud'' True) (\<lambda>crud.
     and_then (get_or_default (yl_bool lib) n ''is_auth_source'' False) (\<lambda>auth.
     and_then (get_or_default (yl_bool lib) n ''public_routes'' False) (\<lambda>pub.
     and_then (get_or_default (yl_bool lib) n ''enable_websocket'' False) (\<lambda>ws.
     and_then (get_or_default (yl_bool lib) n ''soft_delete'' False) (\<lambda>sd.
     and_then (get_or_default (yl_bool lib) n ''timestamps'' True) (\<lambda>ts.
     Inr \<lparr>enable_crud = crud, is_auth_source = auth, enable_websocket = ws, soft_delete = sd, timestamps = ts,
       public_routes = pub\<rparr>))))))"

text \<open>A list of sub-nodes, empty when the key is absent.\<close>

definition parse_list :: "(yaml \<Rightarrow> 'a parsed) \<Rightarrow> yaml \<Rightarrow> string \<Rightarrow> 'a list parsed" where
  "parse_list parse n key =
     (case member n key of
        None \<Rightarrow> Inr []
      | Some v \<Rightarrow> require (is_sequence v) ParsingError (traverse parse (items v)))"

definition parse_entity_node :: "yaml_library \<Rightarrow> access_control_config \<Rightarrow> yaml \<Rightarrow> (entity \<times> seed_record list) parsed" where
  "parse_entity_node lib cfg n =
     require (is_map n) ParsingError
       (and_then (require_string lib n ''name'') (\<lambda>name.
        and_then (get_or_default (yl_text lib) n ''table_name'' (to_route_plural name True)) (\<lambda>tbl.
        and_then (case member n ''options'' of
                    None \<Rightarrow> Inr default_entity_options
                  | Some v \<Rightarrow> require (is_map v) ParsingError (parse_options lib v)) (\<lambda>opts.
        and_then (parse_list (parse_field_node lib) n ''fields'') (\<lambda>fs.
        and_then (parse_list (parse_relation_node lib) n ''relations'') (\<lambda>rels.
        and_then (parse_list (parse_seed_record_node lib rels) n ''seeds'') (\<lambda>seeds.
        and_then (parse_mode (parse_pagination_node lib) n ''pagination'') (\<lambda>pag.
        and_then (parse_entity_access_control_node lib n cfg) (\<lambda>ac.
        Inr (\<lparr>e_name = name, e_table_name = tbl, e_fields = fs, e_relations = rels, e_options = opts,
          e_access_control = ac, e_pagination = pag\<rparr>, seeds))))))))))"

end
