(* ===== verification/Yaml_Security.thy ===== *)
theory Yaml_Security
  imports Yaml_Access Auth_Service Http_Chain
begin

text \<open>
  The security of a service in a YAML document (\<open>parse_security_node\<close> to \<open>parse_token_tracking_config\<close> of
  \<open>libs/infrastructure/yaml/yaml_schema_parser.cpp\<close>) and \<open>SecurityConfig\<close>
  (\<open>libs/domain/security_scheme/security_config.cpp\<close>).
\<close>

section \<open>The configuration\<close>

record service_security =
  sv_auth :: auth_config
  sv_http :: security_config

definition service_security_none :: service_security where
  "service_security_none =
     \<lparr>sv_auth = auth_config_none,
      sv_http = \<lparr>sc_cors = cors_deny_all, sc_http_limits = http_limits_safe_defaults,
        sc_security_headers = security_headers_none, sc_rate_limits = []\<rparr>\<rparr>"

definition security_disabled :: service_security where
  "security_disabled = service_security_none"

definition security_safe_defaults :: service_security where
  "security_safe_defaults = service_security_none
     \<lparr>sv_http := (sv_http service_security_none)\<lparr>sc_security_headers := security_headers_recommended\<rparr>\<rparr>"

definition security_config_validate :: "service_security \<Rightarrow> string option" where
  "security_config_validate sec =
     (case http_limits_validate (sc_http_limits (sv_http sec)) of
        Some e \<Rightarrow> Some e
      | None \<Rightarrow>
          (case auth_config_validate (sv_auth sec) of
             Some e \<Rightarrow> Some e
           | None \<Rightarrow>
               if co_credentials (sc_cors (sv_http sec)) \<and> ''*'' \<in> set (co_origins (sc_cors (sv_http sec)))
               then Some (''SecurityConfig: CORS allow_credentials=true is incompatible ''
                 @ ''with wildcard origin '' @ quoted ''*'' @ ''. List explicit origins instead.'')
               else each_throws rate_limit_rule_validate (sc_rate_limits (sv_http sec))))"

section \<open>Values\<close>

definition as_duration :: "yaml_library \<Rightarrow> yaml \<Rightarrow> int parsed" where
  "as_duration lib n = and_then (as_value (yl_text lib) n) parse_duration"

definition as_size_text :: "yaml_library \<Rightarrow> yaml \<Rightarrow> 64 word parsed" where
  "as_size_text lib n = and_then (as_value (yl_text lib) n) parse_size"

text \<open>A list that must be one.\<close>

definition list_member :: "(yaml \<Rightarrow> 'v parsed) \<Rightarrow> yaml \<Rightarrow> string \<Rightarrow> ('v list \<Rightarrow> 'a \<Rightarrow> 'a) \<Rightarrow> 'a \<Rightarrow> 'a parsed" where
  "list_member conv n key upd acc =
     when_member n key (\<lambda>v acc. require (is_sequence v) ParsingError
       (and_then (traverse conv (items v)) (\<lambda>xs. Inr (upd xs acc)))) acc"

section \<open>Cookies and token tracking\<close>

definition parse_cookie_config :: "yaml_library \<Rightarrow> yaml \<Rightarrow> cookie_config parsed" where
  "parse_cookie_config lib n =
     (if \<not> is_map n then Inr cookie_safe_defaults
      else and_then (set_member (as_value (yl_text lib)) n ''domain'' (\<lambda>s. ck_domain_update (\<lambda>_. s)) cookie_safe_defaults) (\<lambda>c.
        and_then (set_member (as_value (yl_text lib)) n ''path'' (\<lambda>s. ck_path_update (\<lambda>_. s)) c) (\<lambda>c.
        and_then (set_member (as_value (yl_bool lib)) n ''secure'' (\<lambda>b. ck_secure_update (\<lambda>_. b)) c) (\<lambda>c.
        and_then (set_member (\<lambda>v. and_then (as_value (yl_text lib) v) (\<lambda>s. thrown (same_site_from_string s))) n ''same_site''
          (\<lambda>p. ck_same_site_update (\<lambda>_. p)) c) (\<lambda>c.
        and_then (set_member (as_value (yl_text lib)) n ''access_token_name'' (\<lambda>s. access_token_name_update (\<lambda>_. s)) c) (\<lambda>c.
        set_member (as_value (yl_text lib)) n ''refresh_token_name'' (\<lambda>s. refresh_token_name_update (\<lambda>_. s)) c))))))"

text \<open>A block that is no map is left out.\<close>

definition sub_block :: "yaml \<Rightarrow> string \<Rightarrow> (yaml \<Rightarrow> 'v parsed) \<Rightarrow> ('v \<Rightarrow> 'a \<Rightarrow> 'a) \<Rightarrow> 'a \<Rightarrow> 'a parsed" where
  "sub_block n key parse upd acc =
     (case member n key of
        Some (YMap ms) \<Rightarrow> and_then (parse (YMap ms)) (\<lambda>x. Inr (upd x acc))
      | _ \<Rightarrow> Inr acc)"

definition parse_cache_block :: "yaml_library \<Rightarrow> yaml \<Rightarrow> cache_config parsed" where
  "parse_cache_block lib n =
     and_then (set_member (as_value (yl_bool lib)) n ''enabled'' (\<lambda>b. cc_enabled_update (\<lambda>_. b)) (tt_cache default_tracking_config)) (\<lambda>c.
     and_then (set_member (as_duration lib) n ''ttl'' (\<lambda>t. cc_ttl_update (\<lambda>_. t)) c) (\<lambda>c.
     set_member (as_value (yl_size lib)) n ''max_size'' (\<lambda>m. cc_max_size_update (\<lambda>_. m)) c))"

definition parse_cleanup_block :: "yaml_library \<Rightarrow> yaml \<Rightarrow> auto_cleanup_config parsed" where
  "parse_cleanup_block lib n =
     and_then (set_member (as_value (yl_bool lib)) n ''enabled'' (\<lambda>b. ac_enabled_update (\<lambda>_. b)) (tt_auto_cleanup default_tracking_config)) (\<lambda>c.
     and_then (set_member (as_duration lib) n ''interval'' (\<lambda>t. ac_interval_update (\<lambda>_. t)) c) (\<lambda>c.
     set_member (as_duration lib) n ''keep_revoked_for'' (\<lambda>t. ac_keep_revoked_for_update (\<lambda>_. t)) c))"

definition parse_token_tracking_config :: "yaml_library \<Rightarrow> yaml \<Rightarrow> token_tracking_config parsed" where
  "parse_token_tracking_config lib n =
     (if \<not> is_map n then Inr default_tracking_config
      else and_then (set_member (as_value (yl_bool lib)) n ''enabled'' (\<lambda>b. tt_enabled_update (\<lambda>_. b)) (default_tracking_config\<lparr>tt_enabled := True\<rparr>)) (\<lambda>c.
        and_then (set_member (as_value (yl_text lib)) n ''refresh_table'' (\<lambda>s. tt_refresh_table_update (\<lambda>_. s)) c) (\<lambda>c.
        and_then (set_member (as_value (yl_text lib)) n ''revoked_table'' (\<lambda>s. tt_revoked_table_update (\<lambda>_. s)) c) (\<lambda>c.
        and_then (sub_block n ''cache'' (parse_cache_block lib) (\<lambda>x. tt_cache_update (\<lambda>_. x)) c) (\<lambda>c.
        and_then (sub_block n ''rotation'' (\<lambda>v. set_member (as_value (yl_bool lib)) v ''enabled'' (\<lambda>b _. b) True)
          (\<lambda>b. tt_rotation_update (\<lambda>_. b)) c) (\<lambda>c.
        sub_block n ''auto_cleanup'' (parse_cleanup_block lib) (\<lambda>x. tt_auto_cleanup_update (\<lambda>_. x)) c))))))"

section \<open>Authentication\<close>

definition parse_jwt_members ::
  "yaml_library \<Rightarrow> (string \<Rightarrow> string option) \<Rightarrow> yaml \<Rightarrow> auth_config \<Rightarrow> auth_config parsed" where
  "parse_jwt_members lib environment n c =
     and_then (get_or_default (yl_text lib) n ''algorithm'' ''HS256'') (\<lambda>algo_str.
     and_then (catch_all (thrown (jwt_algorithm_from_string algo_str))) (\<lambda>algo.
     and_then (set_member (\<lambda>v. and_then (as_value (yl_text lib) v) (resolve_env environment)) n ''secret''
       (\<lambda>s. au_jwt_secret_update (\<lambda>_. s)) (c\<lparr>au_jwt_algorithm := algo\<rparr>)) (\<lambda>c.
     and_then (set_member (as_value (yl_text lib)) n ''public_key_path'' (\<lambda>s. au_public_key_path_update (\<lambda>_. s)) c) (\<lambda>c.
     and_then (set_member (as_value (yl_text lib)) n ''private_key_path'' (\<lambda>s. au_private_key_path_update (\<lambda>_. s)) c) (\<lambda>c.
     and_then (set_member (as_value (yl_text lib)) n ''issuer'' (\<lambda>s. au_jwt_issuer_update (\<lambda>_. s)) c) (\<lambda>c.
     and_then (set_member (as_value (yl_text lib)) n ''audience'' (\<lambda>s. au_jwt_audience_update (\<lambda>_. s)) c) (\<lambda>c.
     and_then (set_member (as_duration lib) n ''access_token_ttl'' (\<lambda>t. au_access_ttl_update (\<lambda>_. t)) c) (\<lambda>c.
     and_then (set_member (as_duration lib) n ''refresh_token_ttl'' (\<lambda>t. au_refresh_ttl_update (\<lambda>_. t)) c) (\<lambda>c.
     and_then (set_member (\<lambda>v. and_then (as_value (yl_text lib) v) (\<lambda>s. thrown (token_delivery_from_string s))) n ''token_delivery''
       (\<lambda>d. au_delivery_update (\<lambda>_. d)) c) (\<lambda>c.
     and_then (set_member (parse_cookie_config lib) n ''cookie'' (\<lambda>ck. au_cookies_update (\<lambda>_. ck)) c) (\<lambda>c.
     set_member (parse_token_tracking_config lib) n ''token_tracking'' (\<lambda>t. au_tracking_update (\<lambda>_. t)) c)))))))))))"

definition parse_auth_node :: "yaml_library \<Rightarrow> (string \<Rightarrow> string option) \<Rightarrow> yaml \<Rightarrow> auth_config parsed" where
  "parse_auth_node lib environment n =
     require (is_map n) ParsingError
       (and_then (get_or_default (yl_text lib) n ''type'' ''none'') (\<lambda>type_str.
        and_then (catch_all (thrown (auth_type_from_string type_str))) (\<lambda>t.
        let c = auth_config_none\<lparr>au_type := t\<rparr> in
        if t = JwtAuth then parse_jwt_members lib environment n c
        else if t = OAuth2Auth then
          and_then (set_member (as_value (yl_text lib)) n ''issuer_url'' (\<lambda>s. au_oauth2_issuer_url_update (\<lambda>_. s)) c) (\<lambda>c.
          set_member (as_value (yl_text lib)) n ''jwks_url'' (\<lambda>s. au_oauth2_jwks_url_update (\<lambda>_. s)) c)
        else Inr c)))"

section \<open>CORS, rate limits, limits and headers\<close>

definition origin_policy_from_string :: "string \<Rightarrow> origin_policy option" where
  "origin_policy_from_string s =
     (let policy_str = str_lower s in
      if policy_str = ''permissive'' then Some PermissiveOrigin
      else if policy_str = ''strict'' then Some StrictOrigin
      else None)"

definition parse_cors_node :: "yaml_library \<Rightarrow> yaml \<Rightarrow> cors_config parsed" where
  "parse_cors_node lib n =
     and_then (list_member (as_value (yl_text lib)) n ''allowed_origins'' (\<lambda>xs. co_origins_update (\<lambda>_. xs)) cors_deny_all) (\<lambda>c.
     and_then (list_member (\<lambda>v. catch_all (and_then (as_value (yl_text lib) v) (\<lambda>s. thrown (verb_from_string s)))) n ''allowed_methods''
       (\<lambda>xs. co_methods_update (\<lambda>_. xs)) c) (\<lambda>c.
     and_then (list_member (as_value (yl_text lib)) n ''allowed_headers'' (\<lambda>xs. co_headers_update (\<lambda>_. xs)) c) (\<lambda>c.
     and_then (list_member (as_value (yl_text lib)) n ''exposed_headers'' (\<lambda>xs. co_exposed_update (\<lambda>_. xs)) c) (\<lambda>c.
     and_then (set_member (as_value (yl_bool lib)) n ''allow_credentials'' (\<lambda>b. co_credentials_update (\<lambda>_. b)) c) (\<lambda>c.
     and_then (set_member (as_duration lib) n ''max_age'' (\<lambda>t. co_max_age_update (\<lambda>_. t)) c) (\<lambda>c.
     set_member (as_enum lib origin_policy_from_string) n ''origin_policy'' (\<lambda>p. co_policy_update (\<lambda>_. p)) c))))))"

definition parse_rate_limite_rule_node :: "yaml_library \<Rightarrow> yaml \<Rightarrow> rate_limit_rule parsed" where
  "parse_rate_limite_rule_node lib n =
     require (is_map n) ParsingError
       (and_then (require_string lib n ''scope'') (\<lambda>scope_str.
        and_then (catch_all (thrown (scope_from_string scope_str))) (\<lambda>scp.
        case (member n ''requests'', member n ''window'') of
          (Some req_node, Some window_node) \<Rightarrow>
            and_then (as_value (yl_uint32 lib) req_node) (\<lambda>requests.
            and_then (as_duration lib window_node) (\<lambda>window.
            and_then (set_member (as_value (yl_uint32 lib)) n ''burst'' (\<lambda>b _. b) (requests * 2)) (\<lambda>burst.
            let rule = \<lparr>rl_scope = scp, rl_requests = requests, rl_window = window, rl_burst = burst\<rparr> in
            if rate_limit_rule_validate rule = None then Inr rule else Inl ParsingError)))
        | _ \<Rightarrow> Inl ParsingError)))"

definition parse_http_limits_node :: "yaml_library \<Rightarrow> yaml \<Rightarrow> http_limits parsed" where
  "parse_http_limits_node lib n =
     and_then (set_member (\<lambda>v. catch_all (as_size_text lib v)) n ''max_body_size'' (\<lambda>m. max_body_size_update (\<lambda>_. m)) http_limits_safe_defaults) (\<lambda>l.
     and_then (set_member (as_size_text lib) n ''max_header_size'' (\<lambda>m. max_header_size_update (\<lambda>_. m)) l) (\<lambda>l.
     and_then (set_member (as_value (yl_uint32 lib)) n ''max_headers_count'' (\<lambda>m. max_headers_count_update (\<lambda>_. m)) l) (\<lambda>l.
     and_then (set_member (as_size_text lib) n ''max_url_length'' (\<lambda>m. max_url_length_update (\<lambda>_. m)) l) (\<lambda>l.
     and_then (set_member (as_value (yl_uint32 lib)) n ''max_query_params'' (\<lambda>m. max_query_params_update (\<lambda>_. m)) l) (\<lambda>l.
     and_then (set_member (as_duration lib) n ''request_timeout'' (\<lambda>t. request_timeout_update (\<lambda>_. t)) l) (\<lambda>l.
     and_then (set_member (as_duration lib) n ''keep_alive_timeout'' (\<lambda>t. keep_alive_timeout_update (\<lambda>_. t)) l) (\<lambda>l.
     set_member (as_value (yl_uint32 lib)) n ''max_connections_per_ip'' (\<lambda>m. max_connections_per_ip_update (\<lambda>_. m)) l)))))))"

definition headers_preset :: "string \<Rightarrow> security_headers option" where
  "headers_preset name =
     (if name = ''recommended'' then Some security_headers_recommended
      else if name = ''strict'' then Some security_headers_strict
      else if name = ''none'' then Some security_headers_none
      else None)"

text \<open>The overrides were not tested to be a map: a scalar throws at the first subscript.\<close>

definition parse_security_headers_node :: "yaml_library \<Rightarrow> yaml \<Rightarrow> security_headers parsed" where
  "parse_security_headers_node lib n =
     and_then (set_member (as_enum lib headers_preset) n ''preset'' (\<lambda>h _. h) security_headers_recommended) (\<lambda>h.
     let overrides = (case member n ''overrides'' of Some v \<Rightarrow> v | None \<Rightarrow> n); txt = as_value (yl_text lib) in
     and_then (checked_member overrides ''hsts'') (\<lambda>_.
     and_then (set_member txt overrides ''hsts'' (\<lambda>s. sh_hsts_update (\<lambda>_. Some s)) h) (\<lambda>h.
     and_then (set_member txt overrides ''x_content_type_options'' (\<lambda>s. sh_content_type_options_update (\<lambda>_. Some s)) h) (\<lambda>h.
     and_then (set_member txt overrides ''x_frame_options'' (\<lambda>s. sh_frame_options_update (\<lambda>_. Some s)) h) (\<lambda>h.
     and_then (set_member txt overrides ''referrer_policy'' (\<lambda>s. sh_referrer_policy_update (\<lambda>_. Some s)) h) (\<lambda>h.
     and_then (set_member txt overrides ''content_security_policy'' (\<lambda>s. sh_content_security_policy_update (\<lambda>_. Some s)) h) (\<lambda>h.
     set_member txt overrides ''permissions_policy'' (\<lambda>s. sh_permissions_policy_update (\<lambda>_. Some s)) h)))))))"

section \<open>The node\<close>

definition map_member :: "yaml \<Rightarrow> string \<Rightarrow> (yaml \<Rightarrow> 'v parsed) \<Rightarrow> ('v \<Rightarrow> 'a \<Rightarrow> 'a) \<Rightarrow> 'a \<Rightarrow> 'a parsed" where
  "map_member n key parse upd acc =
     when_member n key (\<lambda>v acc. require (is_map v) ParsingError (and_then (parse v) (\<lambda>x. Inr (upd x acc)))) acc"

definition parse_security_node :: "yaml_library \<Rightarrow> (string \<Rightarrow> string option) \<Rightarrow> yaml \<Rightarrow> service_security parsed" where
  "parse_security_node lib environment n =
     require (is_map n) ParsingError
       (and_then (map_member n ''authentication'' (parse_auth_node lib environment) (\<lambda>a. sv_auth_update (\<lambda>_. a)) security_safe_defaults) (\<lambda>c.
        and_then (map_member n ''cors'' (parse_cors_node lib) (\<lambda>x. sv_http_update (sc_cors_update (\<lambda>_. x))) c) (\<lambda>c.
        and_then (list_member (parse_rate_limite_rule_node lib) n ''rate_limits'' (\<lambda>xs. sv_http_update (sc_rate_limits_update (\<lambda>_. xs))) c) (\<lambda>c.
        and_then (map_member n ''headers'' (parse_security_headers_node lib) (\<lambda>x. sv_http_update (sc_security_headers_update (\<lambda>_. x))) c) (\<lambda>c.
        and_then (map_member n ''http_limits'' (parse_http_limits_node lib) (\<lambda>x. sv_http_update (sc_http_limits_update (\<lambda>_. x))) c) (\<lambda>c.
        if security_config_validate c = None then Inr c else Inl ParsingError))))))"

end
