(* ===== verification/Logging_Config.thy ===== *)
theory Logging_Config
  imports Sea_Prelude
begin

text \<open>
  The configuration of logging (\<open>libs/domain/logging/logging_config.{h,cpp}\<close>): its enumerations, sinks,
  rotation and queue, its validation, and the level that is in force for a module.
\<close>

section \<open>Enumerations\<close>

datatype log_level = LvTrace | LvDebug | LvInfo | LvWarn | LvError | LvCritical | LvOff

definition log_level_from_string :: "string \<Rightarrow> string + log_level" where
  "log_level_from_string s =
     (let lower = str_lower s in
      if lower = ''trace'' then Inr LvTrace
      else if lower = ''debug'' then Inr LvDebug
      else if lower = ''info'' then Inr LvInfo
      else if lower = ''warn'' \<or> lower = ''warning'' then Inr LvWarn
      else if lower = ''error'' \<or> lower = ''err'' then Inr LvError
      else if lower = ''critical'' \<or> lower = ''crit'' then Inr LvCritical
      else if lower = ''off'' \<or> lower = ''none'' then Inr LvOff
      else Inl (''LoggingConfig: unknown level '' @ quoted s
             @ '' (expected: trace | debug | info | warn | error | critical | off)''))"

fun log_level_to_string :: "log_level \<Rightarrow> string" where
  "log_level_to_string LvTrace = ''trace''"
| "log_level_to_string LvDebug = ''debug''"
| "log_level_to_string LvInfo = ''info''"
| "log_level_to_string LvWarn = ''warn''"
| "log_level_to_string LvError = ''error''"
| "log_level_to_string LvCritical = ''critical''"
| "log_level_to_string LvOff = ''off''"

datatype log_format = TextFormat | JsonFormat

definition log_format_from_string :: "string \<Rightarrow> string + log_format" where
  "log_format_from_string s =
     (let lower = str_lower s in
      if lower = ''text'' \<or> lower = ''plain'' then Inr TextFormat
      else if lower = ''json'' then Inr JsonFormat
      else Inl (''LoggingConfig: unknown format '' @ quoted s @ '' (expected: text | json)''))"

datatype sink_type = ConsoleSink | FileSink

definition sink_type_from_string :: "string \<Rightarrow> string + sink_type" where
  "sink_type_from_string s =
     (let lower = str_lower s in
      if lower = ''console'' \<or> lower = ''stderr'' \<or> lower = ''stdout'' then Inr ConsoleSink
      else if lower = ''file'' then Inr FileSink
      else Inl (''LoggingConfig: unknown sink type '' @ quoted s @ '' (expected: console | file)''))"

datatype time_pattern = NoRotation | Hourly | Daily

definition time_pattern_from_string :: "string \<Rightarrow> string + time_pattern" where
  "time_pattern_from_string s =
     (let lower = str_lower s in
      if lower = ''none'' then Inr NoRotation
      else if lower = ''hourly'' then Inr Hourly
      else if lower = ''daily'' then Inr Daily
      else Inl (''LoggingConfig: unknown time_pattern '' @ quoted s @ '' (expected: none | hourly | daily)''))"

section \<open>The configuration\<close>

record rotation_config =
  ro_max_size_bytes :: size
  ro_time_pattern :: time_pattern
  ro_max_files :: size
  ro_compress :: bool

definition default_rotation :: rotation_config where
  "default_rotation = \<lparr>ro_max_size_bytes = 104857600, ro_time_pattern = Daily, ro_max_files = 10, ro_compress = False\<rparr>"

record sink_config =
  si_type :: sink_type
  si_format :: log_format
  si_enabled :: bool
  si_path :: string
  si_rotation :: rotation_config

definition console_sink :: sink_config where
  "console_sink = \<lparr>si_type = ConsoleSink, si_format = TextFormat, si_enabled = True, si_path = [], si_rotation = default_rotation\<rparr>"

datatype overflow_policy = BlockWriter | OverrunOldest

record async_config =
  as_enabled :: bool
  as_queue_size :: size
  as_overflow :: overflow_policy

definition default_async :: async_config where
  "default_async = \<lparr>as_enabled = True, as_queue_size = 8192, as_overflow = OverrunOldest\<rparr>"

record logging_config =
  lg_enabled :: bool
  lg_level :: log_level
  lg_module_levels :: "(string, log_level) table"
  lg_sinks :: "sink_config list"
  lg_flush_level :: log_level
  lg_async :: async_config

definition logging_empty :: logging_config where
  "logging_empty = \<lparr>lg_enabled = True, lg_level = LvInfo, lg_module_levels = [], lg_sinks = [],
     lg_flush_level = LvError, lg_async = default_async\<rparr>"

definition logging_safe_defaults :: logging_config where
  "logging_safe_defaults = logging_empty\<lparr>lg_sinks := [console_sink]\<rparr>"

definition logging_disabled :: logging_config where
  "logging_disabled = logging_empty\<lparr>lg_enabled := False, lg_level := LvOff\<rparr>"

section \<open>The level of a module\<close>

text \<open>The override of the module itself, else that of its longest prefix in front of a dot, else the general level.\<close>

fun best_prefix_loop :: "string \<Rightarrow> (string \<times> log_level) list \<Rightarrow> string \<Rightarrow> log_level \<Rightarrow> log_level" where
  "best_prefix_loop module_name [] best_prefix best_level = best_level"
| "best_prefix_loop module_name ((name, lvl) # ls) best_prefix best_level =
     (if length name + 1 \<le> length module_name \<and> take (length name) module_name = name \<and> module_name ! length name = CHR ''.''
         \<and> length best_prefix < length name
      then best_prefix_loop module_name ls name lvl
      else best_prefix_loop module_name ls best_prefix best_level)"

definition effective_level_for :: "logging_config \<Rightarrow> string \<Rightarrow> log_level" where
  "effective_level_for cfg module_name =
     (case tbl_get (lg_module_levels cfg) module_name of
        Some lvl \<Rightarrow> lvl
      | None \<Rightarrow> best_prefix_loop module_name (lg_module_levels cfg) [] (lg_level cfg))"

section \<open>Validation\<close>

fun validate_sinks_loop :: "sink_config list \<Rightarrow> bool \<Rightarrow> nat \<Rightarrow> string + bool" where
  "validate_sinks_loop [] any_enabled i = Inr any_enabled"
| "validate_sinks_loop (s # ss) any_enabled i =
     (if \<not> si_enabled s then validate_sinks_loop ss any_enabled (i + 1)
      else if si_type s = FileSink \<and> si_path s = []
      then Inl (''LoggingConfig: sink #'' @ nat_str i @ '' is type=file but path is empty'')
      else if si_type s = FileSink \<and> ro_max_files (si_rotation s) = 0
      then Inl (''LoggingConfig: sink #'' @ nat_str i @ '' has rotation.max_files == 0 (must be >= 1)'')
      else validate_sinks_loop ss True (i + 1))"

definition logging_validate :: "logging_config \<Rightarrow> string option" where
  "logging_validate cfg =
     (if \<not> lg_enabled cfg then None
      else if lg_sinks cfg = [] then Some ''LoggingConfig: no sinks declared (need at least one when enabled)''
      else case validate_sinks_loop (lg_sinks cfg) False 0 of
        Inl e \<Rightarrow> Some e
      | Inr any_enabled \<Rightarrow>
          if \<not> any_enabled then Some ''LoggingConfig: all sinks are disabled (logging will produce no output)''
          else if as_enabled (lg_async cfg) \<and> as_queue_size (lg_async cfg) = 0
          then Some ''LoggingConfig: async.queue_size must be > 0 when async is enabled''
          else None)"

section \<open>Lemmas\<close>

definition module_prefix :: "string \<Rightarrow> string \<Rightarrow> bool" where
  "module_prefix name module_name \<longleftrightarrow> (\<exists>rest. module_name = name @ CHR ''.'' # rest)"

lemma module_prefix_code:
  "length name + 1 \<le> length m \<and> take (length name) m = name \<and> m ! length name = CHR ''.'' \<longleftrightarrow> module_prefix name m"
proof
  assume a: "length name + 1 \<le> length m \<and> take (length name) m = name \<and> m ! length name = CHR ''.''"
  then have "drop (length name) m = CHR ''.'' # drop (Suc (length name)) m" by (metis Cons_nth_drop_Suc Suc_eq_plus1 Suc_le_lessD)
  then show "module_prefix name m" using a unfolding module_prefix_def by (metis append_take_drop_id)
qed (auto simp: module_prefix_def)

lemma best_prefix_step:
  "best_prefix_loop m ((name, lvl) # ls) b lvl0 =
     (if module_prefix name m \<and> length b < length name then best_prefix_loop m ls name lvl else best_prefix_loop m ls b lvl0)"
  by (subst best_prefix_loop.simps) (simp only: module_prefix_code [symmetric] conj_assoc)

text \<open>The loop returns the level of a longest prefix, or what it started with when none is longer.\<close>

definition best_level_of :: "string \<Rightarrow> (string \<times> log_level) list \<Rightarrow> string \<Rightarrow> log_level \<Rightarrow> log_level \<Rightarrow> bool" where
  "best_level_of m ls b lvl0 lvl \<longleftrightarrow>
     (\<exists>name. (name, lvl) \<in> set ls \<and> module_prefix name m \<and> length b < length name
        \<and> (\<forall>n \<in> fst ` set ls. module_prefix n m \<longrightarrow> length n \<le> length name))
     \<or> lvl = lvl0 \<and> (\<forall>n \<in> fst ` set ls. module_prefix n m \<longrightarrow> length n \<le> length b)"

lemma best_prefix_loop_level: "best_level_of m ls b lvl0 (best_prefix_loop m ls b lvl0)"
proof (induction ls arbitrary: b lvl0)
  case (Cons x ls)
  obtain name l where x: "x = (name, l)" by force
  show ?case
  proof (cases "module_prefix name m \<and> length b < length name")
    case True
    then have "best_prefix_loop m (x # ls) b lvl0 = best_prefix_loop m ls name l" by (auto simp: x best_prefix_step simp del: best_prefix_loop.simps)
    moreover have "best_level_of m ls name l lvl \<Longrightarrow> best_level_of m (x # ls) b lvl0 lvl" for lvl
      unfolding best_level_of_def x using True by (elim disjE exE conjE) (intro disjI1, auto dest: less_imp_le)+
    ultimately show ?thesis using Cons [of name l] by simp
  next
    case False
    then have "best_prefix_loop m (x # ls) b lvl0 = best_prefix_loop m ls b lvl0" by (auto simp: x best_prefix_step simp del: best_prefix_loop.simps)
    moreover have "best_level_of m ls b lvl0 lvl \<Longrightarrow> best_level_of m (x # ls) b lvl0 lvl" for lvl
      unfolding best_level_of_def x using False by auto
    ultimately show ?thesis using Cons [of b lvl0] by simp
  qed
qed (simp add: best_level_of_def)

end
