(* ===== verification/Yaml_Service.thy ===== *)
theory Yaml_Service
  imports Yaml_Schema Yaml_Security Logging_Config Schema_Bootstrap Schema_Soundness
begin

text \<open>
  Services and projects in a YAML document: database, file storage, logging, the service and the project
  (\<open>parse_project_node\<close>, \<open>parse_service_node\<close>, \<open>parse_storage_config_node\<close>, \<open>parse_database_config_node\<close>,
  \<open>parse_seeds_config_node\<close> and the section of logging of \<open>libs/infrastructure/yaml/yaml_schema_parser.cpp\<close>), the
  structures of \<open>libs/domain/{database_config,storage_config,service,project}.h\<close> and the use cases that load a
  project and validate the schema of a service (\<open>libs/application\<close>).
\<close>

section \<open>Databases\<close>

datatype database_type = MemoryDb | PostgreDb | MongoDb | MySqlDb

fun database_type_to_string :: "database_type \<Rightarrow> string" where
  "database_type_to_string MemoryDb = ''memory''"
| "database_type_to_string PostgreDb = ''postgres''"
| "database_type_to_string MySqlDb = ''mysql''"
| "database_type_to_string MongoDb = ''mongo''"

datatype seeds_mode = SeedsOnce | SeedsAlways
datatype seeds_error_policy = SeedsContinue | SeedsAbort

record seeds_config =
  sd_enabled :: bool
  sd_mode :: seeds_mode
  sd_on_error :: seeds_error_policy

record database_config =
  db_type :: database_type
  db_host :: string
  db_port :: int
  db_name :: string
  db_username :: string
  db_password :: string
  db_migrations :: migrations_config
  db_seeds :: seeds_config

definition default_database_config :: database_config where
  "default_database_config =
     \<lparr>db_type = MemoryDb, db_host = ''localhost'', db_port = 0, db_name = [], db_username = [], db_password = [],
      db_migrations = \<lparr>mc_enabled = False, mc_mode = Conservative, mc_create_database_if_missing = True, mc_dry_run = False\<rparr>,
      db_seeds = \<lparr>sd_enabled = False, sd_mode = SeedsOnce, sd_on_error = SeedsContinue\<rparr>\<rparr>"

definition requires_network_connection :: "database_config \<Rightarrow> bool" where
  "requires_network_connection db \<longleftrightarrow> db_type db = PostgreDb \<or> db_type db = MongoDb \<or> db_type db = MySqlDb"

definition has_connection_info :: "database_config \<Rightarrow> bool" where
  "has_connection_info db =
     (if db_type db = MemoryDb then True else db_host db \<noteq> [] \<and> 0 < db_port db \<and> db_name db \<noteq> [])"

definition seeds_mode_from_string :: "string \<Rightarrow> seeds_mode option" where
  "seeds_mode_from_string s =
     (let lower = str_lower s in
      if lower = ''once'' then Some SeedsOnce else if lower = ''always'' then Some SeedsAlways else None)"

definition parse_database_type :: "string \<Rightarrow> database_type option" where
  "parse_database_type s =
     (let lowered = str_lower s in
      if lowered = ''memory'' then Some MemoryDb
      else if lowered = ''mysql'' \<or> lowered = ''mysqldb'' then Some MySqlDb
      else if lowered = ''postgres'' \<or> lowered = ''postgresql'' then Some PostgreDb
      else if lowered = ''mongo'' \<or> lowered = ''mongodb'' then Some MongoDb
      else None)"

text \<open>\<open>convert<MigrationMode>\<close>: the scalars that are the name of a mode; every other node is a bad conversion.\<close>

definition migration_mode_of :: "yaml_library \<Rightarrow> yaml \<Rightarrow> migration_mode option" where
  "migration_mode_of lib n =
     (case n of
        YScalar _ \<Rightarrow>
          (case yl_text lib n of
             Some v \<Rightarrow>
               if v = ''conservative'' then Some Conservative
               else if v = ''modified'' then Some Modified
               else if v = ''aggressive'' then Some Aggressive
               else None
           | None \<Rightarrow> None)
      | _ \<Rightarrow> None)"

definition seeds_policy_of :: "string \<Rightarrow> seeds_error_policy option" where
  "seeds_policy_of s = (if s = ''abort'' then Some SeedsAbort else if s = ''continue'' then Some SeedsContinue else None)"

definition parse_seeds_config_node :: "yaml_library \<Rightarrow> yaml \<Rightarrow> seeds_config parsed" where
  "parse_seeds_config_node lib n =
     (let d = db_seeds default_database_config in
      if \<not> is_map n then Inr d
      else and_then (get_or_default (yl_bool lib) n ''enabled'' False) (\<lambda>b.
        and_then (set_member (as_enum lib seeds_mode_from_string) n ''mode'' (\<lambda>m. sd_mode_update (\<lambda>_. m)) (d\<lparr>sd_enabled := b\<rparr>)) (\<lambda>c.
        set_member (as_enum lib seeds_policy_of) n ''on_error'' (\<lambda>p. sd_on_error_update (\<lambda>_. p)) c)))"

definition parse_migrations :: "yaml_library \<Rightarrow> yaml \<Rightarrow> database_config \<Rightarrow> database_config parsed" where
  "parse_migrations lib m db =
     require (is_map m) ParsingError
       (let d = db_migrations db in
        and_then (get_or_default (yl_bool lib) m ''create_database_if_missing'' (mc_create_database_if_missing d)) (\<lambda>create.
        and_then (get_or_default (yl_bool lib) m ''enabled'' (mc_enabled d)) (\<lambda>en.
        and_then (get_or_default (migration_mode_of lib) m ''mode'' (mc_mode d)) (\<lambda>mode.
        set_member (parse_seeds_config_node lib) m ''seeds'' (\<lambda>s. db_seeds_update (\<lambda>_. s))
          (db\<lparr>db_migrations := d\<lparr>mc_create_database_if_missing := create, mc_enabled := en, mc_mode := mode\<rparr>\<rparr>)))))"

definition env_text :: "yaml_library \<Rightarrow> (string \<Rightarrow> string option) \<Rightarrow> yaml \<Rightarrow> string \<Rightarrow> string \<Rightarrow> string parsed" where
  "env_text lib environment n key default_value =
     and_then (get_or_default (yl_text lib) n key default_value) (resolve_env environment)"

definition parse_database_config_node ::
  "yaml_library \<Rightarrow> (string \<Rightarrow> string option) \<Rightarrow> yaml \<Rightarrow> database_config parsed" where
  "parse_database_config_node lib environment n =
     (let d = default_database_config in
      and_then (get_or_default (yl_text lib) n ''type'' ''memory'') (\<lambda>type_str.
      and_then (known_value (parse_database_type type_str)) (\<lambda>t.
      and_then (env_text lib environment n ''host'' (db_host d)) (\<lambda>host.
      and_then (get_or_default (yl_int lib) n ''port'' (db_port d)) (\<lambda>port.
      and_then (env_text lib environment n ''database_name'' []) (\<lambda>name.
      and_then (env_text lib environment n ''username'' []) (\<lambda>user.
      and_then (env_text lib environment n ''password'' []) (\<lambda>pass.
      when_member n ''migrations'' (parse_migrations lib)
        (d\<lparr>db_type := t, db_host := host, db_port := port, db_name := name, db_username := user, db_password := pass\<rparr>)))))))))"

section \<open>File storage\<close>

record storage_config =
  st_root_path :: string
  st_file_mode :: "32 word"
  st_directory_mode :: "32 word"

text \<open>There is one backend, the file system. The default modes are octal 640 and 750.\<close>

definition default_storage_config :: storage_config where
  "default_storage_config = \<lparr>st_root_path = [], st_file_mode = 416, st_directory_mode = 488\<rparr>"

definition as_octal :: "yaml_library \<Rightarrow> yaml \<Rightarrow> 32 word parsed" where
  "as_octal lib n = catch_all (and_then (as_value (yl_text lib) n) (\<lambda>raw. and_then (stoul_octal raw) (\<lambda>m. Inr (ucast m))))"

definition parse_storage_config_node :: "yaml_library \<Rightarrow> yaml \<Rightarrow> storage_config parsed" where
  "parse_storage_config_node lib n =
     require (is_map n) ParsingError
       (and_then (set_member (as_enum lib (\<lambda>s. if str_lower s = ''filesystem'' then Some () else None)) n ''backend'' (\<lambda>_ c. c) default_storage_config) (\<lambda>c.
        and_then (set_member (as_value (yl_text lib)) n ''root_path'' (\<lambda>s. st_root_path_update (\<lambda>_. s)) c) (\<lambda>c.
        and_then (set_member (as_octal lib) n ''file_mode'' (\<lambda>m. st_file_mode_update (\<lambda>_. m)) c) (\<lambda>c.
        set_member (as_octal lib) n ''directory_mode'' (\<lambda>m. st_directory_mode_update (\<lambda>_. m)) c))))"

section \<open>Logging\<close>

definition as_known :: "yaml_library \<Rightarrow> (string \<Rightarrow> string + 'a) \<Rightarrow> yaml \<Rightarrow> 'a parsed" where
  "as_known lib from_string n = catch_all (and_then (as_value (yl_text lib) n) (\<lambda>s. thrown (from_string s)))"

definition parse_rotation_node :: "yaml_library \<Rightarrow> yaml \<Rightarrow> rotation_config parsed" where
  "parse_rotation_node lib n =
     (if \<not> is_map n then Inr default_rotation
      else and_then (set_member (as_size_text lib) n ''max_size'' (\<lambda>m. ro_max_size_bytes_update (\<lambda>_. m)) default_rotation) (\<lambda>c.
        and_then (set_member (as_known lib time_pattern_from_string) n ''time_pattern'' (\<lambda>t. ro_time_pattern_update (\<lambda>_. t)) c) (\<lambda>c.
        and_then (set_member (as_value (yl_size lib)) n ''max_files'' (\<lambda>m. ro_max_files_update (\<lambda>_. m)) c) (\<lambda>c.
        set_member (as_value (yl_bool lib)) n ''compress'' (\<lambda>b. ro_compress_update (\<lambda>_. b)) c))))"

definition parse_sink_node :: "yaml_library \<Rightarrow> yaml \<Rightarrow> sink_config parsed" where
  "parse_sink_node lib n =
     require (is_map n) ParsingError
       (case member n ''type'' of
          None \<Rightarrow> Inl ParsingError
        | Some v \<Rightarrow>
            and_then (as_known lib sink_type_from_string v) (\<lambda>t.
            and_then (set_member (as_known lib log_format_from_string) n ''format'' (\<lambda>f. si_format_update (\<lambda>_. f)) (console_sink\<lparr>si_type := t\<rparr>)) (\<lambda>c.
            and_then (set_member (as_value (yl_bool lib)) n ''enabled'' (\<lambda>b. si_enabled_update (\<lambda>_. b)) c) (\<lambda>c.
            and_then (set_member (as_value (yl_text lib)) n ''path'' (\<lambda>s. si_path_update (\<lambda>_. s)) c) (\<lambda>c.
            set_member (parse_rotation_node lib) n ''rotation'' (\<lambda>r. si_rotation_update (\<lambda>_. r)) c)))))"

definition overflow_policy_of :: "string \<Rightarrow> overflow_policy option" where
  "overflow_policy_of s = (if s = ''block'' then Some BlockWriter else if s = ''overrun_oldest'' then Some OverrunOldest else None)"

definition parse_async_node :: "yaml_library \<Rightarrow> yaml \<Rightarrow> async_config parsed" where
  "parse_async_node lib n =
     (if \<not> is_map n then Inr default_async
      else and_then (set_member (as_value (yl_bool lib)) n ''enabled'' (\<lambda>b. as_enabled_update (\<lambda>_. b)) default_async) (\<lambda>c.
        and_then (set_member (as_value (yl_size lib)) n ''queue_size'' (\<lambda>m. as_queue_size_update (\<lambda>_. m)) c) (\<lambda>c.
        set_member (as_enum lib overflow_policy_of) n ''overflow_policy'' (\<lambda>p. as_overflow_update (\<lambda>_. p)) c)))"

fun module_levels_loop :: "yaml_library \<Rightarrow> (string \<times> yaml) list \<Rightarrow> logging_config \<Rightarrow> logging_config parsed" where
  "module_levels_loop lib [] cfg = Inr cfg"
| "module_levels_loop lib ((name, v) # ms) cfg =
     and_then (as_value (yl_text lib) v) (\<lambda>level_str.
     and_then (catch_all (thrown (log_level_from_string level_str))) (\<lambda>lvl.
     module_levels_loop lib ms (cfg\<lparr>lg_module_levels := tbl_put name lvl (lg_module_levels cfg)\<rparr>)))"

definition parse_logging_node :: "yaml_library \<Rightarrow> yaml \<Rightarrow> logging_config parsed" where
  "parse_logging_node lib n =
     (if \<not> is_map n then Inr logging_safe_defaults
      else and_then (set_member (as_value (yl_bool lib)) n ''enabled'' (\<lambda>b. lg_enabled_update (\<lambda>_. b)) logging_empty) (\<lambda>c.
        and_then (set_member (as_known lib log_level_from_string) n ''level'' (\<lambda>l. lg_level_update (\<lambda>_. l)) c) (\<lambda>c.
        and_then (map_member n ''modules'' (\<lambda>m. module_levels_loop lib (members m) c) (\<lambda>x _. x) c) (\<lambda>c.
        and_then (list_member (parse_sink_node lib) n ''sinks'' (\<lambda>ss. lg_sinks_update (\<lambda>_. ss)) (c\<lparr>lg_sinks := [console_sink]\<rparr>)) (\<lambda>c.
        and_then (set_member (as_known lib log_level_from_string) n ''flush_level'' (\<lambda>l. lg_flush_level_update (\<lambda>_. l)) c) (\<lambda>c.
        set_member (parse_async_node lib) n ''async'' (\<lambda>a. lg_async_update (\<lambda>_. a)) c))))))"

section \<open>Services and projects\<close>

record service =
  se_name :: string
  se_port :: "16 word"
  se_security :: service_security
  se_schema :: schema
  se_seeds :: "seed_record list list"
  se_database :: database_config
  se_access_control :: access_control_config
  se_logging :: logging_config
  se_storage :: "storage_config option"

definition service_has_file_fields :: "service \<Rightarrow> bool" where
  "service_has_file_fields sv = schema_has_file_fields (se_schema sv)"

definition parse_service_node :: "yaml_library \<Rightarrow> (string \<Rightarrow> string option) \<Rightarrow> yaml \<Rightarrow> service parsed" where
  "parse_service_node lib environment n =
     require (is_map n) ParsingError
       (and_then (require_string lib n ''name'') (\<lambda>name.
        and_then (get_or_default (yl_int lib) n ''port'' 8080) (\<lambda>raw_port.
        require (1 \<le> raw_port \<and> raw_port \<le> 65535) ParsingError
       (and_then (map_member n ''database'' (parse_database_config_node lib environment) (\<lambda>x _. x) default_database_config) (\<lambda>db.
        and_then (parse_mode (parse_storage_config_node lib) n ''storage'') (\<lambda>storage.
        and_then (map_member n ''security'' (parse_security_node lib environment) (\<lambda>x _. x) security_disabled) (\<lambda>sec.
        and_then (case member n ''security'' of
                    None \<Rightarrow> Inr default_access_config
                  | Some s \<Rightarrow> set_member (parse_authorization_node lib) s ''authorization'' (\<lambda>x _. x) default_access_config) (\<lambda>ac.
        and_then (set_member (parse_logging_node lib) n ''logging'' (\<lambda>x _. x) logging_safe_defaults) (\<lambda>lg.
        and_then (parse_list (parse_entity_node lib ac) n ''entities'') (\<lambda>es.
        Inr \<lparr>se_name = name, se_port = word_of_int raw_port, se_security = sec,
          se_schema = \<lparr>entities = map fst es\<rparr>, se_seeds = map snd es, se_database = db, se_access_control = ac,
          se_logging = lg, se_storage = storage\<rparr>))))))))))"

record project =
  pj_name :: string
  pj_services :: "service list"

definition parse_project_node :: "yaml_library \<Rightarrow> (string \<Rightarrow> string option) \<Rightarrow> yaml \<Rightarrow> project parsed" where
  "parse_project_node lib environment n =
     require (is_map n) ParsingError
       (and_then (map_member n ''project'' (\<lambda>p. require_string lib p ''name'') (\<lambda>x _. x) ''UnnamedProject'') (\<lambda>name.
        case member n ''services'' of
          None \<Rightarrow> Inl ParsingError
        | Some v \<Rightarrow> require (is_sequence v) ParsingError
            (and_then (traverse (parse_service_node lib environment) (items v)) (\<lambda>ss. Inr \<lparr>pj_name = name, pj_services = ss\<rparr>))))"

text \<open>\<open>YAML::LoadFile\<close> is the argument: the tree of the file, or nothing when it throws.\<close>

definition parse_project_file ::
  "yaml_library \<Rightarrow> (string \<Rightarrow> string option) \<Rightarrow> (string \<Rightarrow> yaml option) \<Rightarrow> string \<Rightarrow> project parsed" where
  "parse_project_file lib environment load_file file_path =
     and_then (known_value (load_file file_path)) (parse_project_node lib environment)"

definition parse_service_file ::
  "yaml_library \<Rightarrow> (string \<Rightarrow> string option) \<Rightarrow> (string \<Rightarrow> yaml option) \<Rightarrow> string \<Rightarrow> service parsed" where
  "parse_service_file lib environment load_file file_path =
     and_then (known_value (load_file file_path)) (parse_service_node lib environment)"

definition find_service :: "project \<Rightarrow> string \<Rightarrow> service option" where
  "find_service p service_name = find (\<lambda>s. se_name s = service_name) (pj_services p)"

text \<open>\<open>yaml_project_repository::load\<close> and \<open>ValidateSchemaUseCase\<close>.\<close>

definition load_project ::
  "yaml_library \<Rightarrow> (string \<Rightarrow> string option) \<Rightarrow> (string \<Rightarrow> bool) \<Rightarrow> (string \<Rightarrow> yaml option) \<Rightarrow> string \<Rightarrow> project parsed" where
  "load_project lib environment file_exists load_file file_path =
     (if \<not> file_exists file_path then Inl OtherError else parse_project_file lib environment load_file file_path)"

definition validate_service :: "service \<Rightarrow> bool \<times> string list" where
  "validate_service sv = (let errors = validate_schema (se_schema sv) in (errors = [], errors))"

text \<open>The storage the factory of the file service chooses, when the service needs one.\<close>

definition chosen_storage :: "service \<Rightarrow> storage_config option" where
  "chosen_storage sv =
     (if \<not> service_has_file_fields sv then None
      else case se_storage sv of
        Some cfg \<Rightarrow> Some cfg
      | None \<Rightarrow> Some (default_storage_config\<lparr>st_root_path := ''./uploads''\<rparr>))"

end
