(* ===== verification/Yaml_Writer.thy ===== *)
theory Yaml_Writer
  imports Yaml_Service
begin

text \<open>
  A writer of entities as YAML documents, the reference the parser is compared with: every member is written
  out, and the parser reads the entity back. What is asked of the conversions of yaml-cpp is stated in
  \<open>reads_back\<close>.
\<close>

section \<open>The writer\<close>

definition bool_yaml :: "bool \<Rightarrow> yaml" where
  "bool_yaml b = YScalar (if b then ''true'' else ''false'')"

definition size_yaml :: "size \<Rightarrow> yaml" where
  "size_yaml n = YScalar (nat_str (unat n))"

definition int_yaml :: "64 word \<Rightarrow> yaml" where
  "int_yaml i = YScalar (int_str (sint i))"

definition opt_member :: "string \<Rightarrow> ('a \<Rightarrow> yaml) \<Rightarrow> 'a option \<Rightarrow> (string \<times> yaml) list" where
  "opt_member key w x = (case x of None \<Rightarrow> [] | Some y \<Rightarrow> [(key, w y)])"

definition texts_yaml :: "string list \<Rightarrow> yaml" where
  "texts_yaml ss = YSeq (map YScalar ss)"

definition default_yaml :: "(double \<Rightarrow> string) \<Rightarrow> default_value \<Rightarrow> yaml" where
  "default_yaml dbl v =
     (case v of
        DvString s \<Rightarrow> YScalar s | DvInt64 i \<Rightarrow> int_yaml i | DvDouble d \<Rightarrow> YScalar (dbl d) | DvBool b \<Rightarrow> bool_yaml b
      | _ \<Rightarrow> YNull)"

definition default_option :: "default_value \<Rightarrow> default_value option" where
  "default_option v = (if v = DvNone then None else Some v)"

definition bound_yaml :: "(double \<Rightarrow> string) \<Rightarrow> numeric_constraint \<Rightarrow> yaml" where
  "bound_yaml dbl c = (case c of NcInt64 i \<Rightarrow> int_yaml i | NcDouble d \<Rightarrow> YScalar (dbl d) | _ \<Rightarrow> YNull)"

definition file_config_yaml :: "file_field_config \<Rightarrow> yaml" where
  "file_config_yaml cfg = YMap (opt_member ''max_size'' size_yaml (max_size_bytes cfg)
     @ [(''allowed_mime_types'', texts_yaml (allowed_mime_types cfg)),
        (''allowed_extensions'', texts_yaml (allowed_extensions cfg)),
        (''storage_path'', YScalar (storage_path cfg)),
        (''on_delete'', YScalar (on_delete_file_to_string (fc_on_delete cfg)))])"

definition field_yaml :: "(double \<Rightarrow> string) \<Rightarrow> field \<Rightarrow> yaml" where
  "field_yaml dbl f = YMap (
     [(''name'', YScalar (f_name f)), (''type'', YScalar (field_type_to_string (f_type f))),
      (''required'', bool_yaml (f_required f)), (''unique'', bool_yaml (f_unique f)),
      (''indexed'', bool_yaml (f_indexed f)), (''serializable'', bool_yaml (f_serializable f)),
      (''unsigned_value'', bool_yaml (f_unsigned f))]
     @ opt_member ''previous_name'' YScalar (f_previous_name f)
     @ opt_member ''max_length'' size_yaml (f_max_length f)
     @ opt_member ''min_value'' (bound_yaml dbl) (f_min_value f)
     @ opt_member ''max_value'' (bound_yaml dbl) (f_max_value f)
     @ opt_member ''default'' (default_yaml dbl) (default_option (f_default_val f))
     @ opt_member ''file'' file_config_yaml (f_file_config f))"

definition relation_yaml :: "relation \<Rightarrow> yaml" where
  "relation_yaml r = YMap
     [(''name'', YScalar (r_name r)), (''target_entity'', YScalar (r_target r)),
      (''kind'', YScalar (relation_kind_to_string (r_kind r))), (''on_delete'', YScalar (on_delete_to_string (r_on_delete r))),
      (''fk_column'', YScalar (r_fk_column r)), (''pivot_table'', YScalar (r_pivot_table r)),
      (''source_fk_column'', YScalar (r_source_fk r)), (''target_fk_column'', YScalar (r_target_fk r))]"

definition page_yaml :: "page_pagination \<Rightarrow> yaml" where
  "page_yaml p = YMap ([(''default_page_size'', size_yaml (pg_default_page_size p)), (''max_page_size'', size_yaml (pg_max_page_size p)),
     (''sortable_fields'', texts_yaml (pg_sortable_fields p))] @ opt_member ''default_sort'' YScalar (pg_default_sort p))"

definition offset_yaml :: "offset_pagination \<Rightarrow> yaml" where
  "offset_yaml p = YMap ([(''default_limit'', size_yaml (of_default_limit p)), (''max_limit'', size_yaml (of_max_limit p)),
     (''sortable_fields'', texts_yaml (of_sortable_fields p))] @ opt_member ''default_sort'' YScalar (of_default_sort p))"

definition cursor_yaml :: "cursor_pagination \<Rightarrow> yaml" where
  "cursor_yaml c = YMap [(''default_limit'', size_yaml (cu_default_limit c)), (''max_limit'', size_yaml (cu_max_limit c)),
     (''cursor_field'', YScalar (cu_cursor_field c)), (''sort'', YScalar (cu_sort c))]"

definition pagination_yaml :: "pagination_config \<Rightarrow> yaml" where
  "pagination_yaml cfg = YMap (opt_member ''page'' page_yaml (pc_page cfg) @ opt_member ''offset'' offset_yaml (pc_offset cfg)
     @ opt_member ''cursor'' cursor_yaml (pc_cursor cfg))"

definition options_yaml :: "entity_options \<Rightarrow> yaml" where
  "options_yaml o1 = YMap
     [(''enable_crud'', bool_yaml (enable_crud o1)), (''is_auth_source'', bool_yaml (is_auth_source o1)),
      (''public_routes'', bool_yaml (public_routes o1)), (''enable_websocket'', bool_yaml (enable_websocket o1)),
      (''soft_delete'', bool_yaml (soft_delete o1)), (''timestamps'', bool_yaml (timestamps o1))]"

definition entity_yaml :: "(double \<Rightarrow> string) \<Rightarrow> entity \<Rightarrow> yaml" where
  "entity_yaml dbl e = YMap ([(''name'', YScalar (e_name e)), (''table_name'', YScalar (e_table_name e)),
     (''options'', options_yaml (e_options e)), (''fields'', YSeq (map (field_yaml dbl) (e_fields e))),
     (''relations'', YSeq (map relation_yaml (e_relations e)))]
     @ opt_member ''pagination'' pagination_yaml (e_pagination e))"

section \<open>What can be written\<close>

definition reads_back :: "yaml_library \<Rightarrow> bool" where
  "reads_back lib \<longleftrightarrow>
     (\<forall>s. yl_text lib (YScalar s) = Some s) \<and> (\<forall>b. yl_bool lib (bool_yaml b) = Some b)
     \<and> (\<forall>n. yl_size lib (size_yaml n) = Some n) \<and> (\<forall>i. yl_int64 lib (int_yaml i) = Some i)"

definition double_reads :: "yaml_library \<Rightarrow> (double \<Rightarrow> string) \<Rightarrow> double \<Rightarrow> bool" where
  "double_reads lib dbl d \<longleftrightarrow> yl_double lib (YScalar (dbl d)) = Some d"

definition extension_ok :: "string \<Rightarrow> bool" where
  "extension_ok ext \<longleftrightarrow> ext \<noteq> [] \<and> hd ext = CHR ''.'' \<and> str_lower ext = ext \<and> CHR ''/'' \<notin> set ext \<and> CHR 0x5C \<notin> set ext"

definition file_config_ok :: "file_field_config \<Rightarrow> bool" where
  "file_config_ok cfg \<longleftrightarrow> max_size_bytes cfg \<noteq> Some 0 \<and> list_all (\<lambda>m. CHR ''/'' \<in> set m) (allowed_mime_types cfg)
     \<and> list_all extension_ok (allowed_extensions cfg)"

text \<open>The alternative of a default and of a bound that the type of the field allows.\<close>

definition default_shape :: "field_type \<Rightarrow> default_value \<Rightarrow> bool" where
  "default_shape t v \<longleftrightarrow>
     (case v of
        DvNone \<Rightarrow> True
      | DvString _ \<Rightarrow> t \<in> {FString, FText, FUUID, FPassword, FEmail, FTimestamp, FDecimal, FJson}
      | DvInt64 _ \<Rightarrow> t \<in> {FInt, FSmallInt, FBigInt}
      | DvDouble _ \<Rightarrow> t = FFloat
      | DvBool _ \<Rightarrow> t = FBool
      | _ \<Rightarrow> False)"

definition bound_shape :: "field_type \<Rightarrow> numeric_constraint option \<Rightarrow> bool" where
  "bound_shape t c \<longleftrightarrow>
     (case c of None \<Rightarrow> True | Some (NcInt64 _) \<Rightarrow> t \<noteq> FFloat | Some (NcDouble _) \<Rightarrow> t = FFloat | _ \<Rightarrow> False)"

text \<open>The shape of every field the parser accepts. A field is never of type native: its name is not in the table of types.\<close>

definition field_shape :: "field \<Rightarrow> bool" where
  "field_shape f \<longleftrightarrow> f_type f \<noteq> FNative \<and> f_native_type f = None \<and> f_previous_name f \<noteq> Some []
     \<and> default_shape (f_type f) (f_default_val f) \<and> bound_shape (f_type f) (f_min_value f) \<and> bound_shape (f_type f) (f_max_value f)
     \<and> (f_type f = FFile \<longleftrightarrow> f_file_config f \<noteq> None)
     \<and> (\<forall>cfg. f_file_config f = Some cfg \<longrightarrow> file_config_ok cfg)"

definition relation_shape :: "relation \<Rightarrow> bool" where
  "relation_shape r \<longleftrightarrow> (r_kind r = ManyToMany \<longrightarrow> r_pivot_table r \<noteq> [] \<and> r_source_fk r \<noteq> [] \<and> r_target_fk r \<noteq> [])"

definition entity_shape :: "entity \<Rightarrow> bool" where
  "entity_shape e \<longleftrightarrow> list_all field_shape (e_fields e) \<and> list_all relation_shape (e_relations e)
     \<and> (\<forall>cfg. e_pagination e = Some cfg \<longrightarrow> pagination_any cfg)"

definition doubles_read :: "yaml_library \<Rightarrow> (double \<Rightarrow> string) \<Rightarrow> field \<Rightarrow> bool" where
  "doubles_read lib dbl f \<longleftrightarrow>
     (\<forall>d. f_default_val f = DvDouble d \<or> f_min_value f = Some (NcDouble d) \<or> f_max_value f = Some (NcDouble d)
        \<longrightarrow> double_reads lib dbl d)"

section \<open>Lookups\<close>

lemma map_of_opt_member [simp]: "map_of (opt_member k w x) key = (if key = k then map_option w x else None)"
  by (auto simp: opt_member_def split: option.splits)

lemma mode_read:
  assumes "member n key = map_option w x" and "\<And>y. parse (w y) = Inr y" and "\<And>y. is_map (w y)"
  shows "parse_mode parse n key = Inr x"
  using assms by (cases x) (simp_all add: parse_mode_def)

lemma reads_back_simps:
  assumes "reads_back lib"
  shows "yl_text lib (YScalar s) = Some s" "yl_bool lib (bool_yaml b) = Some b" "yl_size lib (size_yaml n) = Some n"
    "yl_int64 lib (int_yaml i) = Some i"
  using assms by (simp_all add: reads_back_def)

lemma as_value_Some [simp]: "conv n = Some v \<Longrightarrow> as_value conv n = Inr v"
  by (simp add: as_value_def)

lemma names_read [simp]:
  "t \<noteq> FNative \<Longrightarrow> field_type_from_string (field_type_to_string t) = Some t"
  "on_delete_file_from_string (on_delete_file_to_string d) = Some d"
  "parse_relation_kind (relation_kind_to_string k) = Some k" "parse_on_delete (on_delete_to_string od) = Some od"
proof -
  have "field_type_from_string (field_type_to_string t) = (if t = FNative then None else Some t)" by (induction t) code_simp+
  then show "t \<noteq> FNative \<Longrightarrow> field_type_from_string (field_type_to_string t) = Some t" by simp
  show "on_delete_file_from_string (on_delete_file_to_string d) = Some d" by (induction d) code_simp+
  show "parse_relation_kind (relation_kind_to_string k) = Some k" by (induction k) code_simp+
  show "parse_on_delete (on_delete_to_string od) = Some od" by (induction od) code_simp+
qed

lemma nat_str_size_chars: "takeWhile size_char (nat_str n) = nat_str n" "dropWhile size_char (nat_str n) = []"
  "takeWhile is_digit (nat_str n) = nat_str n" "dropWhile is_digit (nat_str n) = []"
  using nat_str_digits [of n] by (auto simp: list_all_iff size_char_def)

lemma stoull_nat_str: "n < 2 ^ 64 \<Longrightarrow> stoull_digits (nat_str n) = Inr (of_nat n)"
  by (simp add: stoull_digits_def nat_str_size_chars base_val_nat_str not_le)

lemma parse_size_nat_str: "parse_size (nat_str (unat m)) = Inr m"
proof -
  have "unat m < 2 ^ 64" using unsigned_less [of m] by simp
  then show ?thesis by (simp add: parse_size_def nat_str_size_chars stoull_nat_str)
qed

section \<open>Reading back\<close>

lemma texts_read:
  assumes "reads_back lib"
  shows "map_of ms key = Some (texts_yaml ss) \<Longrightarrow> parse_string_list lib (YMap ms) key = Inr ss"
  using assms by (simp add: parse_string_list_def texts_yaml_def traverse_map reads_back_simps)

lemma extension_read: "extension_ok ext \<Longrightarrow> parse_extension ext = Inr ext"
  by (simp add: parse_extension_def extension_ok_def normalize_extension_def)

lemma file_config_read:
  assumes "reads_back lib" and "file_config_ok cfg"
  shows "parse_file_field_config_node lib (file_config_yaml cfg) = Inr cfg"
proof -
  let ?n = "file_config_yaml cfg"
  have lists: "parse_string_list lib ?n ''allowed_mime_types'' = Inr (allowed_mime_types cfg)"
    "parse_string_list lib ?n ''allowed_extensions'' = Inr (allowed_extensions cfg)"
    unfolding file_config_yaml_def by (simp_all add: texts_read [OF assms(1)] map_add_def)
  have size: "parse_max_size lib (size_yaml m) = Inr m" if "m \<noteq> 0" for m
    using that by (simp add: parse_max_size_def size_yaml_def reads_back_simps [OF assms(1)] parse_size_nat_str)
  have exts: "traverse parse_extension (allowed_extensions cfg) = Inr (allowed_extensions cfg)"
    using assms(2) traverse_map [of "allowed_extensions cfg" parse_extension id]
    by (simp add: file_config_ok_def list_all_iff extension_read)
  have mimes: "\<forall>m \<in> set (allowed_mime_types cfg). CHR ''/'' \<in> set m" using assms(2) by (simp add: file_config_ok_def list_all_iff)
  have m: "is_map ?n" "member ?n ''max_size'' = map_option size_yaml (max_size_bytes cfg)"
    "member ?n ''storage_path'' = Some (YScalar (storage_path cfg))"
    "member ?n ''on_delete'' = Some (YScalar (on_delete_file_to_string (fc_on_delete cfg)))"
    by (simp_all add: file_config_yaml_def map_add_def split: option.splits)
  have first: "set_member (parse_max_size lib) ?n ''max_size'' (\<lambda>m. max_size_bytes_update (\<lambda>_. Some m)) default_file_config
      = Inr (default_file_config\<lparr>max_size_bytes := max_size_bytes cfg\<rparr>)"
    using assms(2) by (cases "max_size_bytes cfg") (auto simp: set_member_def when_member_def m size file_config_ok_def default_file_config_def)
  have final: "set_member (as_enum lib on_delete_file_from_string) ?n ''on_delete'' upd acc = Inr (upd (fc_on_delete cfg) acc)"
    for upd :: "on_delete_file \<Rightarrow> file_field_config \<Rightarrow> file_field_config" and acc
    by (simp add: m set_member_def when_member_def as_enum_def reads_back_simps [OF assms(1)])
  show ?thesis
    unfolding parse_file_field_config_node_def
    using mimes by (simp add: m first final lists exts get_or_default_def reads_back_simps [OF assms(1)])
qed

lemma field_read:
  assumes "reads_back lib" and "field_shape f" and "doubles_read lib dbl f"
  shows "parse_field_node lib (field_yaml dbl f) = Inr f"
proof -
  let ?n = "field_yaml dbl f" and ?t = "f_type f"
  note r = reads_back_simps [OF assms(1)]
  have m: "is_map ?n" "member ?n ''name'' = Some (YScalar (f_name f))"
    "member ?n ''type'' = Some (YScalar (field_type_to_string ?t))" "member ?n ''required'' = Some (bool_yaml (f_required f))"
    "member ?n ''unique'' = Some (bool_yaml (f_unique f))" "member ?n ''indexed'' = Some (bool_yaml (f_indexed f))"
    "member ?n ''serializable'' = Some (bool_yaml (f_serializable f))"
    "member ?n ''unsigned_value'' = Some (bool_yaml (f_unsigned f))" "member ?n ''native'' = None"
    by (simp_all add: field_yaml_def map_add_def)
  have o: "member ?n ''previous_name'' = map_option YScalar (f_previous_name f)"
    "member ?n ''max_length'' = map_option size_yaml (f_max_length f)"
    "member ?n ''min_value'' = map_option (bound_yaml dbl) (f_min_value f)"
    "member ?n ''max_value'' = map_option (bound_yaml dbl) (f_max_value f)"
    "member ?n ''default'' = map_option (default_yaml dbl) (default_option (f_default_val f))"
    "member ?n ''file'' = map_option file_config_yaml (f_file_config f)"
    by (simp_all add: field_yaml_def map_add_def split: option.splits)
  have bound: "parse_bound lib ?t ?n key = Inr c" if "member ?n key = map_option (bound_yaml dbl) c" "bound_shape ?t c"
      "\<forall>d. c = Some (NcDouble d) \<longrightarrow> double_reads lib dbl d" for key c
    using that by (auto simp: parse_bound_def bound_shape_def bound_yaml_def double_reads_def r
        split: option.splits numeric_constraint.splits)
  have dv: "parse_default lib ?t ?n = Inr (f_default_val f)"
    using assms(2,3) by (auto simp: parse_default_def o field_shape_def default_shape_def default_option_def default_yaml_def
        doubles_read_def double_reads_def r split: default_value.splits)
  have fl: "parse_file_block lib ?t ?n = Inr (f_file_config f)"
    using assms(2) by (cases "f_file_config f") (auto simp: parse_file_block_def o field_shape_def file_config_read [OF assms(1)])
  have ml: "parse_max_length lib ?n = Inr (f_max_length f)"
    by (cases "f_max_length f") (simp_all add: parse_max_length_def o r)
  have pn: "parse_previous_name lib ?n = f_previous_name f"
    using assms(2) by (cases "f_previous_name f") (auto simp: parse_previous_name_def o r field_shape_def)
  have nt: "parse_native lib ?t ?n = Inr (f_native_type f)" using assms(2) by (simp add: parse_native_def m field_shape_def)
  have lo: "parse_bound lib ?t ?n ''min_value'' = Inr (f_min_value f)" "parse_bound lib ?t ?n ''max_value'' = Inr (f_max_value f)"
    using assms(2,3) by (auto intro!: bound simp: o field_shape_def doubles_read_def)
  have ty: "field_type_from_string (field_type_to_string ?t) = Some ?t" using assms(2) by (simp add: field_shape_def)
  show ?thesis
    unfolding parse_field_node_def
    by (simp add: m nt ml lo dv fl pn ty require_string_def get_or_default_def has_key_def r)
qed

lemma relation_read:
  assumes "reads_back lib" and "relation_shape r"
  shows "parse_relation_node lib (relation_yaml r) = Inr r"
  using assms(2) by (simp add: parse_relation_node_def relation_yaml_def require_string_def get_or_default_def set_member_def
      when_member_def as_enum_def reads_back_simps [OF assms(1)] make_relation_def relation_shape_def)

lemma pagination_read:
  assumes "reads_back lib" and "pagination_any cfg"
  shows "parse_pagination_node lib (pagination_yaml cfg) = Inr cfg"
proof -
  note r = reads_back_simps [OF assms(1)]
  have t: "optional_text lib n key = Inr x" if "member n key = map_option YScalar x" for n key x
    using that by (cases x) (simp_all add: optional_text_def set_member_def when_member_def r)
  have p: "parse_page_pagination_node lib (page_yaml p) = Inr p" for p
  proof -
    have "optional_text lib (page_yaml p) ''default_sort'' = Inr (pg_default_sort p)" by (rule t) (simp add: page_yaml_def map_add_def)
    moreover have "parse_string_list lib (page_yaml p) ''sortable_fields'' = Inr (pg_sortable_fields p)"
      unfolding page_yaml_def by (rule texts_read [OF assms(1)]) (simp add: map_add_def)
    ultimately show ?thesis unfolding parse_page_pagination_node_def by (simp add: get_or_default_def page_yaml_def map_add_def r)
  qed
  have off: "parse_offset_pagination_node lib (offset_yaml p) = Inr p" for p
  proof -
    have "optional_text lib (offset_yaml p) ''default_sort'' = Inr (of_default_sort p)" by (rule t) (simp add: offset_yaml_def map_add_def)
    moreover have "parse_string_list lib (offset_yaml p) ''sortable_fields'' = Inr (of_sortable_fields p)"
      unfolding offset_yaml_def by (rule texts_read [OF assms(1)]) (simp add: map_add_def)
    ultimately show ?thesis unfolding parse_offset_pagination_node_def by (simp add: get_or_default_def offset_yaml_def map_add_def r)
  qed
  have c: "parse_cursor_pagination_node lib (cursor_yaml p) = Inr p" for p
    by (simp add: parse_cursor_pagination_node_def get_or_default_def require_string_def cursor_yaml_def r)
  have mem: "member (pagination_yaml cfg) ''page'' = map_option page_yaml (pc_page cfg)"
    "member (pagination_yaml cfg) ''offset'' = map_option offset_yaml (pc_offset cfg)"
    "member (pagination_yaml cfg) ''cursor'' = map_option cursor_yaml (pc_cursor cfg)"
    by (simp_all add: pagination_yaml_def map_add_def split: option.splits)
  have maps: "is_map (page_yaml y1)" "is_map (offset_yaml y2)" "is_map (cursor_yaml y3)" for y1 y2 y3
    by (simp_all add: page_yaml_def offset_yaml_def cursor_yaml_def)
  have "parse_mode (parse_page_pagination_node lib) (pagination_yaml cfg) ''page'' = Inr (pc_page cfg)"
    "parse_mode (parse_offset_pagination_node lib) (pagination_yaml cfg) ''offset'' = Inr (pc_offset cfg)"
    "parse_mode (parse_cursor_pagination_node lib) (pagination_yaml cfg) ''cursor'' = Inr (pc_cursor cfg)"
    by (rule mode_read [OF mem(1) p maps(1)], rule mode_read [OF mem(2) off maps(2)], rule mode_read [OF mem(3) c maps(3)])
  then show ?thesis using assms(2) by (cases cfg) (simp add: parse_pagination_node_def Let_def)
qed

lemma options_read: "reads_back lib \<Longrightarrow> parse_options lib (options_yaml o1) = Inr o1"
  by (simp add: parse_options_def options_yaml_def get_or_default_def reads_back_simps)

lemma entity_read:
  assumes "reads_back lib" and "entity_shape e" and "list_all (doubles_read lib dbl) (e_fields e)"
    and "e_access_control e = empty_access_control"
  shows "parse_entity_node lib cfg (entity_yaml dbl e) = Inr (e, [])"
proof -
  let ?n = "entity_yaml dbl e"
  note r = reads_back_simps [OF assms(1)]
  have fs: "parse_list (parse_field_node lib) ?n ''fields'' = Inr (e_fields e)"
    using assms(1-3) by (simp add: parse_list_def entity_yaml_def map_add_def traverse_map field_read entity_shape_def list_all_iff)
  have rs: "parse_list (parse_relation_node lib) ?n ''relations'' = Inr (e_relations e)"
    using assms(1,2) by (simp add: parse_list_def entity_yaml_def map_add_def traverse_map relation_read entity_shape_def list_all_iff)
  have m: "is_map ?n" "member ?n ''name'' = Some (YScalar (e_name e))" "member ?n ''table_name'' = Some (YScalar (e_table_name e))"
    "member ?n ''options'' = Some (options_yaml (e_options e))" "member ?n ''seeds'' = None"
    "member ?n ''scope_field'' = None" "member ?n ''owner_field'' = None" "member ?n ''access_control'' = None"
    "is_map (options_yaml (e_options e))"
    by (simp_all add: entity_yaml_def options_yaml_def map_add_def)
  have pag: "parse_mode (parse_pagination_node lib) ?n ''pagination'' = Inr (e_pagination e)"
    using assms(2) pagination_read [OF assms(1)]
    by (cases "e_pagination e") (auto simp: parse_mode_def entity_yaml_def entity_shape_def pagination_yaml_def map_add_def)
  have seeds: "parse_list (parse_seed_record_node lib rels) ?n ''seeds'' = Inr []" for rels by (simp add: parse_list_def m)
  have ac: "parse_entity_access_control_node lib ?n cfg = Inr empty_access_control"
    by (simp add: parse_entity_access_control_node_def set_member_def when_member_def m)
  show ?thesis
    unfolding parse_entity_node_def
    using assms(4) by (simp add: m fs rs pag seeds ac options_read [OF assms(1)] require_string_def get_or_default_def r)
qed

end
