(* ===== verification/Yaml_Properties.thy ===== *)
theory Yaml_Properties
  imports Yaml_Writer
begin

text \<open>
  The properties of the schema parser: an entity that is written is read back, the shape of what is accepted,
  what an accepted service guarantees, what the shortcuts of access control grant, and the values of
  environment references and sizes.
\<close>

section \<open>Lemmas behind the properties\<close>

lemma set_member_Inr: "set_member conv n key upd acc = Inr r \<longleftrightarrow>
    (case member n key of None \<Rightarrow> r = acc | Some v \<Rightarrow> \<exists>x. conv v = Inr x \<and> r = upd x acc)"
  by (auto simp: set_member_def when_member_def and_then_Inr split: option.splits)

lemma parse_list_all:
  "parse_list parse n key = Inr xs \<Longrightarrow> (\<And>v x. parse v = Inr x \<Longrightarrow> P x) \<Longrightarrow> list_all P xs"
proof -
  assume p: "parse_list parse n key = Inr xs" "\<And>v x. parse v = Inr x \<Longrightarrow> P x"
  show "list_all P xs"
  proof (cases "member n key")
    case (Some v)
    with p(1) have "traverse parse (items v) = Inr xs" by (simp add: parse_list_def require_Inr)
    from traverse_all [OF this, of P] p(2) show ?thesis by (simp add: list_all_iff)
  qed (use p(1) in \<open>simp add: parse_list_def\<close>)
qed

subsection \<open>The shape of accepted entities\<close>

lemma parsed_extension: "parse_extension ext = Inr e \<Longrightarrow> extension_ok e"
proof -
  assume p: "parse_extension ext = Inr e"
  then have e: "e = normalize_extension ext" "ext \<noteq> []" "CHR ''/'' \<notin> set e" "CHR 0x5C \<notin> set e"
    by (auto simp: parse_extension_def require_Inr Let_def)
  moreover have "hd e = CHR ''.'' \<and> str_lower e = e"
    using e(1,2) by (cases ext) (auto simp: normalize_extension_def char_lower_def is_upper_def char_code_def)
  moreover have "e \<noteq> []" using e(1,2) by (cases ext) (simp_all add: normalize_extension_def)
  ultimately show ?thesis by (simp add: extension_ok_def)
qed

lemma parsed_file_config: "parse_file_field_config_node lib n = Inr cfg \<Longrightarrow> file_config_ok cfg"
proof -
  assume p: "parse_file_field_config_node lib n = Inr cfg"
  have size: "parse_max_size lib v = Inr m \<Longrightarrow> m \<noteq> 0" for v m
    by (auto simp: parse_max_size_def and_then_Inr require_Inr)
  from p obtain c mimes raw exts pth where c:
    "set_member (parse_max_size lib) n ''max_size'' (\<lambda>m. max_size_bytes_update (\<lambda>_. Some m)) default_file_config = Inr c"
    "\<forall>m \<in> set mimes. CHR ''/'' \<in> set m" "traverse parse_extension raw = Inr exts"
    "set_member (as_enum lib on_delete_file_from_string) n ''on_delete'' (\<lambda>d. fc_on_delete_update (\<lambda>_. d))
       (c\<lparr>allowed_mime_types := mimes, allowed_extensions := exts, storage_path := pth\<rparr>) = Inr cfg"
    unfolding parse_file_field_config_node_def by (auto simp: and_then_Inr require_Inr)
  have "max_size_bytes c \<noteq> Some 0" using c(1) by (auto simp: set_member_Inr default_file_config_def size split: option.splits dest: size)
  moreover have "max_size_bytes cfg = max_size_bytes c" "allowed_mime_types cfg = mimes" "allowed_extensions cfg = exts"
    using c(4) by (auto simp: set_member_Inr split: option.splits)
  moreover have "\<forall>e \<in> set exts. extension_ok e" using c(3) parsed_extension by (rule traverse_all)
  ultimately show ?thesis using c(2) by (simp add: file_config_ok_def list_all_iff)
qed

lemma parsed_type: "field_type_from_string s = Some t \<Longrightarrow> t \<noteq> FNative"
  by (auto simp: field_type_from_string_def Let_def split: if_splits)

lemma parsed_bound: "parse_bound lib t n key = Inr c \<Longrightarrow> bound_shape t c"
  by (auto simp: parse_bound_def bound_shape_def and_then_Inr split: option.splits if_splits)

lemma parsed_default: "parse_default lib t n = Inr v \<Longrightarrow> t \<noteq> FNative \<Longrightarrow> default_shape t v"
  by (auto simp: parse_default_def default_shape_def and_then_Inr split: option.splits if_splits)

lemma parsed_file_block:
  "parse_file_block lib t n = Inr cfg \<Longrightarrow> (t = FFile \<longleftrightarrow> cfg \<noteq> None) \<and> (\<forall>c. cfg = Some c \<longrightarrow> file_config_ok c)"
  by (auto simp: parse_file_block_def and_then_Inr split: option.splits if_splits dest: parsed_file_config)

lemma parsed_field: "parse_field_node lib n = Inr f \<Longrightarrow> field_shape f"
proof -
  assume "parse_field_node lib n = Inr f"
  then obtain name type_str t nt req unq idx ser uns len lo hi dv cfg where p:
    "field_type_from_string type_str = Some t" "parse_native lib t n = Inr nt"
    "parse_bound lib t n ''min_value'' = Inr lo" "parse_bound lib t n ''max_value'' = Inr hi"
    "parse_default lib t n = Inr dv" "parse_file_block lib t n = Inr cfg"
    "f = \<lparr>f_name = name, f_type = t, f_unsigned = uns, f_required = req, f_unique = unq, f_indexed = idx,
          f_default_val = dv, f_max_length = len, f_min_value = lo, f_max_value = hi,
          f_serializable = (if t = FPassword \<and> \<not> has_key n ''serializable'' then False else ser),
          f_native_type = nt, f_previous_name = parse_previous_name lib n, f_file_config = cfg\<rparr>"
    unfolding parse_field_node_def and_then_Inr require_Inr catch_Inr by blast
  have t: "t \<noteq> FNative" using p(1) by (rule parsed_type)
  have "nt = None" using p(2) t by (auto simp: parse_native_def split: option.splits)
  moreover have "parse_previous_name lib n \<noteq> Some []" by (auto simp: parse_previous_name_def split: option.splits)
  ultimately show ?thesis
    using t parsed_bound [OF p(3)] parsed_bound [OF p(4)] parsed_default [OF p(5) t] parsed_file_block [OF p(6)]
    unfolding p(7) by (simp add: field_shape_def)
qed

lemma parsed_relation: "parse_relation_node lib n = Inr r \<Longrightarrow> relation_shape r"
proof -
  assume "parse_relation_node lib n = Inr r"
  then obtain name target k r0 fk pivot sfk tfk where p:
    "set_member (as_enum lib parse_on_delete) n ''on_delete'' (\<lambda>d. r_on_delete_update (\<lambda>_. d)) (make_relation name target k) = Inr r0"
    "k = ManyToMany \<longrightarrow> pivot \<noteq> [] \<and> sfk \<noteq> [] \<and> tfk \<noteq> []"
    "r = r0\<lparr>r_fk_column := fk, r_pivot_table := pivot, r_source_fk := sfk, r_target_fk := tfk\<rparr>"
    unfolding parse_relation_node_def and_then_Inr require_Inr catch_Inr by blast
  have "r_kind r0 = k" using p(1) by (auto simp: set_member_Inr make_relation_def split: option.splits)
  then show ?thesis using p(2,3) by (simp add: relation_shape_def)
qed

lemma parsed_pagination: "parse_pagination_node lib n = Inr cfg \<Longrightarrow> pagination_any cfg"
  by (auto simp: parse_pagination_node_def and_then_Inr require_Inr Let_def)

lemma parsed_mode: "parse_mode parse n key = Inr (Some x) \<Longrightarrow> \<exists>v. parse v = Inr x"
  by (auto simp: parse_mode_def and_then_Inr require_Inr split: option.splits)

text \<open>Rules are empty or well formed.\<close>

definition rule_ok :: "access_control_spec \<Rightarrow> bool" where
  "rule_ok sp \<longleftrightarrow> spec_condition sp = empty_condition \<or> well_formed (spec_condition sp)"

lemma with_admin_ok: "well_formed c \<Longrightarrow> well_formed (with_admin b role c)"
  unfolding with_admin_def by (auto intro!: wf_any wf_predicate)

lemma shortcut_condition_ok:
  "shortcut_condition compile fld = Inr cs \<Longrightarrow> (\<And>f c. compile f = Inr c \<Longrightarrow> well_formed c) \<Longrightarrow> \<forall>c \<in> set cs. well_formed c"
  by (auto simp: shortcut_condition_def and_then_Inr split: if_splits)

lemma compiled_ok:
  "compile_same_scope_shortcut f b role = Inr c \<Longrightarrow> well_formed c" "compile_own_resource_shortcut f b role = Inr c \<Longrightarrow> well_formed c"
  by (auto simp: compile_same_scope_shortcut_def compile_own_resource_shortcut_def Let_def split: if_splits
      intro!: with_admin_ok wf_predicate)

lemma combined_ok: "\<forall>c \<in> set cs. well_formed c \<Longrightarrow> rule_ok (combine_conditions cs)"
  by (auto simp: rule_ok_def combine_conditions_def split: list.splits intro!: wf_all)

lemma parsed_operation: "parse_operation_access_control_node lib n scp own cfg = Inr sp \<Longrightarrow> rule_ok sp"
proof -
  assume "parse_operation_access_control_node lib n scp own cfg = Inr sp"
  then obtain roles f1 cs1 f2 cs2 where p:
    "shortcut_condition (\<lambda>f. compile_same_scope_shortcut f (default_allow_admin cfg) (admin_role cfg)) f1 = Inr cs1"
    "shortcut_condition (\<lambda>f. compile_own_resource_shortcut f (default_allow_admin cfg) (admin_role cfg)) f2 = Inr cs2"
    "sp = combine_conditions ((if roles = [] then [] else [compile_allow_roles_shortcut roles]) @ cs1 @ cs2)"
    unfolding parse_operation_access_control_node_def and_then_Inr by blast
  have "well_formed (compile_allow_roles_shortcut roles)" unfolding compile_allow_roles_shortcut_def by (rule wf_predicate)
  then show ?thesis
    unfolding p(3) using shortcut_condition_ok [OF p(1) compiled_ok(1)] shortcut_condition_ok [OF p(2) compiled_ok(2)]
    by (intro combined_ok) auto
qed

definition rules_ok :: "entity_access_control \<Rightarrow> bool" where
  "rules_ok ac \<longleftrightarrow> (\<forall>oper sp. find_spec ac oper = Some sp \<longrightarrow> rule_ok sp)"

lemma parsed_operations: "operations_loop lib scp own cfg ops ac = Inr ac' \<Longrightarrow> rules_ok ac \<Longrightarrow> rules_ok ac'"
proof (induction ops arbitrary: ac)
  case (Cons x ops)
  obtain name v where x: "x = (name, v)" by force
  show ?case
  proof (cases "name = ''abac_mode''")
    case False
    with Cons(2) x obtain oper sp where o: "parse_operation_access_control_node lib v scp own cfg = Inr sp"
      "operations_loop lib scp own cfg ops (set_spec oper sp ac) = Inr ac'"
      by (auto simp: and_then_Inr require_Inr)
    have "rules_ok (set_spec oper sp ac)"
      using Cons(3) parsed_operation [OF o(1)] by (simp add: rules_ok_def find_spec_set_spec)
    with o(2) Cons(1) show ?thesis by blast
  qed (use Cons x in simp)
qed simp

lemma parsed_access_control:
  assumes "parse_entity_access_control_node lib n cfg = Inr ac"
  shows "rules_ok ac"
proof -
  obtain a1 a2 where a:
    "set_member (as_value (yl_text lib)) n ''scope_field'' (\<lambda>s. scope_field_update (\<lambda>_. s)) empty_access_control = Inr a1"
    "set_member (as_value (yl_text lib)) n ''owner_field'' (\<lambda>s. owner_field_update (\<lambda>_. s)) a1 = Inr a2"
    "(case member n ''access_control'' of
       None \<Rightarrow> Inr a2
     | Some ac_node \<Rightarrow>
         require (is_map ac_node) ParsingError
           (and_then (set_member (as_enum lib abac_mode_from_string) ac_node ''abac_mode''
                (\<lambda>m. abac_mode_override_update (\<lambda>_. Some m)) a2) (\<lambda>ac.
              operations_loop lib (if scope_field ac \<noteq> [] then scope_field ac else default_scope_field cfg) (owner_field ac) cfg
                (members ac_node) ac))) = Inr ac"
    using assms unfolding parse_entity_access_control_node_def and_then_Inr by blast
  have keeps: "set_member conv m key upd x = Inr y \<Longrightarrow> (\<And>v. specs (upd v x) = specs x) \<Longrightarrow> rules_ok x \<Longrightarrow> rules_ok y"
    for conv :: "yaml \<Rightarrow> 'v parsed" and m key and upd :: "'v \<Rightarrow> entity_access_control \<Rightarrow> entity_access_control" and x y
    by (auto simp: set_member_Inr rules_ok_def find_spec_def split: option.splits)
  have "rules_ok empty_access_control" by (simp add: rules_ok_def find_spec_def empty_access_control_def)
  then have a2: "rules_ok a2" using keeps [OF a(1)] keeps [OF a(2)] by simp
  show ?thesis
  proof (cases "member n ''access_control''")
    case (Some v)
    with a(3) obtain a3 where a3: "set_member (as_enum lib abac_mode_from_string) v ''abac_mode''
        (\<lambda>m. abac_mode_override_update (\<lambda>_. Some m)) a2 = Inr a3"
      "operations_loop lib (if scope_field a3 \<noteq> [] then scope_field a3 else default_scope_field cfg) (owner_field a3) cfg
         (members v) a3 = Inr ac"
      by (auto simp: and_then_Inr require_Inr)
    have "rules_ok a3" using keeps [OF a3(1)] a2 by simp
    with a3(2) show ?thesis by (rule parsed_operations)
  qed (use a(3) a2 in simp)
qed

lemma parsed_entity:
  assumes "parse_entity_node lib cfg n = Inr (e, seeds)"
  shows "entity_shape e \<and> rules_ok (e_access_control e)"
proof -
  obtain name tbl opts fs rels pag ac where p:
    "parse_list (parse_field_node lib) n ''fields'' = Inr fs" "parse_list (parse_relation_node lib) n ''relations'' = Inr rels"
    "parse_mode (parse_pagination_node lib) n ''pagination'' = Inr pag" "parse_entity_access_control_node lib n cfg = Inr ac"
    "e = \<lparr>e_name = name, e_table_name = tbl, e_fields = fs, e_relations = rels, e_options = opts,
          e_access_control = ac, e_pagination = pag\<rparr>"
    using assms unfolding parse_entity_node_def and_then_Inr require_Inr sum.inject prod.inject by blast
  have "list_all field_shape fs" "list_all relation_shape rels"
    using parse_list_all [OF p(1), of field_shape] parse_list_all [OF p(2), of relation_shape] parsed_field parsed_relation
    by blast+
  moreover have "pag = Some c \<Longrightarrow> pagination_any c" for c
    using p(3) parsed_mode [of "parse_pagination_node lib" n "''pagination''" c] parsed_pagination by blast
  ultimately show ?thesis using parsed_access_control [OF p(4)] by (simp add: p(5) entity_shape_def)
qed

subsection \<open>Environment references and sizes\<close>

lemma find_separator:
  assumes "find_sub '':-'' name = None"
  shows "find_sub '':-'' (name @ '':-'' @ d) = Some (length name)"
  using assms
proof (induction name)
  case (Cons c name)
  then have "\<not> starts_with (c # name) '':-''" "find_sub '':-'' name = None" by (auto split: if_splits)
  moreover have "\<not> starts_with (c # name @ '':-'' @ d) '':-''"
    using calculation(1) by (cases name) (auto simp: starts_with_def)
  ultimately show ?case using Cons.IH by simp
qed (simp add: starts_with_def)

lemma braces: "take (length (''${'' @ w @ ''}'') - 3) (drop 2 (''${'' @ w @ ''}'')) = w"
  by simp

lemma reference_value:
  assumes "find_sub '':-'' name = None"
  shows "resolve_env environment (''${'' @ name @ '':-'' @ d @ ''}'') =
     (if name = [] then Inl ParsingError
      else Inr (case getenv environment name of None \<Rightarrow> d | Some [] \<Rightarrow> d | Some (c # cs) \<Rightarrow> c # cs))"
proof -
  let ?v = "''${'' @ (name @ '':-'' @ d) @ ''}''"
  have "\<not> (length ?v < 4 \<or> ?v ! 0 \<noteq> CHR ''$'' \<or> ?v ! 1 \<noteq> CHR ''{'' \<or> last ?v \<noteq> CHR ''}'')" by simp
  then have "resolve_env environment ?v = (let inner = name @ '':-'' @ d in
        case find_sub '':-'' inner of
          None \<Rightarrow> known_value (getenv environment inner)
        | Some pos \<Rightarrow>
            let var_name = take pos inner; default_value = drop (pos + 2) inner in
            if var_name = [] then Inl ParsingError
            else (case getenv environment var_name of
                    None \<Rightarrow> Inr default_value
                  | Some [] \<Rightarrow> Inr default_value
                  | Some x \<Rightarrow> Inr x))"
    unfolding resolve_env_def braces by (simp only: if_False)
  then show ?thesis
    unfolding Let_def find_separator [OF assms] by (simp split: option.splits list.splits)
qed

lemma reference_without_default:
  assumes "find_sub '':-'' name = None" and "name \<noteq> []"
  shows "resolve_env environment (''${'' @ name @ ''}'') = known_value (getenv environment name)"
proof -
  let ?v = "''${'' @ name @ ''}''"
  have "\<not> (length ?v < 4 \<or> ?v ! 0 \<noteq> CHR ''$'' \<or> ?v ! 1 \<noteq> CHR ''{'' \<or> last ?v \<noteq> CHR ''}'')"
    using assms(2) by (cases name) simp_all
  then have "resolve_env environment ?v = (let inner = name in
        case find_sub '':-'' inner of
          None \<Rightarrow> known_value (getenv environment inner)
        | Some pos \<Rightarrow>
            let var_name = take pos inner; default_value = drop (pos + 2) inner in
            if var_name = [] then Inl ParsingError
            else (case getenv environment var_name of
                    None \<Rightarrow> Inr default_value
                  | Some [] \<Rightarrow> Inr default_value
                  | Some x \<Rightarrow> Inr x))"
    unfolding resolve_env_def braces by (simp only: if_False)
  then show ?thesis using assms(1) by simp
qed

lemma number_prefix:
  assumes "u = [] \<or> \<not> P (hd u)" and "list_all P ds"
  shows "takeWhile P (ds @ u) = ds" "dropWhile P (ds @ u) = u"
  using assms by (cases u; auto simp: list_all_iff takeWhile_append dropWhile_append)+

lemma nat_str_with_unit:
  assumes "u = [] \<or> \<not> size_char (hd u)"
  shows "takeWhile size_char (nat_str n @ u) = nat_str n" "dropWhile size_char (nat_str n @ u) = u"
    "list_all is_digit ds \<Longrightarrow> takeWhile size_char (nat_str n @ CHR ''.'' # ds @ u) = nat_str n @ CHR ''.'' # ds"
    "list_all is_digit ds \<Longrightarrow> dropWhile size_char (nat_str n @ CHR ''.'' # ds @ u) = u"
proof -
  have "list_all size_char (nat_str n)" using nat_str_digits [of n] by (auto simp: list_all_iff size_char_def)
  then show "takeWhile size_char (nat_str n @ u) = nat_str n" "dropWhile size_char (nat_str n @ u) = u"
    using number_prefix [where P = size_char, OF assms] by simp_all
  assume "list_all is_digit ds"
  then have "list_all size_char (nat_str n @ CHR ''.'' # ds)"
    using nat_str_digits [of n] by (auto simp: list_all_iff size_char_def)
  from number_prefix [where P = size_char, OF assms this]
  show "takeWhile size_char (nat_str n @ CHR ''.'' # ds @ u) = nat_str n @ CHR ''.'' # ds"
    "dropWhile size_char (nat_str n @ CHR ''.'' # ds @ u) = u" by simp_all
qed

lemma stoull_point: "n < 2 ^ 64 \<Longrightarrow> stoull_digits (nat_str n @ CHR ''.'' # ds) = Inr (of_nat n)"
proof -
  assume n: "n < 2 ^ 64"
  have "takeWhile is_digit (nat_str n @ CHR ''.'' # ds) = nat_str n"
    using number_prefix(1) [of "CHR ''.'' # ds" is_digit "nat_str n"] nat_str_digits by (simp add: is_digit_def char_code_def)
  then show ?thesis using n by (simp add: stoull_digits_def base_val_nat_str not_le)
qed

lemma not_digit_units: "\<not> is_digit CHR ''s''" "\<not> is_digit CHR ''m''" "\<not> is_digit CHR ''h''" "\<not> is_digit CHR ''d''"
  "\<not> size_char CHR ''B''" "\<not> size_char CHR ''K''" "\<not> size_char CHR ''M''" "\<not> size_char CHR ''G''"
  by (simp_all add: size_char_def is_digit_def char_code_def)

subsection \<open>Shortcuts\<close>

lemma shortcut_conditions_Inr:
  "shortcut_condition compile fld = Inr cs \<longleftrightarrow> (if fld = [] then cs = [] else \<exists>c. compile fld = Inr c \<and> cs = [c])"
  by (auto simp: shortcut_condition_def and_then_Inr)

lemma operation_holds:
  assumes "parse_operation_access_control_node lib n scp own cfg = Inr sp"
    and "allowed_roles lib cfg n = Inr roles"
    and "shortcut_field lib ''same_scope'' scp n = Inr sc" and "shortcut_field lib ''own_resource'' own n = Inr ow"
    and "CHR ''.'' \<notin> set sc" and "CHR ''.'' \<notin> set ow"
  shows "holds (predicate_holds (create_default cache) Permissive s r x) (spec_condition sp) \<longleftrightarrow>
    (roles \<noteq> [] \<or> sc \<noteq> [] \<or> ow \<noteq> [])
    \<and> (roles = [] \<or> set (subj_roles s) \<inter> set roles \<noteq> {})
    \<and> (sc = [] \<or> is_bypassing cfg s \<or> (\<exists>v. map_of (subj_attributes s) sc = Some v \<and> map_of (res_attributes r) sc = Some v))
    \<and> (ow = [] \<or> is_bypassing cfg s
        \<or> (if ow = ''id'' then res_id r = subj_id s else map_of (res_attributes r) ow = Some (subj_id s)))"
proof -
  obtain cs1 cs2 where p:
    "shortcut_condition (\<lambda>f. compile_same_scope_shortcut f (default_allow_admin cfg) (admin_role cfg)) sc = Inr cs1"
    "shortcut_condition (\<lambda>f. compile_own_resource_shortcut f (default_allow_admin cfg) (admin_role cfg)) ow = Inr cs2"
    "sp = combine_conditions ((if roles = [] then [] else [compile_allow_roles_shortcut roles]) @ cs1 @ cs2)"
    using assms(1-4) unfolding parse_operation_access_control_node_def and_then_Inr by auto
  let ?H = "holds (predicate_holds (create_default cache) Permissive s r x)"
  have one: "list_all ?H cs1 \<longleftrightarrow> sc = [] \<or> is_bypassing cfg s
      \<or> (\<exists>v. map_of (subj_attributes s) sc = Some v \<and> map_of (res_attributes r) sc = Some v)" "cs1 = [] \<longleftrightarrow> sc = []"
    using p(1) scope_condition [OF _ assms(5)] by (auto simp: shortcut_conditions_Inr split: if_splits)
  have two: "list_all ?H cs2 \<longleftrightarrow> ow = [] \<or> is_bypassing cfg s
      \<or> (if ow = ''id'' then res_id r = subj_id s else map_of (res_attributes r) ow = Some (subj_id s))" "cs2 = [] \<longleftrightarrow> ow = []"
    using p(2) owner_condition [OF _ assms(6)] by (auto simp: shortcut_conditions_Inr split: if_splits)
  show ?thesis
    unfolding p(3) combine_holds using one two roles_condition [of roles cache s r x] by auto
qed

lemma shortcut_field_simps:
  "yl_bool lib v = Some True \<Longrightarrow> shortcut_field lib key [] (YMap (tbl_put key v ms)) = Inr []"
  "shortcut_field lib key eff (YMap (tbl_erase key ms)) = Inr []"
  "key \<noteq> k \<Longrightarrow> shortcut_field lib key eff (YMap (tbl_put k v ms)) = shortcut_field lib key eff (YMap ms)"
  "key \<noteq> k \<Longrightarrow> shortcut_field lib key eff (YMap (tbl_erase k ms)) = shortcut_field lib key eff (YMap ms)"
  "yl_bool lib w = None \<Longrightarrow> yl_text lib w = Some t \<Longrightarrow> t \<noteq> [] \<Longrightarrow> shortcut_field lib key [] (YMap (tbl_put key w ms)) = Inl ParsingError"
  by (simp_all add: shortcut_field_def require_def)

lemma isl_and_then: "(\<And>a. isl (f a)) \<Longrightarrow> isl (and_then x f)"
  by (cases x) simp_all

lemma allowed_roles_other: "k \<noteq> ''allow_roles'' \<Longrightarrow> allowed_roles lib cfg (YMap (tbl_put k v ms)) = allowed_roles lib cfg (YMap ms)"
  "k \<noteq> ''allow_roles'' \<Longrightarrow> allowed_roles lib cfg (YMap (tbl_erase k ms)) = allowed_roles lib cfg (YMap ms)"
  by (simp_all add: allowed_roles_def)

subsection \<open>Services\<close>

lemma disabled_valid: "security_config_validate security_disabled = None"
  by (simp add: security_config_validate_def security_disabled_def service_security_none_def http_limits_validate_def
      http_limits_safe_defaults_def auth_config_validate_def auth_config_none_def cors_deny_all_def)

lemma parsed_security: "parse_security_node lib environment n = Inr sec \<Longrightarrow> security_config_validate sec = None"
  by (auto simp: parse_security_node_def require_Inr and_then_Inr split: if_splits)

lemma map_member_Inr: "map_member n key parse upd acc = Inr r \<longleftrightarrow>
    (case member n key of None \<Rightarrow> r = acc | Some v \<Rightarrow> is_map v \<and> (\<exists>x. parse v = Inr x \<and> r = upd x acc))"
  by (auto simp: map_member_def when_member_def and_then_Inr require_Inr split: option.splits)

lemma parsed_service:
  assumes "parse_service_node lib environment n = Inr sv"
  shows "(\<exists>raw. 1 \<le> raw \<and> raw \<le> 65535 \<and> se_port sv = word_of_int raw) \<and> security_config_validate (se_security sv) = None
    \<and> (\<forall>e \<in> set (entities (se_schema sv)). entity_shape e \<and> rules_ok (e_access_control e))
    \<and> length (se_seeds sv) = length (entities (se_schema sv))"
proof -
  obtain name raw db storage sec ac lg es where p:
    "1 \<le> raw \<and> raw \<le> 65535"
    "map_member n ''security'' (parse_security_node lib environment) (\<lambda>x _. x) security_disabled = Inr sec"
    "parse_list (parse_entity_node lib ac) n ''entities'' = Inr es"
    "sv = \<lparr>se_name = name, se_port = word_of_int raw, se_security = sec,
          se_schema = \<lparr>entities = map fst es\<rparr>, se_seeds = map snd es, se_database = db, se_access_control = ac,
          se_logging = lg, se_storage = storage\<rparr>"
    using assms unfolding parse_service_node_def and_then_Inr require_Inr sum.inject by blast
  have "security_config_validate sec = None"
    using p(2) disabled_valid parsed_security by (auto simp: map_member_Inr split: option.splits)
  moreover have "list_all (\<lambda>x. entity_shape (fst x) \<and> rules_ok (e_access_control (fst x))) es"
    by (rule parse_list_all [OF p(3)]) (use parsed_entity in \<open>metis prod.collapse\<close>)
  ultimately show ?thesis using p(1) by (auto simp: p(4) list_all_iff)
qed


section \<open>A concrete library and document\<close>

definition demo_number :: "string \<Rightarrow> nat option" where
  "demo_number s =
     (if s \<noteq> [] \<and> list_all is_digit s \<and> base_val 10 digit_val s < 2 ^ 64 then Some (base_val 10 digit_val s) else None)"

definition demo_int :: "string \<Rightarrow> int option" where
  "demo_int s = (if s \<noteq> [] \<and> hd s = CHR ''-'' then map_option (\<lambda>n. - int n) (demo_number (tl s)) else map_option int (demo_number s))"

definition scalar_of :: "(string \<Rightarrow> 'a option) \<Rightarrow> yaml \<Rightarrow> 'a option" where
  "scalar_of conv n = (case n of YScalar s \<Rightarrow> conv s | _ \<Rightarrow> None)"

definition demo_yaml_library :: yaml_library where
  "demo_yaml_library =
     \<lparr>yl_text = scalar_of Some,
      yl_bool = scalar_of (\<lambda>s. if s = ''true'' then Some True else if s = ''false'' then Some False else None),
      yl_int = scalar_of demo_int, yl_int64 = scalar_of (\<lambda>s. map_option word_of_int (demo_int s)),
      yl_uint32 = scalar_of (\<lambda>s. map_option of_nat (demo_number s)),
      yl_size = scalar_of (\<lambda>s. map_option of_nat (demo_number s)), yl_double = (\<lambda>_. None)\<rparr>"

lemma demo_number_nat_str: "n < 2 ^ 64 \<Longrightarrow> demo_number (nat_str n) = Some n"
  using nat_str_digits [of n] by (simp add: demo_number_def base_val_nat_str)

lemma demo_int_int_str: "\<bar>i\<bar> < 2 ^ 64 \<Longrightarrow> demo_int (int_str i) = Some i"
proof -
  assume i: "\<bar>i\<bar> < 2 ^ 64"
  have "hd (nat_str n) \<noteq> CHR ''-''" "nat_str n \<noteq> []" for n
    using nat_str_digits [of n] by (cases "nat_str n"; auto simp: is_digit_def char_code_def)+
  moreover have "nat i < 2 ^ 64" "nat (- i) < 2 ^ 64" using i by (simp_all add: nat_less_iff)
  ultimately show ?thesis by (simp add: demo_int_def int_str_def demo_number_nat_str)
qed

lemma demo_reads_back: "reads_back demo_yaml_library"
proof -
  have "\<bar>sint i\<bar> < 2 ^ 64" for i :: "64 word"
    using sint_ge [of i] sint_lt [of i] by (simp add: abs_less_iff)
  moreover have "unat n < 2 ^ 64" for n :: size using unsigned_less [of n] by simp
  ultimately show ?thesis
    by (simp add: reads_back_def demo_yaml_library_def scalar_of_def bool_yaml_def size_yaml_def int_yaml_def
        demo_number_nat_str demo_int_int_str)
qed

lemma demo_library_simps:
  "yl_text demo_yaml_library (YScalar s) = Some s" "yl_int demo_yaml_library (YScalar s) = demo_int s"
  "yl_bool demo_yaml_library (YScalar ''true'') = Some True" "s \<noteq> ''true'' \<Longrightarrow> s \<noteq> ''false'' \<Longrightarrow> yl_bool demo_yaml_library (YScalar s) = None"
  by (simp_all add: demo_yaml_library_def scalar_of_def)

definition demo_field_yaml :: "string \<Rightarrow> string \<Rightarrow> yaml" where
  "demo_field_yaml name t = YMap [(''name'', YScalar name), (''type'', YScalar t)]"

definition demo_rule_yaml :: yaml where
  "demo_rule_yaml = YMap [(''allow_roles'', YSeq [YScalar ''editor'']), (''own_resource'', YScalar ''true'')]"

definition demo_entity_yaml :: yaml where
  "demo_entity_yaml = YMap
     [(''name'', YScalar ''Note''),
      (''fields'', YSeq [demo_field_yaml ''title'' ''string'', demo_field_yaml ''owner_id'' ''uuid'']),
      (''owner_field'', YScalar ''owner_id''),
      (''access_control'', YMap [(''update'', demo_rule_yaml)])]"

definition demo_service_yaml :: yaml where
  "demo_service_yaml = YMap
     [(''name'', YScalar ''Notes''), (''port'', YScalar ''9000''), (''entities'', YSeq [demo_entity_yaml])]"


section \<open>Properties\<close>

definition demo_entity :: entity where
  "demo_entity = make_entity ''Note''
     [make_field ''title'' FString, (make_field ''size'' FInt)\<lparr>f_max_value := Some (NcInt64 100)\<rparr>]
     [(make_relation ''labels'' ''Label'' ManyToMany)
        \<lparr>r_pivot_table := ''note_labels'', r_source_fk := ''note_id'', r_target_fk := ''label_id''\<rparr>]"

lemma demo_entity_ok:
  "entity_shape demo_entity" "list_all (doubles_read demo_yaml_library (\<lambda>_. [])) (e_fields demo_entity)"
  "e_access_control demo_entity = empty_access_control"
  by (simp_all add: demo_entity_def make_entity_def make_field_def make_relation_def entity_shape_def field_shape_def
      relation_shape_def default_shape_def bound_shape_def doubles_read_def)

text \<open>C31: An entity of the accepted shape, without rules of its own, that is written out as a document with every
  member is read back as the same entity with no seeds, whatever the configuration of the service is. All it needs
  of yaml-cpp is that its conversions read back the texts, booleans and integers that were written.\<close>

theorem written_entity_is_read_back:
  assumes "reads_back lib" and "entity_shape e" and "list_all (doubles_read lib dbl) (e_fields e)"
    and "e_access_control e = empty_access_control"
  shows "parse_entity_node lib cfg (entity_yaml dbl e) = Inr (e, [])"
  using assms by (rule entity_read)

theorem written_entity_is_read_back_witness:
  "parse_entity_node demo_yaml_library default_access_config (entity_yaml (\<lambda>_. []) demo_entity) = Inr (demo_entity, [])"
  by (rule written_entity_is_read_back [OF demo_reads_back demo_entity_ok])

lemma demo_entity_parses:
  "\<exists>e seeds. parse_entity_node demo_yaml_library default_access_config demo_entity_yaml = Inr (e, seeds)
    \<and> e_name e = ''Note'' \<and> find_spec (e_access_control e) Update \<noteq> None"
proof -
  have "case parse_entity_node demo_yaml_library default_access_config demo_entity_yaml of
      Inl _ \<Rightarrow> False | Inr x \<Rightarrow> e_name (fst x) = ''Note'' \<and> find_spec (e_access_control (fst x)) Update \<noteq> None" by code_simp
  then show ?thesis by (auto split: sum.splits)
qed

text \<open>An accepted entity has fields of the accepted shape (never native; default and bounds of the alternative
  the type allows; a file configuration exactly for file fields, with dotted lower-case extensions and a maximum
  above zero), many-to-many relations with their three names, at least one mode of pagination, and rules that are empty
  or well formed.\<close>

theorem accepted_entity_shape:
  assumes "parse_entity_node lib cfg n = Inr (e, seeds)"
  shows "list_all field_shape (e_fields e) \<and> list_all relation_shape (e_relations e)
    \<and> (\<forall>pag. e_pagination e = Some pag \<longrightarrow> pagination_any pag)
    \<and> (\<forall>oper sp. find_spec (e_access_control e) oper = Some sp
         \<longrightarrow> spec_condition sp = empty_condition \<or> well_formed (spec_condition sp))"
  using parsed_entity [OF assms] by (simp add: entity_shape_def rules_ok_def rule_ok_def)

theorem accepted_entity_shape_witness:
  "\<exists>e seeds sp. parse_entity_node demo_yaml_library default_access_config demo_entity_yaml = Inr (e, seeds)
     \<and> find_spec (e_access_control e) Update = Some sp \<and> list_all field_shape (e_fields e)
     \<and> (spec_condition sp = empty_condition \<or> well_formed (spec_condition sp))"
  using demo_entity_parses accepted_entity_shape [of demo_yaml_library default_access_config demo_entity_yaml] by blast

lemma production_atoms: "atom_value reg production_options s r x = predicate_holds reg Permissive s r x"
  by (simp add: atom_value_def)

text \<open>C32: A rule made of shortcuts grants access exactly when it has at least one of them, a role of the subject is
  among the allowed roles (when there are any), subject and resource share a value of the scope field, and the subject
  owns the resource; the role of the administrator bypasses the scope and the owner when the service says so, never the
  allowed roles.\<close>

theorem shortcuts_grant:
  assumes "parse_operation_access_control_node lib n effective_scope effective_owner cfg = Inr sp"
    and "allowed_roles lib cfg n = Inr roles"
    and "shortcut_field lib ''same_scope'' effective_scope n = Inr sc"
    and "shortcut_field lib ''own_resource'' effective_owner n = Inr ow"
    and "CHR ''.'' \<notin> set sc" and "CHR ''.'' \<notin> set ow"
  shows "allowed (evaluate (create_default cache) (spec_condition sp) s r x production_options) \<longleftrightarrow>
    (roles \<noteq> [] \<or> sc \<noteq> [] \<or> ow \<noteq> [])
    \<and> (roles = [] \<or> set (subj_roles s) \<inter> set roles \<noteq> {})
    \<and> (sc = [] \<or> is_bypassing cfg s \<or> (\<exists>v. map_of (subj_attributes s) sc = Some v \<and> map_of (res_attributes r) sc = Some v))
    \<and> (ow = [] \<or> is_bypassing cfg s
        \<or> (if ow = ''id'' then res_id r = subj_id s else map_of (res_attributes r) ow = Some (subj_id s)))"
  unfolding evaluate_allowed production_atoms by (rule operation_holds [OF assms])

definition demo_rule :: access_control_spec where
  "demo_rule = (case parse_operation_access_control_node demo_yaml_library demo_rule_yaml [] ''owner_id'' default_access_config of
     Inl _ \<Rightarrow> \<lparr>spec_condition = empty_condition\<rparr> | Inr sp \<Rightarrow> sp)"

definition demo_editor :: policy_subject where
  "demo_editor = \<lparr>subj_id = ''u1'', subj_email = [], subj_roles = [''editor''], subj_attributes = []\<rparr>"

definition demo_note :: "string \<Rightarrow> policy_resource" where
  "demo_note owner = empty_resource\<lparr>res_attributes := [(''owner_id'', owner)]\<rparr>"

theorem shortcuts_grant_witness:
  "\<forall>x. allowed (evaluate (create_default []) (spec_condition demo_rule) demo_editor (demo_note ''u1'') x production_options)
   \<and> \<not> allowed (evaluate (create_default []) (spec_condition demo_rule) demo_editor (demo_note ''u2'') x production_options)"
proof (rule allI)
  fix x
  have p: "parse_operation_access_control_node demo_yaml_library demo_rule_yaml [] ''owner_id'' default_access_config = Inr demo_rule"
    "allowed_roles demo_yaml_library default_access_config demo_rule_yaml = Inr [''editor'']"
    "shortcut_field demo_yaml_library ''same_scope'' [] demo_rule_yaml = Inr []"
    "shortcut_field demo_yaml_library ''own_resource'' ''owner_id'' demo_rule_yaml = Inr ''owner_id''"
    by code_simp+
  have a: "\<not> is_bypassing default_access_config demo_editor" by code_simp
  show "allowed (evaluate (create_default []) (spec_condition demo_rule) demo_editor (demo_note ''u1'') x production_options)
   \<and> \<not> allowed (evaluate (create_default []) (spec_condition demo_rule) demo_editor (demo_note ''u2'') x production_options)"
    using shortcuts_grant [OF p, of "[]" demo_editor "demo_note ''u1''" x] shortcuts_grant [OF p, of "[]" demo_editor "demo_note ''u2''" x] a
    by (simp add: demo_editor_def demo_note_def)
qed

text \<open>The boolean form of a shortcut (\<open>same_scope: true\<close>, \<open>own_resource: true\<close>) is silently dropped when there is
  no effective field: the rule is that of a document without the shortcut. The text form is refused in the
  same place.\<close>

theorem boolean_shortcut_without_field:
  assumes "yl_bool lib yes = Some True" and "yl_bool lib w = None" and "yl_text lib w = Some t" and "t \<noteq> []"
  shows "parse_operation_access_control_node lib (YMap (tbl_put ''same_scope'' yes ms)) [] own cfg
      = parse_operation_access_control_node lib (YMap (tbl_erase ''same_scope'' ms)) [] own cfg
    \<and> parse_operation_access_control_node lib (YMap (tbl_put ''own_resource'' yes ms)) scp [] cfg
      = parse_operation_access_control_node lib (YMap (tbl_erase ''own_resource'' ms)) scp [] cfg
    \<and> isl (parse_operation_access_control_node lib (YMap (tbl_put ''same_scope'' w ms)) [] own cfg)
    \<and> isl (parse_operation_access_control_node lib (YMap (tbl_put ''own_resource'' w ms)) scp [] cfg)"
proof -
  note f = shortcut_field_simps(1) [OF assms(1)] shortcut_field_simps(2-4) shortcut_field_simps(5) [OF assms(2-4)] allowed_roles_other
  show ?thesis
    by (simp add: parse_operation_access_control_node_def f) (intro conjI isl_and_then; simp)
qed

theorem boolean_shortcut_without_field_witness:
  "parse_operation_access_control_node demo_yaml_library
       (YMap [(''allow_roles'', YSeq [YScalar ''editor'']), (''own_resource'', YScalar ''true'')]) [] [] default_access_config
     = parse_operation_access_control_node demo_yaml_library
       (YMap [(''allow_roles'', YSeq [YScalar ''editor''])]) [] [] default_access_config"
  using boolean_shortcut_without_field [of demo_yaml_library "YScalar ''true''" "YScalar ''owner_id''" "''owner_id''"
      "[(''allow_roles'', YSeq [YScalar ''editor''])]" "[]" default_access_config "[]"]
  by (simp add: demo_library_simps)

text \<open>A reference with a default is the value of the variable unless it is unset or empty, then the default; a
  reference without one is the value, empty or not, and refused when the variable is unset.\<close>

theorem environment_reference:
  assumes "find_sub '':-'' name = None" and "name \<noteq> []"
  shows "resolve_env environment (''${'' @ name @ '':-'' @ d @ ''}'')
      = Inr (case getenv environment name of None \<Rightarrow> d | Some v \<Rightarrow> if v = [] then d else v)
    \<and> resolve_env environment (''${'' @ name @ ''}'')
      = (case getenv environment name of None \<Rightarrow> Inl ParsingError | Some v \<Rightarrow> Inr v)"
  using reference_value [OF assms(1), of environment d] reference_without_default [OF assms, of environment] assms(2)
  by (auto simp: known_value_def split: option.splits list.splits)

theorem environment_reference_witness:
  "resolve_env (\<lambda>v. if v = ''DB_HOST'' then Some [] else None) (''${'' @ ''DB_HOST'' @ '':-'' @ ''localhost'' @ ''}'') = Inr ''localhost''
   \<and> resolve_env (\<lambda>v. if v = ''DB_HOST'' then Some [] else None) (''${'' @ ''DB_HOST'' @ ''}'') = Inr []"
proof -
  have n: "find_sub '':-'' ''DB_HOST'' = None" by code_simp
  show ?thesis
    using environment_reference [OF n, of "\<lambda>v. if v = ''DB_HOST'' then Some [] else None" "''localhost''"]
    by (simp add: getenv_def)
qed

definition size_units :: "(string \<times> nat) list" where
  "size_units = [([], 1), (''B'', 1), (''KB'', 1024), (''K'', 1024), (''MB'', 1024 ^ 2), (''M'', 1024 ^ 2),
     (''GB'', 1024 ^ 3), (''G'', 1024 ^ 3)]"

definition duration_units :: "(string \<times> nat) list" where
  "duration_units = [([], 1), (''s'', 1), (''m'', 60), (''h'', 3600), (''d'', 86400)]"

lemma unit_chars: "(u, k) \<in> set size_units \<Longrightarrow> u = [] \<or> \<not> size_char (hd u)"
  "(u, k) \<in> set duration_units \<Longrightarrow> u = [] \<or> \<not> is_digit (hd u)"
  using not_digit_units by (auto simp: size_units_def duration_units_def)

lemma parse_size_number:
  assumes "takeWhile size_char s = num" and "dropWhile size_char s = u" and "num \<noteq> []"
    and "stoull_digits num = Inr (of_nat n)" and "(u, k) \<in> set size_units"
  shows "parse_size s = Inr (of_nat (n * k))"
proof -
  have "s \<noteq> []" using assms(1,3) by auto
  then show ?thesis using assms by (auto simp: parse_size_def size_units_def mult.assoc)
qed

text \<open>C33: A size is its number times its unit, modulo the 64 bits of the result, and what stands behind a decimal
  point does not count; a duration is its number times its unit, reduced to a signed count of 64 bits.\<close>

theorem sizes_wrap_and_truncate:
  assumes "n < 2 ^ 64" and "(u, k) \<in> set size_units" and "list_all is_digit ds" and "(v, j) \<in> set duration_units"
  shows "parse_size (nat_str n @ u) = Inr (of_nat (n * k))
    \<and> parse_size (nat_str n @ CHR ''.'' # ds @ u) = Inr (of_nat (n * k))
    \<and> parse_duration (nat_str n @ v) = Inr (sint (of_nat (n * j) :: 64 word))"
proof (intro conjI)
  note t = nat_str_with_unit [OF unit_chars(1) [OF assms(2)], where n = n]
  have num: "nat_str n \<noteq> []" using nat_str_digits [of n] by auto
  show "parse_size (nat_str n @ u) = Inr (of_nat (n * k))"
    by (rule parse_size_number [OF t(1,2) num stoull_nat_str [OF assms(1)] assms(2)])
  show "parse_size (nat_str n @ CHR ''.'' # ds @ u) = Inr (of_nat (n * k))"
    by (rule parse_size_number [OF t(3,4) [OF assms(3)] _ stoull_point [OF assms(1)] assms(2)]) simp
  have d: "takeWhile is_digit (nat_str n @ v) = nat_str n" "dropWhile is_digit (nat_str n @ v) = v"
    using number_prefix [where P = is_digit, OF unit_chars(2) [OF assms(4)], of "nat_str n"] nat_str_digits [of n] by simp_all
  show "parse_duration (nat_str n @ v) = Inr (sint (of_nat (n * j) :: 64 word))"
    using assms(4) num by (auto simp: parse_duration_def d stoull_nat_str [OF assms(1)] duration_units_def)
qed

theorem sizes_wrap_and_truncate_witness:
  "parse_size (nat_str 17179869185 @ ''GB'') = Inr 1073741824
   \<and> parse_size (nat_str 1 @ CHR ''.'' # ''5'' @ ''GB'') = parse_size (nat_str 1 @ ''GB'')"
proof -
  have u: "(''GB'', 1024 ^ 3) \<in> set size_units" "(''m'', 60) \<in> set duration_units" "list_all is_digit ''5''"
    by (simp_all add: size_units_def duration_units_def is_digit_def char_code_def)
  have "(of_nat (17179869185 * 1024 ^ 3) :: 64 word) = 1073741824" by simp
  then show ?thesis
    using sizes_wrap_and_truncate [OF _ u(1,3,2), of 17179869185] sizes_wrap_and_truncate [OF _ u(1,3,2), of 1] by simp
qed

text \<open>C34: An accepted service has a port from 1 to 65535, a security configuration that validates, and entities of
  the accepted shape with rules that are empty or well formed, each with its list of seeds.\<close>

theorem accepted_service:
  assumes "parse_service_node lib environment n = Inr sv"
  shows "(\<exists>raw. 1 \<le> raw \<and> raw \<le> 65535 \<and> uint (se_port sv) = raw) \<and> security_config_validate (se_security sv) = None
    \<and> (\<forall>e \<in> set (entities (se_schema sv)). entity_shape e \<and> rules_ok (e_access_control e))
    \<and> length (se_seeds sv) = length (entities (se_schema sv))"
proof -
  have "uint (word_of_int raw :: 16 word) = raw" if "1 \<le> raw" "raw \<le> 65535" for raw :: int
    using that by (simp add: uint_word_of_int)
  with parsed_service [OF assms] show ?thesis by metis
qed

theorem accepted_service_witness:
  "\<exists>sv. parse_service_node demo_yaml_library (\<lambda>_. None) demo_service_yaml = Inr sv
     \<and> se_port sv = 9000 \<and> security_config_validate (se_security sv) = None
     \<and> length (se_seeds sv) = length (entities (se_schema sv))"
proof -
  obtain e seeds where e: "parse_entity_node demo_yaml_library default_access_config demo_entity_yaml = Inr (e, seeds)"
    using demo_entity_parses by blast
  have "base_val 10 digit_val ''9000'' = 9000" "list_all is_digit ''9000''" by code_simp+
  then have port: "demo_int ''9000'' = Some 9000" by (simp add: demo_int_def demo_number_def)
  let ?n = "demo_service_yaml"
  have m: "member ?n ''name'' = Some (YScalar ''Notes'')" "member ?n ''port'' = Some (YScalar ''9000'')"
    "member ?n ''entities'' = Some (YSeq [demo_entity_yaml])" "member ?n ''database'' = None" "member ?n ''storage'' = None"
    "member ?n ''security'' = None" "member ?n ''logging'' = None" "is_map ?n"
    by (simp_all add: demo_service_yaml_def)
  have es: "parse_list (parse_entity_node demo_yaml_library default_access_config) ?n ''entities'' = Inr [(e, seeds)]"
    by (simp add: parse_list_def m e)
  have nm: "require_string demo_yaml_library ?n ''name'' = Inr ''Notes''"
    "get_or_default (yl_int demo_yaml_library) ?n ''port'' 8080 = Inr 9000"
    by (simp_all add: require_string_def get_or_default_def m demo_library_simps port)
  have ab: "map_member ?n ''database'' parse upd acc = Inr acc" "map_member ?n ''security'' parse upd acc = Inr acc"
    "set_member conv ?n ''logging'' put acc = Inr acc" "parse_mode pm ?n ''storage'' = Inr None"
    for parse upd conv put pm acc
    by (simp_all add: map_member_def when_member_def set_member_def parse_mode_def m)
  have "\<exists>sv. parse_service_node demo_yaml_library (\<lambda>_. None) ?n = Inr sv \<and> se_port sv = 9000"
    unfolding parse_service_node_def by (simp add: m nm es ab)
  then show ?thesis using accepted_service by blast
qed

end
