(* ===== verification/Mysql_Repository.thy ===== *)
theory Mysql_Repository
  imports Schema_Generator Repository_Interface Yaml_Node
begin

text \<open>
  \<open>MysqlConnexionPool\<close> and \<open>MySQLGenericRepository\<close>
  (\<open>libs/infrastructure/persistence/mysql/{mysqlconnexionpool,mysql_generic_repository}.cpp\<close>) with the helpers of
  \<open>persistence/utilities.h\<close>. The connector is a parameter: what a connection answers to a statement and its bound
  values, over a state \<open>'d\<close> of the database, and the typed columns of a row. Preparing, binding and executing a
  statement are one call. A connection is a number, a new one the next number. Where a call answers \<open>string option\<close>,
  a text is the message of an exception.
\<close>

section \<open>The connector\<close>

record sql_error =
  sql_code :: int
  sql_state :: string

text \<open>A bound value; a parameter that was never bound is \<open>None\<close>.\<close>

datatype bound_value =
    BNull | BString string | BInt "32 word" | BUint "32 word" | BInt64 "64 word" | BUint64 "64 word" | BDouble double | BBool bool

type_synonym bound_values = "bound_value option list"

record ('d, 'w) connector =
  cn_query :: "nat \<Rightarrow> string \<Rightarrow> bound_values \<Rightarrow> 'd \<Rightarrow> (sql_error + 'w list) \<times> 'd"
  cn_update :: "nat \<Rightarrow> string \<Rightarrow> bound_values \<Rightarrow> 'd \<Rightarrow> (sql_error + int) \<times> 'd"
  cn_set_autocommit :: "nat \<Rightarrow> bool \<Rightarrow> 'd \<Rightarrow> string option \<times> 'd"
  cn_commit :: "nat \<Rightarrow> 'd \<Rightarrow> string option \<times> 'd"
  cn_rollback :: "nat \<Rightarrow> 'd \<Rightarrow> string option \<times> 'd"
  cn_is_closed :: "nat \<Rightarrow> 'd \<Rightarrow> bool"
  cn_connect :: "'d \<Rightarrow> string option \<times> 'd"
  rw_first_text :: "'w \<Rightarrow> sql_error + string"
  rw_first_int64 :: "'w \<Rightarrow> sql_error + 64 word"
  rw_is_null :: "'w \<Rightarrow> string \<Rightarrow> sql_error + bool"
  rw_text :: "'w \<Rightarrow> string \<Rightarrow> sql_error + string"
  rw_int :: "'w \<Rightarrow> string \<Rightarrow> sql_error + 32 word"
  rw_uint :: "'w \<Rightarrow> string \<Rightarrow> sql_error + 32 word"
  rw_int64 :: "'w \<Rightarrow> string \<Rightarrow> sql_error + 64 word"
  rw_uint64 :: "'w \<Rightarrow> string \<Rightarrow> sql_error + 64 word"
  rw_double :: "'w \<Rightarrow> string \<Rightarrow> sql_error + double"
  rw_bool :: "'w \<Rightarrow> string \<Rightarrow> sql_error + bool"
  rw_blob :: "'w \<Rightarrow> string \<Rightarrow> sql_error + 8 word list"
  rw_type_name :: "'w \<Rightarrow> string \<Rightarrow> sql_error + string"

definition is_connection_dead_exception :: "sql_error \<Rightarrow> bool" where
  "is_connection_dead_exception e \<longleftrightarrow> sql_code e \<in> {2006, 2013, 2003, 2055, 2026} \<or> starts_with (sql_state e) ''08''"

section \<open>Helpers of persistence\<close>

text \<open>\<open>std::isalnum\<close> of the C locale; its argument must not be negative, which a byte from 128 is.\<close>

definition validate_sql_identifier :: "string \<Rightarrow> bool" where
  "validate_sql_identifier s \<longleftrightarrow> s \<noteq> [] \<and> list_all (\<lambda>c. is_alnum c \<or> c = CHR ''_'') s"

definition validate_record_keys :: "entity_registry \<Rightarrow> string \<Rightarrow> dynamic_record \<Rightarrow> bool" where
  "validate_record_keys reg en rec \<longleftrightarrow>
     list_all (\<lambda>(key, v). registry_find_field reg en key \<noteq> None \<and> validate_sql_identifier key) rec"

definition collect_columns_in_schema_order :: "entity \<Rightarrow> dynamic_record \<Rightarrow> bool \<Rightarrow> string list" where
  "collect_columns_in_schema_order e rec exclude_id =
     map f_name (filter (\<lambda>f. \<not> (exclude_id \<and> f_name f = ''id'') \<and> tbl_has rec (f_name f)) (e_fields e))"

section \<open>Values\<close>

definition read_typed_value :: "('d, 'w) connector \<Rightarrow> 'w \<Rightarrow> string \<Rightarrow> field_type \<Rightarrow> bool \<Rightarrow> sql_error + dynamic_value" where
  "read_typed_value cn w name t unsigned_value =
     and_then (rw_is_null cn w name) (\<lambda>is_null.
       if is_null then Inr VNone
       else case t of
         FSmallInt \<Rightarrow> if unsigned_value then and_then (rw_uint cn w name) (\<lambda>v. Inr (VUint16 (ucast v)))
                      else and_then (rw_int cn w name) (\<lambda>v. Inr (VInt16 (ucast v)))
       | FInt \<Rightarrow> if unsigned_value then and_then (rw_uint cn w name) (\<lambda>v. Inr (VUint32 v))
                 else and_then (rw_int cn w name) (\<lambda>v. Inr (VInt32 v))
       | FBigInt \<Rightarrow> if unsigned_value then and_then (rw_uint64 cn w name) (\<lambda>v. Inr (VUint64 v))
                    else and_then (rw_int64 cn w name) (\<lambda>v. Inr (VInt64 v))
       | FFloat \<Rightarrow> and_then (rw_double cn w name) (\<lambda>v. Inr (VDouble v))
       | FBool \<Rightarrow> and_then (rw_bool cn w name) (\<lambda>v. Inr (VBool v))
       | FBinary \<Rightarrow> and_then (rw_blob cn w name) (\<lambda>v. Inr (VBytes v))
       | FNative \<Rightarrow> and_then (rw_type_name cn w name) (\<lambda>tn. and_then (rw_text cn w name) (\<lambda>s. Inr (VNative ''mysql'' tn (JString s))))
       | _ \<Rightarrow> and_then (rw_text cn w name) (\<lambda>s. Inr (VString s)))"

fun read_fields :: "('d, 'w) connector \<Rightarrow> 'w \<Rightarrow> field list \<Rightarrow> dynamic_record \<Rightarrow> sql_error + dynamic_record" where
  "read_fields cn w [] rec = Inr rec"
| "read_fields cn w (f # fs) rec =
     and_then (read_typed_value cn w (f_name f) (f_type f) (f_unsigned f)) (\<lambda>v. read_fields cn w fs (tbl_put (f_name f) v rec))"

definition resultset_to_record :: "('d, 'w) connector \<Rightarrow> entity \<Rightarrow> 'w \<Rightarrow> sql_error + dynamic_record" where
  "resultset_to_record cn e w = read_fields cn w (e_fields e) []"

text \<open>A list has no column: the exception is caught and the parameter stays unbound. \<open>dump\<close> prints JSON;
  it is a total function, so the exception of nlohmann on text that is not UTF-8 is left out.\<close>

definition bind_value :: "(json \<Rightarrow> string) \<Rightarrow> dynamic_value \<Rightarrow> bound_value option" where
  "bind_value dump v =
     (case v of
        VNone \<Rightarrow> Some BNull | VString s \<Rightarrow> Some (BString s) | VInt16 i \<Rightarrow> Some (BInt (scast i)) | VUint16 i \<Rightarrow> Some (BUint (ucast i))
      | VUint32 i \<Rightarrow> Some (BUint i) | VInt32 i \<Rightarrow> Some (BInt i) | VUint64 i \<Rightarrow> Some (BUint64 i) | VInt64 i \<Rightarrow> Some (BInt64 i)
      | VDouble d \<Rightarrow> Some (BDouble d) | VBool b \<Rightarrow> Some (BBool b) | VJson j \<Rightarrow> Some (BString (dump j))
      | VBytes bs \<Rightarrow> Some (BString (map (\<lambda>b. char_of (unat b)) bs))
      | VNative _ _ j \<Rightarrow> Some (BString (case j of JString s \<Rightarrow> s | _ \<Rightarrow> dump j))
      | VStrings _ \<Rightarrow> None | VInt64s _ \<Rightarrow> None)"

section \<open>Statements\<close>

definition find_id_field :: "entity \<Rightarrow> field option" where
  "find_id_field e = find_field e ''id''"

definition select_column :: "field \<Rightarrow> string" where
  "select_column f =
     (if mysql_uses_binary_storage (f_type f) then ''BIN_TO_UUID('' @ bq (f_name f) @ '', 1) AS '' @ bq (f_name f) else bq (f_name f))"

definition build_select_columns :: "entity \<Rightarrow> string" where
  "build_select_columns e = join_with '', '' (map select_column (e_fields e))"

definition placeholder :: "bool \<Rightarrow> string" where
  "placeholder binary = (if binary then ''UUID_TO_BIN(?, 1)'' else ''?'')"

definition build_id_where_clause :: "entity \<Rightarrow> string" where
  "build_id_where_clause e =
     bq ''id'' @ '' = '' @ placeholder (case find_id_field e of None \<Rightarrow> False | Some f \<Rightarrow> f_type f = FUUID)"

definition column_binary :: "entity \<Rightarrow> string \<Rightarrow> bool" where
  "column_binary e c = (case find_field e c of None \<Rightarrow> False | Some f \<Rightarrow> mysql_uses_binary_storage (f_type f))"

definition insert_sql :: "string \<Rightarrow> string list \<Rightarrow> bool list \<Rightarrow> string" where
  "insert_sql table_name columns binaries =
     ''INSERT INTO '' @ bq table_name @ '' ('' @ join_with '', '' (map bq columns) @ '') VALUES ('' @ join_with '', '' (map placeholder binaries) @ '')''"

definition select_sql :: "entity \<Rightarrow> string" where
  "select_sql e = ''SELECT '' @ build_select_columns e @ '' FROM '' @ bq (resolve_table_name e)"

definition select_by_id_sql :: "entity \<Rightarrow> string" where
  "select_by_id_sql e = select_sql e @ '' WHERE '' @ build_id_where_clause e @ '' LIMIT 1''"

definition select_by_field_sql :: "entity \<Rightarrow> string \<Rightarrow> string" where
  "select_by_field_sql e fn = select_sql e @ '' WHERE '' @ bq fn @ '' = '' @ placeholder (column_binary e fn) @ '' LIMIT 1''"

definition delete_sql :: "entity \<Rightarrow> string" where
  "delete_sql e = ''DELETE FROM '' @ bq (resolve_table_name e) @ '' WHERE '' @ build_id_where_clause e"

definition update_sql :: "entity \<Rightarrow> string list \<Rightarrow> string" where
  "update_sql e columns =
     ''UPDATE '' @ bq (resolve_table_name e) @ '' SET '' @ join_with '', '' (map (\<lambda>c. bq c @ '' = '' @ placeholder (column_binary e c)) columns)
     @ '' WHERE '' @ build_id_where_clause e"

definition count_sql :: "string \<Rightarrow> string" where
  "count_sql table_name = ''SELECT COUNT(*) FROM '' @ bq table_name"

definition order_clause :: "string option \<Rightarrow> bool \<Rightarrow> string" where
  "order_clause sort_field desc =
     (case sort_field of None \<Rightarrow> [] | Some sf \<Rightarrow> '' ORDER BY '' @ bq sf @ '' '' @ (if desc then ''DESC'' else ''ASC''))"

definition window_sql :: "entity \<Rightarrow> string option \<Rightarrow> bool \<Rightarrow> size \<Rightarrow> size \<Rightarrow> string" where
  "window_sql e sort_field desc lim off =
     select_sql e @ order_clause sort_field desc @ '' LIMIT '' @ nat_str (unat lim) @ '' OFFSET '' @ nat_str (unat off)"

definition cursor_sql :: "entity \<Rightarrow> string \<Rightarrow> bool \<Rightarrow> bool \<Rightarrow> size \<Rightarrow> string" where
  "cursor_sql e fld desc has_after fetch_limit =
     select_sql e @ (if has_after then '' WHERE '' @ bq fld @ '' '' @ (if desc then ''<'' else ''>'') @ '' ?'' else [])
     @ order_clause (Some fld) desc @ '' LIMIT '' @ nat_str (unat fetch_limit)"

text \<open>A text of the length and with the dashes of a UUID is taken for one.\<close>

definition is_uuid_text :: "string \<Rightarrow> bool" where
  "is_uuid_text s \<longleftrightarrow> length s = 36 \<and> s ! 8 = CHR ''-'' \<and> s ! 13 = CHR ''-'' \<and> s ! 18 = CHR ''-'' \<and> s ! 23 = CHR ''-''"

definition is_uuid_string :: "dynamic_value \<Rightarrow> bool" where
  "is_uuid_string v = (case v of VString s \<Rightarrow> is_uuid_text s | _ \<Rightarrow> False)"

definition pivot_conditions :: "dynamic_record \<Rightarrow> string" where
  "pivot_conditions vals = join_with '' AND '' (map (\<lambda>(c, v). bq c @ '' = '' @ placeholder (is_uuid_string v)) vals)"

section \<open>The operations on one connection\<close>

text \<open>What a call leaves: a value, an \<open>sql::SQLException\<close> that escapes, or another exception.\<close>

datatype 'a outcome = Done 'a | SqlFailed sql_error | OtherFailed string

text \<open>The \<open>catch\<close> of the operations: a dead connection throws again, other errors become the default.\<close>

definition or_default :: "'a \<Rightarrow> sql_error + 'a \<Rightarrow> 'a outcome" where
  "or_default d x = (case x of Inr a \<Rightarrow> Done a | Inl e \<Rightarrow> if is_connection_dead_exception e then SqlFailed e else Done d)"

definition query_rows :: "('d, 'w) connector \<Rightarrow> nat \<Rightarrow> string \<Rightarrow> bound_values \<Rightarrow> ('w list \<Rightarrow> sql_error + 'a) \<Rightarrow> 'd \<Rightarrow> (sql_error + 'a) \<times> 'd" where
  "query_rows cn conn txt vals read d = (case cn_query cn conn txt vals d of (rows, d') \<Rightarrow> (and_then rows read, d'))"

definition first_row :: "('w \<Rightarrow> sql_error + 'a) \<Rightarrow> 'w list \<Rightarrow> sql_error + 'a option" where
  "first_row read rows = (case rows of [] \<Rightarrow> Inr None | w # _ \<Rightarrow> and_then (read w) (\<lambda>a. Inr (Some a)))"

definition known_table :: "entity_registry \<Rightarrow> string \<Rightarrow> entity option" where
  "known_table reg en =
     (case registry_find_entity reg en of
        None \<Rightarrow> None
      | Some e \<Rightarrow> if validate_sql_identifier (resolve_table_name e) then Some e else None)"

definition my_find_all :: "('d, 'w) connector \<Rightarrow> entity_registry \<Rightarrow> string \<Rightarrow> nat \<Rightarrow> 'd \<Rightarrow> dynamic_record list outcome \<times> 'd" where
  "my_find_all cn reg en conn d =
     (case known_table reg en of
        None \<Rightarrow> (Done [], d)
      | Some e \<Rightarrow>
          (case query_rows cn conn (select_sql e) [] (traverse (resultset_to_record cn e)) d of (x, d') \<Rightarrow> (or_default [] x, d')))"

definition my_find_by_id ::
  "('d, 'w) connector \<Rightarrow> entity_registry \<Rightarrow> string \<Rightarrow> string \<Rightarrow> nat \<Rightarrow> 'd \<Rightarrow> dynamic_record option outcome \<times> 'd" where
  "my_find_by_id cn reg en k conn d =
     (case known_table reg en of
        None \<Rightarrow> (Done None, d)
      | Some e \<Rightarrow>
          (case query_rows cn conn (select_by_id_sql e) [Some (BString k)] (first_row (resultset_to_record cn e)) d of
             (x, d') \<Rightarrow> (or_default None x, d')))"

definition my_find_one_by_field ::
  "('d, 'w) connector \<Rightarrow> entity_registry \<Rightarrow> string \<Rightarrow> string \<Rightarrow> string \<Rightarrow> nat \<Rightarrow> 'd \<Rightarrow> dynamic_record option outcome \<times> 'd" where
  "my_find_one_by_field cn reg en fn v conn d =
     (case registry_find_entity reg en of
        None \<Rightarrow> (Done None, d)
      | Some e \<Rightarrow>
          if find_field e fn = None \<or> \<not> validate_sql_identifier (resolve_table_name e) \<or> \<not> validate_sql_identifier fn then (Done None, d)
          else (case query_rows cn conn (select_by_field_sql e fn) [Some (BString v)] (first_row (resultset_to_record cn e)) d of
                  (x, d') \<Rightarrow> (or_default None x, d')))"

definition my_remove :: "('d, 'w) connector \<Rightarrow> entity_registry \<Rightarrow> string \<Rightarrow> string \<Rightarrow> nat \<Rightarrow> 'd \<Rightarrow> bool outcome \<times> 'd" where
  "my_remove cn reg en k conn d =
     (case known_table reg en of
        None \<Rightarrow> (Done False, d)
      | Some e \<Rightarrow>
          (case cn_update cn conn (delete_sql e) [Some (BString k)] d of
             (x, d') \<Rightarrow> (or_default False (and_then x (\<lambda>affected. Inr (0 < affected))), d')))"


definition generate_mysql_uuid :: "('d, 'w) connector \<Rightarrow> nat \<Rightarrow> 'd \<Rightarrow> string option outcome \<times> 'd" where
  "generate_mysql_uuid cn conn d =
     (case query_rows cn conn ''SELECT UUID()'' [] (first_row (rw_first_text cn)) d of (x, d') \<Rightarrow> (or_default None x, d'))"

definition column_bound :: "(json \<Rightarrow> string) \<Rightarrow> dynamic_record \<Rightarrow> string \<Rightarrow> bound_value option" where
  "column_bound dump rec c = (case tbl_get rec c of None \<Rightarrow> None | Some v \<Rightarrow> bind_value dump v)"

definition insert_record ::
  "('d, 'w) connector \<Rightarrow> (json \<Rightarrow> string) \<Rightarrow> entity \<Rightarrow> dynamic_record \<Rightarrow> nat \<Rightarrow> 'd \<Rightarrow> dynamic_record option outcome \<times> 'd" where
  "insert_record cn dump e rec conn d =
     (let columns = collect_columns_in_schema_order e rec False;
          should_fetch = (case find_id_field e of None \<Rightarrow> False | Some f \<Rightarrow> f_type f = FInt \<and> \<not> tbl_has rec ''id'')
      in if columns = [] then (Done None, d)
         else case cn_update cn conn (insert_sql (resolve_table_name e) columns (map (column_binary e) columns))
                     (map (column_bound dump rec) columns) d of
             (Inl err, d1) \<Rightarrow> (or_default None (Inl err), d1)
           | (Inr _, d1) \<Rightarrow>
               if should_fetch
               then (case query_rows cn conn ''SELECT LAST_INSERT_ID()'' [] (first_row (rw_first_int64 cn)) d1 of
                       (x, d2) \<Rightarrow> (or_default None (and_then x (\<lambda>k. Inr (map_option (\<lambda>i. tbl_put ''id'' (VInt64 i) rec) k))), d2))
               else (Done (Some rec), d1))"

definition my_create ::
  "('d, 'w) connector \<Rightarrow> entity_registry \<Rightarrow> (json \<Rightarrow> string) \<Rightarrow> string \<Rightarrow> dynamic_record \<Rightarrow> nat \<Rightarrow> 'd
   \<Rightarrow> dynamic_record option outcome \<times> 'd" where
  "my_create cn reg dump en rec conn d =
     (case known_table reg en of
        None \<Rightarrow> (Done None, d)
      | Some e \<Rightarrow>
          if \<not> validate_record_keys reg en rec then (Done None, d)
          else if (case find_id_field e of None \<Rightarrow> False | Some f \<Rightarrow> f_type f = FUUID \<and> \<not> tbl_has rec ''id'')
          then (case generate_mysql_uuid cn conn d of
                  (Done (Some k), d1) \<Rightarrow> insert_record cn dump e (tbl_put ''id'' (VString k) rec) conn d1
                | (Done None, d1) \<Rightarrow> (Done None, d1)
                | (SqlFailed err, d1) \<Rightarrow> (SqlFailed err, d1)
                | (OtherFailed m, d1) \<Rightarrow> (OtherFailed m, d1))
          else insert_record cn dump e rec conn d)"

definition my_update ::
  "('d, 'w) connector \<Rightarrow> entity_registry \<Rightarrow> (json \<Rightarrow> string) \<Rightarrow> string \<Rightarrow> string \<Rightarrow> dynamic_record \<Rightarrow> nat \<Rightarrow> 'd
   \<Rightarrow> update_response outcome \<times> 'd" where
  "my_update cn reg dump en k rec conn d =
     (let no = \<lparr>upd_status = False, upd_record = []\<rparr> in
      case known_table reg en of
        None \<Rightarrow> (Done no, d)
      | Some e \<Rightarrow>
          if \<not> validate_record_keys reg en rec then (Done no, d)
          else let columns = collect_columns_in_schema_order e rec True in
            if columns = [] then (Done no, d)
            else case cn_update cn conn (update_sql e columns) (map (column_bound dump rec) columns @ [Some (BString k)]) d of
                (Inl err, d1) \<Rightarrow> (or_default no (Inl err), d1)
              | (Inr affected, d1) \<Rightarrow>
                  if affected \<le> 0 then (Done no, d1)
                  else (case query_rows cn conn (select_by_id_sql e) [Some (BString k)] (first_row (resultset_to_record cn e)) d1 of
                          (x, d2) \<Rightarrow> (or_default no (and_then x (\<lambda>r. Inr (case r of None \<Rightarrow> no
                             | Some new \<Rightarrow> \<lparr>upd_status = True, upd_record = new\<rparr>))), d2)))"

section \<open>Pivot tables, counters and listings\<close>

definition my_insert_pivot :: "('d, 'w) connector \<Rightarrow> (json \<Rightarrow> string) \<Rightarrow> string \<Rightarrow> dynamic_record \<Rightarrow> nat \<Rightarrow> 'd \<Rightarrow> bool outcome \<times> 'd" where
  "my_insert_pivot cn dump pivot_table vals conn d =
     (case cn_update cn conn (insert_sql pivot_table (map fst vals) (map (is_uuid_string \<circ> snd) vals)) (map (bind_value dump \<circ> snd) vals) d of
        (x, d') \<Rightarrow> (or_default False (and_then x (\<lambda>_. Inr True)), d'))"

definition my_delete_pivot :: "('d, 'w) connector \<Rightarrow> (json \<Rightarrow> string) \<Rightarrow> string \<Rightarrow> dynamic_record \<Rightarrow> nat \<Rightarrow> 'd \<Rightarrow> bool outcome \<times> 'd" where
  "my_delete_pivot cn dump pivot_table vals conn d =
     (case cn_update cn conn (''DELETE FROM '' @ bq pivot_table @ '' WHERE '' @ pivot_conditions vals) (map (bind_value dump \<circ> snd) vals) d of
        (x, d') \<Rightarrow> (or_default False (and_then x (\<lambda>affected. Inr (0 < affected))), d'))"

definition my_pivot_exists :: "('d, 'w) connector \<Rightarrow> (json \<Rightarrow> string) \<Rightarrow> string \<Rightarrow> dynamic_record \<Rightarrow> nat \<Rightarrow> 'd \<Rightarrow> bool outcome \<times> 'd" where
  "my_pivot_exists cn dump pivot_table vals conn d =
     (case query_rows cn conn (''SELECT 1 FROM '' @ bq pivot_table @ '' WHERE '' @ pivot_conditions vals @ '' LIMIT 1'')
             (map (bind_value dump \<circ> snd) vals) (\<lambda>rows. Inr (rows \<noteq> [])) d of
        (x, d') \<Rightarrow> (or_default False x, d'))"

text \<open>The total of a table: the first column of the only row, 0 without one.\<close>

definition read_total :: "('d, 'w) connector \<Rightarrow> 'w list \<Rightarrow> sql_error + size" where
  "read_total cn rows = and_then (first_row (rw_first_int64 cn) rows) (\<lambda>k. Inr (case k of None \<Rightarrow> 0 | Some n \<Rightarrow> n))"

definition my_count :: "('d, 'w) connector \<Rightarrow> entity_registry \<Rightarrow> string \<Rightarrow> nat \<Rightarrow> 'd \<Rightarrow> size outcome \<times> 'd" where
  "my_count cn reg en conn d =
     (case known_table reg en of
        None \<Rightarrow> (Done 0, d)
      | Some e \<Rightarrow> (case query_rows cn conn (count_sql (resolve_table_name e)) [] (read_total cn) d of (x, d') \<Rightarrow> (or_default 0 x, d')))"

text \<open>A total and a window of rows: an error behind the total leaves the total and the rows read before it.\<close>

fun rows_until_error :: "('w \<Rightarrow> sql_error + 'a) \<Rightarrow> 'w list \<Rightarrow> 'a list \<times> sql_error option" where
  "rows_until_error read [] = ([], None)"
| "rows_until_error read (w # ws) =
     (case read w of
        Inl e \<Rightarrow> ([], Some e)
      | Inr a \<Rightarrow> (case rows_until_error read ws of (xs, e) \<Rightarrow> (a # xs, e)))"

definition total_and_rows ::
  "('d, 'w) connector \<Rightarrow> entity_registry \<Rightarrow> string \<Rightarrow> string option \<Rightarrow> (entity \<Rightarrow> string) \<Rightarrow> nat \<Rightarrow> 'd
   \<Rightarrow> (dynamic_record list \<times> size) outcome \<times> 'd" where
  "total_and_rows cn reg en sort_field txt conn d =
     (case known_table reg en of
        None \<Rightarrow> (Done ([], 0), d)
      | Some e \<Rightarrow>
          if (case sort_field of None \<Rightarrow> False | Some sf \<Rightarrow> \<not> validate_sql_identifier sf) then (Done ([], 0), d)
          else case query_rows cn conn (count_sql (resolve_table_name e)) [] (read_total cn) d of
              (Inl err, d1) \<Rightarrow> (or_default ([], 0) (Inl err), d1)
            | (Inr n, d1) \<Rightarrow>
                (case cn_query cn conn (txt e) [] d1 of
                   (Inl err, d2) \<Rightarrow> (or_default ([], n) (Inl err), d2)
                 | (Inr ws, d2) \<Rightarrow>
                     (case rows_until_error (resultset_to_record cn e) ws of
                        (rs, None) \<Rightarrow> (Done (rs, n), d2)
                      | (rs, Some err) \<Rightarrow> (or_default (rs, n) (Inl err), d2))))"

definition page_offset :: "page_request \<Rightarrow> size" where
  "page_offset rq = ((if 0 < pr_page rq then pr_page rq else 1) - 1) * pr_page_size rq"

definition map_outcome :: "('a \<Rightarrow> 'b) \<Rightarrow> 'a outcome \<times> 'd \<Rightarrow> 'b outcome \<times> 'd" where
  "map_outcome f x = (case x of (Done a, d) \<Rightarrow> (Done (f a), d) | (SqlFailed e, d) \<Rightarrow> (SqlFailed e, d) | (OtherFailed m, d) \<Rightarrow> (OtherFailed m, d))"

definition my_list_page ::
  "('d, 'w) connector \<Rightarrow> entity_registry \<Rightarrow> string \<Rightarrow> page_request \<Rightarrow> nat \<Rightarrow> 'd \<Rightarrow> page_result outcome \<times> 'd" where
  "my_list_page cn reg en rq conn d =
     map_outcome (\<lambda>(rows, n). \<lparr>pres_items = rows, pres_total = n\<rparr>)
       (total_and_rows cn reg en (pr_sort_field rq)
          (\<lambda>e. window_sql e (pr_sort_field rq) (pr_sort_desc rq) (pr_page_size rq) (page_offset rq)) conn d)"

definition my_list_offset ::
  "('d, 'w) connector \<Rightarrow> entity_registry \<Rightarrow> string \<Rightarrow> offset_request \<Rightarrow> nat \<Rightarrow> 'd \<Rightarrow> offset_result outcome \<times> 'd" where
  "my_list_offset cn reg en rq conn d =
     map_outcome (\<lambda>(rows, n). \<lparr>ores_items = rows, ores_total = n\<rparr>)
       (total_and_rows cn reg en (or_sort_field rq)
          (\<lambda>e. window_sql e (or_sort_field rq) (or_sort_desc rq) (or_limit rq) (or_offset rq)) conn d)"

text \<open>The cursor is the value of the last row that is kept, when it is a text or a 64-bit number.\<close>

definition cursor_value :: "string \<Rightarrow> dynamic_record \<Rightarrow> string option" where
  "cursor_value fld row =
     (case tbl_get row fld of
        Some (VString s) \<Rightarrow> Some s
      | Some (VInt64 i) \<Rightarrow> Some (int_str (sint i))
      | _ \<Rightarrow> None)"

definition cut_cursor_page :: "cursor_request \<Rightarrow> dynamic_record list \<Rightarrow> cursor_result" where
  "cut_cursor_page rq fetched =
     (if unat (cr_limit rq) < length fetched
      then let kept = butlast fetched in
        \<lparr>cres_items = kept, cres_next_cursor = (if kept = [] then None else cursor_value (cr_cursor_field rq) (last kept))\<rparr>
      else \<lparr>cres_items = fetched, cres_next_cursor = None\<rparr>)"

definition my_list_cursor ::
  "('d, 'w) connector \<Rightarrow> entity_registry \<Rightarrow> string \<Rightarrow> cursor_request \<Rightarrow> nat \<Rightarrow> 'd \<Rightarrow> cursor_result outcome \<times> 'd" where
  "my_list_cursor cn reg en rq conn d =
     (let nothing = \<lparr>cres_items = [], cres_next_cursor = None\<rparr> in
      case known_table reg en of
        None \<Rightarrow> (Done nothing, d)
      | Some e \<Rightarrow>
          if \<not> validate_sql_identifier (cr_cursor_field rq) then (Done nothing, d)
          else (case query_rows cn conn
                       (cursor_sql e (cr_cursor_field rq) (cr_sort_desc rq) (cr_after rq \<noteq> None) (cr_limit rq + 1))
                       (case cr_after rq of None \<Rightarrow> [] | Some a \<Rightarrow> [Some (BString a)]) (traverse (resultset_to_record cn e)) d of
                  (x, d') \<Rightarrow> (or_default nothing (and_then x (\<lambda>rows. Inr (cut_cursor_page rq rows))), d')))"

definition my_increment_field ::
  "('d, 'w) connector \<Rightarrow> string \<Rightarrow> string \<Rightarrow> string \<Rightarrow> 64 word \<Rightarrow> nat \<Rightarrow> 'd \<Rightarrow> bool outcome \<times> 'd" where
  "my_increment_field cn en k fn delta conn d =
     (if \<not> validate_sql_identifier en \<or> \<not> validate_sql_identifier fn then (Done False, d)
      else case cn_update cn conn (''UPDATE '' @ bq en @ '' SET '' @ bq fn @ '' = '' @ bq fn @ '' + ? WHERE '' @ bq ''id'' @ '' = ''
                    @ placeholder (is_uuid_text k)) [Some (BInt64 delta), Some (BString k)] d of
          (x, d') \<Rightarrow> (or_default False (and_then x (\<lambda>affected. Inr (affected = 1))), d'))"

definition my_decrement_field_if_positive ::
  "('d, 'w) connector \<Rightarrow> string \<Rightarrow> string \<Rightarrow> string \<Rightarrow> nat \<Rightarrow> 'd \<Rightarrow> bool outcome \<times> 'd" where
  "my_decrement_field_if_positive cn en k fn conn d =
     (if \<not> validate_sql_identifier en \<or> \<not> validate_sql_identifier fn then (Done False, d)
      else case cn_update cn conn (''UPDATE '' @ bq en @ '' SET '' @ bq fn @ '' = '' @ bq fn @ '' - 1 WHERE '' @ bq ''id'' @ '' = ''
                    @ placeholder (is_uuid_text k) @ '' AND '' @ bq fn @ '' > 0'') [Some (BString k)] d of
          (x, d') \<Rightarrow> (or_default False (and_then x (\<lambda>affected. Inr (affected = 1))), d'))"

section \<open>The pool of connections\<close>

text \<open>The connections it owns, the queue of those nobody uses, the permits of the semaphore, the next number.\<close>

record pool =
  pl_owned :: "nat list"
  pl_available :: "nat list"
  pl_permits :: nat
  pl_next :: nat

definition empty_pool :: pool where
  "empty_pool = \<lparr>pl_owned = [], pl_available = [], pl_permits = 0, pl_next = 0\<rparr>"

definition add_connection :: "pool \<Rightarrow> pool" where
  "add_connection p = p\<lparr>pl_owned := pl_owned p @ [pl_next p], pl_available := pl_available p @ [pl_next p], pl_next := pl_next p + 1\<rparr>"

fun pool_start_loop :: "('d, 'w) connector \<Rightarrow> nat \<Rightarrow> pool \<Rightarrow> 'd \<Rightarrow> string option \<times> pool \<times> 'd" where
  "pool_start_loop cn 0 p d = (None, p, d)"
| "pool_start_loop cn (Suc n) p d =
     (case cn_connect cn d of
        (Some e, d') \<Rightarrow> (Some e, p, d')
      | (None, d') \<Rightarrow> pool_start_loop cn n (add_connection p) d')"

text \<open>The exception about a size of zero is caught: the pool starts without a connection.\<close>

definition pool_start :: "('d, 'w) connector \<Rightarrow> nat \<Rightarrow> 'd \<Rightarrow> string option \<times> pool \<times> 'd" where
  "pool_start cn pool_size d =
     (if pool_size = 0 then (None, empty_pool, d)
      else case pool_start_loop cn pool_size empty_pool d of
          (Some e, p, d') \<Rightarrow> (Some e, p, d')
        | (None, p, d') \<Rightarrow> (None, p\<lparr>pl_permits := pool_size\<rparr>, d'))"

definition pool_stop :: "pool \<Rightarrow> pool" where
  "pool_stop p = p\<lparr>pl_available := [], pl_owned := []\<rparr>"

definition pool_release :: "pool \<Rightarrow> nat \<Rightarrow> pool" where
  "pool_release p c = p\<lparr>pl_available := pl_available p @ [c], pl_permits := pl_permits p + 1\<rparr>"

definition discard_and_replace :: "('d, 'w) connector \<Rightarrow> nat \<Rightarrow> pool \<Rightarrow> 'd \<Rightarrow> string option \<times> pool \<times> 'd" where
  "discard_and_replace cn c p d =
     (let p1 = p\<lparr>pl_owned := remove1 c (pl_owned p)\<rparr> in
      case cn_connect cn d of
        (Some e, d') \<Rightarrow> (Some e, p1, d')
      | (None, d') \<Rightarrow> (None, (add_connection p1)\<lparr>pl_permits := pl_permits p1 + 1\<rparr>, d'))"

datatype acquired = Acquired nat | AcquireFailed string | AcquireWaits

text \<open>The front of the queue, once there is a permit; there are never more permits than connections in the queue.\<close>

definition take_front :: "pool \<Rightarrow> (nat \<times> pool) option" where
  "take_front p =
     (case (pl_permits p, pl_available p) of
        (Suc n, c # rest) \<Rightarrow> Some (c, p\<lparr>pl_available := rest, pl_permits := n\<rparr>)
      | _ \<Rightarrow> None)"

text \<open>Taking a connection and replacing a dead one are one step here; the source suspends in between, and
  the relation of the pool's interleavings in \<open>Mysql_Properties\<close> takes them as two.\<close>

definition pool_acquire :: "('d, 'w) connector \<Rightarrow> pool \<Rightarrow> 'd \<Rightarrow> acquired \<times> pool \<times> 'd" where
  "pool_acquire cn p d =
     (case take_front p of
        None \<Rightarrow> (AcquireWaits, p, d)
      | Some (c, p1) \<Rightarrow>
          if \<not> cn_is_closed cn c d then (Acquired c, p1, d)
          else (case discard_and_replace cn c p1 d of
                  (Some e, p2, d2) \<Rightarrow> (AcquireFailed e, p2, d2)
                | (None, p2, d2) \<Rightarrow>
                    (case take_front p2 of
                       None \<Rightarrow> (AcquireWaits, p2, d2)
                     | Some (c', p3) \<Rightarrow> (Acquired c', p3, d2))))"

section \<open>The repository\<close>

record 'd mysql_state =
  ms_pool :: pool
  ms_active :: "nat option"
  ms_db :: 'd

text \<open>
  \<open>run_blocking_mysql\<close>: on the connection of the active transaction, or on one of the pool that is given back, or
  replaced when it is dead. The answer is absent when the call waits for a connection. A replacement that fails behind
  a successful operation is caught with the other exceptions, and the connection is given back.
\<close>

definition after_operation :: "('d, 'w) connector \<Rightarrow> nat \<Rightarrow> 'a outcome \<Rightarrow> pool \<Rightarrow> 'd \<Rightarrow> 'a outcome \<times> pool \<times> 'd" where
  "after_operation cn c res p d =
     (case res of
        Done a \<Rightarrow>
          if \<not> cn_is_closed cn c d then (Done a, pool_release p c, d)
          else (case discard_and_replace cn c p d of
                  (Some e, p2, d2) \<Rightarrow> (OtherFailed e, pool_release p2 c, d2)
                | (None, p2, d2) \<Rightarrow> (Done a, p2, d2))
      | SqlFailed e \<Rightarrow>
          if is_connection_dead_exception e
          then (case discard_and_replace cn c p d of
                  (Some m, p2, d2) \<Rightarrow> (OtherFailed m, p2, d2)
                | (None, p2, d2) \<Rightarrow> (SqlFailed e, p2, d2))
          else (SqlFailed e, pool_release p c, d)
      | OtherFailed m \<Rightarrow> (OtherFailed m, pool_release p c, d))"

definition run_blocking_mysql ::
  "('d, 'w) connector \<Rightarrow> (nat \<Rightarrow> 'd \<Rightarrow> 'a outcome \<times> 'd) \<Rightarrow> 'd mysql_state \<Rightarrow> 'a outcome option \<times> 'd mysql_state" where
  "run_blocking_mysql cn op st =
     (case ms_active st of
        Some c \<Rightarrow> (case op c (ms_db st) of (res, d) \<Rightarrow> (Some res, st\<lparr>ms_db := d\<rparr>))
      | None \<Rightarrow>
          (case pool_acquire cn (ms_pool st) (ms_db st) of
             (AcquireWaits, p, d) \<Rightarrow> (None, st\<lparr>ms_pool := p, ms_db := d\<rparr>)
           | (AcquireFailed e, p, d) \<Rightarrow> (Some (OtherFailed e), st\<lparr>ms_pool := p, ms_db := d\<rparr>)
           | (Acquired c, p, d) \<Rightarrow>
               (case op c d of (res, d1) \<Rightarrow>
                 (case after_operation cn c res p d1 of (res', p2, d2) \<Rightarrow> (Some res', st\<lparr>ms_pool := p2, ms_db := d2\<rparr>)))))"

text \<open>The operations on pivot tables throw before they ask for a connection.\<close>

definition pivot_refusal :: "string \<Rightarrow> string \<Rightarrow> dynamic_record \<Rightarrow> string option" where
  "pivot_refusal op_name pivot_table vals =
     (if vals = [] then Some (op_name @ '': no value provided'')
      else if \<not> validate_sql_identifier pivot_table then Some (op_name @ '': invalid pivot table name'')
      else None)"

definition on_pivot ::
  "('d, 'w) connector \<Rightarrow> string \<Rightarrow> string \<Rightarrow> dynamic_record \<Rightarrow> (nat \<Rightarrow> 'd \<Rightarrow> bool outcome \<times> 'd) \<Rightarrow> 'd mysql_state
   \<Rightarrow> bool outcome option \<times> 'd mysql_state" where
  "on_pivot cn op_name pivot_table vals op st =
     (case pivot_refusal op_name pivot_table vals of
        Some m \<Rightarrow> (Some (OtherFailed m), st)
      | None \<Rightarrow> run_blocking_mysql cn op st)"

definition insert_pivot :: "('d, 'w) connector \<Rightarrow> (json \<Rightarrow> string) \<Rightarrow> string \<Rightarrow> dynamic_record \<Rightarrow> 'd mysql_state \<Rightarrow> bool outcome option \<times> 'd mysql_state" where
  "insert_pivot cn dump t vals = on_pivot cn ''insert_pivot'' t vals (my_insert_pivot cn dump t vals)"

definition delete_pivot :: "('d, 'w) connector \<Rightarrow> (json \<Rightarrow> string) \<Rightarrow> string \<Rightarrow> dynamic_record \<Rightarrow> 'd mysql_state \<Rightarrow> bool outcome option \<times> 'd mysql_state" where
  "delete_pivot cn dump t vals = on_pivot cn ''delete_pivot'' t vals (my_delete_pivot cn dump t vals)"

definition pivot_exists :: "('d, 'w) connector \<Rightarrow> (json \<Rightarrow> string) \<Rightarrow> string \<Rightarrow> dynamic_record \<Rightarrow> 'd mysql_state \<Rightarrow> bool outcome option \<times> 'd mysql_state" where
  "pivot_exists cn dump t vals = on_pivot cn ''pivot_exists'' t vals (my_pivot_exists cn dump t vals)"

section \<open>Transactions\<close>

datatype work_end = WorkAnswer bool | WorkException string | WorkUnknown

text \<open>The steps before and behind the work, apart, since other calls of the shard run in between.\<close>

datatype begin_result = Begun nat | BeginRefused string | BeginFailed string | BeginWaits

definition txn_begin :: "('d, 'w) connector \<Rightarrow> 'd mysql_state \<Rightarrow> begin_result \<times> 'd mysql_state" where
  "txn_begin cn st =
     (case pool_acquire cn (ms_pool st) (ms_db st) of
        (AcquireWaits, p, d) \<Rightarrow> (BeginWaits, st\<lparr>ms_pool := p, ms_db := d\<rparr>)
      | (AcquireFailed e, p, d) \<Rightarrow> (BeginFailed e, st\<lparr>ms_pool := p, ms_db := d\<rparr>)
      | (Acquired c, p, d) \<Rightarrow>
          (case cn_set_autocommit cn c False d of
             (Some e, d') \<Rightarrow> (BeginRefused (''Failed to begin transaction: '' @ e), st\<lparr>ms_pool := pool_release p c, ms_db := d'\<rparr>)
           | (None, d') \<Rightarrow> (Begun c, st\<lparr>ms_pool := p, ms_active := Some c, ms_db := d'\<rparr>)))"

definition txn_finish :: "('d, 'w) connector \<Rightarrow> nat \<Rightarrow> work_end \<Rightarrow> 'd mysql_state \<Rightarrow> transaction_result \<times> 'd mysql_state" where
  "txn_finish cn c w st =
     (let should_commit = (w = WorkAnswer True);
          message = (case w of WorkAnswer _ \<Rightarrow> [] | WorkException e \<Rightarrow> ''Exception: '' @ e | WorkUnknown \<Rightarrow> ''Unknown exception'');
          (failure, d1) = (if should_commit then cn_commit cn c (ms_db st) else cn_rollback cn c (ms_db st));
          d2 = snd (cn_set_autocommit cn c True d1)
      in (\<lparr>committed = (should_commit \<and> failure = None),
           error_message = (case failure of None \<Rightarrow> message | Some e \<Rightarrow> ''Failed to finalize transaction: '' @ e)\<rparr>,
          st\<lparr>ms_pool := pool_release (ms_pool st) c, ms_active := None, ms_db := d2\<rparr>))"

text \<open>The answer is a result or the message of an exception, absent when the call waits for a connection.\<close>

definition in_transaction ::
  "('d, 'w) connector \<Rightarrow> ('d mysql_state \<Rightarrow> work_end \<times> 'd mysql_state) \<Rightarrow> 'd mysql_state
   \<Rightarrow> (string + transaction_result) option \<times> 'd mysql_state" where
  "in_transaction cn work st =
     (case ms_active st of
        Some _ \<Rightarrow>
          (case work st of
             (WorkAnswer b, st') \<Rightarrow>
               (Some (Inr \<lparr>committed = b, error_message = (if b then [] else ''Nested transaction returned false'')\<rparr>), st')
           | (WorkException e, st') \<Rightarrow> (Some (Inl e), st')
           | (WorkUnknown, st') \<Rightarrow> (Some (Inl []), st'))
      | None \<Rightarrow>
          (case txn_begin cn st of
             (BeginWaits, st1) \<Rightarrow> (None, st1)
           | (BeginFailed e, st1) \<Rightarrow> (Some (Inl e), st1)
           | (BeginRefused e, st1) \<Rightarrow> (Some (Inr \<lparr>committed = False, error_message = e\<rparr>), st1)
           | (Begun c, st1) \<Rightarrow>
               (case work st1 of (w, st2) \<Rightarrow> (case txn_finish cn c w st2 of (res, st3) \<Rightarrow> (Some (Inr res), st3)))))"

end
