(* ===== verification/Mysql_Properties.thy ===== *)
theory Mysql_Properties
  imports Mysql_Repository
begin

text \<open>
  What the MySQL repository is right about and where it fails: the statements it sends, the pool of connections over
  sequences of calls and after an outage, transactions and the calls of other requests in between, and listings by
  cursor.
\<close>

named_theorems mysql_simps

section \<open>Statements come from the schema\<close>

text \<open>Two connectors that answer alike to every text of \<open>S\<close>.\<close>

definition agrees_on :: "string set \<Rightarrow> ('d, 'w) connector \<Rightarrow> ('d, 'w) connector \<Rightarrow> bool" where
  "agrees_on S cn cn' \<longleftrightarrow>
     (\<exists>q u. cn' = cn\<lparr>cn_query := q, cn_update := u\<rparr> \<and>
            (\<forall>c. \<forall>txt \<in> S. q c txt = cn_query cn c txt \<and> u c txt = cn_update cn c txt))"

text \<open>The texts an entity may cause: its own names, names of its fields, a checked name for the order, numbers.\<close>

definition columns_of :: "entity \<Rightarrow> string list set" where
  "columns_of e = {cols. set cols \<subseteq> f_name ` set (e_fields e)}"

definition order_names :: "string option set" where
  "order_names = {sf. case sf of None \<Rightarrow> True | Some s \<Rightarrow> validate_sql_identifier s}"

definition entity_texts :: "entity \<Rightarrow> string set" where
  "entity_texts e =
     (if \<not> validate_sql_identifier (resolve_table_name e) then {}
      else {''SELECT UUID()'', ''SELECT LAST_INSERT_ID()'', select_sql e, select_by_id_sql e, delete_sql e,
            count_sql (resolve_table_name e)}
        \<union> (\<lambda>f. select_by_field_sql e (f_name f)) ` set (e_fields e)
        \<union> (\<lambda>cols. insert_sql (resolve_table_name e) cols (map (column_binary e) cols)) ` columns_of e
        \<union> update_sql e ` columns_of e
        \<union> {window_sql e sf desc lim off | sf desc lim off. sf \<in> order_names}
        \<union> {cursor_sql e s desc has_after lim | s desc has_after lim. validate_sql_identifier s})"

definition statement_char :: "char \<Rightarrow> bool" where
  "statement_char c \<longleftrightarrow> is_alnum c \<or> c \<in> set ''_ `,()?=*<>''"

lemma agrees_on_reads [mysql_simps]:
  assumes "agrees_on S cn cn'"
  shows "resultset_to_record cn' = resultset_to_record cn" "read_total cn' = read_total cn"
    "rw_first_text cn' = rw_first_text cn" "rw_first_int64 cn' = rw_first_int64 cn"
proof -
  obtain q u where cn': "cn' = cn\<lparr>cn_query := q, cn_update := u\<rparr>"
    using assms by (auto simp: agrees_on_def)
  have typed: "read_typed_value cn' = read_typed_value cn"
    by (intro ext) (simp add: read_typed_value_def cn' and_then_def split: sum.split field_type.split)
  have "read_fields cn' w fs rec = read_fields cn w fs rec" for w fs rec
    by (induction fs arbitrary: rec) (simp_all add: typed)
  then show "resultset_to_record cn' = resultset_to_record cn"
    by (intro ext) (simp add: resultset_to_record_def)
  show "read_total cn' = read_total cn" "rw_first_text cn' = rw_first_text cn" "rw_first_int64 cn' = rw_first_int64 cn"
    by (simp_all add: fun_eq_iff read_total_def cn')
qed

lemma agrees_on_calls:
  assumes "agrees_on S cn cn'" and "txt \<in> S"
  shows "cn_query cn' c txt vals d = cn_query cn c txt vals d" "cn_update cn' c txt vals d = cn_update cn c txt vals d"
    "query_rows cn' c txt vals read d = query_rows cn c txt vals read d"
  using assms by (auto simp: agrees_on_def query_rows_def)

lemma known_table_Some:
  "known_table reg en = Some e \<longleftrightarrow> registry_find_entity reg en = Some e \<and> validate_sql_identifier (resolve_table_name e)"
  by (auto simp: known_table_def split: option.splits)

lemma collected_columns: "collect_columns_in_schema_order e rec x \<in> columns_of e"
  by (auto simp: collect_columns_in_schema_order_def columns_of_def)

lemma texts_of_entity:
  assumes "validate_sql_identifier (resolve_table_name e)"
  shows "''SELECT UUID()'' \<in> entity_texts e" "''SELECT LAST_INSERT_ID()'' \<in> entity_texts e" "select_sql e \<in> entity_texts e"
    "select_by_id_sql e \<in> entity_texts e" "delete_sql e \<in> entity_texts e" "count_sql (resolve_table_name e) \<in> entity_texts e"
    "find_field e n \<noteq> None \<Longrightarrow> select_by_field_sql e n \<in> entity_texts e"
    "insert_sql (resolve_table_name e) (collect_columns_in_schema_order e rec x)
       (map (column_binary e) (collect_columns_in_schema_order e rec x)) \<in> entity_texts e"
    "update_sql e (collect_columns_in_schema_order e rec x) \<in> entity_texts e"
    "window_sql e None desc lim off \<in> entity_texts e"
    "validate_sql_identifier s \<Longrightarrow> window_sql e (Some s) desc lim off \<in> entity_texts e"
    "validate_sql_identifier s \<Longrightarrow> cursor_sql e s desc a lim \<in> entity_texts e"
proof -
  show "''SELECT UUID()'' \<in> entity_texts e" "''SELECT LAST_INSERT_ID()'' \<in> entity_texts e" "select_sql e \<in> entity_texts e"
    "select_by_id_sql e \<in> entity_texts e" "delete_sql e \<in> entity_texts e" "count_sql (resolve_table_name e) \<in> entity_texts e"
    "insert_sql (resolve_table_name e) (collect_columns_in_schema_order e rec x)
       (map (column_binary e) (collect_columns_in_schema_order e rec x)) \<in> entity_texts e"
    "update_sql e (collect_columns_in_schema_order e rec x) \<in> entity_texts e"
    using assms collected_columns[of e rec x] by (simp_all add: entity_texts_def)
  show "select_by_field_sql e n \<in> entity_texts e" if "find_field e n \<noteq> None"
    using assms that find_field_name[of e n] by (auto simp: entity_texts_def)
  have win: "window_sql e sf desc lim off \<in> entity_texts e" if "sf \<in> order_names" for sf
    using assms that unfolding entity_texts_def by (simp only: simp_thms if_False) blast
  then show "window_sql e None desc lim off \<in> entity_texts e"
    "validate_sql_identifier s \<Longrightarrow> window_sql e (Some s) desc lim off \<in> entity_texts e"
    by (simp_all add: order_names_def)
  show "cursor_sql e s desc a lim \<in> entity_texts e" if "validate_sql_identifier s"
    using assms that unfolding entity_texts_def by (simp only: simp_thms if_False) blast
qed

text \<open>Whatever the connector answers to other texts, and whatever the values are, an operation answers the same.\<close>

lemma operations_agree:
  assumes reg: "registry_find_entity reg en = Some e" and cn: "agrees_on (entity_texts e) cn cn'"
  shows "my_find_all cn' reg en = my_find_all cn reg en" "my_find_by_id cn' reg en k = my_find_by_id cn reg en k"
    "my_find_one_by_field cn' reg en fn v = my_find_one_by_field cn reg en fn v"
    "my_remove cn' reg en k = my_remove cn reg en k" "my_count cn' reg en = my_count cn reg en"
    "my_create cn' reg dump en rec = my_create cn reg dump en rec"
    "my_update cn' reg dump en k rec = my_update cn reg dump en k rec"
    "my_list_page cn' reg en pq = my_list_page cn reg en pq"
    "my_list_offset cn' reg en oq = my_list_offset cn reg en oq"
    "my_list_cursor cn' reg en cq = my_list_cursor cn reg en cq"
proof -
  note same = agrees_on_reads[OF cn] agrees_on_calls[OF cn] texts_of_entity
  have kt: "known_table reg en = (if validate_sql_identifier (resolve_table_name e) then Some e else None)"
    by (simp add: known_table_def reg)
  show "my_find_all cn' reg en = my_find_all cn reg en" "my_find_by_id cn' reg en k = my_find_by_id cn reg en k"
    "my_remove cn' reg en k = my_remove cn reg en k" "my_count cn' reg en = my_count cn reg en"
    by (simp_all add: fun_eq_iff my_find_all_def my_find_by_id_def my_remove_def my_count_def kt same)
  show "my_find_one_by_field cn' reg en fn v = my_find_one_by_field cn reg en fn v"
    by (cases "find_field e fn = None") (auto simp: fun_eq_iff my_find_one_by_field_def reg same)
  have uuid: "generate_mysql_uuid cn' c d = generate_mysql_uuid cn c d" if "validate_sql_identifier (resolve_table_name e)" for c d
    by (simp add: generate_mysql_uuid_def same that)
  have ins: "insert_record cn' dump e rec c d = insert_record cn dump e rec c d"
    if "validate_sql_identifier (resolve_table_name e)" for rec c d
    by (simp add: insert_record_def Let_def same that split: prod.split sum.split)
  show "my_create cn' reg dump en rec = my_create cn reg dump en rec"
    by (simp add: fun_eq_iff my_create_def kt uuid ins split: prod.split outcome.split option.split)
  show "my_update cn' reg dump en k rec = my_update cn reg dump en k rec"
    by (simp add: fun_eq_iff my_update_def kt Let_def same split: prod.split sum.split)
  have "total_and_rows cn' reg en sf (\<lambda>e. window_sql e sf desc lim off) c d
      = total_and_rows cn reg en sf (\<lambda>e. window_sql e sf desc lim off) c d" for sf desc lim off c d
    by (cases sf) (simp_all add: total_and_rows_def kt same split: prod.split sum.split)
  then show "my_list_page cn' reg en pq = my_list_page cn reg en pq" "my_list_offset cn' reg en oq = my_list_offset cn reg en oq"
    by (simp_all add: fun_eq_iff my_list_page_def my_list_offset_def)
  show "my_list_cursor cn' reg en cq = my_list_cursor cn reg en cq"
    by (simp add: fun_eq_iff my_list_cursor_def kt Let_def same)
qed

lemma join_with_all: "list_all P (join_with sep xs)" if "list_all P sep" "list_all (list_all P) xs"
  using that by (induction sep xs rule: join_with.induct) auto

lemma statement_pieces [mysql_simps]:
  "validate_sql_identifier s \<Longrightarrow> list_all statement_char (bq s)"
  "list_all statement_char (placeholder b)" "list_all statement_char (build_id_where_clause e)"
  "list_all statement_char (nat_str n)"
proof -
  show "validate_sql_identifier s \<Longrightarrow> list_all statement_char (bq s)"
    by (auto simp: validate_sql_identifier_def bq_def statement_char_def list_all_iff)
  show ph: "list_all statement_char (placeholder b)" for b
    by (simp add: placeholder_def statement_char_def char_class_defs)
  show "list_all statement_char (build_id_where_clause e)"
    using ph by (simp add: build_id_where_clause_def bq_def statement_char_def char_class_defs)
  show "list_all statement_char (nat_str n)"
    using nat_str_digits[of n] by (auto simp: list_all_iff statement_char_def is_alnum_def)
qed

lemma statement_columns:
  assumes "list_all (\<lambda>f. validate_sql_identifier (f_name f)) (e_fields e)" and "set cols \<subseteq> f_name ` set (e_fields e)"
  shows "c \<in> set cols \<Longrightarrow> list_all statement_char (bq c)"
    "list_all statement_char (join_with '', '' (map bq cols))"
    "list_all statement_char (join_with '', '' (map (\<lambda>c. bq c @ '' = '' @ placeholder (column_binary e c)) cols))"
    "list_all statement_char (build_select_columns e)"
proof -
  have cols: "list_all statement_char (bq c)" if "c \<in> f_name ` set (e_fields e)" for c
    using assms(1) that mysql_simps(5) by (auto simp: list_all_iff)
  then have used: "list_all statement_char (bq c)" if "c \<in> set cols" for c
    using assms(2) that by blast
  then show "c \<in> set cols \<Longrightarrow> list_all statement_char (bq c)" .
  have sep: "list_all statement_char '', ''" "list_all statement_char '' = ''" "list_all statement_char ''BIN_TO_UUID(''"
    "list_all statement_char '', 1) AS ''"
    by (simp_all add: statement_char_def char_class_defs)
  show "list_all statement_char (join_with '', '' (map bq cols))"
    using used by (intro join_with_all sep) (auto simp: list_all_iff)
  show "list_all statement_char (join_with '', '' (map (\<lambda>c. bq c @ '' = '' @ placeholder (column_binary e c)) cols))"
    using used statement_pieces(2) sep(2) by (intro join_with_all sep) (auto simp: list_all_iff)
  show "list_all statement_char (build_select_columns e)"
    unfolding build_select_columns_def using cols[OF imageI] sep
    by (intro join_with_all) (auto simp: list_all_iff select_column_def)
qed

lemma entity_texts_chars:
  assumes fields: "list_all (\<lambda>f. validate_sql_identifier (f_name f)) (e_fields e)" and sent: "txt \<in> entity_texts e"
  shows "list_all statement_char txt"
proof -
  have tbl: "list_all statement_char (bq (resolve_table_name e))"
    using sent statement_pieces(1) by (auto simp: entity_texts_def split: if_splits)
  have names: "list_all statement_char (bq (f_name f))" if "f \<in> set (e_fields e)" for f
    using fields that statement_pieces(1) by (auto simp: list_all_iff)
  have ord: "list_all statement_char (order_clause sf desc)" if "sf \<in> order_names" for sf desc
    using that statement_pieces(1)
    by (auto simp: order_clause_def order_names_def statement_char_def char_class_defs split: option.splits)
  have sel: "list_all statement_char (select_sql e)"
    using tbl statement_columns(4)[OF fields, of "[]"] by (simp add: select_sql_def)
      (simp add: statement_char_def char_class_defs)
  note parts = sel tbl names ord statement_pieces statement_columns[OF fields]
  have id: "list_all statement_char (select_by_id_sql e)" "list_all statement_char (delete_sql e)"
    "list_all statement_char (count_sql (resolve_table_name e))"
    using parts
    by (simp_all add: select_by_id_sql_def delete_sql_def count_sql_def) (simp_all add: statement_char_def char_class_defs)
  have fld: "list_all statement_char (select_by_field_sql e (f_name f))" if "f \<in> set (e_fields e)" for f
    using parts names[OF that] by (simp add: select_by_field_sql_def) (simp add: statement_char_def char_class_defs)
  have ins: "list_all statement_char (insert_sql (resolve_table_name e) cols (map (column_binary e) cols))"
    "list_all statement_char (update_sql e cols)" if "cols \<in> columns_of e" for cols
  proof -
    have sub: "set cols \<subseteq> f_name ` set (e_fields e)"
      using that by (simp add: columns_of_def)
    have "list_all statement_char (join_with '', '' (map placeholder (map (column_binary e) cols)))"
      by (rule join_with_all) (simp_all add: list_all_iff statement_pieces[unfolded list_all_iff], simp_all add: statement_char_def char_class_defs)
    then show "list_all statement_char (insert_sql (resolve_table_name e) cols (map (column_binary e) cols))"
      "list_all statement_char (update_sql e cols)"
      using parts statement_columns(2,3)[OF fields sub]
      by (simp_all add: insert_sql_def update_sql_def) (simp_all add: statement_char_def char_class_defs)
  qed
  have win: "list_all statement_char (window_sql e sf desc lim off)" if "sf \<in> order_names" for sf desc lim off
    using parts ord[OF that] by (simp add: window_sql_def) (simp add: statement_char_def char_class_defs)
  have cur: "list_all statement_char (cursor_sql e s desc a lim)" if "validate_sql_identifier s" for s desc a lim
    using parts ord[of "Some s"] statement_pieces(1)[OF that] that
    by (simp add: cursor_sql_def order_names_def) (simp add: statement_char_def char_class_defs)
  show ?thesis
    using sent id fld ins win cur sel
    by (auto simp: entity_texts_def split: if_splits) (simp_all add: statement_char_def char_class_defs)
qed

text \<open>C35: Every operation on an entity sends only texts made of the names of the entity and its fields, a checked name for
  the order and numbers: it answers alike on any two connectors that agree on these texts, whatever the ids, values and
  records of the client are, and none of these texts has a character besides letters, digits and a few signs.\<close>

theorem statements_come_from_schema:
  assumes "registry_find_entity reg en = Some e" and "agrees_on (entity_texts e) cn cn'"
    and "list_all (\<lambda>f. validate_sql_identifier (f_name f)) (e_fields e)"
  shows "my_find_all cn' reg en = my_find_all cn reg en \<and> my_find_by_id cn' reg en k = my_find_by_id cn reg en k
    \<and> my_find_one_by_field cn' reg en fn v = my_find_one_by_field cn reg en fn v
    \<and> my_remove cn' reg en k = my_remove cn reg en k \<and> my_count cn' reg en = my_count cn reg en
    \<and> my_create cn' reg dump en rec = my_create cn reg dump en rec
    \<and> my_update cn' reg dump en k rec = my_update cn reg dump en k rec
    \<and> my_list_page cn' reg en pq = my_list_page cn reg en pq \<and> my_list_offset cn' reg en oq = my_list_offset cn reg en oq
    \<and> my_list_cursor cn' reg en cq = my_list_cursor cn reg en cq
    \<and> (\<forall>txt \<in> entity_texts e. list_all statement_char txt)"
  using operations_agree[OF assms(1,2)] entity_texts_chars[OF assms(3)] by blast

section \<open>The pool\<close>

text \<open>
  What the pool keeps while callers hold the connections \<open>held\<close>: a permit for each connection in the queue, no
  connection twice in the queue and the hands of callers, and numbers for new ones.
\<close>

definition pool_inv :: "nat list \<Rightarrow> pool \<Rightarrow> bool" where
  "pool_inv held p \<longleftrightarrow>
     pl_permits p = length (pl_available p) \<and> distinct (pl_available p @ held)
     \<and> set (pl_owned p) \<subseteq> set (pl_available p) \<union> set held \<and> distinct (pl_owned p)
     \<and> (\<forall>c \<in> set (pl_available p) \<union> set held. c < pl_next p)"

text \<open>The interface the repository uses: a connection is taken and given back.\<close>

locale connection_source =
  fixes take :: "'p \<Rightarrow> (nat \<times> 'p) option"
    and give :: "'p \<Rightarrow> nat \<Rightarrow> 'p"
    and free :: "'p \<Rightarrow> nat list"
    and ok :: "nat list \<Rightarrow> 'p \<Rightarrow> bool"
  assumes take_Some: "ok held p \<Longrightarrow> take p = Some (c, p') \<Longrightarrow> free p = c # free p' \<and> ok (c # held) p'"
    and take_None: "ok held p \<Longrightarrow> take p = None \<longleftrightarrow> free p = []"
    and give_ok: "ok held p \<Longrightarrow> c \<in> set held \<Longrightarrow> ok (remove1 c held) (give p c)"
    and give_free: "free (give p c) = free p @ [c]"
begin

lemma borrow_and_return:
  assumes "ok held p" and "take p = Some (c, p')"
  shows "ok held (give p' c)" "free (give p' c) = tl (free p) @ [c]"
  using take_Some[OF assms] give_ok[of "c # held" p' c] by (auto simp: give_free)

lemma capacity_kept:
  assumes "ok held p" and "take p = Some (c, p')"
  shows "length (free p') + length (c # held) = length (free p) + length held"
  using take_Some[OF assms] by simp

end

lemma take_front_Some:
  "take_front p = Some (c, p') \<longleftrightarrow>
     pl_permits p \<noteq> 0 \<and> pl_available p = c # pl_available p' \<and> p' = p\<lparr>pl_available := pl_available p', pl_permits := pl_permits p - 1\<rparr>"
  by (cases p) (auto simp: take_front_def split: nat.split list.split)

lemma take_front_None: "pool_inv held p \<Longrightarrow> take_front p = None \<longleftrightarrow> pl_available p = []"
  by (auto simp: take_front_def pool_inv_def split: nat.split list.split)

lemma take_front_inv:
  assumes "pool_inv held p" and "take_front p = Some (c, p')"
  shows "pl_available p = c # pl_available p'" "pool_inv (c # held) p'" "pl_next p' = pl_next p" "pl_owned p' = pl_owned p"
proof -
  obtain q where q: "pl_available p = c # q" "p' = p\<lparr>pl_available := q, pl_permits := pl_permits p - 1\<rparr>"
    using assms(2) by (auto simp: take_front_def split: nat.splits list.splits)
  show "pl_available p = c # pl_available p'" "pl_next p' = pl_next p" "pl_owned p' = pl_owned p"
    by (simp_all add: q)
  show "pool_inv (c # held) p'"
    using assms(1) q(1) by (auto simp: pool_inv_def q(2))
qed

lemma release_inv: "pool_inv held p \<Longrightarrow> c \<in> set held \<Longrightarrow> pool_inv (remove1 c held) (pool_release p c)"
  unfolding pool_inv_def pool_release_def by (clarsimp simp: set_remove1_eq distinct_remove1) blast

interpretation free_connections: connection_source take_front pool_release pl_available pool_inv
  by unfold_locales
    (rule conjI[OF take_front_inv(1,2)], assumption+, rule take_front_None, assumption, rule release_inv, assumption+,
     simp add: pool_release_def)

lemma replace_inv:
  assumes "pool_inv held p" and "c \<in> set held" and "discard_and_replace cn c p d = (None, p', d')"
  shows "pool_inv (remove1 c held) p'" "length (pl_available p') = Suc (length (pl_available p))"
proof -
  have p': "p' = (add_connection (p\<lparr>pl_owned := remove1 c (pl_owned p)\<rparr>))\<lparr>pl_permits := pl_permits p + 1\<rparr>"
    using assms(3) by (auto simp: discard_and_replace_def Let_def split: prod.splits option.splits)
  show "length (pl_available p') = Suc (length (pl_available p))"
    by (simp add: p' add_connection_def)
  have "pl_next p \<notin> set (pl_available p) \<union> set held" "set (remove1 c (pl_owned p)) \<subseteq> set (pl_available p) \<union> (set held - {c})"
    "distinct held" "c \<notin> set (pl_available p)"
    using assms(1,2) by (auto simp: pool_inv_def)
  then show "pool_inv (remove1 c held) p'"
    using assms(1) by (auto simp: pool_inv_def p' add_connection_def dest: less_SucI)
qed

lemma lost_inv:
  assumes "pool_inv held p" and "c \<in> set held" and "discard_and_replace cn c p d = (Some e, p', d')"
  shows "pool_inv (remove1 c held) p'" "pl_available p' = pl_available p" "pool_inv (remove1 c held) (pool_release p' c)"
proof -
  have p': "p' = p\<lparr>pl_owned := remove1 c (pl_owned p)\<rparr>"
    using assms(3) by (auto simp: discard_and_replace_def Let_def split: prod.splits option.splits)
  show "pl_available p' = pl_available p"
    by (simp add: p')
  have "set (remove1 c (pl_owned p)) \<subseteq> set (pl_available p) \<union> (set held - {c})" "distinct held" "c \<notin> set (pl_available p)"
    using assms(1,2) by (auto simp: pool_inv_def)
  then show "pool_inv (remove1 c held) p'" "pool_inv (remove1 c held) (pool_release p' c)"
    using assms(1,2) by (auto simp: pool_inv_def p' pool_release_def)
qed

text \<open>
  The steps callers take, in any order, on the connections they hold: a connection is taken from the queue, used,
  given back, or replaced; a replacement that fails loses it, or the discarded connection is given back
  (\<open>after_operation\<close> behind an operation that succeeded). \<open>lost\<close> counts the connections that are lost.
\<close>

type_synonym 'd pool_state = "nat list \<times> nat \<times> pool \<times> 'd"

inductive pool_step :: "('d, 'w) connector \<Rightarrow> 'd pool_state \<Rightarrow> 'd pool_state \<Rightarrow> bool" for cn where
  takes: "take_front p = Some (c, p') \<Longrightarrow> pool_step cn (held, lost, p, d) (c # held, lost, p', d)"
| uses: "pool_step cn (held, lost, p, d) (held, lost, p, d')"
| gives_back: "c \<in> set held \<Longrightarrow> pool_step cn (held, lost, p, d) (remove1 c held, lost, pool_release p c, d)"
| replaces: "c \<in> set held \<Longrightarrow> discard_and_replace cn c p d = (None, p', d') \<Longrightarrow>
    pool_step cn (held, lost, p, d) (remove1 c held, lost, p', d')"
| loses: "c \<in> set held \<Longrightarrow> discard_and_replace cn c p d = (Some e, p', d') \<Longrightarrow>
    pool_step cn (held, lost, p, d) (remove1 c held, Suc lost, p', d')"
| keeps_discarded: "c \<in> set held \<Longrightarrow> discard_and_replace cn c p d = (Some e, p', d') \<Longrightarrow>
    pool_step cn (held, lost, p, d) (remove1 c held, lost, pool_release p' c, d')"

abbreviation pool_steps :: "('d, 'w) connector \<Rightarrow> 'd pool_state \<Rightarrow> 'd pool_state \<Rightarrow> bool" where
  "pool_steps cn \<equiv> (pool_step cn)\<^sup>*\<^sup>*"

lemma length_handed_back: "c \<in> set held \<Longrightarrow> Suc (length (remove1 c held)) = length held"
  by (induction held) (auto simp: Suc_le_eq)

lemma pool_step_keeps:
  assumes "pool_step cn (held, lost, p, d) (held', lost', p', d')" and "pool_inv held p"
  shows "pool_inv held' p' \<and> length (pl_available p') + length held' + lost' = length (pl_available p) + length held + lost"
  using assms
proof cases
  case (takes c)
  note front = \<open>take_front p = Some (c, p')\<close>
  show ?thesis
    using takes take_front_inv(2)[OF assms(2) front] free_connections.capacity_kept[OF assms(2) front] by simp
next
  case (gives_back c)
  then have "pool_inv held' p'" "Suc (length held') = length held"
    using release_inv[OF assms(2), of c] length_handed_back[of c held] by blast+
  then show ?thesis
    using gives_back by (simp add: pool_release_def)
next
  case (replaces c)
  then have "pool_inv held' p'" "length (pl_available p') = Suc (length (pl_available p))" "Suc (length held') = length held"
    using replace_inv[OF assms(2), of c cn d p' d'] length_handed_back[of c held] by blast+
  then show ?thesis
    using replaces by simp
next
  case (loses c e)
  then have "pool_inv held' p'" "pl_available p' = pl_available p" "Suc (length held') = length held"
    using lost_inv(1,2)[OF assms(2), of c cn d e p' d'] length_handed_back[of c held] by blast+
  then show ?thesis
    using loses by simp
next
  case (keeps_discarded c e p2)
  then have "pool_inv held' p'" "pl_available p2 = pl_available p" "Suc (length held') = length held"
    using lost_inv(2,3)[OF assms(2), of c cn d e p2 d'] length_handed_back[of c held] by blast+
  then show ?thesis
    using keeps_discarded by (simp add: pool_release_def)
qed (use assms(2) in auto)

lemma pool_steps_keep:
  assumes "pool_steps cn s s'" and "pool_inv (fst s) (fst (snd (snd s)))"
  shows "pool_inv (fst s') (fst (snd (snd s'))) \<and>
    length (pl_available (fst (snd (snd s')))) + length (fst s') + fst (snd s')
      = length (pl_available (fst (snd (snd s)))) + length (fst s) + fst (snd s)"
  using assms
proof (induction rule: rtranclp_induct)
  case (step y z)
  then show ?case
    using pool_step_keeps[of cn "fst y" "fst (snd y)" "fst (snd (snd y))" "snd (snd (snd y))"
        "fst z" "fst (snd z)" "fst (snd (snd z))" "snd (snd (snd z))"] by auto
qed simp

lemma start_loop:
  assumes "pool_start_loop cn n p d = (None, p', d')" and "pool_inv [] (p\<lparr>pl_permits := length (pl_available p)\<rparr>)"
  shows "pool_inv [] (p'\<lparr>pl_permits := length (pl_available p')\<rparr>) \<and> length (pl_available p') = length (pl_available p) + n"
  using assms
proof (induction n arbitrary: p d)
  case (Suc n)
  from Suc.prems(1) obtain d1 where "pool_start_loop cn n (add_connection p) d1 = (None, p', d')"
    by (auto split: prod.splits option.splits)
  moreover have "pool_inv [] ((add_connection p)\<lparr>pl_permits := length (pl_available (add_connection p))\<rparr>)"
    using Suc.prems(2) by (auto simp: pool_inv_def add_connection_def dest: less_SucI)
  ultimately have IH: "pool_inv [] (p'\<lparr>pl_permits := length (pl_available p')\<rparr>)"
    "length (pl_available p') = length (pl_available (add_connection p)) + n"
    using Suc.IH[of "add_connection p" d1] by blast+
  show ?case
    by (rule conjI[OF IH(1)]) (simp add: IH(2) add_connection_def)
qed simp

lemma pool_start_inv:
  assumes "pool_start cn n d = (None, p, d')"
  shows "pool_inv [] p" "length (pl_available p) = n"
proof -
  have empty: "pool_inv [] empty_pool"
    by (simp add: pool_inv_def empty_pool_def)
  have "pool_inv [] p \<and> length (pl_available p) = n"
  proof (cases "n = 0")
    case True
    then show ?thesis
      using assms empty by (auto simp: pool_start_def empty_pool_def)
  next
    case False
    then obtain q where q: "pool_start_loop cn n empty_pool d = (None, q, d')" "p = q\<lparr>pl_permits := n\<rparr>"
      using assms by (auto simp: pool_start_def split: prod.splits option.splits)
    have "pool_inv [] (empty_pool\<lparr>pl_permits := length (pl_available empty_pool)\<rparr>)"
      by (simp add: pool_inv_def empty_pool_def)
    note kept = conjunct1[OF start_loop[OF q(1) this]] conjunct2[OF start_loop[OF q(1) this], simplified empty_pool_def, simplified]
    show ?thesis
      using kept(1) unfolding kept(2) by (simp add: q(2) kept(2))
  qed
  then show "pool_inv [] p" "length (pl_available p) = n"
    by auto
qed

text \<open>A call outside a transaction is a sequence of these steps.\<close>

lemma one_step: "pool_step cn s s' \<Longrightarrow> pool_steps cn s s'"
  by (rule r_into_rtranclp)

lemmas single_step = pool_step.intros[THEN one_step]

lemma used_first: "pool_steps cn (held, lost, p, d1) s \<Longrightarrow> pool_steps cn (held, lost, p, d) s"
  by (rule converse_rtranclp_into_rtranclp) (rule pool_step.uses)

lemma acquire_is_steps:
  assumes "pool_acquire cn p d = (res, p', d')" and "pool_inv held p"
  shows "\<exists>lost'. pool_steps cn (held, lost, p, d) (case res of Acquired c \<Rightarrow> c # held | _ \<Rightarrow> held, lost', p', d')"
proof (cases "take_front p")
  case None
  then show ?thesis
    using assms(1) by (auto simp: pool_acquire_def)
next
  case (Some cp)
  obtain c p1 where cp: "take_front p = Some (c, p1)"
    using Some by (cases cp) simp
  have first: "pool_steps cn (held, lost, p, d) (c # held, lost, p1, d)"
    by (rule single_step(1)[OF cp])
  show ?thesis
  proof (cases "cn_is_closed cn c d")
    case False
    then show ?thesis
      using assms(1) cp first by (auto simp: pool_acquire_def)
  next
    case True
    obtain r p2 d2 where dr: "discard_and_replace cn c p1 d = (r, p2, d2)"
      by (cases "discard_and_replace cn c p1 d") auto
    show ?thesis
    proof (cases r)
      case (Some e)
      then show ?thesis
        using assms(1) cp True dr first pool_step.loses[of c "c # held" cn p1 d e p2 d2 lost]
        by (auto simp: pool_acquire_def intro!: exI intro: rtranclp.rtrancl_into_rtrancl)
    next
      case None
      then have second: "pool_steps cn (held, lost, p, d) (held, lost, p2, d2)"
        using first dr pool_step.replaces[of c "c # held" cn p1 d p2 d2 lost] by (auto intro: rtranclp.rtrancl_into_rtrancl)
      have third: "pool_steps cn (held, lost, p, d) (x # held, lost, p3, d2)" if "take_front p2 = Some (x, p3)" for x p3
        by (rule rtranclp.rtrancl_into_rtrancl[OF second]) (rule pool_step.takes[OF that])
      show ?thesis
        using assms(1) cp True dr None second third
        by (auto simp: pool_acquire_def split: option.splits prod.splits)
    qed
  qed
qed

lemma after_operation_is_steps:
  assumes "after_operation cn c res p d = (res', p', d')" and "c \<in> set held"
  shows "\<exists>lost'. pool_steps cn (held, lost, p, d) (remove1 c held, lost', p', d')"
  using assms
  by (auto simp: after_operation_def split: outcome.splits if_splits prod.splits option.splits
      intro: single_step)

lemma run_blocking_is_steps:
  assumes "run_blocking_mysql cn op st = (ans, st')" and "ms_active st = None" and "pool_inv held (ms_pool st)"
  shows "ms_active st' = None \<and> (\<exists>lost'. pool_steps cn (held, lost, ms_pool st, ms_db st) (held, lost', ms_pool st', ms_db st'))"
proof -
  obtain res p d where acq: "pool_acquire cn (ms_pool st) (ms_db st) = (res, p, d)"
    by (cases "pool_acquire cn (ms_pool st) (ms_db st)") auto
  from acquire_is_steps[OF acq assms(3)] obtain lost1 where
    first: "pool_steps cn (held, lost, ms_pool st, ms_db st) (case res of Acquired c \<Rightarrow> c # held | _ \<Rightarrow> held, lost1, p, d)"
    by blast
  show ?thesis
  proof (cases res)
    case (Acquired c)
    obtain r d1 where op: "op c d = (r, d1)"
      by (cases "op c d")
    obtain r' p2 d2 where aft: "after_operation cn c r p d1 = (r', p2, d2)"
      by (cases "after_operation cn c r p d1") auto
    from after_operation_is_steps[OF aft, of "c # held" lost1] obtain lost2 where
      last: "pool_steps cn (c # held, lost1, p, d1) (held, lost2, p2, d2)"
      by auto
    have "pool_steps cn (held, lost, ms_pool st, ms_db st) (held, lost2, p2, d2)"
      using first Acquired last by (auto intro: rtranclp_trans used_first)
    then show ?thesis
      using assms(1,2) acq Acquired op aft by (auto simp: run_blocking_mysql_def)
  qed (use assms(1,2) acq first in \<open>auto simp: run_blocking_mysql_def\<close>)
qed

text \<open>C36: Over every interleaving of callers that take connections from a pool, use them, give them back or have them
  replaced, no connection is in the hands of two callers or in a hand and in the queue, and the queue, the hands and the
  replacements that failed make up the size of the pool. So a caller waits exactly when what is not lost is in use.\<close>

theorem pool_capacity:
  assumes "pool_start cn n d = (None, p0, d0)" and "pool_steps cn ([], 0, p0, d0) (held, lost, p, d')"
  shows "distinct (pl_available p @ held) \<and> length (pl_available p) + length held + lost = n
    \<and> (fst (pool_acquire cn p d') = AcquireWaits \<longleftrightarrow> length held + lost = n)"
proof -
  have inv: "pool_inv held p" "length (pl_available p) + length held + lost = n"
    using pool_steps_keep[OF assms(2)] pool_start_inv[OF assms(1)] by simp_all
  have "fst (pool_acquire cn p d') = AcquireWaits \<longleftrightarrow> pl_available p = []"
  proof (cases "take_front p")
    case None
    then show ?thesis
      using take_front_None[OF inv(1)] by (simp add: pool_acquire_def)
  next
    case (Some cp)
    obtain c p1 where cp: "take_front p = Some (c, p1)"
      using Some by (cases cp) simp
    have p1: "pool_inv (c # held) p1" "pl_available p \<noteq> []"
      using take_front_inv[OF inv(1) cp] by auto
    have "take_front p2 \<noteq> None" if "discard_and_replace cn c p1 d' = (None, p2, d2)" for p2 d2
      using replace_inv[OF p1(1) _ that] take_front_None[of held p2] by auto
    then show ?thesis
      using cp p1(2) by (auto simp: pool_acquire_def split: prod.split option.split)
  qed
  then show ?thesis
    using inv by (auto simp: pool_inv_def)
qed

section \<open>After an outage\<close>

fun run_times ::
  "('d, 'w) connector \<Rightarrow> (nat \<Rightarrow> 'd \<Rightarrow> 'a outcome \<times> 'd) \<Rightarrow> nat \<Rightarrow> 'd mysql_state \<Rightarrow> 'a outcome option list \<times> 'd mysql_state" where
  "run_times cn op 0 st = ([], st)"
| "run_times cn op (Suc n) st =
     (case run_blocking_mysql cn op st of (r, st1) \<Rightarrow> (case run_times cn op n st1 of (rs, st2) \<Rightarrow> (r # rs, st2)))"

text \<open>An operation that ends with an error about its connection.\<close>

definition connection_dies :: "(nat \<Rightarrow> 'd \<Rightarrow> 'a outcome \<times> 'd) \<Rightarrow> nat \<Rightarrow> 'd \<Rightarrow> bool" where
  "connection_dies op c d \<longleftrightarrow> (case fst (op c d) of SqlFailed e \<Rightarrow> is_connection_dead_exception e | _ \<Rightarrow> False)"

lemma call_during_outage:
  assumes "ms_active st = None" and "pool_inv [] (ms_pool st)" and "pl_available (ms_pool st) \<noteq> []"
    and "\<forall>c d. cn_is_closed cn c d \<or> connection_dies op c d" and "\<forall>d. fst (cn_connect cn d) \<noteq> None"
  shows "\<exists>m st'. run_blocking_mysql cn op st = (Some (OtherFailed m), st') \<and> ms_active st' = None \<and> pool_inv [] (ms_pool st')
    \<and> Suc (length (pl_available (ms_pool st'))) = length (pl_available (ms_pool st))"
proof -
  obtain c p1 where cp: "take_front (ms_pool st) = Some (c, p1)"
    using take_front_None[OF assms(2)] assms(3) by auto
  note front = take_front_inv(1,2)[OF assms(2) cp]
  have refused: "\<exists>m p2 d2. discard_and_replace cn c p1 d = (Some m, p2, d2) \<and> pool_inv [] p2 \<and> pl_available p2 = pl_available p1" for d
  proof -
    obtain e d1 where "cn_connect cn d = (Some e, d1)"
      using assms(5) by (metis not_None_eq prod.collapse)
    then have dr: "discard_and_replace cn c p1 d = (Some e, p1\<lparr>pl_owned := remove1 c (pl_owned p1)\<rparr>, d1)"
      by (simp add: discard_and_replace_def Let_def)
    show ?thesis
      using lost_inv(1,2)[OF front(2) _ dr] dr by simp
  qed
  show ?thesis
  proof (cases "cn_is_closed cn c (ms_db st)")
    case True
    then show ?thesis
      using assms(1) cp refused[of "ms_db st"] front(1) by (auto simp: run_blocking_mysql_def pool_acquire_def)
  next
    case False
    then have "connection_dies op c (ms_db st)"
      using assms(4) by blast
    then obtain e d1 where "op c (ms_db st) = (SqlFailed e, d1)" "is_connection_dead_exception e"
      by (cases "op c (ms_db st)") (auto simp: connection_dies_def split: outcome.splits)
    then show ?thesis
      using assms(1) cp refused[of d1] front(1) False
      by (auto simp: run_blocking_mysql_def pool_acquire_def after_operation_def)
  qed
qed

lemma empty_pool_waits:
  assumes "ms_active st = None" and "pool_inv [] (ms_pool st)" and "pl_available (ms_pool st) = []"
  shows "run_blocking_mysql cn op st = (None, st)"
  using assms take_front_None[OF assms(2)] by (simp add: run_blocking_mysql_def pool_acquire_def)

text \<open>C37: While the server refuses connections and those of the pool are closed or die in use, every call outside a transaction fails and takes a
  connection out of the pool for good: after as many calls as there were connections every later call waits for ever,
  also when the server answers again, since no caller holds a connection it could give back.\<close>

theorem outage_drains_pool:
  assumes "ms_active st = None" and "pool_inv [] (ms_pool st)"
    and "\<forall>c d. cn_is_closed out c d \<or> connection_dies op c d" and "\<forall>d. fst (cn_connect out d) \<noteq> None"
    and "run_times out op (length (pl_available (ms_pool st))) st = (answers, st')"
  shows "(\<forall>r \<in> set answers. \<exists>m. r = Some (OtherFailed m))
    \<and> run_times back op' n st' = (replicate n None, st')"
  using assms
proof (induction "length (pl_available (ms_pool st))" arbitrary: st answers)
  case 0
  then have "run_blocking_mysql back op' st = (None, st)"
    by (intro empty_pool_waits) simp_all
  then have "run_times back op' n st = (replicate n None, st)" for n
    by (induction n) simp_all
  then show ?case
    using 0 by simp
next
  case (Suc k)
  from Suc.hyps(2) have ne: "pl_available (ms_pool st) \<noteq> []"
    by auto
  from call_during_outage[OF Suc.prems(1,2) ne Suc.prems(3,4)] obtain m st1 where
    st1: "run_blocking_mysql out op st = (Some (OtherFailed m), st1)" "ms_active st1 = None" "pool_inv [] (ms_pool st1)"
      "Suc (length (pl_available (ms_pool st1))) = length (pl_available (ms_pool st))"
    by blast
  have k: "k = length (pl_available (ms_pool st1))"
    using Suc.hyps(2) st1(4) by simp
  obtain rest where rest: "run_times out op k st1 = (rest, st')" "answers = Some (OtherFailed m) # rest"
    using Suc.prems(5) Suc.hyps(2)[symmetric] st1(1) by (auto split: prod.splits)
  have "(\<forall>r \<in> set rest. \<exists>m. r = Some (OtherFailed m)) \<and> run_times back op' n st' = (replicate n None, st')"
    by (rule Suc.hyps(1)[OF k st1(2,3) Suc.prems(3,4)]) (use rest(1) k in simp)
  then show ?case
    by (auto simp: rest(2))
qed

section \<open>Transactions\<close>

text \<open>The work of a request: its operations in order, up to the first that does not answer true.\<close>

fun run_all :: "('d, 'w) connector \<Rightarrow> (nat \<Rightarrow> 'd \<Rightarrow> bool outcome \<times> 'd) list \<Rightarrow> 'd mysql_state \<Rightarrow> work_end \<times> 'd mysql_state" where
  "run_all cn [] st = (WorkAnswer True, st)"
| "run_all cn (op # ops) st =
     (case run_blocking_mysql cn op st of
        (Some (Done True), st1) \<Rightarrow> run_all cn ops st1
      | (Some (Done False), st1) \<Rightarrow> (WorkAnswer False, st1)
      | (Some (OtherFailed m), st1) \<Rightarrow> (WorkException m, st1)
      | (_, st1) \<Rightarrow> (WorkUnknown, st1))"

text \<open>The same operations one after another on one connection.\<close>

fun all_on :: "nat \<Rightarrow> (nat \<Rightarrow> 'd \<Rightarrow> bool outcome \<times> 'd) list \<Rightarrow> 'd \<Rightarrow> bool \<times> 'd" where
  "all_on c [] d = (True, d)"
| "all_on c (op # ops) d = (case op c d of (Done True, d1) \<Rightarrow> all_on c ops d1 | (_, d1) \<Rightarrow> (False, d1))"

lemma run_all_in_transaction:
  assumes "ms_active st = Some c" and "run_all cn ops st = (w, st')" and "all_on c ops (ms_db st) = (ok, d')"
  shows "st' = st\<lparr>ms_db := d'\<rparr> \<and> (w = WorkAnswer True \<longleftrightarrow> ok)"
  using assms
proof (induction ops arbitrary: st)
  case (Cons op ops)
  obtain r d1 where r: "op c (ms_db st) = (r, d1)"
    by (cases "op c (ms_db st)")
  then show ?case
    using Cons.prems Cons.IH[of "st\<lparr>ms_db := d1\<rparr>"]
    by (auto simp: run_blocking_mysql_def split: outcome.splits bool.splits)
qed simp

text \<open>C38: A transaction whose work is a list of operations runs all of them on the connection at the front of the queue,
  up to the first that does not answer true; it is committed exactly when all answered true and the commit succeeds, and
  is rolled back otherwise. Afterwards no transaction is active and the connection is at the end of the queue.\<close>

theorem transaction_on_one_connection:
  assumes "ms_active st = None" and "pool_inv [] (ms_pool st)" and "pl_available (ms_pool st) = c # rest"
    and "\<not> cn_is_closed cn c (ms_db st)" and "cn_set_autocommit cn c False (ms_db st) = (None, d0)"
    and "all_on c ops d0 = (ok, d1)" and "(if ok then cn_commit cn c d1 else cn_rollback cn c d1) = (failure, d2)"
  shows "\<exists>m p'. in_transaction cn (run_all cn ops) st =
      (Some (Inr \<lparr>committed = (ok \<and> failure = None), error_message = m\<rparr>),
       st\<lparr>ms_pool := p', ms_db := snd (cn_set_autocommit cn c True d2)\<rparr>)
    \<and> pool_inv [] p' \<and> pl_available p' = rest @ [c]"
proof -
  obtain p1 where front: "take_front (ms_pool st) = Some (c, p1)"
    using assms(2,3) by (simp add: take_front_def pool_inv_def)
  let ?st1 = "st\<lparr>ms_pool := p1, ms_active := Some c, ms_db := d0\<rparr>"
  have begun: "txn_begin cn st = (Begun c, ?st1)"
    using front assms(4,5) by (simp add: txn_begin_def pool_acquire_def)
  obtain w st2 where w: "run_all cn ops ?st1 = (w, st2)"
    by (cases "run_all cn ops ?st1")
  have st2: "st2 = ?st1\<lparr>ms_db := d1\<rparr>" "w = WorkAnswer True \<longleftrightarrow> ok"
    using run_all_in_transaction[OF _ w, of c ok d1] assms(6) by simp_all
  have pool: "pool_inv [] (pool_release p1 c)" "pl_available (pool_release p1 c) = rest @ [c]"
    using free_connections.borrow_and_return[OF assms(2) front] assms(3) by simp_all
  have last: "st\<lparr>ms_pool := q, ms_active := None, ms_db := d\<rparr> = st\<lparr>ms_pool := q, ms_db := d\<rparr>" for q d
    using assms(1) by simp
  show ?thesis
    using assms(1,7) pool st2(2)
    by (auto simp: in_transaction_def begun w txn_finish_def st2(1) Let_def last)
qed

text \<open>C39: While a transaction is open on a shard, a write of any other request runs on its connection. When the
  transaction is then rolled back, the database is as it was when it began, though the other request was answered that
  the write was done; so is the work of a transaction the other request began, though it is reported as committed.\<close>

theorem other_write_lost_by_rollback:
  assumes begun: "txn_begin cn st = (Begun c, st1)"
    and work: "op c (ms_db st1) = (Done True, d2)"
    and undone: "cn_rollback cn c d2 = (None, ms_db st1)"
  shows "run_blocking_mysql cn op st1 = (Some (Done True), st1\<lparr>ms_db := d2\<rparr>)
    \<and> in_transaction cn (run_all cn [op]) st1 = (Some (Inr \<lparr>committed = True, error_message = []\<rparr>), st1\<lparr>ms_db := d2\<rparr>)
    \<and> ms_db (snd (txn_finish cn c (WorkAnswer False) (st1\<lparr>ms_db := d2\<rparr>))) = snd (cn_set_autocommit cn c True (ms_db st1))"
proof -
  have active: "ms_active st1 = Some c"
    using begun by (auto simp: txn_begin_def split: acquired.splits prod.splits option.splits)
  then have ran: "run_blocking_mysql cn op st1 = (Some (Done True), st1\<lparr>ms_db := d2\<rparr>)"
    using work by (simp add: run_blocking_mysql_def)
  moreover have "in_transaction cn (run_all cn [op]) st1 = (Some (Inr \<lparr>committed = True, error_message = []\<rparr>), st1\<lparr>ms_db := d2\<rparr>)"
    using active ran by (simp add: in_transaction_def)
  moreover have "ms_db (snd (txn_finish cn c (WorkAnswer False) (st1\<lparr>ms_db := d2\<rparr>))) = snd (cn_set_autocommit cn c True (ms_db st1))"
    using undone by (simp add: txn_finish_def)
  ultimately show ?thesis
    by blast
qed

section \<open>Listings by cursor\<close>

text \<open>The fields whose values become cursors: those read as a text, and signed 64-bit numbers.\<close>

definition carries_cursor :: "field \<Rightarrow> bool" where
  "carries_cursor f \<longleftrightarrow>
     f_type f \<notin> {FSmallInt, FInt, FFloat, FBool, FBinary, FNative} \<and> \<not> (f_type f = FBigInt \<and> f_unsigned f)"

lemma read_fields_get:
  "read_fields cn w fs rec = Inr row \<Longrightarrow> distinct (map f_name fs) \<Longrightarrow>
     (\<forall>f \<in> set fs. \<exists>v. read_typed_value cn w (f_name f) (f_type f) (f_unsigned f) = Inr v \<and> tbl_get row (f_name f) = Some v)
     \<and> (\<forall>n. n \<notin> f_name ` set fs \<longrightarrow> tbl_get row n = tbl_get rec n)"
proof (induction fs arbitrary: rec)
  case (Cons f fs)
  then obtain v where v: "read_typed_value cn w (f_name f) (f_type f) (f_unsigned f) = Inr v"
    "read_fields cn w fs (tbl_put (f_name f) v rec) = Inr row"
    by (auto simp: and_then_Inr)
  with Cons show ?case
    by (auto simp: update_conv)
qed simp

lemma typed_value_cursor:
  assumes "read_typed_value cn w n (f_type f) (f_unsigned f) = Inr v"
  shows "cursor_value fld [(fld, v)] \<noteq> None \<longleftrightarrow> carries_cursor f \<and> v \<noteq> VNone"
  using assms
  by (auto simp: read_typed_value_def and_then_Inr carries_cursor_def cursor_value_def split: if_splits field_type.splits)

lemma row_cursor:
  assumes "resultset_to_record cn e w = Inr row" and "distinct (map f_name (e_fields e))" and "find_field e fld = Some f"
  shows "cursor_value fld row \<noteq> None \<longleftrightarrow> carries_cursor f \<and> tbl_get row fld \<noteq> Some VNone"
proof -
  have f: "f \<in> set (e_fields e)" "f_name f = fld"
    using find_field_name[OF assms(3)] by auto
  obtain v where "read_typed_value cn w fld (f_type f) (f_unsigned f) = Inr v" "tbl_get row fld = Some v"
    using read_fields_get[OF assms(1)[unfolded resultset_to_record_def] assms(2)] f by blast
  then show ?thesis
    using typed_value_cursor[of cn w fld f v fld] by (auto simp: cursor_value_def)
qed

text \<open>C40: When there is one more row than the limit, a listing by cursor gives the rows up to the limit, and a next
  cursor exactly when the field is read as a text or a signed 64-bit number and is not null in the last row: a listing
  by an integer field of another width ends with its first page though rows follow.\<close>

theorem next_cursor_needs_text_or_int64:
  assumes "known_table reg en = Some e" and "validate_sql_identifier (cr_cursor_field rq)"
    and "distinct (map f_name (e_fields e))" and "find_field e (cr_cursor_field rq) = Some f"
    and "cn_query cn c (cursor_sql e (cr_cursor_field rq) (cr_sort_desc rq) (cr_after rq \<noteq> None) (cr_limit rq + 1))
           (case cr_after rq of None \<Rightarrow> [] | Some a \<Rightarrow> [Some (BString a)]) d = (Inr ws, d')"
    and "traverse (resultset_to_record cn e) ws = Inr rows" and "length rows = Suc (unat (cr_limit rq))" and "cr_limit rq \<noteq> 0"
  shows "\<exists>next. my_list_cursor cn reg en rq c d = (Done \<lparr>cres_items = butlast rows, cres_next_cursor = next\<rparr>, d')
    \<and> (next \<noteq> None \<longleftrightarrow> carries_cursor f \<and> tbl_get (last (butlast rows)) (cr_cursor_field rq) \<noteq> Some VNone)"
proof -
  have ne: "butlast rows \<noteq> []"
    using assms(7,8) by (simp add: unat_gt_0 flip: length_greater_0_conv)
  have "last (butlast rows) \<in> set rows"
    using last_in_set[OF ne] by (rule in_set_butlastD)
  then obtain w where "resultset_to_record cn e w = Inr (last (butlast rows))"
    using assms(6) by (auto simp: traverse_Inr list_all2_conv_all_nth in_set_conv_nth)
  from row_cursor[OF this assms(3,4)] show ?thesis
    using assms(1,2,5-7) ne by (simp add: my_list_cursor_def Let_def query_rows_def or_default_def cut_cursor_page_def)
qed

section \<open>At concrete inputs\<close>

text \<open>
  A database that answers every query with the rows it holds, logs its updates, and undoes those of an open transaction
  at a rollback; connections are refused while it is away. A row is a table of integers.
\<close>

record log_db =
  lg_up :: bool
  lg_log :: "(string \<times> bound_values) list"
  lg_open :: "(nat, (string \<times> bound_values) list) table"
  lg_rows :: "(string, 32 word) table list"

definition log_write :: "nat \<Rightarrow> string \<Rightarrow> bound_values \<Rightarrow> log_db \<Rightarrow> log_db" where
  "log_write c txt vals d =
     (case tbl_get (lg_open d) c of
        None \<Rightarrow> d\<lparr>lg_log := lg_log d @ [(txt, vals)]\<rparr>
      | Some pending \<Rightarrow> d\<lparr>lg_open := tbl_put c (pending @ [(txt, vals)]) (lg_open d)\<rparr>)"

definition log_end :: "nat \<Rightarrow> bool \<Rightarrow> log_db \<Rightarrow> log_db" where
  "log_end c keep d =
     (case tbl_get (lg_open d) c of
        None \<Rightarrow> d
      | Some pending \<Rightarrow> d\<lparr>lg_log := (if keep then lg_log d @ pending else lg_log d), lg_open := tbl_put c [] (lg_open d)\<rparr>)"

definition log_connector :: "(log_db, (string, 32 word) table) connector" where
  "log_connector = \<lparr>
     cn_query = \<lambda>c txt vals d. (Inr (lg_rows d), d),
     cn_update = \<lambda>c txt vals d. (Inr 1, log_write c txt vals d),
     cn_set_autocommit = \<lambda>c b d.
       (None, if b then (log_end c True d)\<lparr>lg_open := tbl_erase c (lg_open d)\<rparr> else d\<lparr>lg_open := tbl_put c [] (lg_open d)\<rparr>),
     cn_commit = \<lambda>c d. (None, log_end c True d),
     cn_rollback = \<lambda>c d. (None, log_end c False d),
     cn_is_closed = \<lambda>c d. False,
     cn_connect = \<lambda>d. (if lg_up d then None else Some ''refused'', d),
     rw_first_text = \<lambda>w. Inr ''text'', rw_first_int64 = \<lambda>w. Inr 7,
     rw_is_null = \<lambda>w n. Inr (\<not> tbl_has w n),
     rw_text = \<lambda>w n. Inr ''text'', rw_int = \<lambda>w n. Inr (case tbl_get w n of None \<Rightarrow> 0 | Some i \<Rightarrow> i),
     rw_uint = \<lambda>w n. Inr 0, rw_int64 = \<lambda>w n. Inr 0, rw_uint64 = \<lambda>w n. Inr 0, rw_double = \<lambda>w n. Inr 0,
     rw_bool = \<lambda>w n. Inr False, rw_blob = \<lambda>w n. Inr [], rw_type_name = \<lambda>w n. Inr ''INT''\<rparr>"

definition note_fields_entity :: entity where
  "note_fields_entity = make_entity ''Note'' [make_field ''id'' FUUID, make_field ''title'' FString, make_field ''rank'' FInt] []"

definition note_registry :: entity_registry where
  "note_registry = [(''Note'', note_fields_entity)]"

definition up_db :: log_db where
  "up_db = \<lparr>lg_up = True, lg_log = [], lg_open = [], lg_rows = []\<rparr>"

text \<open>The connector that refuses every text with another character.\<close>

definition guarded_connector :: "(log_db, (string, 32 word) table) connector" where
  "guarded_connector = log_connector\<lparr>
     cn_query := \<lambda>c txt vals d. if list_all statement_char txt then cn_query log_connector c txt vals d
       else (Inl \<lparr>sql_code = 1064, sql_state = ''42000''\<rparr>, d),
     cn_update := \<lambda>c txt vals d. if list_all statement_char txt then cn_update log_connector c txt vals d
       else (Inl \<lparr>sql_code = 1064, sql_state = ''42000''\<rparr>, d)\<rparr>"

lemma note_names:
  "list_all (\<lambda>f. validate_sql_identifier (f_name f)) (e_fields note_fields_entity)"
  "registry_find_entity note_registry ''Note'' = Some note_fields_entity"
  by (simp_all add: note_fields_entity_def make_entity_def make_field_def validate_sql_identifier_def char_class_defs
      note_registry_def registry_find_entity_def)

lemma guarded_agrees: "agrees_on (entity_texts note_fields_entity) log_connector guarded_connector"
  unfolding agrees_on_def using entity_texts_chars[OF note_names(1)]
  by - (intro exI conjI, rule guarded_connector_def, auto)

lemma statements_come_from_schema_witness:
  "my_find_by_id guarded_connector note_registry ''Note'' [CHR 0x27, CHR '';''] =
     my_find_by_id log_connector note_registry ''Note'' [CHR 0x27, CHR '';'']"
  using statements_come_from_schema[OF note_names(2) guarded_agrees note_names(1), of "[CHR 0x27, CHR '';'']"] by blast

definition two_connections :: pool where
  "two_connections = \<lparr>pl_owned = [0, 1], pl_available = [0, 1], pl_permits = 2, pl_next = 2\<rparr>"

definition one_connection :: "log_db mysql_state" where
  "one_connection = \<lparr>ms_pool = \<lparr>pl_owned = [0], pl_available = [0], pl_permits = 1, pl_next = 1\<rparr>, ms_active = None, ms_db = up_db\<rparr>"

lemma pool_capacity_witness:
  "length (pl_available \<lparr>pl_owned = [0], pl_available = [], pl_permits = 0, pl_next = 2\<rparr>) + length [0::nat] + 1 = 2"
proof -
  let ?p1 = "\<lparr>pl_owned = [0, 1], pl_available = [1], pl_permits = 1, pl_next = 2\<rparr>"
  let ?p2 = "\<lparr>pl_owned = [0, 1], pl_available = [], pl_permits = 0, pl_next = 2\<rparr>"
  let ?p3 = "\<lparr>pl_owned = [0], pl_available = [], pl_permits = 0, pl_next = 2\<rparr>"
  let ?away = "up_db\<lparr>lg_up := False\<rparr>"
  have start: "pool_start log_connector 2 up_db = (None, two_connections, up_db)"
    by (simp add: pool_start_def numeral_2_eq_2 log_connector_def up_db_def empty_pool_def add_connection_def two_connections_def)
  have "pool_step log_connector ([], 0, two_connections, up_db) ([0], 0, ?p1, up_db)"
    "pool_step log_connector ([0], 0, ?p1, up_db) ([1, 0], 0, ?p2, up_db)"
    by (rule pool_step.takes, simp add: take_front_def two_connections_def)+
  moreover have "pool_step log_connector ([1, 0], 0, ?p2, up_db) ([1, 0], 0, ?p2, ?away)"
    by (rule pool_step.uses)
  moreover have "pool_step log_connector ([1, 0], 0, ?p2, ?away) (remove1 1 [1, 0], Suc 0, ?p3, ?away)"
    by (rule pool_step.loses[of _ _ _ _ _ "''refused''"]) (simp_all add: discard_and_replace_def log_connector_def)
  ultimately have "pool_steps log_connector ([], 0, two_connections, up_db) (remove1 1 [1, 0], Suc 0, ?p3, ?away)"
    by (meson rtranclp.rtrancl_into_rtrancl rtranclp.rtrancl_refl)
  from pool_capacity[OF start this] show ?thesis
    by simp
qed

definition touch :: "nat \<Rightarrow> log_db \<Rightarrow> bool outcome \<times> log_db" where
  "touch = my_increment_field log_connector ''sea_files'' ''f1'' ''ref_count'' 1"

lemma outage_drains_pool_witness:
  "\<exists>st'. run_times log_connector touch 3 st' = (replicate 3 None, st')"
proof -
  let ?out = "log_connector\<lparr>cn_is_closed := \<lambda>c d. True, cn_connect := \<lambda>d. (Some ''refused'', d)\<rparr>"
  have st: "ms_active one_connection = None" "pool_inv [] (ms_pool one_connection)" "length (pl_available (ms_pool one_connection)) = 1"
    by (simp_all add: one_connection_def pool_inv_def)
  obtain answers st' where run: "run_times ?out touch (length (pl_available (ms_pool one_connection))) one_connection = (answers, st')"
    by fastforce
  have "\<forall>c d. cn_is_closed ?out c d \<or> connection_dies touch c d" "\<forall>d. fst (cn_connect ?out d) \<noteq> None"
    by simp_all
  from outage_drains_pool[OF st(1,2) this run, of log_connector touch 3] show ?thesis
    by blast
qed

lemma one_connection_starts:
  "ms_active one_connection = None" "pool_inv [] (ms_pool one_connection)" "pl_available (ms_pool one_connection) = [0]"
  "\<not> cn_is_closed log_connector 0 (ms_db one_connection)"
  "cn_set_autocommit log_connector 0 False (ms_db one_connection) = (None, up_db\<lparr>lg_open := [(0, [])]\<rparr>)"
  by (simp_all add: one_connection_def pool_inv_def log_connector_def up_db_def)

definition touch_entry :: "string \<times> bound_values" where
  "touch_entry =
     (''UPDATE '' @ bq ''sea_files'' @ '' SET '' @ bq ''ref_count'' @ '' = '' @ bq ''ref_count'' @ '' + ? WHERE '' @ bq ''id'' @ '' = ?'',
      [Some (BInt64 1), Some (BString ''f1'')])"

lemma touch_run: "touch c d = (Done True, log_write c (fst touch_entry) (snd touch_entry) d)"
  by (simp add: touch_def my_increment_field_def touch_entry_def validate_sql_identifier_def char_class_defs log_connector_def
      or_default_def placeholder_def is_uuid_text_def)

lemma transaction_on_one_connection_witness:
  "\<exists>m p'. in_transaction log_connector (run_all log_connector [touch, touch]) one_connection =
     (Some (Inr \<lparr>committed = True, error_message = m\<rparr>),
      one_connection\<lparr>ms_pool := p', ms_db := up_db\<lparr>lg_log := [touch_entry, touch_entry]\<rparr>\<rparr>)"
proof -
  let ?d1 = "up_db\<lparr>lg_open := [(0, [touch_entry, touch_entry])]\<rparr>"
  let ?d2 = "up_db\<lparr>lg_log := [touch_entry, touch_entry], lg_open := [(0, [])]\<rparr>"
  have work: "all_on 0 [touch, touch] (up_db\<lparr>lg_open := [(0, [])]\<rparr>) = (True, ?d1)"
    by (simp add: touch_run log_write_def)
  have com: "(if True then cn_commit log_connector 0 ?d1 else cn_rollback log_connector 0 ?d1) = (None, ?d2)"
    by (simp add: log_connector_def log_end_def up_db_def)
  have last: "snd (cn_set_autocommit log_connector 0 True ?d2) = up_db\<lparr>lg_log := [touch_entry, touch_entry]\<rparr>"
    by (simp add: log_connector_def log_end_def up_db_def)
  from transaction_on_one_connection[OF one_connection_starts work com] show ?thesis
    unfolding last by auto
qed

lemma other_write_lost_by_rollback_witness:
  "\<exists>st1. fst (txn_begin log_connector one_connection) = Begun 0
     \<and> fst (run_blocking_mysql log_connector touch st1) = Some (Done True)
     \<and> ms_db (snd (txn_finish log_connector 0 (WorkAnswer False) (snd (run_blocking_mysql log_connector touch st1)))) = up_db"
proof -
  let ?st1 = "one_connection\<lparr>ms_pool := \<lparr>pl_owned = [0], pl_available = [], pl_permits = 0, pl_next = 1\<rparr>, ms_active := Some 0,
    ms_db := up_db\<lparr>lg_open := [(0, [])]\<rparr>\<rparr>"
  let ?d2 = "up_db\<lparr>lg_open := [(0, [touch_entry])]\<rparr>"
  have begun: "txn_begin log_connector one_connection = (Begun 0, ?st1)"
    by (simp add: txn_begin_def pool_acquire_def take_front_def one_connection_def log_connector_def up_db_def)
  have work: "touch 0 (ms_db ?st1) = (Done True, ?d2)"
    by (simp add: touch_run log_write_def)
  have undone: "cn_rollback log_connector 0 ?d2 = (None, ms_db ?st1)"
    by (simp add: log_connector_def log_end_def)
  have last: "snd (cn_set_autocommit log_connector 0 True (ms_db ?st1)) = up_db"
    by (simp add: log_connector_def log_end_def up_db_def)
  show ?thesis
    using other_write_lost_by_rollback[of log_connector one_connection 0 ?st1 touch ?d2, OF begun work undone] begun unfolding last by (intro exI[of _ ?st1]) simp
qed

definition ranked_db :: log_db where
  "ranked_db = up_db\<lparr>lg_rows := [[(''rank'', 1)], [(''rank'', 2)]]\<rparr>"

definition rank_listing :: cursor_request where
  "rank_listing = \<lparr>cr_after = None, cr_limit = 1, cr_cursor_field = ''rank'', cr_sort_desc = False\<rparr>"

lemma next_cursor_needs_text_or_int64_witness:
  "my_list_cursor log_connector note_registry ''Note'' rank_listing 0 ranked_db =
     (Done \<lparr>cres_items = [[(''id'', VNone), (''title'', VNone), (''rank'', VInt32 1)]], cres_next_cursor = None\<rparr>, ranked_db)"
proof -
  let ?row = "\<lambda>i. [(''id'', VNone), (''title'', VNone), (''rank'', VInt32 i)]"
  have e: "known_table note_registry ''Note'' = Some note_fields_entity"
    by (simp add: known_table_Some note_names(2)) code_simp
  have f: "find_field note_fields_entity (cr_cursor_field rank_listing) = Some (make_field ''rank'' FInt)"
    "distinct (map f_name (e_fields note_fields_entity))" "validate_sql_identifier (cr_cursor_field rank_listing)"
    by (simp_all add: note_fields_entity_def make_entity_def make_field_def find_field_def rank_listing_def
        validate_sql_identifier_def char_class_defs)
  have rows: "traverse (resultset_to_record log_connector note_fields_entity) [[(''rank'', 1)], [(''rank'', 2)]] = Inr [?row 1, ?row 2]"
    by (simp add: resultset_to_record_def note_fields_entity_def make_entity_def make_field_def read_typed_value_def
        log_connector_def tbl_has_def)
  show ?thesis
    using next_cursor_needs_text_or_int64[OF e f(3,2,1) _ rows, of 0 ranked_db ranked_db]
    by (simp add: rank_listing_def log_connector_def ranked_db_def carries_cursor_def make_field_def)
qed

end
