(* ===== verification/Spec2Isabelle.thy ===== *)
theory Spec2Isabelle
  imports Policy_Properties Runtime_Properties Memory_Properties
    Authz_Properties Token_Properties
    Migration_Properties File_Properties Rate_Properties Chain_Properties Auth_Properties
    Write_Properties Listing_Properties Yaml_Properties Mysql_Properties
begin

text \<open>
  SeaDesktop turns a YAML description of entities, relations and access rules into a running REST service: a Seastar
  server with authentication, access control, rate limits, pagination, file upload and an automatic migration of the
  database. This development models the C++ of that server (\<open>libs/domain\<close>, \<open>libs/application\<close>, \<open>libs/infrastructure\<close> and
  \<open>apps/Backend_Seastar/src/http\<close>) and proves what its parts promise and where they do not keep it.

  \<^bold>\<open>How the program fits together.\<close> The YAML schema parser reads a project; the schema validator checks it; the
  bootstrapper migrates the database to it. Routes are generated from the entities. A request passes the middlewares
  (limits, headers, CORS, rate limits, authentication, authorization) and reaches a handler, which asks the resource
  helper about single records and works through the CRUD engine on a repository. Files go through the file service to
  a storage below one root directory, counted in the table of files. Tokens are made and checked by the JWT service and
  tracked in two tables with a cache in front.

  \<^bold>\<open>Conventions.\<close> Structures are records, enumerations datatypes, the maps of C++ association lists with distinct keys
  (\<open>table\<close>, \<open>Sea_Prelude\<close>), integers words of their width, \<open>double\<close> its 64 bits (\<open>Cpp_Double\<close>) or, where only the size of
  a result matters, a rational rounded to 53 bits (\<open>Float_Round\<close>). State is passed and returned; exceptions, refusals
  and \<open>std::optional\<close> are sums and options: a handler behind the middlewares returns a reply or throws, and no middleware
  catches what it throws; a null pointer that is dereferenced is an outcome of its own. Coroutines run without interleaving inside one operation; where the order
  of operations matters it is a list of steps or an inductive relation. Definitions keep the names of the code.

  \<^bold>\<open>The theories\<close>, each with its own introduction:
  \<^item> Access control (\<open>libs/domain/access_control\<close>): \<open>Policy_Model\<close> (conditions, predicates, rules, configuration),
    \<open>Policy_Operators\<close>, \<open>Policy_Engine\<close> (resolver, evaluator, compiler), \<open>Policy_Semantics\<close> (the reference semantics and the
    two phases of a check), \<open>Policy_Properties\<close>.
  \<^item> Schemas (\<open>libs/domain\<close>): \<open>Domain_Model\<close>, \<open>Schema_Validator\<close>, \<open>Schema_Soundness\<close> (what the validator decides).
  \<^item> Records (\<open>libs/infrastructure/runtime\<close>): \<open>Runtime_Value\<close> (values, JSON parser, registry), \<open>Generic_Validator\<close>,
    \<open>Json_Writer\<close>, \<open>Runtime_Properties\<close>.
  \<^item> Persistence: \<open>Repository_Interface\<close> (\<open>IGenericRepository\<close> and its contract), \<open>Memory_Repo\<close>, \<open>Memory_Laws\<close>,
    \<open>Memory_Listing\<close>, \<open>Crud_Engine\<close>, \<open>Crud_Laws\<close>, \<open>Memory_Properties\<close>, \<open>Mysql_Repository\<close>,
    \<open>Mysql_Properties\<close>.
  \<^item> Migration (\<open>libs/infrastructure/persistence/mysql\<close>): \<open>Schema_Differ\<close>, \<open>Rename_Detector\<close>, \<open>Schema_Generator\<close>,
    \<open>Schema_Bootstrap\<close>, \<open>Migration_Laws\<close>, \<open>Migration_Properties\<close>.
  \<^item> Routes and authorization of requests: \<open>Route_Resolver\<close>, \<open>Route_Generator\<close>, \<open>Route_Laws\<close>, \<open>Authz_Middleware\<close>,
    \<open>Protected_Handler\<close>, \<open>Cookie_Helper\<close>, \<open>Resource_Authz\<close>, \<open>Authz_Properties\<close>.
  \<^item> The other middlewares: \<open>Rate_Limiter\<close>, \<open>Rate_Laws\<close>, \<open>Rate_Properties\<close>, \<open>Http_Gates\<close>, \<open>Http_Chain\<close>,
    \<open>Chain_Properties\<close>.
  \<^item> Authentication: \<open>Date_Time\<close>, \<open>Denylist_Cache\<close>, \<open>Token_Tracking\<close>, \<open>Token_Laws\<close>, \<open>Token_Properties\<close>, \<open>Jwt_Service\<close>,
    \<open>Auth_Service\<close>, \<open>Auth_Laws\<close>, \<open>Auth_Handlers\<close>, \<open>Auth_Properties\<close>.
  \<^item> Files: \<open>File_System\<close>, \<open>Filesystem_Storage\<close>, \<open>Storage_Laws\<close>, \<open>File_Service\<close>, \<open>File_Laws\<close>, \<open>File_Properties\<close>.
  \<^item> Writes: \<open>Multipart\<close>, \<open>Multipart_Laws\<close>, \<open>Upload_Extractor\<close>, \<open>Write_Handlers\<close>, \<open>Write_Laws\<close>, \<open>Write_Properties\<close>.
  \<^item> Reads: \<open>Read_Context\<close>, \<open>Relation_Handlers\<close>, \<open>Pagination_Query\<close>, \<open>Pagination_Handlers\<close>, \<open>Listing_Properties\<close>.
  \<^item> Configuration (\<open>libs/infrastructure/yaml\<close>): \<open>Logging_Config\<close>, \<open>Yaml_Node\<close>, \<open>Yaml_Access\<close>, \<open>Yaml_Schema\<close>,
    \<open>Yaml_Security\<close>, \<open>Yaml_Service\<close>, \<open>Yaml_Writer\<close> (a reference writer), \<open>Yaml_Properties\<close>.

  \<^bold>\<open>Interfaces.\<close> A component is proved against what it relies on through locales, each interpreted on the model's
  own definitions: \<open>keyed_store\<close> (a map with lookup laws; the association lists), \<open>two_phase_check\<close> (a check before and
  after the resource is loaded; the policy engine), \<open>generic_repository\<close> with \<open>counting_repository\<close> and
  \<open>token_repository\<close> (what a repository keeps and answers; the memory repository), \<open>connection_source\<close> (connections taken
  and given back; the pool), \<open>file_storage\<close> (save, read, remove
  by path; the file system storage) and \<open>file_service\<close> (both together).

  \<^bold>\<open>What is shown.\<close> Decision procedures against a specification (the evaluator, the schema validator, the record
  validator, the page queries); invariants over every sequence of operations (references of the CRUD engine, reference
  counters of files, buckets); refinements (the bootstrapper sends exactly the plan once database and table of files are
  there, the file service refines a counter, the answer about a token); safety (identity headers cannot be forged, files
  stay below their directory, a collection URL or a file shows what may be read, a refresh needs a session in the
  allowlist); round trips (cookies, forms, entities
  in YAML, uploads); termination and order of the migration; bounds (admitted requests, sizes); error paths. The
  findings of the manifest list where the code, read this way, does not do what it or its comments say.

  \<^bold>\<open>Bounds and fuel.\<close> Resolving a path follows at most \<open>max_links\<close> = 40 links, as the system does; the paths of
  the storage laws have none. Days and months are counted up to \<open>last_second\<close>, the end of the year 9999, which every
  recursion over years reaches. The rate limiter is followed over periods of at most \<open>2 ^ 20\<close> calls of a store, which bounds
  what its roundings add up to; what went before a period is not bounded. Reference counters are exact below \<open>2 ^ 31\<close> references. All other recursions are structural or have
  a measure; the topological sort of the migration and the parsers of paths, forms and cookies are total.

  \<^bold>\<open>Parameters.\<close> Code that is not in the repository is an argument: the JWT library (\<open>jwt_library\<close>, with the law
  \<open>jwt_library_ok\<close>: what is accepted has the claims that were signed, and a payload of strings and integers with both
  dates and no \<open>nbf\<close> is accepted exactly while it is current), password hashing, random identifiers, the clock, the conversions of
  yaml-cpp (\<open>yaml_library\<close>, \<open>reads_back\<close>), the parser and printer of nlohmann::json and the regular expressions of the
  standard library, the text of a \<open>double\<close>, the case folding of header names of Seastar, the MariaDB connector
  (\<open>connector\<close>). Each such hypothesis is
  satisfied by a concrete function in a witness.

  \<^bold>\<open>Not modelled.\<close> The desktop application \<open>apps/SeaUI\<close> (Qt widgets over the same YAML and the HTTP interface), the tests, the
  vendored MariaDB connector and the generated Swagger assets. Of the server: the start-up in \<open>main.cpp\<close> and the
  registration of paginated routes (wiring of the modelled parts to Seastar), the generator of the OpenAPI document,
  the introspector of MySQL, the seeds, the initialisation of logging and its sinks, the administration of project files,
  the health and documentation handlers, the secret store, the thread pool, and the empty stubs (code generation,
  PostgreSQL, MongoDB). Messages are modelled where a client sees them and left out in logs and in exceptions whose text
  nothing reads. Operations of different requests interleave at the steps of a store, of the pool and of a transaction, not inside
  one of these steps.
\<close>

end
